(* ===== verification/Prelude.thy ===== *)
theory Prelude imports Main "HOL-Library.List_Lexorder" "HOL-Library.Char_ord" "HOL-Library.AList" begin

text \<open>
  The vocabulary every component shares: text, exceptions, instants, and the list lemmas that
  carry the table proofs.

  A Python \<open>str\<close> is a \<open>string\<close> holding its UTF-8 bytes; the order on strings is then the byte order
  of the SQLite \<open>BINARY\<close> collation and of \<open>json.dumps(sort_keys=True)\<close>.  Case folding and stripping
  follow Python on ASCII text and leave other bytes alone.  An instant is the number of
  microseconds since the epoch; the stored text \<open>_dt(x)\<close> of two UTC instants compares as the
  instants do (\<open>isoformat()\<close> writes fixed-width fields, and an omitted fraction sorts first).
\<close>

section \<open>Collections of facts\<close>

named_theorems table_simps \<open>what a lookup finds after a write to a keyed table\<close>
named_theorems audit_simps \<open>how an operation extends the audit log\<close>
named_theorems frame_simps \<open>tables an operation leaves alone\<close>

section \<open>Exceptions and results\<close>

text \<open>The exceptions the modelled code raises or lets escape.\<close>

datatype exn =
    ValueError string
  | KeyError string
  | PermissionError string
  | TypeError string
  | RuntimeError string
  | IntegrityError string
  | NetworkProviderError string
  | AssertionError
  | TimeoutExpired
  | SSHExecutionError string int string
  | PlaybookExecutionError string int string
  | BadParameter string
  | AttributeError string
  | Exit int
  | HTTPError int
  | IndexError string
  | OverflowError string
  | OSError string
  | CalledProcessError "string list" int

type_synonym 'a result = "exn + 'a"

text \<open>Sequencing of checks: the first error wins.\<close>

definition bind_result :: "'a result \<Rightarrow> ('a \<Rightarrow> 'b result) \<Rightarrow> 'b result" where
  "bind_result r f = (case r of Inl e \<Rightarrow> Inl e | Inr x \<Rightarrow> f x)"

lemma bind_result_simps [simp]:
  "bind_result (Inl e) f = Inl e"
  "bind_result (Inr x) f = f x"
  by (simp_all add: bind_result_def)

lemma bind_result_Inr_iff: "bind_result r f = Inr y \<longleftrightarrow> (\<exists>x. r = Inr x \<and> f x = Inr y)"
  by (cases r) simp_all

section \<open>Instants\<close>

type_synonym time = int

abbreviation seconds :: "int \<Rightarrow> time" where
  "seconds n \<equiv> n * 1000000"

section \<open>Text\<close>

text \<open>Letter case changes for the ASCII letters only: \<open>str.lower\<close> and \<open>str.upper\<close> also know the other letters, which a list
  of bytes leaves as they are.\<close>

definition lower_char :: "char \<Rightarrow> char" where
  "lower_char c = (if 65 \<le> (of_char c :: nat) \<and> (of_char c :: nat) \<le> 90
                   then char_of ((of_char c :: nat) + 32) else c)"

definition upper_char :: "char \<Rightarrow> char" where
  "upper_char c = (if 97 \<le> (of_char c :: nat) \<and> (of_char c :: nat) \<le> 122
                   then char_of ((of_char c :: nat) - 32) else c)"

definition lower :: "string \<Rightarrow> string" where
  "lower s = map lower_char s"

definition upper :: "string \<Rightarrow> string" where
  "upper s = map upper_char s"

definition is_space :: "char \<Rightarrow> bool" where
  "is_space c = (let n = (of_char c :: nat) in 9 \<le> n \<and> n \<le> 13 \<or> 28 \<le> n \<and> n \<le> 32)"

definition lstrip :: "string \<Rightarrow> string" where
  "lstrip s = dropWhile is_space s"

definition rstrip :: "string \<Rightarrow> string" where
  "rstrip s = rev (dropWhile is_space (rev s))"

definition strip :: "string \<Rightarrow> string" where
  "strip s = rstrip (lstrip s)"

definition startswith :: "string \<Rightarrow> string \<Rightarrow> bool" where
  "startswith s p = (take (length p) s = p)"

definition removeprefix :: "string \<Rightarrow> string \<Rightarrow> string" where
  "removeprefix s p = (if startswith s p then drop (length p) s else s)"

fun contains :: "string \<Rightarrow> string \<Rightarrow> bool" where
  "contains [] p = (p = [])"
| "contains (c # s) p = (startswith (c # s) p \<or> contains s p)"

text \<open>\<open>s.replace(old, new)\<close> for a non-empty \<open>old\<close>.\<close>

function replace_all :: "string \<Rightarrow> string \<Rightarrow> string \<Rightarrow> string" where
  "replace_all old new [] = []"
| "replace_all old new (c # s) =
     (if old \<noteq> [] \<and> startswith (c # s) old
      then new @ replace_all old new (drop (length old) (c # s))
      else c # replace_all old new s)"
  by pat_completeness auto
termination
  by (relation "measure (\<lambda>(old, new, s). length s)") (auto simp: neq_Nil_conv)

text \<open>\<open>s.split(sep)\<close> for a one-character separator; never empty, as in Python.\<close>

fun split_on :: "char \<Rightarrow> string \<Rightarrow> string list" where
  "split_on sep [] = [[]]"
| "split_on sep (c # s) =
     (if c = sep then [] # split_on sep s
      else case split_on sep s of [] \<Rightarrow> [[c]] | p # ps \<Rightarrow> (c # p) # ps)"

text \<open>\<open>s.split()\<close>: the pieces between runs of white space.\<close>

function split_ws :: "string \<Rightarrow> string list" where
  "split_ws s =
     (let t = lstrip s
      in if t = [] then [] else takeWhile (\<lambda>c. \<not> is_space c) t # split_ws (dropWhile (\<lambda>c. \<not> is_space c) t))"
  by pat_completeness auto
termination
proof (relation "measure length")
  fix s t :: string
  assume t: "t = lstrip s" "t \<noteq> []"
  then have "\<not> is_space (hd t)" unfolding lstrip_def by (metis hd_dropWhile)
  then have "length (dropWhile (\<lambda>c. \<not> is_space c) t) < length t"
    using t(2) by (cases t) (simp_all add: length_dropWhile_le less_Suc_eq_le)
  also have "length t \<le> length s" by (simp add: t(1) lstrip_def length_dropWhile_le)
  finally show "(dropWhile (\<lambda>c. \<not> is_space c) t, s) \<in> measure length" by simp
qed simp

declare split_ws.simps [simp del]

fun join_with :: "string \<Rightarrow> string list \<Rightarrow> string" where
  "join_with sep [] = []"
| "join_with sep [x] = x"
| "join_with sep (x # y # ys) = x @ sep @ join_with sep (y # ys)"

fun show_nat :: "nat \<Rightarrow> string" where
  "show_nat n = (if n < 10 then [char_of (48 + n)] else show_nat (n div 10) @ [char_of (48 + n mod 10)])"

definition show_int :: "int \<Rightarrow> string" where
  "show_int i = (if i < 0 then CHR ''-'' # show_nat (nat (- i)) else show_nat (nat i))"

declare show_nat.simps [simp del]

text \<open>
  \<open>datetime.isoformat()\<close> of a UTC instant: the civil date of a day number (day 0 is 1970-01-01),
  fixed-width fields, and a fraction only when the microseconds are not zero.
\<close>

definition civil_from_days :: "int \<Rightarrow> int \<times> int \<times> int" where
  "civil_from_days days =
     (let z = days + 719468;
          era = z div 146097;
          doe = z mod 146097;
          yoe = (doe - doe div 1460 + doe div 36524 - doe div 146096) div 365;
          doy = doe - (365 * yoe + yoe div 4 - yoe div 100);
          mp = (5 * doy + 2) div 153;
          d = doy - (153 * mp + 2) div 5 + 1;
          m = (if mp < 10 then mp + 3 else mp - 9);
          y = yoe + era * 400
      in (if m \<le> 2 then y + 1 else y, m, d))"

fun pad_digits :: "nat \<Rightarrow> int \<Rightarrow> string" where
  "pad_digits 0 n = []"
| "pad_digits (Suc w) n = pad_digits w (n div 10) @ [char_of (nat (48 + n mod 10))]"

definition isoformat :: "time \<Rightarrow> string" where
  "isoformat t =
     (let us = t mod 1000000;
          secs = t div 1000000;
          days = secs div 86400;
          sod = secs mod 86400;
          (y, m, d) = civil_from_days days
      in pad_digits 4 y @ ''-'' @ pad_digits 2 m @ ''-'' @ pad_digits 2 d @ ''T''
         @ pad_digits 2 (sod div 3600) @ '':'' @ pad_digits 2 (sod div 60 mod 60) @ '':'' @ pad_digits 2 (sod mod 60)
         @ (if us = 0 then [] else ''.'' @ pad_digits 6 us) @ ''+00:00'')"

text \<open>The UTF-8 encoding of text given by its code points, for the messages that are not ASCII.\<close>

definition utf8_char :: "nat \<Rightarrow> string" where
  "utf8_char n =
     (if n < 128 then [char_of n]
      else if n < 2048 then [char_of (192 + n div 64), char_of (128 + n mod 64)]
      else if n < 65536
      then [char_of (224 + n div 4096), char_of (128 + n div 64 mod 64), char_of (128 + n mod 64)]
      else [char_of (240 + n div 262144), char_of (128 + n div 4096 mod 64),
            char_of (128 + n div 64 mod 64), char_of (128 + n mod 64)])"

definition utf8_text :: "nat list \<Rightarrow> string" where
  "utf8_text cps = concat (map utf8_char cps)"

text \<open>\<open>int(s)\<close> of a text: spaces around it, a sign, digits with single underscores between them.\<close>

definition is_digit :: "char \<Rightarrow> bool" where
  "is_digit c = (let n = (of_char c :: nat) in 48 \<le> n \<and> n \<le> 57)"

definition digit_value :: "char \<Rightarrow> int" where
  "digit_value c = int (of_char c :: nat) - 48"

fun parse_digits :: "bool \<Rightarrow> int \<Rightarrow> string \<Rightarrow> int option" where
  "parse_digits after_digit acc [] = (if after_digit then Some acc else None)"
| "parse_digits after_digit acc (c # s) =
     (if is_digit c then parse_digits True (acc * 10 + digit_value c) s
      else if c = CHR ''_'' \<and> after_digit then parse_digits False acc s
      else None)"

definition parse_int :: "string \<Rightarrow> int option" where
  "parse_int s =
     (case strip s of
        [] \<Rightarrow> None
      | c # r \<Rightarrow> if c = CHR ''-'' then map_option uminus (parse_digits False 0 r)
                 else if c = CHR ''+'' then parse_digits False 0 r
                 else parse_digits False 0 (c # r))"

lemma startswith_append [simp]: "startswith (p @ s) p"
  by (simp add: startswith_def)

lemma startswith_iff: "startswith s p \<longleftrightarrow> (\<exists>r. s = p @ r)"
  unfolding startswith_def by (metis append_eq_conv_conj append_take_drop_id)

lemma removeprefix_append [simp]: "removeprefix (p @ s) p = s"
  by (simp add: removeprefix_def)

lemma contains_append_mid: "contains (a @ p @ b) p"
proof (induction a)
  case Nil
  have "startswith (p @ b) p" by simp
  then show ?case by (cases "p @ b") (simp_all add: startswith_def)
next
  case (Cons x a)
  then show ?case by simp
qed

lemma split_on_nonempty [simp]: "split_on sep s \<noteq> []"
  by (induction s) (auto split: list.splits)

lemma split_on_no_sep: "sep \<notin> set s \<Longrightarrow> split_on sep s = [s]"
  by (induction s) auto

lemma split_on_append_sep:
  "sep \<notin> set a \<Longrightarrow> split_on sep (a @ sep # b) = a # split_on sep b"
  by (induction a) auto

lemma join_split_on: "join_with [sep] (split_on sep s) = s"
proof (induction s)
  case Nil
  then show ?case by simp
next
  case (Cons c s)
  show ?case
  proof (cases "split_on sep s")
    case Nil
    then show ?thesis by simp
  next
    case (Cons p ps)
    with Cons.IH show ?thesis by (cases ps) auto
  qed
qed

lemma split_on_pieces: "p \<in> set (split_on sep s) \<Longrightarrow> sep \<notin> set p"
proof (induction s arbitrary: p)
  case Nil
  then show ?case by simp
next
  case (Cons c s)
  then show ?case
    by (cases "split_on sep s") (auto split: if_splits)
qed

section \<open>Lists\<close>

text \<open>\<open>fetchone()\<close> and \<open>LIMIT 1\<close>: the first row, if there is one.\<close>

definition first_row :: "'a list \<Rightarrow> 'a option" where
  "first_row xs = (case xs of [] \<Rightarrow> None | x # _ \<Rightarrow> Some x)"

lemma first_row_simps [simp]:
  "first_row [] = None"
  "first_row (x # xs) = Some x"
  by (simp_all add: first_row_def)

lemma first_row_None [simp]: "first_row xs = None \<longleftrightarrow> xs = []"
  by (cases xs) simp_all

lemma first_row_Some: "first_row xs = Some x \<Longrightarrow> x \<in> set xs"
  by (cases xs) simp_all

lemma first_row_rev: "first_row (rev xs) = (if xs = [] then None else Some (last xs))"
  by (cases xs rule: rev_cases) simp_all

lemma first_row_sort_key_None [simp]: "first_row (sort_key f xs) = None \<longleftrightarrow> xs = []"
  by (metis first_row_None set_empty set_sort)

lemma first_row_sort_key:
  assumes "first_row (sort_key f xs) = Some x"
  shows "x \<in> set xs" and "\<And>y. y \<in> set xs \<Longrightarrow> f x \<le> f y"
proof -
  obtain ys where ys: "sort_key f xs = x # ys"
    using assms by (cases "sort_key f xs") simp_all
  have "x \<in> set (sort_key f xs)" by (simp add: ys)
  then show "x \<in> set xs" by simp
  have "sorted (map f (sort_key f xs))" by simp
  then show "f x \<le> f y" if "y \<in> set xs" for y
  proof -
    from that have "y \<in> set (sort_key f xs)" by simp
    with \<open>sorted (map f (sort_key f xs))\<close> show ?thesis by (auto simp: ys)
  qed
qed

lemma map_of_sort_key_fst:
  fixes xs :: "('a :: linorder \<times> 'b) list"
  shows "map_of (sort_key fst xs) k = map_of xs k"
proof -
  have conv: "map_of zs k = map_option snd (first_row (filter (\<lambda>p. fst p = k) zs))"
    for zs :: "('a \<times> 'b) list"
    by (induction zs) auto
  have "filter (\<lambda>p. fst p = k) (sort_key fst xs) = filter (\<lambda>p. fst p = k) xs"
    by (rule sort_key_stable)
  then show ?thesis by (simp add: conv)
qed

lemma map_of_map_prod: "map_of (map (map_prod id f) xs) k = map_option f (map_of xs k)"
  by (induction xs) auto

lemma find_Some_in: "List.find P xs = Some x \<Longrightarrow> x \<in> set xs \<and> P x"
  by (auto simp: find_Some_iff)

end
