(* ===== verification/Json.thy ===== *)
theory Json imports Prelude begin

text \<open>
  The values that travel through the program as \<open>Any\<close>: what \<open>json.loads\<close> produces and
  \<open>json.dumps\<close> accepts.  A dict is an association list in insertion order (its keys are distinct).
  A float is the text \<open>float.__repr__\<close> gives it, which \<open>json\<close> writes and reads back unchanged.

  A JSON column is modelled by the value \<open>json.loads\<close> reads back from it.  Columns written with
  \<open>sort_keys=True\<close> come back with every dict in key order (\<open>json_sort\<close>), so a dict that is saved
  and loaded has the same entries in another order.
\<close>

datatype json =
    JNull
  | JBool bool
  | JInt int
  | JFloat string
  | JStr string
  | JList "json list"
  | JObj "(string \<times> json) list"

type_synonym dict = "(string \<times> json) list"

section \<open>Truth, text and lookup\<close>

definition truthy :: "json \<Rightarrow> bool" where
  "truthy v = (case v of
      JNull \<Rightarrow> False
    | JBool b \<Rightarrow> b
    | JInt i \<Rightarrow> i \<noteq> 0
    | JFloat s \<Rightarrow> s \<noteq> ''0.0'' \<and> s \<noteq> ''-0.0''
    | JStr s \<Rightarrow> s \<noteq> []
    | JList xs \<Rightarrow> xs \<noteq> []
    | JObj d \<Rightarrow> d \<noteq> [])"

definition py_or :: "json \<Rightarrow> json \<Rightarrow> json" where
  "py_or a b = (if truthy a then a else b)"

definition dget :: "dict \<Rightarrow> string \<Rightarrow> json" where
  "dget d k = (case map_of d k of None \<Rightarrow> JNull | Some v \<Rightarrow> v)"

definition dget_or :: "dict \<Rightarrow> string \<Rightarrow> json \<Rightarrow> json" where
  "dget_or d k x = (case map_of d k of None \<Rightarrow> x | Some v \<Rightarrow> v)"

definition dset :: "dict \<Rightarrow> string \<Rightarrow> json \<Rightarrow> dict" where
  "dset d k v = AList.update k v d"

definition dsetdefault :: "dict \<Rightarrow> string \<Rightarrow> json \<Rightarrow> dict" where
  "dsetdefault d k v = (case map_of d k of None \<Rightarrow> d @ [(k, v)] | Some _ \<Rightarrow> d)"

text \<open>\<open>{**a, **b}\<close>: keys of \<open>a\<close> keep their place, the values of \<open>b\<close> win.\<close>

definition dmerge :: "dict \<Rightarrow> dict \<Rightarrow> dict" where
  "dmerge a b = foldl (\<lambda>d (k, v). AList.update k v d) a b"

definition as_dict :: "json \<Rightarrow> dict option" where
  "as_dict v = (case v of JObj d \<Rightarrow> Some d | _ \<Rightarrow> None)"

definition hex_digit :: "nat \<Rightarrow> char" where
  "hex_digit n = (if n < 10 then char_of (48 + n) else char_of (87 + n))"

definition repr_char :: "char \<Rightarrow> char \<Rightarrow> string" where
  "repr_char q c = (let n = (of_char c :: nat) in
     if c = q \<or> n = 92 then [CHR 0x5C, c]
     else if n = 10 then [CHR 0x5C, CHR ''n'']
     else if n = 13 then [CHR 0x5C, CHR ''r'']
     else if n = 9 then [CHR 0x5C, CHR ''t'']
     else if n < 32 \<or> n = 127 then [CHR 0x5C, CHR ''x'', hex_digit (n div 16), hex_digit (n mod 16)]
     else [c])"

definition repr_str :: "string \<Rightarrow> string" where
  "repr_str s = (let q = (if CHR 0x27 \<in> set s \<and> CHR 0x22 \<notin> set s then CHR 0x22 else CHR 0x27)
                 in [q] @ concat (map (repr_char q) s) @ [q])"

text \<open>\<open>repr\<close> of a value, and \<open>str\<close>, which differs from it on strings only.\<close>

primrec py_repr :: "json \<Rightarrow> string" where
  "py_repr JNull = ''None''"
| "py_repr (JBool b) = (if b then ''True'' else ''False'')"
| "py_repr (JInt i) = show_int i"
| "py_repr (JFloat s) = s"
| "py_repr (JStr s) = repr_str s"
| "py_repr (JList xs) = ''['' @ join_with '', '' (map py_repr xs) @ '']''"
| "py_repr (JObj d) =
     CHR 0x7B # join_with '', '' (map (\<lambda>p. repr_str (fst p) @ '': '' @ snd p) (map (map_prod id py_repr) d)) @ [CHR 0x7D]"

definition py_str :: "json \<Rightarrow> string" where
  "py_str v = (case v of JStr s \<Rightarrow> s | _ \<Rightarrow> py_repr v)"

text \<open>
  \<open>int(v)\<close>: \<open>None\<close> stands for the \<open>TypeError\<close> or \<open>ValueError\<close> it raises.  A float is finite and
  truncated from its printed decimal, which is exact below \<open>2 ^ 53\<close>.
\<close>

definition float_to_int :: "string \<Rightarrow> int option" where
  "float_to_int s =
     (let neg = startswith s ''-'';
          body = removeprefix s ''-'';
          mant = takeWhile (\<lambda>c. c \<noteq> CHR ''e'') body;
          ex = drop (length mant + 1) body;
          whole = takeWhile (\<lambda>c. c \<noteq> CHR ''.'') mant;
          frac = drop (length whole + 1) mant
      in case (parse_int (whole @ frac), if ex = [] then Some 0 else parse_int ex) of
           (Some m, Some e) \<Rightarrow>
             let k = e - int (length frac);
                 v = (if 0 \<le> k then m * 10 ^ nat k else m div 10 ^ nat (- k))
             in Some (if neg then - v else v)
         | _ \<Rightarrow> None)"

definition py_int :: "json \<Rightarrow> int option" where
  "py_int v = (case v of
      JInt i \<Rightarrow> Some i
    | JBool b \<Rightarrow> Some (if b then 1 else 0)
    | JFloat s \<Rightarrow> float_to_int s
    | JStr s \<Rightarrow> parse_int s
    | _ \<Rightarrow> None)"

text \<open>\<open>str(d.get(k) or default)\<close>, the code's way to read a text field of a dict.\<close>

definition str_or :: "json \<Rightarrow> string \<Rightarrow> string" where
  "str_or v x = py_str (py_or v (JStr x))"

text \<open>
  \<open>dict(v or {})\<close>: a mapping is copied, a list must hold pairs.  A key that is not text lies outside
  the data model and is reported as a \<open>TypeError\<close>.
\<close>

definition pair_of :: "json \<Rightarrow> (string \<times> json) result" where
  "pair_of v =
     (case v of
        JList [JStr k, x] \<Rightarrow> Inr (k, x)
      | JList [k, x] \<Rightarrow> Inl (TypeError ''mapping key must be text'')
      | JStr [a, b] \<Rightarrow> Inr ([a], JStr [b])
      | JObj [(a, _), (b, _)] \<Rightarrow> Inr (a, JStr b)
      | JList _ \<Rightarrow> Inl (ValueError ''dictionary update sequence element'')
      | JStr _ \<Rightarrow> Inl (ValueError ''dictionary update sequence element'')
      | JObj _ \<Rightarrow> Inl (ValueError ''dictionary update sequence element'')
      | _ \<Rightarrow> Inl (TypeError ''cannot convert dictionary update sequence element to a sequence''))"

fun dict_of_pairs :: "json list \<Rightarrow> dict \<Rightarrow> dict result" where
  "dict_of_pairs [] d = Inr d"
| "dict_of_pairs (v # vs) d = bind_result (pair_of v) (\<lambda>(k, x). dict_of_pairs vs (dset d k x))"

definition py_dict :: "json \<Rightarrow> dict result" where
  "py_dict v =
     (if \<not> truthy v then Inr []
      else case v of
        JObj d \<Rightarrow> Inr d
      | JList xs \<Rightarrow> dict_of_pairs xs []
      | JStr _ \<Rightarrow> Inl (ValueError ''dictionary update sequence element'')
      | _ \<Rightarrow> Inl (TypeError ''object is not iterable''))"

section \<open>What a JSON column gives back\<close>

primrec json_sort :: "json \<Rightarrow> json" where
  "json_sort JNull = JNull"
| "json_sort (JBool b) = JBool b"
| "json_sort (JInt i) = JInt i"
| "json_sort (JFloat s) = JFloat s"
| "json_sort (JStr s) = JStr s"
| "json_sort (JList xs) = JList (map json_sort xs)"
| "json_sort (JObj d) = JObj (sort_key fst (map (map_prod id json_sort) d))"

definition dict_sort :: "dict \<Rightarrow> dict" where
  "dict_sort d = sort_key fst (map (map_prod id json_sort) d)"

lemma json_sort_JObj [simp]: "json_sort (JObj d) = JObj (dict_sort d)"
  by (simp add: dict_sort_def)

declare json_sort.simps(7) [simp del]

lemma sort_key_idem: "sort_key f (sort_key f xs) = sort_key f xs"
  by (simp add: sort_key_id_if_sorted)

lemma map_prod_sort_key:
  fixes xs :: "('a :: linorder \<times> 'b) list"
  shows "map (map_prod id g) (sort_key fst xs) = sort_key fst (map (map_prod id g) xs)"
proof -
  have ins: "map (map_prod id g) (insort_key fst x ys) = insort_key fst (map_prod id g x) (map (map_prod id g) ys)"
    for x and ys :: "('a \<times> 'b) list"
    by (induction ys) (auto simp: map_prod_def split: prod.splits)
  show ?thesis
  proof (induction xs)
    case Nil
    then show ?case by simp
  next
    case (Cons x xs)
    then show ?case by (simp only: sort_key_simps list.map ins)
  qed
qed

lemma json_sort_idem: "json_sort (json_sort v) = json_sort v"
proof (induction v)
  case (JObj d)
  have "map (map_prod id json_sort) (map (map_prod id json_sort) d) = map (map_prod id json_sort) d"
    using JObj.IH by (fastforce intro: snds.intros)
  then show ?case
    by (simp only: json_sort_JObj dict_sort_def map_prod_sort_key sort_key_idem)
qed simp_all

lemma dict_sort_idem: "dict_sort (dict_sort d) = dict_sort d"
  using json_sort_idem [of "JObj d"] by simp

text \<open>Saving a dict keeps its entries: only their order, and that of the dicts inside, changes.\<close>

lemma map_of_dict_sort: "map_of (dict_sort d) k = map_option json_sort (map_of d k)"
  by (simp add: dict_sort_def map_of_sort_key_fst map_of_map_prod)

lemma dget_dict_sort: "dget (dict_sort d) k = json_sort (dget d k)"
  by (simp add: dget_def map_of_dict_sort split: option.splits)

lemma set_fst_dict_sort [simp]: "fst ` set (dict_sort d) = fst ` set d"
  by (force simp: dict_sort_def)

lemma dict_sort_Nil [simp]: "dict_sort [] = []"
  by (simp add: dict_sort_def)

lemma dict_sort_eq_Nil [simp]: "dict_sort d = [] \<longleftrightarrow> d = []"
  by (metis dict_sort_Nil image_is_empty set_empty set_fst_dict_sort)

lemma truthy_json_sort [simp]: "truthy (json_sort v) = truthy v"
  by (cases v) (simp_all add: truthy_def)

lemma json_sort_scalar [simp]:
  "json_sort v = JNull \<longleftrightarrow> v = JNull"
  "json_sort v = JBool b \<longleftrightarrow> v = JBool b"
  "json_sort v = JStr s \<longleftrightarrow> v = JStr s"
  by (cases v; simp)+

lemma truthy_simps [simp]:
  "\<not> truthy JNull"
  "truthy (JStr s) \<longleftrightarrow> s \<noteq> []"
  "truthy (JBool b) \<longleftrightarrow> b"
  "truthy (JObj d) \<longleftrightarrow> d \<noteq> []"
  by (simp_all add: truthy_def)

lemma py_str_JStr [simp]: "py_str (JStr s) = s"
  by (simp add: py_str_def)

lemma str_or_simps [simp]:
  "str_or JNull x = x"
  "str_or (JStr s) x = (if s = [] then x else s)"
  by (simp_all add: str_or_def py_or_def)

lemma str_or_json_sort_JStr: "v = JStr s \<Longrightarrow> str_or (json_sort v) x = str_or v x"
  by simp

lemma dget_dset: "dget (dset d k v) k' = (if k' = k then v else dget d k')"
  by (auto simp: dget_def dset_def update_conv split: option.splits)

lemma dget_simps [simp]:
  "dget [] k = JNull"
  "dget ((k', v) # d) k = (if k' = k then v else dget d k)"
  by (auto simp: dget_def)

lemma map_of_dmerge: "map_of (dmerge a b) k = (case map_of (rev b) k of None \<Rightarrow> map_of a k | Some v \<Rightarrow> Some v)"
proof (induction b arbitrary: a)
  case Nil
  then show ?case by (simp add: dmerge_def)
next
  case (Cons p b)
  have "dmerge a (p # b) = dmerge (AList.update (fst p) (snd p) a) b"
    by (simp add: dmerge_def case_prod_beta)
  with Cons show ?case
    by (cases p) (auto simp: update_conv map_add_def split: option.splits)
qed

lemma py_dict_obj [simp]: "py_dict (JObj d) = Inr d"
  by (simp add: py_dict_def)

end
