(* ===== verification/Table.thy ===== *)
theory Table imports Prelude begin

text \<open>
  SQL tables as the code uses them: a list of rows in rowid order with a primary key.
  \<open>tbl_find\<close> is \<open>SELECT * ... WHERE key = ?\<close> with \<open>fetchone()\<close>, \<open>tbl_insert\<close> a plain \<open>INSERT\<close> (a
  duplicate key raises \<open>sqlite3.IntegrityError\<close>), \<open>tbl_upsert\<close> an \<open>INSERT ... ON CONFLICT DO UPDATE\<close>
  and \<open>tbl_update\<close> an \<open>UPDATE ... WHERE key = ?\<close>.  \<open>ORDER BY\<close> is a stable sort: SQLite leaves the
  order of ties open, and no theorem depends on it unless it says so.

  The locale \<open>keyed_store\<close> is the contract between a table's load and save operations and the
  components that call them; every table of the store interprets it.
\<close>

section \<open>Statements\<close>

definition tbl_find :: "('r \<Rightarrow> 'k) \<Rightarrow> 'k \<Rightarrow> 'r list \<Rightarrow> 'r option" where
  "tbl_find key k rows = List.find (\<lambda>r. key r = k) rows"

definition tbl_insert :: "('r \<Rightarrow> 'k) \<Rightarrow> 'r \<Rightarrow> 'r list \<Rightarrow> 'r list result" where
  "tbl_insert key r rows =
     (case tbl_find key (key r) rows of
        Some _ \<Rightarrow> Inl (IntegrityError ''UNIQUE constraint failed'')
      | None \<Rightarrow> Inr (rows @ [r]))"

definition tbl_update :: "('r \<Rightarrow> 'k) \<Rightarrow> 'k \<Rightarrow> ('r \<Rightarrow> 'r) \<Rightarrow> 'r list \<Rightarrow> 'r list" where
  "tbl_update key k f rows = map (\<lambda>r. if key r = k then f r else r) rows"

text \<open>\<open>merge old excluded\<close> is the row after the conflict clause.\<close>

definition tbl_upsert :: "('r \<Rightarrow> 'k) \<Rightarrow> ('r \<Rightarrow> 'r \<Rightarrow> 'r) \<Rightarrow> 'r \<Rightarrow> 'r list \<Rightarrow> 'r list" where
  "tbl_upsert key merge r rows =
     (case tbl_find key (key r) rows of
        None \<Rightarrow> rows @ [r]
      | Some _ \<Rightarrow> tbl_update key (key r) (\<lambda>old. merge old r) rows)"

definition replace_row :: "'r \<Rightarrow> 'r \<Rightarrow> 'r" where
  "replace_row old new = new"

definition order_by :: "('r \<Rightarrow> 'o :: linorder) \<Rightarrow> 'r list \<Rightarrow> 'r list" where
  "order_by f rows = sort_key f rows"

text \<open>\<open>ORDER BY t DESC\<close> for an instant \<open>t\<close>.\<close>

definition order_desc :: "('r \<Rightarrow> time) \<Rightarrow> 'r list \<Rightarrow> 'r list" where
  "order_desc f rows = sort_key (\<lambda>r. - f r) rows"

definition keys_distinct :: "('r \<Rightarrow> 'k) \<Rightarrow> 'r list \<Rightarrow> bool" where
  "keys_distinct key rows \<longleftrightarrow> distinct (map key rows)"

section \<open>Lookups after writes\<close>

lemma tbl_find_Nil [simp]: "tbl_find key k [] = None"
  by (simp add: tbl_find_def)

lemma tbl_find_Cons [simp]:
  "tbl_find key k (r # rows) = (if key r = k then Some r else tbl_find key k rows)"
  by (simp add: tbl_find_def)

lemma tbl_find_Some: "tbl_find key k rows = Some r \<Longrightarrow> r \<in> set rows \<and> key r = k"
  by (induction rows) (auto split: if_splits)

lemma tbl_find_None: "tbl_find key k rows = None \<longleftrightarrow> k \<notin> key ` set rows"
  by (induction rows) (auto split: if_splits)

lemma tbl_find_append:
  "tbl_find key k (rows @ rows') = (case tbl_find key k rows of None \<Rightarrow> tbl_find key k rows' | Some r \<Rightarrow> Some r)"
  by (induction rows) auto

lemma tbl_find_update:
  assumes "\<And>r. key (f r) = key r"
  shows "tbl_find key k (tbl_update key k' f rows)
    = (if k = k' then map_option f (tbl_find key k rows) else tbl_find key k rows)"
  by (induction rows) (auto simp: tbl_update_def assms)

lemma tbl_find_upsert:
  assumes "\<And>old. key (merge old r) = key r"
  shows "tbl_find key k (tbl_upsert key merge r rows)
    = (if k = key r
       then Some (case tbl_find key k rows of None \<Rightarrow> r | Some old \<Rightarrow> merge old r)
       else tbl_find key k rows)"
proof (cases "tbl_find key (key r) rows")
  case None
  then show ?thesis by (auto simp: tbl_upsert_def tbl_find_append split: option.splits)
next
  case (Some old)
  have "tbl_find key k (tbl_update key (key r) (\<lambda>old. merge old r) rows)
    = (if k = key r then map_option (\<lambda>old. merge old r) (tbl_find key k rows) else tbl_find key k rows)"
    by (induction rows) (auto simp: tbl_update_def assms)
  with Some show ?thesis by (auto simp: tbl_upsert_def)
qed

lemma tbl_find_upsert_replace:
  "tbl_find key k (tbl_upsert key replace_row r rows) = (if k = key r then Some r else tbl_find key k rows)"
  by (auto simp: tbl_find_upsert replace_row_def split: option.splits)

lemma tbl_insert_Inr:
  "tbl_insert key r rows = Inr rows' \<Longrightarrow> rows' = rows @ [r] \<and> key r \<notin> key ` set rows"
  by (auto simp: tbl_insert_def tbl_find_None split: option.splits)

lemma tbl_insert_fresh: "tbl_find key (key r) rows = None \<Longrightarrow> tbl_insert key r rows = Inr (rows @ [r])"
  by (simp add: tbl_insert_def)

section \<open>Primary keys stay distinct\<close>

lemma keys_distinct_update:
  assumes "\<And>r. key (f r) = key r"
  shows "keys_distinct key (tbl_update key k f rows) = keys_distinct key rows"
proof -
  have "map key (tbl_update key k f rows) = map key rows"
    by (induction rows) (auto simp: tbl_update_def assms)
  then show ?thesis by (simp add: keys_distinct_def)
qed

lemma keys_distinct_upsert:
  assumes "\<And>old. key (merge old r) = key r" and "keys_distinct key rows"
  shows "keys_distinct key (tbl_upsert key merge r rows)"
proof (cases "tbl_find key (key r) rows")
  case None
  then have "key r \<notin> key ` set rows" by (simp add: tbl_find_None)
  with None assms(2) show ?thesis
    by (simp add: tbl_upsert_def keys_distinct_def)
next
  case (Some old)
  have "map key (tbl_update key (key r) (\<lambda>old. merge old r) rows) = map key rows"
    by (induction rows) (auto simp: tbl_update_def assms(1))
  with assms(2) Some show ?thesis by (simp add: tbl_upsert_def keys_distinct_def)
qed

lemma keys_distinct_insert:
  "keys_distinct key rows \<Longrightarrow> tbl_insert key r rows = Inr rows' \<Longrightarrow> keys_distinct key rows'"
  by (auto simp: keys_distinct_def dest!: tbl_insert_Inr)

lemma keys_distinct_find:
  "keys_distinct key rows \<Longrightarrow> r \<in> set rows \<Longrightarrow> tbl_find key (key r) rows = Some r"
  by (induction rows) (auto simp: keys_distinct_def)

lemma tbl_update_key_map: "(\<And>r. key (f r) = key r) \<Longrightarrow> key ` set (tbl_update key k f rows) = key ` set rows"
  by (induction rows) (auto simp: tbl_update_def)

section \<open>The contract of a keyed table\<close>

text \<open>
  \<open>reread r\<close> is the row a later load gives back for a saved \<open>r\<close> (JSON columns come back with their
  keys sorted).  The operations work on any state \<open>'s\<close> that holds the table.
\<close>

locale keyed_store =
  fixes load :: "'s \<Rightarrow> 'k \<Rightarrow> 'r option"
    and save :: "'r \<Rightarrow> 's \<Rightarrow> 's"
    and key :: "'r \<Rightarrow> 'k"
    and reread :: "'r \<Rightarrow> 'r"
  assumes load_save: "load (save r s) k = (if k = key r then Some (reread r) else load s k)"
begin

lemma load_saved: "load (save r s) (key r) = Some (reread r)"
  by (simp add: load_save)

lemma load_other: "k \<noteq> key r \<Longrightarrow> load (save r s) k = load s k"
  by (simp add: load_save)

lemma last_save_wins: "key r = key q \<Longrightarrow> load (save r (save q s)) k = load (save r s) k"
  by (simp add: load_save)

lemma saves_commute: "key r \<noteq> key q \<Longrightarrow> load (save r (save q s)) k = load (save q (save r s)) k"
  by (auto simp: load_save)

lemma load_save_all:
  "load (fold save rs s) k
    = (case List.find (\<lambda>r. key r = k) (rev rs) of None \<Rightarrow> load s k | Some r \<Rightarrow> Some (reread r))"
proof (induction rs arbitrary: s)
  case Nil
  then show ?case by simp
next
  case (Cons r rs)
  have snoc: "List.find P (xs @ [x]) = (case List.find P xs of None \<Rightarrow> if P x then Some x else None | Some y \<Rightarrow> Some y)"
    for P :: "'r \<Rightarrow> bool" and xs x
    by (induction xs) auto
  show ?case by (simp add: Cons snoc load_save split: option.splits)
qed

end

section \<open>The contract of a row's life\<close>

text \<open>
  Operations on a table may create rows, and may change a row only in the ways \<open>evolves\<close> allows.
  What one operation does to a row then bounds what any run of operations does to it, and a \<open>final\<close>
  row is never touched again.
\<close>

locale row_machine =
  fixes find :: "'s \<Rightarrow> 'k \<Rightarrow> 'r option"
    and step :: "'i \<Rightarrow> 's \<Rightarrow> 's"
    and evolves :: "'r \<Rightarrow> 'r \<Rightarrow> bool"
    and inv :: "'s \<Rightarrow> bool"
  assumes evolves_refl: "evolves r r"
    and evolves_trans: "evolves r r' \<Longrightarrow> evolves r' r'' \<Longrightarrow> evolves r r''"
    and inv_step: "inv s \<Longrightarrow> inv (step i s)"
    and step_evolves: "inv s \<Longrightarrow> find s k = Some r \<Longrightarrow> \<exists>r'. find (step i s) k = Some r' \<and> evolves r r'"
begin

lemma inv_run: "inv s \<Longrightarrow> inv (fold step is s)"
  by (induction "is" arbitrary: s) (simp_all add: inv_step)

lemma run_evolves:
  "inv s \<Longrightarrow> find s k = Some r \<Longrightarrow> \<exists>r'. find (fold step is s) k = Some r' \<and> evolves r r'"
proof (induction "is" arbitrary: s r)
  case Nil
  then show ?case by (auto intro: evolves_refl)
next
  case (Cons i "is")
  then obtain r1 where r1: "find (step i s) k = Some r1" "evolves r r1"
    using step_evolves by blast
  with Cons obtain r2 where "find (fold step is (step i s)) k = Some r2" "evolves r1 r2"
    using inv_step by blast
  with r1 show ?case by (auto intro: evolves_trans)
qed

end

locale final_machine = row_machine +
  fixes final :: "'b \<Rightarrow> bool"
  assumes final_evolves: "final r \<Longrightarrow> evolves r r' \<Longrightarrow> r' = r"
begin

lemma run_final: "inv s \<Longrightarrow> find s k = Some r \<Longrightarrow> final r \<Longrightarrow> find (fold step is s) k = Some r"
  using run_evolves [of s k r "is"] final_evolves by blast

end

end
