(* ===== verification/Schema.thy ===== *)
theory Schema imports Json Table begin

text \<open>
  The data of \<open>storage.py\<close>, \<open>inventory.py\<close>, \<open>tokens.py\<close> and \<open>orchestrator.py\<close>: one record per dataclass
  (a field \<open>status\<close> of the code is \<open>tk_status\<close> here, and so on), and the record \<open>store\<close>, one field
  per SQL table.  Rows are kept as the \<open>_x_from_row\<close> functions read them.
\<close>

section \<open>Nodes and join tokens\<close>

record node =
  nd_node_id :: string
  nd_fingerprint :: string
  nd_hostname :: string
  nd_addresses :: "string list"
  nd_trust_level :: string
  nd_labels :: "string list"
  nd_status :: string
  nd_permission_bundles :: "string list"
  nd_ssh_host :: string
  nd_ssh_user :: string
  nd_ssh_port :: int
  nd_network_provider :: string
  nd_network_node_id :: string
  nd_network_ip :: string
  nd_network_tags :: "string list"
  nd_network_online :: bool

record join_token =
  jt_value :: string
  jt_trust_level :: string
  jt_labels :: "string list"
  jt_expires_at :: time
  jt_status :: string
  jt_created_at :: time
  jt_used_at :: "time option"
  jt_node_fingerprint :: "string option"

section \<open>Tasks, approvals, notifications, audit\<close>

record task =
  tk_task_id :: string
  tk_node_id :: string
  tk_command :: string
  tk_risk :: string
  tk_status :: string
  tk_created_by :: string
  tk_created_at :: time
  tk_executor :: string
  tk_started_at :: "time option"
  tk_completed_at :: "time option"
  tk_exit_code :: "int option"
  tk_stdout :: string
  tk_stderr :: string
  tk_claimed_at :: "time option"
  tk_lease_expires_at :: "time option"
  tk_attempt_count :: int
  tk_failure_reason :: string

record approval_request =
  ap_approval_id :: string
  ap_subject_type :: string
  ap_subject_id :: string
  ap_action :: string
  ap_risk :: string
  ap_status :: string
  ap_requested_by :: string
  ap_details :: dict
  ap_created_at :: time
  ap_decided_by :: string
  ap_decided_at :: "time option"

record notification =
  nt_notification_id :: string
  nt_channel :: string
  nt_subject_type :: string
  nt_subject_id :: string
  nt_status :: string
  nt_payload :: dict
  nt_created_at :: time
  nt_delivered_at :: "time option"

record audit_event =
  ev_event_type :: string
  ev_subject_type :: string
  ev_subject_id :: string
  ev_action :: string
  ev_outcome :: string
  ev_details :: dict
  ev_created_at :: time

section \<open>Components, monitoring, settings\<close>

record component_row =
  cm_component_id :: string
  cm_name :: string
  cm_version :: string
  cm_api_version :: int
  cm_source :: string
  cm_status :: string
  cm_enabled_at :: "time option"
  cm_manifest_json :: json

record node_component =
  nc_node_id :: string
  nc_component_id :: string
  nc_desired_state :: string
  nc_current_state :: string
  nc_config :: dict
  nc_installed_version :: string
  nc_driver :: string
  nc_last_plan_id :: string
  nc_last_run_id :: string
  nc_last_verified_at :: "time option"

record component_run =
  cr_run_id :: string
  cr_component_id :: string
  cr_node_id :: string
  cr_action :: string
  cr_risk :: string
  cr_status :: string
  cr_plan :: dict
  cr_result :: dict
  cr_created_by :: string
  cr_created_at :: time
  cr_completed_at :: "time option"

record monitor_snapshot =
  ms_snapshot_id :: string
  ms_node_id :: string
  ms_health :: string
  ms_reason :: string
  ms_heartbeat_at :: "time option"
  ms_age_seconds :: "int option"
  ms_runtime_profile :: string
  ms_service_manager :: string
  ms_worker_protocol_version :: string
  ms_worker_version :: string
  ms_exec_mode :: string
  ms_facts_summary :: dict
  ms_created_at :: time

record setting =
  st_key :: string
  st_value_json :: json
  st_updated_at :: time

text \<open>The reasons in \<open>why_asset\<close> are free text; \<open>created_at\<close> and \<open>updated_at\<close> may be \<open>None\<close> before a save.\<close>

record service_record =
  sv_service_id :: string
  sv_name :: string
  sv_node_id :: string
  sv_kind :: string
  sv_runtime :: string
  sv_domains :: "string list"
  sv_ports :: "int list"
  sv_deploy_path :: string
  sv_config_paths :: "string list"
  sv_env_paths :: "string list"
  sv_data_paths :: "string list"
  sv_health_check_url :: string
  sv_monitor_enabled :: bool
  sv_docs_path :: string
  sv_source :: string
  sv_status :: string
  sv_metadata :: dict
  sv_asset_score :: int
  sv_asset_category :: string
  sv_why_asset :: "string list"
  sv_created_at :: "time option"
  sv_updated_at :: "time option"

section \<open>Orchestrator rows\<close>

record orch_task =
  ot_task_id :: string
  ot_title :: string
  ot_scope :: string
  ot_risk :: string
  ot_priority :: int
  ot_status :: string
  ot_worker_hint :: string
  ot_source :: string
  ot_created_at :: time
  ot_updated_at :: time
  ot_attempts :: int

record orch_worker =
  ow_worker_id :: string
  ow_transport :: string
  ow_status :: string
  ow_labels :: "string list"
  ow_registered_at :: time
  ow_updated_at :: time

record orch_assignment =
  oa_assignment_id :: string
  oa_task_id :: string
  oa_worker_id :: string
  oa_status :: string
  oa_leased_at :: time
  oa_updated_at :: time

record orch_report =
  rp_report_id :: string
  rp_task_id :: string
  rp_status :: string
  rp_summary :: string
  rp_created_at :: time

record orch_worktree =
  wt_task_id :: string
  wt_worker_id :: string
  wt_repo_path :: string
  wt_path :: string
  wt_branch :: string
  wt_base :: string
  wt_status :: string
  wt_created_at :: time
  wt_updated_at :: time

section \<open>The store\<close>

record store =
  join_tokens :: "join_token list"
  nodes :: "node list"
  audit_events :: "audit_event list"
  tasks :: "task list"
  approval_requests :: "approval_request list"
  notifications :: "notification list"
  components :: "component_row list"
  node_components :: "node_component list"
  component_runs :: "component_run list"
  monitor_snapshots :: "monitor_snapshot list"
  settings :: "setting list"
  services :: "service_record list"
  orchestrator_tasks :: "orch_task list"
  orchestrator_workers :: "orch_worker list"
  orchestrator_assignments :: "orch_assignment list"
  orchestrator_reports :: "orch_report list"
  orchestrator_worktrees :: "orch_worktree list"

definition empty_store :: store where
  "empty_store = \<lparr>join_tokens = [], nodes = [], audit_events = [], tasks = [], approval_requests = [],
     notifications = [], components = [], node_components = [], component_runs = [],
     monitor_snapshots = [], settings = [], services = [], orchestrator_tasks = [],
     orchestrator_workers = [], orchestrator_assignments = [], orchestrator_reports = [],
     orchestrator_worktrees = []\<rparr>"

text \<open>Every \<open>PRIMARY KEY\<close> of the schema.\<close>

definition store_keys_ok :: "store \<Rightarrow> bool" where
  "store_keys_ok s \<longleftrightarrow>
     keys_distinct jt_value (join_tokens s)
   \<and> keys_distinct nd_node_id (nodes s)
   \<and> keys_distinct tk_task_id (tasks s)
   \<and> keys_distinct ap_approval_id (approval_requests s)
   \<and> keys_distinct nt_notification_id (notifications s)
   \<and> keys_distinct (\<lambda>r. (nc_node_id r, nc_component_id r)) (node_components s)
   \<and> keys_distinct cr_run_id (component_runs s)"

lemma store_keys_ok_empty: "store_keys_ok empty_store"
  by (simp add: store_keys_ok_def empty_store_def keys_distinct_def)

end
