(* ===== verification/AuditLog.thy ===== *)
theory AuditLog imports Schema begin

text \<open>
  The audit log of \<open>SQLiteStore\<close>: \<open>record_audit\<close>, \<open>_insert_audit_event\<close> and the heartbeat queries over
  \<open>audit_events\<close>.  The autoincrement \<open>id\<close> of a row is its position in the list, since no code
  deletes an event.  The log only grows (\<open>audit_extends\<close>), which the locale \<open>audited\<close> turns into a
  law about every run of operations.
\<close>

section \<open>Operations\<close>

definition AuditEvent :: "string \<Rightarrow> string \<Rightarrow> string \<Rightarrow> string \<Rightarrow> string \<Rightarrow> dict \<Rightarrow> time \<Rightarrow> audit_event" where
  "AuditEvent event_type subject_type subject_id action outcome details created_at =
     \<lparr>ev_event_type = event_type, ev_subject_type = subject_type, ev_subject_id = subject_id,
      ev_action = action, ev_outcome = outcome, ev_details = details, ev_created_at = created_at\<rparr>"

definition insert_audit_event :: "audit_event \<Rightarrow> store \<Rightarrow> store" where
  "insert_audit_event e s =
     s\<lparr>audit_events := audit_events s @ [e\<lparr>ev_details := dict_sort (ev_details e)\<rparr>]\<rparr>"

definition record_audit ::
  "string \<Rightarrow> string \<Rightarrow> string \<Rightarrow> string \<Rightarrow> string \<Rightarrow> dict \<Rightarrow> time \<Rightarrow> store \<Rightarrow> store" where
  "record_audit event_type subject_type subject_id action outcome details now s =
     insert_audit_event (AuditEvent event_type subject_type subject_id action outcome details now) s"

definition list_audit_events :: "store \<Rightarrow> audit_event list" where
  "list_audit_events s = audit_events s"

definition is_node_heartbeat :: "string \<Rightarrow> audit_event \<Rightarrow> bool" where
  "is_node_heartbeat node_id e \<longleftrightarrow>
     ev_event_type e = ''node'' \<and> ev_subject_type e = ''node''
     \<and> ev_subject_id e = node_id \<and> ev_action e = ''heartbeat''"

text \<open>\<open>ORDER BY created_at DESC, id DESC\<close>: the reverse of the stable ascending order.\<close>

definition newest_first :: "audit_event list \<Rightarrow> audit_event list" where
  "newest_first es = rev (sort_key ev_created_at es)"

definition latest_node_heartbeat_event :: "string \<Rightarrow> store \<Rightarrow> audit_event option" where
  "latest_node_heartbeat_event node_id s =
     first_row (newest_first (filter (is_node_heartbeat node_id) (audit_events s)))"

definition has_successful_node_heartbeat :: "string \<Rightarrow> store \<Rightarrow> bool" where
  "has_successful_node_heartbeat node_id s \<longleftrightarrow>
     first_row (newest_first
       (filter (\<lambda>e. is_node_heartbeat node_id e \<and> ev_outcome e = ''ok'') (audit_events s))) \<noteq> None"

definition latest_node_heartbeat_facts :: "string \<Rightarrow> store \<Rightarrow> dict" where
  "latest_node_heartbeat_facts node_id s =
     (case first_row (newest_first (filter (is_node_heartbeat node_id) (audit_events s))) of
        None \<Rightarrow> []
      | Some row \<Rightarrow>
          (case dget_or (ev_details row) ''facts'' (JObj []) of
             JObj facts \<Rightarrow> facts
           | _ \<Rightarrow> []))"

section \<open>The log only grows\<close>

definition audit_extends :: "store \<Rightarrow> store \<Rightarrow> bool" where
  "audit_extends s s' \<longleftrightarrow> (\<exists>new. audit_events s' = audit_events s @ new)"

lemma audit_extends_refl [simp, intro]: "audit_extends s s"
  by (simp add: audit_extends_def)

lemma audit_extends_trans [trans]: "audit_extends s t \<Longrightarrow> audit_extends t u \<Longrightarrow> audit_extends s u"
  by (auto simp: audit_extends_def)

lemma audit_extends_same: "audit_events s' = audit_events s \<Longrightarrow> audit_extends s s'"
  by (simp add: audit_extends_def)

lemma audit_events_insert [audit_simps]:
  "audit_events (insert_audit_event e s) = audit_events s @ [e\<lparr>ev_details := dict_sort (ev_details e)\<rparr>]"
  by (simp add: insert_audit_event_def)

lemma audit_events_record [audit_simps]:
  "audit_events (record_audit et st sid act out d now s)
    = audit_events s @ [AuditEvent et st sid act out (dict_sort d) now]"
  by (simp add: record_audit_def insert_audit_event_def AuditEvent_def)

lemma audit_extends_insert [intro]: "audit_extends s t \<Longrightarrow> audit_extends s (insert_audit_event e t)"
  by (auto simp: audit_extends_def audit_simps)

lemma audit_extends_record [intro]:
  "audit_extends s t \<Longrightarrow> audit_extends s (record_audit et st sid act out d now t)"
  by (auto simp: audit_extends_def audit_simps)

lemma insert_audit_frame [frame_simps, simp]:
  "join_tokens (insert_audit_event e s) = join_tokens s"
  "nodes (insert_audit_event e s) = nodes s"
  "tasks (insert_audit_event e s) = tasks s"
  "approval_requests (insert_audit_event e s) = approval_requests s"
  "notifications (insert_audit_event e s) = notifications s"
  "components (insert_audit_event e s) = components s"
  "node_components (insert_audit_event e s) = node_components s"
  "component_runs (insert_audit_event e s) = component_runs s"
  "monitor_snapshots (insert_audit_event e s) = monitor_snapshots s"
  "settings (insert_audit_event e s) = settings s"
  "services (insert_audit_event e s) = services s"
  "orchestrator_tasks (insert_audit_event e s) = orchestrator_tasks s"
  "orchestrator_workers (insert_audit_event e s) = orchestrator_workers s"
  "orchestrator_assignments (insert_audit_event e s) = orchestrator_assignments s"
  "orchestrator_reports (insert_audit_event e s) = orchestrator_reports s"
  "orchestrator_worktrees (insert_audit_event e s) = orchestrator_worktrees s"
  by (simp_all add: insert_audit_event_def)

lemma record_audit_frame [frame_simps, simp]:
  "join_tokens (record_audit et st sid act out d now s) = join_tokens s"
  "nodes (record_audit et st sid act out d now s) = nodes s"
  "tasks (record_audit et st sid act out d now s) = tasks s"
  "approval_requests (record_audit et st sid act out d now s) = approval_requests s"
  "notifications (record_audit et st sid act out d now s) = notifications s"
  "components (record_audit et st sid act out d now s) = components s"
  "node_components (record_audit et st sid act out d now s) = node_components s"
  "component_runs (record_audit et st sid act out d now s) = component_runs s"
  "monitor_snapshots (record_audit et st sid act out d now s) = monitor_snapshots s"
  "settings (record_audit et st sid act out d now s) = settings s"
  "services (record_audit et st sid act out d now s) = services s"
  "orchestrator_tasks (record_audit et st sid act out d now s) = orchestrator_tasks s"
  "orchestrator_workers (record_audit et st sid act out d now s) = orchestrator_workers s"
  "orchestrator_assignments (record_audit et st sid act out d now s) = orchestrator_assignments s"
  "orchestrator_reports (record_audit et st sid act out d now s) = orchestrator_reports s"
  "orchestrator_worktrees (record_audit et st sid act out d now s) = orchestrator_worktrees s"
  by (simp_all add: record_audit_def)

lemma store_keys_ok_audit [simp]:
  "store_keys_ok (insert_audit_event e s) = store_keys_ok s"
  "store_keys_ok (record_audit et st sid act out d now s) = store_keys_ok s"
  by (simp_all add: store_keys_ok_def)

section \<open>Heartbeat queries\<close>

lemma newest_first_Nil [simp]: "newest_first es = [] \<longleftrightarrow> es = []"
  by (metis newest_first_def rev_is_Nil_conv set_empty set_sort)

lemma set_newest_first [simp]: "set (newest_first es) = set es"
  by (simp add: newest_first_def)

lemma first_newest:
  assumes "first_row (newest_first es) = Some e"
  shows "e \<in> set es" and "\<And>f. f \<in> set es \<Longrightarrow> ev_created_at f \<le> ev_created_at e"
proof -
  let ?xs = "sort_key ev_created_at es"
  have ne: "?xs \<noteq> []" and e: "e = last ?xs"
    using assms by (auto simp: newest_first_def first_row_rev split: if_splits)
  have set: "set ?xs = set es" by simp
  show "e \<in> set es" using ne e last_in_set set by metis
  have srt: "sorted (map ev_created_at ?xs)" by simp
  show "ev_created_at f \<le> ev_created_at e" if f: "f \<in> set es" for f
  proof -
    obtain ys where ys: "?xs = ys @ [e]" using ne e by (metis append_butlast_last_id)
    from f have "f \<in> set (ys @ [e])" using set ys by metis
    moreover have "sorted (map ev_created_at (ys @ [e]))" using srt ys by simp
    ultimately show ?thesis by (auto simp: sorted_append)
  qed
qed

lemma insort_key_last: "(\<And>x. x \<in> set xs \<Longrightarrow> f x \<le> f a) \<Longrightarrow> sorted (map f xs) \<Longrightarrow> insort_key f b (xs @ [a])
   = (if f b \<le> f a then insort_key f b xs @ [a] else xs @ [a, b])"
  by (induction xs) (auto dest: order_trans)

lemma sort_key_snoc_max:
  assumes "\<And>x. x \<in> set xs \<Longrightarrow> f x \<le> f a"
  shows "sort_key f (xs @ [a]) = sort_key f xs @ [a]"
  using assms
proof (induction xs)
  case Nil
  then show ?case by simp
next
  case (Cons x xs)
  then have IH: "sort_key f (xs @ [a]) = sort_key f xs @ [a]" by simp
  have "insort_key f x (sort_key f xs @ [a]) = insort_key f x (sort_key f xs) @ [a]"
    using Cons.prems by (subst insort_key_last) auto
  with IH show ?case by simp
qed

text \<open>A heartbeat recorded when the clock has not run backwards is the one the queries see.\<close>

lemma latest_node_heartbeat_event_after:
  assumes "is_node_heartbeat node_id e"
    and "\<And>f. f \<in> set (audit_events s) \<Longrightarrow> is_node_heartbeat node_id f \<Longrightarrow> ev_created_at f \<le> ev_created_at e"
    and "audit_events s' = audit_events s @ [e]"
  shows "latest_node_heartbeat_event node_id s' = Some e"
proof -
  have "sort_key ev_created_at (filter (is_node_heartbeat node_id) (audit_events s) @ [e])
      = sort_key ev_created_at (filter (is_node_heartbeat node_id) (audit_events s)) @ [e]"
    by (rule sort_key_snoc_max) (use assms(2) in auto)
  then show ?thesis
    by (simp add: latest_node_heartbeat_event_def newest_first_def assms)
qed

lemma has_successful_node_heartbeat_iff:
  "has_successful_node_heartbeat node_id s
    \<longleftrightarrow> (\<exists>e \<in> set (audit_events s). is_node_heartbeat node_id e \<and> ev_outcome e = ''ok'')"
  by (auto simp: has_successful_node_heartbeat_def filter_empty_conv)

lemma has_successful_node_heartbeat_mono:
  "audit_extends s s' \<Longrightarrow> has_successful_node_heartbeat n s \<Longrightarrow> has_successful_node_heartbeat n s'"
  by (auto simp: has_successful_node_heartbeat_iff audit_extends_def)

lemma latest_node_heartbeat_facts_alt:
  "latest_node_heartbeat_facts node_id s =
     (case latest_node_heartbeat_event node_id s of
        None \<Rightarrow> []
      | Some row \<Rightarrow> (case dget_or (ev_details row) ''facts'' (JObj []) of JObj facts \<Rightarrow> facts | _ \<Rightarrow> []))"
  by (simp add: latest_node_heartbeat_facts_def latest_node_heartbeat_event_def)

section \<open>The contract of an audited operation\<close>

text \<open>
  Clients of a component that keeps the log append-only may rely on what they have seen there: a
  run of its operations keeps every recorded event, in place.
\<close>

locale audited =
  fixes step :: "'i \<Rightarrow> store \<Rightarrow> store"
  assumes step_extends: "audit_extends s (step i s)"
begin

lemma run_extends: "audit_extends s (fold step is s)"
proof (induction "is" arbitrary: s)
  case Nil
  then show ?case by simp
next
  case (Cons i "is")
  have "audit_extends s (step i s)" by (rule step_extends)
  also have "audit_extends (step i s) (fold step is (step i s))" by (rule Cons)
  finally show ?case by simp
qed

lemma run_keeps_event:
  "n < length (audit_events s) \<Longrightarrow> audit_events (fold step is s) ! n = audit_events s ! n"
  using run_extends [of s "is"] by (auto simp: audit_extends_def nth_append)

lemma run_keeps_heartbeat:
  "has_successful_node_heartbeat n s \<Longrightarrow> has_successful_node_heartbeat n (fold step is s)"
  by (rule has_successful_node_heartbeat_mono [OF run_extends])

end

end
