(* ===== verification/Services.thy ===== *)
theory Services imports AuditLog begin

text \<open>
  Services in \<open>storage.py\<close>: the two scores of how much a service is a business asset
  (\<open>classify_service_asset\<close> for a view, \<open>_classify_service_asset\<close> for the stored record) and the
  \<open>services\<close> table.  A run of \<open>if c: score += v; reasons.append(r)\<close> is a list of rules \<open>(c, v, r)\<close>.
\<close>

section \<open>Scoring rules\<close>

type_synonym rule = "bool \<times> int \<times> string"

definition rule_score :: "rule list \<Rightarrow> int" where
  "rule_score rules = sum_list (map (\<lambda>(c, v, r). if c then v else 0) rules)"

definition rule_reasons :: "rule list \<Rightarrow> string list" where
  "rule_reasons rules = map (\<lambda>(c, v, r). r) (filter fst rules)"

definition clamp :: "int \<Rightarrow> int \<Rightarrow> int \<Rightarrow> int" where
  "clamp lo hi x = max lo (min hi x)"

text \<open>\<open>list(dict.fromkeys(xs))\<close> keeps the first of equal entries.\<close>

definition first_occurrences :: "'a list \<Rightarrow> 'a list" where
  "first_occurrences xs = rev (remdups (rev xs))"

section \<open>The asset view\<close>

definition SERVICE_MANUAL_FLAGS :: "string list" where
  "SERVICE_MANUAL_FLAGS =
     [''asset_marked_business'', ''asset_business'', ''business_asset'', ''business_marked'', ''manual_business_asset'']"

definition SERVICE_SYSTEM_PREFIXES :: "string list" where
  "SERVICE_SYSTEM_PREFIXES =
     [''apt'', ''auditd'', ''apparmor'', ''dbus'', ''systemd'', ''rsyslog'', ''udev'', ''polkit'', ''ssh-agent'',
      ''getty'', ''unattended-upgrades'', ''cron'', ''networkmanager'']"

definition SERVICE_NOISY_SUFFIXES :: "string list" where
  "SERVICE_NOISY_SUFFIXES =
     [''agent'', ''agentctl'', ''exporter'', ''collector'', ''ctl'', ''monitor'', ''watchdog'', ''probe'', ''sidecar'']"

definition SERVICE_BUSINESS_KINDS :: "string set" where
  "SERVICE_BUSINESS_KINDS = {''docker'', ''compose'', ''k8s'', ''kubernetes''}"

definition service_asset_tags :: "dict \<Rightarrow> string list" where
  "service_asset_tags metadata =
     (case py_or (dget metadata ''tags'') (py_or (dget metadata ''labels'') (JList [])) of
        JStr t \<Rightarrow> filter (\<lambda>t. t \<noteq> []) (map strip (split_on CHR '','' t))
      | JList xs \<Rightarrow> filter (\<lambda>t. t \<noteq> []) (map (\<lambda>x. strip (py_str x)) xs)
      | _ \<Rightarrow> [])"

definition asset_manual :: "dict \<Rightarrow> bool" where
  "asset_manual metadata \<longleftrightarrow>
     list_ex (\<lambda>flag. truthy (dget metadata flag)) SERVICE_MANUAL_FLAGS
     \<or> dget metadata ''asset_bucket'' = JStr ''main''
     \<or> dget metadata ''asset_state'' = JStr ''business'' \<or> dget metadata ''asset_category'' = JStr ''business''"

definition asset_signals :: "service_record \<Rightarrow> rule list" where
  "asset_signals service =
     (let metadata = sv_metadata service;
          runtime = strip (lower (sv_runtime service));
          kind = strip (lower (sv_kind service));
          src = strip (lower (sv_source service));
          domains = filter (\<lambda>d. d \<noteq> []) (sv_domains service);
          tags = service_asset_tags metadata;
          manual = asset_manual metadata;
          has = (\<lambda>k. truthy (dget metadata k))
      in
     [(manual \<or> src = ''manual'', 60, utf8_text [0x7528, 0x6237, 0x624B, 0x52A8, 0x6807, 0x8BB0] @ ''/'' @ utf8_text [0x767B, 0x8BB0]),
      (kind \<in> SERVICE_BUSINESS_KINDS \<or> list_ex (contains runtime) [''compose'', ''docker'', ''k8s'', ''kubernetes''], 25, utf8_text [0x6765, 0x81EA] @ '' Docker/Compose/K8s''),
      (sv_node_id service \<noteq> [], 8, utf8_text [0x5DF2, 0x7ED1, 0x5B9A, 0x8FD0, 0x884C, 0x8282, 0x70B9]),
      (domains \<noteq> [], 15, utf8_text [0x5B58, 0x5728, 0x57DF, 0x540D, 0x5165, 0x53E3]),
      (sv_health_check_url service \<noteq> [], 8, utf8_text [0x5B58, 0x5728, 0x5065, 0x5EB7, 0x68C0, 0x67E5, 0x5165, 0x53E3]),
      (sv_deploy_path service \<noteq> [], 8, utf8_text [0x5B58, 0x5728, 0x90E8, 0x7F72, 0x8DEF, 0x5F84]),
      (sv_docs_path service \<noteq> [], 8, utf8_text [0x5B58, 0x5728, 0x670D, 0x52A1, 0x6587, 0x6863]),
      (tags \<noteq> [], min 12 (int (length tags) * 4), utf8_text [0x5E26, 0x6709, 0x6807, 0x7B7E] @ ''/'' @ utf8_text [0x5907, 0x6CE8]),
      (has ''project'' \<or> has ''project_name'' \<or> has ''project_id'', 10, utf8_text [0x5DF2, 0x7ED1, 0x5B9A, 0x9879, 0x76EE]),
      (has ''reverse_proxy'' \<or> has ''proxy'' \<or> has ''ingress'' \<or> domains \<noteq> [], 10, utf8_text [0x5B58, 0x5728, 0x53CD, 0x4EE3] @ ''/'' @ utf8_text [0x5165, 0x53E3]),
      (has ''backup'' \<or> has ''backup_status'', 6, utf8_text [0x6709, 0x5907, 0x4EFD, 0x4FE1, 0x606F])])"

definition asset_penalties :: "service_record \<Rightarrow> rule list" where
  "asset_penalties service =
     (let metadata = sv_metadata service;
          lowered = lower (strip (sv_name service));
          kind = strip (lower (sv_kind service));
          domains = filter (\<lambda>d. d \<noteq> []) (sv_domains service);
          ports = sv_ports service;
          has = (\<lambda>k. truthy (dget metadata k))
      in
     [(list_ex (startswith lowered) SERVICE_SYSTEM_PREFIXES, -35, ''systemd/OS '' @ utf8_text [0x9ED8, 0x8BA4, 0x670D, 0x52A1]),
      (list_ex (contains lowered) SERVICE_NOISY_SUFFIXES, -20, utf8_text [0x8F85, 0x52A9, 0x7EC4, 0x4EF6, 0x566A, 0x97F3]),
      (sv_node_id service = [], -10, utf8_text [0x672A, 0x7ED1, 0x5B9A, 0x8282, 0x70B9]),
      (domains = [] \<and> sv_health_check_url service = [] \<and> sv_deploy_path service = [], -15, utf8_text [0x65E0, 0x5165, 0x53E3] @ ''/'' @ utf8_text [0x65E0, 0x8BF4, 0x660E]),
      (ports \<noteq> [] \<and> list_all (\<lambda>p. p < 1024) ports \<and> kind = ''port'', -8, utf8_text [0x4EC5, 0x53D1, 0x73B0, 0x57FA, 0x7840, 0x7AEF, 0x53E3, 0x76D1, 0x542C]),
      (startswith (sv_deploy_path service) ''/usr/'', -10, utf8_text [0x7CFB, 0x7EDF, 0x8DEF, 0x5F84, 0x7279, 0x5F81]),
      (lowered \<in> {''ssh'', ''cron'', ''dbus'', ''auditd'', ''apparmor'', ''rsyslog'', ''systemd-journald'',
        ''systemd-resolved'', ''systemd-timesyncd''}, -30, utf8_text [0x7CFB, 0x7EDF, 0x7EC4, 0x4EF6]),
      (has ''localhost_only'' \<or> dget metadata ''bind_address'' \<in> {JStr ''127.0.0.1'', JStr ''localhost''}, -20, ''localhost-only'')])"

definition asset_bucket_of :: "bool \<Rightarrow> int \<Rightarrow> string" where
  "asset_bucket_of manual score =
     (if manual then ''main'' else if score \<ge> 50 then ''main'' else if score \<ge> 20 then ''pending'' else ''system'')"

definition asset_business_category :: "string \<Rightarrow> string \<Rightarrow> string \<Rightarrow> string list \<Rightarrow> string \<Rightarrow> string" where
  "asset_business_category kind runtime lowered domains bucket =
     (if kind \<in> SERVICE_BUSINESS_KINDS \<or> startswith runtime ''docker'' \<or> startswith runtime ''compose''
      then utf8_text [0x4E1A, 0x52A1, 0x5E94, 0x7528]
      else if contains lowered ''bot'' then (''Bot / '' @ utf8_text [0x81EA, 0x52A8, 0x5316])
      else if list_ex (contains lowered) [''db'', ''postgres'', ''mysql'', ''redis'', ''mongo'', ''sql'']
      then (utf8_text [0x6570, 0x636E, 0x5E93] @ '' / '' @ utf8_text [0x4E2D, 0x95F4, 0x4EF6])
      else if list_ex (contains lowered)
        [''nginx'', ''caddy'', ''traefik'', ''gateway'', ''proxy'', ''panel'', ''web'', ''site'', ''api'']
      then (if contains lowered ''web'' \<or> domains \<noteq> []
            then (utf8_text [0x7AD9, 0x70B9] @ '' / Web'')
            else (utf8_text [0x7F51, 0x5173] @ '' / '' @ utf8_text [0x9762, 0x677F] @ '' / '' @ utf8_text [0x63A5, 0x5165, 0x5C42]))
      else if list_ex (contains lowered) [''monitor'', ''prometheus'', ''grafana'', ''exporter'']
      then utf8_text [0x76D1, 0x63A7, 0x7EC4, 0x4EF6]
      else if bucket = ''system'' then utf8_text [0x7CFB, 0x7EDF, 0x8D44, 0x4EA7]
      else utf8_text [0x4E1A, 0x52A1, 0x5E94, 0x7528])"

text \<open>
  Looking up a list or a dict in a set raises \<open>TypeError\<close>; \<open>bind_address\<close> is looked up unless
  \<open>localhost_only\<close> holds.
\<close>

definition unhashable :: "json \<Rightarrow> bool" where
  "unhashable v \<longleftrightarrow> (case v of JList _ \<Rightarrow> True | JObj _ \<Rightarrow> True | _ \<Rightarrow> False)"

definition classify_service_asset :: "service_record \<Rightarrow> dict result" where
  "classify_service_asset service =
     (let metadata = sv_metadata service;
          name = strip (sv_name service);
          lowered = lower name;
          runtime = strip (lower (sv_runtime service));
          kind = strip (lower (sv_kind service));
          domains = filter (\<lambda>d. d \<noteq> []) (sv_domains service);
          ports = sv_ports service;
          tags = service_asset_tags metadata;
          manual = asset_manual metadata
      in if \<not> truthy (dget metadata ''localhost_only'') \<and> unhashable (dget metadata ''bind_address'')
         then Inl (TypeError ''unhashable type'')
         else
           let score = clamp 0 100 (rule_score (asset_signals service) + rule_score (asset_penalties service));
               bucket = asset_bucket_of manual score;
               category = asset_business_category kind runtime lowered domains bucket;
               deployment_type = py_or (dget metadata ''deployment_type'')
                 (if kind \<in> SERVICE_BUSINESS_KINDS \<or> contains runtime ''docker'' \<or> contains runtime ''compose''
                  then JStr ''docker'' else if kind \<noteq> [] then JStr kind else JStr ''manual'');
               project_name = str_or (py_or (dget metadata ''project_name'')
                 (py_or (dget metadata ''project'') (dget metadata ''project_id''))) [];
               business_name = str_or (py_or (dget metadata ''business_name'') (dget metadata ''title'')) name;
               business_purpose = str_or (py_or (dget metadata ''business_purpose'')
                 (py_or (dget metadata ''purpose'') (dget metadata ''description''))) [];
               backup_status = str_or (dget metadata ''backup_status'')
                 (if truthy (dget metadata ''backup'') then ''enabled'' else ''unknown'');
               public_exposed = domains \<noteq> [] \<or> sv_health_check_url service \<noteq> [] \<or> list_ex (\<lambda>p. p \<ge> 80) ports
                 \<or> truthy (dget metadata ''public_exposed'');
               penalties = rule_reasons (asset_penalties service);
               why = rule_reasons (asset_signals service)
                 @ (if penalties \<noteq> [] then [join_with ''; '' (first_occurrences penalties)] else [])
           in Inr
             [(''asset_score'', JInt score), (''asset_bucket'', JStr bucket), (''asset_category'', JStr category),
              (''business_name'', JStr business_name), (''business_purpose'', JStr business_purpose),
              (''project_name'', JStr project_name), (''deployment_type'', JStr (py_str deployment_type)),
              (''run_node'', JStr (sv_node_id service)), (''public_exposed'', JBool public_exposed),
              (''backup_status'', JStr backup_status), (''tags'', JList (map JStr tags)),
              (''why_asset'', JList (map JStr why)), (''manual_business_asset'', JBool manual)])"

section \<open>The stored classification\<close>

definition BUSINESS_CATEGORIES :: "string list" where
  "BUSINESS_CATEGORIES = [''business'', ''main'', ''primary'', ''main_view'']"

definition SYSTEM_CATEGORIES :: "string list" where
  "SYSTEM_CATEGORIES = [''system'', ''platform'', ''infra'']"

definition SYSTEM_KEYWORDS :: "string list" where
  "SYSTEM_KEYWORDS =
     [''hmn'', ''control'', ''console'', ''gateway'', ''agent'', ''worker'', ''heartbeat'', ''orchestrator'',
      ''platform'', ''system'', ''infra'']"

definition raw_asset_category :: "dict \<Rightarrow> string" where
  "raw_asset_category metadata =
     lower (strip (str_or (py_or (dget metadata ''asset_category'') (dget metadata ''asset_class'')) []))"

definition count_text :: "'a list \<Rightarrow> string" where
  "count_text xs = show_int (int (length xs))"

definition stored_asset_rules :: "service_record \<Rightarrow> rule list" where
  "stored_asset_rules service =
     (let raw = raw_asset_category (sv_metadata service);
          combined_text = join_with '' ''
            (map lower (filter (\<lambda>part. part \<noteq> [])
               [sv_service_id service, sv_name service, sv_node_id service, sv_kind service, sv_runtime service]))
      in
     [(sv_source service = ''manual'', 60, ''manual asset registration''),
      (raw \<in> set BUSINESS_CATEGORIES, 30, ''asset_category='' @ raw),
      (raw \<in> set SYSTEM_CATEGORIES, -80, ''asset_category='' @ raw),
      (sv_domains service \<noteq> [], 18, count_text (sv_domains service) @ '' domain(s)''),
      (sv_ports service \<noteq> [], 12, count_text (sv_ports service) @ '' exposed port(s)''),
      (sv_health_check_url service \<noteq> [], 8, ''health check configured''),
      (sv_deploy_path service \<noteq> [], 6, ''deploy path present''),
      (sv_config_paths service \<noteq> [] \<or> sv_env_paths service \<noteq> [] \<or> sv_data_paths service \<noteq> [], 6,
       ''service paths registered''),
      (sv_monitor_enabled service, 5, ''monitoring enabled''),
      (sv_source service \<noteq> [] \<and> sv_source service \<noteq> ''manual'', 8, ''discovered source='' @ sv_source service),
      (list_ex (contains combined_text) SYSTEM_KEYWORDS, -40, ''system/control-plane keyword match'')])"

definition stored_asset_category :: "service_record \<Rightarrow> int \<Rightarrow> string" where
  "stored_asset_category service score =
     (let raw = raw_asset_category (sv_metadata service)
      in if sv_source service = ''manual'' \<or> raw \<in> set BUSINESS_CATEGORIES then ''main''
         else if raw \<in> set SYSTEM_CATEGORIES \<or> score < 0 then ''system''
         else if score \<ge> 40 then ''main''
         else if score \<ge> 15 then ''pending''
         else if score < 0 then ''system'' else ''pending'')"

definition classify_stored_asset :: "service_record \<Rightarrow> int \<times> string \<times> string list" where
  "classify_stored_asset service =
     (let rules = stored_asset_rules service;
          score = rule_score rules;
          reasons = rule_reasons rules
      in (clamp (-100) 100 score, stored_asset_category service score,
          if reasons = [] then [''insufficient asset signals''] else reasons))"

section \<open>The services table\<close>

definition sv_reread :: "service_record \<Rightarrow> service_record" where
  "sv_reread r = r\<lparr>sv_metadata := dict_sort (sv_metadata r)\<rparr>"

definition load_service_record :: "store \<Rightarrow> string \<Rightarrow> service_record option" where
  "load_service_record s service_id = tbl_find sv_service_id service_id (services s)"

definition list_service_records :: "string \<Rightarrow> store \<Rightarrow> service_record list" where
  "list_service_records node_id s =
     order_by sv_service_id (if node_id \<noteq> [] then filter (\<lambda>r. sv_node_id r = node_id) (services s) else services s)"

text \<open>\<open>created_at\<close> is not among the updated columns, so an existing row keeps its own.\<close>

definition upsert_service :: "service_record \<Rightarrow> store \<Rightarrow> store" where
  "upsert_service r s =
     s\<lparr>services := tbl_upsert sv_service_id (\<lambda>old new. new\<lparr>sv_created_at := sv_created_at old\<rparr>) (sv_reread r) (services s)\<rparr>"

definition classified_service :: "service_record \<Rightarrow> time \<Rightarrow> store \<Rightarrow> service_record" where
  "classified_service service now s =
     (let existing = load_service_record s (sv_service_id service);
          created_at = (case sv_created_at service of
              Some t \<Rightarrow> Some t
            | None \<Rightarrow> (case existing of None \<Rightarrow> Some now | Some e \<Rightarrow> sv_created_at e));
          (asset_score, asset_category, why_asset) = classify_stored_asset service;
          metadata = dsetdefault (dsetdefault (dsetdefault (sv_metadata service) ''asset_score'' (JInt asset_score))
            ''asset_category'' (JStr asset_category)) ''why_asset'' (JList (map JStr why_asset))
      in service\<lparr>sv_metadata := metadata, sv_asset_score := asset_score, sv_asset_category := asset_category,
           sv_why_asset := why_asset, sv_created_at := created_at, sv_updated_at := Some now\<rparr>)"

definition save_service_record :: "service_record \<Rightarrow> time \<Rightarrow> store \<Rightarrow> service_record \<times> store" where
  "save_service_record service now s =
     (let saved = classified_service service now s in (saved, upsert_service saved s))"


lemma tbl_find_upsert_service:
  "load_service_record (upsert_service r s) k =
     (if k = sv_service_id r
      then Some (case load_service_record s k of
                   None \<Rightarrow> sv_reread r
                 | Some old \<Rightarrow> (sv_reread r)\<lparr>sv_created_at := sv_created_at old\<rparr>)
      else load_service_record s k)"
  by (auto simp: load_service_record_def upsert_service_def sv_reread_def tbl_find_upsert split: option.splits)

lemma classified_service_id [simp]: "sv_service_id (classified_service v now s) = sv_service_id v"
  by (simp add: classified_service_def Let_def split: prod.split)

lemma save_service_record_result [simp]: "fst (save_service_record v now s) = classified_service v now s"
  by (simp add: save_service_record_def Let_def)

lemma load_saved_service:
  "load_service_record (snd (save_service_record v now s)) k =
     (if k = sv_service_id v
      then Some (case load_service_record s k of
                   None \<Rightarrow> sv_reread (classified_service v now s)
                 | Some old \<Rightarrow> (sv_reread (classified_service v now s))\<lparr>sv_created_at := sv_created_at old\<rparr>)
      else load_service_record s k)"
  by (simp add: save_service_record_def Let_def tbl_find_upsert_service)

lemma save_service_frame [simp]:
  "audit_events (snd (save_service_record v now s)) = audit_events s"
  "nodes (snd (save_service_record v now s)) = nodes s"
  "tasks (snd (save_service_record v now s)) = tasks s"
  by (simp_all add: save_service_record_def upsert_service_def Let_def)

text \<open>A save never moves a service's creation: the table is a store of creation times that are set once.\<close>

lemma created_at_kept:
  assumes "load_service_record s k = Some old"
  shows "\<exists>r. load_service_record (snd (save_service_record v now s)) k = Some r \<and> sv_created_at r = sv_created_at old"
  using assms by (auto simp: load_saved_service)

interpretation service_life: row_machine load_service_record
    "\<lambda>(v, now). \<lambda>s. snd (save_service_record v now s)" "\<lambda>r r'. sv_created_at r' = sv_created_at r" "\<lambda>_. True"
proof unfold_locales
  fix s k r and i :: "service_record \<times> time"
  assume "load_service_record s k = Some r"
  then show "\<exists>r'. load_service_record ((case i of (v, now) \<Rightarrow> \<lambda>s. snd (save_service_record v now s)) s) k = Some r'
      \<and> sv_created_at r' = sv_created_at r"
    by (cases i) (auto simp: load_saved_service)
qed simp_all

section \<open>Scores\<close>

lemma clamp_bounds [simp]: "lo \<le> hi \<Longrightarrow> lo \<le> clamp lo hi x" "lo \<le> hi \<Longrightarrow> clamp lo hi x \<le> hi"
  by (auto simp: clamp_def)

lemma rule_reasons_Nil: "rule_reasons rules = [] \<longleftrightarrow> list_all (\<lambda>rule. \<not> fst rule) rules"
  by (simp add: rule_reasons_def filter_empty_conv list_all_iff)

lemma rule_score_Nil: "rule_reasons rules = [] \<Longrightarrow> rule_score rules = 0"
  unfolding rule_reasons_Nil rule_score_def by (induction rules) auto

lemma stored_category_cases: "stored_asset_category v x \<in> {''main'', ''pending'', ''system''}"
  by (simp add: stored_asset_category_def Let_def)

text \<open>The last branch of the code's cascade can never answer \<open>system\<close>.\<close>

lemma stored_category_alt:
  "stored_asset_category v x =
     (let raw = raw_asset_category (sv_metadata v)
      in if sv_source v = ''manual'' \<or> raw \<in> set BUSINESS_CATEGORIES then ''main''
         else if raw \<in> set SYSTEM_CATEGORIES \<or> x < 0 then ''system''
         else if x \<ge> 40 then ''main'' else ''pending'')"
  by (auto simp: stored_asset_category_def Let_def)

lemma dget_setdefault:
  "dget (dsetdefault d k v) k' = (if k' = k \<and> map_of d k = None then v else dget d k')"
  by (auto simp: dget_def dsetdefault_def map_add_def split: option.splits)

lemma map_of_setdefault:
  "map_of (dsetdefault d k v) k' = (if k' = k \<and> map_of d k = None then Some v else map_of d k')"
  by (auto simp: dsetdefault_def map_add_def split: option.splits)

lemma classified_metadata:
  "sv_metadata (classified_service v now s) =
     dsetdefault (dsetdefault (dsetdefault (sv_metadata v) ''asset_score'' (JInt (fst (classify_stored_asset v))))
       ''asset_category'' (JStr (fst (snd (classify_stored_asset v)))))
       ''why_asset'' (JList (map JStr (snd (snd (classify_stored_asset v)))))"
  by (simp add: classified_service_def Let_def split: prod.split)

lemma classified_category [simp]:
  "sv_asset_category (classified_service v now s) = fst (snd (classify_stored_asset v))"
  by (simp add: classified_service_def Let_def split: prod.split)

lemma classify_category: "fst (snd (classify_stored_asset v)) = stored_asset_category v (rule_score (stored_asset_rules v))"
  by (simp add: classify_stored_asset_def Let_def)

lemma strip_lower_words [simp]:
  "lower (strip ''main'') = ''main''" "lower (strip ''system'') = ''system''" "lower (strip ''pending'') = ''pending''"
  by code_simp+

lemma saved_raw_category:
  assumes "map_of (sv_metadata v) ''asset_category'' = None"
  shows "raw_asset_category (dict_sort (sv_metadata (classified_service v now s))) = fst (snd (classify_stored_asset v))"
proof -
  let ?c = "fst (snd (classify_stored_asset v))"
  have c: "?c \<in> {''main'', ''pending'', ''system''}"
    by (simp only: classify_category stored_category_cases)
  have "dget (dict_sort (sv_metadata (classified_service v now s))) ''asset_category'' = JStr ?c"
    by (simp add: dget_dict_sort classified_metadata dget_setdefault map_of_setdefault assms)
  then have "raw_asset_category (dict_sort (sv_metadata (classified_service v now s))) = lower (strip ?c)"
    using c by (auto simp: raw_asset_category_def py_or_def)
  then show ?thesis using c by auto
qed

section \<open>Properties\<close>

text \<open>The scores are bounded and decide the bucket: a view's score is between 0 and 100, and its bucket
  is \<open>main\<close> for a manually marked service or one with at least 50 points, \<open>pending\<close> from 20 points and
  \<open>system\<close> below; a stored score is between -100 and 100, its category is one of three, and there is
  always a reason.\<close>

theorem service_scores_are_bounded:
  "(case classify_service_asset v of
      Inl e \<Rightarrow> unhashable (dget (sv_metadata v) ''bind_address'')
    | Inr d \<Rightarrow> \<exists>score manual.
        dget d ''asset_score'' = JInt score \<and> 0 \<le> score \<and> score \<le> 100
        \<and> dget d ''manual_business_asset'' = JBool manual
        \<and> dget d ''asset_bucket'' = JStr (if manual \<or> score \<ge> 50 then ''main''
                                      else if score \<ge> 20 then ''pending'' else ''system''))
    \<and> (case classify_stored_asset v of (score, category, reasons) \<Rightarrow>
        -100 \<le> score \<and> score \<le> 100 \<and> category \<in> {''main'', ''pending'', ''system''} \<and> reasons \<noteq> [])"
proof -
  have "case classify_service_asset v of
      Inl e \<Rightarrow> unhashable (dget (sv_metadata v) ''bind_address'')
    | Inr d \<Rightarrow> \<exists>score manual.
        dget d ''asset_score'' = JInt score \<and> 0 \<le> score \<and> score \<le> 100
        \<and> dget d ''manual_business_asset'' = JBool manual
        \<and> dget d ''asset_bucket'' = JStr (if manual \<or> score \<ge> 50 then ''main''
                                      else if score \<ge> 20 then ''pending'' else ''system'')"
    by (simp add: classify_service_asset_def Let_def asset_bucket_of_def)
  moreover have "case classify_stored_asset v of (score, category, reasons) \<Rightarrow>
        -100 \<le> score \<and> score \<le> 100 \<and> category \<in> {''main'', ''pending'', ''system''} \<and> reasons \<noteq> []"
    using stored_category_cases [of v "rule_score (stored_asset_rules v)"]
    by (simp add: classify_stored_asset_def Let_def)
  ultimately show ?thesis by blast
qed

text \<open>The first classification of a service sticks: it is written into the metadata, and a later save
  of a record that keeps that metadata takes it for a statement of the operator.  A service first seen
  as \<open>system\<close> stays \<open>system\<close> unless it is registered by hand, whatever domains, ports or paths it
  gains, and one first seen as \<open>main\<close> stays \<open>main\<close>.\<close>

theorem first_classification_sticks:
  assumes "map_of (sv_metadata v) ''asset_category'' = None"
    and "load_service_record (snd (save_service_record v now s)) (sv_service_id v) = Some w"
    and "sv_metadata v' = sv_metadata w"
  shows "(sv_asset_category w = ''main'' \<longrightarrow> sv_asset_category (fst (save_service_record v' now' s')) = ''main'')
    \<and> (sv_asset_category w = ''system'' \<and> sv_source v' \<noteq> ''manual'' \<longrightarrow>
        sv_asset_category (fst (save_service_record v' now' s')) = ''system'')"
proof -
  have w: "sv_metadata w = dict_sort (sv_metadata (classified_service v now s))"
    "sv_asset_category w = fst (snd (classify_stored_asset v))"
    using assms(2) by (auto simp: load_saved_service sv_reread_def split: option.splits)
  then have raw: "raw_asset_category (sv_metadata v') = sv_asset_category w"
    using saved_raw_category [OF assms(1)] assms(3) by simp
  have "sv_asset_category w \<in> {''main'', ''pending'', ''system''}"
    by (simp only: w(2) classify_category stored_category_cases)
  then show ?thesis
    by (auto simp: classify_category stored_category_alt raw BUSINESS_CATEGORIES_def SYSTEM_CATEGORIES_def Let_def)
qed

definition sample_service :: service_record where
  "sample_service = \<lparr>sv_service_id = ''svc_n1_etl-worker'', sv_name = ''etl-worker'', sv_node_id = ''n1'',
     sv_kind = ''docker'', sv_runtime = ''etl:1'', sv_domains = [], sv_ports = [], sv_deploy_path = [],
     sv_config_paths = [], sv_env_paths = [], sv_data_paths = [], sv_health_check_url = [],
     sv_monitor_enabled = False, sv_docs_path = [], sv_source = ''discovery'', sv_status = ''active'',
     sv_metadata = [], sv_asset_score = 0, sv_asset_category = ''pending'', sv_why_asset = [],
     sv_created_at = None, sv_updated_at = None\<rparr>"

lemma sample_service_system: "sv_asset_category (classified_service sample_service 5 s) = ''system''"
  by (simp add: classify_category) code_simp

theorem first_classification_sticks_witness:
  "let w = sv_reread (classified_service sample_service 5 empty_store);
       richer = w\<lparr>sv_domains := [''etl.example.org''], sv_ports := [443], sv_deploy_path := ''/srv/etl'',
                  sv_health_check_url := ''https://etl.example.org'', sv_monitor_enabled := True\<rparr>
   in sv_asset_category w = ''system'' \<and> sv_asset_category (fst (save_service_record richer 9 empty_store)) = ''system''"
proof -
  let ?w = "sv_reread (classified_service sample_service 5 empty_store)"
  let ?r = "?w\<lparr>sv_domains := [''etl.example.org''], sv_ports := [443], sv_deploy_path := ''/srv/etl'',
                sv_health_check_url := ''https://etl.example.org'', sv_monitor_enabled := True\<rparr>"
  have w: "sv_asset_category ?w = ''system''" using sample_service_system by (simp add: sv_reread_def)
  have "map_of (sv_metadata sample_service) ''asset_category'' = None" by (simp add: sample_service_def)
  moreover have "load_service_record (snd (save_service_record sample_service 5 empty_store)) (sv_service_id sample_service)
      = Some ?w"
  proof -
    have "load_service_record empty_store k = None" for k
      by (simp add: load_service_record_def empty_store_def)
    then show ?thesis by (simp add: load_saved_service)
  qed
  moreover have "sv_metadata ?r = sv_metadata ?w" by simp
  ultimately have "sv_asset_category ?w = ''system'' \<and> sv_source ?r \<noteq> ''manual'' \<longrightarrow>
      sv_asset_category (fst (save_service_record ?r 9 empty_store)) = ''system''"
    by (rule first_classification_sticks [THEN conjunct2])
  moreover have "sv_source ?r \<noteq> ''manual''"
    by (simp add: sv_reread_def classified_service_def sample_service_def Let_def split: prod.split)
  ultimately show ?thesis using w by (simp add: Let_def)
qed

end
