(* ===== verification/Manifest.thy ===== *)
theory Manifest imports AuditLog begin

text \<open>
  \<open>components.py\<close>: component manifests, their validation, and the component catalogue
  (\<open>ComponentRegistry\<close> and the \<open>components\<close> table).  A manifest is a mapping with string keys.
  Python's \<open>==\<close> identifies \<open>True\<close>, \<open>1\<close> and \<open>1.0\<close>; \<open>py_eq\<close> does so through a normal form of
  numbers (exact for integers below \<open>10 ^ 16\<close>, whose float has the same digits).  The checks of the
  required playbooks iterate over a set; the model takes the sorted order, which only decides which
  of several errors is reported.
\<close>

section \<open>Python equality and membership\<close>

primrec json_norm :: "json \<Rightarrow> json" where
  "json_norm JNull = JNull"
| "json_norm (JBool b) = JFloat (if b then ''1.0'' else ''0.0'')"
| "json_norm (JInt i) = JFloat (show_int i @ ''.0'')"
| "json_norm (JFloat s) = JFloat (if s = ''-0.0'' then ''0.0'' else s)"
| "json_norm (JStr s) = JStr s"
| "json_norm (JList xs) = JList (map json_norm xs)"
| "json_norm (JObj d) = JObj (sort_key fst (map (map_prod id json_norm) d))"

definition py_eq :: "json \<Rightarrow> json \<Rightarrow> bool" where
  "py_eq a b \<longleftrightarrow> json_norm a = json_norm b"

definition hashable :: "json \<Rightarrow> bool" where
  "hashable v = (case v of JList _ \<Rightarrow> False | JObj _ \<Rightarrow> False | _ \<Rightarrow> True)"

definition py_in :: "json \<Rightarrow> json list \<Rightarrow> bool" where
  "py_in v xs \<longleftrightarrow> list_ex (py_eq v) xs"

text \<open>\<open>v in s\<close> for a set \<open>s\<close> raises on an unhashable \<open>v\<close>.\<close>

definition in_set :: "json \<Rightarrow> json list \<Rightarrow> bool result" where
  "in_set v xs = (if hashable v then Inr (py_in v xs) else Inl (TypeError ''unhashable type''))"

section \<open>The manifest\<close>

record manifest =
  mf_id :: string
  mf_name :: string
  mf_version :: string
  mf_api_version :: int
  mf_summary :: string
  mf_risk :: string
  mf_requires :: dict
  mf_provides :: dict
  mf_permissions :: dict
  mf_config_schema :: dict
  mf_drivers :: dict
  mf_playbooks :: dict
  mf_health :: dict
  mf_audit :: dict
  mf_source :: string

definition manifest_json :: "manifest \<Rightarrow> dict" where
  "manifest_json c =
     [(''id'', JStr (mf_id c)), (''name'', JStr (mf_name c)), (''version'', JStr (mf_version c)),
      (''api_version'', JInt (mf_api_version c)), (''summary'', JStr (mf_summary c)),
      (''risk'', JStr (mf_risk c)), (''requires'', JObj (mf_requires c)),
      (''provides'', JObj (mf_provides c)), (''permissions'', JObj (mf_permissions c)),
      (''config_schema'', JObj (mf_config_schema c)), (''drivers'', JObj (mf_drivers c)),
      (''playbooks'', JObj (mf_playbooks c)), (''health'', JObj (mf_health c)),
      (''audit'', JObj (mf_audit c)), (''source'', JStr (mf_source c))]"

definition REQUIRED_FIELDS :: "string list" where
  "REQUIRED_FIELDS = [''id'', ''name'', ''version'', ''api_version'', ''risk'', ''requires'', ''provides'',
     ''drivers'', ''playbooks'', ''audit'']"

definition ALLOWED_API_VERSIONS :: "json list" where
  "ALLOWED_API_VERSIONS = [JInt 1]"

definition ALLOWED_RISKS :: "json list" where
  "ALLOWED_RISKS = [JStr ''high'', JStr ''low'', JStr ''medium'']"

definition REQUIRED_PLAYBOOKS :: "string list" where
  "REQUIRED_PLAYBOOKS = [''configure'', ''install'', ''uninstall'', ''verify'']"

definition require_mapping :: "json \<Rightarrow> string \<Rightarrow> dict result" where
  "require_mapping data field =
     (case data of
        JObj d \<Rightarrow> Inr d
      | _ \<Rightarrow> Inl (ValueError (''component manifest '' @ field @ '' must be a mapping'')))"

definition non_empty_string :: "json \<Rightarrow> bool" where
  "non_empty_string v = (case v of JStr s \<Rightarrow> strip s \<noteq> [] | _ \<Rightarrow> False)"

definition require_non_empty_string :: "dict \<Rightarrow> string \<Rightarrow> unit result" where
  "require_non_empty_string data field =
     (if non_empty_string (dget data field) then Inr ()
      else Inl (ValueError (''component manifest '' @ field @ '' must be a non-empty string'')))"

fun check_all :: "('a \<Rightarrow> unit result) \<Rightarrow> 'a list \<Rightarrow> unit result" where
  "check_all f [] = Inr ()"
| "check_all f (x # xs) = bind_result (f x) (\<lambda>_. check_all f xs)"

text \<open>\<open>', '.join(xs)\<close> needs strings.\<close>

definition join_json :: "string \<Rightarrow> json list \<Rightarrow> string result" where
  "join_json sep xs =
     (if list_all (\<lambda>v. case v of JStr _ \<Rightarrow> True | _ \<Rightarrow> False) xs then Inr (join_with sep (map py_str xs))
      else Inl (TypeError ''sequence item: expected str instance''))"

definition check_config_schema :: "json \<Rightarrow> unit result" where
  "check_config_schema v =
     bind_result (require_mapping (py_or v (JObj [])) ''config_schema'') (\<lambda>config_schema.
       let required_config = py_or (dget config_schema ''required'') (JList []);
           properties = py_or (dget config_schema ''properties'') (JObj [])
       in case required_config of
            JList names \<Rightarrow>
              (case properties of
                 JObj props \<Rightarrow>
                   if list_ex (\<lambda>n. \<not> hashable n) names then Inl (TypeError ''unhashable type'')
                   else let missing_properties = filter (\<lambda>n. \<not> py_in n (map (\<lambda>p. JStr (fst p)) props)) names
                        in if missing_properties = [] then Inr ()
                           else bind_result (join_json '', '' missing_properties) (\<lambda>text.
                             Inl (ValueError (''component manifest config_schema.required entries missing properties: '' @ text)))
               | _ \<Rightarrow> Inl (ValueError ''component manifest config_schema.properties must be a mapping''))
          | _ \<Rightarrow> Inl (ValueError ''component manifest config_schema.required must be a list''))"

definition check_drivers :: "json \<Rightarrow> unit result" where
  "check_drivers v =
     bind_result (require_mapping v ''drivers'') (\<lambda>drivers.
       case dget drivers ''options'' of
         JList driver_options \<Rightarrow>
           if driver_options = [] then Inl (ValueError ''component manifest drivers.options must be a non-empty list'')
           else if \<not> py_in (dget drivers ''default'') driver_options
                then Inl (ValueError ''component manifest drivers.default must be included in drivers.options'')
           else Inr ()
       | _ \<Rightarrow> Inl (ValueError ''component manifest drivers.options must be a non-empty list''))"

definition check_playbooks :: "json \<Rightarrow> unit result" where
  "check_playbooks v =
     bind_result (require_mapping v ''playbooks'') (\<lambda>playbooks.
       let missing_playbooks = filter (\<lambda>k. k \<notin> fst ` set playbooks) REQUIRED_PLAYBOOKS
       in if missing_playbooks \<noteq> []
          then Inl (ValueError (''component manifest missing playbooks.'' @ join_with '', playbooks.'' missing_playbooks))
          else check_all (\<lambda>key. if non_empty_string (dget playbooks key) then Inr ()
                 else Inl (ValueError (''component manifest playbooks.'' @ key @ '' must be a non-empty string'')))
               REQUIRED_PLAYBOOKS)"

definition check_audit :: "json \<Rightarrow> unit result" where
  "check_audit v =
     bind_result (require_mapping v ''audit'') (\<lambda>audit.
       if non_empty_string (dget audit ''category'') then Inr ()
       else Inl (ValueError ''component manifest audit.category must be a non-empty string''))"

definition validate_manifest_data :: "dict \<Rightarrow> unit result" where
  "validate_manifest_data data =
     (let missing = filter (\<lambda>f. f \<notin> fst ` set data) REQUIRED_FIELDS
      in if missing \<noteq> [] then Inl (ValueError (''component manifest missing required fields: '' @ join_with '', '' missing))
         else bind_result (check_all (require_non_empty_string data) [''id'', ''name'', ''version'']) (\<lambda>_.
              bind_result (in_set (dget data ''api_version'') ALLOWED_API_VERSIONS) (\<lambda>ok.
              if \<not> ok then Inl (ValueError ''component manifest api_version must be one of [1]'')
              else bind_result (in_set (dget data ''risk'') ALLOWED_RISKS) (\<lambda>ok.
              if \<not> ok then Inl (ValueError (''component manifest risk must be one of '' @ py_repr (JList ALLOWED_RISKS)))
              else bind_result (require_mapping (dget data ''requires'') ''requires'') (\<lambda>_.
              bind_result (require_mapping (dget data ''provides'') ''provides'') (\<lambda>_.
              bind_result (check_config_schema (dget data ''config_schema'')) (\<lambda>_.
              bind_result (check_drivers (dget data ''drivers'')) (\<lambda>_.
              bind_result (check_playbooks (dget data ''playbooks'')) (\<lambda>_.
              check_audit (dget data ''audit''))))))))))"

section \<open>Reading a manifest\<close>

text \<open>\<open>int(data['api_version'])\<close> is 1 for every accepted value.\<close>

definition manifest_from_dict :: "dict \<Rightarrow> string \<Rightarrow> manifest result" where
  "manifest_from_dict data source =
     bind_result (validate_manifest_data data) (\<lambda>_.
     bind_result (py_dict (dget data ''requires'')) (\<lambda>requires.
     bind_result (py_dict (dget data ''provides'')) (\<lambda>provides.
     bind_result (py_dict (dget data ''permissions'')) (\<lambda>permissions.
     bind_result (py_dict (dget data ''config_schema'')) (\<lambda>config_schema.
     bind_result (py_dict (dget data ''drivers'')) (\<lambda>drivers.
     bind_result (py_dict (dget data ''playbooks'')) (\<lambda>playbooks.
     bind_result (py_dict (dget data ''health'')) (\<lambda>health.
     bind_result (py_dict (dget data ''audit'')) (\<lambda>audit.
       Inr \<lparr>mf_id = py_str (dget data ''id''), mf_name = py_str (dget data ''name''),
            mf_version = py_str (dget data ''version''), mf_api_version = 1,
            mf_summary = py_str (dget_or data ''summary'' (JStr [])), mf_risk = py_str (dget data ''risk''),
            mf_requires = requires, mf_provides = provides, mf_permissions = permissions,
            mf_config_schema = config_schema, mf_drivers = drivers, mf_playbooks = playbooks,
            mf_health = health, mf_audit = audit, mf_source = source\<rparr>)))))))))"

text \<open>\<open>doc\<close> is what the YAML reader returns for the file at \<open>path\<close>.\<close>

definition load_component_manifest :: "json \<Rightarrow> string \<Rightarrow> manifest result" where
  "load_component_manifest doc path =
     (case py_or doc (JObj []) of
        JObj data \<Rightarrow> manifest_from_dict data path
      | _ \<Rightarrow> Inl (ValueError ''component manifest must be a mapping''))"

section \<open>The catalogue\<close>

type_synonym catalogue = "(string \<times> manifest) list"

fun load_manifests :: "dict list \<Rightarrow> catalogue \<Rightarrow> catalogue result" where
  "load_manifests [] cs = Inr cs"
| "load_manifests (d # ds) cs =
     bind_result (manifest_from_dict d ''builtin'') (\<lambda>c. load_manifests ds (AList.update (mf_id c) c cs))"

text \<open>\<open>docs\<close> are the parsed \<open>component.yaml\<close> files of the package.\<close>

definition load_builtin_components :: "dict list \<Rightarrow> catalogue result" where
  "load_builtin_components docs =
     bind_result (load_manifests docs []) (\<lambda>cs. Inr (sort_key fst cs))"

definition component_registry :: "catalogue \<Rightarrow> catalogue" where
  "component_registry cs = sort_key fst cs"

definition registry_list :: "catalogue \<Rightarrow> manifest list" where
  "registry_list r = map snd r"

definition registry_get_component :: "catalogue \<Rightarrow> string \<Rightarrow> manifest result" where
  "registry_get_component r component_id =
     (case map_of r component_id of
        None \<Rightarrow> Inl (KeyError (''component not found: '' @ component_id))
      | Some c \<Rightarrow> Inr c)"

definition registry_validate :: "catalogue \<Rightarrow> string \<Rightarrow> manifest result" where
  "registry_validate r component_id =
     bind_result (registry_get_component r component_id) (\<lambda>c.
     bind_result (validate_manifest_data (manifest_json c)) (\<lambda>_. Inr c))"

section \<open>The component table\<close>

definition merge_component :: "component_row \<Rightarrow> component_row \<Rightarrow> component_row" where
  "merge_component old new = new\<lparr>cm_enabled_at := cm_enabled_at old\<rparr>"

definition save_component :: "manifest \<Rightarrow> store \<Rightarrow> store" where
  "save_component c s =
     s\<lparr>components := tbl_upsert cm_component_id merge_component
         \<lparr>cm_component_id = mf_id c, cm_name = mf_name c, cm_version = mf_version c,
          cm_api_version = mf_api_version c, cm_source = mf_source c, cm_status = ''available'',
          cm_enabled_at = None, cm_manifest_json = json_sort (JObj (manifest_json c))\<rparr> (components s)\<rparr>"

text \<open>The column always holds an object: only \<open>save_component\<close> writes it.\<close>

definition load_component :: "store \<Rightarrow> string \<Rightarrow> manifest option result" where
  "load_component s component_id =
     (case tbl_find cm_component_id component_id (components s) of
        None \<Rightarrow> Inr None
      | Some row \<Rightarrow>
          (case cm_manifest_json row of
             JObj data \<Rightarrow> bind_result (manifest_from_dict data (cm_source row)) (\<lambda>c. Inr (Some c))
           | _ \<Rightarrow> Inl (TypeError ''argument is not a mapping'')))"

fun load_each :: "store \<Rightarrow> string list \<Rightarrow> manifest list result" where
  "load_each s [] = Inr []"
| "load_each s (k # ks) =
     bind_result (load_component s k) (\<lambda>c.
     bind_result (load_each s ks) (\<lambda>cs. Inr (case c of None \<Rightarrow> cs | Some c \<Rightarrow> c # cs)))"

definition list_components :: "store \<Rightarrow> manifest list result" where
  "list_components s = load_each s (map cm_component_id (order_by cm_component_id (components s)))"

section \<open>What an accepted manifest holds\<close>

definition config_schema_ok :: "json \<Rightarrow> bool" where
  "config_schema_ok v \<longleftrightarrow> (\<exists>cs names props. py_or v (JObj []) = JObj cs
     \<and> py_or (dget cs ''required'') (JList []) = JList names
     \<and> py_or (dget cs ''properties'') (JObj []) = JObj props
     \<and> (\<forall>n \<in> set names. hashable n \<and> py_in n (map (\<lambda>p. JStr (fst p)) props)))"

definition drivers_ok :: "json \<Rightarrow> bool" where
  "drivers_ok v \<longleftrightarrow> (\<exists>d opts. v = JObj d \<and> dget d ''options'' = JList opts \<and> opts \<noteq> []
     \<and> py_in (dget d ''default'') opts)"

definition playbooks_ok :: "json \<Rightarrow> bool" where
  "playbooks_ok v \<longleftrightarrow> (\<exists>d. v = JObj d \<and> (\<forall>k \<in> set REQUIRED_PLAYBOOKS. k \<in> fst ` set d \<and> non_empty_string (dget d k)))"

definition audit_ok :: "json \<Rightarrow> bool" where
  "audit_ok v \<longleftrightarrow> (\<exists>d. v = JObj d \<and> non_empty_string (dget d ''category''))"

definition is_obj :: "json \<Rightarrow> bool" where
  "is_obj v \<longleftrightarrow> (\<exists>d. v = JObj d)"

definition manifest_ok :: "dict \<Rightarrow> bool" where
  "manifest_ok data \<longleftrightarrow>
     set REQUIRED_FIELDS \<subseteq> fst ` set data
     \<and> non_empty_string (dget data ''id'') \<and> non_empty_string (dget data ''name'')
     \<and> non_empty_string (dget data ''version'')
     \<and> hashable (dget data ''api_version'') \<and> py_in (dget data ''api_version'') ALLOWED_API_VERSIONS
     \<and> hashable (dget data ''risk'') \<and> py_in (dget data ''risk'') ALLOWED_RISKS
     \<and> is_obj (dget data ''requires'') \<and> is_obj (dget data ''provides'')
     \<and> config_schema_ok (dget data ''config_schema'') \<and> drivers_ok (dget data ''drivers'')
     \<and> playbooks_ok (dget data ''playbooks'') \<and> audit_ok (dget data ''audit'')"

lemma check_all_ok: "check_all f xs = Inr () \<longleftrightarrow> (\<forall>x \<in> set xs. f x = Inr ())"
  by (induction xs) (auto simp: bind_result_Inr_iff)

lemma require_mapping_ok: "require_mapping v field = Inr d \<longleftrightarrow> v = JObj d"
  by (auto simp: require_mapping_def split: json.splits)

lemma check_config_schema_ok: "check_config_schema v = Inr () \<longleftrightarrow> config_schema_ok v"
proof (cases "py_or v (JObj [])")
  case (JObj cs)
  then show ?thesis
    by (auto simp: check_config_schema_def config_schema_ok_def require_mapping_def Let_def list_ex_iff
        filter_empty_conv bind_result_def join_json_def split: json.splits sum.splits if_splits)
qed (auto simp: check_config_schema_def config_schema_ok_def require_mapping_def)

lemma check_drivers_ok: "check_drivers v = Inr () \<longleftrightarrow> drivers_ok v"
proof (cases v)
  case (JObj d)
  then show ?thesis
    by (cases "dget d ''options''") (auto simp: check_drivers_def drivers_ok_def require_mapping_def)
qed (auto simp: check_drivers_def drivers_ok_def require_mapping_def)

lemma check_playbooks_ok: "check_playbooks v = Inr () \<longleftrightarrow> playbooks_ok v"
  by (auto simp: check_playbooks_def playbooks_ok_def bind_result_Inr_iff require_mapping_ok check_all_ok
      Let_def filter_empty_conv split: if_splits)

lemma check_audit_ok: "check_audit v = Inr () \<longleftrightarrow> audit_ok v"
  by (auto simp: check_audit_def audit_ok_def bind_result_Inr_iff require_mapping_ok split: if_splits)

lemma validate_manifest_ok: "validate_manifest_data data = Inr () \<longleftrightarrow> manifest_ok data"
  by (auto simp: validate_manifest_data_def manifest_ok_def Let_def bind_result_Inr_iff filter_empty_conv
      check_all_ok check_config_schema_ok check_drivers_ok check_playbooks_ok check_audit_ok
      require_mapping_ok require_non_empty_string_def in_set_def is_obj_def split: if_splits)

subsection \<open>The checks do not see the order of keys\<close>

lemma json_norm_sort: "json_norm (json_sort v) = json_norm v"
proof (induction v)
  case (JObj d)
  have "map (map_prod id json_norm) (map (map_prod id json_sort) d) = map (map_prod id json_norm) d"
    using JObj.IH by (fastforce intro: snds.intros)
  then show ?case
    by (simp only: json_sort_JObj dict_sort_def json_norm.simps map_prod_sort_key sort_key_idem)
qed simp_all

lemma py_eq_sort [simp]: "py_eq (json_sort a) b = py_eq a b" "py_eq a (json_sort b) = py_eq a b"
  by (simp_all add: py_eq_def json_norm_sort)

lemma py_in_sort [simp]: "py_in (json_sort a) xs = py_in a xs" "py_in a (map json_sort xs) = py_in a xs"
proof -
  show "py_in (json_sort a) xs = py_in a xs" by (simp add: py_in_def list_ex_iff)
  show "py_in a (map json_sort xs) = py_in a xs" by (simp add: py_in_def list_ex_iff)
qed

lemma hashable_sort [simp]: "hashable (json_sort v) = hashable v"
  by (cases v) (simp_all add: hashable_def)

lemma non_empty_string_sort [simp]: "non_empty_string (json_sort v) = non_empty_string v"
  by (cases v) (simp_all add: non_empty_string_def)

lemma py_or_sort: "py_or (json_sort a) (json_sort b) = json_sort (py_or a b)"
  by (simp add: py_or_def)

lemma json_sort_eq_JObj: "json_sort v = JObj e \<longleftrightarrow> (\<exists>d. v = JObj d \<and> e = dict_sort d)"
  by (cases v) auto

lemma json_sort_eq_JList: "json_sort v = JList ys \<longleftrightarrow> (\<exists>xs. v = JList xs \<and> ys = map json_sort xs)"
  by (cases v) auto

lemma dict_ok_sort:
  "is_obj v \<Longrightarrow> is_obj (json_sort v)"
  "audit_ok v \<Longrightarrow> audit_ok (json_sort v)"
  "playbooks_ok v \<Longrightarrow> playbooks_ok (json_sort v)"
  "drivers_ok v \<Longrightarrow> drivers_ok (json_sort v)"
  by (auto simp: is_obj_def audit_ok_def playbooks_ok_def drivers_ok_def json_sort_eq_JObj dget_dict_sort)

lemma py_in_cong: "set xs = set ys \<Longrightarrow> py_in n xs = py_in n ys"
  by (simp add: py_in_def list_ex_iff)

lemma config_schema_ok_sort:
  assumes "config_schema_ok v"
  shows "config_schema_ok (json_sort v)"
proof -
  obtain cs names props where cs: "py_or v (JObj []) = JObj cs"
    and names: "py_or (dget cs ''required'') (JList []) = JList names"
    and props: "py_or (dget cs ''properties'') (JObj []) = JObj props"
    and all: "\<forall>n \<in> set names. hashable n \<and> py_in n (map (\<lambda>p. JStr (fst p)) props)"
    using assms by (auto simp: config_schema_ok_def)
  have keys: "py_in n (map (\<lambda>p. JStr (fst p)) (dict_sort props)) = py_in n (map (\<lambda>p. JStr (fst p)) props)" for n
  proof (rule py_in_cong)
    have "JStr ` fst ` set (dict_sort props) = JStr ` fst ` set props" by (simp only: set_fst_dict_sort)
    then show "set (map (\<lambda>p. JStr (fst p)) (dict_sort props)) = set (map (\<lambda>p. JStr (fst p)) props)"
      by (simp only: image_image set_map)
  qed
  have "py_or (json_sort v) (JObj []) = JObj (dict_sort cs)"
    using py_or_sort [of v "JObj []"] cs by simp
  moreover have "py_or (dget (dict_sort cs) ''required'') (JList []) = JList (map json_sort names)"
    using py_or_sort [of "dget cs ''required''" "JList []"] names by (simp add: dget_dict_sort)
  moreover have "py_or (dget (dict_sort cs) ''properties'') (JObj []) = JObj (dict_sort props)"
    using py_or_sort [of "dget cs ''properties''" "JObj []"] props by (simp add: dget_dict_sort)
  ultimately show ?thesis using all keys by (auto simp: config_schema_ok_def)
qed

lemma manifest_ok_sort: "manifest_ok data \<Longrightarrow> manifest_ok (dict_sort data)"
  by (auto simp: manifest_ok_def dget_dict_sort dict_ok_sort config_schema_ok_sort)

section \<open>A manifest survives the table\<close>

lemma json_norm_JStr: "json_norm v = JStr s \<longleftrightarrow> v = JStr s"
  by (cases v) auto

lemma risk_text: "py_in v ALLOWED_RISKS \<longleftrightarrow> v = JStr ''high'' \<or> v = JStr ''low'' \<or> v = JStr ''medium''"
  by (auto simp: py_in_def ALLOWED_RISKS_def py_eq_def json_norm_JStr)

lemma non_empty_string_text: "non_empty_string v \<longleftrightarrow> (\<exists>s. v = JStr s \<and> strip s \<noteq> [])"
  by (cases v) (auto simp: non_empty_string_def)

lemma config_schema_dict: "config_schema_ok v \<Longrightarrow> py_dict v = Inr d \<Longrightarrow> config_schema_ok (JObj d)"
  by (auto simp: config_schema_ok_def py_dict_def py_or_def split: if_splits)

lemma manifest_from_dict_Inr:
  assumes "manifest_from_dict data source = Inr c"
  shows "manifest_ok data" and "manifest_ok (manifest_json c)"
proof -
  show ok: "manifest_ok data" using assms by (auto simp: manifest_from_dict_def bind_result_Inr_iff validate_manifest_ok)
  have dicts: "py_dict (dget data ''requires'') = Inr (mf_requires c)"
    "py_dict (dget data ''provides'') = Inr (mf_provides c)"
    "py_dict (dget data ''config_schema'') = Inr (mf_config_schema c)"
    "py_dict (dget data ''drivers'') = Inr (mf_drivers c)"
    "py_dict (dget data ''playbooks'') = Inr (mf_playbooks c)"
    "py_dict (dget data ''audit'') = Inr (mf_audit c)"
    and fields: "mf_id c = py_str (dget data ''id'')" "mf_name c = py_str (dget data ''name'')"
    "mf_version c = py_str (dget data ''version'')" "mf_risk c = py_str (dget data ''risk'')" "mf_api_version c = 1"
    using assms by (auto simp: manifest_from_dict_def bind_result_Inr_iff)
  from ok fields have strs: "non_empty_string (JStr (mf_id c))" "non_empty_string (JStr (mf_name c))"
    "non_empty_string (JStr (mf_version c))" "py_in (JStr (mf_risk c)) ALLOWED_RISKS"
    by (auto simp: manifest_ok_def non_empty_string_text risk_text)
  have "drivers_ok (JObj (mf_drivers c))" "playbooks_ok (JObj (mf_playbooks c))" "audit_ok (JObj (mf_audit c))"
    using ok dicts by (auto simp: manifest_ok_def drivers_ok_def playbooks_ok_def audit_ok_def)
  moreover have "config_schema_ok (JObj (mf_config_schema c))"
    using ok dicts(3) config_schema_dict by (auto simp: manifest_ok_def)
  ultimately show "manifest_ok (manifest_json c)"
    using strs fields by (simp add: manifest_ok_def manifest_json_def REQUIRED_FIELDS_def is_obj_def hashable_def
        py_in_def ALLOWED_API_VERSIONS_def py_eq_def)
qed

definition manifest_reread :: "manifest \<Rightarrow> manifest" where
  "manifest_reread c = c\<lparr>mf_requires := dict_sort (mf_requires c), mf_provides := dict_sort (mf_provides c),
     mf_permissions := dict_sort (mf_permissions c), mf_config_schema := dict_sort (mf_config_schema c),
     mf_drivers := dict_sort (mf_drivers c), mf_playbooks := dict_sort (mf_playbooks c),
     mf_health := dict_sort (mf_health c), mf_audit := dict_sort (mf_audit c)\<rparr>"

lemma manifest_from_sorted_json:
  assumes "manifest_ok (manifest_json c)" and "mf_api_version c = 1"
  shows "manifest_from_dict (dict_sort (manifest_json c)) (mf_source c) = Inr (manifest_reread c)"
proof -
  have "validate_manifest_data (dict_sort (manifest_json c)) = Inr ()"
    using assms(1) by (simp add: validate_manifest_ok manifest_ok_sort)
  moreover have "dget_or (dict_sort (manifest_json c)) ''summary'' x = JStr (mf_summary c)" for x
    by (simp add: dget_or_def map_of_dict_sort manifest_json_def)
  ultimately show ?thesis using assms(2)
    by (simp add: manifest_from_dict_def dget_dict_sort)
      (simp add: manifest_json_def manifest_reread_def)
qed

lemma load_saved_component:
  assumes "manifest_ok (manifest_json c)" and "mf_api_version c = 1"
  shows "load_component (save_component c s) k
    = (if k = mf_id c then Inr (Some (manifest_reread c)) else load_component s k)"
proof -
  let ?new = "\<lparr>cm_component_id = mf_id c, cm_name = mf_name c, cm_version = mf_version c,
     cm_api_version = mf_api_version c, cm_source = mf_source c, cm_status = ''available'',
     cm_enabled_at = None, cm_manifest_json = json_sort (JObj (manifest_json c))\<rparr>"
  have "tbl_find cm_component_id k (components (save_component c s))
      = (if k = mf_id c
         then Some (case tbl_find cm_component_id k (components s) of None \<Rightarrow> ?new | Some old \<Rightarrow> merge_component old ?new)
         else tbl_find cm_component_id k (components s))"
    unfolding save_component_def by (simp add: tbl_find_upsert merge_component_def split: option.split)
  then show ?thesis
    using manifest_from_sorted_json [OF assms]
    by (auto simp: load_component_def merge_component_def split: option.splits)
qed

section \<open>Properties\<close>

definition sample_manifest_data :: dict where
  "sample_manifest_data =
     [(''id'', JStr ''proxy.caddy''), (''name'', JStr ''Caddy''), (''version'', JStr ''1.0''), (''api_version'', JBool True),
      (''risk'', JStr ''medium''), (''requires'', JObj []), (''provides'', JObj []),
      (''config_schema'', JObj [(''required'', JList [JStr ''site'']), (''properties'', JObj [(''site'', JObj [])])]),
      (''drivers'', JObj [(''options'', JList [JStr ''apt'']), (''default'', JStr ''apt'')]),
      (''playbooks'', JObj [(''install'', JStr ''i.yml''), (''configure'', JStr ''c.yml''),
                           (''verify'', JStr ''v.yml''), (''uninstall'', JStr ''u.yml'')]),
      (''audit'', JObj [(''category'', JStr ''web'')])]"

text \<open>C35: an accepted manifest meets its schema: name, version and risk are usable, every required
  configuration entry is described, the default driver is one of the options and all four
  playbooks are named.\<close>

theorem accepted_manifest_is_sound:
  assumes "manifest_from_dict data source = Inr c"
  shows "strip (mf_id c) \<noteq> [] \<and> strip (mf_name c) \<noteq> [] \<and> strip (mf_version c) \<noteq> []
    \<and> mf_api_version c = 1 \<and> mf_risk c \<in> {''high'', ''low'', ''medium''}
    \<and> drivers_ok (JObj (mf_drivers c)) \<and> config_schema_ok (JObj (mf_config_schema c))
    \<and> playbooks_ok (JObj (mf_playbooks c)) \<and> audit_ok (JObj (mf_audit c))"
proof -
  have "mf_api_version c = 1" using assms by (auto simp: manifest_from_dict_def bind_result_Inr_iff)
  with manifest_from_dict_Inr(2) [OF assms] show ?thesis
    by (auto simp: manifest_ok_def manifest_json_def risk_text non_empty_string_def)
qed

lemma accepted_manifest_is_sound_witness:
  "mf_risk (projr (manifest_from_dict sample_manifest_data ''builtin'')) \<in> {''high'', ''low'', ''medium''}"
proof -
  have "manifest_from_dict sample_manifest_data ''builtin''
      = Inr (projr (manifest_from_dict sample_manifest_data ''builtin''))" by code_simp
  from accepted_manifest_is_sound [OF this] show ?thesis by blast
qed

text \<open>A manifest that was accepted can be stored: loading it back from the component table succeeds
  and gives the same manifest, with the keys of its mappings sorted; the catalogue's own validation
  of it succeeds too.\<close>

theorem accepted_manifest_round_trips:
  assumes "manifest_from_dict data source = Inr c"
  shows "load_component (save_component c s) (mf_id c) = Inr (Some (manifest_reread c))
    \<and> registry_validate [(mf_id c, c)] (mf_id c) = Inr c"
proof -
  have "mf_api_version c = 1" using assms by (auto simp: manifest_from_dict_def bind_result_Inr_iff)
  then show ?thesis
    using manifest_from_dict_Inr(2) [OF assms]
    by (simp add: load_saved_component registry_validate_def registry_get_component_def validate_manifest_ok [THEN iffD2])
qed

lemma accepted_manifest_round_trips_witness:
  "load_component (save_component (projr (manifest_from_dict sample_manifest_data ''builtin'')) empty_store) ''proxy.caddy''
    = Inr (Some (manifest_reread (projr (manifest_from_dict sample_manifest_data ''builtin''))))"
proof -
  have ok: "manifest_from_dict sample_manifest_data ''builtin''
      = Inr (projr (manifest_from_dict sample_manifest_data ''builtin''))" by code_simp
  have "mf_id (projr (manifest_from_dict sample_manifest_data ''builtin'')) = ''proxy.caddy''" by code_simp
  with accepted_manifest_round_trips [OF ok, of empty_store] show ?thesis by simp
qed

end
