(* ===== verification/Components.thy ===== *)
theory Components imports Manifest begin

text \<open>
  What \<open>SQLiteStore\<close> keeps about components on nodes: the desired state (\<open>node_components\<close>), the runs
  (\<open>component_runs\<close>), the monitor snapshots and the settings.  A JSON column is read back with its
  keys sorted, except a setting, which is written unsorted.
\<close>

section \<open>Node components\<close>

definition nc_key :: "node_component \<Rightarrow> string \<times> string" where
  "nc_key r = (nc_node_id r, nc_component_id r)"

definition nc_reread :: "node_component \<Rightarrow> node_component" where
  "nc_reread r = r\<lparr>nc_config := dict_sort (nc_config r)\<rparr>"

definition save_node_component :: "node_component \<Rightarrow> store \<Rightarrow> store" where
  "save_node_component item s =
     s\<lparr>node_components := tbl_upsert nc_key replace_row (nc_reread item) (node_components s)\<rparr>"

definition load_node_component :: "store \<Rightarrow> string \<times> string \<Rightarrow> node_component option" where
  "load_node_component s k = tbl_find nc_key k (node_components s)"

definition set_node_component ::
  "string \<Rightarrow> string \<Rightarrow> string \<Rightarrow> string \<Rightarrow> dict \<Rightarrow> string \<Rightarrow> string \<Rightarrow> string \<Rightarrow> string \<Rightarrow> time option
    \<Rightarrow> store \<Rightarrow> node_component \<times> store" where
  "set_node_component node_id component_id desired_state current_state config installed_version driver
       last_plan_id last_run_id last_verified_at s =
     (let item = \<lparr>nc_node_id = node_id, nc_component_id = component_id, nc_desired_state = desired_state,
                  nc_current_state = current_state, nc_config = config,
                  nc_installed_version = installed_version, nc_driver = driver,
                  nc_last_plan_id = last_plan_id, nc_last_run_id = last_run_id,
                  nc_last_verified_at = last_verified_at\<rparr>
      in (item, save_node_component item s))"

text \<open>An empty or missing node id lists all rows.\<close>

definition list_node_components :: "string \<Rightarrow> store \<Rightarrow> node_component list" where
  "list_node_components node_id s =
     (if node_id \<noteq> [] then order_by nc_component_id (filter (\<lambda>r. nc_node_id r = node_id) (node_components s))
      else order_by nc_node_id (order_by nc_component_id (node_components s)))"

section \<open>Component runs\<close>

definition cr_reread :: "component_run \<Rightarrow> component_run" where
  "cr_reread r = r\<lparr>cr_plan := dict_sort (cr_plan r), cr_result := dict_sort (cr_result r)\<rparr>"

definition insert_component_run :: "component_run \<Rightarrow> store \<Rightarrow> store result" where
  "insert_component_run r s =
     bind_result (tbl_insert cr_run_id (cr_reread r) (component_runs s)) (\<lambda>rows. Inr (s\<lparr>component_runs := rows\<rparr>))"

text \<open>The audit event is written in a second transaction, with a second reading of the clock.\<close>

definition record_component_run ::
  "string \<Rightarrow> string \<Rightarrow> string \<Rightarrow> string \<Rightarrow> string \<Rightarrow> dict \<Rightarrow> dict \<Rightarrow> string \<Rightarrow> string \<Rightarrow> (nat \<Rightarrow> time)
    \<Rightarrow> store \<Rightarrow> component_run result \<times> store" where
  "record_component_run component_id node_id action risk status plan result created_by uid clk s =
     (let r = \<lparr>cr_run_id = ''crun_'' @ uid, cr_component_id = component_id, cr_node_id = node_id,
               cr_action = action, cr_risk = risk, cr_status = status, cr_plan = plan, cr_result = result,
               cr_created_by = created_by, cr_created_at = clk 0, cr_completed_at = None\<rparr>
      in case insert_component_run r s of
           Inl e \<Rightarrow> (Inl e, s)
         | Inr s1 \<Rightarrow>
             (Inr r, record_audit ''component'' ''component'' component_id action status
                [(''node_id'', JStr node_id), (''run_id'', JStr (cr_run_id r)), (''risk'', JStr risk)]
                (clk 1) s1))"

definition save_component_run :: "component_run \<Rightarrow> store \<Rightarrow> store" where
  "save_component_run r s =
     s\<lparr>component_runs := tbl_update cr_run_id (cr_run_id r)
         (\<lambda>old. old\<lparr>cr_status := cr_status r, cr_plan := dict_sort (cr_plan r),
                    cr_result := dict_sort (cr_result r), cr_completed_at := cr_completed_at r\<rparr>)
         (component_runs s)\<rparr>"

definition load_component_run :: "store \<Rightarrow> string \<Rightarrow> component_run option" where
  "load_component_run s run_id = tbl_find cr_run_id run_id (component_runs s)"

definition list_component_runs :: "store \<Rightarrow> component_run list" where
  "list_component_runs s = order_desc cr_created_at (component_runs s)"

section \<open>Monitor snapshots\<close>

definition record_monitor_snapshot ::
  "string \<Rightarrow> string \<Rightarrow> string \<Rightarrow> time option \<Rightarrow> int option \<Rightarrow> string \<Rightarrow> string \<Rightarrow> string \<Rightarrow> string \<Rightarrow> string
    \<Rightarrow> dict \<Rightarrow> string \<Rightarrow> time \<Rightarrow> store \<Rightarrow> monitor_snapshot result \<times> store" where
  "record_monitor_snapshot node_id health reason heartbeat_at age_seconds runtime_profile service_manager
       worker_protocol_version worker_version exec_mode facts_summary uid now s =
     (let m = \<lparr>ms_snapshot_id = ''mon_'' @ uid, ms_node_id = node_id, ms_health = health, ms_reason = reason,
               ms_heartbeat_at = heartbeat_at, ms_age_seconds = age_seconds,
               ms_runtime_profile = runtime_profile, ms_service_manager = service_manager,
               ms_worker_protocol_version = worker_protocol_version, ms_worker_version = worker_version,
               ms_exec_mode = exec_mode, ms_facts_summary = facts_summary, ms_created_at = now\<rparr>
      in case tbl_insert ms_snapshot_id (m\<lparr>ms_facts_summary := dict_sort facts_summary\<rparr>) (monitor_snapshots s) of
           Inl e \<Rightarrow> (Inl e, s)
         | Inr rows \<Rightarrow> (Inr m, s\<lparr>monitor_snapshots := rows\<rparr>))"

definition latest_monitor_snapshot :: "string \<Rightarrow> store \<Rightarrow> monitor_snapshot option" where
  "latest_monitor_snapshot node_id s =
     first_row (order_desc ms_created_at (filter (\<lambda>m. ms_node_id m = node_id) (monitor_snapshots s)))"

definition list_monitor_snapshots :: "string \<Rightarrow> store \<Rightarrow> monitor_snapshot list" where
  "list_monitor_snapshots node_id s =
     (if node_id \<noteq> [] then order_desc ms_created_at (filter (\<lambda>m. ms_node_id m = node_id) (monitor_snapshots s))
      else order_desc ms_created_at (monitor_snapshots s))"

section \<open>Settings\<close>

definition get_setting :: "string \<Rightarrow> json \<Rightarrow> store \<Rightarrow> json" where
  "get_setting key fallback s =
     (case tbl_find st_key key (settings s) of None \<Rightarrow> fallback | Some row \<Rightarrow> st_value_json row)"

definition set_setting :: "string \<Rightarrow> json \<Rightarrow> time \<Rightarrow> store \<Rightarrow> store" where
  "set_setting key value now s =
     s\<lparr>settings := tbl_upsert st_key replace_row \<lparr>st_key = key, st_value_json = value, st_updated_at = now\<rparr> (settings s)\<rparr>"

section \<open>Lookups and frames\<close>

lemma nc_key_reread [simp]: "nc_key (nc_reread r) = nc_key r"
  by (simp add: nc_key_def nc_reread_def)

lemma cr_run_id_reread [simp]: "cr_run_id (cr_reread r) = cr_run_id r"
  by (simp add: cr_reread_def)

lemma load_node_component_save [table_simps]:
  "load_node_component (save_node_component r s) k = (if k = nc_key r then Some (nc_reread r) else load_node_component s k)"
  by (simp add: load_node_component_def save_node_component_def tbl_find_upsert_replace)

interpretation node_component_table: keyed_store load_node_component save_node_component nc_key nc_reread
  by unfold_locales (simp add: load_node_component_save)

lemma save_node_component_frame [frame_simps, simp]:
  "join_tokens (save_node_component r s) = join_tokens s"
  "nodes (save_node_component r s) = nodes s"
  "audit_events (save_node_component r s) = audit_events s"
  "tasks (save_node_component r s) = tasks s"
  "approval_requests (save_node_component r s) = approval_requests s"
  "component_runs (save_node_component r s) = component_runs s"
  "components (save_node_component r s) = components s"
  by (simp_all add: save_node_component_def)

lemma set_node_component_snd:
  "snd (set_node_component n c d cs cfg v dr p r lv s)
    = save_node_component (fst (set_node_component n c d cs cfg v dr p r lv s)) s"
  by (simp add: set_node_component_def Let_def)

lemma load_component_run_cong: "component_runs s' = component_runs s \<Longrightarrow> load_component_run s' = load_component_run s"
  by (simp add: load_component_run_def fun_eq_iff)

lemma load_node_component_cong:
  "node_components s' = node_components s \<Longrightarrow> load_node_component s' = load_node_component s"
  by (simp add: load_node_component_def fun_eq_iff)

lemma components_audit [simp]:
  "load_component_run (record_audit et st sid act out d now s) = load_component_run s"
  "load_node_component (record_audit et st sid act out d now s) = load_node_component s"
  "load_component_run (insert_audit_event e s) = load_component_run s"
  "load_node_component (insert_audit_event e s) = load_node_component s"
  "load_component_run (save_node_component r s) = load_component_run s"
  by (rule load_component_run_cong load_node_component_cong, simp)+

lemma insert_component_run_Inr:
  assumes "insert_component_run r s = Inr s'"
  shows "s' = s\<lparr>component_runs := component_runs s @ [cr_reread r]\<rparr>"
    and "load_component_run s (cr_run_id r) = None"
    and "load_component_run s' k = (if k = cr_run_id r then Some (cr_reread r) else load_component_run s k)"
proof -
  show s': "s' = s\<lparr>component_runs := component_runs s @ [cr_reread r]\<rparr>"
    using assms by (auto simp: insert_component_run_def bind_result_Inr_iff dest!: tbl_insert_Inr)
  show none: "load_component_run s (cr_run_id r) = None"
    using assms by (auto simp: insert_component_run_def bind_result_Inr_iff load_component_run_def tbl_find_None
        dest!: tbl_insert_Inr)
  show "load_component_run s' k = (if k = cr_run_id r then Some (cr_reread r) else load_component_run s k)"
    using none by (auto simp: s' load_component_run_def tbl_find_append split: option.splits)
qed

lemma save_component_run_load:
  "load_component_run (save_component_run r s) k =
     (if k = cr_run_id r
      then map_option (\<lambda>old. old\<lparr>cr_status := cr_status r, cr_plan := dict_sort (cr_plan r),
             cr_result := dict_sort (cr_result r), cr_completed_at := cr_completed_at r\<rparr>) (load_component_run s k)
      else load_component_run s k)"
  by (auto simp: load_component_run_def save_component_run_def tbl_find_update)

lemma save_component_run_frame [frame_simps, simp]:
  "join_tokens (save_component_run r s) = join_tokens s"
  "nodes (save_component_run r s) = nodes s"
  "audit_events (save_component_run r s) = audit_events s"
  "tasks (save_component_run r s) = tasks s"
  "approval_requests (save_component_run r s) = approval_requests s"
  "node_components (save_component_run r s) = node_components s"
  by (simp_all add: save_component_run_def)

lemma get_setting_set: "get_setting k d (set_setting k' v now s) = (if k = k' then v else get_setting k d s)"
  by (simp add: get_setting_def set_setting_def tbl_find_upsert_replace)

definition put_setting :: "string \<times> json \<times> time \<Rightarrow> store \<Rightarrow> store" where
  "put_setting r s = set_setting (fst r) (fst (snd r)) (snd (snd r)) s"

definition find_setting :: "store \<Rightarrow> string \<Rightarrow> (string \<times> json \<times> time) option" where
  "find_setting s k = map_option (\<lambda>r. (st_key r, st_value_json r, st_updated_at r)) (tbl_find st_key k (settings s))"

interpretation setting_table: keyed_store find_setting put_setting fst id
  by unfold_locales (auto simp: find_setting_def put_setting_def set_setting_def tbl_find_upsert_replace)

end
