(* ===== verification/Nodes.thy ===== *)
theory Nodes imports AuditLog begin

text \<open>
  The node table of \<open>SQLiteStore\<close> (\<open>save_node\<close>, \<open>load_node\<close>, \<open>list_nodes\<close>, \<open>register_pending_node\<close>,
  \<open>rotate_node_fingerprint\<close>, \<open>task_dispatch_block_reason\<close>), the in-memory \<open>NodeRegistry\<close> of
  \<open>inventory.py\<close>, and the operator commands \<open>node confirm\<close> and \<open>node revoke\<close> built on both.
\<close>

section \<open>The node table\<close>

definition save_node :: "node \<Rightarrow> store \<Rightarrow> store" where
  "save_node n s = s\<lparr>nodes := tbl_upsert nd_node_id replace_row n (nodes s)\<rparr>"

definition load_node :: "store \<Rightarrow> string \<Rightarrow> node option" where
  "load_node s node_id = tbl_find nd_node_id node_id (nodes s)"

definition list_nodes :: "store \<Rightarrow> node list" where
  "list_nodes s = order_by nd_hostname (nodes s)"

text \<open>\<open>Node(...)\<close> with the defaults of the dataclass.\<close>

definition new_node :: "string \<Rightarrow> string \<Rightarrow> string \<Rightarrow> string list \<Rightarrow> string \<Rightarrow> string list \<Rightarrow> node" where
  "new_node node_id fingerprint hostname addresses trust_level labels =
     \<lparr>nd_node_id = node_id, nd_fingerprint = fingerprint, nd_hostname = hostname,
      nd_addresses = addresses, nd_trust_level = trust_level, nd_labels = labels,
      nd_status = ''pending'', nd_permission_bundles = [], nd_ssh_host = [], nd_ssh_user = [],
      nd_ssh_port = 22, nd_network_provider = [], nd_network_node_id = [], nd_network_ip = [],
      nd_network_tags = [], nd_network_online = False\<rparr>"

definition register_pending_node ::
  "string \<Rightarrow> string \<Rightarrow> string \<Rightarrow> string list \<Rightarrow> string \<Rightarrow> string list \<Rightarrow> store \<Rightarrow> node \<times> store" where
  "register_pending_node node_id fingerprint hostname addresses trust_level labels s =
     (let n = new_node node_id fingerprint hostname addresses trust_level labels
      in (n, save_node n s))"

definition rotate_node_fingerprint ::
  "string \<Rightarrow> string option \<Rightarrow> string \<Rightarrow> time \<Rightarrow> store \<Rightarrow> node option \<times> store" where
  "rotate_node_fingerprint node_id current_fingerprint new_fingerprint now s =
     (case load_node s node_id of
        None \<Rightarrow> (None, s)
      | Some n \<Rightarrow>
          if current_fingerprint \<noteq> None \<and> Some (nd_fingerprint n) \<noteq> current_fingerprint then (None, s)
          else
            let n' = n\<lparr>nd_fingerprint := new_fingerprint\<rparr>;
                old = (case current_fingerprint of
                         Some c \<Rightarrow> (if c = [] then ''operator-forced'' else c)
                       | None \<Rightarrow> ''operator-forced'')
            in (Some n',
                record_audit ''node'' ''node'' (nd_node_id n') ''rotate_fingerprint'' ''ok''
                  [(''old_fingerprint_sha256'', JStr old), (''new_fingerprint_sha256'', JStr new_fingerprint)]
                  now (save_node n' s)))"

definition task_dispatch_block_reason :: "string \<Rightarrow> store \<Rightarrow> string option" where
  "task_dispatch_block_reason node_id s =
     (case load_node s node_id of
        None \<Rightarrow> Some ''node not found''
      | Some n \<Rightarrow>
          if nd_status n \<noteq> ''managed'' then Some ''node not managed''
          else
            let facts = latest_node_heartbeat_facts node_id s;
                worker_mode = lower (strip (str_or (dget facts ''worker_mode'') []));
                task_policy = lower (strip (str_or (dget facts ''task_policy'') []))
            in if facts = [] then None
               else if worker_mode = ''beacon'' then Some ''node is beacon-only''
               else if task_policy = ''heartbeat-only''
                    then Some ''node heartbeat-only policy blocks task dispatch''
               else if dget facts ''can_poll_tasks'' = JBool False then Some ''node cannot poll tasks''
               else if dget facts ''exec_enabled'' = JBool False then Some ''node execution disabled''
               else None)"

section \<open>The in-memory registry\<close>

type_synonym registry = "string \<rightharpoonup> node"

definition registry_register_pending ::
  "string \<Rightarrow> string \<Rightarrow> string \<Rightarrow> string list \<Rightarrow> string \<Rightarrow> string list \<Rightarrow> registry \<Rightarrow> node \<times> registry" where
  "registry_register_pending node_id fingerprint hostname addresses trust_level labels r =
     (let n = new_node node_id fingerprint hostname addresses trust_level labels in (n, r(node_id \<mapsto> n)))"

definition registry_get :: "registry \<Rightarrow> string \<Rightarrow> node option" where
  "registry_get r node_id = r node_id"

definition registry_confirm :: "string \<Rightarrow> string list \<Rightarrow> registry \<Rightarrow> node option \<times> registry" where
  "registry_confirm node_id permission_bundles r =
     (case registry_get r node_id of
        None \<Rightarrow> (None, r)
      | Some n \<Rightarrow>
          if nd_status n = ''revoked'' then (None, r)
          else let n' = n\<lparr>nd_status := ''managed'', nd_permission_bundles := permission_bundles\<rparr>
               in (Some n', r(node_id \<mapsto> n')))"

definition registry_revoke :: "string \<Rightarrow> registry \<Rightarrow> node option \<times> registry" where
  "registry_revoke node_id r =
     (case registry_get r node_id of
        None \<Rightarrow> (None, r)
      | Some n \<Rightarrow> let n' = n\<lparr>nd_status := ''revoked''\<rparr> in (Some n', r(node_id \<mapsto> n')))"

section \<open>Operator commands\<close>

text \<open>The result is false where the command exits with status 1.  \<open>confirm_node\<close> starts from an explicit node id.\<close>

definition confirm_node :: "string \<Rightarrow> string list \<Rightarrow> time \<Rightarrow> store \<Rightarrow> bool \<times> store" where
  "confirm_node node_id bundle now s =
     (case load_node s node_id of
        None \<Rightarrow> (False, s)
      | Some n \<Rightarrow>
          (case fst (registry_confirm node_id bundle [nd_node_id n \<mapsto> n]) of
             None \<Rightarrow> (False, s)
           | Some updated \<Rightarrow>
               (True, record_audit ''node'' ''node'' (nd_node_id updated) ''confirm'' ''ok''
                        [(''bundles'', JList (map JStr bundle))] now (save_node updated s))))"

definition revoke_node :: "string \<Rightarrow> time \<Rightarrow> store \<Rightarrow> bool \<times> store" where
  "revoke_node node_id now s =
     (case load_node s node_id of
        None \<Rightarrow> (False, s)
      | Some n \<Rightarrow>
          (case fst (registry_revoke node_id [nd_node_id n \<mapsto> n]) of
             None \<Rightarrow> (False, s)
           | Some updated \<Rightarrow>
               (True, record_audit ''node'' ''node'' (nd_node_id updated) ''revoke'' ''ok'' []
                        now (save_node updated s))))"

section \<open>Lookups and frames\<close>

lemma load_node_save [table_simps]:
  "load_node (save_node n s) k = (if k = nd_node_id n then Some n else load_node s k)"
  by (simp add: load_node_def save_node_def tbl_find_upsert_replace)

lemma save_node_frame [frame_simps, simp]:
  "join_tokens (save_node n s) = join_tokens s"
  "audit_events (save_node n s) = audit_events s"
  "tasks (save_node n s) = tasks s"
  "approval_requests (save_node n s) = approval_requests s"
  "notifications (save_node n s) = notifications s"
  "components (save_node n s) = components s"
  "node_components (save_node n s) = node_components s"
  "component_runs (save_node n s) = component_runs s"
  by (simp_all add: save_node_def)

lemma load_node_cong: "nodes s' = nodes s \<Longrightarrow> load_node s' = load_node s"
  by (simp add: load_node_def fun_eq_iff)

lemma load_node_audit [simp]:
  "load_node (insert_audit_event e s) = load_node s"
  "load_node (record_audit et st sid act out d now s) = load_node s"
  by (rule load_node_cong, simp)+

lemma load_node_id: "load_node s k = Some n \<Longrightarrow> nd_node_id n = k"
  by (auto simp: load_node_def dest: tbl_find_Some)

lemma save_node_keys: "store_keys_ok s \<Longrightarrow> store_keys_ok (save_node n s)"
  by (auto simp: store_keys_ok_def save_node_def replace_row_def intro!: keys_distinct_upsert)

interpretation node_table: keyed_store load_node save_node nd_node_id id
  by unfold_locales (simp add: load_node_save)

section \<open>What the operations do to a node's status\<close>

lemma confirm_node_load:
  "confirm_node k b now s = (ok, s') \<Longrightarrow> load_node s' k' =
     (if k' = k then map_option (\<lambda>n. if nd_status n = ''revoked'' then n
         else n\<lparr>nd_status := ''managed'', nd_permission_bundles := b\<rparr>) (load_node s k)
      else load_node s k')"
  by (auto simp: confirm_node_def registry_confirm_def registry_get_def table_simps Let_def
      dest: load_node_id split: option.splits if_splits)

lemma revoke_node_load:
  "revoke_node k now s = (ok, s') \<Longrightarrow> load_node s' k' =
     (if k' = k then map_option (\<lambda>n. n\<lparr>nd_status := ''revoked''\<rparr>) (load_node s k) else load_node s k')"
  by (auto simp: revoke_node_def registry_revoke_def registry_get_def table_simps Let_def
      dest: load_node_id split: option.splits)

lemma rotate_node_fingerprint_load:
  "rotate_node_fingerprint k cur new now s = (r, s') \<Longrightarrow> load_node s' k' =
     (if k' = k \<and> r \<noteq> None then map_option (\<lambda>n. n\<lparr>nd_fingerprint := new\<rparr>) (load_node s k)
      else load_node s k')"
  by (auto simp: rotate_node_fingerprint_def table_simps Let_def dest: load_node_id
      split: option.splits if_splits)

lemma rotate_node_fingerprint_guard:
  "rotate_node_fingerprint k (Some cur) new now s = (Some n', s') \<Longrightarrow>
     \<exists>n. load_node s k = Some n \<and> nd_fingerprint n = cur \<and> n' = n\<lparr>nd_fingerprint := new\<rparr>"
  by (auto simp: rotate_node_fingerprint_def Let_def split: option.splits if_splits)

lemma node_ops_audit:
  "audit_extends s (snd (rotate_node_fingerprint k cur new now s))"
  "audit_extends s (snd (confirm_node k b now s))"
  "audit_extends s (snd (revoke_node k now s))"
  "audit_extends s (snd (register_pending_node k f h a t l s))"
  by (auto simp: rotate_node_fingerprint_def confirm_node_def revoke_node_def register_pending_node_def
      Let_def audit_extends_def audit_simps split: option.splits)

lemma node_ops_keys:
  "store_keys_ok s \<Longrightarrow> store_keys_ok (snd (rotate_node_fingerprint k cur new now s))"
  "store_keys_ok s \<Longrightarrow> store_keys_ok (snd (confirm_node k b now s))"
  "store_keys_ok s \<Longrightarrow> store_keys_ok (snd (revoke_node k now s))"
  "store_keys_ok s \<Longrightarrow> store_keys_ok (snd (register_pending_node k f h a t l s))"
  by (auto simp: rotate_node_fingerprint_def confirm_node_def revoke_node_def register_pending_node_def
      Let_def save_node_keys split: option.splits)

lemma node_ops_frame [frame_simps]:
  "tasks (snd (rotate_node_fingerprint k cur new now s)) = tasks s"
  "tasks (snd (confirm_node k b now s)) = tasks s"
  "tasks (snd (revoke_node k now s)) = tasks s"
  "tasks (snd (register_pending_node k f h a t l s)) = tasks s"
  "approval_requests (snd (rotate_node_fingerprint k cur new now s)) = approval_requests s"
  "approval_requests (snd (confirm_node k b now s)) = approval_requests s"
  "approval_requests (snd (revoke_node k now s)) = approval_requests s"
  "approval_requests (snd (register_pending_node k f h a t l s)) = approval_requests s"
  "join_tokens (snd (rotate_node_fingerprint k cur new now s)) = join_tokens s"
  "join_tokens (snd (confirm_node k b now s)) = join_tokens s"
  "join_tokens (snd (revoke_node k now s)) = join_tokens s"
  by (auto simp: rotate_node_fingerprint_def confirm_node_def revoke_node_def register_pending_node_def
      Let_def split: option.splits)

text \<open>The in-memory registry and the node table agree on what confirm and revoke do.\<close>

lemma confirm_node_registry:
  assumes "confirm_node k b now s = (ok, s')"
  shows "load_node s' = snd (registry_confirm k b (load_node s))"
    and "ok \<longleftrightarrow> fst (registry_confirm k b (load_node s)) \<noteq> None"
proof -
  show "load_node s' = snd (registry_confirm k b (load_node s))"
    by (rule ext, cases "load_node s k")
      (auto simp: confirm_node_load [OF assms] registry_confirm_def registry_get_def Let_def)
  show "ok \<longleftrightarrow> fst (registry_confirm k b (load_node s)) \<noteq> None"
    using assms load_node_id [of s k]
    by (cases "load_node s k") (auto simp: registry_confirm_def registry_get_def confirm_node_def Let_def)
qed

lemma revoke_node_registry:
  assumes "revoke_node k now s = (ok, s')"
  shows "load_node s' = snd (registry_revoke k (load_node s))"
    and "ok \<longleftrightarrow> fst (registry_revoke k (load_node s)) \<noteq> None"
proof -
  show "load_node s' = snd (registry_revoke k (load_node s))"
    by (rule ext, cases "load_node s k")
      (auto simp: revoke_node_load [OF assms] registry_revoke_def registry_get_def Let_def)
  show "ok \<longleftrightarrow> fst (registry_revoke k (load_node s)) \<noteq> None"
    using assms load_node_id [of s k]
    by (cases "load_node s k") (auto simp: registry_revoke_def registry_get_def revoke_node_def Let_def)
qed

text \<open>A node whose latest facts say it must not run tasks is blocked, and so is one that is not managed.\<close>

lemma task_dispatch_block_reason_None:
  "task_dispatch_block_reason k s = None \<Longrightarrow>
     \<exists>n. load_node s k = Some n \<and> nd_status n = ''managed''"
  by (auto simp: task_dispatch_block_reason_def split: option.splits if_splits)

text \<open>The reason depends only on the node and its heartbeats.\<close>

lemma block_reason_cong:
  assumes "nodes s' = nodes s"
    and "filter (is_node_heartbeat n) (audit_events s') = filter (is_node_heartbeat n) (audit_events s)"
  shows "task_dispatch_block_reason n s' = task_dispatch_block_reason n s"
proof -
  have "latest_node_heartbeat_facts n s' = latest_node_heartbeat_facts n s" and "load_node s' n = load_node s n"
    using assms by (simp_all add: latest_node_heartbeat_facts_def load_node_def)
  then show ?thesis by (simp only: task_dispatch_block_reason_def)
qed

end
