(* ===== verification/Utf8.thy ===== *)
theory Utf8 imports Prelude begin

text \<open>
  \<open>bytes.decode("utf-8", errors="ignore")\<close>, which \<open>_cap_task_output\<close> applies to output cut at a byte
  limit.  Strings are their UTF-8 bytes, so the decoder maps bytes to bytes: it keeps the well-formed
  sequences and drops every byte that starts none.  The result on a cut text is that text with
  at most three bytes of a divided character missing.
\<close>

definition utf8_need :: "nat \<Rightarrow> nat" where
  "utf8_need n =
     (if n < 128 then 1 else if 194 \<le> n \<and> n \<le> 223 then 2
      else if 224 \<le> n \<and> n \<le> 239 then 3 else if 240 \<le> n \<and> n \<le> 244 then 4 else 0)"

definition utf8_cont :: "char \<Rightarrow> bool" where
  "utf8_cont c = (let n = (of_char c :: nat) in 128 \<le> n \<and> n \<le> 191)"

text \<open>Lead bytes E0, ED, F0 and F4 restrict the second byte (no overlong form, surrogate or value above 10FFFF).\<close>

definition utf8_second_ok :: "nat \<Rightarrow> char \<Rightarrow> bool" where
  "utf8_second_ok n c = (let m = (of_char c :: nat) in
     (n = 224 \<longrightarrow> 160 \<le> m) \<and> (n = 237 \<longrightarrow> m \<le> 159) \<and> (n = 240 \<longrightarrow> 144 \<le> m) \<and> (n = 244 \<longrightarrow> m \<le> 143))"

text \<open>The length of the well-formed sequence at the head, 0 if there is none.\<close>

definition utf8_len :: "string \<Rightarrow> nat" where
  "utf8_len s = (case s of [] \<Rightarrow> 0 | b # r \<Rightarrow>
     let n = (of_char b :: nat); k = utf8_need n in
     if k = 0 \<or> length s < k then 0
     else if list_all utf8_cont (take (k - 1) r) \<and> (k < 2 \<or> utf8_second_ok n (hd r)) then k else 0)"

lemma utf8_len_le: "utf8_len s \<le> length s"
  by (auto simp: utf8_len_def Let_def split: list.splits)

lemma utf8_len_4: "utf8_len s \<le> 4"
  by (auto simp: utf8_len_def utf8_need_def Let_def split: list.splits)

function utf8_ignore :: "string \<Rightarrow> string" where
  "utf8_ignore s =
     (if s = [] then []
      else if utf8_len s = 0 then utf8_ignore (tl s)
      else take (utf8_len s) s @ utf8_ignore (drop (utf8_len s) s))"
  by pat_completeness auto
termination
  by (relation "measure length") auto

declare utf8_ignore.simps [simp del]

definition utf8_wf :: "string \<Rightarrow> bool" where
  "utf8_wf s \<longleftrightarrow> utf8_ignore s = s"

lemma utf8_ignore_Nil [simp]: "utf8_ignore [] = []"
  by (simp add: utf8_ignore.simps)

lemma length_utf8_ignore: "length (utf8_ignore s) \<le> length s"
proof (induction s rule: utf8_ignore.induct)
  case (1 s)
  consider "s = []" | "s \<noteq> []" "utf8_len s = 0" | "s \<noteq> []" "utf8_len s \<noteq> 0" by blast
  then show ?case
  proof cases
    case 2
    then have "length (utf8_ignore (tl s)) \<le> length (tl s)" using "1.IH"(1) by blast
    with 2 show ?thesis by (simp add: utf8_ignore.simps [of s])
  next
    case 3
    then have "length (utf8_ignore (drop (utf8_len s) s)) \<le> length s - utf8_len s"
      using "1.IH"(2) by simp
    with 3 utf8_len_le [of s] show ?thesis by (simp add: utf8_ignore.simps [of s])
  qed simp
qed

lemma utf8_ignore_conts: "list_all utf8_cont s \<Longrightarrow> utf8_ignore s = []"
proof (induction s)
  case (Cons c s)
  then have "utf8_len (c # s) = 0"
    by (simp add: utf8_len_def utf8_need_def utf8_cont_def Let_def)
  with Cons show ?case by (simp add: utf8_ignore.simps [of "c # s"])
qed simp

lemma utf8_len_take:
  assumes "utf8_len s \<noteq> 0" and "utf8_len s \<le> m"
  shows "utf8_len (take m s) = utf8_len s"
proof (cases s)
  case Nil
  then show ?thesis by simp
next
  case (Cons b r)
  let ?k = "utf8_need (of_char b)"
  from assms(1) Cons have k: "utf8_len s = ?k" "?k \<noteq> 0" "?k \<le> length s"
    and c: "list_all utf8_cont (take (?k - 1) r)" "?k < 2 \<or> utf8_second_ok (of_char b) (hd r)"
    by (auto simp: utf8_len_def Let_def split: if_splits)
  from k assms(2) obtain m' where m: "m = Suc m'" by (cases m) auto
  have "?k < 2 \<or> hd (take m' r) = hd r" using k assms(2) m by (cases r; cases m') auto
  then have "?k < 2 \<or> utf8_second_ok (of_char b) (hd (take m' r))" using c(2) by auto
  with k c assms(2) m Cons show ?thesis
    by (auto simp: utf8_len_def Let_def min_def)
qed

lemma utf8_wf_step:
  assumes "utf8_wf s" and "s \<noteq> []"
  shows "utf8_len s \<noteq> 0" and "utf8_wf (drop (utf8_len s) s)"
proof -
  show k: "utf8_len s \<noteq> 0"
  proof
    assume "utf8_len s = 0"
    then have "length (utf8_ignore s) \<le> length (tl s)"
      using assms(2) length_utf8_ignore [of "tl s"] by (simp add: utf8_ignore.simps [of s])
    with assms show False by (cases s) (simp_all add: utf8_wf_def)
  qed
  have "take (utf8_len s) s @ utf8_ignore (drop (utf8_len s) s) = take (utf8_len s) s @ drop (utf8_len s) s"
    using assms k by (simp add: utf8_wf_def utf8_ignore.simps [of s])
  then show "utf8_wf (drop (utf8_len s) s)" unfolding utf8_wf_def by (rule append_eq_append_conv [THEN iffD1, THEN conjunct2, rotated]) simp
qed

lemma utf8_ignore_short:
  assumes "utf8_len s \<noteq> 0" and "m < utf8_len s"
  shows "utf8_ignore (take m s) = []"
proof (cases "m = 0 \<or> s = []")
  case True
  then show ?thesis by auto
next
  case False
  then obtain b r m' where s: "s = b # r" and m: "m = Suc m'" by (cases s; cases m) auto
  let ?k = "utf8_need (of_char b)"
  from assms(1) s have k: "utf8_len s = ?k" "?k \<le> length s" and c: "list_all utf8_cont (take (?k - 1) r)"
    by (auto simp: utf8_len_def Let_def split: if_splits)
  have "take m' (take (?k - 1) r) = take m' r" using assms(2) k m by (simp add: min_def) linarith
  with c have "list_all utf8_cont (take m' r)"
    by (metis append_take_drop_id list_all_append)
  moreover have "utf8_len (take m s) = 0"
    using assms(2) k m s by (simp add: utf8_len_def Let_def)
  ultimately show ?thesis
    using s m by (simp add: utf8_ignore.simps [of "b # take m' r"] utf8_ignore_conts)
qed

text \<open>Cutting a text and decoding what is left gives a prefix of it, at most three bytes shorter than the cut.\<close>

lemma utf8_ignore_take:
  "utf8_wf s \<Longrightarrow> m \<le> length s \<Longrightarrow> \<exists>j. utf8_ignore (take m s) = take j s \<and> j \<le> m \<and> m \<le> j + 3"
proof (induction s arbitrary: m rule: utf8_ignore.induct)
  case (1 s)
  show ?case
  proof (cases "s = []")
    case True
    with "1.prems" show ?thesis by auto
  next
    case False
    let ?k = "utf8_len s"
    have k: "?k \<noteq> 0" and wf: "utf8_wf (drop ?k s)" using utf8_wf_step "1.prems"(1) False by auto
    show ?thesis
    proof (cases "m < ?k")
      case True
      have "utf8_ignore (take m s) = take 0 s" using utf8_ignore_short [OF k True] by simp
      moreover have "m \<le> 0 + 3" using True utf8_len_4 [of s] by linarith
      ultimately show ?thesis by blast
    next
      case False
      have "m - ?k \<le> length (drop ?k s)" using "1.prems"(2) by simp
      then obtain j where j: "utf8_ignore (take (m - ?k) (drop ?k s)) = take j (drop ?k s)"
          "j \<le> m - ?k" "m - ?k \<le> j + 3"
        using "1.IH"(2) [OF \<open>s \<noteq> []\<close> k wf] by blast
      have len: "utf8_len (take m s) = ?k" using utf8_len_take [OF k] False by simp
      have "take m s \<noteq> []" using \<open>s \<noteq> []\<close> False k by (cases m) auto
      then have "utf8_ignore (take m s)
          = take ?k (take m s) @ utf8_ignore (drop ?k (take m s))"
        using k len by (simp add: utf8_ignore.simps [of "take m s"])
      also have "\<dots> = take ?k s @ utf8_ignore (take (m - ?k) (drop ?k s))"
        using False by (simp add: drop_take min_def)
      also have "\<dots> = take (?k + j) s" by (simp add: j(1) take_add)
      finally show ?thesis using j(2,3) False by (intro exI [of _ "?k + j"]) auto
    qed
  qed
qed

lemma utf8_wf_append:
  "utf8_wf a \<Longrightarrow> utf8_wf b \<Longrightarrow> utf8_wf (a @ b)"
proof (induction a rule: utf8_ignore.induct)
  case (1 a)
  show ?case
  proof (cases "a = []")
    case True
    with "1.prems" show ?thesis by simp
  next
    case False
    let ?k = "utf8_len a"
    have k: "?k \<noteq> 0" and wf: "utf8_wf (drop ?k a)" using utf8_wf_step "1.prems"(1) False by auto
    have IH: "utf8_ignore (drop ?k a @ b) = drop ?k a @ b"
      using "1.IH"(2) [OF False k wf "1.prems"(2)] by (simp add: utf8_wf_def)
    have "utf8_len (take ?k (a @ b)) = utf8_len (take ?k a)" using utf8_len_le [of a] by simp
    then have kk: "utf8_len (take ?k (a @ b)) = ?k" using utf8_len_take [OF k order_refl] by simp
    have "utf8_len (a @ b) = ?k"
    proof -
      obtain c r where "a = c # r" using False by (cases a) auto
      with k show ?thesis using utf8_len_le [of a]
        by (auto simp: utf8_len_def Let_def hd_append split: if_splits)
    qed
    then have "utf8_ignore (a @ b) = take ?k a @ utf8_ignore (drop ?k a @ b)"
      using k False utf8_len_le [of a] by (simp add: utf8_ignore.simps [of "a @ b"])
    with IH show ?thesis by (simp add: utf8_wf_def)
  qed
qed

lemma utf8_ignore_wf: "utf8_wf (utf8_ignore s)"
proof (induction s rule: utf8_ignore.induct)
  case (1 s)
  consider "s = []" | "s \<noteq> []" "utf8_len s = 0" | "s \<noteq> []" "utf8_len s \<noteq> 0" by blast
  then show ?case
  proof cases
    case 1
    then show ?thesis by (simp add: utf8_wf_def)
  next
    case 2
    with "1.IH"(1) show ?thesis by (simp add: utf8_ignore.simps [of s])
  next
    case 3
    let ?k = "utf8_len s"
    have k: "utf8_len (take ?k s) = ?k" using utf8_len_take [OF 3(2) order_refl] .
    have "utf8_wf (take ?k s)"
      unfolding utf8_wf_def using 3 k by (simp add: utf8_ignore.simps [of "take ?k s"])
    moreover have "utf8_wf (utf8_ignore (drop ?k s))" using "1.IH"(2) 3 by blast
    moreover have "utf8_ignore s = take ?k s @ utf8_ignore (drop ?k s)"
      using 3 by (simp add: utf8_ignore.simps [of s])
    ultimately show ?thesis by (metis utf8_wf_append)
  qed
qed

text \<open>The characters of a text, one string each; a byte that starts none stands alone.\<close>

function utf8_split :: "string \<Rightarrow> string list" where
  "utf8_split s =
     (if s = [] then []
      else if utf8_len s = 0 then [hd s] # utf8_split (tl s)
      else take (utf8_len s) s # utf8_split (drop (utf8_len s) s))"
  by pat_completeness auto
termination
  by (relation "measure length") auto

declare utf8_split.simps [simp del]

lemma utf8_split_Nil [simp]: "utf8_split [] = []"
  by (simp add: utf8_split.simps)

lemma concat_utf8_split: "concat (utf8_split s) = s"
proof (induction s rule: utf8_split.induct)
  case (1 s)
  then show ?case
    by (cases "s = []"; cases "utf8_len s = 0") (simp_all add: utf8_split.simps [of s])
qed

lemma length_utf8_split: "length (utf8_split s) \<le> length s"
proof (induction s rule: utf8_split.induct)
  case (1 s)
  consider "s = []" | "s \<noteq> []" "utf8_len s = 0" | "s \<noteq> []" "utf8_len s \<noteq> 0" by blast
  then show ?case
  proof cases
    case 2
    then have "length (utf8_split (tl s)) \<le> length (tl s)" using "1.IH"(1) by blast
    moreover have "utf8_split s = [hd s] # utf8_split (tl s)"
      using 2 by (simp add: utf8_split.simps [of s])
    ultimately show ?thesis using 2 by (cases s) auto
  next
    case 3
    then have "length (utf8_split (drop (utf8_len s) s)) \<le> length (drop (utf8_len s) s)" using "1.IH"(2) by blast
    with 3 show ?thesis using utf8_len_le [of s] by (simp add: utf8_split.simps [of s])
  qed simp
qed

end
