(* ===== verification/Tasks.thy ===== *)
theory Tasks imports Nodes Utf8 begin

text \<open>
  The task queue of \<open>SQLiteStore\<close>: creating, claiming under a lease, expiring lost leases and
  completing.  Each operation is one transaction opened with \<open>BEGIN IMMEDIATE\<close> (or a single upsert), so
  one function call is one atomic step.  \<open>uid\<close> is the draw of \<open>uuid4().hex[:12]\<close>, \<open>clk k\<close> the k-th
  reading of the clock in the call.
\<close>

section \<open>The task table\<close>

definition TASK_OUTPUT_MAX_BYTES :: nat where
  "TASK_OUTPUT_MAX_BYTES = 64 * 1024"

definition TASK_OUTPUT_TRUNCATED_MARKER :: string where
  "TASK_OUTPUT_TRUNCATED_MARKER = CHR 0x0A # ''[hmn: output truncated to 65536 bytes]''"

definition save_task :: "task \<Rightarrow> store \<Rightarrow> store" where
  "save_task t s = s\<lparr>tasks := tbl_upsert tk_task_id replace_row t (tasks s)\<rparr>"

definition load_task :: "store \<Rightarrow> string \<Rightarrow> task option" where
  "load_task s task_id = tbl_find tk_task_id task_id (tasks s)"

definition list_tasks :: "store \<Rightarrow> task list" where
  "list_tasks s = order_desc tk_created_at (tasks s)"

text \<open>\<open>Task(...)\<close> with status \<open>pending\<close> and the defaults of the dataclass.\<close>

definition new_task :: "string \<Rightarrow> string \<Rightarrow> string \<Rightarrow> string \<Rightarrow> string \<Rightarrow> string \<Rightarrow> time \<Rightarrow> task" where
  "new_task task_id node_id command risk created_by executor created_at =
     \<lparr>tk_task_id = task_id, tk_node_id = node_id, tk_command = command, tk_risk = risk,
      tk_status = ''pending'', tk_created_by = created_by, tk_created_at = created_at,
      tk_executor = executor, tk_started_at = None, tk_completed_at = None, tk_exit_code = None,
      tk_stdout = [], tk_stderr = [], tk_claimed_at = None, tk_lease_expires_at = None,
      tk_attempt_count = 0, tk_failure_reason = []\<rparr>"

definition create_task ::
  "string \<Rightarrow> string \<Rightarrow> string \<Rightarrow> string \<Rightarrow> string \<Rightarrow> string \<Rightarrow> (nat \<Rightarrow> time) \<Rightarrow> store \<Rightarrow> task \<times> store" where
  "create_task node_id command risk created_by executor uid clk s =
     (let t = new_task (''task_'' @ uid) node_id command risk created_by executor (clk 0)
      in (t, record_audit ''task'' ''task'' (tk_task_id t) ''create'' ''ok''
               [(''node_id'', JStr node_id), (''command'', JStr command), (''risk'', JStr risk),
                (''executor'', JStr executor)]
               (clk 1) (save_task t s)))"

section \<open>Claiming\<close>

definition claimable :: "string \<Rightarrow> string \<Rightarrow> task \<Rightarrow> bool" where
  "claimable node_id executor t \<longleftrightarrow>
     tk_node_id t = node_id \<and> tk_executor t = executor \<and> tk_status t = ''pending''"

definition claim_row :: "time \<Rightarrow> time \<Rightarrow> task \<Rightarrow> task" where
  "claim_row now lease t =
     (if tk_status t = ''pending''
      then t\<lparr>tk_status := ''running'',
             tk_started_at := (case tk_started_at t of None \<Rightarrow> Some now | Some x \<Rightarrow> Some x),
             tk_claimed_at := Some now, tk_lease_expires_at := Some lease,
             tk_attempt_count := tk_attempt_count t + 1\<rparr>
      else t)"

definition claim_next_task :: "string \<Rightarrow> string \<Rightarrow> int \<Rightarrow> time \<Rightarrow> store \<Rightarrow> task option \<times> store" where
  "claim_next_task node_id executor lease_seconds now s =
     (let lease_expires_at = now + seconds lease_seconds
      in case load_node s node_id of
           None \<Rightarrow> (None, s)
         | Some n \<Rightarrow>
             if nd_status n \<noteq> ''managed'' then (None, s)
             else case first_row (order_by tk_created_at (filter (claimable node_id executor) (tasks s))) of
               None \<Rightarrow> (None, s)
             | Some row \<Rightarrow>
                 let s1 = s\<lparr>tasks := tbl_update tk_task_id (tk_task_id row)
                                       (claim_row now lease_expires_at) (tasks s)\<rparr>;
                     updated = load_task s1 (tk_task_id row);
                     s2 = record_audit ''task'' ''task'' (tk_task_id row) ''dispatch'' ''ok''
                            [(''node_id'', JStr node_id), (''executor'', JStr executor),
                             (''lease_seconds'', JInt lease_seconds)] now s1
                 in (updated, s2))"

text \<open>\<open>next_pending_task\<close> is \<open>claim_next_task\<close> with the default lease of 900 seconds.\<close>

definition next_pending_task :: "string \<Rightarrow> string \<Rightarrow> time \<Rightarrow> store \<Rightarrow> task option \<times> store" where
  "next_pending_task node_id executor now s = claim_next_task node_id executor 900 now s"

section \<open>Expiring lost leases\<close>

definition lease_of :: "task \<Rightarrow> time" where
  "lease_of t = (case tk_lease_expires_at t of None \<Rightarrow> 0 | Some l \<Rightarrow> l)"

definition lease_lost :: "time \<Rightarrow> task \<Rightarrow> bool" where
  "lease_lost cutoff t \<longleftrightarrow>
     tk_status t = ''running'' \<and> tk_executor t = ''worker''
     \<and> tk_lease_expires_at t \<noteq> None \<and> lease_of t \<le> cutoff"

definition expire_row :: "time \<Rightarrow> task \<Rightarrow> task" where
  "expire_row now t =
     (if tk_status t = ''running''
      then t\<lparr>tk_status := ''failed'', tk_completed_at := Some now,
             tk_failure_reason := ''worker_lease_expired''\<rparr>
      else t)"

definition expire_one :: "time \<Rightarrow> task \<Rightarrow> store \<Rightarrow> store" where
  "expire_one now row s =
     record_audit ''task'' ''task'' (tk_task_id row) ''watchdog/expire'' ''failed''
       [(''node_id'', JStr (tk_node_id row)), (''lease_expires_at'', JStr (isoformat (lease_of row)))] now
       (s\<lparr>tasks := tbl_update tk_task_id (tk_task_id row) (expire_row now) (tasks s)\<rparr>)"

definition expire_stuck_tasks :: "int option \<Rightarrow> time \<Rightarrow> store \<Rightarrow> string list \<times> store" where
  "expire_stuck_tasks older_than_seconds now s =
     (let cutoff = (case older_than_seconds of None \<Rightarrow> now | Some n \<Rightarrow> now - seconds n);
          rows = order_by lease_of (order_by tk_created_at (filter (lease_lost cutoff) (tasks s)))
      in (map tk_task_id rows, fold (expire_one now) rows s))"

section \<open>Completing\<close>

definition cap_task_output :: "string \<Rightarrow> string" where
  "cap_task_output encoded =
     (if length encoded \<le> TASK_OUTPUT_MAX_BYTES then encoded
      else let room = TASK_OUTPUT_MAX_BYTES - length TASK_OUTPUT_TRUNCATED_MARKER
           in utf8_ignore (take room encoded) @ TASK_OUTPUT_TRUNCATED_MARKER)"

definition complete_row :: "string \<Rightarrow> time \<Rightarrow> int \<Rightarrow> string \<Rightarrow> string \<Rightarrow> string \<Rightarrow> task \<Rightarrow> task" where
  "complete_row status now exit_code stdout stderr failure_reason t =
     (if tk_status t = ''running''
      then t\<lparr>tk_status := status, tk_completed_at := Some now, tk_exit_code := Some exit_code,
             tk_stdout := stdout, tk_stderr := stderr, tk_failure_reason := failure_reason\<rparr>
      else t)"

text \<open>
  The check \<open>conn.total_changes == 0\<close> after the \<open>UPDATE\<close> cannot succeed: the row was read as running in
  the same transaction.
\<close>

definition complete_task :: "string \<Rightarrow> int \<Rightarrow> string \<Rightarrow> string \<Rightarrow> time \<Rightarrow> store \<Rightarrow> task option \<times> store" where
  "complete_task task_id exit_code stdout stderr now s =
     (let status = (if exit_code = 0 then ''succeeded'' else ''failed'');
          failure_reason = (if status = ''succeeded'' then [] else ''exit_code_nonzero'');
          capped_stdout = cap_task_output stdout;
          capped_stderr = cap_task_output stderr
      in case load_task s task_id of
           None \<Rightarrow> (None, s)
         | Some row \<Rightarrow>
             if tk_status row \<noteq> ''running'' then (None, s)
             else
               let s1 = s\<lparr>tasks := tbl_update tk_task_id task_id
                           (complete_row status now exit_code capped_stdout capped_stderr failure_reason)
                           (tasks s)\<rparr>;
                   updated = load_task s1 task_id;
                   s2 = record_audit ''task'' ''task'' task_id ''task_result'' status
                          [(''node_id'', JStr (case updated of None \<Rightarrow> [] | Some u \<Rightarrow> tk_node_id u)),
                           (''exit_code'', JInt exit_code)] now s1
               in (updated, s2))"

section \<open>Lookups and frames\<close>

lemma load_task_save [table_simps]:
  "load_task (save_task t s) k = (if k = tk_task_id t then Some t else load_task s k)"
  by (simp add: load_task_def save_task_def tbl_find_upsert_replace)

lemma save_task_frame [frame_simps, simp]:
  "join_tokens (save_task t s) = join_tokens s"
  "nodes (save_task t s) = nodes s"
  "audit_events (save_task t s) = audit_events s"
  "approval_requests (save_task t s) = approval_requests s"
  "notifications (save_task t s) = notifications s"
  "node_components (save_task t s) = node_components s"
  "component_runs (save_task t s) = component_runs s"
  by (simp_all add: save_task_def)

lemma load_task_cong: "tasks s' = tasks s \<Longrightarrow> load_task s' = load_task s"
  by (simp add: load_task_def fun_eq_iff)

lemma load_task_audit [simp]:
  "load_task (insert_audit_event e s) = load_task s"
  "load_task (record_audit et st sid act out d now s) = load_task s"
  by (rule load_task_cong, simp)+

lemma load_task_id: "load_task s k = Some t \<Longrightarrow> tk_task_id t = k"
  by (auto simp: load_task_def dest: tbl_find_Some)

lemma save_task_keys: "store_keys_ok s \<Longrightarrow> store_keys_ok (save_task t s)"
  by (auto simp: store_keys_ok_def save_task_def replace_row_def intro!: keys_distinct_upsert)

interpretation task_table: keyed_store load_task save_task tk_task_id id
  by unfold_locales (simp add: load_task_save)

lemma row_id [simp]:
  "tk_task_id (claim_row now l t) = tk_task_id t"
  "tk_task_id (expire_row now t) = tk_task_id t"
  "tk_task_id (complete_row st now ec out err fr t) = tk_task_id t"
  by (simp_all add: claim_row_def expire_row_def complete_row_def)

lemma load_task_update:
  assumes "\<And>t. tk_task_id (f t) = tk_task_id t"
  shows "load_task (s\<lparr>tasks := tbl_update tk_task_id k f (tasks s)\<rparr>) k'
    = (if k' = k then map_option f (load_task s k) else load_task s k')"
  by (auto simp: load_task_def tbl_find_update assms)

lemma load_task_in:
  "store_keys_ok s \<Longrightarrow> t \<in> set (tasks s) \<Longrightarrow> load_task s (tk_task_id t) = Some t"
  by (simp add: load_task_def store_keys_ok_def keys_distinct_find)

lemma expire_one_load:
  "load_task (expire_one now row s) k =
     (if k = tk_task_id row then map_option (expire_row now) (load_task s k) else load_task s k)"
  by (simp add: expire_one_def load_task_update)

lemma expire_one_frame [frame_simps, simp]:
  "nodes (expire_one now row s) = nodes s"
  "join_tokens (expire_one now row s) = join_tokens s"
  "approval_requests (expire_one now row s) = approval_requests s"
  "component_runs (expire_one now row s) = component_runs s"
  "node_components (expire_one now row s) = node_components s"
  by (simp_all add: expire_one_def)

lemma expire_fold_frame [frame_simps, simp]:
  "nodes (fold (expire_one now) rows s) = nodes s"
  "join_tokens (fold (expire_one now) rows s) = join_tokens s"
  "approval_requests (fold (expire_one now) rows s) = approval_requests s"
  "component_runs (fold (expire_one now) rows s) = component_runs s"
  "node_components (fold (expire_one now) rows s) = node_components s"
  by (induction rows arbitrary: s) simp_all

lemma expire_row_idem [simp]: "expire_row now (expire_row now t) = expire_row now t"
  by (simp add: expire_row_def)

lemma expire_fold_load:
  "load_task (fold (expire_one now) rows s) k =
     (if k \<in> tk_task_id ` set rows then map_option (expire_row now) (load_task s k) else load_task s k)"
proof (induction rows arbitrary: s)
  case Nil
  then show ?case by simp
next
  case (Cons r rows)
  then show ?case by (auto simp: expire_one_load option.map_comp o_def)
qed

lemma task_ops_frame [frame_simps, simp]:
  "nodes (snd (claim_next_task n e l now s)) = nodes s"
  "nodes (snd (expire_stuck_tasks old now s)) = nodes s"
  "nodes (snd (complete_task k ec out err now s)) = nodes s"
  "nodes (snd (create_task n c r b e uid clk s)) = nodes s"
  "join_tokens (snd (claim_next_task n e l now s)) = join_tokens s"
  "join_tokens (snd (expire_stuck_tasks old now s)) = join_tokens s"
  "join_tokens (snd (complete_task k ec out err now s)) = join_tokens s"
  "approval_requests (snd (claim_next_task n e l now s)) = approval_requests s"
  "approval_requests (snd (expire_stuck_tasks old now s)) = approval_requests s"
  "approval_requests (snd (complete_task k ec out err now s)) = approval_requests s"
  "approval_requests (snd (create_task n c r b e uid clk s)) = approval_requests s"
  by (auto simp: claim_next_task_def expire_stuck_tasks_def complete_task_def create_task_def Let_def
      split: option.splits)

lemma expire_fold_audit: "audit_extends s (fold (expire_one now) rows s)"
proof (induction rows arbitrary: s)
  case Nil
  then show ?case by simp
next
  case (Cons r rows)
  have "audit_extends s (expire_one now r s)" by (auto simp: expire_one_def audit_extends_def audit_simps)
  with Cons show ?case by (auto intro: audit_extends_trans)
qed

lemma task_ops_audit:
  "audit_extends s (snd (claim_next_task n e l now s))"
  "audit_extends s (snd (expire_stuck_tasks old now s))"
  "audit_extends s (snd (complete_task k ec out err now s))"
  "audit_extends s (snd (create_task n c r b e uid clk s))"
  by (auto simp: claim_next_task_def expire_stuck_tasks_def complete_task_def create_task_def Let_def
      audit_extends_def audit_simps expire_fold_audit [unfolded audit_extends_def] split: option.splits)

lemma update_tasks_keys:
  "(\<And>t. tk_task_id (f t) = tk_task_id t) \<Longrightarrow>
   store_keys_ok (s\<lparr>tasks := tbl_update tk_task_id k f (tasks s)\<rparr>) = store_keys_ok s"
  by (simp add: store_keys_ok_def keys_distinct_update)

lemma expire_fold_keys: "store_keys_ok (fold (expire_one now) rows s) = store_keys_ok s"
  by (induction rows arbitrary: s) (simp_all add: expire_one_def update_tasks_keys)

lemma task_ops_keys:
  "store_keys_ok s \<Longrightarrow> store_keys_ok (snd (claim_next_task n e l now s))"
  "store_keys_ok s \<Longrightarrow> store_keys_ok (snd (expire_stuck_tasks old now s))"
  "store_keys_ok s \<Longrightarrow> store_keys_ok (snd (complete_task k ec out err now s))"
  "store_keys_ok s \<Longrightarrow> store_keys_ok (snd (create_task n c r b e uid clk s))"
  by (auto simp: claim_next_task_def expire_stuck_tasks_def complete_task_def create_task_def Let_def
      update_tasks_keys expire_fold_keys save_task_keys split: option.splits)

section \<open>The life of a task\<close>

text \<open>
  A row is well formed when its fields agree with its status: the claim stamps it, one claim only,
  and completion needs a claim.
\<close>

definition task_done :: "task \<Rightarrow> bool" where
  "task_done t \<longleftrightarrow> tk_status t = ''succeeded'' \<or> tk_status t = ''failed''"

definition task_ok :: "task \<Rightarrow> bool" where
  "task_ok t \<longleftrightarrow>
     (if tk_status t = ''pending''
      then tk_attempt_count t = 0 \<and> tk_claimed_at t = None \<and> tk_lease_expires_at t = None
           \<and> tk_completed_at t = None \<and> tk_exit_code t = None
      else if tk_status t = ''running''
      then tk_attempt_count t = 1 \<and> tk_claimed_at t \<noteq> None \<and> tk_lease_expires_at t \<noteq> None
           \<and> tk_completed_at t = None \<and> tk_exit_code t = None
      else task_done t \<and> tk_attempt_count t = 1 \<and> tk_claimed_at t \<noteq> None \<and> tk_completed_at t \<noteq> None
           \<and> length (tk_stdout t) \<le> TASK_OUTPUT_MAX_BYTES \<and> length (tk_stderr t) \<le> TASK_OUTPUT_MAX_BYTES
           \<and> (tk_status t = ''succeeded'' \<longleftrightarrow> tk_exit_code t = Some 0))
     \<and> (tk_failure_reason t \<noteq> [] \<longleftrightarrow> tk_status t = ''failed'')
     \<and> (\<not> task_done t \<longrightarrow> tk_stdout t = [] \<and> tk_stderr t = [])"

definition tasks_ok :: "store \<Rightarrow> bool" where
  "tasks_ok s \<longleftrightarrow> keys_distinct tk_task_id (tasks s) \<and> (\<forall>t \<in> set (tasks s). task_ok t)"

definition same_order :: "task \<Rightarrow> task \<Rightarrow> bool" where
  "same_order t t' \<longleftrightarrow>
     tk_task_id t' = tk_task_id t \<and> tk_node_id t' = tk_node_id t \<and> tk_command t' = tk_command t
     \<and> tk_risk t' = tk_risk t \<and> tk_executor t' = tk_executor t \<and> tk_created_by t' = tk_created_by t
     \<and> tk_created_at t' = tk_created_at t"

definition task_evolves :: "task \<Rightarrow> task \<Rightarrow> bool" where
  "task_evolves t t' \<longleftrightarrow>
     t' = t \<or> same_order t t' \<and>
       (tk_status t = ''pending'' \<and> tk_status t' \<noteq> ''pending''
        \<or> tk_status t = ''running'' \<and> task_done t')"

text \<open>
  The operations on the queue, as the workers and the API use it.  A task id is a fresh uuid: a creation whose draw
  is already taken is left out of the runs.  A task of the SSH executor is run by the master itself
  (\<open>run_ssh_task\<close>), which saves its rows without a claim or an attempt: that operation is in Executor, with laws of
  its own, and not part of these runs.
\<close>

datatype task_op =
    CreateTask string string string string string string "nat \<Rightarrow> time"
  | ClaimTask string string int time
  | ExpireStuck "int option" time
  | CompleteTask string int string string time

fun task_op_run :: "task_op \<Rightarrow> store \<Rightarrow> store" where
  "task_op_run (CreateTask n c r b e uid clk) s =
     (if load_task s (''task_'' @ uid) = None then snd (create_task n c r b e uid clk s) else s)"
| "task_op_run (ClaimTask n e l now) s = snd (claim_next_task n e l now s)"
| "task_op_run (ExpireStuck old now) s = snd (expire_stuck_tasks old now s)"
| "task_op_run (CompleteTask k ec out err now) s = snd (complete_task k ec out err now s)"

subsection \<open>Output is bounded\<close>

lemma marker_room: "length TASK_OUTPUT_TRUNCATED_MARKER \<le> TASK_OUTPUT_MAX_BYTES"
  by (simp add: TASK_OUTPUT_TRUNCATED_MARKER_def TASK_OUTPUT_MAX_BYTES_def)

lemma cap_task_output_length: "length (cap_task_output out) \<le> TASK_OUTPUT_MAX_BYTES"
proof (cases "length out \<le> TASK_OUTPUT_MAX_BYTES")
  case True
  then show ?thesis by (simp add: cap_task_output_def)
next
  case False
  let ?room = "TASK_OUTPUT_MAX_BYTES - length TASK_OUTPUT_TRUNCATED_MARKER"
  have "length (utf8_ignore (take ?room out)) \<le> ?room"
    by (rule order_trans [OF length_utf8_ignore]) simp
  then show ?thesis using False marker_room by (simp add: cap_task_output_def Let_def)
qed

lemma cap_task_output_short [simp]: "length out \<le> TASK_OUTPUT_MAX_BYTES \<Longrightarrow> cap_task_output out = out"
  by (simp add: cap_task_output_def)

lemma cap_task_output_idem: "cap_task_output (cap_task_output out) = cap_task_output out"
  by (simp add: cap_task_output_length)

subsection \<open>Each operation keeps rows well formed\<close>

lemma set_tbl_update: "t \<in> set (tbl_update key k f rows) \<Longrightarrow>
    \<exists>u \<in> set rows. t = (if key u = k then f u else u)"
  by (auto simp: tbl_update_def)

lemma tasks_ok_update:
  assumes "tasks_ok s" and "\<And>t. tk_task_id (f t) = tk_task_id t" and "\<And>t. task_ok t \<Longrightarrow> task_ok (f t)"
  shows "tasks_ok (s\<lparr>tasks := tbl_update tk_task_id k f (tasks s)\<rparr>)"
  using assms by (auto simp: tasks_ok_def keys_distinct_update dest!: set_tbl_update)

lemma tasks_ok_cong: "tasks s' = tasks s \<Longrightarrow> tasks_ok s' = tasks_ok s"
  by (simp add: tasks_ok_def)

lemma tasks_ok_audit [simp]: "tasks_ok (record_audit et st sid act out d now s) = tasks_ok s"
  by (rule tasks_ok_cong) simp

lemma row_ok:
  "task_ok t \<Longrightarrow> task_ok (claim_row now l t)"
  "task_ok t \<Longrightarrow> task_ok (expire_row now t)"
  "task_ok t \<Longrightarrow> task_ok (complete_row ''succeeded'' now 0 (cap_task_output out) (cap_task_output err) [] t)"
  "ec \<noteq> 0 \<Longrightarrow> task_ok t \<Longrightarrow>
     task_ok (complete_row ''failed'' now ec (cap_task_output out) (cap_task_output err) ''exit_code_nonzero'' t)"
  by (auto simp: task_ok_def task_done_def claim_row_def expire_row_def complete_row_def
      cap_task_output_length split: if_splits)

lemma new_task_ok: "task_ok (new_task k n c r b e now)"
  by (simp add: task_ok_def task_done_def new_task_def)

lemma tasks_ok_save_fresh:
  assumes "tasks_ok s" and "load_task s (tk_task_id t) = None" and "task_ok t"
  shows "tasks_ok (save_task t s)"
proof -
  have "tasks (save_task t s) = tasks s @ [t]"
    using assms(2) by (simp add: save_task_def tbl_upsert_def load_task_def)
  moreover have "tk_task_id t \<notin> tk_task_id ` set (tasks s)"
    using assms(2) by (simp add: load_task_def tbl_find_None)
  ultimately show ?thesis using assms(1,3) by (auto simp: tasks_ok_def keys_distinct_def)
qed

lemma expire_one_ok: "tasks_ok s \<Longrightarrow> tasks_ok (expire_one now row s)"
  by (simp add: expire_one_def tasks_ok_update row_ok)

lemma expire_fold_ok: "tasks_ok s \<Longrightarrow> tasks_ok (fold (expire_one now) rows s)"
  by (induction rows arbitrary: s) (simp_all add: expire_one_ok)

lemma tasks_ok_step: "tasks_ok s \<Longrightarrow> tasks_ok (task_op_run i s)"
proof (cases i)
  case (CreateTask n c r b e uid clk)
  assume "tasks_ok s"
  with CreateTask show ?thesis
    by (auto simp: create_task_def Let_def new_task_def intro!: tasks_ok_save_fresh
        new_task_ok [unfolded new_task_def])
next
  case (ClaimTask n e l now)
  assume "tasks_ok s"
  with ClaimTask show ?thesis
    by (auto simp: claim_next_task_def Let_def intro!: tasks_ok_update row_ok split: option.splits)
next
  case (ExpireStuck old now)
  assume "tasks_ok s"
  with ExpireStuck show ?thesis by (simp add: expire_stuck_tasks_def Let_def expire_fold_ok)
next
  case (CompleteTask k ec out err now)
  assume ok: "tasks_ok s"
  show ?thesis
    using CompleteTask ok by (auto simp: complete_task_def Let_def intro!: tasks_ok_update row_ok split: option.splits)
qed

subsection \<open>How a row may change\<close>

lemma task_evolves_refl: "task_evolves t t"
  by (simp add: task_evolves_def)

lemma task_evolves_trans: "task_evolves t t' \<Longrightarrow> task_evolves t' t'' \<Longrightarrow> task_evolves t t''"
  by (auto simp: task_evolves_def same_order_def task_done_def)

lemma row_evolves:
  "task_evolves t (claim_row now l t)"
  "task_evolves t (expire_row now t)"
  "task_evolves t (complete_row ''succeeded'' now ec out err fr t)"
  "task_evolves t (complete_row ''failed'' now ec out err fr t)"
  by (simp_all add: task_evolves_def same_order_def task_done_def claim_row_def expire_row_def complete_row_def)

lemma task_op_evolves:
  assumes "tasks_ok s" and "load_task s k = Some t"
  shows "\<exists>t'. load_task (task_op_run i s) k = Some t' \<and> task_evolves t t'"
proof (cases i)
  case (CreateTask n c r b e uid clk)
  with assms(2) show ?thesis
    by (auto simp: create_task_def Let_def load_task_save new_task_def task_evolves_refl)
next
  case (ClaimTask n e l now)
  with assms(2) show ?thesis
    by (auto simp: claim_next_task_def Let_def load_task_update task_evolves_refl row_evolves split: option.splits)
next
  case (ExpireStuck old now)
  with assms(2) show ?thesis
    by (auto simp: expire_stuck_tasks_def Let_def expire_fold_load task_evolves_refl row_evolves)
next
  case (CompleteTask j ec out err now)
  with assms(2) show ?thesis
    by (auto simp: complete_task_def Let_def load_task_update task_evolves_refl row_evolves split: option.splits)
qed

interpretation task_life: final_machine load_task task_op_run task_evolves tasks_ok task_done
proof unfold_locales
  show "task_evolves r r" for r by (rule task_evolves_refl)
  show "task_evolves r r' \<Longrightarrow> task_evolves r' r'' \<Longrightarrow> task_evolves r r''" for r r' r''
    by (rule task_evolves_trans)
  show "tasks_ok s \<Longrightarrow> tasks_ok (task_op_run i s)" for s i by (rule tasks_ok_step)
  show "tasks_ok s \<Longrightarrow> load_task s k = Some r \<Longrightarrow> \<exists>r'. load_task (task_op_run i s) k = Some r' \<and> task_evolves r r'"
    for s k r i by (rule task_op_evolves)
  show "task_done r \<Longrightarrow> task_evolves r r' \<Longrightarrow> r' = r" for r r'
    by (auto simp: task_evolves_def task_done_def)
qed

text \<open>The task operations keep the audit log append-only.\<close>

interpretation task_log: audited task_op_run
proof unfold_locales
  show "audit_extends s (task_op_run i s)" for i s
    by (cases i) (simp_all add: task_ops_audit)
qed

lemmas task_log_keeps = task_log.run_keeps_event task_log.run_keeps_heartbeat

section \<open>What a claim hands out\<close>

definition node_managed :: "store \<Rightarrow> string \<Rightarrow> bool" where
  "node_managed s node_id \<longleftrightarrow> (\<exists>n. load_node s node_id = Some n \<and> nd_status n = ''managed'')"

lemma claim_none:
  "fst (claim_next_task n e l now s) = None \<longleftrightarrow>
     \<not> node_managed s n \<or> (\<forall>t \<in> set (tasks s). \<not> claimable n e t)"
proof (cases "node_managed s n")
  case False
  then show ?thesis by (auto simp: claim_next_task_def node_managed_def Let_def split: option.splits)
next
  case True
  then obtain nd where nd: "load_node s n = Some nd" "nd_status nd = ''managed''"
    by (auto simp: node_managed_def)
  show ?thesis
  proof (cases "first_row (order_by tk_created_at (filter (claimable n e) (tasks s)))")
    case None
    then have "filter (claimable n e) (tasks s) = []" by (metis first_row_sort_key_None order_by_def)
    with nd True None show ?thesis by (auto simp: claim_next_task_def filter_empty_conv)
  next
    case (Some row)
    then have row: "row \<in> set (tasks s)" "claimable n e row"
      by (auto simp: order_by_def dest!: first_row_sort_key(1))
    then have "load_task s (tk_task_id row) \<noteq> None"
      by (auto simp: load_task_def tbl_find_None)
    with nd Some row True show ?thesis
      by (auto simp: claim_next_task_def load_task_update Let_def)
  qed
qed

lemma claim_some:
  assumes "keys_distinct tk_task_id (tasks s)" and "claim_next_task n e l now s = (Some t', s')"
  shows "\<exists>t \<in> set (tasks s). claimable n e t
      \<and> (\<forall>u \<in> set (tasks s). claimable n e u \<longrightarrow> tk_created_at t \<le> tk_created_at u)
      \<and> t' = claim_row now (now + seconds l) t \<and> load_task s (tk_task_id t) = Some t
      \<and> (\<forall>k. load_task s' k = (if k = tk_task_id t then Some t' else load_task s k))"
proof -
  from assms(2) have "fst (claim_next_task n e l now s) \<noteq> None" by simp
  then obtain nd where nd: "load_node s n = Some nd" "nd_status nd = ''managed''"
    by (auto simp: claim_none node_managed_def)
  obtain row where row: "first_row (order_by tk_created_at (filter (claimable n e) (tasks s))) = Some row"
    using assms(2) nd by (auto simp: claim_next_task_def split: option.splits)
  have in_row: "row \<in> set (tasks s)" "claimable n e row"
    using row by (auto simp: order_by_def dest!: first_row_sort_key(1))
  have oldest: "tk_created_at row \<le> tk_created_at u" if "u \<in> set (tasks s)" "claimable n e u" for u
    using row that by (auto simp: order_by_def dest!: first_row_sort_key(2))
  have ld: "load_task s (tk_task_id row) = Some row"
    using assms(1) in_row by (simp add: load_task_def keys_distinct_find)
  have t': "t' = claim_row now (now + seconds l) row"
    and s': "\<forall>k. load_task s' k = (if k = tk_task_id row then Some t' else load_task s k)"
    using assms(2) nd row ld by (auto simp: claim_next_task_def load_task_update Let_def)
  show ?thesis using in_row oldest t' s' ld by blast
qed

lemma claim_row_running:
  "claimable n e t \<Longrightarrow> tk_status (claim_row now l t) = ''running'' \<and> tk_node_id (claim_row now l t) = n
     \<and> tk_executor (claim_row now l t) = e \<and> tk_lease_expires_at (claim_row now l t) = Some l
     \<and> tk_claimed_at (claim_row now l t) = Some now"
  by (simp add: claimable_def claim_row_def)

text \<open>Claim after claim by one poller, each at its own clock reading.\<close>

fun claims :: "string \<Rightarrow> string \<Rightarrow> int \<Rightarrow> time list \<Rightarrow> store \<Rightarrow> task list \<times> store" where
  "claims n e l [] s = ([], s)"
| "claims n e l (now # nows) s =
     (case claim_next_task n e l now s of
        (None, s1) \<Rightarrow> claims n e l nows s1
      | (Some t, s1) \<Rightarrow> let (ts, s2) = claims n e l nows s1 in (t # ts, s2))"

definition queue_of :: "string \<Rightarrow> string \<Rightarrow> store \<Rightarrow> task list" where
  "queue_of n e s = order_by tk_created_at (filter (claimable n e) (tasks s))"

lemma filter_claim_update:
  assumes "keys_distinct tk_task_id rows" and "claimable n e row" and "row \<in> set rows"
  shows "filter (claimable n e) (tbl_update tk_task_id (tk_task_id row) (claim_row now l) rows)
    = filter (\<lambda>t. tk_task_id t \<noteq> tk_task_id row) (filter (claimable n e) rows)"
  by (induction rows) (auto simp: tbl_update_def claimable_def claim_row_def)

lemma claim_pops_queue:
  assumes "keys_distinct tk_task_id (tasks s)" and "node_managed s n"
  shows "case queue_of n e s of
      [] \<Rightarrow> claim_next_task n e l now s = (None, s)
    | row # rest \<Rightarrow> fst (claim_next_task n e l now s) = Some (claim_row now (now + seconds l) row)
        \<and> queue_of n e (snd (claim_next_task n e l now s)) = rest"
proof -
  obtain nd where nd: "load_node s n = Some nd" "nd_status nd = ''managed''"
    using assms(2) by (auto simp: node_managed_def)
  show ?thesis
  proof (cases "queue_of n e s")
    case Nil
    with nd show ?thesis by (simp add: claim_next_task_def queue_of_def Let_def)
  next
    case (Cons row rest)
    have "set (queue_of n e s) = set (filter (claimable n e) (tasks s))"
      by (simp add: queue_of_def order_by_def)
    with Cons have in_row: "row \<in> set (tasks s)" "claimable n e row" by auto
    have ld: "load_task s (tk_task_id row) = Some row"
      using assms(1) in_row by (simp add: load_task_def keys_distinct_find)
    have ts: "tasks (snd (claim_next_task n e l now s))
        = tbl_update tk_task_id (tk_task_id row) (claim_row now (now + seconds l)) (tasks s)"
      using nd Cons by (simp add: claim_next_task_def queue_of_def Let_def)
    have "distinct (map tk_task_id (queue_of n e s))"
    proof -
      have "distinct (map tk_task_id (filter (claimable n e) (tasks s)))"
        using assms(1) by (simp add: keys_distinct_def distinct_map_filter)
      then show ?thesis by (simp add: queue_of_def order_by_def distinct_map)
    qed
    then have rest: "filter (\<lambda>t. tk_task_id t \<noteq> tk_task_id row) (queue_of n e s) = rest"
      by (auto simp: Cons image_iff intro!: filter_True)
    have "queue_of n e (snd (claim_next_task n e l now s)) = rest"
      unfolding queue_of_def ts order_by_def filter_claim_update [OF assms(1) in_row(2,1)]
      using rest by (simp add: queue_of_def order_by_def filter_sort)
    moreover have "fst (claim_next_task n e l now s) = Some (claim_row now (now + seconds l) row)"
      using nd Cons ld by (simp add: claim_next_task_def queue_of_def load_task_update Let_def)
    ultimately show ?thesis by (simp add: Cons)
  qed
qed

lemma claim_keeps:
  "node_managed (snd (claim_next_task n e l now s)) m = node_managed s m"
  "keys_distinct tk_task_id (tasks (snd (claim_next_task n e l now s))) = keys_distinct tk_task_id (tasks s)"
proof -
  show "node_managed (snd (claim_next_task n e l now s)) m = node_managed s m"
    by (simp add: node_managed_def load_node_def)
  show "keys_distinct tk_task_id (tasks (snd (claim_next_task n e l now s))) = keys_distinct tk_task_id (tasks s)"
    by (auto simp: claim_next_task_def Let_def keys_distinct_update split: option.splits)
qed

lemma claims_follow_queue:
  "keys_distinct tk_task_id (tasks s) \<Longrightarrow> node_managed s n \<Longrightarrow>
   map tk_task_id (fst (claims n e l nows s)) = take (length nows) (map tk_task_id (queue_of n e s))
   \<and> queue_of n e (snd (claims n e l nows s)) = drop (length nows) (queue_of n e s)"
proof (induction nows arbitrary: s)
  case Nil
  then show ?case by simp
next
  case (Cons now nows)
  obtain r s1 where r: "claim_next_task n e l now s = (r, s1)" by fastforce
  have s1: "s1 = snd (claim_next_task n e l now s)" using r by simp
  have IH: "map tk_task_id (fst (claims n e l nows s1)) = take (length nows) (map tk_task_id (queue_of n e s1))
      \<and> queue_of n e (snd (claims n e l nows s1)) = drop (length nows) (queue_of n e s1)"
    by (rule Cons.IH) (simp_all add: s1 claim_keeps Cons.prems)
  show ?case
  proof (cases "queue_of n e s")
    case Nil
    with claim_pops_queue [OF Cons.prems, of e l now] IH r show ?thesis by simp
  next
    case (Cons row rest)
    with claim_pops_queue [OF Cons.prems, of e l now] r
    have "r = Some (claim_row now (now + seconds l) row)" "queue_of n e s1 = rest" by simp_all
    with IH Cons r show ?thesis by (simp add: case_prod_beta Let_def)
  qed
qed

section \<open>Expiry, row by row\<close>

definition cutoff_of :: "int option \<Rightarrow> time \<Rightarrow> time" where
  "cutoff_of older_than_seconds now = (case older_than_seconds of None \<Rightarrow> now | Some n \<Rightarrow> now - seconds n)"

lemma expire_ids:
  "set (fst (expire_stuck_tasks old now s))
    = tk_task_id ` {t. t \<in> set (tasks s) \<and> lease_lost (cutoff_of old now) t}"
  by (simp add: expire_stuck_tasks_def order_by_def cutoff_of_def Let_def)

lemma expire_load:
  assumes "keys_distinct tk_task_id (tasks s)"
  shows "load_task (snd (expire_stuck_tasks old now s)) k
    = map_option (\<lambda>t. if lease_lost (cutoff_of old now) t then expire_row now t else t) (load_task s k)"
proof (cases "load_task s k")
  case None
  then show ?thesis by (simp add: expire_stuck_tasks_def Let_def expire_fold_load)
next
  case (Some t)
  then have t: "t \<in> set (tasks s)" "tk_task_id t = k" by (auto simp: load_task_def dest: tbl_find_Some)
  have same: "u = t" if "u \<in> set (tasks s)" "tk_task_id u = k" for u
    using keys_distinct_find [OF assms that(1)] keys_distinct_find [OF assms t(1)] that(2) t(2) by simp
  have "k \<in> set (fst (expire_stuck_tasks old now s)) \<longleftrightarrow> lease_lost (cutoff_of old now) t"
    unfolding expire_ids using t same by blast
  then show ?thesis
    by (simp add: Some expire_stuck_tasks_def Let_def expire_fold_load)
qed

section \<open>Properties\<close>

definition sample_task :: "string \<Rightarrow> time \<Rightarrow> task" where
  "sample_task k at = new_task k ''n1'' ''uptime'' ''read'' ''admin'' ''worker'' at"

definition sample_queue :: store where
  "sample_queue = empty_store\<lparr>nodes := [(new_node ''n1'' ''fp'' ''web'' [] ''A'' [])\<lparr>nd_status := ''managed''\<rparr>],
     tasks := [sample_task ''t2'' 20, sample_task ''t1'' 10]\<rparr>"

lemma sample_queue_ok: "tasks_ok sample_queue"
  by (simp add: tasks_ok_def sample_queue_def sample_task_def new_task_ok keys_distinct_def)
    (simp add: new_task_def)

lemma sample_queue_managed: "node_managed sample_queue ''n1''"
  by (simp add: node_managed_def load_node_def sample_queue_def new_node_def)

text \<open>\<open>claim_next_task\<close> hands out nothing, and changes nothing, when the node is not managed or
  has no pending task for the executor; otherwise it hands out an oldest pending task of that node
  and executor, running under a lease that ends \<open>lease_seconds\<close> from now, and no other row changes.\<close>

theorem claim_serves_oldest_pending:
  assumes "tasks_ok s"
  shows "case claim_next_task n e l now s of
      (None, s') \<Rightarrow> s' = s \<and> (\<not> node_managed s n \<or> filter (claimable n e) (tasks s) = [])
    | (Some t', s') \<Rightarrow> node_managed s n \<and> (\<exists>t. t \<in> set (tasks s) \<and> claimable n e t
        \<and> filter (\<lambda>u. claimable n e u \<and> tk_created_at u < tk_created_at t) (tasks s) = []
        \<and> same_order t t' \<and> tk_status t' = ''running'' \<and> tk_attempt_count t' = tk_attempt_count t + 1
        \<and> tk_claimed_at t' = Some now \<and> tk_lease_expires_at t' = Some (now + seconds l)
        \<and> load_task s' = (load_task s)(tk_task_id t \<mapsto> t'))"
proof (cases "claim_next_task n e l now s")
  case (Pair r s')
  show ?thesis
  proof (cases r)
    case None
    with Pair have none: "fst (claim_next_task n e l now s) = None" by simp
    then have "claim_next_task n e l now s = (None, s)"
      by (auto simp: claim_next_task_def Let_def load_task_update split: option.splits
          dest!: first_row_Some) (auto simp: order_by_def load_task_def tbl_find_None)
    moreover have "\<not> node_managed s n \<or> filter (claimable n e) (tasks s) = []"
      using none claim_none [of n e l now s] by (auto simp: filter_empty_conv)
    ultimately show ?thesis by simp
  next
    case (Some t')
    with Pair have some: "claim_next_task n e l now s = (Some t', s')" by simp
    have "node_managed s n" using some claim_none [of n e l now s] by auto
    moreover obtain t where "t \<in> set (tasks s)" "claimable n e t"
      "\<forall>u \<in> set (tasks s). claimable n e u \<longrightarrow> tk_created_at t \<le> tk_created_at u"
      "t' = claim_row now (now + seconds l) t"
      "\<forall>k. load_task s' k = (if k = tk_task_id t then Some t' else load_task s k)"
      using claim_some [OF _ some] assms by (auto simp: tasks_ok_def)
    ultimately show ?thesis using some
      by (auto simp: claim_row_def claimable_def same_order_def filter_empty_conv fun_eq_iff
          intro!: exI [of _ t])
  qed
qed

lemma claim_serves_oldest_pending_witness:
  "case claim_next_task ''n1'' ''worker'' 900 50 sample_queue of
      (None, s') \<Rightarrow> False
    | (Some t', s') \<Rightarrow> tk_task_id t' = ''t1'' \<and> tk_status t' = ''running''"
proof -
  have "tk_task_id (the (fst (claim_next_task ''n1'' ''worker'' 900 50 sample_queue))) = ''t1''
      \<and> fst (claim_next_task ''n1'' ''worker'' 900 50 sample_queue) \<noteq> None" by code_simp
  then show ?thesis
    using claim_serves_oldest_pending [OF sample_queue_ok, where n = "''n1''" and e = "''worker''" and l = 900 and now = 50]
    by (auto split: prod.splits option.splits)
qed

text \<open>C29: claiming serves a node's queue in the order of creation: n claims by one executor hand out
  the n oldest pending tasks, each once, and leave the others queued.\<close>

theorem claims_are_fifo:
  assumes "tasks_ok s" and "node_managed s n"
  shows "map tk_task_id (fst (claims n e l nows s)) = take (length nows) (map tk_task_id (queue_of n e s))
    \<and> queue_of n e (snd (claims n e l nows s)) = drop (length nows) (queue_of n e s)"
  using assms claims_follow_queue [of s n e l nows] by (simp add: tasks_ok_def)

lemma claims_are_fifo_witness:
  "map tk_task_id (fst (claims ''n1'' ''worker'' 900 [50, 60, 70] sample_queue)) = [''t1'', ''t2'']"
proof -
  have "map tk_task_id (queue_of ''n1'' ''worker'' sample_queue) = [''t1'', ''t2'']" by code_simp
  then show ?thesis
    using claims_are_fifo [OF sample_queue_ok sample_queue_managed, where e = "''worker''" and l = 900
        and nows = "[50, 60, 70]"] by simp
qed

text \<open>C1: a task is handed out at most once: whatever operations follow a claim, no later claim, by
  whichever node or executor, returns the same task again.\<close>

theorem task_claimed_once:
  assumes "tasks_ok s" and "claim_next_task n e l now s = (Some t, s1)"
    and "fst (claim_next_task n' e' l' now' (fold task_op_run ops s1)) = Some t'"
  shows "tk_task_id t' \<noteq> tk_task_id t"
proof
  assume same: "tk_task_id t' = tk_task_id t"
  have s1: "s1 = task_op_run (ClaimTask n e l now) s" using assms(2) by simp
  then have ok1: "tasks_ok s1" using assms(1) tasks_ok_step by blast
  obtain t0 where "claimable n e t0" "t = claim_row now (now + seconds l) t0" "load_task s1 (tk_task_id t) = Some t"
    using claim_some [OF _ assms(2)] assms(1) by (auto simp: tasks_ok_def)
  then have run: "load_task s1 (tk_task_id t) = Some t" "tk_status t = ''running''"
    by (auto dest: claim_row_running)
  let ?s2 = "fold task_op_run ops s1"
  obtain t2 where t2: "load_task ?s2 (tk_task_id t) = Some t2" "task_evolves t t2"
    using task_life.run_evolves [OF ok1 run(1)] by blast
  then have "tk_status t2 \<noteq> ''pending''" using run(2) by (auto simp: task_evolves_def task_done_def)
  moreover obtain s3 where "claim_next_task n' e' l' now' ?s2 = (Some t', s3)"
    using assms(3) by (cases "claim_next_task n' e' l' now' ?s2") simp
  then obtain u where "claimable n' e' u" "load_task ?s2 (tk_task_id u) = Some u" "tk_task_id t' = tk_task_id u"
    using claim_some [of ?s2] task_life.inv_run [OF ok1, of ops] by (fastforce simp: tasks_ok_def)
  ultimately show False using t2(1) same by (simp add: claimable_def)
qed

lemma task_claimed_once_witness:
  "tk_task_id (the (fst (next_pending_task ''n1'' ''worker'' 60
      (fold task_op_run [ExpireStuck None 55] (snd (claim_next_task ''n1'' ''worker'' 0 50 sample_queue))))))
    \<noteq> ''t1''"
proof -
  let ?a = "claim_next_task ''n1'' ''worker'' 0 50 sample_queue"
  let ?s = "fold task_op_run [ExpireStuck None 55] (snd ?a)"
  have a: "fst ?a \<noteq> None \<and> tk_task_id (the (fst ?a)) = ''t1''" by code_simp
  have b: "fst (claim_next_task ''n1'' ''worker'' 900 60 ?s) \<noteq> None" by code_simp
  from a have "?a = (Some (the (fst ?a)), snd ?a)" by (cases ?a) auto
  from task_claimed_once [OF sample_queue_ok this, of "''n1''" "''worker''" 900 60 "[ExpireStuck None 55]"] a b
  show ?thesis by (auto simp: next_pending_task_def)
qed

text \<open>C30: a finished task is final: no run of creations, claims, expiries and completions changes any
  field of a task that has succeeded or failed.\<close>

theorem finished_task_is_final:
  assumes "tasks_ok s" and "load_task s k = Some t" and "task_done t"
  shows "load_task (fold task_op_run ops s) k = Some t"
  using assms by (rule task_life.run_final)

definition sample_done :: store where
  "sample_done = sample_queue\<lparr>tasks := [(sample_task ''t3'' 5)\<lparr>tk_status := ''failed'', tk_attempt_count := 1,
     tk_claimed_at := Some 6, tk_completed_at := Some 7, tk_failure_reason := ''worker_lease_expired''\<rparr>]\<rparr>"

lemma finished_task_is_final_witness:
  "tk_status (the (load_task (fold task_op_run
      [CompleteTask ''t3'' 0 [] [] 9, ClaimTask ''n1'' ''worker'' 900 10] sample_done) ''t3'')) = ''failed''"
proof -
  let ?t = "the (load_task sample_done ''t3'')"
  have ok: "tasks_ok sample_done"
    by (simp add: tasks_ok_def keys_distinct_def sample_done_def sample_task_def new_task_def task_ok_def task_done_def)
  have t: "load_task sample_done ''t3'' = Some ?t" "task_done ?t" "tk_status ?t = ''failed''"
    by (simp_all add: sample_done_def load_task_def task_done_def sample_task_def new_task_def)
  show ?thesis by (simp only: finished_task_is_final [OF ok t(1,2)] t(3) option.sel)
qed

text \<open>\<open>expire_stuck_tasks\<close> fails exactly the running worker tasks whose lease ended at or before
  the cutoff, names exactly those in its result, and leaves every other task as it was.\<close>

theorem expiry_fails_lost_leases_only:
  assumes "tasks_ok s"
  shows "load_task (snd (expire_stuck_tasks old now s)) k
      = map_option (\<lambda>t. if lease_lost (cutoff_of old now) t
          then t\<lparr>tk_status := ''failed'', tk_completed_at := Some now, tk_failure_reason := ''worker_lease_expired''\<rparr>
          else t) (load_task s k)
    \<and> set (fst (expire_stuck_tasks old now s))
      = tk_task_id ` set (filter (lease_lost (cutoff_of old now)) (tasks s))"
  using expire_load [of s old now k] assms
  by (auto simp: tasks_ok_def expire_ids expire_row_def lease_lost_def option.map_comp o_def
      intro!: option.map_cong)

lemma expiry_fails_lost_leases_only_witness:
  "tk_failure_reason (the (load_task (snd (expire_stuck_tasks None 60
      (snd (claim_next_task ''n1'' ''worker'' 0 50 sample_queue)))) ''t1'')) = ''worker_lease_expired''"
proof -
  let ?s = "snd (claim_next_task ''n1'' ''worker'' 0 50 sample_queue)"
  have ok: "tasks_ok ?s"
    using tasks_ok_step [OF sample_queue_ok, of "ClaimTask ''n1'' ''worker'' 0 50"] by simp
  have "load_task ?s ''t1'' \<noteq> None \<and> lease_lost 60 (the (load_task ?s ''t1''))" by code_simp
  with expiry_fails_lost_leases_only [OF ok, where old = None and now = 60 and k = "''t1''"]
  show ?thesis by (auto simp: cutoff_of_def)
qed

text \<open>\<open>complete_task\<close> settles a running task and only a running one: the task then has succeeded
  exactly when the exit code is 0, carries the capped output, and a second result for it (or one that
  arrives after its lease was expired) is refused without a change.\<close>

theorem completion_settles_running_task:
  "case load_task s k of
      None \<Rightarrow> complete_task k ec out err now s = (None, s)
    | Some t \<Rightarrow>
        if tk_status t \<noteq> ''running'' then complete_task k ec out err now s = (None, s)
        else (\<exists>t' s'. complete_task k ec out err now s = (Some t', s')
          \<and> load_task s' = (load_task s)(k \<mapsto> t') \<and> same_order t t' \<and> task_done t'
          \<and> (tk_status t' = ''succeeded'') = (ec = 0) \<and> tk_exit_code t' = Some ec
          \<and> tk_completed_at t' = Some now
          \<and> tk_stdout t' = cap_task_output out \<and> tk_stderr t' = cap_task_output err
          \<and> complete_task k ec' out' err' now' s' = (None, s'))"
proof (cases "load_task s k")
  case None
  then show ?thesis by (simp add: complete_task_def)
next
  case (Some t)
  show ?thesis
  proof (cases "tk_status t = ''running''")
    case False
    with Some show ?thesis by (simp add: complete_task_def)
  next
    case True
    define t' where "t' = complete_row (if ec = 0 then ''succeeded'' else ''failed'') now ec
        (cap_task_output out) (cap_task_output err) (if ec = 0 then [] else ''exit_code_nonzero'') t"
    have run: "fst (complete_task k ec out err now s) = Some t'"
      and ld: "load_task (snd (complete_task k ec out err now s)) = (load_task s)(k \<mapsto> t')"
      using Some True by (auto simp: complete_task_def t'_def load_task_update Let_def fun_eq_iff)
    have facts: "same_order t t'" "task_done t'" "(tk_status t' = ''succeeded'') = (ec = 0)"
      "tk_exit_code t' = Some ec" "tk_completed_at t' = Some now"
      "tk_stdout t' = cap_task_output out" "tk_stderr t' = cap_task_output err"
      using True by (auto simp: t'_def complete_row_def same_order_def task_done_def)
    have "complete_task k ec' out' err' now' (snd (complete_task k ec out err now s))
        = (None, snd (complete_task k ec out err now s))"
      unfolding complete_task_def [of k ec'] ld using facts(2) by (auto simp: task_done_def Let_def)
    with run ld facts Some True show ?thesis
      by (cases "complete_task k ec out err now s") auto
  qed
qed

text \<open>C31: what is stored of a task's output is at most 65536 bytes of well-formed text: short output
  unchanged, long output cut at a character boundary at most three bytes early and marked.\<close>

theorem task_output_is_capped:
  "length (cap_task_output out) \<le> TASK_OUTPUT_MAX_BYTES
    \<and> (length out \<le> TASK_OUTPUT_MAX_BYTES \<longrightarrow> cap_task_output out = out)
    \<and> (utf8_wf out \<longrightarrow> utf8_wf (cap_task_output out))
    \<and> (utf8_wf out \<and> TASK_OUTPUT_MAX_BYTES < length out \<longrightarrow>
        (\<exists>j. cap_task_output out = take j out @ TASK_OUTPUT_TRUNCATED_MARKER
          \<and> TASK_OUTPUT_MAX_BYTES \<le> j + 3 + length TASK_OUTPUT_TRUNCATED_MARKER))"
proof -
  let ?room = "TASK_OUTPUT_MAX_BYTES - length TASK_OUTPUT_TRUNCATED_MARKER"
  have cut: "\<exists>j. cap_task_output out = take j out @ TASK_OUTPUT_TRUNCATED_MARKER
        \<and> TASK_OUTPUT_MAX_BYTES \<le> j + 3 + length TASK_OUTPUT_TRUNCATED_MARKER
        \<and> utf8_wf (cap_task_output out)"
    if wf: "utf8_wf out" and long: "TASK_OUTPUT_MAX_BYTES < length out"
  proof -
    obtain j where j: "utf8_ignore (take ?room out) = take j out" "?room \<le> j + 3"
      using utf8_ignore_take [OF wf, of ?room] long by fastforce
    have "utf8_wf (take j out)" by (metis j(1) utf8_ignore_wf)
    moreover have "utf8_wf TASK_OUTPUT_TRUNCATED_MARKER" by code_simp
    ultimately show ?thesis using j long marker_room
      by (auto simp: cap_task_output_def Let_def utf8_wf_append intro!: exI [of _ j])
  qed
  then show ?thesis
    using cap_task_output_length [of out] by (cases "length out \<le> TASK_OUTPUT_MAX_BYTES") auto
qed

lemma task_output_is_capped_witness:
  "\<exists>j. cap_task_output (replicate 70000 (CHR ''a'')) = replicate j (CHR ''a'') @ TASK_OUTPUT_TRUNCATED_MARKER
      \<and> TASK_OUTPUT_MAX_BYTES \<le> j + 3 + length TASK_OUTPUT_TRUNCATED_MARKER"
proof -
  let ?out = "replicate 70000 (CHR ''a'')"
  have "utf8_wf (replicate m (CHR ''a''))" for m
  proof (induction m)
    case (Suc m)
    have "utf8_len (replicate (Suc m) (CHR ''a'')) = 1" by (simp add: utf8_len_def utf8_need_def Let_def)
    with Suc show ?case by (simp add: utf8_wf_def utf8_ignore.simps [of "CHR ''a'' # _"])
  qed (simp add: utf8_wf_def)
  moreover have "TASK_OUTPUT_MAX_BYTES < length ?out" by (simp add: TASK_OUTPUT_MAX_BYTES_def)
  ultimately obtain j where "cap_task_output ?out = take j ?out @ TASK_OUTPUT_TRUNCATED_MARKER"
    "TASK_OUTPUT_MAX_BYTES \<le> j + 3 + length TASK_OUTPUT_TRUNCATED_MARKER" "j \<le> 70000 \<or> take j ?out = ?out"
    using task_output_is_capped [of ?out] by fastforce
  moreover have "take j ?out = replicate (min j 70000) (CHR ''a'')" by simp
  moreover have "TASK_OUTPUT_MAX_BYTES \<le> min j 70000 + 3 + length TASK_OUTPUT_TRUNCATED_MARKER"
    using calculation(2) by (simp add: TASK_OUTPUT_MAX_BYTES_def)
  ultimately show ?thesis by metis
qed

end
