(* ===== verification/Approvals.thy ===== *)
theory Approvals imports Components Tasks begin

text \<open>
  Approval requests of \<open>SQLiteStore\<close> and what an approval sets off: a task on a managed node
  (\<open>dispatch_approved_task_request\<close>) or the recorded state of a component run
  (\<open>dispatch_approved_component_action\<close>).  Each dispatch is one \<open>BEGIN IMMEDIATE\<close> transaction;
  \<open>resolve_approval_request\<close> is a sequence of transactions: it loads the request, saves the decision,
  writes the audit event and dispatches.
\<close>

section \<open>The approval table\<close>

definition ap_reread :: "approval_request \<Rightarrow> approval_request" where
  "ap_reread a = a\<lparr>ap_details := dict_sort (ap_details a)\<rparr>"

definition save_approval_request :: "approval_request \<Rightarrow> store \<Rightarrow> store" where
  "save_approval_request a s =
     s\<lparr>approval_requests := tbl_upsert ap_approval_id replace_row (ap_reread a) (approval_requests s)\<rparr>"

definition load_approval_request :: "store \<Rightarrow> string \<Rightarrow> approval_request option" where
  "load_approval_request s approval_id = tbl_find ap_approval_id approval_id (approval_requests s)"

definition list_approval_requests :: "string \<Rightarrow> store \<Rightarrow> approval_request list" where
  "list_approval_requests status s =
     (if status \<noteq> [] then order_desc ap_created_at (filter (\<lambda>a. ap_status a = status) (approval_requests s))
      else order_desc ap_created_at (approval_requests s))"

definition create_approval_request ::
  "string \<Rightarrow> string \<Rightarrow> string \<Rightarrow> string \<Rightarrow> string \<Rightarrow> dict \<Rightarrow> string \<Rightarrow> (nat \<Rightarrow> time) \<Rightarrow> store
    \<Rightarrow> approval_request \<times> store" where
  "create_approval_request subject_type subject_id action risk requested_by details uid clk s =
     (let a = \<lparr>ap_approval_id = ''appr_'' @ uid, ap_subject_type = subject_type, ap_subject_id = subject_id,
               ap_action = action, ap_risk = risk, ap_status = ''pending'', ap_requested_by = requested_by,
               ap_details = details, ap_created_at = clk 0, ap_decided_by = [], ap_decided_at = None\<rparr>
      in (a, record_audit ''approval'' subject_type (ap_approval_id a) ''approval/request'' ''pending''
               (dmerge [(''subject_id'', JStr subject_id), (''action'', JStr action), (''risk'', JStr risk)] details)
               (clk 1) (save_approval_request a s)))"

section \<open>Dispatching an approved task\<close>

text \<open>The \<open>Task(...)\<close> an approval asks for.\<close>

definition approved_task :: "approval_request \<Rightarrow> string \<Rightarrow> time \<Rightarrow> task" where
  "approved_task a uid now =
     new_task (''task_'' @ uid) (py_str (dget (ap_details a) ''node_id''))
       (py_str (dget (ap_details a) ''command'')) (ap_risk a)
       (str_or (dget (ap_details a) ''created_by'') (ap_requested_by a))
       (str_or (dget (ap_details a) ''executor'') ''worker'') now"

definition mark_dispatched :: "approval_request \<Rightarrow> string \<Rightarrow> approval_request" where
  "mark_dispatched a task_id =
     a\<lparr>ap_details := dict_sort (dset (ap_details a) ''dispatched_task_id'' (JStr task_id))\<rparr>"

definition task_dispatch_failure :: "approval_request \<Rightarrow> dict \<Rightarrow> time \<Rightarrow> store \<Rightarrow> store" where
  "task_dispatch_failure a details now s =
     insert_audit_event (AuditEvent ''approval'' ''task'' (ap_approval_id a) ''approval/dispatch'' ''failed'' details now) s"

text \<open>After the insertion of the task: the request remembers it, and two events are written.\<close>

definition commit_task_dispatch :: "approval_request \<Rightarrow> task \<Rightarrow> time \<Rightarrow> time \<Rightarrow> store \<Rightarrow> store" where
  "commit_task_dispatch a t created dispatched s =
     (let s2 = s\<lparr>approval_requests := tbl_update ap_approval_id (ap_approval_id a)
                   (\<lambda>r. r\<lparr>ap_details := ap_details (mark_dispatched a (tk_task_id t))\<rparr>) (approval_requests s)\<rparr>;
          s3 = insert_audit_event (AuditEvent ''task'' ''task'' (tk_task_id t) ''create'' ''ok''
                 [(''node_id'', JStr (tk_node_id t)), (''command'', JStr (tk_command t)),
                  (''risk'', JStr (tk_risk t)), (''executor'', JStr (tk_executor t))] created) s2
      in insert_audit_event (AuditEvent ''approval'' ''task'' (ap_approval_id a) ''approval/dispatch'' ''ok''
           [(''subject_id'', JStr (ap_subject_id a)), (''task_id'', JStr (tk_task_id t)),
            (''node_id'', JStr (tk_node_id t)), (''command'', JStr (tk_command t)),
            (''risk'', JStr (tk_risk t)), (''executor'', JStr (tk_executor t)),
            (''created_by'', JStr (tk_created_by t))] dispatched) s3)"

text \<open>\<open>clk 0\<close> stamps the task or the failure event, \<open>clk 1\<close> and \<open>clk 2\<close> the later events.\<close>

definition dispatch_approved_task_request ::
  "string \<Rightarrow> string \<Rightarrow> (nat \<Rightarrow> time) \<Rightarrow> store \<Rightarrow> task option result \<times> store" where
  "dispatch_approved_task_request approval_id uid clk s =
     (case load_approval_request s approval_id of
        None \<Rightarrow> (Inr None, s)
      | Some a \<Rightarrow>
          if ap_status a \<noteq> ''approved'' then (Inr None, s)
          else if ap_subject_type a \<noteq> ''task'' \<or> ap_action a \<noteq> ''task.run'' then (Inr None, s)
          else if truthy (dget (ap_details a) ''dispatched_task_id'')
          then (Inr (load_task s (py_str (dget (ap_details a) ''dispatched_task_id''))), s)
          else
            let missing = filter (\<lambda>k. \<not> truthy (dget (ap_details a) k)) [''node_id'', ''command'']
            in if missing \<noteq> []
               then (Inr None, task_dispatch_failure a
                       [(''missing'', JList (map JStr missing)), (''subject_id'', JStr (ap_subject_id a))] (clk 0) s)
               else
                 let t = approved_task a uid (clk 0)
                 in if (case load_node s (tk_node_id t) of None \<Rightarrow> True | Some n \<Rightarrow> nd_status n \<noteq> ''managed'')
                    then (Inr None, task_dispatch_failure a
                            [(''reason'', JStr ''node not managed''), (''node_id'', JStr (tk_node_id t))] (clk 1) s)
                    else case task_dispatch_block_reason (tk_node_id t) s of
                      Some reason \<Rightarrow>
                        (Inr None, task_dispatch_failure a
                           [(''reason'', JStr reason), (''node_id'', JStr (tk_node_id t))] (clk 1) s)
                    | None \<Rightarrow>
                        (case tbl_insert tk_task_id t (tasks s) of
                           Inl e \<Rightarrow> (Inl e, s)
                         | Inr rows \<Rightarrow>
                             (Inr (Some t), commit_task_dispatch a t (clk 1) (clk 2) (s\<lparr>tasks := rows\<rparr>))))"

section \<open>Dispatching an approved component run\<close>

definition record_component_dispatch_failure ::
  "approval_request \<Rightarrow> string \<Rightarrow> dict \<Rightarrow> time \<Rightarrow> store \<Rightarrow> store" where
  "record_component_dispatch_failure a reason details now s =
     insert_audit_event (AuditEvent ''approval'' ''component_run'' (ap_approval_id a) ''approval/dispatch'' ''failed''
       (dmerge [(''subject_id'', JStr (ap_subject_id a)), (''reason'', JStr reason)] details) now) s"

text \<open>The action the approval asks for, and where it disagrees with the run it names.\<close>

definition approved_action :: "approval_request \<Rightarrow> component_run \<Rightarrow> string" where
  "approved_action a r =
     py_str (py_or (dget (ap_details a) ''action'')
              (py_or (JStr (removeprefix (ap_action a) ''component.'')) (JStr (cr_action r))))"

definition approval_mismatches :: "approval_request \<Rightarrow> component_run \<Rightarrow> string list" where
  "approval_mismatches a r =
     (if removeprefix (ap_action a) ''component.'' \<noteq> cr_action r then [''approval.action''] else [])
     @ map fst (filter (\<lambda>(key, observed, expected). observed \<noteq> expected)
         [(''run_id'', str_or (dget (ap_details a) ''run_id'') (ap_subject_id a), cr_run_id r),
          (''component_id'', str_or (dget (ap_details a) ''component_id'') [], cr_component_id r),
          (''node_id'', str_or (dget (ap_details a) ''node_id'') [], cr_node_id r),
          (''action'', approved_action a r, cr_action r),
          (''risk'', ap_risk a, cr_risk r)])"

text \<open>
  The \<open>UPDATE ... AND status != 'state_recorded'\<close> always changes the row: its status was read in the
  same transaction.
\<close>

definition recorded_run :: "approval_request \<Rightarrow> component_run \<Rightarrow> time \<Rightarrow> component_run" where
  "recorded_run a r now =
     r\<lparr>cr_status := ''state_recorded'',
       cr_result := dmerge (cr_result r)
         [(''machine_changed'', JBool False), (''state_closed_loop'', JBool True),
          (''remote_execution'', JStr ''not_enabled''),
          (''approval_id'', JStr (ap_approval_id a)), (''approved_by'', JStr (ap_decided_by a))],
       cr_completed_at := Some now\<rparr>"

text \<open>An uninstall keeps what is known of the installed component; an apply takes what was asked for.\<close>

definition dispatched_state :: "approval_request \<Rightarrow> component_run \<Rightarrow> store \<Rightarrow> node_component" where
  "dispatched_state a r s =
     (let details = ap_details a; action = approved_action a r;
          existing = (if action = ''uninstall''
                      then load_node_component s (cr_node_id r, cr_component_id r) else None);
          (config, installed_version, driver) =
            (case existing of
               Some e \<Rightarrow> (nc_config e, nc_installed_version e, nc_driver e)
             | None \<Rightarrow> (case dget details ''config'' of JObj c \<Rightarrow> c | _ \<Rightarrow> [],
                         str_or (dget details ''version'') [], str_or (dget details ''driver'') []))
      in \<lparr>nc_node_id = cr_node_id r, nc_component_id = cr_component_id r,
          nc_desired_state = (if action = ''uninstall'' then ''absent'' else ''enabled''),
          nc_current_state = ''planned'', nc_config = config, nc_installed_version = installed_version,
          nc_driver = driver, nc_last_plan_id = [], nc_last_run_id = cr_run_id r, nc_last_verified_at = None\<rparr>)"

definition commit_component_dispatch :: "approval_request \<Rightarrow> component_run \<Rightarrow> (nat \<Rightarrow> time) \<Rightarrow> store \<Rightarrow> store" where
  "commit_component_dispatch a r clk s =
     (let s1 = save_node_component (dispatched_state a r s) s;
          s2 = save_component_run (recorded_run a r (clk 0)) s1
      in insert_audit_event (AuditEvent ''component'' ''component'' (cr_component_id r) (approved_action a r)
           ''state_recorded''
           [(''node_id'', JStr (cr_node_id r)), (''run_id'', JStr (cr_run_id r)),
            (''risk'', JStr (cr_risk r)), (''approval_id'', JStr (ap_approval_id a))] (clk 1)) s2)"

definition dispatch_approved_component_action ::
  "string \<Rightarrow> (nat \<Rightarrow> time) \<Rightarrow> store \<Rightarrow> component_run option \<times> store" where
  "dispatch_approved_component_action approval_id clk s =
     (case load_approval_request s approval_id of
        None \<Rightarrow> (None, s)
      | Some a \<Rightarrow>
          if ap_status a \<noteq> ''approved'' then (None, s)
          else if ap_subject_type a \<noteq> ''component_run'' \<or> \<not> startswith (ap_action a) ''component.'' then (None, s)
          else case load_component_run s (ap_subject_id a) of
            None \<Rightarrow> (None, s)
          | Some r \<Rightarrow>
              if cr_status r = ''state_recorded'' then (Some r, s)
              else
                let action = approved_action a r; mismatched = approval_mismatches a r
                in if mismatched \<noteq> []
                   then (None, record_component_dispatch_failure a ''component approval details mismatch''
                           [(''mismatched'', JList (map JStr (sort (remdups mismatched)))), (''run_id'', JStr (cr_run_id r))]
                           (clk 0) s)
                   else if cr_status r \<noteq> ''pending_approval''
                   then (None, record_component_dispatch_failure a ''component run is not pending approval''
                           [(''run_id'', JStr (cr_run_id r)), (''run_status'', JStr (cr_status r))] (clk 0) s)
                   else if action \<notin> {''apply'', ''uninstall''}
                   then (None, record_component_dispatch_failure a ''component action is not dispatchable''
                           [(''run_id'', JStr (cr_run_id r)), (''component_action'', JStr action)] (clk 0) s)
                   else (Some (recorded_run a r (clk 0)), commit_component_dispatch a r clk s))"

text \<open>\<open>dispatch_approved_component_apply\<close> is the older name of the same operation.\<close>

definition dispatch_approved_component_apply ::
  "string \<Rightarrow> (nat \<Rightarrow> time) \<Rightarrow> store \<Rightarrow> component_run option \<times> store" where
  "dispatch_approved_component_apply approval_id clk s = dispatch_approved_component_action approval_id clk s"

section \<open>Deciding\<close>

text \<open>
  \<open>decide_loaded\<close> is what \<open>resolve_approval_request\<close> does with the request it has loaded.  Its dispatch
  reads the clock from \<open>clk 2\<close> on.
\<close>

definition decide_loaded ::
  "approval_request option \<Rightarrow> string \<Rightarrow> string \<Rightarrow> string \<Rightarrow> (nat \<Rightarrow> time) \<Rightarrow> store
    \<Rightarrow> approval_request option result \<times> store" where
  "decide_loaded loaded status decided_by uid clk s =
     (case loaded of
        None \<Rightarrow> (Inr None, s)
      | Some a \<Rightarrow>
          if ap_status a \<noteq> ''pending'' then (Inr (Some a), s)
          else
            let a' = a\<lparr>ap_status := status, ap_decided_by := decided_by, ap_decided_at := Some (clk 0)\<rparr>;
                s1 = save_approval_request a' s;
                s2 = record_audit ''approval'' (ap_subject_type a') (ap_approval_id a') (''approval/'' @ status) status
                       [(''subject_id'', JStr (ap_subject_id a')), (''risk'', JStr (ap_risk a')),
                        (''decided_by'', JStr decided_by)] (clk 1) s1;
                (r3, s3) = (if status = ''approved'' \<and> ap_subject_type a' = ''task'' \<and> ap_action a' = ''task.run''
                            then dispatch_approved_task_request (ap_approval_id a') uid (\<lambda>k. clk (k + 2)) s2
                            else (Inr None, s2))
            in case r3 of
                 Inl e \<Rightarrow> (Inl e, s3)
               | Inr _ \<Rightarrow>
                   let s4 = (if status = ''approved'' \<and> ap_subject_type a' = ''component_run''
                                \<and> startswith (ap_action a') ''component.''
                             then snd (dispatch_approved_component_action (ap_approval_id a') (\<lambda>k. clk (k + 2)) s3)
                             else s3)
                   in (Inr (Some a'), s4))"

definition resolve_approval_request ::
  "string \<Rightarrow> string \<Rightarrow> string \<Rightarrow> string \<Rightarrow> (nat \<Rightarrow> time) \<Rightarrow> store \<Rightarrow> approval_request option result \<times> store" where
  "resolve_approval_request approval_id status decided_by uid clk s =
     (if status \<notin> {''approved'', ''rejected''}
      then (Inl (ValueError ''approval status must be approved or rejected''), s)
      else decide_loaded (load_approval_request s approval_id) status decided_by uid clk s)"

section \<open>Lookups and frames\<close>

lemma load_approval_save [table_simps]:
  "load_approval_request (save_approval_request a s) k
    = (if k = ap_approval_id a then Some (ap_reread a) else load_approval_request s k)"
  by (simp add: load_approval_request_def save_approval_request_def tbl_find_upsert_replace ap_reread_def)

interpretation approval_table: keyed_store load_approval_request save_approval_request ap_approval_id ap_reread
  by unfold_locales (simp add: load_approval_save)

lemma load_approval_cong:
  "approval_requests s' = approval_requests s \<Longrightarrow> load_approval_request s' = load_approval_request s"
  by (simp add: load_approval_request_def fun_eq_iff)

lemma load_approval_audit [simp]:
  "load_approval_request (insert_audit_event e s) = load_approval_request s"
  "load_approval_request (record_audit et st sid act out d now s) = load_approval_request s"
  by (rule load_approval_cong, simp)+

lemma load_approval_id: "load_approval_request s k = Some a \<Longrightarrow> ap_approval_id a = k"
  by (auto simp: load_approval_request_def dest: tbl_find_Some)

lemma save_approval_frame [frame_simps, simp]:
  "join_tokens (save_approval_request a s) = join_tokens s"
  "nodes (save_approval_request a s) = nodes s"
  "audit_events (save_approval_request a s) = audit_events s"
  "tasks (save_approval_request a s) = tasks s"
  "notifications (save_approval_request a s) = notifications s"
  "node_components (save_approval_request a s) = node_components s"
  "component_runs (save_approval_request a s) = component_runs s"
  by (simp_all add: save_approval_request_def)

section \<open>The effect of a task dispatch\<close>

definition dispatch_ready :: "approval_request \<Rightarrow> store \<Rightarrow> bool" where
  "dispatch_ready a s \<longleftrightarrow>
     ap_status a = ''approved'' \<and> ap_subject_type a = ''task'' \<and> ap_action a = ''task.run''
     \<and> \<not> truthy (dget (ap_details a) ''dispatched_task_id'')
     \<and> truthy (dget (ap_details a) ''node_id'') \<and> truthy (dget (ap_details a) ''command'')
     \<and> task_dispatch_block_reason (py_str (dget (ap_details a) ''node_id'')) s = None"

lemma approved_task_simps [simp]:
  "tk_task_id (approved_task a uid now) = ''task_'' @ uid"
  "tk_status (approved_task a uid now) = ''pending''"
  "tk_risk (approved_task a uid now) = ap_risk a"
  "tk_node_id (approved_task a uid now) = py_str (dget (ap_details a) ''node_id'')"
  "tk_command (approved_task a uid now) = py_str (dget (ap_details a) ''command'')"
  "tk_created_at (approved_task a uid now) = now"
  by (simp_all add: approved_task_def new_task_def)

lemma mark_dispatched_simps [simp]:
  "ap_approval_id (mark_dispatched a k) = ap_approval_id a"
  "ap_status (mark_dispatched a k) = ap_status a"
  "dget (ap_details (mark_dispatched a k)) ''dispatched_task_id'' = JStr k"
  by (simp_all add: mark_dispatched_def dget_dict_sort dget_dset)

lemma task_dispatch_failure_frame [simp]:
  "tasks (task_dispatch_failure a d now s) = tasks s"
  "approval_requests (task_dispatch_failure a d now s) = approval_requests s"
  "node_components (task_dispatch_failure a d now s) = node_components s"
  "component_runs (task_dispatch_failure a d now s) = component_runs s"
  "nodes (task_dispatch_failure a d now s) = nodes s"
  by (simp_all add: task_dispatch_failure_def)

lemma commit_task_dispatch_frame [simp]:
  "tasks (commit_task_dispatch a t c d s) = tasks s"
  "approval_requests (commit_task_dispatch a t c d s) = tbl_update ap_approval_id (ap_approval_id a)
     (\<lambda>r. r\<lparr>ap_details := ap_details (mark_dispatched a (tk_task_id t))\<rparr>) (approval_requests s)"
  "node_components (commit_task_dispatch a t c d s) = node_components s"
  "component_runs (commit_task_dispatch a t c d s) = component_runs s"
  "nodes (commit_task_dispatch a t c d s) = nodes s"
  by (simp_all add: commit_task_dispatch_def Let_def)

lemma block_reason_managed:
  "task_dispatch_block_reason n s = None \<Longrightarrow> \<exists>nd. load_node s n = Some nd \<and> nd_status nd = ''managed''"
  by (auto simp: task_dispatch_block_reason_def split: option.splits if_splits)

lemma dispatch_task_ready:
  fixes clk :: "nat \<Rightarrow> time"
  assumes "load_approval_request s k = Some a" and "dispatch_ready a s" and "load_task s (''task_'' @ uid) = None"
  defines "t \<equiv> approved_task a uid (clk 0)"
  shows "fst (dispatch_approved_task_request k uid clk s) = Inr (Some t)"
    and "tasks (snd (dispatch_approved_task_request k uid clk s)) = tasks s @ [t]"
    and "approval_requests (snd (dispatch_approved_task_request k uid clk s))
      = tbl_update ap_approval_id k (\<lambda>r. r\<lparr>ap_details := ap_details (mark_dispatched a (''task_'' @ uid))\<rparr>)
          (approval_requests s)"
    and "node_components (snd (dispatch_approved_task_request k uid clk s)) = node_components s"
    and "component_runs (snd (dispatch_approved_task_request k uid clk s)) = component_runs s"
    and "nodes (snd (dispatch_approved_task_request k uid clk s)) = nodes s"
proof -
  obtain nd where nd: "load_node s (py_str (dget (ap_details a) ''node_id'')) = Some nd" "nd_status nd = ''managed''"
    using assms(2) block_reason_managed by (auto simp: dispatch_ready_def)
  have ins: "tbl_insert tk_task_id t (tasks s) = Inr (tasks s @ [t])"
    using assms(3) by (intro tbl_insert_fresh) (simp add: t_def load_task_def)
  have k: "ap_approval_id a = k" using assms(1) by (rule load_approval_id)
  note d = dispatch_approved_task_request_def dispatch_ready_def Let_def
  show "fst (dispatch_approved_task_request k uid clk s) = Inr (Some t)"
    and "tasks (snd (dispatch_approved_task_request k uid clk s)) = tasks s @ [t]"
    and "approval_requests (snd (dispatch_approved_task_request k uid clk s))
      = tbl_update ap_approval_id k (\<lambda>r. r\<lparr>ap_details := ap_details (mark_dispatched a (''task_'' @ uid))\<rparr>)
          (approval_requests s)"
    and "node_components (snd (dispatch_approved_task_request k uid clk s)) = node_components s"
    and "component_runs (snd (dispatch_approved_task_request k uid clk s)) = component_runs s"
    and "nodes (snd (dispatch_approved_task_request k uid clk s)) = nodes s"
    using assms(1,2) nd ins k
    by (simp_all add: d t_def)
qed

lemma dispatch_task_not_ready:
  assumes "load_approval_request s k = Some a" and "\<not> dispatch_ready a s"
  shows "tasks (snd (dispatch_approved_task_request k uid clk s)) = tasks s"
    and "approval_requests (snd (dispatch_approved_task_request k uid clk s)) = approval_requests s"
    and "node_components (snd (dispatch_approved_task_request k uid clk s)) = node_components s"
    and "component_runs (snd (dispatch_approved_task_request k uid clk s)) = component_runs s"
    and "fst (dispatch_approved_task_request k uid clk s) =
      Inr (if ap_status a = ''approved'' \<and> ap_subject_type a = ''task'' \<and> ap_action a = ''task.run''
              \<and> truthy (dget (ap_details a) ''dispatched_task_id'')
           then load_task s (py_str (dget (ap_details a) ''dispatched_task_id'')) else None)"
  using assms
  by (auto simp: dispatch_approved_task_request_def dispatch_ready_def Let_def
      split: option.splits if_splits)

lemma dispatch_task_collision:
  assumes "load_approval_request s k = Some a" and "dispatch_ready a s" and "load_task s (''task_'' @ uid) = Some u"
  shows "dispatch_approved_task_request k uid clk s = (Inl (IntegrityError ''UNIQUE constraint failed''), s)"
proof -
  obtain nd where nd: "load_node s (py_str (dget (ap_details a) ''node_id'')) = Some nd" "nd_status nd = ''managed''"
    using assms(2) block_reason_managed by (auto simp: dispatch_ready_def)
  have "tbl_insert tk_task_id (approved_task a uid (clk 0)) (tasks s) = Inl (IntegrityError ''UNIQUE constraint failed'')"
    using assms(3) by (simp add: tbl_insert_def load_task_def)
  with assms(1,2) nd show ?thesis by (simp add: dispatch_approved_task_request_def dispatch_ready_def Let_def)
qed

lemma dispatch_task_unknown:
  "load_approval_request s k = None \<Longrightarrow> dispatch_approved_task_request k uid clk s = (Inr None, s)"
  by (simp add: dispatch_approved_task_request_def)

definition dispatches :: "store \<Rightarrow> string \<Rightarrow> string \<Rightarrow> bool" where
  "dispatches s k uid \<longleftrightarrow>
     (\<exists>a. load_approval_request s k = Some a \<and> dispatch_ready a s \<and> load_task s (''task_'' @ uid) = None)"

lemma dispatch_task_effect:
  shows "tasks (snd (dispatch_approved_task_request k uid clk s)) = tasks s
      @ (if dispatches s k uid then [approved_task (the (load_approval_request s k)) uid (clk 0)] else [])"
    and "load_approval_request (snd (dispatch_approved_task_request k uid clk s)) j =
      (if dispatches s k uid \<and> j = k then Some (mark_dispatched (the (load_approval_request s k)) (''task_'' @ uid))
       else load_approval_request s j)"
    and "node_components (snd (dispatch_approved_task_request k uid clk s)) = node_components s"
    and "component_runs (snd (dispatch_approved_task_request k uid clk s)) = component_runs s"
proof -
  let ?s' = "snd (dispatch_approved_task_request k uid clk s)"
  consider (unknown) "load_approval_request s k = None"
    | (waiting) a where "load_approval_request s k = Some a" "\<not> dispatch_ready a s"
    | (collision) a u where "load_approval_request s k = Some a" "dispatch_ready a s" "load_task s (''task_'' @ uid) = Some u"
    | (ready) a where "load_approval_request s k = Some a" "dispatch_ready a s" "load_task s (''task_'' @ uid) = None"
    by blast
  then have "tasks ?s' = tasks s
        @ (if dispatches s k uid then [approved_task (the (load_approval_request s k)) uid (clk 0)] else [])
    \<and> load_approval_request ?s' j =
      (if dispatches s k uid \<and> j = k then Some (mark_dispatched (the (load_approval_request s k)) (''task_'' @ uid))
       else load_approval_request s j)
    \<and> node_components ?s' = node_components s \<and> component_runs ?s' = component_runs s"
  proof cases
    case unknown
    then show ?thesis by (simp add: dispatch_task_unknown dispatches_def)
  next
    case waiting
    then show ?thesis
      using load_approval_cong [of ?s' s] by (simp add: dispatch_task_not_ready dispatches_def)
  next
    case collision
    then show ?thesis by (simp add: dispatch_task_collision dispatches_def)
  next
    case ready
    note eff = dispatch_task_ready [OF ready, of clk]
    have "tbl_find ap_approval_id j (approval_requests ?s') =
        (if j = k then map_option (\<lambda>r. r\<lparr>ap_details := ap_details (mark_dispatched a (''task_'' @ uid))\<rparr>)
            (load_approval_request s k) else load_approval_request s j)"
      unfolding eff(3) by (auto simp: load_approval_request_def tbl_find_update)
    with ready eff show ?thesis
      by (auto simp: dispatches_def load_approval_request_def mark_dispatched_def)
  qed
  then show "tasks ?s' = tasks s
        @ (if dispatches s k uid then [approved_task (the (load_approval_request s k)) uid (clk 0)] else [])"
    and "load_approval_request ?s' j =
      (if dispatches s k uid \<and> j = k then Some (mark_dispatched (the (load_approval_request s k)) (''task_'' @ uid))
       else load_approval_request s j)"
    and "node_components ?s' = node_components s" and "component_runs ?s' = component_runs s"
    by blast+
qed

section \<open>The effect of a component dispatch\<close>

definition component_ready :: "approval_request \<Rightarrow> component_run \<Rightarrow> bool" where
  "component_ready a r \<longleftrightarrow>
     ap_status a = ''approved'' \<and> ap_subject_type a = ''component_run'' \<and> startswith (ap_action a) ''component.''
     \<and> cr_status r = ''pending_approval'' \<and> approval_mismatches a r = []
     \<and> approved_action a r \<in> {''apply'', ''uninstall''}"

lemma approval_mismatches_Nil:
  "approval_mismatches a r = [] \<longleftrightarrow>
     removeprefix (ap_action a) ''component.'' = cr_action r
     \<and> str_or (dget (ap_details a) ''run_id'') (ap_subject_id a) = cr_run_id r
     \<and> str_or (dget (ap_details a) ''component_id'') [] = cr_component_id r
     \<and> str_or (dget (ap_details a) ''node_id'') [] = cr_node_id r
     \<and> approved_action a r = cr_action r \<and> ap_risk a = cr_risk r"
  by (simp add: approval_mismatches_def split: if_split)

lemma record_component_dispatch_failure_frame [simp]:
  "tasks (record_component_dispatch_failure a r d now s) = tasks s"
  "nodes (record_component_dispatch_failure a r d now s) = nodes s"
  "approval_requests (record_component_dispatch_failure a r d now s) = approval_requests s"
  "node_components (record_component_dispatch_failure a r d now s) = node_components s"
  "component_runs (record_component_dispatch_failure a r d now s) = component_runs s"
  by (simp_all add: record_component_dispatch_failure_def)

lemma commit_component_dispatch_frame [simp]:
  "tasks (commit_component_dispatch a r clk s) = tasks s"
  "nodes (commit_component_dispatch a r clk s) = nodes s"
  "approval_requests (commit_component_dispatch a r clk s) = approval_requests s"
  by (simp_all add: commit_component_dispatch_def Let_def)

lemma dispatch_component_frame [simp]:
  "tasks (snd (dispatch_approved_component_action k clk s)) = tasks s"
  "nodes (snd (dispatch_approved_component_action k clk s)) = nodes s"
  "approval_requests (snd (dispatch_approved_component_action k clk s)) = approval_requests s"
  by (auto simp: dispatch_approved_component_action_def Let_def split: option.splits)

lemma dispatch_component_not_ready:
  assumes "\<And>a r. load_approval_request s k = Some a \<Longrightarrow> load_component_run s (ap_subject_id a) = Some r
      \<Longrightarrow> \<not> component_ready a r"
  shows "node_components (snd (dispatch_approved_component_action k clk s)) = node_components s"
    and "component_runs (snd (dispatch_approved_component_action k clk s)) = component_runs s"
  using assms
  by (auto simp: dispatch_approved_component_action_def component_ready_def Let_def split: option.splits)

lemma dispatch_component_ready:
  assumes "load_approval_request s k = Some a" and "load_component_run s (ap_subject_id a) = Some r"
    and "component_ready a r"
  shows "dispatch_approved_component_action k clk s
    = (Some (recorded_run a r (clk 0)), commit_component_dispatch a r clk s)"
  using assms by (auto simp: dispatch_approved_component_action_def component_ready_def Let_def)

lemma recorded_run_simps [simp]:
  "cr_run_id (recorded_run a r now) = cr_run_id r"
  "cr_status (recorded_run a r now) = ''state_recorded''"
  "cr_action (recorded_run a r now) = cr_action r"
  "cr_risk (recorded_run a r now) = cr_risk r"
  "cr_node_id (recorded_run a r now) = cr_node_id r"
  "cr_component_id (recorded_run a r now) = cr_component_id r"
  "cr_plan (recorded_run a r now) = cr_plan r"
  by (simp_all add: recorded_run_def)

lemma commit_component_dispatch_load:
  assumes "load_component_run s (cr_run_id r) = Some r"
  shows "load_component_run (commit_component_dispatch a r clk s) j =
      (if j = cr_run_id r then Some (cr_reread (recorded_run a r (clk 0))) else load_component_run s j)"
    and "load_node_component (commit_component_dispatch a r clk s) key =
      (if key = (cr_node_id r, cr_component_id r) then Some (nc_reread (dispatched_state a r s))
       else load_node_component s key)"
proof -
  have run: "load_component_run (save_component_run (recorded_run a r (clk 0)) (save_node_component d s)) j =
      (if j = cr_run_id r then Some (cr_reread (recorded_run a r (clk 0))) else load_component_run s j)" for d
    using assms by (auto simp: save_component_run_load cr_reread_def recorded_run_def)
  then show "load_component_run (commit_component_dispatch a r clk s) j =
      (if j = cr_run_id r then Some (cr_reread (recorded_run a r (clk 0))) else load_component_run s j)"
    by (simp add: commit_component_dispatch_def Let_def)
  have "nc_key (dispatched_state a r s) = (cr_node_id r, cr_component_id r)"
    by (simp add: nc_key_def dispatched_state_def Let_def split: option.split)
  moreover have "load_node_component (save_component_run q u) = load_node_component u" for q u
    by (rule load_node_component_cong) simp
  ultimately show "load_node_component (commit_component_dispatch a r clk s) key =
      (if key = (cr_node_id r, cr_component_id r) then Some (nc_reread (dispatched_state a r s))
       else load_node_component s key)"
    by (simp add: commit_component_dispatch_def Let_def load_node_component_save)
qed

section \<open>The life of an approval request\<close>

definition approval_evolves :: "approval_request \<Rightarrow> approval_request \<Rightarrow> bool" where
  "approval_evolves a a' \<longleftrightarrow>
     a' = a \<or>
     ap_approval_id a' = ap_approval_id a \<and> ap_subject_type a' = ap_subject_type a
     \<and> ap_subject_id a' = ap_subject_id a \<and> ap_action a' = ap_action a \<and> ap_risk a' = ap_risk a
     \<and> ap_requested_by a' = ap_requested_by a \<and> ap_created_at a' = ap_created_at a
     \<and> (ap_status a' = ''approved'' \<or> ap_status a' = ''rejected'')
     \<and> (if ap_status a = ''pending'' then True
        else ap_status a' = ap_status a \<and> ap_decided_by a' = ap_decided_by a \<and> ap_decided_at a' = ap_decided_at a
             \<and> \<not> truthy (dget (ap_details a) ''dispatched_task_id''))"

datatype approval_op =
    RequestApproval string string string string string dict string "nat \<Rightarrow> time"
  | ResolveApproval string string string string "nat \<Rightarrow> time"
  | DispatchTask string string "nat \<Rightarrow> time"
  | DispatchComponent string "nat \<Rightarrow> time"

text \<open>As with tasks, a request whose uuid is already taken is left out of the runs.\<close>

fun approval_op_run :: "approval_op \<Rightarrow> store \<Rightarrow> store" where
  "approval_op_run (RequestApproval st sid act risk by d uid clk) s =
     (if load_approval_request s (''appr_'' @ uid) = None
      then snd (create_approval_request st sid act risk by d uid clk s) else s)"
| "approval_op_run (ResolveApproval k status by uid clk) s = snd (resolve_approval_request k status by uid clk s)"
| "approval_op_run (DispatchTask k uid clk) s = snd (dispatch_approved_task_request k uid clk s)"
| "approval_op_run (DispatchComponent k clk) s = snd (dispatch_approved_component_action k clk s)"

lemma approval_evolves_refl: "approval_evolves a a"
  by (simp add: approval_evolves_def)

lemma approval_evolves_trans: "approval_evolves a b \<Longrightarrow> approval_evolves b c \<Longrightarrow> approval_evolves a c"
  by (auto simp: approval_evolves_def)

lemma mark_dispatched_evolves:
  "dispatch_ready a s \<Longrightarrow> approval_evolves a (mark_dispatched a k)"
  by (auto simp: approval_evolves_def dispatch_ready_def mark_dispatched_def)

lemma dispatch_task_evolves:
  assumes "load_approval_request s j = Some a"
  shows "\<exists>a'. load_approval_request (snd (dispatch_approved_task_request k uid clk s)) j = Some a' \<and> approval_evolves a a'"
  using assms by (auto simp: dispatch_task_effect(2) dispatches_def approval_evolves_refl mark_dispatched_evolves)

lemma load_approval_component [simp]:
  "load_approval_request (snd (dispatch_approved_component_action k clk s)) = load_approval_request s"
  by (rule load_approval_cong) simp

text \<open>The decision itself, before any dispatch.\<close>

definition decided :: "approval_request \<Rightarrow> string \<Rightarrow> string \<Rightarrow> time \<Rightarrow> approval_request" where
  "decided a status decided_by now = a\<lparr>ap_status := status, ap_decided_by := decided_by, ap_decided_at := Some now\<rparr>"

definition record_decision :: "approval_request \<Rightarrow> string \<Rightarrow> string \<Rightarrow> (nat \<Rightarrow> time) \<Rightarrow> store \<Rightarrow> store" where
  "record_decision a status decided_by clk s =
     record_audit ''approval'' (ap_subject_type a) (ap_approval_id a) (''approval/'' @ status) status
       [(''subject_id'', JStr (ap_subject_id a)), (''risk'', JStr (ap_risk a)), (''decided_by'', JStr decided_by)]
       (clk 1) (save_approval_request (decided a status decided_by (clk 0)) s)"

lemma decide_loaded_pending:
  assumes "ap_status a = ''pending''"
  shows "decide_loaded (Some a) status by uid clk s =
     (let s2 = record_decision a status by clk s; k = ap_approval_id a
      in if status = ''approved'' \<and> ap_subject_type a = ''task'' \<and> ap_action a = ''task.run''
         then (case dispatch_approved_task_request k uid (\<lambda>k. clk (k + 2)) s2 of
                 (Inl e, s3) \<Rightarrow> (Inl e, s3)
               | (Inr _, s3) \<Rightarrow> (Inr (Some (decided a status by (clk 0))), s3))
         else if status = ''approved'' \<and> ap_subject_type a = ''component_run'' \<and> startswith (ap_action a) ''component.''
         then (Inr (Some (decided a status by (clk 0))), snd (dispatch_approved_component_action k (\<lambda>k. clk (k + 2)) s2))
         else (Inr (Some (decided a status by (clk 0))), s2))"
  using assms
  by (simp add: decide_loaded_def record_decision_def decided_def Let_def split: sum.splits prod.splits)

lemma snd_decide_loaded:
  assumes "ap_status a = ''pending''"
  shows "snd (decide_loaded (Some a) status by uid clk s) =
     (let s2 = record_decision a status by clk s; k = ap_approval_id a
      in if status = ''approved'' \<and> ap_subject_type a = ''task'' \<and> ap_action a = ''task.run''
         then snd (dispatch_approved_task_request k uid (\<lambda>k. clk (k + 2)) s2)
         else if status = ''approved'' \<and> ap_subject_type a = ''component_run'' \<and> startswith (ap_action a) ''component.''
         then snd (dispatch_approved_component_action k (\<lambda>k. clk (k + 2)) s2)
         else s2)"
  unfolding decide_loaded_pending [OF assms] Let_def by (simp split: prod.split sum.split)

lemma record_decision_load:
  "load_approval_request (record_decision a status by clk s) j =
     (if j = ap_approval_id a then Some (ap_reread (decided a status by (clk 0))) else load_approval_request s j)"
  by (simp add: record_decision_def load_approval_save decided_def)

lemma record_decision_frame [simp]:
  "tasks (record_decision a status by clk s) = tasks s"
  "nodes (record_decision a status by clk s) = nodes s"
  "node_components (record_decision a status by clk s) = node_components s"
  "component_runs (record_decision a status by clk s) = component_runs s"
  by (simp_all add: record_decision_def)

lemma decided_evolves:
  "ap_status a = ''pending'' \<Longrightarrow> status = ''approved'' \<or> status = ''rejected'' \<Longrightarrow>
   approval_evolves a (ap_reread (decided a status by now))"
  by (auto simp: approval_evolves_def ap_reread_def decided_def)

lemma resolve_evolves:
  assumes "load_approval_request s j = Some a"
  shows "\<exists>a'. load_approval_request (snd (resolve_approval_request k status by uid clk s)) j = Some a'
    \<and> approval_evolves a a'"
proof (cases "status \<in> {''approved'', ''rejected''}")
  case False
  then show ?thesis using assms by (auto simp: resolve_approval_request_def approval_evolves_refl)
next
  case ok: True
  show ?thesis
  proof (cases "\<exists>b. load_approval_request s k = Some b \<and> ap_status b = ''pending''")
    case False
    then show ?thesis using assms ok
      by (auto simp: resolve_approval_request_def decide_loaded_def approval_evolves_refl split: option.splits)
  next
    case True
    then obtain b where b: "load_approval_request s k = Some b" "ap_status b = ''pending''" by blast
    let ?s2 = "record_decision b status by clk s"
    have k: "ap_approval_id b = k" using b(1) by (rule load_approval_id)
    have "\<exists>a1. load_approval_request ?s2 j = Some a1 \<and> approval_evolves a a1"
      using assms b k ok by (auto simp: record_decision_load approval_evolves_refl decided_evolves)
    then obtain a1 where a1: "load_approval_request ?s2 j = Some a1" "approval_evolves a a1" by blast
    obtain a2 where a2: "load_approval_request
        (snd (dispatch_approved_task_request k uid (\<lambda>k. clk (k + 2)) ?s2)) j = Some a2" "approval_evolves a1 a2"
      using dispatch_task_evolves [OF a1(1)] by blast
    have a3: "approval_evolves a a2" using a1(2) a2(2) by (rule approval_evolves_trans)
    have "snd (resolve_approval_request k status by uid clk s) = snd (decide_loaded (Some b) status by uid clk s)"
      using ok b(1) by (simp add: resolve_approval_request_def)
    moreover have "\<exists>a'. load_approval_request (if P then A else if Q then B else C) j = Some a' \<and> approval_evolves a a'"
      if "load_approval_request A j = Some a2" "load_approval_request B j = Some a1"
        "load_approval_request C j = Some a1" for P Q A B C
      using that a1(2) a3 by (cases P; cases Q) auto
    ultimately show ?thesis unfolding snd_decide_loaded [OF b(2)] k Let_def
      using a1(1) a2(1) by simp
  qed
qed

lemma approval_op_evolves:
  assumes "load_approval_request s k = Some a"
  shows "\<exists>a'. load_approval_request (approval_op_run i s) k = Some a' \<and> approval_evolves a a'"
proof (cases i)
  case (RequestApproval st sid act risk b d uid clk)
  with assms show ?thesis
    by (auto simp: create_approval_request_def Let_def load_approval_save approval_evolves_refl)
next
  case (ResolveApproval j status b uid clk)
  with assms show ?thesis by (simp add: resolve_evolves)
next
  case (DispatchTask j uid clk)
  with assms show ?thesis by (simp add: dispatch_task_evolves)
next
  case (DispatchComponent j clk)
  with assms show ?thesis by (simp add: approval_evolves_refl)
qed

interpretation approval_life: row_machine load_approval_request approval_op_run approval_evolves "\<lambda>_. True"
  by unfold_locales (rule approval_evolves_refl, erule (1) approval_evolves_trans, simp, rule approval_op_evolves)

section \<open>A request dispatches one task\<close>

lemma dispatched_task_settled:
  assumes "dispatch_approved_task_request k uid clk s = (Inr (Some t), s1)"
  shows "\<exists>a. load_approval_request s1 k = Some a \<and> ap_status a = ''approved'' \<and> ap_subject_type a = ''task''
      \<and> ap_action a = ''task.run'' \<and> truthy (dget (ap_details a) ''dispatched_task_id'')
      \<and> py_str (dget (ap_details a) ''dispatched_task_id'') = tk_task_id t"
proof -
  have s1: "s1 = snd (dispatch_approved_task_request k uid clk s)"
    and res: "fst (dispatch_approved_task_request k uid clk s) = Inr (Some t)" using assms by simp_all
  obtain a where a: "load_approval_request s k = Some a"
    using assms by (cases "load_approval_request s k") (auto simp: dispatch_task_unknown)
  show ?thesis
  proof (cases "dispatch_ready a s")
    case False
    note res [unfolded dispatch_task_not_ready(5) [OF a False]]
    moreover have "load_approval_request s1 k = Some a"
      using a False by (simp add: s1 dispatch_task_effect(2) dispatches_def)
    ultimately show ?thesis using load_task_id by (fastforce split: if_splits)
  next
    case True
    have fresh: "load_task s (''task_'' @ uid) = None"
      using dispatch_task_collision [OF a True] res by (cases "load_task s (''task_'' @ uid)") auto
    have "t = approved_task a uid (clk 0)" using dispatch_task_ready(1) [OF a True fresh, of clk] res by simp
    moreover have "load_approval_request s1 k = Some (mark_dispatched a (''task_'' @ uid))"
      using a True fresh by (simp add: s1 dispatch_task_effect(2) dispatches_def)
    ultimately show ?thesis using True by (simp add: dispatch_ready_def mark_dispatched_def dget_dict_sort dget_dset)
  qed
qed

section \<open>Two decisions at once\<close>

text \<open>
  \<open>resolve_approval_request\<close> loads the request in one transaction and saves it in another.  A decider is
  idle, has loaded the request, or is done; what it does after loading is \<open>decide_loaded\<close>, taken here
  as one step, which is one of the interleavings the code allows.
\<close>

datatype decider =
    Undecided
  | Loaded "approval_request option"
  | Done "approval_request option result"

inductive decide_step ::
  "string \<Rightarrow> string \<Rightarrow> store \<times> (nat \<Rightarrow> decider) \<Rightarrow> store \<times> (nat \<Rightarrow> decider) \<Rightarrow> bool"
  for k status :: string where
  load: "c i = Undecided \<Longrightarrow> decide_step k status (s, c) (s, c(i := Loaded (load_approval_request s k)))"
| decide: "c i = Loaded a \<Longrightarrow> decide_loaded a status who uid clk s = (r, s') \<Longrightarrow>
     decide_step k status (s, c) (s', c(i := Done r))"

inductive_cases decide_stepE: "decide_step k status (s, c) (s', c')"

text \<open>One decider alone is the operation itself.\<close>

lemma decide_step_sequential:
  assumes "c i = Undecided" and "status \<in> {''approved'', ''rejected''}"
    and "resolve_approval_request k status who uid clk s = (r, s')"
  shows "(decide_step k status)\<^sup>*\<^sup>* (s, c) (s', c(i := Done r))"
proof -
  let ?c = "c(i := Loaded (load_approval_request s k))"
  have "decide_step k status (s, c) (s, ?c)" using assms(1) by (rule decide_step.load)
  moreover have "decide_step k status (s, ?c) (s', ?c(i := Done r))"
    using assms(2,3) by (intro decide_step.decide) (auto simp: resolve_approval_request_def)
  ultimately show ?thesis by simp
qed

text \<open>A stale copy that is decided again dispatches again: saving it drops the mark of the first dispatch.\<close>

definition run_request_ready :: "approval_request \<Rightarrow> store \<Rightarrow> bool" where
  "run_request_ready a s \<longleftrightarrow>
     ap_status a = ''pending'' \<and> dispatch_ready (a\<lparr>ap_status := ''approved''\<rparr>) s"

lemma block_reason_decision [simp]:
  "task_dispatch_block_reason n (record_decision a status who clk s) = task_dispatch_block_reason n s"
  by (rule block_reason_cong) (simp_all add: record_decision_def audit_simps is_node_heartbeat_def AuditEvent_def)

lemma block_reason_dispatch [simp]:
  "task_dispatch_block_reason n (snd (dispatch_approved_task_request k uid clk s)) = task_dispatch_block_reason n s"
proof (rule block_reason_cong)
  have commit: "filter (is_node_heartbeat n) (audit_events (commit_task_dispatch a t c d s'))
      = filter (is_node_heartbeat n) (audit_events s')" for a t c d s'
    by (simp add: commit_task_dispatch_def audit_simps is_node_heartbeat_def AuditEvent_def Let_def)
  have failure: "filter (is_node_heartbeat n) (audit_events (task_dispatch_failure a d now s'))
      = filter (is_node_heartbeat n) (audit_events s')" for a d now s'
    by (simp add: task_dispatch_failure_def audit_simps is_node_heartbeat_def AuditEvent_def)
  show "filter (is_node_heartbeat n) (audit_events (snd (dispatch_approved_task_request k uid clk s)))
      = filter (is_node_heartbeat n) (audit_events s)"
    by (simp add: dispatch_approved_task_request_def Let_def commit failure split: option.split sum.split)
  show "nodes (snd (dispatch_approved_task_request k uid clk s)) = nodes s"
    by (simp add: dispatch_approved_task_request_def Let_def split: option.split sum.split)
qed

lemma ready_after_decision:
  assumes "run_request_ready a s" and "ap_details a = dict_sort (ap_details a)"
    and "\<And>n. task_dispatch_block_reason n s' = task_dispatch_block_reason n s"
  shows "dispatch_ready (ap_reread (decided a ''approved'' who now)) s'"
  using assms by (simp add: run_request_ready_def dispatch_ready_def ap_reread_def decided_def)

lemma decide_dispatches:
  assumes "run_request_ready a s0" and "ap_details a = dict_sort (ap_details a)"
    and "\<And>n. task_dispatch_block_reason n s = task_dispatch_block_reason n s0"
    and "load_task s (''task_'' @ uid) = None"
  shows "tasks (snd (decide_loaded (Some a) ''approved'' who uid clk s))
      = tasks s @ [approved_task (ap_reread (decided a ''approved'' who (clk 0))) uid (clk 2)]"
    and "task_dispatch_block_reason n (snd (decide_loaded (Some a) ''approved'' who uid clk s))
      = task_dispatch_block_reason n s0"
proof -
  let ?s2 = "record_decision a ''approved'' who clk s" and ?a2 = "ap_reread (decided a ''approved'' who (clk 0))"
  have ld: "load_approval_request ?s2 (ap_approval_id a) = Some ?a2" by (simp add: record_decision_load)
  have ready: "dispatch_ready ?a2 ?s2" by (rule ready_after_decision [OF assms(1,2)]) (simp add: assms(3))
  have fresh: "load_task ?s2 (''task_'' @ uid) = None"
    using assms(4) load_task_cong [of ?s2 s] by simp
  have eq: "snd (decide_loaded (Some a) ''approved'' who uid clk s)
      = snd (dispatch_approved_task_request (ap_approval_id a) uid (\<lambda>k. clk (k + 2)) ?s2)"
    using assms(1) unfolding run_request_ready_def dispatch_ready_def
    by (subst snd_decide_loaded) (auto simp: Let_def)
  show "tasks (snd (decide_loaded (Some a) ''approved'' who uid clk s))
      = tasks s @ [approved_task ?a2 uid (clk 2)]"
    unfolding eq dispatch_task_ready(2) [OF ld ready fresh, of "\<lambda>k. clk (k + 2)"] by (simp add: numeral_2_eq_2)
  show "task_dispatch_block_reason n (snd (decide_loaded (Some a) ''approved'' who uid clk s))
      = task_dispatch_block_reason n s0"
    unfolding eq by (simp add: assms(3))
qed

section \<open>Properties\<close>

definition sample_approval :: approval_request where
  "sample_approval = \<lparr>ap_approval_id = ''appr_1'', ap_subject_type = ''task'', ap_subject_id = ''req1'',
     ap_action = ''task.run'', ap_risk = ''high'', ap_status = ''pending'', ap_requested_by = ''hmn'',
     ap_details = [(''command'', JStr ''reboot''), (''node_id'', JStr ''n1'')], ap_created_at = 5,
     ap_decided_by = [], ap_decided_at = None\<rparr>"

definition sample_approvals :: store where
  "sample_approvals = sample_queue\<lparr>approval_requests := [sample_approval]\<rparr>"

definition sample_approved :: store where
  "sample_approved = sample_queue\<lparr>approval_requests := [sample_approval\<lparr>ap_status := ''approved''\<rparr>]\<rparr>"

text \<open>C6: a decision is final: once a request is approved or rejected, no run of requests, decisions and
  dispatches changes the decision, who took it or what it is about; a request that has been
  dispatched does not change at all.\<close>

theorem decision_is_final:
  assumes "load_approval_request s k = Some a" and "ap_status a \<noteq> ''pending''"
  shows "\<exists>a'. load_approval_request (fold approval_op_run ops s) k = Some a'
    \<and> ap_status a' = ap_status a \<and> ap_decided_by a' = ap_decided_by a \<and> ap_decided_at a' = ap_decided_at a
    \<and> ap_subject_type a' = ap_subject_type a \<and> ap_subject_id a' = ap_subject_id a
    \<and> ap_action a' = ap_action a \<and> ap_risk a' = ap_risk a
    \<and> (truthy (dget (ap_details a) ''dispatched_task_id'') \<longrightarrow> a' = a)"
  using approval_life.run_evolves [OF TrueI assms(1), of ops] assms(2)
  by (auto simp: approval_evolves_def)

lemma decision_is_final_witness:
  "\<exists>a'. load_approval_request (fold approval_op_run
      [ResolveApproval ''appr_1'' ''rejected'' ''eve'' ''u'' (\<lambda>_. 9)] sample_approved) ''appr_1'' = Some a'
    \<and> ap_status a' = ''approved''"
proof -
  let ?a = "sample_approval\<lparr>ap_status := ''approved''\<rparr>"
  have ld: "load_approval_request sample_approved ''appr_1'' = Some ?a"
    by (simp add: load_approval_request_def sample_approved_def sample_approval_def)
  have ap: "ap_status ?a = ''approved''" "ap_status ?a \<noteq> ''pending''" by simp_all
  obtain a' where "load_approval_request (fold approval_op_run
      [ResolveApproval ''appr_1'' ''rejected'' ''eve'' ''u'' (\<lambda>_. 9)] sample_approved) ''appr_1'' = Some a'"
    "ap_status a' = ap_status ?a"
    using decision_is_final [OF ld ap(2)] by blast
  then show ?thesis by (intro exI [of _ a'] conjI) (simp_all only: ap)
qed

text \<open>Nothing happens without an approval: dispatching a request that is not approved is a no-op,
  and rejecting one changes no task, no component run and no node component.\<close>

theorem only_approved_requests_take_effect:
  assumes "load_approval_request s k = Some a" and "ap_status a \<noteq> ''approved''"
  shows "dispatch_approved_task_request k uid clk s = (Inr None, s)
    \<and> dispatch_approved_component_action k clk s = (None, s)
    \<and> (let s' = snd (resolve_approval_request k ''rejected'' who uid clk s)
       in tasks s' = tasks s \<and> component_runs s' = component_runs s \<and> node_components s' = node_components s)"
proof -
  have "decide_loaded (Some a) ''rejected'' who uid clk s
      = (if ap_status a \<noteq> ''pending'' then (Inr (Some a), s)
         else (Inr (Some (decided a ''rejected'' who (clk 0))), record_decision a ''rejected'' who clk s))"
    by (cases "ap_status a = ''pending''") (simp add: decide_loaded_pending Let_def, simp add: decide_loaded_def)
  with assms show ?thesis
    by (simp add: dispatch_approved_task_request_def dispatch_approved_component_action_def
        resolve_approval_request_def Let_def)
qed

lemma only_approved_requests_take_effect_witness:
  "dispatch_approved_task_request ''appr_1'' ''u'' (\<lambda>_. 9) sample_approvals = (Inr None, sample_approvals)"
proof -
  have "load_approval_request sample_approvals ''appr_1'' = Some sample_approval"
    by (simp add: load_approval_request_def sample_approvals_def sample_approval_def)
  moreover have "ap_status sample_approval \<noteq> ''approved''" by (simp add: sample_approval_def)
  ultimately show ?thesis using only_approved_requests_take_effect by blast
qed

text \<open>C7: a dispatch adds at most one task, and only with authority: the request is approved, its node is
  managed and accepts tasks, and the new pending task carries the node, the command and the risk
  that were approved.\<close>

theorem dispatched_task_is_authorised:
  "case dispatch_approved_task_request k uid clk s of (r, s') \<Rightarrow>
     tasks s' = tasks s \<or>
     (\<exists>a t. load_approval_request s k = Some a \<and> ap_status a = ''approved'' \<and> r = Inr (Some t)
        \<and> tasks s' = tasks s @ [t] \<and> load_task s (tk_task_id t) = None
        \<and> tk_status t = ''pending'' \<and> tk_risk t = ap_risk a
        \<and> tk_node_id t = py_str (dget (ap_details a) ''node_id'')
        \<and> tk_command t = py_str (dget (ap_details a) ''command'')
        \<and> node_managed s (tk_node_id t) \<and> task_dispatch_block_reason (tk_node_id t) s = None)"
proof (cases "dispatches s k uid")
  case False
  then show ?thesis using dispatch_task_effect(1) [of k uid clk s] by (simp add: case_prod_beta)
next
  case True
  then obtain a where a: "load_approval_request s k = Some a" "dispatch_ready a s" "load_task s (''task_'' @ uid) = None"
    by (auto simp: dispatches_def)
  then have "node_managed s (py_str (dget (ap_details a) ''node_id''))"
    by (auto simp: dispatch_ready_def node_managed_def dest: block_reason_managed)
  then show ?thesis
    using a dispatch_task_ready(1,2) [OF a, of clk]
    by (auto simp: case_prod_beta dispatch_ready_def intro!: exI [of _ a])
qed

text \<open>C5: a request dispatches one task: once a dispatch has given a task, then after any run of requests,
  decisions and dispatches a further dispatch adds no task and returns the one there is.\<close>

theorem request_dispatches_once:
  assumes "dispatch_approved_task_request k uid clk s = (Inr (Some t), s1)"
  shows "dispatch_approved_task_request k uid' clk' (fold approval_op_run ops s1)
    = (Inr (load_task (fold approval_op_run ops s1) (tk_task_id t)), fold approval_op_run ops s1)"
proof -
  obtain a where a: "load_approval_request s1 k = Some a" "ap_status a = ''approved''" "ap_subject_type a = ''task''"
    "ap_action a = ''task.run''" "truthy (dget (ap_details a) ''dispatched_task_id'')"
    "py_str (dget (ap_details a) ''dispatched_task_id'') = tk_task_id t"
    using dispatched_task_settled [OF assms] by blast
  obtain a' where a': "load_approval_request (fold approval_op_run ops s1) k = Some a'" "approval_evolves a a'"
    using approval_life.run_evolves [OF TrueI a(1)] by blast
  have "a' = a" using a'(2) a(2,5) by (simp add: approval_evolves_def)
  with a a'(1) show ?thesis by (simp add: dispatch_approved_task_request_def)
qed

lemma request_dispatches_once_witness:
  "\<exists>t s1. dispatch_approved_task_request ''appr_1'' ''u1'' (\<lambda>_. 9) sample_approved = (Inr (Some t), s1)
    \<and> dispatch_approved_task_request ''appr_1'' ''u2'' (\<lambda>_. 10) s1 = (Inr (load_task s1 (tk_task_id t)), s1)"
proof -
  have "case dispatch_approved_task_request ''appr_1'' ''u1'' (\<lambda>_. 9) sample_approved of
      (Inr (Some t), s1) \<Rightarrow> True | _ \<Rightarrow> False" by code_simp
  then obtain t s1 where run: "dispatch_approved_task_request ''appr_1'' ''u1'' (\<lambda>_. 9) sample_approved = (Inr (Some t), s1)"
    by (auto split: prod.splits sum.splits option.splits)
  with request_dispatches_once [OF run, where ops = "[]"] show ?thesis by auto
qed

text \<open>A component dispatch records state only for the run that was approved: when it changes a run or a
  node component, the request is approved, the run awaited approval and agrees with the request on
  component, node, action and risk; the run becomes \<open>state_recorded\<close> with a result that claims no
  change to the machine, and a second dispatch changes nothing.\<close>

theorem component_dispatch_is_authorised:
  "case dispatch_approved_component_action k clk s of (res, s') \<Rightarrow>
     component_runs s' = component_runs s \<and> node_components s' = node_components s \<or>
     (\<exists>a r. load_approval_request s k = Some a \<and> ap_status a = ''approved''
        \<and> load_component_run s (ap_subject_id a) = Some r \<and> cr_status r = ''pending_approval''
        \<and> str_or (dget (ap_details a) ''component_id'') [] = cr_component_id r
        \<and> str_or (dget (ap_details a) ''node_id'') [] = cr_node_id r \<and> ap_risk a = cr_risk r
        \<and> removeprefix (ap_action a) ''component.'' = cr_action r \<and> cr_action r \<in> {''apply'', ''uninstall''}
        \<and> res = Some (recorded_run a r (clk 0)) \<and> cr_status (recorded_run a r (clk 0)) = ''state_recorded''
        \<and> dget (cr_result (recorded_run a r (clk 0))) ''machine_changed'' = JBool False
        \<and> load_component_run s' = (load_component_run s)(cr_run_id r \<mapsto> cr_reread (recorded_run a r (clk 0)))
        \<and> load_node_component s' = (load_node_component s)((cr_node_id r, cr_component_id r)
             \<mapsto> nc_reread (dispatched_state a r s))
        \<and> dispatch_approved_component_action k clk' s'
             = (Some (cr_reread (recorded_run a r (clk 0))), s'))"
proof (cases "\<exists>a r. load_approval_request s k = Some a \<and> load_component_run s (ap_subject_id a) = Some r \<and> component_ready a r")
  case False
  then show ?thesis
    using dispatch_component_not_ready [of s k clk] by (auto simp: case_prod_beta)
next
  case True
  then obtain a r where a: "load_approval_request s k = Some a" and r: "load_component_run s (ap_subject_id a) = Some r"
    and ready: "component_ready a r" by blast
  let ?s' = "commit_component_dispatch a r clk s"
  have id: "cr_run_id r = ap_subject_id a" using r by (auto simp: load_component_run_def dest: tbl_find_Some)
  note ld = commit_component_dispatch_load [of s r a clk, unfolded id, OF r]
  have agree: "approved_action a r = cr_action r"
    using ready by (simp add: component_ready_def approval_mismatches_Nil)
  have "dget (cr_result (recorded_run a r (clk 0))) ''machine_changed'' = JBool False"
    by (simp add: recorded_run_def dget_def map_of_dmerge)
  moreover have "dispatch_approved_component_action k clk' ?s' = (Some (cr_reread (recorded_run a r (clk 0))), ?s')"
  proof -
    have "load_approval_request ?s' k = Some a" using a load_approval_cong [of ?s' s] by simp
    then show ?thesis using ready ld(1)
      by (simp add: dispatch_approved_component_action_def component_ready_def cr_reread_def)
  qed
  ultimately show ?thesis
    using a r ready agree ld id dispatch_component_ready [OF a r ready, of clk]
    by (auto simp: component_ready_def approval_mismatches_Nil fun_eq_iff intro!: exI [of _ a])
qed

text \<open>C40: two approvals of one request at the same time can run its command twice: each loads the pending
  request, and the second saves its stale copy over the mark the first dispatch left, so it
  dispatches a second task.\<close>

theorem concurrent_approvals_dispatch_twice:
  assumes "load_approval_request s k = Some a" and "ap_details a = dict_sort (ap_details a)"
    and "run_request_ready a s"
    and "load_task s (''task_'' @ u1) = None" and "load_task s (''task_'' @ u2) = None" and "u1 \<noteq> u2"
  shows "\<exists>s' c' t1 t2. (decide_step k ''approved'')\<^sup>*\<^sup>* (s, \<lambda>_. Undecided) (s', c')
    \<and> tasks s' = tasks s @ [t1, t2] \<and> tk_task_id t1 = ''task_'' @ u1 \<and> tk_task_id t2 = ''task_'' @ u2
    \<and> tk_command t1 = py_str (dget (ap_details a) ''command'')
    \<and> tk_command t2 = py_str (dget (ap_details a) ''command'')"
proof -
  let ?go = "\<lambda>u s. decide_loaded (Some a) ''approved'' ''ann'' u (\<lambda>_. 0) s"
  let ?s1 = "snd (?go u1 s)" and ?s2 = "snd (?go u2 (snd (?go u1 s)))"
  let ?c0 = "\<lambda>_. Undecided" and ?t = "\<lambda>u. approved_task (ap_reread (decided a ''approved'' ''ann'' 0)) u 0"
  note first = decide_dispatches [OF assms(3,2) refl assms(4), where who = "''ann''" and clk = "\<lambda>_. 0"]
  have "load_task ?s1 (''task_'' @ u2) = None"
    using assms(5,6) by (auto simp: load_task_def first(1) tbl_find_append)
  note second = decide_dispatches [OF assms(3,2) first(2) this, where who = "''ann''" and clk = "\<lambda>_. 0"]
  let ?c1 = "?c0(0 := Loaded (Some a))" let ?c2 = "?c1(Suc 0 := Loaded (Some a))"
  let ?c3 = "?c2(0 := Done (fst (?go u1 s)))" let ?c4 = "?c3(Suc 0 := Done (fst (?go u2 ?s1)))"
  have "decide_step k ''approved'' (s, ?c0) (s, ?c1)"
    using decide_step.load [of ?c0 0 k "''approved''" s] assms(1) by simp
  moreover have "decide_step k ''approved'' (s, ?c1) (s, ?c2)"
    using decide_step.load [of ?c1 "Suc 0" k "''approved''" s] assms(1) by simp
  moreover have "decide_step k ''approved'' (s, ?c2) (?s1, ?c3)"
    by (rule decide_step.decide [where a = "Some a"]) (simp, rule prod.collapse [symmetric])
  moreover have "decide_step k ''approved'' (?s1, ?c3) (?s2, ?c4)"
    by (rule decide_step.decide [where a = "Some a"]) (simp, rule prod.collapse [symmetric])
  ultimately have "(decide_step k ''approved'')\<^sup>*\<^sup>* (s, ?c0) (?s2, ?c4)"
    by (meson rtranclp.rtrancl_into_rtrancl rtranclp.rtrancl_refl)
  moreover have "tasks ?s2 = tasks s @ [?t u1, ?t u2]" using first(1) second(1) by simp
  moreover have "tk_command (?t u) = py_str (dget (ap_details a) ''command'')" for u
    using assms(2) by (simp add: ap_reread_def decided_def)
  ultimately show ?thesis by (metis approved_task_simps(1))
qed

lemma concurrent_approvals_dispatch_twice_witness:
  "\<exists>s' c' t1 t2. (decide_step ''appr_1'' ''approved'')\<^sup>*\<^sup>* (sample_approvals, \<lambda>_. Undecided) (s', c')
    \<and> tasks s' = tasks sample_approvals @ [t1, t2] \<and> tk_command t1 = ''reboot'' \<and> tk_command t2 = ''reboot''"
proof -
  have ld: "load_approval_request sample_approvals ''appr_1'' = Some sample_approval"
    by (simp add: load_approval_request_def sample_approvals_def sample_approval_def)
  have srt: "ap_details sample_approval = dict_sort (ap_details sample_approval)" by code_simp
  have ready: "run_request_ready sample_approval sample_approvals" by code_simp
  have fresh: "load_task sample_approvals (''task_'' @ ''u1'') = None" "load_task sample_approvals (''task_'' @ ''u2'') = None"
    by code_simp+
  have cmd: "py_str (dget (ap_details sample_approval) ''command'') = ''reboot''" by (simp add: sample_approval_def)
  from concurrent_approvals_dispatch_twice [OF ld srt ready fresh] show ?thesis unfolding cmd by fast
qed

end
