(* ===== verification/PyData.thy ===== *)
theory PyData imports Json Utf8 begin

text \<open>
  Reading the items of JSON values the way the code does: \<open>for x in v\<close>, \<open>[str(x) for x in v]\<close> and
  \<open>[int(x) for x in v]\<close>, with the exceptions they raise.
\<close>

text \<open>\<open>for x in v\<close>: a list gives its items, a text its characters, a dict its keys.\<close>

definition py_iter :: "json \<Rightarrow> json list result" where
  "py_iter v = (case v of
      JList xs \<Rightarrow> Inr xs
    | JStr s \<Rightarrow> Inr (map JStr (utf8_split s))
    | JObj d \<Rightarrow> Inr (map (\<lambda>p. JStr (fst p)) d)
    | _ \<Rightarrow> Inl (TypeError ''object is not iterable''))"

definition str_items :: "json \<Rightarrow> string list result" where
  "str_items v = bind_result (py_iter v) (\<lambda>xs. Inr (map py_str xs))"

definition int_of_json :: "json \<Rightarrow> int result" where
  "int_of_json v =
     (case py_int v of
        Some i \<Rightarrow> Inr i
      | None \<Rightarrow> Inl (case v of JStr _ \<Rightarrow> ValueError ''invalid literal for int() with base 10''
                            | _ \<Rightarrow> TypeError ''int() argument must be a string, a bytes-like object or a real number''))"

fun map_result :: "('a \<Rightarrow> 'b result) \<Rightarrow> 'a list \<Rightarrow> 'b list result" where
  "map_result f [] = Inr []"
| "map_result f (x # xs) = bind_result (f x) (\<lambda>y. bind_result (map_result f xs) (\<lambda>ys. Inr (y # ys)))"

definition int_items :: "json \<Rightarrow> int list result" where
  "int_items v = bind_result (py_iter v) (map_result int_of_json)"

text \<open>\<open>dict(v)\<close> without \<open>or {}\<close>: numbers and \<open>None\<close> are refused.\<close>

definition strict_dict :: "json \<Rightarrow> dict result" where
  "strict_dict v =
     (case v of
        JObj d \<Rightarrow> Inr d
      | JList xs \<Rightarrow> py_dict v
      | JStr s \<Rightarrow> py_dict v
      | _ \<Rightarrow> Inl (TypeError ''object is not iterable''))"

lemma py_iter_JList [simp]: "py_iter (JList xs) = Inr xs"
  by (simp add: py_iter_def)

lemma map_result_map: "(\<And>x. x \<in> set xs \<Longrightarrow> f (g x) = Inr (h x)) \<Longrightarrow> map_result f (map g xs) = Inr (map h xs)"
  by (induction xs) auto

lemma str_items_JStr [simp]: "str_items (JList (map JStr xs)) = Inr xs"
  by (simp add: str_items_def comp_def)

lemma int_items_JInt [simp]: "int_items (JList (map JInt xs)) = Inr xs"
  using map_result_map [of xs int_of_json JInt id] by (simp add: int_items_def int_of_json_def py_int_def)

end
