(* ===== verification/Acl.thy ===== *)
theory Acl imports Approvals PyData begin

text \<open>
  Network approvals that reach beyond the store: applying an ACL file (\<open>network_acl.py\<close>, planned by
  \<open>network acl plan\<close> of \<open>cli.py\<close>) and setting a network node's tags.  The file system is a map from
  paths to the text of regular files; the digest, \<open>Path.expanduser\<close>, the diff, the host and the
  network provider are parameters.  A shell run of the host may change any file; its outcome is \<open>None\<close> when it
  exceeds its timeout.  The host also says which paths are directories, and whether writing a file fails: before
  the file is touched (\<open>None\<close>) or with part of the text in it.
\<close>

type_synonym files = "string \<rightharpoonup> string"
type_synonym acl_shell = "string \<Rightarrow> files \<Rightarrow> (int \<times> string \<times> string) option \<times> files"

type_synonym write_faults = "string \<Rightarrow> (exn \<times> string option) option"

record acl_host =
  host_shell :: acl_shell
  host_is_dir :: "string \<Rightarrow> bool"
  host_write_fault :: write_faults

text \<open>What a failing write leaves at a path.\<close>

definition written_partly :: "string \<Rightarrow> string option \<Rightarrow> files \<Rightarrow> files" where
  "written_partly path part fs = (case part of None \<Rightarrow> fs | Some text \<Rightarrow> fs(path \<mapsto> text))"

definition file_text :: "files \<Rightarrow> string \<Rightarrow> string" where
  "file_text fs path = (case fs path of None \<Rightarrow> [] | Some text \<Rightarrow> text)"

section \<open>Applying an approved ACL\<close>

text \<open>One of the two commands: its exit code, if it is run, the error it raises and the files it leaves.\<close>

definition acl_command :: "acl_shell \<Rightarrow> string \<Rightarrow> string \<Rightarrow> files \<Rightarrow> int option \<times> exn option \<times> files" where
  "acl_command run command failure fs =
     (if command = [] then (None, None, fs)
      else case run command fs of
        (None, fs') \<Rightarrow> (None, Some TimeoutExpired, fs')
      | (Some (code, out, err), fs') \<Rightarrow>
          (Some code,
           if code \<noteq> 0
           then Some (NetworkProviderError (failure @ '': '' @ (if strip err \<noteq> [] then strip err else strip out)))
           else None, fs'))"

definition exn_text :: "exn \<Rightarrow> string" where
  "exn_text e = (case e of NetworkProviderError m \<Rightarrow> m | ValueError m \<Rightarrow> m | RuntimeError m \<Rightarrow> m | _ \<Rightarrow> [])"

definition acl_audit ::
  "string \<Rightarrow> string \<Rightarrow> dict \<Rightarrow> time \<Rightarrow> store \<Rightarrow> store" where
  "acl_audit current outcome details now s =
     record_audit ''network'' ''network_acl'' current ''acl/apply'' outcome details now s"

text \<open>After the checks: the file is written, reloaded and verified; a failure is audited, not undone.\<close>

definition reload_of :: "dict \<Rightarrow> string" where
  "reload_of details = strip (str_or (dget details ''reload_command'') [])"

definition verify_of :: "dict \<Rightarrow> string" where
  "verify_of details = strip (str_or (dget details ''verify_command'') [])"

definition commit_acl ::
  "(string \<Rightarrow> string) \<Rightarrow> acl_host \<Rightarrow> dict \<Rightarrow> string \<Rightarrow> string \<Rightarrow> string \<Rightarrow> dict \<Rightarrow> time \<Rightarrow> files \<Rightarrow> store
    \<Rightarrow> bool result \<times> files \<times> store" where
  "commit_acl sha256 host details current old_sha256 new_text paths now fs s =
     (case host_write_fault host current of
        Some (e, part) \<Rightarrow> (Inl e, written_partly current part fs, s)
      | None \<Rightarrow>
     let (reload_code, reload_err, fs1) =
            acl_command (host_shell host) (reload_of details) (''Headscale reload '' @ utf8_text [0x5931, 0x8D25])
              (fs(current \<mapsto> new_text));
          (verify_code, verify_err, fs2) =
            (case reload_err of
               Some _ \<Rightarrow> (None, None, fs1)
             | None \<Rightarrow> acl_command (host_shell host) (verify_of details)
                 (''Headscale ACL verify '' @ utf8_text [0x5931, 0x8D25]) fs1);
          report = paths @ [(''old_sha256'', JStr old_sha256), (''new_sha256'', JStr (sha256 new_text)),
                            (''reload_exit_code'', case reload_code of None \<Rightarrow> JNull | Some c \<Rightarrow> JInt c),
                            (''verify_exit_code'', case verify_code of None \<Rightarrow> JNull | Some c \<Rightarrow> JInt c)]
      in case (case reload_err of Some e \<Rightarrow> Some e | None \<Rightarrow> verify_err) of
           None \<Rightarrow> (Inr True, fs2, acl_audit current ''ok'' report now s)
         | Some e \<Rightarrow>
             if e = TimeoutExpired then (Inl e, fs2, s)
             else (Inl e, fs2, acl_audit current ''failed'' (report @ [(''error'', JStr (exn_text e))]) now s))"

definition dispatch_approved_network_acl_apply ::
  "(string \<Rightarrow> string) \<Rightarrow> (string \<Rightarrow> string) \<Rightarrow> acl_host \<Rightarrow> string \<Rightarrow> time \<Rightarrow> files \<times> store
    \<Rightarrow> bool result \<times> files \<times> store" where
  "dispatch_approved_network_acl_apply sha256 expand host approval_id now st =
     (let (fs, s) = st
      in case load_approval_request s approval_id of
        None \<Rightarrow> (Inr False, fs, s)
      | Some a \<Rightarrow>
          if ap_status a \<noteq> ''approved'' then (Inr False, fs, s)
          else if ap_subject_type a \<noteq> ''network_acl'' \<or> ap_action a \<noteq> ''network.acl.apply'' then (Inr False, fs, s)
          else
            let details = ap_details a;
                current = expand (str_or (dget details ''current_path'') []);
                proposed = expand (str_or (dget details ''proposed_path'') [])
            in if host_is_dir host proposed \<or> host_is_dir host current \<and> fs proposed \<noteq> None
               then (Inl (OSError ''Is a directory''), fs, s)
               else case fs proposed of
              None \<Rightarrow> (Inr False, fs, s)
            | Some new_text \<Rightarrow>
                let old_sha256 = sha256 (file_text fs current);
                    expected = str_or (dget details ''old_sha256'') [];
                    paths = [(''approval_id'', JStr (ap_approval_id a)), (''current_path'', JStr current),
                             (''proposed_path'', JStr proposed)]
                in if expected \<noteq> [] \<and> expected \<noteq> old_sha256
                   then (Inl (NetworkProviderError (utf8_text [0x5F53, 0x524D] @ '' ACL '' @ utf8_text [0x5DF2, 0x53D8, 0x5316, 0xFF0C, 0x8BF7, 0x91CD, 0x65B0, 0x751F, 0x6210] @ '' diff '' @ utf8_text [0x540E, 0x518D, 0x5BA1, 0x6279])), fs,
                         acl_audit current ''failed''
                           (paths @ [(''error'', JStr ''current ACL sha256 mismatch''),
                                     (''expected_old_sha256'', JStr expected), (''actual_old_sha256'', JStr old_sha256)]) now s)
                   else commit_acl sha256 host details current old_sha256 new_text paths now fs s)"

section \<open>Planning an ACL change\<close>

text \<open>\<open>None\<close> is the answer when there is nothing to approve, \<open>Inl\<close> the exit with status 1 for a missing file.\<close>

definition network_acl_plan ::
  "(string \<Rightarrow> string) \<Rightarrow> (string \<Rightarrow> string) \<Rightarrow> (string \<Rightarrow> string \<Rightarrow> string) \<Rightarrow> string \<Rightarrow> string \<Rightarrow> string \<Rightarrow> string
    \<Rightarrow> string \<Rightarrow> (nat \<Rightarrow> time) \<Rightarrow> files \<times> store \<Rightarrow> approval_request option result \<times> store" where
  "network_acl_plan sha256 expand unified_diff current0 proposed0 reload_command verify_command uid clk st =
     (let (fs, s) = st; current = expand current0; proposed = expand proposed0
      in case fs proposed of
           None \<Rightarrow> (Inl (ValueError (utf8_text [0x62DF, 0x5E94, 0x7528] @ '' ACL '' @ utf8_text [0x6587, 0x4EF6, 0x4E0D, 0x5B58, 0x5728] @ '': '' @ proposed)), s)
         | Some new_text \<Rightarrow>
             let old_text = file_text fs current; diff = unified_diff old_text new_text
             in if diff = [] then (Inr None, s)
                else let (a, s') = create_approval_request ''network_acl'' current ''network.acl.apply'' ''critical'' ''hmn''
                           [(''provider'', JStr ''headscale''), (''current_path'', JStr current),
                            (''proposed_path'', JStr proposed), (''diff'', JStr diff),
                            (''old_sha256'', JStr (sha256 old_text)), (''new_sha256'', JStr (sha256 new_text)),
                            (''reload_command'', JStr reload_command), (''verify_command'', JStr verify_command)] uid clk s
                     in (Inr (Some a), s'))"

section \<open>Setting approved tags\<close>

text \<open>\<open>for x in v\<close> over a JSON value.\<close>

text \<open>\<open>set_tags\<close> is the provider's call (\<open>Some e\<close> when it raises), \<open>provider_name\<close> its name.\<close>

definition dispatch_approved_network_tag_update ::
  "(string \<Rightarrow> string list \<Rightarrow> string option) \<Rightarrow> string \<Rightarrow> string \<Rightarrow> time \<Rightarrow> store \<Rightarrow> bool result \<times> store" where
  "dispatch_approved_network_tag_update set_tags provider_name approval_id now s =
     (case load_approval_request s approval_id of
        None \<Rightarrow> (Inr False, s)
      | Some a \<Rightarrow>
          if ap_status a \<noteq> ''approved'' then (Inr False, s)
          else if ap_subject_type a \<noteq> ''network_node'' \<or> ap_action a \<noteq> ''network.tags.set'' then (Inr False, s)
          else
            let details = ap_details a;
                node_id = str_or (dget details ''node_id'') (ap_subject_id a);
                provider_node_id = str_or (dget details ''provider_node_id'') []
            in case py_iter (dget_or details ''requested_tags'' (JList [])) of
                 Inl e \<Rightarrow> (Inl e, s)
               | Inr tags \<Rightarrow>
               if node_id = [] \<or> provider_node_id = [] then (Inr False, s)
               else case load_node s node_id of
                 None \<Rightarrow> (Inr False, s)
               | Some n \<Rightarrow>
                   if nd_status n \<noteq> ''managed'' then (Inr False, s)
                   else
                     let requested_tags = map py_str tags;
                         common = [(''node_id'', JStr node_id), (''provider_node_id'', JStr provider_node_id),
                                   (''old_tags'', JList (map JStr (nd_network_tags n))),
                                   (''requested_tags'', JList (map JStr requested_tags)),
                                   (''approval_id'', JStr (ap_approval_id a))]
                     in case set_tags provider_node_id requested_tags of
                          Some e \<Rightarrow>
                            (Inl (NetworkProviderError e),
                             record_audit ''network'' ''network_node'' node_id ''tags/update'' ''failed''
                               (common @ [(''error'', JStr e)]) now s)
                        | None \<Rightarrow>
                            (Inr True,
                             record_audit ''network'' ''network_node'' node_id ''tags/update'' ''ok''
                               (common @ [(''provider'', JStr provider_name)]) now
                               (save_node (n\<lparr>nd_network_tags := requested_tags,
                                             nd_network_provider := (if nd_network_provider n \<noteq> [] then nd_network_provider n
                                                                     else provider_name),
                                             nd_network_node_id := provider_node_id\<rparr>) s)))"

text \<open>
  The files after the write and the commands that follow it: the reload, and the check unless the reload failed or took
  too long.
\<close>

definition after_command :: "acl_shell \<Rightarrow> string \<Rightarrow> files \<Rightarrow> files" where
  "after_command run command fs = (if command = [] then fs else snd (run command fs))"

definition command_succeeds :: "acl_shell \<Rightarrow> string \<Rightarrow> files \<Rightarrow> bool" where
  "command_succeeds run command fs \<longleftrightarrow>
     (if command = [] then True else case fst (run command fs) of Some (code, _) \<Rightarrow> code = 0 | None \<Rightarrow> False)"

definition after_commands :: "acl_shell \<Rightarrow> dict \<Rightarrow> files \<Rightarrow> files" where
  "after_commands run details fs =
     (let fs1 = after_command run (reload_of details) fs
      in if command_succeeds run (reload_of details) fs then after_command run (verify_of details) fs1 else fs1)"

definition acl_written :: "acl_host \<Rightarrow> dict \<Rightarrow> string \<Rightarrow> string \<Rightarrow> files \<Rightarrow> files" where
  "acl_written host details current new_text fs =
     (case host_write_fault host current of
        Some (_, part) \<Rightarrow> written_partly current part fs
      | None \<Rightarrow> after_commands (host_shell host) details (fs(current \<mapsto> new_text)))"

lemma acl_command_spec:
  "snd (snd (acl_command run command failure fs)) = after_command run command fs"
  "fst (snd (acl_command run command failure fs)) = None \<longleftrightarrow> command_succeeds run command fs"
  by (auto simp: acl_command_def after_command_def command_succeeds_def split: prod.splits option.splits)

lemma commit_acl_files:
  "fst (snd (commit_acl sha256 host d current old body paths now fs s)) = acl_written host d current body fs"
proof (cases "host_write_fault host current")
  case (Some f)
  then show ?thesis by (simp add: commit_acl_def acl_written_def split: prod.split)
next
  case None
  let ?sh = "host_shell host"
  let ?r = "acl_command ?sh (reload_of d) (''Headscale reload '' @ utf8_text [0x5931, 0x8D25]) (fs(current \<mapsto> body))"
  obtain c e fs1 where r: "?r = (c, e, fs1)" by (metis prod_cases3)
  with acl_command_spec [of ?sh "reload_of d" "''Headscale reload '' @ utf8_text [0x5931, 0x8D25]" "fs(current \<mapsto> body)"]
  have fs1: "fs1 = after_command ?sh (reload_of d) (fs(current \<mapsto> body))"
    and ok: "command_succeeds ?sh (reload_of d) (fs(current \<mapsto> body)) \<longleftrightarrow> e = None" by auto
  obtain c2 e2 fs2 where v: "acl_command ?sh (verify_of d) (''Headscale ACL verify '' @ utf8_text [0x5931, 0x8D25]) fs1
      = (c2, e2, fs2)" by (metis prod_cases3)
  with acl_command_spec(1) [of ?sh "verify_of d" "''Headscale ACL verify '' @ utf8_text [0x5931, 0x8D25]" fs1]
  have fs2: "fs2 = after_command ?sh (verify_of d) fs1" by simp
  show ?thesis
  proof (cases e)
    case (Some x)
    then show ?thesis
      unfolding commit_acl_def Let_def r None acl_written_def after_commands_def ok fs1 [symmetric] by simp
  next
    case eN: None
    show ?thesis
      unfolding commit_acl_def Let_def r None acl_written_def after_commands_def ok fs1 [symmetric] eN
        prod.case option.case v fs2 [symmetric]
      by (cases e2) (simp_all add: fs2)
  qed
qed

lemma acl_dispatch_files:
  "fst (snd (dispatch_approved_network_acl_apply sha256 expand host k now (fs, s))) = fs \<or>
   (\<exists>a new_text. load_approval_request s k = Some a \<and> ap_status a = ''approved''
      \<and> ap_subject_type a = ''network_acl'' \<and> ap_action a = ''network.acl.apply''
      \<and> fs (expand (str_or (dget (ap_details a) ''proposed_path'') [])) = Some new_text
      \<and> str_or (dget (ap_details a) ''old_sha256'') []
          \<in> {[], sha256 (file_text fs (expand (str_or (dget (ap_details a) ''current_path'') [])))}
      \<and> fst (snd (dispatch_approved_network_acl_apply sha256 expand host k now (fs, s)))
          = acl_written host (ap_details a) (expand (str_or (dget (ap_details a) ''current_path'') [])) new_text fs)"
proof (cases "load_approval_request s k")
  case None
  then show ?thesis by (simp add: dispatch_approved_network_acl_apply_def)
next
  case ld: (Some a)
  let ?new = "expand (str_or (dget (ap_details a) ''proposed_path'') [])"
  note d = dispatch_approved_network_acl_apply_def Let_def
  show ?thesis
  proof (cases "ap_status a = ''approved'' \<and> ap_subject_type a = ''network_acl'' \<and> ap_action a = ''network.acl.apply''")
    case False
    then show ?thesis by (simp add: d ld)
  next
    case ok: True
    show ?thesis
    proof (cases "fs ?new")
      case None
      with ok show ?thesis by (simp add: d ld)
    next
      case (Some body)
      with ok show ?thesis by (simp add: d ld commit_acl_files)
    qed
  qed
qed

lemma commit_acl_frame:
  "approval_requests (snd (snd (commit_acl sha256 run d current old body paths now fs s))) = approval_requests s"
  "tasks (snd (snd (commit_acl sha256 run d current old body paths now fs s))) = tasks s"
  "audit_extends s (snd (snd (commit_acl sha256 run d current old body paths now fs s)))"
  by (auto simp: commit_acl_def acl_audit_def Let_def split: prod.split option.split)

text \<open>What a planned request records when it is read back.\<close>

lemma planned_acl_request:
  assumes "network_acl_plan sha256 expand unified_diff current0 proposed0 reload verify uid clk (fs, s) = (Inr (Some a), s')"
  shows "load_approval_request s' (ap_approval_id a) = Some (ap_reread a)"
    and "str_or (dget (ap_details (ap_reread a)) ''old_sha256'') [] = sha256 (file_text fs (expand current0))"
    and "str_or (dget (ap_details (ap_reread a)) ''current_path'') [] = expand current0"
    and "ap_status (ap_reread a) = ''pending''"
  using assms
  by (auto simp: network_acl_plan_def create_approval_request_def ap_reread_def Let_def dget_def str_or_def py_or_def
      py_str_def truthy_def map_of_dict_sort load_approval_save
      split: option.splits prod.splits if_splits)

section \<open>Properties\<close>

definition sample_acl_approval :: approval_request where
  "sample_acl_approval = \<lparr>ap_approval_id = ''appr_acl'', ap_subject_type = ''network_acl'', ap_subject_id = ''/acl'',
     ap_action = ''network.acl.apply'', ap_risk = ''critical'', ap_status = ''approved'', ap_requested_by = ''hmn'',
     ap_details = [(''current_path'', JStr ''/acl''), (''new_sha256'', JStr ''sha:reviewed''),
                   (''old_sha256'', JStr ''sha:old''), (''proposed_path'', JStr ''/new''),
                   (''reload_command'', JStr ''reload'')],
     ap_created_at = 1, ap_decided_by = ''ann'', ap_decided_at = Some 2\<rparr>"

definition sample_acl :: "files \<times> store" where
  "sample_acl = ([''/acl'' \<mapsto> ''old'', ''/new'' \<mapsto> ''something else''],
     empty_store\<lparr>approval_requests := [sample_acl_approval]\<rparr>)"

definition sample_acl_host :: acl_host where
  "sample_acl_host = \<lparr>host_shell = (\<lambda>_ fs. (Some (0, [], []), fs)), host_is_dir = (\<lambda>_. False),
     host_write_fault = (\<lambda>_. None)\<rparr>"

text \<open>C37: applying an ACL leaves the files alone unless the request is an approved ACL request and its proposed
  file exists.  A request that records a digest of the current file then changes files only if the current
  file still has that digest; one that records none is not compared with anything, but every request that
  planning files is pending, names the file and records its digest.  The change is the write of the proposed text to
  the current file (all of it, or what a failing write leaves), and after a whole write what the request's own reload
  and verify commands do.\<close>

theorem acl_write_is_authorised:
  "(case dispatch_approved_network_acl_apply sha256 expand host k now (fs, s) of (r, fs', s') \<Rightarrow>
     fs' = fs \<or>
     (\<exists>a new_text recorded current. load_approval_request s k = Some a \<and> ap_status a = ''approved''
        \<and> ap_subject_type a = ''network_acl'' \<and> ap_action a = ''network.acl.apply''
        \<and> fs (expand (str_or (dget (ap_details a) ''proposed_path'') [])) = Some new_text
        \<and> current = expand (str_or (dget (ap_details a) ''current_path'') [])
        \<and> recorded = str_or (dget (ap_details a) ''old_sha256'') []
        \<and> (if recorded = [] then True else recorded = sha256 (file_text fs current))
        \<and> fs' = acl_written host (ap_details a) current new_text fs))
   \<and> (case network_acl_plan sha256 expand unified_diff current0 proposed0 reload verify uid clk (fs, s) of
        (Inr (Some a), s') \<Rightarrow>
          (\<exists>b. load_approval_request s' (ap_approval_id a) = Some b \<and> ap_status b = ''pending''
             \<and> str_or (dget (ap_details b) ''old_sha256'') [] = sha256 (file_text fs (expand current0))
             \<and> str_or (dget (ap_details b) ''current_path'') [] = expand current0)
      | _ \<Rightarrow> True)"
proof (rule conjI)
  show "case dispatch_approved_network_acl_apply sha256 expand host k now (fs, s) of (r, fs', s') \<Rightarrow>
     fs' = fs \<or>
     (\<exists>a new_text recorded current. load_approval_request s k = Some a \<and> ap_status a = ''approved''
        \<and> ap_subject_type a = ''network_acl'' \<and> ap_action a = ''network.acl.apply''
        \<and> fs (expand (str_or (dget (ap_details a) ''proposed_path'') [])) = Some new_text
        \<and> current = expand (str_or (dget (ap_details a) ''current_path'') [])
        \<and> recorded = str_or (dget (ap_details a) ''old_sha256'') []
        \<and> (if recorded = [] then True else recorded = sha256 (file_text fs current))
        \<and> fs' = acl_written host (ap_details a) current new_text fs)"
    using acl_dispatch_files [of sha256 expand host k now fs s] by (simp add: case_prod_beta) blast
  show "case network_acl_plan sha256 expand unified_diff current0 proposed0 reload verify uid clk (fs, s) of
        (Inr (Some a), s') \<Rightarrow>
          (\<exists>b. load_approval_request s' (ap_approval_id a) = Some b \<and> ap_status b = ''pending''
             \<and> str_or (dget (ap_details b) ''old_sha256'') [] = sha256 (file_text fs (expand current0))
             \<and> str_or (dget (ap_details b) ''current_path'') [] = expand current0)
      | _ \<Rightarrow> True"
    by (auto simp: planned_acl_request split: sum.split option.split)
qed

text \<open>The text that is applied need not be the text that was approved: \<open>new_sha256\<close> is recorded with the
  request and never compared, so when the proposed file changes after the review, its new content
  is written and the apply succeeds.\<close>

theorem acl_apply_ignores_reviewed_digest:
  assumes "load_approval_request s k = Some a" and "ap_status a = ''approved''"
    and "ap_subject_type a = ''network_acl''" and "ap_action a = ''network.acl.apply''"
    and "str_or (dget (ap_details a) ''old_sha256'') [] = sha256 (file_text fs cur)"
    and "expand (str_or (dget (ap_details a) ''current_path'') []) = cur"
    and "fs (expand (str_or (dget (ap_details a) ''proposed_path'') [])) = Some body"
    and "\<And>c fs. host_shell host c fs = (Some (0, [], []), fs)"
    and "\<And>p. \<not> host_is_dir host p" and "\<And>p. host_write_fault host p = None"
  shows "\<exists>s'. dispatch_approved_network_acl_apply sha256 expand host k now (fs, s) = (Inr True, fs(cur \<mapsto> body), s')"
  using assms
  by (simp add: dispatch_approved_network_acl_apply_def commit_acl_def acl_command_def Let_def)

lemma acl_apply_ignores_reviewed_digest_witness:
  "\<exists>s'. dispatch_approved_network_acl_apply (\<lambda>body. ''sha:'' @ body) id sample_acl_host ''appr_acl'' 9 sample_acl
      = (Inr True, (fst sample_acl)(''/acl'' \<mapsto> ''something else''), s')
    \<and> dget (ap_details sample_acl_approval) ''new_sha256'' \<noteq> JStr (''sha:'' @ ''something else'')"
proof -
  have ld: "load_approval_request (snd sample_acl) ''appr_acl'' = Some sample_acl_approval"
    by (simp add: load_approval_request_def sample_acl_def sample_acl_approval_def)
  have "sample_acl = (fst sample_acl, snd sample_acl)" by simp
  moreover have "\<exists>s'. dispatch_approved_network_acl_apply (\<lambda>body. ''sha:'' @ body) id sample_acl_host ''appr_acl'' 9
      (fst sample_acl, snd sample_acl) = (Inr True, (fst sample_acl)(''/acl'' \<mapsto> ''something else''), s')"
    by (rule acl_apply_ignores_reviewed_digest [OF ld])
      (simp_all add: sample_acl_approval_def sample_acl_def sample_acl_host_def file_text_def)
  ultimately show ?thesis by (simp add: sample_acl_approval_def)
qed

end
