(* ===== verification/PyText.thy ===== *)
theory PyText imports Prelude begin

text \<open>
  More of Python's text and path operations, for the components that read command output:
  \<open>splitlines\<close>, \<open>split\<close> with a limit, \<open>rsplit\<close>, suffixes, and pure POSIX paths.  Like \<open>strip\<close>, they follow
  Python on ASCII text.
\<close>

section \<open>Lines and words\<close>

definition is_line_break :: "char \<Rightarrow> bool" where
  "is_line_break c = (let n = (of_char c :: nat) in n = 10 \<or> n = 11 \<or> n = 12 \<or> n = 13 \<or> 28 \<le> n \<and> n \<le> 30)"

function split_lines_from :: "string \<Rightarrow> string \<Rightarrow> string list" where
  "split_lines_from cur [] = (if cur = [] then [] else [rev cur])"
| "split_lines_from cur (c # s) =
     (if is_line_break c
      then rev cur # split_lines_from [] (if c = CHR 0x0D \<and> s \<noteq> [] \<and> hd s = CHR 0x0A then tl s else s)
      else split_lines_from (c # cur) s)"
  by pat_completeness auto
termination
  by (relation "measure (\<lambda>(cur, s). length s)") auto

text \<open>\<open>s.splitlines()\<close>\<close>

definition split_lines :: "string \<Rightarrow> string list" where
  "split_lines s = split_lines_from [] s"

text \<open>\<open>s.split(None, n)\<close>\<close>

fun split_ws_max :: "nat \<Rightarrow> string \<Rightarrow> string list" where
  "split_ws_max 0 s = (let t = lstrip s in if t = [] then [] else [t])"
| "split_ws_max (Suc n) s =
     (let t = lstrip s
      in if t = [] then []
         else takeWhile (\<lambda>c. \<not> is_space c) t # split_ws_max n (dropWhile (\<lambda>c. \<not> is_space c) t))"

text \<open>\<open>s.split(sep, 1)\<close> and \<open>s.rsplit(sep, 1)\<close> where the separator occurs.\<close>

definition split_once :: "char \<Rightarrow> string \<Rightarrow> (string \<times> string) option" where
  "split_once sep s =
     (if sep \<in> set s then Some (takeWhile (\<lambda>c. c \<noteq> sep) s, tl (dropWhile (\<lambda>c. c \<noteq> sep) s)) else None)"

definition rsplit_once :: "char \<Rightarrow> string \<Rightarrow> (string \<times> string) option" where
  "rsplit_once sep s = map_option (\<lambda>(b, a). (rev a, rev b)) (split_once sep (rev s))"

definition endswith :: "string \<Rightarrow> string \<Rightarrow> bool" where
  "endswith s p = startswith (rev s) (rev p)"

definition removesuffix :: "string \<Rightarrow> string \<Rightarrow> string" where
  "removesuffix s p = (if endswith s p then rev (drop (length p) (rev s)) else s)"

section \<open>Pure POSIX paths\<close>

definition posix_parts :: "string \<Rightarrow> string list" where
  "posix_parts p = filter (\<lambda>c. c \<noteq> [] \<and> c \<noteq> ''.'') (split_on CHR ''/'' p)"

definition posix_root :: "string \<Rightarrow> string" where
  "posix_root p = (if startswith p ''//'' \<and> \<not> startswith p ''///'' then ''//''
                   else if startswith p ''/'' then ''/'' else [])"

definition posix_str :: "string \<Rightarrow> string list \<Rightarrow> string" where
  "posix_str root parts = (if root = [] \<and> parts = [] then ''.'' else root @ join_with ''/'' parts)"

definition posix_parent :: "string \<Rightarrow> string" where
  "posix_parent p = posix_str (posix_root p) (butlast (posix_parts p))"

definition posix_join :: "string \<Rightarrow> string \<Rightarrow> string" where
  "posix_join a b = (if startswith b ''/'' then posix_str (posix_root b) (posix_parts b)
                     else posix_str (posix_root a) (posix_parts a @ posix_parts b))"

definition as_posix :: "string \<Rightarrow> string" where
  "as_posix p = posix_str (posix_root p) (posix_parts p)"

definition is_relative_to :: "string \<Rightarrow> string \<Rightarrow> bool" where
  "is_relative_to p root =
     (posix_root p = posix_root root \<and> take (length (posix_parts root)) (posix_parts p) = posix_parts root)"

text \<open>A component of a path.\<close>

definition is_segment :: "string \<Rightarrow> bool" where
  "is_segment p \<longleftrightarrow> p \<noteq> [] \<and> p \<noteq> ''.'' \<and> CHR ''/'' \<notin> set p"

section \<open>Facts\<close>

lemma split_once_Some: "split_once sep s = Some (a, b) \<Longrightarrow> s = a @ sep # b \<and> sep \<notin> set a"
proof -
  assume s: "split_once sep s = Some (a, b)"
  then have mem: "sep \<in> set s" and a: "a = takeWhile (\<lambda>c. c \<noteq> sep) s" and b: "b = tl (dropWhile (\<lambda>c. c \<noteq> sep) s)"
    by (auto simp: split_once_def split: if_splits)
  from mem have ne: "dropWhile (\<lambda>c. c \<noteq> sep) s \<noteq> []" by (auto simp: dropWhile_eq_Nil_conv)
  then obtain y ys where d: "dropWhile (\<lambda>c. c \<noteq> sep) s = y # ys" by (cases "dropWhile (\<lambda>c. c \<noteq> sep) s") auto
  with hd_dropWhile [OF ne] have "y = sep" by simp
  have "s = takeWhile (\<lambda>c. c \<noteq> sep) s @ dropWhile (\<lambda>c. c \<noteq> sep) s" by simp
  with d a b \<open>y = sep\<close> have "s = a @ sep # b" by simp
  moreover have "sep \<notin> set a" unfolding a by (auto dest: set_takeWhileD)
  ultimately show ?thesis by simp
qed

lemma rsplit_once_Some: "rsplit_once sep s = Some (a, b) \<Longrightarrow> s = a @ sep # b \<and> sep \<notin> set b"
proof -
  assume "rsplit_once sep s = Some (a, b)"
  then have "split_once sep (rev s) = Some (rev b, rev a)" by (auto simp: rsplit_once_def)
  from split_once_Some [OF this] have "rev s = rev b @ sep # rev a" "sep \<notin> set b" by auto
  then show ?thesis by (metis rev.simps(2) rev_append rev_rev_ident append.assoc append_Cons append_Nil)
qed

lemma endswith_append [simp]: "endswith (s @ p) p"
  by (simp add: endswith_def)

lemma removesuffix_append [simp]: "removesuffix (s @ p) p = s"
  by (simp add: removesuffix_def)

lemma segments_of_path: "list_all is_segment (posix_parts p)"
  using split_on_pieces [of _ "CHR ''/''" p] by (auto simp: posix_parts_def is_segment_def list_all_iff)

lemma split_on_join_with:
  "ps \<noteq> [] \<Longrightarrow> list_all (\<lambda>p. sep \<notin> set p) ps \<Longrightarrow> split_on sep (join_with [sep] ps) = ps"
  by (induction "[sep]" ps rule: join_with.induct) (auto simp: split_on_no_sep split_on_append_sep)

lemma posix_root_cases: "posix_root p \<in> {[], ''/'', ''//''}"
  by (simp add: posix_root_def)

lemma join_first_char:
  "list_all is_segment ps \<Longrightarrow> ps \<noteq> [] \<Longrightarrow> \<exists>c s. join_with ''/'' ps = c # s \<and> c \<noteq> CHR ''/''"
  by (induction "''/''" ps rule: join_with.induct) (auto simp: is_segment_def neq_Nil_conv)

lemma posix_str_parts:
  assumes "list_all is_segment ps" "root \<in> {[], ''/'', ''//''}"
  shows "posix_parts (posix_str root ps) = ps" "posix_root (posix_str root ps) = root"
proof -
  have keep: "filter (\<lambda>c. c \<noteq> [] \<and> c \<noteq> ''.'') ps = ps"
    using assms(1) by (auto simp: filter_id_conv list_all_iff is_segment_def)
  show "posix_parts (posix_str root ps) = ps"
  proof (cases "ps = []")
    case True
    then show ?thesis using assms(2) by (auto simp: posix_parts_def posix_str_def)
  next
    case False
    then have "split_on CHR ''/'' (join_with ''/'' ps) = ps"
      using assms(1) by (intro split_on_join_with) (auto simp: list_all_iff is_segment_def)
    then show ?thesis using False keep assms(2) by (auto simp: posix_parts_def posix_str_def)
  qed
  show "posix_root (posix_str root ps) = root"
  proof (cases "ps = []")
    case True
    then show ?thesis using assms(2) by (auto simp: posix_root_def posix_str_def startswith_def)
  next
    case False
    then obtain c s where "join_with ''/'' ps = c # s" "c \<noteq> CHR ''/''" using join_first_char assms(1) by blast
    then show ?thesis using False assms(2) by (auto simp: posix_root_def posix_str_def startswith_def)
  qed
qed

lemma posix_join_parts:
  assumes "\<not> startswith b ''/''"
  shows "posix_parts (posix_join a b) = posix_parts a @ posix_parts b" "posix_root (posix_join a b) = posix_root a"
  using assms posix_str_parts [of "posix_parts a @ posix_parts b" "posix_root a"] segments_of_path posix_root_cases
  by (simp_all add: posix_join_def)

lemma segment_parts: "is_segment p \<Longrightarrow> posix_parts p = [p] \<and> \<not> startswith p ''/''"
  by (cases p) (auto simp: is_segment_def posix_parts_def split_on_no_sep startswith_def)

end
