(* ===== verification/PyRegex.thy ===== *)
theory PyRegex imports PyText begin

text \<open>
  The regular expressions the program uses, with the meaning of Python's \<open>re\<close>: a backtracking matcher
  that tries alternatives from left to right, the longest stretch of a greedy repetition first and the
  shortest of a lazy one first.  \<open>run\<close> lists every way to match, in that order; the match is the first.
  Repetitions in the program are over single characters, so a pattern is a plain tree and \<open>run\<close> is
  primitive recursive.  No pattern of the program matches the empty text.

  A position is the text before it, reversed, the text after it and the groups matched so far.  Classes
  follow Python on ASCII text; a byte of a longer character counts as part of a word, as letters do.
\<close>

section \<open>Patterns\<close>

datatype regex =
    Eps
  | One "char \<Rightarrow> bool"
  | Star "char \<Rightarrow> bool"
  | LazyStar "char \<Rightarrow> bool"
  | UpTo nat "char \<Rightarrow> bool"
  | Cat regex regex
  | Or regex regex
  | Group nat regex
  | WordBreak

type_synonym groups = "(nat \<times> string) list"
type_synonym spot = "string \<times> string \<times> groups"

definition is_lower_letter :: "char \<Rightarrow> bool" where
  "is_lower_letter c = (let n = (of_char c :: nat) in 97 \<le> n \<and> n \<le> 122)"

definition is_letter :: "char \<Rightarrow> bool" where
  "is_letter c = is_lower_letter (lower_char c)"

definition is_word :: "char \<Rightarrow> bool" where
  "is_word c \<longleftrightarrow> is_letter c \<or> is_digit c \<or> c = CHR ''_'' \<or> 128 \<le> (of_char c :: nat)"

definition lit :: "string \<Rightarrow> regex" where
  "lit s = foldr (\<lambda>c r. Cat (One (\<lambda>x. x = c)) r) s Eps"

text \<open>A literal under \<open>(?i)\<close>, given in lower case.\<close>

definition lit_ci :: "string \<Rightarrow> regex" where
  "lit_ci s = foldr (\<lambda>c r. Cat (One (\<lambda>x. lower_char x = c)) r) s Eps"

definition seq_re :: "regex list \<Rightarrow> regex" where
  "seq_re rs = foldr Cat rs Eps"

definition any_re :: "regex \<Rightarrow> regex list \<Rightarrow> regex" where
  "any_re r rs = foldl Or r rs"

definition opt_re :: "regex \<Rightarrow> regex" where
  "opt_re r = Or r Eps"

definition plus_re :: "(char \<Rightarrow> bool) \<Rightarrow> regex" where
  "plus_re p = Cat (One p) (Star p)"

section \<open>Matching\<close>

fun stretch :: "(char \<Rightarrow> bool) \<Rightarrow> string \<Rightarrow> string \<Rightarrow> (string \<times> string) list" where
  "stretch p b [] = [(b, [])]"
| "stretch p b (c # s) = (if p c then stretch p (c # b) s @ [(b, c # s)] else [(b, c # s)])"

fun stretch_upto :: "nat \<Rightarrow> (char \<Rightarrow> bool) \<Rightarrow> string \<Rightarrow> string \<Rightarrow> (string \<times> string) list" where
  "stretch_upto (Suc n) p b (c # s) =
     (if p c then stretch_upto n p (c # b) s @ [(b, c # s)] else [(b, c # s)])"
| "stretch_upto _ p b s = [(b, s)]"

definition word_at :: "string \<Rightarrow> bool" where
  "word_at s = (case s of [] \<Rightarrow> False | c # _ \<Rightarrow> is_word c)"

primrec run :: "regex \<Rightarrow> spot \<Rightarrow> spot list" where
  "run Eps p = [p]"
| "run (One q) p =
     (case p of (b, s, g) \<Rightarrow> case s of [] \<Rightarrow> [] | c # t \<Rightarrow> if q c then [(c # b, t, g)] else [])"
| "run (Star q) p = (case p of (b, s, g) \<Rightarrow> map (\<lambda>(b', s'). (b', s', g)) (stretch q b s))"
| "run (LazyStar q) p = (case p of (b, s, g) \<Rightarrow> map (\<lambda>(b', s'). (b', s', g)) (rev (stretch q b s)))"
| "run (UpTo n q) p = (case p of (b, s, g) \<Rightarrow> map (\<lambda>(b', s'). (b', s', g)) (stretch_upto n q b s))"
| "run (Cat x y) p = concat (map (run y) (run x p))"
| "run (Or x y) p = run x p @ run y p"
| "run (Group n x) p =
     (case p of (b, s, g) \<Rightarrow>
        map (\<lambda>(b', s', g'). (b', s', (n, take (length s - length s') s) # g')) (run x p))"
| "run WordBreak p = (case p of (b, s, g) \<Rightarrow> if word_at b \<noteq> word_at s then [p] else [])"

definition match_here :: "regex \<Rightarrow> string \<Rightarrow> string \<Rightarrow> spot option" where
  "match_here r b s = first_row (run r (b, s, []))"

text \<open>What a match took, and its groups.\<close>

type_synonym hit = "string \<times> groups"

definition hit_group :: "nat \<Rightarrow> hit \<Rightarrow> string" where
  "hit_group n h = (case map_of (snd h) n of Some t \<Rightarrow> t | None \<Rightarrow> [])"

text \<open>The text cut into the characters between matches and the matches.\<close>

function scan :: "regex \<Rightarrow> string \<Rightarrow> string \<Rightarrow> (char + hit) list" where
  "scan r b [] = []"
| "scan r b (c # s) =
     (case match_here r b (c # s) of
        None \<Rightarrow> Inl c # scan r (c # b) s
      | Some (b', s', g) \<Rightarrow>
          if length s' < length (c # s)
          then Inr (take (length (c # s) - length s') (c # s), g) # scan r b' s'
          else Inl c # scan r (c # b) s)"
  by pat_completeness auto
termination
  by (relation "measure (\<lambda>(r, b, s). length s)") auto

definition hits :: "(char + hit) list \<Rightarrow> hit list" where
  "hits ps = concat (map (case_sum (\<lambda>_. []) (\<lambda>h. [h])) ps)"

text \<open>\<open>re.match\<close>, \<open>re.search\<close>, \<open>re.finditer\<close>, \<open>re.sub\<close> and \<open>re.split\<close>\<close>

definition re_match :: "regex \<Rightarrow> string \<Rightarrow> hit option" where
  "re_match r s = map_option (\<lambda>(b', s', g). (take (length s - length s') s, g)) (match_here r [] s)"

definition re_findall :: "regex \<Rightarrow> string \<Rightarrow> hit list" where
  "re_findall r s = hits (scan r [] s)"

definition re_search :: "regex \<Rightarrow> string \<Rightarrow> hit option" where
  "re_search r s = first_row (re_findall r s)"

definition re_sub :: "regex \<Rightarrow> (hit \<Rightarrow> string) \<Rightarrow> string \<Rightarrow> string" where
  "re_sub r f s = concat (map (case_sum (\<lambda>c. [c]) f) (scan r [] s))"

fun split_pieces :: "(char + hit) list \<Rightarrow> string list" where
  "split_pieces [] = [[]]"
| "split_pieces (Inl c # ps) = (case split_pieces ps of [] \<Rightarrow> [[c]] | q # qs \<Rightarrow> (c # q) # qs)"
| "split_pieces (Inr h # ps) = [] # split_pieces ps"

definition re_split :: "regex \<Rightarrow> string \<Rightarrow> string list" where
  "re_split r s = split_pieces (scan r [] s)"

section \<open>More of \<open>str\<close>\<close>

text \<open>\<open>s.strip(chars)\<close>\<close>

definition strip_chars :: "string \<Rightarrow> string \<Rightarrow> string" where
  "strip_chars cs s = rev (dropWhile (\<lambda>c. c \<in> set cs) (rev (dropWhile (\<lambda>c. c \<in> set cs) s)))"

definition lstrip_chars :: "string \<Rightarrow> string \<Rightarrow> string" where
  "lstrip_chars cs s = dropWhile (\<lambda>c. c \<in> set cs) s"

definition rstrip_chars :: "string \<Rightarrow> string \<Rightarrow> string" where
  "rstrip_chars cs s = rev (dropWhile (\<lambda>c. c \<in> set cs) (rev s))"

section \<open>Runs of characters\<close>

lemma stretch_first:
  "\<exists>rest. stretch p b s = (rev (takeWhile p s) @ b, dropWhile p s) # rest"
  by (induction p b s rule: stretch.induct) auto

lemma match_plus:
  "match_here (plus_re p) b (c # s) =
     (if p c then Some (rev (takeWhile p s) @ c # b, dropWhile p s, []) else None)"
proof (cases "p c")
  case True
  obtain rest where "stretch p (c # b) s = (rev (takeWhile p s) @ c # b, dropWhile p s) # rest"
    using stretch_first by blast
  with True show ?thesis by (simp add: match_here_def plus_re_def)
qed (simp add: match_here_def plus_re_def)

text \<open>Replacing runs of characters: each run becomes the replacement, the rest stays.\<close>

lemma scan_plus:
  "scan (plus_re p) b (c # s) =
     (if p c then Inr (c # takeWhile p s, []) # scan (plus_re p) (rev (takeWhile p s) @ c # b) (dropWhile p s)
      else Inl c # scan (plus_re p) (c # b) s)"
proof (cases "p c")
  case True
  have "length (dropWhile p s) \<le> length s" by (rule length_dropWhile_le)
  moreover have "take (length (c # s) - length (dropWhile p s)) (c # s) = c # takeWhile p s"
  proof -
    have "length s = length (takeWhile p s) + length (dropWhile p s)"
      by (metis length_append takeWhile_dropWhile_id)
    then have "length (c # s) - length (dropWhile p s) = Suc (length (takeWhile p s))" by simp
    moreover have "take (length (takeWhile p s)) s = takeWhile p s" by (metis takeWhile_eq_take)
    ultimately show ?thesis by simp
  qed
  ultimately show ?thesis using True by (simp add: match_plus)
qed (simp add: match_plus)

lemma sub_plus_set:
  "set (concat (map (case_sum (\<lambda>c. [c]) f) (scan (plus_re p) b s)))
     \<subseteq> {c \<in> set s. \<not> p c} \<union> (\<Union>h. set (f h))"
proof (induction s arbitrary: b rule: length_induct)
  case (1 s)
  show ?case
  proof (cases s)
    case (Cons c t)
    have "length (dropWhile p t) < length s" using Cons by (simp add: le_imp_less_Suc length_dropWhile_le)
    from 1 [rule_format, OF this, of "rev (takeWhile p t) @ c # b"] 1 [rule_format, of t "c # b"]
    show ?thesis unfolding Cons scan_plus by (auto dest: set_dropWhileD)
  qed simp
qed

lemma set_re_sub_plus: "set (re_sub (plus_re p) (\<lambda>_. t) s) \<subseteq> {c \<in> set s. \<not> p c} \<union> set t"
  using sub_plus_set [of "\<lambda>_. t" p "[]" s] by (auto simp: re_sub_def)

lemma set_strip_chars: "set (strip_chars cs s) \<subseteq> set s"
proof -
  have sub: "set (dropWhile q xs) \<subseteq> set xs" for q and xs :: string by (auto dest: set_dropWhileD)
  show ?thesis using sub [of _ s] sub by (simp add: strip_chars_def) (metis order_trans set_rev)
qed

end
