(* ===== verification/Sanitize.thy ===== *)
theory Sanitize imports Json PyRegex begin

text \<open>
  The three sanitisers of the program: \<open>sanitize.py\<close> (providers and plans of services), the one of
  \<open>docs_generate.py\<close> (documents) and \<open>redact_sensitive_data\<close> of \<open>providers.py\<close> (provider plans).  All
  three walk a JSON value, blank the value of a sensitive key and rewrite every text; they differ in the
  keys they know and in how they rewrite, so the walk is one function with both as arguments.
\<close>

definition REDACTED :: string where
  "REDACTED = ''[REDACTED]''"

primrec redact_json :: "(string \<Rightarrow> bool) \<Rightarrow> (string \<Rightarrow> string) \<Rightarrow> json \<Rightarrow> json" where
  "redact_json secret_key redact JNull = JNull"
| "redact_json secret_key redact (JBool b) = JBool b"
| "redact_json secret_key redact (JInt i) = JInt i"
| "redact_json secret_key redact (JFloat x) = JFloat x"
| "redact_json secret_key redact (JStr s) = JStr (redact s)"
| "redact_json secret_key redact (JList xs) = JList (map (redact_json secret_key redact) xs)"
| "redact_json secret_key redact (JObj d) =
     JObj (map (\<lambda>p. if secret_key (fst p) then (fst p, JStr REDACTED) else p)
             (map (map_prod id (redact_json secret_key redact)) d))"

section \<open>sanitize.py\<close>

definition SECRET_KEY_MARKERS :: "string list" where
  "SECRET_KEY_MARKERS =
     [''token'', ''password'', ''passwd'', ''pwd'', ''secret'', ''api_key'', ''apikey'', ''authorization'', ''bearer'']"

definition SECRET_TEXT_MARKERS :: "string list" where
  "SECRET_TEXT_MARKERS =
     [''token='', ''password='', ''passwd='', ''pwd='', ''secret='', ''api_key='', ''apikey='', ''authorization:'', ''bearer '']"

definition looks_secret_key :: "string \<Rightarrow> bool" where
  "looks_secret_key key =
     list_ex (\<lambda>marker. contains (replace_all ''-'' ''_'' (lower key)) marker) SECRET_KEY_MARKERS"

text \<open>
  \<open>urlsplit\<close>: scheme and network location, or \<open>None\<close> where it raises \<open>ValueError\<close>.  What it refuses
  in a network location beyond an unpaired bracket (a bracketed host that is no IPv6 address, a
  character that normalises to a delimiter) is the parameter \<open>netloc_ok\<close>.
\<close>

definition is_scheme_char :: "char \<Rightarrow> bool" where
  "is_scheme_char c \<longleftrightarrow> is_letter c \<or> is_digit c \<or> c \<in> set ''+-.''"

definition urlsplit :: "(string \<Rightarrow> bool) \<Rightarrow> string \<Rightarrow> (string \<times> string) option" where
  "urlsplit netloc_ok text0 =
     (let url = filter (\<lambda>c. c \<notin> {CHR 0x09, CHR 0x0A, CHR 0x0D}) (dropWhile (\<lambda>c. (of_char c :: nat) \<le> 32) text0);
          (scheme, rest) =
            (case split_once CHR '':'' url of
               Some (a, b) \<Rightarrow> if a \<noteq> [] \<and> is_letter (hd a) \<and> list_all is_scheme_char a then (lower a, b) else ([], url)
             | None \<Rightarrow> ([], url));
          netloc = (if startswith rest ''//'' then takeWhile (\<lambda>c. c \<notin> set ''/?#'') (drop 2 rest) else [])
      in if (CHR ''['' \<in> set netloc) \<noteq> (CHR '']'' \<in> set netloc) \<or> \<not> netloc_ok netloc then None
         else Some (scheme, netloc))"

text \<open>\<open>username\<close> or \<open>password\<close> of a network location is set and not empty.\<close>

definition has_userinfo :: "string \<Rightarrow> bool" where
  "has_userinfo netloc =
     (case rsplit_once CHR ''@'' netloc of
        None \<Rightarrow> False
      | Some (userinfo, _) \<Rightarrow>
          (case split_once CHR '':'' userinfo of
             None \<Rightarrow> userinfo \<noteq> []
           | Some (username, password) \<Rightarrow> username \<noteq> [] \<or> password \<noteq> []))"

definition url_contains_credentials :: "(string \<Rightarrow> bool) \<Rightarrow> string \<Rightarrow> bool" where
  "url_contains_credentials netloc_ok s =
     (case urlsplit netloc_ok s of
        None \<Rightarrow> False
      | Some (scheme, netloc) \<Rightarrow> scheme \<noteq> [] \<and> netloc \<noteq> [] \<and> has_userinfo netloc)"

definition has_secret_marker :: "string \<Rightarrow> bool" where
  "has_secret_marker s = list_ex (\<lambda>marker. contains (lower s) marker) SECRET_TEXT_MARKERS"

definition redact_text :: "(string \<Rightarrow> bool) \<Rightarrow> string \<Rightarrow> string" where
  "redact_text netloc_ok s =
     (if has_secret_marker s then REDACTED
      else if url_contains_credentials netloc_ok s then REDACTED
      else s)"

definition sanitize_value :: "(string \<Rightarrow> bool) \<Rightarrow> json \<Rightarrow> json" where
  "sanitize_value netloc_ok v = redact_json looks_secret_key (redact_text netloc_ok) v"

section \<open>docs_generate.py\<close>

text \<open>\<open>(token|password|api[_-]?key|secret)\<close> among letters, digits, \<open>_\<close> and \<open>-\<close>, in either case.\<close>

definition is_key_char :: "char \<Rightarrow> bool" where
  "is_key_char c \<longleftrightarrow> is_letter c \<or> is_digit c \<or> c = CHR ''_'' \<or> c = CHR ''-''"

definition api_key_re :: regex where
  "api_key_re = seq_re [lit_ci ''api'', opt_re (One (\<lambda>c. c = CHR ''_'' \<or> c = CHR ''-'')), lit_ci ''key'']"

definition secret_name_re :: regex where
  "secret_name_re =
     seq_re [Star is_key_char, any_re (lit_ci ''token'') [lit_ci ''password'', api_key_re, lit_ci ''secret''], Star is_key_char]"

definition SENSITIVE_KEY_PATTERN :: regex where
  "SENSITIVE_KEY_PATTERN =
     seq_re [WordBreak, Group 1 secret_name_re, Star is_space, lit ''='', Star is_space,
             Group 2 (plus_re (\<lambda>c. \<not> is_space c \<and> c \<notin> set '',;''))]"

definition SENSITIVE_JSON_KEY_PATTERN :: regex where
  "SENSITIVE_JSON_KEY_PATTERN =
     seq_re [Group 1 (seq_re [opt_re (lit [CHR 0x22]), secret_name_re, opt_re (lit [CHR 0x22]), Star is_space,
                              lit '':'', Star is_space]),
             Group 2 (Or (seq_re [lit [CHR 0x22], Star (\<lambda>c. c \<noteq> CHR 0x22), lit [CHR 0x22]])
                         (plus_re (\<lambda>c. c \<notin> set '',}]'')))]"

definition SENSITIVE_HEADERS_PATTERN :: regex where
  "SENSITIVE_HEADERS_PATTERN =
     seq_re [WordBreak,
             Group 1 (any_re (lit_ci ''authorization'') [lit_ci ''bearer'', lit_ci ''passwd'', lit_ci ''pwd'']),
             WordBreak, Star is_space, One (\<lambda>c. c = CHR '':'' \<or> c = CHR ''=''), Star is_space,
             Group 2 (plus_re (\<lambda>c. c \<notin> set '',;'' \<and> c \<noteq> CHR 0x0A))]"

definition docs_redact_text :: "string \<Rightarrow> string" where
  "docs_redact_text s =
     re_sub SENSITIVE_HEADERS_PATTERN (\<lambda>h. hit_group 1 h @ '': '' @ REDACTED)
       (re_sub SENSITIVE_JSON_KEY_PATTERN (\<lambda>h. hit_group 1 h @ REDACTED)
         (re_sub SENSITIVE_KEY_PATTERN (\<lambda>_. REDACTED) s))"

definition is_sensitive_key :: "string \<Rightarrow> bool" where
  "is_sensitive_key key =
     list_ex (\<lambda>marker. contains (replace_all ''-'' ''_'' (lower key)) marker)
       [''token'', ''password'', ''api_key'', ''secret'', ''passwd'', ''pwd'']"

definition docs_sanitize_value :: "json \<Rightarrow> json" where
  "docs_sanitize_value v = redact_json is_sensitive_key docs_redact_text v"

section \<open>providers.py\<close>

definition SENSITIVE_KEYWORDS :: "string list" where
  "SENSITIVE_KEYWORDS =
     [''api_key'', ''apikey'', ''authorization'', ''token'', ''secret'', ''password'', ''passwd'', ''private_key'',
      ''client_secret'']"

definition SENSITIVE_ASSIGNMENT_RE :: regex where
  "SENSITIVE_ASSIGNMENT_RE =
     seq_re [WordBreak,
             Group 1 (seq_re [Star is_key_char,
                              any_re (lit_ci ''token'') [lit_ci ''secret'', lit_ci ''password'', api_key_re, lit_ci ''authorization''],
                              Star is_key_char]),
             lit ''='', Group 2 (plus_re (\<lambda>c. \<not> is_space c \<and> c \<notin> set '',;''))]"

definition looks_sensitive_key :: "string \<Rightarrow> bool" where
  "looks_sensitive_key key = list_ex (\<lambda>keyword. contains (lower key) keyword) SENSITIVE_KEYWORDS"

definition redact_sensitive_data :: "json \<Rightarrow> json" where
  "redact_sensitive_data v = redact_json looks_sensitive_key (re_sub SENSITIVE_ASSIGNMENT_RE (\<lambda>_. REDACTED)) v"

section \<open>What the walk leaves\<close>

text \<open>Every text of a value is fine, and every sensitive key is blanked.\<close>

primrec clean_json :: "(string \<Rightarrow> bool) \<Rightarrow> (string \<Rightarrow> bool) \<Rightarrow> json \<Rightarrow> bool" where
  "clean_json secret_key fine JNull = True"
| "clean_json secret_key fine (JBool b) = True"
| "clean_json secret_key fine (JInt i) = True"
| "clean_json secret_key fine (JFloat x) = True"
| "clean_json secret_key fine (JStr s) = fine s"
| "clean_json secret_key fine (JList xs) = list_all id (map (clean_json secret_key fine) xs)"
| "clean_json secret_key fine (JObj d) =
     (list_all snd (map (map_prod id (clean_json secret_key fine)) d)
      \<and> list_all (\<lambda>p. if secret_key (fst p) then snd p = JStr REDACTED else True) d)"

lemma clean_redact_json:
  assumes "\<And>s. fine (redact s)" and "fine REDACTED"
  shows "clean_json secret_key fine (redact_json secret_key redact v)"
proof (induction v)
  case (JObj d)
  have "clean_json secret_key fine (redact_json secret_key redact v)" if "(k, v) \<in> set d" for k v
    using JObj.IH [of "(k, v)" v] that by (simp add: snds.simps)
  then show ?case using assms(2) by (auto simp: list_all_iff)
qed (use assms in \<open>auto simp: list_all_iff\<close>)

lemma redact_json_keys: "redact_json secret_key redact (JObj d) = JObj d' \<Longrightarrow> map fst d' = map fst d"
  by (auto simp: comp_def)

text \<open>A value with nothing to hide passes unchanged.\<close>

lemma redact_json_id:
  assumes "clean_json secret_key fine v" and "\<And>s. fine s \<Longrightarrow> redact s = s"
  shows "redact_json secret_key redact v = v"
  using assms(1)
proof (induction v)
  case (JList xs)
  then show ?case by (auto simp: list_all_iff intro: map_idI)
next
  case (JObj d)
  have "redact_json secret_key redact v = v" if "(k, v) \<in> set d" for k v
    using JObj that by (fastforce simp: list_all_iff snds.simps)
  then have "map (map_prod id (redact_json secret_key redact)) d = d" by (auto intro!: map_idI)
  moreover have "map (\<lambda>p. if secret_key (fst p) then (fst p, JStr REDACTED) else p) d = d"
    using JObj.prems by (intro map_idI) (auto simp: list_all_iff prod_eq_iff)
  ultimately show ?case by simp
qed (use assms(2) in auto)

section \<open>Properties\<close>

definition harmless_text :: "(string \<Rightarrow> bool) \<Rightarrow> string \<Rightarrow> bool" where
  "harmless_text netloc_ok s \<longleftrightarrow> \<not> has_secret_marker s \<and> \<not> url_contains_credentials netloc_ok s"

lemma redacted_harmless: "harmless_text netloc_ok REDACTED"
proof -
  have "\<not> has_secret_marker REDACTED" by code_simp
  moreover have "fst (the (urlsplit (\<lambda>_. True) REDACTED)) = []" by code_simp
  then have "\<not> url_contains_credentials netloc_ok REDACTED"
    by (auto simp: url_contains_credentials_def urlsplit_def REDACTED_def Let_def split: option.splits prod.splits if_splits)
  ultimately show ?thesis by (simp add: harmless_text_def)
qed

lemma redact_text_harmless: "harmless_text netloc_ok (redact_text netloc_ok s)"
  using redacted_harmless by (auto simp: redact_text_def harmless_text_def)

text \<open>C15: nothing secret passes \<open>sanitize_value\<close>: at every depth of its result the value of a key that
  names a secret is \<open>[REDACTED]\<close>, no text holds the marker of a secret and none is a URL with
  credentials; a value of which that is already true passes unchanged, so sanitising twice is
  sanitising once.\<close>

theorem sanitized_value_holds_no_secret:
  "clean_json looks_secret_key (harmless_text netloc_ok) (sanitize_value netloc_ok v)
   \<and> sanitize_value netloc_ok (sanitize_value netloc_ok v) = sanitize_value netloc_ok v"
proof -
  have clean: "clean_json looks_secret_key (harmless_text netloc_ok) (sanitize_value netloc_ok v)"
    unfolding sanitize_value_def by (intro clean_redact_json redact_text_harmless redacted_harmless)
  have "redact_text netloc_ok s = s" if "harmless_text netloc_ok s" for s
    using that by (auto simp: redact_text_def harmless_text_def)
  from redact_json_id [OF clean this] clean show ?thesis by (simp add: sanitize_value_def)
qed

text \<open>The sanitiser of the documents knows neither \<open>authorization\<close> nor \<open>bearer\<close> as a key, and its
  pattern for assignments needs a word boundary before the name, which a Chinese character (U+5BC6
  below) before it is not: a bearer token and a token after such a character go into the documents as
  they are, where \<open>sanitize.py\<close> hides both.\<close>

theorem docs_sanitizer_leaks_tokens:
  "docs_sanitize_value (JObj [(''authorization'', JStr ''Bearer a'')]) = JObj [(''authorization'', JStr ''Bearer a'')]
   \<and> sanitize_value (\<lambda>_. True) (JObj [(''authorization'', JStr ''Bearer a'')]) = JObj [(''authorization'', JStr REDACTED)]
   \<and> docs_redact_text ([CHR 0xE5, CHR 0xAF, CHR 0x86] @ ''token=a'') = [CHR 0xE5, CHR 0xAF, CHR 0x86] @ ''token=a''
   \<and> redact_text (\<lambda>_. True) ([CHR 0xE5, CHR 0xAF, CHR 0x86] @ ''token=a'') = REDACTED
   \<and> docs_redact_text ''token=a'' = REDACTED"
proof (intro conjI)
  show "docs_sanitize_value (JObj [(''authorization'', JStr ''Bearer a'')]) = JObj [(''authorization'', JStr ''Bearer a'')]"
    by code_simp
  show "sanitize_value (\<lambda>_. True) (JObj [(''authorization'', JStr ''Bearer a'')]) = JObj [(''authorization'', JStr REDACTED)]"
    by code_simp
  show "docs_redact_text ([CHR 0xE5, CHR 0xAF, CHR 0x86] @ ''token=a'') = [CHR 0xE5, CHR 0xAF, CHR 0x86] @ ''token=a''"
    by code_simp
  show "redact_text (\<lambda>_. True) ([CHR 0xE5, CHR 0xAF, CHR 0x86] @ ''token=a'') = REDACTED" by code_simp
  show "docs_redact_text ''token=a'' = REDACTED" by code_simp
qed

end
