(* ===== verification/Registry.thy ===== *)
theory Registry imports Sanitize Schema PyData begin

text \<open>
  The service registry (\<open>service_registry.py\<close>): records keyed by service id, kept in the order they were
  first added, saved as one JSON file and loaded back; and the view of the stored services as such a
  registry (\<open>service_registry_adapters.py\<close>).  A file is what \<open>json.loads\<close> reads from it, or the
  exception that reading it raises.
\<close>

section \<open>Records\<close>

record svc_record =
  sr_service_id :: string
  sr_name :: string
  sr_node :: string
  sr_kind :: string
  sr_domains :: "string list"
  sr_ports :: "int list"
  sr_runtime :: "string option"
  sr_deploy_path :: string
  sr_config_paths :: "string list"
  sr_env_paths :: "string list"
  sr_data_paths :: "string list"
  sr_health_check_url :: string
  sr_source :: string
  sr_docs_path :: "string option"
  sr_monitor :: dict
  sr_warnings :: "string list"
  sr_metadata :: dict

definition str_list :: "string list \<Rightarrow> json" where
  "str_list xs = JList (map JStr xs)"

definition opt_str :: "string option \<Rightarrow> json" where
  "opt_str x = (case x of None \<Rightarrow> JNull | Some s \<Rightarrow> JStr s)"

definition sr_to_dict :: "svc_record \<Rightarrow> dict" where
  "sr_to_dict r =
     [(''service_id'', JStr (sr_service_id r)), (''name'', JStr (sr_name r)), (''node'', JStr (sr_node r)),
      (''kind'', JStr (sr_kind r)), (''domains'', str_list (sr_domains r)), (''ports'', JList (map JInt (sr_ports r))),
      (''runtime'', opt_str (sr_runtime r)), (''deploy_path'', JStr (sr_deploy_path r)),
      (''config_paths'', str_list (sr_config_paths r)), (''env_paths'', str_list (sr_env_paths r)),
      (''data_paths'', str_list (sr_data_paths r)), (''health_check_url'', JStr (sr_health_check_url r)),
      (''source'', JStr (sr_source r)), (''docs_path'', opt_str (sr_docs_path r)), (''monitor'', JObj (sr_monitor r)),
      (''warnings'', str_list (sr_warnings r)), (''metadata'', JObj (sr_metadata r))]"

definition opt_text :: "json \<Rightarrow> string option" where
  "opt_text v = (if v = JNull then None else Some (py_str v))"

definition sr_from_dict :: "dict \<Rightarrow> svc_record result" where
  "sr_from_dict d =
     (case map_of d ''service_id'' of
        None \<Rightarrow> Inl (KeyError ''service_id'')
      | Some sid \<Rightarrow>
          bind_result (str_items (dget_or d ''domains'' (JList []))) (\<lambda>domains.
          bind_result (int_items (dget_or d ''ports'' (JList []))) (\<lambda>ports.
          bind_result (str_items (dget_or d ''config_paths'' (JList []))) (\<lambda>config_paths.
          bind_result (str_items (dget_or d ''env_paths'' (JList []))) (\<lambda>env_paths.
          bind_result (str_items (dget_or d ''data_paths'' (JList []))) (\<lambda>data_paths.
          bind_result (py_dict (dget d ''monitor'')) (\<lambda>monitor.
          bind_result (str_items (dget_or d ''warnings'' (JList []))) (\<lambda>warnings.
          bind_result (py_dict (dget d ''metadata'')) (\<lambda>metadata.
            Inr \<lparr>sr_service_id = py_str sid,
                 sr_name = py_str (py_or (dget d ''name'') sid),
                 sr_node = py_str (py_or (dget d ''node'') (py_or (dget d ''node_id'') (JStr []))),
                 sr_kind = str_or (dget d ''kind'') ''unknown'',
                 sr_domains = domains, sr_ports = ports,
                 sr_runtime = opt_text (dget d ''runtime''),
                 sr_deploy_path = str_or (dget d ''deploy_path'') [],
                 sr_config_paths = config_paths, sr_env_paths = env_paths, sr_data_paths = data_paths,
                 sr_health_check_url = str_or (dget d ''health_check_url'') [],
                 sr_source = str_or (dget d ''source'') ''manual'',
                 sr_docs_path = opt_text (dget d ''docs_path''),
                 sr_monitor = monitor, sr_warnings = warnings, sr_metadata = metadata\<rparr>)))))))))"

section \<open>The registry\<close>

type_synonym registry = "(string \<times> svc_record) list"

definition registry_upsert :: "registry \<Rightarrow> svc_record \<Rightarrow> registry" where
  "registry_upsert reg r = AList.update (sr_service_id r) r reg"

definition service_registry :: "svc_record list \<Rightarrow> registry" where
  "service_registry rs = foldl registry_upsert [] rs"

definition list_services :: "registry \<Rightarrow> svc_record list" where
  "list_services reg = map snd reg"

definition registry_to_dict :: "registry \<Rightarrow> dict" where
  "registry_to_dict reg = [(''services'', JList (map (\<lambda>r. JObj (sr_to_dict r)) (list_services reg)))]"

type_synonym json_files = "string \<Rightarrow> json result"

definition registry_save ::
  "(string \<Rightarrow> exn option) \<Rightarrow> string \<Rightarrow> registry \<Rightarrow> json_files \<Rightarrow> string result \<times> json_files" where
  "registry_save cannot_write path reg files =
     (case cannot_write path of
        Some e \<Rightarrow> (Inl e, files)
      | None \<Rightarrow> (Inr path, files(path := Inr (json_sort (JObj (registry_to_dict reg))))))"

definition registry_payload :: "json \<Rightarrow> registry result" where
  "registry_payload payload =
     bind_result (py_iter (case payload of JObj d \<Rightarrow> dget_or d ''services'' (JList []) | _ \<Rightarrow> JList [])) (\<lambda>services.
       bind_result (map_result sr_from_dict (concat (map (\<lambda>v. case v of JObj d \<Rightarrow> [d] | _ \<Rightarrow> []) services)))
         (\<lambda>rs. Inr (service_registry rs)))"

definition registry_load :: "string \<Rightarrow> json_files \<Rightarrow> registry result" where
  "registry_load path files = bind_result (files path) registry_payload"

section \<open>The stored services as a registry\<close>

definition provider_specs_from_metadata :: "dict \<Rightarrow> dict" where
  "provider_specs_from_metadata metadata =
     (let sub = (\<lambda>k. case dget metadata k of JObj d \<Rightarrow> dget d ''providers'' | _ \<Rightarrow> JNull)
      in foldl (\<lambda>acc raw. case raw of JObj d \<Rightarrow> dmerge acc d | _ \<Rightarrow> acc) []
           [dget metadata ''providers'', sub ''deploy'', sub ''monitor''])"

definition monitor_payload_from_storage :: "service_record \<Rightarrow> dict \<Rightarrow> dict" where
  "monitor_payload_from_storage r metadata =
     (let monitor0 = (case dget metadata ''monitor'' of JObj d \<Rightarrow> d | _ \<Rightarrow> []);
          providers = provider_specs_from_metadata metadata;
          monitor1 = (if providers = [] then monitor0
                      else dset monitor0 ''providers''
                             (JObj (dmerge (case dget monitor0 ''providers'' of JObj d \<Rightarrow> d | _ \<Rightarrow> []) providers)));
          monitor2 = dset (dsetdefault monitor1 ''enabled'' (JBool (sv_monitor_enabled r)))
                       ''registry_status'' (JStr (sv_status r));
          sanitized = (case docs_sanitize_value (JObj metadata) of JObj d \<Rightarrow> d | _ \<Rightarrow> [])
      in dset monitor2 ''metadata''
           (JObj (if sv_health_check_url r \<noteq> []
                  then dset sanitized ''health_check_url'' (JStr (sv_health_check_url r)) else sanitized)))"

definition service_record_from_storage :: "service_record \<Rightarrow> svc_record" where
  "service_record_from_storage r =
     (let metadata = sv_metadata r
      in \<lparr>sr_service_id = sv_service_id r, sr_name = sv_name r, sr_node = sv_node_id r, sr_kind = sv_kind r,
          sr_domains = sv_domains r, sr_ports = sv_ports r, sr_runtime = Some (sv_runtime r),
          sr_deploy_path = sv_deploy_path r, sr_config_paths = sv_config_paths r, sr_env_paths = sv_env_paths r,
          sr_data_paths = sv_data_paths r, sr_health_check_url = sv_health_check_url r, sr_source = sv_source r,
          sr_docs_path = Some (sv_docs_path r),
          sr_monitor = monitor_payload_from_storage r metadata,
          sr_warnings = (case dget metadata ''warnings'' of JList ws \<Rightarrow> map py_str ws | _ \<Rightarrow> []),
          sr_metadata = (case docs_sanitize_value (JObj metadata) of JObj d \<Rightarrow> d | _ \<Rightarrow> [])\<rparr>)"

definition registry_from_storage_records :: "service_record list \<Rightarrow> registry" where
  "registry_from_storage_records rs = service_registry (map service_record_from_storage rs)"

section \<open>Facts\<close>

lemma json_sort_str_list [simp]: "json_sort (str_list xs) = str_list xs"
  by (simp add: str_list_def)

lemma json_sort_opt_str [simp]: "json_sort (opt_str x) = opt_str x"
  by (cases x) (simp_all add: opt_str_def)

lemma str_items_str_list [simp]: "str_items (str_list xs) = Inr xs"
  by (simp add: str_list_def)

lemma opt_text_opt_str [simp]: "opt_text (opt_str x) = x"
  by (cases x) (simp_all add: opt_str_def opt_text_def)

lemma json_sort_ints [simp]: "json_sort (JList (map JInt xs)) = JList (map JInt xs)"
  by simp

text \<open>A record that a load would not fill in: it has a name (unless its id is empty), a kind and a source.\<close>

definition record_ok :: "svc_record \<Rightarrow> bool" where
  "record_ok r \<longleftrightarrow> (sr_name r = [] \<longrightarrow> sr_service_id r = []) \<and> sr_kind r \<noteq> [] \<and> sr_source r \<noteq> []"

definition sr_reread :: "svc_record \<Rightarrow> svc_record" where
  "sr_reread r = r\<lparr>sr_monitor := dict_sort (sr_monitor r), sr_metadata := dict_sort (sr_metadata r)\<rparr>"

lemma sr_round_trip:
  assumes "record_ok r"
  shows "sr_from_dict (dict_sort (sr_to_dict r)) = Inr (sr_reread r)"
proof -
  define d where "d = dict_sort (sr_to_dict r)"
  have look: "map_of d k = map_option json_sort (map_of (sr_to_dict r) k)" for k
    unfolding d_def by (rule map_of_dict_sort)
  have at: "map_of d ''service_id'' = Some (JStr (sr_service_id r))" "map_of d ''name'' = Some (JStr (sr_name r))"
    "map_of d ''node'' = Some (JStr (sr_node r))" "map_of d ''kind'' = Some (JStr (sr_kind r))"
    "map_of d ''domains'' = Some (str_list (sr_domains r))" "map_of d ''ports'' = Some (JList (map JInt (sr_ports r)))"
    "map_of d ''runtime'' = Some (opt_str (sr_runtime r))" "map_of d ''deploy_path'' = Some (JStr (sr_deploy_path r))"
    "map_of d ''config_paths'' = Some (str_list (sr_config_paths r))"
    "map_of d ''env_paths'' = Some (str_list (sr_env_paths r))" "map_of d ''data_paths'' = Some (str_list (sr_data_paths r))"
    "map_of d ''health_check_url'' = Some (JStr (sr_health_check_url r))" "map_of d ''source'' = Some (JStr (sr_source r))"
    "map_of d ''docs_path'' = Some (opt_str (sr_docs_path r))" "map_of d ''monitor'' = Some (JObj (dict_sort (sr_monitor r)))"
    "map_of d ''warnings'' = Some (str_list (sr_warnings r))" "map_of d ''metadata'' = Some (JObj (dict_sort (sr_metadata r)))"
    "map_of d ''node_id'' = None"
    by (simp_all add: look sr_to_dict_def)
  have "sr_from_dict d = Inr (sr_reread r)" using assms
    by (cases r) (simp add: sr_from_dict_def dget_def dget_or_def at str_or_def py_or_def record_ok_def sr_reread_def)
  then show ?thesis by (simp add: d_def)
qed

lemma update_fresh: "k \<notin> fst ` set xs \<Longrightarrow> AList.update k v xs = xs @ [(k, v)]"
  by (induction xs) auto

definition registry_ok :: "registry \<Rightarrow> bool" where
  "registry_ok reg \<longleftrightarrow> distinct (map fst reg) \<and> list_all (\<lambda>(k, r). k = sr_service_id r) reg"

lemma registry_upsert_ok: "registry_ok reg \<Longrightarrow> registry_ok (registry_upsert reg r)"
proof -
  assume ok: "registry_ok reg"
  have "list_all (\<lambda>(k, r). k = sr_service_id r) (AList.update (sr_service_id r) r reg)"
    using ok by (induction reg) (auto simp: registry_ok_def)
  then show ?thesis using ok by (simp add: registry_ok_def registry_upsert_def distinct_update)
qed

lemma service_registry_ok: "registry_ok (service_registry rs)"
proof -
  have "registry_ok reg \<Longrightarrow> registry_ok (foldl registry_upsert reg rs)" for reg
    by (induction rs arbitrary: reg) (auto intro: registry_upsert_ok)
  then show ?thesis by (simp add: service_registry_def registry_ok_def)
qed

lemma registry_rebuild: "registry_ok reg \<Longrightarrow> service_registry (map snd reg) = reg"
proof -
  have "foldl registry_upsert acc (map snd reg) = acc @ reg" if "registry_ok (acc @ reg)" for acc
    using that
  proof (induction reg arbitrary: acc)
    case (Cons p reg)
    then have "registry_upsert acc (snd p) = acc @ [p]"
      by (cases p) (auto simp: registry_upsert_def registry_ok_def intro: update_fresh)
    with Cons show ?case by simp
  qed simp
  from this [of "[]"] show "registry_ok reg \<Longrightarrow> service_registry (map snd reg) = reg"
    by (simp add: service_registry_def)
qed

lemma set_service_registry: "snd ` set (service_registry rs) \<subseteq> set rs"
proof -
  have "snd ` set (AList.update k r reg) \<subseteq> insert r (snd ` set reg)" for k and r and reg :: registry
    by (induction reg) auto
  then have one: "snd ` set (registry_upsert reg r) \<subseteq> insert r (snd ` set reg)" for reg r
    by (simp add: registry_upsert_def)
  have "snd ` set (foldl registry_upsert reg rs) \<subseteq> snd ` set reg \<union> set rs" for reg
  proof (induction rs arbitrary: reg)
    case (Cons r rs)
    have "snd ` set (foldl registry_upsert (registry_upsert reg r) rs) \<subseteq> snd ` set (registry_upsert reg r) \<union> set rs"
      by (rule Cons.IH)
    also have "\<dots> \<subseteq> snd ` set reg \<union> set (r # rs)" using one [of reg r] by auto
    finally show ?case by simp
  qed simp
  from this [of "[]"] show ?thesis by (simp add: service_registry_def)
qed

lemma load_saved_records:
  assumes "list_all record_ok rs"
  shows "map_result sr_from_dict (map (\<lambda>r. dict_sort (sr_to_dict r)) rs) = Inr (map sr_reread rs)"
  using map_result_map [of rs sr_from_dict "\<lambda>r. dict_sort (sr_to_dict r)" sr_reread] assms
  by (simp add: list_all_iff sr_round_trip)

lemma registry_ok_reread: "registry_ok reg \<Longrightarrow> registry_ok (map (map_prod id sr_reread) reg)"
  by (auto simp: registry_ok_def list_all_iff sr_reread_def)

section \<open>Properties\<close>

text \<open>C14: a saved registry loads back: whatever records are put in, with a name, a kind and a source, the
  file written by \<open>save\<close> loads to the same registry, one record for each id in the same order, up to
  the order of the keys in \<open>monitor\<close> and \<open>metadata\<close>; no other file is touched.\<close>

theorem registry_round_trips:
  assumes "list_all record_ok rs" and "cannot_write path = None"
  shows "case registry_save cannot_write path (service_registry rs) files of (r, files') \<Rightarrow>
    r = Inr path \<and> registry_load path files' = Inr (map (map_prod id sr_reread) (service_registry rs))
    \<and> files' = files(path := files' path)"
proof -
  let ?reg = "service_registry rs"
  have ok: "list_all record_ok (map snd ?reg)"
    using assms(1) set_service_registry [of rs] by (auto simp: list_all_iff)
  have saved: "json_sort (JObj (registry_to_dict ?reg))
      = JObj [(''services'', JList (map (\<lambda>r. JObj (dict_sort (sr_to_dict r))) (map snd ?reg)))]"
    by (simp add: registry_to_dict_def list_services_def dict_sort_def comp_def)
  have dicts: "concat (map (\<lambda>v. case v of JObj d \<Rightarrow> [d] | _ \<Rightarrow> []) (map (\<lambda>r. JObj (dict_sort (sr_to_dict r))) qs))
      = map (\<lambda>r. dict_sort (sr_to_dict r)) qs" for qs
    by (induction qs) auto
  have "map sr_reread (map snd ?reg) = map snd (map (map_prod id sr_reread) ?reg)" by simp
  with registry_rebuild [OF registry_ok_reread [OF service_registry_ok [of rs]]]
  have "registry_payload (json_sort (JObj (registry_to_dict ?reg))) = Inr (map (map_prod id sr_reread) ?reg)"
    unfolding saved registry_payload_def using load_saved_records [OF ok]
    by (simp add: dget_or_def dicts del: map_map)
  then show ?thesis using assms(2) by (simp add: registry_save_def registry_load_def)
qed

definition sample_record :: svc_record where
  "sample_record =
     \<lparr>sr_service_id = ''web'', sr_name = ''Web'', sr_node = ''n1'', sr_kind = ''docker'', sr_domains = [''a.example''],
      sr_ports = [80], sr_runtime = Some ''nginx'', sr_deploy_path = ''/srv/web'', sr_config_paths = [], sr_env_paths = [],
      sr_data_paths = [], sr_health_check_url = [], sr_source = ''manual'', sr_docs_path = None,
      sr_monitor = [(''strategy'', JStr ''ping''), (''enabled'', JBool True)], sr_warnings = [], sr_metadata = []\<rparr>"

theorem registry_round_trips_witness:
  "registry_load ''r.json'' (snd (registry_save (\<lambda>_. None) ''r.json'' (service_registry [sample_record, sample_record])
     (\<lambda>_. Inl (OSError ''missing''))))
   = Inr [(''web'', sample_record\<lparr>sr_monitor := [(''enabled'', JBool True), (''strategy'', JStr ''ping'')]\<rparr>)]"
proof -
  have ok: "list_all record_ok [sample_record, sample_record]" by (simp add: record_ok_def sample_record_def)
  have "map (map_prod id sr_reread) (service_registry [sample_record, sample_record])
      = [(''web'', sample_record\<lparr>sr_monitor := [(''enabled'', JBool True), (''strategy'', JStr ''ping'')]\<rparr>)]"
    by code_simp
  with registry_round_trips [OF ok, of "\<lambda>_. None" "''r.json''" "\<lambda>_. Inl (OSError ''missing'')"]
  show ?thesis by (auto split: prod.splits)
qed

end
