(* ===== verification/WebText.thy ===== *)
theory WebText imports Json PyText begin

text \<open>
  The text functions of the console pages: \<open>html.escape\<close>, \<open>urllib.parse.quote\<close> and \<open>json.dumps\<close> with
  \<open>ensure_ascii=False\<close>.
\<close>

definition escape_char :: "char \<Rightarrow> string" where
  "escape_char c =
     (if c = CHR ''&'' then ''&amp;'' else if c = CHR ''<'' then ''&lt;'' else if c = CHR ''>'' then ''&gt;''
      else if c = CHR 0x22 then ''&quot;'' else if c = CHR 0x27 then ''&#x27;'' else [c])"

definition html_escape :: "string \<Rightarrow> string" where
  "html_escape s = concat (map escape_char s)"

definition upper_hex :: "nat \<Rightarrow> char" where
  "upper_hex n = (if n < 10 then char_of (48 + n) else char_of (55 + n))"

text \<open>\<open>quote(s, safe='')\<close>\<close>

definition is_unreserved :: "char \<Rightarrow> bool" where
  "is_unreserved c =
     (let n = (of_char c :: nat)
      in 48 \<le> n \<and> n \<le> 57 \<or> 65 \<le> n \<and> n \<le> 90 \<or> 97 \<le> n \<and> n \<le> 122 \<or> c \<in> set ''_.-~'')"

definition url_quote :: "string \<Rightarrow> string" where
  "url_quote s = concat (map (\<lambda>c. if is_unreserved c then [c]
      else let n = of_char c in [CHR ''%'', upper_hex (n div 16), upper_hex (n mod 16)]) s)"

definition json_char :: "char \<Rightarrow> string" where
  "json_char c =
     (let n = (of_char c :: nat)
      in if n = 34 \<or> n = 92 then [CHR 0x5C, c]
         else if n = 8 then [CHR 0x5C, CHR ''b''] else if n = 12 then [CHR 0x5C, CHR ''f'']
         else if n = 10 then [CHR 0x5C, CHR ''n''] else if n = 13 then [CHR 0x5C, CHR ''r'']
         else if n = 9 then [CHR 0x5C, CHR ''t'']
         else if n < 32 then [CHR 0x5C] @ ''u00'' @ [hex_digit (n div 16), hex_digit (n mod 16)]
         else [c])"

definition json_text :: "string \<Rightarrow> string" where
  "json_text s = [CHR 0x22] @ concat (map json_char s) @ [CHR 0x22]"

definition float_text :: "string \<Rightarrow> string" where
  "float_text s = (if s = ''nan'' then ''NaN'' else if s = ''inf'' then ''Infinity''
                   else if s = ''-inf'' then ''-Infinity'' else s)"

primrec json_dumps :: "json \<Rightarrow> string" where
  "json_dumps JNull = ''null''"
| "json_dumps (JBool b) = (if b then ''true'' else ''false'')"
| "json_dumps (JInt i) = show_int i"
| "json_dumps (JFloat s) = float_text s"
| "json_dumps (JStr s) = json_text s"
| "json_dumps (JList xs) = ''['' @ join_with '', '' (map json_dumps xs) @ '']''"
| "json_dumps (JObj d) = ''{'' @ join_with '', ''
     (map (\<lambda>(k, v). json_text k @ '': '' @ v) (map (map_prod id json_dumps) d)) @ ''}''"

text \<open>The same with \<open>indent=2\<close>: the argument is the indentation of the enclosing line.\<close>

definition json_block :: "char \<Rightarrow> char \<Rightarrow> nat \<Rightarrow> string list \<Rightarrow> string" where
  "json_block opening closing n lines =
     (if lines = [] then [opening, closing]
      else [opening, CHR 0x0A] @ join_with ('','' @ [CHR 0x0A]) (map ((@) (replicate (n + 2) CHR 0x20)) lines)
        @ [CHR 0x0A] @ replicate n CHR 0x20 @ [closing])"

primrec json_indented :: "json \<Rightarrow> nat \<Rightarrow> string" where
  "json_indented JNull n = ''null''"
| "json_indented (JBool b) n = (if b then ''true'' else ''false'')"
| "json_indented (JInt i) n = show_int i"
| "json_indented (JFloat s) n = float_text s"
| "json_indented (JStr s) n = json_text s"
| "json_indented (JList xs) n = json_block CHR ''['' CHR '']'' n (map (\<lambda>f. f (n + 2)) (map json_indented xs))"
| "json_indented (JObj d) n = json_block CHR ''{'' CHR ''}'' n
     (map (\<lambda>(k, f). json_text k @ '': '' @ f (n + 2)) (map (map_prod id json_indented) d))"

text \<open>\<open>json.dumps(v, ensure_ascii=False, indent=2, sort_keys=True)\<close>\<close>

definition dump_sorted :: "json \<Rightarrow> string" where
  "dump_sorted v = json_indented (json_sort v) 0"

section \<open>Markup\<close>

text \<open>The characters that delimit tags and attribute values.\<close>

definition is_markup :: "char \<Rightarrow> bool" where
  "is_markup c = (c \<in> set [CHR ''<'', CHR ''>'', CHR 0x22, CHR 0x27])"

definition markup :: "string \<Rightarrow> string" where
  "markup s = filter is_markup s"

lemma markup_append [simp]: "markup (a @ b) = markup a @ markup b"
  by (simp add: markup_def)

lemma markup_Cons [simp]: "markup (c # s) = (if is_markup c then [c] else []) @ markup s"
  by (simp add: markup_def)

lemma markup_Nil [simp]: "markup [] = []"
  by (simp add: markup_def)

lemma markup_escape [simp]: "markup (html_escape s) = []"
proof (induction s)
  case Nil
  show ?case by (simp add: html_escape_def)
next
  case (Cons c s)
  have "markup (escape_char c) = []" by (auto simp: escape_char_def is_markup_def)
  with Cons show ?case by (simp add: html_escape_def)
qed

lemma markup_quote [simp]: "markup (url_quote s) = []"
proof (induction s)
  case Nil
  show ?case by (simp add: url_quote_def)
next
  case (Cons c s)
  have u: "\<not> is_markup d" if "(of_char d :: nat) \<notin> {60, 62, 34, 39}" for d
    using that by (auto simp: is_markup_def)
  have "\<not> is_markup (upper_hex n)" if "n < 16" for n
    using that by (intro u) (auto simp: upper_hex_def)
  moreover have "(of_char c :: nat) div 16 < 16" by (rule less_mult_imp_div_less) simp
  moreover have "\<not> is_markup c" if "is_unreserved c" using that by (intro u) (auto simp: is_unreserved_def)
  moreover have "\<not> is_markup CHR ''%''" by (simp add: is_markup_def)
  ultimately have "markup (if is_unreserved c then [c]
      else let n = of_char c in [CHR ''%'', upper_hex (n div 16), upper_hex (n mod 16)]) = []"
    by (simp add: Let_def)
  with Cons show ?case by (simp add: url_quote_def)
qed

end
