(* ===== verification/DocsGenerate.thy ===== *)
theory DocsGenerate imports Registry WebText begin

text \<open>
  The Markdown documents generated from a service registry (\<open>docs_generate.py\<close>): one page per service and three
  indexes, written below an output directory.  The sanitiser they share is in Sanitize.  Creating
  directories and the errors of the file system are not modelled: a write always succeeds.
\<close>

section \<open>Names and paths\<close>

definition is_slug_char :: "char \<Rightarrow> bool" where
  "is_slug_char c \<longleftrightarrow> is_letter c \<or> is_digit c \<or> c \<in> set ''._-''"

definition generate_slug :: "string \<Rightarrow> string" where
  "generate_slug name =
     (let candidates = filter (\<lambda>p. p \<notin> {[], ''.'', ''..''}) (re_split (plus_re (\<lambda>c. c = CHR 0x5C \<or> c = CHR ''/'')) name);
          base = (if candidates = [] then ''service'' else last candidates);
          slug = strip_chars ''-._'' (re_sub (plus_re (\<lambda>c. \<not> is_slug_char c)) (\<lambda>_. ''-'') base)
      in if slug = [] then ''service'' else slug)"

definition relative_doc_path :: "svc_record \<Rightarrow> string" where
  "relative_doc_path r = posix_join ''service'' (generate_slug (sr_name r) @ ''.md'')"

definition posix_name :: "string \<Rightarrow> string" where
  "posix_name p = (case posix_parts p of [] \<Rightarrow> [] | ps \<Rightarrow> last ps)"

section \<open>Pages\<close>

definition unlines :: "string list \<Rightarrow> string" where
  "unlines ls = join_with [CHR 0x0A] ls"

definition ticked :: "string \<Rightarrow> string" where
  "ticked s = ''`'' @ s @ ''`''"

definition ticked_list :: "string list \<Rightarrow> string" where
  "ticked_list xs = (if xs = [] then (utf8_text [0x65E0]) else join_with '', '' (map ticked xs))"

definition text_or :: "string option \<Rightarrow> string \<Rightarrow> string" where
  "text_or v fallback = (case v of Some t \<Rightarrow> if t = [] then fallback else t | None \<Rightarrow> fallback)"

definition render_monitor :: "svc_record \<Rightarrow> string" where
  "render_monitor r =
     (if sr_monitor r = [] then (''- '' @ utf8_text [0x65E0])
      else ''```json'' @ [CHR 0x0A] @ dump_sorted (docs_sanitize_value (JObj (sr_monitor r))) @ [CHR 0x0A] @ ''```'')"

definition render_service_doc :: "svc_record \<Rightarrow> string" where
  "render_service_doc r =
     (let generated_doc_path = relative_doc_path r;
          domains = ticked_list (sr_domains r);
          ports = ticked_list (map show_int (sr_ports r));
          warnings = (if sr_warnings r = [] then (''- '' @ utf8_text [0x65E0]) else unlines (map (\<lambda>w. ''- '' @ w) (sr_warnings r)));
          monitor = render_monitor r
      in unlines
        [''# '' @ sr_name r @ [CHR 0x0A],
         (''## '' @ utf8_text [0x670D, 0x52A1, 0x6982, 0x89C8]),
         (''- '' @ utf8_text [0x670D, 0x52A1, 0x540D, 0xFF1A] @ ''`'' @ sr_name r @ ''`''),
         (''- '' @ utf8_text [0x627F, 0x8F7D, 0x8282, 0x70B9, 0xFF1A] @ ''`'' @ sr_node r @ ''`''),
         (''- '' @ utf8_text [0x7C7B, 0x578B, 0xFF1A] @ ''`'' @ sr_kind r @ ''`''),
         (''- '' @ utf8_text [0x8FD0, 0x884C, 0x65F6, 0xFF1A] @ ''`'' @ text_or (sr_runtime r) ''unknown''
       @ ''`''),
         (''- '' @ utf8_text [0x57DF, 0x540D, 0xFF1A] @ domains),
         (''- '' @ utf8_text [0x7AEF, 0x53E3, 0xFF1A] @ ports),
         (''- '' @ utf8_text [0x6765, 0x6E90, 0xFF1A] @ ''`'' @ docs_redact_text (sr_source r) @ ''`''),
         (''- '' @ utf8_text [0x6587, 0x6863, 0x8DEF, 0x5F84, 0xFF1A] @ ''`''
       @ text_or (sr_docs_path r) generated_doc_path @ ''`''),
         (''- '' @ utf8_text [0x751F, 0x6210, 0x8DEF, 0x5F84, 0xFF1A] @ ''`'' @ generated_doc_path @ ''`''),
         [],
         (''## '' @ utf8_text [0x544A, 0x8B66] @ '' / '' @ utf8_text [0x98CE, 0x9669, 0x63D0, 0x793A]),
         warnings,
         [],
         (''## '' @ utf8_text [0x76D1, 0x63A7, 0x4FE1, 0x606F]),
         monitor,
         [],
         (''## '' @ utf8_text [0x5E38, 0x7528, 0x8FD0, 0x7EF4, 0x547D, 0x4EE4, 0x5360, 0x4F4D]),
         ''```bash'',
         ''systemctl status <service>'',
         ''journalctl -u <service> -n 200 --no-pager'',
         ''docker ps --format '' @ [CHR 0x27] @ ''table {{.Names}}'' @ [CHR 0x09] @ ''{{.Image}}'' @ [CHR 0x09]
           @ ''{{.Status}}'' @ [CHR 0x27],
         ''ss -lntp'',
         ''```'',
         []])"

definition render_service_index :: "(svc_record \<times> string) list \<Rightarrow> string" where
  "render_service_index entries =
     unlines ([''# Service Index'', []]
       @ (if entries = [] then [(utf8_text [0x6682, 0x65E0, 0x670D, 0x52A1])]
          else map (\<lambda>(r, path).
            let domains = (if sr_domains r = [] then ''-'' else join_with '', '' (sr_domains r))
            in (''- ['' @ sr_name r @ '']('' @ posix_name path @ '') '' @ utf8_text [0x00B7] @ '' '' @ sr_node r
       @ '' '' @ utf8_text [0x00B7] @ '' '' @ sr_kind r @ '' '' @ utf8_text [0x00B7] @ '' '' @ domains)) entries)
       @ [[]])"

definition render_domains_index :: "(svc_record \<times> string) list \<Rightarrow> string" where
  "render_domains_index entries =
     (let rows = concat (map (\<lambda>(r, path). map (\<lambda>domain. (''- `'' @ domain @ ''` -> ['' @ sr_name r @ ''](../'' @ path @ '')'')) (sr_domains r)) entries)
      in unlines ([''# Domains Index'', []] @ (if rows \<noteq> [] then sort rows else [(utf8_text [0x6682, 0x65E0, 0x57DF, 0x540D])]) @ [[]]))"

definition render_runbook_index :: "(svc_record \<times> string) list \<Rightarrow> string" where
  "render_runbook_index entries =
     unlines ([''# Runbook Index'', []]
       @ (if entries = [] then [(utf8_text [0x6682, 0x65E0, 0x670D, 0x52A1])]
          else map (\<lambda>(r, path). (''- ['' @ sr_name r @ ''](../'' @ path @ '') '' @ utf8_text [0x00B7] @ '' ''
       @ utf8_text [0x8282, 0x70B9] @ '' `'' @ sr_node r @ ''` '' @ utf8_text [0x00B7] @ '' ''
       @ utf8_text [0x67E5, 0x770B, 0x5E38, 0x7528, 0x8FD0, 0x7EF4, 0x547D, 0x4EE4, 0x5360, 0x4F4D])) entries)
       @ [[]])"

section \<open>Writing\<close>

type_synonym doc_files = "string \<Rightarrow> string option"

definition write_docs :: "(string \<times> string) list \<Rightarrow> doc_files \<Rightarrow> doc_files" where
  "write_docs writes files = foldl (\<lambda>fs (path, content). fs(path \<mapsto> content)) files writes"

definition generated_writes :: "registry \<Rightarrow> string \<Rightarrow> (string \<times> string) list" where
  "generated_writes reg output_dir =
     (let svcs = list_services reg;
          entries = map (\<lambda>r. (r, relative_doc_path r)) svcs
      in map (\<lambda>(r, path). (posix_join output_dir path, render_service_doc r)) entries
         @ [(posix_join output_dir ''service/README.md'', render_service_index entries),
            (posix_join output_dir ''domains/README.md'', render_domains_index entries),
            (posix_join output_dir ''runbooks/README.md'', render_runbook_index entries)])"

definition generate_docs_from_registry :: "registry \<Rightarrow> string \<Rightarrow> doc_files \<Rightarrow> doc_files" where
  "generate_docs_from_registry reg output_dir files = write_docs (generated_writes reg output_dir) files"

definition load_registry_and_generate_docs :: "string \<Rightarrow> json_files \<Rightarrow> string \<Rightarrow> doc_files \<Rightarrow> doc_files result" where
  "load_registry_and_generate_docs registry_path registries output_dir files =
     bind_result (registry_load registry_path registries)
       (\<lambda>reg. Inr (generate_docs_from_registry reg output_dir files))"

end
