(* ===== verification/DocsSync.thy ===== *)
theory DocsSync imports Acl DocsGenerate begin

text \<open>
  The synchronisation of the document center (\<open>docs_sync.py\<close>): a plan of pages, indexes and renamed hosts computed from
  the service registry, the texts of all files, and the run that writes them below the root.  \<open>resolve\<close>
  stands for \<open>Path.resolve(strict=False)\<close>, which follows the links on the disk.  The
  creation of a directory and the write of a file may fail (\<open>write_faults\<close>): with the file as it was, or with part of
  the text in it.
\<close>

section \<open>Names and paths\<close>

definition safe_segment :: "string \<Rightarrow> string \<Rightarrow> string" where
  "safe_segment fallback v =
     (let dashed = re_sub (plus_re (\<lambda>c. \<not> is_slug_char c)) (\<lambda>_. ''-'')
                     (replace_all [CHR 0x5C] ''-'' (replace_all ''/'' ''-'' v));
          cleaned = strip_chars ''-._'' (re_sub (plus_re (\<lambda>c. c = CHR ''-'')) (\<lambda>_. ''-'') (replace_all ''..'' ''-'' dashed))
      in if cleaned = [] then fallback else cleaned)"

definition safe_service_slug :: "string \<Rightarrow> string" where
  "safe_service_slug v = safe_segment ''service'' v"

definition safe_host_segment :: "string \<Rightarrow> string" where
  "safe_host_segment v = safe_segment ''host'' v"

definition server_doc_path :: "string \<Rightarrow> string \<Rightarrow> string" where
  "server_doc_path root host = posix_join (posix_join root host) ''README.md''"

definition service_doc_path :: "string \<Rightarrow> string \<Rightarrow> string" where
  "service_doc_path root slug = posix_join (posix_join root slug) ''README.md''"

text \<open>\<open>Path(p).parents[2]\<close>\<close>

definition third_parent :: "string \<Rightarrow> string result" where
  "third_parent p =
     (if length (posix_parts p) < 3 then Inl (IndexError ''2'')
      else Inr (posix_parent (posix_parent (posix_parent (as_posix p)))))"

section \<open>The plan\<close>

type_synonym renames = "(string \<times> string) list"

definition clean_renames :: "renames \<Rightarrow> renames" where
  "clean_renames rs = filter (\<lambda>(old, new). strip old \<noteq> [] \<and> strip new \<noteq> []) rs"

definition source_host :: "svc_record \<Rightarrow> string" where
  "source_host r = safe_host_segment (sr_node r)"

definition target_host :: "renames \<Rightarrow> svc_record \<Rightarrow> string" where
  "target_host renamed r =
     safe_host_segment (case map_of renamed (sr_node r) of Some new \<Rightarrow> new | None \<Rightarrow> sr_node r)"

definition service_slug :: "svc_record \<Rightarrow> string" where
  "service_slug r = safe_service_slug (if sr_service_id r \<noteq> [] then sr_service_id r else sr_name r)"

definition moved_from :: "renames \<Rightarrow> svc_record \<Rightarrow> json" where
  "moved_from renamed r =
     (if source_host r \<noteq> target_host renamed r then JStr (source_host r) else JNull)"

definition clean_warnings :: "svc_record \<Rightarrow> json" where
  "clean_warnings r = docs_sanitize_value (str_list (sr_warnings r))"

definition service_entry :: "string \<Rightarrow> string \<Rightarrow> renames \<Rightarrow> svc_record \<Rightarrow> dict" where
  "service_entry server_root service_root renamed r =
     [(''service_id'', JStr (sr_service_id r)), (''service_name'', JStr (sr_name r)),
      (''service_slug'', JStr (service_slug r)), (''host'', JStr (target_host renamed r)),
      (''source_host'', moved_from renamed r), (''kind'', JStr (sr_kind r)), (''runtime'', opt_str (sr_runtime r)),
      (''domains'', str_list (sr_domains r)), (''ports'', JList (map JInt (sr_ports r))),
      (''source'', docs_sanitize_value (JStr (sr_source r))),
      (''docs_path'', docs_sanitize_value (opt_str (sr_docs_path r))),
      (''monitor'', docs_sanitize_value (JObj (sr_monitor r))), (''warnings'', clean_warnings r),
      (''target_path'', JStr (service_doc_path service_root (service_slug r))),
      (''server_doc_path'', JStr (server_doc_path server_root (target_host renamed r))), (''dry_run'', JBool True)]"

definition domain_entry :: "string \<Rightarrow> renames \<Rightarrow> svc_record \<Rightarrow> json" where
  "domain_entry service_root renamed r =
     JObj [(''service_id'', JStr (sr_service_id r)), (''service_slug'', JStr (service_slug r)),
           (''host'', JStr (target_host renamed r)),
           (''doc_path'', JStr (service_doc_path service_root (service_slug r)))]"

definition domain_mapping :: "string \<Rightarrow> renames \<Rightarrow> svc_record list \<Rightarrow> dict" where
  "domain_mapping service_root renamed svcs =
     (let uses = concat (map (\<lambda>r. map (\<lambda>d. (d, domain_entry service_root renamed r)) (sr_domains r)) svcs)
      in map (\<lambda>d. (d, JList (map snd (filter (\<lambda>(d', _). d' = d) uses)))) (sort (remdups (map fst uses))))"

definition runbook_entry :: "string \<Rightarrow> string \<Rightarrow> renames \<Rightarrow> svc_record \<Rightarrow> dict" where
  "runbook_entry server_root service_root renamed r =
     [(''service_id'', JStr (sr_service_id r)), (''service_slug'', JStr (service_slug r)),
      (''host'', JStr (target_host renamed r)), (''source_host'', moved_from renamed r),
      (''service_doc_path'', JStr (service_doc_path service_root (service_slug r))),
      (''server_doc_path'', JStr (server_doc_path server_root (target_host renamed r))),
      (''domains'', str_list (sr_domains r)), (''warnings'', clean_warnings r)]"

text \<open>One entry per target host, with what the first of its services says of it.\<close>

definition host_entry :: "string \<Rightarrow> renames \<Rightarrow> svc_record list \<Rightarrow> string \<Rightarrow> dict" where
  "host_entry server_root renamed svcs host =
     (let own = filter (\<lambda>r. target_host renamed r = host) svcs
      in [(''host'', JStr host),
          (''source_host'', case own of r # _ \<Rightarrow> moved_from renamed r | [] \<Rightarrow> JNull),
          (''target_path'', JStr (server_doc_path server_root host)),
          (''services'', str_list (map sr_service_id own))])"

definition server_entries :: "string \<Rightarrow> renames \<Rightarrow> svc_record list \<Rightarrow> dict list" where
  "server_entries server_root renamed svcs =
     map (host_entry server_root renamed svcs) (sort (remdups (map (target_host renamed) svcs)))"

definition by_service_id :: "dict list \<Rightarrow> dict list" where
  "by_service_id entries = sort_key (\<lambda>e. py_str (dget e ''service_id'')) entries"

definition server_index_entry :: "dict \<Rightarrow> dict" where
  "server_index_entry e =
     [(''host'', dget e ''host''), (''source_host'', dget e ''source_host''), (''doc_path'', dget e ''target_path''),
      (''service_ids'', case dget e ''services'' of JList ids \<Rightarrow> str_list (sort (map py_str ids)) | _ \<Rightarrow> JList [])]"

definition service_index_entry :: "dict \<Rightarrow> dict" where
  "service_index_entry e =
     [(''service_id'', dget e ''service_id''), (''service_slug'', dget e ''service_slug''), (''host'', dget e ''host''),
      (''doc_path'', dget e ''target_path''), (''server_doc_path'', dget e ''server_doc_path'')]"

definition rename_actions :: "string \<Rightarrow> string \<Rightarrow> string \<Rightarrow> string \<Rightarrow> dict list \<Rightarrow> dict list" where
  "rename_actions old_host new_host server_root service_root affected =
     (let fixed = [posix_join server_root ''README.md'', posix_join service_root ''README.md'',
                   posix_join service_root ''domain-mapping.json'', posix_join service_root ''runbook-mapping.json''];
          paths = foldl (\<lambda>ps e. let p = py_str (dget e ''target_path'') in if p \<in> set ps then ps else ps @ [p])
                    fixed (by_service_id affected)
      in [[(''action'', JStr ''move''), (''from'', JStr (posix_join server_root old_host)),
           (''to'', JStr (posix_join server_root new_host)), (''host'', JStr old_host), (''new_host'', JStr new_host)],
          [(''action'', JStr ''update_references''), (''paths'', str_list paths), (''host'', JStr old_host),
           (''new_host'', JStr new_host)]])"

text \<open>
  The actions of a renamed host are written down when its first service comes up, from the entries made so far.
\<close>

fun rename_walk :: "string \<Rightarrow> string \<Rightarrow> renames \<Rightarrow> dict list \<Rightarrow> string list \<Rightarrow> svc_record list \<Rightarrow> dict list" where
  "rename_walk server_root service_root renamed seen touched [] = []"
| "rename_walk server_root service_root renamed seen touched (r # rs) =
     (let seen' = seen @ [service_entry server_root service_root renamed r]
      in if sr_node r \<in> set (map fst renamed) \<and> sr_node r \<notin> set touched
         then rename_actions (source_host r) (target_host renamed r) server_root service_root
                (filter (\<lambda>e. dget e ''source_host'' = JStr (source_host r)) seen')
              @ rename_walk server_root service_root renamed seen' (sr_node r # touched) rs
         else rename_walk server_root service_root renamed seen' touched rs)"

definition index_entry :: "string \<Rightarrow> json \<Rightarrow> json" where
  "index_entry path entries = JObj [(''target_path'', JStr path), (''entries'', entries)]"

definition docs_sync_payload :: "svc_record list \<Rightarrow> string \<Rightarrow> string \<Rightarrow> renames \<Rightarrow> dict" where
  "docs_sync_payload svcs server_root service_root renames0 =
     (let renamed = clean_renames renames0;
          entries = map (service_entry server_root service_root renamed) svcs;
          server = server_entries server_root renamed svcs
      in [(''mode'', JStr ''docs-sync-plan''), (''dry_run'', JBool True),
          (''service_count'', JInt (int (length entries))), (''server_count'', JInt (int (length server))),
          (''server_doc_root'', JStr (as_posix server_root)),
          (''service_doc_root'', JStr (as_posix service_root)),
          (''server_docs'', JList (map JObj server)), (''service_docs'', JList (map JObj (by_service_id entries))),
          (''indexes'', JObj
            [(''server'', index_entry (posix_join server_root ''README.md'')
                (JList (map (\<lambda>e. JObj (server_index_entry e)) server))),
             (''service'', index_entry (posix_join service_root ''README.md'')
                (JList (map JObj (by_service_id (map service_index_entry entries))))),
             (''domain_mapping'', index_entry (posix_join service_root ''domain-mapping.json'')
                (JObj (domain_mapping service_root renamed svcs))),
             (''runbook_mapping'', index_entry (posix_join service_root ''runbook-mapping.json'')
                (JList (map JObj (by_service_id (map (runbook_entry server_root service_root renamed) svcs)))))]),
          (''rename_actions'', JList (map JObj (rename_walk server_root service_root renamed [] [] svcs)))])"

definition sanitized :: "dict \<Rightarrow> dict" where
  "sanitized d = (case docs_sanitize_value (JObj d) of JObj d' \<Rightarrow> d' | _ \<Rightarrow> [])"

definition build_docs_sync_plan :: "registry \<Rightarrow> string \<Rightarrow> string \<Rightarrow> renames \<Rightarrow> dict" where
  "build_docs_sync_plan reg server_root service_root renames0 =
     sanitized (docs_sync_payload (list_services reg) server_root service_root renames0)"

definition build_docs_sync_plan_from_path ::
  "string \<Rightarrow> json_files \<Rightarrow> string \<Rightarrow> string \<Rightarrow> renames \<Rightarrow> dict result" where
  "build_docs_sync_plan_from_path path registries server_root service_root renames0 =
     bind_result (registry_load path registries)
       (\<lambda>reg. Inr (build_docs_sync_plan reg server_root service_root renames0))"

definition render_docs_sync_plan_json ::
  "string \<Rightarrow> json_files \<Rightarrow> string \<Rightarrow> string \<Rightarrow> renames \<Rightarrow> string result" where
  "render_docs_sync_plan_json path registries server_root service_root renames0 =
     bind_result (build_docs_sync_plan_from_path path registries server_root service_root renames0)
       (\<lambda>d. Inr (dump_sorted (JObj d)))"

text \<open>The \<open>old=new\<close> arguments of the command.\<close>

fun parse_rename_host_args :: "string list \<Rightarrow> renames \<Rightarrow> renames result" where
  "parse_rename_host_args [] acc = Inr acc"
| "parse_rename_host_args (raw # rest) acc =
     (let item = strip raw; bad = Inl (ValueError (''invalid rename host mapping: '' @ raw))
      in if item = [] then parse_rename_host_args rest acc
         else case split_once CHR ''='' item of
           None \<Rightarrow> bad
         | Some (old, new) \<Rightarrow>
             if strip old = [] \<or> strip new = [] then bad
             else parse_rename_host_args rest (AList.update (strip old) (strip new) acc))"

section \<open>The texts\<close>

definition NOT_RECORDED :: string where
  "NOT_RECORDED = (utf8_text [0x672A, 0x767B, 0x8BB0])"

definition entry_dicts :: "json \<Rightarrow> dict list" where
  "entry_dicts v = (case v of JList xs \<Rightarrow> map (\<lambda>x. case x of JObj d \<Rightarrow> d | _ \<Rightarrow> []) xs | _ \<Rightarrow> [])"

definition entry_texts :: "json \<Rightarrow> string list" where
  "entry_texts v = (case v of JList xs \<Rightarrow> map py_str xs | _ \<Rightarrow> [])"

definition obj_of :: "json \<Rightarrow> dict" where
  "obj_of v = (case v of JObj d \<Rightarrow> d | _ \<Rightarrow> [])"

definition etext :: "dict \<Rightarrow> string \<Rightarrow> string" where
  "etext e key = py_str (dget e key)"

definition docs_json_dumps :: "json \<Rightarrow> string" where
  "docs_json_dumps v = dump_sorted (docs_sanitize_value v) @ [CHR 0x0A]"

definition looks_like_command :: "string \<Rightarrow> bool" where
  "looks_like_command v =
     list_ex (startswith (strip v))
       [''curl '', ''docker '', ''systemctl '', ''git '', ''restic '', ''journalctl '', ''ss '', ''cat '', ''python '',
        ''bash '', ''sh '']"

definition present :: "string list \<Rightarrow> string list" where
  "present vs = filter (\<lambda>v. strip v \<noteq> []) vs"

definition render_inline_strings :: "string list \<Rightarrow> string" where
  "render_inline_strings vs =
     (let cleaned = map docs_redact_text (present vs)
      in if cleaned = [] then NOT_RECORDED else join_with '', '' (map ticked cleaned))"

definition render_bullets :: "string list \<Rightarrow> string list" where
  "render_bullets vs =
     (let items = map strip (present vs)
      in if items = [] then [''- '' @ NOT_RECORDED]
         else map (\<lambda>item. ''- '' @ (if looks_like_command item then ticked (docs_redact_text item)
                                     else docs_redact_text item)) items)"

definition metadata_string_list :: "dict \<Rightarrow> string \<Rightarrow> string list" where
  "metadata_string_list metadata key = present (entry_texts (dget metadata key))"

definition operation_sections :: "svc_record \<Rightarrow> (string \<times> string list) list" where
  "operation_sections r =
     concat (map (\<lambda>(k, v). case v of JList xs \<Rightarrow> [(k, present (map py_str xs))] | _ \<Rightarrow> [])
       (obj_of (dget (sr_metadata r) ''operations'')))"

definition or_else :: "string \<Rightarrow> string \<Rightarrow> string" where
  "or_else v fallback = (if v = [] then fallback else v)"

definition section_bullets :: "svc_record \<Rightarrow> string \<Rightarrow> string \<Rightarrow> string list" where
  "section_bullets r key fallback =
     render_bullets (case map_of (operation_sections r) key of
         Some (v # vs) \<Rightarrow> v # vs
       | _ \<Rightarrow> [fallback])"

definition render_docs_root_readme :: "string \<Rightarrow> dict \<Rightarrow> string" where
  "render_docs_root_readme root plan =
     unlines
       [(''# HMN '' @ utf8_text [0x6587, 0x6863, 0x4E2D, 0x5FC3] @ '' / '' @ utf8_text [0x6570, 0x636E, 0x4E2D, 0x5FC3]),
        [],
        (''- '' @ utf8_text [0x6839, 0x76EE, 0x5F55, 0xFF1A] @ ''`'' @ as_posix root @ ''`''),
        (''- '' @ utf8_text [0x673A, 0x5668, 0x6570, 0xFF1A] @ ''`'' @ etext plan ''server_count'' @ ''`''),
        (''- '' @ utf8_text [0x670D, 0x52A1, 0x6570, 0xFF1A] @ ''`'' @ etext plan ''service_count'' @ ''`''),
        (''- '' @ utf8_text [0x9762, 0x5411, 0x4EBA, 0x7C7B, 0xFF1A] @ ''Markdown README''),
        (''- '' @ utf8_text [0x9762, 0x5411, 0x673A, 0x5668, 0xFF1A] @ ''JSON index''),
        [],
        (''## '' @ utf8_text [0x7B2C, 0x4E00, 0x7248, 0x5199, 0x5165, 0x8FB9, 0x754C]),
        (''- '' @ utf8_text [0x7EDF, 0x4E00, 0x7531] @ '' master '' @ utf8_text [0x5199, 0x5165, 0x6587, 0x6863, 0x4E2D, 0x5FC3]),
        (''- '' @ utf8_text [0x8282, 0x70B9, 0x4E0D, 0x76F4, 0x63A5, 0x4EFB, 0x610F, 0x5199] @ '' /srv/files''),
        (''- '' @ utf8_text [0x843D, 0x76D8, 0x524D, 0x5148, 0x8131, 0x654F, 0x3001, 0x89C4, 0x8303, 0x5316, 0x3001, 0x5EFA, 0x7D22, 0x5F15, 0x3001, 0x4EA7, 0x51FA, 0x5BA1, 0x8BA1, 0x4E8B, 0x4EF6]),
        [],
        (''## '' @ utf8_text [0x540E, 0x7EED, 0x8282, 0x70B9, 0x63D0, 0x4EA4, 0x6D41, 0x7A0B, 0xFF08, 0x9884, 0x7559, 0xFF09]),
        (''1. '' @ utf8_text [0x8282, 0x70B9, 0x901A, 0x8FC7] @ '' master API / worker '' @ utf8_text [0x4E0A, 0x62A5] @ '' facts '' @ utf8_text [0x6216] @ '' service registry''),
        (''2. master '' @ utf8_text [0x8D1F, 0x8D23] @ '' redaction / normalization / storage / indexing / audit''),
        (''3. '' @ utf8_text [0x5F53, 0x524D, 0x7248, 0x672C, 0x53EA, 0x843D, 0x76D8] @ '' apply'' @ utf8_text [0xFF0C, 0x4E0D, 0x5B9E, 0x73B0, 0x516C, 0x7F51] @ '' submit API''),
        [],
        (''- '' @ utf8_text [0x673A, 0x5668, 0x7D22, 0x5F15, 0xFF1A] @ ''`docs/server/README.md`''),
        (''- '' @ utf8_text [0x670D, 0x52A1, 0x7D22, 0x5F15, 0xFF1A] @ ''`../service/README.md`''),
        []]"

definition render_server_index_readme :: "dict list \<Rightarrow> string" where
  "render_server_index_readme entries =
     unlines ([''# Server Docs Index'', []]
       @ (if entries = [] then [(utf8_text [0x6682, 0x65E0, 0x673A, 0x5668, 0x6587, 0x6863])]
          else map (\<lambda>e.
            let host = etext e ''host'';
                service_ids = join_with '', '' (map ticked (entry_texts (dget e ''services'')))
            in (''- ['' @ host @ '']('' @ host @ ''/README.md) '' @ utf8_text [0x00B7] @ '' '' @ service_ids)) entries)
       @ [[]])"

definition render_service_index_readme :: "dict list \<Rightarrow> string" where
  "render_service_index_readme entries =
     unlines ([''# Service Docs Index'', []]
       @ (if entries = [] then [(utf8_text [0x6682, 0x65E0, 0x670D, 0x52A1, 0x6587, 0x6863])]
          else map (\<lambda>e.
            let slug = etext e ''service_slug'';
                domains = or_else (join_with '', '' (entry_texts (dget e ''domains''))) ''-''
            in (''- ['' @ etext e ''service_id'' @ '']('' @ slug @ ''/README.md) '' @ utf8_text [0x00B7] @ '' host `''
       @ etext e ''host'' @ ''` '' @ utf8_text [0x00B7] @ '' '' @ domains)) entries)
       @ [[]])"

definition render_server_readme :: "dict \<Rightarrow> dict list \<Rightarrow> string result" where
  "render_server_readme entry service_entries =
     (let host = etext entry ''host''
      in bind_result (third_parent (etext entry ''target_path'')) (\<lambda>docs_root.
        Inr (unlines
          ([(''# '' @ host), [], (''## '' @ utf8_text [0x673A, 0x5668, 0x6982, 0x89C8]), (''- hostname'' @ utf8_text [0xFF1A] @ ''`'' @ host @ ''`''), (''- '' @ utf8_text [0x6587, 0x6863, 0x4E2D, 0x5FC3, 0x6839, 0x76EE, 0x5F55, 0xFF1A] @ ''`''
       @ posix_parent docs_root @ ''`'')]
           @ (if truthy (dget entry ''source_host'') then [(''- '' @ utf8_text [0x539F] @ '' hostname'' @ utf8_text [0xFF1A] @ ''`'' @ etext entry ''source_host''
       @ ''`'')] else [])
           @ [[], (''## '' @ utf8_text [0x627F, 0x8F7D, 0x670D, 0x52A1]), []]
           @ map (\<lambda>e. (''- [`'' @ etext e ''service_id'' @ ''`](../../../service/'' @ etext e ''service_slug''
       @ ''/README.md)''))
               (filter (\<lambda>e. dget e ''host'' = JStr host) service_entries)
           @ [[], (''## '' @ utf8_text [0x8BF4, 0x660E]), (''- '' @ utf8_text [0x6587, 0x6863, 0x4E2D, 0x5FC3, 0x7531] @ '' master '' @ utf8_text [0x7EDF, 0x4E00, 0x7EF4, 0x62A4]), []]))))"

definition render_service_readme :: "dict \<Rightarrow> svc_record \<Rightarrow> string result" where
  "render_service_readme entry r =
     (let monitor = docs_sanitize_value (JObj (sr_monitor r));
          monitor_text = (if truthy monitor then dump_sorted monitor else ''{}'');
          warnings = (if sr_warnings r = [] then [(utf8_text [0x65E0])] else sr_warnings r);
          warnings_text = unlines (map (\<lambda>w. ''- '' @ docs_redact_text w) warnings);
          domains = ticked_list (sr_domains r);
          ports = ticked_list (map show_int (sr_ports r));
          target_path = etext entry ''target_path'';
          docs_path = (case sr_docs_path r of Some p \<Rightarrow> if p = [] then target_path else docs_redact_text p
                                             | None \<Rightarrow> target_path);
          troubleshooting = metadata_string_list (sr_metadata r) ''troubleshooting'';
          deploy_path = or_else (docs_redact_text (sr_deploy_path r)) NOT_RECORDED;
          health = or_else (docs_redact_text (sr_health_check_url r)) NOT_RECORDED;
          dependencies = render_inline_strings (metadata_string_list (sr_metadata r) ''dependencies'')
      in bind_result (third_parent target_path) (\<lambda>docs_root.
        Inr (unlines
          ([(''# '' @ sr_name r),
            [],
            (''## '' @ utf8_text [0x670D, 0x52A1, 0x6982, 0x89C8]),
            (''- service_id'' @ utf8_text [0xFF1A] @ ''`'' @ sr_service_id r @ ''`''),
            (''- slug'' @ utf8_text [0xFF1A] @ ''`'' @ etext entry ''service_slug'' @ ''`''),
            (''- host'' @ utf8_text [0xFF1A] @ ''`'' @ etext entry ''host'' @ ''`''),
            (''- '' @ utf8_text [0x6587, 0x6863, 0x4E2D, 0x5FC3, 0x6839, 0x76EE, 0x5F55, 0xFF1A] @ ''`'' @ docs_root
       @ ''`''),
            (''- kind'' @ utf8_text [0xFF1A] @ ''`'' @ sr_kind r @ ''`''),
            (''- runtime'' @ utf8_text [0xFF1A] @ ''`'' @ text_or (sr_runtime r) ''unknown'' @ ''`''),
            (''- domains'' @ utf8_text [0xFF1A] @ domains),
            (''- ports'' @ utf8_text [0xFF1A] @ ports),
            (''- source'' @ utf8_text [0xFF1A] @ ''`'' @ docs_redact_text (sr_source r) @ ''`''),
            (''- docs_path'' @ utf8_text [0xFF1A] @ ''`'' @ docs_path @ ''`''),
            [],
            (''## '' @ utf8_text [0x90E8, 0x7F72, 0x4FE1, 0x606F]),
            (''- '' @ utf8_text [0x6587, 0x6863, 0x4E2D, 0x5FC3, 0x6839, 0x76EE, 0x5F55, 0xFF1A] @ ''`'' @ docs_root
       @ ''`''),
            (''- '' @ utf8_text [0x90E8, 0x7F72, 0x8DEF, 0x5F84, 0xFF1A] @ ''`'' @ deploy_path @ ''`''),
            (''- '' @ utf8_text [0x914D, 0x7F6E, 0x6587, 0x4EF6, 0xFF1A] @ render_inline_strings (sr_config_paths r)),
            (''- '' @ utf8_text [0x73AF, 0x5883, 0x6587, 0x4EF6, 0xFF1A] @ render_inline_strings (sr_env_paths r)),
            (''- '' @ utf8_text [0x6570, 0x636E, 0x76EE, 0x5F55, 0xFF1A] @ render_inline_strings (sr_data_paths r)),
            (''- '' @ utf8_text [0x4F9D, 0x8D56, 0xFF1A] @ dependencies),
            (''- '' @ utf8_text [0x5065, 0x5EB7, 0x68C0, 0x67E5, 0xFF1A] @ ''`'' @ health @ ''`''),
            [],
            (''## '' @ utf8_text [0x542F, 0x505C, 0x547D, 0x4EE4]),
            (''### '' @ utf8_text [0x542F, 0x52A8])]
           @ section_bullets r ''start'' NOT_RECORDED
           @ [[], (''### '' @ utf8_text [0x505C, 0x6B62])]
           @ section_bullets r ''stop'' NOT_RECORDED
           @ [[], (''## '' @ utf8_text [0x98CE, 0x9669] @ '' / '' @ utf8_text [0x63D0, 0x793A]), warnings_text, [], (''## '' @ utf8_text [0x76D1, 0x63A7, 0x6458, 0x8981]), ''```json'', monitor_text, ''```'', [],
              (''## '' @ utf8_text [0x7EF4, 0x62A4] @ '' Runbook''), (''### '' @ utf8_text [0x5DE1, 0x68C0])]
           @ section_bullets r ''inspect'' (or_else (sr_health_check_url r) NOT_RECORDED)
           @ [[], (''### '' @ utf8_text [0x65E5, 0x5FD7])]
           @ section_bullets r ''logs'' ''journalctl -u <service> -n 200 --no-pager''
           @ [[], (''### '' @ utf8_text [0x91CD, 0x542F])]
           @ section_bullets r ''restart'' NOT_RECORDED
           @ [[], (''### '' @ utf8_text [0x5347, 0x7EA7])]
           @ section_bullets r ''upgrade'' NOT_RECORDED
           @ [[], (''### '' @ utf8_text [0x5907, 0x4EFD])]
           @ section_bullets r ''backup'' NOT_RECORDED
           @ [[], (''### '' @ utf8_text [0x6062, 0x590D])]
           @ section_bullets r ''restore'' NOT_RECORDED
           @ [[], (''### '' @ utf8_text [0x56DE, 0x6EDA])]
           @ section_bullets r ''rollback'' NOT_RECORDED
           @ [[], (''### '' @ utf8_text [0x5E38, 0x89C1, 0x6545, 0x969C, 0x5904, 0x7406])]
           @ render_bullets (if troubleshooting = [] then [NOT_RECORDED] else troubleshooting)
           @ [[], (''## '' @ utf8_text [0x540E, 0x7EED, 0x63A5, 0x5165, 0x67B6, 0x6784]),
              (''- '' @ utf8_text [0x8282, 0x70B9, 0x540E, 0x7EED, 0x901A, 0x8FC7] @ '' master API / worker '' @ utf8_text [0x4E0A, 0x62A5] @ '' facts/service registry''),
              (''- master '' @ utf8_text [0x8D1F, 0x8D23, 0x8131, 0x654F, 0x3001, 0x89C4, 0x8303, 0x5316, 0x3001, 0x843D, 0x76D8, 0x3001, 0x7D22, 0x5F15, 0x3001] @ ''audit''),
              (''- '' @ utf8_text [0x5F53, 0x524D, 0x7248, 0x672C, 0x672A, 0x5F00, 0x653E, 0x516C, 0x7F51] @ '' submit API''),
              []]))))"

section \<open>Writing below the root\<close>

definition path_parts_below :: "string \<Rightarrow> string \<Rightarrow> string" where
  "path_parts_below root p = posix_str [] (drop (length (posix_parts root)) (posix_parts p))"

definition relative_from_root :: "(string \<Rightarrow> string) \<Rightarrow> string \<Rightarrow> string \<Rightarrow> string result" where
  "relative_from_root resolve root target_path =
     (let target = resolve target_path
      in if is_relative_to target root then Inr (path_parts_below root target)
         else Inl (ValueError (''target escapes root: '' @ as_posix target_path)))"

definition resolve_target :: "(string \<Rightarrow> string) \<Rightarrow> string \<Rightarrow> string \<Rightarrow> string result" where
  "resolve_target resolve root relative =
     (let target = resolve (posix_join root relative)
      in if is_relative_to target root then Inr target
         else Inl (ValueError (''target escapes root: '' @ target)))"

definition build_docs_index_json :: "string \<Rightarrow> dict \<Rightarrow> json" where
  "build_docs_index_json root plan =
     JObj [(''mode'', JStr ''docs-center-index''), (''root'', JStr (as_posix root)),
           (''docs_root'', JStr (posix_join root ''docs'')), (''service_root'', JStr (posix_join root ''service'')),
           (''server_count'', dget plan ''server_count''), (''service_count'', dget plan ''service_count''),
           (''server_index'', JStr (posix_join root ''docs/server/README.md'')),
           (''service_index'', JStr (posix_join root ''service/README.md'')),
           (''future_submit_flow'', JObj
             [(''ingest'', JStr ''nodes submit facts/service registry to master API or worker bridge''),
              (''master_responsibility'', str_list [''redaction'', ''normalization'', ''write_files'', ''indexing'', ''audit'']),
              (''public_submit_api'', JStr ''reserved-not-implemented'')])]"

definition index_entries :: "dict \<Rightarrow> string \<Rightarrow> json" where
  "index_entries indexes key = dget (obj_of (dget indexes key)) ''entries''"

definition build_service_index_json :: "string \<Rightarrow> dict list \<Rightarrow> dict \<Rightarrow> json" where
  "build_service_index_json root entries indexes =
     JObj [(''mode'', JStr ''service-index''), (''root'', JStr (as_posix root)),
           (''services'', JList (map (\<lambda>e. JObj
              [(''service_id'', dget e ''service_id''), (''service_slug'', dget e ''service_slug''),
               (''host'', dget e ''host''), (''doc_path'', dget e ''target_path''),
               (''server_doc_path'', dget e ''server_doc_path''), (''domains'', dget e ''domains''),
               (''ports'', dget e ''ports''), (''warnings'', dget e ''warnings'')]) entries)),
           (''domain_mapping'', index_entries indexes ''domain_mapping''),
           (''runbook_mapping'', index_entries indexes ''runbook_mapping'')]"

definition fixed_writes :: "string \<Rightarrow> dict \<Rightarrow> (string \<times> string) list" where
  "fixed_writes root plan =
     (let server = entry_dicts (dget plan ''server_docs'');
          service = entry_dicts (dget plan ''service_docs'');
          indexes = obj_of (dget plan ''indexes'')
      in [(''docs/README.md'', render_docs_root_readme root plan),
          (''docs/index.json'', docs_json_dumps (build_docs_index_json root plan)),
          (''docs/server/README.md'', render_server_index_readme server),
          (''service/README.md'', render_service_index_readme service),
          (''service/index.json'', docs_json_dumps (build_service_index_json root service indexes)),
          (''service/domain-mapping.json'', docs_json_dumps (index_entries indexes ''domain_mapping'')),
          (''service/runbook-mapping.json'', docs_json_dumps (index_entries indexes ''runbook_mapping''))])"

definition server_write :: "(string \<Rightarrow> string) \<Rightarrow> string \<Rightarrow> dict list \<Rightarrow> dict \<Rightarrow> (string \<times> string) result" where
  "server_write resolve root entries e =
     bind_result (relative_from_root resolve root (etext e ''target_path'')) (\<lambda>rel.
       bind_result (render_server_readme e entries) (\<lambda>content. Inr (rel, content)))"

definition service_write :: "(string \<Rightarrow> string) \<Rightarrow> string \<Rightarrow> svc_record list \<Rightarrow> dict \<Rightarrow> (string \<times> string) result" where
  "service_write resolve root svcs e =
     bind_result (relative_from_root resolve root (etext e ''target_path'')) (\<lambda>rel.
       case map_of (rev (map (\<lambda>r. (sr_service_id r, r)) svcs)) (etext e ''service_id'') of
         None \<Rightarrow> Inl (KeyError (etext e ''service_id''))
       | Some r \<Rightarrow> bind_result (render_service_readme e r) (\<lambda>content. Inr (rel, content)))"

definition build_apply_writes ::
  "(string \<Rightarrow> string) \<Rightarrow> dict \<Rightarrow> svc_record list \<Rightarrow> string \<Rightarrow> string \<Rightarrow> (string \<times> string) list result" where
  "build_apply_writes resolve plan svcs root root_resolved =
     (let server = entry_dicts (dget plan ''server_docs'');
          service = entry_dicts (dget plan ''service_docs'')
      in bind_result (map_result (server_write resolve root_resolved service) server) (\<lambda>server_writes.
         bind_result (map_result (service_write resolve root_resolved svcs) service) (\<lambda>service_writes.
         let writes = fixed_writes root plan @ server_writes @ service_writes
         in bind_result (map_result (\<lambda>(rel, _). resolve_target resolve root_resolved rel) writes)
              (\<lambda>_. Inr writes))))"

definition audit_event_skeleton :: "string \<Rightarrow> bool \<Rightarrow> (string \<times> string) list \<Rightarrow> string list \<Rightarrow> json" where
  "audit_event_skeleton root execute writes written =
     JObj [(''event_type'', JStr ''docs_sync''), (''subject_type'', JStr ''docs_center''),
           (''subject_id'', JStr (as_posix root)), (''action'', JStr ''apply''),
           (''outcome'', JStr (if execute then ''success'' else ''dry_run'')),
           (''details'', JObj [(''execute'', JBool execute), (''planned_writes'', JInt (int (length writes))),
                               (''written'', JInt (int (length written)))])]"

text \<open>One file after the other; an escape or a failing write found on the way leaves the earlier files written.\<close>

fun write_targets ::
  "(string \<Rightarrow> string) \<Rightarrow> write_faults \<Rightarrow> string \<Rightarrow> (string \<times> string) list \<Rightarrow> string list \<Rightarrow> doc_files
    \<Rightarrow> string list result \<times> doc_files" where
  "write_targets resolve faults root [] written files = (Inr written, files)"
| "write_targets resolve faults root ((rel, content) # rest) written files =
     (case resolve_target resolve root rel of
        Inl e \<Rightarrow> (Inl e, files)
      | Inr target \<Rightarrow>
          case faults target of
            Some (e, part) \<Rightarrow> (Inl e, written_partly target part files)
          | None \<Rightarrow> write_targets resolve faults root rest (written @ [target]) (files(target \<mapsto> content)))"

definition apply_payload ::
  "string \<Rightarrow> bool \<Rightarrow> svc_record list \<Rightarrow> dict \<Rightarrow> (string \<times> string) list \<Rightarrow> string list option \<Rightarrow> dict" where
  "apply_payload root execute svcs plan writes done =
     sanitized
      [(''mode'', JStr ''docs-sync-apply''), (''root'', JStr (as_posix root)), (''dry_run'', JBool (done = None)),
       (''execute'', JBool execute), (''service_count'', JInt (int (length svcs))),
       (''server_count'', dget plan ''server_count''),
       (''changed'', JInt (case done of None \<Rightarrow> 0 | Some written \<Rightarrow> int (length written))),
       (''written'', str_list (case done of None \<Rightarrow> [] | Some written \<Rightarrow> written)),
       (''skipped'', JInt (case done of None \<Rightarrow> int (length writes) | Some _ \<Rightarrow> 0)), (''plan'', JObj plan),
       (''audit'', audit_event_skeleton root execute writes (case done of None \<Rightarrow> [] | Some written \<Rightarrow> written))]"

definition apply_docs_sync ::
  "(string \<Rightarrow> string) \<Rightarrow> write_faults \<Rightarrow> registry \<Rightarrow> string \<Rightarrow> bool \<Rightarrow> renames \<Rightarrow> doc_files \<Rightarrow> dict result \<times> doc_files" where
  "apply_docs_sync resolve faults reg root execute renames0 files =
     (let plan = build_docs_sync_plan reg (posix_join root ''docs/server'') (posix_join root ''service'') renames0;
          svcs = list_services reg;
          root_resolved = resolve root
      in case build_apply_writes resolve plan svcs root root_resolved of
           Inl e \<Rightarrow> (Inl e, files)
         | Inr writes \<Rightarrow>
             if \<not> execute then (Inr (apply_payload root execute svcs plan writes None), files)
             else case write_targets resolve faults root_resolved writes [] files of
                 (Inl e, files') \<Rightarrow> (Inl e, files')
               | (Inr written, files') \<Rightarrow> (Inr (apply_payload root execute svcs plan writes (Some written)), files'))"

definition apply_docs_sync_from_path ::
  "(string \<Rightarrow> string) \<Rightarrow> write_faults \<Rightarrow> string \<Rightarrow> json_files \<Rightarrow> string \<Rightarrow> bool \<Rightarrow> renames \<Rightarrow> doc_files \<Rightarrow> dict result \<times> doc_files" where
  "apply_docs_sync_from_path resolve faults path registries root execute renames0 files =
     (case registry_load path registries of
        Inl e \<Rightarrow> (Inl e, files)
      | Inr reg \<Rightarrow> apply_docs_sync resolve faults reg root execute renames0 files)"

definition render_docs_sync_apply_json ::
  "(string \<Rightarrow> string) \<Rightarrow> write_faults \<Rightarrow> string \<Rightarrow> json_files \<Rightarrow> string \<Rightarrow> bool \<Rightarrow> renames \<Rightarrow> doc_files \<Rightarrow> string result \<times> doc_files" where
  "render_docs_sync_apply_json resolve faults path registries root execute renames0 files =
     (case apply_docs_sync_from_path resolve faults path registries root execute renames0 files of
        (r, files') \<Rightarrow> (bind_result r (\<lambda>d. Inr (dump_sorted (JObj d))), files'))"

section \<open>Facts\<close>

lemma dropWhile_rev_prefix: "\<exists>u. s = rev (dropWhile p (rev s)) @ u"
proof -
  have "rev s = takeWhile p (rev s) @ dropWhile p (rev s)" by simp
  then have "s = rev (dropWhile p (rev s)) @ rev (takeWhile p (rev s))" by (metis rev_append rev_rev_ident)
  then show ?thesis by blast
qed

lemma strip_chars_first:
  assumes "strip_chars cs s = c # t"
  shows "c \<notin> set cs"
proof -
  let ?d = "dropWhile (\<lambda>c. c \<in> set cs) s"
  obtain u where "?d = (c # t) @ u"
    using dropWhile_rev_prefix [of ?d "\<lambda>c. c \<in> set cs"] assms by (auto simp: strip_chars_def)
  then show ?thesis using hd_dropWhile [of "\<lambda>c. c \<in> set cs" s] by simp
qed

lemma set_replace_all: "set (replace_all old new s) \<subseteq> set new \<union> set s"
proof (induction old new s rule: replace_all.induct)
  case (2 old new c s)
  have "set (drop (length old) (c # s)) \<subseteq> set (c # s)" by (rule set_drop_subset)
  with 2 show ?case by (auto split: if_splits)
qed simp

text \<open>Every id or host name gives one path segment of safe characters.\<close>

lemma safe_segment_ok:
  assumes "is_segment fallback" "list_all is_slug_char fallback"
  shows "is_segment (safe_segment fallback v)" "list_all is_slug_char (safe_segment fallback v)"
    "safe_segment fallback v \<noteq> ''..'' \<or> fallback = ''..''"
proof -
  define dashed where "dashed = re_sub (plus_re (\<lambda>c. \<not> is_slug_char c)) (\<lambda>_. ''-'')
      (replace_all [CHR 0x5C] ''-'' (replace_all ''/'' ''-'' v))"
  define cleaned where "cleaned = strip_chars ''-._'' (re_sub (plus_re (\<lambda>c. c = CHR ''-'')) (\<lambda>_. ''-'')
      (replace_all ''..'' ''-'' dashed))"
  have safe: "safe_segment fallback v = (if cleaned = [] then fallback else cleaned)"
    by (simp add: safe_segment_def cleaned_def dashed_def Let_def)
  have dash: "is_slug_char CHR ''-''" by (simp add: is_slug_char_def)
  have "\<forall>c \<in> set dashed. is_slug_char c"
    using set_re_sub_plus [of "\<lambda>c. \<not> is_slug_char c" "''-''"] dash unfolding dashed_def by fastforce
  then have "\<forall>c \<in> set (replace_all ''..'' ''-'' dashed). is_slug_char c"
    using set_replace_all [of "''..''" "''-''" dashed] dash by fastforce
  then have ok: "\<forall>c \<in> set cleaned. is_slug_char c"
    using set_strip_chars set_re_sub_plus [of "\<lambda>c. c = CHR ''-''" "''-''"] dash unfolding cleaned_def by fastforce
  then show "list_all is_slug_char (safe_segment fallback v)" using assms(2) by (simp add: safe list_all_iff)
  have first: "c \<notin> set ''-._''" if "cleaned = c # t" for c t
    using strip_chars_first that unfolding cleaned_def by blast
  then show "safe_segment fallback v \<noteq> ''..'' \<or> fallback = ''..''" by (auto simp: safe)
  have "\<not> is_slug_char CHR ''/''" by code_simp
  moreover have "cleaned \<noteq> ''.''" using first by auto
  ultimately show "is_segment (safe_segment fallback v)" using ok assms(1) by (auto simp: safe is_segment_def)
qed

lemma fallbacks_ok:
  "is_segment ''service''" "list_all is_slug_char ''service''" "is_segment ''host''" "list_all is_slug_char ''host''"
  by code_simp+

lemma doc_paths_parts:
  assumes "is_segment d"
  shows "posix_parts (posix_join (posix_join root d) ''README.md'') = posix_parts root @ [d, ''README.md'']"
    "posix_root (posix_join (posix_join root d) ''README.md'') = posix_root root"
proof -
  have r: "is_segment ''README.md''" by (simp add: is_segment_def)
  note parts = segment_parts [OF r] segment_parts [OF assms]
  show "posix_parts (posix_join (posix_join root d) ''README.md'') = posix_parts root @ [d, ''README.md'']"
    "posix_root (posix_join (posix_join root d) ''README.md'') = posix_root root"
    using parts by (simp_all add: posix_join_parts)
qed

lemma map_result_in: "map_result f xs = Inr ys \<Longrightarrow> x \<in> set xs \<Longrightarrow> \<exists>y. f x = Inr y"
  by (induction xs arbitrary: ys) (auto simp: bind_result_Inr_iff)

lemma writes_resolve:
  "build_apply_writes resolve plan svcs root root_resolved = Inr writes \<Longrightarrow>
   (rel, content) \<in> set writes \<Longrightarrow> \<exists>target. resolve_target resolve root_resolved rel = Inr target"
  unfolding build_apply_writes_def Let_def by (auto simp: bind_result_Inr_iff dest!: map_result_in)

lemma resolve_target_below: "resolve_target resolve root rel = Inr target \<Longrightarrow> is_relative_to target root"
  by (auto simp: resolve_target_def Let_def split: if_splits)

text \<open>The files after the first writes of a run, and where one write goes.\<close>

definition write_place :: "(string \<Rightarrow> string) \<Rightarrow> string \<Rightarrow> string \<Rightarrow> string" where
  "write_place resolve root rel = resolve (posix_join root rel)"

definition files_written :: "(string \<Rightarrow> string) \<Rightarrow> string \<Rightarrow> (string \<times> string) list \<Rightarrow> doc_files \<Rightarrow> doc_files" where
  "files_written resolve root writes files = fold (\<lambda>(rel, text) f. f(write_place resolve root rel \<mapsto> text)) writes files"

lemma write_targets_run:
  assumes "list_all (\<lambda>(rel, text). is_relative_to (write_place resolve root rel) root) writes"
  shows "case write_targets resolve faults root writes written files of
       (Inr all, files') \<Rightarrow> length all = length written + length writes \<and> files' = files_written resolve root writes files
     | (Inl e, files') \<Rightarrow> (\<exists>before rel text later part. writes = before @ (rel, text) # later
         \<and> faults (write_place resolve root rel) = Some (e, part)
         \<and> files' = written_partly (write_place resolve root rel) part (files_written resolve root before files))"
  using assms
proof (induction writes arbitrary: written files)
  case Nil
  then show ?case by (simp add: files_written_def)
next
  case (Cons w rest)
  obtain rel content where w: "w = (rel, content)" by (cases w)
  let ?t = "write_place resolve root rel"
  have t: "resolve_target resolve root rel = Inr ?t"
    using Cons.prems w by (simp add: resolve_target_def write_place_def)
  show ?case
  proof (cases "faults ?t")
    case (Some f)
    obtain e part where f: "f = (e, part)" by (cases f)
    have "w # rest = [] @ (rel, content) # rest" "files = files_written resolve root [] files"
      by (simp_all add: w files_written_def)
    then show ?thesis using w t Some f by (fastforce simp: files_written_def)
  next
    case None
    let ?r = "write_targets resolve faults root rest (written @ [?t]) (files(?t \<mapsto> content))"
    have run: "write_targets resolve faults root (w # rest) written files = ?r" using w t None by simp
    have step: "files_written resolve root (w # ws) files = files_written resolve root ws (files(?t \<mapsto> content))" for ws
      by (simp add: files_written_def w)
    obtain r fs where r: "?r = (r, fs)" by (cases ?r)
    have "list_all (\<lambda>(rel, text). is_relative_to (write_place resolve root rel) root) rest" using Cons.prems by simp
    note IH = Cons.IH [where written = "written @ [?t]" and files = "files(?t \<mapsto> content)", OF this, unfolded r prod.case]
    show ?thesis
    proof (cases r)
      case (Inl e)
      then obtain before rel' body later part where
        h: "rest = before @ (rel', body) # later" "faults (write_place resolve root rel') = Some (e, part)"
        "fs = written_partly (write_place resolve root rel') part (files_written resolve root before (files(?t \<mapsto> content)))"
        using IH unfolding Inl sum.case by blast
      show ?thesis
        unfolding run r Inl prod.case sum.case
        by (rule exI [of _ "w # before"], rule exI [of _ rel'], rule exI [of _ body], rule exI [of _ later], rule exI [of _ part])
          (simp add: h step)
    next
      case (Inr all)
      then show ?thesis using IH unfolding run r by (simp add: step)
    qed
  qed
qed

lemma writes_below:
  assumes "build_apply_writes resolve plan svcs root root_resolved = Inr writes"
  shows "list_all (\<lambda>(rel, text). is_relative_to (write_place resolve root_resolved rel) root_resolved) writes"
  using writes_resolve [OF assms]
  by (fastforce simp: list_all_iff resolve_target_def write_place_def Let_def split: if_splits)

lemma map_result_length: "map_result f xs = Inr ys \<Longrightarrow> length ys = length xs"
  by (induction xs arbitrary: ys) (auto simp: bind_result_Inr_iff)

text \<open>A plan names one page for every service and one for every host that a service runs on.\<close>

lemma map_of_redacted:
  "map_of (map (\<lambda>p. if secret (fst p) then (fst p, hidden) else p) d) k
     = map_option (\<lambda>v. if secret k then hidden else v) (map_of d k)"
  by (induction d) auto

lemma sanitized_list:
  assumes "map_of d key = Some (JList vs)" "\<not> is_sensitive_key key"
  shows "dget (sanitized d) key = JList (map docs_sanitize_value vs)"
  using assms by (simp add: sanitized_def docs_sanitize_value_def dget_def map_of_redacted map_of_map_prod del: map_map)

lemma planned_pages:
  "length (entry_dicts (dget (build_docs_sync_plan reg server_root service_root renames0) ''server_docs''))
     = card (target_host (clean_renames renames0) ` set (list_services reg))"
  "length (entry_dicts (dget (build_docs_sync_plan reg server_root service_root renames0) ''service_docs''))
     = length (list_services reg)"
proof -
  have k: "\<not> is_sensitive_key ''server_docs''" "\<not> is_sensitive_key ''service_docs''" by code_simp+
  let ?p = "docs_sync_payload (list_services reg) server_root service_root renames0"
  have "map_of ?p ''server_docs'' = Some (JList (map JObj (server_entries server_root (clean_renames renames0) (list_services reg))))"
    by (simp add: docs_sync_payload_def Let_def)
  from sanitized_list [OF this k(1)]
  show "length (entry_dicts (dget (build_docs_sync_plan reg server_root service_root renames0) ''server_docs''))
     = card (target_host (clean_renames renames0) ` set (list_services reg))"
    by (simp add: build_docs_sync_plan_def entry_dicts_def server_entries_def length_remdups_card_conv)
  have "map_of ?p ''service_docs'' = Some (JList (map JObj (by_service_id
          (map (service_entry server_root service_root (clean_renames renames0)) (list_services reg)))))"
    by (simp add: docs_sync_payload_def Let_def)
  from sanitized_list [OF this k(2)]
  show "length (entry_dicts (dget (build_docs_sync_plan reg server_root service_root renames0) ''service_docs''))
     = length (list_services reg)"
    by (simp add: build_docs_sync_plan_def entry_dicts_def by_service_id_def)
qed

lemma planned_writes:
  assumes "build_apply_writes resolve (build_docs_sync_plan reg server_root service_root renames0) svcs root root_resolved
    = Inr writes"
  shows "length writes = 7 + card (target_host (clean_renames renames0) ` set (list_services reg)) + length (list_services reg)"
  using assms
  by (auto simp: build_apply_writes_def Let_def bind_result_Inr_iff planned_pages fixed_writes_def dest!: map_result_length)

lemma apply_report_changed:
  "dget (apply_payload root execute svcs plan writes (Some all)) ''changed'' = JInt (int (length all))"
  "dget (apply_payload root execute svcs plan writes None) ''changed'' = JInt 0"
  by (simp_all add: apply_payload_def sanitized_def docs_sanitize_value_def is_sensitive_key_def dget_def lower_def
      lower_char_def startswith_def)

section \<open>Properties\<close>

text \<open>Whatever the id of a service or the name of its node, its document has a directory of its own
  directly below the root of its kind: one path segment of letters, digits, dots, dashes and underscores, never
  empty, \<open>.\<close> or \<open>..\<close>.\<close>

theorem documents_have_own_directory:
  "list_all is_slug_char (service_slug r) \<and> service_slug r \<notin> {[], ''.'', ''..''}
   \<and> posix_parts (service_doc_path root (service_slug r)) = posix_parts root @ [service_slug r, ''README.md'']
   \<and> list_all is_slug_char (target_host renamed r) \<and> target_host renamed r \<notin> {[], ''.'', ''..''}
   \<and> posix_parts (server_doc_path root (target_host renamed r)) = posix_parts root @ [target_host renamed r, ''README.md'']"
proof -
  have s: "is_segment (safe_service_slug v)" "list_all is_slug_char (safe_service_slug v)" "safe_service_slug v \<noteq> ''..''" for v
    using safe_segment_ok [OF fallbacks_ok(1,2), of v] by (simp_all add: safe_service_slug_def)
  have h: "is_segment (safe_host_segment v)" "list_all is_slug_char (safe_host_segment v)" "safe_host_segment v \<noteq> ''..''" for v
    using safe_segment_ok [OF fallbacks_ok(3,4), of v] by (simp_all add: safe_host_segment_def)
  show ?thesis
    using s h by (simp add: service_slug_def target_host_def service_doc_path_def server_doc_path_def
      doc_paths_parts is_segment_def)
qed

text \<open>C22: the writes of a synchronisation are planned first: seven indexes, a page for every host that a service runs on
  and a page for every service, each at a path that resolves below the resolved root, whatever the links on the disk.
  When that planning fails, and in a dry run, no file is changed.  A real run that reports success has put exactly the
  planned texts at the planned places, in their order (two writes to one place leave the later text), and reports their
  number; one that fails has met a failing write and leaves the writes before it and what that write left.\<close>

theorem docs_sync_writes_below_root:
  "case apply_docs_sync resolve faults reg root execute renames0 files of (r, files') \<Rightarrow>
     (case build_apply_writes resolve
             (build_docs_sync_plan reg (posix_join root ''docs/server'') (posix_join root ''service'') renames0)
             (list_services reg) root (resolve root) of
        Inl e \<Rightarrow> r = Inl e \<and> files' = files
      | Inr writes \<Rightarrow>
          length writes = 7 + card (target_host (clean_renames renames0) ` set (list_services reg)) + length (list_services reg)
          \<and> list_all (\<lambda>(rel, text). is_relative_to (write_place resolve (resolve root) rel) (resolve root)) writes
          \<and> (if execute
             then (case r of
                     Inr report \<Rightarrow> dget report ''changed'' = JInt (int (length writes))
                       \<and> files' = files_written resolve (resolve root) writes files
                   | Inl e \<Rightarrow> (\<exists>before rel text later part. writes = before @ (rel, text) # later
                       \<and> faults (write_place resolve (resolve root) rel) = Some (e, part)
                       \<and> files' = written_partly (write_place resolve (resolve root) rel) part
                           (files_written resolve (resolve root) before files)))
             else files' = files \<and> (case r of Inr report \<Rightarrow> dget report ''changed'' = JInt 0 | Inl _ \<Rightarrow> False)))"
proof -
  let ?plan = "build_docs_sync_plan reg (posix_join root ''docs/server'') (posix_join root ''service'') renames0"
  show ?thesis
  proof (cases "build_apply_writes resolve ?plan (list_services reg) root (resolve root)")
    case (Inl e)
    then show ?thesis by (simp add: apply_docs_sync_def Let_def)
  next
    case (Inr writes)
    obtain r files' where w: "write_targets resolve faults (resolve root) writes [] files = (r, files')"
      by (cases "write_targets resolve faults (resolve root) writes [] files")
    show ?thesis
      using planned_writes [OF Inr] writes_below [OF Inr] write_targets_run [OF writes_below [OF Inr], where faults = faults and written = "[]" and files = files] w Inr
      by (cases execute; cases r) (simp_all add: apply_docs_sync_def Let_def apply_report_changed)
  qed
qed

end
