(* ===== verification/Platforms.thy ===== *)
theory Platforms imports Json begin

text \<open>
  \<open>platforms.py\<close>: from the facts a node reports to what it may be asked to do.  The probe is
  normalised from heartbeat facts, the service manager is picked from the probe, and the runtime
  profile decides whether a node reports, polls and executes.
\<close>

section \<open>Data\<close>

datatype runtime_profile = FULL_WORKER | LITE_WORKER | BEACON_ONLY | PROXY_MANAGED

datatype service_manager = SYSTEMD | OPENRC | PROCD | LAUNCHD | WINDOWS_TASK | CRON | LOOP | NO_MANAGER

fun runtime_text :: "runtime_profile \<Rightarrow> string" where
  "runtime_text FULL_WORKER = ''full-worker''"
| "runtime_text LITE_WORKER = ''lite-worker''"
| "runtime_text BEACON_ONLY = ''beacon-only''"
| "runtime_text PROXY_MANAGED = ''proxy-managed''"

fun manager_text :: "service_manager \<Rightarrow> string" where
  "manager_text SYSTEMD = ''systemd''"
| "manager_text OPENRC = ''openrc''"
| "manager_text PROCD = ''procd''"
| "manager_text LAUNCHD = ''launchd''"
| "manager_text WINDOWS_TASK = ''windows-task''"
| "manager_text CRON = ''cron''"
| "manager_text LOOP = ''loop''"
| "manager_text NO_MANAGER = ''none''"

text \<open>\<open>ServiceManager(text)\<close> raises \<open>ValueError\<close> for any other text.\<close>

definition all_managers :: "service_manager list" where
  "all_managers = [SYSTEMD, OPENRC, PROCD, LAUNCHD, WINDOWS_TASK, CRON, LOOP, NO_MANAGER]"

definition manager_of_text :: "string \<Rightarrow> service_manager result" where
  "manager_of_text s =
     (case List.find (\<lambda>m. manager_text m = s) all_managers of
        Some m \<Rightarrow> Inr m
      | None \<Rightarrow> Inl (ValueError (repr_str s @ '' is not a valid ServiceManager'')))"

record probe =
  pr_os_family :: string
  pr_has_sh :: bool
  pr_has_bash :: bool
  pr_has_curl :: bool
  pr_has_wget :: bool
  pr_has_python3 :: bool
  pr_has_busybox :: bool
  pr_has_systemctl :: bool
  pr_has_openrc :: bool
  pr_has_procd :: bool
  pr_has_launchctl :: bool
  pr_has_powershell :: bool
  pr_has_crond :: bool
  pr_writable_etc :: bool
  pr_writable_tmp :: bool
  pr_memory_mb :: "int option"
  pr_disk_free_mb :: "int option"

record capabilities =
  rc_runtime :: runtime_profile
  rc_service_manager :: service_manager
  rc_can_report_heartbeat :: bool
  rc_can_poll_tasks :: bool
  rc_can_execute_tasks :: bool
  rc_requirements :: "string list"
  rc_notes :: "string list"

definition has_http_client :: "probe \<Rightarrow> bool" where
  "has_http_client p \<longleftrightarrow> pr_has_curl p \<or> pr_has_wget p"

section \<open>From facts to a probe\<close>

definition fact_truthy :: "json \<Rightarrow> bool" where
  "fact_truthy v = (case v of
      JBool b \<Rightarrow> b
    | JInt i \<Rightarrow> i \<noteq> 0
    | JStr s \<Rightarrow> lower (strip s) \<in> {''1'', ''true'', ''yes'', ''y'', ''on''}
    | _ \<Rightarrow> False)"

definition optional_int :: "json \<Rightarrow> int option" where
  "optional_int v = (if v = JNull \<or> v = JStr [] then None else py_int v)"

definition probe_from_facts :: "dict \<Rightarrow> probe" where
  "probe_from_facts facts =
     (let raw = (case dget facts ''capabilities'' of JObj d \<Rightarrow> d | _ \<Rightarrow> facts)
      in \<lparr>pr_os_family = str_or (dget raw ''os_family'') ''unknown'',
          pr_has_sh = fact_truthy (dget raw ''has_sh''),
          pr_has_bash = fact_truthy (dget raw ''has_bash''),
          pr_has_curl = fact_truthy (dget raw ''has_curl''),
          pr_has_wget = fact_truthy (dget raw ''has_wget''),
          pr_has_python3 = fact_truthy (dget raw ''has_python3''),
          pr_has_busybox = fact_truthy (dget raw ''has_busybox''),
          pr_has_systemctl = fact_truthy (dget raw ''has_systemctl''),
          pr_has_openrc = fact_truthy (dget raw ''has_openrc''),
          pr_has_procd = fact_truthy (dget raw ''has_procd''),
          pr_has_launchctl = fact_truthy (dget raw ''has_launchctl''),
          pr_has_powershell = fact_truthy (dget raw ''has_powershell''),
          pr_has_crond = fact_truthy (dget raw ''has_crond''),
          pr_writable_etc = fact_truthy (dget raw ''writable_etc''),
          pr_writable_tmp = fact_truthy (dget raw ''writable_tmp''),
          pr_memory_mb = optional_int (dget raw ''memory_mb''),
          pr_disk_free_mb = optional_int (dget raw ''disk_free_mb'')\<rparr>)"

section \<open>Classification\<close>

definition detect_service_manager :: "probe \<Rightarrow> service_manager" where
  "detect_service_manager p =
     (let os_family = lower (pr_os_family p)
      in if pr_has_systemctl p then SYSTEMD
         else if pr_has_procd p \<or> os_family = ''openwrt'' then PROCD
         else if pr_has_openrc p then OPENRC
         else if pr_has_launchctl p \<or> os_family = ''darwin'' then LAUNCHD
         else if pr_has_powershell p \<or> os_family = ''windows'' then WINDOWS_TASK
         else if pr_has_crond p then CRON
         else if pr_has_sh p \<and> has_http_client p then LOOP
         else NO_MANAGER)"

definition classify_capabilities :: "probe \<Rightarrow> capabilities" where
  "classify_capabilities p =
     (let service_manager = detect_service_manager p;
          http = has_http_client p
      in if pr_has_sh p \<and> http \<and> pr_has_python3 p \<and> pr_writable_etc p
            \<and> service_manager \<in> {SYSTEMD, OPENRC, PROCD, LAUNCHD, WINDOWS_TASK, CRON}
         then \<lparr>rc_runtime = FULL_WORKER, rc_service_manager = service_manager, rc_can_report_heartbeat = True,
               rc_can_poll_tasks = True, rc_can_execute_tasks = True,
               rc_requirements = [''python3'', ''http-client'', manager_text service_manager],
               rc_notes = [''task execution still requires explicit operator enablement'']\<rparr>
         else if pr_has_powershell p \<and> http \<and> service_manager = WINDOWS_TASK
         then \<lparr>rc_runtime = FULL_WORKER, rc_service_manager = service_manager, rc_can_report_heartbeat = True,
               rc_can_poll_tasks = True, rc_can_execute_tasks = True,
               rc_requirements = [''powershell'', ''http-client'', ''Task Scheduler''],
               rc_notes = [''Windows Task Scheduler worker supports signed task polling'',
                           ''task execution still requires explicit operator enablement'']\<rparr>
         else if pr_has_powershell p \<and> service_manager = WINDOWS_TASK
         then \<lparr>rc_runtime = BEACON_ONLY, rc_service_manager = service_manager, rc_can_report_heartbeat = True,
               rc_can_poll_tasks = False, rc_can_execute_tasks = False,
               rc_requirements = [''powershell'', ''Task Scheduler''],
               rc_notes = [''Windows '' @ utf8_text [0x5F53, 0x524D, 0x4EE5, 0x8BA1, 0x5212, 0x4EFB, 0x52A1, 0x5FC3, 0x8DF3, 0x6A21, 0x5F0F, 0x8FD0, 0x884C],
                           utf8_text [0x9ED8, 0x8BA4, 0x4E0D, 0x6267, 0x884C, 0x8FDC, 0x7A0B, 0x4E0B, 0x53D1, 0x547D, 0x4EE4]]\<rparr>
         else if pr_has_sh p \<and> http
            \<and> (pr_has_busybox p \<or> pr_has_crond p \<or> service_manager \<in> {PROCD, OPENRC})
         then \<lparr>rc_runtime = LITE_WORKER,
               rc_service_manager = (if service_manager \<noteq> LOOP then service_manager else CRON),
               rc_can_report_heartbeat = True, rc_can_poll_tasks = True, rc_can_execute_tasks = False,
               rc_requirements = [''posix-sh'', ''http-client''],
               rc_notes = [''no arbitrary shell execution by default'', ''fit for NAS/OpenWrt/BusyBox/old routers'']\<rparr>
         else if pr_has_sh p \<and> http
         then \<lparr>rc_runtime = BEACON_ONLY, rc_service_manager = NO_MANAGER, rc_can_report_heartbeat = True,
               rc_can_poll_tasks = False, rc_can_execute_tasks = False,
               rc_requirements = [''posix-sh'', ''http-client''],
               rc_notes = [''heartbeat only; use external proxy node for management'']\<rparr>
         else \<lparr>rc_runtime = PROXY_MANAGED, rc_service_manager = NO_MANAGER, rc_can_report_heartbeat = False,
               rc_can_poll_tasks = False, rc_can_execute_tasks = False,
               rc_requirements = [''nearby managed proxy node''],
               rc_notes = [''device cannot host HMN agent safely'']\<rparr>)"

text \<open>The part of the classification the node views show.\<close>

definition runtime_summary_from_facts :: "dict \<Rightarrow> dict" where
  "runtime_summary_from_facts facts =
     (let profile = classify_capabilities (probe_from_facts facts)
      in [(''runtime_profile'', JStr (runtime_text (rc_runtime profile))),
          (''service_manager'', JStr (manager_text (rc_service_manager profile))),
          (''can_report_heartbeat'', JBool (rc_can_report_heartbeat profile)),
          (''can_poll_tasks'', JBool (rc_can_poll_tasks profile)),
          (''can_execute_tasks'', JBool (rc_can_execute_tasks profile))])"

section \<open>What a profile permits\<close>

lemma manager_of_manager_text [simp]: "manager_of_text (manager_text m) = Inr m"
  by (cases m) (simp_all add: manager_of_text_def all_managers_def)

lemma manager_text_inj: "manager_text m = manager_text m' \<longleftrightarrow> m = m'"
  using manager_of_manager_text [of m] manager_of_manager_text [of m'] by (metis sum.inject(2))

lemma classify_execute:
  "rc_can_execute_tasks (classify_capabilities p) \<longleftrightarrow> rc_runtime (classify_capabilities p) = FULL_WORKER"
  by (simp add: classify_capabilities_def Let_def)

lemma classify_poll:
  "rc_can_poll_tasks (classify_capabilities p)
    \<longleftrightarrow> rc_runtime (classify_capabilities p) = FULL_WORKER \<or> rc_runtime (classify_capabilities p) = LITE_WORKER"
  by (simp add: classify_capabilities_def Let_def)

lemma classify_report:
  "rc_can_report_heartbeat (classify_capabilities p) \<longleftrightarrow> rc_runtime (classify_capabilities p) \<noteq> PROXY_MANAGED"
  by (simp add: classify_capabilities_def Let_def)

lemma full_worker_needs:
  "rc_runtime (classify_capabilities p) = FULL_WORKER \<Longrightarrow>
     has_http_client p \<and> (pr_has_sh p \<and> pr_has_python3 p \<and> pr_writable_etc p \<or> pr_has_powershell p)
     \<and> detect_service_manager p \<notin> {LOOP, NO_MANAGER}
     \<and> rc_service_manager (classify_capabilities p) = detect_service_manager p"
  by (auto simp: classify_capabilities_def Let_def split: if_splits)

text \<open>A node is classified as able to execute tasks only when it has an HTTP client, a known service
  manager, and either a shell with Python and a writable \<open>/etc\<close> or PowerShell; executing implies
  polling, polling implies reporting, and a node that cannot report has no service manager.\<close>

theorem execution_needs_capabilities:
  "(let c = classify_capabilities p
    in rc_can_execute_tasks c =
        (has_http_client p \<and> detect_service_manager p \<notin> {LOOP, NO_MANAGER}
          \<and> (pr_has_sh p \<and> pr_has_python3 p \<and> pr_writable_etc p
             \<or> pr_has_powershell p \<and> detect_service_manager p = WINDOWS_TASK))
      \<and> (rc_can_execute_tasks c \<le> rc_can_poll_tasks c) \<and> (rc_can_poll_tasks c \<le> rc_can_report_heartbeat c)
      \<and> (rc_service_manager c \<noteq> NO_MANAGER) \<le> rc_can_report_heartbeat c
      \<and> rc_service_manager c \<noteq> LOOP)"
proof -
  have "detect_service_manager p \<notin> {LOOP, NO_MANAGER} \<longleftrightarrow>
      detect_service_manager p \<in> {SYSTEMD, OPENRC, PROCD, LAUNCHD, WINDOWS_TASK, CRON}"
    by (cases "detect_service_manager p") simp_all
  then show ?thesis by (auto simp: classify_capabilities_def Let_def)
qed

end
