(* ===== verification/Monitor.thy ===== *)
theory Monitor imports Components Nodes Platforms begin

text \<open>
  Liveness and health of a node as derived from its heartbeats: \<open>_node_liveness\<close>, \<open>_monitor_summary\<close>,
  \<open>_monitor_health_summary\<close>, \<open>_record_monitor_snapshot\<close> and \<open>monitor run-once\<close> of \<open>cli.py\<close>, and the
  protocol compatibility of \<open>version.py\<close>.  Percentages are computed exactly, where the code divides
  floats: the two differ at most when the exact quotient lies within rounding error of a half.
\<close>

section \<open>Protocol versions\<close>

definition API_VERSION :: string where
  "API_VERSION = ''0.2.0''"

definition WORKER_PROTOCOL_VERSION :: string where
  "WORKER_PROTOCOL_VERSION = ''0.1''"

definition major_minor :: "string \<Rightarrow> string" where
  "major_minor version =
     (let parts = split_on CHR ''.'' (hd (split_on CHR ''+'' version))
      in if length parts < 2 then version else join_with ''.'' (take 2 parts))"

definition is_worker_compatible :: "string \<Rightarrow> string option \<Rightarrow> bool" where
  "is_worker_compatible master_protocol worker_protocol =
     (case worker_protocol of
        None \<Rightarrow> True
      | Some w \<Rightarrow> if w = [] then True else major_minor master_protocol = major_minor w)"

section \<open>Liveness\<close>

text \<open>The newest heartbeat in the order of insertion.\<close>

definition latest_heartbeat_event :: "store \<Rightarrow> string \<Rightarrow> audit_event option" where
  "latest_heartbeat_event s node_id =
     List.find (\<lambda>e. ev_event_type e = ''node'' \<and> ev_subject_id e = node_id \<and> ev_action e = ''heartbeat'')
       (rev (list_audit_events s))"

text \<open>\<open>int(delta.total_seconds())\<close> truncates towards zero.\<close>

definition whole_seconds :: "time \<Rightarrow> int" where
  "whole_seconds d = (if 0 \<le> d then d div 1000000 else - ((- d) div 1000000))"

record liveness =
  lv_state :: string
  lv_reason :: string
  lv_last_heartbeat :: string
  lv_age_seconds :: "int option"

definition node_liveness :: "store \<Rightarrow> string \<Rightarrow> time \<Rightarrow> liveness" where
  "node_liveness s node_id now =
     (case latest_heartbeat_event s node_id of
        None \<Rightarrow> \<lparr>lv_state = ''offline'', lv_reason = ''missing_heartbeat'', lv_last_heartbeat = [], lv_age_seconds = None\<rparr>
      | Some event \<Rightarrow>
          let age_seconds = whole_seconds (now - ev_created_at event);
              (state, reason) =
                (if ev_outcome event \<noteq> ''ok'' then (''stale'', ''heartbeat_warn'')
                 else if age_seconds \<le> 300 then (''online'', ''fresh_heartbeat'')
                 else if age_seconds \<le> 900 then (''stale'', ''stale_heartbeat'')
                 else (''offline'', ''heartbeat_timeout''))
          in \<lparr>lv_state = state, lv_reason = reason, lv_last_heartbeat = isoformat (ev_created_at event),
              lv_age_seconds = Some age_seconds\<rparr>)"

definition record_liveness_audit :: "string \<Rightarrow> liveness \<Rightarrow> time \<Rightarrow> store \<Rightarrow> store" where
  "record_liveness_audit node_id l now s =
     record_audit ''node'' ''node'' node_id ''liveness'' (lv_state l)
       [(''reason'', JStr (lv_reason l)), (''last_heartbeat'', JStr (lv_last_heartbeat l)),
        (''age_seconds'', case lv_age_seconds l of None \<Rightarrow> JNull | Some a \<Rightarrow> JInt a)] now s"

section \<open>Monitor summary\<close>

definition monitor_summary :: "store \<Rightarrow> string \<Rightarrow> dict" where
  "monitor_summary s node_id =
     (let event = latest_heartbeat_event s node_id;
          facts = (case event of
                     None \<Rightarrow> []
                   | Some e \<Rightarrow> (case dget_or (ev_details e) ''facts'' (JObj []) of JObj d \<Rightarrow> d | _ \<Rightarrow> []));
          compatible = (case event of
                          None \<Rightarrow> False
                        | Some e \<Rightarrow> truthy (dget_or (ev_details e) ''worker_compatible'' (JBool True)));
          heartbeat_ok = (case event of None \<Rightarrow> False | Some e \<Rightarrow> ev_outcome e = ''ok'' \<and> compatible);
          exec_enabled = truthy (dget_or facts ''exec_enabled'' (JBool False))
      in [(''heartbeat_seen'', JBool (event \<noteq> None)),
          (''heartbeat_ok'', JBool heartbeat_ok),
          (''heartbeat_outcome'', JStr (case event of None \<Rightarrow> ''missing'' | Some e \<Rightarrow> ev_outcome e)),
          (''heartbeat_at'', JStr (case event of None \<Rightarrow> [] | Some e \<Rightarrow> isoformat (ev_created_at e))),
          (''worker_protocol_version'', py_or (dget facts ''worker_protocol_version'') (JStr ''unknown'')),
          (''worker_version'', py_or (dget facts ''worker_version'') (JStr ''unknown'')),
          (''worker_compatible'', JBool compatible),
          (''exec_enabled'', JBool exec_enabled),
          (''exec_mode'', JStr (if exec_enabled then ''ENABLED'' else ''SAFE'')),
          (''facts'', JObj facts)] @ runtime_summary_from_facts facts)"

text \<open>A number as a fraction, and \<open>round\<close> of a fraction, halves to even.\<close>

definition float_fraction :: "string \<Rightarrow> (int \<times> int) option" where
  "float_fraction s =
     (let neg = startswith s ''-'';
          body = removeprefix s ''-'';
          mant = takeWhile (\<lambda>c. c \<noteq> CHR ''e'') body;
          ex = drop (length mant + 1) body;
          whole = takeWhile (\<lambda>c. c \<noteq> CHR ''.'') mant;
          frac = drop (length whole + 1) mant
      in case (parse_int (whole @ frac), if ex = [] then Some 0 else parse_int ex) of
           (Some m, Some e) \<Rightarrow>
             let k = e - int (length frac); v = (if neg then - m else m)
             in Some (if 0 \<le> k then (v * 10 ^ nat k, 1) else (v, 10 ^ nat (- k)))
         | _ \<Rightarrow> None)"

definition number_fraction :: "json \<Rightarrow> (int \<times> int) option" where
  "number_fraction v = (case v of
      JInt i \<Rightarrow> Some (i, 1)
    | JBool b \<Rightarrow> Some (if b then 1 else 0, 1)
    | JFloat s \<Rightarrow> float_fraction s
    | _ \<Rightarrow> None)"

definition round_fraction :: "int \<Rightarrow> int \<Rightarrow> int" where
  "round_fraction n d =
     (let q = n div d; r = n mod d
      in if 2 * r < d then q else if d < 2 * r then q + 1 else if even q then q else q + 1)"

text \<open>\<open>100 * a / b\<close> for fractions with \<open>b\<close> positive.\<close>

definition percent :: "int \<times> int \<Rightarrow> int \<times> int \<Rightarrow> int" where
  "percent a b = round_fraction (100 * fst a * snd b) (snd a * fst b)"

definition facts_summary :: "dict \<Rightarrow> dict" where
  "facts_summary facts =
     (let load = (case dget facts ''load_average'' of
            JObj load \<Rightarrow>
              concat (map (\<lambda>(name, key). if dget load key \<noteq> JNull then [(name, JStr (py_str (dget load key)))] else [])
                [(''load_1m'', ''1m''), (''load_5m'', ''5m''), (''load_15m'', ''15m'')])
          | _ \<Rightarrow> []);
          memory = (case dget facts ''memory'' of
            JObj memory \<Rightarrow>
              (case (number_fraction (dget memory ''total_kb''), number_fraction (dget memory ''available_kb'')) of
                 (Some tot, Some available) \<Rightarrow>
                   if fst tot > 0
                   then [(''memory_used_percent'',
                          JInt (percent (fst tot * snd available - fst available * snd tot, snd tot * snd available) tot))]
                   else []
               | _ \<Rightarrow> [])
          | _ \<Rightarrow> []);
          disk = (case dget facts ''disk'' of
            JObj disk \<Rightarrow>
              (case (number_fraction (dget disk ''total_bytes''), number_fraction (dget disk ''used_bytes'')) of
                 (Some tot, Some used) \<Rightarrow>
                   if fst tot > 0 then [(''disk_used_percent'', JInt (percent used tot))] else []
               | _ \<Rightarrow> [])
              @ (if truthy (dget disk ''path'') then [(''disk_path'', JStr (py_str (dget disk ''path'')))] else [])
          | _ \<Rightarrow> []);
          uptime = (case dget facts ''uptime'' of
            JObj uptime \<Rightarrow>
              if dget uptime ''seconds'' \<noteq> JNull then [(''uptime_seconds'', dget uptime ''seconds'')] else []
          | _ \<Rightarrow> [])
      in load @ memory @ disk @ uptime)"

record health_summary =
  hs_summary :: dict
  hs_health :: string
  hs_reason :: string
  hs_age_seconds :: "int option"
  hs_heartbeat_datetime :: "time option"
  hs_facts_summary :: dict

definition monitor_health_summary :: "store \<Rightarrow> string \<Rightarrow> time \<Rightarrow> health_summary" where
  "monitor_health_summary s node_id now =
     (let summary = monitor_summary s node_id;
          event = latest_heartbeat_event s node_id;
          age_seconds = map_option (\<lambda>e. whole_seconds (now - ev_created_at e)) event;
          (health, reason) =
            (case event of
               None \<Rightarrow> (''critical'', ''missing_heartbeat'')
             | Some e \<Rightarrow>
                 if \<not> truthy (dget summary ''worker_compatible'') then (''critical'', ''worker_protocol_incompatible'')
                 else if ev_outcome e \<noteq> ''ok'' then (''warn'', ''heartbeat_warn'')
                 else if the age_seconds > 900 then (''critical'', ''heartbeat_timeout'')
                 else if the age_seconds > 300 then (''warn'', ''stale_heartbeat'')
                 else (''ok'', ''fresh_heartbeat''))
      in \<lparr>hs_summary = summary, hs_health = health, hs_reason = reason, hs_age_seconds = age_seconds,
          hs_heartbeat_datetime = map_option ev_created_at event,
          hs_facts_summary = facts_summary (case dget_or summary ''facts'' (JObj []) of JObj d \<Rightarrow> d | _ \<Rightarrow> [])\<rparr>)"

definition opt_json :: "('a \<Rightarrow> json) \<Rightarrow> 'a option \<Rightarrow> json" where
  "opt_json f x = (case x of None \<Rightarrow> JNull | Some y \<Rightarrow> f y)"

text \<open>\<open>clk 0\<close> stamps the snapshot, \<open>clk 1\<close> the audit event.\<close>

definition record_health_snapshot ::
  "string \<Rightarrow> health_summary \<Rightarrow> string \<Rightarrow> (nat \<Rightarrow> time) \<Rightarrow> store \<Rightarrow> monitor_snapshot result \<times> store" where
  "record_health_snapshot node_id h uid clk s =
     (case record_monitor_snapshot node_id (hs_health h) (hs_reason h) (hs_heartbeat_datetime h) (hs_age_seconds h)
         (str_or (dget (hs_summary h) ''runtime_profile'') ''unknown'')
         (str_or (dget (hs_summary h) ''service_manager'') ''unknown'')
         (str_or (dget (hs_summary h) ''worker_protocol_version'') ''unknown'')
         (str_or (dget (hs_summary h) ''worker_version'') ''unknown'')
         (str_or (dget (hs_summary h) ''exec_mode'') ''SAFE'')
         (hs_facts_summary h) uid (clk 0) s of
        (Inl e, s1) \<Rightarrow> (Inl e, s1)
      | (Inr m, s1) \<Rightarrow>
          (Inr m, record_audit ''monitor'' ''node'' node_id ''run-once'' (ms_health m)
             [(''snapshot_id'', JStr (ms_snapshot_id m)), (''node_id'', JStr node_id), (''health'', JStr (ms_health m)),
              (''reason'', JStr (ms_reason m)),
              (''heartbeat_at'', JStr (case ms_heartbeat_at m of None \<Rightarrow> [] | Some t \<Rightarrow> isoformat t)),
              (''age_seconds'', opt_json JInt (ms_age_seconds m)),
              (''runtime_profile'', JStr (ms_runtime_profile m)), (''service_manager'', JStr (ms_service_manager m)),
              (''worker_protocol_version'', JStr (ms_worker_protocol_version m)),
              (''worker_version'', JStr (ms_worker_version m)), (''exec_mode'', JStr (ms_exec_mode m)),
              (''facts_summary'', JObj (ms_facts_summary m))] (clk 1) s1))"

definition monitor_counts :: "monitor_snapshot list \<Rightarrow> nat \<times> nat \<times> nat" where
  "monitor_counts ms =
     (length (filter (\<lambda>m. ms_health m = ''ok'') ms), length (filter (\<lambda>m. ms_health m = ''warn'') ms),
      length (filter (\<lambda>m. ms_health m = ''critical'') ms))"

text \<open>\<open>monitor run-once\<close> over the managed nodes; the flag is false where the command exits with status 1.\<close>

fun snapshot_nodes ::
  "node list \<Rightarrow> time \<Rightarrow> (nat \<Rightarrow> string) \<Rightarrow> (nat \<Rightarrow> time) \<Rightarrow> store \<Rightarrow> monitor_snapshot list result \<times> store" where
  "snapshot_nodes [] now uid clk s = (Inr [], s)"
| "snapshot_nodes (n # ns) now uid clk s =
     (case record_health_snapshot (nd_node_id n) (monitor_health_summary s (nd_node_id n) now) (uid 0) clk s of
        (Inl e, s1) \<Rightarrow> (Inl e, s1)
      | (Inr m, s1) \<Rightarrow>
          (case snapshot_nodes ns now (\<lambda>k. uid (Suc k)) (\<lambda>k. clk (k + 2)) s1 of
             (Inl e, s2) \<Rightarrow> (Inl e, s2)
           | (Inr ms, s2) \<Rightarrow> (Inr (m # ms), s2)))"

definition monitor_run_once ::
  "time \<Rightarrow> (nat \<Rightarrow> string) \<Rightarrow> (nat \<Rightarrow> time) \<Rightarrow> store \<Rightarrow> (monitor_snapshot list \<times> bool) result \<times> store" where
  "monitor_run_once now uid clk s =
     (case snapshot_nodes (filter (\<lambda>n. nd_status n = ''managed'') (list_nodes s)) now uid clk s of
        (Inl e, s1) \<Rightarrow> (Inl e, s1)
      | (Inr ms, s1) \<Rightarrow>
          let (n_ok, n_warn, n_critical) = monitor_counts ms
          in (Inr (ms, n_warn = 0 \<and> n_critical = 0), s1))"

section \<open>Liveness and health agree\<close>

lemma summary_compatible:
  "dget (monitor_summary s n) ''worker_compatible'' =
     JBool (case latest_heartbeat_event s n of
       None \<Rightarrow> False | Some e \<Rightarrow> truthy (dget_or (ev_details e) ''worker_compatible'' (JBool True)))"
  by (simp add: monitor_summary_def Let_def dget_def)

text \<open>A node's monitor health is \<open>ok\<close> exactly when its liveness is \<open>online\<close> and its worker speaks a
  compatible protocol; a node without a heartbeat is offline and critical.\<close>

theorem healthy_iff_online_and_compatible:
  "(hs_health (monitor_health_summary s n now) = ''ok'') =
     (lv_state (node_liveness s n now) = ''online''
      \<and> dget (monitor_summary s n) ''worker_compatible'' = JBool True)
   \<and> (if latest_heartbeat_event s n = None
      then lv_state (node_liveness s n now) = ''offline'' \<and> hs_health (monitor_health_summary s n now) = ''critical''
      else lv_age_seconds (node_liveness s n now) = hs_age_seconds (monitor_health_summary s n now))"
  by (auto simp: monitor_health_summary_def node_liveness_def summary_compatible Let_def split: option.splits)

text \<open>A node whose last heartbeat was a warning is reported \<open>stale\<close>, and never \<open>offline\<close>, however
  long ago that heartbeat was: the timeout is only looked at for heartbeats with outcome \<open>ok\<close>.\<close>

theorem warned_node_never_goes_offline:
  assumes "latest_heartbeat_event s n = Some e" and "ev_outcome e \<noteq> ''ok''"
  shows "lv_state (node_liveness s n now) = ''stale''
    \<and> (truthy (dget_or (ev_details e) ''worker_compatible'' (JBool True)) \<longrightarrow>
        hs_health (monitor_health_summary s n now) = ''warn'')"
  using assms by (simp add: node_liveness_def monitor_health_summary_def summary_compatible Let_def)

lemma warned_node_never_goes_offline_witness:
  "lv_state (node_liveness
      (record_audit ''node'' ''node'' ''n1'' ''heartbeat'' ''warn'' [] 0 empty_store) ''n1''
      (seconds (365 * 86400))) = ''stale''"
proof -
  let ?s = "record_audit ''node'' ''node'' ''n1'' ''heartbeat'' ''warn'' [] 0 empty_store"
  let ?e = "AuditEvent ''node'' ''node'' ''n1'' ''heartbeat'' ''warn'' [] 0"
  have "latest_heartbeat_event ?s ''n1'' = Some ?e"
    by (simp add: latest_heartbeat_event_def list_audit_events_def audit_simps AuditEvent_def empty_store_def)
  moreover have "ev_outcome ?e \<noteq> ''ok''" by (simp add: AuditEvent_def)
  ultimately show ?thesis using warned_node_never_goes_offline by blast
qed

end
