(* ===== verification/Executor.thy ===== *)
theory Executor imports Tasks begin

text \<open>
  \<open>executor.py\<close> and \<open>playbook.py\<close>: running a task over SSH and running a playbook's phases.  The
  \<open>ssh\<close> client and the local shell are parameters: functions from the command to an exit code with
  its output, or \<open>None\<close> for a run that exceeds \<open>timeout_seconds\<close> (\<open>subprocess.TimeoutExpired\<close>).
\<close>

definition SAFE_PHASES :: "string list" where
  "SAFE_PHASES = [''precheck'', ''backup'', ''action'', ''verify'', ''rollback_hint'']"

definition SAFE_RISKS :: "string list" where
  "SAFE_RISKS = [''low'', ''medium'']"

section \<open>Outcomes of an SSH command\<close>

text \<open>At most \<open>limit\<close> characters, the last of them an ellipsis when text was cut.\<close>

definition preview_output :: "nat \<Rightarrow> string \<Rightarrow> string" where
  "preview_output limit out =
     (let normalized = strip out
      in if length (utf8_split normalized) \<le> limit then normalized
         else rstrip (concat (take (limit - 1) (utf8_split normalized))) @ utf8_text [0x2026])"

definition classify_ssh_failure :: "int \<Rightarrow> string \<Rightarrow> string" where
  "classify_ssh_failure exit_code stderr =
     (let message = lower stderr
      in if contains message ''permission denied'' \<or> contains message ''publickey''
            \<or> contains message ''authentication failed'' then ''ssh_auth''
         else if exit_code = 124 then ''timeout''
         else if contains message ''timed out'' \<or> contains message ''no route to host''
            \<or> contains message ''connection refused'' \<or> contains message ''could not resolve hostname''
         then ''ssh_connectivity''
         else if exit_code \<noteq> 0 then ''remote_command''
         else ''none'')"

section \<open>Where a node is reached\<close>

fun ssh_label_value :: "string list \<Rightarrow> string \<Rightarrow> string" where
  "ssh_label_value [] key = []"
| "ssh_label_value (label # labels) key =
     (if startswith label (key @ ''='') then drop (length (key @ ''='')) label else ssh_label_value labels key)"

record ssh_target =
  tg_host :: string
  tg_user :: string
  tg_port :: string
  tg_source :: string

definition ssh_target_details_for_node :: "node \<Rightarrow> ssh_target result" where
  "ssh_target_details_for_node n =
     (let (host, source) =
            (if nd_ssh_host n \<noteq> [] then (nd_ssh_host n, ''ssh_host'')
             else if ssh_label_value (nd_labels n) ''ssh-host'' \<noteq> []
             then (ssh_label_value (nd_labels n) ''ssh-host'', ''label:ssh-host'')
             else if nd_network_ip n \<noteq> [] then (nd_network_ip n, ''network_ip'')
             else let h = (case nd_addresses n of [] \<Rightarrow> [] | a # _ \<Rightarrow> a)
                  in (h, if h \<noteq> [] then ''address'' else []));
          user = (if nd_ssh_user n \<noteq> [] then nd_ssh_user n
                  else if ssh_label_value (nd_labels n) ''ssh-user'' \<noteq> []
                  then ssh_label_value (nd_labels n) ''ssh-user'' else ''root'');
          label_port = ssh_label_value (nd_labels n) ''ssh-port'';
          port = (if nd_ssh_port n = 22 \<and> label_port \<noteq> [] then label_port
                  else show_int (if nd_ssh_port n = 0 then 22 else nd_ssh_port n))
      in if host = [] then Inl (ValueError (''node '' @ nd_node_id n @ '' missing ssh host''))
         else Inr \<lparr>tg_host = host, tg_user = user, tg_port = port, tg_source = source\<rparr>)"

definition ssh_target_for_node :: "node \<Rightarrow> (string \<times> string \<times> string) result" where
  "ssh_target_for_node n =
     bind_result (ssh_target_details_for_node n) (\<lambda>t. Inr (tg_host t, tg_user t, tg_port t))"

definition ssh_target_of_task :: "task \<Rightarrow> node \<Rightarrow> ssh_target result" where
  "ssh_target_of_task t n =
     (case ssh_target_details_for_node n of
        Inl (ValueError _) \<Rightarrow> Inl (ValueError (''node '' @ nd_node_id n @ '' missing ssh host for task '' @ tk_task_id t))
      | r \<Rightarrow> r)"

section \<open>Running a task over SSH\<close>

type_synonym command_runner = "string list \<Rightarrow> (int \<times> string \<times> string) option"

definition ssh_command :: "ssh_target \<Rightarrow> task \<Rightarrow> string list" where
  "ssh_command target t =
     [''ssh'', ''-p'', tg_port target, tg_user target @ ''@'' @ tg_host target, tk_command t]"

text \<open>
  The checks before anything is written.  \<open>allow_risk\<close> is empty where the caller passes none.
\<close>

definition ssh_preflight :: "string \<Rightarrow> string list \<Rightarrow> store \<Rightarrow> (task \<times> ssh_target) result" where
  "ssh_preflight task_id allow_risk s =
     (case load_task s task_id of
        None \<Rightarrow> Inl (ValueError (''task not found: '' @ task_id))
      | Some t \<Rightarrow>
          if tk_executor t \<noteq> ''ssh'' then Inl (ValueError (''task '' @ tk_task_id t @ '' is not an ssh task''))
          else
            let allowed = (if allow_risk \<noteq> [] then allow_risk else SAFE_RISKS)
            in if tk_risk t \<notin> set allowed
               then Inl (PermissionError (''task risk '' @ [CHR 0x27] @ tk_risk t @ [CHR 0x27] @ '' is not allowed for ssh executor''))
               else case load_node s (tk_node_id t) of
                 None \<Rightarrow> Inl (ValueError (''node '' @ tk_node_id t @ '' is not managed''))
               | Some n \<Rightarrow>
                   if nd_status n \<noteq> ''managed''
                   then Inl (ValueError (''node '' @ tk_node_id t @ '' is not managed''))
                   else bind_result (ssh_target_of_task t n) (\<lambda>target. Inr (t, target)))"

text \<open>
  \<open>clk 0\<close> stamps the start, \<open>clk 1\<close> the audit event, \<open>clk 2\<close> the completion; \<open>duration_ms\<close> comes from
  the monotonic clock.
\<close>

definition run_ssh_task ::
  "command_runner \<Rightarrow> string \<Rightarrow> string list \<Rightarrow> int \<Rightarrow> (nat \<Rightarrow> time) \<Rightarrow> store \<Rightarrow> task result \<times> store" where
  "run_ssh_task ssh task_id allow_risk duration_ms clk s =
     (case ssh_preflight task_id allow_risk s of
        Inl e \<Rightarrow> (Inl e, s)
      | Inr (t, target) \<Rightarrow>
          let s1 = save_task (t\<lparr>tk_status := ''running'', tk_started_at := Some (clk 0)\<rparr>) s
          in case ssh (ssh_command target t) of
               None \<Rightarrow> (Inl TimeoutExpired, s1)
             | Some (returncode, stdout, stderr) \<Rightarrow>
                 (case parse_int (tg_port target) of
                    None \<Rightarrow> (Inl (ValueError ''invalid literal for int() with base 10''), s1)
                  | Some port \<Rightarrow>
                      let s2 = record_audit ''task'' ''task'' (tk_task_id t) ''ssh_execute''
                             (if returncode = 0 then ''ok'' else ''failed'')
                             [(''node_id'', JStr (tk_node_id t)), (''command'', JStr (tk_command t)),
                              (''host'', JStr (tg_host target)), (''user'', JStr (tg_user target)),
                              (''port'', JInt port), (''target_source'', JStr (tg_source target)),
                              (''duration_ms'', JInt (max 0 duration_ms)),
                              (''stdout_preview'', JStr (preview_output 240 stdout)),
                              (''stderr_preview'', JStr (preview_output 240 stderr)),
                              (''failure_reason'', JStr (classify_ssh_failure returncode stderr))]
                             (clk 1) s1
                      in case complete_task (tk_task_id t) returncode stdout stderr (clk 2) s2 of
                           (None, s3) \<Rightarrow> (Inl AssertionError, s3)
                         | (Some finished, s3) \<Rightarrow>
                             if returncode \<noteq> 0
                             then (Inl (SSHExecutionError (tk_task_id t) returncode stderr), s3)
                             else (Inr finished, s3)))"

section \<open>Playbooks\<close>

record playbook =
  pb_id :: string
  pb_risk :: string
  pb_inputs :: "(string \<times> dict) list"
  pb_precheck :: "string list"
  pb_backup :: "string list"
  pb_action :: "string list"
  pb_verify :: "string list"
  pb_rollback_hint :: "string list"

definition phase_commands :: "playbook \<Rightarrow> string \<Rightarrow> string list" where
  "phase_commands p phase =
     (if phase = ''precheck'' then pb_precheck p else if phase = ''backup'' then pb_backup p
      else if phase = ''action'' then pb_action p else if phase = ''verify'' then pb_verify p
      else pb_rollback_hint p)"

fun render_command :: "string \<Rightarrow> (string \<times> string) list \<Rightarrow> string" where
  "render_command command [] = command"
| "render_command command ((key, v) # values) =
     render_command (replace_all ([CHR 0x7B, CHR 0x7B] @ key @ [CHR 0x7D, CHR 0x7D]) v
       (replace_all ([CHR 0x7B, CHR 0x7B] @ '' '' @ key @ '' '' @ [CHR 0x7D, CHR 0x7D]) v command)) values"

definition missing_input :: "playbook \<Rightarrow> (string \<times> string) list \<Rightarrow> string option" where
  "missing_input p values =
     map_option fst (List.find (\<lambda>(name, spec). truthy (dget spec ''required'') \<and> name \<notin> fst ` set values) (pb_inputs p))"

definition render_phase :: "playbook \<Rightarrow> string \<Rightarrow> (string \<times> string) list \<Rightarrow> string list result" where
  "render_phase p phase values =
     (case missing_input p values of
        Some name \<Rightarrow> Inl (ValueError (''missing required input: '' @ name))
      | None \<Rightarrow> Inr (map (\<lambda>c. render_command c values) (phase_commands p phase)))"

record command_result =
  cx_phase :: string
  cx_command :: string
  cx_exit_code :: int
  cx_stdout :: string
  cx_stderr :: string

type_synonym shell = "string \<Rightarrow> (int \<times> string \<times> string) option"

definition run_command :: "bool \<Rightarrow> shell \<Rightarrow> string \<Rightarrow> string \<Rightarrow> command_result result" where
  "run_command dry_run sh phase command =
     (if dry_run then Inr \<lparr>cx_phase = phase, cx_command = command, cx_exit_code = 0, cx_stdout = [], cx_stderr = []\<rparr>
      else case sh command of
        None \<Rightarrow> Inl TimeoutExpired
      | Some (code, out, err) \<Rightarrow>
          Inr \<lparr>cx_phase = phase, cx_command = command, cx_exit_code = code, cx_stdout = out, cx_stderr = err\<rparr>)"

text \<open>
  The results are those of the commands that were run, in order; an exception ends the run, and the
  results that preceded it are returned beside it.
\<close>

fun run_commands :: "bool \<Rightarrow> shell \<Rightarrow> string \<Rightarrow> string list \<Rightarrow> command_result list \<times> exn option" where
  "run_commands dry_run sh phase [] = ([], None)"
| "run_commands dry_run sh phase (c # cs) =
     (case run_command dry_run sh phase c of
        Inl e \<Rightarrow> ([], Some e)
      | Inr r \<Rightarrow>
          if cx_exit_code r \<noteq> 0 then ([r], Some (PlaybookExecutionError phase (cx_exit_code r) c))
          else let (rs, e) = run_commands dry_run sh phase cs in (r # rs, e))"

fun run_phases ::
  "bool \<Rightarrow> shell \<Rightarrow> playbook \<Rightarrow> (string \<times> string) list \<Rightarrow> string list \<Rightarrow> command_result list \<times> exn option" where
  "run_phases dry_run sh p values [] = ([], None)"
| "run_phases dry_run sh p values (phase # phases) =
     (case render_phase p phase values of
        Inl e \<Rightarrow> ([], Some e)
      | Inr commands \<Rightarrow>
          (case run_commands dry_run sh phase commands of
             (rs, Some e) \<Rightarrow> (rs, Some e)
           | (rs, None) \<Rightarrow> let (rs', e) = run_phases dry_run sh p values phases in (rs @ rs', e)))"

definition playbook_run ::
  "bool \<Rightarrow> shell \<Rightarrow> playbook \<Rightarrow> (string \<times> string) list \<Rightarrow> string list \<Rightarrow> string list
    \<Rightarrow> command_result list \<times> exn option" where
  "playbook_run dry_run sh p values phases allow_risk =
     (let allowed = (if allow_risk \<noteq> [] then allow_risk else SAFE_RISKS);
          selected = (if phases \<noteq> [] then phases else [''precheck'', ''backup'', ''action'', ''verify''])
      in if pb_risk p \<notin> set allowed
         then ([], Some (PermissionError (''playbook risk '' @ [CHR 0x27] @ pb_risk p @ [CHR 0x27] @ '' is not allowed'')))
         else case List.find (\<lambda>ph. ph \<notin> set SAFE_PHASES) selected of
           Some phase \<Rightarrow> ([], Some (ValueError (''unsupported phase: '' @ phase)))
         | None \<Rightarrow> run_phases dry_run sh p values selected)"

section \<open>Gates and outcomes\<close>

lemma ssh_target_host: "ssh_target_details_for_node n = Inr tg \<Longrightarrow> tg_host tg \<noteq> []"
  by (auto simp: ssh_target_details_for_node_def Let_def split: if_splits)

lemma ssh_preflight_Inr:
  assumes "ssh_preflight k allow s = Inr (t, target)"
  shows "load_task s k = Some t" and "tk_task_id t = k" and "tk_executor t = ''ssh''"
    and "tk_risk t \<in> set (if allow \<noteq> [] then allow else SAFE_RISKS)"
    and "node_managed s (tk_node_id t)" and "tg_host target \<noteq> []"
proof -
  show ld: "load_task s k = Some t" and "tk_executor t = ''ssh''"
    and "tk_risk t \<in> set (if allow \<noteq> [] then allow else SAFE_RISKS)"
    and "node_managed s (tk_node_id t)" and "tg_host target \<noteq> []"
    using assms
    by (auto simp: ssh_preflight_def bind_result_Inr_iff node_managed_def ssh_target_of_task_def Let_def
        split: option.splits if_splits sum.splits exn.splits dest: ssh_target_host)
  from ld show "tk_task_id t = k" by (rule load_task_id)
qed

definition sample_ssh :: store where
  "sample_ssh = sample_queue\<lparr>
     nodes := [(new_node ''n1'' ''fp'' ''web'' [''10.0.0.7''] ''A'' [])\<lparr>nd_status := ''managed''\<rparr>],
     tasks := [new_task ''t9'' ''n1'' ''uptime'' ''low'' ''admin'' ''ssh'' 10]\<rparr>"

lemma sample_ssh_preflight:
  "ssh_preflight ''t9'' [] sample_ssh =
     Inr (new_task ''t9'' ''n1'' ''uptime'' ''low'' ''admin'' ''ssh'' 10,
          \<lparr>tg_host = ''10.0.0.7'', tg_user = ''root'', tg_port = ''22'', tg_source = ''address''\<rparr>)"
  by code_simp

text \<open>C36: an SSH task is run only when it is an SSH task whose risk is allowed, on a managed node with a
  host to reach; otherwise the call raises and the store is unchanged.\<close>

theorem ssh_run_is_gated:
  "case ssh_preflight k allow s of
      Inl e \<Rightarrow> run_ssh_task ssh k allow ms clk s = (Inl e, s)
    | Inr (t, target) \<Rightarrow> load_task s k = Some t \<and> tk_executor t = ''ssh''
        \<and> tk_risk t \<in> set (if allow \<noteq> [] then allow else SAFE_RISKS)
        \<and> node_managed s (tk_node_id t) \<and> tg_host target \<noteq> []"
proof (cases "ssh_preflight k allow s")
  case (Inl e)
  then show ?thesis by (simp add: run_ssh_task_def)
next
  case (Inr p)
  then show ?thesis using ssh_preflight_Inr [of k allow s "fst p" "snd p"] by (simp add: case_prod_beta)
qed

text \<open>An SSH command that returns settles its task: it has succeeded exactly when the exit code is 0,
  in which case the call returns it and otherwise raises \<open>SSHExecutionError\<close>; other tasks are left
  alone.\<close>

theorem ssh_run_settles_task:
  assumes "ssh_preflight k allow s = Inr (t, target)" and "ssh (ssh_command target t) = Some (code, out, err)"
    and "parse_int (tg_port target) = Some port"
  shows "\<exists>t' s'. run_ssh_task ssh k allow ms clk s
        = ((if code = 0 then Inr t' else Inl (SSHExecutionError k code err)), s')
      \<and> load_task s' = (load_task s)(k \<mapsto> t') \<and> task_done t' \<and> (tk_status t' = ''succeeded'') = (code = 0)
      \<and> tk_exit_code t' = Some code \<and> tk_stdout t' = cap_task_output out \<and> tk_stderr t' = cap_task_output err"
proof -
  let ?run = "t\<lparr>tk_status := ''running'', tk_started_at := Some (clk 0)\<rparr>"
  define s2 where "s2 = record_audit ''task'' ''task'' (tk_task_id t) ''ssh_execute''
      (if code = 0 then ''ok'' else ''failed'')
      [(''node_id'', JStr (tk_node_id t)), (''command'', JStr (tk_command t)),
       (''host'', JStr (tg_host target)), (''user'', JStr (tg_user target)),
       (''port'', JInt port), (''target_source'', JStr (tg_source target)),
       (''duration_ms'', JInt (max 0 ms)),
       (''stdout_preview'', JStr (preview_output 240 out)),
       (''stderr_preview'', JStr (preview_output 240 err)),
       (''failure_reason'', JStr (classify_ssh_failure code err))] (clk 1) (save_task ?run s)"
  define t' where "t' = complete_row (if code = 0 then ''succeeded'' else ''failed'') (clk 2) code
      (cap_task_output out) (cap_task_output err) (if code = 0 then [] else ''exit_code_nonzero'') ?run"
  have k: "tk_task_id t = k" using ssh_preflight_Inr(2) [OF assms(1)] .
  have ld: "load_task s2 = (load_task s)(k \<mapsto> ?run)" by (rule ext) (simp add: s2_def load_task_save k)
  have c: "fst (complete_task k code out err (clk 2) s2) = Some t'"
    "load_task (snd (complete_task k code out err (clk 2) s2)) = (load_task s)(k \<mapsto> t')"
    using ld by (auto simp: complete_task_def t'_def load_task_update Let_def fun_eq_iff)
  have "run_ssh_task ssh k allow ms clk s
      = ((if code = 0 then Inr t' else Inl (SSHExecutionError k code err)), snd (complete_task k code out err (clk 2) s2))"
    using c(1) assms by (cases "complete_task k code out err (clk 2) s2")
      (simp add: run_ssh_task_def Let_def k s2_def)
  moreover have "task_done t'" "(tk_status t' = ''succeeded'') = (code = 0)" "tk_exit_code t' = Some code"
    "tk_stdout t' = cap_task_output out" "tk_stderr t' = cap_task_output err"
    by (auto simp: t'_def complete_row_def task_done_def)
  ultimately show ?thesis using c(2) by blast
qed

lemma ssh_run_settles_task_witness:
  "\<exists>t' s'. run_ssh_task (\<lambda>_. Some (1, [], ''boom'')) ''t9'' [] 3 (\<lambda>_. 20) sample_ssh
      = (Inl (SSHExecutionError ''t9'' 1 ''boom''), s') \<and> load_task s' ''t9'' = Some t' \<and> tk_status t' \<noteq> ''succeeded''"
proof -
  have "parse_int ''22'' = Some 22" by code_simp
  then show ?thesis
    using ssh_run_settles_task [OF sample_ssh_preflight, where ssh = "\<lambda>_. Some (1, [], ''boom'')" and code = 1
        and out = "[]" and err = "''boom''" and port = 22 and ms = 3 and clk = "\<lambda>_. 20"] by fastforce
qed

text \<open>An SSH command that times out leaves its task running for good: the exception escapes before the
  task is completed, the row has no lease, and no lease expiry ever touches it.\<close>

theorem ssh_timeout_strands_task:
  assumes "ssh_preflight k allow s = Inr (t, target)" and "ssh (ssh_command target t) = None"
    and "keys_distinct tk_task_id (tasks s)"
  shows "fst (run_ssh_task ssh k allow ms clk s) = Inl TimeoutExpired
    \<and> map_option tk_status (load_task (snd (expire_stuck_tasks old now (snd (run_ssh_task ssh k allow ms clk s)))) k)
      = Some ''running''"
proof -
  let ?run = "t\<lparr>tk_status := ''running'', tk_started_at := Some (clk 0)\<rparr>"
  note pre = ssh_preflight_Inr [OF assms(1)]
  have run: "run_ssh_task ssh k allow ms clk s = (Inl TimeoutExpired, save_task ?run s)"
    using assms(1,2) by (simp add: run_ssh_task_def Let_def)
  have "keys_distinct tk_task_id (tasks (save_task ?run s))"
    using assms(3) by (simp add: save_task_def keys_distinct_upsert replace_row_def)
  then show ?thesis using pre
    by (simp add: run expire_load load_task_save lease_lost_def)
qed

lemma ssh_timeout_strands_task_witness:
  "map_option tk_status (load_task (snd (expire_stuck_tasks None (seconds 86400)
      (snd (run_ssh_task (\<lambda>_. None) ''t9'' [] 0 (\<lambda>_. 20) sample_ssh)))) ''t9'') = Some ''running''"
proof -
  have "keys_distinct tk_task_id (tasks sample_ssh)" by (simp add: sample_ssh_def keys_distinct_def)
  from ssh_timeout_strands_task [OF sample_ssh_preflight refl this] show ?thesis by blast
qed

section \<open>A playbook stops at the first failure\<close>

definition stops_at_failure :: "command_result list \<times> exn option \<Rightarrow> bool" where
  "stops_at_failure run \<longleftrightarrow>
     (case run of (rs, e) \<Rightarrow>
        list_all (\<lambda>r. cx_exit_code r = 0) rs
        \<or> (\<exists>ok bad. rs = ok @ [bad] \<and> list_all (\<lambda>r. cx_exit_code r = 0) ok \<and> cx_exit_code bad \<noteq> 0
            \<and> e = Some (PlaybookExecutionError (cx_phase bad) (cx_exit_code bad) (cx_command bad))))"

lemma run_command_Inr:
  "run_command d sh ph c = Inr r \<Longrightarrow> cx_phase r = ph \<and> cx_command r = c"
  by (auto simp: run_command_def split: if_splits option.splits)

lemma run_commands_stop:
  "stops_at_failure (run_commands d sh ph cs)
    \<and> (snd (run_commands d sh ph cs) = None \<longrightarrow> map cx_command (fst (run_commands d sh ph cs)) = cs
        \<and> list_all (\<lambda>r. cx_exit_code r = 0) (fst (run_commands d sh ph cs)))"
proof (induction cs)
  case Nil
  then show ?case by (simp add: stops_at_failure_def)
next
  case (Cons c cs)
  show ?case
  proof (cases "run_command d sh ph c")
    case (Inl e)
    then show ?thesis by (simp add: stops_at_failure_def)
  next
    case (Inr r)
    obtain rs e where run: "run_commands d sh ph cs = (rs, e)" by fastforce
    show ?thesis
    proof (cases "cx_exit_code r = 0")
      case False
      with Inr run_command_Inr [OF Inr] show ?thesis
        by (auto simp: stops_at_failure_def intro!: exI [of _ "[]"])
    next
      case True
      from Cons run consider "list_all (\<lambda>r. cx_exit_code r = 0) rs"
        | ok bad where "rs = ok @ [bad]" "list_all (\<lambda>r. cx_exit_code r = 0) ok" "cx_exit_code bad \<noteq> 0"
            "e = Some (PlaybookExecutionError (cx_phase bad) (cx_exit_code bad) (cx_command bad))"
        by (auto simp: stops_at_failure_def)
      then show ?thesis
      proof cases
        case 1
        with True Inr run Cons run_command_Inr [OF Inr] show ?thesis by (simp add: stops_at_failure_def)
      next
        case 2
        with True have "r # rs = (r # ok) @ [bad]" "list_all (\<lambda>r. cx_exit_code r = 0) (r # ok)" by simp_all
        with True Inr run 2 show ?thesis by (simp add: stops_at_failure_def)
      qed
    qed
  qed
qed

lemma run_phases_stop:
  "stops_at_failure (run_phases d sh p vals phs)
    \<and> (snd (run_phases d sh p vals phs) = None \<longrightarrow>
        map cx_command (fst (run_phases d sh p vals phs))
          = concat (map (\<lambda>ph. map (\<lambda>c. render_command c vals) (phase_commands p ph)) phs)
        \<and> list_all (\<lambda>r. cx_exit_code r = 0) (fst (run_phases d sh p vals phs)))"
proof (induction phs)
  case Nil
  then show ?case by (simp add: stops_at_failure_def)
next
  case (Cons ph phs)
  show ?case
  proof (cases "render_phase p ph vals")
    case (Inl e)
    then show ?thesis by (simp add: stops_at_failure_def)
  next
    case (Inr cs)
    then have cs: "cs = map (\<lambda>c. render_command c vals) (phase_commands p ph)"
      by (auto simp: render_phase_def split: option.splits)
    obtain rs e where run: "run_commands d sh ph cs = (rs, e)" by fastforce
    obtain rs' e' where rest: "run_phases d sh p vals phs = (rs', e')" by fastforce
    note first = run_commands_stop [of d sh ph cs, unfolded run]
    show ?thesis
    proof (cases e)
      case (Some x)
      with Inr run first show ?thesis by simp
    next
      case None
      then have ok: "list_all (\<lambda>r. cx_exit_code r = 0) rs" "map cx_command rs = cs" using first by auto
      from Cons rest consider "list_all (\<lambda>r. cx_exit_code r = 0) rs'"
        | good bad where "rs' = good @ [bad]" "list_all (\<lambda>r. cx_exit_code r = 0) good" "cx_exit_code bad \<noteq> 0"
            "e' = Some (PlaybookExecutionError (cx_phase bad) (cx_exit_code bad) (cx_command bad))"
        by (auto simp: stops_at_failure_def)
      then show ?thesis
      proof cases
        case 1
        with None Inr run rest ok Cons cs show ?thesis by (simp add: stops_at_failure_def)
      next
        case 2
        with ok have "rs @ rs' = (rs @ good) @ [bad]" "list_all (\<lambda>r. cx_exit_code r = 0) (rs @ good)" by simp_all
        with None Inr run rest 2 show ?thesis by (simp add: stops_at_failure_def)
      qed
    qed
  qed
qed

text \<open>A playbook run keeps its gates: a risk that is not allowed runs nothing; otherwise commands run in
  the order of the selected phases until the first that fails, which is reported, and a run without
  an exception has run every rendered command of every selected phase with exit code 0.\<close>

theorem playbook_stops_at_first_failure:
  "(let allowed = (if allow \<noteq> [] then allow else SAFE_RISKS);
        selected = (if phases \<noteq> [] then phases else [''precheck'', ''backup'', ''action'', ''verify'']);
        run = playbook_run d sh p vals phases allow
    in stops_at_failure run
      \<and> (if pb_risk p \<notin> set allowed then fst run = [] \<and> snd run \<noteq> None
         else snd run = None \<longrightarrow>
           map cx_command (fst run) = concat (map (\<lambda>ph. map (\<lambda>c. render_command c vals) (phase_commands p ph)) selected)
           \<and> list_all (\<lambda>r. cx_exit_code r = 0) (fst run) \<and> set selected \<subseteq> set SAFE_PHASES))"
proof -
  define sel where "sel = (if phases \<noteq> [] then phases else [''precheck'', ''backup'', ''action'', ''verify''])"
  define alw where "alw = (if allow \<noteq> [] then allow else SAFE_RISKS)"
  define run where "run = playbook_run d sh p vals phases allow"
  have none: "stops_at_failure ([], e)" for e by (simp add: stops_at_failure_def)
  consider (risk) e where "pb_risk p \<notin> set alw" "run = ([], Some e)"
    | (phase) e where "pb_risk p \<in> set alw" "run = ([], Some e)"
    | (go) "pb_risk p \<in> set alw" "set sel \<subseteq> set SAFE_PHASES" "run = run_phases d sh p vals sel"
    by (cases "List.find (\<lambda>ph. ph \<notin> set SAFE_PHASES) sel"; cases "pb_risk p \<in> set alw")
      (auto simp: run_def playbook_run_def Let_def find_None_iff sel_def [symmetric] alw_def [symmetric])
  then have "stops_at_failure run
      \<and> (if pb_risk p \<notin> set alw then fst run = [] \<and> snd run \<noteq> None
         else snd run = None \<longrightarrow>
           map cx_command (fst run) = concat (map (\<lambda>ph. map (\<lambda>c. render_command c vals) (phase_commands p ph)) sel)
           \<and> list_all (\<lambda>r. cx_exit_code r = 0) (fst run) \<and> set sel \<subseteq> set SAFE_PHASES)"
    by cases (simp_all add: none run_phases_stop)
  then show ?thesis unfolding Let_def sel_def alw_def run_def .
qed

definition sample_playbook :: playbook where
  "sample_playbook = \<lparr>pb_id = ''restart'', pb_risk = ''low'', pb_inputs = [], pb_precheck = [''true''], pb_backup = [],
     pb_action = [''echo {{x}}''], pb_verify = [], pb_rollback_hint = []\<rparr>"

lemma playbook_stops_at_first_failure_witness:
  "map cx_command (fst (playbook_run True (\<lambda>_. None) sample_playbook [(''x'', ''hi'')] [] [])) = [''true'', ''echo hi'']"
proof -
  have none: "snd (playbook_run True (\<lambda>_. None) sample_playbook [(''x'', ''hi'')] [] []) = None" by code_simp
  have risk: "pb_risk sample_playbook \<in> set SAFE_RISKS" by code_simp
  have cmds: "concat (map (\<lambda>ph. map (\<lambda>c. render_command c [(''x'', ''hi'')]) (phase_commands sample_playbook ph))
      [''precheck'', ''backup'', ''action'', ''verify'']) = [''true'', ''echo hi'']" by code_simp
  show ?thesis
    using playbook_stops_at_first_failure [of "[]" "[]" True "\<lambda>_. None" sample_playbook "[(''x'', ''hi'')]"] none risk
    unfolding Let_def using cmds by simp
qed

end
