(* ===== verification/Lifecycle.thy ===== *)
theory Lifecycle imports Monitor Approvals Executor begin

text \<open>
  The component commands of the CLI (\<open>hmn component plan | apply | verify | uninstall\<close>): each loads
  the manifest and the managed node, records a run, and writes the node's component state, either at
  once or, for a high risk, when the request it files is approved.  What the commands print is left
  out; \<open>docs\<close> are the parsed built-in manifests, \<open>uid k\<close> the k-th uuid and \<open>clk k\<close> the k-th clock reading.
\<close>

section \<open>Arguments and plans\<close>

definition ensure_builtin_components :: "dict list \<Rightarrow> store \<Rightarrow> catalogue result \<times> store" where
  "ensure_builtin_components docs s =
     (case load_builtin_components docs of
        Inl e \<Rightarrow> (Inl e, s)
      | Inr cs \<Rightarrow> (Inr cs, fold (\<lambda>(k, c). save_component c) cs s))"

fun parse_key_values :: "string list \<Rightarrow> dict \<Rightarrow> dict result" where
  "parse_key_values [] values = Inr values"
| "parse_key_values (item # items) values =
     (if CHR ''='' \<notin> set item
      then Inl (BadParameter (''--set '' @ utf8_text [0x9700, 0x8981] @ '' KEY=VALUE '' @ utf8_text [0x683C, 0x5F0F]))
      else let key = takeWhile (\<lambda>c. c \<noteq> CHR ''='') item
           in parse_key_values items (dset values key (JStr (drop (length key + 1) item))))"

definition default_driver :: "manifest \<Rightarrow> json" where
  "default_driver c = dget_or (mf_drivers c) ''default'' (JStr [])"

definition component_plan :: "manifest \<Rightarrow> string \<Rightarrow> dict \<Rightarrow> string \<Rightarrow> bool \<Rightarrow> dict" where
  "component_plan c node_id config action mutating =
     [(''component_id'', JStr (mf_id c)), (''version'', JStr (mf_version c)), (''node_id'', JStr node_id),
      (''action'', JStr action), (''risk'', JStr (mf_risk c)), (''driver'', default_driver c),
      (''config'', JObj config), (''playbooks'', JObj (mf_playbooks c)), (''mutating'', JBool mutating),
      (''next_action'', JStr (if action = ''plan'' then ''approve/apply'' else ''verify''))]"

definition load_component_for_node ::
  "dict list \<Rightarrow> string \<Rightarrow> string \<Rightarrow> store \<Rightarrow> (manifest \<times> node) result \<times> store" where
  "load_component_for_node docs component_id node_id s =
     (case ensure_builtin_components docs s of
        (Inl e, s1) \<Rightarrow> (Inl e, s1)
      | (Inr _, s1) \<Rightarrow>
          (case load_component s1 component_id of
             Inl e \<Rightarrow> (Inl e, s1)
           | Inr None \<Rightarrow> (Inl (BadParameter (utf8_text [0x672A, 0x77E5, 0x7EC4, 0x4EF6] @ '': '' @ component_id)), s1)
           | Inr (Some component) \<Rightarrow>
               (case load_node s1 node_id of
                  Some n \<Rightarrow>
                    if nd_status n = ''managed'' then (Inr (component, n), s1)
                    else (Inl (BadParameter (utf8_text [0x8282, 0x70B9, 0x4E0D, 0x53EF, 0x7528, 0x6216, 0x672A]
                                 @ '' managed: '' @ node_id)), s1)
                | None \<Rightarrow> (Inl (BadParameter (utf8_text [0x8282, 0x70B9, 0x4E0D, 0x53EF, 0x7528, 0x6216, 0x672A]
                            @ '' managed: '' @ node_id)), s1))))"

definition component_action_requires_approval :: "string \<Rightarrow> bool \<Rightarrow> bool" where
  "component_action_requires_approval risk mutating \<longleftrightarrow> mutating \<and> risk \<in> {''high'', ''critical''}"

section \<open>Asking for approval\<close>

definition request_component_action_approval ::
  "manifest \<Rightarrow> string \<Rightarrow> string \<Rightarrow> dict \<Rightarrow> dict \<Rightarrow> dict \<Rightarrow> (nat \<Rightarrow> string) \<Rightarrow> (nat \<Rightarrow> time) \<Rightarrow> store
    \<Rightarrow> (component_run \<times> approval_request) result \<times> store" where
  "request_component_action_approval c node_id action plan config reported uid clk s =
     (case record_component_run (mf_id c) node_id action (mf_risk c) ''pending_approval'' plan
         (if reported \<noteq> [] then reported
          else [(''machine_changed'', JBool False), (''approval_required'', JBool True)])
         ''hmn'' (uid 0) clk s of
        (Inl e, s1) \<Rightarrow> (Inl e, s1)
      | (Inr run, s1) \<Rightarrow>
          (case create_approval_request ''component_run'' (cr_run_id run) (''component.'' @ action) (mf_risk c) ''hmn''
              [(''action'', JStr action), (''run_id'', JStr (cr_run_id run)), (''component_id'', JStr (mf_id c)),
               (''node_id'', JStr node_id), (''config'', JObj config), (''version'', JStr (mf_version c)),
               (''driver'', JStr (py_str (default_driver c)))]
              (uid 1) (\<lambda>k. clk (k + 2)) s1 of
             (approval, s2) \<Rightarrow> (Inr (run, approval), s2)))"

section \<open>The commands\<close>

datatype lifecycle_outcome =
    Planned component_run
  | AwaitingApproval component_run approval_request
  | Recorded component_run
  | Verified component_run bool

definition plan_component ::
  "dict list \<Rightarrow> string \<Rightarrow> string \<Rightarrow> string list \<Rightarrow> (nat \<Rightarrow> string) \<Rightarrow> (nat \<Rightarrow> time) \<Rightarrow> store
    \<Rightarrow> lifecycle_outcome result \<times> store" where
  "plan_component docs component_id node_id set_values uid clk s =
     (case load_component_for_node docs component_id node_id s of
        (Inl e, s1) \<Rightarrow> (Inl e, s1)
      | (Inr (c, n), s1) \<Rightarrow>
          (case parse_key_values set_values [] of
             Inl e \<Rightarrow> (Inl e, s1)
           | Inr config \<Rightarrow>
               (case record_component_run (mf_id c) node_id ''plan'' (mf_risk c) ''planned''
                   (component_plan c node_id config ''plan'' False) [] ''hmn'' (uid 0) clk s1 of
                  (Inl e, s2) \<Rightarrow> (Inl e, s2)
                | (Inr run, s2) \<Rightarrow> (Inr (Planned run), s2))))"

text \<open>The monitor component takes a snapshot of the node first: \<open>uid 1\<close> names it, \<open>clk 2\<close> on stamp it.\<close>

definition apply_health ::
  "manifest \<Rightarrow> string \<Rightarrow> (nat \<Rightarrow> string) \<Rightarrow> (nat \<Rightarrow> time) \<Rightarrow> store \<Rightarrow> (string \<times> dict) result \<times> store" where
  "apply_health c node_id uid clk s =
     (if mf_id c = ''monitor''
      then let summary = monitor_health_summary s node_id (clk 2)
           in case record_health_snapshot node_id summary (uid 1) (\<lambda>k. clk (k + 3)) s of
                (Inl e, s1) \<Rightarrow> (Inl e, s1)
              | (Inr m, s1) \<Rightarrow>
                  (Inr (ms_health m,
                     [(''monitor_snapshot_id'', JStr (ms_snapshot_id m)), (''monitor_health'', JStr (ms_health m)),
                      (''monitor_reason'', JStr (ms_reason m)),
                      (''heartbeat_seen'', dget (hs_summary summary) ''heartbeat_seen''),
                      (''worker_compatible'', dget (hs_summary summary) ''worker_compatible'')]), s1)
      else (Inr (''planned'', []), s))"

definition closed_loop :: dict where
  "closed_loop = [(''machine_changed'', JBool False), (''state_closed_loop'', JBool True),
     (''remote_execution'', JStr ''not_enabled'')]"

definition apply_component ::
  "dict list \<Rightarrow> string \<Rightarrow> string \<Rightarrow> string list \<Rightarrow> (nat \<Rightarrow> string) \<Rightarrow> (nat \<Rightarrow> time) \<Rightarrow> store
    \<Rightarrow> lifecycle_outcome result \<times> store" where
  "apply_component docs component_id node_id set_values uid clk s =
     (case load_component_for_node docs component_id node_id s of
        (Inl e, s1) \<Rightarrow> (Inl e, s1)
      | (Inr (c, n), s1) \<Rightarrow>
          (case parse_key_values set_values [] of
             Inl e \<Rightarrow> (Inl e, s1)
           | Inr config \<Rightarrow>
               let plan = component_plan c node_id config ''apply'' True
               in if component_action_requires_approval (mf_risk c) True
                  then case request_component_action_approval c node_id ''apply'' plan config [] uid clk s1 of
                         (Inl e, s2) \<Rightarrow> (Inl e, s2)
                       | (Inr (run, approval), s2) \<Rightarrow> (Inr (AwaitingApproval run approval), s2)
                  else case apply_health c node_id uid clk s1 of
                         (Inl e, s2) \<Rightarrow> (Inl e, s2)
                       | (Inr (current_state, extra_result), s2) \<Rightarrow>
                           (case record_component_run (mf_id c) node_id ''apply'' (mf_risk c) ''state_recorded'' plan
                               (closed_loop @ extra_result) ''hmn'' (uid 0) clk s2 of
                              (Inl e, s3) \<Rightarrow> (Inl e, s3)
                            | (Inr run, s3) \<Rightarrow>
                                (Inr (Recorded run),
                                 snd (set_node_component node_id (mf_id c) ''enabled'' current_state config
                                   (mf_version c) (py_str (default_driver c)) [] (cr_run_id run) None s3)))))"

text \<open>What is kept of an installed component when its state is written again.\<close>

definition existing_component :: "string \<Rightarrow> string \<Rightarrow> store \<Rightarrow> node_component option" where
  "existing_component node_id component_id s =
     List.find (\<lambda>r. nc_component_id r = component_id) (list_node_components node_id s)"

definition kept_fields :: "manifest \<Rightarrow> node_component option \<Rightarrow> dict \<times> string \<times> string" where
  "kept_fields c existing =
     (case existing of
        Some e \<Rightarrow> (nc_config e, nc_installed_version e, nc_driver e)
      | None \<Rightarrow> ([], mf_version c, py_str (default_driver c)))"

definition uninstall_component ::
  "dict list \<Rightarrow> string \<Rightarrow> string \<Rightarrow> (nat \<Rightarrow> string) \<Rightarrow> (nat \<Rightarrow> time) \<Rightarrow> store
    \<Rightarrow> lifecycle_outcome result \<times> store" where
  "uninstall_component docs component_id node_id uid clk s =
     (case load_component_for_node docs component_id node_id s of
        (Inl e, s1) \<Rightarrow> (Inl e, s1)
      | (Inr (c, n), s1) \<Rightarrow>
          let plan = component_plan c node_id [] ''uninstall'' True
          in if component_action_requires_approval (mf_risk c) True
             then case request_component_action_approval c node_id ''uninstall'' plan [] [] uid clk s1 of
                    (Inl e, s2) \<Rightarrow> (Inl e, s2)
                  | (Inr (run, approval), s2) \<Rightarrow> (Inr (AwaitingApproval run approval), s2)
             else case record_component_run (mf_id c) node_id ''uninstall'' (mf_risk c) ''state_recorded'' plan
                      closed_loop ''hmn'' (uid 0) clk s1 of
                    (Inl e, s2) \<Rightarrow> (Inl e, s2)
                  | (Inr run, s2) \<Rightarrow>
                      let (config, installed_version, driver) = kept_fields c (existing_component node_id (mf_id c) s2)
                      in (Inr (Recorded run),
                          snd (set_node_component node_id (mf_id c) ''absent'' ''planned'' config installed_version driver
                            [] (cr_run_id run) None s2)))"

section \<open>Verification\<close>

text \<open>The flag of \<open>Verified\<close> is false where the command exits with status 1.\<close>

definition verify_monitor ::
  "manifest \<Rightarrow> string \<Rightarrow> dict \<Rightarrow> (nat \<Rightarrow> string) \<Rightarrow> (nat \<Rightarrow> time) \<Rightarrow> store
    \<Rightarrow> lifecycle_outcome result \<times> store" where
  "verify_monitor c node_id plan uid clk s =
     (let summary = monitor_summary s node_id;
          status = (if truthy (dget summary ''heartbeat_ok'') then ''ok'' else ''warn'')
      in case record_component_run (mf_id c) node_id ''verify'' (mf_risk c) status plan summary ''hmn'' (uid 0) clk s of
           (Inl e, s1) \<Rightarrow> (Inl e, s1)
         | (Inr run, s1) \<Rightarrow>
             let s2 = record_audit ''component.monitor'' ''component'' (mf_id c) ''verify'' status
                        (dmerge [(''node_id'', JStr node_id), (''run_id'', JStr (cr_run_id run))] summary) (clk 2) s1;
                 existing = existing_component node_id (mf_id c) s2;
                 (config, installed_version, driver) = kept_fields c existing;
                 desired = (case existing of Some e \<Rightarrow> nc_desired_state e | None \<Rightarrow> ''enabled'')
             in (Inr (Verified run (status = ''ok'')),
                 snd (set_node_component node_id (mf_id c) desired status config installed_version driver []
                   (cr_run_id run) (Some (clk 3)) s2)))"

definition verify_target :: "node \<Rightarrow> dict result" where
  "verify_target n =
     (case ssh_target_details_for_node n of
        Inr target \<Rightarrow>
          Inr [(''independent_from_apply'', JBool True),
               (''remote_check'', JStr (if tg_source target = ''network_ip'' then ''overlay_network'' else ''target_resolved'')),
               (''probe_target'', JStr (tg_host target)), (''target_source'', JStr (tg_source target)),
               (''network_provider'', JStr (nd_network_provider n)), (''network_online'', JBool (nd_network_online n)),
               (''message'', JStr ''component verification target resolved through node networking metadata'')]
      | Inl (ValueError _) \<Rightarrow>
          Inr [(''independent_from_apply'', JBool True), (''remote_check'', JStr ''not_enabled''),
               (''message'', JStr ''remote component verification target is not configured'')]
      | Inl e \<Rightarrow> Inl e)"

definition verify_component ::
  "dict list \<Rightarrow> string \<Rightarrow> string \<Rightarrow> (nat \<Rightarrow> string) \<Rightarrow> (nat \<Rightarrow> time) \<Rightarrow> store
    \<Rightarrow> lifecycle_outcome result \<times> store" where
  "verify_component docs component_id node_id uid clk s =
     (case load_component_for_node docs component_id node_id s of
        (Inl e, s1) \<Rightarrow> (Inl e, s1)
      | (Inr (c, n), s1) \<Rightarrow>
          let plan = component_plan c node_id [] ''verify'' False
          in if mf_id c = ''monitor'' then verify_monitor c node_id plan uid clk s1
             else case verify_target n of
               Inl e \<Rightarrow> (Inl e, s1)
             | Inr found \<Rightarrow>
                 (case record_component_run (mf_id c) node_id ''verify'' (mf_risk c) ''checked'' plan found ''hmn''
                     (uid 0) clk s1 of
                    (Inl e, s2) \<Rightarrow> (Inl e, s2)
                  | (Inr run, s2) \<Rightarrow>
                      (Inr (Verified run True),
                       record_audit (py_str (dget_or (mf_audit c) ''category'' (JStr ''component''))) ''component''
                         (mf_id c) ''verify'' ''checked''
                         (dmerge [(''node_id'', JStr node_id), (''run_id'', JStr (cr_run_id run))] found) (clk 2) s2)))"

section \<open>What the commands leave alone\<close>

lemma save_component_frame [frame_simps, simp]:
  "nodes (save_component c s) = nodes s"
  "node_components (save_component c s) = node_components s"
  "component_runs (save_component c s) = component_runs s"
  "approval_requests (save_component c s) = approval_requests s"
  "audit_events (save_component c s) = audit_events s"
  "tasks (save_component c s) = tasks s"
  by (simp_all add: save_component_def)

lemma save_components_frame:
  fixes cs :: catalogue
  shows "nodes (fold (\<lambda>(k, c). save_component c) cs s) = nodes s
    \<and> node_components (fold (\<lambda>(k, c). save_component c) cs s) = node_components s
    \<and> component_runs (fold (\<lambda>(k, c). save_component c) cs s) = component_runs s
    \<and> approval_requests (fold (\<lambda>(k, c). save_component c) cs s) = approval_requests s
    \<and> audit_events (fold (\<lambda>(k, c). save_component c) cs s) = audit_events s"
  by (induction cs arbitrary: s) auto

lemma load_component_for_node_frame:
  assumes "load_component_for_node docs component_id node_id s = (r, s1)"
  shows "nodes s1 = nodes s" "node_components s1 = node_components s" "component_runs s1 = component_runs s"
    "approval_requests s1 = approval_requests s" "audit_events s1 = audit_events s"
  using assms save_components_frame
  by (auto simp: load_component_for_node_def ensure_builtin_components_def split: sum.splits prod.splits option.splits if_splits)

lemma load_component_for_node_managed:
  assumes "load_component_for_node docs component_id node_id s = (Inr (c, n), s1)"
  shows "load_node s node_id = Some n" "nd_status n = ''managed''"
proof -
  have "load_node s1 node_id = Some n \<and> nd_status n = ''managed''"
    using assms
    by (auto simp: load_component_for_node_def split: sum.splits prod.splits option.splits if_splits)
  then show "load_node s node_id = Some n" "nd_status n = ''managed''"
    using load_component_for_node_frame(1) [OF assms] by (simp_all add: load_node_def)
qed

lemma record_component_run_Inr:
  assumes "record_component_run cid nid act risk st plan res by u clk s = (Inr run, s1)"
  shows "run = \<lparr>cr_run_id = ''crun_'' @ u, cr_component_id = cid, cr_node_id = nid, cr_action = act, cr_risk = risk,
            cr_status = st, cr_plan = plan, cr_result = res, cr_created_by = by, cr_created_at = clk 0,
            cr_completed_at = None\<rparr>"
    and "load_component_run s1 k = (if k = cr_run_id run then Some (cr_reread run) else load_component_run s k)"
    and "node_components s1 = node_components s" and "approval_requests s1 = approval_requests s"
    and "nodes s1 = nodes s"
proof -
  obtain s0 where ins: "insert_component_run run s = Inr s0"
    and run: "run = \<lparr>cr_run_id = ''crun_'' @ u, cr_component_id = cid, cr_node_id = nid, cr_action = act, cr_risk = risk,
            cr_status = st, cr_plan = plan, cr_result = res, cr_created_by = by, cr_created_at = clk 0,
            cr_completed_at = None\<rparr>"
    and s1: "s1 = record_audit ''component'' ''component'' cid act st
        [(''node_id'', JStr nid), (''run_id'', JStr (cr_run_id run)), (''risk'', JStr risk)] (clk 1) s0"
    using assms by (auto simp: record_component_run_def Let_def split: sum.splits)
  show "run = \<lparr>cr_run_id = ''crun_'' @ u, cr_component_id = cid, cr_node_id = nid, cr_action = act, cr_risk = risk,
            cr_status = st, cr_plan = plan, cr_result = res, cr_created_by = by, cr_created_at = clk 0,
            cr_completed_at = None\<rparr>" by (rule run)
  note s0 = insert_component_run_Inr [OF ins]
  show "load_component_run s1 k = (if k = cr_run_id run then Some (cr_reread run) else load_component_run s k)"
    by (simp add: s1 s0(3))
  show "node_components s1 = node_components s" "approval_requests s1 = approval_requests s" "nodes s1 = nodes s"
    by (simp_all add: s1 s0(1))
qed

lemma record_component_run_Inl:
  "record_component_run cid nid act risk st plan res by u clk s = (Inl e, s1) \<Longrightarrow> s1 = s"
  by (auto simp: record_component_run_def Let_def split: sum.splits)

lemma create_approval_request_frame [simp]:
  "node_components (snd (create_approval_request st sid act risk by d u clk s)) = node_components s"
  "component_runs (snd (create_approval_request st sid act risk by d u clk s)) = component_runs s"
  "nodes (snd (create_approval_request st sid act risk by d u clk s)) = nodes s"
  by (simp_all add: create_approval_request_def Let_def)

lemma load_created_approval:
  "load_approval_request (snd (create_approval_request st sid act risk by d u clk s)) k =
     (if k = ''appr_'' @ u then Some (ap_reread (fst (create_approval_request st sid act risk by d u clk s)))
      else load_approval_request s k)"
  by (simp add: create_approval_request_def Let_def load_approval_save)

section \<open>A request and its approval\<close>

definition requested_details :: "manifest \<Rightarrow> string \<Rightarrow> string \<Rightarrow> dict \<Rightarrow> string \<Rightarrow> dict" where
  "requested_details c node_id action config run_id =
     [(''action'', JStr action), (''run_id'', JStr run_id), (''component_id'', JStr (mf_id c)),
      (''node_id'', JStr node_id), (''config'', JObj config), (''version'', JStr (mf_version c)),
      (''driver'', JStr (py_str (default_driver c)))]"

lemma request_Inr:
  assumes "request_component_action_approval c nid act plan config rep uid clk s = (Inr (run, a), s2)"
  shows "load_component_run s2 k = (if k = cr_run_id run then Some (cr_reread run) else load_component_run s k)"
    and "load_approval_request s2 (ap_approval_id a) = Some (ap_reread a)"
    and "node_components s2 = node_components s"
    and "cr_component_id run = mf_id c" "cr_node_id run = nid" "cr_action run = act" "cr_risk run = mf_risk c"
      "cr_status run = ''pending_approval''"
    and "ap_status a = ''pending''" "ap_subject_type a = ''component_run''" "ap_subject_id a = cr_run_id run"
      "ap_action a = ''component.'' @ act" "ap_risk a = mf_risk c"
      "ap_details a = requested_details c nid act config (cr_run_id run)" "cr_run_id run \<noteq> []"
proof -
  let ?d = "requested_details c nid act config (cr_run_id run)"
  let ?create = "create_approval_request ''component_run'' (cr_run_id run) (''component.'' @ act) (mf_risk c) ''hmn'' ?d (uid 1)
      (\<lambda>k. clk (k + 2))"
  obtain st s1 where rec: "record_component_run (mf_id c) nid act (mf_risk c) ''pending_approval'' plan st ''hmn'' (uid 0) clk s
      = (Inr run, s1)" and a: "a = fst (?create s1)" and s2: "s2 = snd (?create s1)"
    using assms unfolding request_component_action_approval_def requested_details_def
    by (auto split: prod.splits sum.splits)
  note run = record_component_run_Inr [OF rec]
  have "component_runs s2 = component_runs s1" by (simp add: s2)
  then show "load_component_run s2 k = (if k = cr_run_id run then Some (cr_reread run) else load_component_run s k)"
    using run(2) load_component_run_cong by metis
  show "node_components s2 = node_components s" by (simp add: s2 run(3))
  have id: "ap_approval_id a = ''appr_'' @ uid 1" by (simp add: a create_approval_request_def Let_def)
  show "load_approval_request s2 (ap_approval_id a) = Some (ap_reread a)"
    unfolding id s2 load_created_approval by (simp only: a simp_thms if_True)
  show "ap_status a = ''pending''" "ap_subject_type a = ''component_run''" "ap_subject_id a = cr_run_id run"
    "ap_action a = ''component.'' @ act" "ap_risk a = mf_risk c" "ap_details a = ?d"
    by (simp_all add: a create_approval_request_def Let_def)
  show "cr_component_id run = mf_id c" "cr_node_id run = nid" "cr_action run = act" "cr_risk run = mf_risk c"
    "cr_status run = ''pending_approval''" "cr_run_id run \<noteq> []"
    by (simp_all add: run(1))
qed

lemma request_frame:
  "request_component_action_approval c nid act plan config rep uid clk s = (r, s2) \<Longrightarrow> node_components s2 = node_components s"
  by (auto simp: request_component_action_approval_def dest: record_component_run_Inl record_component_run_Inr(3)
      split: prod.splits sum.splits) (metis create_approval_request_frame(1) record_component_run_Inr(3) snd_conv)

lemma resolve_component_request:
  assumes "load_approval_request s k = Some a" and "ap_status a = ''pending''"
    and "ap_subject_type a = ''component_run''" and "startswith (ap_action a) ''component.''"
    and "load_component_run s (ap_subject_id a) = Some r"
    and "component_ready (ap_reread (decided a ''approved'' by (clk 0))) r"
  shows "snd (resolve_approval_request k ''approved'' by uid clk s)
    = commit_component_dispatch (ap_reread (decided a ''approved'' by (clk 0))) r (\<lambda>k. clk (k + 2))
        (record_decision a ''approved'' by clk s)"
proof -
  have id: "ap_approval_id a = k" using assms(1) by (rule load_approval_id)
  let ?s2 = "record_decision a ''approved'' by clk s"
  have "load_approval_request ?s2 k = Some (ap_reread (decided a ''approved'' by (clk 0)))"
    by (simp add: record_decision_load id)
  moreover have "load_component_run ?s2 (ap_subject_id (ap_reread (decided a ''approved'' by (clk 0)))) = Some r"
    using assms(5) load_component_run_cong [of ?s2 s] by (simp add: ap_reread_def decided_def)
  ultimately have "dispatch_approved_component_action k (\<lambda>k. clk (k + 2)) ?s2
      = (Some (recorded_run (ap_reread (decided a ''approved'' by (clk 0))) r (clk 2)),
         commit_component_dispatch (ap_reread (decided a ''approved'' by (clk 0))) r (\<lambda>k. clk (k + 2)) ?s2)"
    using dispatch_component_ready [OF _ _ assms(6), of ?s2 k "\<lambda>k. clk (k + 2)"] by (simp add: numeral_2_eq_2)
  moreover have "snd (resolve_approval_request k ''approved'' by uid clk s)
      = snd (dispatch_approved_component_action k (\<lambda>k. clk (k + 2)) ?s2)"
    using assms(1-4) by (simp add: resolve_approval_request_def snd_decide_loaded id Let_def)
  ultimately show ?thesis by simp
qed

lemma resolve_rejected:
  assumes "load_approval_request s k = Some a" and "ap_status a = ''pending''"
  shows "snd (resolve_approval_request k ''rejected'' by uid clk s) = record_decision a ''rejected'' by clk s"
  using assms by (simp add: resolve_approval_request_def snd_decide_loaded load_approval_id Let_def)

lemma request_ready:
  assumes "ap_subject_type a = ''component_run''" and "ap_subject_id a = cr_run_id r"
    and "ap_action a = ''component.'' @ cr_action r" and "ap_risk a = cr_risk r"
    and "ap_details a = requested_details c (cr_node_id r) (cr_action r) config (cr_run_id r)"
    and "cr_component_id r = mf_id c" and "cr_status r = ''pending_approval''" and "cr_action r \<in> {''apply'', ''uninstall''}"
  shows "component_ready (ap_reread (decided a ''approved'' by now)) (cr_reread r)"
proof -
  have "removeprefix (ap_action a) ''component.'' = cr_action r" "startswith (ap_action a) ''component.''"
    unfolding assms(3) by (rule removeprefix_append startswith_append)+
  then show ?thesis
    using assms
    by (auto simp: component_ready_def approval_mismatches_Nil approved_action_def ap_reread_def decided_def
        cr_reread_def dget_dict_sort requested_details_def str_or_def py_or_def)
qed

section \<open>What the commands write\<close>

lemma set_node_component_load:
  "load_node_component (snd (set_node_component n c d cs cfg v dr p r lv s)) =
     (load_node_component s)((n, c) \<mapsto>
        \<lparr>nc_node_id = n, nc_component_id = c, nc_desired_state = d, nc_current_state = cs, nc_config = dict_sort cfg,
         nc_installed_version = v, nc_driver = dr, nc_last_plan_id = p, nc_last_run_id = r, nc_last_verified_at = lv\<rparr>)"
  by (rule ext) (simp add: set_node_component_def Let_def load_node_component_save nc_key_def nc_reread_def)

lemma record_health_snapshot_frame:
  "record_health_snapshot nid h u clk s = (r, s') \<Longrightarrow> node_components s' = node_components s"
  by (auto simp: record_health_snapshot_def record_monitor_snapshot_def bind_result_def Let_def
      split: prod.splits sum.splits)

lemma apply_health_frame: "apply_health c nid uid clk s = (r, s') \<Longrightarrow> node_components s' = node_components s"
  by (auto simp: apply_health_def Let_def dest: record_health_snapshot_frame split: if_splits prod.splits sum.splits)

definition written_at_once :: "store \<Rightarrow> string \<Rightarrow> string \<Rightarrow> lifecycle_outcome result \<times> store \<Rightarrow> bool" where
  "written_at_once s nid desired out \<longleftrightarrow>
     (case out of (r, s') \<Rightarrow>
        (case r of
           Inr (Recorded run) \<Rightarrow>
             \<not> component_action_requires_approval (cr_risk run) True \<and> node_managed s nid
             \<and> (\<exists>row. load_node_component s' = (load_node_component s)((nid, cr_component_id run) \<mapsto> row)
                  \<and> nc_desired_state row = desired \<and> nc_last_run_id row = cr_run_id run)
         | _ \<Rightarrow> node_components s' = node_components s))"

lemma written_at_once_unchanged:
  "node_components s' = node_components s \<Longrightarrow> (\<And>run. r \<noteq> Inr (Recorded run)) \<Longrightarrow> written_at_once s nid d (r, s')"
  by (auto simp: written_at_once_def split: sum.split lifecycle_outcome.split)

lemma written_at_once_recorded:
  assumes "\<not> component_action_requires_approval (mf_risk c) True" and "node_managed s nid"
    and "record_component_run (mf_id c) nid act (mf_risk c) st plan res by u clk s2 = (Inr run, s3)"
    and "node_components s2 = node_components s"
  shows "written_at_once s nid d (Inr (Recorded run),
     snd (set_node_component nid (mf_id c) d cs cfg v dr p (cr_run_id run) lv s3))"
proof -
  note run = record_component_run_Inr [OF assms(3)]
  have "load_node_component s3 = load_node_component s"
    using run(3) assms(4) by (intro load_node_component_cong) simp
  moreover have "cr_component_id run = mf_id c" "cr_risk run = mf_risk c" by (simp_all add: run(1))
  ultimately show ?thesis using assms(1,2)
    by (simp add: written_at_once_def set_node_component_load) (rule exI, rule conjI, rule refl, simp)
qed

lemma apply_written: "written_at_once s nid ''enabled'' (apply_component docs cid nid sv uid clk s)"
proof -
  obtain r1 s1 where ld: "load_component_for_node docs cid nid s = (r1, s1)" by fastforce
  note frame = load_component_for_node_frame(2) [OF ld]
  show ?thesis
  proof (cases r1)
    case (Inl e)
    then show ?thesis using frame by (simp add: apply_component_def ld written_at_once_unchanged)
  next
    case (Inr cn)
    obtain c n where cn: "r1 = Inr (c, n)" using Inr by (cases cn) simp
    have managed: "node_managed s nid"
      using load_component_for_node_managed ld cn by (auto simp: node_managed_def)
    show ?thesis
    proof (cases "parse_key_values sv []")
      case (Inl e)
      then show ?thesis using frame cn by (simp add: apply_component_def ld written_at_once_unchanged)
    next
      case (Inr config)
      let ?plan = "component_plan c nid config ''apply'' True"
      show ?thesis
      proof (cases "component_action_requires_approval (mf_risk c) True")
        case True
        obtain r2 s2 where req: "request_component_action_approval c nid ''apply'' ?plan config [] uid clk s1 = (r2, s2)"
          by fastforce
        have "node_components s2 = node_components s" using request_frame [OF req] frame by simp
        then show ?thesis using True req
          by (auto simp: apply_component_def ld cn Inr Let_def intro!: written_at_once_unchanged split: sum.split)
      next
        case False
        obtain r2 s2 where h: "apply_health c nid uid clk s1 = (r2, s2)" by fastforce
        have f2: "node_components s2 = node_components s" using apply_health_frame [OF h] frame by simp
        show ?thesis
        proof (cases r2)
          case (Inl e)
          then show ?thesis using False h f2
            by (simp add: apply_component_def ld cn Inr Let_def written_at_once_unchanged)
        next
          case [simp]: (Inr ce)
          obtain cs ex where [simp]: "ce = (cs, ex)" by fastforce
          obtain r3 s3 where rec: "record_component_run (mf_id c) nid ''apply'' (mf_risk c) ''state_recorded'' ?plan
              (closed_loop @ ex) ''hmn'' (uid 0) clk s2 = (r3, s3)" by fastforce
          show ?thesis
          proof (cases r3)
            case (Inl e)
            moreover have "s3 = s2" using rec Inl by (auto dest: record_component_run_Inl)
            ultimately show ?thesis using False h f2 rec
              by (auto simp: apply_component_def ld cn \<open>parse_key_values sv [] = Inr config\<close> Let_def
                  intro!: written_at_once_unchanged)
          next
            case (Inr run)
            then show ?thesis using False h f2 rec written_at_once_recorded [OF False managed _ f2]
              by (simp add: apply_component_def ld cn \<open>parse_key_values sv [] = Inr config\<close> Let_def)
          qed
        qed
      qed
    qed
  qed
qed

lemma uninstall_written: "written_at_once s nid ''absent'' (uninstall_component docs cid nid uid clk s)"
proof -
  obtain r1 s1 where ld: "load_component_for_node docs cid nid s = (r1, s1)" by fastforce
  note frame = load_component_for_node_frame(2) [OF ld]
  show ?thesis
  proof (cases r1)
    case (Inl e)
    then show ?thesis using frame by (simp add: uninstall_component_def ld written_at_once_unchanged)
  next
    case (Inr cn)
    obtain c n where cn: "r1 = Inr (c, n)" using Inr by (cases cn) simp
    have managed: "node_managed s nid"
      using load_component_for_node_managed ld cn by (auto simp: node_managed_def)
    let ?plan = "component_plan c nid [] ''uninstall'' True"
    show ?thesis
    proof (cases "component_action_requires_approval (mf_risk c) True")
      case True
      obtain r2 s2 where req: "request_component_action_approval c nid ''uninstall'' ?plan [] [] uid clk s1 = (r2, s2)"
        by fastforce
      have "node_components s2 = node_components s" using request_frame [OF req] frame by simp
      then show ?thesis using True req
        by (auto simp: uninstall_component_def ld cn Let_def intro!: written_at_once_unchanged split: sum.split)
    next
      case False
      obtain r3 s3 where rec: "record_component_run (mf_id c) nid ''uninstall'' (mf_risk c) ''state_recorded'' ?plan
          closed_loop ''hmn'' (uid 0) clk s1 = (r3, s3)" by fastforce
      show ?thesis
      proof (cases r3)
        case (Inl e)
        moreover have "s3 = s1" using rec Inl by (auto dest: record_component_run_Inl)
        ultimately show ?thesis using False frame rec
          by (auto simp: uninstall_component_def ld cn Let_def intro!: written_at_once_unchanged)
      next
        case (Inr run)
        then show ?thesis using False rec written_at_once_recorded [OF False managed _ frame]
          by (simp add: uninstall_component_def ld cn Let_def split: prod.split)
      qed
    qed
  qed
qed

lemma apply_awaiting:
  assumes "apply_component docs cid nid sv uid clk s = (Inr (AwaitingApproval run a), s1)"
  obtains c n config s0 where "load_component_for_node docs cid nid s = (Inr (c, n), s0)"
    and "parse_key_values sv [] = Inr config" and "component_action_requires_approval (mf_risk c) True"
    and "request_component_action_approval c nid ''apply'' (component_plan c nid config ''apply'' True) config [] uid clk s0
      = (Inr (run, a), s1)"
  using assms
  by (auto simp: apply_component_def Let_def split: prod.splits sum.splits if_splits)

lemma requested_state:
  assumes "ap_details a = requested_details c (cr_node_id r) ''apply'' config (cr_run_id r)" and "cr_action r = ''apply''"
    and "cr_component_id r = mf_id c"
  shows "nc_reread (dispatched_state (ap_reread (decided a st by now)) (cr_reread r) s) =
    \<lparr>nc_node_id = cr_node_id r, nc_component_id = mf_id c, nc_desired_state = ''enabled'', nc_current_state = ''planned'',
     nc_config = dict_sort config, nc_installed_version = mf_version c, nc_driver = py_str (default_driver c),
     nc_last_plan_id = [], nc_last_run_id = cr_run_id r, nc_last_verified_at = None\<rparr>"
  using assms
  by (simp add: nc_reread_def dispatched_state_def approved_action_def ap_reread_def decided_def cr_reread_def Let_def
      dget_dict_sort requested_details_def dict_sort_idem str_or_def py_or_def)

section \<open>Properties\<close>

text \<open>C33: a high risk waits for a decision: \<open>apply\<close> and \<open>uninstall\<close> write a node's component state only for
  a manifest whose risk is neither high nor critical, on a managed node; in every other case, a
  request for approval and an error included, the state of all components is left as it was.\<close>

theorem component_change_needs_low_risk:
  "(case apply_component docs cid nid sv uid clk s of (r, s') \<Rightarrow>
      (case r of
         Inr (Recorded run) \<Rightarrow>
           \<not> component_action_requires_approval (cr_risk run) True \<and> node_managed s nid
           \<and> (\<exists>row. load_node_component s' = (load_node_component s)((nid, cr_component_id run) \<mapsto> row)
                \<and> nc_desired_state row = ''enabled'' \<and> nc_last_run_id row = cr_run_id run)
       | _ \<Rightarrow> node_components s' = node_components s))
   \<and> (case uninstall_component docs cid nid uid clk s of (r, s') \<Rightarrow>
      (case r of
         Inr (Recorded run) \<Rightarrow>
           \<not> component_action_requires_approval (cr_risk run) True \<and> node_managed s nid
           \<and> (\<exists>row. load_node_component s' = (load_node_component s)((nid, cr_component_id run) \<mapsto> row)
                \<and> nc_desired_state row = ''absent'' \<and> nc_last_run_id row = cr_run_id run)
       | _ \<Rightarrow> node_components s' = node_components s))"
  using apply_written [of s nid docs cid sv uid clk] uninstall_written [of s nid docs cid uid clk]
  unfolding written_at_once_def by blast

text \<open>C34: an approval carries out what was asked, and nothing else: when \<open>apply\<close> of a high-risk component
  files a request, approving it sets the node's component to exactly the manifest, version, driver and
  configuration of that command, marks its run \<open>state_recorded\<close> and touches no other component;
  rejecting it changes no component.\<close>

theorem approved_apply_takes_effect:
  assumes "apply_component docs cid nid sv uid clk s = (Inr (AwaitingApproval run a), s1)"
  shows "\<exists>c n config. fst (load_component_for_node docs cid nid s) = Inr (c, n)
    \<and> parse_key_values sv [] = Inr config \<and> component_action_requires_approval (mf_risk c) True
    \<and> (let s2 = snd (resolve_approval_request (ap_approval_id a) ''approved'' who u clk' s1)
       in load_node_component s2 = (load_node_component s)((nid, mf_id c) \<mapsto>
            \<lparr>nc_node_id = nid, nc_component_id = mf_id c, nc_desired_state = ''enabled'', nc_current_state = ''planned'',
             nc_config = dict_sort config, nc_installed_version = mf_version c,
             nc_driver = py_str (default_driver c), nc_last_plan_id = [], nc_last_run_id = cr_run_id run,
             nc_last_verified_at = None\<rparr>)
        \<and> map_option cr_status (load_component_run s2 (cr_run_id run)) = Some ''state_recorded'')
    \<and> node_components (snd (resolve_approval_request (ap_approval_id a) ''rejected'' who u clk' s1)) = node_components s"
proof -
  obtain c n config s0 where ld: "load_component_for_node docs cid nid s = (Inr (c, n), s0)"
    and cfg: "parse_key_values sv [] = Inr config" and risky: "component_action_requires_approval (mf_risk c) True"
    and req: "request_component_action_approval c nid ''apply'' (component_plan c nid config ''apply'' True) config [] uid clk s0
      = (Inr (run, a), s1)"
    using apply_awaiting [OF assms] by metis
  note rq = request_Inr [OF req]
  let ?k = "ap_approval_id a" and ?a' = "ap_reread a"
  have nc: "node_components s1 = node_components s"
    using rq(3) load_component_for_node_frame(2) [OF ld] by simp
  have reread: "ap_reread (decided ?a' st who now) = ap_reread (decided a st who now)" for st who now
    by (simp add: ap_reread_def decided_def dict_sort_idem)
  have ready: "component_ready (ap_reread (decided a ''approved'' who now)) (cr_reread run)" for who now
    using rq by (intro request_ready [where c = c and config = config]) auto
  let ?s2 = "snd (resolve_approval_request ?k ''approved'' who u clk' s1)"
  have s2: "?s2 = commit_component_dispatch (ap_reread (decided a ''approved'' who (clk' 0))) (cr_reread run)
      (\<lambda>k. clk' (k + 2)) (record_decision ?a' ''approved'' who clk' s1)"
    using resolve_component_request [OF rq(2), of "cr_reread run" who clk' u] rq ready
    by (simp add: reread) (simp add: ap_reread_def startswith_def)
  have run: "load_component_run (record_decision ?a' ''approved'' who clk' s1) (cr_run_id (cr_reread run)) = Some (cr_reread run)"
    using rq(1) load_component_run_cong [of "record_decision ?a' ''approved'' who clk' s1" s1] by simp
  have "load_node_component (record_decision ?a' ''approved'' who clk' s1) = load_node_component s"
    by (rule load_node_component_cong) (simp add: nc)
  moreover have "cr_node_id (cr_reread run) = nid" "cr_component_id (cr_reread run) = mf_id c"
    using rq by (simp_all add: cr_reread_def)
  ultimately have "load_node_component ?s2 = (load_node_component s)((nid, mf_id c) \<mapsto>
      nc_reread (dispatched_state (ap_reread (decided a ''approved'' who (clk' 0))) (cr_reread run)
        (record_decision ?a' ''approved'' who clk' s1)))"
    by (intro ext) (simp add: s2 commit_component_dispatch_load(2) [OF run])
  also have "nc_reread (dispatched_state (ap_reread (decided a ''approved'' who (clk' 0))) (cr_reread run)
        (record_decision ?a' ''approved'' who clk' s1)) =
      \<lparr>nc_node_id = nid, nc_component_id = mf_id c, nc_desired_state = ''enabled'', nc_current_state = ''planned'',
       nc_config = dict_sort config, nc_installed_version = mf_version c, nc_driver = py_str (default_driver c),
       nc_last_plan_id = [], nc_last_run_id = cr_run_id run, nc_last_verified_at = None\<rparr>"
    using requested_state [of a c run config] rq by simp
  moreover have "map_option cr_status (load_component_run ?s2 (cr_run_id run)) = Some ''state_recorded''"
    using commit_component_dispatch_load(1) [OF run] by (simp add: s2 cr_reread_def)
  moreover have "node_components (snd (resolve_approval_request ?k ''rejected'' who u clk' s1)) = node_components s"
    using resolve_rejected [OF rq(2)] rq(9) nc by (simp add: ap_reread_def)
  ultimately show ?thesis using ld cfg risky by (auto simp: Let_def)
qed

definition risky_docs :: "dict list" where
  "risky_docs = [dset sample_manifest_data ''risk'' (JStr ''high'')]"

lemma risky_apply_awaits:
  "case apply_component risky_docs ''proxy.caddy'' ''n1'' [''site=example.org''] (\<lambda>k. ''u'') (\<lambda>k. 7) sample_queue of
     (Inr (AwaitingApproval run a), s1) \<Rightarrow> True | _ \<Rightarrow> False"
  by code_simp

theorem approved_apply_takes_effect_witness:
  "case apply_component risky_docs ''proxy.caddy'' ''n1'' [''site=example.org''] (\<lambda>k. ''u'') (\<lambda>k. 7) sample_queue of
     (Inr (AwaitingApproval run a), s1) \<Rightarrow>
       (\<exists>cid row. load_node_component (snd (resolve_approval_request (ap_approval_id a) ''approved'' ''ops'' ''t'' (\<lambda>k. 9) s1))
            (''n1'', cid) = Some row \<and> nc_config row = [(''site'', JStr ''example.org'')])
   | _ \<Rightarrow> False"
proof -
  obtain run a s1 where out: "apply_component risky_docs ''proxy.caddy'' ''n1'' [''site=example.org''] (\<lambda>k. ''u'') (\<lambda>k. 7) sample_queue
      = (Inr (AwaitingApproval run a), s1)"
    using risky_apply_awaits by (auto split: prod.splits sum.splits lifecycle_outcome.splits)
  obtain c n config where config: "parse_key_values [''site=example.org''] [] = Inr config"
    and eff: "let s2 = snd (resolve_approval_request (ap_approval_id a) ''approved'' ''ops'' ''t'' (\<lambda>k. 9) s1)
       in load_node_component s2 = (load_node_component sample_queue)((''n1'', mf_id c) \<mapsto>
            \<lparr>nc_node_id = ''n1'', nc_component_id = mf_id c, nc_desired_state = ''enabled'', nc_current_state = ''planned'',
             nc_config = dict_sort config, nc_installed_version = mf_version c,
             nc_driver = py_str (default_driver c), nc_last_plan_id = [], nc_last_run_id = cr_run_id run,
             nc_last_verified_at = None\<rparr>)"
    using approved_apply_takes_effect [OF out, of "''ops''" "''t''" "\<lambda>k. 9"] by (auto simp: Let_def)
  have "config = [(''site'', JStr ''example.org'')]" using config by (simp add: dset_def)
  then have "dict_sort config = [(''site'', JStr ''example.org'')]" by (simp add: dict_sort_def)
  with eff out show ?thesis by (auto simp: Let_def)
qed

end
