(* ===== verification/Tokens.thy ===== *)
theory Tokens imports AuditLog begin

text \<open>
  Join tokens: the in-memory \<open>JoinTokenStore\<close> of \<open>tokens.py\<close>, the token table of \<open>SQLiteStore\<close> and the
  operator commands \<open>token create\<close>, \<open>token expire\<close> and \<open>token revoke\<close>.  \<open>consume_token\<close> reads the token
  in one transaction and writes it in a second one; \<open>consume_loaded\<close> is what happens between the two,
  so that both the sequential operation and its interleavings (\<open>consume_step\<close>) are made of the same
  parts.
\<close>

section \<open>The in-memory token store\<close>

definition VALID_TRUST_LEVELS :: "string list" where
  "VALID_TRUST_LEVELS = [''A'', ''B'', ''C'']"

definition new_token :: "string \<Rightarrow> string \<Rightarrow> string list \<Rightarrow> time \<Rightarrow> time \<Rightarrow> join_token" where
  "new_token value trust_level labels created_at expires_at =
     \<lparr>jt_value = value, jt_trust_level = trust_level, jt_labels = labels, jt_expires_at = expires_at,
      jt_status = ''pending'', jt_created_at = created_at, jt_used_at = None, jt_node_fingerprint = None\<rparr>"

type_synonym token_store = "string \<rightharpoonup> join_token"

text \<open>\<open>rand\<close> is the draw of \<open>token_urlsafe(24)\<close>.\<close>

definition token_create ::
  "string \<Rightarrow> string list \<Rightarrow> time \<Rightarrow> string \<Rightarrow> time \<Rightarrow> token_store \<Rightarrow> join_token result \<times> token_store" where
  "token_create trust_level labels ttl rand now m =
     (if trust_level \<notin> set VALID_TRUST_LEVELS
      then (Inl (ValueError ''trust_level must be one of A, B, C''), m)
      else let t = new_token (''j_'' @ rand) trust_level labels now (now + ttl)
           in (Inr t, m(jt_value t \<mapsto> t)))"

definition token_get :: "string \<Rightarrow> time \<Rightarrow> token_store \<Rightarrow> join_token option \<times> token_store" where
  "token_get value now m =
     (case m value of
        None \<Rightarrow> (None, m)
      | Some t \<Rightarrow>
          if jt_status t = ''pending'' \<and> now > jt_expires_at t
          then let t' = t\<lparr>jt_status := ''expired''\<rparr> in (Some t', m(value \<mapsto> t'))
          else (Some t, m))"

text \<open>\<open>now\<close> is the clock reading of \<open>get\<close>, \<open>used\<close> the later one that stamps \<open>used_at\<close>.\<close>

definition token_consume ::
  "string \<Rightarrow> string \<Rightarrow> time \<Rightarrow> time \<Rightarrow> token_store \<Rightarrow> join_token option \<times> token_store" where
  "token_consume value node_fingerprint now used m =
     (case token_get value now m of
        (None, m') \<Rightarrow> (None, m')
      | (Some t, m') \<Rightarrow>
          if jt_status t \<noteq> ''pending'' then (None, m')
          else let t' = t\<lparr>jt_status := ''used'', jt_used_at := Some used,
                          jt_node_fingerprint := Some node_fingerprint\<rparr>
               in (Some t', m'(value \<mapsto> t')))"

section \<open>The token table\<close>

definition save_token :: "join_token \<Rightarrow> store \<Rightarrow> store" where
  "save_token t s = s\<lparr>join_tokens := tbl_upsert jt_value replace_row t (join_tokens s)\<rparr>"

definition load_token :: "store \<Rightarrow> string \<Rightarrow> join_token option" where
  "load_token s value = tbl_find jt_value value (join_tokens s)"

definition consume_loaded ::
  "join_token option \<Rightarrow> string \<Rightarrow> time \<Rightarrow> store \<Rightarrow> join_token option \<times> store" where
  "consume_loaded loaded node_fingerprint now s =
     (case loaded of
        None \<Rightarrow> (None, s)
      | Some t \<Rightarrow>
          if jt_status t = ''pending'' \<and> now > jt_expires_at t
          then (None, save_token (t\<lparr>jt_status := ''expired''\<rparr>) s)
          else if jt_status t \<noteq> ''pending'' then (None, s)
          else let t' = t\<lparr>jt_status := ''used'', jt_used_at := Some now,
                          jt_node_fingerprint := Some node_fingerprint\<rparr>
               in (Some t', save_token t' s))"

definition consume_token :: "string \<Rightarrow> string \<Rightarrow> time \<Rightarrow> store \<Rightarrow> join_token option \<times> store" where
  "consume_token value node_fingerprint now s =
     consume_loaded (load_token s value) node_fingerprint now s"

definition expire_pending_tokens :: "time \<Rightarrow> store \<Rightarrow> string list \<times> store" where
  "expire_pending_tokens now s =
     (let rows = order_desc jt_created_at
                   (filter (\<lambda>t. jt_status t = ''pending'' \<and> jt_expires_at t < now) (join_tokens s));
          values = map jt_value rows
      in (values,
          s\<lparr>join_tokens := fold (\<lambda>v. tbl_update jt_value v (\<lambda>t. t\<lparr>jt_status := ''expired''\<rparr>))
                            values (join_tokens s)\<rparr>))"

definition list_tokens :: "time \<Rightarrow> store \<Rightarrow> join_token list \<times> store" where
  "list_tokens now s =
     (let s' = snd (expire_pending_tokens now s)
      in (List.map_filter (\<lambda>t. load_token s' (jt_value t)) (order_desc jt_created_at (join_tokens s')), s'))"

section \<open>Operator commands\<close>

text \<open>\<open>clk k\<close> is the k-th reading of the clock: the token's \<open>created_at\<close>, then the audit event's.\<close>

definition create_token_command ::
  "string \<Rightarrow> string list \<Rightarrow> int \<Rightarrow> string \<Rightarrow> (nat \<Rightarrow> time) \<Rightarrow> store \<Rightarrow> string result \<times> store" where
  "create_token_command trust_level labels ttl_minutes rand clk s =
     (case fst (token_create trust_level labels (seconds (60 * ttl_minutes)) rand (clk 0) Map.empty) of
        Inl e \<Rightarrow> (Inl e, s)
      | Inr t \<Rightarrow>
          (Inr (jt_value t),
           record_audit ''token'' ''join_token'' (jt_value t) ''create'' ''ok''
             [(''trust_level'', JStr (jt_trust_level t)), (''labels'', JList (map JStr (jt_labels t))),
              (''ttl_minutes'', JInt ttl_minutes)]
             (clk 1) (save_token t s)))"

fun audit_expired :: "string list \<Rightarrow> (nat \<Rightarrow> time) \<Rightarrow> store \<Rightarrow> store" where
  "audit_expired [] clk s = s"
| "audit_expired (v # vs) clk s =
     audit_expired vs (\<lambda>k. clk (Suc k))
       (record_audit ''token'' ''join_token'' v ''expire'' ''ok'' [] (clk 0) s)"

definition expire_tokens_command :: "(nat \<Rightarrow> time) \<Rightarrow> store \<Rightarrow> string list \<times> store" where
  "expire_tokens_command clk s =
     (let (values, s') = expire_pending_tokens (clk 0) s
      in (values, audit_expired values (\<lambda>k. clk (Suc k)) s'))"

definition revoke_token_command :: "string \<Rightarrow> time \<Rightarrow> store \<Rightarrow> bool \<times> store" where
  "revoke_token_command value now s =
     (case load_token s value of
        None \<Rightarrow> (False, s)
      | Some t \<Rightarrow>
          (True, record_audit ''token'' ''join_token'' (jt_value t) ''revoke'' ''ok'' [] now
                   (save_token (t\<lparr>jt_status := ''revoked''\<rparr>) s)))"

section \<open>Lookups and frames\<close>

lemma load_token_save [table_simps]:
  "load_token (save_token t s) v = (if v = jt_value t then Some t else load_token s v)"
  by (simp add: load_token_def save_token_def tbl_find_upsert_replace)

lemma save_token_frame [frame_simps, simp]:
  "nodes (save_token t s) = nodes s"
  "audit_events (save_token t s) = audit_events s"
  "tasks (save_token t s) = tasks s"
  "approval_requests (save_token t s) = approval_requests s"
  "notifications (save_token t s) = notifications s"
  "node_components (save_token t s) = node_components s"
  "component_runs (save_token t s) = component_runs s"
  by (simp_all add: save_token_def)

lemma load_token_cong: "join_tokens s' = join_tokens s \<Longrightarrow> load_token s' = load_token s"
  by (simp add: load_token_def fun_eq_iff)

lemma load_token_audit [simp]: "load_token (record_audit et st sid act out d now s) = load_token s"
  by (rule load_token_cong) simp

lemma load_token_value: "load_token s v = Some t \<Longrightarrow> jt_value t = v"
  by (auto simp: load_token_def dest: tbl_find_Some)

lemma save_token_keys: "store_keys_ok s \<Longrightarrow> store_keys_ok (save_token t s)"
  by (auto simp: store_keys_ok_def save_token_def replace_row_def intro!: keys_distinct_upsert)

interpretation token_table: keyed_store load_token save_token jt_value id
  by unfold_locales (simp add: load_token_save)

section \<open>Consuming\<close>

lemma consume_token_load:
  "load_token (snd (consume_token v fp now s)) w =
     (if w = v then
        (case load_token s v of
           None \<Rightarrow> None
         | Some t \<Rightarrow>
             Some (if jt_status t \<noteq> ''pending'' then t
                   else if now > jt_expires_at t then t\<lparr>jt_status := ''expired''\<rparr>
                   else t\<lparr>jt_status := ''used'', jt_used_at := Some now, jt_node_fingerprint := Some fp\<rparr>))
      else load_token s w)"
  using load_token_value [of s v]
  by (auto simp: consume_token_def consume_loaded_def Let_def table_simps split: option.splits)

lemma consume_token_result:
  "fst (consume_token v fp now s) =
     (case load_token s v of
        None \<Rightarrow> None
      | Some t \<Rightarrow>
          if jt_status t = ''pending'' \<and> now \<le> jt_expires_at t
          then Some (t\<lparr>jt_status := ''used'', jt_used_at := Some now, jt_node_fingerprint := Some fp\<rparr>)
          else None)"
  by (auto simp: consume_token_def consume_loaded_def Let_def split: option.splits)

lemma consume_loaded_frame [frame_simps, simp]:
  "nodes (snd (consume_loaded l fp now s)) = nodes s"
  "audit_events (snd (consume_loaded l fp now s)) = audit_events s"
  "tasks (snd (consume_loaded l fp now s)) = tasks s"
  "approval_requests (snd (consume_loaded l fp now s)) = approval_requests s"
  by (auto simp: consume_loaded_def Let_def split: option.splits)

lemma consume_token_frame [frame_simps, simp]:
  "nodes (snd (consume_token v fp now s)) = nodes s"
  "audit_events (snd (consume_token v fp now s)) = audit_events s"
  "tasks (snd (consume_token v fp now s)) = tasks s"
  "approval_requests (snd (consume_token v fp now s)) = approval_requests s"
  by (simp_all add: consume_token_def)

lemma consume_token_keys: "store_keys_ok s \<Longrightarrow> store_keys_ok (snd (consume_token v fp now s))"
  by (auto simp: consume_token_def consume_loaded_def Let_def save_token_keys split: option.splits)

text \<open>With one clock reading the table and the in-memory store consume alike.\<close>

lemma consume_token_refines:
  "token_consume v fp now now (load_token s)
    = (fst (consume_token v fp now s), load_token (snd (consume_token v fp now s)))"
proof (cases "load_token s v")
  case None
  then show ?thesis
    by (auto simp: token_consume_def token_get_def consume_token_def consume_loaded_def)
next
  case (Some t)
  have "load_token (snd (consume_token v fp now s)) = snd (token_consume v fp now now (load_token s))"
    by (rule ext) (simp add: Some token_consume_def token_get_def consume_token_load Let_def)
  moreover have "fst (consume_token v fp now s) = fst (token_consume v fp now now (load_token s))"
    by (simp add: Some token_consume_def token_get_def consume_token_result Let_def)
  ultimately show ?thesis by simp
qed

section \<open>Expiry\<close>

definition expire_token_row :: "time \<Rightarrow> join_token \<Rightarrow> join_token" where
  "expire_token_row now t = (if jt_status t = ''pending'' \<and> jt_expires_at t < now
                       then t\<lparr>jt_status := ''expired''\<rparr> else t)"

lemma fold_update_find:
  "tbl_find jt_value w (fold (\<lambda>v. tbl_update jt_value v (\<lambda>t. t\<lparr>jt_status := ''expired''\<rparr>)) vs rows)
    = (if w \<in> set vs then map_option (\<lambda>t. t\<lparr>jt_status := ''expired''\<rparr>) (tbl_find jt_value w rows)
       else tbl_find jt_value w rows)"
  by (induction vs arbitrary: rows) (auto simp: tbl_find_update option.map_comp o_def)

lemma expire_pending_tokens_table:
  "join_tokens (snd (expire_pending_tokens now s))
    = fold (\<lambda>v. tbl_update jt_value v (\<lambda>t. t\<lparr>jt_status := ''expired''\<rparr>))
        (fst (expire_pending_tokens now s)) (join_tokens s)"
  by (simp add: expire_pending_tokens_def Let_def)

lemma set_expired_values:
  "set (fst (expire_pending_tokens now s))
    = jt_value ` {u. u \<in> set (join_tokens s) \<and> jt_status u = ''pending'' \<and> jt_expires_at u < now}"
  by (simp add: expire_pending_tokens_def Let_def order_desc_def)

lemma expire_pending_tokens_load:
  assumes "keys_distinct jt_value (join_tokens s)"
  shows "load_token (snd (expire_pending_tokens now s)) w = map_option (expire_token_row now) (load_token s w)"
proof (cases "load_token s w")
  case None
  then show ?thesis by (simp add: expire_pending_tokens_def Let_def load_token_def fold_update_find)
next
  case (Some t)
  then have t: "t \<in> set (join_tokens s)" "jt_value t = w"
    by (auto simp: load_token_def dest: tbl_find_Some)
  have same: "u = t" if "u \<in> set (join_tokens s)" "jt_value u = w" for u
    using keys_distinct_find [OF assms that(1)] keys_distinct_find [OF assms t(1)] that(2) t(2) by simp
  let ?vs = "fst (expire_pending_tokens now s)"
  have vs: "w \<in> set ?vs \<longleftrightarrow> jt_status t = ''pending'' \<and> jt_expires_at t < now"
    unfolding set_expired_values using t same by blast
  have "load_token (snd (expire_pending_tokens now s)) w =
      (if w \<in> set ?vs then map_option (\<lambda>t. t\<lparr>jt_status := ''expired''\<rparr>) (load_token s w) else load_token s w)"
    by (simp add: load_token_def expire_pending_tokens_table fold_update_find)
  then show ?thesis unfolding vs Some by (simp add: expire_token_row_def)
qed

lemma fold_update_keys:
  "keys_distinct jt_value rows \<Longrightarrow>
   keys_distinct jt_value (fold (\<lambda>v. tbl_update jt_value v (\<lambda>t. t\<lparr>jt_status := ''expired''\<rparr>)) vs rows)"
  by (induction vs arbitrary: rows) (auto simp: keys_distinct_update)

lemma expire_pending_tokens_keys: "store_keys_ok s \<Longrightarrow> store_keys_ok (snd (expire_pending_tokens now s))"
  by (auto simp: store_keys_ok_def expire_pending_tokens_def Let_def fold_update_keys)

lemma audit_expired_frame [simp]:
  "join_tokens (audit_expired vs clk s) = join_tokens s"
  "nodes (audit_expired vs clk s) = nodes s"
  "tasks (audit_expired vs clk s) = tasks s"
  "approval_requests (audit_expired vs clk s) = approval_requests s"
  by (induction vs arbitrary: clk s) simp_all

section \<open>A token is spent once\<close>

text \<open>
  The operations on existing tokens, run one after the other.  A token whose status is not
  \<open>pending\<close> never becomes pending again, so no later \<open>consume_token\<close> succeeds on it.
\<close>

datatype token_op =
    Consume string string time
  | Expire time
  | ListTokens time
  | Revoke string time

fun token_op_run :: "token_op \<Rightarrow> store \<Rightarrow> store" where
  "token_op_run (Consume v fp now) s = snd (consume_token v fp now s)"
| "token_op_run (Expire now) s = snd (expire_pending_tokens now s)"
| "token_op_run (ListTokens now) s = snd (list_tokens now s)"
| "token_op_run (Revoke v now) s = snd (revoke_token_command v now s)"

definition spent :: "string \<Rightarrow> store \<Rightarrow> bool" where
  "spent v s \<longleftrightarrow> (\<exists>t. load_token s v = Some t \<and> jt_status t \<noteq> ''pending'')"

lemma token_op_keys: "store_keys_ok s \<Longrightarrow> store_keys_ok (token_op_run op s)"
  by (cases op) (auto simp: consume_token_keys expire_pending_tokens_keys list_tokens_def Let_def
      revoke_token_command_def save_token_keys split: option.splits)

text \<open>A token keeps its grant; its status may only leave \<open>pending\<close>.\<close>

definition token_evolves :: "join_token \<Rightarrow> join_token \<Rightarrow> bool" where
  "token_evolves t t' \<longleftrightarrow>
     jt_value t' = jt_value t \<and> jt_trust_level t' = jt_trust_level t \<and> jt_labels t' = jt_labels t
     \<and> jt_expires_at t' = jt_expires_at t \<and> jt_created_at t' = jt_created_at t
     \<and> (jt_status t' = ''pending'' \<longrightarrow> t' = t)"

lemma token_evolves_refl: "token_evolves t t"
  by (simp add: token_evolves_def)

lemma token_evolves_step:
  assumes "store_keys_ok s" and "load_token s v = Some t"
  shows "\<exists>t'. load_token (token_op_run op s) v = Some t' \<and> token_evolves t t'"
proof -
  have kd: "keys_distinct jt_value (join_tokens s)" using assms(1) by (simp add: store_keys_ok_def)
  show ?thesis
    using assms(2) kd by (cases op)
      (auto simp: consume_token_load expire_pending_tokens_load list_tokens_def Let_def
        expire_token_row_def revoke_token_command_def table_simps token_evolves_def load_token_value
        split: option.splits)
qed

interpretation token_life: row_machine load_token token_op_run token_evolves store_keys_ok
proof unfold_locales
  show "token_evolves r r" for r by (rule token_evolves_refl)
  show "token_evolves r r' \<Longrightarrow> token_evolves r' r'' \<Longrightarrow> token_evolves r r''" for r r' r''
    by (auto simp: token_evolves_def)
  show "store_keys_ok s \<Longrightarrow> store_keys_ok (token_op_run i s)" for s i by (rule token_op_keys)
  show "store_keys_ok s \<Longrightarrow> load_token s k = Some r \<Longrightarrow>
      \<exists>r'. load_token (token_op_run i s) k = Some r' \<and> token_evolves r r'" for s k r i
    by (rule token_evolves_step)
qed

lemma spent_run: "store_keys_ok s \<Longrightarrow> spent v s \<Longrightarrow> spent v (fold token_op_run ops s)"
  by (auto simp: spent_def token_evolves_def dest!: token_life.run_evolves [of s v _ ops])

lemma spent_not_consumed: "spent v s \<Longrightarrow> fst (consume_token v fp now s) = None"
  by (auto simp: spent_def consume_token_result)

lemma consumed_spent: "fst (consume_token v fp now s) \<noteq> None \<Longrightarrow> spent v (snd (consume_token v fp now s))"
  by (auto simp: spent_def consume_token_load consume_token_result split: option.splits if_splits)

section \<open>Two requests at once\<close>

text \<open>
  \<open>consume_token\<close> opens one connection to read and another to write.  Two requests for the same
  token can therefore both read it while it is pending.  A request is idle, has read, or is done.
\<close>

datatype consumer =
    Waiting
  | Holding "join_token option"
  | Finished "join_token option"

inductive consume_step ::
  "string \<Rightarrow> store \<times> (nat \<Rightarrow> consumer) \<Rightarrow> store \<times> (nat \<Rightarrow> consumer) \<Rightarrow> bool"
  for v :: string where
  read: "c i = Waiting \<Longrightarrow> consume_step v (s, c) (s, c(i := Holding (load_token s v)))"
| finish: "c i = Holding t \<Longrightarrow> consume_loaded t fp now s = (r, s') \<Longrightarrow>
     consume_step v (s, c) (s', c(i := Finished r))"

inductive_cases consume_stepE: "consume_step v (s, c) (s', c')"

text \<open>An uninterrupted pair of steps is the operation itself.\<close>

lemma consume_step_sequential:
  assumes "c i = Waiting" and "consume_token v fp now s = (r, s')"
  shows "(consume_step v)\<^sup>*\<^sup>* (s, c) (s', c(i := Finished r))"
proof -
  let ?c = "c(i := Holding (load_token s v))"
  have "consume_step v (s, c) (s, ?c)" using assms(1) by (rule consume_step.read)
  moreover have "consume_step v (s, ?c) (s', ?c(i := Finished r))"
    using assms(2) by (intro consume_step.finish) (simp_all add: consume_token_def)
  ultimately show ?thesis by simp
qed

lemma consume_race:
  assumes "load_token s v = Some t" and "jt_status t = ''pending''"
    and "now1 \<le> jt_expires_at t" and "now2 \<le> jt_expires_at t"
  shows "\<exists>s' c' t1 t2. (consume_step v)\<^sup>*\<^sup>* (s, \<lambda>_. Waiting) (s', c')
      \<and> c' 0 = Finished (Some t1) \<and> c' 1 = Finished (Some t2)
      \<and> jt_node_fingerprint t1 = Some fp1 \<and> jt_node_fingerprint t2 = Some fp2"
proof -
  define used where "used = (\<lambda>fp now. t\<lparr>jt_status := ''used'', jt_used_at := Some now,
      jt_node_fingerprint := Some fp\<rparr>)"
  let ?c0 = "(\<lambda>_. Waiting)(0 := Holding (Some t), Suc 0 := Holding (Some t))"
  have wr: "consume_loaded (Some t) fp now r = (Some (used fp now), save_token (used fp now) r)"
    if "now \<le> jt_expires_at t" for fp now r
    using that assms(2) by (simp add: consume_loaded_def used_def Let_def)
  have rd: "consume_step v (s, c) (s, c(i := Holding (Some t)))" if "c i = Waiting" for c i
    using consume_step.read [of c i v s] that assms(1) by simp
  have s1: "consume_step v (s, \<lambda>_. Waiting) (s, (\<lambda>_. Waiting)(0 := Holding (Some t)))"
    by (rule rd) simp
  have s2: "consume_step v (s, (\<lambda>_. Waiting)(0 := Holding (Some t))) (s, ?c0)"
    by (rule rd) simp
  have s3: "consume_step v (s, ?c0)
      (save_token (used fp1 now1) s, ?c0(0 := Finished (Some (used fp1 now1))))"
    by (rule consume_step.finish [OF _ wr [OF assms(3)]]) simp
  have s4: "consume_step v (save_token (used fp1 now1) s, ?c0(0 := Finished (Some (used fp1 now1))))
      (save_token (used fp2 now2) (save_token (used fp1 now1) s),
       ?c0(0 := Finished (Some (used fp1 now1)), Suc 0 := Finished (Some (used fp2 now2))))"
    by (rule consume_step.finish [OF _ wr [OF assms(4)]]) simp
  have "(consume_step v)\<^sup>*\<^sup>* (s, \<lambda>_. Waiting)
      (save_token (used fp2 now2) (save_token (used fp1 now1) s),
       ?c0(0 := Finished (Some (used fp1 now1)), Suc 0 := Finished (Some (used fp2 now2))))"
    using s1 s2 s3 s4 by (meson rtranclp.rtrancl_into_rtrancl rtranclp.rtrancl_refl)
  moreover have "jt_node_fingerprint (used fp now) = Some fp" for fp now
    by (simp add: used_def)
  ultimately show ?thesis
    by (metis (no_types, lifting) One_nat_def fun_upd_apply zero_neq_one)
qed

section \<open>Properties\<close>

definition sample_token :: join_token where
  "sample_token = new_token ''j_abc'' ''A'' [''edge''] 0 100"

definition sample_tokens :: store where
  "sample_tokens = save_token sample_token empty_store"

lemma sample_tokens_keys: "store_keys_ok sample_tokens"
  by (simp add: sample_tokens_def save_token_keys store_keys_ok_empty)

text \<open>What \<open>consume_token\<close> does: a pending token that has not expired is used up and bound to the
  node's fingerprint; a pending token past its expiry becomes expired; every other token, and every
  unknown value, is refused without a change.\<close>

theorem consume_token_spec:
  "case load_token s v of
      None \<Rightarrow> consume_token v fp now s = (None, s)
    | Some t \<Rightarrow>
        if jt_status t \<noteq> ''pending'' then consume_token v fp now s = (None, s)
        else if jt_expires_at t < now
        then fst (consume_token v fp now s) = None
          \<and> load_token (snd (consume_token v fp now s)) = (load_token s)(v \<mapsto> t\<lparr>jt_status := ''expired''\<rparr>)
        else (let t' = t\<lparr>jt_status := ''used'', jt_used_at := Some now, jt_node_fingerprint := Some fp\<rparr>
          in fst (consume_token v fp now s) = Some t'
            \<and> load_token (snd (consume_token v fp now s)) = (load_token s)(v \<mapsto> t'))"
  by (auto simp: consume_token_def consume_loaded_def Let_def load_token_save fun_eq_iff
      load_token_value split: option.splits)

text \<open>One request after the other, a join token admits at most one node: once it has been consumed,
  no run of consumptions, expiries, listings and revocations makes it usable again.\<close>

theorem token_admits_one_node:
  assumes "store_keys_ok s" and "consume_token v fp now s = (Some t, s1)"
  shows "fst (consume_token v fp' now' (fold token_op_run ops s1)) = None"
proof -
  have "fst (consume_token v fp now s) \<noteq> None" using assms(2) by simp
  then have "spent v s1" using consumed_spent [of v fp now s] assms(2) by simp
  moreover have "store_keys_ok s1" using consume_token_keys [OF assms(1), of v fp now] assms(2) by simp
  ultimately show ?thesis by (intro spent_not_consumed spent_run)
qed

lemma token_admits_one_node_witness:
  "fst (consume_token ''j_abc'' ''fp2'' 9 (fold token_op_run [Expire 8, Consume ''j_abc'' ''fp2'' 8]
      (snd (consume_token ''j_abc'' ''fp1'' 7 sample_tokens)))) = None"
proof -
  have "consume_token ''j_abc'' ''fp1'' 7 sample_tokens
      = (Some (the (fst (consume_token ''j_abc'' ''fp1'' 7 sample_tokens))),
         snd (consume_token ''j_abc'' ''fp1'' 7 sample_tokens))" by code_simp
  from token_admits_one_node [OF sample_tokens_keys this] show ?thesis .
qed

text \<open>C39: two requests at once can both be admitted with one token: \<open>consume_token\<close> reads and writes in
  separate transactions, so two joins that both read the pending token both consume it.\<close>

theorem concurrent_joins_share_token:
  assumes "load_token s v = Some t" and "jt_status t = ''pending''"
    and "now1 \<le> jt_expires_at t" and "now2 \<le> jt_expires_at t"
  shows "\<exists>s' c' t1 t2. (consume_step v)\<^sup>*\<^sup>* (s, \<lambda>_. Waiting) (s', c')
      \<and> c' 0 = Finished (Some t1) \<and> c' 1 = Finished (Some t2)
      \<and> jt_node_fingerprint t1 = Some fp1 \<and> jt_node_fingerprint t2 = Some fp2"
  using assms by (rule consume_race)

lemma concurrent_joins_share_token_witness:
  "\<exists>s' c' t1 t2. (consume_step ''j_abc'')\<^sup>*\<^sup>* (sample_tokens, \<lambda>_. Waiting) (s', c')
      \<and> c' 0 = Finished (Some t1) \<and> c' 1 = Finished (Some t2)
      \<and> jt_node_fingerprint t1 = Some ''fp1'' \<and> jt_node_fingerprint t2 = Some ''fp2''"
proof -
  have "load_token sample_tokens ''j_abc'' = Some sample_token" by code_simp
  then show ?thesis
    by (rule concurrent_joins_share_token [of _ _ _ 7 8])
      (simp_all add: sample_token_def new_token_def)
qed

end
