(* ===== verification/Notifications.thy ===== *)
theory Notifications imports Approvals begin

text \<open>
  The outbox of \<open>SQLiteStore\<close> (\<open>enqueue_notification\<close>, \<open>list_notifications\<close>,
  \<open>mark_notification_delivered\<close>) and the approval cards of \<open>approval_notifications.py\<close>: the text with
  its redacted command, the two buttons, and the parser of what a button sends back.
\<close>

section \<open>The outbox\<close>

definition nt_reread :: "notification \<Rightarrow> notification" where
  "nt_reread n = n\<lparr>nt_payload := dict_sort (nt_payload n)\<rparr>"

definition enqueue_notification ::
  "string \<Rightarrow> string \<Rightarrow> string \<Rightarrow> dict \<Rightarrow> string \<Rightarrow> time \<Rightarrow> store \<Rightarrow> notification result \<times> store" where
  "enqueue_notification channel subject_type subject_id payload uid now s =
     (let n = \<lparr>nt_notification_id = ''notif_'' @ uid, nt_channel = channel, nt_subject_type = subject_type,
               nt_subject_id = subject_id, nt_status = ''pending'', nt_payload = payload, nt_created_at = now,
               nt_delivered_at = None\<rparr>
      in case tbl_insert nt_notification_id (nt_reread n) (notifications s) of
           Inl e \<Rightarrow> (Inl e, s)
         | Inr rows \<Rightarrow> (Inr n, s\<lparr>notifications := rows\<rparr>))"

definition list_notifications :: "string \<Rightarrow> store \<Rightarrow> notification list" where
  "list_notifications status s =
     (if status \<noteq> [] then order_desc nt_created_at (filter (\<lambda>n. nt_status n = status) (notifications s))
      else order_desc nt_created_at (notifications s))"

definition load_notification :: "store \<Rightarrow> string \<Rightarrow> notification option" where
  "load_notification s notification_id = tbl_find nt_notification_id notification_id (notifications s)"

definition delivered_row :: "time \<Rightarrow> notification \<Rightarrow> notification" where
  "delivered_row now n = n\<lparr>nt_status := ''delivered'', nt_delivered_at := Some now\<rparr>"

definition mark_notification_delivered :: "string \<Rightarrow> time \<Rightarrow> store \<Rightarrow> notification option \<times> store" where
  "mark_notification_delivered notification_id now s =
     (case load_notification s notification_id of
        None \<Rightarrow> (None, s)
      | Some row \<Rightarrow>
          let s1 = s\<lparr>notifications := tbl_update nt_notification_id notification_id (delivered_row now) (notifications s)\<rparr>
          in (load_notification s1 notification_id, s1))"

section \<open>Approval cards\<close>

definition ellipsis :: string where
  "ellipsis = utf8_text [0x2026]"

definition SECRET_MARKERS :: "string list" where
  "SECRET_MARKERS = [''TOKEN='', ''SECRET='', ''PASSWORD='', ''API_KEY='']"

definition redact_part :: "string \<Rightarrow> string" where
  "redact_part part =
     (if list_ex (contains (upper part)) SECRET_MARKERS then hd (split_on CHR ''='' part) @ ellipsis else part)"

definition redact_command :: "string \<Rightarrow> string" where
  "redact_command command =
     (let redacted = join_with '' '' (map redact_part (split_ws command))
      in if length (utf8_split redacted) > 80 then concat (take 79 (utf8_split redacted)) @ ellipsis else redacted)"

record approval_card =
  ac_text :: string
  ac_buttons :: "(string \<times> string) list"
  ac_channel :: string

text \<open>A button is its text and its \<open>callback_data\<close>.\<close>

definition callback_data :: "string \<Rightarrow> string \<Rightarrow> string" where
  "callback_data decision approval_id = ''hmn:approval:'' @ decision @ '':'' @ approval_id"

definition code_line :: "string \<Rightarrow> string \<Rightarrow> string" where
  "code_line label v = label @ '': `'' @ v @ ''`''"

definition build_approval_card :: "approval_request \<Rightarrow> approval_card" where
  "build_approval_card a =
     (let d = ap_details a;
          node_id = py_str (dget_or d ''node_id'' (JStr (utf8_text [0x672A, 0x77E5, 0x8282, 0x70B9])));
          command = redact_command (py_str (dget_or d ''command'' (JStr [])));
          task_name = strip (py_str (dget_or d ''task_name'' (JStr [])));
          task_description = strip (py_str (dget_or d ''task_description'' (JStr [])));
          diff0 = py_str (dget_or d ''diff'' (JStr []));
          diff = (if length (utf8_split diff0) > 900 then concat (take 899 (utf8_split diff0)) @ ellipsis else diff0);
          lines = [utf8_text [0x26A0, 0xFE0F] @ '' '' @ utf8_text [0x9AD8, 0x98CE, 0x9669, 0x5BA1, 0x6279],
                   code_line (utf8_text [0x5BA1, 0x6279]) (ap_approval_id a), code_line (utf8_text [0x98CE, 0x9669]) (ap_risk a),
                   code_line (utf8_text [0x52A8, 0x4F5C]) (ap_action a)]
                  @ (if task_name \<noteq> [] then [code_line (utf8_text [0x4EFB, 0x52A1]) task_name] else [])
                  @ (if task_description \<noteq> [] then [code_line (utf8_text [0x8BF4, 0x660E]) task_description] else [])
                  @ (if ap_subject_type a = ''network_acl'' \<and> ap_action a = ''network.acl.apply''
                     then [code_line ''ACL'' (py_str (dget_or d ''current_path'' (JStr (ap_subject_id a)))), ''Diff:'',
                           if diff \<noteq> [] then ''```diff'' @ CHR 0x0A # diff @ CHR 0x0A # ''```''
                           else ''`('' @ utf8_text [0x65E0] @ '' diff)`'']
                     else [code_line (utf8_text [0x8282, 0x70B9]) node_id,
                           if command \<noteq> [] then code_line (utf8_text [0x547D, 0x4EE4]) command else utf8_text [0x547D, 0x4EE4] @ '': `('' @ utf8_text [0x65E0] @ '')`''])
      in \<lparr>ac_text = join_with [CHR 0x0A] lines,
          ac_buttons = [(utf8_text [0x2705] @ '' '' @ utf8_text [0x6279, 0x51C6], callback_data ''approve'' (ap_approval_id a)),
                        (utf8_text [0x274C] @ '' '' @ utf8_text [0x62D2, 0x7EDD], callback_data ''reject'' (ap_approval_id a))],
          ac_channel = ''approval''\<rparr>)"

definition parse_approval_callback :: "string \<Rightarrow> (string \<times> string) option" where
  "parse_approval_callback data =
     (case split_on CHR '':'' data of
        [prefix, category, decision, approval_id] \<Rightarrow>
          if prefix \<noteq> ''hmn'' \<or> category \<noteq> ''approval'' \<or> decision \<notin> {''approve'', ''reject''} then None
          else if \<not> startswith approval_id ''appr_'' then None
          else Some (decision, approval_id)
      | _ \<Rightarrow> None)"

text \<open>The JSON form of a card in a notification's payload.\<close>

definition card_payload :: "approval_card \<Rightarrow> dict" where
  "card_payload c =
     [(''text'', JStr (ac_text c)),
      (''buttons'', JList (map (\<lambda>(txt, data). JObj [(''text'', JStr txt), (''callback_data'', JStr data)]) (ac_buttons c)))]"

section \<open>What a card may show\<close>

lemma contains_iff: "contains s p \<longleftrightarrow> (\<exists>a b. s = a @ p @ b)"
proof (induction s)
  case Nil
  then show ?case by auto
next
  case (Cons c s)
  show ?case
  proof
    assume "contains (c # s) p"
    then consider r where "c # s = p @ r" | "contains s p" by (auto simp: startswith_iff)
    then show "\<exists>a b. c # s = a @ p @ b"
    proof cases
      case 1
      then have "c # s = [] @ p @ r" by simp
      then show ?thesis by blast
    next
      case 2
      with Cons obtain a b where "s = a @ p @ b" by blast
      then have "c # s = (c # a) @ p @ b" by simp
      then show ?thesis by blast
    qed
  next
    assume "\<exists>a b. c # s = a @ p @ b"
    then show "contains (c # s) p" using contains_append_mid by fastforce
  qed
qed

lemma contains_prefix: "contains s p \<Longrightarrow> contains (s @ r) p"
  by (fastforce simp: contains_iff)

text \<open>A pattern cannot straddle a piece it shares no character with.\<close>

lemma contains_append_disjoint:
  assumes "contains (x @ e @ y) p" and "p \<noteq> []" and "e \<noteq> []" and "set p \<inter> set e = {}"
  shows "contains x p \<or> contains y p"
proof -
  obtain a b where ab: "x @ e @ y = a @ p @ b" using assms(1) by (auto simp: contains_iff)
  consider (left) "length a + length p \<le> length x" | (right) "length x + length e \<le> length a"
    | (mid) "length x < length a + length p" "length a < length x + length e" by linarith
  then show ?thesis
  proof cases
    case left
    have "x = take (length x) (x @ e @ y)" by simp
    also have "\<dots> = a @ p @ take (length x - length a - length p) b" using left by (simp add: ab)
    finally show ?thesis by (auto simp: contains_iff)
  next
    case right
    have "y = drop (length x + length e) (x @ e @ y)" by simp
    also have "\<dots> = drop (length x + length e) a @ p @ b" using right by (simp add: ab)
    finally show ?thesis by (auto simp: contains_iff)
  next
    case mid
    define k where "k = max (length a) (length x)"
    have e: "(x @ e @ y) ! k = e ! (k - length x)" "k - length x < length e"
      using mid assms(3) by (auto simp: k_def nth_append max_def)
    have p: "(a @ p @ b) ! k = p ! (k - length a)" "k - length a < length p"
      using mid assms(2) by (auto simp: k_def nth_append max_def)
    have "e ! (k - length x) \<in> set e" "p ! (k - length a) \<in> set p" using e(2) p(2) by simp_all
    then show ?thesis using e(1) p(1) ab assms(4) by auto
  qed
qed

lemma upper_append: "upper (a @ b) = upper a @ upper b"
  by (simp add: upper_def)

lemma upper_char_eq: "upper_char c = CHR ''='' \<longleftrightarrow> c = CHR ''=''"
proof
  assume a: "upper_char c = CHR ''=''"
  show "c = CHR ''=''"
  proof (rule ccontr)
    assume "c \<noteq> CHR ''=''"
    with a have "97 \<le> (of_char c :: nat)" "(of_char c :: nat) \<le> 122" "char_of ((of_char c :: nat) - 32) = CHR ''=''"
      by (auto simp: upper_char_def split: if_splits)
    then have "((of_char c :: nat) - 32) mod 256 = of_char (CHR ''='')"
      by (metis of_char_of)
    then show False using \<open>97 \<le> of_char c\<close> \<open>of_char c \<le> 122\<close> by simp
  qed
qed (simp add: upper_char_def)

definition shows_secret :: "string \<Rightarrow> bool" where
  "shows_secret s \<longleftrightarrow> list_ex (contains (upper s)) SECRET_MARKERS"

lemma ellipsis_bytes: "ellipsis = [CHR 0xE2, CHR 0x80, CHR 0xA6]"
  by (simp add: ellipsis_def utf8_text_def utf8_char_def char_of_def bit_simps)

lemma secret_marker:
  assumes "m \<in> set SECRET_MARKERS"
  shows "m \<noteq> []" and "CHR ''='' \<in> set m" and "CHR '' '' \<notin> set m" and "set m \<inter> set ellipsis = {}"
  using assms by (auto simp: SECRET_MARKERS_def ellipsis_bytes)

lemma upper_ellipsis: "upper ellipsis = ellipsis" "ellipsis \<noteq> []" "CHR ''='' \<notin> set ellipsis"
  by (simp_all add: ellipsis_bytes upper_def upper_char_def)

lemma no_equals_no_secret: "CHR ''='' \<notin> set s \<Longrightarrow> \<not> shows_secret s"
proof
  assume no: "CHR ''='' \<notin> set s" and "shows_secret s"
  then obtain m where "m \<in> set SECRET_MARKERS" "contains (upper s) m" by (auto simp: shows_secret_def list_ex_iff)
  then have "CHR ''='' \<in> set (upper s)" using secret_marker(2) by (auto simp: contains_iff)
  then have "\<exists>c \<in> set s. upper_char c = CHR ''=''" by (auto simp: upper_def)
  with no show False by (auto simp: upper_char_eq)
qed

lemma redact_part_safe: "\<not> shows_secret (redact_part part)"
proof (cases "shows_secret part")
  case False
  then show ?thesis by (simp add: redact_part_def shows_secret_def)
next
  case True
  have "CHR ''='' \<notin> set (hd (split_on CHR ''='' part))"
    using split_on_pieces [of "hd (split_on CHR ''='' part)" "CHR ''=''" part] by simp
  then show ?thesis using True upper_ellipsis(3)
    by (intro no_equals_no_secret) (simp add: redact_part_def shows_secret_def)
qed

lemma shows_secret_append:
  assumes "shows_secret (x @ e @ y)" and "e \<noteq> []" and "upper e = e"
    and "\<And>m. m \<in> set SECRET_MARKERS \<Longrightarrow> set m \<inter> set e = {}"
  shows "shows_secret x \<or> shows_secret y"
proof -
  obtain m where m: "m \<in> set SECRET_MARKERS" "contains (upper x @ e @ upper y) m"
    using assms(1,3) by (auto simp: shows_secret_def list_ex_iff upper_append)
  have "contains (upper x) m \<or> contains (upper y) m"
    using contains_append_disjoint [OF m(2) secret_marker(1) [OF m(1)] assms(2) assms(4) [OF m(1)]] by simp
  then show ?thesis using m(1) by (auto simp: shows_secret_def list_ex_iff)
qed

lemma shows_secret_Nil: "\<not> shows_secret []"
  by (rule no_equals_no_secret) simp

lemma join_parts_safe: "(\<And>p. p \<in> set ps \<Longrightarrow> \<not> shows_secret p) \<Longrightarrow> \<not> shows_secret (join_with '' '' ps)"
proof (induction "'' ''" ps rule: join_with.induct)
  case (3 x y ys)
  have sp: "upper '' '' = '' ''" by (simp add: upper_def upper_char_def)
  show ?case
  proof
    assume "shows_secret (join_with '' '' (x # y # ys))"
    then have "shows_secret x \<or> shows_secret (join_with '' '' (y # ys))"
      using shows_secret_append [of x "'' ''" "join_with '' '' (y # ys)"] sp secret_marker(3) by simp
    with 3 show False by auto
  qed
qed (simp_all add: shows_secret_Nil)

lemma shows_secret_prefix: "shows_secret p \<Longrightarrow> shows_secret (p @ r)"
  by (auto simp: shows_secret_def list_ex_iff upper_append intro: contains_prefix)

lemma redact_command_safe: "\<not> shows_secret (redact_command command)"
proof -
  let ?r = "join_with '' '' (map redact_part (split_ws command))"
  have safe: "\<not> shows_secret ?r" by (rule join_parts_safe) (auto simp: redact_part_safe)
  show ?thesis
  proof (cases "length (utf8_split ?r) > 80")
    case False
    with safe show ?thesis by (simp add: redact_command_def)
  next
    case True
    let ?p = "concat (take 79 (utf8_split ?r))"
    have "?r = ?p @ concat (drop 79 (utf8_split ?r))"
      by (metis append_take_drop_id concat_append concat_utf8_split)
    then have p: "\<not> shows_secret ?p" using safe shows_secret_prefix by metis
    have "\<not> shows_secret (?p @ ellipsis @ [])"
      using shows_secret_append [of ?p ellipsis "[]"] upper_ellipsis secret_marker(4) p shows_secret_Nil by blast
    with True show ?thesis by (simp add: redact_command_def Let_def)
  qed
qed

section \<open>Lookups\<close>

definition put_notification :: "notification \<Rightarrow> store \<Rightarrow> store" where
  "put_notification n s = s\<lparr>notifications := tbl_upsert nt_notification_id replace_row (nt_reread n) (notifications s)\<rparr>"

lemma nt_reread_id [simp]: "nt_notification_id (nt_reread n) = nt_notification_id n"
  by (simp add: nt_reread_def)

interpretation notification_table: keyed_store load_notification put_notification nt_notification_id nt_reread
  by unfold_locales (simp add: load_notification_def put_notification_def tbl_find_upsert_replace)

lemma mark_delivered_load:
  "load_notification (snd (mark_notification_delivered k now s)) j =
     (if j = k then map_option (delivered_row now) (load_notification s k) else load_notification s j)"
proof -
  have "load_notification (s\<lparr>notifications := tbl_update nt_notification_id k (delivered_row now) (notifications s)\<rparr>) j
      = (if j = k then map_option (delivered_row now) (load_notification s k) else load_notification s j)"
    by (simp add: load_notification_def tbl_find_update delivered_row_def)
  then show ?thesis by (auto simp: mark_notification_delivered_def Let_def split: option.splits)
qed

lemma mark_delivered_frame [simp]:
  "approval_requests (snd (mark_notification_delivered k now s)) = approval_requests s"
  "tasks (snd (mark_notification_delivered k now s)) = tasks s"
  "nodes (snd (mark_notification_delivered k now s)) = nodes s"
  "audit_events (snd (mark_notification_delivered k now s)) = audit_events s"
  by (auto simp: mark_notification_delivered_def Let_def split: option.splits)

lemma enqueue_frame [simp]:
  "approval_requests (snd (enqueue_notification c st sid p uid now s)) = approval_requests s"
  "tasks (snd (enqueue_notification c st sid p uid now s)) = tasks s"
  "nodes (snd (enqueue_notification c st sid p uid now s)) = nodes s"
  "audit_events (snd (enqueue_notification c st sid p uid now s)) = audit_events s"
  by (auto simp: enqueue_notification_def Let_def split: sum.splits)

section \<open>Properties\<close>

text \<open>The command on an approval card shows no secret: whatever the command, the redacted text
  contains none of \<open>TOKEN=\<close>, \<open>SECRET=\<close>, \<open>PASSWORD=\<close> and \<open>API_KEY=\<close> in any case, even after it is
  shortened.\<close>

theorem redacted_command_shows_no_secret:
  "list_ex (contains (upper (redact_command command))) SECRET_MARKERS = False"
  using redact_command_safe [of command] by (simp add: shows_secret_def)

text \<open>A button round-trips: what its callback carries is parsed back to the decision and the request,
  and nothing else is accepted as a callback.\<close>

theorem approval_callback_round_trips:
  "(parse_approval_callback data = Some (d, k)) =
     (data = callback_data d k \<and> (d = ''approve'' \<or> d = ''reject'') \<and> startswith k ''appr_'' \<and> CHR '':'' \<notin> set k)"
proof
  assume parsed: "parse_approval_callback data = Some (d, k)"
  then have parts: "split_on CHR '':'' data = [''hmn'', ''approval'', d, k]" and d: "d = ''approve'' \<or> d = ''reject''"
    and k: "startswith k ''appr_''"
    by (auto simp: parse_approval_callback_def split: list.splits if_splits)
  have "data = join_with [CHR '':''] [''hmn'', ''approval'', d, k]"
    using join_split_on [of "CHR '':''" data] parts by simp
  moreover have "CHR '':'' \<notin> set k" using split_on_pieces [of k "CHR '':''" data] parts by simp
  ultimately show "data = callback_data d k \<and> (d = ''approve'' \<or> d = ''reject'') \<and> startswith k ''appr_'' \<and> CHR '':'' \<notin> set k"
    using d k by (simp add: callback_data_def)
next
  assume r: "data = callback_data d k \<and> (d = ''approve'' \<or> d = ''reject'') \<and> startswith k ''appr_'' \<and> CHR '':'' \<notin> set k"
  then have nc: "CHR '':'' \<notin> set d" by auto
  have "split_on CHR '':'' (''hmn'' @ CHR '':'' # ''approval'' @ CHR '':'' # d @ CHR '':'' # k)
      = [''hmn'', ''approval'', d, k]"
    using r nc by (subst split_on_append_sep, simp)+ (simp add: split_on_no_sep)
  moreover have "data = ''hmn'' @ CHR '':'' # ''approval'' @ CHR '':'' # d @ CHR '':'' # k"
    using r by (simp add: callback_data_def)
  ultimately have "split_on CHR '':'' data = [''hmn'', ''approval'', d, k]" by simp
  with r show "parse_approval_callback data = Some (d, k)" by (auto simp: parse_approval_callback_def)
qed

end
