(* ===== verification/Gateway.thy ===== *)
theory Gateway imports Acl Notifications begin

text \<open>
  Decisions that arrive through a chat: \<open>handle_telegram_approval_callback\<close> of
  \<open>approval_telegram_flow.py\<close>, and the two loops of \<open>approval_gateway.py\<close>, which send pending cards
  (\<open>poll_once\<close>) and pass button presses on (\<open>process_telegram_callbacks\<close>).  The loops run against an
  API and a chat client, given by what their calls do to a state \<open>'w\<close>.
\<close>

section \<open>Carrying out an approval\<close>

text \<open>
  What the callers of \<open>resolve_approval_request\<close> do next: they dispatch once more, which is a no-op for
  a task or a run that the resolution has dispatched, and tells them whether there is one.
\<close>

datatype carried =
    Carried json
  | TaskMissing
  | ComponentMissing
  | AclFailed string
  | AclRefused
  | Escaped exn

definition carry_out_task ::
  "approval_request \<Rightarrow> string \<Rightarrow> (nat \<Rightarrow> time) \<Rightarrow> store \<Rightarrow> carried \<times> store" where
  "carry_out_task a uid clk s =
     (if ap_subject_type a = ''task'' \<and> ap_action a = ''task.run''
      then case dispatch_approved_task_request (ap_approval_id a) uid clk s of
             (Inl e, s') \<Rightarrow> (Escaped e, s')
           | (Inr None, s') \<Rightarrow> (TaskMissing, s')
           | (Inr (Some t), s') \<Rightarrow> (Carried (JStr (tk_task_id t)), s')
      else (Carried JNull, s))"

definition carry_out_component :: "approval_request \<Rightarrow> (nat \<Rightarrow> time) \<Rightarrow> store \<Rightarrow> bool \<times> store" where
  "carry_out_component a clk s =
     (if ap_subject_type a = ''component_run'' \<and> startswith (ap_action a) ''component.''
      then case dispatch_approved_component_action (ap_approval_id a) clk s of
             (None, s') \<Rightarrow> (False, s')
           | (Some _, s') \<Rightarrow> (True, s')
      else (True, s))"

definition carry_out ::
  "(string \<Rightarrow> string) \<Rightarrow> (string \<Rightarrow> string) \<Rightarrow> acl_host \<Rightarrow> approval_request \<Rightarrow> string \<Rightarrow> (nat \<Rightarrow> time)
    \<Rightarrow> files \<times> store \<Rightarrow> carried \<times> files \<times> store" where
  "carry_out sha256 expand run a uid clk st =
     (let (fs, s) = st
      in case carry_out_task a uid clk s of
           (Carried task_id, s1) \<Rightarrow>
             (case carry_out_component a (\<lambda>k. clk (k + 3)) s1 of
                (False, s2) \<Rightarrow> (ComponentMissing, fs, s2)
              | (True, s2) \<Rightarrow>
                  if ap_subject_type a = ''network_acl'' \<and> ap_action a = ''network.acl.apply''
                  then case dispatch_approved_network_acl_apply sha256 expand run (ap_approval_id a) (clk 6) (fs, s2) of
                         (Inl (NetworkProviderError m), st3) \<Rightarrow> (AclFailed m, st3)
                       | (Inl e, st3) \<Rightarrow> (Escaped e, st3)
                       | (Inr False, st3) \<Rightarrow> (AclRefused, st3)
                       | (Inr True, st3) \<Rightarrow> (Carried task_id, st3)
                  else (Carried task_id, fs, s2))
         | (other, s1) \<Rightarrow> (other, fs, s1))"

section \<open>A button press\<close>

record pending_notification =
  pn_approval_id :: string
  pn_status :: string
  pn_delivery_hint :: string
  pn_card :: approval_card

definition build_pending_approval_notification :: "string \<Rightarrow> store \<Rightarrow> pending_notification result" where
  "build_pending_approval_notification approval_id s =
     (case load_approval_request s approval_id of
        None \<Rightarrow> Inl (ValueError (''approval not found: '' @ approval_id))
      | Some a \<Rightarrow> Inr \<lparr>pn_approval_id = ap_approval_id a, pn_status = ap_status a, pn_delivery_hint = ''telegram'',
                       pn_card = build_approval_card a\<rparr>)"

record callback_result =
  cb_ok :: bool
  cb_message :: string
  cb_approval_id :: "string option"
  cb_status :: "string option"
  cb_dispatched_task_id :: json

definition settled_callback :: "approval_request \<Rightarrow> carried \<Rightarrow> callback_result result" where
  "settled_callback a c =
     (let failed = (\<lambda>m. Inr \<lparr>cb_ok = False, cb_message = m, cb_approval_id = Some (ap_approval_id a),
                             cb_status = Some (ap_status a), cb_dispatched_task_id = JNull\<rparr>)
      in case c of
           Escaped e \<Rightarrow> Inl e
         | TaskMissing \<Rightarrow> failed ((utf8_text [0x5DF2, 0x6279, 0x51C6, 0xFF0C, 0x4F46, 0x4EFB, 0x52A1, 0x521B, 0x5EFA, 0x5931, 0x8D25, 0xFF1A, 0x5BA1, 0x6279, 0x8BE6, 0x60C5, 0x7F3A, 0x5C11] @ '' node_id/command'' @ utf8_text [0x3002]))
         | ComponentMissing \<Rightarrow> failed (utf8_text [0x5DF2, 0x6279, 0x51C6, 0xFF0C, 0x4F46, 0x7EC4, 0x4EF6, 0x64CD, 0x4F5C, 0x6267, 0x884C, 0x5931, 0x8D25, 0xFF1A, 0x5BA1, 0x6279, 0x8BE6, 0x60C5, 0x4E0D, 0x5B8C, 0x6574, 0x6216, 0x52A8, 0x4F5C, 0x4E0D, 0x53EF, 0x8C03, 0x5EA6, 0x3002])
         | AclFailed m \<Rightarrow> failed ((utf8_text [0x5DF2, 0x6279, 0x51C6, 0xFF0C, 0x4F46] @ '' Headscale ACL '' @ utf8_text [0x5E94, 0x7528, 0x5931, 0x8D25, 0xFF1A]) @ m)
         | AclRefused \<Rightarrow> failed ((utf8_text [0x5DF2, 0x6279, 0x51C6, 0xFF0C, 0x4F46] @ '' Headscale ACL '' @ utf8_text [0x5E94, 0x7528, 0x5931, 0x8D25, 0xFF1A]) @ utf8_text [0x5BA1, 0x6279, 0x8BE6, 0x60C5, 0x4E0D, 0x5B8C, 0x6574, 0x6216, 0x6587, 0x4EF6, 0x4E0D, 0x53EF, 0x7528, 0x3002])
         | Carried task_id \<Rightarrow>
             Inr \<lparr>cb_ok = True,
                  cb_message = utf8_text [0x5DF2, 0x6279, 0x51C6, 0x3002]
                    @ (if truthy task_id then ('' '' @ utf8_text [0x5DF2, 0x521B, 0x5EFA, 0x4EFB, 0x52A1] @ '': '') @ py_str task_id else []),
                  cb_approval_id = Some (ap_approval_id a), cb_status = Some (ap_status a),
                  cb_dispatched_task_id = task_id\<rparr>)"

text \<open>The resolution draws \<open>uid 0\<close>, the second dispatch \<open>uid 1\<close>, which nothing uses.\<close>

definition handle_telegram_approval_callback ::
  "(string \<Rightarrow> string) \<Rightarrow> (string \<Rightarrow> string) \<Rightarrow> acl_host \<Rightarrow> string \<Rightarrow> string \<Rightarrow> (nat \<Rightarrow> string) \<Rightarrow> (nat \<Rightarrow> time)
    \<Rightarrow> files \<times> store \<Rightarrow> callback_result result \<times> files \<times> store" where
  "handle_telegram_approval_callback sha256 expand run data decided_by uid clk st =
     (let (fs, s) = st
      in case parse_approval_callback data of
        None \<Rightarrow> (Inr \<lparr>cb_ok = False, cb_message = utf8_text [0x65E0, 0x6548, 0x7684, 0x5BA1, 0x6279, 0x56DE, 0x8C03, 0x3002],
                      cb_approval_id = None, cb_status = None, cb_dispatched_task_id = JNull\<rparr>, st)
      | Some (decision, approval_id) \<Rightarrow>
          (case load_approval_request s approval_id of
             None \<Rightarrow> (Inr \<lparr>cb_ok = False, cb_message = utf8_text [0x5BA1, 0x6279, 0x4E0D, 0x5B58, 0x5728, 0x6216, 0x5DF2, 0x6E05, 0x7406, 0x3002],
                           cb_approval_id = Some approval_id, cb_status = None, cb_dispatched_task_id = JNull\<rparr>, st)
           | Some a \<Rightarrow>
               if ap_status a \<noteq> ''pending''
               then (Inr \<lparr>cb_ok = False, cb_message = utf8_text [0x5BA1, 0x6279, 0x5DF2, 0x5904, 0x7406, 0xFF1A] @ ap_status a,
                          cb_approval_id = Some (ap_approval_id a), cb_status = Some (ap_status a),
                          cb_dispatched_task_id = dget (ap_details a) ''dispatched_task_id''\<rparr>, st)
               else
                 let target_status = (if decision = ''approve'' then ''approved'' else ''rejected'')
                 in case resolve_approval_request (ap_approval_id a) target_status decided_by (uid 0) clk s of
                      (Inl e, s1) \<Rightarrow> (Inl e, fs, s1)
                    | (Inr None, s1) \<Rightarrow>
                        (Inr \<lparr>cb_ok = False, cb_message = utf8_text [0x5BA1, 0x6279, 0x5904, 0x7406, 0x5931, 0x8D25, 0x3002],
                              cb_approval_id = Some (ap_approval_id a), cb_status = None,
                              cb_dispatched_task_id = JNull\<rparr>, fs, s1)
                    | (Inr (Some resolved), s1) \<Rightarrow>
                        if target_status = ''approved''
                        then case carry_out sha256 expand run resolved (uid 1) (\<lambda>k. clk (k + 5)) (fs, s1) of
                               (c, st2) \<Rightarrow> (settled_callback resolved c, st2)
                        else (Inr \<lparr>cb_ok = True, cb_message = utf8_text [0x5DF2, 0x62D2, 0x7EDD, 0x3002, 0x4E0D, 0x4F1A, 0x521B, 0x5EFA, 0x4EFB, 0x52A1, 0x3002],
                                   cb_approval_id = Some (ap_approval_id resolved), cb_status = Some (ap_status resolved),
                                   cb_dispatched_task_id = JNull\<rparr>, fs, s1)))"

section \<open>Sending the outbox\<close>

text \<open>\<open>v.get(k, x)\<close> of a value that need not be a dict, and \<open>list(v)\<close>.\<close>

definition get_of :: "json \<Rightarrow> string \<Rightarrow> json \<Rightarrow> json result" where
  "get_of v k x = (case v of JObj d \<Rightarrow> Inr (dget_or d k x) | _ \<Rightarrow> Inl (AttributeError ''get''))"

definition get_key :: "dict \<Rightarrow> string \<Rightarrow> json result" where
  "get_key d k = (case map_of d k of None \<Rightarrow> Inl (KeyError k) | Some v \<Rightarrow> Inr v)"

type_synonym 'w send_card = "string \<Rightarrow> string \<Rightarrow> json list \<Rightarrow> 'w \<Rightarrow> unit result \<times> 'w"
type_synonym 'w mark_delivered = "string \<Rightarrow> 'w \<Rightarrow> unit result \<times> 'w"

text \<open>One round of the \<open>try\<close> block: true where it ends without an exception.\<close>

definition deliver_one ::
  "'w send_card \<Rightarrow> 'w mark_delivered \<Rightarrow> string \<Rightarrow> dict \<Rightarrow> 'w \<Rightarrow> bool \<times> 'w" where
  "deliver_one send mark target n w =
     (let payload = py_or (dget n ''payload'') (JObj [])
      in case bind_result (get_of payload ''text'' (JStr [])) (\<lambda>txt.
              bind_result (get_of payload ''buttons'' JNull) (\<lambda>b.
              bind_result (py_iter (py_or b (JList []))) (\<lambda>buttons. Inr (py_str txt, buttons)))) of
           Inl e \<Rightarrow> (False, w)
         | Inr (txt, buttons) \<Rightarrow>
             (case send target txt buttons w of
                (Inl e, w1) \<Rightarrow> (False, w1)
              | (Inr _, w1) \<Rightarrow>
                  (case get_key n ''notification_id'' of
                     Inl e \<Rightarrow> (False, w1)
                   | Inr k \<Rightarrow>
                       (case mark (py_str k) w1 of
                          (Inl e, w2) \<Rightarrow> (False, w2)
                        | (Inr _, w2) \<Rightarrow> (True, w2)))))"

record poll_result =
  pl_sent :: nat
  pl_failed :: nat

fun deliver_all ::
  "'w send_card \<Rightarrow> 'w mark_delivered \<Rightarrow> string \<Rightarrow> dict list \<Rightarrow> poll_result \<Rightarrow> 'w \<Rightarrow> poll_result \<times> 'w" where
  "deliver_all send mark target [] acc w = (acc, w)"
| "deliver_all send mark target (n # ns) acc w =
     (case deliver_one send mark target n w of
        (True, w1) \<Rightarrow> deliver_all send mark target ns (acc\<lparr>pl_sent := pl_sent acc + 1\<rparr>) w1
      | (False, w1) \<Rightarrow> deliver_all send mark target ns (acc\<lparr>pl_failed := pl_failed acc + 1\<rparr>) w1)"

definition poll_once ::
  "('w \<Rightarrow> dict list) \<Rightarrow> 'w send_card \<Rightarrow> 'w mark_delivered \<Rightarrow> string \<Rightarrow> 'w \<Rightarrow> poll_result \<times> 'w" where
  "poll_once pending send mark target w =
     deliver_all send mark target (pending w) \<lparr>pl_sent = 0, pl_failed = 0\<rparr> w"

section \<open>Passing button presses on\<close>

type_synonym 'w handle_callback = "string \<Rightarrow> string \<Rightarrow> 'w \<Rightarrow> json result \<times> 'w"
type_synonym 'w answer_query = "string \<Rightarrow> string option \<Rightarrow> 'w \<Rightarrow> unit result \<times> 'w"
type_synonym 'w clear_keyboard = "json \<Rightarrow> json \<Rightarrow> 'w \<Rightarrow> unit result \<times> 'w"

record update_result =
  up_processed :: nat
  up_approved :: nat
  up_rejected :: nat
  up_failed :: nat
  up_next_offset :: "int option"

text \<open>What is read of an update before the \<open>try\<close> block: data, callback id, user name, the callback.\<close>

definition read_update :: "json \<Rightarrow> (int \<times> string \<times> string \<times> string \<times> json) result" where
  "read_update update =
     bind_result (get_of update ''update_id'' (JInt 0)) (\<lambda>i.
     case py_int i of
       None \<Rightarrow> Inl (TypeError ''int() argument'')
     | Some update_id \<Rightarrow>
         bind_result (get_of update ''callback_query'' JNull) (\<lambda>c.
         let callback = py_or c (JObj [])
         in bind_result (get_of callback ''data'' JNull) (\<lambda>data.
            bind_result (get_of callback ''id'' JNull) (\<lambda>callback_id.
            bind_result (get_of callback ''from'' JNull) (\<lambda>u.
            let user = py_or u (JObj [])
            in bind_result (get_of user ''username'' JNull) (\<lambda>name.
               bind_result (if truthy name then Inr name else get_of user ''id'' JNull) (\<lambda>name.
               Inr (update_id, str_or data [], str_or callback_id [], str_or name ''unknown'', callback))))))))"

definition count_status :: "string \<Rightarrow> update_result \<Rightarrow> update_result" where
  "count_status status acc =
     (if status = ''approved'' then acc\<lparr>up_approved := up_approved acc + 1\<rparr>
      else if status = ''rejected'' then acc\<lparr>up_rejected := up_rejected acc + 1\<rparr> else acc)"

definition message_place :: "json \<Rightarrow> (json \<times> json) result" where
  "message_place callback =
     bind_result (get_of callback ''message'' JNull) (\<lambda>m.
     let msg = py_or m (JObj [])
     in bind_result (get_of msg ''chat'' JNull) (\<lambda>c.
        bind_result (get_of (py_or c (JObj [])) ''id'' JNull) (\<lambda>chat_id.
        bind_result (get_of msg ''message_id'' JNull) (\<lambda>message_id. Inr (chat_id, message_id)))))"

definition try_callback ::
  "'w handle_callback \<Rightarrow> 'w answer_query \<Rightarrow> 'w clear_keyboard \<Rightarrow> string \<Rightarrow> string \<Rightarrow> string \<Rightarrow> json
    \<Rightarrow> update_result \<Rightarrow> 'w \<Rightarrow> bool \<times> update_result \<times> 'w" where
  "try_callback handle answer clear data decided_by callback_id callback acc w =
     (case handle data decided_by w of
        (Inl e, w1) \<Rightarrow> (False, acc, w1)
      | (Inr reply, w1) \<Rightarrow>
          (case bind_result (get_of reply ''message'' JNull) (\<lambda>m.
                bind_result (get_of reply ''status'' JNull) (\<lambda>st. Inr (str_or m (utf8_text [0x5DF2, 0x5904, 0x7406, 0x3002]), str_or st []))) of
             Inl e \<Rightarrow> (False, acc, w1)
           | Inr (message, status) \<Rightarrow>
               let acc1 = count_status status acc
               in case answer callback_id
                        (if callback_id \<noteq> [] then Some (concat (take 180 (utf8_split message))) else None) w1 of
                    (Inl e, w2) \<Rightarrow> (False, acc1, w2)
                  | (Inr _, w2) \<Rightarrow>
                      (case message_place callback of
                         Inl e \<Rightarrow> (False, acc1, w2)
                       | Inr (chat_id, message_id) \<Rightarrow>
                           (True, acc1,
                            if chat_id \<noteq> JNull \<and> message_id \<noteq> JNull then snd (clear chat_id message_id w2) else w2))))"

definition process_update ::
  "'w handle_callback \<Rightarrow> 'w answer_query \<Rightarrow> 'w clear_keyboard \<Rightarrow> string \<Rightarrow> json \<Rightarrow> update_result \<Rightarrow> 'w
    \<Rightarrow> update_result result \<times> 'w" where
  "process_update handle answer clear prefix update acc w =
     (case read_update update of
        Inl e \<Rightarrow> (Inl e, w)
      | Inr (update_id, data, callback_id, username, callback) \<Rightarrow>
          let acc0 = acc\<lparr>up_next_offset := Some (max (case up_next_offset acc of None \<Rightarrow> 0 | Some x \<Rightarrow> x) (update_id + 1))\<rparr>
          in if \<not> startswith data ''hmn:approval:'' then (Inr acc0, w)
             else
               (case try_callback handle answer clear data (prefix @ '':'' @ username) callback_id callback
                    (acc0\<lparr>up_processed := up_processed acc0 + 1\<rparr>) w of
                  (True, acc1, w1) \<Rightarrow> (Inr acc1, w1)
                | (False, acc1, w1) \<Rightarrow>
                    (Inr (acc1\<lparr>up_failed := up_failed acc1 + 1\<rparr>),
                     if callback_id \<noteq> []
                     then snd (answer callback_id (Some (utf8_text [0x5BA1, 0x6279, 0x5904, 0x7406, 0x5931, 0x8D25, 0xFF0C, 0x8BF7, 0x67E5, 0x770B] @ '' HMN '' @ utf8_text [0x65E5, 0x5FD7, 0x3002])) w1)
                     else w1)))"

fun process_updates ::
  "'w handle_callback \<Rightarrow> 'w answer_query \<Rightarrow> 'w clear_keyboard \<Rightarrow> string \<Rightarrow> json list \<Rightarrow> update_result \<Rightarrow> 'w
    \<Rightarrow> update_result result \<times> 'w" where
  "process_updates handle answer clear prefix [] acc w = (Inr acc, w)"
| "process_updates handle answer clear prefix (u # us) acc w =
     (case process_update handle answer clear prefix u acc w of
        (Inl e, w1) \<Rightarrow> (Inl e, w1)
      | (Inr acc1, w1) \<Rightarrow> process_updates handle answer clear prefix us acc1 w1)"

definition process_telegram_callbacks ::
  "'w handle_callback \<Rightarrow> 'w answer_query \<Rightarrow> 'w clear_keyboard \<Rightarrow> (int option \<Rightarrow> 'w \<Rightarrow> json list result \<times> 'w)
    \<Rightarrow> string \<Rightarrow> int option \<Rightarrow> 'w \<Rightarrow> update_result result \<times> 'w" where
  "process_telegram_callbacks handle answer clear get_updates prefix offset w =
     (case get_updates offset w of
        (Inl e, w1) \<Rightarrow> (Inl e, w1)
      | (Inr us, w1) \<Rightarrow>
          process_updates handle answer clear prefix us
            \<lparr>up_processed = 0, up_approved = 0, up_rejected = 0, up_failed = 0, up_next_offset = offset\<rparr> w1)"

section \<open>Request payloads\<close>

definition callback_payload :: "string \<Rightarrow> string \<Rightarrow> string \<Rightarrow> dict" where
  "callback_payload client data decided_by =
     [(''client'', JStr client), (''callback_data'', JStr data), (''decided_by'', JStr decided_by)]"

text \<open>A button without \<open>text\<close> or \<open>callback_data\<close> raises \<open>KeyError\<close>.\<close>

fun inline_keyboard :: "dict list \<Rightarrow> json list result" where
  "inline_keyboard [] = Inr []"
| "inline_keyboard (b # bs) =
     bind_result (get_key b ''text'') (\<lambda>txt.
     bind_result (get_key b ''callback_data'') (\<lambda>data.
     bind_result (inline_keyboard bs) (\<lambda>rows.
     Inr (JList [JObj [(''text'', txt), (''callback_data'', data)]] # rows))))"

definition send_card_payload :: "string \<Rightarrow> string \<Rightarrow> dict list \<Rightarrow> dict result" where
  "send_card_payload target txt buttons =
     bind_result (inline_keyboard buttons) (\<lambda>rows.
     Inr [(''chat_id'', JStr target), (''text'', JStr txt),
          (''reply_markup'', JObj [(''inline_keyboard'', JList rows)])])"

definition answer_payload :: "string \<Rightarrow> string option \<Rightarrow> dict" where
  "answer_payload callback_query_id txt =
     [(''callback_query_id'', JStr callback_query_id)]
     @ (case txt of None \<Rightarrow> [] | Some m \<Rightarrow> if m \<noteq> [] then [(''text'', JStr m)] else [])"

section \<open>The contract of an outbox\<close>

text \<open>
  What \<open>poll_once\<close> needs of the API and the chat: cards carry distinct ids, sending a card leaves the
  outbox alone, and marking a pending card takes exactly that card out of it.
\<close>

definition card_id :: "dict \<Rightarrow> json" where
  "card_id n = dget n ''notification_id''"

locale outbox =
  fixes pending :: "'w \<Rightarrow> dict list"
    and send :: "'w send_card"
    and mark :: "'w mark_delivered"
    and inv :: "'w \<Rightarrow> bool"
  assumes card_named: "inv w \<Longrightarrow> n \<in> set (pending w) \<Longrightarrow> \<exists>k. map_of n ''notification_id'' = Some (JStr k)"
    and cards_distinct: "inv w \<Longrightarrow> distinct (map card_id (pending w))"
    and send_keeps: "inv w \<Longrightarrow> inv (snd (send target txt bs w)) \<and> pending (snd (send target txt bs w)) = pending w"
    and mark_removes: "inv w \<Longrightarrow> n \<in> set (pending w) \<Longrightarrow> card_id n = JStr k \<Longrightarrow>
      fst (mark k w) = Inr () \<and> inv (snd (mark k w))
      \<and> pending (snd (mark k w)) = filter (\<lambda>m. card_id m \<noteq> JStr k) (pending w)"
begin

lemma deliver_one_outcome:
  assumes "inv w" and "n \<in> set (pending w)" and "deliver_one send mark target n w = (ok, w')"
  shows "inv w' \<and> pending w' = (if ok then filter (\<lambda>m. card_id m \<noteq> card_id n) (pending w) else pending w)"
proof -
  obtain k where k: "map_of n ''notification_id'' = Some (JStr k)" using card_named assms(1,2) by blast
  then have id: "card_id n = JStr k" and key: "get_key n ''notification_id'' = Inr (JStr k)"
    by (simp_all add: card_id_def dget_def get_key_def)
  define content where "content = bind_result (get_of (py_or (dget n ''payload'') (JObj [])) ''text'' (JStr [])) (\<lambda>txt.
      bind_result (get_of (py_or (dget n ''payload'') (JObj [])) ''buttons'' JNull) (\<lambda>b.
      bind_result (py_iter (py_or b (JList []))) (\<lambda>buttons. Inr (py_str txt, buttons))))"
  have one: "deliver_one send mark target n w = (case content of
      Inl e \<Rightarrow> (False, w)
    | Inr (txt, buttons) \<Rightarrow>
        (case send target txt buttons w of
           (Inl e, w1) \<Rightarrow> (False, w1)
         | (Inr _, w1) \<Rightarrow> (case mark k w1 of (Inl e, w2) \<Rightarrow> (False, w2) | (Inr _, w2) \<Rightarrow> (True, w2))))"
    by (simp add: deliver_one_def content_def Let_def key split: sum.split prod.split)
  show ?thesis
  proof (cases content)
    case (Inl e)
    with assms one show ?thesis by simp
  next
    case (Inr c)
    obtain msg bs where c: "c = (msg, bs)" by fastforce
    obtain r w1 where s: "send target msg bs w = (r, w1)" by fastforce
    have w1: "inv w1" "pending w1 = pending w" using send_keeps [OF assms(1), of target msg bs] by (simp_all add: s)
    show ?thesis
    proof (cases r)
      case (Inl e)
      with assms one Inr c s w1 show ?thesis by simp
    next
      case r: (Inr u)
      have "fst (mark k w1) = Inr () \<and> inv (snd (mark k w1))
          \<and> pending (snd (mark k w1)) = filter (\<lambda>m. card_id m \<noteq> JStr k) (pending w1)"
        using mark_removes w1 assms(2) id by simp
      with assms(3) one Inr c s w1 r id show ?thesis by (auto simp: case_prod_beta)
    qed
  qed
qed

lemma deliver_all_outcome:
  assumes "inv w" and "set ns \<subseteq> set (pending w)" and "distinct (map card_id ns)"
  shows "\<exists>sent. set sent \<subseteq> set ns
    \<and> pending (snd (deliver_all send mark target ns acc w)) = filter (\<lambda>m. card_id m \<notin> card_id ` set sent) (pending w)
    \<and> inv (snd (deliver_all send mark target ns acc w)) \<and> distinct (map card_id sent)
    \<and> pl_sent (fst (deliver_all send mark target ns acc w)) = pl_sent acc + length sent
    \<and> pl_failed (fst (deliver_all send mark target ns acc w)) + length sent = pl_failed acc + length ns"
  using assms
proof (induction ns arbitrary: acc w)
  case Nil
  then show ?case by simp
next
  case (Cons n ns)
  obtain ok w1 where one: "deliver_one send mark target n w = (ok, w1)" by fastforce
  have w1: "inv w1" "pending w1 = (if ok then filter (\<lambda>m. card_id m \<noteq> card_id n) (pending w) else pending w)"
    using deliver_one_outcome [OF Cons.prems(1) _ one] Cons.prems(2) by auto
  let ?acc = "if ok then acc\<lparr>pl_sent := pl_sent acc + 1\<rparr> else acc\<lparr>pl_failed := pl_failed acc + 1\<rparr>"
  have "set ns \<subseteq> set (pending w1)"
    using Cons.prems(2,3) by (auto simp: w1(2)) (metis image_eqI)
  then obtain sent where sent: "set sent \<subseteq> set ns"
    "pending (snd (deliver_all send mark target ns ?acc w1)) = filter (\<lambda>m. card_id m \<notin> card_id ` set sent) (pending w1)"
    "inv (snd (deliver_all send mark target ns ?acc w1))" "distinct (map card_id sent)"
    "pl_sent (fst (deliver_all send mark target ns ?acc w1)) = pl_sent ?acc + length sent"
    "pl_failed (fst (deliver_all send mark target ns ?acc w1)) + length sent = pl_failed ?acc + length ns"
    using Cons.IH [OF w1(1), of ?acc] Cons.prems(3) by auto
  have step: "deliver_all send mark target (n # ns) acc w = deliver_all send mark target ns ?acc w1"
    using one by (simp split: bool.split)
  show ?case
  proof (cases ok)
    case True
    have "card_id n \<notin> card_id ` set sent" using sent(1) Cons.prems(3) by auto
    then have "distinct (map card_id (n # sent))" using sent(4) by simp
    with True sent w1 show ?thesis unfolding step
      by (intro exI [of _ "n # sent"]) (auto simp: conj_commute intro!: filter_cong)
  next
    case False
    with sent w1 show ?thesis unfolding step by (intro exI [of _ sent]) auto
  qed
qed

end

section \<open>What a decision leaves behind\<close>

lemma acl_dispatch_frame:
  "approval_requests (snd (snd (dispatch_approved_network_acl_apply sha256 expand run k now (fs, s)))) = approval_requests s"
  "tasks (snd (snd (dispatch_approved_network_acl_apply sha256 expand run k now (fs, s)))) = tasks s"
  by (auto simp: dispatch_approved_network_acl_apply_def commit_acl_frame acl_audit_def Let_def split: option.splits)

lemma resolve_pending:
  assumes "load_approval_request s k = Some a" and "ap_status a = ''pending''"
    and "status = ''approved'' \<or> status = ''rejected''"
  shows "\<exists>a'. load_approval_request (snd (resolve_approval_request k status who uid clk s)) k = Some a'
      \<and> approval_evolves (ap_reread (decided a status who (clk 0))) a'"
    and "fst (resolve_approval_request k status who uid clk s) = Inr (Some (decided a status who (clk 0)))
      \<or> (\<exists>e. fst (resolve_approval_request k status who uid clk s) = Inl e)"
proof -
  have id: "ap_approval_id a = k" using assms(1) by (rule load_approval_id)
  let ?s2 = "record_decision a status who clk s" and ?b = "ap_reread (decided a status who (clk 0))"
  have res: "resolve_approval_request k status who uid clk s = decide_loaded (Some a) status who uid clk s"
    using assms(1,3) by (auto simp: resolve_approval_request_def)
  have b: "load_approval_request ?s2 k = Some ?b" by (simp add: record_decision_load id)
  then have tsk: "\<exists>a'. load_approval_request (snd (dispatch_approved_task_request k uid (\<lambda>k. clk (k + 2)) ?s2)) k = Some a'
      \<and> approval_evolves ?b a'"
    by (rule dispatch_task_evolves)
  have pick: "\<exists>a'. load_approval_request (if P then A else if Q then B else C) k = Some a' \<and> approval_evolves ?b a'"
    if "\<exists>a'. load_approval_request A k = Some a' \<and> approval_evolves ?b a'"
      "load_approval_request B k = Some ?b" "load_approval_request C k = Some ?b" for P Q A B C
    using that approval_evolves_refl by (cases P; cases Q) auto
  show "\<exists>a'. load_approval_request (snd (resolve_approval_request k status who uid clk s)) k = Some a'
      \<and> approval_evolves ?b a'"
    unfolding res snd_decide_loaded [OF assms(2)] id Let_def by (rule pick) (use tsk b in simp_all)
  show "fst (resolve_approval_request k status who uid clk s) = Inr (Some (decided a status who (clk 0)))
      \<or> (\<exists>e. fst (resolve_approval_request k status who uid clk s) = Inl e)"
    unfolding res decide_loaded_pending [OF assms(2)] by (auto simp: Let_def split: prod.split sum.split)
qed

lemma resolve_rejected_frame:
  assumes "load_approval_request s k = Some a" and "ap_status a = ''pending''"
  shows "fst (resolve_approval_request k ''rejected'' who uid clk s) = Inr (Some (decided a ''rejected'' who (clk 0)))"
    and "tasks (snd (resolve_approval_request k ''rejected'' who uid clk s)) = tasks s"
    and "node_components (snd (resolve_approval_request k ''rejected'' who uid clk s)) = node_components s"
    and "component_runs (snd (resolve_approval_request k ''rejected'' who uid clk s)) = component_runs s"
  using assms by (simp_all add: resolve_approval_request_def decide_loaded_pending Let_def)

lemma carry_out_evolves:
  assumes "load_approval_request s k = Some a"
  shows "\<exists>a'. load_approval_request (snd (snd (carry_out sha256 expand run b uid clk (fs, s)))) k = Some a'
    \<and> approval_evolves a a'"
proof -
  obtain c s1 where t: "carry_out_task b uid clk s = (c, s1)" by fastforce
  have "snd (carry_out_task b uid clk s) = s
      \<or> snd (carry_out_task b uid clk s) = snd (dispatch_approved_task_request (ap_approval_id b) uid clk s)"
    by (auto simp: carry_out_task_def split: prod.split sum.split option.split)
  then obtain a1 where a1: "load_approval_request s1 k = Some a1" "approval_evolves a a1"
    using t assms dispatch_task_evolves [OF assms] approval_evolves_refl by fastforce
  obtain ok s2 where cc: "carry_out_component b (\<lambda>k. clk (k + 3)) s1 = (ok, s2)" by fastforce
  have "snd (carry_out_component b (\<lambda>k. clk (k + 3)) s1) \<in>
      {s1, snd (dispatch_approved_component_action (ap_approval_id b) (\<lambda>k. clk (k + 3)) s1)}"
    by (simp add: carry_out_component_def split: prod.split option.split)
  then have "approval_requests (snd (carry_out_component b (\<lambda>k. clk (k + 3)) s1)) = approval_requests s1"
    by (elim insertE emptyE) (simp_all only: dispatch_component_frame(3))
  then have s2: "load_approval_request s2 = load_approval_request s1"
    using cc by (intro load_approval_cong) simp
  obtain r3 fs3 s3 where acl: "dispatch_approved_network_acl_apply sha256 expand run (ap_approval_id b) (clk 6) (fs, s2)
      = (r3, fs3, s3)" by (metis prod_cases3)
  have s3: "load_approval_request s3 = load_approval_request s2"
    using acl_dispatch_frame(1) [of sha256 expand run "ap_approval_id b" "clk 6" fs s2] acl
    by (intro load_approval_cong) simp
  have "snd (snd (carry_out sha256 expand run b uid clk (fs, s))) \<in> {s1, s2, s3}"
    using t cc acl
    by (auto simp: carry_out_def Let_def split: carried.split bool.split sum.split exn.split)
  then show ?thesis using a1 s2 s3 by auto
qed

lemma settled_callback_status: "settled_callback a c = Inr r \<Longrightarrow> cb_status r = Some (ap_status a)"
  by (auto simp: settled_callback_def Let_def split: carried.splits)

section \<open>Counting and acknowledging\<close>

lemma count_status_simps [simp]:
  "up_processed (count_status st acc) = up_processed acc"
  "up_failed (count_status st acc) = up_failed acc"
  "up_next_offset (count_status st acc) = up_next_offset acc"
  "up_approved (count_status st acc) + up_rejected (count_status st acc) \<le> Suc (up_approved acc + up_rejected acc)"
  by (simp_all add: count_status_def)

lemma try_callback_counts:
  assumes "try_callback handle answer clear data who cid callback acc w = (ok, acc', w')"
  shows "acc' = acc \<or> (\<exists>st. acc' = count_status st acc)"
  using assms unfolding try_callback_def Let_def
  by (auto split: prod.splits sum.splits)

definition counts_ok :: "update_result \<Rightarrow> bool" where
  "counts_ok acc \<longleftrightarrow> up_approved acc + up_rejected acc \<le> up_processed acc \<and> up_failed acc \<le> up_processed acc"

definition offset_above :: "int \<Rightarrow> update_result \<Rightarrow> bool" where
  "offset_above n acc \<longleftrightarrow> (\<exists>x. up_next_offset acc = Some x \<and> n \<le> x)"

definition update_number :: "json \<Rightarrow> int option" where
  "update_number u = (case read_update u of Inl e \<Rightarrow> None | Inr (i, _) \<Rightarrow> Some i)"

definition bump :: "int \<Rightarrow> update_result \<Rightarrow> update_result" where
  "bump i acc = acc\<lparr>up_next_offset := Some (max (case up_next_offset acc of None \<Rightarrow> 0 | Some x \<Rightarrow> x) (i + 1))\<rparr>"

definition pressed :: "int \<Rightarrow> update_result \<Rightarrow> update_result" where
  "pressed i acc = (bump i acc)\<lparr>up_processed := up_processed acc + 1\<rparr>"

definition failed_once :: "update_result \<Rightarrow> update_result" where
  "failed_once acc = acc\<lparr>up_failed := up_failed acc + 1\<rparr>"

lemma process_update_cases:
  assumes "process_update handle answer clear prefix u acc w = (Inr acc', w')"
  obtains i where "update_number u = Some i"
    and "acc' = bump i acc \<or> (\<exists>a2. (a2 = pressed i acc \<or> (\<exists>st. a2 = count_status st (pressed i acc)))
           \<and> (acc' = a2 \<or> acc' = failed_once a2))"
proof -
  obtain i data cid user callback where rd: "read_update u = Inr (i, data, cid, user, callback)"
    using assms by (auto simp: process_update_def split: sum.splits)
  have num: "update_number u = Some i" by (simp add: update_number_def rd)
  show thesis
  proof (cases "startswith data ''hmn:approval:''")
    case False
    then have "acc' = bump i acc" using assms rd by (simp add: process_update_def bump_def)
    then show thesis using that [OF num] by blast
  next
    case True
    obtain b a2 w1 where t: "try_callback handle answer clear data (prefix @ '':'' @ user) cid callback
        (pressed i acc) w = (b, a2, w1)" by (metis prod_cases3)
    have "acc' = (if b then a2 else failed_once a2)"
      using assms rd t True
      by (auto simp: process_update_def Let_def pressed_def bump_def failed_once_def split: bool.splits)
    then have "acc' = a2 \<or> acc' = failed_once a2" by simp
    then show thesis using that [OF num] try_callback_counts [OF t] by blast
  qed
qed

lemma bump_simps [simp]:
  "up_processed (bump i acc) = up_processed acc" "up_approved (bump i acc) = up_approved acc"
  "up_rejected (bump i acc) = up_rejected acc" "up_failed (bump i acc) = up_failed acc"
  "up_processed (pressed i acc) = Suc (up_processed acc)" "up_approved (pressed i acc) = up_approved acc"
  "up_rejected (pressed i acc) = up_rejected acc" "up_failed (pressed i acc) = up_failed acc"
  "up_next_offset (pressed i acc) = up_next_offset (bump i acc)"
  "up_processed (failed_once acc) = up_processed acc" "up_approved (failed_once acc) = up_approved acc"
  "up_rejected (failed_once acc) = up_rejected acc" "up_failed (failed_once acc) = Suc (up_failed acc)"
  "up_next_offset (failed_once acc) = up_next_offset acc"
  by (simp_all add: bump_def pressed_def failed_once_def)

lemma process_update_step:
  assumes "process_update handle answer clear prefix u acc w = (Inr acc', w')"
  shows "counts_ok acc \<Longrightarrow> counts_ok acc'" and "up_processed acc' \<le> Suc (up_processed acc)"
    and "offset_above n acc \<Longrightarrow> offset_above n acc'"
    and "\<exists>i. update_number u = Some i \<and> offset_above (i + 1) acc'"
proof -
  obtain i where i: "update_number u = Some i"
    and c: "acc' = bump i acc \<or> (\<exists>a2. (a2 = pressed i acc \<or> (\<exists>st. a2 = count_status st (pressed i acc)))
           \<and> (acc' = a2 \<or> acc' = failed_once a2))"
    using process_update_cases [OF assms] by blast
  have offset: "up_next_offset acc' = up_next_offset (bump i acc)" using c by auto
  show "counts_ok acc \<Longrightarrow> counts_ok acc'"
  proof -
    assume ok: "counts_ok acc"
    have "counts_ok (count_status st (pressed i acc)) \<and> counts_ok (failed_once (count_status st (pressed i acc)))" for st
      using ok count_status_simps(4) [of st "pressed i acc"] by (simp add: counts_ok_def)
    with c ok show "counts_ok acc'" by (auto simp: counts_ok_def)
  qed
  show "up_processed acc' \<le> Suc (up_processed acc)" using c by auto
  show "offset_above n acc \<Longrightarrow> offset_above n acc'" using offset by (auto simp: offset_above_def bump_def)
  show "\<exists>i. update_number u = Some i \<and> offset_above (i + 1) acc'"
    using i offset by (simp add: offset_above_def bump_def)
qed

lemma process_updates_run:
  assumes "process_updates handle answer clear prefix us acc w = (Inr r, w')"
  shows "(counts_ok acc \<longrightarrow> counts_ok r) \<and> up_processed r \<le> up_processed acc + length us
    \<and> (offset_above n acc \<longrightarrow> offset_above n r)
    \<and> (\<forall>u \<in> set us. \<exists>i. update_number u = Some i \<and> offset_above (i + 1) r)"
  using assms
proof (induction us arbitrary: acc w n)
  case Nil
  then show ?case by simp
next
  case (Cons u us)
  obtain acc1 w1 where one: "process_update handle answer clear prefix u acc w = (Inr acc1, w1)"
    and rest: "process_updates handle answer clear prefix us acc1 w1 = (Inr r, w')"
    using Cons.prems by (auto split: prod.splits sum.splits)
  note step = process_update_step [OF one] and run = Cons.IH [OF rest]
  obtain i where i: "update_number u = Some i" "offset_above (i + 1) acc1" using step(4) by blast
  have "offset_above (i + 1) r" using run [of "i + 1"] i(2) by blast
  moreover have "\<forall>v \<in> set us. \<exists>i. update_number v = Some i \<and> offset_above (i + 1) r" using run by blast
  moreover have "counts_ok acc \<longrightarrow> counts_ok r" using run step(1) by blast
  moreover have "offset_above n acc \<longrightarrow> offset_above n r" using run step(3) by blast
  moreover have "up_processed r \<le> up_processed acc + length (u # us)" using run step(2) by fastforce
  ultimately show ?case using i(1) by simp
qed

section \<open>Properties\<close>

text \<open>C32: a button decides a pending request and nothing else: a forged callback, an unknown request and one
  that was decided before are answered with a failure and change nothing; on a pending request the
  press records exactly the decision of the button and who pressed it, reports that status, and a
  rejection touches no file, task or component.\<close>

theorem button_decides_pending_request:
  "case handle_telegram_approval_callback sha256 expand run data who uid clk (fs, s) of (out, fs', s') \<Rightarrow>
     (case parse_approval_callback data of
        None \<Rightarrow> (\<exists>r. out = Inr r \<and> \<not> cb_ok r) \<and> fs' = fs \<and> s' = s
      | Some (d, k) \<Rightarrow>
          (case load_approval_request s k of
             None \<Rightarrow> (\<exists>r. out = Inr r \<and> \<not> cb_ok r) \<and> fs' = fs \<and> s' = s
           | Some a \<Rightarrow>
               if ap_status a \<noteq> ''pending''
               then (\<exists>r. out = Inr r \<and> \<not> cb_ok r \<and> cb_status r = Some (ap_status a)) \<and> fs' = fs \<and> s' = s
               else (\<exists>a'. load_approval_request s' k = Some a' \<and> ap_decided_by a' = who
                      \<and> ap_status a' = (if d = ''approve'' then ''approved'' else ''rejected'')
                      \<and> (case out of Inl e \<Rightarrow> True | Inr r \<Rightarrow> cb_status r = Some (ap_status a')))
                    \<and> (if d = ''approve'' then True
                       else fs' = fs \<and> tasks s' = tasks s \<and> node_components s' = node_components s
                            \<and> component_runs s' = component_runs s)))"
proof -
  obtain out fs' s' where H: "handle_telegram_approval_callback sha256 expand run data who uid clk (fs, s) = (out, fs', s')"
    by (metis prod_cases3)
  show ?thesis
  proof (cases "\<exists>d k a. parse_approval_callback data = Some (d, k) \<and> load_approval_request s k = Some a \<and> ap_status a = ''pending''")
    case False
    then show ?thesis
      by (auto simp: handle_telegram_approval_callback_def Let_def split: option.split)
  next
    case True
    then obtain d k a where p: "parse_approval_callback data = Some (d, k)" and a: "load_approval_request s k = Some a"
      and pend: "ap_status a = ''pending''" by blast
    have id: "ap_approval_id a = k" using a by (rule load_approval_id)
    define st where "st = (if d = ''approve'' then ''approved'' else ''rejected'')"
    obtain r1 s1 where res: "resolve_approval_request k st who (uid 0) clk s = (r1, s1)" by fastforce
    have st: "st = ''approved'' \<or> st = ''rejected''" by (simp add: st_def)
    obtain a1 where a1: "load_approval_request s1 k = Some a1"
        "approval_evolves (ap_reread (decided a st who (clk 0))) a1"
      using resolve_pending(1) [OF a pend st, of who "uid 0" clk] res by auto
    have r1: "r1 = Inr (Some (decided a st who (clk 0))) \<or> (\<exists>e. r1 = Inl e)"
      using resolve_pending(2) [OF a pend st, of who "uid 0" clk] res by simp
    have keeps: "ap_status a2 = st \<and> ap_decided_by a2 = who"
      if "approval_evolves (ap_reread (decided a st who (clk 0))) a2" for a2
      using that st by (auto simp: approval_evolves_def ap_reread_def decided_def)
    let ?b = "decided a st who (clk 0)"
    show ?thesis
    proof (cases "d = ''approve''")
      case False
      have "st = ''rejected''" using False by (simp add: st_def)
      moreover have "r1 = Inr (Some ?b)" "tasks s1 = tasks s" "node_components s1 = node_components s"
          "component_runs s1 = component_runs s"
        using resolve_rejected_frame [OF a pend, of who "uid 0" clk] res calculation by simp_all
      ultimately show ?thesis using p a pend id res False a1 keeps [OF a1(2)]
        by (simp add: handle_telegram_approval_callback_def st_def decided_def)
    next
      case approve: True
      then have stA: "st = ''approved''" by (simp add: st_def)
      obtain a2 where a2: "load_approval_request (snd (snd (carry_out sha256 expand run ?b (uid 1) (\<lambda>k. clk (k + 5)) (fs, s1)))) k
          = Some a2" "approval_evolves a1 a2"
        using carry_out_evolves [OF a1(1)] by blast
      have k2: "ap_status a2 = st \<and> ap_decided_by a2 = who"
        using keeps approval_evolves_trans [OF a1(2) a2(2)] by blast
      obtain c fs2 s2 where co: "carry_out sha256 expand run ?b (uid 1) (\<lambda>k. clk (k + 5)) (fs, s1) = (c, fs2, s2)"
        by (metis prod_cases3)
      have bst: "ap_status ?b = st" by (simp add: decided_def)
      show ?thesis
      proof (cases "\<exists>e. r1 = Inl e")
        case True
        then show ?thesis using p a pend id res approve a1 keeps [OF a1(2)] stA
          by (auto simp: handle_telegram_approval_callback_def)
      next
        case False
        then have "r1 = Inr (Some ?b)" using r1 by blast
        then show ?thesis using p a pend id res approve a2 k2 stA co bst settled_callback_status [of ?b c]
          by (auto simp: handle_telegram_approval_callback_def split: sum.split)
      qed
    qed
  qed
qed

text \<open>No button press is read twice: the offset a round of \<open>process_telegram_callbacks\<close> ends with lies
  beyond the id of every update it fetched, and never goes back; the counters stay within the number
  of updates.\<close>

theorem offset_passes_every_update:
  assumes "process_telegram_callbacks handle answer clear get_updates prefix offset w = (Inr r, w')"
    and "get_updates offset w = (Inr us, w1)" and "u \<in> set us"
  shows "\<exists>i x. update_number u = Some i \<and> up_next_offset r = Some x \<and> i < x
    \<and> (case offset of None \<Rightarrow> 0 \<le> up_processed r | Some x0 \<Rightarrow> x0 \<le> x)
    \<and> up_processed r \<le> length us \<and> up_approved r + up_rejected r \<le> up_processed r \<and> up_failed r \<le> up_processed r"
proof -
  let ?acc = "\<lparr>up_processed = 0, up_approved = 0, up_rejected = 0, up_failed = 0, up_next_offset = offset\<rparr>"
  have run: "process_updates handle answer clear prefix us ?acc w1 = (Inr r, w')"
    using assms(1,2) by (simp add: process_telegram_callbacks_def)
  note all = process_updates_run [OF run]
  obtain i where i: "update_number u = Some i" "offset_above (i + 1) r" using all assms(3) by blast
  have "case offset of None \<Rightarrow> True | Some x0 \<Rightarrow> offset_above x0 r"
    using all by (auto simp: offset_above_def split: option.split)
  with i all show ?thesis
    by (auto simp: counts_ok_def offset_above_def split: option.splits)
qed

theorem offset_passes_every_update_witness:
  "\<exists>i x. update_number (JObj [(''update_id'', JInt 41)]) = Some i
    \<and> up_next_offset \<lparr>up_processed = 0, up_approved = 0, up_rejected = 0, up_failed = 0, up_next_offset = Some 42\<rparr> = Some x
    \<and> i < x"
proof -
  let ?run = "process_telegram_callbacks (\<lambda>d b w. (Inr (JObj []), w)) (\<lambda>c m w. (Inr (), w)) (\<lambda>c m w. (Inr (), w))
      (\<lambda>offset w. (Inr [JObj [(''update_id'', JInt 41)]], w)) ''telegram'' (Some 7) (0 :: nat)"
  have "?run = (Inr \<lparr>up_processed = 0, up_approved = 0, up_rejected = 0, up_failed = 0, up_next_offset = Some 42\<rparr>, 0)"
    by code_simp
  from offset_passes_every_update [OF this refl] show ?thesis by simp
qed

end
