(* ===== verification/Signing.thy ===== *)
theory Signing imports Prelude begin

text \<open>
  The signature of a task that a worker polls (\<open>signing.py\<close>).  \<open>hmac\<close> is HMAC-SHA256 in hexadecimal,
  \<open>hmac key message\<close>; nothing is assumed of it.
\<close>

definition is_ascii :: "string \<Rightarrow> bool" where
  "is_ascii s = list_all (\<lambda>c. (of_char c :: nat) < 128) s"

text \<open>\<open>hmac.compare_digest\<close> of two texts raises when one of them is not ASCII.\<close>

definition compare_digest :: "string \<Rightarrow> string \<Rightarrow> bool result" where
  "compare_digest a b =
     (if is_ascii a \<and> is_ascii b then Inr (a = b)
      else Inl (TypeError ''comparing strings with non-ASCII characters is not supported''))"

definition SIGNATURE_PREFIX :: string where
  "SIGNATURE_PREFIX = ''hmac-sha256:''"

definition task_message :: "string \<Rightarrow> string \<Rightarrow> string \<Rightarrow> string" where
  "task_message task_id command risk = task_id @ [CHR 0x0A] @ risk @ [CHR 0x0A] @ command"

definition sign_task_payload ::
  "(string \<Rightarrow> string \<Rightarrow> string) \<Rightarrow> string \<Rightarrow> string \<Rightarrow> string \<Rightarrow> string \<Rightarrow> string" where
  "sign_task_payload hmac node_fingerprint task_id command risk =
     SIGNATURE_PREFIX @ hmac node_fingerprint (task_message task_id command risk)"

text \<open>The comparison of \<open>verify_task_signature\<close>; for the texts on which \<open>hmac.compare_digest\<close> raises instead, see
  \<open>verify_task_signature_call\<close>.\<close>

definition verify_task_signature ::
  "(string \<Rightarrow> string \<Rightarrow> string) \<Rightarrow> string \<Rightarrow> string \<Rightarrow> string \<Rightarrow> string \<Rightarrow> string \<Rightarrow> bool" where
  "verify_task_signature hmac node_fingerprint task_id command risk signature =
     (sign_task_payload hmac node_fingerprint task_id command risk = signature)"

text \<open>The whole call: \<open>compare_digest\<close> refuses texts that are not ASCII, which a digest in hexadecimal always is.\<close>

definition verify_task_signature_call ::
  "(string \<Rightarrow> string \<Rightarrow> string) \<Rightarrow> string \<Rightarrow> string \<Rightarrow> string \<Rightarrow> string \<Rightarrow> string \<Rightarrow> bool result" where
  "verify_task_signature_call hmac node_fingerprint task_id command risk signature =
     map_sum id (\<lambda>_. verify_task_signature hmac node_fingerprint task_id command risk signature)
       (compare_digest (sign_task_payload hmac node_fingerprint task_id command risk) signature)"

lemma verify_call_of_digest:
  assumes "is_ascii (hmac fp (task_message t c r))"
  shows "verify_task_signature_call hmac fp t c r (sign_task_payload hmac fp t c r) = Inr True"
    and "verify_task_signature_call hmac fp t c r signature = Inr True \<longleftrightarrow> signature = sign_task_payload hmac fp t c r"
  using assms
  by (auto simp: verify_task_signature_call_def verify_task_signature_def sign_task_payload_def SIGNATURE_PREFIX_def
      compare_digest_def is_ascii_def)

section \<open>What a signature binds\<close>

lemma split_at_newline:
  assumes "CHR 0x0A \<notin> set a" and "CHR 0x0A \<notin> set b" and "a @ CHR 0x0A # x = b @ CHR 0x0A # y"
  shows "a = b \<and> x = y"
proof -
  have cut: "takeWhile (\<lambda>c. c \<noteq> CHR 0x0A) (u @ CHR 0x0A # v) = u" if "CHR 0x0A \<notin> set u" for u v
    using that by (induction u) auto
  have "a = b" using cut [OF assms(1), of x] cut [OF assms(2), of y] assms(3) by metis
  with assms(3) show ?thesis by simp
qed

lemma task_message_eq:
  assumes "CHR 0x0A \<notin> set t" and "CHR 0x0A \<notin> set r" and "CHR 0x0A \<notin> set t'" and "CHR 0x0A \<notin> set r'"
  shows "task_message t' c' r' = task_message t c r \<longleftrightarrow> t' = t \<and> c' = c \<and> r' = r"
proof
  assume m: "task_message t' c' r' = task_message t c r"
  have "t' = t \<and> r' @ CHR 0x0A # c' = r @ CHR 0x0A # c"
    using m by (intro split_at_newline [OF assms(3,1)]) (simp add: task_message_def)
  moreover from this have "r' = r \<and> c' = c" by (intro split_at_newline [OF assms(4,2)]) simp
  ultimately show "t' = t \<and> c' = c \<and> r' = r" by blast
qed simp

text \<open>C38: a signature binds the whole task: the message that is signed determines task id, risk and command
  when ids and risks hold no newline, so a worker that checks a signature accepts another task with it
  only where the hash itself collides; the signature of the task itself is always accepted.\<close>

theorem signature_binds_task:
  assumes "CHR 0x0A \<notin> set t" and "CHR 0x0A \<notin> set r" and "CHR 0x0A \<notin> set t'" and "CHR 0x0A \<notin> set r'"
  shows "verify_task_signature hmac fp t c r (sign_task_payload hmac fp t c r)
    \<and> (verify_task_signature hmac fp t' c' r' (sign_task_payload hmac fp t c r) \<longleftrightarrow>
        (t' = t \<and> c' = c \<and> r' = r)
        \<or> (task_message t' c' r' \<noteq> task_message t c r
           \<and> hmac fp (task_message t' c' r') = hmac fp (task_message t c r)))"
  unfolding verify_task_signature_def sign_task_payload_def same_append_eq
  using task_message_eq [OF assms, of c' c] by (cases "task_message t' c' r' = task_message t c r") auto

theorem signature_binds_task_witness:
  "\<not> verify_task_signature (\<lambda>key m. key @ m) ''fp'' ''task_1'' ''reboot'' ''low''
      (sign_task_payload (\<lambda>key m. key @ m) ''fp'' ''task_1'' ''uptime'' ''low'')"
  using signature_binds_task [of "''task_1''" "''low''" "''task_1''" "''low''" "\<lambda>key m. key @ m" "''fp''" "''uptime''" "''reboot''"]
  by simp

end
