(* ===== verification/Api.thy ===== *)
theory Api imports Tokens Monitor Gateway Signing begin

text \<open>
  The HTTP API that nodes, the chat gateway and the console call (\<open>api.py\<close>): one function per
  endpoint, and \<open>api_step\<close>, which serves one request.  An endpoint answers, refuses with a status and a
  detail (\<open>HTTPException\<close>) or lets an exception escape; the store it leaves is the store at that point,
  since every store operation commits on its own.
\<close>

datatype 'a http =
    Answer 'a
  | Refused int json
  | Crashed exn

abbreviation refuse :: "int \<Rightarrow> string \<Rightarrow> 'a http" where
  "refuse status detail \<equiv> Refused status (JStr detail)"

section \<open>Joining\<close>

record join_request =
  jn_token :: string
  jn_fingerprint :: string
  jn_hostname :: string
  jn_addresses :: "string list"
  jn_auto_confirm :: bool

record join_response =
  js_node_id :: string
  js_status :: string
  js_trust_level :: string
  js_labels :: "string list"

definition find_duplicate_join_node :: "store \<Rightarrow> join_request \<Rightarrow> node option" where
  "find_duplicate_join_node s q =
     (let request_addresses = set (filter (\<lambda>a. a \<noteq> []) (jn_addresses q))
      in List.find (\<lambda>n. nd_status n \<noteq> ''revoked''
            \<and> (nd_fingerprint n = jn_fingerprint q
               \<or> nd_hostname n = jn_hostname q \<and> list_ex (\<lambda>a. a \<in> request_addresses) (nd_addresses n)))
          (list_nodes s))"

definition api_join ::
  "join_request \<Rightarrow> string \<Rightarrow> (nat \<Rightarrow> time) \<Rightarrow> store \<Rightarrow> join_response http \<times> store" where
  "api_join q uid clk s =
     (if load_token s (jn_token q) = None then (refuse 404 ''join token not found'', s)
      else case find_duplicate_join_node s q of
        Some duplicate \<Rightarrow> (refuse 409 (''node already exists: '' @ nd_node_id duplicate), s)
      | None \<Rightarrow>
          (case consume_token (jn_token q) (jn_fingerprint q) (clk 0) s of
             (None, s1) \<Rightarrow>
               (refuse 409 (''join token is ''
                  @ (case load_token s1 (jn_token q) of None \<Rightarrow> ''unknown'' | Some t \<Rightarrow> jt_status t)), s1)
           | (Some consumed, s1) \<Rightarrow>
               let (n, s2) = register_pending_node (''node_'' @ uid) (jn_fingerprint q) (jn_hostname q)
                               (jn_addresses q) (jt_trust_level consumed) (jt_labels consumed) s1;
                   permission_bundles = (if jn_auto_confirm q then [''observe'', ''task''] else []);
                   n' = (if jn_auto_confirm q
                         then n\<lparr>nd_status := ''managed'', nd_permission_bundles := permission_bundles\<rparr> else n);
                   s3 = (if jn_auto_confirm q then save_node n' s2 else s2)
               in (Answer \<lparr>js_node_id = nd_node_id n', js_status = nd_status n', js_trust_level = nd_trust_level n',
                           js_labels = nd_labels n'\<rparr>,
                   record_audit ''node'' ''node'' (nd_node_id n') ''join'' ''ok''
                     [(''hostname'', JStr (nd_hostname n')), (''addresses'', JList (map JStr (nd_addresses n'))),
                      (''trust_level'', JStr (nd_trust_level n')), (''labels'', JList (map JStr (nd_labels n'))),
                      (''auto_confirm'', JBool (jn_auto_confirm q)),
                      (''permission_bundles'', JList (map JStr permission_bundles))] (clk 1) s3)))"

section \<open>Node endpoints\<close>

text \<open>The checks that heartbeats, polls and results share.\<close>

definition authorise_node :: "store \<Rightarrow> string \<Rightarrow> string \<Rightarrow> node http" where
  "authorise_node s node_id fingerprint =
     (case load_node s node_id of
        None \<Rightarrow> refuse 404 ''node not found''
      | Some n \<Rightarrow>
          if nd_status n = ''revoked'' then refuse 403 ''node is revoked''
          else if nd_status n \<noteq> ''managed'' then refuse 403 ''node is not managed''
          else if nd_fingerprint n \<noteq> fingerprint then refuse 403 ''node fingerprint mismatch''
          else Answer n)"

text \<open>A protocol version that is neither empty nor text has no \<open>split\<close>.\<close>

definition facts_compatible :: "json \<Rightarrow> bool result" where
  "facts_compatible worker_protocol =
     (if \<not> truthy worker_protocol then Inr True
      else case worker_protocol of
        JStr w \<Rightarrow> Inr (is_worker_compatible WORKER_PROTOCOL_VERSION (Some w))
      | _ \<Rightarrow> Inl (AttributeError ''split''))"

record heartbeat_response =
  hr_node_id :: string
  hr_status :: string
  hr_master_version :: string
  hr_worker_compatible :: bool

definition api_heartbeat ::
  "string \<Rightarrow> string \<Rightarrow> string \<Rightarrow> dict \<Rightarrow> time \<Rightarrow> store \<Rightarrow> heartbeat_response http \<times> store" where
  "api_heartbeat node_id fingerprint status facts now s =
     (case authorise_node s node_id fingerprint of
        Refused code d \<Rightarrow> (Refused code d, s)
      | Crashed e \<Rightarrow> (Crashed e, s)
      | Answer n \<Rightarrow>
          let outcome = (if status = ''ok'' then ''ok'' else ''warn'')
          in case facts_compatible (dget facts ''worker_protocol_version'') of
               Inl e \<Rightarrow> (Crashed e, s)
             | Inr worker_compatible \<Rightarrow>
                 (Answer \<lparr>hr_node_id = nd_node_id n, hr_status = status, hr_master_version = WORKER_PROTOCOL_VERSION,
                          hr_worker_compatible = worker_compatible\<rparr>,
                  record_audit ''node'' ''node'' (nd_node_id n) ''heartbeat''
                    (if worker_compatible then outcome else ''warn'')
                    [(''status'', JStr status), (''facts'', JObj facts), (''worker_compatible'', JBool worker_compatible)]
                    now s))"

definition api_rotate_fingerprint ::
  "string \<Rightarrow> string \<Rightarrow> string \<Rightarrow> time \<Rightarrow> store \<Rightarrow> string http \<times> store" where
  "api_rotate_fingerprint node_id fingerprint new_fingerprint now s =
     (case load_node s node_id of
        None \<Rightarrow> (refuse 404 ''node not found'', s)
      | Some n \<Rightarrow>
          if nd_fingerprint n \<noteq> fingerprint then (refuse 403 ''node fingerprint mismatch'', s)
          else case rotate_node_fingerprint node_id (Some fingerprint) new_fingerprint now s of
            (None, s1) \<Rightarrow> (refuse 403 ''node fingerprint mismatch'', s1)
          | (Some updated, s1) \<Rightarrow> (Answer (nd_node_id updated), s1))"

record task_response =
  tr_task_id :: string
  tr_command :: string
  tr_risk :: string
  tr_signature :: string

definition DEFAULT_LEASE :: int where
  "DEFAULT_LEASE = 900"

definition api_next_task ::
  "(string \<Rightarrow> string \<Rightarrow> string) \<Rightarrow> string \<Rightarrow> string \<Rightarrow> string option \<Rightarrow> (nat \<Rightarrow> time) \<Rightarrow> store
    \<Rightarrow> task_response option http \<times> store" where
  "api_next_task hmac node_id fingerprint worker_protocol clk s =
     (case authorise_node s node_id fingerprint of
        Refused code d \<Rightarrow> (Refused code d, s)
      | Crashed e \<Rightarrow> (Crashed e, s)
      | Answer n \<Rightarrow>
          if \<not> is_worker_compatible WORKER_PROTOCOL_VERSION worker_protocol
          then (refuse 426 ''worker protocol version mismatch; update node worker'', s)
          else case claim_next_task node_id ''worker'' DEFAULT_LEASE (clk 1) (snd (expire_stuck_tasks None (clk 0) s)) of
            (None, s2) \<Rightarrow> (Answer None, s2)
          | (Some t, s2) \<Rightarrow>
              (Answer (Some \<lparr>tr_task_id = tk_task_id t, tr_command = tk_command t, tr_risk = tk_risk t,
                 tr_signature = sign_task_payload hmac (nd_fingerprint n) (tk_task_id t) (tk_command t) (tk_risk t)\<rparr>), s2))"

definition api_task_result ::
  "string \<Rightarrow> string \<Rightarrow> int \<Rightarrow> string \<Rightarrow> string \<Rightarrow> time \<Rightarrow> store \<Rightarrow> (string \<times> string) http \<times> store" where
  "api_task_result task_id fingerprint exit_code stdout stderr now s =
     (case load_task s task_id of
        None \<Rightarrow> (refuse 404 ''task not found'', s)
      | Some t \<Rightarrow>
          (case authorise_node s (tk_node_id t) fingerprint of
             Refused code d \<Rightarrow> (Refused code d, s)
           | Crashed e \<Rightarrow> (Crashed e, s)
           | Answer n \<Rightarrow>
               (case complete_task task_id exit_code stdout stderr now s of
                  (None, s1) \<Rightarrow> (refuse 409 ''task is already terminal'', s1)
                | (Some updated, s1) \<Rightarrow> (Answer (tk_task_id updated, tk_status updated), s1))))"

section \<open>Approvals\<close>

record decision_response =
  dr_approval_id :: string
  dr_status :: string
  dr_dispatched_task_id :: json

definition decided_answer :: "approval_request \<Rightarrow> carried \<Rightarrow> decision_response http" where
  "decided_answer a c =
     (case c of
        Carried task_id \<Rightarrow>
          Answer \<lparr>dr_approval_id = ap_approval_id a, dr_status = ap_status a, dr_dispatched_task_id = task_id\<rparr>
      | AclFailed m \<Rightarrow> refuse 422 m
      | Escaped e \<Rightarrow> Crashed e
      | _ \<Rightarrow> refuse 422 ''approval cannot be dispatched'')"

definition api_resolve_approval ::
  "(string \<Rightarrow> string) \<Rightarrow> (string \<Rightarrow> string) \<Rightarrow> acl_host \<Rightarrow> string \<Rightarrow> string \<Rightarrow> string \<Rightarrow> (nat \<Rightarrow> string) \<Rightarrow> (nat \<Rightarrow> time)
    \<Rightarrow> files \<times> store \<Rightarrow> decision_response http \<times> files \<times> store" where
  "api_resolve_approval sha256 expand run approval_id status decided_by uid clk st =
     (let (fs, s) = st
      in case load_approval_request s approval_id of
        None \<Rightarrow> (refuse 404 ''approval not found'', st)
      | Some existing \<Rightarrow>
          if ap_status existing \<noteq> ''pending'' then (refuse 409 (''approval is '' @ ap_status existing), st)
          else case resolve_approval_request approval_id status decided_by (uid 0) clk s of
            (Inl e, s1) \<Rightarrow> (Crashed e, fs, s1)
          | (Inr None, s1) \<Rightarrow> (refuse 404 ''approval not found'', fs, s1)
          | (Inr (Some a), s1) \<Rightarrow>
              if status = ''approved''
              then case carry_out sha256 expand run a (uid 1) (\<lambda>k. clk (k + 5)) (fs, s1) of
                     (c, st2) \<Rightarrow> (decided_answer a c, st2)
              else (decided_answer a (Carried JNull), fs, s1))"

section \<open>The gateway endpoints\<close>

definition notification_response :: "notification \<Rightarrow> dict" where
  "notification_response n =
     [(''notification_id'', JStr (nt_notification_id n)), (''channel'', JStr (nt_channel n)),
      (''subject_type'', JStr (nt_subject_type n)), (''subject_id'', JStr (nt_subject_id n)),
      (''status'', JStr (nt_status n)), (''payload'', JObj (nt_payload n))]"

definition gateway_notifications :: "string \<Rightarrow> store \<Rightarrow> dict list" where
  "gateway_notifications client s =
     map notification_response (filter (\<lambda>n. nt_channel n = client) (list_notifications ''pending'' s))"

definition gateway_notification_delivered :: "string \<Rightarrow> time \<Rightarrow> store \<Rightarrow> (string \<times> string) http \<times> store" where
  "gateway_notification_delivered notification_id now s =
     (case mark_notification_delivered notification_id now s of
        (None, s1) \<Rightarrow> (refuse 404 ''notification not found'', s1)
      | (Some n, s1) \<Rightarrow> (Answer (nt_notification_id n, nt_status n), s1))"

definition opt_str :: "string option \<Rightarrow> json" where
  "opt_str x = (case x of None \<Rightarrow> JNull | Some v \<Rightarrow> JStr v)"

definition callback_json :: "callback_result \<Rightarrow> dict" where
  "callback_json r =
     [(''ok'', JBool (cb_ok r)), (''message'', JStr (cb_message r)), (''approval_id'', opt_str (cb_approval_id r)),
      (''status'', opt_str (cb_status r)), (''dispatched_task_id'', cb_dispatched_task_id r)]"

definition gateway_callback ::
  "(string \<Rightarrow> string) \<Rightarrow> (string \<Rightarrow> string) \<Rightarrow> acl_host \<Rightarrow> string \<Rightarrow> string \<Rightarrow> (nat \<Rightarrow> string) \<Rightarrow> (nat \<Rightarrow> time)
    \<Rightarrow> files \<times> store \<Rightarrow> dict http \<times> files \<times> store" where
  "gateway_callback sha256 expand run data decided_by uid clk st =
     (case handle_telegram_approval_callback sha256 expand run data decided_by uid clk st of
        (Inl e, st1) \<Rightarrow> (Crashed e, st1)
      | (Inr r, st1) \<Rightarrow>
          (if \<not> cb_ok r
           then Refused (if cb_status r \<in> {Some ''approved'', Some ''rejected''} then 409 else 400) (JObj (callback_json r))
           else Answer (callback_json r), st1))"

definition approval_gateway_callback ::
  "(string \<Rightarrow> string) \<Rightarrow> (string \<Rightarrow> string) \<Rightarrow> acl_host \<Rightarrow> string \<Rightarrow> string \<Rightarrow> string \<Rightarrow> (nat \<Rightarrow> string)
    \<Rightarrow> (nat \<Rightarrow> time) \<Rightarrow> files \<times> store \<Rightarrow> dict http \<times> files \<times> store" where
  "approval_gateway_callback sha256 expand run client data decided_by uid clk st =
     (if client \<noteq> ''telegram'' then (refuse 400 ''unsupported approval gateway client'', st)
      else gateway_callback sha256 expand run data decided_by uid clk st)"

section \<open>Serving requests\<close>

datatype api_request =
    Join join_request string
  | Heartbeat string string string dict
  | RotateFingerprint string string string
  | NextTask string string "string option"
  | TaskResult string string int string string
  | Approve string string
  | Reject string string
  | ListNotifications string
  | Delivered string
  | GatewayCallback string string string
  | TelegramCallback string string

datatype api_answer =
    Joined join_response
  | Beat heartbeat_response
  | Rotated string
  | NextTaskIs "task_response option"
  | Settled "string \<times> string"
  | Decided decision_response
  | Notifications "dict list"
  | Marked "string \<times> string"
  | CallbackDone dict

text \<open>What surrounds the server: hashes, paths, the shell, uuids and the clock.\<close>

record surroundings =
  sr_hmac :: "string \<Rightarrow> string \<Rightarrow> string"
  sr_sha256 :: "string \<Rightarrow> string"
  sr_expand :: "string \<Rightarrow> string"
  sr_run :: acl_host
  sr_uid :: "nat \<Rightarrow> string"
  sr_clk :: "nat \<Rightarrow> time"

definition on_store :: "('a \<Rightarrow> 'b) \<Rightarrow> files \<Rightarrow> 'a http \<times> store \<Rightarrow> 'b http \<times> files \<times> store" where
  "on_store f fs out =
     (case out of (r, s) \<Rightarrow>
        ((case r of Answer a \<Rightarrow> Answer (f a) | Refused c d \<Rightarrow> Refused c d | Crashed e \<Rightarrow> Crashed e), fs, s))"

definition on_files :: "('a \<Rightarrow> 'b) \<Rightarrow> 'a http \<times> files \<times> store \<Rightarrow> 'b http \<times> files \<times> store" where
  "on_files f out =
     (case out of (r, st) \<Rightarrow>
        ((case r of Answer a \<Rightarrow> Answer (f a) | Refused c d \<Rightarrow> Refused c d | Crashed e \<Rightarrow> Crashed e), st))"

fun api_step :: "surroundings \<Rightarrow> api_request \<Rightarrow> files \<times> store \<Rightarrow> api_answer http \<times> files \<times> store" where
  "api_step v (Join q uid) (fs, s) = on_store Joined fs (api_join q uid (sr_clk v) s)"
| "api_step v (Heartbeat k fp status facts) (fs, s) = on_store Beat fs (api_heartbeat k fp status facts (sr_clk v 0) s)"
| "api_step v (RotateFingerprint k fp new) (fs, s) = on_store Rotated fs (api_rotate_fingerprint k fp new (sr_clk v 0) s)"
| "api_step v (NextTask k fp protocol) (fs, s) =
     on_store NextTaskIs fs (api_next_task (sr_hmac v) k fp protocol (sr_clk v) s)"
| "api_step v (TaskResult k fp code out err) (fs, s) = on_store Settled fs (api_task_result k fp code out err (sr_clk v 0) s)"
| "api_step v (Approve k who) st =
     on_files Decided (api_resolve_approval (sr_sha256 v) (sr_expand v) (sr_run v) k ''approved'' who (sr_uid v) (sr_clk v) st)"
| "api_step v (Reject k who) st =
     on_files Decided (api_resolve_approval (sr_sha256 v) (sr_expand v) (sr_run v) k ''rejected'' who (sr_uid v) (sr_clk v) st)"
| "api_step v (ListNotifications client) (fs, s) = (Answer (Notifications (gateway_notifications client s)), fs, s)"
| "api_step v (Delivered k) (fs, s) = on_store Marked fs (gateway_notification_delivered k (sr_clk v 0) s)"
| "api_step v (GatewayCallback client data who) st =
     on_files CallbackDone (approval_gateway_callback (sr_sha256 v) (sr_expand v) (sr_run v) client data who (sr_uid v) (sr_clk v) st)"
| "api_step v (TelegramCallback data who) st =
     on_files CallbackDone (gateway_callback (sr_sha256 v) (sr_expand v) (sr_run v) data who (sr_uid v) (sr_clk v) st)"

section \<open>What decisions leave alone\<close>

text \<open>Deciding and dispatching keep nodes and tokens, and only add to the audit log.\<close>

definition decides_only :: "store \<Rightarrow> store \<Rightarrow> bool" where
  "decides_only s s' \<longleftrightarrow> nodes s' = nodes s \<and> join_tokens s' = join_tokens s \<and> audit_extends s s'"

lemma decides_only_refl [simp, intro]: "decides_only s s"
  by (simp add: decides_only_def)

lemma decides_only_trans [trans]: "decides_only s t \<Longrightarrow> decides_only t u \<Longrightarrow> decides_only s u"
  by (auto simp: decides_only_def intro: audit_extends_trans)

lemma decides_only_audit:
  "decides_only s t \<Longrightarrow> decides_only s (insert_audit_event e t)"
  "decides_only s t \<Longrightarrow> decides_only s (record_audit et st sid act out d now t)"
  by (auto simp: decides_only_def)

lemma decides_only_same:
  "nodes s' = nodes s \<Longrightarrow> join_tokens s' = join_tokens s \<Longrightarrow> audit_events s' = audit_events s \<Longrightarrow> decides_only s s'"
  by (simp add: decides_only_def audit_extends_same)

lemma decides_only_if: "decides_only s t \<Longrightarrow> decides_only s u \<Longrightarrow> decides_only s (if P then t else u)"
  by simp

lemma dispatch_task_decides: "decides_only s (snd (dispatch_approved_task_request k uid clk s))"
proof -
  have failure: "decides_only s (task_dispatch_failure a d now s)" for a d now
    unfolding task_dispatch_failure_def by (intro decides_only_audit decides_only_refl)
  have commit: "decides_only s (commit_task_dispatch a t c d (s\<lparr>tasks := rows\<rparr>))" for a t c d rows
    unfolding commit_task_dispatch_def Let_def by (intro decides_only_audit decides_only_same) simp_all
  show ?thesis
    unfolding dispatch_approved_task_request_def Let_def
    by (simp add: failure commit split: option.split sum.split)
qed

lemma dispatch_component_decides: "decides_only s (snd (dispatch_approved_component_action k clk s))"
proof -
  have failure: "decides_only s (record_component_dispatch_failure a r d now s)" for a r d now
    unfolding record_component_dispatch_failure_def by (intro decides_only_audit decides_only_refl)
  have commit: "decides_only s (commit_component_dispatch a r clk s)" for a r
    unfolding commit_component_dispatch_def Let_def
    by (intro decides_only_audit decides_only_same) (simp_all add: save_component_run_def)
  show ?thesis
    unfolding dispatch_approved_component_action_def Let_def
    by (simp add: failure commit split: option.split)
qed

lemma record_decision_decides: "decides_only s (record_decision a status who clk s)"
  unfolding record_decision_def by (intro decides_only_audit decides_only_same) simp_all

lemma resolve_decides: "decides_only s (snd (resolve_approval_request k status who uid clk s))"
proof (cases "\<exists>a. load_approval_request s k = Some a \<and> ap_status a = ''pending'' \<and> status \<in> {''approved'', ''rejected''}")
  case False
  then have "snd (resolve_approval_request k status who uid clk s) = s"
    by (auto simp: resolve_approval_request_def decide_loaded_def split: option.splits)
  then show ?thesis by simp
next
  case True
  then obtain a where a: "load_approval_request s k = Some a" "ap_status a = ''pending''" "status \<in> {''approved'', ''rejected''}"
    by blast
  have "snd (resolve_approval_request k status who uid clk s) = snd (decide_loaded (Some a) status who uid clk s)"
    using a by (simp add: resolve_approval_request_def)
  moreover have "decides_only s (snd (dispatch_approved_task_request j uid c (record_decision a status who clk s)))" for j c
    using record_decision_decides dispatch_task_decides by (rule decides_only_trans)
  moreover have "decides_only s (snd (dispatch_approved_component_action j c (record_decision a status who clk s)))" for j c
    using record_decision_decides dispatch_component_decides by (rule decides_only_trans)
  ultimately show ?thesis
    unfolding snd_decide_loaded [OF a(2)] Let_def
    by (simp only:) (intro decides_only_if record_decision_decides)
qed

lemma acl_decides: "decides_only s (snd (snd (dispatch_approved_network_acl_apply sha256 expand run k now (fs, s))))"
proof -
  have audit: "decides_only s (acl_audit c out d now s)" for c out d
    unfolding acl_audit_def by (intro decides_only_audit decides_only_refl)
  have commit: "decides_only s (snd (snd (commit_acl sha256 run d c old new paths now fs s)))" for d c old new paths
    by (simp add: commit_acl_def audit Let_def split: prod.split option.split)
  show ?thesis
    unfolding dispatch_approved_network_acl_apply_def Let_def
    by (simp add: audit commit split: option.split)
qed

lemma carry_out_decides: "decides_only s (snd (snd (carry_out sha256 expand run a uid clk (fs, s))))"
proof -
  obtain c s1 where t: "carry_out_task a uid clk s = (c, s1)" by fastforce
  have "snd (carry_out_task a uid clk s) \<in> {s, snd (dispatch_approved_task_request (ap_approval_id a) uid clk s)}"
    by (simp add: carry_out_task_def split: prod.split sum.split option.split)
  then have s1: "decides_only s s1" using t dispatch_task_decides [of s] by auto
  obtain ok s2 where cc: "carry_out_component a (\<lambda>k. clk (k + 3)) s1 = (ok, s2)" by fastforce
  have "snd (carry_out_component a (\<lambda>k. clk (k + 3)) s1)
      \<in> {s1, snd (dispatch_approved_component_action (ap_approval_id a) (\<lambda>k. clk (k + 3)) s1)}"
    by (simp add: carry_out_component_def split: prod.split option.split)
  then have s2: "decides_only s s2" using cc dispatch_component_decides [of s1] decides_only_trans [OF s1] by auto
  obtain r3 fs3 s3 where acl: "dispatch_approved_network_acl_apply sha256 expand run (ap_approval_id a) (clk 6) (fs, s2)
      = (r3, fs3, s3)" by (metis prod_cases3)
  have s3: "decides_only s s3"
    using acl_decides [of s2 sha256 expand run "ap_approval_id a" "clk 6" fs] acl decides_only_trans [OF s2] by simp
  have "snd (snd (carry_out sha256 expand run a uid clk (fs, s))) \<in> {s1, s2, s3}"
    using t cc acl
    by (auto simp: carry_out_def Let_def split: carried.split bool.split sum.split exn.split)
  then show ?thesis using s1 s2 s3 by auto
qed

lemma api_resolve_decides:
  "decides_only s (snd (snd (api_resolve_approval sha256 expand run k status who uid clk (fs, s))))"
proof -
  obtain r1 s1 where res: "resolve_approval_request k status who (uid 0) clk s = (r1, s1)" by fastforce
  have s1: "decides_only s s1" using resolve_decides [of s k status who "uid 0" clk] by (simp add: res)
  have co: "decides_only s (snd (snd (carry_out sha256 expand run a u c (fs, s1))))" for a u c
    using s1 carry_out_decides by (rule decides_only_trans)
  show ?thesis
  proof (cases r1)
    case (Inl e)
    then show ?thesis by (simp add: api_resolve_approval_def res s1 split: option.split)
  next
    case (Inr o1)
    then show ?thesis
      by (cases o1) (simp_all add: api_resolve_approval_def res s1 co case_prod_beta split: option.split)
  qed
qed

lemma callback_decides:
  "decides_only s (snd (snd (handle_telegram_approval_callback sha256 expand run data who uid clk (fs, s))))"
proof (cases "\<exists>d k a. parse_approval_callback data = Some (d, k) \<and> load_approval_request s k = Some a \<and> ap_status a = ''pending''")
  case False
  then show ?thesis by (auto simp: handle_telegram_approval_callback_def Let_def split: option.split)
next
  case True
  then obtain d k a where p: "parse_approval_callback data = Some (d, k)" "load_approval_request s k = Some a"
    "ap_status a = ''pending''" by blast
  define st where "st = (if d = ''approve'' then ''approved'' else ''rejected'')"
  obtain r1 s1 where res: "resolve_approval_request (ap_approval_id a) st who (uid 0) clk s = (r1, s1)" by fastforce
  have s1: "decides_only s s1" using resolve_decides [of s "ap_approval_id a" st who "uid 0" clk] by (simp add: res)
  have co: "decides_only s (snd (snd (carry_out sha256 expand run b u c (fs, s1))))" for b u c
    using s1 carry_out_decides by (rule decides_only_trans)
  have co2: "decides_only s (snd (snd (carry_out sha256 expand run b u c
      (fs, snd (resolve_approval_request j x who y z s)))))" for b u c j x y z
    using resolve_decides carry_out_decides by (rule decides_only_trans)
  note unfolded = handle_telegram_approval_callback_def Let_def p st_def [symmetric] res s1 co co2 case_prod_beta
  show ?thesis
  proof (cases r1)
    case (Inl e)
    then show ?thesis by (simp add: unfolded)
  next
    case (Inr o1)
    then show ?thesis by (cases o1) (simp_all add: unfolded)
  qed
qed

lemma gateway_callback_decides:
  "decides_only s (snd (snd (gateway_callback sha256 expand run data who uid clk (fs, s))))"
  "decides_only s (snd (snd (approval_gateway_callback sha256 expand run client data who uid clk (fs, s))))"
proof -
  show "decides_only s (snd (snd (gateway_callback sha256 expand run data who uid clk (fs, s))))"
    using callback_decides [of s sha256 expand run data who uid clk fs]
    by (auto simp: gateway_callback_def split: prod.splits sum.splits)
  then show "decides_only s (snd (snd (approval_gateway_callback sha256 expand run client data who uid clk (fs, s))))"
    by (simp add: approval_gateway_callback_def)
qed

section \<open>Joining\<close>

lemma load_token_register [simp]:
  "load_token (snd (register_pending_node k f h a tr l s)) = load_token s"
  by (rule load_token_cong) (simp add: register_pending_node_def Let_def)

lemma api_join_refused:
  assumes "api_join q uid clk s = (r, s')" and "\<And>a. r \<noteq> Answer a"
  shows "nodes s' = nodes s \<and> audit_events s' = audit_events s"
proof -
  obtain c s1 where c: "consume_token (jn_token q) (jn_fingerprint q) (clk 0) s = (c, s1)" by fastforce
  have "nodes s1 = nodes s" "audit_events s1 = audit_events s"
    using consume_token_frame(1,2) [of "jn_token q" "jn_fingerprint q" "clk 0" s] by (simp_all add: c)
  then show ?thesis using assms
    by (auto simp: api_join_def c Let_def split: if_splits option.splits prod.splits)
qed

definition joined_node :: "join_request \<Rightarrow> string \<Rightarrow> join_token \<Rightarrow> node" where
  "joined_node q uid t =
     (let n = new_node (''node_'' @ uid) (jn_fingerprint q) (jn_hostname q) (jn_addresses q) (jt_trust_level t) (jt_labels t)
      in if jn_auto_confirm q then n\<lparr>nd_status := ''managed'', nd_permission_bundles := [''observe'', ''task'']\<rparr> else n)"

lemma api_join_answer:
  assumes "api_join q uid clk s = (Answer a, s')"
  obtains t where "load_token s (jn_token q) = Some t" and "jt_status t = ''pending''" and "clk 0 \<le> jt_expires_at t"
    and "find_duplicate_join_node s q = None"
    and "load_node s' = (load_node s)(''node_'' @ uid \<mapsto> joined_node q uid t)"
    and "load_token s' = (load_token s)(jn_token q \<mapsto>
           t\<lparr>jt_status := ''used'', jt_used_at := Some (clk 0), jt_node_fingerprint := Some (jn_fingerprint q)\<rparr>)"
    and "js_node_id a = ''node_'' @ uid" and "js_status a = nd_status (joined_node q uid t)"
    and "audit_extends s s'"
proof -
  obtain c s1 where c: "consume_token (jn_token q) (jn_fingerprint q) (clk 0) s = (c, s1)" by fastforce
  obtain t where dup: "find_duplicate_join_node s q = None"
    and t: "load_token s (jn_token q) = Some t" "jt_status t = ''pending''" "clk 0 \<le> jt_expires_at t"
    and ct: "c = Some (t\<lparr>jt_status := ''used'', jt_used_at := Some (clk 0), jt_node_fingerprint := Some (jn_fingerprint q)\<rparr>)"
    using assms consume_token_result [of "jn_token q" "jn_fingerprint q" "clk 0" s]
    by (auto simp: api_join_def c split: if_splits option.splits)
  have s1: "nodes s1 = nodes s" "audit_events s1 = audit_events s"
    using consume_token_frame(1,2) [of "jn_token q" "jn_fingerprint q" "clk 0" s] by (simp_all add: c)
  have tok: "load_token s1 = (load_token s)(jn_token q \<mapsto>
      t\<lparr>jt_status := ''used'', jt_used_at := Some (clk 0), jt_node_fingerprint := Some (jn_fingerprint q)\<rparr>)"
    using consume_token_load [of "jn_token q" "jn_fingerprint q" "clk 0" s] t by (auto simp: c fun_eq_iff)
  let ?n = "joined_node q uid t"
  let ?fresh = "new_node (''node_'' @ uid) (jn_fingerprint q) (jn_hostname q) (jn_addresses q) (jt_trust_level t) (jt_labels t)"
  define s3 where "s3 = (if jn_auto_confirm q then save_node ?n (save_node ?fresh s1) else save_node ?fresh s1)"
  have out: "a = \<lparr>js_node_id = nd_node_id ?n, js_status = nd_status ?n, js_trust_level = nd_trust_level ?n,
      js_labels = nd_labels ?n\<rparr>" "\<exists>d. s' = record_audit ''node'' ''node'' (nd_node_id ?n) ''join'' ''ok'' d (clk 1) s3"
  proof -
    have j: "api_join q uid clk s =
      (Answer \<lparr>js_node_id = nd_node_id ?n, js_status = nd_status ?n, js_trust_level = nd_trust_level ?n,
         js_labels = nd_labels ?n\<rparr>,
       record_audit ''node'' ''node'' (nd_node_id ?n) ''join'' ''ok''
         [(''hostname'', JStr (nd_hostname ?n)), (''addresses'', JList (map JStr (nd_addresses ?n))),
          (''trust_level'', JStr (nd_trust_level ?n)), (''labels'', JList (map JStr (nd_labels ?n))),
          (''auto_confirm'', JBool (jn_auto_confirm q)),
          (''permission_bundles'', JList (map JStr (if jn_auto_confirm q then [''observe'', ''task''] else [])))]
         (clk 1) s3)"
    proof (cases "jn_auto_confirm q")
      case True
      then have nt: "?n = ?fresh\<lparr>nd_status := ''managed'', nd_permission_bundles := [''observe'', ''task'']\<rparr>"
        by (simp add: joined_node_def Let_def)
      show ?thesis unfolding s3_def nt using dup t(1) True
        by (simp add: api_join_def c ct register_pending_node_def Let_def del: append.simps)
    next
      case False
      then have nt: "?n = ?fresh" by (simp add: joined_node_def Let_def)
      show ?thesis unfolding s3_def nt using dup t(1) False
        by (simp add: api_join_def c ct register_pending_node_def Let_def del: append.simps)
    qed
    then show "a = \<lparr>js_node_id = nd_node_id ?n, js_status = nd_status ?n, js_trust_level = nd_trust_level ?n,
        js_labels = nd_labels ?n\<rparr>"
      and "\<exists>d. s' = record_audit ''node'' ''node'' (nd_node_id ?n) ''join'' ''ok'' d (clk 1) s3"
      using assms by auto
  qed
  then have a: "js_node_id a = nd_node_id ?n" "js_status a = nd_status ?n" by simp_all
  obtain d where s': "s' = record_audit ''node'' ''node'' (nd_node_id ?n) ''join'' ''ok'' d (clk 1) s3"
    using out(2) by blast
  have id: "nd_node_id ?n = ''node_'' @ uid" "nd_node_id ?fresh = ''node_'' @ uid"
    by (simp_all add: joined_node_def new_node_def Let_def)
  have same: "?n = ?fresh" if "\<not> jn_auto_confirm q" using that by (simp add: joined_node_def)
  have ld: "load_node s1 = load_node s" by (simp add: load_node_def s1 fun_eq_iff)
  have s3: "join_tokens s3 = join_tokens s1" "audit_events s3 = audit_events s1" by (simp_all add: s3_def)
  have "load_node s3 = (load_node s)(''node_'' @ uid \<mapsto> ?n)"
    by (cases "jn_auto_confirm q") (simp_all add: s3_def same fun_eq_iff load_node_save id ld del: append.simps)
  moreover have "load_node s' = load_node s3" using s' by (auto simp: load_node_def fun_eq_iff)
  moreover have "load_token s' = load_token s1" using s' s3(1) load_token_cong [of s3 s1] by auto
  moreover have "audit_extends s s'" using s' s3(2) s1(2) by (auto simp: audit_extends_def audit_simps)
  ultimately show thesis using that [OF t dup] tok a id by simp
qed

lemma api_join_audit: "audit_extends s (snd (api_join q uid clk s))"
proof -
  obtain r s' where j: "api_join q uid clk s = (r, s')" by fastforce
  show ?thesis
  proof (cases "\<exists>a. r = Answer a")
    case True
    then show ?thesis using api_join_answer j by (metis snd_conv)
  next
    case False
    then show ?thesis using api_join_refused [OF j] j by (simp add: audit_extends_same)
  qed
qed

end
