(* ===== verification/Base64.thy ===== *)
theory Base64 imports Prelude begin

text \<open>
  The part of Python's \<open>base64\<close> module that session cookies use.  \<open>urlsafe_b64encode\<close> writes groups of
  three bytes as four characters and pads the last group; \<open>urlsafe_b64decode\<close> is lenient: it skips
  characters outside the alphabet, accepts both alphabets, and stops at the padding that completes a group.
\<close>

section \<open>Alphabet\<close>

definition b64_char :: "nat \<Rightarrow> char" where
  "b64_char n =
     (if n < 26 then char_of (65 + n) else if n < 52 then char_of (71 + n)
      else if n < 62 then char_of (n - 4) else if n = 62 then CHR ''-'' else CHR ''_'')"

definition b64_value :: "char \<Rightarrow> nat option" where
  "b64_value c =
     (let n = of_char c
      in if 65 \<le> n \<and> n \<le> 90 then Some (n - 65) else if 97 \<le> n \<and> n \<le> 122 then Some (n - 71)
         else if 48 \<le> n \<and> n \<le> 57 then Some (n + 4)
         else if c = CHR ''-'' \<or> c = CHR ''+'' then Some 62
         else if c = CHR ''_'' \<or> c = CHR ''/'' then Some 63 else None)"

section \<open>Encoding\<close>

fun b64_sextets :: "nat list \<Rightarrow> nat list" where
  "b64_sextets [] = []"
| "b64_sextets [a] = [a div 4, a mod 4 * 16]"
| "b64_sextets [a, b] = [a div 4, a mod 4 * 16 + b div 16, b mod 16 * 4]"
| "b64_sextets (a # b # c # r) =
     [a div 4, a mod 4 * 16 + b div 16, b mod 16 * 4 + c div 64, c mod 64] @ b64_sextets r"

definition b64_padding :: "nat \<Rightarrow> string" where
  "b64_padding n = replicate ((3 - n mod 3) mod 3) CHR ''=''"

definition urlsafe_b64encode :: "string \<Rightarrow> string" where
  "urlsafe_b64encode s = map b64_char (b64_sextets (map of_char s)) @ b64_padding (length s)"

section \<open>Decoding\<close>

text \<open>
  \<open>a2b_base64\<close> without strict mode: the position in the group of four, the bits left over from the last
  character, and the padding characters counted.  A text that ends inside a group is an error.
\<close>

fun a2b :: "nat \<Rightarrow> nat \<Rightarrow> nat \<Rightarrow> string \<Rightarrow> nat list option" where
  "a2b q left pads [] = (if q = 0 then Some [] else None)"
| "a2b q left pads (c # s) =
     (if c = CHR ''='' then
        if 2 \<le> q then if 4 \<le> q + (pads + 1) then Some [] else a2b q left (pads + 1) s
        else a2b q left pads s
      else case b64_value c of
        None \<Rightarrow> a2b q left pads s
      | Some v \<Rightarrow>
          if q = 0 then a2b 1 v 0 s
          else if q = 1 then map_option ((#) (left * 4 + v div 16)) (a2b 2 (v mod 16) 0 s)
          else if q = 2 then map_option ((#) (left * 16 + v div 4)) (a2b 3 (v mod 4) 0 s)
          else map_option ((#) (left * 64 + v)) (a2b 0 0 0 s))"

definition urlsafe_b64decode :: "string \<Rightarrow> string option" where
  "urlsafe_b64decode s = map_option (map char_of) (a2b 0 0 0 s)"

section \<open>Facts\<close>

lemma b64_value_char: "n < 64 \<Longrightarrow> b64_value (b64_char n) = Some n"
proof -
  assume n: "n < 64"
  then consider "n < 26" | "26 \<le> n" "n < 52" | "52 \<le> n" "n < 62" "48 \<le> n - 4" "n - 4 \<le> 57" | "n = 62" | "n = 63" by linarith
  then show ?thesis
    by cases (simp_all add: b64_value_def b64_char_def Let_def)
qed

lemma b64_char_not_pad: "n < 64 \<Longrightarrow> b64_char n \<noteq> CHR ''=''"
proof
  assume n: "n < 64" and eq: "b64_char n = CHR ''=''"
  have "b64_value CHR ''='' = None" by (simp add: b64_value_def)
  with b64_value_char [OF n] eq show False by simp
qed

lemmas b64_read = b64_value_char b64_char_not_pad

lemma b64_pad: "b64_padding (Suc (Suc (Suc n))) = b64_padding n"
  by (simp add: b64_padding_def)

lemma a2b_sextets:
  "list_all (\<lambda>b. b < 256) bs
    \<Longrightarrow> a2b 0 0 0 (map b64_char (b64_sextets bs) @ b64_padding (length bs)) = Some bs"
proof (induction bs rule: b64_sextets.induct)
  case 1
  then show ?case by (simp add: b64_padding_def)
next
  case (2 a)
  then have "a div 4 < 64" "a mod 4 * 16 < 64" by auto
  then show ?case by (simp add: b64_read b64_padding_def numeral_2_eq_2)
next
  case (3 a b)
  then have "a div 4 < 64" "a mod 4 * 16 + b div 16 < 64" "b mod 16 * 4 < 64" "b div 16 < 16" by auto
  then show ?case by (simp add: b64_read b64_padding_def numeral_2_eq_2)
next
  case (4 a b c r)
  then have "a div 4 < 64" "a mod 4 * 16 + b div 16 < 64" "b mod 16 * 4 + c div 64 < 64" "c mod 64 < 64"
    "b div 16 < 16" "c div 64 < 4" by auto
  moreover have "a2b 0 0 0 (map b64_char (b64_sextets r) @ b64_padding (length r)) = Some r" using 4 by simp
  ultimately show ?case by (simp add: b64_read b64_pad)
qed

lemma b64_round_trip: "urlsafe_b64decode (urlsafe_b64encode s) = Some s"
proof -
  have "list_all (\<lambda>b. b < (256 :: nat)) (map of_char s)" by (simp add: list_all_iff)
  from a2b_sextets [OF this] show ?thesis by (simp add: urlsafe_b64decode_def urlsafe_b64encode_def comp_def)
qed

end
