(* ===== verification/Sessions.thy ===== *)
theory Sessions imports Api PyText Base64 begin

text \<open>
  Sign-in to the web console (\<open>api.py\<close>): password hashes, the session secret, signed session cookies, and
  the endpoints that hand them out.  HMAC-SHA256 (as a hexadecimal digest), PBKDF2 (as bytes, or the exception it
  raises) and the C library's \<open>crypt\<close> are parameters; splitting, hexadecimal text and base64 are modelled.
\<close>

section \<open>Text helpers\<close>

text \<open>\<open>s.split(sep, n)\<close>\<close>

fun split_max :: "char \<Rightarrow> nat \<Rightarrow> string \<Rightarrow> string list" where
  "split_max sep 0 s = [s]"
| "split_max sep (Suc n) s =
     (case split_once sep s of None \<Rightarrow> [s] | Some (a, b) \<Rightarrow> a # split_max sep n b)"

text \<open>\<open>bytes.hex\<close> and \<open>bytes.fromhex\<close>, which skips white space between bytes.\<close>

definition bytes_hex :: "string \<Rightarrow> string" where
  "bytes_hex bs = concat (map (\<lambda>c. let n = of_char c in [hex_digit (n div 16), hex_digit (n mod 16)]) bs)"

definition hex_value :: "char \<Rightarrow> nat option" where
  "hex_value c =
     (let n = of_char c
      in if 48 \<le> n \<and> n \<le> 57 then Some (n - 48) else if 97 \<le> n \<and> n \<le> 102 then Some (n - 87)
         else if 65 \<le> n \<and> n \<le> 70 then Some (n - 55) else None)"

definition is_hex_space :: "char \<Rightarrow> bool" where
  "is_hex_space c = (let n = (of_char c :: nat) in 9 \<le> n \<and> n \<le> 13 \<or> n = 32)"

fun from_hex :: "string \<Rightarrow> string option" where
  "from_hex [] = Some []"
| "from_hex [c] = (if is_hex_space c then Some [] else None)"
| "from_hex (c # d # r) =
     (if is_hex_space c then from_hex (d # r)
      else case (hex_value c, hex_value d) of
        (Some h, Some l) \<Rightarrow> map_option ((#) (char_of (16 * h + l))) (from_hex r)
      | _ \<Rightarrow> None)"

section \<open>Passwords\<close>

definition PBKDF2_PREFIX :: string where
  "PBKDF2_PREFIX = ''pbkdf2_sha256''"

type_synonym kdf = "string \<Rightarrow> string \<Rightarrow> int \<Rightarrow> string result"

definition derive_password_hash ::
  "kdf \<Rightarrow> string \<Rightarrow> string option \<Rightarrow> int \<Rightarrow> string \<Rightarrow> string result" where
  "derive_password_hash pbkdf2 password salt iterations random16 =
     (let actual_salt = (case salt of Some t \<Rightarrow> if t = [] then random16 else t | None \<Rightarrow> random16)
      in bind_result (pbkdf2 password actual_salt iterations)
           (\<lambda>digest. Inr (PBKDF2_PREFIX @ ''$'' @ show_int iterations @ ''$'' @ bytes_hex actual_salt @ ''$''
                          @ bytes_hex digest)))"

definition verify_password ::
  "kdf \<Rightarrow> (string \<Rightarrow> string \<Rightarrow> string option) \<Rightarrow> string \<Rightarrow> string \<Rightarrow> bool result" where
  "verify_password pbkdf2 crypt password stored_hash =
     (if startswith stored_hash (PBKDF2_PREFIX @ ''$'') then
        (case split_max CHR ''$'' 3 stored_hash of
           [prefix, iterations_raw, salt_hex, digest_hex] \<Rightarrow>
             if prefix \<noteq> PBKDF2_PREFIX then Inr False
             else (case (parse_int iterations_raw, from_hex salt_hex) of
                     (Some iterations, Some salt) \<Rightarrow>
                       bind_result (pbkdf2 password salt iterations)
                         (\<lambda>digest. compare_digest (bytes_hex digest) digest_hex)
                   | _ \<Rightarrow> Inr False)
         | _ \<Rightarrow> Inr False)
      else if list_ex (startswith stored_hash) [''$2a$'', ''$2b$'', ''$2y$'', ''$2x$'']
      then Inr (crypt password stored_hash = Some stored_hash)
      else Inr False)"

section \<open>Session cookies\<close>

text \<open>The environment variables, empty when not set (\<open>HMN_WEB_USERNAME\<close> defaults to \<open>admin\<close>).\<close>

record web_env =
  we_username :: string
  we_password_hash :: string
  we_session_secret :: string

definition SESSION_TTL_SECONDS :: int where
  "SESSION_TTL_SECONDS = 43200"

definition session_secret :: "web_env \<Rightarrow> string result" where
  "session_secret env =
     (let secret = strip (we_session_secret env); admin_hash = strip (we_password_hash env)
      in if secret \<noteq> [] then Inr secret
         else if admin_hash \<noteq> [] then Inr admin_hash
         else Inl (RuntimeError ''HMN_WEB_SESSION_SECRET or HMN_WEB_PASSWORD_HASH is required''))"

definition session_payload :: "string \<Rightarrow> int \<Rightarrow> string" where
  "session_payload username issued_at = username @ '':'' @ show_int issued_at"

definition session_cookie_value :: "(string \<Rightarrow> string \<Rightarrow> string) \<Rightarrow> string \<Rightarrow> int \<Rightarrow> string \<Rightarrow> string" where
  "session_cookie_value hmac username issued_at secret =
     (let payload = session_payload username issued_at
      in urlsafe_b64encode (payload @ '':'' @ hmac secret payload))"

definition decode_session_cookie :: "string \<Rightarrow> (string \<times> int \<times> string) option" where
  "decode_session_cookie v =
     (if \<not> is_ascii v then None
      else case urlsafe_b64decode v of
        None \<Rightarrow> None
      | Some raw \<Rightarrow>
          if \<not> utf8_wf raw then None
          else case rsplit_once CHR '':'' raw of
            None \<Rightarrow> None
          | Some (rest, signature) \<Rightarrow>
              (case rsplit_once CHR '':'' rest of
                 None \<Rightarrow> None
               | Some (username, issued_at_raw) \<Rightarrow>
                   map_option (\<lambda>issued_at. (username, issued_at, signature)) (parse_int issued_at_raw)))"

definition is_authenticated ::
  "(string \<Rightarrow> string \<Rightarrow> string) \<Rightarrow> web_env \<Rightarrow> string option \<Rightarrow> time \<Rightarrow> bool result" where
  "is_authenticated hmac env cookie now =
     (case cookie of
        None \<Rightarrow> Inr False
      | Some v \<Rightarrow>
          if v = [] then Inr False
          else case decode_session_cookie v of
            None \<Rightarrow> Inr False
          | Some (username, issued_at, signature) \<Rightarrow>
              if issued_at + SESSION_TTL_SECONDS < whole_seconds now then Inr False
              else bind_result (session_secret env)
                     (\<lambda>secret. compare_digest signature (hmac secret (session_payload username issued_at))))"

section \<open>Endpoints\<close>

definition admin_username :: "web_env \<Rightarrow> string" where
  "admin_username env = (let u = strip (we_username env) in if u = [] then ''admin'' else u)"

definition require_session ::
  "(string \<Rightarrow> string \<Rightarrow> string) \<Rightarrow> web_env \<Rightarrow> string option \<Rightarrow> time \<Rightarrow> unit http" where
  "require_session hmac env cookie now =
     (case is_authenticated hmac env cookie now of
        Inl e \<Rightarrow> Crashed e
      | Inr ok \<Rightarrow> if ok then Answer () else refuse 401 ''login required'')"

text \<open>A response here is a redirection and the cookie it sets.\<close>

record redirect =
  rd_target :: string
  rd_cookie :: "string option"

definition login_response ::
  "(string \<Rightarrow> string \<Rightarrow> string) \<Rightarrow> web_env \<Rightarrow> string \<Rightarrow> time \<Rightarrow> redirect http" where
  "login_response hmac env target now =
     (case session_secret env of
        Inl e \<Rightarrow> Crashed e
      | Inr secret \<Rightarrow>
          Answer \<lparr>rd_target = target,
                  rd_cookie = Some (session_cookie_value hmac (admin_username env) (whole_seconds now) secret)\<rparr>)"

definition login_submit ::
  "(string \<Rightarrow> string \<Rightarrow> string) \<Rightarrow> kdf \<Rightarrow> (string \<Rightarrow> string \<Rightarrow> string option) \<Rightarrow> web_env
    \<Rightarrow> string \<Rightarrow> string \<Rightarrow> time \<Rightarrow> redirect http" where
  "login_submit hmac pbkdf2 crypt env username password now =
     (let admin_password_hash = strip (we_password_hash env);
          wrong = Answer \<lparr>rd_target = ''/login?error=1'', rd_cookie = None\<rparr>
      in if admin_password_hash = [] then refuse 503 ''hmn web password hash not configured''
         else if username \<noteq> admin_username env then wrong
         else case verify_password pbkdf2 crypt password admin_password_hash of
           Inl e \<Rightarrow> Crashed e
         | Inr ok \<Rightarrow> if ok then login_response hmac env ''/'' now else wrong)"

definition session_status ::
  "(string \<Rightarrow> string \<Rightarrow> string) \<Rightarrow> web_env \<Rightarrow> string option \<Rightarrow> time \<Rightarrow> dict http" where
  "session_status hmac env cookie now =
     (case require_session hmac env cookie now of
        Refused code d \<Rightarrow> Refused code d
      | Crashed e \<Rightarrow> Crashed e
      | Answer _ \<Rightarrow>
          Answer [(''authenticated'', JBool True), (''username'', JStr (admin_username env)),
                  (''expires_in'', JInt SESSION_TTL_SECONDS)])"

text \<open>A refusal becomes a JSON answer, except that a page without a session is sent to the sign-in form.\<close>

definition http_exception_handler :: "string \<Rightarrow> int \<Rightarrow> json \<Rightarrow> (int \<times> json) + redirect" where
  "http_exception_handler path status_code detail =
     (if status_code \<noteq> 401 \<or> startswith path ''/api/'' \<or> startswith path ''/scripts/'' \<or> path = ''/healthz''
      then Inl (status_code, JObj [(''detail'', detail)])
      else Inr \<lparr>rd_target = ''/login'', rd_cookie = None\<rparr>)"

section \<open>Facts about texts\<close>

lemma strip_no_space: "list_all (\<lambda>c. \<not> is_space c) s \<Longrightarrow> strip s = s"
proof -
  assume a: "list_all (\<lambda>c. \<not> is_space c) s"
  then have "dropWhile is_space s = s" by (cases s) auto
  moreover from a have "dropWhile is_space (rev s) = rev s" by (cases "rev s") (auto simp: list_all_iff)
  ultimately show ?thesis by (simp add: strip_def lstrip_def rstrip_def)
qed

lemma show_nat_digits: "list_all is_digit (show_nat n) \<and> show_nat n \<noteq> []"
proof (induction n rule: show_nat.induct)
  case (1 n)
  moreover have "n mod 10 \<le> 9" by simp
  ultimately show ?case by (simp add: show_nat.simps [of n] is_digit_def del: One_nat_def)
qed

lemma parse_digits_all:
  "list_all is_digit s \<Longrightarrow> s \<noteq> [] \<or> b
    \<Longrightarrow> parse_digits b acc s = Some (foldl (\<lambda>a c. a * 10 + digit_value c) acc s)"
  by (induction s arbitrary: b acc) auto

lemma foldl_show_nat: "foldl (\<lambda>a c. a * 10 + digit_value c) 0 (show_nat n) = int n"
proof (induction n rule: show_nat.induct)
  case (1 n)
  have d: "digit_value (char_of (48 + m)) = int m" if "m < 10" for m using that by (simp add: digit_value_def)
  show ?case
  proof (cases "n < 10")
    case True
    then show ?thesis by (simp add: show_nat.simps [of n] d)
  next
    case False
    then have "foldl (\<lambda>a c. a * 10 + digit_value c) 0 (show_nat n) = int (n div 10) * 10 + int (n mod 10)"
      using "1.IH" by (simp add: show_nat.simps [of n] d)
    then show ?thesis by presburger
  qed
qed

lemma digit_not: "is_digit c \<Longrightarrow> \<not> is_space c \<and> c \<noteq> CHR ''-'' \<and> c \<noteq> CHR ''+'' \<and> c \<noteq> CHR '':'' \<and> c \<noteq> CHR ''$''
    \<and> (of_char c :: nat) < 128"
  by (auto simp: is_digit_def is_space_def Let_def)

lemma parse_int_show_int: "parse_int (show_int i) = Some i"
proof -
  obtain c r where e: "show_nat (nat \<bar>i\<bar>) = c # r" using show_nat_digits [of "nat \<bar>i\<bar>"] by (cases "show_nat (nat \<bar>i\<bar>)") auto
  with show_nat_digits [of "nat \<bar>i\<bar>"] have dg: "list_all is_digit (c # r)" by simp
  then have ns: "list_all (\<lambda>c. \<not> is_space c) (c # r)" using digit_not by (auto simp: list_all_iff)
  have p: "parse_digits False 0 (c # r) = Some \<bar>i\<bar>"
    using parse_digits_all [OF dg, of False 0] foldl_show_nat [of "nat \<bar>i\<bar>"] e by simp
  show ?thesis
  proof (cases "i < 0")
    case True
    then have "show_int i = CHR ''-'' # c # r" using e by (simp add: show_int_def)
    moreover from ns have "strip (CHR ''-'' # c # r) = CHR ''-'' # c # r"
      by (intro strip_no_space) (simp add: is_space_def)
    ultimately show ?thesis using p True unfolding parse_int_def by (simp del: parse_digits.simps)
  next
    case False
    then have "show_int i = c # r" using e by (simp add: show_int_def)
    moreover have "c \<noteq> CHR ''-''" "c \<noteq> CHR ''+''" using dg digit_not by auto
    ultimately show ?thesis using p False strip_no_space [OF ns] unfolding parse_int_def by (simp del: parse_digits.simps)
  qed
qed

lemma show_int_chars: "c \<in> set (show_int i) \<Longrightarrow> is_digit c \<or> c = CHR ''-''"
  using show_nat_digits by (auto simp: show_int_def list_all_iff split: if_splits)

lemma show_int_free: "CHR '':'' \<notin> set (show_int i)" "CHR ''$'' \<notin> set (show_int i)" "is_ascii (show_int i)"
  using show_int_chars [of _ i] digit_not by (fastforce simp: is_ascii_def list_all_iff)+

lemma is_ascii_append [simp]: "is_ascii (a @ b) \<longleftrightarrow> is_ascii a \<and> is_ascii b"
  by (simp add: is_ascii_def)

lemma ascii_utf8_wf: "is_ascii s \<Longrightarrow> utf8_wf s"
proof (induction s)
  case (Cons c s)
  then have "utf8_wf s" "(of_char c :: nat) < 128" by (simp_all add: is_ascii_def)
  then show ?case by (simp add: utf8_wf_def utf8_ignore.simps [of "c # s"] utf8_len_def utf8_need_def)
qed (simp add: utf8_wf_def)

lemma split_once_append: "sep \<notin> set a \<Longrightarrow> split_once sep (a @ sep # b) = Some (a, b)"
  by (induction a) (auto simp: split_once_def)

lemma rsplit_once_append: "sep \<notin> set b \<Longrightarrow> rsplit_once sep (a @ sep # b) = Some (a, b)"
  using split_once_append [of sep "rev b" "rev a"] by (simp add: rsplit_once_def)

lemma b64_ascii: "is_ascii (urlsafe_b64encode s)"
proof -
  have "(of_char (b64_char n) :: nat) < 128" if "n < 64" for n
    using that by (auto simp: b64_char_def)
  moreover have sx: "list_all (\<lambda>n. n < 64) (b64_sextets bs)" if "list_all (\<lambda>b. b < 256) bs" for bs
    using that
  proof (induction bs rule: b64_sextets.induct)
    case (4 a b c r)
    then have "b div 16 < 16" "c div 64 < 4" "a div 4 < 64" by auto
    with 4 show ?case by auto
  next
    case (3 a b)
    then have "b div 16 < 16" "a div 4 < 64" by auto
    then show ?case by auto
  qed auto
  moreover have "list_all (\<lambda>n. n < 64) (b64_sextets (map of_char s))"
    by (rule sx) (simp add: list_all_iff)
  ultimately show ?thesis
    by (auto simp: is_ascii_def urlsafe_b64encode_def b64_padding_def list_all_iff)
qed

lemma hex_read: "n < 16 \<Longrightarrow> hex_value (hex_digit n) = Some n \<and> \<not> is_hex_space (hex_digit n)
    \<and> hex_digit n \<noteq> CHR ''$'' \<and> (of_char (hex_digit n) :: nat) < 128"
proof -
  assume "n < 16"
  then have "(of_char (hex_digit n) :: nat) = (if n < 10 then 48 + n else 87 + n)" by (simp add: hex_digit_def)
  moreover have "hex_digit n \<noteq> CHR ''$''" if "(of_char (hex_digit n) :: nat) \<noteq> 36" using that by auto
  ultimately show ?thesis using \<open>n < 16\<close> by (auto simp: hex_value_def is_hex_space_def Let_def)
qed

lemma bytes_hex_Cons: "bytes_hex (c # s) = hex_digit (of_char c div 16) # hex_digit (of_char c mod 16) # bytes_hex s"
  by (simp add: bytes_hex_def Let_def)

lemma nibbles: "(of_char c :: nat) div 16 < 16" "(of_char c :: nat) mod 16 < 16"
proof -
  show "(of_char c :: nat) div 16 < 16" by (rule less_mult_imp_div_less) simp
qed simp

lemma from_hex_bytes_hex: "from_hex (bytes_hex s) = Some s"
proof (induction s)
  case Nil
  show ?case by (simp add: bytes_hex_def)
next
  case (Cons c s)
  have "16 * ((of_char c :: nat) div 16) + of_char c mod 16 = of_char c" by simp
  then have "char_of (16 * ((of_char c :: nat) div 16) + of_char c mod 16) = c" by (metis char_of_char)
  with Cons hex_read [OF nibbles(1) [of c]] hex_read [OF nibbles(2) [of c]] show ?case
    by (simp add: bytes_hex_Cons)
qed

lemma bytes_hex_inj: "bytes_hex a = bytes_hex b \<longleftrightarrow> a = b"
  by (metis from_hex_bytes_hex option.inject)

lemma bytes_hex_free: "CHR ''$'' \<notin> set (bytes_hex s) \<and> is_ascii (bytes_hex s)"
proof (induction s)
  case Nil
  show ?case by (simp add: bytes_hex_def is_ascii_def)
next
  case (Cons c s)
  then show ?case
    using hex_read [OF nibbles(1) [of c]] hex_read [OF nibbles(2) [of c]]
    by (simp add: bytes_hex_Cons is_ascii_def eq_commute [of _ "CHR ''$''"])
qed

section \<open>Cookies are read back as written\<close>

lemma decode_cookie_value:
  assumes "utf8_wf username" and "is_ascii (hmac secret (session_payload username issued_at))"
    and "CHR '':'' \<notin> set (hmac secret (session_payload username issued_at))"
  shows "decode_session_cookie (session_cookie_value hmac username issued_at secret)
    = Some (username, issued_at, hmac secret (session_payload username issued_at))"
proof -
  let ?sig = "hmac secret (session_payload username issued_at)"
  have colon: "utf8_wf '':''" by (rule ascii_utf8_wf) (simp add: is_ascii_def)
  have "utf8_wf (session_payload username issued_at @ '':'' @ ?sig)"
    using assms(1) ascii_utf8_wf [OF assms(2)]
    using utf8_wf_append [OF utf8_wf_append [OF assms(1) utf8_wf_append [OF colon ascii_utf8_wf [OF show_int_free(3) [of issued_at]]]]
        utf8_wf_append [OF colon ascii_utf8_wf [OF assms(2)]]]
    by (simp add: session_payload_def)
  moreover have "rsplit_once CHR '':'' (session_payload username issued_at @ CHR '':'' # ?sig)
      = Some (session_payload username issued_at, ?sig)" by (rule rsplit_once_append [OF assms(3)])
  moreover have "rsplit_once CHR '':'' (session_payload username issued_at) = Some (username, show_int issued_at)"
    unfolding session_payload_def using rsplit_once_append [OF show_int_free(1)] by simp
  ultimately show ?thesis
    by (simp add: decode_session_cookie_def session_cookie_value_def Let_def b64_ascii b64_round_trip parse_int_show_int)
qed

text \<open>What a hexadecimal HMAC digest looks like.\<close>

definition hex_mac :: "(string \<Rightarrow> string \<Rightarrow> string) \<Rightarrow> bool" where
  "hex_mac hmac \<longleftrightarrow> (\<forall>k m. is_ascii (hmac k m) \<and> CHR '':'' \<notin> set (hmac k m))"

lemma cookie_value_nonempty: "session_cookie_value hmac username issued_at secret \<noteq> []"
proof
  assume e: "session_cookie_value hmac username issued_at secret = []"
  have "urlsafe_b64encode x = [] \<Longrightarrow> x = []" for x
    by (metis b64_round_trip option.inject urlsafe_b64decode_def a2b.simps(1) list.simps(8) option.map(2))
  with e show False by (fastforce simp: session_cookie_value_def Let_def session_payload_def)
qed

lemma own_cookie_authenticates:
  assumes "hex_mac hmac" and "utf8_wf username" and "session_secret env = Inr secret"
  shows "is_authenticated hmac env (Some (session_cookie_value hmac username issued_at secret)) now
    = Inr (whole_seconds now \<le> issued_at + SESSION_TTL_SECONDS)"
  using assms decode_cookie_value [of username hmac secret issued_at]
  by (auto simp: is_authenticated_def cookie_value_nonempty hex_mac_def compare_digest_def)

section \<open>Properties\<close>

text \<open>C17: Signing in answers with a cookie only for the configured user and a password that matches the stored
  hash, and that cookie is accepted from then on until exactly twelve hours after it was issued, whatever
  characters the user name has; every other answer is the redirection back to the form.\<close>

theorem login_opens_a_session:
  assumes "hex_mac hmac" and "utf8_wf (admin_username env)"
    and "login_submit hmac pbkdf2 crypt env username password now = Answer r"
  shows "case rd_cookie r of
      None \<Rightarrow> rd_target r = ''/login?error=1''
    | Some c \<Rightarrow> username = admin_username env
        \<and> verify_password pbkdf2 crypt password (strip (we_password_hash env)) = Inr True
        \<and> (\<forall>later. is_authenticated hmac env (Some c) later
              = Inr (whole_seconds later \<le> whole_seconds now + SESSION_TTL_SECONDS))"
proof (cases "rd_cookie r")
  case None
  with assms(3) show ?thesis
    by (auto simp: login_submit_def login_response_def Let_def split: if_splits sum.splits)
next
  case (Some c)
  with assms(3) obtain secret where "session_secret env = Inr secret" "username = admin_username env"
      "verify_password pbkdf2 crypt password (strip (we_password_hash env)) = Inr True"
      "c = session_cookie_value hmac (admin_username env) (whole_seconds now) secret"
    by (auto simp: login_submit_def login_response_def Let_def split: if_splits sum.splits)
  with own_cookie_authenticates [OF assms(1,2)] Some show ?thesis by simp
qed

definition sample_env :: web_env where
  "sample_env = \<lparr>we_username = '' a:b '', we_password_hash = ''$2b$x'', we_session_secret = []\<rparr>"

theorem login_opens_a_session_witness:
  "is_authenticated (\<lambda>k m. ''ab'') sample_env
      (Some (session_cookie_value (\<lambda>k m. ''ab'') ''a:b'' 7 ''$2b$x'')) 43207000000 = Inr True
    \<and> is_authenticated (\<lambda>k m. ''ab'') sample_env
      (Some (session_cookie_value (\<lambda>k m. ''ab'') ''a:b'' 7 ''$2b$x'')) 43208000000 = Inr False"
proof -
  let ?r = "\<lparr>rd_target = ''/'', rd_cookie = Some (session_cookie_value (\<lambda>k m. ''ab'') ''a:b'' 7 ''$2b$x'')\<rparr>"
  have "strip '' a:b '' = ''a:b''" by code_simp
  then have u: "admin_username sample_env = ''a:b''" by (simp add: admin_username_def sample_env_def)
  have h: "strip (we_password_hash sample_env) = ''$2b$x''" "strip (we_session_secret sample_env) = []"
    by code_simp+
  have v: "verify_password (\<lambda>p s i. Inr []) (\<lambda>p st. Some st) ''pw'' ''$2b$x'' = Inr True" by code_simp
  have a: "login_submit (\<lambda>k m. ''ab'') (\<lambda>p s i. Inr []) (\<lambda>p st. Some st) sample_env ''a:b'' ''pw'' 7000000 = Answer ?r"
    by (simp add: login_submit_def login_response_def session_secret_def u h v whole_seconds_def)
  have m: "hex_mac (\<lambda>k m. ''ab'')" by (simp add: hex_mac_def is_ascii_def)
  have w: "utf8_wf (admin_username sample_env)" unfolding u by (rule ascii_utf8_wf) (simp add: is_ascii_def)
  show ?thesis using login_opens_a_session [OF m w a]
    by (simp add: SESSION_TTL_SECONDS_def whole_seconds_def u)
qed

text \<open>A request counts as signed in only if its cookie carries, over the very user name and issue time it
  decodes to, the HMAC under the server's secret, and is not older than twelve hours.  With no cookie, or one that does not decode,
  it does not.\<close>

lemma session_needs_a_signature:
  "case is_authenticated hmac env cookie now of
     Inl _ \<Rightarrow> cookie \<noteq> None
   | Inr ok \<Rightarrow> ok = (\<exists>v username issued_at secret. cookie = Some v \<and> session_secret env = Inr secret
        \<and> decode_session_cookie v = Some (username, issued_at, hmac secret (session_payload username issued_at))
        \<and> whole_seconds now \<le> issued_at + SESSION_TTL_SECONDS)"
proof (cases cookie)
  case None
  then show ?thesis by (simp add: is_authenticated_def)
next
  case (Some v)
  show ?thesis
  proof (cases "v = [] \<or> decode_session_cookie v = None")
    case True
    have "decode_session_cookie [] = None" by code_simp
    with True Some show ?thesis by (auto simp: is_authenticated_def)
  next
    case False
    then obtain u t sg where d: "decode_session_cookie v = Some (u, t, sg)" by (cases "decode_session_cookie v") auto
    show ?thesis
      using Some False d
      by (auto simp: is_authenticated_def bind_result_def compare_digest_def split: sum.splits if_splits)
  qed
qed

text \<open>A stored password hash reads back: it verifies exactly the passwords whose PBKDF2 digest, with the
  recorded salt and number of rounds, equals the digest recorded.\<close>

theorem password_hash_round_trips:
  assumes "derive_password_hash pbkdf2 password salt iterations random16 = Inr stored"
  shows "\<exists>actual_salt digest. pbkdf2 password actual_salt iterations = Inr digest
    \<and> (salt \<noteq> None \<and> salt \<noteq> Some [] \<longrightarrow> salt = Some actual_salt)
    \<and> verify_password pbkdf2 crypt password stored = Inr True
    \<and> verify_password pbkdf2 crypt guess stored
        = bind_result (pbkdf2 guess actual_salt iterations) (\<lambda>d. Inr (d = digest))"
proof -
  define st where "st = (case salt of Some t \<Rightarrow> if t = [] then random16 else t | None \<Rightarrow> random16)"
  from assms obtain digest where d: "pbkdf2 password st iterations = Inr digest"
    and stored: "stored = PBKDF2_PREFIX @ ''$'' @ show_int iterations @ ''$'' @ bytes_hex st @ ''$'' @ bytes_hex digest"
    by (auto simp: derive_password_hash_def bind_result_Inr_iff st_def [symmetric] Let_def)
  have prefix: "CHR ''$'' \<notin> set PBKDF2_PREFIX" by (simp add: PBKDF2_PREFIX_def)
  have sp: "split_max CHR ''$'' 3 stored = [PBKDF2_PREFIX, show_int iterations, bytes_hex st, bytes_hex digest]"
    unfolding stored numeral_3_eq_3
    by (simp add: split_once_append prefix show_int_free bytes_hex_free)
  have "startswith stored (PBKDF2_PREFIX @ ''$'')" unfolding stored by (simp add: startswith_iff)
  with sp have v: "verify_password pbkdf2 crypt p stored
      = bind_result (pbkdf2 p st iterations) (\<lambda>d. Inr (d = digest))" for p
    by (simp add: verify_password_def parse_int_show_int from_hex_bytes_hex compare_digest_def bytes_hex_free bytes_hex_inj)
  then show ?thesis using d
    by (intro exI [of _ st] exI [of _ digest]) (auto simp: st_def)
qed

theorem password_hash_round_trips_witness:
  "verify_password (\<lambda>p s i. Inr (p @ s)) (\<lambda>p st. None) ''pw'' ''pbkdf2_sha256$2$6162$70776162'' = Inr True
    \<and> verify_password (\<lambda>p s i. Inr (p @ s)) (\<lambda>p st. None) ''px'' ''pbkdf2_sha256$2$6162$70776162'' = Inr False"
proof -
  have "derive_password_hash (\<lambda>p s i. Inr (p @ s)) ''pw'' (Some ''ab'') 2 [] = Inr ''pbkdf2_sha256$2$6162$70776162''"
    by code_simp
  from password_hash_round_trips [OF this, of "\<lambda>p st. None" "''px''"] show ?thesis by auto
qed

end
