(* ===== verification/ApiRuns.thy ===== *)
theory ApiRuns imports Api begin

text \<open>
  What a run of API requests may and may not do (\<open>api_run\<close>): nodes keep everything but their
  fingerprint, tokens stay spent, the audit log grows.  The locale \<open>outbox\<close> is interpreted on the
  gateway endpoints over the store, so a poll of the gateway client delivers from the real outbox.
\<close>

section \<open>Requests one after the other\<close>

text \<open>The uuid of a new node is fresh, so a \<open>Join\<close> that draws a taken one is not a request of a run.\<close>

definition node_keeps :: "node \<Rightarrow> node \<Rightarrow> bool" where
  "node_keeps n n' \<longleftrightarrow> n' = n\<lparr>nd_fingerprint := nd_fingerprint n'\<rparr>"

lemma node_keeps_refl [simp, intro]: "node_keeps n n"
  by (simp add: node_keeps_def)

lemma node_keeps_trans: "node_keeps n n' \<Longrightarrow> node_keeps n' n'' \<Longrightarrow> node_keeps n n''"
  by (cases n; cases n'; cases n'') (simp add: node_keeps_def)

definition api_run :: "surroundings \<times> api_request \<Rightarrow> files \<times> store \<Rightarrow> files \<times> store" where
  "api_run c st =
     (case snd c of
        Join q uid \<Rightarrow> if load_node (snd st) (''node_'' @ uid) = None then snd (api_step (fst c) (snd c) st) else st
      | _ \<Rightarrow> snd (api_step (fst c) (snd c) st))"

lemma snd_on_store [simp]: "snd (on_store f fs out) = (fs, snd out)"
  by (simp add: on_store_def case_prod_beta)

lemma snd_on_files [simp]: "snd (on_files f out) = snd out"
  by (simp add: on_files_def case_prod_beta)

lemma next_task_store:
  "snd (api_next_task hm k fp protocol clk s) = s
    \<or> snd (api_next_task hm k fp protocol clk s)
        = snd (claim_next_task k ''worker'' DEFAULT_LEASE (clk (Suc 0)) (snd (expire_stuck_tasks None (clk 0) s)))"
proof -
  obtain r s2 where c: "claim_next_task k ''worker'' DEFAULT_LEASE (clk (Suc 0)) (snd (expire_stuck_tasks None (clk 0) s)) = (r, s2)"
    by fastforce
  show ?thesis by (simp add: api_next_task_def c split: http.split option.split)
qed

lemma task_result_store:
  "snd (api_task_result j fp code outp err now s) \<in> {s, snd (complete_task j code outp err now s)}"
proof -
  obtain r s1 where c: "complete_task j code outp err now s = (r, s1)" by fastforce
  show ?thesis by (simp add: api_task_result_def c split: http.split option.split)
qed

lemma delivered_store: "snd (gateway_notification_delivered j now s) = snd (mark_notification_delivered j now s)"
proof -
  obtain r s1 where c: "mark_notification_delivered j now s = (r, s1)" by fastforce
  show ?thesis by (simp add: gateway_notification_delivered_def c split: option.split)
qed

lemma node_endpoints_frame [simp]:
  "nodes (snd (api_heartbeat k fp status facts now s)) = nodes s"
  "nodes (snd (api_next_task hm k fp protocol clk s)) = nodes s"
  "nodes (snd (api_task_result j fp code outp err now s)) = nodes s"
  "nodes (snd (gateway_notification_delivered j now s)) = nodes s"
proof -
  show "nodes (snd (api_heartbeat k fp status facts now s)) = nodes s"
    by (simp add: api_heartbeat_def Let_def split: http.split sum.split)
  show "nodes (snd (api_next_task hm k fp protocol clk s)) = nodes s"
    using next_task_store [of hm k fp protocol clk s] by auto
  show "nodes (snd (api_task_result j fp code outp err now s)) = nodes s"
    using task_result_store [of j fp code outp err now s] by auto
  show "nodes (snd (gateway_notification_delivered j now s)) = nodes s"
    by (simp add: delivered_store)
qed

lemma node_endpoints_audit:
  "audit_extends s (snd (api_heartbeat k fp status facts now s))"
  "audit_extends s (snd (api_rotate_fingerprint k fp new now s))"
  "audit_extends s (snd (api_next_task hm k fp protocol clk s))"
  "audit_extends s (snd (api_task_result j fp code outp err now s))"
  "audit_extends s (snd (gateway_notification_delivered j now s))"
proof -
  show "audit_extends s (snd (api_heartbeat k fp status facts now s))"
    by (auto simp: api_heartbeat_def Let_def split: http.split sum.split)
  obtain r s1 where "rotate_node_fingerprint k (Some fp) new now s = (r, s1)" by fastforce
  then show "audit_extends s (snd (api_rotate_fingerprint k fp new now s))"
    using node_ops_audit(1) [of s k "Some fp" new now] by (simp add: api_rotate_fingerprint_def split: option.split)
  have polled: "audit_extends s (snd (claim_next_task k e l now (snd (expire_stuck_tasks old now' s))))" for e l old now now'
    using task_ops_audit(2) task_ops_audit(1) by (rule audit_extends_trans)
  show "audit_extends s (snd (api_next_task hm k fp protocol clk s))"
    using next_task_store [of hm k fp protocol clk s] by (elim disjE) (simp_all add: polled)
  show "audit_extends s (snd (api_task_result j fp code outp err now s))"
    using task_result_store [of j fp code outp err now s] task_ops_audit(3) [of s j code outp err now] by auto
  show "audit_extends s (snd (gateway_notification_delivered j now s))"
    by (simp add: delivered_store audit_extends_same)
qed

lemma rotate_keeps:
  assumes "load_node s k = Some n"
  shows "\<exists>n'. load_node (snd (api_rotate_fingerprint j fp new now s)) k = Some n' \<and> node_keeps n n'"
proof -
  obtain r s1 where r: "rotate_node_fingerprint j (Some fp) new now s = (r, s1)" by fastforce
  have "snd (api_rotate_fingerprint j fp new now s) \<in> {s, s1}"
    by (simp add: api_rotate_fingerprint_def r split: option.split)
  then show ?thesis using assms rotate_node_fingerprint_load [OF r, of k] by (auto simp: node_keeps_def)
qed

lemma join_keeps:
  assumes "load_node s k = Some n" and "load_node s (''node_'' @ uid) = None"
  shows "load_node (snd (api_join q uid clk s)) k = Some n"
proof -
  obtain r s' where j: "api_join q uid clk s = (r, s')" by fastforce
  show ?thesis
  proof (cases "\<exists>a. r = Answer a")
    case True
    then obtain a where "api_join q uid clk s = (Answer a, s')" using j by blast
    then obtain t where "load_node s' = (load_node s)(''node_'' @ uid \<mapsto> joined_node q uid t)"
      using api_join_answer by blast
    with assms j show ?thesis by auto
  next
    case False
    then show ?thesis using api_join_refused [OF j] j assms(1) load_node_cong [of s' s] by simp
  qed
qed

lemma decides_only_node: "decides_only s s' \<Longrightarrow> load_node s' k = load_node s k"
  using load_node_cong [of s' s] by (simp add: decides_only_def)

lemma same_nodes_keep:
  "nodes s' = nodes s \<Longrightarrow> load_node s k = Some n \<Longrightarrow> \<exists>n'. load_node s' k = Some n' \<and> node_keeps n n'"
  using load_node_cong [of s' s] by auto

lemma api_run_keeps:
  assumes "load_node (snd st) k = Some n"
  shows "\<exists>n'. load_node (snd (api_run c st)) k = Some n' \<and> node_keeps n n'"
proof -
  obtain fs s where st: "st = (fs, s)" by fastforce
  note ld = assms [unfolded st snd_conv]
  show ?thesis
  proof (cases "snd c")
    case (Join q uid)
    with ld show ?thesis using join_keeps [OF ld] by (auto simp: api_run_def st)
  next
    case (RotateFingerprint j fp new)
    with rotate_keeps [OF ld] show ?thesis by (simp add: api_run_def st)
  next
    case (Approve j who)
    with ld show ?thesis using decides_only_node [OF api_resolve_decides] by (auto simp: api_run_def st)
  next
    case (Reject j who)
    with ld show ?thesis using decides_only_node [OF api_resolve_decides] by (auto simp: api_run_def st)
  next
    case (GatewayCallback client data who)
    with ld show ?thesis using decides_only_node [OF gateway_callback_decides(2)] by (auto simp: api_run_def st)
  next
    case (TelegramCallback data who)
    with ld show ?thesis using decides_only_node [OF gateway_callback_decides(1)] by (auto simp: api_run_def st)
  qed (use ld in \<open>auto simp: api_run_def st intro: same_nodes_keep\<close>)
qed

lemma api_run_audit: "audit_extends (snd st) (snd (api_run c st))"
proof -
  obtain fs s where st: "st = (fs, s)" by fastforce
  show ?thesis
    by (cases "snd c")
      (simp_all add: api_run_def st node_endpoints_audit api_join_audit
        api_resolve_decides [unfolded decides_only_def] gateway_callback_decides [unfolded decides_only_def])
qed

interpretation api_nodes: row_machine "\<lambda>st k. load_node (snd st) k" api_run node_keeps "\<lambda>_. True"
proof unfold_locales
  show "node_keeps r r" for r by simp
  show "node_keeps r r' \<Longrightarrow> node_keeps r' r'' \<Longrightarrow> node_keeps r r''" for r r' r'' by (rule node_keeps_trans)
  show "load_node (snd st) k = Some r \<Longrightarrow> \<exists>r'. load_node (snd (api_run i st)) k = Some r' \<and> node_keeps r r'"
    for st k r i by (rule api_run_keeps)
qed simp


interpretation api_log: audited "\<lambda>(c, fs) s. snd (api_run c (fs, s))"
proof unfold_locales
  show "audit_extends s ((case i of (c, fs) \<Rightarrow> \<lambda>s. snd (api_run c (fs, s))) s)" for s i
    using api_run_audit [of "(snd i, s)" "fst i"] by (simp add: case_prod_beta)
qed

text \<open>Tokens: every request keeps a token's grant, and a spent token stays spent.\<close>

lemma same_tokens_evolve:
  "join_tokens s' = join_tokens s \<Longrightarrow> load_token s k = Some t \<Longrightarrow> \<exists>t'. load_token s' k = Some t' \<and> token_evolves t t'"
  using load_token_cong [of s' s] by (auto intro: token_evolves_refl)

lemma mark_delivered_tokens [simp]: "join_tokens (snd (mark_notification_delivered k now s)) = join_tokens s"
  by (auto simp: mark_notification_delivered_def Let_def split: option.splits)

lemma node_endpoints_tokens:
  "join_tokens (snd (api_heartbeat k fp status facts now s)) = join_tokens s"
  "join_tokens (snd (api_rotate_fingerprint k fp new now s)) = join_tokens s"
  "join_tokens (snd (api_next_task hm k fp protocol clk s)) = join_tokens s"
  "join_tokens (snd (api_task_result j fp code outp err now s)) = join_tokens s"
  "join_tokens (snd (gateway_notification_delivered j now s)) = join_tokens s"
proof -
  show "join_tokens (snd (api_heartbeat k fp status facts now s)) = join_tokens s"
    by (simp add: api_heartbeat_def Let_def split: http.split sum.split)
  obtain r s1 where "rotate_node_fingerprint k (Some fp) new now s = (r, s1)" by fastforce
  then show "join_tokens (snd (api_rotate_fingerprint k fp new now s)) = join_tokens s"
    using node_ops_frame(9) [of k "Some fp" new now s] by (simp add: api_rotate_fingerprint_def split: option.split)
  show "join_tokens (snd (api_next_task hm k fp protocol clk s)) = join_tokens s"
    using next_task_store [of hm k fp protocol clk s] by (elim disjE) simp_all
  show "join_tokens (snd (api_task_result j fp code outp err now s)) = join_tokens s"
    using task_result_store [of j fp code outp err now s] by auto
  show "join_tokens (snd (gateway_notification_delivered j now s)) = join_tokens s"
    by (simp add: delivered_store)
qed

lemma join_token_evolves:
  assumes "load_token s k = Some t"
  shows "\<exists>t'. load_token (snd (api_join q uid clk s)) k = Some t' \<and> token_evolves t t'"
proof -
  have tok: "join_tokens (snd (api_join q uid clk s))
      \<in> {join_tokens s, join_tokens (snd (consume_token (jn_token q) (jn_fingerprint q) (clk 0) s))}"
  proof -
    obtain c s1 where c: "consume_token (jn_token q) (jn_fingerprint q) (clk 0) s = (c, s1)" by fastforce
    show ?thesis
      by (simp add: api_join_def c register_pending_node_def Let_def split: option.split)
  qed
  have "\<exists>t'. load_token (snd (consume_token (jn_token q) (jn_fingerprint q) (clk 0) s)) k = Some t' \<and> token_evolves t t'"
    using assms by (auto simp: consume_token_load token_evolves_def)
  then show ?thesis using tok assms load_token_cong token_evolves_refl by (metis insertE singletonD)
qed

lemma api_run_tokens:
  assumes "load_token (snd st) k = Some t"
  shows "\<exists>t'. load_token (snd (api_run c st)) k = Some t' \<and> token_evolves t t'"
proof -
  obtain fs s where st: "st = (fs, s)" by fastforce
  note ld = assms [unfolded st snd_conv]
  have d: "\<exists>t'. load_token s' k = Some t' \<and> token_evolves t t'" if "decides_only s s'" for s'
    using that ld by (auto simp: decides_only_def intro: same_tokens_evolve)
  show ?thesis
  proof (cases "snd c")
    case (Join q uid)
    with ld show ?thesis
      using join_token_evolves [OF ld] by (auto simp: api_run_def st intro: token_evolves_refl)
  next
    case (Approve j who)
    then show ?thesis using d [OF api_resolve_decides] by (simp add: api_run_def st)
  next
    case (Reject j who)
    then show ?thesis using d [OF api_resolve_decides] by (simp add: api_run_def st)
  next
    case (GatewayCallback client data who)
    then show ?thesis using d [OF gateway_callback_decides(2)] by (simp add: api_run_def st)
  next
    case (TelegramCallback data who)
    then show ?thesis using d [OF gateway_callback_decides(1)] by (simp add: api_run_def st)
  qed (use ld in \<open>auto simp: api_run_def st node_endpoints_tokens intro: token_evolves_refl same_tokens_evolve\<close>)
qed

interpretation api_tokens: row_machine "\<lambda>st k. load_token (snd st) k" api_run token_evolves "\<lambda>_. True"
proof unfold_locales
  show "token_evolves r r" for r by (rule token_evolves_refl)
  show "token_evolves r r' \<Longrightarrow> token_evolves r' r'' \<Longrightarrow> token_evolves r r''" for r r' r''
    by (auto simp: token_evolves_def)
  show "load_token (snd st) k = Some r \<Longrightarrow> \<exists>r'. load_token (snd (api_run i st)) k = Some r' \<and> token_evolves r r'"
    for st k r i by (rule api_run_tokens)
qed simp

lemma join_refused_spent:
  assumes "spent (jn_token q) s"
  shows "\<exists>status d. fst (api_join q uid clk s) = Refused status d"
proof -
  obtain c s1 where c: "consume_token (jn_token q) (jn_fingerprint q) (clk 0) s = (c, s1)" by fastforce
  have "c = None" using spent_not_consumed [OF assms, of "jn_fingerprint q" "clk 0"] by (simp add: c)
  then show ?thesis by (auto simp: api_join_def c split: option.split)
qed

lemma api_run_spent: "spent v (snd st) \<Longrightarrow> spent v (snd (fold api_run cs st))"
  using api_tokens.run_evolves [of st v _ cs] by (fastforce simp: spent_def token_evolves_def)


section \<open>The outbox behind the API\<close>

text \<open>
  The gateway client of one channel over HTTP: the world is the chat service, a count of clock readings
  and the server's store.  An error status is an \<open>HTTPError\<close> at the client.
\<close>

type_synonym 'c gateway_world = "'c \<times> nat \<times> store"

definition list_over_api :: "string \<Rightarrow> 'c gateway_world \<Rightarrow> dict list" where
  "list_over_api client w = gateway_notifications client (snd (snd w))"

definition send_over_chat :: "'c send_card \<Rightarrow> 'c gateway_world send_card" where
  "send_over_chat chat target txt buttons w =
     (case chat target txt buttons (fst w) of (r, c) \<Rightarrow> (r, c, snd w))"

definition mark_over_api :: "(nat \<Rightarrow> time) \<Rightarrow> 'c gateway_world mark_delivered" where
  "mark_over_api clk k w =
     (case w of (c, i, s) \<Rightarrow>
        (case gateway_notification_delivered k (clk i) s of
           (Answer a, s1) \<Rightarrow> (Inr (), c, i + 1, s1)
         | (Refused status d, s1) \<Rightarrow> (Inl (HTTPError status), c, i + 1, s1)
         | (Crashed e, s1) \<Rightarrow> (Inl (HTTPError 500), c, i + 1, s1)))"

definition outbox_ok :: "'c gateway_world \<Rightarrow> bool" where
  "outbox_ok w \<longleftrightarrow> keys_distinct nt_notification_id (notifications (snd (snd w)))"

lemma pending_after_mark:
  assumes "load_notification s k = Some n"
  shows "list_notifications ''pending'' (snd (mark_notification_delivered k now s))
    = filter (\<lambda>m. nt_notification_id m \<noteq> k) (list_notifications ''pending'' s)"
proof -
  have rows: "filter (\<lambda>m. nt_status m = ''pending'') (tbl_update nt_notification_id k (delivered_row now) rows)
      = filter (\<lambda>m. nt_notification_id m \<noteq> k) (filter (\<lambda>m. nt_status m = ''pending'') rows)" for rows
    by (induction rows) (auto simp: tbl_update_def delivered_row_def)
  show ?thesis
    using assms by (simp add: list_notifications_def mark_notification_delivered_def Let_def rows order_desc_def filter_sort)
qed

lemma card_id_response [simp]: "card_id (notification_response n) = JStr (nt_notification_id n)"
  by (simp add: card_id_def notification_response_def dget_def)

lemma pending_in_table: "n \<in> set (list_notifications ''pending'' s) \<Longrightarrow> n \<in> set (notifications s)"
  by (simp add: list_notifications_def order_desc_def)

lemma listed_ids:
  "n \<in> set (list_over_api client w) \<Longrightarrow> \<exists>k. map_of n ''notification_id'' = Some (JStr k)"
  by (auto simp: list_over_api_def gateway_notifications_def notification_response_def)

lemma listed_distinct: "outbox_ok w \<Longrightarrow> distinct (map card_id (list_over_api client w))"
  by (simp add: outbox_ok_def list_over_api_def gateway_notifications_def list_notifications_def keys_distinct_def
      order_desc_def comp_def distinct_map inj_on_def)

lemma sent_keeps_outbox:
  "outbox_ok w \<Longrightarrow> outbox_ok (snd (send_over_chat chat target msg bs w))
     \<and> list_over_api client (snd (send_over_chat chat target msg bs w)) = list_over_api client w"
  by (simp add: send_over_chat_def outbox_ok_def list_over_api_def case_prod_beta)

lemma mark_takes_off:
  assumes ok: "outbox_ok w" and n: "n \<in> set (list_over_api client w)" and k: "card_id n = JStr k"
  shows "fst (mark_over_api clk k w) = Inr () \<and> outbox_ok (snd (mark_over_api clk k w))
      \<and> list_over_api client (snd (mark_over_api clk k w)) = filter (\<lambda>m. card_id m \<noteq> JStr k) (list_over_api client w)"
proof -
  obtain c i s where w: "w = (c, i, s)" by (metis prod_cases3)
  obtain m where m: "m \<in> set (notifications s)" "nt_notification_id m = k"
    using n k by (auto simp: w list_over_api_def gateway_notifications_def dest: pending_in_table)
  have ld: "load_notification s k = Some m"
    using keys_distinct_find [of nt_notification_id "notifications s" m] ok m
    by (simp add: outbox_ok_def w load_notification_def)
  obtain s1 where mk: "mark_notification_delivered k (clk i) s = (Some (delivered_row (clk i) m), s1)"
    using mark_delivered_load [of k "clk i" s k] ld
    by (simp add: mark_notification_delivered_def Let_def)
  have ids: "keys_distinct nt_notification_id (notifications s1)"
    using mk ok ld by (auto simp: w outbox_ok_def mark_notification_delivered_def Let_def keys_distinct_update delivered_row_def)
  have "list_notifications ''pending'' s1 = filter (\<lambda>m. nt_notification_id m \<noteq> k) (list_notifications ''pending'' s)"
    using pending_after_mark [OF ld, of "clk i"] by (simp add: mk)
  then have "gateway_notifications client s1 = filter (\<lambda>m. card_id m \<noteq> JStr k) (gateway_notifications client s)"
    by (simp add: gateway_notifications_def filter_map comp_def conj_commute)
  with ids show ?thesis
    by (simp add: mark_over_api_def w gateway_notification_delivered_def mk outbox_ok_def list_over_api_def)
qed

interpretation api_outbox: outbox "list_over_api client" "send_over_chat chat" "mark_over_api clk" outbox_ok
  by unfold_locales (rule listed_ids, assumption, erule listed_distinct, erule sent_keeps_outbox, erule (2) mark_takes_off)

text \<open>A poll leaves exactly the cards it could not deliver.\<close>

lemma filter_by_image:
  assumes "inj_on f (set xs)" and "set ys \<subseteq> set xs" and "distinct xs" and "distinct ys"
  shows "length (filter (\<lambda>x. f x \<notin> f ` set ys) xs) + length ys = length xs"
proof -
  have "set (filter (\<lambda>x. f x \<notin> f ` set ys) xs) = set xs - set ys"
    using assms(1,2) by (auto dest: inj_onD)
  then have "length (filter (\<lambda>x. f x \<notin> f ` set ys) xs) = card (set xs - set ys)"
    using assms(3) distinct_card [of "filter (\<lambda>x. f x \<notin> f ` set ys) xs"] by simp
  moreover have "card (set xs - set ys) + card (set ys) = card (set xs)"
    using assms(2) by (metis List.finite_set card_Diff_subset card_mono le_add_diff_inverse2)
  ultimately show ?thesis using assms(3,4) by (simp add: distinct_card)
qed

lemma poll_outcome:
  assumes "outbox_ok w"
    and "poll_once (list_over_api client) (send_over_chat chat) (mark_over_api clk) target w = (r, w')"
  shows "set (list_over_api client w') \<subseteq> set (list_over_api client w)
    \<and> length (list_over_api client w') = pl_failed r
    \<and> pl_sent r + pl_failed r = length (list_over_api client w)"
proof -
  let ?ns = "list_over_api client w"
  have d: "distinct (map card_id ?ns)" using assms(1) by (rule listed_distinct)
  obtain sent where sent: "set sent \<subseteq> set ?ns"
    "list_over_api client w' = filter (\<lambda>m. card_id m \<notin> card_id ` set sent) ?ns" "distinct (map card_id sent)"
    "pl_sent r = length sent" "pl_failed r + length sent = length ?ns"
    using api_outbox.deliver_all_outcome [OF assms(1) subset_refl d, of chat clk target "\<lparr>pl_sent = 0, pl_failed = 0\<rparr>"]
      assms(2) by (auto simp: poll_once_def)
  moreover have "length (filter (\<lambda>m. card_id m \<notin> card_id ` set sent) ?ns) + length sent = length ?ns"
    using d sent(1,3) by (intro filter_by_image) (auto simp: distinct_map)
  ultimately show ?thesis by auto
qed

section \<open>Polls and refusals\<close>

lemma authorise_answer:
  "authorise_node s k fp = Answer n \<longleftrightarrow> load_node s k = Some n \<and> nd_status n = ''managed'' \<and> nd_fingerprint n = fp"
  by (auto simp: authorise_node_def split: option.splits)

lemma authorise_unmanaged:
  "load_node s k = Some n \<Longrightarrow> nd_status n \<noteq> ''managed'' \<Longrightarrow> \<exists>d. authorise_node s k fp = Refused 403 d"
  by (auto simp: authorise_node_def)

lemma expired_still_pending:
  assumes "keys_distinct tk_task_id (tasks s)" and "load_task (snd (expire_stuck_tasks old now s)) k = Some t"
    and "tk_status t = ''pending''"
  shows "load_task s k = Some t"
  using assms expire_load [OF assms(1), of old now k]
  by (auto simp: expire_row_def lease_lost_def split: if_splits)

lemma poll_answer:
  assumes ok: "tasks_ok s" and poll: "api_next_task hm k fp protocol clk s = (Answer (Some r), s')"
  shows "\<exists>n t. load_node s k = Some n \<and> nd_status n = ''managed'' \<and> nd_fingerprint n = fp
    \<and> load_task s (tr_task_id r) = Some t \<and> claimable k ''worker'' t
    \<and> load_task s' (tr_task_id r) = Some (claim_row (clk 1) (clk 1 + seconds DEFAULT_LEASE) t)
    \<and> tr_command r = tk_command t \<and> tr_risk r = tk_risk t
    \<and> tr_signature r = sign_task_payload hm fp (tr_task_id r) (tk_command t) (tk_risk t)"
proof -
  let ?s1 = "snd (expire_stuck_tasks None (clk 0) s)"
  obtain n where n: "authorise_node s k fp = Answer n"
    using poll by (auto simp: api_next_task_def split: http.splits)
  obtain c s2 where c: "claim_next_task k ''worker'' DEFAULT_LEASE (clk (Suc 0)) ?s1 = (c, s2)" by fastforce
  have version: "is_worker_compatible WORKER_PROTOCOL_VERSION protocol"
    using poll by (simp add: api_next_task_def n split: if_splits)
  obtain t' where t': "c = Some t'" "s' = s2" "tr_task_id r = tk_task_id t'" "tr_command r = tk_command t'"
    "tr_risk r = tk_risk t'" "tr_signature r = sign_task_payload hm (nd_fingerprint n) (tk_task_id t') (tk_command t') (tk_risk t')"
  proof (cases c)
    case None
    with poll show thesis by (simp add: api_next_task_def n version c)
  next
    case (Some t')
    have "api_next_task hm k fp protocol clk s = (Answer (Some \<lparr>tr_task_id = tk_task_id t', tr_command = tk_command t',
        tr_risk = tk_risk t', tr_signature = sign_task_payload hm (nd_fingerprint n) (tk_task_id t') (tk_command t') (tk_risk t')\<rparr>), s2)"
      by (simp add: api_next_task_def n version c Some)
    with poll have "r = \<lparr>tr_task_id = tk_task_id t', tr_command = tk_command t', tr_risk = tk_risk t',
        tr_signature = sign_task_payload hm (nd_fingerprint n) (tk_task_id t') (tk_command t') (tk_risk t')\<rparr>" "s' = s2"
      by simp_all
    then show thesis by (intro that [OF Some]) simp_all
  qed
  have keys: "keys_distinct tk_task_id (tasks ?s1)"
    using tasks_ok_step [OF ok, of "ExpireStuck None (clk 0)"] by (simp add: tasks_ok_def)
  obtain t where t: "claimable k ''worker'' t" "t' = claim_row (clk 1) (clk 1 + seconds DEFAULT_LEASE) t"
    "load_task ?s1 (tk_task_id t) = Some t" "load_task s2 (tk_task_id t) = Some t'"
    using claim_some [OF keys, of k "''worker''" DEFAULT_LEASE "clk 1" t' s2] c t'(1) by auto
  have ids: "tk_task_id t' = tk_task_id t" "tk_command t' = tk_command t" "tk_risk t' = tk_risk t"
    by (simp_all add: t(2) claim_row_def)
  have "load_task s (tk_task_id t) = Some t"
  proof (rule expired_still_pending)
    show "keys_distinct tk_task_id (tasks s)" using ok by (simp add: tasks_ok_def)
    show "load_task ?s1 (tk_task_id t) = Some t" by (rule t(3))
    show "tk_status t = ''pending''" using t(1) by (simp add: claimable_def)
  qed
  then show ?thesis using n t t' ids unfolding authorise_answer by (intro exI [of _ n] exI [of _ t]) simp
qed

section \<open>Properties\<close>

definition sample_join :: join_request where
  "sample_join = \<lparr>jn_token = ''j_abc'', jn_fingerprint = ''fp'', jn_hostname = ''web'', jn_addresses = [''10.0.0.1''],
     jn_auto_confirm = True\<rparr>"

text \<open>C2: a join is answered only for a pending, unexpired token and a machine that is not known yet; the
  node is stored with the token's trust level and labels, and from then on, whatever else the API
  serves, every join with that token is refused.\<close>

theorem token_joins_one_node:
  assumes "api_join q uid clk s = (Answer a, s1)" and "jn_token q2 = jn_token q"
  shows "(\<exists>t. load_token s (jn_token q) = Some t \<and> jt_status t = ''pending'' \<and> clk 0 \<le> jt_expires_at t
      \<and> load_node s1 (js_node_id a) = Some (joined_node q uid t))
    \<and> find_duplicate_join_node s q = None
    \<and> (\<exists>status d. fst (api_join q2 uid2 clk2 (snd (fold api_run cs (fs, s1)))) = Refused status d)"
proof -
  obtain t where t: "load_token s (jn_token q) = Some t" "jt_status t = ''pending''" "clk 0 \<le> jt_expires_at t"
    "find_duplicate_join_node s q = None"
    "load_node s1 = (load_node s)(''node_'' @ uid \<mapsto> joined_node q uid t)"
    "load_token s1 = (load_token s)(jn_token q \<mapsto>
           t\<lparr>jt_status := ''used'', jt_used_at := Some (clk 0), jt_node_fingerprint := Some (jn_fingerprint q)\<rparr>)"
    "js_node_id a = ''node_'' @ uid"
    using api_join_answer [OF assms(1)] by metis
  have "spent (jn_token q2) (snd (fs, s1))" using t(6) assms(2) by (simp add: spent_def)
  then have "spent (jn_token q2) (snd (fold api_run cs (fs, s1)))" by (rule api_run_spent)
  from join_refused_spent [OF this] t show ?thesis by auto
qed

theorem token_joins_one_node_witness:
  "\<exists>status d. fst (api_join sample_join ''2'' (\<lambda>_. 20)
     (snd (fold api_run [] (Map.empty, snd (api_join sample_join ''1'' (\<lambda>_. 10) sample_tokens))))) = Refused status d"
proof -
  have "(case fst (api_join sample_join ''1'' (\<lambda>_. 10) sample_tokens) of Answer a \<Rightarrow> True | _ \<Rightarrow> False)"
    by code_simp
  then obtain a where "api_join sample_join ''1'' (\<lambda>_. 10) sample_tokens
      = (Answer a, snd (api_join sample_join ''1'' (\<lambda>_. 10) sample_tokens))"
    by (auto split: http.splits simp: prod_eq_iff)
  from token_joins_one_node [OF this refl, of "''2''" "\<lambda>_. 20" "[]" Map.empty] show ?thesis by blast
qed

text \<open>C3: no sequence of API requests admits a node: one that is pending, quarantined or revoked keeps its
  status, trust level and permission bundles, and its heartbeats and polls are refused with 403.\<close>

theorem api_admits_no_node:
  assumes "load_node s k = Some n" and "nd_status n \<noteq> ''managed''"
  shows "\<exists>n' s' fs' d. fold api_run cs (fs, s) = (fs', s') \<and> load_node s' k = Some n'
    \<and> nd_status n' = nd_status n \<and> nd_trust_level n' = nd_trust_level n
    \<and> nd_permission_bundles n' = nd_permission_bundles n
    \<and> api_next_task hm k fp protocol clk s' = (Refused 403 d, s')
    \<and> api_heartbeat k fp status facts now s' = (Refused 403 d, s')"
proof -
  obtain fs' s' where run: "fold api_run cs (fs, s) = (fs', s')" by fastforce
  obtain n' where n': "load_node s' k = Some n'" "node_keeps n n'"
    using api_nodes.run_evolves [of "(fs, s)" k n cs] assms(1) by (auto simp: run)
  then have keeps: "nd_status n' = nd_status n" "nd_trust_level n' = nd_trust_level n"
    "nd_permission_bundles n' = nd_permission_bundles n"
    by (metis node_keeps_def node.select_convs node.update_convs node.surjective)+
  obtain d where "authorise_node s' k fp = Refused 403 d"
    using authorise_unmanaged [OF n'(1)] keeps(1) assms(2) by metis
  with run n'(1) keeps show ?thesis by (auto simp: api_next_task_def api_heartbeat_def)
qed

definition sample_revoked :: store where
  "sample_revoked = empty_store\<lparr>nodes := [(new_node ''n1'' ''fp'' ''web'' [] ''A'' [])\<lparr>nd_status := ''revoked''\<rparr>]\<rparr>"

definition sample_surroundings :: surroundings where
  "sample_surroundings = \<lparr>sr_hmac = (\<lambda>key m. key @ m), sr_sha256 = id, sr_expand = id, sr_run = \<lparr>host_shell = (\<lambda>_ fs. (None, fs)), host_is_dir = (\<lambda>_. False), host_write_fault = (\<lambda>_. None)\<rparr>,
     sr_uid = (\<lambda>_. ''u''), sr_clk = (\<lambda>_. 5)\<rparr>"

theorem api_admits_no_node_witness:
  "\<exists>s' d. snd (fold api_run [(sample_surroundings, RotateFingerprint ''n1'' ''fp'' ''fp2'')] (Map.empty, sample_revoked)) = s'
     \<and> fst (api_next_task (\<lambda>key m. key @ m) ''n1'' ''fp2'' (Some ''1'') (\<lambda>_. 5) s') = Refused 403 d"
proof -
  have "load_node sample_revoked ''n1'' = Some ((new_node ''n1'' ''fp'' ''web'' [] ''A'' [])\<lparr>nd_status := ''revoked''\<rparr>)"
    by (simp add: sample_revoked_def load_node_def new_node_def)
  from api_admits_no_node [OF this, of "[(sample_surroundings, RotateFingerprint ''n1'' ''fp'' ''fp2'')]" Map.empty
      "\<lambda>key m. key @ m" "''fp2''" "Some ''1''" "\<lambda>_. 5"]
  show ?thesis by fastforce
qed

text \<open>C4: a poll hands a task only to its own node: the caller is managed and knows the node's current
  fingerprint, the task was pending for that node and its worker, it is now running under a lease of 900
  seconds, and command and risk are the stored ones under a signature that the node's key verifies.\<close>

theorem polled_task_is_authentic:
  assumes "tasks_ok s" and "api_next_task hm k fp protocol clk s = (Answer (Some r), s')"
  shows "\<exists>n t t'. load_node s k = Some n \<and> nd_status n = ''managed'' \<and> nd_fingerprint n = fp
    \<and> load_task s (tr_task_id r) = Some t \<and> tk_status t = ''pending'' \<and> tk_node_id t = k \<and> tk_executor t = ''worker''
    \<and> load_task s' (tr_task_id r) = Some t' \<and> tk_status t' = ''running'' \<and> tk_lease_expires_at t' = Some (clk 1 + seconds 900)
    \<and> tr_command r = tk_command t \<and> tr_risk r = tk_risk t
    \<and> verify_task_signature hm fp (tr_task_id r) (tk_command t) (tk_risk t) (tr_signature r)"
  using poll_answer [OF assms] by (auto simp: claimable_def claim_row_def verify_task_signature_def DEFAULT_LEASE_def)

theorem polled_task_is_authentic_witness:
  "\<exists>r s'. api_next_task (\<lambda>key m. key @ m) ''n1'' ''fp'' (Some WORKER_PROTOCOL_VERSION) (\<lambda>_. 50) sample_queue
       = (Answer (Some r), s')
     \<and> verify_task_signature (\<lambda>key m. key @ m) ''fp'' (tr_task_id r) (tr_command r) (tr_risk r) (tr_signature r)"
proof -
  let ?p = "api_next_task (\<lambda>key m. key @ m) ''n1'' ''fp'' (Some WORKER_PROTOCOL_VERSION) (\<lambda>_. 50) sample_queue"
  have "(case fst ?p of Answer (Some r) \<Rightarrow> True | _ \<Rightarrow> False)" by code_simp
  then obtain r where r: "?p = (Answer (Some r), snd ?p)"
    by (auto split: http.splits option.splits simp: prod_eq_iff)
  from polled_task_is_authentic [OF sample_queue_ok r] r show ?thesis by (intro exI [of _ r] exI [of _ "snd ?p"]) auto
qed

text \<open>A poll of the gateway client never loses or repeats a card: with distinct notification ids,
  cards sent plus cards failed are the cards that were pending, and the outbox then holds exactly as
  many as failed, each of them from before.\<close>

theorem poll_leaves_failed_cards:
  assumes "keys_distinct nt_notification_id (notifications s)"
    and "poll_once (list_over_api client) (send_over_chat chat) (mark_over_api clk) target (c, i, s) = (r, c', i', s')"
  shows "set (gateway_notifications client s') \<subseteq> set (gateway_notifications client s)
    \<and> length (gateway_notifications client s') = pl_failed r
    \<and> pl_sent r + pl_failed r = length (gateway_notifications client s)"
  using poll_outcome [of "(c, i, s)" client chat clk target r "(c', i', s')"] assms
  by (simp add: outbox_ok_def list_over_api_def)

definition sample_outbox :: store where
  "sample_outbox = empty_store\<lparr>notifications :=
     map (\<lambda>(k, msg). \<lparr>nt_notification_id = k, nt_channel = ''telegram'', nt_subject_type = ''approval'',
           nt_subject_id = ''appr_1'', nt_status = ''pending'', nt_payload = [(''text'', JStr msg)], nt_created_at = 1,
           nt_delivered_at = None\<rparr>) [(''a'', ''hello''), (''b'', []), (''c'', ''bye'')]\<rparr>"

text \<open>A chat that records what it shows and refuses an empty message.\<close>

definition sample_chat :: "string list send_card" where
  "sample_chat target msg buttons c =
     (if msg = [] then (Inl (HTTPError 400), c) else (Inr (), c @ [msg]))"

theorem poll_leaves_failed_cards_witness:
  "length (gateway_notifications ''telegram'' (snd (snd (snd (poll_once (list_over_api ''telegram'')
     (send_over_chat sample_chat) (mark_over_api (\<lambda>_. 9)) ''42'' ([], 0, sample_outbox)))))) = 1"
proof -
  let ?p = "poll_once (list_over_api ''telegram'') (send_over_chat sample_chat) (mark_over_api (\<lambda>_. 9)) ''42'' ([], 0, sample_outbox)"
  have kd: "keys_distinct nt_notification_id (notifications sample_outbox)"
    by (simp add: sample_outbox_def keys_distinct_def)
  obtain r c' i' s' where p: "?p = (r, c', i', s')" by (metis prod_cases4)
  have "pl_failed (fst ?p) = 1" by code_simp
  with poll_leaves_failed_cards [OF kd p] p show ?thesis by simp
qed

end
