(* ===== verification/Uptime.thy ===== *)
theory Uptime imports Registry "HOL-Library.Multiset" begin

text \<open>
  Monitors for services: the plan of checks that \<open>uptime.py\<close> makes from a service registry, and the
  services that \<open>kuma_assets.py\<close> reads from the monitors of Uptime Kuma, whose rows (the result of the
  query, in its order) are an argument; the copy of the row in an asset (\<open>raw\<close>) is left out.
\<close>

section \<open>The plan of checks\<close>

datatype uptime_check =
    PingCheck string
  | KeywordCheck string string
  | HttpCheck string
  | TcpCheck string int

record uptime_item =
  up_service_id :: string
  up_name :: string
  up_monitor_name :: string
  up_check :: uptime_check

record uptime_skip =
  us_service_id :: string
  us_name :: string
  us_reason :: string

record uptime_plan =
  pl_create :: "uptime_item list"
  pl_update :: "uptime_item list"
  pl_skip :: "uptime_skip list"

definition check_dict :: "string \<Rightarrow> uptime_check \<Rightarrow> dict" where
  "check_dict name c =
     (case c of
        PingCheck host \<Rightarrow> [(''type'', JStr ''ping''), (''name'', JStr name), (''host'', JStr host)]
      | KeywordCheck url keyword \<Rightarrow>
          [(''type'', JStr ''keyword''), (''name'', JStr name), (''url'', JStr url), (''keyword'', JStr keyword)]
      | HttpCheck url \<Rightarrow> [(''type'', JStr ''http''), (''name'', JStr name), (''url'', JStr url)]
      | TcpCheck host port \<Rightarrow>
          [(''type'', JStr ''tcp''), (''name'', JStr name), (''host'', JStr host), (''port'', JInt port)])"

definition check_type :: "uptime_check \<Rightarrow> string" where
  "check_type c = py_str (dget (check_dict [] c) ''type'')"

definition first_domain :: "string list \<Rightarrow> string option" where
  "first_domain domains = first_row (filter (\<lambda>d. d \<noteq> []) (map strip domains))"

definition sub_dict :: "dict \<Rightarrow> string \<Rightarrow> dict" where
  "sub_dict d k = (case dget d k of JObj x \<Rightarrow> x | _ \<Rightarrow> [])"

definition https_url :: "string \<Rightarrow> string" where
  "https_url domain = ''https://'' @ domain"

text \<open>What is planned for one service: a check, or the reason why there is none.\<close>

definition uptime_decision :: "svc_record \<Rightarrow> string + uptime_check" where
  "uptime_decision r =
     (let monitor = sr_monitor r;
          metadata = sub_dict monitor ''metadata'';
          scope = lower (strip (str_or (dget (sub_dict metadata ''exposure'') ''scope'') []));
          strategy = lower (strip (str_or (dget monitor ''strategy'') []));
          keyword = strip (str_or (dget monitor ''keyword'') []);
          health_check_url = strip (str_or (dget metadata ''health_check_url'') []);
          domain = first_domain (sr_domains r)
      in if scope = ''internal-only'' then Inl ''internal-only service''
         else if scope = ''status-page'' then Inl ''status page service''
         else if strategy = ''ping'' then Inr (PingCheck (sr_node r))
         else if keyword \<noteq> [] \<and> (health_check_url \<noteq> [] \<or> domain \<noteq> None)
         then Inr (KeywordCheck (if health_check_url \<noteq> [] then health_check_url else https_url (the domain)) keyword)
         else case domain of
           Some d \<Rightarrow> Inr (HttpCheck (if health_check_url \<noteq> [] then health_check_url else https_url d))
         | None \<Rightarrow> (case sr_ports r of
                       port # _ \<Rightarrow> Inr (TcpCheck (sr_node r) port)
                     | [] \<Rightarrow> Inl ''missing domain and port''))"

definition uptime_order :: "registry \<Rightarrow> svc_record list" where
  "uptime_order reg = sort_key sr_node (sort_key sr_name (sort_key sr_service_id (list_services reg)))"

definition monitor_priority :: "uptime_item \<Rightarrow> int" where
  "monitor_priority i =
     (case map_of [(''keyword'', 0), (''http'', 0), (''tcp'', 1), (''ping'', 2)] (check_type (up_check i)) of
        Some p \<Rightarrow> p | None \<Rightarrow> 99)"

definition build_uptime_plan :: "registry \<Rightarrow> uptime_plan" where
  "build_uptime_plan reg =
     (let services = uptime_order reg;
          create = concat (map (\<lambda>r. case uptime_decision r of
                     Inr c \<Rightarrow> [\<lparr>up_service_id = sr_service_id r, up_name = sr_name r,
                                up_monitor_name = sr_name r @ '' ('' @ sr_node r @ '')'', up_check = c\<rparr>]
                   | Inl _ \<Rightarrow> []) services);
          skip = concat (map (\<lambda>r. case uptime_decision r of
                   Inl reason \<Rightarrow> [\<lparr>us_service_id = sr_service_id r, us_name = sr_name r, us_reason = reason\<rparr>]
                 | Inr _ \<Rightarrow> []) services)
      in \<lparr>pl_create = sort_key monitor_priority create, pl_update = [], pl_skip = skip\<rparr>)"

definition uptime_plan_dict :: "uptime_plan \<Rightarrow> dict" where
  "uptime_plan_dict p =
     [(''create'', JList (map (\<lambda>i. JObj [(''service_id'', JStr (up_service_id i)), (''name'', JStr (up_name i)),
         (''monitor'', JObj (check_dict (up_monitor_name i) (up_check i)))]) (pl_create p))),
      (''update'', JList []),
      (''skip'', JList (map (\<lambda>i. JObj [(''service_id'', JStr (us_service_id i)), (''name'', JStr (us_name i)),
         (''reason'', JStr (us_reason i))]) (pl_skip p)))]"

definition build_uptime_plan_from_path :: "string \<Rightarrow> json_files \<Rightarrow> dict result" where
  "build_uptime_plan_from_path path files =
     bind_result (registry_load path files) (\<lambda>reg. Inr (uptime_plan_dict (build_uptime_plan reg)))"

section \<open>The monitors of Uptime Kuma\<close>

text \<open>A row of the query; \<open>NULL\<close> is \<open>JNull\<close>.\<close>

record kuma_row =
  kr_id :: int
  kr_name :: json
  kr_active :: json
  kr_url :: json
  kr_type :: json
  kr_keyword :: json
  kr_hostname :: json
  kr_port :: json
  kr_description :: json
  kr_weight :: json
  kr_group_name :: json

definition LOCAL_HOSTS :: "string list" where
  "LOCAL_HOSTS = [''127.0.0.1'', ''localhost'', ''::1'', ''0.0.0.0'']"

text \<open>
  \<open>urlparse(url)\<close>: scheme, \<open>hostname\<close> and the text of the port; \<open>urlparse\<close> raises where \<open>urlsplit\<close> does,
  and \<open>port\<close> raises for a text that is no number up to 65535.
\<close>

definition host_and_port :: "string \<Rightarrow> string \<times> string" where
  "host_and_port netloc =
     (let hostinfo = (case rsplit_once CHR ''@'' netloc of Some (_, h) \<Rightarrow> h | None \<Rightarrow> netloc);
          after_colon = (\<lambda>s. case split_once CHR '':'' s of Some (_, p) \<Rightarrow> p | None \<Rightarrow> [])
      in case split_once CHR ''['' hostinfo of
           Some (_, bracketed) \<Rightarrow>
             (case split_once CHR '']'' bracketed of
                Some (h, rest) \<Rightarrow> (h, after_colon rest)
              | None \<Rightarrow> (bracketed, []))
         | None \<Rightarrow>
             (case split_once CHR '':'' hostinfo of Some (h, p) \<Rightarrow> (h, p) | None \<Rightarrow> (hostinfo, [])))"

definition url_hostname :: "string \<Rightarrow> string" where
  "url_hostname netloc =
     (let h = fst (host_and_port netloc)
      in case split_once CHR ''%'' h of
           Some (a, zone) \<Rightarrow> lower a @ ''%'' @ zone
         | None \<Rightarrow> lower h)"

definition url_port :: "string \<Rightarrow> int option result" where
  "url_port netloc =
     (let p = snd (host_and_port netloc)
      in if p = [] then Inr None
         else if \<not> list_all is_digit p then Inl (ValueError (''Port could not be cast to integer value as '' @ repr_str p))
         else case parse_int p of
           Some i \<Rightarrow> if i \<le> 65535 then Inr (Some i) else Inl (ValueError ''Port out of range 0-65535'')
         | None \<Rightarrow> Inl (ValueError ''Port could not be cast to integer value''))"

definition urlparse :: "(string \<Rightarrow> bool) \<Rightarrow> string \<Rightarrow> (string \<times> string) result" where
  "urlparse netloc_ok url =
     (case urlsplit netloc_ok url of None \<Rightarrow> Inl (ValueError ''Invalid IPv6 URL'') | Some x \<Rightarrow> Inr x)"

text \<open>Port 0 counts as no port.\<close>

definition normalize_port :: "string \<Rightarrow> string \<Rightarrow> int option result" where
  "normalize_port scheme netloc =
     bind_result (url_port netloc) (\<lambda>p.
       Inr (case p of
              Some i \<Rightarrow> if i \<noteq> 0 then Some i
                        else if scheme = ''https'' then Some 443 else if scheme = ''http'' then Some 80 else None
            | None \<Rightarrow> if scheme = ''https'' then Some 443 else if scheme = ''http'' then Some 80 else None))"

definition row_url :: "kuma_row \<Rightarrow> string" where
  "row_url row = strip (str_or (kr_url row) [])"

definition monitor_host :: "(string \<Rightarrow> bool) \<Rightarrow> kuma_row \<Rightarrow> string result" where
  "monitor_host netloc_ok row =
     (let hostname = strip (str_or (kr_hostname row) [])
      in if row_url row = [] then Inr hostname
         else bind_result (urlparse netloc_ok (row_url row)) (\<lambda>(scheme, netloc).
           Inr (if url_hostname netloc \<noteq> [] then url_hostname netloc else hostname)))"

definition row_port :: "kuma_row \<Rightarrow> int list" where
  "row_port row =
     (if kr_port row = JNull then [] else case py_int (kr_port row) of Some p \<Rightarrow> [p] | None \<Rightarrow> [])"

definition monitor_ports :: "(string \<Rightarrow> bool) \<Rightarrow> kuma_row \<Rightarrow> int list result" where
  "monitor_ports netloc_ok row =
     (if row_url row = [] then Inr (row_port row)
      else bind_result (urlparse netloc_ok (row_url row)) (\<lambda>(scheme, netloc).
           bind_result (normalize_port scheme netloc) (\<lambda>p.
             Inr (case p of Some i \<Rightarrow> [i] | None \<Rightarrow> row_port row))))"

definition monitor_domains :: "string \<Rightarrow> string list" where
  "monitor_domains host = (if host = [] \<or> host \<in> set LOCAL_HOSTS then [] else [host])"

definition NO_GROUP :: string where
  "NO_GROUP = (utf8_text [0x672A, 0x5206, 0x7EC4])"

definition group_name :: "kuma_row \<Rightarrow> string" where
  "group_name row = (let name = strip (str_or (kr_group_name row) []) in if name \<noteq> [] then name else NO_GROUP)"

definition kuma_category :: "string \<Rightarrow> kuma_row \<Rightarrow> string" where
  "kuma_category host row =
     (let g = lower (group_name row);
          d = lower (str_or (kr_description row) [])
      in if lower host \<in> set LOCAL_HOSTS \<or> contains g ''system'' \<or> contains g (utf8_text [0x7CFB, 0x7EDF])
            \<or> contains d ''system'' \<or> contains d (utf8_text [0x7CFB, 0x7EDF])
         then ''system''
         else if \<not> truthy (kr_active row) then ''pending''
         else ''main'')"

definition kuma_score :: "kuma_row \<Rightarrow> string \<Rightarrow> int" where
  "kuma_score row category =
     (if category = ''system'' then 20 else if category = ''pending'' then 40
      else min (if truthy (kr_keyword row) then 90 + 10 else 90) 100)"

definition kuma_why :: "kuma_row \<Rightarrow> string \<Rightarrow> string list" where
  "kuma_why row category =
     take 5 ([''Uptime Kuma monitor #'' @ show_int (kr_id row)]
       @ (if group_name row \<noteq> NO_GROUP then [''group: '' @ group_name row] else [])
       @ [if truthy (kr_active row) then ''active monitor'' else ''inactive monitor'']
       @ [str_or (kr_type row) ''http'' @ '' check'']
       @ (if category = ''system'' then [''local/system endpoint''] else []))"

definition kuma_summary :: "kuma_row \<Rightarrow> string" where
  "kuma_summary row =
     (let target = strip (py_str (py_or (kr_url row) (py_or (kr_hostname row) (JStr []))))
      in if target \<noteq> [] then py_str (kr_name row) @ ('' '' @ utf8_text [0xB7] @ '' '') @ target else str_or (kr_name row) [])"

text \<open>The first row of each monitor, in the order of the monitor ids.\<close>

fun pick_rows :: "(int \<times> kuma_row) list \<Rightarrow> kuma_row list \<Rightarrow> (int \<times> kuma_row) list" where
  "pick_rows selected [] = selected"
| "pick_rows selected (row # rows) =
     pick_rows (if map_of selected (kr_id row) = None then selected @ [(kr_id row, row)] else selected) rows"

definition pick_primary_group_rows :: "kuma_row list \<Rightarrow> kuma_row list" where
  "pick_primary_group_rows rows = map snd (sort_key fst (pick_rows [] rows))"

record kuma_asset =
  ka_service_id :: string
  ka_name :: string
  ka_node_id :: string
  ka_kind :: string
  ka_runtime :: string
  ka_domains :: "string list"
  ka_ports :: "int list"
  ka_status :: string
  ka_monitor_enabled :: bool
  ka_docs_path :: string
  ka_source :: string
  ka_business_category :: string
  ka_asset_category :: string
  ka_asset_score :: int
  ka_why_asset :: "string list"
  ka_summary :: string
  ka_deployment_type :: string
  ka_project_name :: string
  ka_business_name :: string
  ka_business_purpose :: string
  ka_public_exposed :: bool
  ka_backup_status :: string
  ka_tags :: "string list"

definition kuma_asset_of :: "(string \<Rightarrow> bool) \<Rightarrow> kuma_row \<Rightarrow> kuma_asset result" where
  "kuma_asset_of netloc_ok row =
     bind_result (monitor_host netloc_ok row) (\<lambda>host.
     bind_result (monitor_ports netloc_ok row) (\<lambda>ports.
       let category = kuma_category host row;
           domains = monitor_domains host;
           active = truthy (kr_active row);
           kind = str_or (kr_type row) ''http'';
           group = group_name row
       in Inr \<lparr>ka_service_id = ''kuma:'' @ show_int (kr_id row),
               ka_name = str_or (kr_name row) (''monitor-'' @ show_int (kr_id row)),
               ka_node_id = ''uptime-kuma'', ka_kind = kind, ka_runtime = ''uptime-kuma'',
               ka_domains = domains, ka_ports = ports,
               ka_status = (if active then ''active'' else ''paused''), ka_monitor_enabled = active,
               ka_docs_path = [], ka_source = ''uptime-kuma'', ka_business_category = group,
               ka_asset_category = category, ka_asset_score = kuma_score row category,
               ka_why_asset = kuma_why row category, ka_summary = kuma_summary row,
               ka_deployment_type = ''uptime-kuma'', ka_project_name = (if group \<noteq> NO_GROUP then group else []),
               ka_business_name = str_or (kr_name row) [], ka_business_purpose = (utf8_text [0x53EF, 0x7528, 0x6027, 0x76D1, 0x63A7]),
               ka_public_exposed = (domains \<noteq> []), ka_backup_status = ''unknown'',
               ka_tags = [''uptime-kuma'', kind] @ (if category = ''system'' then [''system''] else [])\<rparr>))"

text \<open>\<open>None\<close> for the rows: there is no database at the path.\<close>

definition load_kuma_service_assets :: "(string \<Rightarrow> bool) \<Rightarrow> kuma_row list option \<Rightarrow> kuma_asset list result" where
  "load_kuma_service_assets netloc_ok rows =
     (case rows of
        None \<Rightarrow> Inr []
      | Some rs \<Rightarrow> map_result (kuma_asset_of netloc_ok) (pick_primary_group_rows rs))"

section \<open>Facts\<close>

lemma mset_by_decision:
  "mset (map up_service_id (concat (map (\<lambda>r. case uptime_decision r of
       Inr c \<Rightarrow> [\<lparr>up_service_id = sr_service_id r, up_name = sr_name r, up_monitor_name = m r, up_check = c\<rparr>]
     | Inl _ \<Rightarrow> []) rs)))
   + mset (map us_service_id (concat (map (\<lambda>r. case uptime_decision r of
       Inl reason \<Rightarrow> [\<lparr>us_service_id = sr_service_id r, us_name = sr_name r, us_reason = reason\<rparr>]
     | Inr _ \<Rightarrow> []) rs)))
   = mset (map sr_service_id rs)"
  by (induction rs) (auto split: sum.splits)

definition has_target :: "uptime_check \<Rightarrow> bool" where
  "has_target c =
     (case c of KeywordCheck url keyword \<Rightarrow> url \<noteq> [] \<and> keyword \<noteq> [] | HttpCheck url \<Rightarrow> url \<noteq> [] | _ \<Rightarrow> True)"

lemma uptime_decision_target: "uptime_decision r = Inr c \<Longrightarrow> has_target c"
  by (auto simp: uptime_decision_def has_target_def Let_def https_url_def split: if_splits option.splits list.splits)

section \<open>Properties\<close>

text \<open>The uptime plan accounts for every service: each service of the registry is either given one
  check or skipped with a reason, never both and never lost; the checks come in the order of their
  priority, an HTTP or keyword check has a URL to ask, and nothing that is marked internal is checked.\<close>

theorem uptime_plan_accounts_for_services:
  "let p = build_uptime_plan reg
   in mset (map up_service_id (pl_create p)) + mset (map us_service_id (pl_skip p))
        = mset (map sr_service_id (list_services reg))
      \<and> sorted (map monitor_priority (pl_create p)) \<and> pl_update p = []
      \<and> list_all (\<lambda>i. has_target (up_check i)) (pl_create p)
      \<and> list_all (\<lambda>r. if lower (strip (str_or (dget (sub_dict (sub_dict (sr_monitor r) ''metadata'') ''exposure'') ''scope'') []))
                         = ''internal-only'' then isl (uptime_decision r) else True) (list_services reg)"
proof -
  let ?p = "build_uptime_plan reg"
  have "mset (map up_service_id (pl_create ?p)) + mset (map us_service_id (pl_skip ?p))
      = mset (map sr_service_id (uptime_order reg))"
    using mset_by_decision [of "\<lambda>r. sr_name r @ '' ('' @ sr_node r @ '')''" "uptime_order reg"]
    by (simp add: build_uptime_plan_def Let_def)
  moreover have "mset (map sr_service_id (uptime_order reg)) = mset (map sr_service_id (list_services reg))"
    by (simp add: uptime_order_def)
  moreover have "list_all (\<lambda>i. has_target (up_check i)) (pl_create ?p)"
    by (auto simp: build_uptime_plan_def list_all_iff Let_def dest: uptime_decision_target [OF sym] split: sum.splits)
  moreover have "sorted (map monitor_priority (pl_create ?p))" "pl_update ?p = []"
    by (simp_all add: build_uptime_plan_def Let_def)
  moreover have "list_all (\<lambda>r. if lower (strip (str_or (dget (sub_dict (sub_dict (sr_monitor r) ''metadata'') ''exposure'') ''scope'') []))
      = ''internal-only'' then isl (uptime_decision r) else True) (list_services reg)"
    by (simp add: list_all_iff uptime_decision_def Let_def)
  ultimately show ?thesis by (simp add: Let_def)
qed

end
