(* ===== verification/WebConsole.thy ===== *)
theory WebConsole imports Sessions ApiRuns Uptime WebText begin

text \<open>
  The web console (\<open>web_console.py\<close>): the risk it gives a command, the tasks, component runs, restores and
  decisions its forms start, the access to documentation files, and the pages it renders.  All of its
  routes sit behind \<open>require_session\<close>.  Environment and directories are arguments; the Markdown renderer is not modelled.
\<close>

section \<open>Redaction and risk\<close>

definition SECRET_KEYS :: "string list" where
  "SECRET_KEYS = [''token'', ''password'', ''secret'', ''api_key'', ''authorization'', ''private_key'', ''cookie'', ''session'']"

definition LOW_RISK_COMMANDS :: "string list" where
  "LOW_RISK_COMMANDS = [''uptime'', ''df -h'', ''hmn health probe'']"

definition redact :: "json \<Rightarrow> json" where
  "redact v = redact_json (\<lambda>k. lower k \<in> set SECRET_KEYS) id v"

definition redact_dict :: "dict \<Rightarrow> dict" where
  "redact_dict d = (case redact (JObj d) of JObj d' \<Rightarrow> d' | _ \<Rightarrow> [])"

definition risk_for_command :: "string \<Rightarrow> string" where
  "risk_for_command command =
     (let stripped = join_with '' '' (split_ws (strip command))
      in if stripped \<in> set LOW_RISK_COMMANDS \<or> startswith stripped ''systemctl status '' then ''low'' else ''high'')"

section \<open>Starting tasks\<close>

record console_task_request =
  cq_node_id :: string
  cq_command :: string
  cq_created_by :: string
  cq_executor :: string

record console_task_response =
  cp_task_id :: "string option"
  cp_approval_id :: "string option"
  cp_status :: string
  cp_risk :: string

definition console_task_details :: "console_task_request \<Rightarrow> dict" where
  "console_task_details q =
     [(''node_id'', JStr (cq_node_id q)), (''command'', JStr (cq_command q)), (''created_by'', JStr (cq_created_by q)),
      (''executor'', JStr (cq_executor q)), (''task_name'', JStr (''Console task: '' @ cq_command q)),
      (''task_description'', JStr (''Run command '' @ cq_command q @ '' on node '' @ cq_node_id q))]"

definition create_console_task ::
  "console_task_request \<Rightarrow> string \<Rightarrow> (nat \<Rightarrow> time) \<Rightarrow> store \<Rightarrow> console_task_response http \<times> store" where
  "create_console_task q uid clk s =
     (if (case load_node s (cq_node_id q) of None \<Rightarrow> True | Some n \<Rightarrow> nd_status n \<noteq> ''managed'')
      then (refuse 404 ''managed node not found'', s)
      else case task_dispatch_block_reason (cq_node_id q) s of
        Some dispatch_block_reason \<Rightarrow> (refuse 409 dispatch_block_reason, s)
      | None \<Rightarrow>
          let risk = risk_for_command (cq_command q)
          in if risk = ''low''
             then let (t, s') = create_task (cq_node_id q) (cq_command q) risk (cq_created_by q) (cq_executor q) uid clk s
                  in (Answer \<lparr>cp_task_id = Some (tk_task_id t), cp_approval_id = None, cp_status = tk_status t,
                              cp_risk = tk_risk t\<rparr>, s')
             else let (a, s') = create_approval_request ''task'' ''console_task_request'' ''task.run'' risk
                                  (cq_created_by q) (console_task_details q) uid clk s
                  in (Answer \<lparr>cp_task_id = None, cp_approval_id = Some (ap_approval_id a),
                              cp_status = ''pending_approval'', cp_risk = risk\<rparr>, s'))"

text \<open>The status of the API answer, and the page the form continues with.\<close>

definition console_task_create :: "console_task_response \<Rightarrow> int" where
  "console_task_create r = (case cp_approval_id r of Some (_ # _) \<Rightarrow> 202 | _ \<Rightarrow> 200)"

definition task_create_form ::
  "string \<Rightarrow> string \<Rightarrow> string \<Rightarrow> string \<Rightarrow> (nat \<Rightarrow> time) \<Rightarrow> store \<Rightarrow> redirect http \<times> store" where
  "task_create_form node_id command created_by uid clk s =
     (case create_console_task \<lparr>cq_node_id = node_id, cq_command = command, cq_created_by = created_by,
                                cq_executor = ''worker''\<rparr> uid clk s of
        (Refused code d, s') \<Rightarrow> (Refused code d, s')
      | (Crashed e, s') \<Rightarrow> (Crashed e, s')
      | (Answer r, s') \<Rightarrow>
          (Answer \<lparr>rd_target = (case cp_task_id r of Some (c # t) \<Rightarrow> ''/tasks/'' @ c # t | _ \<Rightarrow> ''/approvals''),
                   rd_cookie = None\<rparr>, s'))"

section \<open>Deciding\<close>

text \<open>
  The resolution already carries an approved request out; the handler then asks for the dispatch again.  The
  resolution draws \<open>uid 0\<close> and reads the clock below \<open>clk 5\<close>, as for the API.
\<close>

definition console_decision ::
  "string \<Rightarrow> string \<Rightarrow> string \<Rightarrow> (nat \<Rightarrow> string) \<Rightarrow> (nat \<Rightarrow> time) \<Rightarrow> store \<Rightarrow> redirect http \<times> store" where
  "console_decision approval_id decision decided_by uid clk s =
     (case load_approval_request s approval_id of
        None \<Rightarrow> (refuse 404 ''approval not found'', s)
      | Some existing \<Rightarrow>
          if ap_status existing \<noteq> ''pending'' then (refuse 409 (''approval is '' @ ap_status existing), s)
          else case resolve_approval_request approval_id decision decided_by (uid 0) clk s of
            (Inl e, s1) \<Rightarrow> (Crashed e, s1)
          | (Inr None, s1) \<Rightarrow> (Answer \<lparr>rd_target = ''/approvals'', rd_cookie = None\<rparr>, s1)
          | (Inr (Some a), s1) \<Rightarrow>
              (case (if decision = ''approved'' then carry_out_task a (uid 1) (\<lambda>k. clk (k + 5)) s1
                     else (Carried JNull, s1)) of
                 (Escaped e, s2) \<Rightarrow> (Crashed e, s2)
               | (TaskMissing, s2) \<Rightarrow> (refuse 422 ''approval cannot be dispatched'', s2)
               | (_, s2) \<Rightarrow>
                   (Answer \<lparr>rd_target = ''/approvals'', rd_cookie = None\<rparr>,
                    if decision = ''approved'' then snd (carry_out_component a (\<lambda>k. clk (k + 8)) s2) else s2)))"

section \<open>Components, restores, plans\<close>

record component_action_request =
  ca_node_id :: string
  ca_action :: string
  ca_config :: dict
  ca_created_by :: string

definition console_component_plan :: "string \<Rightarrow> component_action_request \<Rightarrow> dict" where
  "console_component_plan component_id q =
     [(''component_id'', JStr component_id), (''node_id'', JStr (ca_node_id q)), (''action'', JStr (ca_action q)),
      (''dry_run'', JBool True), (''approval_required'', JBool (ca_action q \<in> {''apply'', ''uninstall''})),
      (''config'', redact (JObj (ca_config q)))]"

record console_run_response =
  rr_run_id :: string
  rr_status :: string
  rr_approval_id :: "string option"

definition console_component_run ::
  "string \<Rightarrow> component_action_request \<Rightarrow> (nat \<Rightarrow> string) \<Rightarrow> (nat \<Rightarrow> time) \<Rightarrow> store
    \<Rightarrow> console_run_response http \<times> store" where
  "console_component_run component_id q uid clk s =
     (let plan = console_component_plan component_id q;
          risk = (if truthy (dget plan ''approval_required'') then ''high'' else ''low'')
      in case record_component_run component_id (ca_node_id q) (ca_action q) risk
             (if risk \<noteq> ''low'' then ''pending_approval'' else ''planned'') plan [] (ca_created_by q) (uid 0) clk s of
           (Inl e, s1) \<Rightarrow> (Crashed e, s1)
         | (Inr r, s1) \<Rightarrow>
             if risk = ''low''
             then (Answer \<lparr>rr_run_id = cr_run_id r, rr_status = cr_status r, rr_approval_id = None\<rparr>, s1)
             else let (a, s2) = create_approval_request ''component_run'' (cr_run_id r) (''component.'' @ ca_action q) risk
                        (ca_created_by q)
                        [(''run_id'', JStr (cr_run_id r)), (''component_id'', JStr component_id),
                         (''node_id'', JStr (ca_node_id q)), (''action'', JStr (ca_action q)), (''risk'', JStr risk),
                         (''config'', JObj (ca_config q))] (uid 1) (\<lambda>k. clk (k + 2)) s1
                  in (Answer \<lparr>rr_run_id = cr_run_id r, rr_status = ''pending_approval'',
                              rr_approval_id = Some (ap_approval_id a)\<rparr>, s2))"

definition console_restore_run ::
  "string \<Rightarrow> string \<Rightarrow> string \<Rightarrow> string \<Rightarrow> (nat \<Rightarrow> time) \<Rightarrow> store \<Rightarrow> dict \<times> store" where
  "console_restore_run node_id backup_id created_by uid clk s =
     (let (a, s') = create_approval_request ''restore'' backup_id ''restore.run'' ''critical'' created_by
                      [(''node_id'', JStr node_id), (''backup_id'', JStr backup_id)] uid clk s
      in ([(''status'', JStr ''pending_approval''), (''approval_id'', JStr (ap_approval_id a))], s'))"

definition network_acl_plan :: "string \<Rightarrow> dict" where
  "network_acl_plan proposed_acl =
     [(''approval_required'', JBool True), (''risk'', JStr ''critical''), (''diff'', JStr proposed_acl), (''dry_run'', JBool True)]"

definition backup_plan :: "string \<Rightarrow> string \<Rightarrow> dict" where
  "backup_plan node_id target =
     [(''node_id'', JStr node_id), (''target'', JStr target), (''dry_run'', JBool True), (''approval_required'', JBool False),
      (''steps'', JList [JStr ''scan'', JStr ''archive'', JStr ''checksum''])]"

section \<open>Documentation files\<close>

text \<open>\<open>resolve\<close> makes a path absolute and follows links, \<open>is_file\<close> looks at the disk.\<close>

definition posix_suffix :: "string \<Rightarrow> string" where
  "posix_suffix p =
     (case rev (posix_parts p) of
        [] \<Rightarrow> []
      | name # _ \<Rightarrow>
          (case rsplit_once CHR ''.'' name of
             None \<Rightarrow> []
           | Some (stem, ext) \<Rightarrow> if stem = [] \<or> ext = [] then [] else CHR ''.'' # ext))"

definition DOC_SUFFIXES :: "string list" where
  "DOC_SUFFIXES = [''.md'', ''.txt'', ''.json'', ''.yaml'', ''.yml'', ''.log'']"

definition docs_file :: "(string \<Rightarrow> string) \<Rightarrow> (string \<Rightarrow> bool) \<Rightarrow> string \<Rightarrow> string \<Rightarrow> string http" where
  "docs_file resolve is_file docs_base path =
     (let candidate = resolve (posix_join docs_base path)
      in if \<not> is_relative_to candidate docs_base then refuse 400 ''invalid docs path''
         else if \<not> is_file candidate then refuse 404 ''docs file not found''
         else if lower (posix_suffix candidate) \<notin> set DOC_SUFFIXES then refuse 400 ''unsupported docs file''
         else Answer candidate)"

section \<open>Facts\<close>

lemma create_task_effect:
  "load_task (snd (create_task node_id command risk who executor uid clk s)) k
    = (if k = ''task_'' @ uid then Some (new_task k node_id command risk who executor (clk 0)) else load_task s k)"
  by (simp add: create_task_def Let_def load_task_save new_task_def)

lemma request_effect:
  "tasks (snd (create_approval_request st sid act risk who d uid clk s)) = tasks s"
  "load_approval_request (snd (create_approval_request st sid act risk who d uid clk s)) (''appr_'' @ uid)
    = Some (ap_reread \<lparr>ap_approval_id = ''appr_'' @ uid, ap_subject_type = st, ap_subject_id = sid,
               ap_action = act, ap_risk = risk, ap_status = ''pending'', ap_requested_by = who,
               ap_details = d, ap_created_at = clk 0, ap_decided_by = [], ap_decided_at = None\<rparr>)"
  by (simp_all add: create_approval_request_def Let_def load_approval_save)

lemma risk_cases: "risk_for_command c = ''low'' \<or> risk_for_command c = ''high''"
  by (simp add: risk_for_command_def Let_def)

section \<open>Properties\<close>

text \<open>C18: The console creates a task at once only for a command it takes to be of low risk and a managed node that
  accepts tasks; the task is pending and carries exactly that command.  Any other command only files a request
  of high risk that asks for the same command on the same node and leaves every task alone, and a refusal changes nothing.\<close>

theorem console_task_is_gated:
  "case create_console_task q uid clk s of
     (Answer r, s') \<Rightarrow>
       node_managed s (cq_node_id q) \<and> task_dispatch_block_reason (cq_node_id q) s = None
       \<and> cp_risk r = risk_for_command (cq_command q)
       \<and> (if risk_for_command (cq_command q) = ''low''
          then cp_task_id r = Some (''task_'' @ uid) \<and> cp_approval_id r = None
            \<and> (\<forall>k. load_task s' k
                  = (if k = ''task_'' @ uid
                     then Some (new_task k (cq_node_id q) (cq_command q) ''low'' (cq_created_by q) (cq_executor q) (clk 0))
                     else load_task s k))
          else cp_task_id r = None \<and> cp_approval_id r = Some (''appr_'' @ uid) \<and> tasks s' = tasks s
            \<and> (\<exists>a. load_approval_request s' (''appr_'' @ uid) = Some a \<and> ap_status a = ''pending''
                  \<and> ap_risk a = ''high'' \<and> ap_action a = ''task.run''
                  \<and> dget (ap_details a) ''command'' = JStr (cq_command q)
                  \<and> dget (ap_details a) ''node_id'' = JStr (cq_node_id q)))
   | (_, s') \<Rightarrow> s' = s"
proof (cases "(\<exists>n. load_node s (cq_node_id q) = Some n \<and> nd_status n = ''managed'')
    \<and> task_dispatch_block_reason (cq_node_id q) s = None")
  case False
  then show ?thesis by (auto simp: create_console_task_def split: option.splits)
next
  case True
  then obtain n where n: "load_node s (cq_node_id q) = Some n" "nd_status n = ''managed''"
    and b: "task_dispatch_block_reason (cq_node_id q) s = None" by auto
  show ?thesis
  proof (cases "risk_for_command (cq_command q) = ''low''")
    case low: True
    have c: "fst (create_task (cq_node_id q) (cq_command q) ''low'' (cq_created_by q) (cq_executor q) uid clk s)
        = new_task (''task_'' @ uid) (cq_node_id q) (cq_command q) ''low'' (cq_created_by q) (cq_executor q) (clk 0)"
      by (simp add: create_task_def Let_def)
    show ?thesis
      using n b low c create_task_effect [of "cq_node_id q" "cq_command q" "''low''" "cq_created_by q" "cq_executor q" uid clk s]
      by (auto simp: create_console_task_def Let_def node_managed_def new_task_def split: prod.splits)
  next
    case False
    with risk_cases have high: "risk_for_command (cq_command q) = ''high''" by blast
    have d0: "dget (console_task_details q) ''command'' = JStr (cq_command q)"
      "dget (console_task_details q) ''node_id'' = JStr (cq_node_id q)"
      by (simp_all add: console_task_details_def dget_def)
    then have d: "dget (dict_sort (console_task_details q)) ''command'' = JStr (cq_command q)"
      "dget (dict_sort (console_task_details q)) ''node_id'' = JStr (cq_node_id q)"
      by (simp_all add: dget_dict_sort)
    show ?thesis
      using n b high d
        request_effect [of "''task''" "''console_task_request''" "''task.run''" "''high''" "cq_created_by q"
          "console_task_details q" uid clk s]
      by (auto simp: create_console_task_def Let_def node_managed_def ap_reread_def create_approval_request_def)
  qed
qed

lemma systemctl_words_low:
  assumes "split_ws (strip command) = ''systemctl'' # ''status'' # w # ws"
  shows "risk_for_command command = ''low''"
proof -
  have "join_with '' '' (''systemctl'' # ''status'' # w # ws) = ''systemctl status '' @ join_with '' '' (w # ws)"
    by simp
  then show ?thesis unfolding risk_for_command_def Let_def assms by (simp only: startswith_append simp_thms if_True)
qed

text \<open>C21: The console calls any command line of low risk that starts with the words \<open>systemctl status\<close> and another word,
  whatever follows: appended after a semicolon, a reboot is queued on a managed node without any approval.\<close>

theorem appended_command_needs_no_approval:
  assumes "split_ws (strip (cq_command q)) = ''systemctl'' # ''status'' # w # ws"
    and "node_managed s (cq_node_id q)" and "task_dispatch_block_reason (cq_node_id q) s = None"
  shows "\<exists>r. fst (create_console_task q uid clk s) = Answer r \<and> cp_approval_id r = None
    \<and> load_task (snd (create_console_task q uid clk s)) (''task_'' @ uid)
        = Some (new_task (''task_'' @ uid) (cq_node_id q) (cq_command q) ''low'' (cq_created_by q) (cq_executor q) (clk 0))"
proof -
  from assms(2) obtain n where n: "load_node s (cq_node_id q) = Some n" "nd_status n = ''managed''"
    by (auto simp: node_managed_def)
  have "create_console_task q uid clk s =
      (let (t, s') = create_task (cq_node_id q) (cq_command q) ''low'' (cq_created_by q) (cq_executor q) uid clk s
       in (Answer \<lparr>cp_task_id = Some (tk_task_id t), cp_approval_id = None, cp_status = tk_status t, cp_risk = tk_risk t\<rparr>, s'))"
    using n assms(3) systemctl_words_low [OF assms(1)] by (simp add: create_console_task_def Let_def)
  then show ?thesis
    using create_task_effect [of "cq_node_id q" "cq_command q" "''low''" "cq_created_by q" "cq_executor q" uid clk s]
    by (simp add: Let_def split: prod.splits)
qed

definition sample_console_request :: console_task_request where
  "sample_console_request = \<lparr>cq_node_id = ''n1'', cq_command = ''systemctl status x; reboot'', cq_created_by = ''hmn-web'',
     cq_executor = ''worker''\<rparr>"

lemma appended_command_needs_no_approval_witness:
  "\<exists>r. fst (create_console_task sample_console_request ''u'' (\<lambda>_. 9) sample_queue) = Answer r \<and> cp_approval_id r = None"
proof -
  have c: "split_ws (strip (cq_command sample_console_request)) = ''systemctl'' # ''status'' # ''x;'' # [''reboot'']"
    by code_simp
  have "task_dispatch_block_reason (cq_node_id sample_console_request) sample_queue = None" by code_simp
  moreover have "node_managed sample_queue (cq_node_id sample_console_request)"
    using sample_queue_managed by (simp add: sample_console_request_def)
  ultimately show ?thesis using appended_command_needs_no_approval [OF c, of sample_queue "''u''" "\<lambda>_. 9"] by blast
qed

lemma resolve_subject:
  assumes "load_approval_request s k = Some e" and "ap_status e = ''pending''"
    and "resolve_approval_request k decision who uid clk s = (Inr r, s1)"
  shows "\<exists>a. r = Some a \<and> ap_subject_type a = ap_subject_type e \<and> ap_action a = ap_action e"
  using assms by (auto simp: resolve_approval_request_def decide_loaded_pending decided_def Let_def split: if_splits prod.splits sum.splits)

text \<open>C19: A decision taken on a page of the console changes the store exactly as the same decision through the API,
  and refuses or crashes when the request is unknown, already decided or cannot be dispatched.  The one
  exception is a network ACL: the console marks it approved, and neither applies nor ever will apply it.\<close>

theorem console_and_api_decide_alike:
  "let (r, s') = console_decision k decision who uid clk s;
       (r2, fs2, s2) = api_resolve_approval sha256 expand shell k decision who uid clk (fs, s)
   in if \<exists>a. load_approval_request s k = Some a \<and> ap_subject_type a = ''network_acl'' \<and> ap_action a = ''network.acl.apply''
      then s' = (if \<exists>a. load_approval_request s k = Some a \<and> ap_status a = ''pending''
                 then snd (resolve_approval_request k decision who (uid 0) clk s) else s)
      else s' = s2 \<and> fs2 = fs
        \<and> (case r of
             Refused code d \<Rightarrow> r2 = Refused code d
           | Crashed e \<Rightarrow> r2 = Crashed e
           | Answer _ \<Rightarrow> (\<exists>x. r2 = Answer x) \<or> r2 = refuse 422 ''approval cannot be dispatched'')"
proof (cases "\<exists>e. load_approval_request s k = Some e \<and> ap_status e = ''pending''")
  case False
  then show ?thesis
    by (auto simp: console_decision_def api_resolve_approval_def Let_def split: option.splits)
next
  case True
  then obtain e where e: "load_approval_request s k = Some e" "ap_status e = ''pending''" by blast
  obtain r s1 where res: "resolve_approval_request k decision who (uid 0) clk s = (r, s1)" by fastforce
  show ?thesis
  proof (cases r)
    case (Inl x)
    with e res show ?thesis by (simp add: console_decision_def api_resolve_approval_def Let_def)
  next
    case (Inr o1)
    with resolve_subject [OF e] res obtain a where a: "r = Inr (Some a)" "ap_subject_type a = ap_subject_type e"
      "ap_action a = ap_action e" by blast
    show ?thesis
    proof (cases "ap_subject_type e = ''network_acl'' \<and> ap_action e = ''network.acl.apply''")
      case True
      with e res a show ?thesis
        by (simp add: console_decision_def api_resolve_approval_def Let_def carry_out_task_def carry_out_component_def
            split: prod.splits)
    next
      case False
      obtain c s2 where c: "carry_out_task a (uid (Suc 0)) (\<lambda>k. clk (k + 5)) s1 = (c, s2)" by fastforce
      obtain b s3 where d: "carry_out_component a (\<lambda>k. clk (k + 8)) s2 = (b, s3)" by fastforce
      from c have "(\<exists>x. c = Escaped x) \<or> c = TaskMissing \<or> (\<exists>j. c = Carried j)"
        by (auto simp: carry_out_task_def split: if_splits prod.splits sum.splits option.splits)
      with False e res a c d show ?thesis
        by (cases b)
          (auto simp: console_decision_def api_resolve_approval_def carry_out_def decided_answer_def Let_def add.assoc)
    qed
  qed
qed

end
