(* ===== verification/WebPages.thy ===== *)
theory WebPages imports WebConsole begin

text \<open>
  The pages of the web console (\<open>web_console.py\<close>): every page is the navigation around a body, and every
  value that comes from the store, from the Kuma database or from the request goes through \<open>escape\<close> or \<open>quote\<close>.  The one
  exception is the view of a document, which shows what \<open>markdown\<close> makes of its text; that renderer is a parameter.
\<close>

section \<open>Frame and cards\<close>

definition nav :: string where
  "nav = ([CHR 0x0A] @ ''    <nav class='' @ [CHR 0x22] @ ''nav'' @ [CHR 0x22] @ ''>'' @ [CHR 0x0A]
       @ ''      <a href='' @ [CHR 0x22] @ ''/'' @ [CHR 0x22] @ ''>'' @ utf8_text [0x603B, 0x89C8]
       @ ''</a><a href='' @ [CHR 0x22] @ ''/nodes'' @ [CHR 0x22] @ ''>'' @ utf8_text [0x8282, 0x70B9]
       @ ''</a><a href='' @ [CHR 0x22] @ ''/services'' @ [CHR 0x22] @ ''>'' @ utf8_text [0x670D, 0x52A1]
       @ ''</a>'' @ [CHR 0x0A] @ ''      <a href='' @ [CHR 0x22] @ ''/tasks'' @ [CHR 0x22] @ ''>''
       @ utf8_text [0x4EFB, 0x52A1] @ ''</a><a href='' @ [CHR 0x22] @ ''/approvals'' @ [CHR 0x22] @ ''>''
       @ utf8_text [0x5BA1, 0x6279] @ ''</a><a href='' @ [CHR 0x22] @ ''/docs'' @ [CHR 0x22] @ ''>''
       @ utf8_text [0x6587, 0x6863] @ ''</a>'' @ [CHR 0x0A] @ ''      <a href='' @ [CHR 0x22] @ ''/audit''
       @ [CHR 0x22] @ ''>'' @ utf8_text [0x5BA1, 0x8BA1] @ ''</a><a href='' @ [CHR 0x22] @ ''/components''
       @ [CHR 0x22] @ ''>'' @ utf8_text [0x7EC4, 0x4EF6] @ ''</a><a href='' @ [CHR 0x22] @ ''/network''
       @ [CHR 0x22] @ ''>'' @ utf8_text [0x7F51, 0x7EDC] @ ''</a><a href='' @ [CHR 0x22] @ ''/backups''
       @ [CHR 0x22] @ ''>'' @ utf8_text [0x5907, 0x4EFD] @ ''</a>'' @ [CHR 0x0A] @ ''    </nav>'' @ [CHR 0x0A]
       @ ''    '')"

definition PAGE_STYLE :: string where
  "PAGE_STYLE =
      ''<style>body{font-family:-apple-system,BlinkMacSystemFont,'Segoe UI',sans-serif;margin:0;''
    @ ''background:#f6f7f9;color:#111}main{max-width:980px;margin:auto;padding:16px}''
    @ ''.nav{display:flex;gap:8px;flex-wrap:wrap;margin:0 0 16px}.nav a,.btn{background:#111;''
    @ ''color:white;padding:8px 11px;border-radius:12px;text-decoration:none;border:0}''
    @ ''.card{background:white;border-radius:18px;padding:14px;margin:10px 0;''
    @ ''box-shadow:0 2px 12px #0001}.muted{color:#666}.badge{display:inline-block;''
    @ ''border-radius:999px;padding:2px 8px;background:#eef}input,select{padding:8px;''
    @ ''border-radius:10px;border:1px solid #ccc;max-width:100%}pre{white-space:pre-wrap;''
    @ ''background:#111;color:#eee;padding:12px;border-radius:12px;overflow:auto}</style>''"

definition html_page :: "string \<Rightarrow> string \<Rightarrow> string" where
  "html_page title body =
     (''<!doctype html><html><head><meta charset='utf-8'><meta name='viewport' content='width=device-width, initial-scale=1'><title>''
       @ html_escape title @ ''</title>'' @ PAGE_STYLE @ ''</head><body><main>'' @ nav @ body
       @ ''</main></body></html>'')"

definition task_card :: "task \<Rightarrow> string" where
  "task_card t =
     (''<div class='card'><b><a href='/tasks/'' @ html_escape (tk_task_id t) @ '''>''
       @ html_escape (tk_command t) @ ''</a></b> <span class='badge'>'' @ html_escape (tk_status t)
       @ ''</span> <span class='badge'>'' @ html_escape (tk_risk t) @ ''</span><div class='muted'>''
       @ html_escape (tk_node_id t) @ '' '' @ utf8_text [0x00B7] @ '' '' @ html_escape (tk_created_by t)
       @ ''</div></div>'')"

definition approval_summary :: "dict \<Rightarrow> string" where
  "approval_summary details =
     (if dget details ''task_name'' = JNull then []
      else (''<div><b>'' @ html_escape (py_str (dget details ''task_name'')) @ ''</b></div>''))
     @ (if dget details ''task_description'' = JNull then []
        else (''<div class='muted'>'' @ html_escape (py_str (dget details ''task_description'')) @ ''</div>''))"

definition approval_buttons :: "approval_request \<Rightarrow> string" where
  "approval_buttons a =
     (if ap_status a \<noteq> ''pending'' then []
      else (''<form method='post' action='/approvals/'' @ html_escape (ap_approval_id a)
       @ ''/approve' style='display:inline'><input name='decided_by' value='hmn-web' hidden><button class='btn'>''
       @ utf8_text [0x5141, 0x8BB8] @ ''</button></form> <form method='post' action='/approvals/''
       @ html_escape (ap_approval_id a)
       @ ''/reject' style='display:inline'><input name='decided_by' value='hmn-web' hidden><button class='btn'>''
       @ utf8_text [0x53D6, 0x6D88] @ ''</button></form>''))"

definition approval_card_html :: "approval_request \<Rightarrow> string" where
  "approval_card_html a =
     (''<div class='card'><b>'' @ html_escape (ap_action a) @ ''</b> <span class='badge'>''
       @ html_escape (ap_risk a) @ ''</span> <span class='badge'>'' @ html_escape (ap_status a)
       @ ''</span><div class='muted'>'' @ html_escape (ap_approval_id a) @ '' '' @ utf8_text [0x00B7] @ '' ''
       @ html_escape (ap_subject_type a) @ '':'' @ html_escape (ap_subject_id a) @ ''</div>''
       @ approval_summary (ap_details a) @ ''<pre>''
       @ html_escape (json_dumps (json_sort (redact (JObj (ap_details a))))) @ ''</pre>'' @ approval_buttons a
       @ ''</div>'')"

section \<open>Services and machines\<close>

definition kuma_service_payload :: "kuma_asset \<Rightarrow> dict" where
  "kuma_service_payload a =
     [(''service_id'', JStr (ka_service_id a)), (''name'', JStr (ka_name a)), (''node_id'', JStr (ka_node_id a)),
      (''kind'', JStr (ka_kind a)), (''domains'', JList (map JStr (ka_domains a))),
      (''ports'', JList (map JInt (ka_ports a))), (''status'', JStr (ka_status a)),
      (''monitor_enabled'', JBool (ka_monitor_enabled a)), (''docs_path'', JStr (ka_docs_path a)),
      (''source'', JStr (ka_source a)), (''business_category'', JStr (ka_business_category a)),
      (''asset_class'', JStr (if ka_asset_category a = ''main'' then ''business'' else ka_asset_category a)),
      (''asset_category'', JStr (ka_asset_category a)), (''asset_score'', JInt (ka_asset_score a)),
      (''why_asset'', JList (map JStr (ka_why_asset a))), (''summary'', JStr (ka_summary a))]"

definition kuma_service_payloads :: "(string \<Rightarrow> bool) \<Rightarrow> kuma_row list option \<Rightarrow> dict list result" where
  "kuma_service_payloads netloc_ok rows =
     bind_result (load_kuma_service_assets netloc_ok rows) (\<lambda>assets. Inr (map kuma_service_payload assets))"

text \<open>The payloads always hold a list under \<open>domains\<close>; its first entry names the machine.\<close>

definition service_machine_key :: "dict \<Rightarrow> string" where
  "service_machine_key service =
     (case dget service ''domains'' of
        JList (d # _) \<Rightarrow> py_str d
      | _ \<Rightarrow> py_str (py_or (dget service ''node_id'') (py_or (dget service ''name'')
               (py_or (dget service ''service_id'') (JStr ''unknown'')))))"

record machine =
  mc_machine_id :: string
  mc_service_count :: nat
  mc_business_groups :: "string list"
  mc_statuses :: "string list"
  mc_services :: "dict list"

definition machine_of :: "dict list \<Rightarrow> string \<Rightarrow> machine" where
  "machine_of svcs key =
     (let own = filter (\<lambda>s. service_machine_key s = key) svcs
      in \<lparr>mc_machine_id = key, mc_service_count = length own,
          mc_business_groups = sort (remdups (map (\<lambda>s. str_or (dget s ''business_category'') (utf8_text [0x672A, 0x5206, 0x7C7B])) own)),
          mc_statuses = sort (remdups (map (\<lambda>s. str_or (dget s ''status'') ''unknown'') own)),
          mc_services = sort_key (\<lambda>s. py_str (py_or (dget s ''name'') (py_or (dget s ''service_id'') (JStr [])))) own\<rparr>)"

definition group_services_by_machine :: "dict list \<Rightarrow> machine list" where
  "group_services_by_machine svcs =
     map (machine_of svcs) (sort (remdups (map service_machine_key svcs)))"

definition service_card_html :: "dict \<Rightarrow> string" where
  "service_card_html service =
     (let text = (\<lambda>k. html_escape (py_str (dget service k))); machine_key = service_machine_key service
      in (''<div class='card'><b><a href='/services/'' @ url_quote (py_str (dget service ''service_id''))
       @ '''>'' @ text ''name'' @ ''</a></b> <span class='badge'>'' @ text ''status''
       @ ''</span><div class='muted'>'' @ text ''summary'' @ ''</div><div class='muted'>''
       @ utf8_text [0x673A, 0x5668, 0xFF1A] @ ''<a href='/services/nodes/'' @ url_quote machine_key @ '''>''
       @ html_escape machine_key @ ''</a> '' @ utf8_text [0x00B7] @ '' '' @ utf8_text [0x5206, 0x7EC4, 0xFF1A]
       @ text ''business_category'' @ ''</div></div>''))"

definition machine_card :: "machine \<Rightarrow> string" where
  "machine_card m =
     (''<div class='card'><b><a href='/services/nodes/'' @ url_quote (mc_machine_id m) @ '''>''
       @ html_escape (mc_machine_id m) @ ''</a></b> <span class='badge'>'' @ utf8_text [0x670D, 0x52A1] @ '' ''
       @ show_nat (mc_service_count m) @ ''</span>'')
     @ concat (map (\<lambda>item. (''<div class='muted'>'' @ utf8_text [0x00B7] @ '' '' @ html_escape (py_str (dget item ''name''))
       @ ''</div>'')) (take 3 (mc_services m)))
     @ (''</div>'')"

definition system_card :: "dict \<Rightarrow> string" where
  "system_card item =
     (let text = (\<lambda>k. html_escape (py_str (dget item k)))
      in (''<div class='card'><b>'' @ text ''name'' @ ''</b> <span class='badge'>'' @ text ''status''
       @ ''</span><div class='muted'>'' @ text ''summary'' @ ''</div></div>''))"

definition of_class :: "string \<Rightarrow> dict list \<Rightarrow> dict list" where
  "of_class asset_class svcs = filter (\<lambda>s. dget s ''asset_class'' = JStr asset_class) svcs"

definition machine_json :: "machine \<Rightarrow> json" where
  "machine_json m = JObj [(''machine_id'', JStr (mc_machine_id m)), (''service_count'', JInt (int (mc_service_count m))),
     (''business_groups'', JList (map JStr (mc_business_groups m))), (''statuses'', JList (map JStr (mc_statuses m))),
     (''services'', JList (map JObj (mc_services m)))]"

definition services_payload :: "dict list \<Rightarrow> dict" where
  "services_payload svcs =
     (let machines = group_services_by_machine (of_class ''business'' svcs);
          sheet = first_row svcs;
          create_dialog =
            [(''title'', JStr (utf8_text [0x65B0, 0x589E, 0x670D, 0x52A1, 0x8D44, 0x4EA7])),
             (''defaults'', JObj [(''source'', JStr ''manual''), (''status'', JStr ''active''),
                (''business_category'', case sheet of Some v \<Rightarrow> dget v ''business_category'' | None \<Rightarrow> JStr (utf8_text [0x672A, 0x5206, 0x7C7B])),
                (''asset_class'', JStr ''business'')])]
      in [(''services'', JList (map JObj svcs)), (''machine_groups'', JList (map machine_json machines)),
          (''business_groups'', JList []), (''pending_discoveries'', JList []),
          (''system_assets'', JList (map JObj (of_class ''system'' svcs))),
          (''sheet'', JObj (case sheet of Some v \<Rightarrow> v | None \<Rightarrow> [])), (''create_dialog'', JObj create_dialog)])"

definition services_body :: "dict list \<Rightarrow> string" where
  "services_body svcs =
     (let machines = group_services_by_machine (of_class ''business'' svcs);
          system_assets = of_class ''system'' svcs
      in (''<h1>'' @ utf8_text [0x670D, 0x52A1, 0x8D44, 0x4EA7] @ ''</h1><div class='card'>''
       @ utf8_text [0x603B, 0x6570] @ '' '' @ show_nat (length svcs) @ '' '' @ utf8_text [0x00B7] @ '' ''
       @ utf8_text [0x673A, 0x5668] @ '' '' @ show_nat (length machines) @ '' '' @ utf8_text [0x00B7] @ '' ''
       @ utf8_text [0x7CFB, 0x7EDF, 0x8D44, 0x4EA7] @ '' '' @ show_nat (length system_assets)
       @ ''</div><div data-services-payload='' @ [CHR 0x27]
       @ html_escape (json_dumps (JObj (services_payload svcs))) @ '''></div><section class='card'><h2>''
       @ utf8_text [0x673A, 0x5668, 0x89C6, 0x56FE] @ ''</h2>'' @ concat (map machine_card machines)
       @ ''</section><details class='card' open><summary><b>'' @ utf8_text [0x7CFB, 0x7EDF, 0x8D44, 0x4EA7]
       @ ''</b></summary>'' @ concat (map system_card system_assets) @ ''</details>''))"

definition services_page :: "(string \<Rightarrow> bool) \<Rightarrow> kuma_row list option \<Rightarrow> string result" where
  "services_page netloc_ok rows =
     bind_result (kuma_service_payloads netloc_ok rows)
       (\<lambda>svcs. Inr (html_page (utf8_text [0x670D, 0x52A1, 0x8D44, 0x4EA7]) (services_body svcs)))"

definition services_node_detail ::
  "(string \<Rightarrow> bool) \<Rightarrow> kuma_row list option \<Rightarrow> string \<Rightarrow> string http" where
  "services_node_detail netloc_ok rows machine_id =
     (case kuma_service_payloads netloc_ok rows of
        Inl e \<Rightarrow> Crashed e
      | Inr svcs \<Rightarrow>
          (case List.find (\<lambda>m. mc_machine_id m = machine_id) (group_services_by_machine (of_class ''business'' svcs)) of
             None \<Rightarrow> refuse 404 ''service machine not found''
           | Some m \<Rightarrow>
               Answer (html_page (utf8_text [0x673A, 0x5668, 0x670D, 0x52A1, 0x8BE6, 0x60C5])
                 ((''<h1>'' @ html_escape (mc_machine_id m) @ ''</h1><div class='card'>'' @ utf8_text [0x670D, 0x52A1]
       @ '' '' @ show_nat (mc_service_count m) @ '' '' @ utf8_text [0x00B7] @ '' '' @ utf8_text [0x5206, 0x7EC4]
       @ '' '' @ html_escape (join_with '' / '' (mc_business_groups m))
       @ ''</div><p><a class='btn' href='/services'>''
       @ utf8_text [0x8FD4, 0x56DE, 0x673A, 0x5668, 0x89C6, 0x56FE] @ ''</a></p><div data-services-payload=''
       @ [CHR 0x27]
       @ html_escape (json_dumps (JObj [(''machine'', machine_json m), (''services'', JList (map JObj (mc_services m)))]))
       @ '''></div>'')
                  @ concat (map service_card_html (mc_services m))))))"

text \<open>\<open>str\<close> of a time, which \<open>default=str\<close> writes.\<close>

definition time_str :: "time \<Rightarrow> string" where
  "time_str t = map (\<lambda>c. if c = CHR ''T'' then CHR '' '' else c) (isoformat t)"

definition service_detail ::
  "(string \<Rightarrow> bool) \<Rightarrow> kuma_row list option \<Rightarrow> string \<Rightarrow> string http" where
  "service_detail netloc_ok rows service_id =
     (case kuma_service_payloads netloc_ok rows of
        Inl e \<Rightarrow> Crashed e
      | Inr svcs \<Rightarrow>
          (case List.find (\<lambda>v. dget v ''service_id'' = JStr service_id) svcs of
             None \<Rightarrow> refuse 404 ''service not found''
           | Some v \<Rightarrow>
               Answer (html_page (utf8_text [0x670D, 0x52A1, 0x8BE6, 0x60C5])
                 ((''<h1>'' @ html_escape (py_str (dget v ''name'')) @ ''</h1><div class='card'><pre>''
       @ html_escape (json_indented (redact (JObj v)) 0) @ ''</pre></div>'')
                  @ (if truthy (dget v ''docs_path'')
                     then (''<a class='btn' href='/docs/file/'' @ html_escape (py_str (dget v ''docs_path'')) @ '''>''
       @ utf8_text [0x6253, 0x5F00, 0x6587, 0x6863] @ ''</a>'') else [])))))"

section \<open>Nodes, tasks, approvals, audit\<close>

definition node_line :: "node \<Rightarrow> string" where
  "node_line n =
     (''<div class='card'><a href='/nodes/'' @ html_escape (nd_node_id n) @ '''>''
       @ html_escape (nd_hostname n) @ ''</a> <span class='badge'>'' @ html_escape (nd_status n)
       @ ''</span></div>'')"

definition service_line :: "dict \<Rightarrow> string" where
  "service_line v =
     (let text = (\<lambda>k. html_escape (py_str (dget v k)))
      in (''<div class='card'><a href='/services/'' @ text ''service_id'' @ '''>'' @ text ''name''
       @ ''</a> <span class='muted'>'' @ text ''node_id'' @ ''</span></div>''))"

definition dashboard_body :: "dict list \<Rightarrow> store \<Rightarrow> string" where
  "dashboard_body svcs s =
     (let approvals = take 6 (list_approval_requests ''pending'' s)
      in (''<h1>HMN '' @ utf8_text [0x63A7, 0x5236, 0x53F0] @ ''</h1><div class='card'>''
       @ utf8_text [0x8282, 0x70B9] @ '' '' @ show_nat (length (list_nodes s)) @ '' '' @ utf8_text [0x00B7]
       @ '' '' @ utf8_text [0x670D, 0x52A1] @ '' '' @ show_nat (length svcs) @ '' '' @ utf8_text [0x00B7]
       @ '' '' @ utf8_text [0x5F85, 0x5BA1, 0x6279] @ '' '' @ show_nat (length approvals) @ '' ''
       @ utf8_text [0x00B7] @ '' '' @ utf8_text [0x4EFB, 0x52A1] @ '' '' @ show_nat (length (list_tasks s))
       @ ''</div><h2>'' @ utf8_text [0x8282, 0x70B9] @ ''</h2>''
       @ concat (map node_line (take 6 (list_nodes s))) @ ''<h2>'' @ utf8_text [0x670D, 0x52A1] @ ''</h2>''
       @ concat (map service_line (take 6 svcs)) @ ''<h2>'' @ utf8_text [0x4EFB, 0x52A1] @ ''</h2>''
       @ concat (map task_card (take 6 (list_tasks s))) @ ''<h2>'' @ utf8_text [0x5BA1, 0x6279] @ ''</h2>''
       @ concat (map approval_card_html approvals)))"

definition dashboard ::
  "(string \<Rightarrow> bool) \<Rightarrow> kuma_row list option \<Rightarrow> store \<Rightarrow> string result" where
  "dashboard netloc_ok rows s =
     bind_result (kuma_service_payloads netloc_ok rows)
       (\<lambda>svcs. Inr (html_page (''HMN '' @ utf8_text [0x63A7, 0x5236, 0x53F0]) (dashboard_body svcs s)))"

definition node_card :: "node \<Rightarrow> string" where
  "node_card n =
     (''<div class='card'><b><a href='/nodes/'' @ html_escape (nd_node_id n) @ '''>''
       @ html_escape (nd_hostname n) @ ''</a></b> <span class='badge'>'' @ html_escape (nd_status n)
       @ ''</span><div class='muted'>'' @ html_escape (nd_node_id n) @ '' '' @ utf8_text [0x00B7] @ '' ''
       @ html_escape (join_with '', '' (nd_addresses n)) @ ''</div></div>'')"

definition nodes_page :: "store \<Rightarrow> string" where
  "nodes_page s = html_page (utf8_text [0x8282, 0x70B9]) ((''<h1>'' @ utf8_text [0x8282, 0x70B9] @ ''</h1>'') @ concat (map node_card (list_nodes s)))"

definition node_dict :: "node \<Rightarrow> dict" where
  "node_dict n =
     [(''node_id'', JStr (nd_node_id n)), (''fingerprint'', JStr (nd_fingerprint n)), (''hostname'', JStr (nd_hostname n)),
      (''addresses'', JList (map JStr (nd_addresses n))), (''trust_level'', JStr (nd_trust_level n)),
      (''labels'', JList (map JStr (nd_labels n))), (''status'', JStr (nd_status n)),
      (''permission_bundles'', JList (map JStr (nd_permission_bundles n))), (''ssh_host'', JStr (nd_ssh_host n)),
      (''ssh_user'', JStr (nd_ssh_user n)), (''ssh_port'', JInt (nd_ssh_port n)),
      (''network_provider'', JStr (nd_network_provider n)), (''network_node_id'', JStr (nd_network_node_id n)),
      (''network_ip'', JStr (nd_network_ip n)), (''network_tags'', JList (map JStr (nd_network_tags n))),
      (''network_online'', JBool (nd_network_online n))]"

definition node_detail :: "string \<Rightarrow> store \<Rightarrow> string http" where
  "node_detail node_id s =
     (case load_node s node_id of
        None \<Rightarrow> refuse 404 ''node not found''
      | Some n \<Rightarrow>
          Answer (html_page (utf8_text [0x8282, 0x70B9, 0x8BE6, 0x60C5]) (''<h1>'' @ html_escape (nd_hostname n) @ ''</h1><div class='card'><pre>''
       @ html_escape (json_indented (redact (JObj (node_dict n))) 0)
       @ ''</pre></div><p><a class='btn' href='/tasks/new?node_id='' @ html_escape (nd_node_id n) @ '''>''
       @ utf8_text [0x4E0B, 0x53D1, 0x4EFB, 0x52A1] @ ''</a></p>'')))"

definition tasks_page :: "store \<Rightarrow> string" where
  "tasks_page s =
     (let options = concat (map (\<lambda>n. (''<option value='' @ [CHR 0x27] @ html_escape (nd_node_id n) @ '''>'' @ html_escape (nd_hostname n)
       @ ''</option>'')) (list_nodes s))
      in html_page (utf8_text [0x4EFB, 0x52A1]) (''<h1>'' @ utf8_text [0x4EFB, 0x52A1]
       @ ''</h1><div class='card'><form method='post' action='/tasks'><select name='node_id'>'' @ options
       @ ''</select> <input name='command' value='uptime'> <input name='created_by' value='hmn-web' hidden><button class='btn'>''
       @ utf8_text [0x8FD0, 0x884C] @ ''</button></form></div>'' @ concat (map task_card (list_tasks s))))"

definition task_new :: "string \<Rightarrow> string" where
  "task_new node_id =
     html_page (utf8_text [0x65B0, 0x4EFB, 0x52A1]) (''<h1>'' @ utf8_text [0x65B0, 0x4EFB, 0x52A1]
       @ ''</h1><div class='card'><form method='post' action='/tasks'><input name='node_id' value=''
       @ [CHR 0x27] @ html_escape node_id
       @ '''> <input name='command' value='uptime'> <input name='created_by' value='hmn-web'><button class='btn'>''
       @ utf8_text [0x8FD0, 0x884C] @ ''</button></form></div>'')"

definition task_dict :: "task \<Rightarrow> dict" where
  "task_dict t =
     (let moment = (\<lambda>m. case m of None \<Rightarrow> JNull | Some x \<Rightarrow> JStr (time_str x))
      in [(''task_id'', JStr (tk_task_id t)), (''node_id'', JStr (tk_node_id t)), (''command'', JStr (tk_command t)),
          (''risk'', JStr (tk_risk t)), (''status'', JStr (tk_status t)), (''created_by'', JStr (tk_created_by t)),
          (''created_at'', JStr (time_str (tk_created_at t))), (''executor'', JStr (tk_executor t)),
          (''started_at'', moment (tk_started_at t)), (''completed_at'', moment (tk_completed_at t)),
          (''exit_code'', case tk_exit_code t of None \<Rightarrow> JNull | Some i \<Rightarrow> JInt i),
          (''stdout'', JStr (tk_stdout t)), (''stderr'', JStr (tk_stderr t)),
          (''claimed_at'', moment (tk_claimed_at t)), (''lease_expires_at'', moment (tk_lease_expires_at t)),
          (''attempt_count'', JInt (tk_attempt_count t)), (''failure_reason'', JStr (tk_failure_reason t))])"

definition task_detail :: "string \<Rightarrow> store \<Rightarrow> string http" where
  "task_detail task_id s =
     (case load_task s task_id of
        None \<Rightarrow> refuse 404 ''task not found''
      | Some t \<Rightarrow>
          Answer (html_page (utf8_text [0x4EFB, 0x52A1, 0x8BE6, 0x60C5]) (''<h1>'' @ utf8_text [0x4EFB, 0x52A1] @ '' '' @ html_escape (tk_task_id t)
       @ ''</h1><div class='card'><pre>'' @ html_escape (json_indented (redact (JObj (task_dict t))) 0)
       @ ''</pre></div>'')))"

definition approvals_page :: "store \<Rightarrow> string" where
  "approvals_page s =
     html_page (utf8_text [0x5BA1, 0x6279]) ((''<h1>'' @ utf8_text [0x5BA1, 0x6279] @ ''</h1>'') @ concat (map approval_card_html (list_approval_requests [] s)))"

definition approval_detail :: "string \<Rightarrow> store \<Rightarrow> string http" where
  "approval_detail approval_id s =
     (case load_approval_request s approval_id of
        None \<Rightarrow> refuse 404 ''approval not found''
      | Some a \<Rightarrow> Answer (html_page (utf8_text [0x5BA1, 0x6279, 0x8BE6, 0x60C5]) ((''<h1>'' @ utf8_text [0x5BA1, 0x6279, 0x8BE6, 0x60C5] @ ''</h1>'') @ approval_card_html a)))"

definition audit_row :: "audit_event \<Rightarrow> string" where
  "audit_row e =
     (''<div class='card'><b>'' @ html_escape (ev_action e) @ ''</b> <span class='badge'>''
       @ html_escape (ev_outcome e) @ ''</span><div class='muted'>'' @ html_escape (ev_event_type e) @ '' ''
       @ utf8_text [0x00B7] @ '' '' @ html_escape (ev_subject_id e) @ ''</div><pre>''
       @ html_escape (json_dumps (json_sort (redact (JObj (ev_details e))))) @ ''</pre></div>'')"

definition audit_page :: "store \<Rightarrow> string" where
  "audit_page s = html_page (utf8_text [0x5BA1, 0x8BA1]) ((''<h1>'' @ utf8_text [0x5BA1, 0x8BA1] @ ''</h1>'') @ concat (map audit_row (rev (list_audit_events s))))"

text \<open>The built-in manifests serve when none is stored.\<close>

definition components_page :: "manifest list result \<Rightarrow> store \<Rightarrow> string result" where
  "components_page builtin s =
     bind_result (list_components s) (\<lambda>stored.
     bind_result (if stored \<noteq> [] then Inr stored else builtin) (\<lambda>components.
       Inr (html_page (utf8_text [0x7EC4, 0x4EF6]) ((''<h1>'' @ utf8_text [0x7EC4, 0x4EF6] @ ''</h1>'') @ concat (map (\<lambda>c. (''<div class='card'><b>'' @ html_escape (mf_id c) @ ''</b><div>'' @ html_escape (mf_summary c)
       @ ''</div><span class='badge'>'' @ html_escape (mf_risk c) @ ''</span></div>'')) components)))))"

definition network_page :: string where
  "network_page = html_page (utf8_text [0x7F51, 0x7EDC]) (''<h1>'' @ utf8_text [0x7F51, 0x7EDC] @ '' / ACL</h1><div class='card'>ACL ''
       @ utf8_text [0x8BA1, 0x5212, 0x3001] @ ''diff '' @ utf8_text [0x548C, 0x5BA1, 0x6279, 0x5165, 0x53E3]
       @ ''</div>'')"

definition backups_page :: string where
  "backups_page = html_page (utf8_text [0x5907, 0x4EFD]) (''<h1>'' @ utf8_text [0x5907, 0x4EFD] @ '' / '' @ utf8_text [0x6062, 0x590D]
       @ ''</h1><div class='card'>'' @ utf8_text [0x5907, 0x4EFD] @ '' dry-run''
       @ utf8_text [0x3001, 0x6062, 0x590D, 0x5BA1, 0x6279, 0x3001, 0x6062, 0x590D, 0x70B9, 0x8FFD, 0x8E2A]
       @ ''</div>'')"

section \<open>The index of documents\<close>

text \<open>
  The tree of directories is a dictionary whose key \<open>__files__\<close> holds the files of a directory, in which a
  directory of that name gets in the way.
\<close>

datatype doc_tree =
    Dir "(string \<times> doc_tree) list"
  | Files "string list"

definition FILES_KEY :: string where
  "FILES_KEY = ''__files__''"

definition add_file :: "string \<Rightarrow> (string \<times> doc_tree) list \<Rightarrow> (string \<times> doc_tree) list result" where
  "add_file rel entries =
     (case map_of entries FILES_KEY of
        None \<Rightarrow> Inr (entries @ [(FILES_KEY, Files [rel])])
      | Some (Files fs) \<Rightarrow> Inr (AList.update FILES_KEY (Files (fs @ [rel])) entries)
      | Some (Dir _) \<Rightarrow> Inl (AttributeError ''append''))"

fun tree_insert :: "string list \<Rightarrow> string \<Rightarrow> doc_tree \<Rightarrow> doc_tree result" where
  "tree_insert parts rel (Files _) = Inl (AttributeError ''setdefault'')"
| "tree_insert [] rel (Dir entries) = bind_result (add_file rel entries) (\<lambda>e. Inr (Dir e))"
| "tree_insert (part # parts) rel (Dir entries) =
     bind_result (tree_insert parts rel (case map_of entries part of None \<Rightarrow> Dir [] | Some child \<Rightarrow> child))
       (\<lambda>child. Inr (Dir (AList.update part child entries)))"

text \<open>The paths are relative to the documentation root, in the order of \<open>sorted(rglob("*.md"))\<close>.\<close>

fun docs_tree_from :: "string list \<Rightarrow> doc_tree \<Rightarrow> doc_tree result" where
  "docs_tree_from [] tree = Inr tree"
| "docs_tree_from (rel # rels) tree =
     bind_result (tree_insert (butlast (posix_parts rel)) rel tree) (docs_tree_from rels)"

definition file_link :: "string \<Rightarrow> string" where
  "file_link rel =
     (let posix = html_escape rel; filename = html_escape (last (posix_parts rel))
      in (''<div class='tree-file'><a href='/docs/view/'' @ posix @ '''>'' @ filename
       @ ''</a> <span class='muted file-path'>'' @ posix @ ''</span> <span class='muted'>(<a href='/docs/file/''
       @ posix @ '''>'' @ utf8_text [0x539F, 0x6587] @ ''</a>)</span></div>''))"

definition folder_html :: "string \<Rightarrow> string \<Rightarrow> string" where
  "folder_html name children =
     (''<details open><summary><span class='tree-folder'>'' @ html_escape name
       @ ''</span></summary><div class='tree-children'>'' @ children @ ''</div></details>'')"

text \<open>A directory under \<open>__files__\<close> is iterated as if it were the list: its keys are no paths.\<close>

fun render_tree :: "doc_tree \<Rightarrow> string result" where
  "render_tree (Files fs) = Inl (AttributeError ''keys'')"
| "render_tree (Dir entries) =
     (let rendered = map (\<lambda>(name, child). (name, render_tree child)) entries;
          folders = sort_key fst (filter (\<lambda>p. fst p \<noteq> FILES_KEY) rendered)
      in bind_result (map_result (\<lambda>(name, r). bind_result r (\<lambda>h. Inr (folder_html name h))) folders) (\<lambda>parts.
           case map_of entries FILES_KEY of
             None \<Rightarrow> Inr (concat parts)
           | Some (Files fs) \<Rightarrow> Inr (concat parts @ concat (map file_link fs))
           | Some (Dir []) \<Rightarrow> Inr (concat parts)
           | Some (Dir _) \<Rightarrow> Inl (AttributeError ''as_posix'')))"

definition TREE_STYLE :: string where
  "TREE_STYLE =
      ''<style>.docs-tree{font-size:14px;line-height:1.65}.docs-tree details{margin:6px 0 6px 0;''
    @ ''padding-left:10px;border-left:1px solid #e5e7eb}.docs-tree summary{cursor:pointer;''
    @ ''list-style:none;font-weight:600;color:#111827}''
    @ ''.docs-tree summary::-webkit-details-marker{display:none}''
    @ ''.docs-tree summary::before{content:''
    @ [CHR 0x27]
    @ utf8_text [0x25BE]
    @ ''';display:inline-block;margin-right:8px;color:#94a3b8}''
    @ ''.docs-tree details:not([open])>summary::before{content:''
    @ [CHR 0x27]
    @ utf8_text [0x25B8]
    @ '''}.tree-children{margin:6px 0 0 8px}.tree-folder{color:#111827}''
    @ ''.tree-file{margin:6px 0 6px 18px}.tree-file a{font-weight:500}.file-path{font-size:12px}''
    @ ''</style>''"

definition docs_index :: "string list \<Rightarrow> string result" where
  "docs_index markdown_files =
     bind_result (docs_tree_from markdown_files (Dir [])) (\<lambda>tree.
     bind_result (if markdown_files \<noteq> [] then render_tree tree else Inr (''<div class='muted'>'' @ utf8_text [0x6682, 0x65E0, 0x6587, 0x6863] @ ''</div>'')) (\<lambda>html.
       Inr (html_page (utf8_text [0x6587, 0x4EF6, 0x7D22, 0x5F15]) (TREE_STYLE @ ''<h1>'' @ utf8_text [0x6587, 0x4EF6, 0x7D22, 0x5F15]
       @ ''</h1><div class='card docs-tree'>'' @ html @ ''</div>''))))"

definition docs_view ::
  "(string \<Rightarrow> string) \<Rightarrow> (string \<Rightarrow> bool) \<Rightarrow> (string \<Rightarrow> string result) \<Rightarrow> (string \<Rightarrow> string) \<Rightarrow> string \<Rightarrow> string \<Rightarrow> string http" where
  "docs_view resolve is_file read markdown docs_base doc_path =
     (case docs_file resolve is_file docs_base doc_path of
        Refused c d \<Rightarrow> Refused c d
      | Crashed e \<Rightarrow> Crashed e
      | Answer path \<Rightarrow>
          (case read path of
             Inl e \<Rightarrow> Crashed e
           | Inr text \<Rightarrow>
               Answer (html_page (utf8_text [0x6587, 0x6863, 0x9605, 0x8BFB])
                 ((''<h1>'' @ utf8_text [0x6587, 0x6863, 0x9605, 0x8BFB] @ ''</h1><div class='card'><div class='muted'>''
       @ html_escape doc_path @ '' '' @ utf8_text [0x00B7] @ '' <a href='/hmn-web/docs/file/''
       @ html_escape doc_path @ '''>'' @ utf8_text [0x67E5, 0x770B, 0x539F, 0x6587]
       @ ''</a></div><div class='markdown-body'>'')
                  @ markdown text @ (''</div></div>'')))))"

section \<open>Which markup a page has\<close>

lemmas text_markup = is_markup_def utf8_text_def utf8_char_def

lemma markup_rows: "(\<And>x. markup (f x) = m) \<Longrightarrow> markup (concat (map f xs)) = concat (replicate (length xs) m)"
  by (induction xs) simp_all

lemma markup_replicate: "markup (concat (replicate n x)) = concat (replicate n (markup x))"
  by (induction n) simp_all

text \<open>The frame of a page has a fixed markup around that of its body, whatever the title.\<close>

definition page_head :: string where
  "page_head = (''<!doctype html><html><head><meta charset='utf-8'><meta name='viewport' content='width=device-width, initial-scale=1'><title>''
       @ [] @ ''</title>'' @ PAGE_STYLE @ ''</head><body><main>'' @ nav)"

definition page_foot :: string where
  "page_foot = ''</main></body></html>''"

lemma html_page_markup: "markup (html_page t b) = markup page_head @ markup b @ markup page_foot"
  by (simp only: html_page_def page_head_def page_foot_def markup_append markup_escape append_Nil append_assoc)

lemma approval_card_markup:
  assumes "ap_status a = ''pending'' \<longleftrightarrow> ap_status b = ''pending''"
    and "dget (ap_details a) ''task_name'' = JNull \<longleftrightarrow> dget (ap_details b) ''task_name'' = JNull"
    and "dget (ap_details a) ''task_description'' = JNull \<longleftrightarrow> dget (ap_details b) ''task_description'' = JNull"
  shows "markup (approval_card_html a) = markup (approval_card_html b)"
  using assms by (simp add: approval_card_html_def approval_summary_def approval_buttons_def)

lemma markup_free: "list_all (\<lambda>c. \<not> is_markup c) s \<Longrightarrow> markup s = []"
  by (induction s) simp_all

lemma markup_show_nat [simp]: "markup (show_nat n) = []"
proof (rule markup_free)
  have "\<not> is_markup c" if "is_digit c" for c using that by (auto simp: is_digit_def is_markup_def)
  then show "list_all (\<lambda>c. \<not> is_markup c) (show_nat n)" using show_nat_digits [of n] by (auto simp: list_all_iff)
qed

text \<open>Markup of a concatenation, with the literal parts left as they are.\<close>

lemmas markup_parts = markup_append markup_escape markup_quote markup_show_nat markup_Nil append_Nil append_Nil2 append_assoc
  html_page_markup

text \<open>The rows of the lists: each has the same markup, whatever it shows.\<close>

lemma card_markup:
  "markup (task_card t) = markup (task_card undefined)"
  "markup (node_card n) = markup (node_card undefined)"
  "markup (node_line n) = markup (node_line undefined)"
  "markup (service_line v) = markup (service_line [])"
  "markup (service_card_html v) = markup (service_card_html [])"
  "markup (system_card v) = markup (system_card [])"
  "markup (audit_row e) = markup (audit_row undefined)"
  "markup (file_link rel) = markup (file_link [])"
  by (simp_all only: task_card_def node_card_def node_line_def service_line_def service_card_html_def system_card_def
      audit_row_def file_link_def Let_def markup_parts)

lemmas row_markup =
  markup_rows [of task_card, OF card_markup(1)] markup_rows [of node_card, OF card_markup(2)]
  markup_rows [of node_line, OF card_markup(3)] markup_rows [of service_line, OF card_markup(4)]
  markup_rows [of service_card_html, OF card_markup(5)] markup_rows [of system_card, OF card_markup(6)]
  markup_rows [of audit_row, OF card_markup(7)] markup_rows [of file_link, OF card_markup(8)]

text \<open>What decides the markup of an approval card and of a machine card.\<close>

definition approval_shape :: "approval_request \<Rightarrow> bool \<times> bool \<times> bool" where
  "approval_shape a = (ap_status a = ''pending'', dget (ap_details a) ''task_name'' = JNull,
     dget (ap_details a) ''task_description'' = JNull)"

definition machine_shape :: "machine \<Rightarrow> nat" where
  "machine_shape m = length (take 3 (mc_services m))"

lemma machine_card_markup:
  assumes "machine_shape m = machine_shape m'"
  shows "markup (machine_card m) = markup (machine_card m')"
proof -
  let ?line = "\<lambda>item. (''<div class='muted'>'' @ utf8_text [0x00B7] @ '' '' @ html_escape (py_str (dget item ''name''))
       @ ''</div>'')"
  have "markup (?line x) = markup (?line [])" for x by (simp only: markup_parts)
  from markup_rows [of ?line, OF this]
  have "markup (concat (map ?line items)) = concat (replicate (length items) (markup (?line [])))" for items .
  then show ?thesis by (simp only: machine_card_def markup_parts assms [unfolded machine_shape_def])
qed

lemma markup_same_shape:
  assumes "\<And>x y. shape x = shape y \<Longrightarrow> markup (f x) = markup (f y)"
  shows "map shape xs = map shape ys \<Longrightarrow> markup (concat (map f xs)) = markup (concat (map f ys))"
proof (induction xs arbitrary: ys)
  case (Cons x xs)
  then obtain y ys' where "ys = y # ys'" "shape x = shape y" "map shape xs = map shape ys'" by (cases ys) auto
  with Cons.IH [of ys'] assms [of x y] show ?case by simp
qed simp

lemma approval_cards_markup:
  "map approval_shape xs = map approval_shape ys \<Longrightarrow>
   markup (concat (map approval_card_html xs)) = markup (concat (map approval_card_html ys))"
  by (rule markup_same_shape [of approval_shape]) (auto simp: approval_shape_def intro: approval_card_markup)

lemma machine_cards_markup:
  "map machine_shape xs = map machine_shape ys \<Longrightarrow>
   markup (concat (map machine_card xs)) = markup (concat (map machine_card ys))"
  by (rule markup_same_shape [of machine_shape]) (rule machine_card_markup)

text \<open>The markup of a page that depends on nothing but some shape of what it shows.\<close>

lemma by_shape:
  assumes "\<And>x y. shape x = shape y \<Longrightarrow> g x = g y"
  shows "\<exists>f. \<forall>x. g x = f (shape x)"
proof -
  have "g x = g (SOME y. shape y = shape x)" for x
    by (rule assms) (rule someI [of "\<lambda>y. shape y = shape x" x, symmetric], simp)
  then show ?thesis by (intro exI [of _ "\<lambda>k. g (SOME y. shape y = k)"]) blast
qed

text \<open>The markup of a tree of documents: files and folders, nested.\<close>

definition folder_open :: string where
  "folder_open = ''<details open><summary><span class='tree-folder'></span></summary><div class='tree-children'>''"

definition folder_close :: string where
  "folder_close = ''</div></details>''"

inductive_set tree_markup :: "string set" where
  tree_empty: "[] \<in> tree_markup"
| tree_file: "markup (file_link []) \<in> tree_markup"
| tree_folder: "m \<in> tree_markup \<Longrightarrow> markup folder_open @ m @ markup folder_close \<in> tree_markup"
| tree_append: "m \<in> tree_markup \<Longrightarrow> m' \<in> tree_markup \<Longrightarrow> m @ m' \<in> tree_markup"

lemma tree_concat: "(\<And>h. h \<in> set hs \<Longrightarrow> markup h \<in> tree_markup) \<Longrightarrow> markup (concat hs) \<in> tree_markup"
  by (induction hs) (auto intro: tree_markup.intros)

lemma folder_markup: "markup (folder_html name children) = markup folder_open @ markup children @ markup folder_close"
  by (simp add: folder_html_def folder_open_def folder_close_def markup_parts del: markup_Cons) (simp add: text_markup)

lemma files_tree: "markup (concat (map file_link fs)) \<in> tree_markup"
proof (rule tree_concat)
  fix h
  assume "h \<in> set (map file_link fs)"
  then obtain rel where "h = file_link rel" by auto
  then have "markup h = markup (file_link [])" using card_markup(8) [of rel] by (rule ssubst)
  then show "markup h \<in> tree_markup" by (simp add: tree_file)
qed

lemma map_result_each: "map_result f xs = Inr ys \<Longrightarrow> y \<in> set ys \<Longrightarrow> \<exists>x \<in> set xs. f x = Inr y"
  by (induction xs arbitrary: ys) (auto simp: bind_result_Inr_iff)

lemma render_tree_markup: "render_tree t = Inr h \<Longrightarrow> markup h \<in> tree_markup"
proof (induction t arbitrary: h rule: render_tree.induct)
  case (1 fs)
  then show ?case by simp
next
  case (2 entries)
  let ?folders = "sort_key fst (filter (\<lambda>p. fst p \<noteq> FILES_KEY) (map (\<lambda>(name, child). (name, render_tree child)) entries))"
  let ?shown = "\<lambda>parts. case map_of entries FILES_KEY of
      None \<Rightarrow> Inr (concat parts)
    | Some (Files fs) \<Rightarrow> Inr (concat parts @ concat (map file_link fs))
    | Some (Dir []) \<Rightarrow> Inr (concat parts)
    | Some (Dir _) \<Rightarrow> Inl (AttributeError ''as_posix'')"
  from 2(2) obtain parts where parts: "map_result (\<lambda>(name, r). bind_result r (\<lambda>h. Inr (folder_html name h))) ?folders = Inr parts"
    and shown: "?shown parts = Inr h"
    unfolding render_tree.simps Let_def bind_result_Inr_iff by blast
  have h: "h = concat parts \<or> (\<exists>fs. h = concat parts @ concat (map file_link fs))"
  proof (cases "map_of entries FILES_KEY")
    case (Some t)
    show ?thesis
    proof (cases t)
      case (Dir ds)
      then show ?thesis using Some shown by (cases ds) simp_all
    qed (use Some shown in auto)
  qed (use shown in simp)
  have "markup p \<in> tree_markup" if p: "p \<in> set parts" for p
  proof -
    from map_result_each [OF parts p] obtain name child c where
      c: "(name, child) \<in> set entries" "render_tree child = Inr c" "p = folder_html name c"
      by (auto simp: bind_result_Inr_iff)
    then have "markup c \<in> tree_markup" using 2(1) by blast
    then show ?thesis by (simp add: c(3) folder_markup tree_folder)
  qed
  then have "markup (concat parts) \<in> tree_markup" by (rule tree_concat)
  then have "markup (concat parts) @ markup (concat (map file_link fs)) \<in> tree_markup" for fs
    using files_tree by (rule tree_markup.tree_append)
  with \<open>markup (concat parts) \<in> tree_markup\<close> h show ?case by auto
qed

lemma by_shape_of:
  assumes "\<And>x y. P x \<Longrightarrow> P y \<Longrightarrow> shape x = shape y \<Longrightarrow> g x = g y"
  shows "\<exists>f. \<forall>x. P x \<longrightarrow> g x = f (shape x)"
proof -
  have "g x = g (SOME y. P y \<and> shape y = shape x)" if "P x" for x
  proof -
    have "P (SOME y. P y \<and> shape y = shape x) \<and> shape (SOME y. P y \<and> shape y = shape x) = shape x"
      by (rule someI [of _ x]) (simp add: that)
    then show ?thesis using assms that by metis
  qed
  then show ?thesis by (intro exI [of _ "\<lambda>k. g (SOME y. P y \<and> shape y = k)"]) blast
qed

text \<open>The pages, one after the other.\<close>

lemma list_page_markup:
  "\<exists>f. \<forall>s. markup (nodes_page s) = f (length (list_nodes s))"
  "\<exists>f. \<forall>s. markup (tasks_page s) = f (length (list_nodes s), length (list_tasks s))"
  "\<exists>f. \<forall>s. markup (approvals_page s) = f (map approval_shape (list_approval_requests [] s))"
  "\<exists>f. \<forall>s. markup (audit_page s) = f (length (list_audit_events s))"
proof -
  show "\<exists>f. \<forall>s. markup (nodes_page s) = f (length (list_nodes s))"
    by (rule by_shape) (simp only: nodes_page_def markup_parts row_markup)
  let ?option = "\<lambda>n :: node. (''<option value='' @ [CHR 0x27] @ html_escape (nd_node_id n) @ '''>'' @ html_escape (nd_hostname n)
       @ ''</option>'')"
  have "markup (?option x) = markup (?option undefined)" for x by (simp only: markup_parts)
  note options = markup_rows [of ?option, OF this]
  show "\<exists>f. \<forall>s. markup (tasks_page s) = f (length (list_nodes s), length (list_tasks s))"
    unfolding tasks_page_def Let_def
    by (rule by_shape) (simp only: html_page_markup markup_append row_markup options prod.inject)
  show "\<exists>f. \<forall>s. markup (approvals_page s) = f (map approval_shape (list_approval_requests [] s))"
  proof (rule by_shape)
    fix s s'
    assume "map approval_shape (list_approval_requests [] s) = map approval_shape (list_approval_requests [] s')"
    from approval_cards_markup [OF this] show "markup (approvals_page s) = markup (approvals_page s')"
      by (simp only: approvals_page_def markup_parts)
  qed
  show "\<exists>f. \<forall>s. markup (audit_page s) = f (length (list_audit_events s))"
    by (rule by_shape) (simp only: audit_page_def markup_parts row_markup length_rev)
qed

lemma detail_pages:
  "node_detail k s = Answer p \<Longrightarrow> node_detail k' s' = Answer p' \<Longrightarrow> markup p = markup p'"
  "task_detail k s = Answer p \<Longrightarrow> task_detail k' s' = Answer p' \<Longrightarrow> markup p = markup p'"
  by (auto simp only: node_detail_def task_detail_def markup_parts http.inject http.distinct
      split: option.splits)

lemma detail_page_markup:
  "\<exists>m. \<forall>k s. case node_detail k s of Answer page \<Rightarrow> markup page = m | _ \<Rightarrow> True"
  "\<exists>m. \<forall>k s. case task_detail k s of Answer page \<Rightarrow> markup page = m | _ \<Rightarrow> True"
  "\<exists>m. \<forall>k. markup (task_new k) = m"
  "\<exists>f. \<forall>k s. case (load_approval_request s k, approval_detail k s) of
     (Some a, Answer page) \<Rightarrow> markup page = f (approval_shape a) | _ \<Rightarrow> True"
  "\<exists>f. \<forall>netloc_ok rows k. case service_detail netloc_ok rows k of
     Answer page \<Rightarrow> markup page \<in> {f True, f False} | _ \<Rightarrow> True"
proof -
  have "\<exists>f. \<forall>x. (case x of (k, s, p) \<Rightarrow> node_detail k s = Answer p) \<longrightarrow> markup (snd (snd x)) = f ()"
    by (rule by_shape_of) (clarsimp simp only: prod.case snd_conv split: prod.splits, rule detail_pages(1))
  then show "\<exists>m. \<forall>k s. case node_detail k s of Answer page \<Rightarrow> markup page = m | _ \<Rightarrow> True"
    by (auto split: http.split)
  have "\<exists>f. \<forall>x. (case x of (k, s, p) \<Rightarrow> task_detail k s = Answer p) \<longrightarrow> markup (snd (snd x)) = f ()"
    by (rule by_shape_of) (clarsimp simp only: prod.case snd_conv split: prod.splits, rule detail_pages(2))
  then show "\<exists>m. \<forall>k s. case task_detail k s of Answer page \<Rightarrow> markup page = m | _ \<Rightarrow> True"
    by (auto split: http.split)
  show "\<exists>m. \<forall>k. markup (task_new k) = m" by (simp only: task_new_def markup_parts) blast
  have "\<exists>f. \<forall>a. markup (approval_card_html a) = f (approval_shape a)"
    by (rule by_shape) (auto simp: approval_shape_def intro: approval_card_markup)
  then obtain f where f: "\<And>a. markup (approval_card_html a) = f (approval_shape a)" by blast
  have "\<exists>h. \<forall>a. markup (html_page (utf8_text [0x5BA1, 0x6279, 0x8BE6, 0x60C5]) ((''<h1>'' @ utf8_text [0x5BA1, 0x6279, 0x8BE6, 0x60C5] @ ''</h1>'') @ approval_card_html a)) = h (approval_shape a)"
    by (rule by_shape) (simp only: markup_parts f)
  then show "\<exists>f. \<forall>k s. case (load_approval_request s k, approval_detail k s) of
     (Some a, Answer page) \<Rightarrow> markup page = f (approval_shape a) | _ \<Rightarrow> True"
    by (simp only: approval_detail_def prod.case option.case http.case split: option.split http.split) auto
  let ?parts = "\<lambda>v. (''<h1>'' @ html_escape (py_str (dget v ''name'')) @ ''</h1><div class='card'><pre>''
       @ html_escape (json_indented (redact (JObj v)) 0) @ ''</pre></div>'')"
  have "\<exists>h. \<forall>x. markup (html_page (utf8_text [0x670D, 0x52A1, 0x8BE6, 0x60C5]) (?parts (snd x) @ (if fst x then (''<a class='btn' href='/docs/file/'' @ html_escape (py_str (dget (snd x) ''docs_path'')) @ '''>''
       @ utf8_text [0x6253, 0x5F00, 0x6587, 0x6863] @ ''</a>'') else []))) = h (fst x)"
    by (rule by_shape) (simp only: markup_parts if_distrib [of markup] cong: if_cong)
  then obtain h where h: "\<And>d v. markup (html_page (utf8_text [0x670D, 0x52A1, 0x8BE6, 0x60C5]) (?parts v @ (if d then (''<a class='btn' href='/docs/file/'' @ html_escape (py_str (dget v ''docs_path'')) @ '''>''
       @ utf8_text [0x6253, 0x5F00, 0x6587, 0x6863] @ ''</a>'') else []))) = h d"
    by (metis fst_conv snd_conv)
  show "\<exists>f. \<forall>netloc_ok rows k. case service_detail netloc_ok rows k of
     Answer page \<Rightarrow> markup page \<in> {f True, f False} | _ \<Rightarrow> True"
  proof (intro exI [of _ h] allI)
    fix netloc_ok rows k
    have "h d \<in> {h True, h False}" for d by (cases d) simp_all
    then show "case service_detail netloc_ok rows k of Answer page \<Rightarrow> markup page \<in> {h True, h False} | _ \<Rightarrow> True"
      unfolding service_detail_def
      by (simp only: http.case h split: sum.split option.split) blast
  qed
qed

lemma services_body_markup:
  "\<exists>f. \<forall>svcs. markup (services_body svcs)
     = f (map machine_shape (group_services_by_machine (of_class ''business'' svcs)), length (of_class ''system'' svcs))"
proof (rule by_shape)
  fix x y
  assume "(map machine_shape (group_services_by_machine (of_class ''business'' x)), length (of_class ''system'' x))
    = (map machine_shape (group_services_by_machine (of_class ''business'' y)), length (of_class ''system'' y))"
  then have "markup (concat (map machine_card (group_services_by_machine (of_class ''business'' x))))
      = markup (concat (map machine_card (group_services_by_machine (of_class ''business'' y))))"
    "length (of_class ''system'' x) = length (of_class ''system'' y)"
    by (auto intro: machine_cards_markup)
  then show "markup (services_body x) = markup (services_body y)"
    by (simp only: services_body_def Let_def markup_parts row_markup)
qed

lemma dashboard_body_markup:
  "\<exists>f. \<forall>p. markup (dashboard_body (fst p) (snd p))
     = f (length (fst p), length (list_nodes (snd p)), length (list_tasks (snd p)),
          map approval_shape (take 6 (list_approval_requests ''pending'' (snd p))))"
proof (rule by_shape)
  fix p q :: "dict list \<times> store"
  assume a: "(length (fst p), length (list_nodes (snd p)), length (list_tasks (snd p)),
          map approval_shape (take 6 (list_approval_requests ''pending'' (snd p))))
    = (length (fst q), length (list_nodes (snd q)), length (list_tasks (snd q)),
          map approval_shape (take 6 (list_approval_requests ''pending'' (snd q))))"
  then have "markup (concat (map approval_card_html (take 6 (list_approval_requests ''pending'' (snd p)))))
      = markup (concat (map approval_card_html (take 6 (list_approval_requests ''pending'' (snd q)))))"
    by (auto intro: approval_cards_markup)
  with a show "markup (dashboard_body (fst p) (snd p)) = markup (dashboard_body (fst q) (snd q))"
    by (simp only: dashboard_body_def Let_def markup_parts row_markup length_take prod.inject)
qed

lemma machine_page_services:
  assumes "List.find (\<lambda>m. mc_machine_id m = k) (group_services_by_machine svcs) = Some m"
  shows "length (mc_services m) = length (filter (\<lambda>v. service_machine_key v = k) svcs)"
proof -
  from assms have "m \<in> set (group_services_by_machine svcs)" "mc_machine_id m = k"
    by (auto simp: find_Some_iff)
  then have "m = machine_of svcs k" by (auto simp: group_services_by_machine_def machine_of_def Let_def)
  then show ?thesis by (simp add: machine_of_def Let_def)
qed

lemma service_page_markup:
  "\<exists>f. \<forall>netloc_ok rows. case (kuma_service_payloads netloc_ok rows, services_page netloc_ok rows) of
     (Inr svcs, Inr page) \<Rightarrow> markup page = f (map machine_shape (group_services_by_machine (of_class ''business'' svcs)),
       length (of_class ''system'' svcs))
   | _ \<Rightarrow> True"
  "\<exists>f. \<forall>netloc_ok rows k. case (kuma_service_payloads netloc_ok rows, services_node_detail netloc_ok rows k) of
     (Inr svcs, Answer page) \<Rightarrow> markup page = f (length (filter (\<lambda>v. service_machine_key v = k) (of_class ''business'' svcs)))
   | _ \<Rightarrow> True"
  "\<exists>f. \<forall>netloc_ok rows s. case (kuma_service_payloads netloc_ok rows, dashboard netloc_ok rows s) of
     (Inr svcs, Inr page) \<Rightarrow> markup page = f (length svcs, length (list_nodes s), length (list_tasks s),
       map approval_shape (take 6 (list_approval_requests ''pending'' s)))
   | _ \<Rightarrow> True"
proof -
  from services_body_markup obtain f where f: "\<And>svcs. markup (services_body svcs)
     = f (map machine_shape (group_services_by_machine (of_class ''business'' svcs)), length (of_class ''system'' svcs))" by blast
  show "\<exists>f. \<forall>netloc_ok rows. case (kuma_service_payloads netloc_ok rows, services_page netloc_ok rows) of
     (Inr svcs, Inr page) \<Rightarrow> markup page = f (map machine_shape (group_services_by_machine (of_class ''business'' svcs)),
       length (of_class ''system'' svcs))
   | _ \<Rightarrow> True"
    by (rule exI [of _ "\<lambda>k. markup page_head @ f k @ markup page_foot"])
      (simp add: services_page_def html_page_markup f split: sum.split)
  from dashboard_body_markup obtain g where g: "\<And>svcs s. markup (dashboard_body svcs s)
     = g (length svcs, length (list_nodes s), length (list_tasks s),
          map approval_shape (take 6 (list_approval_requests ''pending'' s)))" by fastforce
  show "\<exists>f. \<forall>netloc_ok rows s. case (kuma_service_payloads netloc_ok rows, dashboard netloc_ok rows s) of
     (Inr svcs, Inr page) \<Rightarrow> markup page = f (length svcs, length (list_nodes s), length (list_tasks s),
       map approval_shape (take 6 (list_approval_requests ''pending'' s)))
   | _ \<Rightarrow> True"
    by (rule exI [of _ "\<lambda>k. markup page_head @ g k @ markup page_foot"])
      (simp add: dashboard_def html_page_markup g split: sum.split)
  have "\<exists>h. \<forall>x. (case x of (netloc_ok, rows, k, svcs, p) \<Rightarrow> kuma_service_payloads netloc_ok rows = Inr svcs
        \<and> services_node_detail netloc_ok rows k = Answer p) \<longrightarrow>
      markup (snd (snd (snd (snd x)))) = h (case x of (netloc_ok, rows, k, svcs, p) \<Rightarrow>
        length (filter (\<lambda>v. service_machine_key v = k) (of_class ''business'' svcs)))"
    by (rule by_shape_of)
      (clarsimp simp only: prod.case snd_conv services_node_detail_def sum.case markup_parts row_markup
        machine_page_services http.inject http.distinct split: prod.splits option.splits)
  then show "\<exists>f. \<forall>netloc_ok rows k. case (kuma_service_payloads netloc_ok rows, services_node_detail netloc_ok rows k) of
     (Inr svcs, Answer page) \<Rightarrow> markup page = f (length (filter (\<lambda>v. service_machine_key v = k) (of_class ''business'' svcs)))
   | _ \<Rightarrow> True"
    by (auto split: sum.split http.split)
qed

lemma other_page_markup:
  "\<exists>f. \<forall>builtin s. case (list_components s, components_page builtin s) of
     (Inr stored, Inr page) \<Rightarrow> markup page = f (length (if stored \<noteq> [] then stored else projr builtin)) | _ \<Rightarrow> True"
  "\<exists>a b none. \<forall>names. case docs_index names of
     Inr page \<Rightarrow> (\<exists>m. m \<in> insert none tree_markup \<and> markup page = a @ m @ b) | _ \<Rightarrow> True"
  "\<exists>a b. \<forall>resolve is_file read markdown docs_base p. case docs_view resolve is_file read markdown docs_base p of
     Answer page \<Rightarrow> (\<exists>text. read (resolve (posix_join docs_base p)) = Inr text \<and> markup page = a @ markup (markdown text) @ b)
   | _ \<Rightarrow> True"
proof -
  let ?card = "\<lambda>c :: manifest. (''<div class='card'><b>'' @ html_escape (mf_id c) @ ''</b><div>'' @ html_escape (mf_summary c)
       @ ''</div><span class='badge'>'' @ html_escape (mf_risk c) @ ''</span></div>'')"
  have "markup (?card x) = markup (?card undefined)" for x by (simp only: markup_parts)
  note rows = markup_rows [of ?card, OF this]
  have "\<exists>h. \<forall>cs. markup (html_page (utf8_text [0x7EC4, 0x4EF6]) ((''<h1>'' @ utf8_text [0x7EC4, 0x4EF6] @ ''</h1>'') @ concat (map ?card cs))) = h (length cs)"
    by (rule by_shape) (simp only: html_page_markup markup_append rows)
  then obtain h where h: "\<And>cs. markup (html_page (utf8_text [0x7EC4, 0x4EF6]) ((''<h1>'' @ utf8_text [0x7EC4, 0x4EF6] @ ''</h1>'') @ concat (map ?card cs))) = h (length cs)" by blast
  show "\<exists>f. \<forall>builtin s. case (list_components s, components_page builtin s) of
     (Inr stored, Inr page) \<Rightarrow> markup page = f (length (if stored \<noteq> [] then stored else projr builtin)) | _ \<Rightarrow> True"
    by (rule exI [of _ h])
      (auto simp only: components_page_def bind_result_def h prod.case sum.case sum.sel split: sum.split if_split)
  have index: "markup (html_page t ((TREE_STYLE @ ''<h1>'' @ utf8_text [0x6587, 0x4EF6, 0x7D22, 0x5F15]
       @ ''</h1><div class='card docs-tree'>'' @ h @ ''</div>'')))
      = (markup page_head @ markup (TREE_STYLE @ ''<h1>'' @ utf8_text [0x6587, 0x4EF6, 0x7D22, 0x5F15]
       @ ''</h1><div class='card docs-tree'>'')) @ markup h @ (markup ''</div>'' @ markup page_foot)"
    for t h by (simp only: markup_parts)
  show "\<exists>a b none. \<forall>names. case docs_index names of
     Inr page \<Rightarrow> (\<exists>m. m \<in> insert none tree_markup \<and> markup page = a @ m @ b) | _ \<Rightarrow> True"
  proof (intro exI allI)
    fix names
    show "case docs_index names of
     Inr page \<Rightarrow> (\<exists>m. m \<in> insert (markup (''<div class='muted'>'' @ utf8_text [0x6682, 0x65E0, 0x6587, 0x6863] @ ''</div>'')) tree_markup
       \<and> markup page = (markup page_head @ markup (TREE_STYLE @ ''<h1>'' @ utf8_text [0x6587, 0x4EF6, 0x7D22, 0x5F15]
       @ ''</h1><div class='card docs-tree'>'')) @ m
            @ (markup ''</div>'' @ markup page_foot)) | _ \<Rightarrow> True"
    proof (cases "docs_tree_from names (Dir [])")
      case (Inl e)
      then show ?thesis by (simp only: docs_index_def bind_result_def sum.case)
    next
      case (Inr tree)
      show ?thesis
      proof (cases "names = []")
        case True
        show ?thesis
          by (simp only: docs_index_def True docs_tree_from.simps bind_result_def sum.case simp_thms if_False index)
            (rule exI, rule conjI, rule insertI1, rule refl)
      next
        case False
        then show ?thesis
          using render_tree_markup [of tree] unfolding docs_index_def Inr bind_result_def sum.case
          by (cases "render_tree tree") (auto simp only: index sum.case if_True not_False_eq_True insert_iff)
      qed
    qed
  qed
  have view: "markup (html_page t ((''<h1>'' @ utf8_text [0x6587, 0x6863, 0x9605, 0x8BFB] @ ''</h1><div class='card'><div class='muted'>''
       @ html_escape p @ '' '' @ utf8_text [0x00B7] @ '' <a href='/hmn-web/docs/file/'' @ html_escape p @ '''>''
       @ utf8_text [0x67E5, 0x770B, 0x539F, 0x6587] @ ''</a></div><div class='markdown-body'>'') @ h @ (''</div></div>'')))
      = (markup page_head @ markup (''<h1>'' @ utf8_text [0x6587, 0x6863, 0x9605, 0x8BFB] @ ''</h1><div class='card'><div class='muted'>'') @ markup ('' '' @ utf8_text [0x00B7] @ '' <a href='/hmn-web/docs/file/'')
           @ markup ('''>'' @ utf8_text [0x67E5, 0x770B, 0x539F, 0x6587] @ ''</a></div><div class='markdown-body'>'')) @ markup h @ (markup (''</div></div>'') @ markup page_foot)"
    for t p h by (simp only: markup_parts)
  show "\<exists>a b. \<forall>resolve is_file read markdown docs_base p. case docs_view resolve is_file read markdown docs_base p of
     Answer page \<Rightarrow> (\<exists>text. read (resolve (posix_join docs_base p)) = Inr text \<and> markup page = a @ markup (markdown text) @ b)
   | _ \<Rightarrow> True"
    by (rule exI, rule exI)
      (auto simp only: docs_view_def docs_file_def Let_def view http.case sum.case if_True if_False sum.inject
        split: sum.split if_split)
qed

section \<open>Properties\<close>

text \<open>C20: no value that a page of \<open>web_console.py\<close> shows can add a tag or leave an attribute: the angle brackets and
  quotes of every page depend only on how many cards of each kind it shows (for a request also on its being
  pending and having a task name and a description, for a machine on its number of lines, for the index of documents on
  the nesting of directories), not on any text of a node, task, request, event, service, component, path
  or argument.  The one exception is the view of a document, whose page has a fixed markup around that of
  whatever the Markdown renderer makes of the document's text, which is not escaped.\<close>

theorem pages_show_data_as_text:
  "(\<exists>f. \<forall>s. markup (nodes_page s) = f (length (list_nodes s)))
   \<and> (\<exists>f. \<forall>s. markup (tasks_page s) = f (length (list_nodes s), length (list_tasks s)))
   \<and> (\<exists>f. \<forall>s. markup (approvals_page s) = f (map approval_shape (list_approval_requests [] s)))
   \<and> (\<exists>f. \<forall>s. markup (audit_page s) = f (length (list_audit_events s)))
   \<and> (\<exists>m. \<forall>k s. case node_detail k s of Answer page \<Rightarrow> markup page = m | _ \<Rightarrow> True)
   \<and> (\<exists>m. \<forall>k s. case task_detail k s of Answer page \<Rightarrow> markup page = m | _ \<Rightarrow> True)
   \<and> (\<exists>m. \<forall>k. markup (task_new k) = m)
   \<and> (\<exists>f. \<forall>k s. case (load_approval_request s k, approval_detail k s) of
        (Some a, Answer page) \<Rightarrow> markup page = f (approval_shape a) | _ \<Rightarrow> True)
   \<and> (\<exists>f. \<forall>netloc_ok rows k. case service_detail netloc_ok rows k of
        Answer page \<Rightarrow> markup page \<in> {f True, f False} | _ \<Rightarrow> True)
   \<and> (\<exists>f. \<forall>netloc_ok rows. case (kuma_service_payloads netloc_ok rows, services_page netloc_ok rows) of
        (Inr svcs, Inr page) \<Rightarrow> markup page = f (map machine_shape (group_services_by_machine (of_class ''business'' svcs)),
          length (of_class ''system'' svcs))
      | _ \<Rightarrow> True)
   \<and> (\<exists>f. \<forall>netloc_ok rows k. case (kuma_service_payloads netloc_ok rows, services_node_detail netloc_ok rows k) of
        (Inr svcs, Answer page) \<Rightarrow> markup page = f (length (filter (\<lambda>v. service_machine_key v = k) (of_class ''business'' svcs)))
      | _ \<Rightarrow> True)
   \<and> (\<exists>f. \<forall>netloc_ok rows s. case (kuma_service_payloads netloc_ok rows, dashboard netloc_ok rows s) of
        (Inr svcs, Inr page) \<Rightarrow> markup page = f (length svcs, length (list_nodes s), length (list_tasks s),
          map approval_shape (take 6 (list_approval_requests ''pending'' s)))
      | _ \<Rightarrow> True)
   \<and> (\<exists>f. \<forall>builtin s. case (list_components s, components_page builtin s) of
        (Inr stored, Inr page) \<Rightarrow> markup page = f (length (if stored \<noteq> [] then stored else projr builtin)) | _ \<Rightarrow> True)
   \<and> (\<exists>a b none. \<forall>names. case docs_index names of
        Inr page \<Rightarrow> (\<exists>m. m \<in> insert none tree_markup \<and> markup page = a @ m @ b) | _ \<Rightarrow> True)
   \<and> (\<exists>a b. \<forall>resolve is_file read markdown docs_base p. case docs_view resolve is_file read markdown docs_base p of
        Answer page \<Rightarrow> (\<exists>text. read (resolve (posix_join docs_base p)) = Inr text \<and> markup page = a @ markup (markdown text) @ b)
      | _ \<Rightarrow> True)"
  by (intro conjI list_page_markup detail_page_markup service_page_markup other_page_markup)

lemma mset_by_key:
  "distinct ks \<Longrightarrow> set (map g xs) \<subseteq> set ks
    \<Longrightarrow> mset (concat (map (\<lambda>k. filter (\<lambda>x. g x = k) xs) ks)) = mset xs"
proof (induction xs)
  case Nil
  then show ?case by (induction ks) auto
next
  case (Cons x xs)
  have "mset (concat (map (\<lambda>k. filter (\<lambda>y. g y = k) (x # xs)) ks))
      = (if g x \<in> set ks then {#x#} else {#}) + mset (concat (map (\<lambda>k. filter (\<lambda>y. g y = k) xs) ks))"
    using Cons.prems(1) by (induction ks) auto
  with Cons show ?case by simp
qed

text \<open>The machine view puts every business service on exactly one machine: machines are listed once each in
  order of name, each with at least one service and its true number of services, and together they hold every
  service as often as it was given.\<close>

lemma machines_partition_services:
  "let machines = group_services_by_machine svcs
   in sorted (map mc_machine_id machines) \<and> distinct (map mc_machine_id machines)
    \<and> mset (concat (map mc_services machines)) = mset svcs
    \<and> list_all (\<lambda>m. mc_services m \<noteq> [] \<and> mc_service_count m = length (mc_services m)
         \<and> list_all (\<lambda>v. service_machine_key v = mc_machine_id m) (mc_services m)) machines"
proof -
  let ?ks = "sort (remdups (map service_machine_key svcs))"
  have ids: "map mc_machine_id (group_services_by_machine svcs) = ?ks"
    by (simp add: group_services_by_machine_def machine_of_def Let_def comp_def)
  have "mset (concat (map (\<lambda>k. mc_services (machine_of svcs k)) ?ks))
      = mset (concat (map (\<lambda>k. filter (\<lambda>v. service_machine_key v = k) svcs) ?ks))"
    by (simp add: machine_of_def Let_def mset_concat comp_def)
  also have "\<dots> = mset svcs" by (rule mset_by_key) simp_all
  finally have all: "mset (concat (map mc_services (group_services_by_machine svcs))) = mset svcs"
    by (simp add: group_services_by_machine_def comp_def)
  have nil: "sort_key f xs = [] \<longleftrightarrow> xs = []" for f :: "dict \<Rightarrow> string" and xs
    by (metis length_sort length_0_conv)
  have "list_all (\<lambda>m. mc_services m \<noteq> [] \<and> mc_service_count m = length (mc_services m)
      \<and> list_all (\<lambda>v. service_machine_key v = mc_machine_id m) (mc_services m)) (group_services_by_machine svcs)"
    by (auto simp: group_services_by_machine_def machine_of_def list_all_iff Let_def nil filter_empty_conv)
  with ids all show ?thesis by (simp add: Let_def)
qed

end
