(* ===== verification/ConsoleApi.thy ===== *)
theory ConsoleApi imports Sessions Uptime begin

text \<open>
  The JSON endpoints of the console in \<open>api.py\<close>: the summary of nodes, tasks and approvals, the services read from Uptime
  Kuma, join tokens and the join policy, and the list of documents.  The functions here are what
  follows the session check.
  Numbers in the facts of a node are exact fractions, as in Monitor; infinities and NaN count as absent, and
  \<open>round(float(item), 2)\<close> is the parameter \<open>round2\<close> (no value where \<open>float\<close> raises).
\<close>

section \<open>Reading the facts of a node\<close>

definition is_number :: "json \<Rightarrow> bool" where
  "is_number v = (case v of JInt _ \<Rightarrow> True | JFloat _ \<Rightarrow> True | JBool _ \<Rightarrow> True | _ \<Rightarrow> False)"

text \<open>The response model turns a truth value into a number.\<close>

definition number_field :: "json \<Rightarrow> json" where
  "number_field v = (case v of JBool b \<Rightarrow> JInt (if b then 1 else 0) | _ \<Rightarrow> v)"

definition fact_number :: "dict \<Rightarrow> string list \<Rightarrow> json" where
  "fact_number facts keys =
     (case List.find (\<lambda>k. is_number (dget facts k)) keys of None \<Rightarrow> JInt 0 | Some k \<Rightarrow> dget facts k)"

definition console_percent :: "int \<times> int \<Rightarrow> int \<times> int \<Rightarrow> int" where
  "console_percent used tot =
     (if fst tot = 0 then 0
      else max 0 (min 100 (if fst tot < 0 then percent (- fst used, snd used) (- fst tot, snd tot) else percent used tot)))"

definition minus_fraction :: "int \<times> int \<Rightarrow> int \<times> int \<Rightarrow> int \<times> int" where
  "minus_fraction a b = (fst a * snd b - fst b * snd a, snd a * snd b)"

definition memory_percent :: "dict \<Rightarrow> json" where
  "memory_percent facts =
     (let v = fact_number facts [''memory_percent'']
      in if truthy v then v
         else case dget facts ''memory'' of
           JObj memory \<Rightarrow>
             (case (number_fraction (py_or (dget memory ''total_kb'') (dget memory ''total_bytes'')),
                    number_fraction (py_or (dget memory ''available_kb'')
                      (py_or (dget memory ''free_kb'') (dget memory ''available_bytes'')))) of
                (Some tot, Some available) \<Rightarrow> JInt (console_percent (minus_fraction tot available) tot)
              | _ \<Rightarrow> fact_number facts [''memory''])
         | _ \<Rightarrow> fact_number facts [''memory''])"

definition disk_percent :: "dict \<Rightarrow> json" where
  "disk_percent facts =
     (let v = fact_number facts [''disk_percent'']
      in if truthy v then v
         else case dget facts ''disk'' of
           JObj disk \<Rightarrow>
             (case (number_fraction (dget disk ''used_bytes''), number_fraction (dget disk ''total_bytes'')) of
                (Some used, Some tot) \<Rightarrow> JInt (console_percent used tot)
              | _ \<Rightarrow> fact_number facts [''disk''])
         | _ \<Rightarrow> fact_number facts [''disk''])"

definition load_value :: "(json \<Rightarrow> json option) \<Rightarrow> dict \<Rightarrow> json" where
  "load_value round2 facts =
     (let v = py_or (dget facts ''load_average'') (dget facts ''load'')
      in if is_number v then v
         else case v of
           JObj load \<Rightarrow>
             (case first_row (List.map_filter (\<lambda>k. round2 (dget load k)) [''1m'', ''1'', ''one'']) of
                None \<Rightarrow> JInt 0 | Some x \<Rightarrow> x)
         | _ \<Rightarrow> JInt 0)"

definition span_text :: "int \<Rightarrow> string" where
  "span_text secs =
     (let days = secs div 86400; hours = secs mod 86400 div 3600; minutes = secs mod 3600 div 60
      in if days \<noteq> 0 then show_int days @ ''d '' @ show_int hours @ ''h''
         else if hours \<noteq> 0 then show_int hours @ ''h '' @ show_int minutes @ ''m''
         else show_int minutes @ ''m'')"

text \<open>\<open>int\<close> of an infinity or a NaN raises.\<close>

definition uptime_text :: "dict \<Rightarrow> string result" where
  "uptime_text facts =
     (let v = dget facts ''uptime'';
          seconds_of = (\<lambda>n. case py_int n of Some i \<Rightarrow> Inr (span_text i)
                                          | None \<Rightarrow> Inl (ValueError ''cannot convert float to integer''))
      in case v of
           JObj d \<Rightarrow> if is_number (dget d ''seconds'') then seconds_of (dget d ''seconds'') else Inr ''-''
         | JStr t \<Rightarrow> Inr t
         | _ \<Rightarrow> if is_number v then seconds_of v else Inr ''-'')"

definition os_text :: "dict \<Rightarrow> string" where
  "os_text facts =
     (let os_family = (case dget facts ''capabilities'' of JObj c \<Rightarrow> dget c ''os_family'' | _ \<Rightarrow> JNull)
      in py_str (py_or (dget facts ''os_release'') (py_or (dget facts ''os'') (py_or (dget facts ''platform'')
           (py_or os_family (JStr ''unknown''))))))"

definition heartbeat_label :: "int option \<Rightarrow> string" where
  "heartbeat_label age_seconds =
     (case age_seconds of
        None \<Rightarrow> (utf8_text [0x65E0])
      | Some age \<Rightarrow>
          if age < 60 then (utf8_text [0x521A, 0x521A])
          else if age < 3600 then show_int (age div 60) @ ('' '' @ utf8_text [0x5206, 0x949F, 0x524D])
          else show_int (age div 3600) @ ('' '' @ utf8_text [0x5C0F, 0x65F6, 0x524D]))"

section \<open>Nodes\<close>

record console_node =
  cn_id :: string
  cn_name :: string
  cn_status :: string
  cn_live :: string
  cn_trust :: string
  cn_role :: string
  cn_ip :: string
  cn_os :: string
  cn_uptime :: string
  cn_cpu :: json
  cn_memory :: json
  cn_disk :: json
  cn_load :: json
  cn_hb :: string
  cn_exec :: bool
  cn_runtime_profile :: string
  cn_service_manager :: string
  cn_worker_mode :: string
  cn_task_policy :: string
  cn_worker_status_hint :: "string option"
  cn_worker_status_command :: "string option"
  cn_worker_install_hint :: "string option"
  cn_worker_install_command :: "string option"
  cn_uninstall_hint :: "string option"
  cn_uninstall_command :: "string option"
  cn_node_type_label :: "string option"
  cn_windows_beacon_only :: bool

definition formal_node_status :: "store \<Rightarrow> node \<Rightarrow> string" where
  "formal_node_status s n =
     (if nd_status n = ''managed'' \<and> \<not> has_successful_node_heartbeat (nd_node_id n) s then ''pending'' else nd_status n)"

definition node_live :: "node \<Rightarrow> audit_event option \<Rightarrow> time \<Rightarrow> string" where
  "node_live n event now =
     (if nd_status n = ''pending'' then ''unknown''
      else case event of
        None \<Rightarrow> ''offline''
      | Some e \<Rightarrow>
          let age_seconds = whole_seconds (now - ev_created_at e)
          in if ev_outcome e = ''ok'' \<and> age_seconds \<le> 300 then ''online''
             else if age_seconds \<le> 900 then ''stale'' else ''offline'')"

definition node_facts :: "audit_event option \<Rightarrow> dict" where
  "node_facts event =
     (case event of
        None \<Rightarrow> []
      | Some e \<Rightarrow> (case dget_or (ev_details e) ''facts'' (JObj []) of JObj d \<Rightarrow> d | _ \<Rightarrow> []))"

text \<open>The hints on installing and removing a worker, and the label of the kind of node.\<close>

definition windows_install :: "string \<Rightarrow> string \<Rightarrow> string \<times> string \<times> string \<times> bool" where
  "windows_install node_id profile =
     (let command = ''hmn node install-heartbeat '' @ node_id @ '' --service-manager windows-task --runtime ''
      in if profile = ''full-worker''
         then ((utf8_text [0x53EF, 0x5728, 0x4E3B, 0x63A7, 0x91CD, 0x65B0, 0x751F, 0x6210, 0x8BE5] @ '' Windows '' @ utf8_text [0x8282, 0x70B9, 0x7684, 0x5168, 0x529F, 0x80FD] @ '' Worker '' @ utf8_text [0x5B89, 0x88C5, 0x811A, 0x672C]), command @ ''full-worker'', ''Windows full worker'', False)
         else ((utf8_text [0x53EF, 0x5728, 0x4E3B, 0x63A7, 0x91CD, 0x65B0, 0x751F, 0x6210, 0x8BE5] @ '' Windows '' @ utf8_text [0x8282, 0x70B9, 0x7684] @ '' Worker/'' @ utf8_text [0x5FC3, 0x8DF3, 0x5B89, 0x88C5, 0x811A, 0x672C]), command @ ''beacon-only --beacon-only'',
               ''Windows beacon-only'', True))"

definition node_type_label :: "string \<Rightarrow> string" where
  "node_type_label profile =
     (if profile = ''beacon-only'' then ''Beacon-only'' else if profile = ''full-worker'' then ''Full worker''
      else if profile = ''lite-worker'' then ''Lite worker'' else profile)"

definition console_node_response :: "(json \<Rightarrow> json option) \<Rightarrow> store \<Rightarrow> node \<Rightarrow> time \<Rightarrow> console_node result" where
  "console_node_response round2 s n now =
     (let event = latest_node_heartbeat_event (nd_node_id n) s;
          facts = node_facts event;
          capabilities = classify_capabilities (probe_from_facts facts);
          profile = runtime_text (rc_runtime capabilities);
          manager = manager_text (rc_service_manager capabilities);
          windows = (manager = ''windows-task'');
          (install_hint, install_command, windows_label, windows_beacon_only) = windows_install (nd_node_id n) profile
      in bind_result (uptime_text facts) (\<lambda>up.
           Inr \<lparr>cn_id = nd_node_id n, cn_name = nd_hostname n, cn_status = formal_node_status s n,
                cn_live = node_live n event now, cn_trust = nd_trust_level n,
                cn_role = (case nd_labels n of [] \<Rightarrow> ''node'' | l # _ \<Rightarrow> l),
                cn_ip = (if nd_network_ip n \<noteq> [] then nd_network_ip n
                         else case nd_addresses n of [] \<Rightarrow> ''-'' | a # _ \<Rightarrow> a),
                cn_os = os_text facts, cn_uptime = up,
                cn_cpu = number_field (fact_number facts [''cpu_percent'', ''cpu'']),
                cn_memory = number_field (memory_percent facts), cn_disk = number_field (disk_percent facts),
                cn_load = number_field (load_value round2 facts),
                cn_hb = heartbeat_label (map_option (\<lambda>e. whole_seconds (now - ev_created_at e)) event),
                cn_exec = (truthy (dget facts ''exec_enabled'') \<or> ''task'' \<in> set (nd_permission_bundles n)),
                cn_runtime_profile = profile, cn_service_manager = manager,
                cn_worker_mode = str_or (dget facts ''worker_mode'') ''unknown'',
                cn_task_policy = str_or (dget facts ''task_policy'')
                  (if rc_can_poll_tasks capabilities then ''poll-and-exec'' else ''heartbeat-only''),
                cn_worker_status_hint = Some (utf8_text [0x53EF, 0x5728, 0x4E3B, 0x63A7, 0x6267, 0x884C, 0x8282, 0x70B9, 0x7EA7, 0x72B6, 0x6001, 0x68C0, 0x67E5, 0x547D, 0x4EE4]),
                cn_worker_status_command = Some (''hmn node worker-status '' @ nd_node_id n),
                cn_worker_install_hint = (if windows then Some install_hint else None),
                cn_worker_install_command = (if windows then Some install_command else None),
                cn_uninstall_hint = (if windows then Some (utf8_text [0x53EF, 0x5728, 0x4E3B, 0x63A7, 0x6267, 0x884C, 0x8282, 0x70B9, 0x7EA7, 0x5378, 0x8F7D, 0x547D, 0x4EE4, 0xFF0C, 0x751F, 0x6210, 0x8BE5] @ '' Windows '' @ utf8_text [0x8282, 0x70B9, 0x7684, 0x5378, 0x8F7D, 0x811A, 0x672C]) else None),
                cn_uninstall_command =
                  (if windows then Some (''hmn node uninstall-heartbeat '' @ nd_node_id n @ '' --service-manager windows-task'')
                   else None),
                cn_node_type_label = Some (if windows then windows_label else node_type_label profile),
                cn_windows_beacon_only = (windows \<and> windows_beacon_only)\<rparr>))"

section \<open>The summary\<close>

record console_task =
  ck_id :: string
  ck_node_id :: string
  ck_node_name :: string
  ck_command :: string
  ck_risk :: string
  ck_status :: string
  ck_created_by :: string
  ck_created_at :: string

record console_approval =
  cv_id :: string
  cv_subject_type :: string
  cv_subject_id :: string
  cv_action :: string
  cv_risk :: string
  cv_status :: string
  cv_requested_by :: string
  cv_created_at :: string
  cv_task_name :: "string option"
  cv_task_description :: "string option"

record console_metrics =
  cx_online_nodes :: nat
  cx_total_nodes :: nat
  cx_managed_nodes :: nat
  cx_pending_nodes :: nat
  cx_pending_approvals :: nat
  cx_running_tasks :: nat

record summary_response =
  cs_metrics :: console_metrics
  cs_nodes :: "console_node list"
  cs_tasks :: "console_task list"
  cs_approvals :: "console_approval list"

definition console_task_of :: "console_node list \<Rightarrow> task \<Rightarrow> console_task" where
  "console_task_of shown t =
     \<lparr>ck_id = tk_task_id t, ck_node_id = tk_node_id t,
      ck_node_name = (case map_of (rev (map (\<lambda>n. (cn_id n, cn_name n)) shown)) (tk_node_id t) of
                        None \<Rightarrow> tk_node_id t | Some name \<Rightarrow> name),
      ck_command = tk_command t, ck_risk = tk_risk t, ck_status = tk_status t, ck_created_by = tk_created_by t,
      ck_created_at = isoformat (tk_created_at t)\<rparr>"

definition detail_text :: "dict \<Rightarrow> string \<Rightarrow> string option" where
  "detail_text details key = (if dget details key = JNull then None else Some (py_str (dget details key)))"

definition console_approval_of :: "approval_request \<Rightarrow> console_approval" where
  "console_approval_of a =
     \<lparr>cv_id = ap_approval_id a, cv_subject_type = ap_subject_type a, cv_subject_id = ap_subject_id a,
      cv_action = ap_action a, cv_risk = ap_risk a, cv_status = ap_status a, cv_requested_by = ap_requested_by a,
      cv_created_at = isoformat (ap_created_at a), cv_task_name = detail_text (ap_details a) ''task_name'',
      cv_task_description = detail_text (ap_details a) ''task_description''\<rparr>"

text \<open>The k-th node is looked at when the clock reads \<open>clk k\<close>.\<close>

definition console_summary ::
  "(json \<Rightarrow> json option) \<Rightarrow> (nat \<Rightarrow> time) \<Rightarrow> store \<Rightarrow> summary_response result" where
  "console_summary round2 clk s =
     bind_result (map_result (\<lambda>(k, n). console_node_response round2 s n (clk k)) (enumerate 0 (list_nodes s))) (\<lambda>shown.
       let recent = take 8 (list_tasks s); requests = take 8 (list_approval_requests [] s)
       in Inr \<lparr>cs_metrics = \<lparr>cx_online_nodes = length (filter (\<lambda>n. cn_live n = ''online'') shown),
                            cx_total_nodes = length shown,
                            cx_managed_nodes = length (filter (\<lambda>n. cn_status n = ''managed'') shown),
                            cx_pending_nodes = length (filter (\<lambda>n. cn_status n = ''pending'') shown),
                            cx_pending_approvals = length (filter (\<lambda>a. ap_status a = ''pending'') requests),
                            cx_running_tasks = length (filter (\<lambda>t. tk_status t = ''running'') recent)\<rparr>,
              cs_nodes = shown, cs_tasks = map (console_task_of shown) recent,
              cs_approvals = map console_approval_of requests\<rparr>)"

section \<open>Services\<close>

record service_group =
  sg_category :: string
  sg_services :: "kuma_asset list"
  sg_count :: nat

record service_sheet =
  sh_service_id :: "string option"
  sh_title :: string
  sh_business_category :: string
  sh_asset_category :: string
  sh_asset_score :: int
  sh_why_asset :: "string list"
  sh_summary :: string
  sh_details :: "kuma_asset option"

record services_response =
  sv_services :: "kuma_asset list"
  sv_business_groups :: "service_group list"
  sv_pending_discoveries :: "kuma_asset list"
  sv_system_assets :: "kuma_asset list"
  sv_sheet :: service_sheet
  sv_defaults :: dict
  sv_business_categories :: "string list"

definition is_business :: "kuma_asset \<Rightarrow> bool" where
  "is_business a \<longleftrightarrow> ka_asset_category a \<noteq> ''pending'' \<and> ka_asset_category a \<noteq> ''system''"

definition service_group_of :: "kuma_asset list \<Rightarrow> string \<Rightarrow> service_group" where
  "service_group_of assets category =
     (let group = filter (\<lambda>a. ka_business_category a = category) assets
      in \<lparr>sg_category = category, sg_services = group, sg_count = length group\<rparr>)"

definition business_groups :: "kuma_asset list \<Rightarrow> service_group list" where
  "business_groups assets =
     (let business = filter is_business assets
      in map (service_group_of business) (sort (remdups (map ka_business_category business))))"

definition selected_service :: "kuma_asset list \<Rightarrow> kuma_asset option" where
  "selected_service assets =
     (case List.find (\<lambda>a. ka_asset_category a = ''main'') assets of Some a \<Rightarrow> Some a | None \<Rightarrow> first_row assets)"

definition service_sheet_of :: "kuma_asset option \<Rightarrow> service_sheet" where
  "service_sheet_of selected =
     (case selected of
        Some a \<Rightarrow> \<lparr>sh_service_id = Some (ka_service_id a), sh_title = ka_name a,
                   sh_business_category = ka_business_category a, sh_asset_category = ka_asset_category a,
                   sh_asset_score = ka_asset_score a, sh_why_asset = ka_why_asset a, sh_summary = ka_summary a,
                   sh_details = Some a\<rparr>
      | None \<Rightarrow> \<lparr>sh_service_id = None, sh_title = (utf8_text [0x670D, 0x52A1, 0x8BE6, 0x60C5]), sh_business_category = (utf8_text [0x672A, 0x5206, 0x7C7B]),
                 sh_asset_category = ''main'', sh_asset_score = 0, sh_why_asset = [], sh_summary = (utf8_text [0x6682, 0x65E0, 0x670D, 0x52A1]),
                 sh_details = None\<rparr>)"

definition console_services :: "(string \<Rightarrow> bool) \<Rightarrow> kuma_row list option \<Rightarrow> services_response result" where
  "console_services netloc_ok rows =
     bind_result (load_kuma_service_assets netloc_ok rows) (\<lambda>assets.
       let selected = selected_service assets; groups = business_groups assets; sheet = service_sheet_of selected
       in Inr \<lparr>sv_services = assets, sv_business_groups = groups,
              sv_pending_discoveries = filter (\<lambda>a. ka_asset_category a = ''pending'') assets,
              sv_system_assets = filter (\<lambda>a. ka_asset_category a = ''system'') assets,
              sv_sheet = sheet,
              sv_defaults = [(''source'', JStr ''manual''), (''status'', JStr ''active''),
                (''business_category'', JStr (sh_business_category sheet)), (''asset_category'', JStr ''main'')],
              sv_business_categories = (if groups = [] then [(utf8_text [0x672A, 0x5206, 0x7C7B])] else map sg_category groups)\<rparr>)"

section \<open>Join tokens and the join policy\<close>

record token_form =
  tf_trust_level :: string
  tf_labels :: "string list"
  tf_ttl_minutes :: int
  tf_target_os :: string

definition token_minutes :: "int \<Rightarrow> int" where
  "token_minutes requested = max 5 (min (if requested = 0 then 30 else requested) 1440)"

definition console_join_token ::
  "token_form \<Rightarrow> string \<Rightarrow> (nat \<Rightarrow> time) \<Rightarrow> store \<Rightarrow> (join_token \<times> string) http \<times> store" where
  "console_join_token q rand clk s =
     (let ttl_minutes = token_minutes (tf_ttl_minutes q);
          target_os = (if lower (tf_target_os q) = ''windows'' then ''windows'' else ''linux'')
      in case fst (token_create (tf_trust_level q) (tf_labels q) (seconds (60 * ttl_minutes)) rand (clk 0) Map.empty) of
           Inl e \<Rightarrow> (Crashed e, s)
         | Inr t \<Rightarrow>
             (Answer (t, target_os),
              record_audit ''token'' ''join_token'' (jt_value t) ''create'' ''ok''
                [(''trust_level'', JStr (jt_trust_level t)), (''labels'', JList (map JStr (jt_labels t))),
                 (''ttl_minutes'', JInt ttl_minutes), (''source'', JStr ''hmn-web''), (''target_os'', JStr target_os)]
                (clk 1) (save_token t s)))"

record join_policy =
  jp_auto_confirm :: bool
  jp_auto_install_worker :: bool
  jp_enable_exec :: bool
  jp_pending_visible :: bool
  jp_permission_bundle :: string
  jp_target_os :: string

definition policy_dict :: "join_policy \<Rightarrow> dict" where
  "policy_dict p =
     [(''auto_confirm'', JBool (jp_auto_confirm p)), (''auto_install_worker'', JBool (jp_auto_install_worker p)),
      (''enable_exec'', JBool (jp_enable_exec p)), (''pending_visible'', JBool (jp_pending_visible p)),
      (''permission_bundle'', JStr (jp_permission_bundle p)), (''target_os'', JStr (jp_target_os p))]"

text \<open>
  \<open>ConsoleJoinPolicyResponse(**setting)\<close> for values of the declared types, which is all that the update below stores; the
  conversions the response model knows for other values are not modelled.
\<close>

definition bool_field :: "dict \<Rightarrow> string \<Rightarrow> bool \<Rightarrow> bool result" where
  "bool_field d key fallback =
     (case dget_or d key (JBool fallback) of JBool b \<Rightarrow> Inr b | _ \<Rightarrow> Inl (ValueError ''Input should be a valid boolean''))"

definition text_field :: "dict \<Rightarrow> string \<Rightarrow> string \<Rightarrow> string result" where
  "text_field d key fallback =
     (case dget_or d key (JStr fallback) of JStr t \<Rightarrow> Inr t | _ \<Rightarrow> Inl (ValueError ''Input should be a valid string''))"

definition policy_of_dict :: "dict \<Rightarrow> join_policy result" where
  "policy_of_dict d =
     bind_result (bool_field d ''auto_confirm'' True) (\<lambda>auto_confirm.
     bind_result (bool_field d ''auto_install_worker'' True) (\<lambda>auto_install_worker.
     bind_result (bool_field d ''enable_exec'' True) (\<lambda>enable_exec.
     bind_result (bool_field d ''pending_visible'' False) (\<lambda>pending_visible.
     bind_result (text_field d ''permission_bundle'' ''observe_task'') (\<lambda>permission_bundle.
     bind_result (text_field d ''target_os'' ''linux'') (\<lambda>target_os.
       Inr \<lparr>jp_auto_confirm = auto_confirm, jp_auto_install_worker = auto_install_worker, jp_enable_exec = enable_exec,
            jp_pending_visible = pending_visible, jp_permission_bundle = permission_bundle, jp_target_os = target_os\<rparr>))))))"

definition POLICY_KEY :: string where
  "POLICY_KEY = ''console.join_policy''"

definition console_join_policy :: "store \<Rightarrow> join_policy result" where
  "console_join_policy s =
     (case get_setting POLICY_KEY (JObj []) s of JObj d \<Rightarrow> policy_of_dict d
      | _ \<Rightarrow> Inl (TypeError ''argument after ** must be a mapping''))"

definition update_console_join_policy :: "join_policy \<Rightarrow> (nat \<Rightarrow> time) \<Rightarrow> store \<Rightarrow> join_policy \<times> store" where
  "update_console_join_policy p clk s =
     (p, record_audit ''console'' ''setting'' POLICY_KEY ''update'' ''ok'' (policy_dict p) (clk 1)
           (set_setting POLICY_KEY (JObj (policy_dict p)) (clk 0) s))"

section \<open>Documents\<close>

text \<open>The heading and the first line of text of a Markdown document.\<close>

fun title_and_summary :: "string list \<Rightarrow> string \<Rightarrow> string \<times> string" where
  "title_and_summary [] title = (title, [])"
| "title_and_summary (raw_line # rest) title =
     (let line = strip raw_line
      in if line = [] then title_and_summary rest title
         else if startswith line ''#''
         then let heading = strip (dropWhile (\<lambda>c. c = CHR ''#'') line)
              in title_and_summary rest (if heading \<noteq> [] then heading else title)
         else (title, line))"

record doc_item =
  di_title :: string
  di_path :: string
  di_url :: string
  di_viewer_url :: string
  di_category :: string
  di_summary :: string

text \<open>
  The Markdown files below \<open>root/subdir\<close>, by their paths relative to \<open>root\<close> and in order, with their texts; none when the
  directory does not exist.
\<close>

definition list_docs :: "(string \<Rightarrow> (string \<times> string) list) \<Rightarrow> string \<Rightarrow> string \<Rightarrow> doc_item list" where
  "list_docs markdown_files subdir category =
     map (\<lambda>(relative, content).
       let (title, summary) = title_and_summary (split_lines content)
             (posix_str [] (drop (length (posix_parts subdir)) (posix_parts relative)))
       in \<lparr>di_title = title, di_path = relative, di_url = ''/hmn-web/docs/file/'' @ relative,
           di_viewer_url = ''/hmn-web/docs/view/'' @ relative, di_category = category, di_summary = summary\<rparr>)
       (markdown_files subdir)"

definition docs_index_payload :: "(string \<Rightarrow> (string \<times> string) list) \<Rightarrow> doc_item list \<times> doc_item list" where
  "docs_index_payload markdown_files =
     (list_docs markdown_files ''docs/server'' ''server'', list_docs markdown_files ''service'' ''service'')"

text \<open>\<open>_docs_file\<close>: the console's own check of a document path (any suffix).\<close>

definition api_docs_file :: "(string \<Rightarrow> string) \<Rightarrow> (string \<Rightarrow> bool) \<Rightarrow> string \<Rightarrow> string \<Rightarrow> string http" where
  "api_docs_file resolve is_file docs_base path =
     (let candidate = resolve (posix_join docs_base path)
      in if \<not> is_relative_to candidate docs_base then refuse 400 ''invalid docs path''
         else if \<not> is_file candidate then refuse 404 ''docs file not found''
         else Answer candidate)"

section \<open>Properties\<close>

text \<open>A join token from the console lives between five minutes and one day whatever lifetime was asked for, and
  exactly as long as asked for within these bounds; it is stored as pending with a valid trust level.  An invalid
  trust level stores nothing.\<close>

lemma console_token_is_bounded:
  "case console_join_token q rand clk s of
     (Answer (t, target_os), s') \<Rightarrow>
       load_token s' (''j_'' @ rand) = Some t \<and> jt_value t = ''j_'' @ rand \<and> jt_status t = ''pending''
       \<and> jt_trust_level t = tf_trust_level q \<and> tf_trust_level q \<in> set VALID_TRUST_LEVELS
       \<and> clk 0 + seconds 300 \<le> jt_expires_at t \<and> jt_expires_at t \<le> clk 0 + seconds 86400
       \<and> (tf_ttl_minutes q < 5 \<or> 1440 < tf_ttl_minutes q \<or> jt_expires_at t = clk 0 + seconds (60 * tf_ttl_minutes q))
       \<and> target_os \<in> {''windows'', ''linux''}
   | (Refused _ _, s') \<Rightarrow> False
   | (Crashed e, s') \<Rightarrow> s' = s \<and> tf_trust_level q \<notin> set VALID_TRUST_LEVELS"
proof (cases "tf_trust_level q \<in> set VALID_TRUST_LEVELS")
  case False
  then show ?thesis by (simp add: console_join_token_def token_create_def Let_def)
next
  case True
  have "5 \<le> token_minutes n \<and> token_minutes n \<le> 1440 \<and> (n < 5 \<or> 1440 < n \<or> token_minutes n = n)" for n
    by (auto simp: token_minutes_def)
  from this [of "tf_ttl_minutes q"] True show ?thesis
    by (simp add: console_join_token_def token_create_def Let_def new_token_def load_token_save)
qed

lemma get_setting_after:
  "get_setting k d (record_audit et st sid act out e now s) = get_setting k d s"
  "get_setting k d (set_setting k v now s) = v"
  by (simp_all add: get_setting_set) (simp add: get_setting_def)

lemma policy_round_trip: "policy_of_dict (policy_dict p) = Inr p"
  by (simp add: policy_of_dict_def policy_dict_def bool_field_def text_field_def dget_or_def)

lemma update_policy_frame:
  "join_tokens (snd (update_console_join_policy p clk s)) = join_tokens s"
  "nodes (snd (update_console_join_policy p clk s)) = nodes s"
  by (simp_all add: update_console_join_policy_def set_setting_def)

text \<open>The join policy is stored and read back, and nothing else: whatever it says, every later join gets the
  answer it would have had without it, so a node that asks for automatic confirmation is managed at once even
  where the policy turns automatic confirmation off.\<close>

theorem join_policy_has_no_effect:
  "console_join_policy (snd (update_console_join_policy p clk s)) = Inr p
    \<and> fst (api_join q uid clk' (snd (update_console_join_policy p clk s))) = fst (api_join q uid clk' s)"
proof
  show "console_join_policy (snd (update_console_join_policy p clk s)) = Inr p"
    by (simp add: console_join_policy_def update_console_join_policy_def get_setting_after policy_round_trip)
  let ?s = "snd (update_console_join_policy p clk s)"
  have t: "load_token ?s = load_token s" by (rule load_token_cong) (rule update_policy_frame)
  have d: "find_duplicate_join_node ?s q = find_duplicate_join_node s q"
    by (simp add: find_duplicate_join_node_def list_nodes_def update_policy_frame)
  have c: "fst (consume_token (jn_token q) fp now ?s) = fst (consume_token (jn_token q) fp now s)
      \<and> load_token (snd (consume_token (jn_token q) fp now ?s)) = load_token (snd (consume_token (jn_token q) fp now s))" for fp now
    by (auto simp: consume_token_def consume_loaded_def Let_def t load_token_save fun_eq_iff split: option.splits)
  show "fst (api_join q uid clk' ?s) = fst (api_join q uid clk' s)"
    using c [of "jn_fingerprint q" "clk' 0"]
    by (auto simp: api_join_def t d register_pending_node_def Let_def split: option.splits prod.splits)
qed

end
