(* ===== verification/Console.thy ===== *)
theory Console imports WebPages ConsoleApi begin

text \<open>
  The console as a whole: one step function over its requests that change state, each behind the session check (the
  router dependency of \<open>web_console.py\<close> and \<open>_require_session\<close> of \<open>api.py\<close>).  The check reads the clock first.
\<close>

datatype console_request =
    StartTask console_task_request
  | StartTaskForm string string string
  | Decide string string string
  | RunComponent string component_action_request
  | RestoreRun string string string
  | CreateToken token_form
  | UpdatePolicy join_policy

datatype console_answer =
    TaskStarted console_task_response
  | Redirected redirect
  | RunRecorded console_run_response
  | RestoreRequested dict
  | TokenCreated "join_token \<times> string"
  | PolicyUpdated join_policy

definition answer_as :: "('a \<Rightarrow> console_answer) \<Rightarrow> 'a http \<times> store \<Rightarrow> console_answer http \<times> store" where
  "answer_as f r =
     (case r of (Answer x, s) \<Rightarrow> (Answer (f x), s) | (Refused code d, s) \<Rightarrow> (Refused code d, s)
              | (Crashed e, s) \<Rightarrow> (Crashed e, s))"

fun console_serve ::
  "(nat \<Rightarrow> string) \<Rightarrow> (nat \<Rightarrow> time) \<Rightarrow> console_request \<Rightarrow> store \<Rightarrow> console_answer http \<times> store" where
  "console_serve uid clk (StartTask q) s = answer_as TaskStarted (create_console_task q (uid 0) clk s)"
| "console_serve uid clk (StartTaskForm node_id command who) s =
     answer_as Redirected (task_create_form node_id command who (uid 0) clk s)"
| "console_serve uid clk (Decide approval_id decision who) s =
     answer_as Redirected (console_decision approval_id decision who uid clk s)"
| "console_serve uid clk (RunComponent component_id q) s =
     answer_as RunRecorded (console_component_run component_id q uid clk s)"
| "console_serve uid clk (RestoreRun node_id backup_id who) s =
     (case console_restore_run node_id backup_id who (uid 0) clk s of (d, s') \<Rightarrow> (Answer (RestoreRequested d), s'))"
| "console_serve uid clk (CreateToken q) s = answer_as TokenCreated (console_join_token q (uid 0) clk s)"
| "console_serve uid clk (UpdatePolicy p) s =
     (case update_console_join_policy p clk s of (p', s') \<Rightarrow> (Answer (PolicyUpdated p'), s'))"

definition console_step ::
  "(string \<Rightarrow> string \<Rightarrow> string) \<Rightarrow> web_env \<Rightarrow> string option \<Rightarrow> (nat \<Rightarrow> string) \<Rightarrow> (nat \<Rightarrow> time) \<Rightarrow> console_request
    \<Rightarrow> store \<Rightarrow> console_answer http \<times> store" where
  "console_step hmac env cookie uid clk request s =
     (case require_session hmac env cookie (clk 0) of
        Refused code d \<Rightarrow> (Refused code d, s)
      | Crashed e \<Rightarrow> (Crashed e, s)
      | Answer _ \<Rightarrow> console_serve uid (\<lambda>k. clk (k + 1)) request s)"

section \<open>What a request keeps\<close>

definition console_keeps :: "store \<Rightarrow> store \<Rightarrow> bool" where
  "console_keeps s s' \<longleftrightarrow> nodes s' = nodes s \<and> audit_extends s s'"

lemma console_keeps_refl [simp, intro]: "console_keeps s s"
  by (simp add: console_keeps_def)

lemma console_keeps_trans: "console_keeps s t \<Longrightarrow> console_keeps t u \<Longrightarrow> console_keeps s u"
  by (auto simp: console_keeps_def intro: audit_extends_trans)

lemma console_keeps_audit: "console_keeps s t \<Longrightarrow> console_keeps s (record_audit et st sid act out d now t)"
  by (auto simp: console_keeps_def)

lemma console_keeps_same: "nodes t = nodes s \<Longrightarrow> audit_events t = audit_events s \<Longrightarrow> console_keeps s t"
  by (simp add: console_keeps_def audit_extends_same)

lemma decides_keeps: "decides_only s t \<Longrightarrow> console_keeps s t"
  by (simp add: decides_only_def console_keeps_def)

lemmas keeps_intros = console_keeps_audit console_keeps_same console_keeps_refl

lemma create_keeps:
  "console_keeps s (snd (create_task n c risk who ex uid clk s))"
  "console_keeps s (snd (create_approval_request st sid act risk who d uid clk s))"
  by (auto simp: create_task_def create_approval_request_def Let_def save_approval_request_def intro!: keeps_intros)

lemma console_task_keeps: "console_keeps s (snd (create_console_task q uid clk s))"
  by (simp add: create_console_task_def Let_def case_prod_beta create_keeps split: option.split)

lemma carry_out_keeps:
  "console_keeps s (snd (carry_out_task a uid clk s))" "console_keeps s (snd (carry_out_component a clk s))"
  using dispatch_task_decides [of s "ap_approval_id a" uid clk] dispatch_component_decides [of s "ap_approval_id a" clk]
  by (auto simp: carry_out_task_def carry_out_component_def decides_keeps split: prod.split sum.split option.split)

lemma decision_keeps: "console_keeps s (snd (console_decision k decision who uid clk s))"
proof -
  let ?s1 = "\<lambda>d. snd (resolve_approval_request k d who (uid 0) clk s)"
  have k1: "console_keeps s (?s1 d)" for d by (rule decides_keeps [OF resolve_decides])
  have k2: "console_keeps s (snd (carry_out_task a u c (?s1 d)))" for a u c d
    using k1 carry_out_keeps(1) by (rule console_keeps_trans)
  have k3: "console_keeps s (snd (carry_out_component a c (snd (carry_out_task a' u c' (?s1 d)))))" for a a' u c c' d
    using k2 carry_out_keeps(2) by (rule console_keeps_trans)
  have k4: "console_keeps s (snd (carry_out_component a c (?s1 d)))" for a c d
    using k1 carry_out_keeps(2) by (rule console_keeps_trans)
  show ?thesis
    using k1 k2 k3 k4
    by (simp add: console_decision_def case_prod_beta split: option.split sum.split carried.split)
qed

lemma component_run_keeps: "console_keeps s (snd (console_component_run c q uid clk s))"
proof -
  have rec: "console_keeps s (snd (record_component_run cid n act risk st plan res who u c s))" for cid n act risk st plan res who u c
    by (auto simp: record_component_run_def insert_component_run_def bind_result_def Let_def intro!: keeps_intros split: sum.split)
  have app: "console_keeps s (snd (create_approval_request st' sid' act' risk' who' d' u' c'
      (snd (record_component_run cid n act risk st plan res who u c s))))"
    for st' sid' act' risk' who' d' u' c' cid n act risk st plan res who u c
    using rec create_keeps(2) by (rule console_keeps_trans)
  show ?thesis
    by (simp add: console_component_run_def Let_def case_prod_beta rec app split: sum.split)
qed

lemma serve_keeps: "console_keeps s (snd (console_serve uid clk request s))"
proof (cases request)
  case (CreateToken q)
  then show ?thesis
    by (auto simp: answer_as_def console_join_token_def Let_def save_token_def intro!: keeps_intros split: sum.split)
next
  case (UpdatePolicy p)
  then show ?thesis by (auto simp: update_console_join_policy_def set_setting_def intro!: keeps_intros)
next
  case (RestoreRun n b who)
  then show ?thesis using create_keeps(2) by (auto simp: console_restore_run_def split: prod.split) (metis snd_conv)
next
  case (StartTaskForm n c who)
  then show ?thesis using console_task_keeps
    by (auto simp: answer_as_def task_create_form_def split: prod.split http.split) (metis snd_conv)+
next
  case (StartTask q)
  then show ?thesis using console_task_keeps by (auto simp: answer_as_def split: prod.split http.split) (metis snd_conv)+
next
  case (Decide k d who)
  then show ?thesis using decision_keeps by (auto simp: answer_as_def split: prod.split http.split) (metis snd_conv)+
next
  case (RunComponent c q)
  then show ?thesis using component_run_keeps by (auto simp: answer_as_def split: prod.split http.split) (metis snd_conv)+
qed

section \<open>Properties\<close>

text \<open>C16: No request to the console changes the store or is answered unless its cookie carries the HMAC, under the server's
  secret, of the user name and issue time it names, and was issued at most twelve hours before; and even then
  no node is added or changed and the audit log only grows.\<close>

theorem console_changes_need_a_session:
  "case console_step hmac env cookie uid clk request s of (r, s') \<Rightarrow>
     (if \<exists>v username issued_at secret. cookie = Some v \<and> session_secret env = Inr secret
          \<and> decode_session_cookie v = Some (username, issued_at, hmac secret (session_payload username issued_at))
          \<and> whole_seconds (clk 0) \<le> issued_at + SESSION_TTL_SECONDS
      then nodes s' = nodes s \<and> audit_extends s s'
      else s' = s \<and> (r = refuse 401 ''login required'' \<or> (\<exists>e. r = Crashed e)))"
  using session_needs_a_signature [where hmac = hmac and env = env and cookie = cookie and now = "clk 0"] serve_keeps [of s uid "\<lambda>k. clk (k + 1)" request]
  unfolding console_step_def require_session_def console_keeps_def
  by (cases "is_authenticated hmac env cookie (clk 0)") (auto split: prod.split)

end
