(* ===== verification/Orchestrator.thy ===== *)
theory Orchestrator imports AuditLog begin

text \<open>
  The task orchestrator (\<open>orchestrator.py\<close>): a priority queue of agent tasks, the workers that take
  them, leases, retries and reports, in five tables of their own.  \<open>tick\<close> is one round of the
  scheduler.  The bridge that carries a task to its worker is a parameter: \<open>None\<close> where none is
  configured, otherwise a function that gives the text of the exception it raises, if it raises one.

  A round is one transaction: what an exception interrupts is not committed.
\<close>

section \<open>Task ids\<close>

definition TASK_ID_CHARS :: string where
  "TASK_ID_CHARS = ''abcdefghijklmnopqrstuvwxyzABCDEFGHIJKLMNOPQRSTUVWXYZ0123456789-_''"

definition safe_task_id :: "string \<Rightarrow> string result" where
  "safe_task_id v =
     (if v = [] \<or> list_ex (\<lambda>part. part \<in> {[], ''.'', ''..''}) (split_on CHR ''/'' (replace_all [CHR 0x5C] ''/'' v))
      then Inl (ValueError ''task_id must not contain path separators or traversal segments'')
      else if list_ex (\<lambda>ch. ch \<notin> set TASK_ID_CHARS) v
      then Inl (ValueError (''task_id may only contain letters, digits, '' @ [CHR 0x27] @ ''-'' @ [CHR 0x27] @ '' and ''
             @ [CHR 0x27] @ ''_'' @ [CHR 0x27]))
      else Inr v)"

section \<open>Queue and workers\<close>

definition orch_audit :: "string \<Rightarrow> string \<Rightarrow> string \<Rightarrow> dict \<Rightarrow> time \<Rightarrow> store \<Rightarrow> store" where
  "orch_audit subject_id action outcome details now s =
     record_audit ''orchestrator'' ''orchestrator_task'' subject_id action outcome details now s"

definition enqueue ::
  "string \<Rightarrow> string \<Rightarrow> string \<Rightarrow> int \<Rightarrow> string \<Rightarrow> string \<Rightarrow> string \<Rightarrow> (nat \<Rightarrow> time) \<Rightarrow> store
    \<Rightarrow> string result \<times> store" where
  "enqueue title scope risk priority worker_hint source uid clk s =
     (let task_id = ''orch_'' @ uid;
          t = \<lparr>ot_task_id = task_id, ot_title = title, ot_scope = scope, ot_risk = risk, ot_priority = priority,
               ot_status = ''queued'', ot_worker_hint = worker_hint, ot_source = source, ot_created_at = clk 0,
               ot_updated_at = clk 0, ot_attempts = 0\<rparr>
      in case tbl_insert ot_task_id t (orchestrator_tasks s) of
           Inl e \<Rightarrow> (Inl e, s)
         | Inr rows \<Rightarrow>
             (Inr task_id,
              orch_audit task_id ''enqueue'' ''queued''
                [(''title'', JStr title), (''scope'', JStr scope), (''risk'', JStr risk), (''priority'', JInt priority),
                 (''worker_hint'', JStr worker_hint), (''source'', JStr source)]
                (clk 1) (s\<lparr>orchestrator_tasks := rows\<rparr>)))"

definition register_worker :: "string \<Rightarrow> string \<Rightarrow> string \<Rightarrow> string list \<Rightarrow> time \<Rightarrow> store \<Rightarrow> store" where
  "register_worker worker_id transport status labels now s =
     s\<lparr>orchestrator_workers :=
         tbl_upsert ow_worker_id (\<lambda>old new. new\<lparr>ow_registered_at := ow_registered_at old\<rparr>)
           \<lparr>ow_worker_id = worker_id, ow_transport = transport, ow_status = status, ow_labels = labels,
            ow_registered_at = now, ow_updated_at = now\<rparr> (orchestrator_workers s)\<rparr>"

definition update_worker ::
  "string \<Rightarrow> string \<Rightarrow> string option \<Rightarrow> string list option \<Rightarrow> time \<Rightarrow> store \<Rightarrow> store" where
  "update_worker worker_id status transport labels now s =
     (case tbl_find ow_worker_id worker_id (orchestrator_workers s) of
        None \<Rightarrow>
          s\<lparr>orchestrator_workers := orchestrator_workers s @
              [\<lparr>ow_worker_id = worker_id,
                ow_transport = (case transport of Some t \<Rightarrow> if t = [] then ''bridge'' else t | None \<Rightarrow> ''bridge''),
                ow_status = status, ow_labels = (case labels of Some l \<Rightarrow> l | None \<Rightarrow> []),
                ow_registered_at = now, ow_updated_at = now\<rparr>]\<rparr>
      | Some current \<Rightarrow>
          s\<lparr>orchestrator_workers := tbl_update ow_worker_id worker_id
              (\<lambda>r. r\<lparr>ow_transport := (case transport of Some t \<Rightarrow> t | None \<Rightarrow> ow_transport current),
                     ow_status := status,
                     ow_labels := (case labels of Some l \<Rightarrow> l | None \<Rightarrow> ow_labels current),
                     ow_updated_at := now\<rparr>) (orchestrator_workers s)\<rparr>)"

section \<open>One round of the scheduler\<close>

text \<open>The leases of this moment: a leased assignment of a leased task.\<close>

definition task_leased :: "string \<Rightarrow> store \<Rightarrow> bool" where
  "task_leased task_id s =
     (case tbl_find ot_task_id task_id (orchestrator_tasks s) of None \<Rightarrow> False | Some t \<Rightarrow> ot_status t = ''leased'')"

definition leased_rows :: "store \<Rightarrow> orch_assignment list" where
  "leased_rows s =
     filter (\<lambda>a. oa_status a = ''leased'' \<and> task_leased (oa_task_id a) s) (orchestrator_assignments s)"

definition end_lease :: "time \<Rightarrow> string \<Rightarrow> store \<Rightarrow> store" where
  "end_lease now task_id s =
     s\<lparr>orchestrator_assignments := tbl_update oa_task_id task_id
           (\<lambda>r. r\<lparr>oa_status := ''expired'', oa_updated_at := now\<rparr>) (orchestrator_assignments s),
       orchestrator_tasks := tbl_update ot_task_id task_id
           (\<lambda>t. t\<lparr>ot_status := ''queued'', ot_updated_at := now\<rparr>) (orchestrator_tasks s)\<rparr>"

definition expire_leases :: "time \<Rightarrow> int \<Rightarrow> store \<Rightarrow> store" where
  "expire_leases now lease_timeout_seconds s =
     fold (\<lambda>a s'. if now - oa_leased_at a > seconds lease_timeout_seconds then end_lease now (oa_task_id a) s' else s')
       (leased_rows s) s"

definition dispatchable :: "orch_task \<Rightarrow> bool" where
  "dispatchable t \<longleftrightarrow> ot_status t = ''queued'' \<and> ot_risk t = ''low''"

definition next_orch_task :: "store \<Rightarrow> orch_task option" where
  "next_orch_task s =
     first_row (order_by (\<lambda>t. - ot_priority t) (order_by ot_created_at (order_by ot_task_id
       (filter dispatchable (orchestrator_tasks s)))))"

definition ready_worker :: "orch_worker \<Rightarrow> bool" where
  "ready_worker w \<longleftrightarrow> ow_status w = ''online'' \<and> ow_transport w = ''bridge''"

definition next_orch_worker :: "store \<Rightarrow> orch_worker option" where
  "next_orch_worker s =
     first_row (order_desc ow_updated_at (order_by ow_worker_id (filter ready_worker (orchestrator_workers s))))"

record tick_result =
  tc_dispatched :: "(string \<times> string) list"
  tc_blocked :: "dict list"
  tc_next :: string

definition orch_report :: "string \<Rightarrow> string \<Rightarrow> string \<Rightarrow> string \<Rightarrow> time \<Rightarrow> orch_report" where
  "orch_report uid task_id status summary now =
     \<lparr>rp_report_id = ''orch_rep_'' @ uid, rp_task_id = task_id, rp_status = status, rp_summary = summary,
      rp_created_at = now\<rparr>"

text \<open>The bridge raised: another attempt is counted, and the last one pauses the task.\<close>

definition dispatch_failed ::
  "orch_task \<Rightarrow> orch_worker \<Rightarrow> string \<Rightarrow> int \<Rightarrow> (nat \<Rightarrow> string) \<Rightarrow> (nat \<Rightarrow> time) \<Rightarrow> store
    \<Rightarrow> tick_result result \<times> store" where
  "dispatch_failed t w err max_retries uid clk s =
     (let attempts = ot_attempts t + 1;
          now = clk 0;
          paused = attempts \<ge> max_retries;
          status = (if paused then ''paused'' else ''retry'');
          summary = (if paused then utf8_text [0x8FDE, 0x7EED] @ '' '' @ show_int max_retries @ '' '' @ utf8_text [0x6B21, 0x5206, 0x53D1, 0x5931, 0x8D25, 0xFF0C, 0x5DF2, 0x6682, 0x505C]
                     else ''bridge dispatch failed: '' @ err);
          s1 = s\<lparr>orchestrator_tasks := tbl_update ot_task_id (ot_task_id t)
                  (\<lambda>r. if paused then r\<lparr>ot_status := ''paused'', ot_attempts := attempts, ot_updated_at := now\<rparr>
                       else r\<lparr>ot_attempts := attempts, ot_updated_at := now\<rparr>) (orchestrator_tasks s)\<rparr>
      in case tbl_insert rp_report_id (orch_report (uid 0) (ot_task_id t) status summary now) (orchestrator_reports s1) of
           Inl e \<Rightarrow> (Inl e, s)
         | Inr rows \<Rightarrow>
             (Inr \<lparr>tc_dispatched = [],
                   tc_blocked = [[(''task_id'', JStr (ot_task_id t)), (''reason'', JStr summary)]
                                 @ (if paused then [] else [(''attempt'', JInt attempts)])],
                   tc_next = (if paused then utf8_text [0x7B49, 0x5F85, 0x4E3B, 0x63A7, 0x68C0, 0x67E5] @ '' worker/bridge '' @ utf8_text [0x72B6, 0x6001]
                              else utf8_text [0x7B49, 0x5F85, 0x4E0B, 0x4E00, 0x8F6E, 0x91CD, 0x8BD5])\<rparr>,
              orch_audit (ot_task_id t) ''tick/dispatch_failed'' status
                [(''worker_id'', JStr (ow_worker_id w)), (''attempts'', JInt attempts), (''error'', JStr err)]
                (clk 1) (s1\<lparr>orchestrator_reports := rows\<rparr>)))"

definition lease_task ::
  "orch_task \<Rightarrow> orch_worker \<Rightarrow> (nat \<Rightarrow> string) \<Rightarrow> (nat \<Rightarrow> time) \<Rightarrow> store \<Rightarrow> tick_result result \<times> store" where
  "lease_task t w uid clk s =
     (let now = clk 0;
          s1 = s\<lparr>orchestrator_tasks := tbl_update ot_task_id (ot_task_id t)
                  (\<lambda>r. r\<lparr>ot_status := ''leased'', ot_updated_at := now\<rparr>) (orchestrator_tasks s)\<rparr>
      in case tbl_insert oa_assignment_id
               \<lparr>oa_assignment_id = ''orch_asg_'' @ uid 0, oa_task_id = ot_task_id t, oa_worker_id = ow_worker_id w,
                oa_status = ''leased'', oa_leased_at = now, oa_updated_at = now\<rparr> (orchestrator_assignments s1) of
           Inl e \<Rightarrow> (Inl e, s)
         | Inr assignments \<Rightarrow>
             (case tbl_insert rp_report_id (orch_report (uid 1) (ot_task_id t) ''leased''
                      (utf8_text [0x5DF2, 0x5206, 0x53D1, 0x7ED9] @ '' '' @ ow_worker_id w) now) (orchestrator_reports s1) of
                Inl e \<Rightarrow> (Inl e, s)
              | Inr reports \<Rightarrow>
                  (Inr \<lparr>tc_dispatched = [(ot_task_id t, ow_worker_id w)], tc_blocked = [], tc_next = utf8_text [0x7B49, 0x5F85] @ '' worker '' @ utf8_text [0x56DE, 0x62A5]\<rparr>,
                   orch_audit (ot_task_id t) ''tick/lease'' ''leased'' [(''worker_id'', JStr (ow_worker_id w))] (clk 1)
                     (s1\<lparr>orchestrator_assignments := assignments, orchestrator_reports := reports\<rparr>))))"

text \<open>
  A round that no other round overlaps.  The source reads the leases, the task and the worker outside any transaction
  unless a lease has lapsed, and commits without looking again; the steps of rounds that do overlap are in
  \<open>OrchestratorRounds\<close>.
\<close>

definition tick ::
  "(orch_task \<Rightarrow> orch_worker \<Rightarrow> string option) option \<Rightarrow> int \<Rightarrow> int \<Rightarrow> (nat \<Rightarrow> string) \<Rightarrow> (nat \<Rightarrow> time) \<Rightarrow> store
    \<Rightarrow> tick_result result \<times> store" where
  "tick bridge_adapter max_retries lease_timeout_seconds uid clk s =
     (let s1 = expire_leases (clk 0) lease_timeout_seconds s
      in case next_orch_task s1 of
           None \<Rightarrow> (Inr \<lparr>tc_dispatched = [], tc_blocked = [], tc_next = utf8_text [0x6682, 0x65E0, 0x4F4E, 0x98CE, 0x9669, 0x53EF, 0x5206, 0x53D1, 0x4EFB, 0x52A1]\<rparr>, s1)
         | Some t \<Rightarrow>
             (case next_orch_worker s1 of
                None \<Rightarrow>
                  (Inr \<lparr>tc_dispatched = [],
                        tc_blocked = [[(''task_id'', JStr (ot_task_id t)), (''reason'', JStr (utf8_text [0x6682, 0x65E0] @ '' online bridge worker''))]],
                        tc_next = utf8_text [0x7B49, 0x5F85] @ '' worker '' @ utf8_text [0x4E0A, 0x7EBF, 0x540E, 0x91CD, 0x8BD5]\<rparr>, s1)
              | Some w \<Rightarrow>
                  (case (case bridge_adapter of None \<Rightarrow> None | Some send \<Rightarrow> send t w) of
                     Some err \<Rightarrow>
                       (case dispatch_failed t w err max_retries uid clk s1 of
                          (Inl e, _) \<Rightarrow> (Inl e, s)
                        | out \<Rightarrow> out)
                   | None \<Rightarrow>
                       (case lease_task t w uid clk s1 of
                          (Inl e, _) \<Rightarrow> (Inl e, s)
                        | out \<Rightarrow> out))))"

section \<open>What is shown\<close>

definition audit_reports :: "store \<Rightarrow> dict list" where
  "audit_reports s =
     map (\<lambda>e. [(''task_id'', JStr (ev_subject_id e)), (''status'', JStr (ev_outcome e)),
               (''summary'', py_or (dget (ev_details e) ''title'') (JStr (ev_action e)))])
       (take 5 (filter (\<lambda>e. ev_event_type e = ''orchestrator'') (list_audit_events s)))"

definition queue_row :: "orch_task \<Rightarrow> dict" where
  "queue_row t =
     [(''task_id'', JStr (ot_task_id t)), (''title'', JStr (ot_title t)), (''scope'', JStr (ot_scope t)),
      (''risk'', JStr (ot_risk t)), (''priority'', JInt (ot_priority t)), (''status'', JStr (ot_status t)),
      (''worker_hint'', JStr (ot_worker_hint t)), (''source'', JStr (ot_source t))]
     @ (if ot_attempts t = 0 then [] else [(''attempts'', JInt (ot_attempts t))])"

record orch_snapshot =
  sn_queue :: "dict list"
  sn_workers :: "dict list"
  sn_assignments :: "dict list"
  sn_worktrees :: "dict list"
  sn_reports :: "dict list"

text \<open>\<open>ORDER BY t DESC, k DESC\<close> is the reverse of the ascending order.\<close>

definition snapshot :: "store \<Rightarrow> orch_snapshot" where
  "snapshot s =
     (let reports = map (\<lambda>r. [(''task_id'', JStr (rp_task_id r)), (''status'', JStr (rp_status r)),
                              (''summary'', JStr (rp_summary r))])
            (take 5 (rev (order_by rp_created_at (order_by rp_report_id (orchestrator_reports s)))))
      in \<lparr>sn_queue = map queue_row
            (order_by (\<lambda>t. - ot_priority t) (order_by ot_created_at (order_by ot_task_id (orchestrator_tasks s)))),
          sn_workers = map (\<lambda>w. [(''worker_id'', JStr (ow_worker_id w)), (''transport'', JStr (ow_transport w)),
              (''status'', JStr (ow_status w)), (''labels'', JList (map JStr (ow_labels w)))])
            (order_by ow_worker_id (orchestrator_workers s)),
          sn_assignments = map (\<lambda>a. [(''task_id'', JStr (oa_task_id a)), (''worker_id'', JStr (oa_worker_id a)),
              (''status'', JStr (oa_status a))])
            (rev (order_by oa_leased_at (order_by oa_assignment_id (orchestrator_assignments s)))),
          sn_worktrees = map (\<lambda>w. [(''task_id'', JStr (wt_task_id w)), (''worker_id'', JStr (wt_worker_id w)),
              (''branch'', JStr (wt_branch w)), (''path'', JStr (wt_path w)), (''base'', JStr (wt_base w)),
              (''status'', JStr (wt_status w))])
            (order_by wt_created_at (order_by wt_task_id (orchestrator_worktrees s))),
          sn_reports = (if reports = [] then audit_reports s else reports)\<rparr>)"

definition report :: "store \<Rightarrow> string" where
  "report s =
     (let sn = snapshot s;
          latest = (case sn_reports sn of [] \<Rightarrow> utf8_text [0x6682, 0x65E0] | r # _ \<Rightarrow> py_str (dget_or r ''summary'' (JStr (utf8_text [0x6682, 0x65E0]))))
      in utf8_text [0x961F, 0x5217] @ '' '' @ show_int (int (length (sn_queue sn)))
         @ utf8_text [0xFF5C] @ ''worker '' @ show_int (int (length (sn_workers sn))) @ utf8_text [0xFF5C, 0x6700, 0x8FD1, 0xFF1A] @ latest)"

end
