(* ===== verification/OrchestratorLaws.thy ===== *)
theory OrchestratorLaws imports Orchestrator begin

text \<open>
  What the scheduler promises of rounds that no other round overlaps: the life of a task as a step relation that every run of the
  orchestrator refines (\<open>orch_step\<close>, \<open>orch_life\<close>), one live lease per task (\<open>orch_ok\<close>), which task a
  round serves, and the end of the retries.
\<close>

section \<open>Leases that lapse\<close>

definition lapsed_ids :: "time \<Rightarrow> int \<Rightarrow> store \<Rightarrow> string set" where
  "lapsed_ids now timeout s =
     oa_task_id ` set (filter (\<lambda>a. now - oa_leased_at a > seconds timeout) (leased_rows s))"

definition requeue_row :: "time \<Rightarrow> string set \<Rightarrow> orch_task \<Rightarrow> orch_task" where
  "requeue_row now ids t = (if ot_task_id t \<in> ids then t\<lparr>ot_status := ''queued'', ot_updated_at := now\<rparr> else t)"

definition expire_assignment :: "time \<Rightarrow> string set \<Rightarrow> orch_assignment \<Rightarrow> orch_assignment" where
  "expire_assignment now ids a = (if oa_task_id a \<in> ids then a\<lparr>oa_status := ''expired'', oa_updated_at := now\<rparr> else a)"

lemma requeue_row_fields [simp]:
  "ot_task_id (requeue_row now ids t) = ot_task_id t"
  "ot_risk (requeue_row now ids t) = ot_risk t"
  "ot_attempts (requeue_row now ids t) = ot_attempts t"
  "ot_priority (requeue_row now ids t) = ot_priority t"
  "ot_status (requeue_row now ids t) = (if ot_task_id t \<in> ids then ''queued'' else ot_status t)"
  by (simp_all add: requeue_row_def)

lemma expire_assignment_fields [simp]:
  "oa_task_id (expire_assignment now ids a) = oa_task_id a"
  "oa_assignment_id (expire_assignment now ids a) = oa_assignment_id a"
  "oa_worker_id (expire_assignment now ids a) = oa_worker_id a"
  "oa_status (expire_assignment now ids a) = (if oa_task_id a \<in> ids then ''expired'' else oa_status a)"
  by (simp_all add: expire_assignment_def)

lemma fold_end_lease:
  "fold (\<lambda>a s'. if P a then end_lease now (oa_task_id a) s' else s') rows s =
     s\<lparr>orchestrator_assignments := map (expire_assignment now (oa_task_id ` set (filter P rows))) (orchestrator_assignments s),
       orchestrator_tasks := map (requeue_row now (oa_task_id ` set (filter P rows))) (orchestrator_tasks s)\<rparr>"
proof (induction rows arbitrary: s)
  case Nil
  have "expire_assignment now {} = id" "requeue_row now {} = id"
    by (simp_all add: expire_assignment_def requeue_row_def fun_eq_iff)
  then show ?case by simp
next
  case (Cons a rows)
  show ?case
    unfolding fold_simps comp_def Cons.IH
    by (auto simp: end_lease_def tbl_update_def expire_assignment_def requeue_row_def)
qed

lemma expire_leases_eq:
  "expire_leases now timeout s =
     s\<lparr>orchestrator_assignments := map (expire_assignment now (lapsed_ids now timeout s)) (orchestrator_assignments s),
       orchestrator_tasks := map (requeue_row now (lapsed_ids now timeout s)) (orchestrator_tasks s)\<rparr>"
  unfolding expire_leases_def lapsed_ids_def by (rule fold_end_lease)

lemma lapsed_leased: "k \<in> lapsed_ids now timeout s \<Longrightarrow> task_leased k s"
  by (auto simp: lapsed_ids_def leased_rows_def)

lemma tbl_find_map:
  "(\<And>r. key (f r) = key r) \<Longrightarrow> tbl_find key k (map f rows) = map_option f (tbl_find key k rows)"
  by (induction rows) auto

lemma keys_distinct_map: "(\<And>r. key (f r) = key r) \<Longrightarrow> keys_distinct key (map f rows) = keys_distinct key rows"
  by (simp add: keys_distinct_def comp_def)

section \<open>The life of a task\<close>

text \<open>What the scheduler promises of one task, whatever happens to the others.\<close>

inductive orch_step :: "orch_task \<Rightarrow> orch_task \<Rightarrow> bool" where
  grant: "ot_status t = ''queued'' \<Longrightarrow> ot_risk t = ''low'' \<Longrightarrow>
    orch_step t (t\<lparr>ot_status := ''leased'', ot_updated_at := now\<rparr>)"
| lapse: "ot_status t = ''leased'' \<Longrightarrow> orch_step t (t\<lparr>ot_status := ''queued'', ot_updated_at := now\<rparr>)"
| retry: "ot_status t = ''queued'' \<Longrightarrow> ot_risk t = ''low'' \<Longrightarrow>
    orch_step t (t\<lparr>ot_attempts := ot_attempts t + 1, ot_updated_at := now\<rparr>)"
| pause: "ot_status t = ''queued'' \<Longrightarrow> ot_risk t = ''low'' \<Longrightarrow>
    orch_step t (t\<lparr>ot_status := ''paused'', ot_attempts := ot_attempts t + 1, ot_updated_at := now\<rparr>)"

inductive_simps orch_step_iff: "orch_step t t'"

definition orch_path :: "orch_task \<Rightarrow> orch_task \<Rightarrow> bool" where
  "orch_path = orch_step\<^sup>*\<^sup>*"

lemma orch_path_refl [simp, intro]: "orch_path t t"
  by (simp add: orch_path_def)

lemma orch_path_trans: "orch_path t t' \<Longrightarrow> orch_path t' t'' \<Longrightarrow> orch_path t t''"
  unfolding orch_path_def by (rule rtranclp_trans)

lemma orch_path_step: "orch_path t t' \<Longrightarrow> orch_step t' t'' \<Longrightarrow> orch_path t t''"
  unfolding orch_path_def by (rule rtranclp.rtrancl_into_rtrancl)

definition orch_stuck :: "orch_task \<Rightarrow> bool" where
  "orch_stuck t \<longleftrightarrow> ot_status t = ''paused'' \<or> ot_status t = ''queued'' \<and> ot_risk t \<noteq> ''low''"

lemma orch_stuck_path:
  assumes "orch_stuck t" and "orch_path t t'"
  shows "t' = t"
  using assms(2) unfolding orch_path_def
proof (induction rule: rtranclp_induct)
  case base
  show ?case ..
next
  case (step y z)
  with assms(1) show ?case by (auto simp: orch_stuck_def orch_step_iff)
qed

text \<open>What never changes, and what only grows.\<close>

lemma orch_path_keeps:
  assumes "orch_path t t'"
  shows "ot_task_id t' = ot_task_id t \<and> ot_risk t' = ot_risk t \<and> ot_priority t' = ot_priority t
    \<and> ot_created_at t' = ot_created_at t \<and> ot_attempts t \<le> ot_attempts t'"
  using assms unfolding orch_path_def
  by (induction rule: rtranclp_induct) (auto simp: orch_step_iff)

section \<open>Runs of the orchestrator\<close>

datatype orch_op =
    Enqueue string string string int string string string "nat \<Rightarrow> time"
  | RegisterWorker string string string "string list" time
  | UpdateWorker string string "string option" "string list option" time
  | Tick "(orch_task \<Rightarrow> orch_worker \<Rightarrow> string option) option" int int "nat \<Rightarrow> string" "nat \<Rightarrow> time"

fun orch_run :: "orch_op \<Rightarrow> store \<Rightarrow> store" where
  "orch_run (Enqueue title scope risk priority hint source uid clk) s =
     snd (enqueue title scope risk priority hint source uid clk s)"
| "orch_run (RegisterWorker w transport status labels now) s = register_worker w transport status labels now s"
| "orch_run (UpdateWorker w status transport labels now) s = update_worker w status transport labels now s"
| "orch_run (Tick bridge max_retries timeout uid clk) s = snd (tick bridge max_retries timeout uid clk s)"

lemma orch_audit_frame [simp]:
  "orchestrator_tasks (orch_audit k act out d now s) = orchestrator_tasks s"
  "orchestrator_assignments (orch_audit k act out d now s) = orchestrator_assignments s"
  "orchestrator_reports (orch_audit k act out d now s) = orchestrator_reports s"
  "orchestrator_workers (orch_audit k act out d now s) = orchestrator_workers s"
  "audit_events (orch_audit k act out d now s) = audit_events (record_audit ''orchestrator'' ''orchestrator_task'' k act out d now s)"
  by (simp_all add: orch_audit_def record_audit_def insert_audit_event_def)

lemma next_orch_task_in:
  "next_orch_task s = Some t \<Longrightarrow> t \<in> set (orchestrator_tasks s) \<and> dispatchable t"
  by (auto simp: next_orch_task_def order_by_def dest!: first_row_sort_key(1))

text \<open>The four ways a round can end, with the tables it leaves.\<close>

lemma tick_cases:
  assumes "tick bridge m timeout uid clk s = (r, s')"
  defines "s1 \<equiv> expire_leases (clk 0) timeout s"
  obtains
    (error) e where "r = Inl e" and "s' = s"
  | (idle) "s' = s1" and "\<exists>res. r = Inr res \<and> tc_dispatched res = []" and "next_orch_task s1 = None \<or> next_orch_worker s1 = None"
  | (failed) t w err res where "next_orch_task s1 = Some t" and "next_orch_worker s1 = Some w"
      and "r = Inr res" and "tc_dispatched res = []" and "\<exists>send. bridge = Some send \<and> send t w = Some err"
      and "orchestrator_tasks s' = tbl_update ot_task_id (ot_task_id t)
             (\<lambda>r. if ot_attempts t + 1 \<ge> m then r\<lparr>ot_status := ''paused'', ot_attempts := ot_attempts t + 1, ot_updated_at := clk 0\<rparr>
                  else r\<lparr>ot_attempts := ot_attempts t + 1, ot_updated_at := clk 0\<rparr>) (orchestrator_tasks s1)"
      and "orchestrator_assignments s' = orchestrator_assignments s1"
      and "orchestrator_workers s' = orchestrator_workers s1" and "audit_extends s1 s'"
  | (leased) t w res where "next_orch_task s1 = Some t" and "next_orch_worker s1 = Some w"
      and "r = Inr res" and "tc_dispatched res = [(ot_task_id t, ow_worker_id w)]"
      and "orchestrator_tasks s' = tbl_update ot_task_id (ot_task_id t)
             (\<lambda>r. r\<lparr>ot_status := ''leased'', ot_updated_at := clk 0\<rparr>) (orchestrator_tasks s1)"
      and "orchestrator_assignments s' = orchestrator_assignments s1 @
             [\<lparr>oa_assignment_id = ''orch_asg_'' @ uid 0, oa_task_id = ot_task_id t, oa_worker_id = ow_worker_id w,
               oa_status = ''leased'', oa_leased_at = clk 0, oa_updated_at = clk 0\<rparr>]"
      and "orchestrator_workers s' = orchestrator_workers s1" and "audit_extends s1 s'"
proof (cases "next_orch_task s1")
  case None
  then show thesis using assms(1) by (intro idle) (auto simp: tick_def s1_def Let_def)
next
  case t: (Some t)
  show thesis
  proof (cases "next_orch_worker s1")
    case None
    then show thesis using assms(1) t by (intro idle) (auto simp: tick_def s1_def Let_def)
  next
    case w: (Some w)
    have eq: "tick bridge m timeout uid clk s =
        (case (case bridge of None \<Rightarrow> None | Some send \<Rightarrow> send t w) of
           Some err \<Rightarrow> (case dispatch_failed t w err m uid clk s1 of (Inl e, _) \<Rightarrow> (Inl e, s) | out \<Rightarrow> out)
         | None \<Rightarrow> (case lease_task t w uid clk s1 of (Inl e, _) \<Rightarrow> (Inl e, s) | out \<Rightarrow> out))"
      unfolding tick_def Let_def s1_def [symmetric] by (simp add: t w)
    show thesis
    proof (cases "case bridge of None \<Rightarrow> None | Some send \<Rightarrow> send t w")
      case None
      obtain r2 s2 where d: "lease_task t w uid clk s1 = (r2, s2)" by fastforce
      show thesis
      proof (cases r2)
        case (Inl e)
        then show thesis using error eq None d assms(1) by simp
      next
        case (Inr res)
        have "r = Inr res" "s' = s2" using eq None d assms(1) Inr by simp_all
        with d Inr show thesis
          by (intro leased [OF t w]) (auto simp: lease_task_def Let_def audit_extends_def audit_simps
              dest!: tbl_insert_Inr split: sum.splits)
      qed
    next
      case (Some err)
      obtain r2 s2 where d: "dispatch_failed t w err m uid clk s1 = (r2, s2)" by fastforce
      show thesis
      proof (cases r2)
        case (Inl e)
        then show thesis using error eq Some d assms(1) by simp
      next
        case (Inr res)
        have "r = Inr res" "s' = s2" using eq Some d assms(1) Inr by simp_all
        moreover have "\<exists>send. bridge = Some send \<and> send t w = Some err"
          using Some by (auto split: option.splits)
        ultimately show thesis using d Inr
          by (intro failed [OF t w]) (auto simp: dispatch_failed_def Let_def audit_extends_def audit_simps
              dest!: tbl_insert_Inr split: sum.splits)
      qed
    qed
  qed
qed

section \<open>One live lease per task\<close>

definition live_leases :: "string \<Rightarrow> store \<Rightarrow> orch_assignment list" where
  "live_leases k s = filter (\<lambda>a. oa_task_id a = k \<and> oa_status a = ''leased'') (orchestrator_assignments s)"

definition orch_row_ok :: "orch_task \<Rightarrow> bool" where
  "orch_row_ok t \<longleftrightarrow> ot_status t \<in> {''queued'', ''leased'', ''paused''} \<and> (ot_status t = ''queued'' \<or> ot_risk t = ''low'')"

definition orch_ok :: "store \<Rightarrow> bool" where
  "orch_ok s \<longleftrightarrow> keys_distinct ot_task_id (orchestrator_tasks s)
     \<and> list_all orch_row_ok (orchestrator_tasks s)
     \<and> (\<forall>k. length (live_leases k s) = (if task_leased k s then 1 else 0))"

abbreviation find_orch :: "store \<Rightarrow> string \<Rightarrow> orch_task option" where
  "find_orch s k \<equiv> tbl_find ot_task_id k (orchestrator_tasks s)"

lemma orch_ok_cong:
  "orchestrator_tasks s' = orchestrator_tasks s \<Longrightarrow> orchestrator_assignments s' = orchestrator_assignments s
    \<Longrightarrow> orch_ok s' = orch_ok s"
  by (simp add: orch_ok_def live_leases_def task_leased_def)

lemma keys_distinct_same:
  "keys_distinct key rows \<Longrightarrow> r \<in> set rows \<Longrightarrow> q \<in> set rows \<Longrightarrow> key r = key q \<Longrightarrow> r = q"
  by (auto simp: keys_distinct_def distinct_map inj_on_def)

lemma tbl_update_as_map: "tbl_update key k f rows = map (\<lambda>r. if key r = k then f r else r) rows"
  by (simp add: tbl_update_def)

lemma task_leased_map:
  assumes "orchestrator_tasks s' = map f (orchestrator_tasks s)" and "\<And>t. ot_task_id (f t) = ot_task_id t"
  shows "task_leased k s' = (case tbl_find ot_task_id k (orchestrator_tasks s) of None \<Rightarrow> False | Some t \<Rightarrow> ot_status (f t) = ''leased'')"
  using assms by (simp add: task_leased_def tbl_find_map split: option.split)

lemma expire_leases_ok:
  assumes "orch_ok s"
  shows "orch_ok (expire_leases now timeout s)"
proof -
  let ?ids = "lapsed_ids now timeout s"
  let ?s1 = "expire_leases now timeout s"
  have leased: "task_leased k ?s1 = (task_leased k s \<and> k \<notin> ?ids)" for k
  proof -
    have "task_leased k ?s1 = (case tbl_find ot_task_id k (orchestrator_tasks s) of None \<Rightarrow> False
        | Some t \<Rightarrow> ot_status (requeue_row now ?ids t) = ''leased'')"
      by (rule task_leased_map) (simp_all add: expire_leases_eq)
    then show ?thesis by (auto simp: task_leased_def dest: tbl_find_Some split: option.splits)
  qed
  have live: "live_leases k ?s1 = (if k \<in> ?ids then [] else live_leases k s)" for k
  proof -
    have "live_leases k ?s1 = map (expire_assignment now ?ids)
        (filter (\<lambda>a. oa_task_id a = k \<and> oa_status a = ''leased'' \<and> k \<notin> ?ids) (orchestrator_assignments s))"
      by (auto simp: live_leases_def expire_leases_eq filter_map comp_def intro!: arg_cong [where f = "map _"] filter_cong)
    also have "\<dots> = (if k \<in> ?ids then [] else live_leases k s)"
      by (auto simp: live_leases_def expire_assignment_def intro!: map_idI)
    finally show ?thesis .
  qed
  have kd: "keys_distinct ot_task_id (orchestrator_tasks ?s1)"
    using assms by (simp add: orch_ok_def expire_leases_eq keys_distinct_map)
  have rows: "list_all orch_row_ok (orchestrator_tasks ?s1)"
    using assms by (auto simp: orch_ok_def expire_leases_eq list_all_iff requeue_row_def orch_row_ok_def)
  have "length (live_leases k ?s1) = (if task_leased k ?s1 then 1 else 0)" for k
    using assms by (cases "k \<in> ?ids") (simp_all add: orch_ok_def leased live)
  with kd rows show ?thesis by (simp add: orch_ok_def)
qed

lemma queued_not_leased:
  assumes "keys_distinct ot_task_id (orchestrator_tasks s)" and "next_orch_task s = Some t"
  shows "\<not> task_leased (ot_task_id t) s" and "tbl_find ot_task_id (ot_task_id t) (orchestrator_tasks s) = Some t"
    and "ot_status t = ''queued''" and "ot_risk t = ''low''"
proof -
  have t: "t \<in> set (orchestrator_tasks s)" "dispatchable t" using next_orch_task_in [OF assms(2)] by auto
  then show "tbl_find ot_task_id (ot_task_id t) (orchestrator_tasks s) = Some t"
    by (simp add: keys_distinct_find assms(1))
  with t show "\<not> task_leased (ot_task_id t) s" "ot_status t = ''queued''" "ot_risk t = ''low''"
    by (simp_all add: task_leased_def dispatchable_def)
qed

text \<open>A failed attempt and a grant, of a task whose row is as it was read.\<close>

lemma failed_ok:
  assumes "orch_ok s" and q: "find_orch s (ot_task_id t) = Some t" "dispatchable t"
    and tabs: "orchestrator_tasks s' = tbl_update ot_task_id (ot_task_id t)
             (\<lambda>r. if ot_attempts t + 1 \<ge> m then r\<lparr>ot_status := ''paused'', ot_attempts := ot_attempts t + 1, ot_updated_at := now\<rparr>
                  else r\<lparr>ot_attempts := ot_attempts t + 1, ot_updated_at := now\<rparr>) (orchestrator_tasks s)"
      "orchestrator_assignments s' = orchestrator_assignments s"
  shows "orch_ok s'"
proof -
  have kd: "keys_distinct ot_task_id (orchestrator_tasks s)" using assms(1) by (simp add: orch_ok_def)
  let ?f = "\<lambda>r. if ot_attempts t + 1 \<ge> m
      then r\<lparr>ot_status := ''paused'', ot_attempts := ot_attempts t + 1, ot_updated_at := now\<rparr>
      else r\<lparr>ot_attempts := ot_attempts t + 1, ot_updated_at := now\<rparr>"
  let ?g = "\<lambda>r. if ot_task_id r = ot_task_id t then ?f r else r"
  have rows: "orchestrator_tasks s' = map ?g (orchestrator_tasks s)" using tabs(1) by (simp only: tbl_update_as_map)
  have kd': "keys_distinct ot_task_id (orchestrator_tasks s')" unfolding rows using kd by (subst keys_distinct_map) auto
  have leased: "task_leased k s' = task_leased k s" for k
  proof -
    have "task_leased k s' = (case find_orch s k of None \<Rightarrow> False | Some t' \<Rightarrow> ot_status (?g t') = ''leased'')"
      by (rule task_leased_map [OF rows]) auto
    also have "\<dots> = task_leased k s"
      using q by (cases "k = ot_task_id t")
        (auto simp: task_leased_def dispatchable_def dest: tbl_find_Some split: option.split)
    finally show ?thesis .
  qed
  have same: "t' = t" if "t' \<in> set (orchestrator_tasks s)" "ot_task_id t' = ot_task_id t" for t'
    using keys_distinct_same [OF kd that(1) _ that(2)] tbl_find_Some [OF q(1)] by blast
  have "orch_row_ok (?g r)" if "r \<in> set (orchestrator_tasks s)" for r
    using assms(1) same [OF that] that q(2) by (auto simp: orch_ok_def list_all_iff orch_row_ok_def dispatchable_def)
  then have "list_all orch_row_ok (orchestrator_tasks s')" by (simp only: rows list_all_iff set_map ball_simps(9) simp_thms, intro ballI)
  with assms(1) kd' leased show ?thesis by (simp add: orch_ok_def live_leases_def tabs(2))
qed

lemma leased_ok:
  assumes "orch_ok s" and q: "find_orch s (ot_task_id t) = Some t" "dispatchable t"
    and tabs: "orchestrator_tasks s' = tbl_update ot_task_id (ot_task_id t)
             (\<lambda>r. r\<lparr>ot_status := ''leased'', ot_updated_at := now\<rparr>) (orchestrator_tasks s)"
      "orchestrator_assignments s' = orchestrator_assignments s @
             [\<lparr>oa_assignment_id = j, oa_task_id = ot_task_id t, oa_worker_id = wk,
               oa_status = ''leased'', oa_leased_at = now, oa_updated_at = now\<rparr>]"
  shows "orch_ok s'"
proof -
  have kd: "keys_distinct ot_task_id (orchestrator_tasks s)" using assms(1) by (simp add: orch_ok_def)
  let ?g = "\<lambda>r. if ot_task_id r = ot_task_id t then r\<lparr>ot_status := ''leased'', ot_updated_at := now\<rparr> else r"
  have rows: "orchestrator_tasks s' = map ?g (orchestrator_tasks s)" using tabs(1) by (simp only: tbl_update_as_map)
  have kd': "keys_distinct ot_task_id (orchestrator_tasks s')" unfolding rows using kd by (subst keys_distinct_map) auto
  have lt: "task_leased k s' = (k = ot_task_id t \<or> task_leased k s)" for k
  proof -
    have "task_leased k s' = (case find_orch s k of None \<Rightarrow> False | Some t' \<Rightarrow> ot_status (?g t') = ''leased'')"
      by (rule task_leased_map [OF rows]) auto
    also have "\<dots> = (k = ot_task_id t \<or> task_leased k s)"
      using q by (cases "k = ot_task_id t") (auto simp: task_leased_def dest: tbl_find_Some split: option.split)
    finally show ?thesis .
  qed
  have live: "length (live_leases k s') = length (live_leases k s) + (if k = ot_task_id t then 1 else 0)" for k
    by (simp add: live_leases_def tabs(2))
  have same: "t' = t" if "t' \<in> set (orchestrator_tasks s)" "ot_task_id t' = ot_task_id t" for t'
    using keys_distinct_same [OF kd that(1) _ that(2)] tbl_find_Some [OF q(1)] by blast
  have "orch_row_ok (?g r)" if "r \<in> set (orchestrator_tasks s)" for r
    using assms(1) same [OF that] that q(2) by (auto simp: orch_ok_def list_all_iff orch_row_ok_def dispatchable_def)
  then have "list_all orch_row_ok (orchestrator_tasks s')" by (simp only: rows list_all_iff set_map ball_simps(9) simp_thms, intro ballI)
  moreover have "\<not> task_leased (ot_task_id t) s" using q by (simp add: task_leased_def dispatchable_def)
  then have "length (live_leases k s') = (if task_leased k s' then 1 else 0)" for k
    using assms(1) unfolding live lt by (auto simp: orch_ok_def)
  ultimately show ?thesis using kd' by (simp add: orch_ok_def)
qed

lemma tick_ok:
  assumes "orch_ok s"
  shows "orch_ok (snd (tick bridge m timeout uid clk s))"
proof -
  obtain r s' where tk: "tick bridge m timeout uid clk s = (r, s')" by fastforce
  let ?s1 = "expire_leases (clk 0) timeout s"
  have ok1: "orch_ok ?s1" using assms by (rule expire_leases_ok)
  then have kd: "keys_distinct ot_task_id (orchestrator_tasks ?s1)" by (simp add: orch_ok_def)
  from tk show ?thesis
  proof (cases rule: tick_cases)
    case (error e)
    then show ?thesis using assms tk by simp
  next
    case idle
    then show ?thesis using ok1 tk by simp
  next
    case (failed t w err res)
    have "dispatchable t" using next_orch_task_in [OF failed(1)] by blast
    from failed_ok [OF ok1 queued_not_leased(2) [OF kd failed(1)] this failed(6,7)] tk show ?thesis by simp
  next
    case (leased t w res)
    have "dispatchable t" using next_orch_task_in [OF leased(1)] by blast
    from leased_ok [OF ok1 queued_not_leased(2) [OF kd leased(1)] this leased(5,6)] tk show ?thesis by simp
  qed
qed

lemma enqueue_ok:
  assumes "orch_ok s"
  shows "orch_ok (snd (enqueue title scope risk priority hint source uid clk s))"
proof -
  let ?t = "\<lparr>ot_task_id = ''orch_'' @ uid, ot_title = title, ot_scope = scope, ot_risk = risk, ot_priority = priority,
      ot_status = ''queued'', ot_worker_hint = hint, ot_source = source, ot_created_at = clk 0,
      ot_updated_at = clk 0, ot_attempts = 0\<rparr>"
  show ?thesis
  proof (cases "tbl_insert ot_task_id ?t (orchestrator_tasks s)")
    case (Inl e)
    with assms show ?thesis by (simp add: enqueue_def Let_def)
  next
    case (Inr rows)
    let ?s' = "snd (enqueue title scope risk priority hint source uid clk s)"
    have r: "rows = orchestrator_tasks s @ [?t]" using tbl_insert_Inr [OF Inr] by simp
    have tabs: "orchestrator_tasks ?s' = orchestrator_tasks s @ [?t]" "orchestrator_assignments ?s' = orchestrator_assignments s"
      using Inr by (simp_all add: enqueue_def r Let_def)
    have "keys_distinct ot_task_id (orchestrator_tasks ?s')"
      using assms keys_distinct_insert [OF _ Inr] by (simp add: tabs r orch_ok_def)
    moreover have "task_leased k ?s' = task_leased k s" for k
      by (auto simp: task_leased_def tabs tbl_find_append split: option.splits)
    moreover have "orch_row_ok ?t" by (simp add: orch_row_ok_def)
    ultimately show ?thesis using assms by (simp add: orch_ok_def live_leases_def tabs)
  qed
qed

lemma worker_ops_frame [simp]:
  "orchestrator_tasks (register_worker w transport status labels now s) = orchestrator_tasks s"
  "orchestrator_assignments (register_worker w transport status labels now s) = orchestrator_assignments s"
  "audit_events (register_worker w transport status labels now s) = audit_events s"
  "orchestrator_tasks (update_worker w status tr ls now s) = orchestrator_tasks s"
  "orchestrator_assignments (update_worker w status tr ls now s) = orchestrator_assignments s"
  "audit_events (update_worker w status tr ls now s) = audit_events s"
  by (simp_all add: register_worker_def update_worker_def split: option.split)

lemma orch_ok_step: "orch_ok s \<Longrightarrow> orch_ok (orch_run i s)"
proof (cases i)
  case (RegisterWorker w tr status ls now)
  assume "orch_ok s"
  then show ?thesis by (simp add: RegisterWorker orch_ok_def live_leases_def task_leased_def)
next
  case (UpdateWorker w status tr ls now)
  assume "orch_ok s"
  then show ?thesis by (simp add: UpdateWorker orch_ok_def live_leases_def task_leased_def)
qed (simp_all add: enqueue_ok tick_ok)

lemma orch_ok_empty: "orch_ok empty_store"
  by (simp add: orch_ok_def live_leases_def task_leased_def empty_store_def keys_distinct_def)

section \<open>The scheduler refines the life of a task\<close>

lemma expire_leases_path:
  assumes "find_orch s k = Some t"
  shows "\<exists>t'. find_orch (expire_leases now timeout s) k = Some t' \<and> orch_path t t'"
proof -
  have f: "find_orch (expire_leases now timeout s) k = Some (requeue_row now (lapsed_ids now timeout s) t)"
    using assms by (simp add: expire_leases_eq tbl_find_map)
  have "orch_path t (requeue_row now (lapsed_ids now timeout s) t)"
  proof (cases "ot_task_id t \<in> lapsed_ids now timeout s")
    case True
    have "ot_task_id t = k" using assms by (auto dest: tbl_find_Some)
    then have "ot_status t = ''leased''"
      using lapsed_leased [OF True] assms by (auto simp: task_leased_def)
    then show ?thesis using True orch_path_step [OF orch_path_refl lapse] by (simp add: requeue_row_def)
  qed (simp add: requeue_row_def)
  with f show ?thesis by blast
qed

lemma tick_path:
  assumes "orch_ok s" and "find_orch s k = Some t"
  shows "\<exists>t'. find_orch (snd (tick bridge m timeout uid clk s)) k = Some t' \<and> orch_path t t'"
proof -
  obtain r s' where tk: "tick bridge m timeout uid clk s = (r, s')" by fastforce
  let ?s1 = "expire_leases (clk 0) timeout s"
  obtain t1 where t1: "find_orch ?s1 k = Some t1" "orch_path t t1" using expire_leases_path [OF assms(2)] by blast
  have kd: "keys_distinct ot_task_id (orchestrator_tasks ?s1)"
    using expire_leases_ok [OF assms(1)] by (simp add: orch_ok_def)
  have id: "ot_task_id t1 = k" using t1(1) by (auto dest: tbl_find_Some)
  from tk show ?thesis
  proof (cases rule: tick_cases)
    case (error e)
    with assms(2) tk show ?thesis by auto
  next
    case idle
    with t1 tk show ?thesis by auto
  next
    case (failed u w err res)
    note q = queued_not_leased [OF kd failed(1)]
    show ?thesis
    proof (cases "k = ot_task_id u")
      case True
      then have "t1 = u" using q(2) t1(1) by simp
      then have "orch_step t1 (if ot_attempts u + 1 \<ge> m
          then t1\<lparr>ot_status := ''paused'', ot_attempts := ot_attempts u + 1, ot_updated_at := clk 0\<rparr>
          else t1\<lparr>ot_attempts := ot_attempts u + 1, ot_updated_at := clk 0\<rparr>)"
        using orch_step.pause [OF q(3,4), of "clk 0"] orch_step.retry [OF q(3,4), of "clk 0"] by simp
      moreover have "find_orch s' k = Some (if ot_attempts u + 1 \<ge> m
          then t1\<lparr>ot_status := ''paused'', ot_attempts := ot_attempts u + 1, ot_updated_at := clk 0\<rparr>
          else t1\<lparr>ot_attempts := ot_attempts u + 1, ot_updated_at := clk 0\<rparr>)"
        unfolding failed(6) by (subst tbl_find_update) (use True t1(1) in auto)
      ultimately show ?thesis using tk orch_path_step [OF t1(2)] by auto
    next
      case False
      have "find_orch s' k = Some t1"
        unfolding failed(6) by (subst tbl_find_update) (use False t1(1) in auto)
      then show ?thesis using tk t1(2) by simp
    qed
  next
    case (leased u w res)
    note q = queued_not_leased [OF kd leased(1)]
    show ?thesis
    proof (cases "k = ot_task_id u")
      case True
      then have "t1 = u" using q(2) t1(1) by simp
      then have "orch_step t1 (t1\<lparr>ot_status := ''leased'', ot_updated_at := clk 0\<rparr>)"
        using q(3,4) by (auto intro: orch_step.grant)
      moreover have "find_orch s' k = Some (t1\<lparr>ot_status := ''leased'', ot_updated_at := clk 0\<rparr>)"
        unfolding leased(5) by (subst tbl_find_update) (use True t1(1) in auto)
      ultimately show ?thesis using tk orch_path_step [OF t1(2)] by auto
    next
      case False
      have "find_orch s' k = Some t1"
        unfolding leased(5) by (subst tbl_find_update) (use False t1(1) in auto)
      then show ?thesis using tk t1(2) by simp
    qed
  qed
qed

lemma enqueue_path:
  "find_orch s k = Some t \<Longrightarrow> find_orch (snd (enqueue title scope risk priority hint source uid clk s)) k = Some t"
  by (auto simp: enqueue_def Let_def tbl_find_append dest!: tbl_insert_Inr split: sum.splits)

interpretation orch_life: final_machine find_orch orch_run orch_path orch_ok orch_stuck
proof unfold_locales
  show "orch_path r r" for r by (rule orch_path_refl)
  show "orch_path r r' \<Longrightarrow> orch_path r' r'' \<Longrightarrow> orch_path r r''" for r r' r'' by (rule orch_path_trans)
  show "orch_ok s \<Longrightarrow> orch_ok (orch_run i s)" for s i by (rule orch_ok_step)
  show "orch_ok s \<Longrightarrow> find_orch s k = Some r \<Longrightarrow> \<exists>r'. find_orch (orch_run i s) k = Some r' \<and> orch_path r r'" for s k r i
    by (cases i) (auto simp: enqueue_path tick_path)
  show "orch_stuck r \<Longrightarrow> orch_path r r' \<Longrightarrow> r' = r" for r r' by (rule orch_stuck_path)
qed

lemma expire_leases_audit [simp]: "audit_events (expire_leases now timeout s) = audit_events s"
  by (simp add: expire_leases_eq)

interpretation orch_log: audited orch_run
proof unfold_locales
  show "audit_extends s (orch_run i s)" for s i
  proof (cases i)
    case (Enqueue title scope risk priority hint source uid clk)
    then show ?thesis by (auto simp: enqueue_def Let_def audit_extends_def audit_simps split: sum.split)
  next
    case (Tick bridge m timeout uid clk)
    obtain r s' where tk: "tick bridge m timeout uid clk s = (r, s')" by fastforce
    have s1: "audit_extends s (expire_leases (clk 0) timeout s)" by (simp add: audit_extends_same)
    from tk have "audit_extends s s'"
      by (cases rule: tick_cases) (use s1 audit_extends_trans in auto)
    with Tick tk show ?thesis by simp
  qed (simp_all add: audit_extends_same)
qed

section \<open>Which task is served\<close>

lemma first_row_sort_key_tie:
  assumes "first_row (sort_key f xs) = Some x"
  shows "first_row (filter (\<lambda>z. f z = f x) xs) = Some x"
proof -
  obtain zs where "sort_key f xs = x # zs" using assms by (cases "sort_key f xs") auto
  then have "filter (\<lambda>z. f z = f x) (sort_key f xs) = x # filter (\<lambda>z. f z = f x) zs" by simp
  then show ?thesis by (simp add: sort_key_stable)
qed

lemma first_row_by_two_keys:
  assumes "first_row (sort_key f (sort_key g xs)) = Some x" and "y \<in> set xs"
  shows "f x < f y \<or> f x = f y \<and> g x \<le> g y"
proof -
  have le: "f x \<le> f y" using first_row_sort_key(2) [OF assms(1)] assms(2) by simp
  have "first_row (sort_key g (filter (\<lambda>z. f z = f x) xs)) = Some x"
    using first_row_sort_key_tie [OF assms(1)] by (simp add: filter_sort)
  then have "g x \<le> g y" if "f y = f x" using first_row_sort_key(2) that assms(2) by fastforce
  with le show ?thesis by fastforce
qed

definition served_before :: "orch_task \<Rightarrow> orch_task \<Rightarrow> bool" where
  "served_before u t \<longleftrightarrow>
     ot_priority u > ot_priority t \<or> ot_priority u = ot_priority t \<and> ot_created_at u < ot_created_at t"

lemma next_orch_task_best:
  assumes "next_orch_task s = Some t"
  shows "filter (\<lambda>u. dispatchable u \<and> served_before u t) (orchestrator_tasks s) = []"
proof -
  have "- ot_priority t < - ot_priority u \<or> - ot_priority t = - ot_priority u \<and> ot_created_at t \<le> ot_created_at u"
    if "u \<in> set (orchestrator_tasks s)" "dispatchable u" for u
    using assms that unfolding next_orch_task_def order_by_def
    by (intro first_row_by_two_keys [where xs = "sort_key ot_task_id (filter dispatchable (orchestrator_tasks s))"]) simp_all
  then show ?thesis by (fastforce simp: filter_empty_conv served_before_def)
qed

lemma next_orch_worker_ready:
  "next_orch_worker s = Some w \<Longrightarrow> w \<in> set (orchestrator_workers s) \<and> ready_worker w"
  by (auto simp: next_orch_worker_def order_by_def order_desc_def dest!: first_row_sort_key(1))

section \<open>Retries\<close>

lemma sort_key_map_same: "(\<And>x. k (f x) = k x) \<Longrightarrow> sort_key k (map f xs) = map f (sort_key k xs)"
proof (induction xs)
  case (Cons x xs)
  have "insort_key k (f x) (map f ys) = map f (insort_key k x ys)" for ys
    by (induction ys) (simp_all add: Cons.prems)
  with Cons show ?case by simp
qed simp

lemma next_orch_task_map:
  assumes "orchestrator_tasks s' = map f (orchestrator_tasks s)" and "\<And>r. dispatchable (f r) = dispatchable r"
    and "\<And>r. ot_task_id (f r) = ot_task_id r" "\<And>r. ot_created_at (f r) = ot_created_at r" "\<And>r. ot_priority (f r) = ot_priority r"
  shows "next_orch_task s' = map_option f (next_orch_task s)"
proof -
  have "first_row (map f xs) = map_option f (first_row xs)" for xs by (cases xs) simp_all
  moreover have "filter dispatchable (map f xs) = map f (filter dispatchable xs)" for xs
    by (induction xs) (simp_all add: assms(2))
  ultimately show ?thesis
    by (simp add: next_orch_task_def order_by_def assms(1) sort_key_map_same assms(3-5))
qed

lemma expire_leases_idle:
  assumes "list_all (\<lambda>t. ot_status t \<noteq> ''leased'') (orchestrator_tasks s)"
  shows "expire_leases now timeout s = s"
proof -
  have "lapsed_ids now timeout s = {}"
  proof (intro equals0I)
    fix k assume "k \<in> lapsed_ids now timeout s"
    then have "task_leased k s" by (rule lapsed_leased)
    then obtain t where "find_orch s k = Some t" "ot_status t = ''leased''" by (auto simp: task_leased_def split: option.splits)
    with assms show False by (auto simp: list_all_iff dest!: tbl_find_Some)
  qed
  moreover have "expire_assignment now {} = id" "requeue_row now {} = id"
    by (simp_all add: expire_assignment_def requeue_row_def fun_eq_iff)
  ultimately show ?thesis by (simp add: expire_leases_eq)
qed

definition after_failure :: "int \<Rightarrow> time \<Rightarrow> orch_task \<Rightarrow> orch_task" where
  "after_failure m now t =
     (if ot_attempts t + 1 \<ge> m then t\<lparr>ot_status := ''paused'', ot_attempts := ot_attempts t + 1, ot_updated_at := now\<rparr>
      else t\<lparr>ot_attempts := ot_attempts t + 1, ot_updated_at := now\<rparr>)"

lemma orch_report_id [simp]: "rp_report_id (orch_report u k st sm now) = ''orch_rep_'' @ u"
  by (simp add: orch_report_def)

lemma tick_failing:
  assumes "list_all (\<lambda>t. ot_status t \<noteq> ''leased'') (orchestrator_tasks s)" and "next_orch_task s = Some t"
    and "next_orch_worker s = Some w" and "send t w = Some err"
    and "''orch_rep_'' @ uid 0 \<notin> rp_report_id ` set (orchestrator_reports s)"
    and "keys_distinct ot_task_id (orchestrator_tasks s)"
  shows "orchestrator_tasks (snd (tick (Some send) m timeout uid clk s))
      = map (\<lambda>r. if ot_task_id r = ot_task_id t then after_failure m (clk 0) t else r) (orchestrator_tasks s)
    \<and> orchestrator_workers (snd (tick (Some send) m timeout uid clk s)) = orchestrator_workers s
    \<and> rp_report_id ` set (orchestrator_reports (snd (tick (Some send) m timeout uid clk s)))
      = insert (''orch_rep_'' @ uid 0) (rp_report_id ` set (orchestrator_reports s))"
proof -
  have same: "r = t" if "r \<in> set (orchestrator_tasks s)" "ot_task_id r = ot_task_id t" for r
    using keys_distinct_same [OF assms(6) that(1) _ that(2)] next_orch_task_in [OF assms(2)] by blast
  have ins: "tbl_insert rp_report_id (orch_report (uid 0) k st sm now) (orchestrator_reports s)
      = Inr (orchestrator_reports s @ [orch_report (uid 0) k st sm now])" for k st sm now
    using assms(5) by (intro tbl_insert_fresh) (simp add: tbl_find_None)
  note eq = tick_def Let_def expire_leases_idle [OF assms(1)] assms(2,3,4) dispatch_failed_def ins
  have "orchestrator_tasks (snd (tick (Some send) m timeout uid clk s))
      = map (\<lambda>r. if ot_task_id r = ot_task_id t then after_failure m (clk 0) t else r) (orchestrator_tasks s)"
    using same by (auto simp: eq tbl_update_def after_failure_def intro!: map_cong)
  moreover have "orchestrator_workers (snd (tick (Some send) m timeout uid clk s)) = orchestrator_workers s"
    by (simp add: eq)
  moreover have "rp_report_id ` set (orchestrator_reports (snd (tick (Some send) m timeout uid clk s)))
      = insert (''orch_rep_'' @ uid 0) (rp_report_id ` set (orchestrator_reports s))"
    by (simp add: eq)
  ultimately show ?thesis by blast
qed

definition failing_rounds ::
  "(orch_task \<Rightarrow> orch_worker \<Rightarrow> string option) \<Rightarrow> int \<Rightarrow> int \<Rightarrow> ((nat \<Rightarrow> string) \<times> (nat \<Rightarrow> time)) list \<Rightarrow> orch_op list" where
  "failing_rounds send m timeout rounds = map (\<lambda>(uid, clk). Tick (Some send) m timeout uid clk) rounds"

lemma retries_run:
  assumes "orch_ok s" and "list_all (\<lambda>t. ot_status t \<noteq> ''leased'') (orchestrator_tasks s)"
    and "next_orch_task s = Some t" and "next_orch_worker s = Some w" and "\<And>u. ot_task_id u = ot_task_id t \<Longrightarrow> send u w = Some err"
    and "distinct (map (\<lambda>(uid, clk). ''orch_rep_'' @ uid 0) rounds)"
    and "(\<lambda>(uid, clk). ''orch_rep_'' @ uid 0) ` set rounds \<inter> rp_report_id ` set (orchestrator_reports s) = {}"
    and "ot_attempts t + int (length rounds) \<le> m" and "rounds \<noteq> []"
  shows "\<exists>t'. find_orch (fold orch_run (failing_rounds send m timeout rounds) s) (ot_task_id t) = Some t'
    \<and> ot_attempts t' = ot_attempts t + int (length rounds)
    \<and> ot_status t' = (if ot_attempts t' = m then ''paused'' else ''queued'')"
  using assms
proof (induction rounds arbitrary: s t)
  case Nil
  then show ?case by simp
next
  case (Cons round rounds)
  obtain uid clk where rd: "round = (uid, clk)" by fastforce
  let ?s1 = "snd (tick (Some send) m timeout uid clk s)"
  let ?t1 = "after_failure m (clk 0) t"
  let ?f = "\<lambda>r. if ot_task_id r = ot_task_id t then ?t1 else r"
  have kd: "keys_distinct ot_task_id (orchestrator_tasks s)" using Cons.prems(1) by (simp add: orch_ok_def)
  note q = queued_not_leased [OF kd Cons.prems(3)]
  have new: "''orch_rep_'' @ uid 0 \<notin> rp_report_id ` set (orchestrator_reports s)" using Cons.prems(7) by (simp add: rd)
  have tf: "orchestrator_tasks ?s1 = map ?f (orchestrator_tasks s)" "orchestrator_workers ?s1 = orchestrator_workers s"
    "rp_report_id ` set (orchestrator_reports ?s1) = insert (''orch_rep_'' @ uid 0) (rp_report_id ` set (orchestrator_reports s))"
    using tick_failing [of s t w send err uid m timeout clk, OF Cons.prems(2,3,4) Cons.prems(5) [OF refl] new kd] by blast+
  have id: "ot_task_id ?t1 = ot_task_id t" "ot_attempts ?t1 = ot_attempts t + 1" by (simp_all add: after_failure_def)
  have run: "fold orch_run (failing_rounds send m timeout (round # rounds)) s
      = fold orch_run (failing_rounds send m timeout rounds) ?s1"
    by (simp add: failing_rounds_def rd)
  have found: "find_orch ?s1 (ot_task_id t) = Some ?t1"
    unfolding tf(1) using q(2) by (subst tbl_find_map) (auto simp: id)
  show ?case
  proof (cases rounds)
    case Nil
    have "ot_status ?t1 = (if ot_attempts ?t1 = m then ''paused'' else ''queued'')"
      using Cons.prems(8) q(3) by (auto simp: after_failure_def Nil)
    then show ?thesis unfolding run using found id by (simp add: Nil failing_rounds_def)
  next
    case more: (Cons r2 rs)
    have below: "\<not> ot_attempts t + 1 \<ge> m" using Cons.prems(8) more by simp
    then have t1: "?t1 = t\<lparr>ot_attempts := ot_attempts t + 1, ot_updated_at := clk 0\<rparr>" by (simp add: after_failure_def)
    have same: "r = t" if "r \<in> set (orchestrator_tasks s)" "ot_task_id r = ot_task_id t" for r
      using keys_distinct_same [OF kd that(1) _ that(2)] tbl_find_Some [OF q(2)] by blast
    let ?g = "\<lambda>r. if ot_task_id r = ot_task_id t then r\<lparr>ot_attempts := ot_attempts r + 1, ot_updated_at := clk 0\<rparr> else r"
    have rows: "orchestrator_tasks ?s1 = map ?g (orchestrator_tasks s)"
      unfolding tf(1) using same t1 by (intro map_cong) auto
    have nt: "next_orch_task ?s1 = Some ?t1"
      using next_orch_task_map [OF rows] Cons.prems(3) by (simp add: t1 dispatchable_def)
    have nw: "next_orch_worker ?s1 = Some w" using Cons.prems(4) by (simp add: next_orch_worker_def tf(2))
    have nl: "list_all (\<lambda>t. ot_status t \<noteq> ''leased'') (orchestrator_tasks ?s1)"
      using Cons.prems(2) by (auto simp: rows list_all_iff)
    have ok: "orch_ok ?s1" using tick_ok [OF Cons.prems(1)] .
    have "\<exists>t'. find_orch (fold orch_run (failing_rounds send m timeout rounds) ?s1) (ot_task_id ?t1) = Some t'
        \<and> ot_attempts t' = ot_attempts ?t1 + int (length rounds)
        \<and> ot_status t' = (if ot_attempts t' = m then ''paused'' else ''queued'')"
    proof (rule Cons.IH [OF ok nl nt nw])
      show "send u w = Some err" if "ot_task_id u = ot_task_id ?t1" for u using Cons.prems(5) that id by simp
      show "distinct (map (\<lambda>(uid, clk). ''orch_rep_'' @ uid 0) rounds)" using Cons.prems(6) by simp
      show "(\<lambda>(uid, clk). ''orch_rep_'' @ uid 0) ` set rounds \<inter> rp_report_id ` set (orchestrator_reports ?s1) = {}"
        using Cons.prems(6,7) unfolding tf(3) by (auto simp: rd)
      show "ot_attempts ?t1 + int (length rounds) \<le> m" using Cons.prems(8) id by simp
      show "rounds \<noteq> []" using more by simp
    qed
    then show ?thesis unfolding run id length_Cons of_nat_Suc by (simp only: add.assoc)
  qed
qed

section \<open>Properties\<close>

definition sample_orch :: store where
  "sample_orch = orch_run (Enqueue ''scan'' ''ops'' ''low'' 5 [] ''cli'' ''a'' (\<lambda>_. 10))
     (orch_run (RegisterWorker ''w1'' ''bridge'' ''online'' [] 1) empty_store)"

lemma sample_orch_ok: "orch_ok sample_orch"
  unfolding sample_orch_def by (intro orch_ok_step orch_ok_empty)

lemma sample_orch_task: "\<exists>t. find_orch sample_orch ''orch_a'' = Some t \<and> next_orch_task sample_orch = Some t
    \<and> ot_attempts t = 0 \<and> ot_status t = ''queued'' \<and> ot_task_id t = ''orch_a''"
proof -
  have "map_option (\<lambda>t. (ot_attempts t, ot_status t, ot_task_id t)) (next_orch_task sample_orch) = Some (0, ''queued'', ''orch_a'')"
    by code_simp
  then obtain t where t: "next_orch_task sample_orch = Some t" "ot_attempts t = 0" "ot_status t = ''queued''" "ot_task_id t = ''orch_a''"
    by auto
  have "keys_distinct ot_task_id (orchestrator_tasks sample_orch)" using sample_orch_ok by (simp add: orch_ok_def)
  from queued_not_leased(2) [OF this t(1)] t show ?thesis by auto
qed

text \<open>C8: every run of the orchestrator refines the life of a task: whatever is enqueued, whoever registers
  and however the rounds end, a task moves only by being granted, by a lapse of its lease, by a failed
  attempt or by the pause after the last one; its risk never changes, its attempts never decrease, and
  a task that is paused, or queued with a risk other than low, never moves again.\<close>

theorem scheduler_refines_task_life:
  assumes "orch_ok s" and "find_orch s k = Some t"
  shows "\<exists>t'. find_orch (fold orch_run ops s) k = Some t' \<and> orch_step\<^sup>*\<^sup>* t t'
    \<and> ot_risk t' = ot_risk t \<and> ot_attempts t \<le> ot_attempts t' \<and> (if orch_stuck t then t' = t else True)"
proof -
  obtain t' where t': "find_orch (fold orch_run ops s) k = Some t'" "orch_path t t'"
    using orch_life.run_evolves [OF assms, of ops] by blast
  moreover have "orch_stuck t \<Longrightarrow> t' = t" using orch_stuck_path t'(2) by blast
  ultimately show ?thesis using orch_path_keeps [OF t'(2)] by (auto simp: orch_path_def)
qed

theorem scheduler_refines_task_life_witness:
  "\<exists>t t'. find_orch sample_orch ''orch_a'' = Some t \<and> ot_status t = ''queued''
     \<and> find_orch (fold orch_run [Tick None 3 1800 (\<lambda>_. ''r'') (\<lambda>_. 20)] sample_orch) ''orch_a'' = Some t'
     \<and> orch_step\<^sup>*\<^sup>* t t'"
proof -
  obtain t where "find_orch sample_orch ''orch_a'' = Some t" "ot_status t = ''queued''" using sample_orch_task by blast
  with scheduler_refines_task_life [OF sample_orch_ok this(1), of "[Tick None 3 1800 (\<lambda>_. ''r'') (\<lambda>_. 20)]"]
  show ?thesis by blast
qed

text \<open>A round serves the best task: when \<open>tick\<close> hands a task out it is one task of low risk that was
  waiting once lapsed leases are taken back, none of higher priority, or older at the same priority,
  was waiting, its worker is online on the bridge, and the task is leased afterwards; a round that
  raises commits nothing.\<close>

theorem round_serves_best_task:
  "case tick bridge m timeout uid clk s of (r, s') \<Rightarrow>
     (case r of
        Inl e \<Rightarrow> s' = s
      | Inr res \<Rightarrow>
          (case tc_dispatched res of
             [] \<Rightarrow> True
           | (k, wk) # others \<Rightarrow> others = [] \<and> task_leased k s' \<and>
               (\<exists>t w. let s1 = expire_leases (clk 0) timeout s
                in t \<in> set (orchestrator_tasks s1) \<and> ot_task_id t = k \<and> dispatchable t
                 \<and> filter (\<lambda>u. dispatchable u \<and> served_before u t) (orchestrator_tasks s1) = []
                 \<and> w \<in> set (orchestrator_workers s1) \<and> ow_worker_id w = wk \<and> ready_worker w)))"
proof -
  obtain r s' where tk: "tick bridge m timeout uid clk s = (r, s')" by fastforce
  let ?s1 = "expire_leases (clk 0) timeout s"
  from tk show ?thesis
  proof (cases rule: tick_cases)
    case (leased t w res)
    have t: "t \<in> set (orchestrator_tasks ?s1)" "dispatchable t" using next_orch_task_in [OF leased(1)] by auto
    have "find_orch s' (ot_task_id t) = map_option (\<lambda>r. r\<lparr>ot_status := ''leased'', ot_updated_at := clk 0\<rparr>)
        (find_orch ?s1 (ot_task_id t))"
      unfolding leased(5) by (subst tbl_find_update) auto
    moreover have "find_orch ?s1 (ot_task_id t) \<noteq> None" using t(1) by (auto simp: tbl_find_None)
    ultimately have "task_leased (ot_task_id t) s'" by (auto simp: task_leased_def)
    with leased t next_orch_task_best [OF leased(1)] next_orch_worker_ready [OF leased(2)] tk
    show ?thesis by (auto simp: Let_def intro!: exI [of _ t] exI [of _ w])
  qed (use tk in \<open>auto simp: Let_def\<close>)
qed

text \<open>C10: retries end: while nothing is leased and a bridge raises for the task at the head of the queue,
  the n-th round is its n-th attempt, the task stays at the head until \<open>max_retries\<close> attempts are made,
  and that round pauses it for good.\<close>

theorem retries_end_in_pause:
  assumes "orch_ok s" and "list_all (\<lambda>t. ot_status t \<noteq> ''leased'') (orchestrator_tasks s)"
    and "next_orch_task s = Some t" and "next_orch_worker s = Some w"
    and "distinct (map (\<lambda>(uid, clk). ''orch_rep_'' @ uid 0) rounds)"
    and "(\<lambda>(uid, clk). ''orch_rep_'' @ uid 0) ` set rounds \<inter> rp_report_id ` set (orchestrator_reports s) = {}"
    and "ot_attempts t + int (length rounds) \<le> m" and "rounds \<noteq> []"
  shows "\<exists>t'. find_orch (fold orch_run (failing_rounds (\<lambda>u w. if ot_task_id u = ot_task_id t then Some err else None) m timeout rounds) s)
        (ot_task_id t) = Some t'
    \<and> ot_attempts t' = ot_attempts t + int (length rounds)
    \<and> ot_status t' = (if ot_attempts t' = m then ''paused'' else ''queued'')"
  by (rule retries_run [OF assms(1-4) _ assms(5-8), where err = err]) simp

theorem retries_end_in_pause_witness:
  "\<exists>t'. find_orch (fold orch_run (failing_rounds (\<lambda>u w. if ot_task_id u = ''orch_a'' then Some ''down'' else None) 3 1800
       [(\<lambda>_. ''1'', \<lambda>_. 20), (\<lambda>_. ''2'', \<lambda>_. 30), (\<lambda>_. ''3'', \<lambda>_. 40)]) sample_orch) ''orch_a'' = Some t'
     \<and> ot_status t' = ''paused''"
proof -
  obtain t where t: "next_orch_task sample_orch = Some t" "ot_attempts t = 0" "ot_task_id t = ''orch_a''"
    using sample_orch_task by blast
  have "next_orch_worker sample_orch \<noteq> None" by code_simp
  then obtain w where w: "next_orch_worker sample_orch = Some w" by blast
  have nl: "list_all (\<lambda>t. ot_status t \<noteq> ''leased'') (orchestrator_tasks sample_orch)" by code_simp
  have "orchestrator_reports sample_orch = []" by code_simp
  then show ?thesis
    using retries_end_in_pause [OF sample_orch_ok nl t(1) w, of "[(\<lambda>_. ''1'', \<lambda>_. 20), (\<lambda>_. ''2'', \<lambda>_. 30), (\<lambda>_. ''3'', \<lambda>_. 40)]" 3 "''down''" 1800] t
    by auto
qed

end
