(* ===== verification/OrchestratorRounds.thy ===== *)
theory OrchestratorRounds imports OrchestratorLaws begin

text \<open>
  Rounds of the scheduler that overlap.  A round of \<open>tick\<close> (\<open>orchestrator.py\<close>) runs on one connection, whose reads see
  the committed store of their moment and whose first write opens the transaction that the end of the round commits:
  the leases are read, then, when none has lapsed, the task, the worker (and the bridge is called), and the grant or the
  failure is written; when one has lapsed, the expiry opens the transaction and all the rest is inside it.  No
  update looks at the status it overwrites.  The steps of several rounds may come in any order; a write
  waits until it has the database for itself, and the audit entry, which follows the commit, is written with it.
\<close>

section \<open>The steps of a round\<close>

record round_args =
  ra_bridge :: "(orch_task \<Rightarrow> orch_worker \<Rightarrow> string option) option"
  ra_max_retries :: int
  ra_timeout :: int
  ra_uid :: "nat \<Rightarrow> string"
  ra_clk :: "nat \<Rightarrow> time"

text \<open>What a round holds in its variables between two steps.\<close>

datatype round =
    Begun
  | LeasesRead "orch_assignment list"
  | TaskRead orch_task
  | WorkerRead orch_task orch_worker
  | Ended

definition lapsed_rows :: "time \<Rightarrow> int \<Rightarrow> store \<Rightarrow> orch_assignment list" where
  "lapsed_rows now timeout s = filter (\<lambda>a. now - oa_leased_at a > seconds timeout) (leased_rows s)"

definition end_leases :: "time \<Rightarrow> orch_assignment list \<Rightarrow> store \<Rightarrow> store" where
  "end_leases now rows s = fold (\<lambda>a. end_lease now (oa_task_id a)) rows s"

definition commit_round :: "round_args \<Rightarrow> orch_task \<Rightarrow> orch_worker \<Rightarrow> store \<Rightarrow> tick_result result \<times> store" where
  "commit_round a t w s =
     (case (case ra_bridge a of None \<Rightarrow> None | Some send \<Rightarrow> send t w) of
        Some err \<Rightarrow> dispatch_failed t w err (ra_max_retries a) (ra_uid a) (ra_clk a) s
      | None \<Rightarrow> lease_task t w (ra_uid a) (ra_clk a) s)"

fun round_step :: "round_args \<Rightarrow> round \<Rightarrow> store \<Rightarrow> round \<times> store" where
  "round_step a Begun s = (LeasesRead (lapsed_rows (ra_clk a 0) (ra_timeout a) s), s)"
| "round_step a (LeasesRead []) s = (case next_orch_task s of None \<Rightarrow> (Ended, s) | Some t \<Rightarrow> (TaskRead t, s))"
| "round_step a (LeasesRead (x # xs)) s =
     (let s1 = end_leases (ra_clk a 0) (x # xs) s
      in (Ended,
          case next_orch_task s1 of
            None \<Rightarrow> s1
          | Some t \<Rightarrow>
              (case next_orch_worker s1 of
                 None \<Rightarrow> s1
               | Some w \<Rightarrow> (case commit_round a t w s1 of (Inl e, _) \<Rightarrow> s | (Inr _, s') \<Rightarrow> s'))))"
| "round_step a (TaskRead t) s = (case next_orch_worker s of None \<Rightarrow> (Ended, s) | Some w \<Rightarrow> (WorkerRead t w, s))"
| "round_step a (WorkerRead t w) s = (Ended, snd (commit_round a t w s))"
| "round_step a Ended s = (Ended, s)"

text \<open>
  What can happen: an operation (a \<open>Tick\<close> only begins its round), or the next step of the i-th round begun.
\<close>

type_synonym orch_config = "store \<times> (round_args \<times> round) list"

datatype schedule_event = Call orch_op | Advance nat

fun orch_event :: "schedule_event \<Rightarrow> orch_config \<Rightarrow> orch_config" where
  "orch_event (Call (Tick bridge m timeout uid clk)) (s, rs) =
     (s, rs @ [(\<lparr>ra_bridge = bridge, ra_max_retries = m, ra_timeout = timeout, ra_uid = uid, ra_clk = clk\<rparr>, Begun)])"
| "orch_event (Call op) (s, rs) = (orch_run op s, rs)"
| "orch_event (Advance i) (s, rs) =
     (if i < length rs
      then case round_step (fst (rs ! i)) (snd (rs ! i)) s of (r, s') \<Rightarrow> (s', rs[i := (fst (rs ! i), r)])
      else (s, rs))"

fun ended :: "round \<Rightarrow> bool" where
  "ended Ended = True"
| "ended _ = False"

text \<open>A schedule in which a round begins only when every earlier one has ended.\<close>

fun apart :: "schedule_event list \<Rightarrow> orch_config \<Rightarrow> bool" where
  "apart [] c = True"
| "apart (e # es) c =
     ((case e of Call (Tick _ _ _ _ _) \<Rightarrow> list_all (\<lambda>p. ended (snd p)) (snd c) | _ \<Rightarrow> True) \<and> apart es (orch_event e c))"

section \<open>A round on its own\<close>

lemma end_leases_eq: "end_leases now (filter P rows) s = fold (\<lambda>a s'. if P a then end_lease now (oa_task_id a) s' else s') rows s"
  by (induction rows arbitrary: s) (auto simp: end_leases_def)

lemma end_lapsed: "end_leases now (lapsed_rows now timeout s) s = expire_leases now timeout s"
  by (simp add: lapsed_rows_def end_leases_eq expire_leases_def)

text \<open>Taken one after the other, the steps of a round are \<open>tick\<close>.\<close>

definition round_steps :: "nat \<Rightarrow> round_args \<Rightarrow> round \<times> store \<Rightarrow> round \<times> store" where
  "round_steps n a c = ((\<lambda>(r, s). round_step a r s) ^^ n) c"

lemma round_steps_Suc: "round_steps (Suc n) a (r, s) = round_steps n a (round_step a r s)"
  by (simp add: round_steps_def funpow_Suc_right del: funpow.simps)

lemma round_steps_0: "round_steps 0 a c = c"
  by (simp add: round_steps_def)

lemma tick_commit:
  assumes "expire_leases (ra_clk a 0) (ra_timeout a) s = s1"
  shows "snd (tick (ra_bridge a) (ra_max_retries a) (ra_timeout a) (ra_uid a) (ra_clk a) s) =
    (case next_orch_task s1 of
       None \<Rightarrow> s1
     | Some t \<Rightarrow>
         (case next_orch_worker s1 of
            None \<Rightarrow> s1
          | Some w \<Rightarrow> (case commit_round a t w s1 of (Inl e, _) \<Rightarrow> s | (Inr _, s') \<Rightarrow> s')))"
  unfolding tick_def Let_def assms commit_round_def by (auto split: option.split sum.split prod.split)

lemma commit_error: "commit_round a t w s = (Inl e, s') \<Longrightarrow> s' = s"
  by (auto simp: commit_round_def dispatch_failed_def lease_task_def Let_def split: option.splits sum.splits)

lemma round_alone_is_tick:
  "round_steps 4 a (Begun, s) = (Ended, snd (tick (ra_bridge a) (ra_max_retries a) (ra_timeout a) (ra_uid a) (ra_clk a) s))"
proof -
  let ?rows = "lapsed_rows (ra_clk a 0) (ra_timeout a) s"
  note lapsed = end_lapsed [of "ra_clk a 0" "ra_timeout a" s]
  have four: "round_steps 4 a (Begun, s) = round_steps (Suc (Suc (Suc 0))) a (LeasesRead ?rows, s)"
    by (simp add: eval_nat_numeral round_steps_Suc)
  have still: "round_steps n a (Ended, s') = (Ended, s')" for n s'
    by (induction n) (simp_all add: round_steps_Suc round_steps_0)
  show ?thesis
  proof (cases ?rows)
    case (Cons x xs)
    with lapsed have e: "expire_leases (ra_clk a 0) (ra_timeout a) s = end_leases (ra_clk a 0) (x # xs) s" by simp
    show ?thesis unfolding four Cons tick_commit [OF e] by (simp add: round_steps_Suc still Let_def)
  next
    case Nil
    then have s: "expire_leases (ra_clk a 0) (ra_timeout a) s = s" using lapsed by (simp add: end_leases_def)
    show ?thesis
    proof (cases "next_orch_task s")
      case None
      then show ?thesis unfolding four Nil tick_commit [OF s] by (simp add: round_steps_Suc still)
    next
      case t: (Some t)
      show ?thesis
      proof (cases "next_orch_worker s")
        case None
        then show ?thesis unfolding four Nil tick_commit [OF s] using t by (simp add: round_steps_Suc still)
      next
        case (Some w)
        obtain r s' where c: "commit_round a t w s = (r, s')" by fastforce
        then show ?thesis unfolding four Nil tick_commit [OF s] using t Some commit_error [of a t w s]
          by (cases r) (simp_all add: round_steps_Suc still)
      qed
    qed
  qed
qed

section \<open>What a commit writes\<close>

lemma commit_cases:
  assumes "commit_round a t w s = (r, s')"
  obtains
    (error) e where "r = Inl e" and "s' = s"
  | (failed) "orchestrator_tasks s' = tbl_update ot_task_id (ot_task_id t)
             (\<lambda>r. if ot_attempts t + 1 \<ge> ra_max_retries a
                  then r\<lparr>ot_status := ''paused'', ot_attempts := ot_attempts t + 1, ot_updated_at := ra_clk a 0\<rparr>
                  else r\<lparr>ot_attempts := ot_attempts t + 1, ot_updated_at := ra_clk a 0\<rparr>) (orchestrator_tasks s)"
      and "orchestrator_assignments s' = orchestrator_assignments s"
  | (leased) "orchestrator_tasks s' = tbl_update ot_task_id (ot_task_id t)
             (\<lambda>r. r\<lparr>ot_status := ''leased'', ot_updated_at := ra_clk a 0\<rparr>) (orchestrator_tasks s)"
      and "orchestrator_assignments s' = orchestrator_assignments s @
             [\<lparr>oa_assignment_id = ''orch_asg_'' @ ra_uid a 0, oa_task_id = ot_task_id t, oa_worker_id = ow_worker_id w,
               oa_status = ''leased'', oa_leased_at = ra_clk a 0, oa_updated_at = ra_clk a 0\<rparr>]"
proof (cases "case ra_bridge a of None \<Rightarrow> None | Some send \<Rightarrow> send t w")
  case None
  then have "lease_task t w (ra_uid a) (ra_clk a) s = (r, s')" using assms by (simp add: commit_round_def)
  then show thesis using error leased
    by (auto simp: lease_task_def Let_def dest!: tbl_insert_Inr split: sum.splits)
next
  case (Some err)
  then have "dispatch_failed t w err (ra_max_retries a) (ra_uid a) (ra_clk a) s = (r, s')" using assms by (simp add: commit_round_def)
  then show thesis using error failed
    by (auto simp: dispatch_failed_def Let_def dest!: tbl_insert_Inr split: sum.splits)
qed

lemma end_leases_tables:
  "end_leases now rows s =
     s\<lparr>orchestrator_assignments := map (expire_assignment now (oa_task_id ` set rows)) (orchestrator_assignments s),
       orchestrator_tasks := map (requeue_row now (oa_task_id ` set rows)) (orchestrator_tasks s)\<rparr>"
  using fold_end_lease [of "\<lambda>_. True" now rows s] by (simp add: end_leases_def)

lemma end_leases_ok:
  assumes "orch_ok s"
  shows "orch_ok (end_leases now rows s)"
proof -
  let ?ids = "oa_task_id ` set rows" and ?s1 = "end_leases now rows s"
  have leased: "task_leased k ?s1 = (task_leased k s \<and> k \<notin> ?ids)" for k
  proof -
    have "task_leased k ?s1 = (case find_orch s k of None \<Rightarrow> False | Some t \<Rightarrow> ot_status (requeue_row now ?ids t) = ''leased'')"
      by (rule task_leased_map) (simp_all add: end_leases_tables)
    then show ?thesis by (auto simp: task_leased_def dest: tbl_find_Some split: option.splits)
  qed
  have live: "live_leases k ?s1 = (if k \<in> ?ids then [] else live_leases k s)" for k
  proof -
    have "live_leases k ?s1 = map (expire_assignment now ?ids)
        (filter (\<lambda>a. oa_task_id a = k \<and> oa_status a = ''leased'' \<and> k \<notin> ?ids) (orchestrator_assignments s))"
      by (auto simp: live_leases_def end_leases_tables filter_map comp_def intro!: arg_cong [where f = "map _"] filter_cong)
    also have "\<dots> = (if k \<in> ?ids then [] else live_leases k s)"
      by (auto simp: live_leases_def expire_assignment_def intro!: map_idI)
    finally show ?thesis .
  qed
  have "keys_distinct ot_task_id (orchestrator_tasks ?s1)" "list_all orch_row_ok (orchestrator_tasks ?s1)"
    using assms by (auto simp: orch_ok_def end_leases_tables keys_distinct_map list_all_iff requeue_row_def orch_row_ok_def)
  moreover have "length (live_leases k ?s1) = (if task_leased k ?s1 then 1 else 0)" for k
    using assms by (cases "k \<in> ?ids") (simp_all add: orch_ok_def leased live)
  ultimately show ?thesis by (simp add: orch_ok_def)
qed

section \<open>Rounds that do not overlap\<close>

text \<open>What an undisturbed round holds is still so in the store.\<close>

fun fresh :: "store \<Rightarrow> round \<Rightarrow> bool" where
  "fresh s (TaskRead t) = (find_orch s (ot_task_id t) = Some t \<and> dispatchable t)"
| "fresh s (WorkerRead t w) = (find_orch s (ot_task_id t) = Some t \<and> dispatchable t)"
| "fresh s _ = True"

lemma ended_fresh: "ended r \<Longrightarrow> fresh s r"
  by (cases r) auto

lemma commit_ok:
  assumes "orch_ok s" and "find_orch s (ot_task_id t) = Some t" and "dispatchable t" and "commit_round a t w s = (r, s')"
  shows "orch_ok s'"
  using assms(4)
proof (cases rule: commit_cases)
  case error
  then show ?thesis using assms(1) by simp
next
  case failed
  then show ?thesis using failed_ok [OF assms(1-3)] by blast
next
  case leased
  then show ?thesis using leased_ok [OF assms(1-3)] by blast
qed

lemma round_step_ok:
  assumes "orch_ok s" and "fresh s r" and "round_step a r s = (r', s')"
  shows "orch_ok s' \<and> fresh s' r'"
proof (cases "(a, r, s)" rule: round_step.cases)
  case (2 a' s0)
  have kd: "keys_distinct ot_task_id (orchestrator_tasks s)" using assms(1) by (simp add: orch_ok_def)
  show ?thesis
    using assms 2 queued_not_leased(2) [OF kd] next_orch_task_in [of s] by (auto split: option.splits)
next
  case (3 a' x xs s0)
  let ?s1 = "end_leases (ra_clk a 0) (x # xs) s"
  have ok1: "orch_ok ?s1" using assms(1) by (rule end_leases_ok)
  then have kd: "keys_distinct ot_task_id (orchestrator_tasks ?s1)" by (simp add: orch_ok_def)
  have "orch_ok s2" if "next_orch_task ?s1 = Some t" "commit_round a t w ?s1 = (r2, s2)" for t w r2 s2
    using commit_ok [OF ok1 queued_not_leased(2) [OF kd that(1)] _ that(2)] next_orch_task_in [OF that(1)] by blast
  then show ?thesis using assms 3 ok1 by (auto simp: Let_def split: option.splits prod.splits sum.splits)
next
  case (5 a' t w s0)
  obtain r2 s2 where "commit_round a t w s = (r2, s2)" by fastforce
  with 5 assms commit_ok [OF assms(1) _ _ this] show ?thesis by auto
qed (use assms in \<open>auto split: option.splits\<close>)

definition apart_ok :: "orch_config \<Rightarrow> bool" where
  "apart_ok c \<longleftrightarrow> orch_ok (fst c) \<and> list_all (\<lambda>p. fresh (fst c) (snd p)) (snd c)
     \<and> length (filter (\<lambda>p. \<not> ended (snd p)) (snd c)) \<le> 1"

lemma call_fresh:
  assumes "case op of Tick _ _ _ _ _ \<Rightarrow> False | _ \<Rightarrow> True" and "fresh s r"
  shows "fresh (orch_run op s) r"
proof -
  have "find_orch (orch_run op s) k = Some t" if "find_orch s k = Some t" for k t
    using assms(1) that
    by (cases op) (auto simp: enqueue_def Let_def tbl_find_append dest!: tbl_insert_Inr split: sum.splits)
  then show ?thesis using assms(2) by (cases r) auto
qed

lemma others_ended:
  assumes "length (filter P xs) \<le> 1" and "i < length xs" and "P (xs ! i)" and "j < length xs" and "j \<noteq> i"
  shows "\<not> P (xs ! j)"
proof
  assume "P (xs ! j)"
  with assms have "{i, j} \<subseteq> {n. n < length xs \<and> P (xs ! n)}" by auto
  then have "card {i, j} \<le> length (filter P xs)"
    unfolding length_filter_conv_card by (rule card_mono [rotated]) simp
  with assms(1,5) show False by simp
qed

lemma apart_step:
  assumes "apart_ok c" and "case e of Call (Tick _ _ _ _ _) \<Rightarrow> list_all (\<lambda>p. ended (snd p)) (snd c) | _ \<Rightarrow> True"
  shows "apart_ok (orch_event e c)"
proof -
  obtain s rs where c: "c = (s, rs)" by fastforce
  from assms(1) have ok: "orch_ok s" "list_all (\<lambda>p. fresh s (snd p)) rs" "length (filter (\<lambda>p. \<not> ended (snd p)) rs) \<le> 1"
    by (simp_all add: apart_ok_def c)
  show ?thesis
  proof (cases e)
    case (Call op)
    show ?thesis
    proof (cases "case op of Tick _ _ _ _ _ \<Rightarrow> False | _ \<Rightarrow> True")
      case True
      then have "orch_event e c = (orch_run op s, rs)" by (cases op) (simp_all add: Call c)
      moreover have "list_all (\<lambda>p. fresh (orch_run op s) (snd p)) rs"
        using ok(2) call_fresh [OF True] by (auto simp: list_all_iff)
      ultimately show ?thesis using orch_ok_step [OF ok(1), of op] ok(3) by (simp add: apart_ok_def)
    next
      case False
      then obtain b m timeout uid clk where op: "op = Tick b m timeout uid clk" by (cases op) auto
      then have "list_all (\<lambda>p. ended (snd p)) rs" using assms(2) by (simp add: Call c)
      then have "filter (\<lambda>p. \<not> ended (snd p)) rs = []" by (auto simp: filter_empty_conv list_all_iff)
      with ok show ?thesis by (simp add: Call op c apart_ok_def)
    qed
  next
    case (Advance i)
    show ?thesis
    proof (cases "i < length rs")
      case False
      then show ?thesis using assms(1) by (simp add: Advance c)
    next
      case True
      obtain a r where ar: "rs ! i = (a, r)" by fastforce
      obtain r' s' where st: "round_step a r s = (r', s')" by fastforce
      have "fresh s r" using ok(2) True ar by (metis list_all_length snd_conv)
      from round_step_ok [OF ok(1) this st] have new: "orch_ok s'" "fresh s' r'" by blast+
      have ev: "orch_event e c = (s', rs[i := (a, r')])" using True by (simp add: Advance c ar st)
      show ?thesis
      proof (cases "ended r")
        case True
        then have "r' = r" "s' = s" using st by (cases r; simp)+
        then have "orch_event e c = c" using ev ar c by (metis list_update_id)
        then show ?thesis using assms(1) by simp
      next
        case False
        have "ended (snd (rs ! j))" if "j < length rs" "j \<noteq> i" for j
          using others_ended [OF ok(3) True _ that] ar False by simp
        then have rest: "fresh s' (snd (rs[i := (a, r')] ! j)) \<and> (j \<noteq> i \<longrightarrow> ended (snd (rs[i := (a, r')] ! j)))"
          if "j < length rs" for j
          using that new(2) ended_fresh by (cases "j = i") (auto simp: True)
        then have "list_all (\<lambda>p. fresh s' (snd p)) (rs[i := (a, r')])" by (simp only: list_all_length length_list_update) blast
        moreover have "length (filter (\<lambda>p. \<not> ended (snd p)) (rs[i := (a, r')])) \<le> 1"
        proof -
          have "{n. n < length (rs[i := (a, r')]) \<and> \<not> ended (snd (rs[i := (a, r')] ! n))} \<subseteq> {i}"
            using rest by (auto, metis nth_list_update_neq)
          then have "card {n. n < length (rs[i := (a, r')]) \<and> \<not> ended (snd (rs[i := (a, r')] ! n))} \<le> card {i}"
            by (rule card_mono [rotated]) simp
          then show ?thesis by (simp add: length_filter_conv_card)
        qed
        ultimately show ?thesis using new(1) by (simp add: ev apart_ok_def)
      qed
    qed
  qed
qed

lemma apart_run: "apart_ok c \<Longrightarrow> apart es c \<Longrightarrow> apart_ok (fold orch_event es c)"
  by (induction es arbitrary: c) (simp_all add: apart_step)

section \<open>Rounds in any order\<close>

text \<open>What still holds: the rows of the tasks stay, with their risk, and a leased task has a live lease.\<close>

definition risks_kept :: "store \<Rightarrow> store \<Rightarrow> bool" where
  "risks_kept s s' \<longleftrightarrow> (\<forall>k t. find_orch s k = Some t \<longrightarrow> (\<exists>t'. find_orch s' k = Some t' \<and> ot_risk t' = ot_risk t))"

fun known_low :: "store \<Rightarrow> round \<Rightarrow> bool" where
  "known_low s (TaskRead t) = (\<exists>u. find_orch s (ot_task_id t) = Some u \<and> ot_risk u = ''low'')"
| "known_low s (WorkerRead t w) = (\<exists>u. find_orch s (ot_task_id t) = Some u \<and> ot_risk u = ''low'')"
| "known_low s _ = True"

definition leases_held :: "store \<Rightarrow> bool" where
  "leases_held s \<longleftrightarrow> keys_distinct ot_task_id (orchestrator_tasks s) \<and> list_all orch_row_ok (orchestrator_tasks s)
     \<and> (\<forall>k. task_leased k s \<longrightarrow> live_leases k s \<noteq> [])"

lemma known_low_kept: "known_low s r \<Longrightarrow> risks_kept s s' \<Longrightarrow> known_low s' r"
  unfolding risks_kept_def by (cases r) (auto, metis+)

lemma risks_kept_refl: "risks_kept s s"
  by (simp add: risks_kept_def)

lemma risks_kept_trans: "risks_kept s s' \<Longrightarrow> risks_kept s' s'' \<Longrightarrow> risks_kept s s''"
  unfolding risks_kept_def by metis

lemma risks_kept_map:
  assumes "orchestrator_tasks s' = map g (orchestrator_tasks s)" and "\<And>t. ot_task_id (g t) = ot_task_id t" "\<And>t. ot_risk (g t) = ot_risk t"
  shows "risks_kept s s'"
  using assms by (auto simp: risks_kept_def tbl_find_map)

text \<open>A change of one row of low risk, to any of the three statuses.\<close>

lemma leases_held_update:
  assumes "leases_held s" and u: "find_orch s k = Some u" "ot_risk u = ''low''"
    and rows: "orchestrator_tasks s' = tbl_update ot_task_id k f (orchestrator_tasks s)"
    and f: "\<And>r. ot_task_id (f r) = ot_task_id r" "\<And>r. ot_risk (f r) = ot_risk r"
      "\<And>r. ot_status r \<in> {''queued'', ''leased'', ''paused''} \<Longrightarrow> ot_status (f r) \<in> {''queued'', ''leased'', ''paused''}"
    and live: "\<And>j. live_leases j s' = live_leases j s \<or> j = k \<and> live_leases j s' \<noteq> []"
      "\<And>r. ot_status (f r) = ''leased'' \<Longrightarrow> ot_status r = ''leased'' \<or> live_leases k s' \<noteq> []"
  shows "leases_held s' \<and> risks_kept s s'"
proof -
  let ?g = "\<lambda>r. if ot_task_id r = k then f r else r"
  have rows': "orchestrator_tasks s' = map ?g (orchestrator_tasks s)" using rows by (simp only: tbl_update_as_map)
  have kd: "keys_distinct ot_task_id (orchestrator_tasks s)" using assms(1) by (simp add: leases_held_def)
  have "keys_distinct ot_task_id (orchestrator_tasks s')" unfolding rows' using kd f by (subst keys_distinct_map) auto
  moreover have "risks_kept s s'" by (rule risks_kept_map [OF rows']) (simp_all add: f)
  moreover have "orch_row_ok (?g r)" if r: "r \<in> set (orchestrator_tasks s)" for r
  proof (cases "ot_task_id r = k")
    case True
    have "u \<in> set (orchestrator_tasks s)" "ot_task_id u = k" using tbl_find_Some [OF u(1)] by blast+
    then have "r = u" using keys_distinct_same [OF kd r, of u] True by simp
    have "orch_row_ok r" using assms(1) r by (simp add: leases_held_def list_all_iff)
    then have "ot_status (f r) \<in> {''queued'', ''leased'', ''paused''}" by (intro f(3)) (simp add: orch_row_ok_def)
    then show ?thesis using \<open>r = u\<close> u(2) f(2) True by (simp add: orch_row_ok_def)
  next
    case False
    then show ?thesis using assms(1) r by (simp add: leases_held_def list_all_iff)
  qed
  then have "list_all orch_row_ok (orchestrator_tasks s')"
    by (simp only: rows' list_all_iff set_map ball_simps(9) simp_thms, intro ballI)
  moreover have "live_leases j s' \<noteq> []" if "task_leased j s'" for j
  proof -
    have "task_leased j s' = (case find_orch s j of None \<Rightarrow> False | Some t \<Rightarrow> ot_status (?g t) = ''leased'')"
      by (rule task_leased_map [OF rows']) (simp add: f)
    with that obtain t where t: "find_orch s j = Some t" "ot_status (?g t) = ''leased''" by (auto split: option.splits)
    have "ot_task_id t = j" using tbl_find_Some [OF t(1)] by simp
    show ?thesis
    proof (cases "ot_status t = ''leased''")
      case True
      then have "live_leases j s \<noteq> []" using assms(1) t(1) by (simp add: leases_held_def task_leased_def)
      then show ?thesis using live(1) [of j] by auto
    next
      case False
      then have "j = k \<and> ot_status (f t) = ''leased''" using t(2) \<open>ot_task_id t = j\<close> by (simp split: if_splits)
      then show ?thesis using live(2) [of t] False by auto
    qed
  qed
  ultimately show ?thesis by (simp add: leases_held_def)
qed

lemma end_leases_held:
  assumes "leases_held s"
  shows "leases_held (end_leases now rows s) \<and> risks_kept s (end_leases now rows s)"
proof -
  let ?ids = "oa_task_id ` set rows" and ?s1 = "end_leases now rows s"
  have "live_leases k ?s1 \<noteq> []" if "task_leased k ?s1" for k
  proof -
    have "task_leased k ?s1 = (case find_orch s k of None \<Rightarrow> False | Some t \<Rightarrow> ot_status (requeue_row now ?ids t) = ''leased'')"
      by (rule task_leased_map) (simp_all add: end_leases_tables)
    with that have k: "task_leased k s" "k \<notin> ?ids" by (auto simp: task_leased_def dest: tbl_find_Some split: option.splits if_splits)
    have "filter (\<lambda>a. oa_task_id a = k \<and> oa_status a = ''leased'') (orchestrator_assignments s) \<noteq> []"
      using assms k(1) by (simp add: leases_held_def live_leases_def)
    then obtain a where "a \<in> set (orchestrator_assignments s)" "oa_task_id a = k" "oa_status a = ''leased''"
      by (auto simp: filter_empty_conv)
    then have "expire_assignment now ?ids a \<in> set (live_leases k ?s1)"
      using k(2) by (simp add: live_leases_def end_leases_tables)
    then show ?thesis by auto
  qed
  moreover have "keys_distinct ot_task_id (orchestrator_tasks ?s1)" "list_all orch_row_ok (orchestrator_tasks ?s1)"
    using assms by (auto simp: leases_held_def end_leases_tables keys_distinct_map list_all_iff requeue_row_def orch_row_ok_def)
  moreover have "risks_kept s ?s1" by (rule risks_kept_map [of _ "requeue_row now ?ids"]) (simp_all add: end_leases_tables)
  ultimately show ?thesis by (simp add: leases_held_def)
qed

lemma commit_held:
  assumes "leases_held s" and "find_orch s (ot_task_id t) = Some u" "ot_risk u = ''low''" and "commit_round a t w s = (r, s')"
  shows "leases_held s' \<and> risks_kept s s'"
  using assms(4)
proof (cases rule: commit_cases)
  case error
  then show ?thesis using assms(1) risks_kept_refl by simp
next
  case failed
  show ?thesis
    by (rule leases_held_update [OF assms(1-3) failed(1)]) (auto simp: live_leases_def failed(2) split: if_splits)
next
  case leased
  show ?thesis
    by (rule leases_held_update [OF assms(1-3) leased(1)]) (auto simp: live_leases_def leased(2))
qed

lemma round_step_held:
  assumes "leases_held s" and "known_low s r" and "round_step a r s = (r', s')"
  shows "leases_held s' \<and> risks_kept s s' \<and> known_low s' r'"
proof -
  have next_low: "\<exists>u. find_orch s0 (ot_task_id t) = Some u \<and> ot_risk u = ''low''"
    if "leases_held s0" "next_orch_task s0 = Some t" for s0 t
    using queued_not_leased(2,4) [OF _ that(2)] that(1) by (auto simp: leases_held_def)
  show ?thesis
  proof (cases "(a, r, s)" rule: round_step.cases)
    case (2 a' s0)
    then show ?thesis using assms next_low [of s] risks_kept_refl by (auto split: option.splits)
  next
    case (3 a' x xs s0)
    let ?s1 = "end_leases (ra_clk a 0) (x # xs) s"
    have h1: "leases_held ?s1" "risks_kept s ?s1" using end_leases_held [OF assms(1)] by blast+
    have "leases_held s2 \<and> risks_kept s s2" if "next_orch_task ?s1 = Some t" "commit_round a t w ?s1 = (r2, s2)" for t w r2 s2
    proof -
      from next_low [OF h1(1) that(1)] obtain u where "find_orch ?s1 (ot_task_id t) = Some u" "ot_risk u = ''low''" by blast
      from commit_held [OF h1(1) this that(2)] risks_kept_trans [OF h1(2)] show ?thesis by blast
    qed
    then show ?thesis using assms 3 h1 risks_kept_refl by (auto simp: Let_def split: option.splits prod.splits sum.splits)
  next
    case (5 a' t w s0)
    obtain r2 s2 where "commit_round a t w s = (r2, s2)" by fastforce
    with 5 assms commit_held [OF assms(1) _ _ this] show ?thesis by auto
  qed (use assms risks_kept_refl in \<open>auto split: option.splits\<close>)
qed

lemma call_held:
  assumes "case op of Tick _ _ _ _ _ \<Rightarrow> False | _ \<Rightarrow> True" and "leases_held s"
  shows "leases_held (orch_run op s) \<and> risks_kept s (orch_run op s)"
proof (cases op)
  case (Enqueue title scope risk priority hint source uid clk)
  let ?t = "\<lparr>ot_task_id = ''orch_'' @ uid, ot_title = title, ot_scope = scope, ot_risk = risk, ot_priority = priority,
      ot_status = ''queued'', ot_worker_hint = hint, ot_source = source, ot_created_at = clk 0,
      ot_updated_at = clk 0, ot_attempts = 0\<rparr>"
  show ?thesis
  proof (cases "tbl_insert ot_task_id ?t (orchestrator_tasks s)")
    case (Inl e)
    with assms Enqueue show ?thesis by (simp add: enqueue_def Let_def risks_kept_refl)
  next
    case (Inr rows)
    let ?s' = "orch_run op s"
    have r: "rows = orchestrator_tasks s @ [?t]" using tbl_insert_Inr [OF Inr] by simp
    have tabs: "orchestrator_tasks ?s' = orchestrator_tasks s @ [?t]" "orchestrator_assignments ?s' = orchestrator_assignments s"
      using Inr by (simp_all add: Enqueue enqueue_def r Let_def)
    have "keys_distinct ot_task_id (orchestrator_tasks ?s')"
      using assms keys_distinct_insert [OF _ Inr] by (simp add: tabs r leases_held_def)
    moreover have "task_leased k ?s' = task_leased k s" for k
      by (auto simp: task_leased_def tabs tbl_find_append split: option.splits)
    moreover have "orch_row_ok ?t" by (simp add: orch_row_ok_def)
    ultimately show ?thesis using assms(2)
      by (simp add: leases_held_def live_leases_def tabs risks_kept_def tbl_find_append)
  qed
qed (use assms in \<open>auto simp: leases_held_def live_leases_def task_leased_def risks_kept_def\<close>)

definition overlap_ok :: "orch_config \<Rightarrow> bool" where
  "overlap_ok c \<longleftrightarrow> leases_held (fst c) \<and> list_all (\<lambda>p. known_low (fst c) (snd p)) (snd c)"

lemma overlap_step:
  assumes "overlap_ok c"
  shows "overlap_ok (orch_event e c)"
proof -
  obtain s rs where c: "c = (s, rs)" by fastforce
  from assms have ok: "leases_held s" "list_all (\<lambda>p. known_low s (snd p)) rs" by (simp_all add: overlap_ok_def c)
  show ?thesis
  proof (cases e)
    case (Call op)
    show ?thesis
    proof (cases "case op of Tick _ _ _ _ _ \<Rightarrow> False | _ \<Rightarrow> True")
      case True
      then have "orch_event e c = (orch_run op s, rs)" by (cases op) (simp_all add: Call c)
      with call_held [OF True ok(1)] ok(2) known_low_kept show ?thesis
        by (auto simp: overlap_ok_def list_all_iff)
    next
      case False
      then obtain b m timeout uid clk where "op = Tick b m timeout uid clk" by (cases op) auto
      with ok show ?thesis by (simp add: Call c overlap_ok_def)
    qed
  next
    case (Advance i)
    show ?thesis
    proof (cases "i < length rs")
      case False
      then show ?thesis using assms by (simp add: Advance c)
    next
      case True
      obtain a r where ar: "rs ! i = (a, r)" by fastforce
      obtain r' s' where st: "round_step a r s = (r', s')" by fastforce
      have "known_low s r" using ok(2) True ar by (metis list_all_length snd_conv)
      from round_step_held [OF ok(1) this st] have new: "leases_held s'" "risks_kept s s'" "known_low s' r'" by blast+
      have "known_low s' (snd (rs[i := (a, r')] ! j))" if "j < length rs" for j
        using that ok(2) new known_low_kept by (cases "j = i") (auto simp: list_all_length)
      with True new(1) show ?thesis by (simp add: Advance c ar st overlap_ok_def list_all_length)
    qed
  qed
qed

lemma overlap_run: "overlap_ok c \<Longrightarrow> overlap_ok (fold orch_event es c)"
  by (induction es arbitrary: c) (simp_all add: overlap_step)

text \<open>Two rounds that both read the waiting task before either has committed.\<close>

definition crossing :: "schedule_event list" where
  "crossing =
     [Call (RegisterWorker ''w1'' ''bridge'' ''online'' [] 1),
      Call (Enqueue ''scan'' ''ops'' ''low'' 5 [] ''cli'' ''a'' (\<lambda>_. 10)),
      Call (Tick None 3 1800 (\<lambda>_. ''1'') (\<lambda>_. 20)), Call (Tick None 3 1800 (\<lambda>_. ''2'') (\<lambda>_. 20)),
      Advance 0, Advance 0, Advance 0, Advance 1, Advance 1, Advance 1, Advance 0, Advance 1]"

lemma lease_adds:
  assumes "ra_bridge a = None" and "''orch_asg_'' @ ra_uid a 0 \<notin> set (map oa_assignment_id (orchestrator_assignments s))"
    and "''orch_rep_'' @ ra_uid a 1 \<notin> set (map rp_report_id (orchestrator_reports s))"
  shows "live_leases (ot_task_id t) (snd (commit_round a t w s)) \<noteq> []"
    and "length (live_leases (ot_task_id t) (snd (commit_round a t w s))) = Suc (length (live_leases (ot_task_id t) s))"
    and "map oa_assignment_id (orchestrator_assignments (snd (commit_round a t w s)))
      = map oa_assignment_id (orchestrator_assignments s) @ [''orch_asg_'' @ ra_uid a 0]"
    and "map rp_report_id (orchestrator_reports (snd (commit_round a t w s)))
      = map rp_report_id (orchestrator_reports s) @ [''orch_rep_'' @ ra_uid a 1]"
  using assms
  by (simp_all add: commit_round_def lease_task_def Let_def tbl_insert_fresh tbl_find_None live_leases_def orch_report_def)

lemma crossing_commits:
  "fst (orch_event (Advance 1) (orch_event (Advance 0) (s, [(a, WorkerRead t w), (b, WorkerRead t' w')])))
    = snd (commit_round b t' w' (snd (commit_round a t w s)))"
  by simp

lemma crossing_leases: "length (live_leases ''orch_a'' (fst (fold orch_event crossing (empty_store, [])))) = 2"
proof -
  let ?c = "fold orch_event (take 10 crossing) (empty_store, [])"
  let ?a = "\<lambda>u. \<lparr>ra_bridge = None, ra_max_retries = 3, ra_timeout = 1800, ra_uid = (\<lambda>_. u), ra_clk = (\<lambda>_. 20)\<rparr>"
  have none: "map oa_assignment_id (orchestrator_assignments (fst ?c)) = []" "map rp_report_id (orchestrator_reports (fst ?c)) = []"
    "length (live_leases ''orch_a'' (fst ?c)) = 0" by code_simp+
  have "map (\<lambda>p. (Option.is_none (ra_bridge (fst p)), ra_uid (fst p) 0, ra_uid (fst p) 1,
      case snd p of WorkerRead t w \<Rightarrow> ot_task_id t | _ \<Rightarrow> [])) (snd ?c)
    = [(True, ''1'', ''1'', ''orch_a''), (True, ''2'', ''2'', ''orch_a'')]" by code_simp
  then obtain a r b r' where "snd ?c = [(a, r), (b, r')]" and k0: "ra_bridge a = None" "ra_bridge b = None"
      "ra_uid a 0 = ''1''" "ra_uid a 1 = ''1''" "ra_uid b 0 = ''2''" "ra_uid b 1 = ''2''"
      "(case r of WorkerRead t w \<Rightarrow> ot_task_id t | _ \<Rightarrow> []) = ''orch_a''"
      "(case r' of WorkerRead t w \<Rightarrow> ot_task_id t | _ \<Rightarrow> []) = ''orch_a''"
    by (auto simp: map_eq_Cons_conv Option.is_none_def)
  moreover from k0(7,8) obtain t w t' w' where "r = WorkerRead t w" "r' = WorkerRead t' w'" by (cases r; cases r') auto
  ultimately obtain t w t' w' where c: "snd ?c = [(a, WorkerRead t w), (b, WorkerRead t' w')]"
    and k: "ot_task_id t = ''orch_a''" "ot_task_id t' = ''orch_a''" "ra_bridge a = None" "ra_bridge b = None"
      "ra_uid a 0 = ''1''" "ra_uid a 1 = ''1''" "ra_uid b 0 = ''2''" "ra_uid b 1 = ''2''"
    by auto
  have "fold orch_event crossing (empty_store, []) = orch_event (Advance 1) (orch_event (Advance 0) ?c)"
    by (simp add: crossing_def)
  moreover have "?c = (fst ?c, [(a, WorkerRead t w), (b, WorkerRead t' w')])" using c by (metis prod.collapse)
  ultimately have "fst (fold orch_event crossing (empty_store, []))
      = snd (commit_round b t' w' (snd (commit_round a t w (fst ?c))))"
    by (metis crossing_commits)
  then show ?thesis
    using lease_adds [of a "fst ?c" t w] lease_adds [of b "snd (commit_round a t w (fst ?c))" t' w'] k none by simp
qed

section \<open>Properties\<close>

text \<open>C9: as long as a round of the scheduler begins only when the one before it has ended, whatever is enqueued or
  registered between its steps, no task is ever with two workers: it has exactly one live lease while it is leased
  and none otherwise.  Whatever rounds overlap, a leased task has a live lease, only tasks of low risk are
  handed out, and no status but \<open>queued\<close>, \<open>leased\<close> and \<open>paused\<close> is reached (nothing records that a task was done).  But the
  reads of a round are not protected: two rounds that overlap can both grant one task, which then has two live
  leases.\<close>

theorem leases_are_exclusive:
  "(let c = fold orch_event events (empty_store, []); s = fst c
    in (if apart events (empty_store, [])
        then length (live_leases k s) = (if task_leased k s then 1 else 0)
        else if task_leased k s then live_leases k s \<noteq> [] else True)
       \<and> list_all (\<lambda>t. ot_risk t = ''low'' \<or> ot_status t = ''queued'') (orchestrator_tasks s)
       \<and> list_all (\<lambda>t. ot_status t \<in> {''queued'', ''leased'', ''paused''}) (orchestrator_tasks s))
   \<and> (\<exists>crossed j. length (live_leases j (fst (fold orch_event crossed (empty_store, [])))) = 2)"
proof -
  have "overlap_ok (empty_store, [])"
    by (simp add: overlap_ok_def leases_held_def task_leased_def empty_store_def keys_distinct_def)
  from overlap_run [OF this, of events]
  have h: "leases_held (fst (fold orch_event events (empty_store, [])))" by (simp add: overlap_ok_def)
  have "apart_ok (empty_store, [])" using orch_ok_empty by (simp add: apart_ok_def)
  from apart_run [OF this, of events]
  have "apart events (empty_store, []) \<Longrightarrow> orch_ok (fst (fold orch_event events (empty_store, [])))" by (simp add: apart_ok_def)
  with h have "let c = fold orch_event events (empty_store, []); s = fst c
    in (if apart events (empty_store, [])
        then length (live_leases k s) = (if task_leased k s then 1 else 0)
        else if task_leased k s then live_leases k s \<noteq> [] else True)
       \<and> list_all (\<lambda>t. ot_risk t = ''low'' \<or> ot_status t = ''queued'') (orchestrator_tasks s)
       \<and> list_all (\<lambda>t. ot_status t \<in> {''queued'', ''leased'', ''paused''}) (orchestrator_tasks s)"
    by (auto simp: Let_def orch_ok_def leases_held_def orch_row_ok_def list_all_iff)
  with crossing_leases show ?thesis by blast
qed

end
