(* ===== verification/Worktrees.thy ===== *)
theory Worktrees imports Orchestrator PyText begin

text \<open>
  The worktrees of the orchestrator (\<open>orchestrator.py\<close>: \<open>prepare_agent_worktree\<close>, \<open>merge_queue\<close>,
  \<open>branch_backlog\<close>).  Git and the file system are the record \<open>git_env\<close>: what a git command run in a
  directory returns, which paths exist, how a path resolves, and what creating a directory raises.
\<close>

record git_env =
  ge_git :: "string \<Rightarrow> string list \<Rightarrow> (int \<times> string) result"
  ge_exists :: "string \<Rightarrow> bool"
  ge_resolve :: "string \<Rightarrow> string"
  ge_mkdir :: "string \<Rightarrow> exn option"
  ge_error_text :: "exn \<Rightarrow> string"

text \<open>\<open>check=True\<close>\<close>

definition git_checked :: "git_env \<Rightarrow> string \<Rightarrow> string list \<Rightarrow> string result" where
  "git_checked g cwd args =
     bind_result (ge_git g cwd args) (\<lambda>(code, out). if code = 0 then Inr out else Inl (CalledProcessError (''git'' # args) code))"

section \<open>Checking a worktree\<close>

definition worktree_paths :: "git_env \<Rightarrow> string \<Rightarrow> string list result" where
  "worktree_paths g repo =
     bind_result (ge_git g repo [''worktree'', ''list'', ''--porcelain'']) (\<lambda>(code, out).
       Inr (map (\<lambda>line. ge_resolve g (removeprefix line ''worktree ''))
              (filter (\<lambda>line. startswith line ''worktree '') (split_lines out))))"

definition validate_worktree :: "git_env \<Rightarrow> string \<Rightarrow> string \<Rightarrow> string \<Rightarrow> unit result" where
  "validate_worktree g repo path branch =
     (if \<not> ge_exists g path then Inl (RuntimeError (''worktree path missing: '' @ path))
      else bind_result (ge_git g ''.'' [''-C'', path, ''rev-parse'', ''--abbrev-ref'', ''HEAD'']) (\<lambda>(code, out).
        if code \<noteq> 0 \<or> strip out \<noteq> branch
        then Inl (RuntimeError (''worktree path already exists but is not branch '' @ branch @ '': '' @ path))
        else bind_result (worktree_paths g repo) (\<lambda>paths.
          if ge_resolve g path \<notin> set paths
          then Inl (RuntimeError (''worktree path is not registered for repo '' @ repo @ '': '' @ path))
          else Inr ())))"

section \<open>Preparing a worktree\<close>

definition worktree_dict :: "orch_worktree \<Rightarrow> (string \<times> string) list" where
  "worktree_dict w =
     [(''task_id'', wt_task_id w), (''worker_id'', wt_worker_id w), (''branch'', wt_branch w), (''path'', wt_path w),
      (''base'', wt_base w), (''status'', wt_status w)]"

text \<open>A record that exists already is checked and handed back; nothing is written.\<close>

definition reuse_worktree :: "git_env \<Rightarrow> string \<Rightarrow> string \<Rightarrow> string \<Rightarrow> orch_worktree \<Rightarrow> (string \<times> string) list result" where
  "reuse_worktree g repo base worker_id current =
     (if ge_resolve g (wt_repo_path current) \<noteq> repo \<or> wt_base current \<noteq> base \<or> wt_worker_id current \<noteq> worker_id
      then Inl (RuntimeError ''existing worktree record does not match requested repo/base/worker'')
      else bind_result (validate_worktree g repo (ge_resolve g (wt_path current)) (wt_branch current))
             (\<lambda>_. Inr (worktree_dict current)))"

definition worktree_location :: "git_env \<Rightarrow> string \<Rightarrow> string \<Rightarrow> string option \<Rightarrow> (string \<times> string \<times> string) result" where
  "worktree_location g safe_task repo worktree_root =
     (let root = (case worktree_root of
                    Some r \<Rightarrow> ge_resolve g r
                  | None \<Rightarrow> posix_join (posix_parent repo) ''.hmn-worktrees'');
          path = ge_resolve g (posix_join root safe_task)
      in if \<not> is_relative_to path root
         then Inl (ValueError ''worktree path must stay under worktree_root'')
         else Inr (root, path, ''hmn/agent/'' @ safe_task))"

definition add_worktree :: "git_env \<Rightarrow> string \<Rightarrow> string \<Rightarrow> string \<Rightarrow> string \<Rightarrow> unit result" where
  "add_worktree g repo path branch base =
     (if \<not> ge_exists g path
      then bind_result (git_checked g repo [''worktree'', ''add'', ''-b'', branch, path, base]) (\<lambda>_. Inr ())
      else validate_worktree g repo path branch)"

definition prepare_agent_worktree ::
  "git_env \<Rightarrow> string \<Rightarrow> string \<Rightarrow> string \<Rightarrow> string \<Rightarrow> string option \<Rightarrow> (nat \<Rightarrow> time) \<Rightarrow> store
    \<Rightarrow> (string \<times> string) list result \<times> store" where
  "prepare_agent_worktree g task_id worker_id repo_path base worktree_root clk s =
     (let repo = ge_resolve g repo_path
      in case bind_result (safe_task_id task_id) (\<lambda>safe_task. worktree_location g safe_task repo worktree_root) of
           Inl e \<Rightarrow> (Inl e, s)
         | Inr (root, path, branch) \<Rightarrow>
             (case ge_mkdir g root of
                Some e \<Rightarrow> (Inl e, s)
              | None \<Rightarrow>
                  (case tbl_find wt_task_id task_id (orchestrator_worktrees s) of
                     Some current \<Rightarrow> (reuse_worktree g repo base worker_id current, s)
                   | None \<Rightarrow>
                       (case add_worktree g repo path branch base of
                          Inl e \<Rightarrow> (Inl e, s)
                        | Inr _ \<Rightarrow>
                            let w = \<lparr>wt_task_id = task_id, wt_worker_id = worker_id, wt_repo_path = repo, wt_path = path,
                                     wt_branch = branch, wt_base = base, wt_status = ''prepared'', wt_created_at = clk 0,
                                     wt_updated_at = clk 0\<rparr>
                            in (case tbl_insert wt_task_id w (orchestrator_worktrees s) of
                                  Inl e \<Rightarrow> (Inl e, s)
                                | Inr rows \<Rightarrow>
                                    (Inr (worktree_dict w),
                                     orch_audit task_id ''worktree/prepare'' ''prepared''
                                       [(''worker_id'', JStr worker_id), (''repo_path'', JStr repo), (''path'', JStr path),
                                        (''branch'', JStr branch), (''base'', JStr base)]
                                       (clk 1) (s\<lparr>orchestrator_worktrees := rows\<rparr>)))))))"

section \<open>The merge queue\<close>

datatype verdict =
    MergeReady
  | Conflict string
  | Missing string

record merge_plan =
  mq_merge_ready :: "orch_worktree list"
  mq_conflict :: "(orch_worktree \<times> string) list"
  mq_missing :: "(orch_worktree \<times> string) list"

definition merge_candidates :: "string \<Rightarrow> string \<Rightarrow> store \<Rightarrow> orch_worktree list" where
  "merge_candidates repo base s =
     order_by wt_created_at (order_by wt_task_id
       (filter (\<lambda>w. wt_repo_path w = repo \<and> wt_base w = base \<and> wt_status w \<in> {''prepared'', ''ready'', ''conflict''})
         (orchestrator_worktrees s)))"

definition has_conflict :: "string \<Rightarrow> bool" where
  "has_conflict out \<longleftrightarrow> contains out ''<<<<<<<'' \<or> contains out ''changed in both''"

definition judge_worktree :: "git_env \<Rightarrow> string \<Rightarrow> string \<Rightarrow> orch_worktree \<Rightarrow> verdict result" where
  "judge_worktree g repo base w =
     bind_result (ge_git g repo [''rev-parse'', ''--verify'', ''refs/heads/'' @ wt_branch w]) (\<lambda>(exists_code, _).
       case validate_worktree g repo (ge_resolve g (wt_path w)) (wt_branch w) of
         Inl (RuntimeError m) \<Rightarrow> Inr (Missing m)
       | Inl e \<Rightarrow> Inl e
       | Inr _ \<Rightarrow>
           if exists_code \<noteq> 0 then Inr (Missing ''branch missing'')
           else bind_result (ge_git g repo [''merge-base'', base, wt_branch w]) (\<lambda>(code, out).
             if code \<noteq> 0 \<or> strip out = [] then Inr (Conflict ''merge-base failed'')
             else bind_result (ge_git g repo [''merge-tree'', strip out, base, wt_branch w]) (\<lambda>(_, tree).
               Inr (if has_conflict tree then Conflict ''merge-tree conflict'' else MergeReady))))"

fun judge_all :: "git_env \<Rightarrow> string \<Rightarrow> string \<Rightarrow> orch_worktree list \<Rightarrow> (orch_worktree \<times> verdict) list result" where
  "judge_all g repo base [] = Inr []"
| "judge_all g repo base (w # ws) =
     bind_result (judge_worktree g repo base w) (\<lambda>v.
       bind_result (judge_all g repo base ws) (\<lambda>vs. Inr ((w, v) # vs)))"

definition verdict_status :: "verdict \<Rightarrow> string" where
  "verdict_status v = (case v of MergeReady \<Rightarrow> ''ready'' | Conflict _ \<Rightarrow> ''conflict'' | Missing _ \<Rightarrow> ''missing'')"

definition set_worktree_status :: "time \<Rightarrow> string \<times> string \<Rightarrow> store \<Rightarrow> store" where
  "set_worktree_status now u s =
     s\<lparr>orchestrator_worktrees := tbl_update wt_task_id (snd u)
         (\<lambda>w. w\<lparr>wt_status := fst u, wt_updated_at := now\<rparr>) (orchestrator_worktrees s)\<rparr>"

definition merge_queue :: "git_env \<Rightarrow> string \<Rightarrow> string \<Rightarrow> time \<Rightarrow> store \<Rightarrow> merge_plan result \<times> store" where
  "merge_queue g repo_path base now s =
     (let repo = ge_resolve g repo_path
      in case judge_all g repo base (merge_candidates repo base s) of
           Inl e \<Rightarrow> (Inl e, s)
         | Inr judged \<Rightarrow>
             (Inr \<lparr>mq_merge_ready = map fst (filter (\<lambda>p. snd p = MergeReady) judged),
                   mq_conflict = concat (map (\<lambda>(w, v). case v of Conflict r \<Rightarrow> [(w, r)] | _ \<Rightarrow> []) judged),
                   mq_missing = concat (map (\<lambda>(w, v). case v of Missing r \<Rightarrow> [(w, r)] | _ \<Rightarrow> []) judged)\<rparr>,
              fold (set_worktree_status now) (map (\<lambda>(w, v). (verdict_status v, wt_task_id w)) judged) s))"

section \<open>The branch backlog\<close>

record branch_item =
  bi_branch :: string
  bi_ref :: string
  bi_sha :: string
  bi_reason :: "string option"

datatype bucket = Merged | ConflictBucket | NeedsReview

definition task_absorbed_branches :: "(string \<times> string) list" where
  "task_absorbed_branches =
     [(''feat/monitor-closed-loop'', ''task-specific slice already extracted; stale-base cleanup candidate''),
      (''feat/production-readiness-doctor'', ''production readiness slice already extracted; stale-base cleanup candidate''),
      (''feat/production-readiness-p0'', ''production readiness slice already extracted; stale-base cleanup candidate''),
      (''fix/production-p0-readiness'', ''production readiness slice already extracted; stale-base cleanup candidate''),
      (''hmn-docs-center-apply'', ''docs-center apply slice already extracted; stale-base cleanup candidate''),
      (''hmn-task12-coolify'', ''Coolify provider slice already extracted; stale-base cleanup candidate''),
      (''hmn-task17-restore-plan'', ''restore plan slice already extracted; stale-base cleanup candidate''),
      (''hmn-task18-migration-plan'', ''migration plan slice already extracted with mainline hardening; stale-base cleanup candidate''),
      (''hmn-task19-onboarding-plan'', ''onboarding plan slice already extracted with mainline hardening; stale-base cleanup candidate''),
      (''hmn-config-provider-merge-check'', ''config provider slice already extracted; stale-base cleanup candidate''),
      (''feat/useful-ops-mvp'',
       ''managed ops dry-run code already extracted; only summary doc was missing and has been manually copied'')]"

definition classify_branch :: "git_env \<Rightarrow> string \<Rightarrow> string \<Rightarrow> branch_item \<Rightarrow> (bucket \<times> branch_item) result" where
  "classify_branch g repo base item =
     bind_result (ge_git g repo [''merge-base'', ''--is-ancestor'', bi_ref item, base]) (\<lambda>(code, _).
       if code = 0 then Inr (Merged, item)
       else case map_of task_absorbed_branches (bi_branch item) of
         Some reason \<Rightarrow> Inr (Merged, item\<lparr>bi_reason := Some reason\<rparr>)
       | None \<Rightarrow>
           bind_result (ge_git g repo [''merge-tree'', base, bi_ref item]) (\<lambda>(_, out).
             if has_conflict out then Inr (ConflictBucket, item\<lparr>bi_reason := Some ''merge-tree conflict''\<rparr>)
             else Inr (NeedsReview, item)))"

fun scan_refs ::
  "git_env \<Rightarrow> string \<Rightarrow> string \<Rightarrow> string list \<Rightarrow> string list \<Rightarrow> (bucket \<times> branch_item) list result" where
  "scan_refs g repo base seen [] = Inr []"
| "scan_refs g repo base seen (line # lines) =
     (if strip line = [] then scan_refs g repo base seen lines
      else case split_ws_max 1 line of
        [ref, sha] \<Rightarrow>
          if ref = ''origin/HEAD'' then scan_refs g repo base seen lines
          else let branch = removeprefix ref ''origin/''
            in if branch \<in> set seen then scan_refs g repo base seen lines
               else bind_result (classify_branch g repo base \<lparr>bi_branch = branch, bi_ref = ref, bi_sha = sha, bi_reason = None\<rparr>)
                 (\<lambda>b. bind_result (scan_refs g repo base (branch # seen) lines) (\<lambda>bs. Inr (b # bs)))
      | _ \<Rightarrow> Inl (ValueError ''not enough values to unpack (expected 2, got 1)''))"

record backlog =
  bl_total :: nat
  bl_merged :: "branch_item list"
  bl_conflict :: "branch_item list"
  bl_needs_review :: "branch_item list"
  bl_cleanup :: "string list"
  bl_wip_count :: nat
  bl_wip_limit :: int

definition in_bucket :: "bucket \<Rightarrow> (bucket \<times> branch_item) list \<Rightarrow> branch_item list" where
  "in_bucket b items = map snd (filter (\<lambda>p. fst p = b) items)"

text \<open>\<open>except (OSError, CalledProcessError)\<close>\<close>

definition scan_error :: "exn \<Rightarrow> bool" where
  "scan_error e = (case e of OSError _ \<Rightarrow> True | CalledProcessError _ _ \<Rightarrow> True | _ \<Rightarrow> False)"

text \<open>The other five buckets stay empty.\<close>

definition branch_backlog :: "git_env \<Rightarrow> string \<Rightarrow> string \<Rightarrow> int \<Rightarrow> backlog result" where
  "branch_backlog g repo base wip_limit =
     (case git_checked g repo [''for-each-ref'', ''--format=%(refname:short) %(objectname:short)'', ''refs/heads'', ''refs/remotes/origin''] of
        Inl e \<Rightarrow>
          if scan_error e
          then Inr \<lparr>bl_total = 0, bl_merged = [],
                    bl_conflict = [\<lparr>bi_branch = base, bi_ref = base, bi_sha = [],
                                    bi_reason = Some (''git scan failed: '' @ ge_error_text g e)\<rparr>],
                    bl_needs_review = [], bl_cleanup = [], bl_wip_count = 0, bl_wip_limit = wip_limit\<rparr>
          else Inl e
      | Inr refs \<Rightarrow>
          bind_result (scan_refs g repo base [] (split_lines refs)) (\<lambda>items.
            let merged = in_bucket Merged items
            in Inr \<lparr>bl_total = length items, bl_merged = merged, bl_conflict = in_bucket ConflictBucket items,
                    bl_needs_review = in_bucket NeedsReview items,
                    bl_cleanup = filter (\<lambda>b. b \<notin> {base, ''origin/'' @ base, ''main''}) (map bi_branch merged),
                    bl_wip_count = length (in_bucket NeedsReview items) + length (in_bucket ConflictBucket items),
                    bl_wip_limit = wip_limit\<rparr>))"

section \<open>Safe task ids\<close>

lemma replace_all_absent: "CHR 0x5C \<notin> set s \<Longrightarrow> replace_all [CHR 0x5C] r s = s"
  by (induction s) (auto simp: startswith_def)

lemma safe_task_id_iff: "safe_task_id v = Inr w \<longleftrightarrow> w = v \<and> v \<noteq> [] \<and> set v \<subseteq> set TASK_ID_CHARS"
proof (cases "v \<noteq> [] \<and> set v \<subseteq> set TASK_ID_CHARS")
  case True
  have no: "CHR ''/'' \<notin> set v" "CHR 0x5C \<notin> set v" "CHR ''.'' \<notin> set v"
    using True by (auto simp: TASK_ID_CHARS_def subset_iff)
  have "split_on CHR ''/'' (replace_all [CHR 0x5C] ''/'' v) = [v]"
    using no by (simp add: replace_all_absent split_on_no_sep)
  moreover have "v \<noteq> ''.''" "v \<noteq> ''..''" using no(3) by auto
  moreover have "\<not> list_ex (\<lambda>ch. ch \<notin> set TASK_ID_CHARS) v" using True by (auto simp: list_ex_iff)
  ultimately show ?thesis using True by (auto simp: safe_task_id_def)
next
  case False
  then show ?thesis by (auto simp: safe_task_id_def list_ex_iff)
qed

section \<open>Properties\<close>

text \<open>C11: an agent's worktree stays where it belongs: a task id with a character outside letters, digits,
  \<open>-\<close> and \<open>_\<close> is refused before anything is done, any other failure writes nothing either, and a success
  hands back the recorded worktree of that task, worker and base, or records exactly one new worktree
  below the root, on the branch named after the task.\<close>

theorem worktree_stays_below_root:
  "case prepare_agent_worktree g task_id worker_id repo_path base worktree_root clk s of (r, s') \<Rightarrow>
     (case r of
        Inl e \<Rightarrow> s' = s
      | Inr d \<Rightarrow> task_id \<noteq> [] \<and> set task_id \<subseteq> set TASK_ID_CHARS
          \<and> (case tbl_find wt_task_id task_id (orchestrator_worktrees s) of
               Some w \<Rightarrow> s' = s \<and> d = worktree_dict w \<and> wt_worker_id w = worker_id \<and> wt_base w = base
             | None \<Rightarrow> \<exists>w root.
                 orchestrator_worktrees s' = orchestrator_worktrees s @ [w] \<and> d = worktree_dict w \<and> wt_task_id w = task_id
                 \<and> root = (case worktree_root of Some r \<Rightarrow> ge_resolve g r
                           | None \<Rightarrow> posix_join (posix_parent (ge_resolve g repo_path)) ''.hmn-worktrees'')
                 \<and> is_relative_to (wt_path w) root \<and> wt_branch w = ''hmn/agent/'' @ task_id))"
proof (cases "bind_result (safe_task_id task_id) (\<lambda>t. worktree_location g t (ge_resolve g repo_path) worktree_root)")
  case (Inl e)
  then show ?thesis by (simp add: prepare_agent_worktree_def Let_def)
next
  case (Inr loc)
  obtain root path branch where loc: "loc = (root, path, branch)" by (metis prod_cases3)
  have safe: "task_id \<noteq> []" "set task_id \<subseteq> set TASK_ID_CHARS"
    and at: "worktree_location g task_id (ge_resolve g repo_path) worktree_root = Inr (root, path, branch)"
    using Inr loc by (auto simp: bind_result_Inr_iff safe_task_id_iff)
  have root: "root = (case worktree_root of Some r \<Rightarrow> ge_resolve g r
      | None \<Rightarrow> posix_join (posix_parent (ge_resolve g repo_path)) ''.hmn-worktrees'')"
    "is_relative_to path root" "branch = ''hmn/agent/'' @ task_id"
    using at by (auto simp: worktree_location_def Let_def split: if_splits option.splits)
  show ?thesis
  proof (cases "ge_mkdir g root")
    case (Some e)
    then show ?thesis using Inr loc by (simp add: prepare_agent_worktree_def Let_def)
  next
    case None
    show ?thesis
    proof (cases "tbl_find wt_task_id task_id (orchestrator_worktrees s)")
      case (Some w)
      have "prepare_agent_worktree g task_id worker_id repo_path base worktree_root clk s
          = (reuse_worktree g (ge_resolve g repo_path) base worker_id w, s)"
        using Inr loc None Some by (simp add: prepare_agent_worktree_def Let_def)
      then show ?thesis using safe Some
        by (auto simp: reuse_worktree_def bind_result_Inr_iff split: sum.split if_splits)
    next
      case new: None
      then have ins: "tbl_insert wt_task_id w (orchestrator_worktrees s) = Inr (orchestrator_worktrees s @ [w])"
        if "wt_task_id w = task_id" for w using that by (simp add: tbl_insert_fresh)
      show ?thesis
      proof (cases "add_worktree g (ge_resolve g repo_path) path branch base")
        case (Inl e)
        then show ?thesis using Inr loc None new by (simp add: prepare_agent_worktree_def Let_def)
      next
        case added: (Inr u)
        then show ?thesis using Inr loc None new safe root ins
          by (simp add: prepare_agent_worktree_def Let_def orch_audit_def)
      qed
    qed
  qed
qed

end
