(* ===== verification/Discovery.thy ===== *)
theory Discovery imports Services Manifest PyRegex PyData begin

text \<open>
  Service discovery (\<open>service_discovery.py\<close>): the texts that \<open>systemctl\<close>, \<open>docker\<close>, \<open>ss\<close>, compose files and
  proxy configurations give are parsed into services, merged by id, compared with the stored services
  and saved.  The reader of one line of JSON is the parameter \<open>loads\<close> (\<open>None\<close> where \<open>json.loads\<close> raises
  \<open>JSONDecodeError\<close>).
\<close>

section \<open>Names and merging\<close>

definition normalize_name :: "string \<Rightarrow> string" where
  "normalize_name v =
     (let normalized = strip_chars ''-'' (re_sub (plus_re (\<lambda>c. \<not> (is_letter c \<or> is_digit c \<or> c \<in> set ''_-'')))
            (\<lambda>_. ''-'') (lower (strip v)))
      in if normalized = [] then ''unknown'' else normalized)"

definition discovered_id :: "string \<Rightarrow> string \<Rightarrow> string" where
  "discovered_id node_id name = ''svc_'' @ node_id @ ''_'' @ normalize_name name"

definition merge_unique_ints :: "int list \<Rightarrow> int list \<Rightarrow> int list" where
  "merge_unique_ints left right = sort (remdups (left @ right))"

definition merge_unique_strings :: "string list \<Rightarrow> string list \<Rightarrow> string list" where
  "merge_unique_strings left right = first_occurrences (filter (\<lambda>t. t \<noteq> []) (map strip (left @ right)))"

text \<open>A listener is known by address, port and process; a list or dict among them cannot be put in a set.\<close>

definition listener_marker :: "dict \<Rightarrow> json result" where
  "listener_marker d =
     (let m = [dget d ''address'', dget d ''port'', dget d ''process'']
      in if list_ex unhashable m then Inl (TypeError ''unhashable type'') else Inr (JList m))"

fun known_markers :: "json list \<Rightarrow> json list result" where
  "known_markers [] = Inr []"
| "known_markers (v # vs) =
     (case v of
        JObj d \<Rightarrow> bind_result (listener_marker d) (\<lambda>m. bind_result (known_markers vs) (\<lambda>ms. Inr (m # ms)))
      | _ \<Rightarrow> known_markers vs)"

fun add_listeners :: "json list \<Rightarrow> json list \<Rightarrow> json list \<Rightarrow> json list result" where
  "add_listeners current seen [] = Inr current"
| "add_listeners current seen (v # vs) =
     (case v of
        JObj d \<Rightarrow> bind_result (listener_marker d) (\<lambda>m.
          if py_in m seen then add_listeners current seen vs
          else add_listeners (current @ [JObj d]) (m # seen) vs)
      | _ \<Rightarrow> add_listeners current seen vs)"

definition merge_entry :: "dict \<Rightarrow> string \<Rightarrow> json \<Rightarrow> dict result" where
  "merge_entry merged key v =
     (if key = ''listen_ports''
      then bind_result (py_iter (dget_or merged key (JList []))) (\<lambda>current.
           bind_result (known_markers current) (\<lambda>seen.
           bind_result (add_listeners current seen (case v of JList xs \<Rightarrow> xs | _ \<Rightarrow> [])) (\<lambda>current'.
             Inr (dset merged key (JList current')))))
      else case map_of merged key of
        None \<Rightarrow> Inr (dset merged key v)
      | Some old \<Rightarrow>
          (case (old, v) of
             (JObj nested, JObj incoming) \<Rightarrow>
               Inr (dset merged key (JObj (foldl (\<lambda>d (k, x). dsetdefault d k x) nested incoming)))
           | _ \<Rightarrow> Inr merged))"

fun merge_metadata :: "dict \<Rightarrow> dict \<Rightarrow> dict result" where
  "merge_metadata merged [] = Inr merged"
| "merge_metadata merged ((key, v) # incoming) =
     bind_result (merge_entry merged key v) (\<lambda>m. merge_metadata m incoming)"

text \<open>
  \<open>_has_value\<close> of a text or a list is that it is not empty, of \<open>monitor_enabled\<close> that it is true.
\<close>

definition prefer_text :: "'a list \<Rightarrow> 'a list \<Rightarrow> 'a list" where
  "prefer_text existing incoming = (if existing \<noteq> [] \<or> incoming = [] then existing else incoming)"

definition prefer_flag :: "bool \<Rightarrow> bool \<Rightarrow> bool" where
  "prefer_flag existing incoming = (if existing \<or> \<not> incoming then existing else incoming)"

type_synonym discovered = "(string \<times> service_record) list"

definition add_or_merge :: "discovered \<Rightarrow> service_record \<Rightarrow> discovered result" where
  "add_or_merge records r =
     (case map_of records (sv_service_id r) of
        None \<Rightarrow> Inr (AList.update (sv_service_id r) r records)
      | Some e \<Rightarrow>
          bind_result (merge_metadata (sv_metadata e) (sv_metadata r)) (\<lambda>metadata.
            Inr (AList.update (sv_service_id r)
              (e\<lparr>sv_domains := merge_unique_strings (sv_domains e) (sv_domains r),
                 sv_ports := merge_unique_ints (sv_ports e) (sv_ports r),
                 sv_deploy_path := prefer_text (sv_deploy_path e) (sv_deploy_path r),
                 sv_config_paths := merge_unique_strings (sv_config_paths e) (sv_config_paths r),
                 sv_env_paths := merge_unique_strings (sv_env_paths e) (sv_env_paths r),
                 sv_data_paths := merge_unique_strings (sv_data_paths e) (sv_data_paths r),
                 sv_health_check_url := prefer_text (sv_health_check_url e) (sv_health_check_url r),
                 sv_metadata := metadata\<rparr>) records)))"

fun add_all :: "discovered \<Rightarrow> service_record list \<Rightarrow> discovered result" where
  "add_all records [] = Inr records"
| "add_all records (r # rs) = bind_result (add_or_merge records r) (\<lambda>records'. add_all records' rs)"

text \<open>A discovered service; the other fields have the defaults of \<open>ServiceRecord\<close>.\<close>

definition found_service :: "string \<Rightarrow> string \<Rightarrow> string \<Rightarrow> string \<Rightarrow> dict \<Rightarrow> service_record" where
  "found_service node_id name kind runtime metadata =
     \<lparr>sv_service_id = discovered_id node_id name, sv_name = name, sv_node_id = node_id, sv_kind = kind,
      sv_runtime = runtime, sv_domains = [], sv_ports = [], sv_deploy_path = [], sv_config_paths = [],
      sv_env_paths = [], sv_data_paths = [], sv_health_check_url = [], sv_monitor_enabled = False,
      sv_docs_path = [], sv_source = ''discovery'', sv_status = ''active'', sv_metadata = metadata,
      sv_asset_score = 0, sv_asset_category = ''pending'', sv_why_asset = [], sv_created_at = None,
      sv_updated_at = None\<rparr>"

section \<open>systemctl\<close>

definition parse_systemd_line :: "string \<Rightarrow> string \<Rightarrow> service_record list" where
  "parse_systemd_line node_id line0 =
     (let bullet = utf8_char 0x25CF;
          line1 = strip line0;
          line = (if startswith line1 bullet then strip (removeprefix line1 bullet) else line1)
      in case split_ws_max 4 line of
           unit # load # active # sub # rest \<Rightarrow>
             (if endswith unit ''.service''
              then [found_service node_id (removesuffix unit ''.service'') ''systemd'' unit
                      [(''systemd'', JObj [(''unit'', JStr unit), (''load'', JStr load), (''active'', JStr active),
                         (''sub'', JStr sub), (''description'', JStr (case rest of [] \<Rightarrow> [] | d # _ \<Rightarrow> d))])]]
              else [])
         | _ \<Rightarrow> [])"

definition parse_systemd :: "string \<Rightarrow> string \<Rightarrow> service_record list" where
  "parse_systemd node_id out = concat (map (parse_systemd_line node_id) (split_lines out))"

section \<open>docker\<close>

definition digits_re :: regex where
  "digits_re = plus_re is_digit"

definition upto3_re :: regex where
  "upto3_re = Cat (One is_digit) (UpTo 2 is_digit)"

definition DOCKER_PORT_RE :: regex where
  "DOCKER_PORT_RE =
     seq_re [opt_re (any_re (seq_re [upto3_re, lit ''.'', upto3_re, lit ''.'', upto3_re, lit ''.'', upto3_re])
               [lit ''::'', seq_re [opt_re (lit ''[''), lit ''::'', lit '':'', opt_re (lit '']'')],
                lit ''0.0.0.0'', lit ''localhost'', lit ''127.0.0.1'']),
             lit '':'', Group 1 digits_re, lit ''->'', digits_re, lit ''/'', Or (lit ''tcp'') (lit ''udp'')]"

definition int_text :: "string \<Rightarrow> int" where
  "int_text s = (case parse_int s of Some i \<Rightarrow> i | None \<Rightarrow> 0)"

definition extract_docker_ports :: "string \<Rightarrow> int list" where
  "extract_docker_ports v = sort (remdups (map (\<lambda>h. int_text (hit_group 1 h)) (re_findall DOCKER_PORT_RE v)))"

definition docker_service :: "string \<Rightarrow> dict \<Rightarrow> service_record" where
  "docker_service node_id payload =
     (let name = lstrip_chars ''/'' (py_str (py_or (dget payload ''Names'') (py_or (dget payload ''Name'')
                   (py_or (dget payload ''ID'') (JStr ''container'')))));
          image = str_or (dget payload ''Image'') [];
          ports_text = str_or (dget payload ''Ports'') []
      in (found_service node_id name ''docker'' image
            [(''docker'', JObj [(''container_name'', JStr name), (''image'', JStr image), (''ports'', JStr ports_text)])])
          \<lparr>sv_ports := extract_docker_ports ports_text\<rparr>)"

fun docker_lines :: "(string \<Rightarrow> json option) \<Rightarrow> string \<Rightarrow> string list \<Rightarrow> service_record list result" where
  "docker_lines loads node_id [] = Inr []"
| "docker_lines loads node_id (line # lines) =
     (if strip line = [] then docker_lines loads node_id lines
      else case loads (strip line) of
        None \<Rightarrow> docker_lines loads node_id lines
      | Some (JObj payload) \<Rightarrow>
          bind_result (docker_lines loads node_id lines) (\<lambda>rs. Inr (docker_service node_id payload # rs))
      | Some _ \<Rightarrow> Inl (AttributeError ''object has no attribute get''))"

definition parse_docker :: "(string \<Rightarrow> json option) \<Rightarrow> string \<Rightarrow> string \<Rightarrow> service_record list result" where
  "parse_docker loads node_id out = docker_lines loads node_id (split_lines out)"

section \<open>Compose files\<close>

definition URL_RE :: regex where
  "URL_RE =
     seq_re [lit ''http'', opt_re (lit ''s''), lit ''://'',
             plus_re (\<lambda>c. \<not> is_space c \<and> c \<noteq> CHR 0x27 \<and> c \<noteq> CHR 0x22 \<and> c \<notin> set ''],;'')]"

definition extract_urls :: "string \<Rightarrow> string list" where
  "extract_urls v = map fst (re_findall URL_RE v)"

datatype compose_part = NoPart | EnvFile | Volumes | Healthcheck

record compose_state =
  cp_name :: string
  cp_image :: string
  cp_env_paths :: "string list"
  cp_data_paths :: "string list"
  cp_config_paths :: "string list"
  cp_health_check_url :: string
  cp_part :: compose_part
  cp_done :: "service_record list"

definition compose_deploy_path :: "string list \<Rightarrow> string" where
  "compose_deploy_path candidates =
     (case candidates of
        [] \<Rightarrow> []
      | c # _ \<Rightarrow> let p = posix_parent c in if endswith p ''/config'' then posix_parent p else p)"

definition compose_flush :: "string \<Rightarrow> compose_state \<Rightarrow> compose_state" where
  "compose_flush node_id st =
     (if cp_name st = [] then st
      else let metadata = [(''compose'', JObj [(''service'', JStr (cp_name st)), (''image'', JStr (cp_image st))])]
             @ (if cp_health_check_url st \<noteq> [] then [(''health_check'', JObj [(''source'', JStr ''compose'')])] else []);
             r = (found_service node_id (cp_name st) ''compose''
                    (if cp_image st \<noteq> [] then cp_image st else ''compose'') metadata)
                 \<lparr>sv_deploy_path := compose_deploy_path (cp_env_paths st @ cp_data_paths st @ cp_config_paths st),
                  sv_config_paths := cp_config_paths st, sv_env_paths := cp_env_paths st,
                  sv_data_paths := cp_data_paths st, sv_health_check_url := cp_health_check_url st\<rparr>
         in st\<lparr>cp_name := [], cp_image := [], cp_env_paths := [], cp_data_paths := [], cp_config_paths := [],
               cp_health_check_url := [], cp_done := cp_done st @ [r]\<rparr>)"

definition SERVICE_LINE_RE :: regex where
  "SERVICE_LINE_RE = seq_re [lit ''  '', plus_re (\<lambda>c. is_letter c \<or> is_digit c \<or> c \<in> set ''_.-''), lit '':'', Star is_space]"

text \<open>\<open>$\<close> of the pattern: the line, stripped on the right, ends where the match does.\<close>

definition is_service_line :: "string \<Rightarrow> bool" where
  "is_service_line line = list_ex (\<lambda>(b, s, g). s = []) (run SERVICE_LINE_RE ([], line, []))"

definition config_suffix :: "string \<Rightarrow> bool" where
  "config_suffix p = list_ex (endswith p) [''.conf'', ''.yaml'', ''.yml'', ''.json'', ''.toml'', ''.ini'', ''.env'']"

definition before_colon :: "string \<Rightarrow> string" where
  "before_colon s = (case split_once CHR '':'' s of Some (a, b) \<Rightarrow> a | None \<Rightarrow> s)"

definition compose_entry :: "string \<Rightarrow> compose_state \<Rightarrow> compose_state" where
  "compose_entry stripped st =
     (if startswith stripped ''image:''
      then st\<lparr>cp_image := strip (removeprefix stripped ''image:'')\<rparr>
      else if stripped = ''env_file:'' then st\<lparr>cp_part := EnvFile\<rparr>
      else if stripped = ''volumes:'' then st\<lparr>cp_part := Volumes\<rparr>
      else if stripped = ''healthcheck:'' then st\<lparr>cp_part := Healthcheck\<rparr>
      else if startswith stripped ''-'' \<and> cp_part st = EnvFile
      then st\<lparr>cp_env_paths := cp_env_paths st @ [strip (removeprefix stripped ''-'')]\<rparr>
      else if startswith stripped ''-'' \<and> cp_part st = Volumes
      then let host_path = strip (before_colon (strip (removeprefix stripped ''-'')))
           in if config_suffix host_path then st\<lparr>cp_config_paths := cp_config_paths st @ [host_path]\<rparr>
              else st\<lparr>cp_data_paths := cp_data_paths st @ [host_path]\<rparr>
      else if cp_part st = Healthcheck \<and> contains stripped ''http://''
      then (case extract_urls stripped of [] \<Rightarrow> st | u # _ \<Rightarrow> st\<lparr>cp_health_check_url := u\<rparr>)
      else st)"

definition compose_line :: "string \<Rightarrow> string \<Rightarrow> compose_state \<Rightarrow> compose_state" where
  "compose_line node_id raw_line st =
     (let line = rstrip raw_line; stripped = strip line
      in if stripped = [] then st
         else if is_service_line line \<and> stripped \<noteq> ''services:''
         then (compose_flush node_id st)\<lparr>cp_name := removesuffix stripped '':'', cp_part := NoPart\<rparr>
         else if cp_name st = [] then st
         else compose_entry stripped st)"

definition parse_compose :: "string \<Rightarrow> string \<Rightarrow> service_record list" where
  "parse_compose node_id out =
     cp_done (compose_flush node_id (fold (compose_line node_id) (split_lines out)
       \<lparr>cp_name = [], cp_image = [], cp_env_paths = [], cp_data_paths = [], cp_config_paths = [],
        cp_health_check_url = [], cp_part = NoPart, cp_done = []\<rparr>))"

section \<open>Listening ports\<close>

definition normalize_process_name :: "string \<Rightarrow> string" where
  "normalize_process_name v = (if v = ''postgres'' then ''postgresql'' else v)"

definition PROCESS_RE :: regex where
  "PROCESS_RE = seq_re [lit [CHR 0x22], Group 1 (plus_re (\<lambda>c. c \<noteq> CHR 0x22)), lit [CHR 0x22]]"

definition parse_port_line :: "string \<Rightarrow> string \<Rightarrow> service_record list" where
  "parse_port_line node_id line0 =
     (let line = strip line0
      in if line = [] \<or> startswith line ''State'' \<or> \<not> contains line ''LISTEN'' then []
         else case filter (\<lambda>part. CHR '':'' \<in> set part \<and> \<not> endswith part '':*'') (split_ws line) of
           [] \<Rightarrow> []
         | local # _ \<Rightarrow>
             (case rsplit_once CHR '':'' local of
                None \<Rightarrow> []
              | Some (address, port_text) \<Rightarrow>
                  (case parse_int port_text of
                     None \<Rightarrow> []
                   | Some port \<Rightarrow>
                       let process = (case re_search PROCESS_RE line of Some h \<Rightarrow> hit_group 1 h
                                      | None \<Rightarrow> ''port-'' @ show_int port)
                       in [(found_service node_id (normalize_process_name process) ''port'' ''ss''
                              [(''listen_ports'', JList [JObj [(''address'', JStr address), (''port'', JInt port),
                                                              (''process'', JStr process)]])])
                            \<lparr>sv_ports := [port]\<rparr>])))"

definition parse_ports :: "string \<Rightarrow> string \<Rightarrow> service_record list" where
  "parse_ports node_id out = concat (map (parse_port_line node_id) (split_lines out))"

section \<open>Reverse proxies\<close>

definition port_index :: "discovered \<Rightarrow> (int \<times> service_record) list" where
  "port_index records = concat (map (\<lambda>(k, r). map (\<lambda>port. (port, r)) (sv_ports r)) records)"

text \<open>The record is the one the port index holds, whatever was bound to the service since.\<close>

definition bind_domain ::
  "service_record \<Rightarrow> string \<Rightarrow> int \<Rightarrow> string \<Rightarrow> string \<Rightarrow> string \<Rightarrow> discovered \<Rightarrow> discovered result" where
  "bind_domain r domain target_port health_check_url source scope records =
     bind_result (merge_metadata (sv_metadata r)
         [(''reverse_proxy'', JObj [(''source'', JStr source), (''domain'', JStr domain), (''target_port'', JInt target_port)]),
          (''exposure'', JObj [(''scope'', JStr scope)])]) (\<lambda>m1.
     bind_result (if health_check_url \<noteq> [] then merge_metadata m1 [(''health_check'', JObj [(''source'', JStr source)])]
                  else Inr m1) (\<lambda>metadata.
       Inr (AList.update (sv_service_id r)
              (r\<lparr>sv_domains := merge_unique_strings (sv_domains r) [domain],
                 sv_health_check_url := prefer_text (sv_health_check_url r) health_check_url,
                 sv_metadata := metadata\<rparr>) records)))"

definition CADDY_RE :: regex where
  "CADDY_RE =
     seq_re [Group 1 (plus_re (\<lambda>c. is_letter c \<or> is_digit c \<or> c \<in> set ''_.-'')), Star is_space, lit [CHR 0x7B],
             LazyStar (\<lambda>c. c \<noteq> CHR 0x7D), lit ''reverse_proxy'', plus_re is_space, lit ''127.0.0.1:'', Group 2 digits_re]"

definition SERVER_BLOCK_RE :: regex where
  "SERVER_BLOCK_RE = seq_re [lit ''server'', Star is_space, lit [CHR 0x7B], LazyStar (\<lambda>_. True), lit [CHR 0x7D]]"

definition SERVER_NAME_RE :: regex where
  "SERVER_NAME_RE = seq_re [lit ''server_name'', plus_re is_space, Group 1 (plus_re (\<lambda>c. c \<noteq> CHR '';'')), lit '';'']"

definition URL_PORT_RE :: regex where
  "URL_PORT_RE = seq_re [lit '':'', Group 1 digits_re]"

text \<open>What the configuration says: a domain, its port, the URL to check, the proxy and the scope.\<close>

type_synonym proxy_rule = "string \<times> int \<times> string \<times> string \<times> string"

definition caddy_rules :: "string \<Rightarrow> proxy_rule list" where
  "caddy_rules caddy_output =
     map (\<lambda>h. let domain = hit_group 1 h
              in (domain, int_text (hit_group 2 h), [], ''caddy'',
                  if contains domain ''status'' then ''status-page'' else ''public''))
       (re_findall CADDY_RE caddy_output)"

definition nginx_block_rules :: "string \<Rightarrow> proxy_rule list" where
  "nginx_block_rules block =
     (let groups = map (hit_group 1) (re_findall SERVER_NAME_RE block);
          urls = extract_urls block
      in if groups = [] \<or> urls = [] then []
         else case re_search URL_PORT_RE (hd urls) of
           None \<Rightarrow> []
         | Some h \<Rightarrow> map (\<lambda>domain. (domain, int_text (hit_group 1 h), hd urls, ''nginx'', ''public''))
                       (concat (map split_ws groups)))"

definition nginx_rules :: "string \<Rightarrow> proxy_rule list" where
  "nginx_rules nginx_output = concat (map (\<lambda>h. nginx_block_rules (fst h)) (re_findall SERVER_BLOCK_RE nginx_output))"

fun apply_proxy_rules :: "(int \<times> service_record) list \<Rightarrow> proxy_rule list \<Rightarrow> discovered \<Rightarrow> discovered result" where
  "apply_proxy_rules port_map [] records = Inr records"
| "apply_proxy_rules port_map ((domain, port, url, source, scope) # rules) records =
     (case map_of port_map port of
        None \<Rightarrow> apply_proxy_rules port_map rules records
      | Some target \<Rightarrow>
          bind_result (bind_domain target domain port url source scope records) (apply_proxy_rules port_map rules))"

definition apply_proxy_enrichment :: "string \<Rightarrow> string \<Rightarrow> discovered \<Rightarrow> discovered result" where
  "apply_proxy_enrichment caddy_output nginx_output records =
     apply_proxy_rules (port_index records) (caddy_rules caddy_output @ nginx_rules nginx_output) records"

definition discover_services_from_text ::
  "(string \<Rightarrow> json option) \<Rightarrow> string \<Rightarrow> string \<Rightarrow> string \<Rightarrow> string \<Rightarrow> string \<Rightarrow> string \<Rightarrow> string
    \<Rightarrow> service_record list result" where
  "discover_services_from_text loads node_id systemd_output docker_output ports_output compose_output caddy_output nginx_output =
     bind_result (add_all [] (parse_systemd node_id systemd_output)) (\<lambda>r1.
     bind_result (parse_docker loads node_id docker_output) (\<lambda>docker.
     bind_result (add_all r1 docker) (\<lambda>r2.
     bind_result (add_all r2 (parse_ports node_id ports_output)) (\<lambda>r3.
     bind_result (add_all r3 (parse_compose node_id compose_output)) (\<lambda>r4.
     bind_result (apply_proxy_enrichment caddy_output nginx_output r4) (\<lambda>records.
       Inr (map snd (sort_key fst records))))))))"

section \<open>Comparing with the store\<close>

definition service_snapshot :: "service_record \<Rightarrow> dict" where
  "service_snapshot r =
     [(''service_id'', JStr (sv_service_id r)), (''name'', JStr (sv_name r)), (''node_id'', JStr (sv_node_id r)),
      (''kind'', JStr (sv_kind r)), (''runtime'', JStr (sv_runtime r)), (''domains'', JList (map JStr (sv_domains r))),
      (''ports'', JList (map JInt (sv_ports r))), (''deploy_path'', JStr (sv_deploy_path r)),
      (''config_paths'', JList (map JStr (sv_config_paths r))), (''env_paths'', JList (map JStr (sv_env_paths r))),
      (''data_paths'', JList (map JStr (sv_data_paths r))), (''health_check_url'', JStr (sv_health_check_url r)),
      (''monitor_enabled'', JBool (sv_monitor_enabled r)), (''docs_path'', JStr (sv_docs_path r)),
      (''source'', JStr (sv_source r)), (''status'', JStr (sv_status r)), (''metadata'', JObj (sv_metadata r))]"

definition service_diff :: "service_record option \<Rightarrow> service_record \<Rightarrow> dict" where
  "service_diff before after =
     (let before_snapshot = (case before of None \<Rightarrow> [] | Some b \<Rightarrow> service_snapshot b)
      in map (\<lambda>(key, v). (key, JObj [(''before'', dget before_snapshot key), (''after'', v)]))
           (filter (\<lambda>(key, v). \<not> py_eq (dget before_snapshot key) v) (service_snapshot after)))"

record service_change =
  ch_service_id :: string
  ch_change :: string
  ch_before :: "dict option"
  ch_after :: dict
  ch_diff :: dict

definition merged_service :: "string \<Rightarrow> service_record \<Rightarrow> service_record \<Rightarrow> service_record result" where
  "merged_service source e d =
     bind_result (merge_metadata (sv_metadata e) (sv_metadata d)) (\<lambda>metadata.
       Inr (e\<lparr>sv_name := prefer_text (sv_name e) (sv_name d),
              sv_node_id := prefer_text (sv_node_id e) (sv_node_id d),
              sv_kind := prefer_text (sv_kind e) (sv_kind d),
              sv_runtime := prefer_text (sv_runtime e) (sv_runtime d),
              sv_domains := prefer_text (sv_domains e) (sv_domains d),
              sv_ports := merge_unique_ints (sv_ports e) (sv_ports d),
              sv_deploy_path := prefer_text (sv_deploy_path e) (sv_deploy_path d),
              sv_config_paths := prefer_text (sv_config_paths e) (sv_config_paths d),
              sv_env_paths := prefer_text (sv_env_paths e) (sv_env_paths d),
              sv_data_paths := prefer_text (sv_data_paths e) (sv_data_paths d),
              sv_health_check_url := prefer_text (sv_health_check_url e) (sv_health_check_url d),
              sv_monitor_enabled := prefer_flag (sv_monitor_enabled e) (sv_monitor_enabled d),
              sv_docs_path := prefer_text (sv_docs_path e) (sv_docs_path d),
              sv_source := prefer_text (sv_source e) (sv_source d),
              sv_status := prefer_text (sv_status e) (sv_status d),
              sv_metadata := dset metadata ''discovery_source'' (JStr source)\<rparr>))"

definition plan_service ::
  "string \<Rightarrow> string \<Rightarrow> store \<Rightarrow> service_record \<Rightarrow> (service_record \<times> service_change) result" where
  "plan_service source node_id s r =
     (let d = r\<lparr>sv_node_id := (if sv_node_id r \<noteq> [] then sv_node_id r else node_id), sv_source := source\<rparr>;
          existing = load_service_record s (sv_service_id d)
      in bind_result
           (case existing of
              None \<Rightarrow> Inr (d\<lparr>sv_metadata := dset (sv_metadata d) ''discovery_source'' (JStr source)\<rparr>, ''create'')
            | Some e \<Rightarrow> bind_result (merged_service source e d) (\<lambda>service.
                Inr (service, if service_diff (Some e) service \<noteq> [] then ''update'' else ''unchanged'')))
           (\<lambda>(service, change).
              Inr (service, \<lparr>ch_service_id = sv_service_id service, ch_change = change,
                             ch_before = map_option service_snapshot existing, ch_after = service_snapshot service,
                             ch_diff = service_diff existing service\<rparr>)))"

definition plan_discovered_services ::
  "store \<Rightarrow> string \<Rightarrow> service_record list \<Rightarrow> string \<Rightarrow> (service_record list \<times> service_change list) result" where
  "plan_discovered_services s node_id records source =
     bind_result (map_result (plan_service source node_id s) records) (\<lambda>ps. Inr (map fst ps, map snd ps))"

fun save_services :: "(nat \<Rightarrow> time) \<Rightarrow> nat \<Rightarrow> service_record list \<Rightarrow> store \<Rightarrow> service_record list \<times> store" where
  "save_services clk i [] s = ([], s)"
| "save_services clk i (r # rs) s =
     (let (saved, s1) = save_service_record r (clk i) s;
          (others, s2) = save_services clk (Suc i) rs s1
      in (saved # others, s2))"

definition apply_discovered_services ::
  "string \<Rightarrow> service_record list \<Rightarrow> string \<Rightarrow> (nat \<Rightarrow> time) \<Rightarrow> store \<Rightarrow> service_record list result \<times> store" where
  "apply_discovered_services node_id records source clk s =
     (case plan_discovered_services s node_id records source of
        Inl e \<Rightarrow> (Inl e, s)
      | Inr (planned, changes) \<Rightarrow>
          let (saved, s1) = save_services clk 0 planned s
          in (Inr saved,
              record_audit ''service'' ''node'' node_id ''service_discovery'' ''ok''
                [(''source'', JStr source), (''service_count'', JInt (int (length saved))),
                 (''service_ids'', JList (map (\<lambda>r. JStr (sv_service_id r)) saved)),
                 (''changes'', JList (map (\<lambda>c. JObj [(''service_id'', JStr (ch_service_id c)),
                    (''change'', JStr (ch_change c)), (''diff'', JObj (ch_diff c))]) changes))]
                (clk (length planned)) s1))"

end
