(* ===== verification/DiscoveryLaws.thy ===== *)
theory DiscoveryLaws imports Discovery Sessions begin

text \<open>
  What discovery promises: merging keeps what is recorded and absorbs what it has merged, so that a
  second discovery of the same services changes nothing; and how a proxy with several domains is read.
\<close>

section \<open>Merging metadata\<close>

lemma map_of_dset: "map_of (dset d k v) k' = (if k' = k then Some v else map_of d k')"
  by (simp add: dset_def update_conv')

lemma map_of_dsetdefault: "map_of (dsetdefault d k v) k' = (if k' = k then Some (case map_of d k of None \<Rightarrow> v | Some x \<Rightarrow> x) else map_of d k')"
  by (auto simp: dsetdefault_def map_of_append map_add_def split: option.splits)

lemma foldl_dsetdefault_keeps:
  "map_of d k = Some v \<Longrightarrow> map_of (foldl (\<lambda>d (k, x). dsetdefault d k x) d ps) k = Some v"
  by (induction ps arbitrary: d) (auto simp: map_of_dsetdefault split: prod.splits)

lemma add_listeners_cases:
  assumes "add_listeners current seen (v # vs) = Inr ys"
  obtains (skip) "\<And>d. v \<noteq> JObj d" "add_listeners current seen vs = Inr ys"
  | (known) d m where "v = JObj d" "listener_marker d = Inr m" "py_in m seen" "add_listeners current seen vs = Inr ys"
  | (fresh) d m where "v = JObj d" "listener_marker d = Inr m" "\<not> py_in m seen"
      "add_listeners (current @ [JObj d]) (m # seen) vs = Inr ys"
  using assms by (cases v) (auto simp: bind_result_Inr_iff split: if_splits)

lemma add_listeners_extends: "add_listeners current seen vs = Inr ys \<Longrightarrow> \<exists>zs. ys = current @ zs"
proof (induction vs arbitrary: current seen)
  case (Cons v vs)
  from Cons.prems show ?case
    by (cases rule: add_listeners_cases) (use Cons.IH in fastforce)+
qed simp

text \<open>An entry is absorbed when merging it once more changes nothing.\<close>

definition absorbs :: "dict \<Rightarrow> string \<Rightarrow> json \<Rightarrow> bool" where
  "absorbs m k v \<longleftrightarrow> merge_entry m k v = Inr m"

lemma dset_same: "map_of d k = Some v \<Longrightarrow> dset d k v = d"
  unfolding dset_def by (induction d) auto

lemma foldl_dsetdefault_present:
  "(\<And>k. k \<in> fst ` set ps \<Longrightarrow> map_of d k \<noteq> None) \<Longrightarrow> foldl (\<lambda>d (k, x). dsetdefault d k x) d ps = d"
proof (induction ps)
  case (Cons p ps)
  obtain a b where p: "p = (a, b)" by fastforce
  with Cons.prems have "map_of d a \<noteq> None" by simp
  then have "dsetdefault d a b = d" by (auto simp: dsetdefault_def)
  with Cons p show ?case by simp
qed simp

lemma foldl_dsetdefault_adds:
  "k \<in> fst ` set ps \<Longrightarrow> map_of (foldl (\<lambda>d (k, x). dsetdefault d k x) d ps) k \<noteq> None"
proof (induction ps arbitrary: d)
  case (Cons p ps)
  obtain k' x where p: "p = (k', x)" by fastforce
  show ?case
  proof (cases "k = k'")
    case True
    then have "map_of (dsetdefault d k' x) k = Some (case map_of d k' of None \<Rightarrow> x | Some y \<Rightarrow> y)"
      by (simp add: map_of_dsetdefault)
    from foldl_dsetdefault_keeps [OF this] p show ?thesis by auto
  next
    case False
    with Cons p show ?thesis by simp
  qed
qed simp

lemma foldl_dsetdefault_twice:
  "foldl (\<lambda>d (k, x). dsetdefault d k x) (foldl (\<lambda>d (k, x). dsetdefault d k x) d ps) ps
   = foldl (\<lambda>d (k, x). dsetdefault d k x) d ps"
  by (rule foldl_dsetdefault_present) (rule foldl_dsetdefault_adds)

text \<open>Listeners: those of the merged list are known, and every incoming one is among them.\<close>

lemma py_in_Cons: "py_in m (x # xs) \<longleftrightarrow> py_eq m x \<or> py_in m xs"
  by (simp add: py_in_def)

lemma known_markers_append:
  "known_markers (xs @ ys) = bind_result (known_markers xs) (\<lambda>a. bind_result (known_markers ys) (\<lambda>b. Inr (a @ b)))"
proof (induction xs)
  case Nil
  show ?case by (cases "known_markers ys") auto
next
  case (Cons v vs)
  show ?case
  proof (cases v)
    case (JObj d)
    then show ?thesis using Cons
      by (cases "listener_marker d"; cases "known_markers vs"; cases "known_markers ys") auto
  qed (use Cons in auto)
qed

definition all_known :: "json list \<Rightarrow> json list \<Rightarrow> bool" where
  "all_known vs seen \<longleftrightarrow>
     list_all (\<lambda>v. case v of JObj d \<Rightarrow> (case listener_marker d of Inl _ \<Rightarrow> False | Inr m \<Rightarrow> py_in m seen) | _ \<Rightarrow> True) vs"

lemma add_listeners_all_known: "all_known vs seen \<Longrightarrow> add_listeners current seen vs = Inr current"
  by (induction vs) (auto simp: all_known_def split: json.splits sum.splits)

lemma py_eq_refl [simp]: "py_eq v v"
  by (simp add: py_eq_def)

lemma py_in_mono: "py_in m xs \<Longrightarrow> set xs \<subseteq> set ys \<Longrightarrow> py_in m ys"
  by (auto simp: py_in_def list_ex_iff)

lemma add_listeners_known:
  assumes "add_listeners current seen vs = Inr ys" and "known_markers current = Inr ms" and "set seen = set ms"
  shows "\<exists>ms'. known_markers ys = Inr ms' \<and> set ms \<subseteq> set ms' \<and> all_known vs ms'"
  using assms
proof (induction vs arbitrary: current seen ms)
  case (Cons v vs)
  from Cons.prems(1) show ?case
  proof (cases rule: add_listeners_cases)
    case skip
    from Cons.IH [OF skip(2) Cons.prems(2,3)] skip(1) show ?thesis by (cases v) (auto simp: all_known_def)
  next
    case (known d m)
    from Cons.IH [OF known(4) Cons.prems(2,3)] obtain ms' where
      ms': "known_markers ys = Inr ms'" "set ms \<subseteq> set ms'" "all_known vs ms'" by blast
    with known(3) Cons.prems(3) have "py_in m ms'" by (auto intro: py_in_mono)
    with ms' known show ?thesis by (auto simp: all_known_def)
  next
    case (fresh d m)
    have known: "known_markers (current @ [JObj d]) = Inr (ms @ [m])"
      using Cons.prems(2) fresh(2) by (simp add: known_markers_append)
    from Cons.IH [OF fresh(4) known] Cons.prems(3) obtain ms' where
      ms': "known_markers ys = Inr ms'" "set (ms @ [m]) \<subseteq> set ms'" "all_known vs ms'" by auto
    then have "py_in m ms'" unfolding py_in_def list_ex_iff by (intro bexI [of _ m]) simp_all
    with ms' fresh show ?thesis by (auto simp: all_known_def)
  qed
qed (auto simp: all_known_def)

lemma merge_entry_absorbs: "merge_entry m k v = Inr m' \<Longrightarrow> absorbs m' k v"
proof (cases "k = ''listen_ports''")
  case True
  assume "merge_entry m k v = Inr m'"
  with True obtain current seen ys where
    cur: "py_iter (dget_or m k (JList [])) = Inr current" "known_markers current = Inr seen"
    and add: "add_listeners current seen (case v of JList xs \<Rightarrow> xs | _ \<Rightarrow> []) = Inr ys"
    and m': "m' = dset m k (JList ys)"
    by (auto simp: merge_entry_def bind_result_Inr_iff)
  from add_listeners_known [OF add cur(2) refl] obtain ms' where
    "known_markers ys = Inr ms'" "all_known (case v of JList xs \<Rightarrow> xs | _ \<Rightarrow> []) ms'" by blast
  moreover have "map_of m' k = Some (JList ys)" by (simp add: m' map_of_dset)
  ultimately show ?thesis using True
    by (simp add: absorbs_def merge_entry_def dget_or_def add_listeners_all_known dset_same)
next
  case False
  assume e: "merge_entry m k v = Inr m'"
  show ?thesis
  proof (cases "map_of m k")
    case None
    with e False have "m' = dset m k v" by (simp add: merge_entry_def)
    then have look: "map_of m' k = Some v" by (simp add: map_of_dset)
    show ?thesis
    proof (cases v)
      case (JObj d)
      have "foldl (\<lambda>d (k, x). dsetdefault d k x) d d = d"
        by (rule foldl_dsetdefault_present) (simp add: map_of_eq_None_iff)
      with look False JObj show ?thesis by (simp add: absorbs_def merge_entry_def dset_same)
    qed (use look False in \<open>simp_all add: absorbs_def merge_entry_def\<close>)
  next
    case (Some old)
    show ?thesis
    proof (cases "\<exists>a b. old = JObj a \<and> v = JObj b")
      case True
      then obtain a b where ab: "old = JObj a" "v = JObj b" by blast
      with e False Some have m': "m' = dset m k (JObj (foldl (\<lambda>d (k, x). dsetdefault d k x) a b))"
        by (simp add: merge_entry_def)
      then have "map_of m' k = Some (JObj (foldl (\<lambda>d (k, x). dsetdefault d k x) a b))" by (simp add: map_of_dset)
      with False ab show ?thesis by (simp add: absorbs_def merge_entry_def foldl_dsetdefault_twice dset_same)
    next
      case other: False
      with e False Some have "m' = m" by (auto simp: merge_entry_def split: json.splits)
      with e show ?thesis by (simp add: absorbs_def)
    qed
  qed
qed

text \<open>Absorption looks at one key only.\<close>

lemma absorbs_cong:
  assumes "absorbs m k v" and "map_of m' k = map_of m k"
  shows "absorbs m' k v"
proof (cases "k = ''listen_ports''")
  case True
  have same: "dset m' k x = m'" if "dset m k x = m" for x
  proof -
    have "map_of m k = Some x" using map_of_dset [of m k x k] that by simp
    then show ?thesis using assms(2) by (simp add: dset_same)
  qed
  from assms(1) True obtain current seen ys where
    "py_iter (dget_or m k (JList [])) = Inr current" "known_markers current = Inr seen"
    "add_listeners current seen (case v of JList xs \<Rightarrow> xs | _ \<Rightarrow> []) = Inr ys" "dset m k (JList ys) = m"
    by (auto simp: absorbs_def merge_entry_def bind_result_Inr_iff)
  with True same [of "JList ys"] assms(2) show ?thesis by (simp add: absorbs_def merge_entry_def dget_or_def)
next
  case False
  have same: "dset m' k x = m'" if "dset m k x = m" for x
  proof -
    have "map_of m k = Some x" using map_of_dset [of m k x k] that by simp
    then show ?thesis using assms(2) by (simp add: dset_same)
  qed
  from False assms same show ?thesis
    by (auto simp: absorbs_def merge_entry_def split: option.splits json.splits)
qed

lemma merge_entry_other:
  "merge_entry m key v = Inr m' \<Longrightarrow> k \<noteq> key \<Longrightarrow> map_of m' k = map_of m k"
  by (auto simp: merge_entry_def bind_result_Inr_iff map_of_dset split: if_splits option.splits json.splits)

lemma merge_metadata_other:
  "merge_metadata m inc = Inr m' \<Longrightarrow> k \<notin> fst ` set inc \<Longrightarrow> map_of m' k = map_of m k"
proof (induction m inc rule: merge_metadata.induct)
  case (2 m key v inc)
  then obtain m1 where m1: "merge_entry m key v = Inr m1" "merge_metadata m1 inc = Inr m'"
    by (auto simp: bind_result_Inr_iff)
  with 2 show ?case using merge_entry_other [OF m1(1), of k] by simp
qed simp

lemma merge_metadata_absorbs:
  assumes "merge_metadata m inc = Inr m'" and "distinct (map fst inc)" and "(k, v) \<in> set inc"
  shows "absorbs m' k v"
  using assms
proof (induction m inc rule: merge_metadata.induct)
  case (2 m key x inc)
  then obtain m1 where m1: "merge_entry m key x = Inr m1" "merge_metadata m1 inc = Inr m'"
    by (auto simp: bind_result_Inr_iff)
  show ?case
  proof (cases "(k, v) = (key, x)")
    case True
    with 2(3) have "map_of m' k = map_of m1 k" using merge_metadata_other [OF m1(2)] by simp
    with absorbs_cong [OF merge_entry_absorbs [OF m1(1)]] True show ?thesis by simp
  next
    case False
    with "2.IH" [OF m1(2)] 2(3,4) show ?thesis by auto
  qed
qed simp

lemma merge_absorbed: "(\<And>k v. (k, v) \<in> set inc \<Longrightarrow> absorbs m k v) \<Longrightarrow> merge_metadata m inc = Inr m"
  by (induction inc) (auto simp: absorbs_def)

section \<open>Planning\<close>

lemma prefer_text_twice [simp]: "prefer_text (prefer_text e d) d = prefer_text e d"
  by (simp add: prefer_text_def)

lemma prefer_text_self [simp]: "prefer_text d d = d"
  by (simp add: prefer_text_def)

lemma prefer_flag_twice [simp]: "prefer_flag (prefer_flag e d) d = prefer_flag e d" "prefer_flag d d = d"
  by (simp_all add: prefer_flag_def)

lemma merge_ints_absorbs: "set right \<subseteq> set left \<Longrightarrow> sorted left \<Longrightarrow> distinct left \<Longrightarrow> merge_unique_ints left right = left"
  unfolding merge_unique_ints_def by (intro sorted_distinct_set_unique) auto

lemma merge_ints_twice [simp]: "merge_unique_ints (merge_unique_ints e d) d = merge_unique_ints e d"
  by (rule merge_ints_absorbs) (auto simp: merge_unique_ints_def)

lemma set_merge_unique_ints [simp]: "set (merge_unique_ints a b) = set a \<union> set b"
  by (simp add: merge_unique_ints_def)

text \<open>The mark of the source is a text, and a text absorbs every value.\<close>

lemma absorbs_text: "map_of m k = Some (JStr x) \<Longrightarrow> k \<noteq> ''listen_ports'' \<Longrightarrow> absorbs m k v"
  by (simp add: absorbs_def merge_entry_def)

lemma merge_marked:
  assumes "\<And>k v. (k, v) \<in> set inc \<Longrightarrow> absorbs m k v"
  shows "merge_metadata (dset m ''discovery_source'' (JStr src)) inc = Inr (dset m ''discovery_source'' (JStr src))"
proof (rule merge_absorbed)
  fix k v
  assume kv: "(k, v) \<in> set inc"
  show "absorbs (dset m ''discovery_source'' (JStr src)) k v"
  proof (cases "k = ''discovery_source''")
    case True
    then show ?thesis by (auto intro: absorbs_text simp: map_of_dset)
  next
    case False
    then show ?thesis using absorbs_cong [OF assms [OF kv]] by (simp add: map_of_dset)
  qed
qed

text \<open>Discovered metadata lists its listeners with markers that can be compared; it absorbs itself.\<close>

definition listeners_ok :: "dict \<Rightarrow> bool" where
  "listeners_ok m =
     (case map_of m ''listen_ports'' of
        None \<Rightarrow> True
      | Some (JList xs) \<Rightarrow> \<not> isl (known_markers xs)
      | Some _ \<Rightarrow> False)"

lemma known_markers_all_known: "known_markers xs = Inr ms \<Longrightarrow> set ms \<subseteq> set seen \<Longrightarrow> all_known xs seen"
proof (induction xs arbitrary: ms)
  case (Cons v vs)
  show ?case
  proof (cases v)
    case (JObj d)
    with Cons.prems obtain m ms' where m: "listener_marker d = Inr m" "known_markers vs = Inr ms'" "ms = m # ms'"
      by (auto simp: bind_result_Inr_iff)
    then have "py_in m seen" using Cons.prems(2) unfolding py_in_def list_ex_iff by (intro bexI [of _ m]) simp_all
    with Cons.IH [OF m(2)] Cons.prems(2) m JObj show ?thesis by (auto simp: all_known_def)
  qed (use Cons in \<open>auto simp: all_known_def\<close>)
qed (simp add: all_known_def)

lemma absorbs_own:
  assumes "map_of m k = Some v" and "listeners_ok m"
  shows "absorbs m k v"
proof (cases "k = ''listen_ports''")
  case True
  with assms obtain xs ms where xs: "v = JList xs" "known_markers xs = Inr ms"
    by (cases v; cases "known_markers (case v of JList xs \<Rightarrow> xs | _ \<Rightarrow> [])") (auto simp: listeners_ok_def)
  from known_markers_all_known [OF xs(2) subset_refl] xs True assms(1) show ?thesis
    by (simp add: absorbs_def merge_entry_def dget_or_def add_listeners_all_known dset_same)
next
  case False
  have own: "foldl (\<lambda>d (k, x). dsetdefault d k x) d d = d" for d :: dict
    by (rule foldl_dsetdefault_present) (simp add: map_of_eq_None_iff)
  from False assms(1) show ?thesis
    by (cases v) (simp_all add: absorbs_def merge_entry_def own dset_same)
qed

lemma merge_own_marked:
  assumes "distinct (map fst m)" and "listeners_ok m"
  shows "merge_metadata (dset m ''discovery_source'' (JStr src)) m = Inr (dset m ''discovery_source'' (JStr src))"
  using assms by (intro merge_marked) (auto intro: absorbs_own)

lemma service_diff_self [simp]: "service_diff (Some v) v = []"
  by (simp add: service_diff_def service_snapshot_def dget_def)

lemma merged_service_twice:
  assumes m: "merged_service source e d = Inr v" and "distinct (map fst (sv_metadata d))"
  shows "merged_service source v d = Inr v"
proof -
  from m obtain md where md: "merge_metadata (sv_metadata e) (sv_metadata d) = Inr md"
    by (auto simp: merged_service_def bind_result_Inr_iff)
  have "merge_metadata (dset md ''discovery_source'' (JStr source)) (sv_metadata d)
      = Inr (dset md ''discovery_source'' (JStr source))"
    using merge_metadata_absorbs [OF md assms(2)] by (intro merge_marked)
  with m md show ?thesis by (auto simp: merged_service_def dset_same map_of_dset)
qed

definition text_kept :: "'a list \<Rightarrow> 'a list \<Rightarrow> bool" where
  "text_kept old new \<longleftrightarrow> (if old = [] then True else new = old)"

lemma text_kept_prefer [simp]: "text_kept e (prefer_text e d)"
  by (simp add: text_kept_def prefer_text_def)

text \<open>
  What merging may make of one recorded entry: the mark of the source is replaced by the new source; listeners are extended
  (a value that is not a list is first read as the list of its items); any other value is kept, or the dict it is
  gets new keys.
\<close>

definition entry_kept :: "string \<Rightarrow> json \<Rightarrow> json \<Rightarrow> bool" where
  "entry_kept k old new \<longleftrightarrow>
     (if k = ''listen_ports''
      then new = old \<or> (case (py_iter old, new) of
             (Inr items, JList xs) \<Rightarrow> take (length items) xs = items
           | _ \<Rightarrow> False)
      else new = old \<or> (case (old, new) of
             (JObj a, JObj b) \<Rightarrow> list_all (\<lambda>j. map_of b j = map_of a j) (map fst a)
           | _ \<Rightarrow> False))"

lemma entry_kept_refl [simp]: "entry_kept k v v"
  by (simp add: entry_kept_def)

lemma entry_kept_trans:
  assumes "entry_kept k a b" and "entry_kept k b c"
  shows "entry_kept k a c"
proof (cases "a = b \<or> b = c")
  case True
  then show ?thesis using assms by auto
next
  case False
  show ?thesis
  proof (cases "k = ''listen_ports''")
    case True
    with assms False obtain items xs ys where a: "py_iter a = Inr items" "b = JList xs" "take (length items) xs = items"
      and c: "c = JList ys" "take (length xs) ys = xs"
      by (auto simp: entry_kept_def py_iter_def [of "JList _"] split: sum.splits json.splits)
    have "length items \<le> length xs" using a(3) by (metis length_take min.cobounded1 min.commute)
    then have "take (length items) ys = items" using a(3) c(2) by (metis min.absorb1 take_take)
    with a c True show ?thesis by (simp add: entry_kept_def)
  next
    case other: False
    with assms False obtain x y z where "a = JObj x" "b = JObj y" "c = JObj z"
      and k: "list_all (\<lambda>j. map_of y j = map_of x j) (map fst x)" "list_all (\<lambda>j. map_of z j = map_of y j) (map fst y)"
      by (auto simp: entry_kept_def split: json.splits)
    moreover have "list_all (\<lambda>j. map_of z j = map_of x j) (map fst x)"
      unfolding list_all_iff
    proof
      fix j
      assume j: "j \<in> set (map fst x)"
      then have "map_of y j = map_of x j" using k(1) by (auto simp: list_all_iff)
      moreover from j have "map_of x j \<noteq> None" by (simp add: map_of_eq_None_iff)
      ultimately have "j \<in> set (map fst y)" by (metis map_of_eq_None_iff set_map)
      with k(2) \<open>map_of y j = map_of x j\<close> show "map_of z j = map_of x j" by (auto simp: list_all_iff)
    qed
    ultimately show ?thesis using other by (simp add: entry_kept_def)
  qed
qed

lemma merge_entry_kept:
  assumes "merge_entry m key v = Inr m'" and "map_of m k = Some x"
  shows "\<exists>y. map_of m' k = Some y \<and> entry_kept k x y"
proof (cases "k = key")
  case False
  then show ?thesis using assms merge_entry_other [OF assms(1) False] by simp
next
  case True
  show ?thesis
  proof (cases "key = ''listen_ports''")
    case lp: True
    with assms True show ?thesis
      by (auto simp: merge_entry_def bind_result_Inr_iff map_of_dset dget_or_def entry_kept_def
          dest!: add_listeners_extends)
  next
    case False
    have nested: "list_all (\<lambda>j. map_of (foldl (\<lambda>d (k, x). dsetdefault d k x) a b) j = map_of a j) (map fst a)" for a b
    proof -
      have "map_of (foldl (\<lambda>d (k, x). dsetdefault d k x) a b) j = map_of a j" if "j \<in> fst ` set a" for j
      proof -
        from that obtain y where "map_of a j = Some y" by (metis map_of_eq_None_iff option.exhaust)
        with foldl_dsetdefault_keeps [OF this] show ?thesis by simp
      qed
      then show ?thesis by (auto simp: list_all_iff)
    qed
    show ?thesis
    proof (cases "\<exists>a b. x = JObj a \<and> v = JObj b")
      case obj: True
      then obtain a b where ab: "x = JObj a" "v = JObj b" by blast
      with assms True False have "m' = dset m k (JObj (foldl (\<lambda>d (k, x). dsetdefault d k x) a b))"
        by (simp add: merge_entry_def)
      then show ?thesis using ab True False nested by (simp add: map_of_dset entry_kept_def)
    next
      case other: False
      with assms True False have "m' = m" by (auto simp: merge_entry_def split: json.splits)
      with assms(2) show ?thesis by simp
    qed
  qed
qed

lemma merge_metadata_kept:
  "merge_metadata m inc = Inr m' \<Longrightarrow> map_of m k = Some x \<Longrightarrow> \<exists>y. map_of m' k = Some y \<and> entry_kept k x y"
proof (induction m inc arbitrary: x rule: merge_metadata.induct)
  case (2 m key v inc)
  then obtain m1 where m1: "merge_entry m key v = Inr m1" "merge_metadata m1 inc = Inr m'"
    by (auto simp: bind_result_Inr_iff)
  from merge_entry_kept [OF m1(1) 2(3)] obtain y where y: "map_of m1 k = Some y" "entry_kept k x y" by blast
  from "2.IH" [OF m1(2) y(1)] y(2) show ?case using entry_kept_trans by blast
qed simp

text \<open>
  All entries of merged metadata: the mark is the source, an entry that is recorded is kept (unchanged where
  nothing under its key was discovered), and an entry that is not recorded has a key that was discovered.
\<close>

definition metadata_kept :: "string \<Rightarrow> dict \<Rightarrow> dict \<Rightarrow> dict \<Rightarrow> bool" where
  "metadata_kept source found m m' \<longleftrightarrow>
     map_of m' ''discovery_source'' = Some (JStr source)
     \<and> list_all (\<lambda>k. if k = ''discovery_source'' then True
           else case (map_of m k, map_of m' k) of
             (Some x, Some y) \<Rightarrow> if k \<in> set (map fst found) then entry_kept k x y else y = x
           | (None, Some _) \<Rightarrow> k \<in> set (map fst found)
           | _ \<Rightarrow> False)
         (map fst m @ map fst m')"

lemma merged_metadata_kept:
  assumes "merge_metadata m inc = Inr md"
  shows "metadata_kept source inc m (dset md ''discovery_source'' (JStr source))"
proof -
  let ?m = "dset md ''discovery_source'' (JStr source)"
  have "case (map_of m k, map_of ?m k) of
             (Some x, Some y) \<Rightarrow> if k \<in> set (map fst inc) then entry_kept k x y else y = x
           | (None, Some _) \<Rightarrow> k \<in> set (map fst inc)
           | _ \<Rightarrow> False"
    if k: "k \<in> set (map fst m @ map fst ?m)" "k \<noteq> ''discovery_source''" for k
  proof (cases "map_of m k")
    case (Some x)
    with merge_metadata_kept [OF assms Some] merge_metadata_other [OF assms, of k] k(2) show ?thesis
      by (auto simp: map_of_dset)
  next
    case None
    then have "k \<in> set (map fst ?m)" using k(1) by (auto simp: map_of_eq_None_iff)
    then obtain y where y: "map_of ?m k = Some y" by (metis map_of_eq_None_iff option.exhaust set_map)
    then have "map_of md k = Some y" using k(2) by (simp add: map_of_dset)
    with None merge_metadata_other [OF assms, of k] have "k \<in> set (map fst inc)" by (metis option.distinct(1) set_map)
    with None y show ?thesis by simp
  qed
  then show ?thesis by (simp add: metadata_kept_def map_of_dset list_all_iff)
qed

definition same_or_added :: "service_record \<Rightarrow> service_record \<Rightarrow> service_record \<Rightarrow> bool" where
  "same_or_added e r v \<longleftrightarrow>
     sv_service_id v = sv_service_id e \<and> text_kept (sv_name e) (sv_name v) \<and> text_kept (sv_node_id e) (sv_node_id v)
     \<and> text_kept (sv_kind e) (sv_kind v) \<and> text_kept (sv_runtime e) (sv_runtime v) \<and> text_kept (sv_domains e) (sv_domains v)
     \<and> set (sv_ports v) = set (sv_ports e) \<union> set (sv_ports r) \<and> text_kept (sv_deploy_path e) (sv_deploy_path v)
     \<and> text_kept (sv_config_paths e) (sv_config_paths v) \<and> text_kept (sv_env_paths e) (sv_env_paths v)
     \<and> text_kept (sv_data_paths e) (sv_data_paths v) \<and> text_kept (sv_health_check_url e) (sv_health_check_url v)
     \<and> sv_monitor_enabled v = (sv_monitor_enabled e \<or> sv_monitor_enabled r) \<and> text_kept (sv_docs_path e) (sv_docs_path v)
     \<and> text_kept (sv_source e) (sv_source v) \<and> text_kept (sv_status e) (sv_status v)
     \<and> (sv_asset_score v, sv_asset_category v, sv_why_asset v) = (sv_asset_score e, sv_asset_category e, sv_why_asset e)
     \<and> sv_created_at v = sv_created_at e \<and> sv_updated_at v = sv_updated_at e"

lemma merged_service_same_or_added:
  assumes "merged_service source e d = Inr v"
  shows "same_or_added e d v \<and> metadata_kept source (sv_metadata d) (sv_metadata e) (sv_metadata v)"
proof -
  from assms obtain md where "merge_metadata (sv_metadata e) (sv_metadata d) = Inr md"
    and v: "v = e\<lparr>sv_name := prefer_text (sv_name e) (sv_name d),
              sv_node_id := prefer_text (sv_node_id e) (sv_node_id d),
              sv_kind := prefer_text (sv_kind e) (sv_kind d),
              sv_runtime := prefer_text (sv_runtime e) (sv_runtime d),
              sv_domains := prefer_text (sv_domains e) (sv_domains d),
              sv_ports := merge_unique_ints (sv_ports e) (sv_ports d),
              sv_deploy_path := prefer_text (sv_deploy_path e) (sv_deploy_path d),
              sv_config_paths := prefer_text (sv_config_paths e) (sv_config_paths d),
              sv_env_paths := prefer_text (sv_env_paths e) (sv_env_paths d),
              sv_data_paths := prefer_text (sv_data_paths e) (sv_data_paths d),
              sv_health_check_url := prefer_text (sv_health_check_url e) (sv_health_check_url d),
              sv_monitor_enabled := prefer_flag (sv_monitor_enabled e) (sv_monitor_enabled d),
              sv_docs_path := prefer_text (sv_docs_path e) (sv_docs_path d),
              sv_source := prefer_text (sv_source e) (sv_source d),
              sv_status := prefer_text (sv_status e) (sv_status d),
              sv_metadata := dset md ''discovery_source'' (JStr source)\<rparr>"
    by (auto simp: merged_service_def bind_result_Inr_iff)
  then show ?thesis using merged_metadata_kept by (simp add: v same_or_added_def prefer_flag_def)
qed

text \<open>The recorded fields of two services, the metadata compared as Python does.\<close>

definition same_recorded :: "service_record \<Rightarrow> service_record \<Rightarrow> bool" where
  "same_recorded e v \<longleftrightarrow>
     sv_service_id v = sv_service_id e \<and> sv_name v = sv_name e \<and> sv_node_id v = sv_node_id e
     \<and> sv_kind v = sv_kind e \<and> sv_runtime v = sv_runtime e \<and> sv_domains v = sv_domains e \<and> sv_ports v = sv_ports e
     \<and> sv_deploy_path v = sv_deploy_path e \<and> sv_config_paths v = sv_config_paths e \<and> sv_env_paths v = sv_env_paths e
     \<and> sv_data_paths v = sv_data_paths e \<and> sv_health_check_url v = sv_health_check_url e
     \<and> sv_monitor_enabled v = sv_monitor_enabled e \<and> sv_docs_path v = sv_docs_path e \<and> sv_source v = sv_source e
     \<and> sv_status v = sv_status e \<and> py_eq (JObj (sv_metadata e)) (JObj (sv_metadata v))"

lemma show_int_inject: "show_int i = show_int j \<longleftrightarrow> i = j"
  by (metis option.inject parse_int_show_int)

lemma py_eq_scalars:
  "py_eq (JStr a) (JStr b) \<longleftrightarrow> b = a"
  "py_eq (JBool p) (JBool q) \<longleftrightarrow> q = p"
  "py_eq (JList (map JStr xs)) (JList (map JStr ys)) \<longleftrightarrow> ys = xs"
  "py_eq (JList (map JInt is)) (JList (map JInt js)) \<longleftrightarrow> js = is"
proof -
  have str: "inj (\<lambda>t. json_norm (JStr t))" by (simp add: inj_def)
  have int: "inj (\<lambda>i. json_norm (JInt i))" by (simp add: inj_def show_int_inject)
  show "py_eq (JStr a) (JStr b) \<longleftrightarrow> b = a" "py_eq (JBool p) (JBool q) \<longleftrightarrow> q = p"
    by (auto simp: py_eq_def)
  show "py_eq (JList (map JStr xs)) (JList (map JStr ys)) \<longleftrightarrow> ys = xs"
    using inj_map_eq_map [OF str] by (auto simp: py_eq_def comp_def)
  show "py_eq (JList (map JInt is)) (JList (map JInt js)) \<longleftrightarrow> js = is"
    using inj_map_eq_map [OF int] by (auto simp: py_eq_def comp_def)
qed

lemma service_diff_empty: "service_diff (Some e) v = [] \<longleftrightarrow> same_recorded e v"
proof -
  have "service_diff (Some e) v = []
      \<longleftrightarrow> list_all (\<lambda>(key, x). py_eq (dget (service_snapshot e) key) x) (service_snapshot v)"
    by (auto simp: service_diff_def Let_def filter_empty_conv list_all_iff)
  then show ?thesis by (simp add: service_snapshot_def dget_def same_recorded_def py_eq_scalars)
qed

section \<open>What a save makes of discovered metadata\<close>

text \<open>An absorbed entry is there, so the marks of the classification that a save adds beside it do not touch it.\<close>

lemma absorbs_present:
  assumes "absorbs m k v"
  shows "map_of m k \<noteq> None"
proof (cases "k = ''listen_ports''")
  case True
  with assms obtain ys where "dset m k (JList ys) = m"
    by (auto simp: absorbs_def merge_entry_def bind_result_Inr_iff)
  then show ?thesis using map_of_dset [of m k "JList ys" k] by simp
next
  case False
  show ?thesis
  proof
    assume none: "map_of m k = None"
    with assms False have "dset m k v = m" by (simp add: absorbs_def merge_entry_def)
    then show False using map_of_dset [of m k v k] none by simp
  qed
qed

lemma absorbs_setdefault:
  assumes "absorbs m k v"
  shows "absorbs (dsetdefault m j x) k v"
  by (rule absorbs_cong [OF assms]) (use absorbs_present [OF assms] in \<open>auto simp: map_of_setdefault\<close>)

text \<open>Markers are scalars, which saving does not reorder.\<close>

lemma unhashable_sort [simp]: "unhashable (json_sort v) = unhashable v"
  by (cases v) (simp_all add: unhashable_def)

lemma json_sort_hashable: "\<not> unhashable v \<Longrightarrow> json_sort v = v"
  by (cases v) (simp_all add: unhashable_def)

lemma listener_marker_sort [simp]: "listener_marker (dict_sort d) = listener_marker d"
  by (auto simp: listener_marker_def Let_def dget_dict_sort json_sort_hashable)

lemma known_markers_sort [simp]: "known_markers (map json_sort xs) = known_markers xs"
  by (induction xs) (auto split: json.splits)

lemma add_listeners_same: "add_listeners current seen vs = Inr current \<Longrightarrow> all_known vs seen"
proof (induction vs)
  case (Cons v vs)
  from Cons.prems show ?case
  proof (cases rule: add_listeners_cases)
    case skip
    with Cons.IH show ?thesis by (cases v) (auto simp: all_known_def)
  next
    case (known d m)
    with Cons.IH show ?thesis by (auto simp: all_known_def)
  next
    case (fresh d m)
    with add_listeners_extends [OF fresh(4)] show ?thesis by auto
  qed
qed (simp add: all_known_def)

lemma absorbs_sort:
  assumes "absorbs m k v"
  shows "absorbs (dict_sort m) k v"
proof (cases "k = ''listen_ports''")
  case True
  with assms obtain current seen ys where
    c: "py_iter (dget_or m k (JList [])) = Inr current" "known_markers current = Inr seen"
    "add_listeners current seen (case v of JList xs \<Rightarrow> xs | _ \<Rightarrow> []) = Inr ys" "dset m k (JList ys) = m"
    by (auto simp: absorbs_def merge_entry_def bind_result_Inr_iff)
  then have look: "map_of m k = Some (JList ys)" using map_of_dset [of m k "JList ys" k] by simp
  with c have "current = ys" by (simp add: dget_or_def)
  with c add_listeners_same have "all_known (case v of JList xs \<Rightarrow> xs | _ \<Rightarrow> []) seen" by simp
  moreover have sorted: "map_of (dict_sort m) k = Some (JList (map json_sort ys))" by (simp add: map_of_dict_sort look)
  ultimately show ?thesis using c(2) \<open>current = ys\<close> True
    by (simp add: absorbs_def merge_entry_def dget_or_def add_listeners_all_known dset_same)
next
  case False
  from absorbs_present [OF assms] obtain old where look: "map_of m k = Some old" by blast
  then have sorted: "map_of (dict_sort m) k = Some (json_sort old)" by (simp add: map_of_dict_sort)
  show ?thesis
  proof (cases "\<exists>a b. old = JObj a \<and> v = JObj b")
    case True
    then obtain a b where ab: "old = JObj a" "v = JObj b" by blast
    with assms look False have "dset m k (JObj (foldl (\<lambda>d (k, x). dsetdefault d k x) a b)) = m"
      by (simp add: absorbs_def merge_entry_def)
    then have "foldl (\<lambda>d (k, x). dsetdefault d k x) a b = a"
      using map_of_dset [of m k "JObj (foldl (\<lambda>d (k, x). dsetdefault d k x) a b)" k] look ab by simp
    then have "foldl (\<lambda>d (k, x). dsetdefault d k x) (dict_sort a) b = dict_sort a"
      using foldl_dsetdefault_adds [of _ b a] by (intro foldl_dsetdefault_present) (auto simp: map_of_dict_sort)
    then show ?thesis using False ab sorted by (simp add: absorbs_def merge_entry_def dset_same)
  next
    case other: False
    then show ?thesis using False sorted
      by (cases old; cases v) (simp_all add: absorbs_def merge_entry_def)
  qed
qed

text \<open>A merge that changes nothing changes nothing either on a record with the same fields whose metadata absorb.\<close>

lemma merged_service_self:
  "merged_service source v d = Inr v \<Longrightarrow> sv_name w = sv_name v \<Longrightarrow> sv_node_id w = sv_node_id v \<Longrightarrow> sv_kind w = sv_kind v
   \<Longrightarrow> sv_runtime w = sv_runtime v \<Longrightarrow> sv_domains w = sv_domains v \<Longrightarrow> sv_ports w = sv_ports v
   \<Longrightarrow> sv_deploy_path w = sv_deploy_path v \<Longrightarrow> sv_config_paths w = sv_config_paths v \<Longrightarrow> sv_env_paths w = sv_env_paths v
   \<Longrightarrow> sv_data_paths w = sv_data_paths v \<Longrightarrow> sv_health_check_url w = sv_health_check_url v
   \<Longrightarrow> sv_monitor_enabled w = sv_monitor_enabled v \<Longrightarrow> sv_docs_path w = sv_docs_path v \<Longrightarrow> sv_source w = sv_source v
   \<Longrightarrow> sv_status w = sv_status v \<Longrightarrow> merge_metadata (sv_metadata w) (sv_metadata d) = Inr (sv_metadata w)
   \<Longrightarrow> map_of (sv_metadata w) ''discovery_source'' = Some (JStr source) \<Longrightarrow> merged_service source w d = Inr w"
  by (cases v; cases w) (auto simp: merged_service_def bind_result_Inr_iff dset_same)

definition discovered_ok :: "service_record \<Rightarrow> bool" where
  "discovered_ok r \<longleftrightarrow>
     sorted (sv_ports r) \<and> distinct (sv_ports r) \<and> distinct (map fst (sv_metadata r)) \<and> listeners_ok (sv_metadata r)"

definition discovered_as :: "string \<Rightarrow> string \<Rightarrow> service_record \<Rightarrow> service_record" where
  "discovered_as source node_id r =
     r\<lparr>sv_node_id := (if sv_node_id r \<noteq> [] then sv_node_id r else node_id), sv_source := source\<rparr>"

lemma discovered_as_fields [simp]:
  "sv_service_id (discovered_as source node_id r) = sv_service_id r"
  "sv_metadata (discovered_as source node_id r) = sv_metadata r"
  "sv_ports (discovered_as source node_id r) = sv_ports r"
  by (simp_all add: discovered_as_def)

lemma planned_absorbs:
  assumes "plan_service source node_id s r = Inr (v, ch)" and "discovered_ok r"
  shows "merged_service source v (discovered_as source node_id r) = Inr v"
    and "(k, x) \<in> set (sv_metadata r) \<Longrightarrow> absorbs (sv_metadata v) k x"
    and "map_of (sv_metadata v) ''discovery_source'' = Some (JStr source)"
    and "sv_service_id v = sv_service_id r"
proof -
  let ?d = "discovered_as source node_id r"
  have "merged_service source v ?d = Inr v \<and> ((k, x) \<in> set (sv_metadata r) \<longrightarrow> absorbs (sv_metadata v) k x)
      \<and> map_of (sv_metadata v) ''discovery_source'' = Some (JStr source) \<and> sv_service_id v = sv_service_id r"
  proof (cases "load_service_record s (sv_service_id r)")
    case (Some e)
    with assms(1) have m: "merged_service source e ?d = Inr v"
      by (auto simp: plan_service_def Let_def discovered_as_def bind_result_Inr_iff)
    then obtain md where md: "merge_metadata (sv_metadata e) (sv_metadata r) = Inr md"
      and v: "sv_metadata v = dset md ''discovery_source'' (JStr source)" "sv_service_id v = sv_service_id e"
      by (auto simp: merged_service_def bind_result_Inr_iff)
    have "absorbs (sv_metadata v) k x" if "(k, x) \<in> set (sv_metadata r)"
    proof (cases "k = ''discovery_source''")
      case True
      then show ?thesis by (auto intro: absorbs_text simp: v map_of_dset)
    next
      case False
      have "absorbs md k x" using merge_metadata_absorbs [OF md _ that] assms(2) by (simp add: discovered_ok_def)
      then show ?thesis using absorbs_cong [of md k x] False by (simp add: v map_of_dset)
    qed
    moreover have "merged_service source v ?d = Inr v"
      using merged_service_twice [OF m] assms(2) by (simp add: discovered_ok_def)
    moreover have "sv_service_id e = sv_service_id r"
      using Some by (auto simp: load_service_record_def dest: tbl_find_Some)
    ultimately show ?thesis by (simp add: v map_of_dset)
  next
    case None
    with assms(1) have v: "v = ?d\<lparr>sv_metadata := dset (sv_metadata r) ''discovery_source'' (JStr source)\<rparr>"
      by (auto simp: plan_service_def Let_def discovered_as_def bind_result_Inr_iff)
    have "absorbs (sv_metadata v) k x" if "(k, x) \<in> set (sv_metadata r)"
    proof (cases "k = ''discovery_source''")
      case True
      then show ?thesis by (auto intro: absorbs_text simp: v map_of_dset)
    next
      case False
      have "absorbs (sv_metadata r) k x" using that assms(2) by (intro absorbs_own) (simp_all add: discovered_ok_def)
      then show ?thesis using absorbs_cong [of "sv_metadata r" k x] False by (simp add: v map_of_dset)
    qed
    moreover have "merged_service source v ?d = Inr v"
      using merge_own_marked [of "sv_metadata r" source] assms(2)
      by (simp add: v merged_service_def merge_ints_absorbs dset_same map_of_dset discovered_ok_def discovered_as_def)
    ultimately show ?thesis by (simp add: v map_of_dset)
  qed
  then show "merged_service source v ?d = Inr v" "(k, x) \<in> set (sv_metadata r) \<Longrightarrow> absorbs (sv_metadata v) k x"
    "map_of (sv_metadata v) ''discovery_source'' = Some (JStr source)" "sv_service_id v = sv_service_id r" by blast+
qed

lemma saved_metadata_absorbs:
  assumes "absorbs (sv_metadata v) k x"
  shows "absorbs (dict_sort (sv_metadata (classified_service v now s))) k x"
  unfolding classified_metadata by (intro absorbs_sort absorbs_setdefault assms)

text \<open>Planning once more, on any store whose row for the service is the saved plan.\<close>

lemma planned_again:
  assumes "plan_service source node_id s r = Inr (v, ch)" and "discovered_ok r"
    and "load_service_record s' (sv_service_id v) = load_service_record (snd (save_service_record v now s0)) (sv_service_id v)"
  shows "\<exists>w ch'. plan_service source node_id s' r = Inr (w, ch') \<and> ch_change ch' = ''unchanged'' \<and> ch_diff ch' = []"
proof -
  let ?d = "discovered_as source node_id r"
  note v = planned_absorbs [OF assms(1,2)]
  obtain w where w: "load_service_record s' (sv_service_id r) = Some w"
    and fields: "\<exists>t. w = (sv_reread (classified_service v now s0))\<lparr>sv_created_at := t\<rparr>"
  proof (cases "load_service_record s0 (sv_service_id v)")
    case None
    let ?c = "sv_reread (classified_service v now s0)"
    have "load_service_record s' (sv_service_id r) = Some ?c" using None assms(3) v(4) by (simp add: load_saved_service)
    moreover have "?c = ?c\<lparr>sv_created_at := sv_created_at ?c\<rparr>" by simp
    ultimately show ?thesis using that by blast
  next
    case (Some old)
    with that assms(3) v(4) show ?thesis by (auto simp: load_saved_service)
  qed
  then obtain t where t: "w = (sv_reread (classified_service v now s0))\<lparr>sv_created_at := t\<rparr>" by blast
  then have md: "sv_metadata w = dict_sort (sv_metadata (classified_service v now s0))" by (simp add: sv_reread_def)
  have "merge_metadata (sv_metadata w) (sv_metadata r) = Inr (sv_metadata w)"
    unfolding md using v(2) by (intro merge_absorbed saved_metadata_absorbs)
  moreover have "map_of (sv_metadata w) ''discovery_source'' = Some (JStr source)"
    by (simp add: md map_of_dict_sort classified_metadata map_of_setdefault v(3))
  ultimately have "merged_service source w ?d = Inr w"
    by (intro merged_service_self [OF v(1)]) (simp_all add: t sv_reread_def classified_service_def Let_def split: prod.split)
  then show ?thesis using w by (simp add: plan_service_def Let_def discovered_as_def [symmetric])
qed

lemma planned_one:
  assumes "plan_discovered_services s node_id records source = Inr (planned, changes)" and "r \<in> set records"
  shows "\<exists>v ch. plan_service source node_id s r = Inr (v, ch) \<and> v \<in> set planned"
proof -
  from assms(1) obtain ps where "map_result (plan_service source node_id s) records = Inr ps" "planned = map fst ps"
    by (auto simp: plan_discovered_services_def bind_result_Inr_iff)
  with assms(2) show ?thesis
    by (induction records arbitrary: ps planned) (auto simp: bind_result_Inr_iff, force+)
qed

lemma plan_service_id: "plan_service source node_id s r = Inr (v, ch) \<Longrightarrow> sv_service_id v = sv_service_id r"
  by (auto simp: plan_service_def Let_def bind_result_Inr_iff merged_service_def load_service_record_def
      dest!: tbl_find_Some split: option.splits)

lemma planned_ids:
  assumes "plan_discovered_services s node_id records source = Inr (planned, changes)"
  shows "map sv_service_id planned = map sv_service_id records"
proof -
  from assms obtain ps where "map_result (plan_service source node_id s) records = Inr ps" "planned = map fst ps"
    by (auto simp: plan_discovered_services_def bind_result_Inr_iff)
  then show ?thesis
    by (induction records arbitrary: ps planned) (auto simp: bind_result_Inr_iff plan_service_id)
qed

lemma save_services_other:
  "k \<notin> set (map sv_service_id rs) \<Longrightarrow> load_service_record (snd (save_services clk i rs s)) k = load_service_record s k"
proof (induction rs arbitrary: i s)
  case (Cons r rs)
  then show ?case
    by (cases "save_service_record r (clk i) s"; cases "save_services clk (Suc i) rs (snd (save_service_record r (clk i) s))")
      (use Cons.IH [of "Suc i" "snd (save_service_record r (clk i) s)"] Cons.prems load_saved_service [of r "clk i" s k] in simp)
qed simp

lemma save_services_load:
  "distinct (map sv_service_id rs) \<Longrightarrow> v \<in> set rs \<Longrightarrow>
   \<exists>s0 now. load_service_record (snd (save_services clk i rs s)) (sv_service_id v)
       = load_service_record (snd (save_service_record v now s0)) (sv_service_id v)"
proof (induction rs arbitrary: i s)
  case (Cons r rs)
  let ?s1 = "snd (save_service_record r (clk i) s)"
  have step: "snd (save_services clk i (r # rs) s) = snd (save_services clk (Suc i) rs ?s1)"
    by (simp split: prod.split)
  show ?case
  proof (cases "v = r")
    case True
    with Cons.prems(1) have "sv_service_id v \<notin> set (map sv_service_id rs)" by simp
    then show ?thesis unfolding step using True save_services_other by metis
  next
    case False
    with Cons show ?thesis unfolding step by simp
  qed
qed simp

lemma plan_all_unchanged:
  assumes "\<And>r. r \<in> set records \<Longrightarrow>
    \<exists>w ch. plan_service source node_id s r = Inr (w, ch) \<and> ch_change ch = ''unchanged'' \<and> ch_diff ch = []"
  shows "\<exists>planned changes. plan_discovered_services s node_id records source = Inr (planned, changes)
    \<and> length changes = length records \<and> list_all (\<lambda>ch. ch_change ch = ''unchanged'' \<and> ch_diff ch = []) changes"
proof -
  have "\<exists>ps. map_result (plan_service source node_id s) records = Inr ps \<and> length ps = length records
      \<and> list_all (\<lambda>ch. ch_change ch = ''unchanged'' \<and> ch_diff ch = []) (map snd ps)"
    using assms by (induction records) fastforce+
  then show ?thesis by (auto simp: plan_discovered_services_def)
qed

section \<open>Properties\<close>

text \<open>C12: discovery never overwrites what is recorded but for the mark of the source: the plan for a service that is
  stored keeps every field that has a value, adds ports, keeps every metadata entry or extends the list or dict it
  is (listeners that are no list are replaced by the list of their items), adds entries only under keys that were
  discovered, and calls the service unchanged exactly when all recorded fields are equal before and after.\<close>

theorem discovery_keeps_recorded_values:
  "case load_service_record s (sv_service_id r) of
     None \<Rightarrow> True
   | Some e \<Rightarrow>
       (case plan_service source node_id s r of
          Inl _ \<Rightarrow> True
        | Inr (v, ch) \<Rightarrow> same_or_added e r v \<and> metadata_kept source (sv_metadata r) (sv_metadata e) (sv_metadata v)
            \<and> ch_before ch = Some (service_snapshot e) \<and> ch_after ch = service_snapshot v
            \<and> ch_change ch = (if same_recorded e v then ''unchanged'' else ''update'')
            \<and> (ch_diff ch = []) = same_recorded e v)"
proof (cases "load_service_record s (sv_service_id r)")
  case (Some e)
  let ?d = "r\<lparr>sv_node_id := (if sv_node_id r \<noteq> [] then sv_node_id r else node_id), sv_source := source\<rparr>"
  show ?thesis
  proof (cases "merged_service source e ?d")
    case (Inr v)
    from merged_service_same_or_added [OF this]
    have "same_or_added e r v \<and> metadata_kept source (sv_metadata r) (sv_metadata e) (sv_metadata v)"
      by (simp add: same_or_added_def)
    with Some Inr show ?thesis by (simp add: plan_service_def Let_def service_diff_empty)
  qed (use Some in \<open>simp add: plan_service_def Let_def\<close>)
qed simp

text \<open>C13: discovery converges: after discovered services (with different ids) are applied, planning the same
  discovery again, on the store as the apply leaves it, finds every one of them unchanged, with an empty
  difference.\<close>

theorem discovery_converges:
  assumes "apply_discovered_services node_id records source clk s = (Inr saved, s')"
    and "distinct (map sv_service_id records)" and "list_all discovered_ok records"
  shows "\<exists>planned changes. plan_discovered_services s' node_id records source = Inr (planned, changes)
    \<and> length changes = length records
    \<and> list_all (\<lambda>ch. ch_change ch = ''unchanged'' \<and> ch_diff ch = []) changes"
proof -
  from assms(1) obtain planned changes s1 where p: "plan_discovered_services s node_id records source = Inr (planned, changes)"
    and s1: "snd (save_services clk 0 planned s) = s1" and s': "load_service_record s' = load_service_record s1"
    by (auto simp: apply_discovered_services_def Let_def load_service_record_def fun_eq_iff split: sum.splits prod.splits)
  have "\<exists>w ch. plan_service source node_id s' r = Inr (w, ch) \<and> ch_change ch = ''unchanged'' \<and> ch_diff ch = []"
    if r: "r \<in> set records" for r
  proof -
    from planned_one [OF p r] obtain v ch where v: "plan_service source node_id s r = Inr (v, ch)" "v \<in> set planned" by blast
    have "distinct (map sv_service_id planned)" using planned_ids [OF p] assms(2) by simp
    from save_services_load [OF this v(2)] obtain s0 now where
      "load_service_record s1 (sv_service_id v) = load_service_record (snd (save_service_record v now s0)) (sv_service_id v)"
      using s1 by blast
    with planned_again [OF v(1), of s' now s0] assms(3) r s' show ?thesis by (auto simp: list_all_iff)
  qed
  then show ?thesis by (intro plan_all_unchanged) blast
qed

definition sample_found :: service_record where
  "sample_found =
     (found_service ''n1'' ''postgresql'' ''port'' ''ss''
        [(''listen_ports'', JList [JObj [(''address'', JStr ''127.0.0.1''), (''port'', JInt 5432), (''process'', JStr ''postgres'')]])])
     \<lparr>sv_ports := [5432]\<rparr>"

theorem discovery_converges_witness:
  "\<exists>saved s' planned changes. apply_discovered_services ''n1'' [sample_found] ''ssh'' (\<lambda>_. 7) empty_store = (Inr saved, s')
     \<and> load_service_record s' (sv_service_id sample_found) \<noteq> None
     \<and> plan_discovered_services s' ''n1'' [sample_found] ''ssh'' = Inr (planned, changes)
     \<and> list_all (\<lambda>ch. ch_change ch = ''unchanged'' \<and> ch_diff ch = []) changes"
proof -
  have ok: "distinct (map sv_service_id [sample_found])" "list_all discovered_ok [sample_found]"
    by (simp_all add: sample_found_def discovered_ok_def found_service_def listeners_ok_def listener_marker_def unhashable_def Let_def)
  have none: "load_service_record empty_store (sv_service_id sample_found) = None"
    by (simp add: load_service_record_def empty_store_def)
  then obtain v ch where v: "plan_service ''ssh'' ''n1'' empty_store sample_found = Inr (v, ch)"
      "sv_service_id v = sv_service_id sample_found"
    by (simp add: plan_service_def Let_def)
  obtain w s1 where sv: "save_service_record v 7 empty_store = (w, s1)" by fastforce
  with v obtain saved s' where a: "apply_discovered_services ''n1'' [sample_found] ''ssh'' (\<lambda>_. 7) empty_store = (Inr saved, s')"
    and l: "load_service_record s' = load_service_record s1"
    by (auto simp: apply_discovered_services_def plan_discovered_services_def Let_def load_service_record_def fun_eq_iff
        split: prod.split)
  have "load_service_record s' (sv_service_id sample_found) \<noteq> None" using load_saved_service [of v 7 empty_store "sv_service_id sample_found"] sv v(2) by (simp add: l)
  with a discovery_converges [OF a ok] show ?thesis by blast
qed

text \<open>A proxy with two domains loses one: what is bound to a service comes from the record as it was
  before any binding, so of two domains that proxy to the same port only the second stays.\<close>

theorem last_domain_replaces_others:
  "case (map_of port_map port, apply_proxy_rules port_map [(a, port, url, source, scope), (b, port, url', source', scope')] records) of
     (_, Inl _) \<Rightarrow> True
   | (None, Inr records') \<Rightarrow> records' = records
   | (Some r, Inr records') \<Rightarrow>
       apply_proxy_rules port_map [(b, port, url', source', scope')] records = Inr records'
       \<and> map_option sv_domains (map_of records' (sv_service_id r)) = Some (merge_unique_strings (sv_domains r) [b])"
  by (cases "map_of port_map port")
     (auto simp: bind_domain_def bind_result_def update_last update_conv' split: sum.splits)

end
