(* ===== verification/Migration.thy ===== *)
theory Migration imports Registry WebText begin

text \<open>
  Plans for moving and for restoring services (\<open>migration.py\<close>, \<open>restore.py\<close>): JSON documents that say
  which steps an operator would take, made from the service registry alone.  Nothing is executed.
  A migration plan is redacted by \<open>redact_sensitive_data\<close>, a restore plan by the sanitiser of the
  documents.
\<close>

section \<open>What both plans share\<close>

definition SKELETON_ACTION_RESULT :: dict where
  "SKELETON_ACTION_RESULT =
     [(''approval_required'', JBool True), (''not_executed'', JBool True), (''machine_changed'', JBool False)]"

definition backup_metadata :: "svc_record \<Rightarrow> dict" where
  "backup_metadata r = (case dget (sr_monitor r) ''backup'' of JObj d \<Rightarrow> d | _ \<Rightarrow> [])"

definition restore_metadata :: "svc_record \<Rightarrow> dict" where
  "restore_metadata r = (case dget (sr_monitor r) ''restore'' of JObj d \<Rightarrow> d | _ \<Rightarrow> [])"

definition registry_source :: "registry \<Rightarrow> string" where
  "registry_source reg =
     (case list_services reg of
        [] \<Rightarrow> ''service-registry''
      | r # _ \<Rightarrow> if sr_source r \<noteq> [] then sr_source r else ''service-registry'')"

definition dict_value :: "json \<Rightarrow> dict" where
  "dict_value v = (case v of JObj d \<Rightarrow> d | _ \<Rightarrow> [])"

text \<open>\<open>value in {None, ''}\<close> hashes the value, which a dict does not allow.\<close>

definition string_list :: "json \<Rightarrow> string list result" where
  "string_list v =
     (case v of
        JList xs \<Rightarrow> Inr (map py_str xs)
      | JObj _ \<Rightarrow> Inl (TypeError ''unhashable type'')
      | JNull \<Rightarrow> Inr []
      | JStr s \<Rightarrow> Inr (if s = [] then [] else [s])
      | _ \<Rightarrow> Inr [py_str v])"

text \<open>\<open>a or b or c\<close> of optional texts, and of the values under several keys.\<close>

definition or_text :: "string option \<Rightarrow> string option \<Rightarrow> string option" where
  "or_text a b = (case a of Some s \<Rightarrow> if s \<noteq> [] then a else b | None \<Rightarrow> b)"

definition some_text :: "string option \<Rightarrow> bool" where
  "some_text a \<longleftrightarrow> a \<noteq> None \<and> a \<noteq> Some []"

definition first_keys :: "dict \<Rightarrow> string \<Rightarrow> string \<Rightarrow> string \<Rightarrow> json" where
  "first_keys d a b c = py_or (dget d a) (py_or (dget d b) (dget d c))"

definition ports_text :: "svc_record \<Rightarrow> string" where
  "ports_text r = py_repr (JList (map JInt (sr_ports r)))"

definition domains_text :: "svc_record \<Rightarrow> string" where
  "domains_text r = py_repr (JList (map JStr (sr_domains r)))"

definition default_healthcheck :: "svc_record \<Rightarrow> string option" where
  "default_healthcheck r =
     (case sr_domains r of [] \<Rightarrow> None | d # _ \<Rightarrow> Some (''https://'' @ d @ ''/healthz''))"

definition step_dict :: "string \<Rightarrow> string \<Rightarrow> json" where
  "step_dict name detail = JObj [(''name'', JStr name), (''detail'', JStr detail)]"

definition check_entry :: "string \<Rightarrow> string \<Rightarrow> string \<Rightarrow> json" where
  "check_entry name status detail = JObj [(''name'', JStr name), (''status'', JStr status), (''detail'', JStr detail)]"

definition redacted_if :: "bool \<Rightarrow> json" where
  "redacted_if b = (if b then JStr REDACTED else JNull)"

section \<open>Migration\<close>

definition ALLOWED_STRATEGIES :: "string list" where
  "ALLOWED_STRATEGIES = [''backup-restore'', ''redeploy'', ''manual-copy'']"

definition mig_text :: "json \<Rightarrow> string option" where
  "mig_text v =
     (if v = JNull then None else Some (re_sub SENSITIVE_ASSIGNMENT_RE (\<lambda>_. REDACTED) (py_str v)))"

definition normalize_strategy :: "string option \<Rightarrow> string option" where
  "normalize_strategy s =
     (case s of
        None \<Rightarrow> None
      | Some v \<Rightarrow> let n = lower (strip v) in if n \<in> set ALLOWED_STRATEGIES then Some n else None)"

definition mig_select :: "registry \<Rightarrow> string option \<Rightarrow> string option \<Rightarrow> svc_record list" where
  "mig_select reg service_id source_node =
     filter (\<lambda>r. (case source_node of None \<Rightarrow> True | Some n \<Rightarrow> sr_node r = n))
       (filter (\<lambda>r. (case service_id of None \<Rightarrow> True | Some i \<Rightarrow> sr_service_id r = i)) (list_services reg))"

definition infer_strategy :: "dict \<Rightarrow> dict \<Rightarrow> string" where
  "infer_strategy backup restore = (if backup \<noteq> [] \<or> restore \<noteq> [] then ''backup-restore'' else ''redeploy'')"

definition target_of :: "dict \<Rightarrow> json" where
  "target_of restore = first_keys restore ''target_path'' ''path'' ''target''"

definition mig_data_paths :: "dict \<Rightarrow> dict \<Rightarrow> string list result" where
  "mig_data_paths backup restore =
     bind_result (string_list (first_keys backup ''include_paths'' ''include'' ''paths'')) (\<lambda>vs.
       Inr (case mig_text (target_of restore) of
              Some t \<Rightarrow> if t \<noteq> [] \<and> t \<notin> set vs then t # vs else vs
            | None \<Rightarrow> vs))"

definition mig_config_paths :: "dict \<Rightarrow> string list result" where
  "mig_config_paths restore = string_list (first_keys restore ''config_paths'' ''config'' ''config_path'')"

definition mig_snapshot :: "dict \<Rightarrow> json" where
  "mig_snapshot backup =
     redacted_if (some_text (mig_text (first_keys backup ''snapshot'' ''snapshot_id'' ''last_snapshot''))
       \<or> dget (dict_value (dget backup ''verify'')) ''checksum'' \<noteq> JNull)"

definition backup_prerequisite :: "dict \<Rightarrow> dict" where
  "backup_prerequisite backup =
     [(''available'', JBool (backup \<noteq> [])), (''adapter'', opt_str (mig_text (dget backup ''adapter''))),
      (''repository'', redacted_if (truthy (dget backup ''repository'') \<or> truthy (dget backup ''target''))),
      (''snapshot'', mig_snapshot backup)]"

definition restore_prerequisite :: "dict \<Rightarrow> string \<Rightarrow> dict" where
  "restore_prerequisite restore target_node =
     [(''available'', JBool (restore \<noteq> [])), (''target_node'', JStr target_node),
      (''target_path'', redacted_if (some_text (mig_text (target_of restore)))),
      (''service_stop_required'', JBool (truthy (dget_or restore ''service_stop_required'' (JBool False))))]"

definition conflict_checks :: "svc_record \<Rightarrow> string \<Rightarrow> json list" where
  "conflict_checks r target_node =
     [check_entry ''ports'' ''planned'' ((utf8_text [0x68C0, 0x67E5, 0x76EE, 0x6807, 0x8282, 0x70B9] @ '' '') @ target_node @ ('' '' @ utf8_text [0x4E0A, 0x7AEF, 0x53E3, 0x51B2, 0x7A81, 0xFF1A]) @ ports_text r @ (utf8_text [0x3002])),
      check_entry ''domains'' ''planned'' ((utf8_text [0x68C0, 0x67E5, 0x57DF, 0x540D] @ '' / '' @ utf8_text [0x5165, 0x53E3, 0x5360, 0x7528, 0x4E0E, 0x8BC1, 0x4E66, 0x7ED1, 0x5B9A, 0xFF1A]) @ domains_text r @ (utf8_text [0x3002]))]"

definition mig_prerequisites :: "svc_record \<Rightarrow> dict \<Rightarrow> dict \<Rightarrow> string \<Rightarrow> json list" where
  "mig_prerequisites r backup restore target_node =
     [check_entry ''backup_metadata'' (if backup \<noteq> [] then ''ready'' else ''warning'')
        ((utf8_text [0x786E, 0x8BA4, 0x5B58, 0x5728, 0x53EF, 0x7528] @ '' backup '' @ utf8_text [0x5143, 0x6570, 0x636E, 0xFF1B, 0x5F53, 0x524D, 0x4EC5, 0x6821, 0x9A8C, 0x5143, 0x6570, 0x636E, 0x9AA8, 0x67B6, 0xFF0C, 0x4E0D, 0x8BBF, 0x95EE, 0x771F, 0x5B9E, 0x4ED3, 0x5E93, 0x3002])),
      check_entry ''restore_metadata'' (if restore \<noteq> [] then ''ready'' else ''warning'')
        ((utf8_text [0x786E, 0x8BA4, 0x5B58, 0x5728] @ '' restore '' @ utf8_text [0x76EE, 0x6807, 0x8DEF, 0x5F84] @ ''/'' @ utf8_text [0x670D, 0x52A1, 0x505C, 0x673A, 0x63D0, 0x793A, 0xFF1B, 0x5F53, 0x524D, 0x4E0D, 0x8BFB, 0x53D6, 0x771F, 0x5B9E, 0x6570, 0x636E, 0x76EE, 0x5F55, 0x3002])),
      check_entry ''target_node'' ''planned''
        ((utf8_text [0x786E, 0x8BA4, 0x76EE, 0x6807, 0x8282, 0x70B9] @ '' '') @ target_node @ ('' '' @ utf8_text [0x5DF2, 0x5177, 0x5907, 0x8FD0, 0x884C, 0x65F6, 0x4E0E, 0x6302, 0x8F7D, 0x6761, 0x4EF6, 0xFF1B, 0x5F53, 0x524D, 0x4E0D, 0x8FDE, 0x63A5, 0x8FDC, 0x7AEF, 0x3002])),
      check_entry ''docs_path'' ''planned''
        ((utf8_text [0x540C, 0x6B65, 0x670D, 0x52A1, 0x6587, 0x6863, 0x8DEF, 0x5F84] @ '' '') @ (case or_text (sr_docs_path r) None of Some p \<Rightarrow> p | None \<Rightarrow> ''pending'') @ ('' '' @ utf8_text [0x5230, 0x8FC1, 0x79FB, 0x8BB0, 0x5F55, 0x3002]))]"

definition dns_cutover_hint :: "svc_record \<Rightarrow> dict \<Rightarrow> string" where
  "dns_cutover_hint r restore =
     (case or_text (mig_text (dget restore ''domain_cutover_hint'')) None of
        Some t \<Rightarrow> t
      | None \<Rightarrow>
          if sr_domains r \<noteq> [] then (utf8_text [0x5728, 0x7EF4, 0x62A4, 0x7A97, 0x53E3, 0x5185, 0x5207, 0x6362] @ '' DNS/'' @ utf8_text [0x5165, 0x53E3, 0x5230, 0x76EE, 0x6807, 0x8282, 0x70B9, 0xFF0C, 0x57DF, 0x540D, 0xFF1A]) @ domains_text r @ (utf8_text [0x3002])
          else (utf8_text [0x5982, 0x670D, 0x52A1, 0x65E0, 0x57DF, 0x540D, 0xFF0C, 0x8BF7, 0x6539, 0x4E3A, 0x5185, 0x90E8, 0x5165, 0x53E3, 0x6216, 0x4E0A, 0x6E38, 0x4F9D, 0x8D56, 0x5207, 0x6362, 0x3002]))"

definition reverse_proxy_cutover_hint :: "svc_record \<Rightarrow> string" where
  "reverse_proxy_cutover_hint r =
     (if sr_domains r \<noteq> [] \<or> sr_ports r \<noteq> []
      then (utf8_text [0x66F4, 0x65B0, 0x53CD, 0x5411, 0x4EE3, 0x7406] @ '' / '' @ utf8_text [0x8D1F, 0x8F7D, 0x5747, 0x8861] @ '' upstream '' @ utf8_text [0x6307, 0x5411, 0x76EE, 0x6807, 0x8282, 0x70B9, 0xFF0C, 0x786E, 0x8BA4, 0x56DE, 0x5207, 0x5165, 0x53E3, 0x4ECD, 0x53EF, 0x7528, 0x3002])
      else (utf8_text [0x5982, 0x65E0, 0x516C, 0x7F51, 0x5165, 0x53E3, 0xFF0C, 0x8BF7, 0x786E, 0x8BA4, 0x5185, 0x90E8, 0x4EE3, 0x7406, 0x3001, 0x670D, 0x52A1, 0x53D1, 0x73B0, 0x6216] @ '' systemd '' @ utf8_text [0x4F9D, 0x8D56, 0x5DF2, 0x6307, 0x5411, 0x76EE, 0x6807, 0x8282, 0x70B9, 0x3002]))"

definition or_pending :: "string option \<Rightarrow> string" where
  "or_pending t = (case or_text t None of Some s \<Rightarrow> s | None \<Rightarrow> ''pending'')"

definition mig_verification_steps :: "svc_record \<Rightarrow> dict \<Rightarrow> dict \<Rightarrow> json list" where
  "mig_verification_steps r backup restore =
     (let verify = dict_value (dget backup ''verify'');
          healthcheck = or_text (mig_text (dget restore ''healthcheck'')) (default_healthcheck r)
      in [step_dict ''checksum'' ((utf8_text [0x6309, 0x8FC1, 0x79FB, 0x540E, 0x6570, 0x636E, 0x4E0E, 0x5907, 0x4EFD, 0x6458, 0x8981, 0x6BD4, 0x5BF9] @ '' checksum'' @ utf8_text [0xFF1A]) @ or_pending (mig_text (dget verify ''checksum'')) @ (utf8_text [0x3002])),
          step_dict ''healthcheck'' ((utf8_text [0x9A8C, 0x8BC1, 0x5065, 0x5EB7, 0x68C0, 0x67E5, 0xFF1A]) @ or_pending healthcheck @ (utf8_text [0x3002])),
          step_dict ''port_smoke'' ((utf8_text [0x5BF9, 0x76EE, 0x6807, 0x8282, 0x70B9, 0x7AEF, 0x53E3, 0x505A, 0x76D1, 0x542C] @ ''/'' @ utf8_text [0x8FDE, 0x901A, 0x6027, 0x5192, 0x70DF, 0xFF1A]) @ ports_text r @ (utf8_text [0x3002])),
          step_dict ''domain_smoke'' ((utf8_text [0x5BF9, 0x57DF, 0x540D, 0x5165, 0x53E3, 0x505A, 0x89E3, 0x6790] @ ''/HTTP '' @ utf8_text [0x5192, 0x70DF, 0xFF1A]) @ domains_text r @ (utf8_text [0x3002]))])"

definition rollback_steps :: "svc_record \<Rightarrow> json list" where
  "rollback_steps r =
     [step_dict ''repoint_dns'' ((utf8_text [0x82E5, 0x5207, 0x6362, 0x540E, 0x5931, 0x8D25, 0xFF0C, 0x56DE, 0x6307] @ '' DNS / '' @ utf8_text [0x5165, 0x53E3, 0x5230, 0x6E90, 0x8282, 0x70B9, 0x3002])),
      step_dict ''revert_proxy'' ((utf8_text [0x56DE, 0x6EDA, 0x53CD, 0x5411, 0x4EE3, 0x7406] @ '' / LB upstream '' @ utf8_text [0x5230, 0x6E90, 0x8282, 0x70B9, 0x5E76, 0x64A4, 0x9500, 0x65B0, 0x76EE, 0x6807, 0x6D41, 0x91CF, 0x3002])),
      step_dict ''restore_source_service'' ((utf8_text [0x786E, 0x8BA4, 0x6E90, 0x8282, 0x70B9] @ '' '') @ sr_node r @ ('' '' @ utf8_text [0x670D, 0x52A1, 0x7EE7, 0x7EED, 0x4FDD, 0x7559, 0x6216, 0x91CD, 0x65B0, 0x62C9, 0x8D77, 0xFF0C, 0x76F4, 0x5230, 0x9A8C, 0x8BC1, 0x5B8C, 0x6210, 0x3002]))]"

definition service_migration_payload :: "string option \<Rightarrow> string option \<Rightarrow> svc_record \<Rightarrow> dict result" where
  "service_migration_payload requested_target_node requested_strategy r =
     (let backup = backup_metadata r;
          restore = restore_metadata r;
          requested = (case requested_target_node of None \<Rightarrow> None | Some n \<Rightarrow> mig_text (JStr n));
          target_node = (case or_text requested None of Some n \<Rightarrow> n | None \<Rightarrow> sr_node r);
          warnings = (if some_text requested then sr_warnings r
                      else (''target node not specified for '' @ sr_service_id r @ ''; defaulting to source node skeleton'')
                           # sr_warnings r);
          strategy = (case requested_strategy of Some x \<Rightarrow> x | None \<Rightarrow> infer_strategy backup restore)
      in bind_result (mig_data_paths backup restore) (\<lambda>data_paths.
         bind_result (mig_config_paths restore) (\<lambda>config_paths.
           Inr [(''service_id'', JStr (sr_service_id r)), (''source_node'', JStr (sr_node r)),
                (''target_node'', JStr target_node), (''strategy'', JStr strategy),
                (''data_paths'', str_list data_paths), (''config_paths'', str_list config_paths),
                (''docs_path'', opt_str (mig_text (opt_str (sr_docs_path r)))),
                (''ports'', JList (map JInt (sr_ports r))), (''domains'', str_list (sr_domains r)),
                (''conflict_checks'', JList (conflict_checks r target_node)),
                (''backup_prerequisite'', JObj (backup_prerequisite backup)),
                (''restore_prerequisite'', JObj (restore_prerequisite restore target_node)),
                (''prerequisites'', JList (mig_prerequisites r backup restore target_node)),
                (''dns_cutover_hint'', JStr (dns_cutover_hint r restore)),
                (''reverse_proxy_cutover_hint'', JStr (reverse_proxy_cutover_hint r)),
                (''verification_steps'', JList (mig_verification_steps r backup restore)),
                (''rollback_steps'', JList (rollback_steps r)),
                (''risk_flags'', JObj [(''no_zero_downtime_guarantee'', JBool True), (''requires_maintenance_window'', JBool True),
                   (''dry_run_only'', JBool True)]),
                (''apply'', JObj SKELETON_ACTION_RESULT), (''warnings'', str_list warnings)])))"

definition warnings_of :: "dict \<Rightarrow> json list" where
  "warnings_of d = (case dget_or d ''warnings'' (JList []) of JList ws \<Rightarrow> ws | _ \<Rightarrow> [])"

definition build_migration_plan ::
  "registry \<Rightarrow> string option \<Rightarrow> string option \<Rightarrow> string option \<Rightarrow> string option \<Rightarrow> json result" where
  "build_migration_plan reg service_id source_node target_node strategy =
     bind_result (map_result (service_migration_payload target_node (normalize_strategy strategy))
         (mig_select reg service_id source_node)) (\<lambda>payloads.
       Inr (redact_sensitive_data (JObj
         [(''mode'', JStr ''plan''), (''dry_run'', JBool True), (''service_count'', JInt (int (length payloads))),
          (''service_id'', opt_str service_id), (''source_node'', opt_str source_node), (''target_node'', opt_str target_node),
          (''strategy'', opt_str (normalize_strategy strategy)), (''source'', JStr (registry_source reg)),
          (''warning_count'', JInt (int (sum_list (map (\<lambda>p. length (warnings_of p)) payloads)))),
          (''services'', JList (map JObj payloads))])))"

definition build_migration_plan_from_path ::
  "string \<Rightarrow> json_files \<Rightarrow> string option \<Rightarrow> string option \<Rightarrow> string option \<Rightarrow> string option \<Rightarrow> json result" where
  "build_migration_plan_from_path path files service_id source_node target_node strategy =
     bind_result (registry_load path files) (\<lambda>reg. build_migration_plan reg service_id source_node target_node strategy)"

definition render_migration_plan_json ::
  "string \<Rightarrow> json_files \<Rightarrow> string option \<Rightarrow> string option \<Rightarrow> string option \<Rightarrow> string option \<Rightarrow> string result" where
  "render_migration_plan_json path files service_id source_node target_node strategy =
     bind_result (build_migration_plan_from_path path files service_id source_node target_node strategy)
       (\<lambda>v. Inr (dump_sorted v))"

section \<open>Restore\<close>

definition ADAPTER_ALIASES :: "(string \<times> string) list" where
  "ADAPTER_ALIASES = [(''restic'', ''restic''), (''borgmatic'', ''borgmatic''), (''kopia'', ''kopia'')]"

definition res_text :: "json \<Rightarrow> string option" where
  "res_text v = (if v = JNull then None else Some (docs_redact_text (py_str v)))"

definition normalize_adapter :: "json \<Rightarrow> string option" where
  "normalize_adapter v = (case v of JStr s \<Rightarrow> map_of ADAPTER_ALIASES (lower (strip s)) | _ \<Rightarrow> None)"

definition redacted_repository :: "dict \<Rightarrow> json" where
  "redacted_repository backup = redacted_if (truthy (dget backup ''repository'') \<or> truthy (dget backup ''target''))"

definition redacted_target_path :: "string option \<Rightarrow> json" where
  "redacted_target_path p = redacted_if (some_text p)"

definition snapshot_selector :: "string option \<Rightarrow> string" where
  "snapshot_selector snapshot =
     (case snapshot of
        None \<Rightarrow> ''latest''
      | Some s \<Rightarrow> if strip s = [] \<or> lower (strip s) = ''latest'' then ''latest'' else REDACTED)"

definition preflight_checks :: "svc_record \<Rightarrow> string \<Rightarrow> string option \<Rightarrow> bool \<Rightarrow> string option \<Rightarrow> json list" where
  "preflight_checks r target_node target_path service_stop_required domain_cutover_hint =
     [check_entry ''disk_space'' ''planned'' ((utf8_text [0x786E, 0x8BA4, 0x76EE, 0x6807, 0x8282, 0x70B9] @ '' '') @ target_node @ ('' '' @ utf8_text [0x5177, 0x5907, 0x8DB3, 0x591F, 0x78C1, 0x76D8, 0x7A7A, 0x95F4, 0x5BB9, 0x7EB3, 0x6062, 0x590D, 0x6570, 0x636E, 0x3002])),
      check_entry ''path_exists_or_empty'' ''planned''
        (if some_text target_path then (utf8_text [0x786E, 0x8BA4, 0x76EE, 0x6807, 0x8DEF, 0x5F84, 0x5B58, 0x5728, 0xFF0C, 0x6216, 0x4E3A, 0x7A7A, 0x76EE, 0x5F55, 0x540E, 0x518D, 0x6267, 0x884C, 0x6062, 0x590D, 0x3002])
         else (utf8_text [0x786E, 0x8BA4, 0x6062, 0x590D, 0x76EE, 0x6807, 0x8DEF, 0x5F84, 0x540E, 0x518D, 0x9A8C, 0x8BC1, 0x662F, 0x5426, 0x5B58, 0x5728, 0x6216, 0x4E3A, 0x7A7A, 0x76EE, 0x5F55, 0x3002])),
      check_entry ''permissions'' ''planned'' ((utf8_text [0x786E, 0x8BA4, 0x6062, 0x590D, 0x6267, 0x884C, 0x7528, 0x6237, 0x5BF9, 0x76EE, 0x6807, 0x8DEF, 0x5F84, 0x62E5, 0x6709, 0x5199, 0x5165, 0x6743, 0x9650, 0xFF0C, 0x5E76, 0x53EF, 0x4FEE, 0x6539, 0x5C5E, 0x4E3B] @ ''/'' @ utf8_text [0x6743, 0x9650, 0x3002])),
      check_entry ''port_conflicts'' ''planned'' ((utf8_text [0x68C0, 0x67E5, 0x76EE, 0x6807, 0x8282, 0x70B9, 0x7AEF, 0x53E3, 0x51B2, 0x7A81, 0xFF1A]) @ ports_text r @ (utf8_text [0x3002])),
      JObj [(''name'', JStr ''service_stop_required''), (''status'', JStr ''planned''), (''required'', JBool service_stop_required),
            (''detail'', JStr ((utf8_text [0x82E5, 0x6062, 0x590D, 0x4F1A, 0x8986, 0x76D6, 0x8FD0, 0x884C, 0x4E2D, 0x6570, 0x636E, 0xFF0C, 0x5148, 0x5728, 0x5BA1, 0x6279, 0x901A, 0x8FC7, 0x540E, 0x505C, 0x670D, 0x52A1, 0xFF1B, 0x5F53, 0x524D] @ '' plan '' @ utf8_text [0x4E0D, 0x6267, 0x884C, 0x505C, 0x670D, 0x3002])))],
      check_entry ''domain_cutover'' ''planned''
        (case or_text domain_cutover_hint None of
           Some h \<Rightarrow> h
         | None \<Rightarrow> (utf8_text [0x5982, 0x6D89, 0x53CA, 0x5BF9, 0x5916, 0x6D41, 0x91CF, 0xFF0C, 0x8BF7, 0x786E, 0x8BA4, 0x57DF, 0x540D] @ '' / '' @ utf8_text [0x5165, 0x53E3, 0x5207, 0x6362, 0x7A97, 0x53E3, 0x4E0E, 0x56DE, 0x5207, 0x7B56, 0x7565, 0x3002]))]"

definition numbered_step :: "int \<Rightarrow> string \<Rightarrow> string \<Rightarrow> json" where
  "numbered_step n name detail = JObj [(''step'', JInt n), (''name'', JStr name), (''detail'', JStr detail)]"

definition restore_steps :: "svc_record \<Rightarrow> string option \<Rightarrow> json list" where
  "restore_steps r adapter =
     (let adapter_name = (case adapter of Some a \<Rightarrow> a | None \<Rightarrow> ''backup-adapter'')
      in [numbered_step 1 ''select_snapshot'' ((utf8_text [0x6839, 0x636E, 0x5BA1, 0x6279, 0x7ED3, 0x679C, 0x9009, 0x62E9] @ '' '') @ adapter_name @ ('' '' @ utf8_text [0x5FEB, 0x7167, 0x6216] @ '' latest'' @ utf8_text [0xFF1B, 0x5F53, 0x524D, 0x4EC5, 0x751F, 0x6210, 0x8BA1, 0x5212, 0x3002])),
          numbered_step 2 ''prepare_target'' ((utf8_text [0x6821, 0x9A8C, 0x76EE, 0x6807, 0x8282, 0x70B9, 0x3001, 0x76EE, 0x6807, 0x8DEF, 0x5F84, 0x3001, 0x6743, 0x9650, 0x548C, 0x7A7A, 0x95F4, 0xFF1B, 0x5F53, 0x524D, 0x4E0D, 0x8BFB, 0x53D6, 0x771F, 0x5B9E, 0x76EE, 0x5F55, 0x5185, 0x5BB9, 0x3002])),
          numbered_step 3 ''restore_data'' ((utf8_text [0x6267, 0x884C, 0x6062, 0x590D, 0x547D, 0x4EE4, 0x9AA8, 0x67B6, 0x5E76, 0x8BB0, 0x5F55, 0x8F93, 0x51FA, 0xFF1B, 0x5F53, 0x524D] @ '' plan '' @ utf8_text [0x4E0D, 0x8FDE, 0x63A5, 0x4ED3, 0x5E93, 0x3001, 0x4E0D, 0x843D, 0x5730, 0x6062, 0x590D, 0x3002])),
          numbered_step 4 ''reconcile_runtime''
            ((utf8_text [0x6309, 0x670D, 0x52A1, 0x7C7B, 0x578B] @ '' '') @ sr_kind r @ ('' '' @ utf8_text [0x8865, 0x9F50, 0x8FD0, 0x884C, 0x65F6, 0x914D, 0x7F6E, 0x5E76, 0x51C6, 0x5907, 0x540E, 0x7EED, 0x9A8C, 0x8BC1, 0xFF1B, 0x5F53, 0x524D, 0x4E0D, 0x542F, 0x52A8] @ ''/'' @ utf8_text [0x505C, 0x6B62, 0x670D, 0x52A1, 0x3002]))])"

definition res_verification_steps :: "svc_record \<Rightarrow> dict \<Rightarrow> dict \<Rightarrow> json list result" where
  "res_verification_steps r backup restore =
     bind_result (string_list (dget restore ''smoke'')) (\<lambda>smoke_commands.
       let healthcheck = or_text (res_text (dget restore ''healthcheck'')) (default_healthcheck r);
           checksum = res_text (dget (dict_value (dget backup ''verify'')) ''checksum'')
       in Inr [step_dict ''checksum'' ((utf8_text [0x6309, 0x5907, 0x4EFD, 0x5143, 0x6570, 0x636E, 0x6821, 0x9A8C] @ '' checksum'' @ utf8_text [0xFF1A]) @ or_pending checksum @ (utf8_text [0x3002])),
               step_dict ''healthcheck'' ((utf8_text [0x9A8C, 0x8BC1, 0x5065, 0x5EB7, 0x68C0, 0x67E5, 0xFF1A]) @ or_pending healthcheck @ (utf8_text [0x3002])),
               step_dict ''port'' ((utf8_text [0x786E, 0x8BA4, 0x76D1, 0x542C, 0x7AEF, 0x53E3, 0x4E0E] @ '' registry '' @ utf8_text [0x4E00, 0x81F4, 0xFF1A]) @ ports_text r @ (utf8_text [0x3002])),
               step_dict ''domain'' ((utf8_text [0x786E, 0x8BA4, 0x57DF, 0x540D, 0x89E3, 0x6790] @ ''/'' @ utf8_text [0x5165, 0x53E3, 0x56DE, 0x6E90, 0x6B63, 0x786E, 0xFF1A]) @ domains_text r @ (utf8_text [0x3002])),
               JObj [(''name'', JStr ''smoke''),
                     (''detail'', str_list (if smoke_commands \<noteq> [] then smoke_commands
                        else [(utf8_text [0x6267, 0x884C, 0x57FA, 0x7840] @ '' smoke test'' @ utf8_text [0xFF08, 0x5982, 0x9996, 0x9875, 0x3001, 0x767B, 0x5F55, 0x3001, 0x5173, 0x952E, 0x63A5, 0x53E3, 0xFF09, 0x3002])]))]])"

definition rollback_hint :: "svc_record \<Rightarrow> string option \<Rightarrow> dict" where
  "rollback_hint r adapter =
     [(''summary'', JStr ((utf8_text [0x82E5, 0x9A8C, 0x8BC1, 0x5931, 0x8D25, 0xFF0C, 0x4FDD, 0x7559, 0x5F53, 0x524D, 0x76EE, 0x6807, 0x8282, 0x70B9, 0x73B0, 0x573A, 0xFF0C, 0x5207, 0x56DE, 0x65E7, 0x5B9E, 0x4F8B, 0x6216, 0x65E7, 0x57DF, 0x540D, 0x5165, 0x53E3, 0xFF0C, 0x5E76, 0x91CD, 0x65B0, 0x9009, 0x62E9, 0x4E0A, 0x4E00, 0x4E2A, 0x53EF, 0x7528, 0x5FEB, 0x7167, 0x3002]))),
      (''service_id'', JStr (sr_service_id r)), (''adapter'', opt_str adapter), (''machine_changed'', JBool False)]"

definition service_restore_payload :: "string option \<Rightarrow> string option \<Rightarrow> svc_record \<Rightarrow> dict result" where
  "service_restore_payload target_node snapshot r =
     (let backup = backup_metadata r;
          restore = restore_metadata r;
          warnings = (if restore = [] then [''missing restore metadata for '' @ sr_service_id r] else [])
            @ (if backup = [] then [''missing backup metadata for '' @ sr_service_id r] else []) @ sr_warnings r;
          node = (case or_text (res_text (opt_str target_node)) None of Some n \<Rightarrow> n | None \<Rightarrow> sr_node r);
          target_path = res_text (target_of restore);
          selected = or_text (res_text (opt_str snapshot))
            (or_text (res_text (py_or (dget restore ''snapshot'') (dget restore ''snapshot_id''))) (Some ''latest''));
          adapter = normalize_adapter (dget backup ''adapter'');
          stop = truthy (dget_or restore ''service_stop_required'' (JBool (case sr_runtime r of Some t \<Rightarrow> t \<noteq> [] | None \<Rightarrow> False)));
          cutover_hint = res_text (dget restore ''domain_cutover_hint'')
      in bind_result (res_verification_steps r backup restore) (\<lambda>verification.
           Inr [(''service_id'', JStr (sr_service_id r)), (''node'', JStr (sr_node r)), (''adapter'', opt_str adapter),
                (''repository'', redacted_repository backup), (''source_selector'', redacted_repository backup),
                (''snapshot_selector'', JStr (snapshot_selector selected)), (''target_node'', JStr node),
                (''target_path'', redacted_target_path target_path),
                (''preflight_checks'', JList (preflight_checks r node target_path stop cutover_hint)),
                (''restore_steps'', JList (restore_steps r adapter)), (''verification_steps'', JList verification),
                (''rollback_hint'', JObj (rollback_hint r adapter)), (''apply'', JObj SKELETON_ACTION_RESULT),
                (''warnings'', str_list warnings)]))"

definition res_select :: "registry \<Rightarrow> string option \<Rightarrow> svc_record list" where
  "res_select reg service_id =
     filter (\<lambda>r. (case service_id of None \<Rightarrow> True | Some i \<Rightarrow> sr_service_id r = i)) (list_services reg)"

definition is_missing_warning :: "json \<Rightarrow> bool" where
  "is_missing_warning w \<longleftrightarrow>
     contains (py_str w) ''missing restore metadata'' \<or> contains (py_str w) ''missing backup metadata''"

definition build_restore_plan :: "registry \<Rightarrow> string option \<Rightarrow> string option \<Rightarrow> string option \<Rightarrow> json result" where
  "build_restore_plan reg service_id target_node snapshot =
     bind_result (map_result (service_restore_payload target_node snapshot) (res_select reg service_id)) (\<lambda>payloads.
       Inr (docs_sanitize_value (JObj
         [(''mode'', JStr ''plan''), (''service_count'', JInt (int (length payloads))), (''service_id'', opt_str service_id),
          (''target_node'', opt_str target_node), (''snapshot'', JStr (snapshot_selector snapshot)),
          (''source'', JStr (registry_source reg)),
          (''warning_count'', JInt (int (length (filter is_missing_warning (concat (map warnings_of payloads)))))),
          (''services'', JList (map JObj payloads))])))"

definition build_restore_plan_from_path ::
  "string \<Rightarrow> json_files \<Rightarrow> string option \<Rightarrow> string option \<Rightarrow> string option \<Rightarrow> json result" where
  "build_restore_plan_from_path path files service_id target_node snapshot =
     bind_result (registry_load path files) (\<lambda>reg. build_restore_plan reg service_id target_node snapshot)"

definition render_restore_plan_json ::
  "string \<Rightarrow> json_files \<Rightarrow> string option \<Rightarrow> string option \<Rightarrow> string option \<Rightarrow> string result" where
  "render_restore_plan_json path files service_id target_node snapshot =
     bind_result (build_restore_plan_from_path path files service_id target_node snapshot) (\<lambda>v. Inr (dump_sorted v))"

section \<open>When a plan can be made\<close>

definition is_dict :: "json \<Rightarrow> bool" where
  "is_dict v = (case v of JObj _ \<Rightarrow> True | _ \<Rightarrow> False)"

lemma string_list_fails: "is_dict v \<Longrightarrow> string_list v = Inl (TypeError ''unhashable type'')"
  by (cases v) (auto simp: string_list_def is_dict_def)

lemma string_list_reads: "\<not> is_dict v \<Longrightarrow> \<exists>xs. string_list v = Inr xs"
  by (cases v) (auto simp: string_list_def is_dict_def)

text \<open>The three fields of a record that a plan reads as lists of texts.\<close>

definition mig_unreadable :: "svc_record \<Rightarrow> bool" where
  "mig_unreadable r \<longleftrightarrow>
     is_dict (first_keys (backup_metadata r) ''include_paths'' ''include'' ''paths'')
     \<or> is_dict (first_keys (restore_metadata r) ''config_paths'' ''config'' ''config_path'')"

definition res_unreadable :: "svc_record \<Rightarrow> bool" where
  "res_unreadable r \<longleftrightarrow> is_dict (dget (restore_metadata r) ''smoke'')"

definition plan_entry_ok :: "svc_record \<Rightarrow> dict \<Rightarrow> bool" where
  "plan_entry_ok r p \<longleftrightarrow>
     dget p ''service_id'' = JStr (sr_service_id r) \<and> dget p ''apply'' = JObj SKELETON_ACTION_RESULT"

lemma mig_payload_cases:
  "case service_migration_payload t st r of
     Inl e \<Rightarrow> mig_unreadable r \<and> e = TypeError ''unhashable type''
   | Inr p \<Rightarrow> \<not> mig_unreadable r \<and> plan_entry_ok r p"
proof -
  let ?d = "first_keys (backup_metadata r) ''include_paths'' ''include'' ''paths''"
  let ?c = "first_keys (restore_metadata r) ''config_paths'' ''config'' ''config_path''"
  consider "is_dict ?d" | xs where "\<not> is_dict ?d" "string_list ?d = Inr xs" "is_dict ?c"
    | xs ys where "\<not> is_dict ?d" "string_list ?d = Inr xs" "\<not> is_dict ?c" "string_list ?c = Inr ys"
    using string_list_reads by blast
  then show ?thesis
    by cases (simp_all add: service_migration_payload_def mig_data_paths_def mig_config_paths_def Let_def
        mig_unreadable_def plan_entry_ok_def string_list_fails dget_def)
qed

lemma res_payload_cases:
  "case service_restore_payload t sn r of
     Inl e \<Rightarrow> res_unreadable r \<and> e = TypeError ''unhashable type''
   | Inr p \<Rightarrow> \<not> res_unreadable r \<and> plan_entry_ok r p"
proof -
  let ?s = "dget (restore_metadata r) ''smoke''"
  consider "is_dict ?s" | xs where "\<not> is_dict ?s" "string_list ?s = Inr xs" using string_list_reads by blast
  then show ?thesis
  proof cases
    case 1
    then show ?thesis
      by (simp add: service_restore_payload_def res_verification_steps_def Let_def res_unreadable_def string_list_fails)
  next
    case 2
    then obtain ys where ys: "res_verification_steps r (backup_metadata r) (restore_metadata r) = Inr ys"
      by (simp add: res_verification_steps_def Let_def)
    with 2 show ?thesis
      by (simp add: service_restore_payload_def Let_def res_unreadable_def plan_entry_ok_def dget_def)
  qed
qed

lemma all_or_error:
  assumes "\<And>x. case f x of Inl e \<Rightarrow> bad x \<and> e = err | Inr y \<Rightarrow> \<not> bad x \<and> ok x y"
  shows "case map_result f xs of
      Inl e \<Rightarrow> list_ex bad xs \<and> e = err
    | Inr ys \<Rightarrow> \<not> list_ex bad xs \<and> list_all2 ok xs ys"
proof (induction xs)
  case (Cons x xs)
  show ?case using assms [of x] Cons by (cases "f x"; cases "map_result f xs") auto
qed simp

section \<open>Properties\<close>

text \<open>A plan can be made unless a field that should list paths or commands is a dict: then, and only
  then, planning a migration or a restore of the selected services raises \<open>TypeError\<close> (a dict is looked
  up in a set); otherwise every selected service has one entry, in order, under its own id, and each
  entry says that nothing was executed.\<close>

theorem plans_fail_on_dicts_only:
  "(case build_migration_plan reg service_id node target strategy of
      Inl e \<Rightarrow> list_ex mig_unreadable (mig_select reg service_id node) \<and> e = TypeError ''unhashable type''
    | Inr doc \<Rightarrow> \<not> list_ex mig_unreadable (mig_select reg service_id node)
        \<and> (\<exists>d ps. doc = redact_sensitive_data (JObj d) \<and> dget d ''services'' = JList (map JObj ps)
              \<and> list_all2 plan_entry_ok (mig_select reg service_id node) ps))
   \<and> (case build_restore_plan reg service_id target snapshot of
      Inl e \<Rightarrow> list_ex res_unreadable (res_select reg service_id) \<and> e = TypeError ''unhashable type''
    | Inr doc \<Rightarrow> \<not> list_ex res_unreadable (res_select reg service_id)
        \<and> (\<exists>d ps. doc = docs_sanitize_value (JObj d) \<and> dget d ''services'' = JList (map JObj ps)
              \<and> list_all2 plan_entry_ok (res_select reg service_id) ps))"
proof
  let ?sel = "mig_select reg service_id node"
  have "case map_result (service_migration_payload target (normalize_strategy strategy)) ?sel of
      Inl e \<Rightarrow> list_ex mig_unreadable ?sel \<and> e = TypeError ''unhashable type''
    | Inr ps \<Rightarrow> \<not> list_ex mig_unreadable ?sel \<and> list_all2 plan_entry_ok ?sel ps"
    by (rule all_or_error) (rule mig_payload_cases)
  then show "case build_migration_plan reg service_id node target strategy of
      Inl e \<Rightarrow> list_ex mig_unreadable ?sel \<and> e = TypeError ''unhashable type''
    | Inr doc \<Rightarrow> \<not> list_ex mig_unreadable ?sel
        \<and> (\<exists>d ps. doc = redact_sensitive_data (JObj d) \<and> dget d ''services'' = JList (map JObj ps)
              \<and> list_all2 plan_entry_ok ?sel ps)"
    unfolding build_migration_plan_def
    by (cases "map_result (service_migration_payload target (normalize_strategy strategy)) ?sel")
       (simp, simp, intro exI conjI, rule refl, auto simp: dget_def)
next
  let ?sel = "res_select reg service_id"
  have "case map_result (service_restore_payload target snapshot) ?sel of
      Inl e \<Rightarrow> list_ex res_unreadable ?sel \<and> e = TypeError ''unhashable type''
    | Inr ps \<Rightarrow> \<not> list_ex res_unreadable ?sel \<and> list_all2 plan_entry_ok ?sel ps"
    by (rule all_or_error) (rule res_payload_cases)
  then show "case build_restore_plan reg service_id target snapshot of
      Inl e \<Rightarrow> list_ex res_unreadable ?sel \<and> e = TypeError ''unhashable type''
    | Inr doc \<Rightarrow> \<not> list_ex res_unreadable ?sel
        \<and> (\<exists>d ps. doc = docs_sanitize_value (JObj d) \<and> dget d ''services'' = JList (map JObj ps)
              \<and> list_all2 plan_entry_ok ?sel ps)"
    unfolding build_restore_plan_def
    by (cases "map_result (service_restore_payload target snapshot) ?sel")
       (simp, simp, intro exI conjI, rule refl, auto simp: dget_def)
qed

end
