(* ===== verification/Backup.thy ===== *)
theory Backup imports Migration WebText begin

text \<open>
  Backup plans and requests (\<open>backup_provider.py\<close>): what would be backed up, from the backup metadata of the
  registered services, redacted by the sanitiser of the documents.  Nothing is executed.
\<close>

definition ADAPTER_ALIASES :: "(string \<times> string) list" where
  "ADAPTER_ALIASES = [(''restic'', ''restic''), (''borgmatic'', ''borgmatic''), (''kopia'', ''kopia'')]"

definition normalize_adapter :: "json \<Rightarrow> string option" where
  "normalize_adapter v = (case v of JStr s \<Rightarrow> map_of ADAPTER_ALIASES (lower (strip s)) | _ \<Rightarrow> None)"

definition normalize_adapters :: "string list \<Rightarrow> string list" where
  "normalize_adapters adapters =
     foldl (\<lambda>acc a. case normalize_adapter (JStr a) of
                      Some v \<Rightarrow> if v \<in> set acc then acc else acc @ [v]
                    | None \<Rightarrow> acc) [] adapters"

definition service_adapter :: "svc_record \<Rightarrow> string option" where
  "service_adapter r = normalize_adapter (dget (backup_metadata r) ''adapter'')"

definition select_services :: "registry \<Rightarrow> string option \<Rightarrow> svc_record list" where
  "select_services reg service_id =
     filter (\<lambda>r. case service_id of None \<Rightarrow> True | Some i \<Rightarrow> sr_service_id r = i) (list_services reg)"

definition backup_select :: "registry \<Rightarrow> string option \<Rightarrow> string option \<Rightarrow> svc_record list" where
  "backup_select reg service_id adapter =
     filter (\<lambda>r. adapter = None \<or> service_adapter r = adapter) (select_services reg service_id)"

definition redacted_repository :: "dict \<Rightarrow> json" where
  "redacted_repository backup = redacted_if (truthy (dget backup ''repository'') \<or> truthy (dget backup ''target''))"

definition text_value :: "json \<Rightarrow> json" where
  "text_value v = (if v = JNull then JNull else JStr (py_str v))"

definition verify_plan :: "json \<Rightarrow> json \<Rightarrow> dict" where
  "verify_plan verify checksum =
     (let plan = dict_value verify
      in if checksum \<noteq> JNull \<and> ''checksum'' \<notin> set (map fst plan) then dset plan ''checksum'' checksum else plan)"

definition service_backup_payload :: "svc_record \<Rightarrow> dict result" where
  "service_backup_payload r =
     (let backup = backup_metadata r
      in if backup = []
         then Inr
           [(''service_id'', JStr (sr_service_id r)), (''node'', JStr (sr_node r)), (''adapter'', JNull),
            (''include_paths'', JList []), (''exclude_patterns'', JList []), (''repository'', JNull),
            (''retention_policy'', JObj []), (''schedule_hint'', JNull), (''verify_plan'', JObj []),
            (''approval'', JObj SKELETON_ACTION_RESULT),
            (''warnings'', str_list ((''missing backup metadata for '' @ sr_service_id r) # sr_warnings r))]
         else
           bind_result (string_list (first_keys backup ''include_paths'' ''include'' ''paths'')) (\<lambda>include.
           bind_result (string_list (py_or (dget backup ''exclude_patterns'') (dget backup ''exclude''))) (\<lambda>exclude.
             Inr
               [(''service_id'', JStr (sr_service_id r)), (''node'', JStr (sr_node r)),
                (''adapter'', opt_str (normalize_adapter (dget backup ''adapter''))),
                (''include_paths'', str_list include), (''exclude_patterns'', str_list exclude),
                (''repository'', redacted_repository backup),
                (''retention_policy'', JObj (dict_value (dget backup ''retention''))),
                (''schedule_hint'', text_value (py_or (dget backup ''schedule'') (dget backup ''schedule_hint''))),
                (''verify_plan'', JObj (verify_plan (dget backup ''verify'') (dget backup ''checksum''))),
                (''approval'', JObj SKELETON_ACTION_RESULT), (''warnings'', str_list (sr_warnings r))])))"

definition missing_warnings :: "dict \<Rightarrow> nat" where
  "missing_warnings payload =
     (case dget payload ''warnings'' of
        JList ws \<Rightarrow> length (filter (\<lambda>w. contains (py_str w) ''missing backup metadata'') ws)
      | _ \<Rightarrow> 0)"

definition docs_sanitized :: "dict \<Rightarrow> dict" where
  "docs_sanitized d = dict_value (docs_sanitize_value (JObj d))"

definition build_backup_plan :: "registry \<Rightarrow> string option \<Rightarrow> string option \<Rightarrow> dict result" where
  "build_backup_plan reg service_id adapter =
     (let normalized_adapter = normalize_adapter (opt_str adapter)
      in bind_result (map_result service_backup_payload (backup_select reg service_id normalized_adapter)) (\<lambda>payloads.
           Inr (docs_sanitized
             [(''mode'', JStr ''plan''), (''service_count'', JInt (int (length payloads))),
              (''service_id'', opt_str service_id), (''adapter'', opt_str normalized_adapter),
              (''source'', JStr (registry_source reg)),
              (''warning_count'', JInt (int (sum_list (map missing_warnings payloads)))),
              (''services'', JList (map JObj payloads))])))"

definition build_backup_plan_from_path :: "string \<Rightarrow> json_files \<Rightarrow> string option \<Rightarrow> string option \<Rightarrow> dict result" where
  "build_backup_plan_from_path path files service_id adapter =
     bind_result (registry_load path files) (\<lambda>reg. build_backup_plan reg service_id adapter)"

definition render_backup_plan_json :: "string \<Rightarrow> json_files \<Rightarrow> string option \<Rightarrow> string option \<Rightarrow> string result" where
  "render_backup_plan_json path files service_id adapter =
     bind_result (build_backup_plan_from_path path files service_id adapter) (\<lambda>d. Inr (dump_sorted (JObj d)))"

definition tool_candidates :: "string list \<Rightarrow> svc_record list \<Rightarrow> string list" where
  "tool_candidates normalized filtered =
     (if normalized \<noteq> [] then normalized
      else sort (remdups (concat (map (\<lambda>r. case service_adapter r of Some a \<Rightarrow> [a] | None \<Rightarrow> []) filtered))))"

definition build_backup_apply_request :: "registry \<Rightarrow> string option \<Rightarrow> string list \<Rightarrow> dict result" where
  "build_backup_apply_request reg service_id adapters =
     (let normalized = normalize_adapters adapters;
          filtered = filter (\<lambda>r. normalized = [] \<or> service_adapter r \<in> Some ` set normalized) (select_services reg service_id)
      in bind_result (map_result service_backup_payload (filter (\<lambda>r. service_adapter r \<noteq> None) filtered)) (\<lambda>payloads.
           Inr (docs_sanitized
             [(''mode'', JStr ''apply_request''), (''provider'', JStr ''backup-provider''), (''dry_run'', JBool True),
              (''approval_required'', JBool True), (''risk'', JStr ''high''),
              (''service_count'', JInt (int (length payloads))), (''service_id'', opt_str service_id),
              (''tool_candidates'', str_list (tool_candidates normalized filtered)),
              (''provider_capabilities'', JObj [(''verify'', JBool True), (''restore_docs'', JBool True),
                                                (''external_execution_enabled'', JBool False)]),
              (''execution'', JObj [(''requested'', JBool False), (''not_executed'', JBool True),
                                    (''external_writes_blocked'', JBool True)]),
              (''services'', JList (map JObj payloads))])))"

text \<open>
  An unknown adapter name is not an error but no filter at all: the plan then has every service, as without a name.
\<close>

lemma unknown_adapter_selects_everything:
  assumes "normalize_adapter (JStr adapter) = None"
  shows "build_backup_plan reg service_id (Some adapter) = build_backup_plan reg service_id None"
  using assms by (simp add: build_backup_plan_def opt_str_def normalize_adapter_def)

end
