(* ===== verification/ConfigProvider.thy ===== *)
theory ConfigProvider imports Sanitize Schema begin

text \<open>
  The configuration provider (\<open>config_provider.py\<close>): the inventory of nodes and services as a playbook tool reads it,
  and the request to apply a playbook to it.  Both are dry runs.
\<close>

definition node_host :: "node \<Rightarrow> string" where
  "node_host n =
     (if nd_ssh_host n \<noteq> [] then nd_ssh_host n
      else case nd_addresses n of a # _ \<Rightarrow> a | [] \<Rightarrow> nd_hostname n)"

definition texts :: "string list \<Rightarrow> json" where
  "texts xs = JList (map JStr xs)"

definition service_summary :: "service_record \<Rightarrow> dict" where
  "service_summary r =
     [(''service_id'', JStr (sv_service_id r)), (''name'', JStr (sv_name r)), (''node_id'', JStr (sv_node_id r)),
      (''kind'', JStr (sv_kind r)), (''runtime'', JStr (sv_runtime r)), (''domains'', texts (sv_domains r)),
      (''ports'', JList (map JInt (sv_ports r))), (''source'', JStr (sv_source r)), (''status'', JStr (sv_status r)),
      (''docs_path'', JStr (sv_docs_path r)), (''monitor_enabled'', JBool (sv_monitor_enabled r)),
      (''health_check_url'', JStr (sv_health_check_url r)),
      (''metadata'', redact_sensitive_data (JObj (sv_metadata r)))]"

definition services_on :: "service_record list \<Rightarrow> string \<Rightarrow> string list" where
  "services_on svcs node_id = map sv_service_id (filter (\<lambda>r. sv_node_id r \<noteq> [] \<and> sv_node_id r = node_id) svcs)"

definition node_entry :: "service_record list \<Rightarrow> node \<Rightarrow> dict" where
  "node_entry svcs n =
     [(''node_id'', JStr (nd_node_id n)), (''hostname'', JStr (nd_hostname n)), (''host'', JStr (node_host n)),
      (''addresses'', texts (nd_addresses n)), (''ssh_user'', JStr (nd_ssh_user n)), (''ssh_port'', JInt (nd_ssh_port n)),
      (''labels'', texts (nd_labels n)), (''status'', JStr (nd_status n)), (''trust_level'', JStr (nd_trust_level n)),
      (''services'', texts (sort (services_on svcs (nd_node_id n))))]"

definition service_entry_of :: "service_record \<Rightarrow> dict" where
  "service_entry_of r =
     [(''service_id'', JStr (sv_service_id r)),
      (''nodes'', texts (if sv_node_id r \<noteq> [] then [sv_node_id r] else [])),
      (''service'', JObj (service_summary r))]"

definition inventory_by_node :: "node list \<Rightarrow> service_record list \<Rightarrow> dict" where
  "inventory_by_node ns svcs =
     foldl (\<lambda>d n. dset d (nd_node_id n) (JObj (node_entry (sort_key sv_service_id svcs) n))) []
       (sort_key nd_node_id ns)"

definition inventory_by_service :: "service_record list \<Rightarrow> dict" where
  "inventory_by_service svcs =
     foldl (\<lambda>d r. dset d (sv_service_id r) (JObj (service_entry_of r))) [] (sort_key sv_service_id svcs)"

definition plan_config_inventory_export :: "node list \<Rightarrow> service_record list \<Rightarrow> dict" where
  "plan_config_inventory_export ns svcs =
     [(''provider_id'', JStr ''config-provider''), (''display_name'', JStr ''Config Provider''),
      (''operation'', JStr ''inventory_export_plan''), (''intent'', JStr ''dry_run_inventory_export''),
      (''mutating'', JBool False), (''risk'', JStr ''low''), (''dry_run'', JBool True), (''approval_required'', JBool False),
      (''summary'', JStr (''dry-run inventory export prepared for '' @ show_nat (length ns) @ '' nodes and ''
         @ show_nat (length svcs) @ '' services'')),
      (''capabilities'', JObj
         [(''inventory_export'', JObj [(''enabled'', JBool True), (''mode'', JStr ''dry_run'')]),
          (''apply'', JObj [(''enabled'', JBool False), (''status'', JStr ''not_enabled''), (''approval_required'', JBool True)]),
          (''playbook_execution'', JObj [(''enabled'', JBool False), (''status'', JStr ''not_enabled''),
                                         (''approval_required'', JBool True)])]),
      (''inventory'', JObj [(''by_node'', JObj (inventory_by_node ns svcs)),
                            (''by_service'', JObj (inventory_by_service svcs))])]"

definition filter_nodes :: "string list \<Rightarrow> node list \<Rightarrow> node list" where
  "filter_nodes limit ns = (if limit = [] then ns else filter (\<lambda>n. nd_node_id n \<in> set limit) ns)"

definition filter_services :: "string list \<Rightarrow> service_record list \<Rightarrow> service_record list" where
  "filter_services limit svcs = (if limit = [] then svcs else filter (\<lambda>r. sv_node_id r \<in> set limit) svcs)"

definition plan_config_playbook_apply ::
  "string \<Rightarrow> node list \<Rightarrow> service_record list \<Rightarrow> string list \<Rightarrow> string list \<Rightarrow> string list \<Rightarrow> dict" where
  "plan_config_playbook_apply playbook_name ns svcs limit tags extra_vars =
     (let by_node = inventory_by_node (filter_nodes limit ns) (filter_services limit svcs);
          by_service = inventory_by_service (filter_services limit svcs)
      in [(''provider_id'', JStr ''config-provider''), (''operation'', JStr ''playbook_apply_request''),
          (''intent'', JStr ''dry_run_playbook_apply''), (''dry_run'', JBool True), (''approval_required'', JBool True),
          (''risk'', JStr ''high''),
          (''playbook'', JObj [(''name'', JStr playbook_name), (''tags'', texts tags), (''extra_vars'', texts extra_vars)]),
          (''execution'', JObj [(''requested'', JBool False), (''not_executed'', JBool True),
                                (''external_writes_blocked'', JBool True)]),
          (''inventory'', JObj
             [(''node_count'', JInt (int (length by_node))), (''service_count'', JInt (int (length by_service))),
              (''inventory'', JObj [(''by_node'', JObj by_node), (''by_service'', JObj by_service)])]),
          (''provider_capabilities'', JObj
             [(''inventory_export'', JBool True), (''approval_gate'', JBool True), (''audit'', JBool True),
              (''external_execution_enabled'', JBool False)])])"

section \<open>Facts\<close>

lemma foldl_dset_lookup:
  "map_of (foldl (\<lambda>d x. dset d (key x) (value x)) d xs) k =
     (case first_row (filter (\<lambda>x. key x = k) (rev xs)) of Some x \<Rightarrow> Some (value x) | None \<Rightarrow> map_of d k)"
proof (induction xs rule: rev_induct)
  case Nil
  then show ?case by simp
next
  case (snoc x xs)
  then show ?case by (simp add: dset_def update_conv')
qed

text \<open>A service is listed under its node exactly when both pass the limit.\<close>

lemma limited_services_run_on_limited_nodes:
  assumes "limit \<noteq> []" and "r \<in> set (filter_services limit svcs)"
  shows "sv_node_id r \<in> set limit \<and> r \<in> set svcs"
  using assms by (simp add: filter_services_def)

end
