(* ===== verification/Providers.thy ===== *)
theory Providers imports Sanitize begin

text \<open>
  The contract of the managed providers (\<open>providers.py\<close>): plans, results and the two operations every provider
  inherits, \<open>apply\<close> and \<open>rollback\<close>, which refuse to do anything themselves.
\<close>

datatype provider_status = OK | PLANNED | NOT_IMPLEMENTED | ERROR

fun provider_status_text :: "provider_status \<Rightarrow> string" where
  "provider_status_text OK = ''ok''"
| "provider_status_text PLANNED = ''planned''"
| "provider_status_text NOT_IMPLEMENTED = ''not_implemented''"
| "provider_status_text ERROR = ''error''"

record provider_plan =
  pp_provider_id :: string
  pp_operation :: string
  pp_intent :: string
  pp_mutating :: bool
  pp_risk :: string
  pp_dry_run :: bool
  pp_approval_required :: bool
  pp_summary :: string
  pp_steps :: "dict list"
  pp_context :: dict
  pp_metadata :: dict
  pp_rollback_hint :: string

record provider_result =
  pr_operation :: string
  pr_status :: provider_status
  pr_summary :: string
  pr_changed :: bool
  pr_dry_run :: bool
  pr_approval_required :: bool
  pr_details :: dict
  pr_metadata :: dict
  pr_warnings :: "string list"

definition provider_redacted :: "dict \<Rightarrow> dict" where
  "provider_redacted d = (case redact_sensitive_data (JObj d) of JObj x \<Rightarrow> x | _ \<Rightarrow> [])"

definition plan_sanitized :: "provider_plan \<Rightarrow> dict" where
  "plan_sanitized p =
     provider_redacted
      [(''provider_id'', JStr (pp_provider_id p)), (''operation'', JStr (pp_operation p)), (''intent'', JStr (pp_intent p)),
       (''mutating'', JBool (pp_mutating p)), (''risk'', JStr (pp_risk p)), (''dry_run'', JBool (pp_dry_run p)),
       (''approval_required'', JBool (pp_approval_required p)), (''summary'', JStr (pp_summary p)),
       (''steps'', JList (map JObj (pp_steps p))), (''context'', JObj (pp_context p)),
       (''metadata'', JObj (pp_metadata p)), (''rollback_hint'', JStr (pp_rollback_hint p))]"

definition audit_payload :: "provider_plan \<Rightarrow> dict" where
  "audit_payload p =
     (let payload = plan_sanitized p
      in map (\<lambda>key. (key, dget payload key))
           [''provider_id'', ''operation'', ''intent'', ''mutating'', ''risk'', ''approval_required'', ''dry_run'',
            ''summary'', ''steps'', ''context'', ''metadata'', ''rollback_hint''])"

definition result_sanitized :: "provider_result \<Rightarrow> dict" where
  "result_sanitized r =
     provider_redacted
      [(''operation'', JStr (pr_operation r)), (''status'', JStr (provider_status_text (pr_status r))),
       (''summary'', JStr (pr_summary r)), (''changed'', JBool (pr_changed r)), (''dry_run'', JBool (pr_dry_run r)),
       (''approval_required'', JBool (pr_approval_required r)), (''details'', JObj (pr_details r)),
       (''metadata'', JObj (pr_metadata r)), (''warnings'', JList (map JStr (pr_warnings r)))]"

definition needs_approval :: "provider_plan \<Rightarrow> bool" where
  "needs_approval p \<longleftrightarrow> pp_approval_required p \<or> pp_mutating p \<or> pp_risk p \<in> {''high'', ''critical''}"

definition provider_apply :: "provider_plan \<Rightarrow> dict \<Rightarrow> provider_result" where
  "provider_apply p config =
     (let approval_request_id = dget config ''approval_request_id'';
          audit_event_id = dget config ''audit_event_id''
      in if truthy approval_request_id
         then \<lparr>pr_operation = ''apply'', pr_status = NOT_IMPLEMENTED,
               pr_summary = pp_provider_id p @ '' provider apply is delegated to the approval/audit execution path'',
               pr_changed = False, pr_dry_run = True, pr_approval_required = False,
               pr_details = [(''provider_id'', JStr (pp_provider_id p)), (''risk'', JStr (pp_risk p)),
                             (''approval_request_id'', approval_request_id), (''plan'', JObj (plan_sanitized p))],
               pr_metadata = [(''audit_event_id'', audit_event_id), (''placeholder'', JBool True),
                              (''not_executable'', JBool True)],
               pr_warnings = [''provider contract placeholder does not perform external writes'']\<rparr>
         else \<lparr>pr_operation = ''apply'', pr_status = PLANNED,
               pr_summary = pp_provider_id p @ '' provider apply requires approval before execution'',
               pr_changed = False, pr_dry_run = True, pr_approval_required = needs_approval p,
               pr_details = [(''provider_id'', JStr (pp_provider_id p)), (''risk'', JStr (pp_risk p)),
                             (''plan'', JObj (plan_sanitized p))],
               pr_metadata = [(''contract'', JStr ''placeholder''), (''placeholder'', JBool True),
                              (''not_executable'', JBool True), (''audit_event_id'', audit_event_id)],
               pr_warnings = [''mutation is blocked by the provider contract placeholder'']\<rparr>)"

definition provider_rollback :: "provider_plan \<Rightarrow> dict \<Rightarrow> provider_result" where
  "provider_rollback p config =
     (let approval_request_id = dget config ''approval_request_id'';
          audit_event_id = dget config ''audit_event_id'';
          details = [(''provider_id'', JStr (pp_provider_id p)), (''risk'', JStr (pp_risk p)),
                     (''approval_request_id'', approval_request_id), (''rollback_hint'', JStr (pp_rollback_hint p)),
                     (''plan'', JObj (plan_sanitized p))];
          metadata = [(''audit_event_id'', audit_event_id), (''placeholder'', JBool True), (''not_executable'', JBool True)]
      in if truthy approval_request_id
         then \<lparr>pr_operation = ''rollback'', pr_status = NOT_IMPLEMENTED,
               pr_summary = pp_provider_id p @ '' provider rollback is delegated to the approval/audit execution path'',
               pr_changed = False, pr_dry_run = True, pr_approval_required = False,
               pr_details = details, pr_metadata = metadata,
               pr_warnings = [''provider contract placeholder does not perform external writes'']\<rparr>
         else \<lparr>pr_operation = ''rollback'', pr_status = PLANNED,
               pr_summary = pp_provider_id p @ '' provider rollback requires approval before execution'',
               pr_changed = False, pr_dry_run = True, pr_approval_required = needs_approval p,
               pr_details = details, pr_metadata = metadata,
               pr_warnings = [''mutation is blocked by the provider contract placeholder'']\<rparr>)"

text \<open>Neither operation claims a change, and the plan inside them is redacted before it is reported.\<close>

lemma providers_change_nothing:
  "\<not> pr_changed (provider_apply p config) \<and> pr_dry_run (provider_apply p config)
   \<and> \<not> pr_changed (provider_rollback p config) \<and> pr_dry_run (provider_rollback p config)"
  by (simp add: provider_apply_def provider_rollback_def Let_def)

end
