(* ===== verification/Onboarding.thy ===== *)
theory Onboarding imports Registry Platforms WebText begin

text \<open>
  The onboarding plan (\<open>onboarding.py\<close>): what the machines of an inventory file can do, the role each is fit for, and
  a ranking of them as targets of a migration.  A float is the text Python prints for it; \<open>read_float\<close> stands for
  \<open>repr(float(text))\<close>, \<open>None\<close> where \<open>float\<close> raises \<open>ValueError\<close>.
\<close>

section \<open>Reading loose values\<close>

definition jdict :: "json \<Rightarrow> dict" where
  "jdict v = (case v of JObj d \<Rightarrow> d | _ \<Rightarrow> [])"

definition jstring :: "json \<Rightarrow> string option" where
  "jstring v = (if v = JNull then None else let t = strip (py_str v) in if t = [] then None else Some t)"

definition or_string :: "string option \<Rightarrow> string \<Rightarrow> string" where
  "or_string v fallback = (case v of Some t \<Rightarrow> t | None \<Rightarrow> fallback)"

text \<open>Only \<open>TypeError\<close> and \<open>ValueError\<close> are caught: \<open>int\<close> of an infinity and \<open>float\<close> of a huge integer escape.\<close>

definition jint :: "json \<Rightarrow> int \<Rightarrow> int result" where
  "jint v fallback =
     (if v \<in> {JFloat ''inf'', JFloat ''-inf''} then Inl (OverflowError ''cannot convert float infinity to integer'')
      else Inr (case py_int v of Some i \<Rightarrow> i | None \<Rightarrow> fallback))"

definition jfloat :: "(string \<Rightarrow> string option) \<Rightarrow> json \<Rightarrow> string \<Rightarrow> string result" where
  "jfloat read_float v fallback =
     (case v of
        JFloat x \<Rightarrow> Inr x
      | JInt i \<Rightarrow>
          (case read_float (show_int i) of
             Some x \<Rightarrow> if x \<in> {''inf'', ''-inf''} then Inl (OverflowError ''int too large to convert to float'') else Inr x
           | None \<Rightarrow> Inr fallback)
      | JBool b \<Rightarrow> Inr (if b then ''1.0'' else ''0.0'')
      | JStr s \<Rightarrow> Inr (case read_float s of Some x \<Rightarrow> x | None \<Rightarrow> fallback)
      | _ \<Rightarrow> Inr fallback)"

text \<open>\<open>x >= n\<close> and \<open>x < n\<close> of a float and a positive integer; both are false of \<open>nan\<close>.\<close>

definition float_ge :: "string \<Rightarrow> int \<Rightarrow> bool" where
  "float_ge x n \<longleftrightarrow> x = ''inf'' \<or> (case float_to_int x of Some i \<Rightarrow> n \<le> i | None \<Rightarrow> False)"

definition float_lt :: "string \<Rightarrow> int \<Rightarrow> bool" where
  "float_lt x n \<longleftrightarrow> x \<noteq> ''nan'' \<and> \<not> float_ge x n"

definition jbool :: "json \<Rightarrow> bool" where
  "jbool v =
     (case v of
        JBool b \<Rightarrow> b
      | JInt i \<Rightarrow> i \<noteq> 0
      | JFloat _ \<Rightarrow> truthy v
      | JStr s \<Rightarrow> lower (strip s) \<in> {''1'', ''true'', ''yes'', ''y'', ''on''}
      | _ \<Rightarrow> False)"

section \<open>Capabilities and roles\<close>

record capability_profile =
  cp_os :: string
  cp_arch :: string
  cp_cores :: int
  cp_memory_mb :: int
  cp_disk_gb :: string
  cp_egress :: string
  cp_latency_tier :: "string option"
  cp_service_manager :: string
  cp_docker :: bool
  cp_systemd :: bool
  cp_ssh_port :: int

definition service_manager_from_flags :: "dict \<Rightarrow> string" where
  "service_manager_from_flags systemd = (if jbool (dget systemd ''available'') then ''systemd'' else ''none'')"

definition capability_profile_of :: "(string \<Rightarrow> string option) \<Rightarrow> dict \<Rightarrow> capability_profile result" where
  "capability_profile_of read_float n =
     (let cpu = jdict (dget n ''cpu''); memory = jdict (dget n ''memory''); disk = jdict (dget n ''disk'');
          network = jdict (dget n ''network''); docker = jdict (dget n ''docker''); systemd = jdict (dget n ''systemd'');
          manager = or_string (jstring (dget n ''service_manager'')) (service_manager_from_flags systemd)
      in bind_result (jint (dget cpu ''cores'') 0) (\<lambda>cores.
         bind_result (jint (py_or (dget memory ''total_mb'') (dget memory ''mb'')) 0) (\<lambda>memory_mb.
         bind_result (jfloat read_float (py_or (dget disk ''free_gb'') (dget disk ''available_gb'')) ''0.0'') (\<lambda>disk_gb.
         bind_result (jint (dget (jdict (dget n ''ssh'')) ''port'') 22) (\<lambda>ssh_port.
           Inr \<lparr>cp_os = or_string (jstring (dget n ''os'')) (or_string (jstring (dget n ''os_release'')) ''unknown''),
                cp_arch = or_string (jstring (dget n ''arch'')) (or_string (jstring (dget n ''architecture'')) ''unknown''),
                cp_cores = cores, cp_memory_mb = memory_mb, cp_disk_gb = disk_gb,
                cp_egress = or_string (jstring (dget network ''egress'')) ''unknown'',
                cp_latency_tier = jstring (dget network ''latency_tier''),
                cp_service_manager = manager,
                cp_docker = jbool (dget docker ''available''),
                cp_systemd = (jbool (dget systemd ''available'') \<or> manager = ''systemd''),
                cp_ssh_port = ssh_port\<rparr>)))))"

definition profile_dict :: "capability_profile \<Rightarrow> dict" where
  "profile_dict p =
     [(''os'', JStr (cp_os p)), (''arch'', JStr (cp_arch p)), (''cpu'', JObj [(''cores'', JInt (cp_cores p))]),
      (''memory'', JObj [(''total_mb'', JInt (cp_memory_mb p))]), (''disk'', JObj [(''free_gb'', JFloat (cp_disk_gb p))]),
      (''network'', JObj ((''egress'', JStr (cp_egress p))
         # (case cp_latency_tier p of Some t \<Rightarrow> [(''latency_tier'', JStr t)] | None \<Rightarrow> []))),
      (''service_manager'', JStr (cp_service_manager p)), (''docker_available'', JBool (cp_docker p)),
      (''systemd_available'', JBool (cp_systemd p)), (''ssh_port'', JInt (cp_ssh_port p))]"

definition recommended_role :: "capability_profile \<Rightarrow> string" where
  "recommended_role p =
     runtime_text
      (if cp_docker p \<and> cp_systemd p \<and> 4096 \<le> cp_memory_mb p \<and> float_ge (cp_disk_gb p) 40 \<and> 4 \<le> cp_cores p
          \<and> cp_egress p \<noteq> ''unknown'' then FULL_WORKER
       else if 256 \<le> cp_memory_mb p \<and> float_ge (cp_disk_gb p) 4 \<and> 1 \<le> cp_cores p \<and> cp_egress p \<noteq> ''unknown''
       then LITE_WORKER
       else if 96 \<le> cp_memory_mb p \<and> float_ge (cp_disk_gb p) 1 \<and> 1 \<le> cp_cores p then BEACON_ONLY
       else PROXY_MANAGED)"

definition profile_warnings :: "capability_profile \<Rightarrow> string list" where
  "profile_warnings p =
     (if float_lt (cp_disk_gb p) 10 then [''low disk''] else [])
     @ (if \<not> cp_docker p then [''no docker''] else [])
     @ (if \<not> cp_systemd p then [''no systemd''] else [])
     @ (if cp_egress p = ''unknown'' then [''unknown network''] else [])
     @ (if cp_ssh_port p = 22 then [''ssh port 22 warning''] else [])"

definition ONBOARDING_STEPS :: "string list" where
  "ONBOARDING_STEPS =
     [''install agent'', ''register node'', ''configure network'', ''enable heartbeat'',
      ''optional worker shell disabled by default'']"

definition ALLOWED_TARGET_ROLES :: "string list" where
  "ALLOWED_TARGET_ROLES = map runtime_text [FULL_WORKER, LITE_WORKER, BEACON_ONLY, PROXY_MANAGED]"

definition normalize_target_role :: "string option \<Rightarrow> string option" where
  "normalize_target_role v =
     (case v of
        None \<Rightarrow> None
      | Some r \<Rightarrow> let n = lower (strip r) in if n \<in> set ALLOWED_TARGET_ROLES then Some n else None)"

section \<open>Ranking\<close>

definition memory_points :: "int \<Rightarrow> int \<times> string" where
  "memory_points mb =
     (if 8192 \<le> mb then (25, ''high memory capacity'') else if 2048 \<le> mb then (15, ''adequate memory capacity'')
      else if 256 \<le> mb then (8, ''limited memory capacity'') else (0, ''very low memory capacity''))"

definition disk_points :: "string \<Rightarrow> int \<times> string" where
  "disk_points gb =
     (if float_ge gb 100 then (20, ''high disk headroom'') else if float_ge gb 20 then (10, ''adequate disk headroom'')
      else if float_ge gb 4 then (4, ''limited disk headroom'') else (0, ''low disk headroom''))"

definition heavy_services :: "svc_record list \<Rightarrow> svc_record list" where
  "heavy_services svcs =
     filter (\<lambda>r. sr_kind r = ''docker'' \<or> strip (case sr_runtime r of Some t \<Rightarrow> t | None \<Rightarrow> []) \<noteq> []) svcs"

definition registry_points :: "capability_profile \<Rightarrow> svc_record list \<Rightarrow> string \<Rightarrow> int \<times> string list" where
  "registry_points p svcs target_role =
     (if svcs = [] then (0, [])
      else if target_role = ''full-worker'' \<and> cp_docker p \<and> 4096 \<le> cp_memory_mb p \<and> float_ge (cp_disk_gb p) 20
      then (10, [''service registry fit for '' @ show_nat (length (heavy_services svcs)) @ '' service(s)''])
      else if target_role = ''lite-worker'' \<and> 256 \<le> cp_memory_mb p
      then (5, [''service registry fit for light workloads''])
      else (0, [''service registry fit is limited'']))"

definition candidate_score :: "capability_profile \<Rightarrow> svc_record list \<Rightarrow> string \<Rightarrow> int \<times> string list" where
  "candidate_score p svcs target_role =
     (let (m, m_reason) = memory_points (cp_memory_mb p);
          (d, d_reason) = disk_points (cp_disk_gb p);
          (r, r_reasons) = registry_points p svcs target_role
      in (min (cp_cores p * 10) 40 + m + d + (if cp_docker p then 10 else 0)
            + (if cp_service_manager p = ''systemd'' then 10 else 0) + (if cp_egress p \<noteq> ''unknown'' then 10 else 0) + r,
          [m_reason, d_reason] @ (if cp_docker p then [''docker available''] else [])
            @ (if cp_service_manager p = ''systemd'' then [''systemd available''] else [])
            @ [if cp_egress p \<noteq> ''unknown'' then ''known network egress'' else ''network profile incomplete'']
            @ r_reasons))"

record node_context =
  nx_node :: dict
  nx_profile :: capability_profile
  nx_role :: string

definition onboarding_node_id :: "dict \<Rightarrow> string" where
  "onboarding_node_id n =
     or_string (jstring (dget n ''node'')) (or_string (jstring (dget n ''node_id''))
       (or_string (jstring (dget n ''hostname'')) ''unknown-node''))"

record candidate =
  ca_node_id :: string
  ca_score :: int
  ca_recommended :: bool
  ca_considered :: bool
  ca_reasons :: "string list"
  ca_matches_role :: bool
  ca_is_current :: bool

definition candidate_of :: "svc_record list \<Rightarrow> string \<Rightarrow> string \<Rightarrow> node_context \<Rightarrow> candidate" where
  "candidate_of svcs target_role current_id cx =
     (let (score, reasons) = candidate_score (nx_profile cx) svcs target_role
      in \<lparr>ca_node_id = onboarding_node_id (nx_node cx), ca_score = score, ca_recommended = False, ca_considered = (svcs \<noteq> []),
          ca_reasons = reasons, ca_matches_role = (nx_role cx = target_role),
          ca_is_current = (onboarding_node_id (nx_node cx) = current_id)\<rparr>)"

text \<open>\<open>sort(key=(score, matches, current), reverse=True)\<close> keeps the order of equal items.\<close>

definition rank_candidates :: "candidate list \<Rightarrow> candidate list" where
  "rank_candidates cs =
     sort_key (\<lambda>c. - ca_score c) (sort_key (\<lambda>c. \<not> ca_matches_role c) (sort_key (\<lambda>c. \<not> ca_is_current c) cs))"

definition recommend_first :: "candidate list \<Rightarrow> candidate list" where
  "recommend_first cs = (case cs of [] \<Rightarrow> [] | c # rest \<Rightarrow> c\<lparr>ca_recommended := True\<rparr> # rest)"

definition migration_candidates :: "node_context list \<Rightarrow> svc_record list \<Rightarrow> string \<Rightarrow> node_context \<Rightarrow> candidate list" where
  "migration_candidates all svcs target_role cx =
     recommend_first (rank_candidates (map (candidate_of svcs target_role (onboarding_node_id (nx_node cx))) all))"

definition candidate_dict :: "candidate \<Rightarrow> json" where
  "candidate_dict c =
     JObj [(''node_id'', JStr (ca_node_id c)), (''score'', JInt (ca_score c)), (''recommended'', JBool (ca_recommended c)),
           (''service_registry_considered'', JBool (ca_considered c)), (''reasons'', str_list (ca_reasons c)),
           (''matches_requested_target_role'', JBool (ca_matches_role c)), (''is_current_node'', JBool (ca_is_current c))]"

definition migration_target_recommendation ::
  "node_context list \<Rightarrow> svc_record list \<Rightarrow> string \<Rightarrow> node_context \<Rightarrow> dict" where
  "migration_target_recommendation all svcs target_role cx =
     [(''target_role'', JStr target_role),
      (''summary'', JStr ''local inventory scoring only; no machine connections performed''),
      (''candidates'', JList (map candidate_dict (migration_candidates all svcs target_role cx)))]"

section \<open>The plan\<close>

definition node_context_of :: "(string \<Rightarrow> string option) \<Rightarrow> dict \<Rightarrow> node_context result" where
  "node_context_of read_float n =
     bind_result (capability_profile_of read_float n) (\<lambda>p.
       Inr \<lparr>nx_node = n, nx_profile = p, nx_role = recommended_role p\<rparr>)"

definition node_payload :: "node_context list \<Rightarrow> svc_record list \<Rightarrow> string option \<Rightarrow> node_context \<Rightarrow> dict" where
  "node_payload all svcs target_role cx =
     [(''node_id'', JStr (onboarding_node_id (nx_node cx))),
      (''hostname'', JStr (or_string (jstring (dget (nx_node cx) ''hostname'')) (onboarding_node_id (nx_node cx)))),
      (''target_role'', opt_str target_role), (''recommended_role'', JStr (nx_role cx)),
      (''capability_profile'', JObj (profile_dict (nx_profile cx))),
      (''input_summary'', redact_sensitive_data (JObj (nx_node cx))),
      (''onboarding_steps'', str_list ONBOARDING_STEPS), (''warnings'', str_list (profile_warnings (nx_profile cx))),
      (''migration_target_recommendation'',
        JObj (migration_target_recommendation all svcs (or_string target_role (nx_role cx)) cx)),
      (''apply'', JObj [(''approval_required'', JBool True), (''not_executed'', JBool True), (''machine_changed'', JBool False)])]"

definition service_registry_summary :: "svc_record list \<Rightarrow> dict" where
  "service_registry_summary svcs =
     [(''considered'', JBool (svcs \<noteq> [])),
      (''services'', JList (map (\<lambda>r. JObj
         [(''service_id'', JStr (sr_service_id r)), (''node'', JStr (sr_node r)), (''kind'', JStr (sr_kind r)),
          (''runtime'', opt_str (sr_runtime r)), (''source'', JStr (sr_source r))]) svcs))]"

definition build_onboarding_plan ::
  "(string \<Rightarrow> string option) \<Rightarrow> dict list \<Rightarrow> string \<Rightarrow> registry \<Rightarrow> string option \<Rightarrow> json result" where
  "build_onboarding_plan read_float ns source reg target_role =
     (let role = normalize_target_role target_role;
          svcs = list_services reg
      in bind_result (map_result (node_context_of read_float) ns) (\<lambda>contexts.
           Inr (redact_sensitive_data (JObj
             [(''mode'', JStr ''plan''), (''dry_run'', JBool True), (''source'', JStr source),
              (''nodes_count'', JInt (int (length contexts))), (''service_count'', JInt (int (length svcs))),
              (''target_role'', opt_str role), (''service_registry_summary'', JObj (service_registry_summary svcs)),
              (''nodes'', JList (map (\<lambda>cx. JObj (node_payload contexts svcs role cx)) contexts))]))))"

definition load_nodes :: "json \<Rightarrow> dict list" where
  "load_nodes raw =
     (let dicts = (\<lambda>xs. concat (map (\<lambda>v. case v of JObj d \<Rightarrow> [d] | _ \<Rightarrow> []) xs))
      in case raw of
           JList xs \<Rightarrow> dicts xs
         | JObj d \<Rightarrow> (case dget d ''nodes'' of JList xs \<Rightarrow> dicts xs | _ \<Rightarrow> [d])
         | _ \<Rightarrow> [])"

definition build_onboarding_plan_from_path ::
  "(string \<Rightarrow> string option) \<Rightarrow> string \<Rightarrow> string option \<Rightarrow> string option \<Rightarrow> json_files \<Rightarrow> json result" where
  "build_onboarding_plan_from_path read_float nodes_path registry_path target_role files =
     bind_result (files nodes_path) (\<lambda>raw.
     bind_result (case registry_path of Some p \<Rightarrow> registry_load p files | None \<Rightarrow> Inr []) (\<lambda>reg.
       build_onboarding_plan read_float (load_nodes raw) nodes_path reg target_role))"

definition render_onboarding_plan_json ::
  "(string \<Rightarrow> string option) \<Rightarrow> string \<Rightarrow> string option \<Rightarrow> string option \<Rightarrow> json_files \<Rightarrow> string result" where
  "render_onboarding_plan_json read_float nodes_path registry_path target_role files =
     bind_result (build_onboarding_plan_from_path read_float nodes_path registry_path target_role files)
       (\<lambda>v. Inr (dump_sorted v))"

section \<open>Facts\<close>

lemma set_rank [simp]: "set (rank_candidates cs) = set cs"
  by (simp add: rank_candidates_def)

lemma rank_head:
  assumes "rank_candidates cs = c # rest" and "x \<in> set cs"
  shows "ca_score x \<le> ca_score c"
proof -
  have "sorted (map (\<lambda>c. - ca_score c) (rank_candidates cs))" by (simp add: rank_candidates_def)
  moreover have "x \<in> set (c # rest)" using assms set_rank [of cs] by simp
  ultimately show ?thesis using assms(1) by auto
qed

lemma points_bounds:
  "0 \<le> fst (memory_points mb) \<and> fst (memory_points mb) \<le> 25"
  "0 \<le> fst (disk_points gb) \<and> fst (disk_points gb) \<le> 20"
  "0 \<le> fst (registry_points p svcs target_role) \<and> fst (registry_points p svcs target_role) \<le> 10"
  unfolding memory_points_def disk_points_def registry_points_def by auto

lemma candidate_score_fst:
  "fst (candidate_score p svcs target_role) =
     min (cp_cores p * 10) 40 + fst (memory_points (cp_memory_mb p)) + fst (disk_points (cp_disk_gb p))
     + (if cp_docker p then 10 else 0) + (if cp_service_manager p = ''systemd'' then 10 else 0)
     + (if cp_egress p \<noteq> ''unknown'' then 10 else 0) + fst (registry_points p svcs target_role)"
  unfolding candidate_score_def Let_def by (simp only: case_prod_beta fst_conv)

lemma score_bounds:
  "fst (candidate_score p svcs target_role) \<le> 125
   \<and> (if 0 \<le> cp_cores p then 0 \<le> fst (candidate_score p svcs target_role) else True)"
proof -
  have "min (cp_cores p * 10) 40 \<le> 40" "0 \<le> cp_cores p \<Longrightarrow> 0 \<le> min (cp_cores p * 10) 40" by simp_all
  then show ?thesis
    using points_bounds(1) [of "cp_memory_mb p"] points_bounds(2) [of "cp_disk_gb p"]
      points_bounds(3) [of p svcs target_role]
    unfolding candidate_score_fst by (auto split: if_splits)
qed

lemma candidate_of_simps:
  "\<not> ca_recommended (candidate_of svcs target_role i cx)"
  "ca_score (candidate_of svcs target_role i cx) = fst (candidate_score (nx_profile cx) svcs target_role)"
  by (simp_all add: candidate_of_def case_prod_beta Let_def)

section \<open>Properties\<close>

text \<open>The plan of every machine ranks all machines of the inventory, exactly the first one is recommended,
  it has the highest score, and no score exceeds 125.\<close>

theorem best_machine_is_recommended:
  "case migration_candidates all svcs target_role cx of
     [] \<Rightarrow> all = []
   | c # rest \<Rightarrow>
       length (c # rest) = length all \<and> ca_recommended c \<and> list_all (\<lambda>x. \<not> ca_recommended x) rest
       \<and> list_all (\<lambda>x. ca_score x \<le> ca_score c \<and> ca_score x \<le> 125) (c # rest)"
proof -
  define cs where "cs = map (candidate_of svcs target_role (onboarding_node_id (nx_node cx))) all"
  have fresh: "\<not> ca_recommended x \<and> ca_score x \<le> 125" if "x \<in> set cs" for x
    using that score_bounds by (auto simp: cs_def candidate_of_simps)
  show ?thesis
  proof (cases "rank_candidates cs")
    case Nil
    then have "cs = []" using set_rank [of cs] by simp
    with Nil show ?thesis by (simp add: migration_candidates_def recommend_first_def cs_def [symmetric]) (simp add: cs_def)
  next
    case (Cons c rest)
    have in_cs: "x \<in> set cs" if "x \<in> set (c # rest)" for x using that set_rank [of cs] Cons by auto
    have "length (c # rest) = length all"
      using arg_cong [OF Cons, of length] by (simp add: rank_candidates_def cs_def)
    moreover have "list_all (\<lambda>x. \<not> ca_recommended x) rest" using fresh in_cs by (simp add: list_all_iff)
    moreover have "list_all (\<lambda>x. ca_score x \<le> ca_score c \<and> ca_score x \<le> 125) (c # rest)"
      using rank_head [OF Cons] in_cs fresh by (simp add: list_all_iff)
    ultimately show ?thesis
      using Cons by (simp add: migration_candidates_def recommend_first_def cs_def [symmetric])
  qed
qed

end
