(* ===== verification/Coolify.thy ===== *)
theory Coolify imports Registry Services begin

text \<open>
  Applications of a Coolify server as services (\<open>coolify_provider.py\<close>): from the parsed description of a
  server to a registry view (\<open>discover_coolify_services_from_fixture\<close>) and into the \<open>services\<close> table
  (\<open>sync_coolify_registry_from_fixture\<close>).  The HTTP client, which only hands requests to a transport, is
  not modelled beyond the request it builds.
\<close>

section \<open>Requests\<close>

record coolify_config =
  cc_base_url :: string
  cc_api_token :: string
  cc_project_uuid :: string
  cc_environment_name :: string

definition coolify_config_of :: "string \<Rightarrow> string \<Rightarrow> string \<Rightarrow> string \<Rightarrow> coolify_config" where
  "coolify_config_of base_url api_token project_uuid environment_name =
     \<lparr>cc_base_url = rstrip_chars ''/'' base_url, cc_api_token = api_token, cc_project_uuid = project_uuid,
      cc_environment_name = environment_name\<rparr>"

definition api_root :: "coolify_config \<Rightarrow> string" where
  "api_root c = cc_base_url c @ ''/api/v1''"

definition coolify_headers :: "coolify_config \<Rightarrow> (string \<times> string) list" where
  "coolify_headers c =
     [(''Authorization'', ''Bearer '' @ cc_api_token c), (''Accept'', ''application/json''),
      (''Content-Type'', ''application/json'')]"

record coolify_app_spec =
  cs_name :: string
  cs_git_repository :: string
  cs_git_branch :: string
  cs_domains :: "string list"
  cs_ports :: "int list"
  cs_env :: "(string \<times> string) list"

definition build_application_payload :: "coolify_config \<Rightarrow> coolify_app_spec \<Rightarrow> dict" where
  "build_application_payload c spec =
     [(''name'', JStr (cs_name spec)), (''project_uuid'', JStr (cc_project_uuid c)),
      (''environment_name'', JStr (cc_environment_name c)),
      (''source'', JObj [(''type'', JStr ''git''), (''repository'', JStr (cs_git_repository spec)),
                        (''branch'', JStr (cs_git_branch spec))]),
      (''domains'', str_list (cs_domains spec)), (''ports'', JList (map JInt (cs_ports spec))),
      (''env'', JObj (map (map_prod id JStr) (cs_env spec)))]"

section \<open>Reading an application\<close>

definition server_name :: "dict \<Rightarrow> string" where
  "server_name payload =
     (case dget payload ''server'' of
        JObj server \<Rightarrow> if truthy (dget server ''name'') then py_str (dget server ''name'') else ''coolify-server''
      | _ \<Rightarrow> ''coolify-server'')"

definition project_name :: "dict \<Rightarrow> string" where
  "project_name payload =
     (case dget payload ''project'' of
        JObj project \<Rightarrow> py_str (py_or (dget project ''name'') (py_or (dget project ''uuid'') (JStr ''coolify-project'')))
      | _ \<Rightarrow> ''coolify-project'')"

definition environment_name :: "dict \<Rightarrow> string" where
  "environment_name payload =
     (case dget payload ''environment'' of
        JObj environment \<Rightarrow>
          if truthy (dget environment ''name'') then py_str (dget environment ''name'') else ''production''
      | _ \<Rightarrow> ''production'')"

definition app_domains :: "json \<Rightarrow> string list" where
  "app_domains raw =
     (case raw of
        JList items \<Rightarrow>
          concat (map (\<lambda>item. case item of
              JObj d \<Rightarrow> if truthy (dget d ''domain'') then [py_str (dget d ''domain'')] else []
            | JStr s \<Rightarrow> if strip s \<noteq> [] then [strip s] else []
            | _ \<Rightarrow> []) items)
      | _ \<Rightarrow> [])"

definition app_ports :: "json \<Rightarrow> int list" where
  "app_ports raw =
     (case raw of
        JList items \<Rightarrow> sort (remdups (concat (map (\<lambda>i. case py_int i of Some p \<Rightarrow> [p] | None \<Rightarrow> []) items)))
      | _ \<Rightarrow> [])"

definition runtime_summary :: "(string \<Rightarrow> bool) \<Rightarrow> dict \<Rightarrow> string" where
  "runtime_summary netloc_ok app =
     ''repo:'' @ redact_text netloc_ok (str_or (dget app ''git_repository'') ''unknown'')
     @ ''#'' @ redact_text netloc_ok (str_or (dget app ''git_branch'') ''main'')"

definition sanitized_dict :: "(string \<Rightarrow> bool) \<Rightarrow> dict \<Rightarrow> dict" where
  "sanitized_dict netloc_ok d = (case sanitize_value netloc_ok (JObj d) of JObj x \<Rightarrow> x | _ \<Rightarrow> [])"

definition resanitize :: "(string \<Rightarrow> bool) \<Rightarrow> (string \<Rightarrow> bool) \<Rightarrow> dict \<Rightarrow> dict" where
  "resanitize netloc_ok hide d =
     map (\<lambda>(key, v). (key, case v of
         JStr s \<Rightarrow>
           (if hide (replace_all ''-'' ''_'' (lower key)) then JStr REDACTED
            else let redacted = redact_text netloc_ok s
                 in JStr (if contains redacted REDACTED \<and> redacted \<noteq> s then REDACTED else redacted))
       | _ \<Rightarrow> v)) d"

definition sanitize_deploy_target :: "(string \<Rightarrow> bool) \<Rightarrow> dict \<Rightarrow> dict" where
  "sanitize_deploy_target netloc_ok d =
     resanitize netloc_ok (\<lambda>k. k \<in> {''authorization'', ''bearer'', ''access_token'', ''refresh_token'', ''api_token'',
        ''token'', ''password'', ''api_key'', ''secret''}) (sanitized_dict netloc_ok d)"

definition sanitize_env :: "(string \<Rightarrow> bool) \<Rightarrow> dict \<Rightarrow> dict" where
  "sanitize_env netloc_ok d =
     resanitize netloc_ok (\<lambda>k. list_ex (contains k) [''token'', ''password'', ''api_key'', ''secret'', ''authorization'',
        ''bearer'', ''passwd'', ''pwd'']) (sanitized_dict netloc_ok d)"

definition is_running :: "string \<Rightarrow> bool" where
  "is_running status \<longleftrightarrow> lower status \<in> {''running'', ''healthy'', ''ready''}"

definition app_warnings :: "string \<Rightarrow> string list \<Rightarrow> int list \<Rightarrow> string \<Rightarrow> string list" where
  "app_warnings app_name domains ports status =
     (if domains = [] then [''coolify app '' @ app_name @ '' has no domains''] else [])
     @ (if ports = [] then [''coolify app '' @ app_name @ '' has no ports''] else [])
     @ (if \<not> is_running status then [''coolify app '' @ app_name @ '' status='' @ status] else [])"

definition normalize_storage_name :: "string \<Rightarrow> string" where
  "normalize_storage_name v =
     (let normalized = strip_chars ''-''
            (map (\<lambda>c. if is_word c \<or> c = CHR ''-'' then c else CHR ''-'') (lower (strip v)))
      in if normalized = [] then ''unknown'' else normalized)"

definition app_name_of :: "dict \<Rightarrow> string" where
  "app_name_of app = py_str (py_or (dget app ''name'') (py_or (dget app ''uuid'') (JStr ''coolify-app'')))"

record coolify_source =
  cx_server :: string
  cx_project :: string
  cx_environment :: string
  cx_source :: string

definition coolify_source_of :: "string \<Rightarrow> dict \<Rightarrow> coolify_source" where
  "coolify_source_of source payload =
     \<lparr>cx_server = server_name payload, cx_project = project_name payload, cx_environment = environment_name payload,
      cx_source = source\<rparr>"

definition service_from_application :: "(string \<Rightarrow> bool) \<Rightarrow> coolify_source \<Rightarrow> dict \<Rightarrow> svc_record result" where
  "service_from_application netloc_ok cx app =
     (let app_name = app_name_of app;
          domains = app_domains (dget app ''domains'');
          ports = app_ports (dget app ''ports'');
          status = str_or (dget app ''status'') ''unknown''
      in bind_result (strict_dict (dget_or app ''deploy_target'' (JObj []))) (\<lambda>target.
         bind_result (strict_dict (dget_or app ''env'' (JObj []))) (\<lambda>env.
           Inr \<lparr>sr_service_id = ''coolify:'' @ cx_server cx @ '':'' @ str_or (dget app ''uuid'') app_name,
                sr_name = app_name, sr_node = cx_server cx, sr_kind = ''coolify'', sr_domains = domains,
                sr_ports = ports, sr_runtime = Some (runtime_summary netloc_ok app), sr_deploy_path = [],
                sr_config_paths = [], sr_env_paths = [], sr_data_paths = [], sr_health_check_url = [],
                sr_source = cx_source cx, sr_docs_path = Some [],
                sr_monitor =
                  [(''status'', JStr status), (''project'', JStr (cx_project cx)), (''environment'', JStr (cx_environment cx)),
                   (''deploy_target'', JObj (sanitize_deploy_target netloc_ok target)),
                   (''env_summary'', JObj (sanitize_env netloc_ok env)),
                   (''git_branch'', JStr (str_or (dget app ''git_branch'') ''main'')),
                   (''git_repository'', sanitize_value netloc_ok (JStr (str_or (dget app ''git_repository'') ''unknown'')))],
                sr_warnings = app_warnings app_name domains ports status, sr_metadata = []\<rparr>)))"

definition storage_record_from_application :: "(string \<Rightarrow> bool) \<Rightarrow> coolify_source \<Rightarrow> dict \<Rightarrow> service_record result" where
  "storage_record_from_application netloc_ok cx app =
     (let app_name = app_name_of app;
          domains = app_domains (dget app ''domains'');
          status = str_or (dget app ''status'') ''unknown''
      in bind_result (strict_dict (dget_or app ''deploy_target'' (JObj []))) (\<lambda>target.
         bind_result (strict_dict (dget_or app ''env'' (JObj []))) (\<lambda>env.
           let deploy_target = sanitize_deploy_target netloc_ok target;
               metadata =
                 [(''coolify'', JObj
                    [(''project'', JStr (cx_project cx)), (''environment'', JStr (cx_environment cx)),
                     (''repo'', sanitize_value netloc_ok (JStr (str_or (dget app ''git_repository'') ''unknown''))),
                     (''repo_branch'', JStr (str_or (dget app ''git_branch'') ''main'')),
                     (''deploy_target'', JObj deploy_target)]),
                  (''env_summary'', JObj (sanitize_env netloc_ok env)),
                  (''service_instance'', JObj
                    [(''provider'', JStr ''coolify''), (''instance_id'', JStr (str_or (dget app ''uuid'') app_name)),
                     (''node'', JStr (cx_server cx)), (''status'', JStr status)])]
                 @ (if domains \<noteq> [] then [(''exposure'', JObj [(''scope'', JStr ''public'')])] else [])
           in Inr \<lparr>sv_service_id = ''svc_'' @ cx_server cx @ ''_'' @ normalize_storage_name app_name,
                   sv_name = app_name, sv_node_id = cx_server cx, sv_kind = ''coolify'',
                   sv_runtime = runtime_summary netloc_ok app, sv_domains = domains,
                   sv_ports = app_ports (dget app ''ports''),
                   sv_deploy_path = str_or (dget deploy_target ''destination'') [],
                   sv_config_paths = [], sv_env_paths = [], sv_data_paths = [],
                   sv_health_check_url = (case domains of [] \<Rightarrow> [] | d # _ \<Rightarrow> ''https://'' @ d),
                   sv_monitor_enabled = (domains \<noteq> [] \<and> is_running status), sv_docs_path = [],
                   sv_source = cx_source cx, sv_status = status, sv_metadata = metadata,
                   sv_asset_score = 0, sv_asset_category = ''pending'', sv_why_asset = [],
                   sv_created_at = None, sv_updated_at = None\<rparr>)))"

definition dict_of :: "json \<Rightarrow> dict" where
  "dict_of v = (case v of JObj d \<Rightarrow> d | _ \<Rightarrow> [])"

section \<open>Discovery and synchronisation\<close>

definition applications :: "json \<Rightarrow> dict list result" where
  "applications payload =
     (case payload of
        JObj d \<Rightarrow> bind_result (py_iter (dget_or d ''applications'' (JList [])))
                    (\<lambda>xs. Inr (concat (map (\<lambda>v. case v of JObj a \<Rightarrow> [a] | _ \<Rightarrow> []) xs)))
      | _ \<Rightarrow> Inl (AttributeError ''object has no attribute get''))"

definition coolify_source_text :: "string \<Rightarrow> string \<Rightarrow> string" where
  "coolify_source_text source_label path = source_label @ '':'' @ path"

definition discover_coolify_services ::
  "(string \<Rightarrow> bool) \<Rightarrow> string \<Rightarrow> string \<Rightarrow> json_files \<Rightarrow> registry result" where
  "discover_coolify_services netloc_ok source_label path files =
     bind_result (files path) (\<lambda>payload.
     bind_result (applications payload) (\<lambda>apps.
     bind_result (map_result (service_from_application netloc_ok
         (coolify_source_of (coolify_source_text source_label path) (dict_of payload))) apps) (\<lambda>rs.
       Inr (service_registry rs))))"

definition build_coolify_sync_dry_run :: "(string \<Rightarrow> bool) \<Rightarrow> string \<Rightarrow> json_files \<Rightarrow> dict result" where
  "build_coolify_sync_dry_run netloc_ok path files =
     bind_result (discover_coolify_services netloc_ok ''coolify-fixture'' path files) (\<lambda>reg.
       Inr [(''provider'', JStr ''coolify''), (''mode'', JStr ''dry-run''), (''write'', JBool False),
            (''source'', JStr (coolify_source_text ''coolify-fixture'' path)),
            (''service_count'', JInt (int (length (list_services reg)))),
            (''services'', JList (map (\<lambda>r. JObj (sr_to_dict r)) (list_services reg))),
            (''registry'', JObj (registry_to_dict reg))])"

text \<open>Applications are saved one by one: what was saved before an error stays.\<close>

fun save_applications ::
  "(string \<Rightarrow> bool) \<Rightarrow> coolify_source \<Rightarrow> (nat \<Rightarrow> time) \<Rightarrow> nat \<Rightarrow> dict list \<Rightarrow> store
    \<Rightarrow> service_record list result \<times> store" where
  "save_applications netloc_ok cx clk i [] s = (Inr [], s)"
| "save_applications netloc_ok cx clk i (app # apps) s =
     (case storage_record_from_application netloc_ok cx app of
        Inl e \<Rightarrow> (Inl e, s)
      | Inr r \<Rightarrow>
          (let (saved, s1) = save_service_record r (clk i) s;
               (rest, s2) = save_applications netloc_ok cx clk (Suc i) apps s1
           in (bind_result rest (\<lambda>rs. Inr (saved # rs)), s2)))"

definition sync_coolify_registry ::
  "(string \<Rightarrow> bool) \<Rightarrow> string \<Rightarrow> string \<Rightarrow> (nat \<Rightarrow> time) \<Rightarrow> json_files \<Rightarrow> store \<Rightarrow> dict result \<times> store" where
  "sync_coolify_registry netloc_ok source_label path clk files s =
     (let source = coolify_source_text source_label path
      in case bind_result (files path) (\<lambda>payload. bind_result (applications payload) (\<lambda>apps.
                Inr (coolify_source_of source (dict_of payload), apps))) of
           Inl e \<Rightarrow> (Inl e, s)
         | Inr (cx, apps) \<Rightarrow>
             (case save_applications netloc_ok cx clk 0 apps s of
                (Inl e, s1) \<Rightarrow> (Inl e, s1)
              | (Inr saved, s1) \<Rightarrow>
                  (Inr [(''provider'', JStr ''coolify''), (''mode'', JStr ''apply''), (''write'', JBool True),
                        (''audit_action'', JStr ''coolify_registry_sync''),
                        (''service_count'', JInt (int (length saved))),
                        (''service_ids'', JList (map (\<lambda>r. JStr (sv_service_id r)) saved)), (''source'', JStr source)],
                   record_audit ''service'' ''provider'' ''coolify'' ''coolify_registry_sync'' ''ok''
                     [(''source'', JStr source), (''service_count'', JInt (int (length saved))),
                      (''service_ids'', JList (map (\<lambda>r. JStr (sv_service_id r)) saved)),
                      (''services'', JList (map (\<lambda>r. JObj
                         [(''service_id'', JStr (sv_service_id r)), (''name'', JStr (sv_name r)),
                          (''node_id'', JStr (sv_node_id r)), (''domains'', str_list (sv_domains r)),
                          (''status'', JStr (sv_status r)), (''monitor_enabled'', JBool (sv_monitor_enabled r)),
                          (''metadata'', JObj (sv_metadata r))]) saved))]
                     (clk (length saved)) s1)))"

section \<open>Facts\<close>

lemma contains_Nil [simp]: "contains s []"
  by (cases s) (simp_all add: startswith_def)

lemma clean_resanitize:
  assumes "clean_json looks_secret_key (harmless_text netloc_ok) (JObj d)"
  shows "clean_json looks_secret_key (harmless_text netloc_ok) (JObj (resanitize netloc_ok hide d))"
proof -
  have one: "clean_json looks_secret_key (harmless_text netloc_ok) (snd (f p))
      \<and> (looks_secret_key (fst (f p)) \<longrightarrow> snd (f p) = JStr REDACTED)"
    if p: "p \<in> set d" and f: "f = (\<lambda>(key, v). (key, case v of
         JStr s \<Rightarrow>
           (if hide (replace_all ''-'' ''_'' (lower key)) then JStr REDACTED
            else let redacted = redact_text netloc_ok s
                 in JStr (if contains redacted REDACTED \<and> redacted \<noteq> s then REDACTED else redacted))
       | _ \<Rightarrow> v))" for p f
  proof -
    obtain k v where kv: "p = (k, v)" by fastforce
    have v: "clean_json looks_secret_key (harmless_text netloc_ok) v" "looks_secret_key k \<Longrightarrow> v = JStr REDACTED"
      using assms p kv by (auto simp: list_all_iff)
    have "redact_text netloc_ok REDACTED = REDACTED"
      using redacted_harmless [of netloc_ok] by (simp add: redact_text_def harmless_text_def)
    with v show ?thesis unfolding f kv
      by (cases v) (auto simp: Let_def redacted_harmless redact_text_harmless)
  qed
  from one [OF _ refl] show ?thesis by (auto simp: resanitize_def list_all_iff)
qed

lemma clean_sanitized_dict: "clean_json looks_secret_key (harmless_text netloc_ok) (JObj (sanitized_dict netloc_ok d))"
proof -
  obtain x where x: "sanitize_value netloc_ok (JObj d) = JObj x" by (simp add: sanitize_value_def)
  have "clean_json looks_secret_key (harmless_text netloc_ok) (sanitize_value netloc_ok (JObj d))"
    unfolding sanitize_value_def by (intro clean_redact_json redact_text_harmless redacted_harmless)
  then show ?thesis by (simp add: sanitized_dict_def x)
qed

lemma clean_coolify_parts:
  "clean_json looks_secret_key (harmless_text netloc_ok) (JObj (sanitize_deploy_target netloc_ok d))"
  "clean_json looks_secret_key (harmless_text netloc_ok) (JObj (sanitize_env netloc_ok d))"
  unfolding sanitize_deploy_target_def sanitize_env_def by (intro clean_resanitize clean_sanitized_dict)+

section \<open>Properties\<close>

text \<open>Both readings of a Coolify application agree and hide its secrets: they fail on the same
  applications, give the same name, node, domains, ports and runtime, and the environment, the deploy
  target and the repository they keep hold no secret: no marker, no URL with credentials, and nothing
  but \<open>[REDACTED]\<close> under a key that names one.  Only a running application with a domain is monitored.\<close>

theorem coolify_readings_agree_and_hide_secrets:
  "case (service_from_application ok cx app, storage_record_from_application ok cx app) of
     (Inl e, Inl e') \<Rightarrow> e = e'
   | (Inr r, Inr v) \<Rightarrow>
       sr_name r = sv_name v \<and> sr_node r = sv_node_id v \<and> sr_domains r = sv_domains v \<and> sr_ports r = sv_ports v
       \<and> sr_runtime r = Some (sv_runtime v) \<and> sr_source r = sv_source v
       \<and> sv_monitor_enabled v = (sv_domains v \<noteq> [] \<and> is_running (sv_status v))
       \<and> list_all (clean_json looks_secret_key (harmless_text ok))
           [dget (sr_monitor r) ''deploy_target'', dget (sr_monitor r) ''env_summary'', dget (sr_monitor r) ''git_repository'',
            dget (sv_metadata v) ''env_summary'', dget (dict_of (dget (sv_metadata v) ''coolify'')) ''deploy_target'',
            dget (dict_of (dget (sv_metadata v) ''coolify'')) ''repo'']
   | _ \<Rightarrow> False"
proof -
  have repo: "clean_json looks_secret_key (harmless_text ok) (sanitize_value ok x)" for x
    unfolding sanitize_value_def by (intro clean_redact_json redact_text_harmless redacted_harmless)
  show ?thesis
  proof (cases "strict_dict (dget_or app ''deploy_target'' (JObj []))")
    case (Inl e)
    then show ?thesis by (simp add: service_from_application_def storage_record_from_application_def Let_def)
  next
    case target: (Inr t)
    show ?thesis
    proof (cases "strict_dict (dget_or app ''env'' (JObj []))")
      case (Inl e)
      with target show ?thesis by (simp add: service_from_application_def storage_record_from_application_def Let_def)
    next
      case (Inr env)
      with target show ?thesis
        by (simp add: service_from_application_def storage_record_from_application_def Let_def dget_def dict_of_def
            clean_coolify_parts repo del: clean_json.simps)
    qed
  qed
qed

end
