(* ===== verification/GithubActions.thy ===== *)
theory GithubActions imports Registry begin

text \<open>
  The GitHub Actions provider (\<open>github_actions_provider.py\<close>): its configuration, the status and the dispatch plan
  it makes from a fixture (a JSON file), and the check that a fixture belongs to the configuration.  Nothing is
  sent to GitHub.
\<close>

section \<open>Configuration\<close>

record actions_config =
  ga_repo :: string
  ga_workflow :: string
  ga_token :: string
  ga_ref :: string

definition normalize_ref :: "string \<Rightarrow> string" where
  "normalize_ref v =
     (let normalized = strip v
      in if startswith normalized ''refs/heads/'' then removeprefix normalized ''refs/heads/''
         else if normalized = [] then ''main'' else normalized)"

definition actions_config_of :: "string \<Rightarrow> string \<Rightarrow> string \<Rightarrow> string \<Rightarrow> actions_config result" where
  "actions_config_of repo workflow token ref =
     (let normalized_repo = strip_chars ''/'' (strip repo)
      in if length (filter (\<lambda>c. c = CHR ''/'') normalized_repo) \<noteq> 1
            \<or> list_ex (\<lambda>part. strip part = []) (split_on CHR ''/'' normalized_repo)
         then Inl (ValueError ''repo must use owner/name format'')
         else if strip workflow = [] then Inl (ValueError ''workflow is required'')
         else if strip token = [] then Inl (ValueError ''token is required'')
         else Inr \<lparr>ga_repo = normalized_repo, ga_workflow = strip workflow, ga_token = token, ga_ref = normalize_ref ref\<rparr>)"

definition actions_config_sanitized :: "actions_config \<Rightarrow> dict" where
  "actions_config_sanitized c =
     [(''repo'', JStr (ga_repo c)), (''workflow'', JStr (ga_workflow c)), (''ref'', JStr (ga_ref c)),
      (''token'', JStr REDACTED)]"

section \<open>Reading a fixture\<close>

definition repo_name :: "json \<Rightarrow> string" where
  "repo_name raw =
     (case raw of
        JObj d \<Rightarrow>
          let owner = strip (str_or (dget d ''owner'') []);
              name = strip (str_or (dget d ''name'') []);
              joined = (if owner \<noteq> [] \<and> name \<noteq> [] then owner @ ''/'' @ name else ''unknown/unknown'')
          in (case dget d ''full_name'' of
                JStr full \<Rightarrow> if strip full \<noteq> [] then strip full else joined
              | _ \<Rightarrow> joined)
      | _ \<Rightarrow> ''unknown/unknown'')"

definition workflow_name :: "json \<Rightarrow> string" where
  "workflow_name raw =
     (case raw of
        JObj d \<Rightarrow>
          let named = (case dget d ''name'' of
                         JStr name \<Rightarrow> if strip name \<noteq> [] then strip name else ''workflow.yml''
                       | _ \<Rightarrow> ''workflow.yml'')
          in (case dget d ''path'' of
                JStr path \<Rightarrow> if strip path \<noteq> [] then last (split_on CHR ''/'' (strip path)) else named
              | _ \<Rightarrow> named)
      | _ \<Rightarrow> ''workflow.yml'')"

record fixture_summary =
  fs_repo :: string
  fs_workflow :: string
  fs_ref :: string
  fs_run :: dict
  fs_jobs :: "dict list"
  fs_checks :: "dict list"
  fs_inputs :: dict
  fs_head_sha :: string

definition dict_items :: "json \<Rightarrow> dict list" where
  "dict_items v =
     (case v of JList xs \<Rightarrow> concat (map (\<lambda>x. case x of JObj d \<Rightarrow> [d] | _ \<Rightarrow> []) xs) | _ \<Rightarrow> [])"

text \<open>Only a dict has \<open>get\<close>, and the first run must be convertible to one.\<close>

definition summarise_fixture :: "json \<Rightarrow> fixture_summary result" where
  "summarise_fixture payload =
     (case payload of
        JObj d \<Rightarrow>
          bind_result (case dget d ''runs'' of
                         JList (v # _) \<Rightarrow> strict_dict v
                       | _ \<Rightarrow> Inr [(''status'', JStr ''unknown''), (''conclusion'', JNull), (''html_url'', JNull)])
            (\<lambda>r. Inr
              \<lparr>fs_repo = repo_name (dget d ''repo''), fs_workflow = workflow_name (dget d ''workflow''),
               fs_ref = normalize_ref (str_or (dget d ''ref'') ''main''), fs_run = r,
               fs_jobs = dict_items (dget d ''jobs''), fs_checks = dict_items (dget d ''checks''),
               fs_inputs = (case dget d ''inputs'' of JObj i \<Rightarrow> i | _ \<Rightarrow> []),
               fs_head_sha = py_str (py_or (dget d ''head_sha'') (py_or (dget r ''head_sha'') (JStr ''unknown'')))\<rparr>)
      | _ \<Rightarrow> Inl (AttributeError ''get''))"

definition status_from_run :: "dict \<Rightarrow> string" where
  "status_from_run r =
     (let conclusion = strip (str_or (dget r ''conclusion'') []);
          status = strip (str_or (dget r ''status'') [])
      in if conclusion \<noteq> [] then conclusion else if status \<noteq> [] then status else ''unknown'')"

section \<open>Hiding secrets\<close>

definition url_text :: "(string \<Rightarrow> bool) \<Rightarrow> string \<Rightarrow> string option" where
  "url_text netloc_ok s =
     (if strip s = [] then None
      else case split_once CHR ''?'' (strip s) of
             None \<Rightarrow> Some (redact_text netloc_ok (strip s))
           | Some (base, _) \<Rightarrow> Some (redact_text netloc_ok base @ ''?'' @ REDACTED))"

definition sanitize_url :: "(string \<Rightarrow> bool) \<Rightarrow> json \<Rightarrow> json" where
  "sanitize_url netloc_ok v = (case v of JStr s \<Rightarrow> opt_str (url_text netloc_ok s) | _ \<Rightarrow> JNull)"

definition text_or_url :: "(string \<Rightarrow> bool) \<Rightarrow> string \<Rightarrow> string" where
  "text_or_url netloc_ok s =
     (case url_text netloc_ok s of Some t \<Rightarrow> if t = [] then s else t | None \<Rightarrow> s)"

text \<open>
  The code sanitises a value and then, inside it, every item again; since sanitising twice is sanitising once,
  one pass and a walk over the texts do the same (\<open>sanitize_result_items\<close> below).
\<close>

definition sanitize_result_payload :: "(string \<Rightarrow> bool) \<Rightarrow> json \<Rightarrow> json" where
  "sanitize_result_payload netloc_ok v =
     redact_json (\<lambda>_. False) (text_or_url netloc_ok) (sanitize_value netloc_ok v)"

definition mask_commit_sha :: "(string \<Rightarrow> bool) \<Rightarrow> string \<Rightarrow> string" where
  "mask_commit_sha netloc_ok v =
     (let chars = utf8_split (strip v)
      in if length chars \<le> 20 then redact_text netloc_ok (strip v)
         else concat (take 12 chars) @ (utf8_text [0x2026]) @ concat (drop (length chars - 8) chars))"

section \<open>Status and dispatch plan\<close>

definition deployment_record ::
  "(string \<Rightarrow> bool) \<Rightarrow> string \<Rightarrow> fixture_summary \<Rightarrow> string \<Rightarrow> json \<Rightarrow> string \<Rightarrow> json" where
  "deployment_record netloc_ok service_id f status run_url source =
     JObj [(''service_id'', JStr service_id), (''repo'', JStr (redact_text netloc_ok (fs_repo f))),
           (''workflow'', JStr (redact_text netloc_ok (fs_workflow f))), (''ref'', JStr (redact_text netloc_ok (fs_ref f))),
           (''status'', JStr status), (''run_url'', sanitize_url netloc_ok run_url),
           (''commit_sha'', JStr (mask_commit_sha netloc_ok (fs_head_sha f))),
           (''source'', JStr (redact_text netloc_ok source))]"

definition build_github_actions_status ::
  "(string \<Rightarrow> bool) \<Rightarrow> string \<Rightarrow> json_files \<Rightarrow> string \<Rightarrow> string \<Rightarrow> dict result" where
  "build_github_actions_status netloc_ok path files service_id source_label =
     bind_result (files path) (\<lambda>payload.
     bind_result (summarise_fixture payload) (\<lambda>f.
       let source = source_label @ '':'' @ path
       in Inr [(''provider'', JStr ''github-actions''), (''mode'', JStr ''status''), (''write'', JBool False),
               (''source'', JStr source), (''repo'', JStr (fs_repo f)), (''workflow'', JStr (fs_workflow f)),
               (''ref'', JStr (fs_ref f)), (''run'', sanitize_result_payload netloc_ok (JObj (fs_run f))),
               (''jobs'', sanitize_result_payload netloc_ok (JList (map JObj (fs_jobs f)))),
               (''checks'', sanitize_result_payload netloc_ok (JList (map JObj (fs_checks f)))),
               (''deployment_record'',
                 deployment_record netloc_ok service_id f (status_from_run (fs_run f)) (dget (fs_run f) ''html_url'') source)]))"

definition dispatch_plan_of :: "(string \<Rightarrow> bool) \<Rightarrow> fixture_summary \<Rightarrow> string \<Rightarrow> dict \<Rightarrow> dict" where
  "dispatch_plan_of netloc_ok f requested_by inputs =
     [(''action'', JStr ''workflow_dispatch''), (''repo'', JStr (fs_repo f)), (''workflow'', JStr (fs_workflow f)),
      (''ref'', JStr (fs_ref f)), (''requested_by'', JStr requested_by),
      (''inputs'', sanitize_value netloc_ok (JObj (dmerge (fs_inputs f) inputs))),
      (''dry_run'', JBool True), (''mutating'', JBool False)]"

definition build_github_actions_dispatch_plan ::
  "(string \<Rightarrow> bool) \<Rightarrow> string \<Rightarrow> json_files \<Rightarrow> string \<Rightarrow> string \<Rightarrow> string \<Rightarrow> dict \<Rightarrow> dict result" where
  "build_github_actions_dispatch_plan netloc_ok path files service_id requested_by source_label inputs =
     bind_result (files path) (\<lambda>payload.
     bind_result (summarise_fixture payload) (\<lambda>f.
       let source = source_label @ '':'' @ path
       in Inr [(''provider'', JStr ''github-actions''), (''mode'', JStr ''dispatch-plan''), (''write'', JBool False),
               (''source'', JStr source), (''approval_required'', JBool True), (''executed'', JBool False),
               (''plan'', JObj (dispatch_plan_of netloc_ok f requested_by inputs)),
               (''result'', JObj [(''approval_required'', JBool True), (''not_executed'', JBool True),
                                  (''machine_changed'', JBool False)]),
               (''deployment_record'', deployment_record netloc_ok service_id f ''approval_required'' JNull source)]))"

section \<open>The provider\<close>

definition assert_fixture_matches_config :: "actions_config \<Rightarrow> dict \<Rightarrow> exn option" where
  "assert_fixture_matches_config c payload =
     (let repo = str_or (dget payload ''repo'') [];
          workflow = str_or (dget payload ''workflow'') [];
          ref = str_or (dget payload ''ref'') []
      in if repo \<noteq> ga_repo c
         then Some (ValueError (''fixture repo mismatch: expected '' @ ga_repo c @ '', got '' @ repo))
         else if workflow \<noteq> ga_workflow c
         then Some (ValueError (''fixture workflow mismatch: expected '' @ ga_workflow c @ '', got '' @ workflow))
         else if ref \<noteq> ga_ref c
         then Some (ValueError (''fixture ref mismatch: expected '' @ ga_ref c @ '', got '' @ ref))
         else None)"

definition provider_status ::
  "(string \<Rightarrow> bool) \<Rightarrow> actions_config \<Rightarrow> string \<Rightarrow> json_files \<Rightarrow> string \<Rightarrow> string \<Rightarrow> dict result" where
  "provider_status netloc_ok c path files service_id source_label =
     bind_result (build_github_actions_status netloc_ok path files service_id source_label) (\<lambda>r.
       case assert_fixture_matches_config c r of Some e \<Rightarrow> Inl e | None \<Rightarrow> Inr r)"

definition provider_dispatch_plan ::
  "(string \<Rightarrow> bool) \<Rightarrow> actions_config \<Rightarrow> string \<Rightarrow> json_files \<Rightarrow> string \<Rightarrow> string \<Rightarrow> string \<Rightarrow> dict \<Rightarrow> dict result" where
  "provider_dispatch_plan netloc_ok c path files service_id requested_by source_label inputs =
     bind_result (build_github_actions_dispatch_plan netloc_ok path files service_id requested_by source_label inputs) (\<lambda>r.
       case assert_fixture_matches_config c (case dget r ''plan'' of JObj p \<Rightarrow> p | _ \<Rightarrow> []) of
         Some e \<Rightarrow> Inl e | None \<Rightarrow> Inr r)"

section \<open>Facts\<close>

lemma sanitize_result_items:
  "sanitize_result_payload netloc_ok v =
     (case sanitize_value netloc_ok v of
        JObj d \<Rightarrow> JObj (map (map_prod id (sanitize_result_payload netloc_ok)) d)
      | JList xs \<Rightarrow> JList (map (sanitize_result_payload netloc_ok) xs)
      | JStr s \<Rightarrow> JStr (text_or_url netloc_ok s)
      | w \<Rightarrow> w)"
proof -
  let ?clean = "clean_json looks_secret_key (harmless_text netloc_ok)"
  have clean: "?clean (sanitize_value netloc_ok v)"
    unfolding sanitize_value_def by (intro clean_redact_json redact_text_harmless redacted_harmless)
  have again: "sanitize_value netloc_ok w = w" if "?clean w" for w
    using that redact_json_id [of looks_secret_key "harmless_text netloc_ok" w "redact_text netloc_ok"]
    by (auto simp: sanitize_value_def redact_text_def harmless_text_def)
  show ?thesis
  proof (cases "sanitize_value netloc_ok v")
    case (JList xs)
    then have "\<forall>x \<in> set xs. ?clean x" using clean by (simp add: list_all_iff)
    with JList again show ?thesis by (simp add: sanitize_result_payload_def)
  next
    case (JObj d)
    then have "\<forall>p \<in> set d. ?clean (snd p)" using clean by (auto simp: list_all_iff)
    with JObj again show ?thesis by (auto simp: sanitize_result_payload_def)
  qed (simp_all add: sanitize_result_payload_def)
qed

text \<open>A plan is handed out only for a fixture of the configured repository, workflow and branch.\<close>

lemma plan_is_for_the_configured_workflow:
  assumes "provider_dispatch_plan netloc_ok c path files service_id requested_by source_label inputs = Inr d"
  shows "\<exists>f. dget d ''plan'' = JObj (dispatch_plan_of netloc_ok f requested_by inputs)
    \<and> (fs_repo f, fs_workflow f, fs_ref f) = (ga_repo c, ga_workflow c, ga_ref c) \<and> dget d ''executed'' = JBool False"
proof (cases "bind_result (files path) summarise_fixture")
  case (Inl e)
  then show ?thesis using assms
    by (cases "files path") (simp_all add: provider_dispatch_plan_def build_github_actions_dispatch_plan_def)
next
  case (Inr f)
  then obtain payload where p: "files path = Inr payload" "summarise_fixture payload = Inr f"
    by (auto simp: bind_result_Inr_iff)
  have "assert_fixture_matches_config c (dispatch_plan_of netloc_ok f requested_by inputs) = None"
    and plan: "dget d ''plan'' = JObj (dispatch_plan_of netloc_ok f requested_by inputs)" "dget d ''executed'' = JBool False"
    using assms p
    by (auto simp: provider_dispatch_plan_def build_github_actions_dispatch_plan_def dget_def Let_def split: option.splits)
  then have "(fs_repo f, fs_workflow f, fs_ref f) = (ga_repo c, ga_workflow c, ga_ref c)"
    by (simp add: assert_fixture_matches_config_def dispatch_plan_of_def Let_def dget_def split: if_splits)
  with plan show ?thesis by blast
qed

end
