(* ===== verification/Deploy.thy ===== *)
theory Deploy imports Coolify GithubActions Uptime Migration WebText begin

text \<open>
  Deployment plans and status (\<open>deploy.py\<close>): for every selected service the answers of the providers its monitor
  names, read from fixtures (JSON files; \<open>exists\<close> says which files are there), each answer redacted by the sanitiser
  of the documents.  Nothing is deployed.
\<close>

section \<open>Providers of a service\<close>

definition PROVIDER_ALIASES :: "(string \<times> string) list" where
  "PROVIDER_ALIASES =
     [(''github_actions'', ''github_actions''), (''github-actions'', ''github_actions''), (''github'', ''github_actions''),
      (''coolify'', ''coolify''), (''uptime'', ''uptime''), (''uptime_kuma'', ''uptime''), (''uptime-kuma'', ''uptime'')]"

definition canonical_provider :: "string \<Rightarrow> string option" where
  "canonical_provider name = map_of PROVIDER_ALIASES (lower (strip name))"

definition add_provider :: "(string \<times> dict) list \<Rightarrow> string \<times> json \<Rightarrow> (string \<times> dict) list" where
  "add_provider providers named =
     (case canonical_provider (fst named) of
        Some canonical \<Rightarrow> AList.update canonical (dict_value (snd named)) providers
      | None \<Rightarrow> providers)"

definition provider_specs :: "svc_record \<Rightarrow> (string \<times> dict) list" where
  "provider_specs r =
     (let providers = foldl add_provider [] (dict_value (dget (sr_monitor r) ''providers''))
      in case dget (sr_monitor r) ''provider'' of
           JStr name \<Rightarrow>
             (case canonical_provider name of
                Some canonical \<Rightarrow> if canonical \<in> set (map fst providers) then providers else providers @ [(canonical, [])]
              | None \<Rightarrow> providers)
         | _ \<Rightarrow> providers)"

definition resolve_fixture :: "dict \<Rightarrow> string option \<Rightarrow> string option" where
  "resolve_fixture spec dir =
     (let raw = py_or (dget spec ''fixture'') (dget spec ''fixture_path'')
      in if raw = JNull then None
         else Some (if startswith (py_str raw) ''/'' then as_posix (py_str raw)
                    else case dir of Some d \<Rightarrow> posix_join d (py_str raw) | None \<Rightarrow> as_posix (py_str raw)))"

text \<open>What every provider answers: the value under \<open>plan\<close> or \<open>status\<close>, and the warnings.\<close>

definition fixture_answer ::
  "(string \<Rightarrow> bool) \<Rightarrow> string \<Rightarrow> string \<Rightarrow> string option \<Rightarrow> (string \<Rightarrow> (json \<times> string list) result) \<Rightarrow> dict result" where
  "fixture_answer exists provider key fixture ask =
     bind_result
       (case fixture of
          None \<Rightarrow> Inr (JNull, [''missing provider fixture: '' @ provider])
        | Some path \<Rightarrow> if exists path then ask path else Inr (JNull, [''missing provider fixture: '' @ path]))
       (\<lambda>(answer, warnings). Inr
         [(''provider'', JStr provider), (''fixture'', opt_str fixture), (key, answer), (''warnings'', str_list warnings)])"

definition github_actions_plan ::
  "(string \<Rightarrow> bool) \<Rightarrow> (string \<Rightarrow> bool) \<Rightarrow> json_files \<Rightarrow> string option \<Rightarrow> svc_record \<Rightarrow> dict \<Rightarrow> dict result" where
  "github_actions_plan netloc_ok exists files dir r spec =
     fixture_answer exists ''github_actions'' ''plan'' (resolve_fixture spec dir) (\<lambda>path.
       bind_result (build_github_actions_dispatch_plan netloc_ok path files (sr_service_id r) ''hmn'' ''github-actions-fixture'' [])
         (\<lambda>d. Inr (JObj d, [])))"

definition github_actions_status ::
  "(string \<Rightarrow> bool) \<Rightarrow> (string \<Rightarrow> bool) \<Rightarrow> json_files \<Rightarrow> string option \<Rightarrow> svc_record \<Rightarrow> dict \<Rightarrow> dict result" where
  "github_actions_status netloc_ok exists files dir r spec =
     fixture_answer exists ''github_actions'' ''status'' (resolve_fixture spec dir) (\<lambda>path.
       bind_result (build_github_actions_status netloc_ok path files (sr_service_id r) ''github-actions-fixture'')
         (\<lambda>d. Inr (JObj d, [])))"

definition match_coolify_service :: "registry \<Rightarrow> svc_record \<Rightarrow> svc_record option" where
  "match_coolify_service reg r =
     (case List.find (\<lambda>c. sr_name c = sr_name r \<and> sr_node c = sr_node r) (list_services reg) of
        Some c \<Rightarrow> Some c
      | None \<Rightarrow> List.find (\<lambda>c. set (sr_domains c) \<inter> set (sr_domains r) \<noteq> {}) (list_services reg))"

definition matched_json :: "svc_record option \<Rightarrow> json" where
  "matched_json m = (case m of Some c \<Rightarrow> JObj (sr_to_dict c) | None \<Rightarrow> JNull)"

definition no_match_warning :: "svc_record option \<Rightarrow> svc_record \<Rightarrow> string list" where
  "no_match_warning m r =
     (if m = None then [''coolify fixture has no matching service for '' @ sr_service_id r] else [])"

definition coolify_plan ::
  "(string \<Rightarrow> bool) \<Rightarrow> (string \<Rightarrow> bool) \<Rightarrow> json_files \<Rightarrow> string option \<Rightarrow> svc_record \<Rightarrow> dict \<Rightarrow> dict result" where
  "coolify_plan netloc_ok exists files dir r spec =
     fixture_answer exists ''coolify'' ''plan'' (resolve_fixture spec dir) (\<lambda>path.
       bind_result (build_coolify_sync_dry_run netloc_ok path files) (\<lambda>dry_run.
       bind_result (discover_coolify_services netloc_ok ''coolify-fixture'' path files) (\<lambda>reg.
         let matched = match_coolify_service reg r
         in Inr (JObj [(''provider'', dget dry_run ''provider''), (''mode'', dget dry_run ''mode''),
                       (''source'', dget dry_run ''source''), (''service'', matched_json matched),
                       (''result'', JObj SKELETON_ACTION_RESULT)],
                 no_match_warning matched r))))"

definition coolify_status ::
  "(string \<Rightarrow> bool) \<Rightarrow> (string \<Rightarrow> bool) \<Rightarrow> json_files \<Rightarrow> string option \<Rightarrow> svc_record \<Rightarrow> dict \<Rightarrow> dict result" where
  "coolify_status netloc_ok exists files dir r spec =
     fixture_answer exists ''coolify'' ''status'' (resolve_fixture spec dir) (\<lambda>path.
       bind_result (build_coolify_sync_dry_run netloc_ok path files) (\<lambda>dry_run.
       bind_result (discover_coolify_services netloc_ok ''coolify-fixture'' path files) (\<lambda>reg.
         let matched = match_coolify_service reg r
         in Inr (JObj [(''provider'', JStr ''coolify''), (''mode'', JStr ''status''), (''source'', dget dry_run ''source''),
                       (''service'', matched_json matched), (''service_count'', dget dry_run ''service_count'')],
                 no_match_warning matched r))))"

definition uptime_entry :: "svc_record \<Rightarrow> dict option" where
  "uptime_entry r =
     (let plan = build_uptime_plan (service_registry [r])
      in map_option (\<lambda>i. check_dict (up_monitor_name i) (up_check i))
           (List.find (\<lambda>i. up_service_id i = sr_service_id r) (pl_create plan @ pl_update plan)))"

definition uptime_plan_answer :: "svc_record \<Rightarrow> dict" where
  "uptime_plan_answer r =
     [(''provider'', JStr ''uptime''),
      (''plan'', case uptime_entry r of
          Some monitor \<Rightarrow> JObj [(''provider'', JStr ''uptime''), (''mode'', JStr ''dry-run''), (''monitor'', JObj monitor),
                                 (''result'', JObj SKELETON_ACTION_RESULT)]
        | None \<Rightarrow> JNull),
      (''warnings'', str_list (if uptime_entry r = None then [''uptime plan unavailable for '' @ sr_service_id r] else []))]"

definition uptime_status_answer :: "svc_record \<Rightarrow> dict" where
  "uptime_status_answer r =
     [(''provider'', JStr ''uptime''),
      (''status'', case uptime_entry r of
          Some monitor \<Rightarrow> JObj [(''provider'', JStr ''uptime''), (''mode'', JStr ''status''), (''monitor'', JObj monitor),
                                 (''exists'', JBool True)]
        | None \<Rightarrow> JNull),
      (''warnings'', str_list (if uptime_entry r = None then [''uptime status unavailable for '' @ sr_service_id r] else []))]"

definition provider_plan_payloads ::
  "(string \<Rightarrow> bool) \<Rightarrow> (string \<Rightarrow> bool) \<Rightarrow> json_files \<Rightarrow> string option \<Rightarrow> svc_record \<Rightarrow> dict result" where
  "provider_plan_payloads netloc_ok exists files dir r =
     map_result (\<lambda>(name, spec).
       bind_result (if name = ''github_actions'' then github_actions_plan netloc_ok exists files dir r spec
                    else if name = ''coolify'' then coolify_plan netloc_ok exists files dir r spec
                    else Inr (uptime_plan_answer r))
         (\<lambda>d. Inr (name, JObj d))) (provider_specs r)"

definition provider_status_payloads ::
  "(string \<Rightarrow> bool) \<Rightarrow> (string \<Rightarrow> bool) \<Rightarrow> json_files \<Rightarrow> string option \<Rightarrow> svc_record \<Rightarrow> dict result" where
  "provider_status_payloads netloc_ok exists files dir r =
     map_result (\<lambda>(name, spec).
       bind_result (if name = ''github_actions'' then github_actions_status netloc_ok exists files dir r spec
                    else if name = ''coolify'' then coolify_status netloc_ok exists files dir r spec
                    else Inr (uptime_status_answer r))
         (\<lambda>d. Inr (name, JObj d))) (provider_specs r)"

section \<open>The plan and the status\<close>

definition base_service_payload :: "svc_record \<Rightarrow> dict" where
  "base_service_payload r =
     [(''service_id'', JStr (sr_service_id r)), (''name'', JStr (sr_name r)), (''host'', JStr (sr_node r)),
      (''node'', JStr (sr_node r)), (''kind'', JStr (sr_kind r)), (''domains'', str_list (sr_domains r)),
      (''ports'', JList (map JInt (sr_ports r))), (''docs_path'', opt_str (sr_docs_path r)),
      (''runtime'', opt_str (sr_runtime r)), (''source'', JStr (sr_source r)),
      (''status'', dget (sr_monitor r) ''registry_status''), (''monitor'', JObj (sr_monitor r)),
      (''warnings'', str_list (sr_warnings r))]"

definition service_payload :: "svc_record \<Rightarrow> dict \<Rightarrow> json" where
  "service_payload r providers =
     docs_sanitize_value (JObj (base_service_payload r
       @ [(''providers'', JObj providers),
          (''actions'', JObj [(''apply'', JObj SKELETON_ACTION_RESULT), (''rollback'', JObj SKELETON_ACTION_RESULT)])]))"

definition deploy_select :: "registry \<Rightarrow> string option \<Rightarrow> svc_record list" where
  "deploy_select reg service_id =
     (case service_id of None \<Rightarrow> list_services reg | Some i \<Rightarrow> filter (\<lambda>r. sr_service_id r = i) (list_services reg))"

definition top_level_payload :: "string \<Rightarrow> json list \<Rightarrow> registry \<Rightarrow> string option \<Rightarrow> json" where
  "top_level_payload mode payloads reg service_id =
     docs_sanitize_value (JObj
       [(''mode'', JStr mode), (''service_count'', JInt (int (length payloads))), (''service_id'', opt_str service_id),
        (''source'', JStr (registry_source reg)), (''services'', JList payloads)])"

definition build_deploy_plan ::
  "(string \<Rightarrow> bool) \<Rightarrow> (string \<Rightarrow> bool) \<Rightarrow> json_files \<Rightarrow> registry \<Rightarrow> string option \<Rightarrow> string option \<Rightarrow> json result" where
  "build_deploy_plan netloc_ok exists files reg service_id dir =
     bind_result
       (map_result (\<lambda>r. bind_result (provider_plan_payloads netloc_ok exists files dir r) (\<lambda>d. Inr (service_payload r d)))
          (deploy_select reg service_id))
       (\<lambda>payloads. Inr (top_level_payload ''plan'' payloads reg service_id))"

definition build_deploy_status ::
  "(string \<Rightarrow> bool) \<Rightarrow> (string \<Rightarrow> bool) \<Rightarrow> json_files \<Rightarrow> registry \<Rightarrow> string option \<Rightarrow> string option \<Rightarrow> json result" where
  "build_deploy_status netloc_ok exists files reg service_id dir =
     bind_result
       (map_result (\<lambda>r. bind_result (provider_status_payloads netloc_ok exists files dir r) (\<lambda>d. Inr (service_payload r d)))
          (deploy_select reg service_id))
       (\<lambda>payloads. Inr (top_level_payload ''status'' payloads reg service_id))"

definition build_deploy_plan_from_path ::
  "(string \<Rightarrow> bool) \<Rightarrow> (string \<Rightarrow> bool) \<Rightarrow> json_files \<Rightarrow> string \<Rightarrow> string option \<Rightarrow> string option \<Rightarrow> json result" where
  "build_deploy_plan_from_path netloc_ok exists files path service_id dir =
     bind_result (registry_load path files) (\<lambda>reg. build_deploy_plan netloc_ok exists files reg service_id dir)"

definition build_deploy_status_from_path ::
  "(string \<Rightarrow> bool) \<Rightarrow> (string \<Rightarrow> bool) \<Rightarrow> json_files \<Rightarrow> string \<Rightarrow> string option \<Rightarrow> string option \<Rightarrow> json result" where
  "build_deploy_status_from_path netloc_ok exists files path service_id dir =
     bind_result (registry_load path files) (\<lambda>reg. build_deploy_status netloc_ok exists files reg service_id dir)"

definition render_deploy_plan_json ::
  "(string \<Rightarrow> bool) \<Rightarrow> (string \<Rightarrow> bool) \<Rightarrow> json_files \<Rightarrow> string \<Rightarrow> string option \<Rightarrow> string option \<Rightarrow> string result" where
  "render_deploy_plan_json netloc_ok exists files path service_id dir =
     bind_result (build_deploy_plan_from_path netloc_ok exists files path service_id dir) (\<lambda>v. Inr (dump_sorted v))"

definition render_deploy_status_json ::
  "(string \<Rightarrow> bool) \<Rightarrow> (string \<Rightarrow> bool) \<Rightarrow> json_files \<Rightarrow> string \<Rightarrow> string option \<Rightarrow> string option \<Rightarrow> string result" where
  "render_deploy_status_json netloc_ok exists files path service_id dir =
     bind_result (build_deploy_status_from_path netloc_ok exists files path service_id dir) (\<lambda>v. Inr (dump_sorted v))"

section \<open>Facts\<close>

lemma canonical_providers:
  "canonical_provider name = Some p \<Longrightarrow> p \<in> {''github_actions'', ''coolify'', ''uptime''}"
  by (auto simp: canonical_provider_def PROVIDER_ALIASES_def split: if_splits)

lemma set_fst_update: "set (map fst (AList.update k v ps)) \<subseteq> insert k (set (map fst ps))"
  by (induction ps) auto

text \<open>Only the three known providers are ever asked.\<close>

definition KNOWN_PROVIDERS :: "string set" where
  "KNOWN_PROVIDERS = {''github_actions'', ''coolify'', ''uptime''}"

lemma canonical_known: "canonical_provider name = Some p \<Longrightarrow> p \<in> KNOWN_PROVIDERS"
  using canonical_providers unfolding KNOWN_PROVIDERS_def by blast

lemma add_provider_known:
  assumes "set (map fst ps) \<subseteq> KNOWN_PROVIDERS"
  shows "set (map fst (add_provider ps x)) \<subseteq> KNOWN_PROVIDERS"
proof (cases "canonical_provider (fst x)")
  case None
  then show ?thesis using assms by (simp add: add_provider_def)
next
  case (Some p)
  then have "add_provider ps x = AList.update p (dict_value (snd x)) ps" by (simp add: add_provider_def)
  then have "set (map fst (add_provider ps x)) \<subseteq> insert p (set (map fst ps))" by (simp only: set_fst_update)
  also have "\<dots> \<subseteq> KNOWN_PROVIDERS" using canonical_known [OF Some] assms by (rule insert_subsetI)
  finally show ?thesis .
qed

lemma add_providers_known:
  "set (map fst ps) \<subseteq> KNOWN_PROVIDERS \<Longrightarrow> set (map fst (foldl add_provider ps xs)) \<subseteq> KNOWN_PROVIDERS"
proof (induction xs arbitrary: ps)
  case (Cons x xs)
  then show ?case using add_provider_known by simp
qed simp

lemma specs_are_known: "set (map fst (provider_specs r)) \<subseteq> KNOWN_PROVIDERS"
proof -
  let ?ps = "foldl add_provider [] (dict_value (dget (sr_monitor r) ''providers''))"
  have ps: "set (map fst ?ps) \<subseteq> KNOWN_PROVIDERS" by (rule add_providers_known) simp
  show ?thesis
  proof (cases "dget (sr_monitor r) ''provider''")
    case (JStr name)
    show ?thesis
    proof (cases "canonical_provider name")
      case (Some p)
      then show ?thesis using JStr ps canonical_known [OF Some] by (simp add: provider_specs_def Let_def)
    qed (use JStr ps in \<open>simp add: provider_specs_def Let_def\<close>)
  qed (use ps in \<open>simp_all add: provider_specs_def Let_def\<close>)
qed

lemma find_filter_first: "List.find P xs = first_row (filter P xs)"
  by (induction xs) auto

text \<open>The uptime check in a deployment plan is the check the uptime plan decides on.\<close>

lemma uptime_entry_is_the_decision:
  "uptime_entry r = (case uptime_decision r of Inr c \<Rightarrow> Some (check_dict (sr_name r @ '' ('' @ sr_node r @ '')'') c) | Inl _ \<Rightarrow> None)"
  by (simp add: uptime_entry_def build_uptime_plan_def uptime_order_def service_registry_def registry_upsert_def
      list_services_def Let_def split: sum.split)

end
