(* ===== verification/NodeInspect.thy ===== *)
theory NodeInspect imports Discovery Registry WebText begin

text \<open>
  The inventory of the local machine (\<open>inspect.py\<close>): the parsers of \<open>ss\<close>, \<open>docker ps\<close>, \<open>systemctl\<close> and proxy
  configurations, the collection itself, and the inventory as JSON.  The machine is a record of what its commands
  print and which files it has; \<open>loads\<close> stands for \<open>json.loads\<close>, \<open>None\<close> where it raises \<open>JSONDecodeError\<close>.
\<close>

section \<open>Records\<close>

record port_record =
  po_protocol :: string
  po_listen :: string
  po_port :: int
  po_process :: "string option"

record container_record =
  ct_name :: string
  ct_image :: string
  ct_status :: string
  ct_ports :: "string list"

record systemd_record =
  sy_name :: string
  sy_active :: string
  sy_sub :: string
  sy_description :: string

record node_inventory =
  iv_node :: string
  iv_hostname :: string
  iv_os_release :: string
  iv_ports :: "port_record list"
  iv_containers :: "container_record list"
  iv_systemd_services :: "systemd_record list"
  iv_reverse_proxy_domains :: "string list"
  iv_paths :: "string list"
  iv_warnings :: "string list"
  iv_reverse_proxy_mappings :: "(string \<times> int) list"

section \<open>Parsers\<close>

text \<open>
  \<open>(\[.*\]|.*):(\d+)$\<close> on a word: either way the host is what stands before the last colon.
\<close>

definition split_address :: "string \<Rightarrow> (string \<times> int) option" where
  "split_address local =
     (case rsplit_once CHR '':'' local of
        Some (host, port) \<Rightarrow> if port \<noteq> [] \<and> list_all is_digit port then Some (host, int_text port) else None
      | None \<Rightarrow> None)"

definition USERS_RE :: regex where
  "USERS_RE = seq_re [lit (''users:(('' @ [CHR 0x22]), Group 1 (plus_re (\<lambda>c. c \<noteq> CHR 0x22)), lit [CHR 0x22]]"

definition parse_ss_line :: "string \<Rightarrow> port_record list" where
  "parse_ss_line line0 =
     (let line = strip line0; parts = split_ws line
      in if line = [] \<or> startswith line ''State'' \<or> \<not> contains line ''LISTEN'' \<or> length parts < 4 then []
         else case split_address (parts ! 3) of
           None \<Rightarrow> []
         | Some (host, port) \<Rightarrow>
             let address = strip_chars ''[]'' host
             in [\<lparr>po_protocol = ''tcp'', po_listen = (if address = [] then ''0.0.0.0'' else address), po_port = port,
                  po_process = map_option (hit_group 1) (re_search USERS_RE line)\<rparr>])"

definition parse_ss_listening_ports :: "string \<Rightarrow> port_record list" where
  "parse_ss_listening_ports out = concat (map parse_ss_line (split_lines out))"

definition container_of :: "dict \<Rightarrow> container_record" where
  "container_of item =
     \<lparr>ct_name = py_str (py_or (dget item ''Names'') (py_or (dget item ''Name'') (JStr []))),
      ct_image = str_or (dget item ''Image'') [],
      ct_status = py_str (py_or (dget item ''Status'') (py_or (dget item ''State'') (JStr []))),
      ct_ports = filter (\<lambda>p. p \<noteq> []) (map strip (split_on CHR '','' (py_str (dget_or item ''Ports'' (JStr [])))))\<rparr>"

fun docker_ps_lines ::
  "(string \<Rightarrow> json option) \<Rightarrow> string list \<Rightarrow> (container_record list \<times> string list) result" where
  "docker_ps_lines loads [] = Inr ([], [])"
| "docker_ps_lines loads (line # lines) =
     (if strip line = [] then docker_ps_lines loads lines
      else case loads line of
        None \<Rightarrow> bind_result (docker_ps_lines loads lines)
                  (\<lambda>(cs, ws). Inr (cs, ''failed to parse docker ps json line'' # ws))
      | Some (JObj item) \<Rightarrow> bind_result (docker_ps_lines loads lines) (\<lambda>(cs, ws). Inr (container_of item # cs, ws))
      | Some _ \<Rightarrow> Inl (AttributeError ''get''))"

definition parse_docker_ps_json_lines ::
  "(string \<Rightarrow> json option) \<Rightarrow> string \<Rightarrow> bool \<Rightarrow> (container_record list \<times> string list) result" where
  "parse_docker_ps_json_lines loads out unavailable =
     (if unavailable then Inr ([], [''docker unavailable or not installed'']) else docker_ps_lines loads (split_lines out))"

definition parse_unit_line :: "string \<Rightarrow> systemd_record list" where
  "parse_unit_line line0 =
     (let bullet = utf8_char 0x25CF;
          line1 = strip line0;
          line = (if startswith line1 bullet then strip (removeprefix line1 bullet) else line1)
      in if line1 = [] \<or> startswith line1 ''UNIT '' \<or> startswith line1 ''LOAD '' then []
         else case split_ws_max 4 line of
           name # _ # active # sub # description # _ \<Rightarrow>
             if endswith name ''.service''
             then [\<lparr>sy_name = name, sy_active = active, sy_sub = sub, sy_description = description\<rparr>] else []
         | _ \<Rightarrow> [])"

definition parse_systemd_services :: "string \<Rightarrow> systemd_record list" where
  "parse_systemd_services out = concat (map parse_unit_line (split_lines out))"

definition SITE_RE :: regex where
  "SITE_RE = seq_re [Group 1 (plus_re (\<lambda>c. is_letter c \<or> is_digit c \<or> c \<in> set ''.-'')), Star is_space, lit [CHR 0x7B]]"

definition SERVER_NAME_RE :: regex where
  "SERVER_NAME_RE = seq_re [lit ''server_name'', plus_re is_space, Group 1 (plus_re (\<lambda>c. c \<noteq> CHR '';'')), lit '';'']"

definition UPSTREAM_RE :: regex where
  "UPSTREAM_RE =
     seq_re [Or (lit ''reverse_proxy'') (lit ''proxy_pass''), plus_re is_space,
             opt_re (seq_re [lit ''http'', opt_re (lit ''s''), lit ''://'']), Or (lit ''127.0.0.1'') (lit ''localhost''),
             lit '':'', Group 1 (plus_re is_digit)]"

type_synonym proxy_state = "string list \<times> (string \<times> int) list \<times> string option"

definition add_server_name :: "string list \<times> string option \<Rightarrow> string \<Rightarrow> string list \<times> string option" where
  "add_server_name st domain =
     (if CHR ''.'' \<in> set domain \<and> domain \<notin> set (fst st) then (fst st @ [domain], Some domain) else st)"

definition proxy_directive :: "string \<Rightarrow> proxy_state \<Rightarrow> proxy_state" where
  "proxy_directive line st =
     (case st of (domains, mappings, current) \<Rightarrow>
       let (domains', current') =
             (case re_search SERVER_NAME_RE line of
                Some h \<Rightarrow> foldl add_server_name (domains, current) (split_ws (hit_group 1 h))
              | None \<Rightarrow> (domains, current))
       in (domains',
           case (re_search UPSTREAM_RE line, current') of
             (Some h, Some domain) \<Rightarrow> AList.update domain (int_text (hit_group 1 h)) mappings
           | _ \<Rightarrow> mappings,
           current'))"

definition proxy_line :: "string \<Rightarrow> proxy_state \<Rightarrow> proxy_state" where
  "proxy_line raw st =
     (case st of (domains, mappings, current) \<Rightarrow>
       let line = strip raw
       in if line = [] \<or> startswith line ''#'' then st
          else case map_option (hit_group 1) (re_match SITE_RE line) of
            Some site \<Rightarrow>
              if CHR ''.'' \<in> set site then (domains @ [site], mappings, Some site) else proxy_directive line st
          | None \<Rightarrow> proxy_directive line st)"

definition parse_reverse_proxy_config :: "string \<Rightarrow> string list \<times> (string \<times> int) list" where
  "parse_reverse_proxy_config config =
     (case fold proxy_line (split_lines config) ([], [], None) of
        (domains, mappings, _) \<Rightarrow> (sort (remdups domains), mappings))"

section \<open>Collection\<close>

record machine =
  mc_run :: "string list \<Rightarrow> int \<times> string \<times> string"
  mc_read :: "string \<Rightarrow> string option"
  mc_which :: "string \<Rightarrow> bool"
  mc_is_dir :: "string \<Rightarrow> bool"
  mc_files :: "string \<Rightarrow> string list"
  mc_exists :: "string \<Rightarrow> bool"

definition extract_os_pretty_name :: "string \<Rightarrow> string" where
  "extract_os_pretty_name release =
     (case List.find (\<lambda>line. startswith line ''PRETTY_NAME='') (split_lines release) of
        Some line \<Rightarrow> strip_chars [CHR 0x22] (strip (removeprefix line ''PRETTY_NAME=''))
      | None \<Rightarrow> [])"

definition error_or_code :: "string \<Rightarrow> int \<Rightarrow> string" where
  "error_or_code err code = (if strip err = [] then show_int code else strip err)"

definition collect_reverse_proxy_domains ::
  "machine \<Rightarrow> string list \<Rightarrow> string list \<times> (string \<times> int) list" where
  "collect_reverse_proxy_domains mc config_paths =
     (let paths = (if config_paths = [] then [''/etc/caddy/Caddyfile'', ''/etc/nginx/sites-enabled''] else config_paths);
          candidates = concat (map (\<lambda>p. if mc_is_dir mc p then mc_files mc p else [p]) paths);
          found = concat (map (\<lambda>c. case mc_read mc c of Some t \<Rightarrow> [parse_reverse_proxy_config t] | None \<Rightarrow> []) candidates)
      in (sort (remdups (concat (map fst found))),
          foldl (\<lambda>m (k, v). AList.update k v m) [] (concat (map snd found))))"

definition collect_containers ::
  "machine \<Rightarrow> (string \<Rightarrow> json option) \<Rightarrow> (container_record list \<times> string list) result" where
  "collect_containers mc loads =
     (if mc_which mc ''docker''
      then case mc_run mc [''docker'', ''ps'', ''-a'', ''--format'', ''json''] of (code, out, err) \<Rightarrow>
        bind_result (parse_docker_ps_json_lines loads out (code \<noteq> 0)) (\<lambda>(cs, ws).
          Inr (cs, ws @ (if code \<noteq> 0 \<and> strip err \<noteq> [] then [strip err] else [])))
      else parse_docker_ps_json_lines loads [] True)"

definition collect_systemd :: "machine \<Rightarrow> systemd_record list \<times> string list" where
  "collect_systemd mc =
     (if mc_which mc ''systemctl''
      then case mc_run mc [''systemctl'', ''list-units'', ''--type=service'', ''--state=running'', ''--no-pager''] of
        (code, out, err) \<Rightarrow>
          if code = 0 then (parse_systemd_services out, [])
          else ([], [''systemctl unavailable: '' @ error_or_code err code])
      else ([], [''systemctl unavailable or not installed'']))"

definition collect_local_inventory ::
  "machine \<Rightarrow> (string \<Rightarrow> json option) \<Rightarrow> string \<Rightarrow> string list \<Rightarrow> node_inventory result" where
  "collect_local_inventory mc loads node_name config_paths =
     (case mc_run mc [''hostname''] of (h_code, h_out, _) \<Rightarrow>
      case mc_run mc [''ss'', ''-ltnp''] of (ss_code, ss_out, ss_err) \<Rightarrow>
      case collect_systemd mc of (units, unit_warnings) \<Rightarrow>
      case collect_reverse_proxy_domains mc config_paths of (domains, mappings) \<Rightarrow>
      bind_result (collect_containers mc loads) (\<lambda>(containers, docker_warnings).
        Inr \<lparr>iv_node = node_name,
             iv_hostname = (if h_code = 0 \<and> strip h_out \<noteq> [] then strip h_out else node_name),
             iv_os_release = (case mc_read mc ''/etc/os-release'' of Some t \<Rightarrow> extract_os_pretty_name t | None \<Rightarrow> []),
             iv_ports = (if ss_code = 0 then parse_ss_listening_ports ss_out else []),
             iv_containers = containers, iv_systemd_services = units, iv_reverse_proxy_domains = domains,
             iv_paths = filter (mc_exists mc) [''/srv'', ''/opt'', ''/home'', ''/www''],
             iv_warnings =
               (if mc_read mc ''/etc/os-release'' = None then [''/etc/os-release unavailable''] else [])
               @ (if ss_code \<noteq> 0 then [''ss unavailable: '' @ error_or_code ss_err ss_code] else [])
               @ docker_warnings @ unit_warnings,
             iv_reverse_proxy_mappings = mappings\<rparr>))"

section \<open>The inventory as JSON\<close>

definition port_dict :: "port_record \<Rightarrow> json" where
  "port_dict p =
     JObj [(''protocol'', JStr (po_protocol p)), (''listen'', JStr (po_listen p)), (''port'', JInt (po_port p)),
           (''process'', opt_str (po_process p))]"

definition container_dict :: "container_record \<Rightarrow> json" where
  "container_dict c =
     JObj [(''name'', JStr (ct_name c)), (''image'', JStr (ct_image c)), (''status'', JStr (ct_status c)),
           (''ports'', str_list (ct_ports c))]"

definition systemd_dict :: "systemd_record \<Rightarrow> json" where
  "systemd_dict u =
     JObj [(''name'', JStr (sy_name u)), (''active'', JStr (sy_active u)), (''sub'', JStr (sy_sub u)),
           (''description'', JStr (sy_description u))]"

definition inventory_dict :: "node_inventory \<Rightarrow> dict" where
  "inventory_dict iv =
     [(''node'', JStr (iv_node iv)), (''hostname'', JStr (iv_hostname iv)), (''os_release'', JStr (iv_os_release iv)),
      (''ports'', JList (map port_dict (iv_ports iv))), (''containers'', JList (map container_dict (iv_containers iv))),
      (''systemd_services'', JList (map systemd_dict (iv_systemd_services iv))),
      (''reverse_proxy_domains'', str_list (iv_reverse_proxy_domains iv)), (''paths'', str_list (iv_paths iv)),
      (''warnings'', str_list (iv_warnings iv)),
      (''reverse_proxy_mappings'', JObj (map (map_prod id JInt) (iv_reverse_proxy_mappings iv)))]"

text \<open>
  \<open>PortRecord(**item)\<close> takes exactly the fields of the class.  A field that has another type than the class
  declares lies outside the data model and is reported as a \<open>TypeError\<close> too.
\<close>

definition wrong_type :: "'a result" where
  "wrong_type = Inl (TypeError ''unexpected field'')"

definition as_text :: "json \<Rightarrow> string result" where
  "as_text v = (case v of JStr s \<Rightarrow> Inr s | _ \<Rightarrow> wrong_type)"

definition as_texts :: "json \<Rightarrow> string list result" where
  "as_texts v = bind_result (py_iter v) (map_result as_text)"

definition fields_ok :: "string list \<Rightarrow> string list \<Rightarrow> dict \<Rightarrow> bool" where
  "fields_ok required optional d \<longleftrightarrow>
     set required \<subseteq> set (map fst d) \<and> set (map fst d) \<subseteq> set (required @ optional)"

definition port_from :: "json \<Rightarrow> port_record result" where
  "port_from v =
     (case v of
        JObj d \<Rightarrow>
          if \<not> fields_ok [''protocol'', ''listen'', ''port''] [''process''] d then wrong_type
          else bind_result (as_text (dget d ''protocol'')) (\<lambda>protocol.
               bind_result (as_text (dget d ''listen'')) (\<lambda>listen.
               bind_result (case dget d ''port'' of JInt i \<Rightarrow> Inr i | _ \<Rightarrow> wrong_type) (\<lambda>port.
               bind_result (case dget d ''process'' of JNull \<Rightarrow> Inr None | p \<Rightarrow> bind_result (as_text p) (\<lambda>t. Inr (Some t)))
                 (\<lambda>process. Inr \<lparr>po_protocol = protocol, po_listen = listen, po_port = port, po_process = process\<rparr>))))
      | _ \<Rightarrow> wrong_type)"

definition container_from :: "json \<Rightarrow> container_record result" where
  "container_from v =
     (case v of
        JObj d \<Rightarrow>
          if \<not> fields_ok [''name'', ''image'', ''status'', ''ports''] [] d then wrong_type
          else bind_result (as_text (dget d ''name'')) (\<lambda>name.
               bind_result (as_text (dget d ''image'')) (\<lambda>image.
               bind_result (as_text (dget d ''status'')) (\<lambda>status.
               bind_result (as_texts (dget d ''ports'')) (\<lambda>ports.
                 Inr \<lparr>ct_name = name, ct_image = image, ct_status = status, ct_ports = ports\<rparr>))))
      | _ \<Rightarrow> wrong_type)"

definition systemd_from :: "json \<Rightarrow> systemd_record result" where
  "systemd_from v =
     (case v of
        JObj d \<Rightarrow>
          if \<not> fields_ok [''name'', ''active'', ''sub'', ''description''] [] d then wrong_type
          else bind_result (as_text (dget d ''name'')) (\<lambda>name.
               bind_result (as_text (dget d ''active'')) (\<lambda>active.
               bind_result (as_text (dget d ''sub'')) (\<lambda>sub.
               bind_result (as_text (dget d ''description'')) (\<lambda>description.
                 Inr \<lparr>sy_name = name, sy_active = active, sy_sub = sub, sy_description = description\<rparr>))))
      | _ \<Rightarrow> wrong_type)"

definition items_from :: "dict \<Rightarrow> string \<Rightarrow> (json \<Rightarrow> 'a result) \<Rightarrow> 'a list result" where
  "items_from d key item = bind_result (py_iter (dget_or d key (JList []))) (map_result item)"

definition inventory_from_dict :: "dict \<Rightarrow> node_inventory result" where
  "inventory_from_dict d =
     (let field = (\<lambda>key. py_str (dget_or d key (JStr [])))
      in bind_result (items_from d ''ports'' port_from) (\<lambda>ports.
         bind_result (items_from d ''containers'' container_from) (\<lambda>containers.
         bind_result (items_from d ''systemd_services'' systemd_from) (\<lambda>units.
         bind_result (as_texts (dget_or d ''reverse_proxy_domains'' (JList []))) (\<lambda>domains.
         bind_result (as_texts (dget_or d ''paths'' (JList []))) (\<lambda>paths.
         bind_result (as_texts (dget_or d ''warnings'' (JList []))) (\<lambda>warnings.
         bind_result (strict_dict (dget_or d ''reverse_proxy_mappings'' (JObj []))) (\<lambda>raw.
         bind_result (map_result (\<lambda>(k, v). bind_result (int_of_json v) (\<lambda>i. Inr (k, i))) raw) (\<lambda>mappings.
           Inr \<lparr>iv_node = field ''node'', iv_hostname = field ''hostname'', iv_os_release = field ''os_release'',
                iv_ports = ports, iv_containers = containers, iv_systemd_services = units,
                iv_reverse_proxy_domains = domains, iv_paths = paths, iv_warnings = warnings,
                iv_reverse_proxy_mappings = mappings\<rparr>)))))))))"

definition inventory_to_json :: "node_inventory \<Rightarrow> string" where
  "inventory_to_json iv = dump_sorted (JObj (inventory_dict iv))"

text \<open>\<open>json.loads\<close> of the text is the argument.\<close>

definition inventory_from_json :: "json \<Rightarrow> node_inventory result" where
  "inventory_from_json v = (case v of JObj d \<Rightarrow> inventory_from_dict d | _ \<Rightarrow> Inl (AttributeError ''get''))"

section \<open>Facts\<close>

lemma as_texts_str_list [simp]: "as_texts (str_list xs) = Inr xs"
  using map_result_map [of xs as_text JStr id] by (simp add: as_texts_def str_list_def as_text_def)

text \<open>What \<open>json.dumps\<close> with sorted keys and \<open>json.loads\<close> make of the parts.\<close>

lemma fields_ok_sort [simp]: "fields_ok required optional (dict_sort d) = fields_ok required optional d"
  by (simp add: fields_ok_def)

lemmas inventory_reading = fields_ok_def dget_dict_sort dget_simps as_text_def opt_str_def

lemma port_from_dict: "port_from (json_sort (port_dict p)) = Inr p"
  by (cases "po_process p") (simp_all add: port_from_def port_dict_def inventory_reading)

lemma container_from_dict: "container_from (json_sort (container_dict c)) = Inr c"
  by (simp add: container_from_def container_dict_def inventory_reading)

lemma systemd_from_dict: "systemd_from (json_sort (systemd_dict u)) = Inr u"
  by (simp add: systemd_from_def systemd_dict_def inventory_reading)

lemma dget_or_dict_sort: "dget_or (dict_sort d) k (json_sort x) = json_sort (dget_or d k x)"
  by (simp add: dget_or_def map_of_dict_sort split: option.split)

lemma items_from_sorted:
  assumes "dget_or d key (JList []) = JList (map f xs)" and "\<And>x. item (json_sort (f x)) = Inr x"
  shows "items_from (dict_sort d) key item = Inr xs"
  using assms dget_or_dict_sort [of d key "JList []"] map_result_map [of xs item "\<lambda>x. json_sort (f x)" id]
  by (simp add: items_from_def comp_def)

lemma dict_sort_ints: "dict_sort (map (map_prod id JInt) m) = map (map_prod id JInt) (sort_key fst m)"
  using map_prod_sort_key [of JInt m] by (simp add: dict_sort_def comp_def prod.map_comp id_def)

lemma int_entries: "map_result (\<lambda>(k, v). bind_result (int_of_json v) (\<lambda>i. Inr (k, i))) (map (map_prod id JInt) m) = Inr m"
  using map_result_map [of m "\<lambda>(k, v). bind_result (int_of_json v) (\<lambda>i. Inr (k, i))" "map_prod id JInt" id]
  by (simp add: case_prod_beta int_of_json_def py_int_def)

section \<open>Properties\<close>

text \<open>An inventory written as JSON (keys sorted) reads back as the same inventory, up to the order of the
  proxy mappings.\<close>

theorem inventory_round_trips:
  "inventory_from_json (json_sort (JObj (inventory_dict iv)))
     = Inr (iv\<lparr>iv_reverse_proxy_mappings := sort_key fst (iv_reverse_proxy_mappings iv)\<rparr>)"
proof -
  let ?d = "inventory_dict iv"
  have ports: "items_from (dict_sort ?d) ''ports'' port_from = Inr (iv_ports iv)"
    by (rule items_from_sorted [OF _ port_from_dict]) (simp add: inventory_dict_def dget_or_def)
  have containers: "items_from (dict_sort ?d) ''containers'' container_from = Inr (iv_containers iv)"
    by (rule items_from_sorted [OF _ container_from_dict]) (simp add: inventory_dict_def dget_or_def)
  have units: "items_from (dict_sort ?d) ''systemd_services'' systemd_from = Inr (iv_systemd_services iv)"
    by (rule items_from_sorted [OF _ systemd_from_dict]) (simp add: inventory_dict_def dget_or_def)
  note sorted = dget_or_dict_sort [of ?d]
  have texts: "dget_or (dict_sort ?d) ''reverse_proxy_domains'' (JList []) = str_list (iv_reverse_proxy_domains iv)"
    "dget_or (dict_sort ?d) ''paths'' (JList []) = str_list (iv_paths iv)"
    "dget_or (dict_sort ?d) ''warnings'' (JList []) = str_list (iv_warnings iv)"
    using sorted [of _ "JList []"] by (simp_all add: inventory_dict_def dget_or_def)
  have scalars: "dget_or (dict_sort ?d) ''node'' (JStr []) = JStr (iv_node iv)"
    "dget_or (dict_sort ?d) ''hostname'' (JStr []) = JStr (iv_hostname iv)"
    "dget_or (dict_sort ?d) ''os_release'' (JStr []) = JStr (iv_os_release iv)"
    using sorted [of _ "JStr []"] by (simp_all add: inventory_dict_def dget_or_def)
  have mappings: "dget_or (dict_sort ?d) ''reverse_proxy_mappings'' (JObj [])
      = JObj (map (map_prod id JInt) (sort_key fst (iv_reverse_proxy_mappings iv)))"
    using dget_or_dict_sort [of ?d "''reverse_proxy_mappings''" "JObj []"]
    by (simp add: inventory_dict_def dget_or_def dict_sort_ints)
  show ?thesis
    unfolding inventory_from_json_def json_sort_JObj json.case inventory_from_dict_def Let_def
      ports containers units texts scalars mappings strict_dict_def as_texts_str_list bind_result_simps int_entries
    by simp
qed

end
