(* ===== verification/InventoryDiscovery.thy ===== *)
theory InventoryDiscovery imports NodeInspect Registry begin

text \<open>
  The service registry made from an inventory of a machine (\<open>discovery.py\<close>): one record per container, the domains
  of the reverse proxy bound to the records by port, the systemd units, and an unknown record for every public
  port and every domain left over.
\<close>

definition SYSTEMD_EXCLUDE_PREFIXES :: "string list" where
  "SYSTEMD_EXCLUDE_PREFIXES =
     [''systemd-'', ''dbus.'', ''ssh.'', ''cron.'', ''rsyslog.'', ''getty@'', ''networking.'']"

definition HOST_PORT_RE :: regex where
  "HOST_PORT_RE =
     seq_re [opt_re (seq_re [any_re (seq_re [digits_re, lit ''.'', digits_re, lit ''.'', digits_re, lit ''.'', digits_re])
                               [lit ''127.0.0.1'', lit ''0.0.0.0'', lit ''::''], lit '':'']),
             Group 1 digits_re, lit ''->'', digits_re, lit ''/'', Or (lit ''tcp'') (lit ''udp'')]"

definition container_host_ports :: "container_record \<Rightarrow> int list" where
  "container_host_ports c =
     sort (remdups (concat (map (\<lambda>m. map (\<lambda>h. int_text (hit_group 1 h)) (re_findall HOST_PORT_RE m)) (ct_ports c))))"

definition is_public_listener :: "port_record \<Rightarrow> bool" where
  "is_public_listener p \<longleftrightarrow> po_listen p \<in> {''0.0.0.0'', ''::'', ''*''}"

text \<open>A record with the defaults of \<open>ServiceRecord\<close>.\<close>

definition plain_record ::
  "string \<Rightarrow> string \<Rightarrow> string \<Rightarrow> string \<Rightarrow> string list \<Rightarrow> int list \<Rightarrow> string option \<Rightarrow> string \<Rightarrow> string list \<Rightarrow> svc_record" where
  "plain_record service_id name node_name kind domains ports runtime source warnings =
     \<lparr>sr_service_id = service_id, sr_name = name, sr_node = node_name, sr_kind = kind, sr_domains = domains, sr_ports = ports,
      sr_runtime = runtime, sr_deploy_path = [], sr_config_paths = [], sr_env_paths = [], sr_data_paths = [],
      sr_health_check_url = [], sr_source = source, sr_docs_path = None, sr_monitor = [], sr_warnings = warnings,
      sr_metadata = []\<rparr>"

definition service_from_container :: "node_inventory \<Rightarrow> container_record \<Rightarrow> svc_record" where
  "service_from_container iv c =
     plain_record (iv_node iv @ '':docker:'' @ ct_name c) (ct_name c) (iv_node iv) ''docker'' [] (container_host_ports c)
       (Some (ct_image c)) (''container:'' @ ct_name c)
       (if container_host_ports c = [] then [''docker container '' @ ct_name c @ '' has no published ports''] else [])"

definition find_service_by_port :: "registry \<Rightarrow> int \<Rightarrow> svc_record option" where
  "find_service_by_port reg port = List.find (\<lambda>r. port \<in> set (sr_ports r)) (list_services reg)"

definition unknown_port_id :: "node_inventory \<Rightarrow> int \<Rightarrow> string" where
  "unknown_port_id iv port = iv_node iv @ '':unknown:port:'' @ show_int port"

definition unknown_service_for_upstream_port :: "node_inventory \<Rightarrow> int \<Rightarrow> svc_record" where
  "unknown_service_for_upstream_port iv port =
     plain_record (unknown_port_id iv port) (''port-'' @ show_int port) (iv_node iv) ''unknown'' [] [port]
       (case List.find (\<lambda>p. po_port p = port) (iv_ports iv) of Some p \<Rightarrow> po_process p | None \<Rightarrow> None) ''reverse-proxy'' []"

definition bind_reverse_proxy_domain :: "node_inventory \<Rightarrow> registry \<Rightarrow> string \<times> int \<Rightarrow> registry" where
  "bind_reverse_proxy_domain iv reg mapping =
     (let (domain, port) = mapping;
          target = (case find_service_by_port reg port of Some r \<Rightarrow> r | None \<Rightarrow> unknown_service_for_upstream_port iv port)
      in registry_upsert reg (plain_record (sr_service_id target) (sr_name target) (sr_node target) (sr_kind target)
           [domain] [port] (sr_runtime target) (sr_source target) []))"

definition bind_reverse_proxy_domains :: "node_inventory \<Rightarrow> registry \<Rightarrow> registry" where
  "bind_reverse_proxy_domains iv reg = foldl (bind_reverse_proxy_domain iv) reg (iv_reverse_proxy_mappings iv)"

definition systemd_service_of :: "node_inventory \<Rightarrow> systemd_record \<Rightarrow> svc_record" where
  "systemd_service_of iv u =
     plain_record (iv_node iv @ '':systemd:'' @ sy_name u) (removesuffix (sy_name u) ''.service'') (iv_node iv) ''systemd''
       [] [] (Some (sy_name u)) (''systemd:'' @ sy_name u) []"

definition bare_port_service :: "node_inventory \<Rightarrow> port_record \<Rightarrow> svc_record" where
  "bare_port_service iv p =
     plain_record (unknown_port_id iv (po_port p)) (''port-'' @ show_int (po_port p)) (iv_node iv) ''unknown'' [] [po_port p]
       (po_process p) ''listener'' [''bare public port '' @ show_int (po_port p) @ '' could not be attributed'']"

definition bare_domain_service :: "node_inventory \<Rightarrow> string \<Rightarrow> svc_record" where
  "bare_domain_service iv domain =
     plain_record (iv_node iv @ '':unknown:domain:'' @ domain) domain (iv_node iv) ''unknown'' [domain] [] None ''reverse-proxy''
       [''domain '' @ domain @ '' could not be attributed to a service'']"

definition all_ports :: "registry \<Rightarrow> int list" where
  "all_ports reg = concat (map sr_ports (list_services reg))"

definition all_domains :: "registry \<Rightarrow> string list" where
  "all_domains reg = concat (map sr_domains (list_services reg))"

definition discover_services :: "node_inventory \<Rightarrow> registry" where
  "discover_services iv =
     (let from_containers = map (service_from_container iv) (iv_containers iv);
          reg1 = foldl registry_upsert [] from_containers;
          reg2 = bind_reverse_proxy_domains iv reg1;
          claimed = concat (map sr_ports from_containers) @ all_ports reg2;
          units = filter (\<lambda>u. \<not> list_ex (startswith (sy_name u)) SYSTEMD_EXCLUDE_PREFIXES) (iv_systemd_services iv);
          reg3 = foldl registry_upsert reg2 (map (systemd_service_of iv) units);
          bare = filter (\<lambda>p. is_public_listener p \<and> po_port p \<notin> set claimed) (iv_ports iv);
          reg4 = foldl registry_upsert reg3 (map (bare_port_service iv) bare);
          unbound = filter (\<lambda>d. d \<notin> set (all_domains reg4)) (iv_reverse_proxy_domains iv)
      in foldl registry_upsert reg4 (map (bare_domain_service iv) unbound))"

definition discover_services_from_file :: "string \<Rightarrow> json_files \<Rightarrow> registry result" where
  "discover_services_from_file path files =
     bind_result (files path) (\<lambda>v. bind_result (inventory_from_json v) (\<lambda>iv. Inr (discover_services iv)))"

section \<open>Facts\<close>

lemma map_of_upsert: "map_of (registry_upsert reg r) k = (if sr_service_id r = k then Some r else map_of reg k)"
  by (simp add: registry_upsert_def update_conv')

lemma plain_record_simps [simp]:
  "sr_service_id (plain_record i n nd k ds ps rt src ws) = i" "sr_ports (plain_record i n nd k ds ps rt src ws) = ps"
  "sr_domains (plain_record i n nd k ds ps rt src ws) = ds" "sr_warnings (plain_record i n nd k ds ps rt src ws) = ws"
  by (simp_all add: plain_record_def)

text \<open>A record stays unless a later one with the same id takes its place.\<close>

lemma upsert_all_lookup:
  "map_of (foldl registry_upsert reg rs) k =
     (case first_row (filter (\<lambda>r. sr_service_id r = k) (rev rs)) of Some r \<Rightarrow> Some r | None \<Rightarrow> map_of reg k)"
proof (induction rs rule: rev_induct)
  case (snoc r rs)
  then show ?case by (simp add: map_of_upsert)
qed simp

lemma upsert_distinct: "distinct (map fst reg) \<Longrightarrow> distinct (map fst (registry_upsert reg r))"
  by (simp add: registry_upsert_def distinct_update)

lemma upsert_all_distinct: "distinct (map fst reg) \<Longrightarrow> distinct (map fst (foldl registry_upsert reg rs))"
  by (induction rs arbitrary: reg) (simp_all add: upsert_distinct)

lemma in_list_services: "map_of reg k = Some r \<Longrightarrow> r \<in> set (list_services reg)"
  by (force simp: list_services_def dest!: map_of_SomeD)

lemma listed: "distinct (map fst reg) \<Longrightarrow> r \<in> set (list_services reg) \<Longrightarrow> \<exists>k. map_of reg k = Some r"
  by (force simp: list_services_def)

text \<open>Until the domains that are left over get their records, no record has the id of such a record.\<close>

definition bound_id :: "node_inventory \<Rightarrow> string \<Rightarrow> bool" where
  "bound_id iv i \<longleftrightarrow> (\<exists>rest. i = iv_node iv @ '':docker:'' @ rest \<or> i = iv_node iv @ '':systemd:'' @ rest
     \<or> i = iv_node iv @ '':unknown:port:'' @ rest)"

definition reg_bound :: "node_inventory \<Rightarrow> registry \<Rightarrow> bool" where
  "reg_bound iv reg \<longleftrightarrow> distinct (map fst reg) \<and> (\<forall>k r. map_of reg k = Some r \<longrightarrow> sr_service_id r = k \<and> bound_id iv k)"

lemma bound_domain_id: "bound_id iv i \<Longrightarrow> i \<noteq> sr_service_id (bare_domain_service iv d)"
  by (auto simp: bound_id_def bare_domain_service_def)

lemma reg_bound_upsert: "reg_bound iv reg \<Longrightarrow> bound_id iv (sr_service_id r) \<Longrightarrow> reg_bound iv (registry_upsert reg r)"
  by (auto simp: reg_bound_def map_of_upsert upsert_distinct split: if_splits)

lemma reg_bound_upserts:
  "reg_bound iv reg \<Longrightarrow> list_all (\<lambda>r. bound_id iv (sr_service_id r)) rs \<Longrightarrow> reg_bound iv (foldl registry_upsert reg rs)"
  by (induction rs arbitrary: reg) (simp_all add: reg_bound_upsert)

lemma bound_ids:
  "bound_id iv (sr_service_id (service_from_container iv c))" "bound_id iv (sr_service_id (systemd_service_of iv u))"
  "bound_id iv (sr_service_id (bare_port_service iv p))"
  "bound_id iv (sr_service_id (unknown_service_for_upstream_port iv port))"
  by (auto simp: bound_id_def service_from_container_def systemd_service_of_def bare_port_service_def unknown_port_id_def
      unknown_service_for_upstream_port_def)

lemma reg_bound_bind: "reg_bound iv reg \<Longrightarrow> reg_bound iv (bind_reverse_proxy_domain iv reg m)"
proof -
  assume reg: "reg_bound iv reg"
  obtain domain port where m: "m = (domain, port)" by (cases m)
  have "bound_id iv (sr_service_id r)" if "find_service_by_port reg port = Some r" for r
  proof -
    have "r \<in> set (list_services reg)" using that by (auto simp: find_service_by_port_def dest: find_Some_in)
    moreover have "distinct (map fst reg)" using reg by (simp add: reg_bound_def)
    ultimately obtain k where "map_of reg k = Some r" using listed by blast
    with reg show ?thesis by (auto simp: reg_bound_def)
  qed
  then show ?thesis
    using reg bound_ids(4)
    by (auto simp: bind_reverse_proxy_domain_def m Let_def intro!: reg_bound_upsert split: option.split)
qed

lemma reg_bound_binds: "reg_bound iv reg \<Longrightarrow> reg_bound iv (foldl (bind_reverse_proxy_domain iv) reg ms)"
  by (induction ms arbitrary: reg) (simp_all add: reg_bound_bind)

text \<open>The record of a domain that was left over stays, and so does every other record.\<close>

lemma bare_domains_kept:
  assumes "reg_bound iv reg"
  shows "d \<in> set (all_domains reg) \<or> d \<in> set ds \<Longrightarrow>
    d \<in> set (all_domains (foldl registry_upsert reg (map (bare_domain_service iv) ds)))"
proof -
  let ?reg = "foldl registry_upsert reg (map (bare_domain_service iv) ds)"
  assume "d \<in> set (all_domains reg) \<or> d \<in> set ds"
  then consider r where "r \<in> set (list_services reg)" "d \<in> set (sr_domains r)" | "d \<in> set ds"
    by (auto simp: all_domains_def)
  then show ?thesis
  proof cases
    case 1
    moreover have "distinct (map fst reg)" using assms by (simp add: reg_bound_def)
    ultimately obtain k where k: "map_of reg k = Some r" using listed by blast
    then have "bound_id iv k" using assms by (auto simp: reg_bound_def)
    then have "filter (\<lambda>r. sr_service_id r = k) (rev (map (bare_domain_service iv) ds)) = []"
      using bound_domain_id by (auto simp: filter_empty_conv)
    then have "map_of ?reg k = Some r" using k by (simp add: upsert_all_lookup)
    with 1 show ?thesis by (auto simp: all_domains_def dest!: in_list_services)
  next
    case 2
    let ?k = "sr_service_id (bare_domain_service iv d)"
    let ?found = "filter (\<lambda>r. sr_service_id r = ?k) (rev (map (bare_domain_service iv) ds))"
    have "bare_domain_service iv d \<in> set ?found" using 2 by auto
    then obtain r where r: "first_row ?found = Some r" by (cases ?found) auto
    then have "r \<in> set ?found" by (rule first_row_Some)
    then have "sr_domains r = [d]" by (auto simp: bare_domain_service_def)
    moreover have "map_of ?reg ?k = Some r" using r by (simp add: upsert_all_lookup)
    ultimately show ?thesis by (force simp: all_domains_def dest!: in_list_services)
  qed
qed

section \<open>Properties\<close>

text \<open>No domain of the reverse proxy is lost: each is in a record of the discovered registry, bound to a service
  or on its own.\<close>

theorem every_proxy_domain_is_discovered:
  "set (iv_reverse_proxy_domains iv) \<subseteq> set (all_domains (discover_services iv))"
proof
  fix d
  assume d: "d \<in> set (iv_reverse_proxy_domains iv)"
  have "reg_bound iv []" by (simp add: reg_bound_def)
  then show "d \<in> set (all_domains (discover_services iv))"
    unfolding discover_services_def Let_def bind_reverse_proxy_domains_def using d
    by (intro bare_domains_kept reg_bound_upserts reg_bound_binds) (auto simp: list_all_iff bound_ids)
qed

text \<open>Binding a domain replaces the record it is bound to: of a container with two published ports only the
  port of the last domain is left in the registry, and the other port is nowhere in it.\<close>

theorem bound_container_loses_ports:
  assumes "iv_containers iv = [c]" and "container_host_ports c = [p, q]" and "p \<noteq> q"
    and "iv_reverse_proxy_mappings iv = [(domain, p)]"
  shows "q \<notin> set (all_ports (discover_services iv))"
proof -
  let ?r = "service_from_container iv c"
  have r: "sr_ports ?r = [p, q]" using assms(2) by (simp add: service_from_container_def)
  let ?b = "plain_record (sr_service_id ?r) (sr_name ?r) (sr_node ?r) (sr_kind ?r) [domain] [p] (sr_runtime ?r) (sr_source ?r) []"
  have bound: "bind_reverse_proxy_domains iv (registry_upsert [] ?r) = [(sr_service_id ?r, ?b)]"
    using assms(4) r by (simp add: bind_reverse_proxy_domains_def bind_reverse_proxy_domain_def registry_upsert_def
        find_service_by_port_def list_services_def Let_def)
  have keep: "q \<notin> set (all_ports (foldl registry_upsert reg rs))"
    if "distinct (map fst reg)" "q \<notin> set (all_ports reg)" "list_all (\<lambda>r. q \<notin> set (sr_ports r)) rs" for reg rs
  proof
    note h = that
    assume "q \<in> set (all_ports (foldl registry_upsert reg rs))"
    then obtain s where s: "s \<in> set (list_services (foldl registry_upsert reg rs))" "q \<in> set (sr_ports s)"
      by (auto simp: all_ports_def)
    then obtain k where k: "map_of (foldl registry_upsert reg rs) k = Some s"
      using listed upsert_all_distinct [OF h(1)] by blast
    show False
    proof (cases "first_row (filter (\<lambda>r. sr_service_id r = k) (rev rs))")
      case None
      then have "map_of reg k = Some s" using k by (simp add: upsert_all_lookup)
      then show False using h(2) s(2) by (auto simp: all_ports_def dest!: in_list_services)
    next
      case (Some t)
      then have "t = s" using k by (simp add: upsert_all_lookup)
      moreover have "t \<in> set rs" using first_row_Some [OF Some] by auto
      ultimately show False using h(3) s(2) by (auto simp: list_all_iff)
    qed
  qed
  show ?thesis
    unfolding discover_services_def Let_def assms(1) list.map foldl.simps bound
    using assms(3) r
    by (intro keep upsert_all_distinct)
      (auto simp: list_all_iff systemd_service_of_def bare_port_service_def bare_domain_service_def all_ports_def
        list_services_def)
qed

definition sample_container :: container_record where
  "sample_container = \<lparr>ct_name = ''web'', ct_image = ''nginx'', ct_status = ''Up'', ct_ports = [''80->80/tcp'', ''443->443/tcp'']\<rparr>"

definition sample_inventory :: node_inventory where
  "sample_inventory =
     \<lparr>iv_node = ''n'', iv_hostname = ''n'', iv_os_release = [], iv_ports = [], iv_containers = [sample_container],
      iv_systemd_services = [], iv_reverse_proxy_domains = [''a.example''], iv_paths = [], iv_warnings = [],
      iv_reverse_proxy_mappings = [(''a.example'', 80)]\<rparr>"

lemma sample_ports: "container_host_ports sample_container = [80, 443]"
  by code_simp

lemma bound_container_loses_ports_witness:
  "container_host_ports sample_container = [80, 443] \<and> 443 \<notin> set (all_ports (discover_services sample_inventory))"
  using bound_container_loses_ports [of sample_inventory sample_container 80 443 "''a.example''"] sample_ports
  by (simp add: sample_inventory_def)

end
