(* ===== verification/Headscale.thy ===== *)
theory Headscale imports Approvals WebText PyData begin

text \<open>
  The network provider (\<open>network_base.py\<close>, \<open>headscale.py\<close>) and the commands of \<open>cli.py\<close> that read from it: the lookup
  of the configuration, the client of the Headscale API, the status and the synchronisation of the nodes with it, the
  request for new tags and the creation of a key.  Parameters: \<open>send\<close> is one HTTP exchange, \<open>loads\<close> is \<open>json.loads\<close>
  (\<open>None\<close> where it raises), \<open>env\<close> the environment, \<open>expand\<close> is \<open>expanduser\<close>, and \<open>configs\<close> what \<open>yaml.safe_load\<close>
  reads from a file that exists.
\<close>

section \<open>Configuration\<close>

definition network_config_candidates :: "(string \<Rightarrow> string) \<Rightarrow> (string \<Rightarrow> string option) \<Rightarrow> string option \<Rightarrow> string list" where
  "network_config_candidates expand env config_path =
     (case config_path of Some p \<Rightarrow> [expand p] | None \<Rightarrow> [])
     @ (case env ''HMN_CONFIG'' of Some p \<Rightarrow> if p \<noteq> [] then [expand p] else [] | None \<Rightarrow> [])
     @ [''/etc/hermes-managed-network/config.yaml'', expand ''~/.hmn/config.yaml'']"

definition load_network_config ::
  "(string \<Rightarrow> string) \<Rightarrow> (string \<Rightarrow> string option) \<Rightarrow> (string \<Rightarrow> json result option) \<Rightarrow> string option \<Rightarrow> dict result" where
  "load_network_config expand env configs config_path =
     (case List.find (\<lambda>p. configs p \<noteq> None) (network_config_candidates expand env config_path) of
        None \<Rightarrow> Inr []
      | Some p \<Rightarrow>
          bind_result (the (configs p)) (\<lambda>data.
            case py_or data (JObj []) of
              JObj d \<Rightarrow> Inr d
            | _ \<Rightarrow> Inl (NetworkProviderError (utf8_text [0x914D, 0x7F6E, 0x6587, 0x4EF6, 0x683C, 0x5F0F, 0x9519, 0x8BEF] @ '': '' @ p))))"

record headscale =
  hs_base_url :: string
  hs_api_key_env :: string
  hs_user :: string

definition PROVIDER_NAME :: string where
  "PROVIDER_NAME = ''headscale''"

definition rstrip_slash :: "string \<Rightarrow> string" where
  "rstrip_slash s = rev (dropWhile (\<lambda>c. c = CHR ''/'') (rev s))"

definition headscale_from_config :: "dict \<Rightarrow> headscale result" where
  "headscale_from_config network_config =
     (case dget network_config ''headscale'' of
        JObj h \<Rightarrow>
          let base_url = rstrip_slash (str_or (dget h ''url'') []);
              api_key_env = strip (str_or (dget h ''api_key_env'') []);
              user = strip (str_or (dget h ''user'') ''default'')
          in if base_url = [] then Inl (NetworkProviderError (utf8_text [0x7F3A, 0x5C11] @ '' network.headscale.url''))
             else if api_key_env = [] then Inl (NetworkProviderError (utf8_text [0x7F3A, 0x5C11] @ '' network.headscale.api_key_env''))
             else Inr \<lparr>hs_base_url = base_url, hs_api_key_env = api_key_env,
                       hs_user = (if user = [] then ''default'' else user)\<rparr>
      | _ \<Rightarrow> Inl (NetworkProviderError (utf8_text [0x7F3A, 0x5C11] @ '' network.headscale '' @ utf8_text [0x914D, 0x7F6E])))"

definition get_network_provider ::
  "(string \<Rightarrow> string) \<Rightarrow> (string \<Rightarrow> string option) \<Rightarrow> (string \<Rightarrow> json result option) \<Rightarrow> string option \<Rightarrow> headscale option result" where
  "get_network_provider expand env configs config_path =
     bind_result (load_network_config expand env configs config_path) (\<lambda>config.
       case dget config ''network'' of
         JObj network \<Rightarrow>
           let provider = lower (strip (str_or (dget network ''provider'') []))
           in if provider = [] then Inr None
              else if provider \<noteq> ''headscale''
              then Inl (NetworkProviderError (utf8_text [0x6682, 0x4E0D, 0x652F, 0x6301, 0x7684] @ '' network provider: '' @ provider))
              else bind_result (headscale_from_config network) (\<lambda>h. Inr (Some h))
       | _ \<Rightarrow> Inr None)"

section \<open>The HTTP client\<close>

datatype exchange = HttpFailed int string | Unreachable string | Received string

record http_request =
  hr_method :: string
  hr_url :: string
  hr_headers :: "(string \<times> string) list"
  hr_body :: "json option"

definition request_json ::
  "(http_request \<Rightarrow> exchange) \<Rightarrow> (string \<Rightarrow> json option) \<Rightarrow> string \<Rightarrow> string \<Rightarrow> string \<Rightarrow> string \<Rightarrow> json option \<Rightarrow> dict result" where
  "request_json send loads base_url token verb path payload =
     (let headers = [(''Authorization'', ''Bearer '' @ token), (''Accept'', ''application/json'')]
            @ (if payload = None then [] else [(''Content-Type'', ''application/json'')])
      in case send \<lparr>hr_method = upper verb, hr_url = rstrip_slash base_url @ path, hr_headers = headers, hr_body = payload\<rparr> of
           HttpFailed code detail \<Rightarrow>
             Inl (NetworkProviderError (''Headscale API '' @ utf8_text [0x8BF7, 0x6C42, 0x5931, 0x8D25] @ '': '' @ show_int code @ '' ''
       @ detail))
         | Unreachable reason \<Rightarrow> Inl (NetworkProviderError (''Headscale API '' @ utf8_text [0x4E0D, 0x53EF, 0x8FBE] @ '': '' @ reason))
         | Received raw \<Rightarrow>
             (case loads (if raw = [] then ''{}'' else raw) of
                None \<Rightarrow> Inl (ValueError ''Expecting value'')
              | Some (JObj d) \<Rightarrow> Inr d
              | Some _ \<Rightarrow> Inl (NetworkProviderError (''Headscale API '' @ utf8_text [0x8FD4, 0x56DE, 0x4E86, 0x975E, 0x5BF9, 0x8C61] @ '' JSON''))))"

text \<open>\<open>urlencode\<close> of one parameter writes a space as \<open>+\<close>.\<close>

definition quote_plus :: "string \<Rightarrow> string" where
  "quote_plus s = concat (map (\<lambda>c. if c = CHR 0x20 then ''+'' else url_quote [c]) s)"

definition encode_query :: "(string \<times> string) list \<Rightarrow> string" where
  "encode_query params =
     (let filtered = filter (\<lambda>(k, v). v \<noteq> []) params
      in if filtered = [] then [] else ''?'' @ join_with ''&'' (map (\<lambda>(k, v). quote_plus k @ ''='' @ quote_plus v) filtered))"

section \<open>Nodes of the network\<close>

record network_node =
  nn_provider_node_id :: string
  nn_hostname :: string
  nn_ip :: string
  nn_tags :: "string list"
  nn_online :: bool
  nn_raw :: dict

definition normalize_network_node :: "dict \<Rightarrow> network_node result" where
  "normalize_network_node raw =
     (let provider_node_id = py_str (py_or (dget raw ''id'') (py_or (dget raw ''nodeId'') (JStr [])));
          hostname = py_str (py_or (dget raw ''givenName'') (py_or (dget raw ''name'')
                       (py_or (dget raw ''hostname'') (JStr provider_node_id))))
      in bind_result (str_items (py_or (dget raw ''forcedTags'') (py_or (dget raw ''tags'') (JList [])))) (\<lambda>tags.
         bind_result (str_items (py_or (dget raw ''ipAddresses'') (py_or (dget raw ''addresses'') (JList [])))) (\<lambda>ips.
           Inr \<lparr>nn_provider_node_id = provider_node_id, nn_hostname = hostname,
                nn_ip = (case List.find (\<lambda>v. CHR ''.'' \<in> set v \<or> CHR '':'' \<in> set v) ips of Some v \<Rightarrow> v | None \<Rightarrow> []),
                nn_tags = tags, nn_online = truthy (py_or (dget raw ''online'') (dget raw ''isOnline'')),
                nn_raw = raw\<rparr>)))"

type_synonym api = "string \<Rightarrow> string \<Rightarrow> json option \<Rightarrow> dict result"

text \<open>The client of a provider: without the token in the environment every call fails.\<close>

definition headscale_client ::
  "(http_request \<Rightarrow> exchange) \<Rightarrow> (string \<Rightarrow> json option) \<Rightarrow> (string \<Rightarrow> string option) \<Rightarrow> headscale \<Rightarrow> api result" where
  "headscale_client send loads env h =
     (let token = strip (case env (hs_api_key_env h) of Some t \<Rightarrow> t | None \<Rightarrow> [])
      in if token = [] then Inl (NetworkProviderError (utf8_text [0x7F3A, 0x5C11, 0x73AF, 0x5883, 0x53D8, 0x91CF] @ '' '' @ hs_api_key_env h))
         else Inr (request_json send loads (hs_base_url h) token))"

definition headscale_list_nodes :: "headscale \<Rightarrow> api result \<Rightarrow> network_node list result" where
  "headscale_list_nodes h client =
     bind_result client (\<lambda>api.
     bind_result (api ''GET'' (''/api/v1/node'' @ encode_query [(''user'', hs_user h)]) None) (\<lambda>payload.
       case py_or (dget payload ''nodes'') (py_or (dget payload ''machines'') (JList [])) of
         JList rows \<Rightarrow>
           map_result normalize_network_node (concat (map (\<lambda>v. case v of JObj d \<Rightarrow> [d] | _ \<Rightarrow> []) rows))
       | _ \<Rightarrow> Inl (NetworkProviderError (''Headscale nodes '' @ utf8_text [0x8FD4, 0x56DE, 0x683C, 0x5F0F, 0x9519, 0x8BEF]))))"

record network_status =
  ns_provider :: string
  ns_configured :: bool
  ns_endpoint :: string
  ns_node_count :: nat
  ns_online_count :: nat
  ns_nodes :: "network_node list"

definition headscale_status :: "headscale \<Rightarrow> api result \<Rightarrow> network_status result" where
  "headscale_status h client =
     bind_result (headscale_list_nodes h client) (\<lambda>ns.
       Inr \<lparr>ns_provider = PROVIDER_NAME, ns_configured = True, ns_endpoint = hs_base_url h, ns_node_count = length ns,
            ns_online_count = length (filter nn_online ns), ns_nodes = ns\<rparr>)"

record preauth_key =
  pk_key :: string
  pk_reusable :: bool
  pk_ephemeral :: bool
  pk_expiration :: "string option"
  pk_tags :: "string list"
  pk_raw :: dict

definition headscale_create_preauth_key ::
  "headscale \<Rightarrow> api result \<Rightarrow> string list \<Rightarrow> bool \<Rightarrow> bool \<Rightarrow> string option \<Rightarrow> preauth_key result" where
  "headscale_create_preauth_key h client tags reusable ephemeral expiration =
     (let expires = (case expiration of Some e \<Rightarrow> JStr e | None \<Rightarrow> JNull);
          payload = [(''user'', JStr (hs_user h)), (''reusable'', JBool reusable), (''ephemeral'', JBool ephemeral),
                     (''expiration'', expires), (''aclTags'', JList (map JStr tags))]
      in bind_result client (\<lambda>api.
         bind_result (api ''POST'' ''/api/v1/preauthkey'' (Some (JObj payload))) (\<lambda>response.
           case py_or (dget response ''preAuthKey'') (py_or (dget response ''preauth_key'') (JObj response)) of
             JObj data \<Rightarrow>
               let key = py_str (py_or (dget data ''key'') (py_or (dget data ''value'') (JStr [])));
                   ends = py_str (py_or (dget data ''expiration'') (py_or expires (JStr [])))
               in if key = [] then Inl (NetworkProviderError (''Headscale '' @ utf8_text [0x672A, 0x8FD4, 0x56DE] @ '' preauth key''))
                  else bind_result (str_items (py_or (dget data ''aclTags'') (JList (map JStr tags)))) (\<lambda>given.
                    Inr \<lparr>pk_key = key, pk_reusable = truthy (dget_or data ''reusable'' (JBool reusable)),
                         pk_ephemeral = truthy (dget_or data ''ephemeral'' (JBool ephemeral)),
                         pk_expiration = (if ends = [] then None else Some ends), pk_tags = given, pk_raw = data\<rparr>)
           | _ \<Rightarrow> Inl (NetworkProviderError (''Headscale preauth key '' @ utf8_text [0x8FD4, 0x56DE, 0x683C, 0x5F0F, 0x9519, 0x8BEF])))))"

definition headscale_set_node_tags :: "api result \<Rightarrow> string \<Rightarrow> string list \<Rightarrow> network_node result" where
  "headscale_set_node_tags client provider_node_id tags =
     bind_result client (\<lambda>api.
     bind_result (api ''POST'' (''/api/v1/node/'' @ provider_node_id @ ''/tags'') (Some (JObj [(''tags'', JList (map JStr tags))])))
       (\<lambda>response.
         case py_or (dget response ''node'') (py_or (dget response ''machine'') (JObj response)) of
           JObj data \<Rightarrow>
             bind_result (normalize_network_node data) (\<lambda>n.
               Inr (n\<lparr>nn_provider_node_id := (if nn_provider_node_id n = [] then provider_node_id else nn_provider_node_id n),
                      nn_tags := (if nn_tags n = [] then tags else nn_tags n)\<rparr>))
         | _ \<Rightarrow> Inl (NetworkProviderError (''Headscale tag update '' @ utf8_text [0x8FD4, 0x56DE, 0x683C, 0x5F0F, 0x9519, 0x8BEF]))))"

section \<open>Commands\<close>

definition network_node_matches_hmn :: "network_node \<Rightarrow> node \<Rightarrow> bool" where
  "network_node_matches_hmn m n \<longleftrightarrow>
     nd_hostname n \<in> {nn_hostname m, nn_provider_node_id m} \<or> nd_node_id n \<in> {nn_hostname m, nn_provider_node_id m}"

record network_sync =
  sn_matched :: "string list"
  sn_linked :: nat
  sn_updated :: nat
  sn_unmatched :: "string list"

definition linked_node :: "string \<Rightarrow> network_node \<Rightarrow> node \<Rightarrow> node" where
  "linked_node provider_name m n =
     n\<lparr>nd_network_provider := provider_name, nd_network_node_id := nn_provider_node_id m, nd_network_ip := nn_ip m,
       nd_network_tags := nn_tags m, nd_network_online := nn_online m\<rparr>"

definition sync_one :: "string \<Rightarrow> node list \<Rightarrow> network_sync \<times> store \<Rightarrow> network_node \<Rightarrow> network_sync \<times> store" where
  "sync_one provider_name hmn_nodes st m =
     (let (r, s) = st
      in case List.find (\<lambda>n. nd_node_id n \<notin> set (sn_matched r) \<and> network_node_matches_hmn m n) hmn_nodes of
           None \<Rightarrow>
             (r\<lparr>sn_unmatched := sn_unmatched r @ [if nn_hostname m \<noteq> [] then nn_hostname m else nn_provider_node_id m]\<rparr>, s)
         | Some n \<Rightarrow>
             let r' = r\<lparr>sn_matched := nd_node_id n # sn_matched r, sn_linked := sn_linked r + 1\<rparr>;
                 n' = linked_node provider_name m n
             in if n' \<noteq> n then (r'\<lparr>sn_updated := sn_updated r + 1\<rparr>, save_node n' s) else (r', s))"

definition sync_nodes :: "string \<Rightarrow> network_node list \<Rightarrow> time \<Rightarrow> store \<Rightarrow> network_sync \<times> store" where
  "sync_nodes provider_name ms now s =
     (let (r, s') = foldl (sync_one provider_name (list_nodes s))
            (\<lparr>sn_matched = [], sn_linked = 0, sn_updated = 0, sn_unmatched = []\<rparr>, s) ms
      in (r, record_audit ''network'' ''provider'' provider_name ''sync'' ''ok''
               [(''linked'', JInt (int (sn_linked r))), (''updated'', JInt (int (sn_updated r))),
                (''unmatched'', JList (map JStr (sn_unmatched r)))] now s'))"

text \<open>Without a provider the command stops; a failing provider changes nothing.\<close>

definition require_network_provider :: "headscale option result \<Rightarrow> headscale result" where
  "require_network_provider provider =
     bind_result provider (\<lambda>h. case h of Some x \<Rightarrow> Inr x | None \<Rightarrow> Inl (Exit 1))"

definition sync_network_nodes ::
  "headscale option result \<Rightarrow> (headscale \<Rightarrow> api result) \<Rightarrow> time \<Rightarrow> store \<Rightarrow> network_sync result \<times> store" where
  "sync_network_nodes provider client now s =
     (case bind_result (require_network_provider provider) (\<lambda>h. headscale_list_nodes h (client h)) of
        Inl e \<Rightarrow> (Inl e, s)
      | Inr ms \<Rightarrow> case sync_nodes PROVIDER_NAME ms now s of (r, s') \<Rightarrow> (Inr r, s'))"

definition exit_on_provider_error :: "'a result \<Rightarrow> 'a result" where
  "exit_on_provider_error r = (case r of Inl (NetworkProviderError _) \<Rightarrow> Inl (Exit 1) | _ \<Rightarrow> r)"

definition network_sync_command ::
  "headscale option result \<Rightarrow> (headscale \<Rightarrow> api result) \<Rightarrow> time \<Rightarrow> store \<Rightarrow> network_sync result \<times> store" where
  "network_sync_command provider client now s =
     (case sync_network_nodes provider client now s of (r, s') \<Rightarrow> (exit_on_provider_error r, s'))"

text \<open>New tags are only asked for: the command ends with exit code 1 in every case.\<close>

definition network_node_tags_set ::
  "string \<Rightarrow> string list \<Rightarrow> string \<Rightarrow> (nat \<Rightarrow> time) \<Rightarrow> store \<Rightarrow> approval_request option \<times> store" where
  "network_node_tags_set node_id tags uid clk s =
     (case load_node s node_id of
        None \<Rightarrow> (None, s)
      | Some n \<Rightarrow>
          if nd_status n \<noteq> ''managed'' \<or> nd_network_node_id n = [] then (None, s)
          else case create_approval_request ''network_node'' (nd_node_id n) ''network.tags.set'' ''high'' ''hmn''
              [(''node_id'', JStr node_id),
               (''provider'', JStr (if nd_network_provider n \<noteq> [] then nd_network_provider n else ''headscale'')),
               (''provider_node_id'', JStr (nd_network_node_id n)),
               (''old_tags'', JList (map JStr (nd_network_tags n))), (''requested_tags'', JList (map JStr tags))] uid clk s of
            (a, s') \<Rightarrow> (Some a, s'))"

definition network_preauth_key_create ::
  "headscale option result \<Rightarrow> (headscale \<Rightarrow> api result) \<Rightarrow> string \<Rightarrow> string list \<Rightarrow> bool \<Rightarrow> bool \<Rightarrow> string option \<Rightarrow> time
    \<Rightarrow> store \<Rightarrow> string result \<times> store" where
  "network_preauth_key_create provider client node_id tags reusable ephemeral expiration now s =
     (case exit_on_provider_error (bind_result (require_network_provider provider)
             (\<lambda>h. headscale_create_preauth_key h (client h) tags reusable ephemeral expiration)) of
        Inl e \<Rightarrow> (Inl e, s)
      | Inr k \<Rightarrow>
          (Inr (pk_key k),
           record_audit ''network'' ''headscale_preauth_key'' (if node_id \<noteq> [] then node_id else ''-'')
             ''preauth_key/create'' ''ok''
             [(''provider'', JStr PROVIDER_NAME), (''tags'', JList (map JStr (pk_tags k))),
              (''reusable'', JBool (pk_reusable k)), (''ephemeral'', JBool (pk_ephemeral k))] now s))"

section \<open>Facts\<close>

text \<open>What a synchronisation may change of a node: its place in the network.\<close>

definition network_only :: "node \<Rightarrow> node \<Rightarrow> bool" where
  "network_only n n' \<longleftrightarrow>
     n' = n\<lparr>nd_network_provider := nd_network_provider n', nd_network_node_id := nd_network_node_id n',
            nd_network_ip := nd_network_ip n', nd_network_tags := nd_network_tags n', nd_network_online := nd_network_online n'\<rparr>"

lemma network_only_refl [simp]: "network_only n n"
  by (simp add: network_only_def)

lemma network_only_linked: "network_only n (linked_node p m n)"
  by (simp add: network_only_def linked_node_def)

lemma linked_node_id [simp]: "nd_node_id (linked_node p m n) = nd_node_id n"
  by (simp add: linked_node_def)

lemma upsert_replace_rows:
  assumes "key r \<in> set (map key rows)"
  shows "map key (tbl_upsert key replace_row r rows) = map key rows"
    and "set (tbl_upsert key replace_row r rows) \<subseteq> insert r (set rows)"
proof -
  have "tbl_find key (key r) rows \<noteq> None" using assms by (auto simp: tbl_find_None)
  then have eq: "tbl_upsert key replace_row r rows = tbl_update key (key r) (\<lambda>_. r) rows"
    by (auto simp: tbl_upsert_def replace_row_def)
  show "map key (tbl_upsert key replace_row r rows) = map key rows"
    unfolding eq by (auto simp: tbl_update_def)
  show "set (tbl_upsert key replace_row r rows) \<subseteq> insert r (set rows)"
    unfolding eq by (auto simp: tbl_update_def)
qed

lemma sync_one_step:
  assumes "sync_one p ns (r, s) m = (r', s')" and "set ns \<subseteq> set orig"
    and "map nd_node_id (nodes s) = map nd_node_id orig"
    and "\<forall>n' \<in> set (nodes s). \<exists>n \<in> set orig. network_only n n'"
    and "distinct (sn_matched r)" "set (sn_matched r) \<subseteq> nd_node_id ` set ns" "sn_linked r = length (sn_matched r)"
    and "sn_updated r \<le> sn_linked r"
  shows "map nd_node_id (nodes s') = map nd_node_id orig"
    and "\<forall>n' \<in> set (nodes s'). \<exists>n \<in> set orig. network_only n n'"
    and "distinct (sn_matched r')" "set (sn_matched r') \<subseteq> nd_node_id ` set ns" "sn_linked r' = length (sn_matched r')"
    and "sn_updated r' \<le> sn_linked r'"
    and "sn_linked r' + length (sn_unmatched r') = Suc (sn_linked r + length (sn_unmatched r))"
proof -
  let ?find = "List.find (\<lambda>n. nd_node_id n \<notin> set (sn_matched r) \<and> network_node_matches_hmn m n) ns"
  have "map nd_node_id (nodes s') = map nd_node_id orig
    \<and> (\<forall>n' \<in> set (nodes s'). \<exists>n \<in> set orig. network_only n n')
    \<and> distinct (sn_matched r') \<and> set (sn_matched r') \<subseteq> nd_node_id ` set ns \<and> sn_linked r' = length (sn_matched r')
    \<and> sn_updated r' \<le> sn_linked r' \<and> sn_linked r' + length (sn_unmatched r') = Suc (sn_linked r + length (sn_unmatched r))"
  proof (cases ?find)
    case None
    then show ?thesis using assms by (auto simp: sync_one_def)
  next
    case (Some n)
    then have n: "n \<in> set ns" "nd_node_id n \<notin> set (sn_matched r)" by (auto dest: find_Some_in)
    have mine: "nd_node_id (linked_node p m n) \<in> set (map nd_node_id (nodes s))"
      using n(1) assms(2,3) by (metis image_eqI linked_node_id list.set_map subsetD)
    note saved = upsert_replace_rows [OF mine]
    have "\<exists>n \<in> set orig. network_only n n'" if "n' \<in> set (nodes (save_node (linked_node p m n) s))" for n'
    proof -
      have "n' = linked_node p m n \<or> n' \<in> set (nodes s)" using that saved(2) by (auto simp: save_node_def)
      then show ?thesis using assms(2,4) n(1) network_only_linked by blast
    qed
    moreover have "map nd_node_id (nodes (save_node (linked_node p m n) s)) = map nd_node_id orig"
      using saved(1) assms(3) by (simp add: save_node_def)
    ultimately show ?thesis
      using assms Some n by (auto simp: sync_one_def Let_def split: if_splits)
  qed
  then show "map nd_node_id (nodes s') = map nd_node_id orig"
    and "\<forall>n' \<in> set (nodes s'). \<exists>n \<in> set orig. network_only n n'"
    and "distinct (sn_matched r')" "set (sn_matched r') \<subseteq> nd_node_id ` set ns" "sn_linked r' = length (sn_matched r')"
    and "sn_updated r' \<le> sn_linked r'"
    and "sn_linked r' + length (sn_unmatched r') = Suc (sn_linked r + length (sn_unmatched r))" by blast+
qed

lemma sync_steps:
  assumes "foldl (sync_one p ns) (r, s) ms = (r', s')" and "set ns \<subseteq> set orig"
    and "map nd_node_id (nodes s) = map nd_node_id orig"
    and "\<forall>n' \<in> set (nodes s). \<exists>n \<in> set orig. network_only n n'"
    and "distinct (sn_matched r)" "set (sn_matched r) \<subseteq> nd_node_id ` set ns" "sn_linked r = length (sn_matched r)"
    and "sn_updated r \<le> sn_linked r"
  shows "map nd_node_id (nodes s') = map nd_node_id orig
    \<and> (\<forall>n' \<in> set (nodes s'). \<exists>n \<in> set orig. network_only n n')
    \<and> distinct (sn_matched r') \<and> set (sn_matched r') \<subseteq> nd_node_id ` set ns \<and> sn_linked r' = length (sn_matched r')
    \<and> sn_updated r' \<le> sn_linked r'
    \<and> sn_linked r' + length (sn_unmatched r') = sn_linked r + length (sn_unmatched r) + length ms"
  using assms
proof (induction ms arbitrary: r s)
  case Nil
  then show ?case by simp
next
  case (Cons m ms)
  obtain r1 s1 where one: "sync_one p ns (r, s) m = (r1, s1)" by (cases "sync_one p ns (r, s) m")
  note step = sync_one_step [OF one Cons.prems(2-8)]
  have "foldl (sync_one p ns) (r1, s1) ms = (r', s')" using Cons.prems(1) one by simp
  from Cons.IH [OF this Cons.prems(2) step(1-6)] step(7) show ?case by simp
qed

section \<open>Properties\<close>

text \<open>C23: a synchronisation with the network counts every node it reports, as linked or as unmatched, links a node of
  the inventory at most once, neither adds nor removes nodes, and changes of a node only its place in the network: never
  its status, trust level, permissions or fingerprint.\<close>

theorem network_sync_changes_no_trust:
  "case sync_nodes p ms now s of (r, s') \<Rightarrow>
     sn_linked r + length (sn_unmatched r) = length ms \<and> sn_updated r \<le> sn_linked r \<and> distinct (sn_matched r)
     \<and> sn_linked r = length (sn_matched r) \<and> set (sn_matched r) \<subseteq> set (map nd_node_id (nodes s))
     \<and> map nd_node_id (nodes s') = map nd_node_id (nodes s)
     \<and> list_all (\<lambda>n'. list_ex (\<lambda>n. network_only n n') (nodes s)) (nodes s')"
proof -
  let ?r0 = "\<lparr>sn_matched = [], sn_linked = 0, sn_updated = 0, sn_unmatched = []\<rparr>"
  obtain r s1 where f: "foldl (sync_one p (list_nodes s)) (?r0, s) ms = (r, s1)"
    by (cases "foldl (sync_one p (list_nodes s)) (?r0, s) ms")
  have ns: "set (list_nodes s) = set (nodes s)" by (simp add: list_nodes_def order_by_def)
  have "\<forall>n' \<in> set (nodes s). \<exists>n \<in> set (nodes s). network_only n n'" by (meson network_only_refl)
  from sync_steps [OF f _ refl this] ns show ?thesis
    unfolding sync_nodes_def Let_def f by (simp add: list_all_iff list_ex_iff record_audit_def insert_audit_event_def)
qed

end
