(* ===== verification/NodeDocs.thy ===== *)
theory NodeDocs imports DocsGenerate Nodes Uptime begin

text \<open>
  The documents of machines and services (\<open>docs.py\<close>): one page per node of the store, pages of services, and the
  indexes of machines, services, domains and runbooks, which are made from the pages on the disk.  The sorted results
  of \<open>glob\<close> are arguments, \<open>is_alnum\<close> says which characters beyond ASCII are letters or digits, and \<open>netloc_ok\<close> is the
  check inside \<open>urlsplit\<close>; creating directories and failing writes are not modelled.
\<close>

section \<open>Names\<close>

definition doc_segment :: "(string \<Rightarrow> bool) \<Rightarrow> string \<Rightarrow> string" where
  "doc_segment is_alnum v =
     (let kept = (\<lambda>c. case c of
                    [x] \<Rightarrow> if is_letter x \<or> is_digit x \<or> x \<in> set ''-_.'' then [x] else ''-''
                  | _ \<Rightarrow> if is_alnum c then c else ''-'');
          cleaned = strip_chars ''.-'' (concat (map kept (utf8_split (strip v))))
      in if cleaned = [] then ''unknown'' else cleaned)"

definition inline_list :: "string list \<Rightarrow> string" where
  "inline_list vs = (if vs = [] then ''-'' else join_with '', '' (map ticked vs))"

definition or_text_of :: "string \<Rightarrow> string \<Rightarrow> string" where
  "or_text_of a b = (if a \<noteq> [] then a else b)"

definition node_segment :: "(string \<Rightarrow> bool) \<Rightarrow> node \<Rightarrow> string" where
  "node_segment is_alnum n = doc_segment is_alnum (or_text_of (nd_hostname n) (nd_node_id n))"

definition node_doc_dir :: "(string \<Rightarrow> bool) \<Rightarrow> string \<Rightarrow> node \<Rightarrow> string" where
  "node_doc_dir is_alnum output_root n = posix_join (posix_join output_root ''server'') (node_segment is_alnum n)"

definition iso_seconds :: "time \<Rightarrow> string" where
  "iso_seconds t = isoformat (t - t mod 1000000)"

definition py_title :: "string \<Rightarrow> string" where
  "py_title s = snd (foldl (\<lambda>(after_letter, acc) c.
     (is_letter c, acc @ [if after_letter then lower_char c else upper_char c])) (False, []) s)"

definition path_stem :: "string \<Rightarrow> string" where
  "path_stem p =
     (case rsplit_once CHR ''.'' (posix_name p) of
        Some (stem, suffix) \<Rightarrow> if stem = [] \<or> suffix = [] then posix_name p else stem
      | None \<Rightarrow> posix_name p)"

section \<open>Pages\<close>

definition first_or :: "string list \<Rightarrow> string \<Rightarrow> string" where
  "first_or xs fallback = (case xs of x # _ \<Rightarrow> x | [] \<Rightarrow> fallback)"

definition render_server_doc :: "time \<Rightarrow> node \<Rightarrow> string" where
  "render_server_doc now n =
     (let ssh_host = or_text_of (nd_ssh_host n) (or_text_of (nd_network_ip n) (first_or (nd_addresses n) []));
          ssh_user = or_text_of (nd_ssh_user n) ''root'';
          ssh_line = (if ssh_host \<noteq> [] then ticked (ssh_user @ ''@'' @ ssh_host @ '' -p '' @ show_int (nd_ssh_port n)) else ''-'');
          network_state = (if nd_network_online n then ''online'' else ''offline'');
          headscale_line =
            (if nd_network_node_id n \<noteq> [] \<or> nd_network_ip n \<noteq> [] \<or> nd_network_provider n \<noteq> []
             then ticked (or_text_of (nd_network_node_id n) ''-'') @ '' / '' @ ticked (or_text_of (nd_network_ip n) ''-'')
                  @ '' / '' @ network_state
             else ''-'')
      in unlines
        [(''# '' @ nd_hostname n),
         [],
         (''## '' @ utf8_text [0x57FA, 0x672C, 0x4FE1, 0x606F]),
         (''- '' @ utf8_text [0x8282, 0x70B9] @ '' ID: `'' @ nd_node_id n @ ''`''),
         (''- '' @ utf8_text [0x72B6, 0x6001] @ '': `'' @ nd_status n @ ''`''),
         (''- '' @ utf8_text [0x4FE1, 0x4EFB, 0x7B49, 0x7EA7] @ '': `'' @ nd_trust_level n @ ''`''),
         (''- '' @ utf8_text [0x6807, 0x7B7E] @ '': '' @ inline_list (nd_labels n)),
         (''- '' @ utf8_text [0x6743, 0x9650, 0x5305] @ '': '' @ inline_list (nd_permission_bundles n)),
         [],
         (''## '' @ utf8_text [0x8FDE, 0x63A5, 0x4FE1, 0x606F]),
         (''- SSH: '' @ ssh_line),
         (''- '' @ utf8_text [0x5730, 0x5740] @ '': '' @ inline_list (nd_addresses n)),
         (''- Headscale: '' @ headscale_line),
         (''- '' @ utf8_text [0x7F51, 0x7EDC, 0x6807, 0x7B7E] @ '': '' @ inline_list (nd_network_tags n)),
         [],
         (''## '' @ utf8_text [0x8FD0, 0x7EF4, 0x8BB0, 0x5F55]),
         (''- '' @ utf8_text [0x5F85, 0x8865, 0x5145, 0xFF1A, 0x90E8, 0x7F72, 0x670D, 0x52A1, 0x3001, 0x7AEF, 0x53E3, 0x3001, 0x57DF, 0x540D, 0x3001, 0x5907, 0x4EFD, 0x3001, 0x8FC1, 0x79FB, 0x8BB0, 0x5F55, 0x3002]),
         [],
         (utf8_text [0x751F, 0x6210, 0x65F6, 0x95F4] @ '': `'' @ iso_seconds now @ ''`''),
         []])"

record service_doc =
  sd_service_id :: string
  sd_title :: string
  sd_node :: string
  sd_url :: string
  sd_port :: string
  sd_summary :: string

definition ticked_or_dash :: "string \<Rightarrow> string" where
  "ticked_or_dash v = (if v \<noteq> [] then ticked v else ''-'')"

definition render_doc_of_service :: "time \<Rightarrow> service_doc \<Rightarrow> string" where
  "render_doc_of_service now d =
     unlines
       [(''# '' @ or_text_of (sd_title d) (sd_service_id d)),
        [],
        (''## '' @ utf8_text [0x57FA, 0x672C, 0x4FE1, 0x606F]),
        (''- '' @ utf8_text [0x670D, 0x52A1] @ '' ID: `'' @ sd_service_id d @ ''`''),
        (''- '' @ utf8_text [0x8282, 0x70B9] @ '': '' @ ticked_or_dash (sd_node d)),
        (''- URL: '' @ ticked_or_dash (sd_url d)),
        (''- '' @ utf8_text [0x7AEF, 0x53E3] @ '': '' @ ticked_or_dash (sd_port d)),
        [],
        (''## '' @ utf8_text [0x7B80, 0x4ECB]),
        or_text_of (sd_summary d) (utf8_text [0x5F85, 0x8865, 0x5145, 0x3002]),
        [],
        (''## '' @ utf8_text [0x8FD0, 0x7EF4, 0x8BB0, 0x5F55]),
        (''- '' @ utf8_text [0x5F85, 0x8865, 0x5145, 0xFF1A, 0x90E8, 0x7F72, 0x8DEF, 0x5F84, 0x3001] @ ''systemd '' @ utf8_text [0x670D, 0x52A1, 0x540D, 0x3001, 0x73AF, 0x5883, 0x53D8, 0x91CF, 0x3001, 0x5907, 0x4EFD, 0x548C, 0x6062, 0x590D, 0x8BF4, 0x660E, 0x3002]),
        [],
        (utf8_text [0x751F, 0x6210, 0x65F6, 0x95F4] @ '': `'' @ iso_seconds now @ ''`''),
        []]"

section \<open>Writing pages\<close>

definition write_server_doc ::
  "(string \<Rightarrow> bool) \<Rightarrow> store \<Rightarrow> string \<Rightarrow> string \<Rightarrow> time \<Rightarrow> doc_files \<Rightarrow> string result \<times> doc_files" where
  "write_server_doc is_alnum s node_id output_root now files =
     (case load_node s node_id of
        None \<Rightarrow> (Inl (ValueError (''node not found: '' @ node_id)), files)
      | Some n \<Rightarrow>
          let path = posix_join (node_doc_dir is_alnum output_root n) ''README.md''
          in (Inr path, files(path \<mapsto> render_server_doc now n)))"

definition write_server_index :: "(string \<Rightarrow> bool) \<Rightarrow> store \<Rightarrow> string \<Rightarrow> doc_files \<Rightarrow> string \<times> doc_files" where
  "write_server_index is_alnum s output_root files =
     (let path = posix_join (posix_join output_root ''server'') ''README.md'';
          ns = list_nodes s;
          line = (\<lambda>n. let segment = node_segment is_alnum n;
                          ip = or_text_of (nd_network_ip n) (first_or (nd_addresses n) ''-'')
                      in (''- ['' @ nd_hostname n @ '']('' @ segment @ ''/README.md) '' @ utf8_text [0x2014] @ '' `''
       @ nd_status n @ ''` '' @ utf8_text [0x2014] @ '' `'' @ ip @ ''`''))
      in (path, files(path \<mapsto> unlines ([(''# HMN '' @ utf8_text [0x673A, 0x5668, 0x7D22, 0x5F15]), []] @ (if ns = [] then [(utf8_text [0x6682, 0x65E0, 0x8282, 0x70B9, 0x3002])] else map line ns) @ [[]]))))"

definition write_service_doc ::
  "(string \<Rightarrow> bool) \<Rightarrow> service_doc \<Rightarrow> string \<Rightarrow> time \<Rightarrow> doc_files \<Rightarrow> string \<times> doc_files" where
  "write_service_doc is_alnum d service_root now files =
     (let path = posix_join (posix_join service_root (doc_segment is_alnum (sd_service_id d))) ''README.md''
      in (path, files(path \<mapsto> render_doc_of_service now d)))"

section \<open>Indexes of what is on the disk\<close>

definition parent_name :: "string \<Rightarrow> string" where
  "parent_name p = posix_name (posix_parent p)"

definition heading :: "string \<Rightarrow> string option" where
  "heading content =
     map_option (\<lambda>line. strip (drop 2 line)) (List.find (\<lambda>line. startswith line ''# '') (split_lines content))"

definition service_title_from_doc :: "doc_files \<Rightarrow> string \<Rightarrow> string" where
  "service_title_from_doc files p =
     (case files p of
        Some content \<Rightarrow> (case heading content of Some t \<Rightarrow> t | None \<Rightarrow> parent_name p)
      | None \<Rightarrow> parent_name p)"

definition is_url_line :: "string \<Rightarrow> bool" where
  "is_url_line line \<longleftrightarrow> startswith line ''- URL: `'' \<and> endswith line ''`''"

definition service_url_from_doc :: "doc_files \<Rightarrow> string \<Rightarrow> string" where
  "service_url_from_doc files p =
     (case files p of
        Some content \<Rightarrow>
          (case List.find is_url_line (split_lines content) of
             Some line \<Rightarrow> removesuffix (removeprefix line ''- URL: `'') ''`''
           | None \<Rightarrow> [])
      | None \<Rightarrow> [])"

definition markdown_title :: "doc_files \<Rightarrow> string \<Rightarrow> string" where
  "markdown_title files p =
     (case files p of
        Some content \<Rightarrow> (case heading content of Some t \<Rightarrow> t | None \<Rightarrow> py_title (replace_all ''-'' '' '' (path_stem p)))
      | None \<Rightarrow> path_stem p)"

definition write_service_index :: "string \<Rightarrow> string list \<Rightarrow> doc_files \<Rightarrow> string \<times> doc_files" where
  "write_service_index service_root readmes files =
     (let path = posix_join service_root ''README.md'';
          line = (\<lambda>p. let i = parent_name p; title = service_title_from_doc files p
                      in (''- ['' @ title @ '']('' @ i @ ''/README.md) '' @ utf8_text [0x2014] @ '' `'' @ i @ ''`''));
          entries = map line readmes
      in (path, files(path \<mapsto> unlines ([(''# HMN '' @ utf8_text [0x670D, 0x52A1, 0x7D22, 0x5F15]), []] @ (if entries = [] then [(utf8_text [0x6682, 0x65E0, 0x670D, 0x52A1, 0x3002])] else entries) @ [[]]))))"

definition url_host :: "(string \<Rightarrow> bool) \<Rightarrow> string \<Rightarrow> string result" where
  "url_host netloc_ok url =
     (if url = [] \<or> url = ''-'' then Inr []
      else bind_result (urlparse netloc_ok url) (\<lambda>(_, netloc). Inr (url_hostname netloc)))"

definition domain_line :: "(string \<Rightarrow> bool) \<Rightarrow> doc_files \<Rightarrow> string \<Rightarrow> string list result" where
  "domain_line netloc_ok files p =
     bind_result (url_host netloc_ok (service_url_from_doc files p)) (\<lambda>host.
       let i = parent_name p; title = service_title_from_doc files p
       in Inr (if host = [] then [] else [(''- `'' @ host @ ''` '' @ utf8_text [0x2192] @ '' ['' @ title @ '']('' @ i @ ''/README.md)'')]))"

definition write_domain_index ::
  "(string \<Rightarrow> bool) \<Rightarrow> string \<Rightarrow> string list \<Rightarrow> doc_files \<Rightarrow> string result \<times> doc_files" where
  "write_domain_index netloc_ok service_root readmes files =
     (let path = posix_join service_root ''domains.md''
      in case map_result (domain_line netloc_ok files) readmes of
           Inl e \<Rightarrow> (Inl e, files)
         | Inr found \<Rightarrow>
             let entries = concat found
             in (Inr path, files(path \<mapsto> unlines ([(''# HMN '' @ utf8_text [0x57DF, 0x540D, 0x7D22, 0x5F15]), []] @ (if entries = [] then [(utf8_text [0x6682, 0x65E0, 0x57DF, 0x540D, 0x3002])] else entries) @ [[]]))))"

definition write_runbook_index :: "string \<Rightarrow> string list \<Rightarrow> doc_files \<Rightarrow> string \<times> doc_files" where
  "write_runbook_index service_root runbooks files =
     (let path = posix_join service_root ''runbooks.md'';
          entries = map (\<lambda>p. (''- ['' @ markdown_title files p @ '']('' @ as_posix p @ '')'')) runbooks
      in (path, files(path \<mapsto> unlines ([(''# HMN Runbook '' @ utf8_text [0x7D22, 0x5F15]), []] @ (if entries = [] then [(utf8_text [0x6682, 0x65E0] @ '' Runbook'' @ utf8_text [0x3002])] else entries) @ [[]]))))"

fun write_server_docs ::
  "(string \<Rightarrow> bool) \<Rightarrow> store \<Rightarrow> string \<Rightarrow> (nat \<Rightarrow> time) \<Rightarrow> node list \<Rightarrow> doc_files \<Rightarrow> string list result \<times> doc_files" where
  "write_server_docs is_alnum s output_root clk [] files = (Inr [], files)"
| "write_server_docs is_alnum s output_root clk (n # ns) files =
     (case write_server_doc is_alnum s (nd_node_id n) output_root (clk 0) files of
        (Inl e, files1) \<Rightarrow> (Inl e, files1)
      | (Inr p, files1) \<Rightarrow>
          (case write_server_docs is_alnum s output_root (\<lambda>k. clk (Suc k)) ns files1 of
             (r, files2) \<Rightarrow> (bind_result r (\<lambda>ps. Inr (p # ps)), files2)))"

record docs_result =
  dr_server_count :: int
  dr_paths :: "string list"

definition generate_docs ::
  "(string \<Rightarrow> bool) \<Rightarrow> (string \<Rightarrow> bool) \<Rightarrow> store \<Rightarrow> string \<Rightarrow> string \<Rightarrow> string list \<Rightarrow> string list \<Rightarrow> (nat \<Rightarrow> time)
    \<Rightarrow> doc_files \<Rightarrow> docs_result result \<times> doc_files" where
  "generate_docs is_alnum netloc_ok s output_root service_root readmes runbooks clk files =
     (case write_server_docs is_alnum s output_root clk (list_nodes s) files of
        (Inl e, files1) \<Rightarrow> (Inl e, files1)
      | (Inr pages, files1) \<Rightarrow>
          (let (server_index, files2) = write_server_index is_alnum s output_root files1;
               (service_index, files3) = write_service_index service_root readmes files2
           in case write_domain_index netloc_ok service_root readmes files3 of
                (Inl e, files4) \<Rightarrow> (Inl e, files4)
              | (Inr domain_index, files4) \<Rightarrow>
                  (let (runbook_index, files5) = write_runbook_index service_root runbooks files4;
                       paths = pages @ [server_index, service_index, domain_index, runbook_index]
                   in (Inr \<lparr>dr_server_count = int (length paths) - 4, dr_paths = paths\<rparr>, files5))))"

section \<open>Facts\<close>

text \<open>Every node gets its page: with distinct node ids no load can fail.\<close>

lemma write_server_docs_ok:
  "list_all (\<lambda>n. load_node s (nd_node_id n) \<noteq> None) ns \<Longrightarrow>
    \<exists>ps files'. write_server_docs is_alnum s output_root clk ns files = (Inr ps, files') \<and> length ps = length ns"
proof (induction ns arbitrary: clk files)
  case (Cons n ns)
  obtain m where m: "load_node s (nd_node_id n) = Some m" using Cons.prems by auto
  let ?p = "posix_join (node_doc_dir is_alnum output_root m) ''README.md''"
  let ?files = "files(?p \<mapsto> render_server_doc (clk 0) m)"
  obtain ps files' where "write_server_docs is_alnum s output_root (\<lambda>k. clk (Suc k)) ns ?files = (Inr ps, files')"
    "length ps = length ns"
  proof -
    have "list_all (\<lambda>n. load_node s (nd_node_id n) \<noteq> None) ns" using Cons.prems by simp
    from Cons.IH [OF this, of "\<lambda>k. clk (Suc k)" ?files] show thesis using that by blast
  qed
  with m show ?case by (simp add: write_server_doc_def Let_def)
qed simp

lemma server_docs_count:
  "\<exists>ps files'. write_server_docs is_alnum s output_root clk (list_nodes s) files = (Inr ps, files')
     \<and> length ps = length (nodes s)"
proof -
  have "list_all (\<lambda>n. load_node s (nd_node_id n) \<noteq> None) (list_nodes s)"
    by (auto simp: list_all_iff list_nodes_def order_by_def load_node_def tbl_find_None)
  from write_server_docs_ok [OF this] show ?thesis by (simp add: list_nodes_def order_by_def)
qed

text \<open>A run fails only where the URL of a page cannot be parsed; else it reports as many machines as the store has.\<close>

lemma generate_docs_counts_nodes:
  "case generate_docs is_alnum netloc_ok s output_root service_root readmes runbooks clk files of
     (Inr r, files') \<Rightarrow> dr_server_count r = int (length (nodes s))
   | (Inl e, files') \<Rightarrow> e = ValueError ''Invalid IPv6 URL''"
proof -
  obtain ps files1 where 1: "write_server_docs is_alnum s output_root clk (list_nodes s) files = (Inr ps, files1)"
    "length ps = length (nodes s)"
    using server_docs_count by blast
  have bad: "map_result (domain_line netloc_ok fs) rs = Inl e \<Longrightarrow> e = ValueError ''Invalid IPv6 URL''" for fs rs e
    by (induction rs) (auto simp: domain_line_def url_host_def urlparse_def Let_def bind_result_def split: sum.splits option.splits if_splits)
  show ?thesis
    using 1 bad by (auto simp: generate_docs_def write_domain_index_def Let_def split: prod.split sum.split)
qed

end
