(* ===== verification/Installers.thy ===== *)
theory Installers imports Platforms begin

text \<open>
  The scripts that \<open>platforms.py\<close> renders for a node: the wiring of an installed worker for every service manager, its
  removal on Windows, and the probe of a machine's capabilities.
\<close>

definition TASK_NAME :: string where
  "TASK_NAME = ''HermesManagedNetworkHeartbeat''"

definition windows_worker_task_command :: "string \<Rightarrow> string" where
  "windows_worker_task_command worker_path =
     ''powershell.exe -NoProfile -ExecutionPolicy Bypass -File '' @ [CHR 0x22]
       @ replace_all [CHR 0x22] [CHR 0x22, CHR 0x22] worker_path @ [CHR 0x22]"

definition render_windows_task_installer :: "string \<Rightarrow> string" where
  "render_windows_task_installer worker_path =
     join_with [CHR 0x0A]
      [''$taskName = '' @ [CHR 0x22] @ TASK_NAME @ [CHR 0x22],
       ''$workerPath = '' @ [CHR 0x22] @ worker_path @ [CHR 0x22],
       ''$taskCommand = '' @ [CHR 0x27] @ windows_worker_task_command worker_path @ [CHR 0x27],
       ''schtasks /Create /SC MINUTE /MO 1 /TN $taskName /TR $taskCommand /RU SYSTEM /RL HIGHEST /F | Out-Null'',
       ''schtasks /Run /TN $taskName | Out-Null'',
       []]"

definition render_windows_task_uninstaller :: "string \<Rightarrow> string" where
  "render_windows_task_uninstaller base_dir =
     join_with [CHR 0x0A]
      [''$taskName = '' @ [CHR 0x22] @ TASK_NAME @ [CHR 0x22],
       ''$baseDir = '' @ [CHR 0x22] @ base_dir @ [CHR 0x22],
       ''schtasks /Delete /TN $taskName /F 2>$null | Out-Null'',
       ''if (Test-Path -LiteralPath $baseDir) {'',
       ''  Remove-Item -LiteralPath $baseDir -Recurse -Force'',
       ''}'',
       []]"

definition systemd_installer :: "string \<Rightarrow> string" where
  "systemd_installer worker_path =
     join_with [CHR 0x0A]
      [''cat >/etc/systemd/system/hermes-managed-network-heartbeat.service <<'EOF'' @ [CHR 0x27],
       ''[Unit]'',
       ''Description=Hermes Managed Network heartbeat and worker'',
       ''After=network-online.target'',
       ''Wants=network-online.target'',
       [],
       ''[Service]'',
       ''Type=oneshot'',
       ''EnvironmentFile=/etc/hermes-managed-network/node.env'',
       ''Environment=HMN_ENABLE_EXEC=0'',
       ''ExecStart='' @ worker_path,
       ''EOF'',
       ''cat >/etc/systemd/system/hermes-managed-network-heartbeat.timer <<'EOF'' @ [CHR 0x27],
       ''[Unit]'',
       ''Description=Run Hermes Managed Network heartbeat and worker every minute'',
       [],
       ''[Timer]'',
       ''OnBootSec=30s'',
       ''OnUnitActiveSec=60s'',
       ''Unit=hermes-managed-network-heartbeat.service'',
       [],
       ''[Install]'',
       ''WantedBy=timers.target'',
       ''EOF'',
       ''systemctl daemon-reload'',
       ''systemctl enable --now hermes-managed-network-heartbeat.timer'',
       []]"

definition cron_installer :: "string \<Rightarrow> string" where
  "cron_installer worker_path =
     join_with [CHR 0x0A]
      [''tmp_cron=$(mktemp)'',
       ''crontab -l 2>/dev/null | grep -v 'hermes-managed-network heartbeat' >'' @ [CHR 0x22] @ ''$tmp_cron'' @ [CHR 0x22] @ '' || true'',
       ''printf '%s'',
       ''' '* * * * * '' @ worker_path @ '' # hermes-managed-network heartbeat' >>'' @ [CHR 0x22] @ ''$tmp_cron'' @ [CHR 0x22],
       ''crontab '' @ [CHR 0x22] @ ''$tmp_cron'' @ [CHR 0x22],
       ''rm -f '' @ [CHR 0x22] @ ''$tmp_cron'' @ [CHR 0x22],
       []]"

definition procd_installer :: "string \<Rightarrow> string" where
  "procd_installer worker_path =
     join_with [CHR 0x0A]
      [''cat >/etc/init.d/hermes-managed-network <<'EOF'' @ [CHR 0x27],
       ''#!/bin/sh /etc/rc.common'',
       ''START=95'',
       ''USE_PROCD=1'',
       ''start_service() {'',
       ''  procd_open_instance'',
       ''  procd_set_param command /bin/sh -c 'while true; do '' @ worker_path @ ''; sleep 60; done'' @ [CHR 0x27],
       ''  procd_set_param respawn'',
       ''  procd_close_instance'',
       ''}'',
       ''EOF'',
       ''chmod 0755 /etc/init.d/hermes-managed-network'',
       ''/etc/init.d/hermes-managed-network enable'',
       ''/etc/init.d/hermes-managed-network restart'',
       []]"

definition openrc_installer :: "string \<Rightarrow> string" where
  "openrc_installer worker_path =
     join_with [CHR 0x0A]
      [''cat >/etc/init.d/hermes-managed-network <<'EOF'' @ [CHR 0x27],
       ''#!/sbin/openrc-run'',
       ''command='' @ [CHR 0x22] @ ''/bin/sh'' @ [CHR 0x22],
       ''command_args='' @ [CHR 0x22] @ ''-c 'while true; do '' @ worker_path @ ''; sleep 60; done'' @ [CHR 0x27] @ [CHR 0x22],
       ''command_background=true'',
       ''pidfile='' @ [CHR 0x22] @ ''/run/hermes-managed-network.pid'' @ [CHR 0x22],
       ''EOF'',
       ''chmod 0755 /etc/init.d/hermes-managed-network'',
       ''rc-update add hermes-managed-network default'',
       ''rc-service hermes-managed-network restart'',
       []]"

definition loop_installer :: "string \<Rightarrow> string" where
  "loop_installer worker_path =
     join_with [CHR 0x0A]
      [''cat >/usr/local/bin/hmn-worker-loop <<'EOF'' @ [CHR 0x27],
       ''#!/bin/sh'',
       ''while true; do'',
       ''  '' @ worker_path,
       ''  sleep 60'',
       ''done'',
       ''EOF'',
       ''chmod 0755 /usr/local/bin/hmn-worker-loop'',
       ''nohup /usr/local/bin/hmn-worker-loop >/var/log/hmn-worker.log 2>&1 &'',
       []]"

definition unsupported_installer :: "string" where
  "unsupported_installer =
     join_with [CHR 0x0A]
      [''echo '' @ [CHR 0x27] @ utf8_text [0x4E0D, 0x652F, 0x6301, 0x5728, 0x8BE5, 0x8282, 0x70B9, 0x5B89, 0x88C5, 0x5E38, 0x9A7B] @ '' worker'' @ utf8_text [0xFF1A] @ ''service manager '' @ utf8_text [0x4E3A] @ '' none/unsupported'' @ utf8_text [0x3002, 0x8BF7, 0x6539, 0x7528] @ '' proxy-managed '' @ utf8_text [0x6216, 0x624B, 0x52A8, 0x5916, 0x90E8, 0x8C03, 0x5EA6, 0x3002] @ ''' >&2'',
       ''exit 1'',
       []]"

definition render_for_manager :: "service_manager \<Rightarrow> string \<Rightarrow> string" where
  "render_for_manager manager worker_path =
     (case manager of
        SYSTEMD \<Rightarrow> systemd_installer worker_path
      | WINDOWS_TASK \<Rightarrow> render_windows_task_installer worker_path
      | CRON \<Rightarrow> cron_installer worker_path
      | PROCD \<Rightarrow> procd_installer worker_path
      | OPENRC \<Rightarrow> openrc_installer worker_path
      | LOOP \<Rightarrow> loop_installer worker_path
      | _ \<Rightarrow> unsupported_installer)"

definition render_service_manager_installer :: "string \<Rightarrow> string \<Rightarrow> string result" where
  "render_service_manager_installer service_manager worker_path =
     bind_result (manager_of_text service_manager) (\<lambda>manager. Inr (render_for_manager manager worker_path))"

definition render_capability_probe :: "string" where
  "render_capability_probe =
     join_with [CHR 0x0A]
      [''#!/bin/sh'',
       ''set -u'',
       ''has() { command -v '' @ [CHR 0x22] @ ''$1'' @ [CHR 0x22] @ '' >/dev/null 2>&1 && echo 1 || echo 0; }'',
       ''writable() { [ -d '' @ [CHR 0x22] @ ''$1'' @ [CHR 0x22] @ '' ] && [ -w '' @ [CHR 0x22] @ ''$1'' @ [CHR 0x22] @ '' ] && echo 1 || echo 0; }'',
       ''printf 'os_family='' @ [CHR 0x27],
       ''case '' @ [CHR 0x22] @ ''$(uname -s 2>/dev/null || echo unknown)'' @ [CHR 0x22] @ '' in'',
       ''  Linux) printf 'linux'',
       ''' ;;'',
       ''  Darwin) printf 'darwin'',
       ''' ;;'',
       ''  CYGWIN*|MINGW*|MSYS*) printf 'windows'',
       ''' ;;'',
       ''  *) printf 'unknown'',
       ''' ;;'',
       ''esac'',
       ''printf 'has_sh=%s'',
       ''' '' @ [CHR 0x22] @ ''$(has sh)'' @ [CHR 0x22],
       ''printf 'has_bash=%s'',
       ''' '' @ [CHR 0x22] @ ''$(has bash)'' @ [CHR 0x22],
       ''printf 'has_curl=%s'',
       ''' '' @ [CHR 0x22] @ ''$(has curl)'' @ [CHR 0x22],
       ''printf 'has_wget=%s'',
       ''' '' @ [CHR 0x22] @ ''$(has wget)'' @ [CHR 0x22],
       ''printf 'has_python3=%s'',
       ''' '' @ [CHR 0x22] @ ''$(has python3)'' @ [CHR 0x22],
       ''printf 'has_busybox=%s'',
       ''' '' @ [CHR 0x22] @ ''$(has busybox)'' @ [CHR 0x22],
       ''printf 'has_systemctl=%s'',
       ''' '' @ [CHR 0x22] @ ''$(has systemctl)'' @ [CHR 0x22],
       ''printf 'has_openrc=%s'',
       ''' '' @ [CHR 0x22] @ ''$(has openrc)'' @ [CHR 0x22],
       ''printf 'has_procd=%s'',
       ''' '' @ [CHR 0x22] @ ''$(has procd)'' @ [CHR 0x22],
       ''printf 'has_launchctl=%s'',
       ''' '' @ [CHR 0x22] @ ''$(has launchctl)'' @ [CHR 0x22],
       ''printf 'has_powershell=%s'',
       ''' '' @ [CHR 0x22] @ ''$(has powershell)'' @ [CHR 0x22],
       ''printf 'has_crond=%s'',
       ''' '' @ [CHR 0x22] @ ''$(has crond)'' @ [CHR 0x22],
       ''printf 'writable_etc=%s'',
       ''' '' @ [CHR 0x22] @ ''$(writable /etc)'' @ [CHR 0x22],
       ''printf 'writable_tmp=%s'',
       ''' '' @ [CHR 0x22] @ ''$(writable /tmp)'' @ [CHR 0x22],
       []]"

text \<open>Every manager has a text, and only those texts are accepted.\<close>

lemma installer_accepts_managers:
  "(\<exists>script. render_service_manager_installer t worker_path = Inr script) \<longleftrightarrow> t \<in> set (map manager_text all_managers)"
proof -
  have "(\<exists>m. manager_of_text t = Inr m) \<longleftrightarrow> t \<in> set (map manager_text all_managers)"
    unfolding manager_of_text_def by (auto split: option.splits simp: find_None_iff find_Some_iff)
  then show ?thesis by (auto simp: render_service_manager_installer_def bind_result_Inr_iff)
qed

end
