(* ===== verification/Rollback.thy ===== *)
theory Rollback imports Acl PyRegex begin

text \<open>
  The host of the master, as the commands of \<open>cli.py\<close> see it: its environment files, the checks of
  \<open>hmn doctor\<close>, the removal of the master and \<open>hmn rollback\<close>, which puts the files of an earlier version back.  A
  \<open>host_view\<close> holds what the disk and the environment answer (\<open>exists\<close>, \<open>is_symlink\<close>, \<open>is_file\<close>, \<open>expanduser\<close>,
  \<open>resolve\<close>, \<open>os.environ\<close>, the addresses of the host); the texts of the regular files are a map, as for the access
  list.  A failing system call of a copy is a parameter, with the stage it fails in, so is the answer of \<open>systemctl\<close>.  File modes and owners and
  the creation of directories are left out.
\<close>

type_synonym env = "(string \<times> string) list"

record host_view =
  hv_exists :: "string \<Rightarrow> bool"
  hv_is_symlink :: "string \<Rightarrow> bool"
  hv_is_file :: "string \<Rightarrow> bool"
  hv_expand :: "string \<Rightarrow> string"
  hv_resolve :: "string \<Rightarrow> string"
  hv_environ :: env
  hv_addresses :: "string option"
  hv_own_address :: "string option"

section \<open>Environment files and defaults\<close>

text \<open>\<open>env.get(key) or default\<close>\<close>

definition env_or :: "env \<Rightarrow> string \<Rightarrow> string \<Rightarrow> string" where
  "env_or env key alt = (case map_of env key of None \<Rightarrow> alt | Some v \<Rightarrow> if v = [] then alt else v)"

definition env_line :: "string \<Rightarrow> env \<Rightarrow> env" where
  "env_line raw env =
     (let line = strip raw
      in if line = [] \<or> startswith line ''#'' then env
         else case split_once CHR ''='' line of
           None \<Rightarrow> env
         | Some (key, v) \<Rightarrow> AList.update (strip key) (strip_chars [CHR 0x27] (strip_chars [CHR 0x22] (strip v))) env)"

definition read_master_env :: "host_view \<Rightarrow> files \<Rightarrow> string \<Rightarrow> env result" where
  "read_master_env hv fs path =
     (if \<not> hv_exists hv path then Inr []
      else case fs path of
        None \<Rightarrow> Inl (OSError path)
      | Some content \<Rightarrow> Inr (fold env_line (split_lines content) []))"

definition MASTER_ENV :: string where
  "MASTER_ENV = ''/etc/hermes-managed-network/master.env''"

definition default_db :: "host_view \<Rightarrow> files \<Rightarrow> string \<Rightarrow> string result" where
  "default_db hv fs fallback =
     (if env_or (hv_environ hv) ''HMN_DB'' [] \<noteq> [] then Inr (hv_expand hv (env_or (hv_environ hv) ''HMN_DB'' []))
      else bind_result (read_master_env hv fs MASTER_ENV) (\<lambda>env.
        Inr (if env_or env ''HMN_DB'' [] \<noteq> [] then hv_expand hv (env_or env ''HMN_DB'' []) else fallback)))"

definition first_non_loopback_ip :: "host_view \<Rightarrow> string" where
  "first_non_loopback_ip hv =
     (case (case hv_addresses hv of None \<Rightarrow> None
            | Some output \<Rightarrow> List.find (\<lambda>a. \<not> startswith a ''127.'' \<and> \<not> contains a '':'') (split_ws (strip output))) of
        Some a \<Rightarrow> a
      | None \<Rightarrow> (case hv_own_address hv of Some a \<Rightarrow> a | None \<Rightarrow> ''127.0.0.1''))"

definition default_master_url :: "host_view \<Rightarrow> files \<Rightarrow> string result" where
  "default_master_url hv fs =
     (let public_url = env_or (hv_environ hv) ''HMN_PUBLIC_URL'' []
      in if public_url \<noteq> [] then Inr (rstrip_chars ''/'' public_url)
         else bind_result (read_master_env hv fs MASTER_ENV) (\<lambda>env.
           let host = env_or (hv_environ hv) ''HMN_HOST'' (env_or env ''HMN_HOST'' ''127.0.0.1'');
               port = env_or (hv_environ hv) ''HMN_PORT'' (env_or env ''HMN_PORT'' ''8765'');
               shown = (if host \<in> {''0.0.0.0'', ''::'', []} then first_non_loopback_ip hv else host)
           in Inr (''http://'' @ shown @ '':'' @ port)))"

text \<open>\<open>shlex.quote\<close>: text of safe characters is left as it is, any other is put in single quotes.\<close>

definition is_shell_safe :: "char \<Rightarrow> bool" where
  "is_shell_safe c \<longleftrightarrow> is_word c \<and> (of_char c :: nat) < 128 \<or> c \<in> set ''@%+=:,./-''"

definition shell_quote :: "string \<Rightarrow> string" where
  "shell_quote s =
     (if s = [] then [CHR 0x27, CHR 0x27]
      else if list_all is_shell_safe s then s
      else [CHR 0x27] @ replace_all [CHR 0x27] [CHR 0x27, CHR 0x22, CHR 0x27, CHR 0x22, CHR 0x27] s @ [CHR 0x27])"

definition render_join_command :: "string \<Rightarrow> string \<Rightarrow> string \<Rightarrow> bool \<Rightarrow> string" where
  "render_join_command token_value master_url user safe =
     (let url = shell_quote (rstrip_chars ''/'' master_url);
          token = shell_quote token_value;
          who = shell_quote user
      in if safe
         then (''tmp=$(mktemp) && curl -fsSL '' @ url @ ''/scripts/join.sh -o '' @ [CHR 0x22] @ ''$tmp'' @ [CHR 0x22]
       @ '' && sha256sum '' @ [CHR 0x22] @ ''$tmp'' @ [CHR 0x22] @ '' && sudo HERMES_JOIN_TOKEN='' @ token
       @ '' HERMES_MASTER_URL='' @ url @ '' HERMES_USER='' @ who @ '' bash '' @ [CHR 0x22] @ ''$tmp''
       @ [CHR 0x22])
         else (''sudo HERMES_JOIN_TOKEN='' @ token @ '' HERMES_MASTER_URL='' @ url @ '' HERMES_USER='' @ who
       @ '' bash -s < <(curl -fsSL '' @ url @ ''/scripts/join.sh)''))"

section \<open>Checks of the installation and its removal\<close>

definition status_line :: "string \<Rightarrow> bool \<Rightarrow> string \<Rightarrow> string" where
  "status_line label ok detail =
     label @ '': '' @ (if ok then ''OK'' else ''WARN'') @ (if detail \<noteq> [] then '' - '' @ detail else [])"

text \<open>\<open>fetch\<close> answers a request with its status, or with the text of the exception.\<close>

definition doctor_url_status :: "(string \<Rightarrow> string + int) \<Rightarrow> string \<Rightarrow> string \<Rightarrow> string" where
  "doctor_url_status fetch label url =
     (if lower (strip url) \<in> {''skip'', ''none'', ''off''} then label @ '': SKIP''
      else case fetch url of
        Inr status \<Rightarrow> status_line label (200 \<le> status \<and> status < 300) url
      | Inl problem \<Rightarrow> status_line label False (url @ '' ('' @ problem @ '')''))"

definition backup_status_from_manifest :: "host_view \<Rightarrow> env \<Rightarrow> string \<Rightarrow> bool \<times> string \<times> string" where
  "backup_status_from_manifest hv manifest fallback_backup_dir =
     (let backup_dir = as_posix (env_or manifest ''HMN_BACKUP_DIR'' fallback_backup_dir);
          stamp = env_or manifest ''HMN_LAST_BACKUP_STAMP'' [];
          named = map as_posix (filter (\<lambda>v. v \<noteq> [])
                    (map (\<lambda>key. env_or manifest key []) [''BACKUP_DB'', ''BACKUP_ENV'', ''BACKUP_CONFIG'', ''BACKUP_METADATA'']));
          checks = (if named = [] \<and> stamp \<noteq> []
                    then map (posix_join backup_dir) [''control-plane.'' @ stamp @ ''.db'', ''master.'' @ stamp @ ''.env'',
                                                      ''config.'' @ stamp @ ''.yaml'', ''metadata.'' @ stamp @ ''.env'']
                    else named)
      in (checks \<noteq> [] \<and> list_all (hv_exists hv) checks,
          if checks \<noteq> [] then join_with '', '' checks else backup_dir,
          env_or manifest ''ROLLBACK_COMMAND''
            (env_or manifest ''HMN_ROLLBACK_HINT'' (utf8_text [0x6309] @ '' upgrade-manifest.env '' @ utf8_text [0x6062, 0x590D, 0x5907, 0x4EFD, 0x540E, 0x91CD, 0x542F, 0x670D, 0x52A1]))))"

definition SERVICE_NAME :: string where
  "SERVICE_NAME = ''hermes-managed-network.service''"

definition GATEWAY_SERVICE :: string where
  "GATEWAY_SERVICE = ''hermes-managed-network-approval-gateway.service''"

text \<open>\<open>journal\<close> is the output of \<open>journalctl\<close>; a log file is read with undecodable bytes replaced, a parameter too.\<close>

definition doctor_log_lines ::
  "host_view \<Rightarrow> (string \<Rightarrow> string) \<Rightarrow> string \<Rightarrow> bool \<Rightarrow> string option \<Rightarrow> string list" where
  "doctor_log_lines hv read_log journal skip_systemd log_file =
     (case (case log_file of None \<Rightarrow> None | Some p \<Rightarrow> if hv_exists hv p then Some p else None) of
        Some p \<Rightarrow> (let ls = split_lines (read_log p) in drop (length ls - 6) ls)
      | None \<Rightarrow> if skip_systemd then [''SKIP''] else if journal \<noteq> [] then [rstrip journal] else [])"

definition doctor_install ::
  "host_view \<Rightarrow> (string \<Rightarrow> string + int) \<Rightarrow> (string list \<Rightarrow> int) \<Rightarrow> (string \<Rightarrow> string) \<Rightarrow> string \<Rightarrow> string \<Rightarrow> string
    \<Rightarrow> string \<Rightarrow> bool \<Rightarrow> string option \<Rightarrow> string option \<Rightarrow> string option \<Rightarrow> files \<Rightarrow> string list result" where
  "doctor_install hv fetch systemctl read_log journal etc_dir service_dir backup_dir skip_systemd health_url version_url log_file fs =
     bind_result (read_master_env hv fs (posix_join etc_dir ''master.env'')) (\<lambda>master_env.
     bind_result (read_master_env hv fs (posix_join etc_dir ''upgrade-manifest.env'')) (\<lambda>manifest.
       let at = posix_join etc_dir;
           db_path = as_posix (case map_of master_env ''HMN_DB'' of None \<Rightarrow> ''/var/lib/hermes-managed-network/control-plane.db'' | Some p \<Rightarrow> p);
           control = posix_join service_dir SERVICE_NAME;
           gateway = posix_join service_dir GATEWAY_SERVICE;
           gateway_configured = hv_exists hv (at ''approval-gateway.env'') \<or> hv_exists hv (at ''telegram-gateway.env'') \<or> hv_exists hv gateway;
           headscale = at ''headscale.env''; config = at ''config.yaml''; upgrade = at ''upgrade-manifest.env'';
           host = (case map_of master_env ''HMN_HOST'' of None \<Rightarrow> ''127.0.0.1'' | Some h \<Rightarrow> h);
           port = (case map_of master_env ''HMN_PORT'' of None \<Rightarrow> ''8765'' | Some p \<Rightarrow> p);
           base_url = ''http://'' @ (if host \<in> {''0.0.0.0'', ''::'', []} then ''127.0.0.1'' else host) @ '':'' @ port;
           url_or = (\<lambda>url alt. case url of Some u \<Rightarrow> if u \<noteq> [] then u else alt | None \<Rightarrow> alt);
           (backup_ok, backup_detail, rollback_command) = backup_status_from_manifest hv manifest backup_dir
       in Inr (
         [(utf8_text [0x751F, 0x4EA7, 0x5DE1, 0x68C0]), (utf8_text [0x5B89, 0x88C5, 0x72B6, 0x6001]), status_line ''master.env'' (master_env \<noteq> []) (at ''master.env''),
          status_line ''database path'' (hv_exists hv (posix_parent db_path)) db_path,
          status_line ''database file'' (hv_exists hv db_path) db_path,
          (utf8_text [0x670D, 0x52A1, 0x72B6, 0x6001]), status_line ''control plane service'' (hv_exists hv control) control,
          status_line ''approval gateway service'' (\<not> gateway_configured \<or> hv_exists hv gateway) gateway,
          status_line ''headscale config'' (hv_exists hv headscale \<or> hv_exists hv config)
            (if hv_exists hv config then config else headscale),
          (utf8_text [0x63A5, 0x53E3, 0x72B6, 0x6001]), doctor_url_status fetch ''healthz'' (url_or health_url (base_url @ ''/healthz'')),
          doctor_url_status fetch ''api version'' (url_or version_url (base_url @ ''/api/v1/version'')),
          ''upgrade/rollback readiness'',
          status_line ''upgrade manifest'' (hv_exists hv upgrade)
            (if hv_exists hv upgrade then upgrade else ''will be created by installer upgrade''),
          status_line ''upgrade backup'' backup_ok backup_detail, ''rollback command: '' @ rollback_command]
         @ (if skip_systemd then []
            else map (\<lambda>unit. status_line (''systemd '' @ unit) (systemctl [''is-active'', ''--quiet'', unit] = 0) [])
                   (SERVICE_NAME # (if gateway_configured then [GATEWAY_SERVICE] else [])))
         @ (utf8_text [0x6700, 0x8FD1, 0x65E5, 0x5FD7, 0x63D0, 0x793A]) # doctor_log_lines hv read_log journal skip_systemd log_file
         @ [(utf8_text [0x4FEE, 0x590D, 0x5EFA, 0x8BAE, 0xFF1A]), (''- '' @ utf8_text [0x5347, 0x7EA7, 0xFF1A] @ ''hmn update''),
            (''- '' @ utf8_text [0x5931, 0x8D25, 0x540E, 0x67E5, 0x770B, 0xFF1A] @ ''journalctl -u hermes-managed-network.service -n 80 --no-pager''),
            (''- '' @ utf8_text [0x56DE, 0x6EDA, 0xFF1A, 0x6267, 0x884C] @ '' rollback command '' @ utf8_text [0x6307, 0x5F15, 0xFF0C, 0x6062, 0x590D] @ '' DB/env/config/metadata '' @ utf8_text [0x540E, 0x91CD, 0x542F, 0x670D, 0x52A1])])))"

text \<open>The commands that remove the master, and what runs: nothing without \<open>--yes\<close>.\<close>

definition uninstall_commands :: "bool \<Rightarrow> string list" where
  "uninstall_commands keep_data =
     [''systemctl disable --now '' @ SERVICE_NAME @ '' || true'',
      ''rm -f /etc/systemd/system/'' @ SERVICE_NAME,
      ''systemctl daemon-reload || true'',
      ''rm -f /usr/local/bin/hmn /usr/local/bin/hmn-server'',
      ''rm -rf /opt/hermes-managed-network'']
     @ (if keep_data then [] else [''rm -rf /etc/hermes-managed-network'', ''rm -rf /var/lib/hermes-managed-network''])"

definition uninstall :: "bool \<Rightarrow> bool \<Rightarrow> int \<Rightarrow> unit result \<times> string list \<times> string list" where
  "uninstall yes keep_data euid =
     (let commands = uninstall_commands keep_data
      in if \<not> yes
         then (Inr (), [(utf8_text [0x5378, 0x8F7D, 0x547D, 0x4EE4, 0xFF1A]), ''sudo bash -lc '' @ shell_quote (join_with '' && '' commands), [],
                        (utf8_text [0x786E, 0x8BA4, 0x8981, 0x7531] @ '' hmn '' @ utf8_text [0x76F4, 0x63A5, 0x6267, 0x884C, 0x65F6, 0xFF0C, 0x4F7F, 0x7528, 0xFF1A] @ ''hmn uninstall --yes''),
                        (utf8_text [0x5982, 0x9700, 0x540C, 0x65F6, 0x5220, 0x9664, 0x6570, 0x636E, 0x5E93, 0x548C, 0x914D, 0x7F6E, 0xFF1A] @ ''hmn uninstall --yes --purge-data'')], [])
         else if euid \<noteq> 0 then (Inl (BadParameter (utf8_text [0x6267, 0x884C, 0x5378, 0x8F7D, 0x9700, 0x8981] @ '' root'' @ utf8_text [0xFF0C, 0x8BF7, 0x4F7F, 0x7528] @ '' sudo hmn uninstall --yes'')), [], [])
         else (Inr (), map (\<lambda>c. (utf8_text [0x6267, 0x884C] @ '': '') @ c) commands @ [(utf8_text [0x5378, 0x8F7D, 0x5B8C, 0x6210])], commands))"

section \<open>The plan of a rollback\<close>

record restore_item =
  ri_label :: string
  ri_source :: string
  ri_target :: string

definition restore_item_of :: "string \<Rightarrow> string \<Rightarrow> string \<Rightarrow> restore_item" where
  "restore_item_of label source target = \<lparr>ri_label = label, ri_source = source, ri_target = target\<rparr>"

text \<open>\<open>Path(manifest_values.get(key) or default)\<close>; with \<open>--stamp\<close> the manifest is not asked.\<close>

definition backup_path :: "env \<Rightarrow> string option \<Rightarrow> string \<Rightarrow> string \<Rightarrow> string" where
  "backup_path manifest stamp key alt =
     (if stamp \<noteq> None \<and> stamp \<noteq> Some [] then alt else as_posix (env_or manifest key alt))"

definition rollback_plan_from_manifest ::
  "host_view \<Rightarrow> files \<Rightarrow> env \<Rightarrow> string \<Rightarrow> string \<Rightarrow> string option \<Rightarrow> restore_item list result" where
  "rollback_plan_from_manifest hv fs manifest etc_dir backup_dir stamp =
     (let given = (stamp \<noteq> None \<and> stamp \<noteq> Some []);
          selected = (case stamp of Some st \<Rightarrow> if st \<noteq> [] then st else env_or manifest ''HMN_LAST_BACKUP_STAMP'' []
                      | None \<Rightarrow> env_or manifest ''HMN_LAST_BACKUP_STAMP'' []);
          source_dir = (if given then hv_expand hv backup_dir
                        else hv_expand hv (as_posix (env_or manifest ''HMN_BACKUP_DIR'' backup_dir)))
      in if selected = [] then Inl (BadParameter (utf8_text [0x7F3A, 0x5C11, 0x5907, 0x4EFD] @ '' stamp'' @ utf8_text [0xFF1B, 0x8BF7, 0x4F20] @ '' --stamp '' @ utf8_text [0x6216, 0x68C0, 0x67E5] @ '' upgrade-manifest.env''))
         else bind_result (read_master_env hv fs (posix_join etc_dir ''master.env'')) (\<lambda>current_env.
           let env_path = backup_path manifest stamp ''BACKUP_ENV'' (posix_join source_dir (''master.'' @ selected @ ''.env''));
               db_path = backup_path manifest stamp ''BACKUP_DB'' (posix_join source_dir (''control-plane.'' @ selected @ ''.db''));
               config_path = backup_path manifest stamp ''BACKUP_CONFIG'' (posix_join source_dir (''config.'' @ selected @ ''.yaml''));
               metadata_path = backup_path manifest stamp ''BACKUP_METADATA'' (posix_join source_dir (''metadata.'' @ selected @ ''.env''))
           in bind_result (read_master_env hv fs env_path) (\<lambda>backup_env.
              let db_target = as_posix (env_or current_env ''HMN_DB''
                                (env_or backup_env ''HMN_DB'' ''/var/lib/hermes-managed-network/control-plane.db''))
              in Inr [restore_item_of ''database'' db_path db_target,
                      restore_item_of ''master.env'' env_path (posix_join etc_dir ''master.env''),
                      restore_item_of ''config.yaml'' config_path (posix_join etc_dir ''config.yaml''),
                      restore_item_of ''metadata'' metadata_path (posix_join etc_dir (''metadata.'' @ selected @ ''.env''))])))"

section \<open>The safety check\<close>

definition safe_resolve :: "host_view \<Rightarrow> string \<Rightarrow> string" where
  "safe_resolve hv path = hv_resolve hv (hv_expand hv path)"

definition db_roots :: "host_view \<Rightarrow> string \<Rightarrow> string list" where
  "db_roots hv etc_dir =
     (let safe_etc = safe_resolve hv etc_dir
      in [safe_resolve hv ''/var/lib/hermes-managed-network'']
         @ (if safe_etc \<noteq> safe_resolve hv ''/etc/hermes-managed-network'' then [posix_parent (posix_parent safe_etc)] else []))"

definition expanded_item :: "host_view \<Rightarrow> restore_item \<Rightarrow> restore_item" where
  "expanded_item hv i = restore_item_of (ri_label i) (hv_expand hv (ri_source i)) (hv_expand hv (ri_target i))"

definition resolved_item :: "host_view \<Rightarrow> restore_item \<Rightarrow> restore_item" where
  "resolved_item hv i = restore_item_of (ri_label i) (safe_resolve hv (ri_source i)) (safe_resolve hv (ri_target i))"

definition target_allowed :: "host_view \<Rightarrow> string \<Rightarrow> restore_item \<Rightarrow> bool" where
  "target_allowed hv etc_dir i \<longleftrightarrow>
     (if ri_label i = ''database'' then list_ex (is_relative_to (ri_target i)) (db_roots hv etc_dir)
      else is_relative_to (ri_target i) (safe_resolve hv etc_dir))"

text \<open>What is wrong with an entry, given as it is written (\<open>raw\<close>) and resolved.\<close>

definition item_errors :: "host_view \<Rightarrow> string \<Rightarrow> string \<Rightarrow> restore_item \<Rightarrow> restore_item \<Rightarrow> string list" where
  "item_errors hv etc_dir backup_dir raw item =
     (let label = ri_label raw; source = ri_source item; target = ri_target item; raw_target = ri_target raw
      in if \<not> hv_exists hv (ri_source raw) then [label @ '': source missing: '' @ ri_source raw]
         else (if hv_is_symlink hv (ri_source raw) then [label @ '': source is symlink: '' @ ri_source raw] else [])
            @ (if \<not> hv_is_file hv source then [label @ '': source is not a regular file: '' @ source] else [])
            @ (if \<not> is_relative_to source (safe_resolve hv backup_dir) then [label @ '': source outside backup dir: '' @ source] else [])
            @ (if hv_exists hv raw_target \<and> hv_is_symlink hv raw_target then [label @ '': target is symlink: '' @ raw_target] else [])
            @ (if hv_exists hv (posix_parent raw_target) \<and> hv_is_symlink hv (posix_parent raw_target)
               then [label @ '': target parent is symlink: '' @ posix_parent raw_target] else [])
            @ (if target_allowed hv etc_dir (restore_item_of label source target) then []
               else if label = ''database''
               then [label @ '': target outside allowed data dirs ('' @ join_with '', '' (db_roots hv etc_dir) @ ''): '' @ target]
               else [label @ '': target outside etc dir: '' @ target]))"

text \<open>The checked plan, or the lines that are printed before the command ends with status 1.\<close>

definition validate_rollback_plan ::
  "host_view \<Rightarrow> string \<Rightarrow> string \<Rightarrow> restore_item list \<Rightarrow> string list + restore_item list" where
  "validate_rollback_plan hv etc_dir backup_dir plan =
     (let raw_plan = map (expanded_item hv) plan;
          safe_plan = map (resolved_item hv) raw_plan;
          errors = concat (map (\<lambda>(raw, item). item_errors hv etc_dir backup_dir raw item) (zip raw_plan safe_plan))
      in if errors \<noteq> [] then Inl ((utf8_text [0x56DE, 0x6EDA, 0x5B89, 0x5168, 0x6821, 0x9A8C, 0x5931, 0x8D25, 0xFF1A]) # map (\<lambda>e. ''- '' @ e) errors) else Inr safe_plan)"

section \<open>Copying and the command\<close>

text \<open>
  \<open>io\<close> answers for the system calls of one copy: \<open>None\<close> where all succeed, or the stage at which one fails, before the
  temporary file is opened, before the rename or after it (when the directory is synced).  \<open>hex\<close> is the drawn
  suffix.  The temporary file is created exclusively beside the target, renamed over it, and removed after a failure.
\<close>

datatype copy_fault = BeforeTemp exn | BeforeRename exn | AfterRename exn

type_synonym copy_faults = "string \<Rightarrow> string \<Rightarrow> copy_fault option"

definition rollback_temp :: "string \<Rightarrow> string \<Rightarrow> string" where
  "rollback_temp target hex =
     posix_join (posix_parent target) (''.'' @ last (posix_parts target) @ ''.hmn-rollback.'' @ hex @ ''.tmp'')"

definition copy_file_atomically ::
  "copy_faults \<Rightarrow> string \<Rightarrow> string \<Rightarrow> string \<Rightarrow> files \<Rightarrow> unit result \<times> files" where
  "copy_file_atomically io hex source target fs =
     (let temp = rollback_temp target hex
      in case (fs source, io source target) of
           (None, _) \<Rightarrow> (Inl (OSError source), fs)
         | (Some content, Some (BeforeTemp e)) \<Rightarrow> (Inl e, fs)
         | (Some content, fault) \<Rightarrow>
             if fs temp \<noteq> None then (Inl (OSError temp), fs(temp := None))
             else let begun = fs(temp \<mapsto> content); renamed = begun(temp := None, target \<mapsto> content)
                  in case fault of
                       Some (BeforeRename e) \<Rightarrow> (Inl e, begun(temp := None))
                     | Some (AfterRename e) \<Rightarrow> (Inl e, renamed)
                     | _ \<Rightarrow> (Inr (), renamed))"

fun restore_files ::
  "copy_faults \<Rightarrow> (nat \<Rightarrow> string) \<Rightarrow> restore_item list \<Rightarrow> files \<Rightarrow> unit result \<times> files" where
  "restore_files io hex [] fs = (Inr (), fs)"
| "restore_files io hex (i # plan) fs =
     (case copy_file_atomically io (hex 0) (ri_source i) (ri_target i) fs of
        (Inl e, fs') \<Rightarrow> (Inl e, fs')
      | (Inr _, fs') \<Rightarrow> restore_files io (\<lambda>k. hex (k + 1)) plan fs')"

definition render_rollback_confirm_command :: "string option \<Rightarrow> string \<Rightarrow> string \<Rightarrow> bool \<Rightarrow> string" where
  "render_rollback_confirm_command stamp etc_dir backup_dir skip_systemd =
     join_with '' '' (map shell_quote
       ([''hmn'', ''rollback'']
        @ (case stamp of Some st \<Rightarrow> if st \<noteq> [] then [''--stamp'', st] else [] | None \<Rightarrow> [])
        @ [''--etc-dir'', as_posix etc_dir, ''--backup-dir'', as_posix backup_dir]
        @ (if skip_systemd then [''--skip-systemd''] else []) @ [''--yes'']))"

text \<open>What a run shows and asks of systemd.\<close>

record rollback_trace =
  rt_lines :: "string list"
  rt_systemctl :: "string list list"

definition plan_lines :: "restore_item list \<Rightarrow> string list" where
  "plan_lines plan = (utf8_text [0x56DE, 0x6EDA, 0x8BA1, 0x5212]) # map (\<lambda>i. ''- '' @ ri_label i @ '': '' @ ri_source i @ '' -> '' @ ri_target i) plan"

definition rollback ::
  "host_view \<Rightarrow> copy_faults \<Rightarrow> (string list \<Rightarrow> int) \<Rightarrow> (nat \<Rightarrow> string)
    \<Rightarrow> string option \<Rightarrow> string \<Rightarrow> string \<Rightarrow> bool \<Rightarrow> bool \<Rightarrow> files \<Rightarrow> unit result \<times> rollback_trace \<times> files" where
  "rollback hv io systemctl hex stamp etc_dir backup_dir yes skip_systemd fs =
     (let stop = [''stop'', SERVICE_NAME]; reload = [''daemon-reload'']; start = [''start'', SERVICE_NAME];
          trace = (\<lambda>ls cs. \<lparr>rt_lines = ls, rt_systemctl = cs\<rparr>)
      in case bind_result (read_master_env hv fs (posix_join etc_dir ''upgrade-manifest.env'')) (\<lambda>manifest.
                rollback_plan_from_manifest hv fs manifest etc_dir backup_dir stamp) of
           Inl e \<Rightarrow> (Inl e, trace [] [], fs)
         | Inr raw_plan \<Rightarrow>
         case validate_rollback_plan hv etc_dir backup_dir raw_plan of
           Inl errors \<Rightarrow> (Inl (Exit 1), trace errors [], fs)
         | Inr plan \<Rightarrow>
             if \<not> yes
             then (Inr (), trace (plan_lines plan @ [(''DRY RUN'' @ utf8_text [0xFF1A, 0x672A, 0x4FEE, 0x6539, 0x4EFB, 0x4F55, 0x6587, 0x4EF6, 0x3002]),
                     (utf8_text [0x786E, 0x8BA4, 0x6267, 0x884C, 0xFF1A]) @ render_rollback_confirm_command stamp etc_dir backup_dir skip_systemd]) [], fs)
             else if \<not> skip_systemd \<and> systemctl stop \<noteq> 0
             then (Inl (Exit (systemctl stop)),
                   trace (plan_lines plan @ [(utf8_text [0x505C, 0x6B62, 0x670D, 0x52A1, 0x5931, 0x8D25, 0xFF0C, 0x5DF2, 0x4E2D, 0x6B62, 0x56DE, 0x6EDA, 0xFF1A] @ ''systemctl stop '') @ SERVICE_NAME]) [stop], fs)
             else case restore_files io hex plan fs of
                 (Inl e, fs') \<Rightarrow> (Inl e, trace (plan_lines plan) (if skip_systemd then [] else [stop]), fs')
               | (Inr _, fs') \<Rightarrow>
                   if skip_systemd
                   then (Inr (), trace (plan_lines plan @ [(utf8_text [0x5DF2, 0x6062, 0x590D, 0x5907, 0x4EFD]), (utf8_text [0x5EFA, 0x8BAE, 0x6267, 0x884C, 0xFF1A] @ ''hmn doctor'')]) [], fs')
                   else if systemctl start \<noteq> 0
                   then (Inl (Exit (systemctl start)),
                         trace (plan_lines plan @ [(utf8_text [0x542F, 0x52A8, 0x670D, 0x52A1, 0x5931, 0x8D25, 0xFF0C, 0x8BF7, 0x624B, 0x52A8, 0x6392, 0x67E5, 0xFF1A] @ ''systemctl start '') @ SERVICE_NAME]) [stop, reload, start], fs')
                   else (Inr (), trace (plan_lines plan @ [(utf8_text [0x5DF2, 0x6062, 0x590D, 0x5907, 0x4EFD]), (utf8_text [0x5EFA, 0x8BAE, 0x6267, 0x884C, 0xFF1A] @ ''hmn doctor'')]) [stop, reload, start], fs'))"

section \<open>Facts\<close>

text \<open>
  What a POSIX shell makes of a line: its words, with single and double quotes.  Any character that would mean more than
  itself (expansions, redirections, separators) makes the reading fail.
\<close>

datatype quoting = Bare | Single | Double

fun read_words :: "quoting \<Rightarrow> string option \<Rightarrow> string \<Rightarrow> string list option" where
  "read_words q word [] = (if q \<noteq> Bare then None else Some (case word of None \<Rightarrow> [] | Some w \<Rightarrow> [w]))"
| "read_words Bare word (c # s) =
     (let w = (case word of None \<Rightarrow> [] | Some w \<Rightarrow> w)
      in if c = CHR '' ''
         then (case word of None \<Rightarrow> read_words Bare None s
               | Some w \<Rightarrow> map_option ((#) w) (read_words Bare None s))
         else if c = CHR 0x27 then read_words Single (Some w) s
         else if c = CHR 0x22 then read_words Double (Some w) s
         else if is_shell_safe c then read_words Bare (Some (w @ [c])) s else None)"
| "read_words Single word (c # s) =
     (let w = (case word of None \<Rightarrow> [] | Some w \<Rightarrow> w)
      in if c = CHR 0x27 then read_words Bare (Some w) s else read_words Single (Some (w @ [c])) s)"
| "read_words Double word (c # s) =
     (let w = (case word of None \<Rightarrow> [] | Some w \<Rightarrow> w)
      in if c = CHR 0x22 then read_words Bare (Some w) s
         else if c \<in> set [CHR 0x24, CHR 0x60, CHR 0x5C, CHR 0x21] then None
         else read_words Double (Some (w @ [c])) s)"

definition shell_words :: "string \<Rightarrow> string list option" where
  "shell_words line = read_words Bare None line"

lemma quotes_not_safe: "\<not> is_shell_safe CHR '' ''" "\<not> is_shell_safe CHR 0x27" "\<not> is_shell_safe CHR 0x22"
  by code_simp+

lemma read_safe_word:
  "list_all is_shell_safe v \<Longrightarrow> read_words Bare (Some w) (v @ rest) = read_words Bare (Some (w @ v)) rest"
  by (induction v arbitrary: w) (auto simp: Let_def quotes_not_safe)

lemma read_single_quoted:
  "read_words Single (Some w) (replace_all [CHR 0x27] [CHR 0x27, CHR 0x22, CHR 0x27, CHR 0x22, CHR 0x27] v @ CHR 0x27 # rest)
     = read_words Bare (Some (w @ v)) rest"
proof (induction v arbitrary: w)
  case Nil
  then show ?case by (simp add: Let_def)
next
  case (Cons c v)
  show ?case
  proof (cases "c = CHR 0x27")
    case True
    then show ?thesis using Cons [of "w @ [CHR 0x27]"] by (simp add: Let_def startswith_def)
  next
    case False
    then show ?thesis using Cons [of "w @ [c]"] by (simp add: Let_def startswith_def)
  qed
qed

lemma read_quoted_word: "read_words Bare None (shell_quote v @ rest) = read_words Bare (Some v) rest"
proof (cases "v \<noteq> [] \<and> list_all is_shell_safe v")
  case True
  then obtain c u where v: "v = c # u" "is_shell_safe c" "list_all is_shell_safe u" by (cases v) auto
  then have "read_words Bare None (v @ rest) = read_words Bare (Some [c]) (u @ rest)"
    by (auto simp: Let_def quotes_not_safe)
  then show ?thesis using True read_safe_word [OF v(3), of "[c]"] v(1) by (simp add: shell_quote_def)
next
  case False
  then show ?thesis using read_single_quoted [of "[]" v rest] by (auto simp: shell_quote_def Let_def)
qed

lemma read_quoted_words: "shell_words (join_with '' '' (map shell_quote ws)) = Some ws"
  unfolding shell_words_def
proof (induction "'' ''" "map shell_quote ws" arbitrary: ws rule: join_with.induct)
  case 1
  then show ?case by simp
next
  case (2 x)
  then obtain w where "ws = [w]" by auto
  then show ?case using read_quoted_word [of w "[]"] by simp
next
  case (3 x y ys)
  then obtain w ws' where ws: "ws = w # ws'" "map shell_quote ws' = y # ys" by auto
  have "read_words Bare None (join_with '' '' (map shell_quote ws')) = Some ws'" using 3(1) [OF ws(2) [symmetric]] ws(2) by simp
  then show ?case using read_quoted_word [of w "'' '' @ join_with '' '' (y # ys)"] ws by simp
qed

text \<open>
  What has to hold of an entry of the plan before any file is touched, the entry given as the plan names it: its source is
  a regular file in the backup directory and no link, neither its target nor the directory of the target is a link, and the
  target lies below the configuration directory, for the database below one of its own roots.
\<close>

definition checked_entry :: "host_view \<Rightarrow> string \<Rightarrow> string \<Rightarrow> restore_item \<Rightarrow> bool" where
  "checked_entry hv etc_dir backup_dir i \<longleftrightarrow>
     (let source = hv_expand hv (ri_source i); target = hv_expand hv (ri_target i); is_link = (\<lambda>p. hv_exists hv p \<and> hv_is_symlink hv p)
      in hv_exists hv source \<and> \<not> hv_is_symlink hv source \<and> hv_is_file hv (safe_resolve hv source)
         \<and> is_relative_to (safe_resolve hv source) (safe_resolve hv backup_dir)
         \<and> \<not> is_link target \<and> \<not> is_link (posix_parent target)
         \<and> list_ex (is_relative_to (safe_resolve hv target))
             (if ri_label i = ''database'' then db_roots hv etc_dir else [safe_resolve hv etc_dir]))"

lemma no_item_errors:
  "item_errors hv etc_dir backup_dir (expanded_item hv i) (resolved_item hv (expanded_item hv i)) = []
     \<longleftrightarrow> checked_entry hv etc_dir backup_dir i"
  by (auto simp: item_errors_def checked_entry_def target_allowed_def expanded_item_def resolved_item_def
      restore_item_of_def Let_def)

lemma validated_plan_checked:
  assumes "validate_rollback_plan hv etc_dir backup_dir raw_plan = Inr plan"
  shows "list_all (checked_entry hv etc_dir backup_dir) raw_plan"
    and "plan = map (\<lambda>i. resolved_item hv (expanded_item hv i)) raw_plan"
  using assms
  by (auto simp: validate_rollback_plan_def Let_def zip_map2 zip_same_conv_map no_item_errors list_all_iff split: if_splits)

text \<open>What a copy may change: the target takes the text of the source, the temporary file is gone.\<close>

lemma copy_file_changes:
  assumes "copy_file_atomically io hex source target fs = (r, fs')"
  shows "fs' p = fs p \<or> p = target \<and> fs' p = fs source \<and> fs source \<noteq> None
    \<or> p = rollback_temp target hex \<and> fs' p = None"
  using assms by (auto simp: copy_file_atomically_def Let_def split: option.splits copy_fault.splits if_splits)

lemma restore_files_changes:
  assumes "restore_files io hex plan fs = (r, fs')"
  shows "fs' p = fs p \<or> (\<exists>i \<in> set plan. p = ri_target i) \<and> fs' p \<noteq> None \<and> (\<exists>i \<in> set plan. fs' p = fs (ri_source i))
    \<or> fs' p = None \<and> (\<exists>i \<in> set plan. \<exists>k. p = rollback_temp (ri_target i) (hex k))"
  using assms
proof (induction io hex plan fs rule: restore_files.induct)
  case (1 io hex fs)
  then show ?case by simp
next
  case (2 io hex i plan fs)
  obtain r1 fs1 where c: "copy_file_atomically io (hex 0) (ri_source i) (ri_target i) fs = (r1, fs1)"
    by (cases "copy_file_atomically io (hex 0) (ri_source i) (ri_target i) fs")
  note step = copy_file_changes [OF c]
  show ?case
  proof (cases r1)
    case (Inl e)
    then have "fs' = fs1" using 2(2) c by simp
    then show ?thesis using step [of p] by auto
  next
    case (Inr u)
    then have "restore_files io (\<lambda>k. hex (k + 1)) plan fs1 = (r, fs')" using 2(2) c by simp
    note rest = 2(1) [OF c [symmetric] Inr this]
    then show ?thesis
    proof (elim disjE conjE bexE)
      assume "fs' p = fs1 p"
      with step [of p] show ?thesis by auto
    next
      fix j k
      assume j: "k \<in> set plan" "p = ri_target k" "fs' p \<noteq> None" "j \<in> set plan" "fs' p = fs1 (ri_source j)"
      then have "\<exists>j \<in> set (i # plan). fs' p = fs (ri_source j)" using step [of "ri_source j"] by auto
      with j show ?thesis by auto
    next
      fix j
      assume "fs' p = None" and j: "j \<in> set plan" "\<exists>k. p = rollback_temp (ri_target j) (hex (k + 1))"
      moreover have "\<exists>k. p = rollback_temp (ri_target j) (hex k)" using j(2) by blast
      ultimately show ?thesis by auto
    qed
  qed
qed

text \<open>Where targets, sources and temporary files are different files, a rollback that succeeds restores every one.\<close>

lemma restore_files_keeps:
  assumes "restore_files io hex plan fs = (r, fs')" "p \<notin> set (map ri_target plan)"
    "\<forall>t \<in> set (map ri_target plan). \<forall>k. p \<noteq> rollback_temp t (hex k)"
  shows "fs' p = fs p"
  using restore_files_changes [OF assms(1), of p] assms(2,3) by auto

lemma restore_files_all:
  assumes "restore_files io hex plan fs = (Inr (), fs')" "distinct (map ri_target plan)"
    "set (map ri_source plan) \<inter> set (map ri_target plan) = {}"
    "\<forall>p \<in> set (map ri_source plan) \<union> set (map ri_target plan). \<forall>t \<in> set (map ri_target plan). \<forall>k. p \<noteq> rollback_temp t (hex k)"
  shows "list_all (\<lambda>i. fs' (ri_target i) = fs (ri_source i) \<and> fs (ri_source i) \<noteq> None) plan"
  using assms
proof (induction io hex plan fs rule: restore_files.induct)
  case (1 io hex fs)
  then show ?case by simp
next
  case (2 io hex i plan fs)
  obtain r1 fs1 where c: "copy_file_atomically io (hex 0) (ri_source i) (ri_target i) fs = (r1, fs1)"
    by (cases "copy_file_atomically io (hex 0) (ri_source i) (ri_target i) fs")
  with 2(2) obtain u where u: "r1 = Inr u" and rest: "restore_files io (\<lambda>k. hex (k + 1)) plan fs1 = (Inr (), fs')"
    by (cases r1) auto
  have now: "fs1 (ri_target i) = fs (ri_source i)" "fs (ri_source i) \<noteq> None"
    using c u by (auto simp: copy_file_atomically_def Let_def split: option.splits copy_fault.splits if_splits)
  have same: "fs1 (ri_source j) = fs (ri_source j)" if "j \<in> set plan" for j
  proof -
    have "ri_source j \<in> set (map ri_source (i # plan))" "ri_target i \<in> set (map ri_target (i # plan))" using that by auto
    then have "ri_source j \<noteq> ri_target i" "ri_source j \<noteq> rollback_temp (ri_target i) (hex 0)"
      using 2(4,5) by (metis IntI empty_iff, metis UnI1)
    then show ?thesis using copy_file_changes [OF c, of "ri_source j"] by auto
  qed
  have "fs' (ri_target i) = fs1 (ri_target i)"
    by (rule restore_files_keeps [OF rest]) (use 2(3,5) in auto)
  moreover have "list_all (\<lambda>i. fs' (ri_target i) = fs1 (ri_source i) \<and> fs1 (ri_source i) \<noteq> None) plan"
    by (rule 2(1) [OF c [symmetric] u rest]) (use 2(3-5) in auto)
  ultimately show ?case using now same by (auto simp: list_all_iff)
qed

text \<open>One backup file that does not exist makes every rollback fail, also when the file was never there to be backed up.\<close>

lemma missing_source_blocks_rollback:
  assumes "i \<in> set raw_plan" "\<not> hv_exists hv (hv_expand hv (ri_source i))"
  shows "\<exists>errors. validate_rollback_plan hv etc_dir backup_dir raw_plan = Inl errors"
proof -
  let ?raw = "expanded_item hv i"
  have "item_errors hv etc_dir backup_dir ?raw (resolved_item hv ?raw) \<noteq> []"
    using assms(2) by (simp add: item_errors_def expanded_item_def restore_item_of_def Let_def)
  then show ?thesis
    using assms(1) by (auto simp: validate_rollback_plan_def Let_def zip_map2 zip_same_conv_map)
qed

text \<open>A configuration directory directly below another one makes the root of the disk an allowed place of the database.\<close>

lemma any_database_target_allowed:
  assumes "\<And>p. safe_resolve hv p = p" "posix_root target = ''/''"
  shows "target_allowed hv ''/etc/other'' (restore_item_of ''database'' source target)"
proof -
  have "posix_parent (posix_parent ''/etc/other'') = ''/''" by code_simp
  moreover have "posix_root ''/'' = ''/'' \<and> posix_parts ''/'' = []" by code_simp
  ultimately have "''/'' \<in> set (db_roots hv ''/etc/other'')" "is_relative_to target ''/''"
    using assms by (auto simp: db_roots_def is_relative_to_def)
  then show ?thesis by (auto simp: target_allowed_def restore_item_of_def list_ex_iff)
qed

text \<open>The files an entry of the plan reads and writes.\<close>

definition entry_source :: "host_view \<Rightarrow> restore_item \<Rightarrow> string" where
  "entry_source hv i = safe_resolve hv (hv_expand hv (ri_source i))"

definition entry_target :: "host_view \<Rightarrow> restore_item \<Rightarrow> string" where
  "entry_target hv i = safe_resolve hv (hv_expand hv (ri_target i))"

lemma resolved_entry [simp]:
  "ri_source (resolved_item hv (expanded_item hv i)) = entry_source hv i"
  "ri_target (resolved_item hv (expanded_item hv i)) = entry_target hv i"
  by (simp_all add: resolved_item_def expanded_item_def restore_item_of_def entry_source_def entry_target_def)

lemma restored_changes:
  assumes "validate_rollback_plan hv etc_dir backup_dir raw_plan = Inr plan" "restore_files io hex plan fs = (r, fs')"
  shows "{p. fs' p \<notin> {None, fs p}}
           \<subseteq> {p. list_ex (\<lambda>i. p = entry_target hv i) raw_plan \<and> list_ex (\<lambda>j. fs' p = fs (entry_source hv j)) raw_plan}"
    and "{p. fs' p = None \<and> fs p \<noteq> None} \<subseteq> {p. list_ex (\<lambda>i. \<exists>k. p = rollback_temp (entry_target hv i) (hex k)) raw_plan}"
proof -
  have changes: "fs' p = fs p
      \<or> list_ex (\<lambda>i. p = entry_target hv i) raw_plan \<and> fs' p \<noteq> None \<and> list_ex (\<lambda>j. fs' p = fs (entry_source hv j)) raw_plan
      \<or> fs' p = None \<and> list_ex (\<lambda>i. \<exists>k. p = rollback_temp (entry_target hv i) (hex k)) raw_plan" for p
    using restore_files_changes [OF assms(2), of p] by (auto simp: validated_plan_checked(2) [OF assms(1)] list_ex_iff)
  show "{p. fs' p \<notin> {None, fs p}}
           \<subseteq> {p. list_ex (\<lambda>i. p = entry_target hv i) raw_plan \<and> list_ex (\<lambda>j. fs' p = fs (entry_source hv j)) raw_plan}"
    using changes by blast
  show "{p. fs' p = None \<and> fs p \<noteq> None} \<subseteq> {p. list_ex (\<lambda>i. \<exists>k. p = rollback_temp (entry_target hv i) (hex k)) raw_plan}"
    using changes by force
qed

section \<open>Properties\<close>

text \<open>C24: a rollback changes files only after \<open>--yes\<close>, after a successful stop of the service (unless \<open>--skip-systemd\<close>
  leaves systemd out) and with a plan of which every entry passed every check: its source is an existing regular file in the
  backup directory and no link, neither its target nor the target's directory is a link, and the target lies below the
  configuration directory, for the database below one of the database roots (which a configuration directory given on
  the command line can widen).  What it writes is the target of an entry and gets the text of the source of an entry,
  the only files it can remove are its own temporary ones beside the targets, and a dry run asks nothing of
  systemd.\<close>

theorem rollback_stays_in_its_directories:
  "case rollback hv io systemctl hex stamp etc_dir backup_dir yes skip_systemd fs of (r, trace, fs') \<Rightarrow>
     (if fs' = fs then True
      else yes \<and> (skip_systemd \<or> systemctl [''stop'', SERVICE_NAME] = 0)
        \<and> (\<exists>plan. bind_result (read_master_env hv fs (posix_join etc_dir ''upgrade-manifest.env'')) (\<lambda>manifest.
                    rollback_plan_from_manifest hv fs manifest etc_dir backup_dir stamp) = Inr plan
             \<and> list_all (checked_entry hv etc_dir backup_dir) plan
             \<and> {p. fs' p \<notin> {None, fs p}}
                 \<subseteq> {p. list_ex (\<lambda>i. p = entry_target hv i) plan \<and> list_ex (\<lambda>j. fs' p = fs (entry_source hv j)) plan}
             \<and> {p. fs' p = None \<and> fs p \<noteq> None}
                 \<subseteq> {p. list_ex (\<lambda>i. \<exists>k. p = rollback_temp (entry_target hv i) (hex k)) plan}))
     \<and> (if yes \<and> \<not> skip_systemd then set (rt_systemctl trace) \<subseteq> {[''stop'', SERVICE_NAME], [''daemon-reload''], [''start'', SERVICE_NAME]}
        else rt_systemctl trace = [])"
proof -
  let ?planned = "bind_result (read_master_env hv fs (posix_join etc_dir ''upgrade-manifest.env'')) (\<lambda>manifest.
                    rollback_plan_from_manifest hv fs manifest etc_dir backup_dir stamp)"
  show ?thesis
  proof (cases ?planned)
    case (Inl e)
    then show ?thesis by (auto simp: rollback_def Let_def)
  next
    case (Inr raw_plan)
    note planned = Inr
    show ?thesis
    proof (cases "validate_rollback_plan hv etc_dir backup_dir raw_plan")
      case (Inl errors)
      then show ?thesis using planned by (auto simp: rollback_def Let_def)
    next
      case (Inr plan)
      obtain r1 fs1 where f: "restore_files io hex plan fs = (r1, fs1)" by (cases "restore_files io hex plan fs")
      show ?thesis
        using planned Inr f validated_plan_checked(1) [OF Inr] restored_changes [OF Inr f]
        by (cases r1) (simp_all add: rollback_def Let_def)
    qed
  qed
qed

text \<open>C25: the command line that a dry run prints for the confirmed rollback reads back, in a shell, as the words it was
  made of and nothing else, whatever characters the stamp and the directories hold.\<close>

theorem confirm_command_reads_back:
  "shell_words (render_rollback_confirm_command (Some stamp) etc_dir backup_dir skip_systemd) =
     Some ([''hmn'', ''rollback''] @ (if stamp = [] then [] else [''--stamp'', stamp])
       @ [''--etc-dir'', as_posix etc_dir, ''--backup-dir'', as_posix backup_dir]
       @ (if skip_systemd then [''--skip-systemd''] else []) @ [''--yes''])"
  unfolding render_rollback_confirm_command_def read_quoted_words by simp

end
