(* ===== verification/Wake.thy ===== *)
theory Wake imports Rollback Headscale Tokens begin

text \<open>
  \<open>hmn wake\<close> of \<open>cli.py\<close>: the answers to its prompts become a join token, an optional key for the network and the
  command to run on the new machine.  \<open>client\<close> is what requests to the network provider answer.
\<close>

definition parse_labels :: "string \<Rightarrow> string list" where
  "parse_labels labels_csv = filter (\<lambda>l. l \<noteq> []) (map strip (split_on CHR '','' labels_csv))"

definition default_node_hostname :: "store \<Rightarrow> string" where
  "default_node_hostname s = ''node-server'' @ show_nat (length (list_nodes s) + 1)"

text \<open>What is entered; an empty answer takes the default that the prompt shows.\<close>

record wake_answers =
  wa_hostname :: string
  wa_address :: string
  wa_master_url :: string
  wa_trust_level :: string
  wa_labels :: string
  wa_user :: string
  wa_ttl_minutes :: int
  wa_network_tags :: string

definition answer_or :: "string \<Rightarrow> string \<Rightarrow> string" where
  "answer_or answer alt = (if answer = [] then alt else answer)"

definition network_lines :: "headscale \<Rightarrow> preauth_key \<Rightarrow> string list" where
  "network_lines h k =
     [(''Headscale '' @ utf8_text [0x63A5, 0x5165] @ '' key '' @ utf8_text [0x5DF2, 0x751F, 0x6210]), pk_key k, (utf8_text [0x5148, 0x6267, 0x884C, 0x7F51, 0x7EDC, 0x63A5, 0x5165, 0xFF1A]),
      ''sudo tailscale up --login-server='' @ hs_base_url h @ '' --authkey='' @ pk_key k, (utf8_text [0x518D, 0x6267, 0x884C] @ '' HMN '' @ utf8_text [0x63A5, 0x5165, 0xFF1A])]"

definition wake ::
  "host_view \<Rightarrow> files \<Rightarrow> headscale option result \<Rightarrow> (headscale \<Rightarrow> api result) \<Rightarrow> wake_answers \<Rightarrow> string option \<Rightarrow> string option
    \<Rightarrow> string \<Rightarrow> (nat \<Rightarrow> time) \<Rightarrow> store \<Rightarrow> string list result \<times> store" where
  "wake hv fs provider client a master_url network rand clk s =
     (let hostname = answer_or (wa_hostname a) (default_node_hostname s);
          trust_level = upper (answer_or (wa_trust_level a) ''B'');
          labels = parse_labels (answer_or (wa_labels a) ''worker'');
          user = answer_or (wa_user a) ''hermes'';
          networked = (network \<noteq> None \<and> network \<noteq> Some []);
          tags = parse_labels (answer_or (wa_network_tags a) ''tag:worker'')
      in case (case master_url of Some u \<Rightarrow> if u \<noteq> [] then Inr u else default_master_url hv fs | None \<Rightarrow> default_master_url hv fs) of
           Inl e \<Rightarrow> (Inl e, s)
         | Inr url0 \<Rightarrow>
             let url = answer_or (wa_master_url a) (rstrip_chars ''/'' url0)
             in if networked \<and> lower (the network) \<noteq> ''headscale''
                then (Inl (BadParameter (''--network '' @ utf8_text [0x5F53, 0x524D, 0x4EC5, 0x652F, 0x6301] @ '' headscale'')), s)
                else case fst (token_create trust_level labels (seconds (60 * wa_ttl_minutes a)) rand (clk 0) Map.empty) of
                    Inl e \<Rightarrow> (Inl e, s)
                  | Inr t \<Rightarrow>
                      let s1 = record_audit ''token'' ''join_token'' (jt_value t) ''create_for_wake'' ''ok''
                                 [(''hostname'', JStr hostname), (''address'', JStr (wa_address a)),
                                  (''trust_level'', JStr (jt_trust_level t)), (''labels'', JList (map JStr (jt_labels t))),
                                  (''ttl_minutes'', JInt (wa_ttl_minutes a))] (clk 1) (save_token t s);
                          lines = [[], (utf8_text [0x5524, 0x9192, 0x811A, 0x672C, 0x5DF2, 0x751F, 0x6210]), (utf8_text [0x673A, 0x5668] @ '': '') @ hostname, (utf8_text [0x5730, 0x5740] @ '': '') @ wa_address a, (utf8_text [0x4FE1, 0x4EFB, 0x7EA7, 0x522B] @ '': '') @ trust_level,
                                   (utf8_text [0x8BF7, 0x590D, 0x5236, 0x4E0B, 0x9762, 0x8FD9, 0x6761, 0x547D, 0x4EE4, 0x5230, 0x76EE, 0x6807, 0x673A, 0x5668, 0x6267, 0x884C, 0xFF1A])];
                          join = [render_join_command (jt_value t) url user True]
                      in if \<not> networked then (Inr (lines @ join), s1)
                         else case bind_result (require_network_provider provider) (\<lambda>h.
                                     bind_result (headscale_create_preauth_key h (client h) tags False False None) (\<lambda>k. Inr (h, k))) of
                             Inl e \<Rightarrow> (exit_on_provider_error (Inl e), s1)
                           | Inr (h, k) \<Rightarrow>
                               (Inr (lines @ network_lines h k @ join),
                                record_audit ''network'' ''headscale_preauth_key'' hostname ''preauth_key/create_for_wake'' ''ok''
                                  [(''provider'', JStr PROVIDER_NAME), (''hostname'', JStr hostname), (''tags'', JList (map JStr (pk_tags k)))]
                                  (clk 2) s1))"

section \<open>Facts\<close>

text \<open>A wake grants nothing but its token: it touches only the tokens and the audit log, also where it fails.\<close>

lemma wake_frame:
  assumes "wake hv fs provider client a master_url network rand clk s = (r, s')"
  shows "s'\<lparr>join_tokens := [], audit_events := []\<rparr> = s\<lparr>join_tokens := [], audit_events := []\<rparr>"
  using assms
  by (auto simp: wake_def Let_def record_audit_def insert_audit_event_def save_token_def split: sum.splits if_splits prod.splits option.splits)

end
