(* ===== verification/Commands.thy ===== *)
theory Commands imports Lifecycle Rollback Notifications begin

text \<open>
  Commands of \<open>cli.py\<close> that decide: which node a command is for, confirmation, \<open>node doctor\<close>, \<open>task run\<close>,
  \<open>task ssh-run-next\<close>, \<open>approval approve\<close> and \<open>reject\<close>, and the menu.  \<open>choice\<close> is the number entered at a prompt,
  \<open>ssh\<close> a run of ssh (\<open>None\<close> where it exceeds its timeout), \<open>to_ms\<close> the conversion of a duration to milliseconds
  (it goes through a float).  What the commands print is mostly left out.
\<close>

section \<open>Arguments\<close>

text \<open>
  A command that is called as a function, as the menu does, gets for an option that is not passed the object that
  describes the option (typer's \<open>OptionInfo\<close>): it is true, and equal to no text.
\<close>

datatype 'a arg = Given 'a | OptionInfo

fun flag_on :: "bool arg \<Rightarrow> bool" where
  "flag_on (Given b) = b"
| "flag_on OptionInfo = True"

section \<open>Choosing a node\<close>

definition pick :: "int \<Rightarrow> 'a list \<Rightarrow> 'a result" where
  "pick choice xs = (if choice < 1 \<or> choice > int (length xs) then Inl (Exit 1) else Inr (xs ! nat (choice - 1)))"

definition only_or_picked :: "int \<Rightarrow> 'a list \<Rightarrow> 'a result" where
  "only_or_picked choice xs = (case xs of [] \<Rightarrow> Inl (Exit 1) | [x] \<Rightarrow> Inr x | _ \<Rightarrow> pick choice xs)"

definition has_successful_heartbeat :: "store \<Rightarrow> string \<Rightarrow> bool" where
  "has_successful_heartbeat s node_id =
     list_ex (\<lambda>e. ev_event_type e = ''node'' \<and> ev_subject_id e = node_id \<and> ev_action e = ''heartbeat'' \<and> ev_outcome e = ''ok'')
       (list_audit_events s)"

definition is_formally_managed :: "store \<Rightarrow> node \<Rightarrow> bool" where
  "is_formally_managed s n \<longleftrightarrow> nd_status n = ''managed'' \<and> has_successful_heartbeat s (nd_node_id n)"

text \<open>A node that is named is taken whatever its status; only the choice among several asks for managed nodes.\<close>

definition select_managed_node :: "string option \<Rightarrow> bool \<Rightarrow> int \<Rightarrow> store \<Rightarrow> node result" where
  "select_managed_node node_id require_successful_heartbeat choice s =
     (case node_id of
        Some k \<Rightarrow> (case load_node s k of None \<Rightarrow> Inl (Exit 1) | Some n \<Rightarrow> Inr n)
      | None \<Rightarrow>
          only_or_picked choice
            (filter (\<lambda>n. if require_successful_heartbeat then is_formally_managed s n else True)
              (filter (\<lambda>n. nd_status n = ''managed'') (list_nodes s))))"

definition confirm_command :: "string option \<Rightarrow> string list \<Rightarrow> int \<Rightarrow> time \<Rightarrow> store \<Rightarrow> unit result \<times> store" where
  "confirm_command node_id bundle choice now s =
     (case (case node_id of Some k \<Rightarrow> Inr k
            | None \<Rightarrow> bind_result (only_or_picked choice (filter (\<lambda>n. nd_status n = ''pending'') (list_nodes s)))
                        (\<lambda>n. Inr (nd_node_id n))) of
        Inl e \<Rightarrow> (Inl e, s)
      | Inr k \<Rightarrow> (case confirm_node k bundle now s of (ok, s') \<Rightarrow> (if ok then Inr () else Inl (Exit 1), s')))"

section \<open>SSH connectivity\<close>

definition format_ssh_reason_cn :: "string \<Rightarrow> string \<Rightarrow> string" where
  "format_ssh_reason_cn reason stderr =
     (let label = (case map_of [(''ssh_auth'', (''SSH '' @ utf8_text [0x8BA4, 0x8BC1, 0x5931, 0x8D25])), (''ssh_connectivity'', (''SSH '' @ utf8_text [0x7F51, 0x7EDC, 0x4E0D, 0x901A])), (''timeout'', (''SSH '' @ utf8_text [0x68C0, 0x67E5, 0x8D85, 0x65F6])),
                                (''remote_command'', (utf8_text [0x8FDC, 0x7AEF, 0x547D, 0x4EE4, 0x6267, 0x884C, 0x5931, 0x8D25])), (''none'', (utf8_text [0x6B63, 0x5E38])), (''unknown'', (utf8_text [0x672A, 0x77E5]))]
                          (if reason \<noteq> [] then reason else ''unknown'') of Some l \<Rightarrow> l | None \<Rightarrow> (utf8_text [0x672A, 0x77E5]));
          detail = strip stderr
      in if detail \<noteq> [] \<and> reason \<in> {''ssh_auth'', ''ssh_connectivity'', ''timeout'', ''remote_command''}
         then label @ (utf8_text [0xFF1A]) @ detail else label)"

record ssh_summary =
  ss_status :: string
  ss_reason :: string
  ss_summary :: string

definition summarize_ssh_connectivity :: "dict option \<Rightarrow> ssh_summary result" where
  "summarize_ssh_connectivity c =
     (case c of
        None \<Rightarrow> Inr \<lparr>ss_status = ''unknown'', ss_reason = (utf8_text [0x65E0, 0x8BB0, 0x5F55]), ss_summary = ''-''\<rparr>
      | Some d \<Rightarrow>
          if d = [] then Inr \<lparr>ss_status = ''unknown'', ss_reason = (utf8_text [0x65E0, 0x8BB0, 0x5F55]), ss_summary = ''-''\<rparr>
          else if truthy (dget d ''skipped'')
          then Inr \<lparr>ss_status = ''skipped'', ss_reason = (utf8_text [0x5DF2, 0x8DF3, 0x8FC7] @ '' SSH '' @ utf8_text [0x68C0, 0x67E5]), ss_summary = ''skipped''\<rparr>
          else if \<not> truthy (dget d ''configured'')
          then let detail = str_or (dget d ''stderr'') (utf8_text [0x672A, 0x914D, 0x7F6E])
               in Inr \<lparr>ss_status = ''warn'', ss_reason = (''SSH '' @ utf8_text [0x672A, 0x914D, 0x7F6E, 0xFF1A]) @ detail, ss_summary = ''warn '' @ detail\<rparr>
          else
            let summary = str_or (dget d ''user'') ''-'' @ ''@'' @ str_or (dget d ''host'') ''-'' @ '':'' @ str_or (dget d ''port'') ''-''
            in if truthy (dget d ''reachable'')
               then Inr \<lparr>ss_status = ''ok'', ss_reason = (''SSH '' @ utf8_text [0x8FDE, 0x901A, 0x6B63, 0x5E38]), ss_summary = ''ok '' @ summary\<rparr>
               else let stderr = str_or (dget d ''stderr'') []
                    in bind_result (int_of_json (py_or (dget d ''exit_code'') (JInt 1))) (\<lambda>exit_code.
                         Inr \<lparr>ss_status = ''warn'',
                              ss_reason = format_ssh_reason_cn (classify_ssh_failure exit_code stderr) stderr,
                              ss_summary = strip (''warn '' @ summary @ '' ''
                                @ (if stderr \<noteq> [] then stderr else ''exit_code='' @ show_int exit_code))\<rparr>))"

definition latest_doctor_ssh_connectivity :: "store \<Rightarrow> string \<Rightarrow> dict option" where
  "latest_doctor_ssh_connectivity s node_id =
     (case filter (\<lambda>e. ev_event_type e = ''node'' \<and> ev_subject_id e = node_id \<and> ev_action e = ''doctor''
                     \<and> as_dict (dget (ev_details e) ''ssh_connectivity'') \<noteq> None) (rev (list_audit_events s)) of
        [] \<Rightarrow> None
      | e # _ \<Rightarrow> as_dict (dget (ev_details e) ''ssh_connectivity''))"

definition or_dash :: "string \<Rightarrow> string" where
  "or_dash s = (if s \<noteq> [] then s else ''-'')"

definition listed :: "string list \<Rightarrow> string" where
  "listed xs = (if xs \<noteq> [] then join_with '', '' xs else ''-'')"

definition render_node_status :: "node \<Rightarrow> liveness option \<Rightarrow> dict option \<Rightarrow> dict option \<Rightarrow> string list result" where
  "render_node_status n live runtime connectivity =
     bind_result (summarize_ssh_connectivity connectivity) (\<lambda>ssh. Inr (
       [''node: '' @ nd_node_id n, ''status: '' @ nd_status n, ''host: '' @ nd_hostname n, ''trust: '' @ nd_trust_level n,
        ''labels: '' @ listed (nd_labels n), ''addresses: '' @ listed (nd_addresses n),
        ''bundles: '' @ listed (nd_permission_bundles n), ''ssh_host: '' @ or_dash (nd_ssh_host n),
        ''ssh_user: '' @ or_dash (nd_ssh_user n), ''ssh_port: '' @ show_int (nd_ssh_port n),
        ''network_provider: '' @ or_dash (nd_network_provider n), ''network_node_id: '' @ or_dash (nd_network_node_id n),
        ''network_ip: '' @ or_dash (nd_network_ip n), ''network_tags: '' @ listed (nd_network_tags n),
        ''network_online: '' @ (if nd_network_online n then ''yes'' else if nd_network_provider n \<noteq> [] then ''no'' else ''-''),
        ''last_ssh_check: '' @ ss_summary ssh, ''ssh_reason: '' @ ss_reason ssh]
       @ (case live of None \<Rightarrow> []
          | Some l \<Rightarrow> [''liveness: '' @ lv_state l, ''last_heartbeat: '' @ or_dash (lv_last_heartbeat l)])
       @ (case runtime of None \<Rightarrow> []
          | Some r \<Rightarrow> [''runtime: '' @ py_str (dget r ''runtime_profile''), ''service_manager: '' @ py_str (dget r ''service_manager'')])))"

text \<open>The facts of the last heartbeat, \<open>{}\<close> where they are no dict.\<close>

definition heartbeat_facts :: "audit_event option \<Rightarrow> dict" where
  "heartbeat_facts event =
     (case event of None \<Rightarrow> []
      | Some e \<Rightarrow> (case as_dict (dget_or (ev_details e) ''facts'' (JObj [])) of Some d \<Rightarrow> d | None \<Rightarrow> []))"

definition status_node :: "string option \<Rightarrow> int \<Rightarrow> time \<Rightarrow> time \<Rightarrow> store \<Rightarrow> string list result \<times> store" where
  "status_node node_id choice at now s =
     (case select_managed_node node_id True choice s of
        Inl e \<Rightarrow> (Inl e, s)
      | Inr n \<Rightarrow>
          let live = node_liveness s (nd_node_id n) at;
              runtime = runtime_summary_from_facts (heartbeat_facts (latest_heartbeat_event s (nd_node_id n)))
          in case render_node_status n (Some live) (Some runtime) (latest_doctor_ssh_connectivity s (nd_node_id n)) of
               Inl e \<Rightarrow> (Inl e, s)
             | Inr ls \<Rightarrow> (Inr ls, record_liveness_audit (nd_node_id n) live now s))"

text \<open>The check of \<open>node doctor\<close>: the report and whether the node passes.\<close>

definition doctor_ssh :: "command_runner \<Rightarrow> bool \<Rightarrow> node \<Rightarrow> dict \<times> bool" where
  "doctor_ssh ssh no_ssh_check n =
     (let report = (\<lambda>configured reachable host user port exit_code stderr source.
            [(''configured'', JBool configured), (''reachable'', JBool reachable), (''host'', JStr host), (''user'', JStr user),
             (''port'', JInt port), (''exit_code'', exit_code), (''stderr'', JStr stderr), (''skipped'', JBool no_ssh_check)]
            @ source);
          unset = (\<lambda>stderr. report False False [] [] (nd_ssh_port n) JNull stderr [])
      in if no_ssh_check then (unset [], True)
         else if nd_status n \<noteq> ''managed'' then (unset [], False)
         else case ssh_target_details_for_node n of
           Inl e \<Rightarrow> (unset (exn_text e), False)
         | Inr target \<Rightarrow>
             (case parse_int (tg_port target) of
                None \<Rightarrow> (unset (''invalid literal for int() with base 10: '' @ repr_str (tg_port target)), False)
              | Some port \<Rightarrow>
                  let full = (\<lambda>reachable exit_code stderr. report True reachable (tg_host target) (tg_user target) port
                                exit_code stderr [(''target_source'', JStr (tg_source target))])
                  in case ssh [''ssh'', ''-o'', ''BatchMode=yes'', ''-o'', ''ConnectTimeout=5'', ''-p'', tg_port target,
                               tg_user target @ ''@'' @ tg_host target, ''true''] of
                       None \<Rightarrow> (full False (JInt 124) ''ssh connectivity check timed out'', False)
                     | Some (code, out, err) \<Rightarrow> (full (code = 0) (JInt code) (strip err), code = 0)))"

definition doctor_checks :: "node \<Rightarrow> bool \<Rightarrow> (string \<times> bool) list" where
  "doctor_checks n ssh_ok =
     [((utf8_text [0x767B, 0x8BB0, 0x72B6, 0x6001]), nd_status n = ''managed''), ((utf8_text [0x6307, 0x7EB9]), nd_fingerprint n \<noteq> []),
      ((utf8_text [0x4FE1, 0x4EFB, 0x7EA7, 0x522B]), nd_trust_level n \<in> {''A'', ''B'', ''C''}), ((utf8_text [0x6743, 0x9650, 0x5305]), nd_permission_bundles n \<noteq> []),
      ((''SSH '' @ utf8_text [0x8FDE, 0x901A]), ssh_ok)]"

definition doctor_node ::
  "command_runner \<Rightarrow> string option \<Rightarrow> bool \<Rightarrow> int \<Rightarrow> time \<Rightarrow> store \<Rightarrow> unit result \<times> store" where
  "doctor_node ssh node_id no_ssh_check choice now s =
     (case select_managed_node node_id False choice s of
        Inl e \<Rightarrow> (Inl e, s)
      | Inr n \<Rightarrow>
          let (connectivity, ssh_ok) = doctor_ssh ssh no_ssh_check n;
              checks = doctor_checks n ssh_ok;
              ok = list_all snd checks
          in (if ok then Inr () else Inl (Exit 1),
              record_audit ''node'' ''node'' (nd_node_id n) ''doctor'' (if ok then ''ok'' else ''warn'')
                [(''checks'', JObj (map (\<lambda>(name, b). (name, JBool b)) checks)), (''ssh_connectivity'', JObj connectivity)] now s))"

section \<open>Tasks\<close>

datatype task_outcome = ApprovalFiled approval_request | TaskQueued task | TaskRan task

definition card_payload :: "approval_card \<Rightarrow> dict" where
  "card_payload c =
     [(''text'', JStr (ac_text c)),
      (''buttons'', JList (map (\<lambda>(label, data). JObj [(''text'', JStr label), (''callback_data'', JStr data)]) (ac_buttons c)))]"

text \<open>Filing an approval ends the command with status 1 as well.\<close>

definition create_task_command ::
  "command_runner \<Rightarrow> string \<Rightarrow> string option \<Rightarrow> string \<Rightarrow> string arg \<Rightarrow> bool arg \<Rightarrow> int \<Rightarrow> int
    \<Rightarrow> (nat \<Rightarrow> string) \<Rightarrow> (nat \<Rightarrow> time) \<Rightarrow> store \<Rightarrow> task_outcome result \<times> store" where
  "create_task_command ssh command node_id risk executor0 wait choice duration_ms uid clk s =
     (case select_managed_node node_id False choice s of
        Inl e \<Rightarrow> (Inl e, s)
      | Inr n \<Rightarrow>
          (case executor0 of
             OptionInfo \<Rightarrow> (Inl (Exit 1), s)
           | Given executor \<Rightarrow>
               if executor \<notin> {''worker'', ''ssh''} then (Inl (Exit 1), s)
               else if flag_on wait \<and> executor \<noteq> ''ssh'' then (Inl (Exit 1), s)
               else if risk \<in> {''high'', ''critical''}
               then let (approval, s1) = create_approval_request ''task'' ''pending-task'' ''task.run'' risk ''hmn''
                           [(''node_id'', JStr (nd_node_id n)), (''command'', JStr command), (''risk'', JStr risk),
                            (''executor'', JStr executor), (''created_by'', JStr ''hmn'')] (uid 0) clk s
                    in case enqueue_notification ''telegram'' ''approval'' (ap_approval_id approval)
                              (card_payload (build_approval_card approval)) (uid 1) (clk 2) s1 of
                         (Inl e, s2) \<Rightarrow> (Inl e, s2)
                       | (Inr _, s2) \<Rightarrow> (Inr (ApprovalFiled approval), s2)
               else if risk \<notin> {''low'', ''medium''} then (Inl (Exit 1), s)
               else let (t, s1) = create_task (nd_node_id n) command risk ''hmn'' executor (uid 0) clk s
                    in if \<not> flag_on wait then (Inr (TaskQueued t), s1)
                       else case run_ssh_task ssh (tk_task_id t) [] duration_ms (\<lambda>k. clk (k + 2)) s1 of
                           (Inl (SSHExecutionError _ _ _), s2) \<Rightarrow> (Inl (Exit 1), s2)
                         | (Inl e, s2) \<Rightarrow> (Inl e, s2)
                         | (Inr finished, s2) \<Rightarrow> (Inr (TaskRan finished), s2)))"

definition ALL_RISKS :: "string list" where
  "ALL_RISKS = [''low'', ''medium'', ''high'', ''critical'']"

text \<open>The oldest pending task for SSH; among equally old ones the first of the listing.\<close>

definition next_ssh_task :: "store \<Rightarrow> task option" where
  "next_ssh_task s =
     (case order_by tk_created_at (filter (\<lambda>t. tk_executor t = ''ssh'' \<and> tk_status t = ''pending'') (list_tasks s)) of
        [] \<Rightarrow> None | t # _ \<Rightarrow> Some t)"

text \<open>\<open>text.strip()[:240].rstrip("\n")\<close>\<close>

definition head_of_output :: "string \<Rightarrow> string" where
  "head_of_output out = rstrip_chars [CHR 0x0A] (concat (take 240 (utf8_split (strip out))))"

definition ssh_run_audit :: "string \<Rightarrow> string \<Rightarrow> dict \<Rightarrow> time \<Rightarrow> store \<Rightarrow> store" where
  "ssh_run_audit subject outcome details now s = record_audit ''task'' ''task'' subject ''ssh-run-next'' outcome details now s"

definition ssh_run_details :: "task \<Rightarrow> string \<Rightarrow> json \<Rightarrow> int \<Rightarrow> string \<Rightarrow> string \<Rightarrow> string \<Rightarrow> dict" where
  "ssh_run_details t status exit_code duration_ms stdout stderr reason =
     [(''task_id'', JStr (tk_task_id t)), (''node_id'', JStr (tk_node_id t)), (''status'', JStr status),
      (''exit_code'', exit_code), (''duration_ms'', JInt duration_ms), (''stdout_preview'', JStr (head_of_output stdout)),
      (''stderr_preview'', JStr (head_of_output stderr)), (''failure_reason'', JStr reason)]"

text \<open>What the failed run wrote, which the exception carries: the answer of \<open>ssh\<close> again.\<close>

definition ssh_stdout :: "command_runner \<Rightarrow> string \<Rightarrow> store \<Rightarrow> string" where
  "ssh_stdout ssh task_id s =
     (case ssh_preflight task_id ALL_RISKS s of
        Inl _ \<Rightarrow> []
      | Inr (t, target) \<Rightarrow> (case ssh (ssh_command target t) of None \<Rightarrow> [] | Some (code, out, err) \<Rightarrow> out))"

definition ssh_run_next ::
  "command_runner \<Rightarrow> (int \<Rightarrow> int) \<Rightarrow> int \<Rightarrow> (nat \<Rightarrow> time) \<Rightarrow> store \<Rightarrow> task result \<times> store" where
  "ssh_run_next ssh to_ms duration_ms clk s =
     (case next_ssh_task s of
        None \<Rightarrow> (Inl (Exit 1), ssh_run_audit ''ssh-run-next'' ''empty'' [(''pending_ssh_tasks'', JInt 0)] (clk 0) s)
      | Some t \<Rightarrow>
          (case run_ssh_task ssh (tk_task_id t) ALL_RISKS duration_ms clk s of
             (Inl (SSHExecutionError _ code stderr), s1) \<Rightarrow>
               (Inl (Exit 1),
                ssh_run_audit (tk_task_id t) ''failed''
                  (ssh_run_details t ''failed'' (JInt code) (max 0 duration_ms) (ssh_stdout ssh (tk_task_id t) s) stderr
                     (classify_ssh_failure code stderr)) (clk 3) s1)
           | (Inl e, s1) \<Rightarrow> (Inl e, s1)
           | (Inr d, s1) \<Rightarrow>
               let or_created = (\<lambda>x. case x of Some i \<Rightarrow> i | None \<Rightarrow> tk_created_at d)
               in (Inr d,
                   ssh_run_audit (tk_task_id d) ''ok''
                     (ssh_run_details d (tk_status d) (case tk_exit_code d of None \<Rightarrow> JNull | Some c \<Rightarrow> JInt c)
                        (max 0 (to_ms (or_created (tk_completed_at d) - or_created (tk_started_at d))))
                        (tk_stdout d) (tk_stderr d) ''none'') (clk 3) s1)))"

section \<open>Approvals\<close>

datatype approve_outcome = Recorded | TaskCreated task | TagsUpdated | AclApplied | ComponentDone component_run

definition exit_on_network_error :: "exn \<Rightarrow> exn" where
  "exit_on_network_error e = (case e of NetworkProviderError _ \<Rightarrow> Exit 1 | _ \<Rightarrow> e)"

definition approve_approval ::
  "(string \<Rightarrow> string) \<Rightarrow> (string \<Rightarrow> string) \<Rightarrow> acl_host \<Rightarrow> (string \<Rightarrow> string list \<Rightarrow> string option) \<Rightarrow> string
    \<Rightarrow> string \<Rightarrow> string \<Rightarrow> (nat \<Rightarrow> string) \<Rightarrow> (nat \<Rightarrow> time) \<Rightarrow> files \<times> store \<Rightarrow> approve_outcome result \<times> files \<times> store" where
  "approve_approval sha256 expand shell set_tags provider_name approval_id who uid clk st =
     (let (fs, s) = st
      in case resolve_approval_request approval_id ''approved'' who (uid 0) clk s of
           (Inl e, s1) \<Rightarrow> (Inl e, fs, s1)
         | (Inr None, s1) \<Rightarrow> (Inl (Exit 1), fs, s1)
         | (Inr (Some a), s1) \<Rightarrow>
             if ap_subject_type a = ''task'' \<and> ap_action a = ''task.run''
             then (case dispatch_approved_task_request (ap_approval_id a) (uid 1) (\<lambda>k. clk (k + 4)) s1 of
                     (Inl e, s2) \<Rightarrow> (Inl e, fs, s2)
                   | (Inr None, s2) \<Rightarrow> (Inl (Exit 1), fs, s2)
                   | (Inr (Some t), s2) \<Rightarrow> (Inr (TaskCreated t), fs, s2))
             else if ap_subject_type a = ''network_node'' \<and> ap_action a = ''network.tags.set''
             then (case dispatch_approved_network_tag_update set_tags provider_name (ap_approval_id a) (clk 4) s1 of
                     (Inl e, s2) \<Rightarrow> (Inl (exit_on_network_error e), fs, s2)
                   | (Inr ok, s2) \<Rightarrow> (if ok then Inr TagsUpdated else Inl (Exit 1), fs, s2))
             else if ap_subject_type a = ''network_acl'' \<and> ap_action a = ''network.acl.apply''
             then (case dispatch_approved_network_acl_apply sha256 expand shell (ap_approval_id a) (clk 4) (fs, s1) of
                     (Inl e, st2) \<Rightarrow> (Inl (exit_on_network_error e), st2)
                   | (Inr ok, st2) \<Rightarrow> (if ok then Inr AclApplied else Inl (Exit 1), st2))
             else if ap_subject_type a = ''component_run'' \<and> startswith (ap_action a) ''component.''
             then (case dispatch_approved_component_action (ap_approval_id a) (\<lambda>k. clk (k + 4)) s1 of
                     (None, s2) \<Rightarrow> (Inl (Exit 1), fs, s2)
                   | (Some r, s2) \<Rightarrow> (Inr (ComponentDone r), fs, s2))
             else (Inr Recorded, fs, s1))"

text \<open>The line that is printed names the request, not its status.\<close>

definition reject_approval ::
  "string \<Rightarrow> string \<Rightarrow> string \<Rightarrow> (nat \<Rightarrow> time) \<Rightarrow> store \<Rightarrow> string result \<times> store" where
  "reject_approval approval_id who uid clk s =
     (case resolve_approval_request approval_id ''rejected'' who uid clk s of
        (Inl e, s1) \<Rightarrow> (Inl e, s1)
      | (Inr None, s1) \<Rightarrow> (Inl (Exit 1), s1)
      | (Inr (Some a), s1) \<Rightarrow> (Inr (''rejected: '' @ ap_approval_id a), s1))"

section \<open>The menu\<close>

datatype menu_action =
    MWake | MNodeList | MNodeConfirm | MNodeStatus | MNodeDoctor | MHeartbeatCommand | MInstallHeartbeat | MWorkerStatus
  | MNetworkStatus | MNetworkSync | MPreauthKey | MNodeTags | MTaskRun | MTaskList | MComponentList | MComponentStatus
  | MComponentApply | MComponentVerify | MComponentUninstall | MMonitorStatus | MBackupPlan | MBackupRun | MBackupStatus
  | MBackupVerify | MAuditList | MTokenCreate | MTokenList | MTokenExpire | MVersion | MUpdate | MUninstall | MQuit

text \<open>The branches in their order: the first one whose texts hold the answer is taken.\<close>

definition menu_branches :: "(string list \<times> menu_action) list" where
  "menu_branches =
     [([''1'', ''wake'', ''hmn wake''], MWake),
      ([''2'', ''node'', ''nodes'', ''node list'', ''hmn node list''], MNodeList),
      ([''3'', ''confirm'', ''node confirm'', ''hmn node confirm''], MNodeConfirm),
      ([''4'', ''status'', ''node status'', ''hmn node status''], MNodeStatus),
      ([''5'', ''doctor'', ''node doctor'', ''hmn node doctor''], MNodeDoctor),
      ([''6'', ''heartbeat'', ''heartbeat-command'', ''node heartbeat-command'', ''hmn node heartbeat-command''], MHeartbeatCommand),
      ([''7'', ''install-heartbeat'', ''node install-heartbeat'', ''hmn node install-heartbeat''], MInstallHeartbeat),
      ([''8'', ''worker'', ''worker status'', ''node worker-status'', ''hmn node worker-status''], MWorkerStatus),
      ([''9'', ''network'', ''network status'', ''hmn network status''], MNetworkStatus),
      ([''10'', ''network sync'', ''hmn network sync''], MNetworkSync),
      ([''11'', ''network preauth-key'', ''network preauth-key create'', ''hmn network preauth-key create''], MPreauthKey),
      ([''12'', ''network node tags set'', ''hmn network node tags set''], MNodeTags),
      ([''13'', ''task run'', ''hmn task run''], MTaskRun),
      ([''14'', ''task'', ''task list'', ''hmn task list''], MTaskList),
      ([''15'', ''component'', ''component list'', ''hmn component list''], MComponentList),
      ([''component status'', ''hmn component status''], MComponentStatus),
      ([''apply'', ''component apply'', ''hmn component apply''], MComponentApply),
      ([''18'', ''verify'', ''component verify'', ''hmn component verify''], MComponentVerify),
      ([''19'', ''uninstall component'', ''component uninstall'', ''hmn component uninstall''], MComponentUninstall),
      ([''20'', ''21'', ''monitor'', ''monitor status'', ''hmn monitor status''], MMonitorStatus),
      ([''22'', ''backup'', ''backup plan'', ''hmn backup plan''], MBackupPlan),
      ([''23'', ''backup run'', ''hmn backup run''], MBackupRun),
      ([''24'', ''backup status'', ''hmn backup status''], MBackupStatus),
      ([''backup verify'', ''hmn backup verify''], MBackupVerify),
      ([''16'', ''20'', ''26'', ''audit'', ''audit list'', ''hmn audit list''], MAuditList),
      ([''17'', ''21'', ''25'', ''token'', ''token create'', ''hmn token create''], MTokenCreate),
      ([''token list'', ''hmn token list''], MTokenList),
      ([''token expire'', ''hmn token expire''], MTokenExpire),
      ([''22'', ''26'', ''version'', ''hmn version''], MVersion),
      ([''23'', ''27'', ''update'', ''hmn update''], MUpdate),
      ([''24'', ''28'', ''uninstall'', ''hmn uninstall''], MUninstall),
      ([''q'', ''quit'', ''exit''], MQuit)]"

definition menu_choice :: "string \<Rightarrow> menu_action option" where
  "menu_choice answer = map_option snd (List.find (\<lambda>(texts, _). lower (strip answer) \<in> set texts) menu_branches)"

text \<open>\<open>uninstall\<close> as a function of what it is passed, and the two calls of the menu that pass too little.\<close>

definition uninstall_call :: "bool arg \<Rightarrow> bool arg \<Rightarrow> int \<Rightarrow> unit result \<times> string list \<times> string list" where
  "uninstall_call yes keep_data euid = uninstall (flag_on yes) (flag_on keep_data) euid"

definition menu_uninstall :: "int \<Rightarrow> unit result \<times> string list \<times> string list" where
  "menu_uninstall euid = uninstall_call OptionInfo OptionInfo euid"

definition menu_task_run ::
  "command_runner \<Rightarrow> string \<Rightarrow> int \<Rightarrow> int \<Rightarrow> (nat \<Rightarrow> string) \<Rightarrow> (nat \<Rightarrow> time) \<Rightarrow> store \<Rightarrow> task_outcome result \<times> store" where
  "menu_task_run ssh command choice duration_ms uid clk s =
     create_task_command ssh command None ''low'' OptionInfo OptionInfo choice duration_ms uid clk s"

section \<open>Facts\<close>

text \<open>Numbers that the menu shows for a command but an earlier branch takes.\<close>

lemma shadowed_numbers:
  "map menu_choice [''16'', ''17'', ''20'', ''26''] = map Some [MAuditList, MTokenCreate, MMonitorStatus, MAuditList]"
  by code_simp

lemma menu_task_run_fails: "menu_task_run ssh command choice duration_ms uid clk s = (Inl (Exit 1), s)"
  by (auto simp: menu_task_run_def create_task_command_def select_managed_node_def only_or_picked_def pick_def
      split: sum.splits list.splits if_splits)

text \<open>Rejecting a request that is approved changes nothing and is reported as done.\<close>

lemma reject_after_approval:
  assumes "load_approval_request s k = Some a" "ap_status a = ''approved''" "ap_approval_id a = k"
  shows "reject_approval k who uid clk s = (Inr (''rejected: '' @ k), s)"
  using assms by (simp add: reject_approval_def resolve_approval_request_def decide_loaded_def)

text \<open>
  Requests to synchronise documents or monitors, to run a playbook or a backup tool have no dispatcher: approving one
  changes the request and the audit log and nothing else.
\<close>

lemma approved_request_without_dispatcher:
  assumes "load_approval_request s k = Some a" "ap_status a = ''pending''" "ap_approval_id a = k"
    "ap_subject_type a \<in> {''docs_sync'', ''uptime_sync'', ''config_provider'', ''backup_provider''}"
  shows "\<exists>s'. approve_approval sha256 expand shell set_tags provider_name k who uid clk (fs, s) = (Inr Recorded, fs, s')
    \<and> tasks s' = tasks s \<and> nodes s' = nodes s \<and> services s' = services s \<and> component_runs s' = component_runs s"
  using assms
  by (auto simp: approve_approval_def resolve_approval_request_def decide_loaded_def Let_def save_approval_request_def
      record_audit_def insert_audit_event_def)

lemma ssh_run_next_refused:
  assumes "next_ssh_task s = Some t" "load_task s (tk_task_id t) = Some t" "\<not> node_managed s (tk_node_id t)"
  shows "\<exists>m. ssh_run_next ssh to_ms d clk s \<in> {(Inl (ValueError m), s), (Inl (PermissionError m), s)}"
proof -
  have "\<exists>m. ssh_preflight (tk_task_id t) ALL_RISKS s \<in> {Inl (ValueError m), Inl (PermissionError m)}"
    using assms(2,3) by (auto simp: ssh_preflight_def node_managed_def Let_def split: option.splits)
  then show ?thesis using assms(1) by (auto simp: ssh_run_next_def run_ssh_task_def)
qed

section \<open>Properties\<close>

text \<open>C26: where the oldest pending SSH task is for a node that is not managed any more, no SSH task is ever run again:
  every \<open>task ssh-run-next\<close> ends in an exception that is not caught, and any number of runs leaves the store, with every
  pending task in it, as it was.\<close>

theorem ssh_queue_blocked:
  assumes "next_ssh_task s = Some t" and "load_task s (tk_task_id t) = Some t" and "\<not> node_managed s (tk_node_id t)"
  shows "fold (\<lambda>(ssh, to_ms, d, clk) s. snd (ssh_run_next ssh to_ms d clk s)) runs s = s
    \<and> (\<exists>m. fst (ssh_run_next ssh to_ms d clk s) \<in> {Inl (ValueError m), Inl (PermissionError m)})"
proof -
  have same: "snd (ssh_run_next ssh to_ms d clk s) = s" for ssh to_ms d clk
    using ssh_run_next_refused [OF assms] by (metis insertE singletonD snd_conv)
  have "fold (\<lambda>(ssh, to_ms, d, clk) s. snd (ssh_run_next ssh to_ms d clk s)) runs s = s"
    by (induction runs) (auto simp: same)
  moreover have "\<exists>m. fst (ssh_run_next ssh to_ms d clk s) \<in> {Inl (ValueError m), Inl (PermissionError m)}"
    using ssh_run_next_refused [OF assms] by (metis fst_conv insertE insertI1 insertI2 singletonD)
  ultimately show ?thesis ..
qed

text \<open>The node \<open>n1\<close> was revoked after its task was queued; the later task is for a managed node.\<close>

definition blocked_queue :: store where
  "blocked_queue = sample_ssh\<lparr>
     nodes := (new_node ''n0'' ''fp'' ''old'' [''10.0.0.8''] ''A'' [])\<lparr>nd_status := ''revoked''\<rparr> # nodes sample_ssh,
     tasks := new_task ''t1'' ''n0'' ''uptime'' ''low'' ''hmn'' ''ssh'' 5 # tasks sample_ssh\<rparr>"

lemma ssh_queue_blocked_witness:
  "fold (\<lambda>(ssh, to_ms, d, clk) s. snd (ssh_run_next ssh to_ms d clk s))
     [(\<lambda>_. Some (0, [], []), \<lambda>i. i div 1000, 0, \<lambda>_. 20), (\<lambda>_. None, \<lambda>i. i div 1000, 0, \<lambda>_. 30)] blocked_queue = blocked_queue"
proof -
  let ?t = "new_task ''t1'' ''n0'' ''uptime'' ''low'' ''hmn'' ''ssh'' 5"
  have a: "next_ssh_task blocked_queue = Some ?t" by code_simp
  have b: "load_task blocked_queue (tk_task_id ?t) = Some ?t" by code_simp
  have "load_node blocked_queue (tk_node_id ?t) = Some ((new_node ''n0'' ''fp'' ''old'' [''10.0.0.8''] ''A'' [])\<lparr>nd_status := ''revoked''\<rparr>)"
    by code_simp
  then have "\<not> node_managed blocked_queue (tk_node_id ?t)" by (simp add: node_managed_def new_node_def)
  from ssh_queue_blocked [OF a b this] show ?thesis by blast
qed

text \<open>The menu removes the master without asking: \<open>28\<close>, \<open>uninstall\<close> and \<open>hmn uninstall\<close> call the command without its
  options, so the description of \<open>--yes\<close> passes for a yes, and as root all its commands run; \<open>hmn uninstall\<close> itself
  runs nothing without \<open>--yes\<close>.\<close>

theorem menu_uninstalls_without_asking:
  "map menu_choice [''28'', '' Uninstall'', ''hmn uninstall''] = [Some MUninstall, Some MUninstall, Some MUninstall]
   \<and> snd (snd (menu_uninstall 0)) = uninstall_commands True
   \<and> ''rm -rf /opt/hermes-managed-network'' \<in> set (snd (snd (menu_uninstall 0)))
   \<and> snd (snd (uninstall_call (Given False) keep_data euid)) = []"
proof (intro conjI)
  show "map menu_choice [''28'', '' Uninstall'', ''hmn uninstall''] = [Some MUninstall, Some MUninstall, Some MUninstall]"
    by code_simp
  show commands: "snd (snd (menu_uninstall 0)) = uninstall_commands True"
    by (simp add: menu_uninstall_def uninstall_call_def uninstall_def Let_def)
  show "''rm -rf /opt/hermes-managed-network'' \<in> set (snd (snd (menu_uninstall 0)))"
    unfolding commands by (simp add: uninstall_commands_def)
  show "snd (snd (uninstall_call (Given False) keep_data euid)) = []"
    by (simp add: uninstall_call_def uninstall_def Let_def)
qed

end
