(* ===== verification/Heartbeats.thy ===== *)
theory Heartbeats imports Commands Installers WebText begin

text \<open>
  Commands of \<open>cli.py\<close> about the worker of a node: the command that sends one heartbeat, \<open>node worker-status\<close>, the
  rendered installer and uninstaller of the worker, and the rotation of a fingerprint.  \<open>default_url\<close> is what
  \<open>default_master_url\<close> answers; \<open>drawn\<close> is the hexadecimal digest of the drawn bytes.
\<close>

section \<open>One heartbeat\<close>

definition master_url_of :: "string option \<Rightarrow> string result \<Rightarrow> string result" where
  "master_url_of given default_url =
     bind_result (case given of Some u \<Rightarrow> if u \<noteq> [] then Inr u else default_url | None \<Rightarrow> default_url)
       (\<lambda>u. Inr (rstrip_chars ''/'' u))"

definition heartbeat_command :: "string option \<Rightarrow> string option \<Rightarrow> string result \<Rightarrow> int \<Rightarrow> store \<Rightarrow> string list result" where
  "heartbeat_command node_id master_url default_url choice s =
     bind_result (select_managed_node node_id False choice s) (\<lambda>n.
     bind_result (master_url_of master_url default_url) (\<lambda>url.
       Inr [(utf8_text [0x8BF7, 0x628A, 0x4E0B, 0x9762, 0x547D, 0x4EE4, 0x653E, 0x5230, 0x8282, 0x70B9, 0x5B9A, 0x65F6, 0x4EFB, 0x52A1, 0x91CC, 0x6267, 0x884C, 0xFF1A]),
            ''curl -fsS -X POST '' @ shell_quote (url @ ''/api/v1/nodes/'' @ nd_node_id n @ ''/heartbeat'')
              @ ('' -H 'Content-Type: application/json' --data '')
              @ shell_quote (json_dumps (JObj [(''fingerprint'', JStr (nd_fingerprint n)), (''status'', JStr ''ok''),
                                               (''facts'', JObj [])]))]))"

section \<open>The state of a worker\<close>

text \<open>The parts of the report that do not depend on the clock.\<close>

record worker_view =
  wv_event :: "audit_event option"
  wv_compatible :: bool
  wv_protocol :: json
  wv_version :: json
  wv_mode :: string
  wv_policy :: string
  wv_os :: string
  wv_exec :: bool
  wv_runtime :: dict

definition worker_view_of :: "store \<Rightarrow> string \<Rightarrow> worker_view" where
  "worker_view_of s node_id =
     (let event = latest_heartbeat_event s node_id;
          facts = heartbeat_facts event;
          runtime = runtime_summary_from_facts facts
      in \<lparr>wv_event = event,
          wv_compatible = (case event of None \<Rightarrow> False
                           | Some e \<Rightarrow> truthy (dget_or (ev_details e) ''worker_compatible'' (JBool True))),
          wv_protocol = py_or (dget facts ''worker_protocol_version'') (JStr ''unknown''),
          wv_version = py_or (dget facts ''worker_version'') (JStr ''unknown''),
          wv_mode = str_or (dget facts ''worker_mode'') ''unknown'',
          wv_policy = str_or (dget facts ''task_policy'')
            (if truthy (dget runtime ''can_poll_tasks'') then ''poll-and-exec'' else ''heartbeat-only''),
          wv_os = str_or (py_or (dget facts ''os_release'') (py_or (dget facts ''os'') (dget facts ''platform''))) ''unknown'',
          wv_exec = truthy (dget_or facts ''exec_enabled'' (JBool False)),
          wv_runtime = runtime\<rparr>)"

definition worker_ok :: "worker_view \<Rightarrow> bool" where
  "worker_ok w \<longleftrightarrow> (case wv_event w of None \<Rightarrow> False | Some e \<Rightarrow> ev_outcome e = ''ok'') \<and> wv_compatible w"

definition worker_lines :: "node \<Rightarrow> worker_view \<Rightarrow> liveness \<Rightarrow> ssh_summary \<Rightarrow> string list" where
  "worker_lines n w live ssh =
     [''worker: '' @ nd_node_id n, ''host: '' @ nd_hostname n, ''liveness: '' @ lv_state live]
     @ (case wv_event w of
          None \<Rightarrow> [(utf8_text [0x5FC3, 0x8DF3] @ '': WARN '' @ utf8_text [0x672A, 0x6536, 0x5230]), (''worker: WARN '' @ utf8_text [0x672A, 0x5B89, 0x88C5, 0x6216, 0x672A, 0x4E0A, 0x62A5])]
        | Some e \<Rightarrow> [(utf8_text [0x5FC3, 0x8DF3] @ '': '') @ (if ev_outcome e = ''ok'' then ''OK'' else ''WARN'') @ '' '' @ isoformat (ev_created_at e),
                     ''worker: OK installed/reported''])
     @ [if wv_compatible w then (utf8_text [0x534F, 0x8BAE] @ '': OK '') @ py_str (wv_protocol w) else (utf8_text [0x534F, 0x8BAE] @ '': WARN '') @ py_str (wv_protocol w) @ '' incompatible'',
        (utf8_text [0x7248, 0x672C] @ '': '') @ py_str (wv_version w), (utf8_text [0x7CFB, 0x7EDF] @ '': '') @ wv_os w,
        ''runtime: '' @ py_str (dget (wv_runtime w) ''runtime_profile''),
        ''service_manager: '' @ py_str (dget (wv_runtime w) ''service_manager''),
        ''worker_mode: '' @ wv_mode w, ''task_policy: '' @ wv_policy w,
        ''ssh: '' @ ss_summary ssh, ''ssh_reason: '' @ ss_reason ssh,
        if wv_exec w then (utf8_text [0x6267, 0x884C] @ '': ENABLED HMN_ENABLE_EXEC=1'') else (utf8_text [0x6267, 0x884C] @ '': SAFE HMN_ENABLE_EXEC=0'')]
     @ (if dget (wv_runtime w) ''service_manager'' \<noteq> JStr (manager_text WINDOWS_TASK) then []
        else if truthy (dget (wv_runtime w) ''can_poll_tasks'')
        then [(''Windows '' @ utf8_text [0x8BF4, 0x660E] @ '': '' @ utf8_text [0x5F53, 0x524D, 0x4E3A] @ '' Task Scheduler worker '' @ utf8_text [0x6A21, 0x5F0F, 0xFF0C, 0x53EF, 0x8F6E, 0x8BE2, 0x7B7E, 0x540D, 0x4EFB, 0x52A1, 0xFF1B, 0x9ED8, 0x8BA4, 0x4ECD, 0x4FDD, 0x6301] @ '' HMN_ENABLE_EXEC=0'' @ utf8_text [0x3002])]
        else [(''Windows '' @ utf8_text [0x8BF4, 0x660E] @ '': '' @ utf8_text [0x5F53, 0x524D, 0x4E3A] @ '' Task Scheduler '' @ utf8_text [0x5FC3, 0x8DF3, 0x6A21, 0x5F0F, 0xFF0C, 0x4E0D, 0x4F1A, 0x6267, 0x884C, 0x8FDC, 0x7A0B, 0x4E0B, 0x53D1, 0x547D, 0x4EE4, 0x3002])])"

definition liveness_dict :: "liveness \<Rightarrow> dict" where
  "liveness_dict l =
     [(''state'', JStr (lv_state l)), (''reason'', JStr (lv_reason l)), (''last_heartbeat'', JStr (lv_last_heartbeat l)),
      (''age_seconds'', case lv_age_seconds l of None \<Rightarrow> JNull | Some a \<Rightarrow> JInt a)]"

text \<open>\<open>clk 0\<close> is the time the liveness is judged at; the command ends with status 1 where the worker is not well.\<close>

definition worker_status ::
  "string option \<Rightarrow> int \<Rightarrow> (nat \<Rightarrow> time) \<Rightarrow> store \<Rightarrow> unit result \<times> string list \<times> store" where
  "worker_status node_id choice clk s =
     (case select_managed_node node_id False choice s of
        Inl e \<Rightarrow> (Inl e, [], s)
      | Inr n \<Rightarrow>
          let w = worker_view_of s (nd_node_id n);
              connectivity = latest_doctor_ssh_connectivity s (nd_node_id n);
              live = node_liveness s (nd_node_id n) (clk 0)
          in case summarize_ssh_connectivity connectivity of
               Inl e \<Rightarrow> (Inl e, [], s)
             | Inr ssh \<Rightarrow>
                 (if worker_ok w then Inr () else Inl (Exit 1), worker_lines n w live ssh,
                  record_liveness_audit (nd_node_id n) live (clk 2)
                    (record_audit ''node'' ''node'' (nd_node_id n) ''worker-status'' (if worker_ok w then ''ok'' else ''warn'')
                      (dmerge [(''heartbeat_seen'', JBool (wv_event w \<noteq> None)), (''worker_protocol_version'', wv_protocol w),
                               (''worker_mode'', JStr (wv_mode w)), (''task_policy'', JStr (wv_policy w)), (''os'', JStr (wv_os w)),
                               (''worker_compatible'', JBool (wv_compatible w)), (''exec_enabled'', JBool (wv_exec w)),
                               (''liveness'', JObj (liveness_dict live)),
                               (''ssh_connectivity'', JObj (case connectivity of None \<Rightarrow> [] | Some d \<Rightarrow> d)),
                               (''ssh_reason'', JStr (ss_reason ssh))] (wv_runtime w))
                      (clk 1) s)))"

section \<open>Installing and removing a worker\<close>

definition lines_of :: "string list \<Rightarrow> string" where
  "lines_of ls = join_with [CHR 0x0A] ls"

definition digit_flag :: "bool \<Rightarrow> string" where
  "digit_flag b = (if b then ''1'' else ''0'')"

definition windows_worker_installer ::
  "node \<Rightarrow> string \<Rightarrow> string \<Rightarrow> bool \<Rightarrow> runtime_profile \<Rightarrow> string" where
  "windows_worker_installer n url endpoint_csv beacon_only runtime =
     lines_of
       [(''$master = '' @ [CHR 0x27] @ url @ [CHR 0x27]), (''$endpointCsv = '' @ [CHR 0x27] @ endpoint_csv @ [CHR 0x27]), (''$nodeId = '' @ [CHR 0x27] @ nd_node_id n @ [CHR 0x27]),
        (''$fingerprint = '' @ [CHR 0x27] @ nd_fingerprint n @ [CHR 0x27]), (''$baseDir = '' @ [CHR 0x22] @ ''C:'' @ [CHR 0x5C] @ ''ProgramData'' @ [CHR 0x5C]
       @ ''HermesManagedNetwork'' @ [CHR 0x22]),
        (''$workerPath = 'C:'' @ [CHR 0x5C] @ ''ProgramData'' @ [CHR 0x5C] @ ''HermesManagedNetwork''
       @ [CHR 0x5C] @ ''hmn-worker.ps1'' @ [CHR 0x27]),
        (''$envPath = 'C:'' @ [CHR 0x5C] @ ''ProgramData'' @ [CHR 0x5C] @ ''HermesManagedNetwork'' @ [CHR 0x5C]
       @ ''node.env.ps1'' @ [CHR 0x27]),
        (''$urls = @($endpointCsv -split '' @ [CHR 0x22] @ '','' @ [CHR 0x22] @ '' | ForEach-Object ''
       @ [CHR 0x7B] @ '' $_.TrimEnd('' @ [CHR 0x22] @ ''/'' @ [CHR 0x22] @ '') '' @ [CHR 0x7D]
       @ '' | Where-Object '' @ [CHR 0x7B] @ '' $_ '' @ [CHR 0x7D] @ '')''),
        (''New-Item -ItemType Directory -Force -Path $baseDir | Out-Null''), (''$envLines = @(''),
        (''  '' @ [CHR 0x22] @ ''$env:HERMES_MASTER_URL=$master'' @ [CHR 0x22]), (''  '' @ [CHR 0x22] @ ''$env:HMN_MASTER_URLS=$($urls -join '' @ [CHR 0x22] @ '','' @ [CHR 0x22] @ '')''
       @ [CHR 0x22]),
        (''  '' @ [CHR 0x22] @ ''$env:HERMES_NODE_ID=$nodeId'' @ [CHR 0x22]), (''  '' @ [CHR 0x22] @ ''$env:HERMES_NODE_FINGERPRINT=$fingerprint'' @ [CHR 0x22]),
        (''  '' @ [CHR 0x22] @ ''$env:HMN_ENABLE_EXEC=''
       @ digit_flag (runtime = FULL_WORKER \<and> \<not> beacon_only) @ [CHR 0x22]),
        (''  '' @ [CHR 0x22] @ ''$env:HMN_WORKER_MODE='' @ (if beacon_only then ''beacon'' else ''worker'')
       @ [CHR 0x22]),
        (''  '' @ [CHR 0x22] @ ''$env:HMN_BEACON_ONLY='' @ digit_flag beacon_only @ [CHR 0x22]), (''  '' @ [CHR 0x22] @ ''$env:HERMES_AUTO_CONFIRM='' @ digit_flag (\<not> beacon_only) @ [CHR 0x22]),
        ('')''), (''Set-Content -Path $envPath -Value $envLines -Encoding UTF8''),
        (''Invoke-WebRequest -UseBasicParsing -Uri '' @ [CHR 0x22] @ url @ ''/scripts/worker-windows.ps1''
       @ [CHR 0x22] @ '' -OutFile $workerPath''),
        (''$taskName = '' @ [CHR 0x22] @ ''HermesManagedNetworkHeartbeat'' @ [CHR 0x22]),
        (''$taskCommand = '' @ [CHR 0x22] @ ''powershell.exe -NoProfile -ExecutionPolicy Bypass -File `''
       @ [CHR 0x22] @ ''$workerPath`'' @ [CHR 0x22] @ [CHR 0x22]),
        (''schtasks /Create /SC MINUTE /MO 1 /TN $taskName /TR $taskCommand /RU SYSTEM /RL HIGHEST /F | Out-Null''),
        (''schtasks /Run /TN $taskName | Out-Null''),
        (''# '' @ utf8_text [0x5F53, 0x524D] @ '' Windows '' @ utf8_text [0x5148, 0x8D70] @ '' heartbeat/beacon '' @ utf8_text [0x6A21, 0x5F0F, 0xFF1B, 0x4E0D, 0x6267, 0x884C, 0x4E0B, 0x53D1] @ '' shell '' @ utf8_text [0x4EFB, 0x52A1])]"

definition posix_worker_installer ::
  "node \<Rightarrow> string \<Rightarrow> string \<Rightarrow> service_manager \<Rightarrow> bool \<Rightarrow> runtime_profile \<Rightarrow> string" where
  "posix_worker_installer n url endpoint_csv manager beacon_only runtime =
     lines_of
       [(''set -eu''), (''install -d -m 0700 /etc/hermes-managed-network''),
        (''cat >/etc/hermes-managed-network/node.env <<'EOF'' @ [CHR 0x27]), (''HERMES_MASTER_URL='' @ url), (''HMN_MASTER_URLS='' @ endpoint_csv),
        (''HERMES_NODE_ID='' @ nd_node_id n), (''HERMES_NODE_FINGERPRINT='' @ nd_fingerprint n), (''HMN_ENABLE_EXEC=0''),
        if beacon_only then lines_of [''HMN_WORKER_MODE=beacon'', ''HMN_BEACON_ONLY=1''] else [],
        (''EOF''), (''chmod 0600 /etc/hermes-managed-network/node.env''),
        (''curl -fsSL '' @ url @ ''/scripts/''
       @ (if runtime = LITE_WORKER then ''worker-lite.sh'' else ''worker.sh'')
       @ '' -o /usr/local/bin/hmn-worker''),
        (''chmod 0755 /usr/local/bin/hmn-worker''),
        render_for_manager manager ''/usr/local/bin/hmn-worker'']"

definition render_worker_installer ::
  "node \<Rightarrow> string \<Rightarrow> service_manager \<Rightarrow> bool \<Rightarrow> runtime_profile \<Rightarrow> string list \<Rightarrow> string" where
  "render_worker_installer n master_url manager beacon_only runtime endpoints =
     (let url = rstrip_chars ''/'' master_url;
          given = map (rstrip_chars ''/'') (filter (\<lambda>e. strip e \<noteq> []) endpoints);
          endpoint_csv = join_with '','' (if given = [] then [url] else given)
      in if manager = WINDOWS_TASK then windows_worker_installer n url endpoint_csv beacon_only runtime
         else ''sudo '' @ (if runtime = LITE_WORKER then ''sh'' else ''bash'') @ '' -c ''
              @ shell_quote (posix_worker_installer n url endpoint_csv manager beacon_only runtime))"

text \<open>\<open>beacon_only\<close> is not passed by the menu, nor is the runtime, whose value does not matter then.\<close>

definition install_heartbeat ::
  "string option \<Rightarrow> string option \<Rightarrow> string list arg \<Rightarrow> runtime_profile \<Rightarrow> service_manager \<Rightarrow> bool arg \<Rightarrow> string result
    \<Rightarrow> int \<Rightarrow> time \<Rightarrow> store \<Rightarrow> string list result \<times> store" where
  "install_heartbeat node_id master_url endpoint runtime manager beacon_only default_url choice now s =
     (case bind_result (select_managed_node node_id False choice s) (\<lambda>n.
             bind_result (master_url_of master_url default_url) (\<lambda>url. Inr (n, url))) of
        Inl e \<Rightarrow> (Inl e, s)
      | Inr (n, url) \<Rightarrow>
          let runtime_value = (if flag_on beacon_only then BEACON_ONLY else runtime);
              given = (case endpoint of Given es \<Rightarrow> es | OptionInfo \<Rightarrow> []);
              endpoints = map (rstrip_chars ''/'') (filter (\<lambda>e. strip e \<noteq> []) given)
          in (Inr ([(utf8_text [0x8BF7, 0x590D, 0x5236, 0x4E0B, 0x9762, 0x547D, 0x4EE4, 0x5230, 0x76EE, 0x6807, 0x8282, 0x70B9, 0x6267, 0x884C, 0xFF0C, 0x5B83, 0x4F1A, 0x5B89, 0x88C5, 0x5FC3, 0x8DF3] @ ''/worker '' @ utf8_text [0x5B9A, 0x65F6, 0x5668, 0xFF1A]),
                    if flag_on beacon_only then (''beacon-only '' @ utf8_text [0x6A21, 0x5F0F, 0xFF1A, 0x53EA] @ '' heartbeat'' @ utf8_text [0xFF0C, 0x4E0D, 0x4F1A] @ '' poll tasks'' @ utf8_text [0xFF0C, 0x4E0D, 0x4F1A, 0x6267, 0x884C, 0x547D, 0x4EE4, 0x3002])
                    else (utf8_text [0x9ED8, 0x8BA4, 0x5B89, 0x5168, 0x6A21, 0x5F0F, 0xFF1A] @ ''HMN_ENABLE_EXEC=0'' @ utf8_text [0xFF0C, 0x4E0D, 0x4F1A, 0x6267, 0x884C, 0x4E0B, 0x53D1] @ '' shell '' @ utf8_text [0x547D, 0x4EE4, 0x3002]),
                    ''runtime='' @ runtime_text runtime_value, ''service_manager='' @ manager_text manager]
                   @ (if endpoints \<noteq> [] then [''endpoint fallback: '' @ join_with '' -> '' endpoints] else [])
                   @ [render_worker_installer n url manager (flag_on beacon_only) runtime_value endpoints]),
              record_audit ''node'' ''node'' (nd_node_id n) ''install-heartbeat'' ''rendered''
                [(''master_url'', JStr url), (''service_manager'', JStr (manager_text manager)), (''enable_exec'', JBool False),
                 (''runtime'', JStr (runtime_text runtime_value)),
                 (''endpoints'', JList (map JStr (if endpoints \<noteq> [] then endpoints else [url])))] now s))"

definition menu_install_heartbeat :: "string result \<Rightarrow> int \<Rightarrow> time \<Rightarrow> store \<Rightarrow> string list result \<times> store" where
  "menu_install_heartbeat default_url choice now s =
     install_heartbeat None None (Given []) FULL_WORKER SYSTEMD OptionInfo default_url choice now s"

text \<open>The manager that the facts suggest is always one that exists.\<close>

definition detect_service_manager_from_node :: "store \<Rightarrow> string \<Rightarrow> service_manager" where
  "detect_service_manager_from_node s node_id =
     (let runtime = runtime_summary_from_facts
            (case latest_heartbeat_event s node_id of None \<Rightarrow> []
             | Some e \<Rightarrow> (case as_dict (dget_or (ev_details e) ''facts'' (JObj [])) of Some d \<Rightarrow> d | None \<Rightarrow> []));
          is_dict = (case latest_heartbeat_event s node_id of None \<Rightarrow> True
                     | Some e \<Rightarrow> as_dict (dget_or (ev_details e) ''facts'' (JObj [])) \<noteq> None)
      in if \<not> is_dict then SYSTEMD
         else case manager_of_text (str_or (dget runtime ''service_manager'') (manager_text SYSTEMD)) of
           Inr m \<Rightarrow> m
         | Inl _ \<Rightarrow> SYSTEMD)"

definition render_worker_uninstaller :: "service_manager \<Rightarrow> string" where
  "render_worker_uninstaller manager =
     (case manager of
        WINDOWS_TASK \<Rightarrow> render_windows_task_uninstaller (''C:'' @ [CHR 0x5C] @ ''ProgramData'' @ [CHR 0x5C] @ ''HermesManagedNetwork'')
      | SYSTEMD \<Rightarrow> ''sudo bash -c '' @ shell_quote (lines_of
          [(''set -eu''), (''systemctl disable --now hermes-managed-network-heartbeat.timer 2>/dev/null || true''),
           (''rm -f /etc/systemd/system/hermes-managed-network-heartbeat.timer''),
           (''rm -f /etc/systemd/system/hermes-managed-network-heartbeat.service''), (''rm -f /usr/local/bin/hmn-worker''),
           (''rm -rf /etc/hermes-managed-network''), (''systemctl daemon-reload''), []])
      | CRON \<Rightarrow> ''sudo sh -c '' @ shell_quote (lines_of
          [(''set -eu''), (''tmp=$(mktemp)''), (''crontab -l 2>/dev/null | grep -v '/usr/local/bin/hmn-worker' >'' @ [CHR 0x22] @ ''$tmp'' @ [CHR 0x22]
       @ '' || true''),
           (''crontab '' @ [CHR 0x22] @ ''$tmp'' @ [CHR 0x22]), (''rm -f '' @ [CHR 0x22] @ ''$tmp'' @ [CHR 0x22] @ '' /usr/local/bin/hmn-worker''), (''rm -rf /etc/hermes-managed-network''), []])
      | _ \<Rightarrow> (''# '' @ utf8_text [0x5F53, 0x524D] @ '' service_manager '' @ utf8_text [0x6682, 0x65E0, 0x4E13, 0x7528, 0x5378, 0x8F7D, 0x6A21, 0x677F, 0xFF0C, 0x8BF7, 0x624B, 0x52A8, 0x79FB, 0x9664] @ '' worker/env/'' @ utf8_text [0x5B9A, 0x65F6, 0x4EFB, 0x52A1, 0x3002]))"

definition uninstall_heartbeat ::
  "string option \<Rightarrow> service_manager option \<Rightarrow> int \<Rightarrow> time \<Rightarrow> store \<Rightarrow> string list result \<times> store" where
  "uninstall_heartbeat node_id given choice now s =
     (case select_managed_node node_id False choice s of
        Inl e \<Rightarrow> (Inl e, s)
      | Inr n \<Rightarrow>
          let manager = (case given of Some m \<Rightarrow> m | None \<Rightarrow> detect_service_manager_from_node s (nd_node_id n))
          in (Inr [(utf8_text [0x8BF7, 0x590D, 0x5236, 0x4E0B, 0x9762, 0x547D, 0x4EE4, 0x5230, 0x76EE, 0x6807, 0x8282, 0x70B9, 0x6267, 0x884C, 0xFF0C, 0x5B83, 0x4F1A, 0x5378, 0x8F7D, 0x5FC3, 0x8DF3] @ ''/worker '' @ utf8_text [0x5B9A, 0x65F6, 0x5668, 0xFF1A]), ''service_manager='' @ manager_text manager,
                   render_worker_uninstaller manager],
              record_audit ''node'' ''node'' (nd_node_id n) ''uninstall-heartbeat'' ''rendered''
                [(''service_manager'', JStr (manager_text manager))] now s))"

definition rotate_fingerprint_command ::
  "string option \<Rightarrow> string option \<Rightarrow> string \<Rightarrow> int \<Rightarrow> time \<Rightarrow> store \<Rightarrow> node result \<times> store" where
  "rotate_fingerprint_command node_id new_fingerprint drawn choice now s =
     (case select_managed_node node_id False choice s of
        Inl e \<Rightarrow> (Inl e, s)
      | Inr n \<Rightarrow>
          (case rotate_node_fingerprint (nd_node_id n) None
                  (case new_fingerprint of Some f \<Rightarrow> if f \<noteq> [] then f else ''sha256:'' @ drawn | None \<Rightarrow> ''sha256:'' @ drawn) now s of
             (None, s') \<Rightarrow> (Inl (Exit 1), s')
           | (Some updated, s') \<Rightarrow> (Inr updated, s')))"

section \<open>Facts\<close>

lemma join_with_piece: "x \<in> set ls \<Longrightarrow> \<exists>pre post. join_with sep ls = pre @ x @ post"
proof (induction sep ls rule: join_with.induct)
  case (3 sep a b ls)
  show ?case
  proof (cases "x = a")
    case True
    then show ?thesis by (intro exI [of _ "[]"] exI [of _ "sep @ join_with sep (b # ls)"]) simp
  next
    case False
    then obtain pre post where "join_with sep (b # ls) = pre @ x @ post" using 3 by auto
    then show ?thesis by (intro exI [of _ "a @ sep @ pre"] exI [of _ post]) simp
  qed
next
  case (2 sep y)
  then show ?case by (intro exI [of _ "[]"] exI [of _ "[]"]) simp
qed simp

text \<open>
  The default installer for Windows enables the execution of tasks, where the command says and records that it does not;
  on other systems it is off.
\<close>

lemma windows_lines:
  "\<exists>pre post. windows_worker_installer n url csv False FULL_WORKER = pre @ (''  '' @ [CHR 0x22] @ ''$env:HMN_ENABLE_EXEC=1'' @ [CHR 0x22]) @ post"
  unfolding windows_worker_installer_def lines_of_def by (rule join_with_piece) (simp add: digit_flag_def)

lemma windows_worker_may_execute:
  "\<exists>pre post. render_worker_installer n url WINDOWS_TASK False FULL_WORKER es = pre @ (''  '' @ [CHR 0x22] @ ''$env:HMN_ENABLE_EXEC=1'' @ [CHR 0x22]) @ post"
  unfolding render_worker_installer_def Let_def if_P [OF refl] by (rule windows_lines)

lemma install_says_safe:
  assumes "install_heartbeat node_id master_url endpoint FULL_WORKER WINDOWS_TASK (Given False) default_url choice now s = (Inr ls, s')"
  shows "(utf8_text [0x9ED8, 0x8BA4, 0x5B89, 0x5168, 0x6A21, 0x5F0F, 0xFF1A] @ ''HMN_ENABLE_EXEC=0'' @ utf8_text [0xFF0C, 0x4E0D, 0x4F1A, 0x6267, 0x884C, 0x4E0B, 0x53D1] @ '' shell '' @ utf8_text [0x547D, 0x4EE4, 0x3002]) \<in> set ls"
    and "dget (ev_details (last (audit_events s'))) ''enable_exec'' = JBool False"
  using assms by (auto simp: install_heartbeat_def Let_def audit_simps AuditEvent_def dget_dict_sort split: sum.splits prod.splits)

text \<open>From the menu the beacon mode is always on.\<close>

lemma menu_installs_beacon:
  "menu_install_heartbeat default_url choice now s =
     install_heartbeat None None (Given []) BEACON_ONLY SYSTEMD (Given True) default_url choice now s"
  by (simp add: menu_install_heartbeat_def install_heartbeat_def Let_def cong: sum.case_cong)

lemma detected_manager:
  "detect_service_manager_from_node s node_id =
     (case latest_heartbeat_event s node_id of
        Some e \<Rightarrow> (case as_dict (dget_or (ev_details e) ''facts'' (JObj [])) of
                     None \<Rightarrow> SYSTEMD
                   | Some facts \<Rightarrow> rc_service_manager (classify_capabilities (probe_from_facts facts)))
      | None \<Rightarrow> rc_service_manager (classify_capabilities (probe_from_facts [])))"
proof -
  have m: "str_or (dget (runtime_summary_from_facts facts) ''service_manager'') (manager_text SYSTEMD) =
      manager_text (rc_service_manager (classify_capabilities (probe_from_facts facts)))" for facts
    by (cases "rc_service_manager (classify_capabilities (probe_from_facts facts))")
      (simp_all add: runtime_summary_from_facts_def dget_def str_or_def py_or_def py_str_def Let_def)
  show ?thesis by (simp add: detect_service_manager_from_node_def Let_def m [simplified] split: option.splits)
qed

end
