(* ===== verification/LocalBackup.thy ===== *)
theory LocalBackup imports Lifecycle Acl Backup begin

text \<open>
  Local backups (\<open>hmn backup plan | run | status | verify\<close> and \<open>provider-apply\<close> of \<open>cli.py\<close>): a manifest of the
  included paths, an archive with its digest, and the check of a manifest against the archive on the disk.  \<open>look\<close>
  is what lies at a path (the files of a directory with their relative paths, links left out, in the order of
  \<open>sorted\<close>), \<open>tar\<close> the bytes of an archive of the given members, \<open>sha256\<close> the digest in hexadecimal, \<open>loads\<close> the parser
  of a JSON text.  Written files are texts of bytes in the map of files.
\<close>

section \<open>The manifest\<close>

datatype path_kind = RegularFile string | Directory "(string \<times> string) list" | NoPath

text \<open>\<open>json.dumps\<close> with its default \<open>ensure_ascii\<close>: other characters occur only inside strings and are escaped there.\<close>

definition code_point :: "string \<Rightarrow> nat" where
  "code_point u =
     (let b = map (\<lambda>c. of_char c :: nat) u
      in case b of
           [a] \<Rightarrow> a
         | [a, c] \<Rightarrow> (a - 192) * 64 + (c - 128)
         | [a, c, d] \<Rightarrow> (a - 224) * 4096 + (c - 128) * 64 + (d - 128)
         | [a, c, d, e] \<Rightarrow> (a - 240) * 262144 + (c - 128) * 4096 + (d - 128) * 64 + (e - 128)
         | _ \<Rightarrow> 0)"

definition escape_unit :: "nat \<Rightarrow> string" where
  "escape_unit n = [CHR 0x5C] @ ''u'' @ map hex_digit [n div 4096, n div 256 mod 16, n div 16 mod 16, n mod 16]"

definition ascii_char :: "string \<Rightarrow> string" where
  "ascii_char u =
     (let n = code_point u
      in if n < 127 then u else if n < 65536 then escape_unit n
         else escape_unit (55296 + (n - 65536) div 1024) @ escape_unit (56320 + (n - 65536) mod 1024))"

definition json_ascii :: "string \<Rightarrow> string" where
  "json_ascii t = concat (map ascii_char (utf8_split t))"

definition path_entry :: "(string \<Rightarrow> string) \<Rightarrow> (string \<Rightarrow> path_kind) \<Rightarrow> (string \<Rightarrow> string) \<Rightarrow> string \<Rightarrow> dict \<times> nat" where
  "path_entry sha256 look expand raw =
     (let path = expand (as_posix raw)
      in case look path of
           RegularFile data \<Rightarrow>
             ([(''path'', JStr path), (''type'', JStr ''file''), (''size_bytes'', JInt (int (length data))),
               (''sha256'', JStr (sha256 data))], length data)
         | Directory children \<Rightarrow>
             let size_sum = sum_list (map (length \<circ> snd) children)
             in ([(''path'', JStr path), (''type'', JStr ''directory''), (''file_count'', JInt (int (length children))),
                  (''size_bytes'', JInt (int size_sum)),
                  (''tree_sha256'', JStr (sha256 (concat (map (\<lambda>(rel, data). rel @ [CHR 0x00] @ sha256 data @ [CHR 0x00]) children))))],
                 size_sum)
         | NoPath \<Rightarrow>
             ([(''path'', JStr path), (''type'', JStr ''missing''), (''size_bytes'', JInt 0), (''sha256'', JStr [])], 0))"

definition manifest_digest :: "(string \<Rightarrow> string) \<Rightarrow> dict \<Rightarrow> string" where
  "manifest_digest sha256 m = sha256 (json_ascii (json_dumps (json_sort (JObj m))))"

definition backup_manifest_for_paths ::
  "(string \<Rightarrow> string) \<Rightarrow> (string \<Rightarrow> path_kind) \<Rightarrow> (string \<Rightarrow> string) \<Rightarrow> string list \<Rightarrow> bool \<Rightarrow> time \<Rightarrow> dict" where
  "backup_manifest_for_paths sha256 look expand paths dry_run now =
     (let entries = map (path_entry sha256 look expand) paths;
          m = [(''schema'', JStr ''hmn.backup.manifest.v1''), (''dry_run'', JBool dry_run),
               (''created_at'', JStr (isoformat now)), (''entries'', JList (map (JObj \<circ> fst) entries)),
               (''total_bytes'', JInt (int (sum_list (map snd entries)))), (''restore_enabled'', JBool False)]
      in m @ [(''manifest_sha256'', JStr (manifest_digest sha256 m))])"

section \<open>Archive, plan and runs\<close>

text \<open>\<open>stamp\<close> is the time in seconds.  A member of the archive is named by the last part of its path only.\<close>

definition backup_archive_paths :: "string \<Rightarrow> string \<Rightarrow> int \<Rightarrow> string \<times> string" where
  "backup_archive_paths output_dir node_id stamp =
     (let stem = ''hmn-backup-'' @ node_id @ ''-'' @ show_int stamp
      in (posix_join output_dir (stem @ ''.tar.gz''), posix_join output_dir (stem @ ''.manifest.json'')))"

definition archive_members :: "(string \<Rightarrow> path_kind) \<Rightarrow> (string \<Rightarrow> string) \<Rightarrow> string list \<Rightarrow> (string \<times> string) list" where
  "archive_members look expand paths =
     map (\<lambda>p. (if posix_parts p = [] then ''backup-item'' else last (posix_parts p), p))
       (filter (\<lambda>p. look p \<noteq> NoPath) (map (expand \<circ> as_posix) paths))"

definition backup_plan_payload :: "string \<Rightarrow> string list \<Rightarrow> string \<Rightarrow> string \<Rightarrow> dict" where
  "backup_plan_payload node_id paths output_dir driver =
     [(''component_id'', JStr ''backup''), (''node_id'', JStr node_id), (''action'', JStr ''backup.dry_run''),
      (''driver'', JStr driver), (''dry_run'', JBool True), (''include'', JList (map JStr paths)),
      (''output_dir'', JStr output_dir), (''restore_enabled'', JBool False), (''next_action'', JStr ''hmn backup run'')]"

definition backup_driver :: "manifest \<Rightarrow> string" where
  "backup_driver c = py_str (dget_or (mf_drivers c) ''default'' (JStr ''local-archive''))"

definition latest_backup_run :: "store \<Rightarrow> string option \<Rightarrow> component_run option" where
  "latest_backup_run s node_id =
     List.find (\<lambda>r. cr_component_id r = ''backup'' \<and> cr_action r \<in> {''backup.plan'', ''backup.run''}
                   \<and> (case node_id of None \<Rightarrow> True | Some k \<Rightarrow> cr_node_id r = k))
       (list_component_runs s)"

definition backup_plan ::
  "dict list \<Rightarrow> string \<Rightarrow> string list \<Rightarrow> string \<Rightarrow> string \<Rightarrow> (nat \<Rightarrow> time) \<Rightarrow> store \<Rightarrow> component_run result \<times> store" where
  "backup_plan docs node_id paths output_dir uid clk s =
     (case load_component_for_node docs ''backup'' node_id s of
        (Inl e, s1) \<Rightarrow> (Inl e, s1)
      | (Inr (c, n), s1) \<Rightarrow>
          record_component_run ''backup'' node_id ''backup.plan'' (mf_risk c) ''planned''
            (backup_plan_payload node_id paths output_dir (backup_driver c)) [] ''hmn'' uid clk s1)"

record backup_outcome =
  bo_run :: component_run
  bo_archive_path :: string
  bo_archive :: string
  bo_manifest_path :: string
  bo_manifest :: dict

definition backup_text :: "dict \<Rightarrow> string" where
  "backup_text m = json_ascii (dump_sorted (JObj m)) @ [CHR 0x0A]"

text \<open>The manifest that is written: its digest is that of the text with the digest of the first manifest in it.\<close>

definition written_manifest ::
  "(string \<Rightarrow> string) \<Rightarrow> (string \<Rightarrow> path_kind) \<Rightarrow> (string \<Rightarrow> string) \<Rightarrow> string list \<Rightarrow> time \<Rightarrow> string \<Rightarrow> string \<Rightarrow> string \<Rightarrow> dict" where
  "written_manifest sha256 look expand paths now node_id archive_path archive =
     (let m = dmerge (backup_manifest_for_paths sha256 look expand paths False now)
                [(''node_id'', JStr node_id), (''archive_path'', JStr archive_path), (''archive_sha256'', JStr (sha256 archive)),
                 (''archive_size_bytes'', JInt (int (length archive)))]
      in dset m ''manifest_sha256'' (JStr (manifest_digest sha256 m)))"

definition backup_run ::
  "(string \<Rightarrow> string) \<Rightarrow> (string \<Rightarrow> path_kind) \<Rightarrow> ((string \<times> string) list \<Rightarrow> string) \<Rightarrow> (string \<Rightarrow> string) \<Rightarrow> dict list
    \<Rightarrow> string \<Rightarrow> string list \<Rightarrow> string \<Rightarrow> string \<Rightarrow> (nat \<Rightarrow> time) \<Rightarrow> files \<times> store \<Rightarrow> backup_outcome result \<times> files \<times> store" where
  "backup_run sha256 look tar expand docs node_id paths output_dir uid clk st =
     (let (fs, s) = st
      in case load_component_for_node docs ''backup'' node_id s of
           (Inl e, s1) \<Rightarrow> (Inl e, fs, s1)
         | (Inr (c, n), s1) \<Rightarrow>
             let (archive_path, manifest_path) = backup_archive_paths output_dir node_id (clk 1 div 1000000);
                 archive = tar (archive_members look expand paths);
                 m = written_manifest sha256 look expand paths (clk 0) node_id archive_path archive;
                 fs1 = fs(archive_path \<mapsto> archive, manifest_path \<mapsto> backup_text m);
                 report = [(''dry_run'', JBool False), (''archive_path'', JStr archive_path),
                           (''archive_sha256'', JStr (sha256 archive)), (''archive_size_bytes'', JInt (int (length archive))),
                           (''manifest_path'', JStr manifest_path), (''manifest_sha256'', dget m ''manifest_sha256''),
                           (''entries'', JInt (int (length paths))), (''total_bytes'', dget m ''total_bytes''),
                           (''restore_enabled'', JBool False), (''machine_changed'', JBool True)]
             in case record_component_run ''backup'' node_id ''backup.run'' (mf_risk c) ''succeeded''
                       (backup_plan_payload node_id paths output_dir (backup_driver c)) report ''hmn'' uid (\<lambda>k. clk (k + 2)) s1 of
                  (Inl e, s2) \<Rightarrow> (Inl e, fs1, s2)
                | (Inr r, s2) \<Rightarrow>
                    (Inr \<lparr>bo_run = r, bo_archive_path = archive_path, bo_archive = archive, bo_manifest_path = manifest_path,
                          bo_manifest = m\<rparr>, fs1,
                     record_audit ''component.backup'' ''component'' ''backup'' ''run'' ''succeeded''
                       ([(''node_id'', JStr node_id), (''run_id'', JStr (cr_run_id r))] @ report) (clk 4) s2))"

definition backup_status :: "string option \<Rightarrow> store \<Rightarrow> string list result" where
  "backup_status node_id s =
     (case latest_backup_run s node_id of
        None \<Rightarrow> Inl (Exit 1)
      | Some r \<Rightarrow>
          let shown = (\<lambda>label key. if truthy (dget (cr_result r) key) then [label @ '': '' @ py_str (dget (cr_result r) key)] else [])
          in Inr ([''backup status: '' @ cr_status r, ''run: '' @ cr_run_id r, ''node: '' @ cr_node_id r, ''action: '' @ cr_action r,
                   ''dry_run: '' @ (if truthy (dget (cr_plan r) ''dry_run'') \<or> truthy (dget (cr_result r) ''dry_run'')
                                    then ''True'' else ''False'')]
                  @ shown ''archive'' ''archive_path'' @ shown ''archive_checksum'' ''archive_sha256''
                  @ shown ''manifest'' ''manifest_path'' @ shown ''checksum'' ''manifest_sha256'' @ [''restore: disabled'']))"

section \<open>Verification\<close>

definition record_backup_verify_result ::
  "dict list \<Rightarrow> string \<Rightarrow> dict \<Rightarrow> bool \<Rightarrow> string \<Rightarrow> (nat \<Rightarrow> time) \<Rightarrow> store \<Rightarrow> component_run result \<times> store" where
  "record_backup_verify_result docs node_id report ok uid clk s =
     (case bind_result (load_builtin_components docs)
             (\<lambda>cs. case map_of cs ''backup'' of None \<Rightarrow> Inl (KeyError ''backup'') | Some c \<Rightarrow> Inr c) of
        Inl e \<Rightarrow> (Inl e, s)
      | Inr c \<Rightarrow>
          let status = (if ok then ''ok'' else ''failed'')
          in case record_component_run ''backup'' node_id ''backup.verify'' (mf_risk c) status [] report ''hmn'' uid clk s of
               (Inl e, s1) \<Rightarrow> (Inl e, s1)
             | (Inr r, s1) \<Rightarrow>
                 (Inr r, record_audit ''component.backup'' ''component'' ''backup'' ''verify'' status
                           ([(''node_id'', JStr node_id), (''run_id'', JStr (cr_run_id r))] @ report) (clk 2) s1))"

text \<open>What a manifest says of the archive on the disk: the report of the check and whether it passes.\<close>

definition check_archive :: "(string \<Rightarrow> string) \<Rightarrow> string \<Rightarrow> dict \<Rightarrow> files \<Rightarrow> dict \<times> bool" where
  "check_archive sha256 manifest_path m fs =
     (let archive_value = dget m ''archive_path''; archive_sha = dget m ''archive_sha256''
      in if \<not> truthy archive_value \<or> \<not> truthy archive_sha
         then ([(''manifest_path'', JStr manifest_path), (''error'', JStr ''missing_archive_metadata''),
                (''restore_enabled'', JBool False)], False)
         else let archive_path = as_posix (py_str archive_value)
              in case fs archive_path of
                   None \<Rightarrow>
                     ([(''manifest_path'', JStr manifest_path), (''archive_path'', JStr archive_path),
                       (''archive_sha256'', archive_sha), (''archive_exists'', JBool False), (''checksum_match'', JBool False),
                       (''error'', JStr ''missing_archive''), (''restore_enabled'', JBool False)], False)
                 | Some data \<Rightarrow>
                     let ok = (JStr (sha256 data) = archive_sha)
                     in ([(''manifest_path'', JStr manifest_path), (''archive_path'', JStr archive_path),
                          (''archive_sha256'', archive_sha), (''actual_archive_sha256'', JStr (sha256 data)),
                          (''archive_exists'', JBool True), (''checksum_match'', JBool ok), (''restore_enabled'', JBool False)], ok))"

definition missing_manifest_report :: "string option \<Rightarrow> dict" where
  "missing_manifest_report path =
     [(''manifest_path'', case path of None \<Rightarrow> JNull | Some p \<Rightarrow> JStr p), (''error'', JStr ''missing_manifest''),
      (''restore_enabled'', JBool False)]"

text \<open>The manifest that is checked: the given one, or that of the last run, with the node the result is recorded for.\<close>

definition manifest_to_verify :: "store \<Rightarrow> string option \<Rightarrow> string option \<Rightarrow> string option \<times> component_run option" where
  "manifest_to_verify s node_id manifest_path =
     (case manifest_path of
        Some p \<Rightarrow> (Some p, None)
      | None \<Rightarrow>
          let r = latest_backup_run s node_id
          in (case r of None \<Rightarrow> None
              | Some r \<Rightarrow> if truthy (dget (cr_result r) ''manifest_path'')
                          then Some (as_posix (py_str (dget (cr_result r) ''manifest_path''))) else None, r))"

definition verified_node :: "string option \<Rightarrow> component_run option \<Rightarrow> string \<Rightarrow> string" where
  "verified_node node_id r alt =
     (case node_id of Some k \<Rightarrow> if k \<noteq> [] then k else (case r of Some r \<Rightarrow> cr_node_id r | None \<Rightarrow> alt)
      | None \<Rightarrow> (case r of Some r \<Rightarrow> cr_node_id r | None \<Rightarrow> alt))"

definition verify_outcome :: "component_run result \<Rightarrow> bool \<Rightarrow> unit result" where
  "verify_outcome recorded ok = (case recorded of Inl e \<Rightarrow> Inl e | Inr _ \<Rightarrow> if ok then Inr () else Inl (Exit 1))"

definition backup_verify ::
  "(string \<Rightarrow> string) \<Rightarrow> (string \<Rightarrow> json result) \<Rightarrow> dict list \<Rightarrow> string option \<Rightarrow> string option \<Rightarrow> string \<Rightarrow> (nat \<Rightarrow> time)
    \<Rightarrow> files \<times> store \<Rightarrow> unit result \<times> store" where
  "backup_verify sha256 loads docs node_id manifest_path0 uid clk st =
     (let (fs, s) = st;
          (manifest_path, r) = manifest_to_verify s node_id manifest_path0;
          settle = (\<lambda>node report ok. case record_backup_verify_result docs node report ok uid clk s of
                      (recorded, s') \<Rightarrow> (verify_outcome recorded ok, s'))
      in case manifest_path of
           None \<Rightarrow> settle (verified_node node_id r ''unknown'') (missing_manifest_report None) False
         | Some p \<Rightarrow>
             (case fs p of
                None \<Rightarrow> settle (verified_node node_id r ''unknown'') (missing_manifest_report (Some p)) False
              | Some content \<Rightarrow>
                  (case loads content of
                     Inl e \<Rightarrow> (Inl e, s)
                   | Inr (JObj m) \<Rightarrow>
                       let (report, ok) = check_archive sha256 p m fs
                       in settle (verified_node node_id r (str_or (dget m ''node_id'') ''unknown'')) report ok
                   | Inr _ \<Rightarrow> (Inl (AttributeError ''get''), s))))"

section \<open>Asking a backup provider\<close>

definition backup_provider_apply ::
  "registry \<Rightarrow> string \<Rightarrow> string option \<Rightarrow> string list \<Rightarrow> string \<Rightarrow> string \<Rightarrow> (nat \<Rightarrow> time) \<Rightarrow> store
    \<Rightarrow> string result \<times> store" where
  "backup_provider_apply reg registry_path service_id adapters request_by uid clk s =
     (case build_backup_apply_request reg service_id adapters of
        Inl e \<Rightarrow> (Inl e, s)
      | Inr payload \<Rightarrow>
          case create_approval_request ''backup_provider''
                 (case service_id of Some k \<Rightarrow> if k \<noteq> [] then k else registry_path | None \<Rightarrow> registry_path)
                 ''backup.apply'' ''high'' request_by
                 [(''provider'', dget payload ''provider''), (''tool_candidates'', dget payload ''tool_candidates''),
                  (''service_count'', dget payload ''service_count''), (''execution'', dget payload ''execution'')] uid clk s of
            (a, s') \<Rightarrow> (Inr (dump_sorted (JObj (dset payload ''approval_id'' (JStr (ap_approval_id a))))), s'))"

section \<open>Facts\<close>

text \<open>Two paths with the same last part become one name in the archive, and an unpacked one overwrites the other.\<close>

lemma archive_names_collide:
  "map fst (archive_members (\<lambda>_. Directory []) id [''/srv/a/data'', ''/srv/b/data'']) = [''data'', ''data'']"
  by code_simp

lemma as_posix_join: "as_posix (posix_join a b) = posix_join a b"
proof -
  have "list_all is_segment (posix_parts a @ posix_parts b)" using segments_of_path by simp
  note whole = posix_str_parts [OF this posix_root_cases] and part = posix_str_parts [OF segments_of_path [of b] posix_root_cases]
  show ?thesis by (simp add: as_posix_def posix_join_def whole part)
qed

lemma record_run_fresh:
  assumes "load_component_run s (''crun_'' @ uid) = None"
  shows "\<exists>r s'. record_component_run c n a risk status plan report who uid clk s = (Inr r, s')
    \<and> cr_component_id r = c \<and> cr_node_id r = n \<and> cr_action r = a \<and> cr_result r = report
    \<and> component_runs s' = component_runs s @ [cr_reread r] \<and> cr_created_at r = clk 0"
proof -
  have "tbl_insert cr_run_id (cr_reread r) (component_runs s) = Inr (component_runs s @ [cr_reread r])"
    if "cr_run_id r = ''crun_'' @ uid" for r
    using assms that by (intro tbl_insert_fresh) (simp add: load_component_run_def cr_reread_def)
  then show ?thesis
    by (simp add: record_component_run_def insert_component_run_def Let_def record_audit_def insert_audit_event_def)
qed

text \<open>A plan counts as the latest run: after it, the manifest of the last real backup is not found any more.\<close>

lemma order_desc_newest:
  "list_all (\<lambda>r. f r < f y) rows \<Longrightarrow> order_desc f (rows @ [y]) = y # order_desc f rows"
  unfolding order_desc_def by (induction rows) simp_all

lemma plan_hides_backup:
  assumes "load_component_for_node docs ''backup'' node_id s = (Inr (c, n), s1)" "load_component_run s (''crun_'' @ uid) = None"
    "list_all (\<lambda>r. cr_created_at r < clk 0) (component_runs s)"
  shows "\<exists>r s'. backup_plan docs node_id paths output_dir uid clk s = (Inr r, s')
    \<and> manifest_to_verify s' (Some node_id) None = (None, Some (cr_reread r))"
proof -
  have runs: "component_runs s1 = component_runs s" using load_component_for_node_frame [OF assms(1)] by simp
  then have fresh: "load_component_run s1 (''crun_'' @ uid) = None" using assms(2) by (simp add: load_component_run_def)
  obtain r s' where r: "record_component_run ''backup'' node_id ''backup.plan'' (mf_risk c) ''planned''
       (backup_plan_payload node_id paths output_dir (backup_driver c)) [] ''hmn'' uid clk s1 = (Inr r, s')"
    "component_runs s' = component_runs s1 @ [cr_reread r]" "cr_created_at r = clk 0" "cr_component_id r = ''backup''"
    "cr_node_id r = node_id" "cr_action r = ''backup.plan''" "cr_result r = []"
    using record_run_fresh [OF fresh] by blast
  have "list_component_runs s' = cr_reread r # list_component_runs s"
    using order_desc_newest [of cr_created_at "cr_reread r" "component_runs s"] assms(3) r(2,3) runs
    by (simp add: list_component_runs_def cr_reread_def)
  then have "latest_backup_run s' (Some node_id) = Some (cr_reread r)"
    using r by (simp add: latest_backup_run_def cr_reread_def)
  then show ?thesis
    using assms(1) r by (auto simp: backup_plan_def manifest_to_verify_def Let_def cr_reread_def dget_def)
qed

lemma verify_recorded:
  assumes "load_component_run s (''crun_'' @ uid) = None" "load_builtin_components docs = Inr cs" "map_of cs ''backup'' = Some c"
  shows "\<exists>r s'. record_backup_verify_result docs node report ok uid clk s = (Inr r, s')"
proof -
  obtain r s' where "record_component_run ''backup'' node ''backup.verify'' (mf_risk c) (if ok then ''ok'' else ''failed'') [] report
      ''hmn'' uid clk s = (Inr r, s')"
    using record_run_fresh [OF assms(1)] by blast
  then show ?thesis using assms(2,3) by (simp add: record_backup_verify_result_def)
qed

text \<open>What a successful run leaves: the two files, and a manifest that names the archive and its digest.\<close>

lemma backup_run_writes:
  assumes "backup_run sha256 look tar expand docs node_id paths output_dir uid clk (fs, s) = (Inr b, fs', s')"
  shows "fs' (bo_manifest_path b) = Some (backup_text (bo_manifest b))"
    and "dget (bo_manifest b) ''archive_path'' = JStr (bo_archive_path b)"
    and "dget (bo_manifest b) ''archive_sha256'' = JStr (sha256 (bo_archive b))"
    and "as_posix (bo_archive_path b) = bo_archive_path b"
proof -
  let ?paths = "backup_archive_paths output_dir node_id (clk 1 div 1000000)"
  let ?archive = "tar (archive_members look expand paths)"
  let ?m = "written_manifest sha256 look expand paths (clk 0) node_id (fst ?paths) ?archive"
  have b: "bo_archive_path b = fst ?paths" "bo_archive b = ?archive" "bo_manifest_path b = snd ?paths" "bo_manifest b = ?m"
    and f: "fs' = fs(fst ?paths \<mapsto> ?archive, snd ?paths \<mapsto> backup_text ?m)"
    using assms by (auto simp: backup_run_def Let_def split: prod.splits sum.splits)
  show "fs' (bo_manifest_path b) = Some (backup_text (bo_manifest b))" by (simp add: b f)
  show "as_posix (bo_archive_path b) = bo_archive_path b" by (simp add: b backup_archive_paths_def Let_def as_posix_join)
  show "dget (bo_manifest b) ''archive_path'' = JStr (bo_archive_path b)"
    and "dget (bo_manifest b) ''archive_sha256'' = JStr (sha256 (bo_archive b))"
    by (simp_all add: b written_manifest_def Let_def dget_dset) (simp_all add: dget_def map_of_dmerge)
qed

lemma backup_run_succeeds:
  assumes "load_component_for_node docs ''backup'' node_id s = (Inr (c, n), s1)" "load_component_run s (''crun_'' @ uid) = None"
  shows "\<exists>b fs' s'. backup_run sha256 look tar expand docs node_id paths output_dir uid clk (fs, s) = (Inr b, fs', s')
    \<and> (bo_archive_path b, bo_manifest_path b) = backup_archive_paths output_dir node_id (clk 1 div 1000000)
    \<and> bo_archive b = tar (archive_members look expand paths)
    \<and> fs' (bo_archive_path b) = (if bo_archive_path b = bo_manifest_path b then fs' (bo_manifest_path b) else Some (bo_archive b))
    \<and> component_runs s' = component_runs s @ [cr_reread (bo_run b)] \<and> cr_run_id (bo_run b) = ''crun_'' @ uid"
proof -
  have runs: "component_runs s1 = component_runs s" using load_component_for_node_frame [OF assms(1)] by simp
  then have fresh: "load_component_run s1 (''crun_'' @ uid) = None" using assms(2) by (simp add: load_component_run_def)
  obtain archive_path manifest_path where p: "backup_archive_paths output_dir node_id (clk 1 div 1000000) = (archive_path, manifest_path)"
    by (cases "backup_archive_paths output_dir node_id (clk 1 div 1000000)")
  let ?report = "\<lambda>m archive. [(''dry_run'', JBool False), (''archive_path'', JStr archive_path),
                           (''archive_sha256'', JStr (sha256 archive)), (''archive_size_bytes'', JInt (int (length archive))),
                           (''manifest_path'', JStr manifest_path), (''manifest_sha256'', dget m ''manifest_sha256''),
                           (''entries'', JInt (int (length paths))), (''total_bytes'', dget m ''total_bytes''),
                           (''restore_enabled'', JBool False), (''machine_changed'', JBool True)]"
  let ?archive = "tar (archive_members look expand paths)"
  let ?m = "written_manifest sha256 look expand paths (clk 0) node_id archive_path ?archive"
  obtain r s2 where r: "record_component_run ''backup'' node_id ''backup.run'' (mf_risk c) ''succeeded''
       (backup_plan_payload node_id paths output_dir (backup_driver c)) (?report ?m ?archive) ''hmn'' uid (\<lambda>k. clk (k + 2)) s1 = (Inr r, s2)"
    "component_runs s2 = component_runs s1 @ [cr_reread r]"
    using record_run_fresh [OF fresh] by blast
  have "cr_run_id r = ''crun_'' @ uid"
    using r(1) by (auto simp: record_component_run_def Let_def split: sum.splits)
  then show ?thesis
    using r assms(1) runs p by (simp add: backup_run_def Let_def record_audit_def insert_audit_event_def)
qed

section \<open>Properties\<close>

text \<open>C28: after a backup run, verifying its manifest succeeds exactly where the archive on the disk has the digest of
  the archive that was written: an intact one passes, a missing one and one of another digest fail with status 1.\<close>

theorem backup_verify_detects_changes:
  assumes "backup_run sha256 look tar expand docs node_id paths output_dir uid clk (fs, s) = (Inr b, fs', s')"
    and "loads (backup_text (bo_manifest b)) = Inr (json_sort (JObj (bo_manifest b)))"
    and "fs'' (bo_manifest_path b) = fs' (bo_manifest_path b)"
    and "bo_archive_path b \<noteq> []" and "sha256 (bo_archive b) \<noteq> []"
    and "load_component_run s'' (''crun_'' @ uid') = None"
    and "load_builtin_components docs = Inr cs" and "map_of cs ''backup'' = Some c"
  shows "fst (backup_verify sha256 loads docs node (Some (bo_manifest_path b)) uid' clk' (fs'', s'')) =
    (case fs'' (bo_archive_path b) of
       None \<Rightarrow> Inl (Exit 1)
     | Some archive \<Rightarrow> if sha256 archive = sha256 (bo_archive b) then Inr () else Inl (Exit 1))"
proof -
  note w = backup_run_writes [OF assms(1)]
  let ?m = "dict_sort (bo_manifest b)"
  obtain report ok where c: "check_archive sha256 (bo_manifest_path b) ?m fs'' = (report, ok)"
    by (cases "check_archive sha256 (bo_manifest_path b) ?m fs''")
  have ok: "ok = (case fs'' (bo_archive_path b) of None \<Rightarrow> False | Some archive \<Rightarrow> sha256 archive = sha256 (bo_archive b))"
    using c w(2-4) assms(4,5)
    by (auto simp: check_archive_def Let_def dget_dict_sort split: option.splits if_splits)
  obtain r t where "record_backup_verify_result docs (verified_node node None (str_or (dget ?m ''node_id'') ''unknown'')) report ok
      uid' clk' s'' = (Inr r, t)"
    using verify_recorded [OF assms(6-8)] by blast
  then have "fst (backup_verify sha256 loads docs node (Some (bo_manifest_path b)) uid' clk' (fs'', s'')) =
      (if ok then Inr () else Inl (Exit 1))"
    using w(1) assms(2,3) c by (simp add: backup_verify_def manifest_to_verify_def verify_outcome_def)
  then show ?thesis by (simp add: ok split: option.splits)
qed

definition backup_docs :: "dict list" where
  "backup_docs = [dset sample_manifest_data ''id'' (JStr ''backup'')]"

definition sample_digest :: "string \<Rightarrow> string" where
  "sample_digest t = (if t = ''cut'' then ''d2'' else ''d1'')"

definition sample_backup :: "backup_outcome result \<times> files \<times> store" where
  "sample_backup = backup_run sample_digest (\<lambda>_. RegularFile ''data'') (\<lambda>_. ''archive'') (\<lambda>p. p) backup_docs ''n1'' [''/srv/app''] ''/b''
     ''u'' (\<lambda>_. 7) (Map.empty, sample_queue)"

lemma backup_docs_load:
  "case load_builtin_components backup_docs of Inr cs \<Rightarrow> map_of cs ''backup'' \<noteq> None | Inl e \<Rightarrow> False"
  by code_simp

lemma sample_loaded: "case load_component_for_node backup_docs ''backup'' ''n1'' sample_queue of (Inr _, _) \<Rightarrow> True | _ \<Rightarrow> False"
  by code_simp

lemma backup_verify_detects_changes_witness:
  "case sample_backup of
     (Inr b, fs', s') \<Rightarrow>
       fst (backup_verify sample_digest (\<lambda>_. Inr (json_sort (JObj (bo_manifest b)))) backup_docs None (Some (bo_manifest_path b)) ''v''
              (\<lambda>_. 9) (fs', s')) = Inr ()
       \<and> fst (backup_verify sample_digest (\<lambda>_. Inr (json_sort (JObj (bo_manifest b)))) backup_docs None (Some (bo_manifest_path b)) ''v''
              (\<lambda>_. 9) (fs'(bo_archive_path b \<mapsto> ''cut''), s')) = Inl (Exit 1)
   | _ \<Rightarrow> False"
proof -
  obtain c0 n s1 where l: "load_component_for_node backup_docs ''backup'' ''n1'' sample_queue = (Inr (c0, n), s1)"
    using sample_loaded by (auto split: prod.splits sum.splits)
  have none: "component_runs sample_queue = []" by (simp add: sample_queue_def empty_store_def)
  then have "load_component_run sample_queue (''crun_'' @ ''u'') = None" by (simp add: load_component_run_def)
  from backup_run_succeeds [OF l this, of sample_digest "\<lambda>_. RegularFile ''data''" "\<lambda>_. ''archive''" "\<lambda>p. p" "[''/srv/app'']" "''/b''"
      "\<lambda>_. 7" Map.empty]
  obtain b fs' s' where run: "sample_backup = (Inr b, fs', s')"
    and paths: "(bo_archive_path b, bo_manifest_path b) = backup_archive_paths ''/b'' ''n1'' 0" and b: "bo_archive b = ''archive''"
    and files: "fs' (bo_archive_path b) = (if bo_archive_path b = bo_manifest_path b then fs' (bo_manifest_path b) else Some (bo_archive b))"
    and runs: "component_runs s' = component_runs sample_queue @ [cr_reread (bo_run b)]" "cr_run_id (bo_run b) = ''crun_u''"
    by (auto simp: sample_backup_def)
  have "backup_archive_paths ''/b'' ''n1'' 0 = (''/b/hmn-backup-n1-0.tar.gz'', ''/b/hmn-backup-n1-0.manifest.json'')" by code_simp
  with paths have p: "bo_archive_path b = ''/b/hmn-backup-n1-0.tar.gz''" "bo_manifest_path b = ''/b/hmn-backup-n1-0.manifest.json''"
    by simp_all
  have fresh: "load_component_run s' (''crun_'' @ ''v'') = None"
    using runs none by (simp add: load_component_run_def tbl_find_def cr_reread_def)
  obtain cs c where docs: "load_builtin_components backup_docs = Inr cs" "map_of cs ''backup'' = Some c"
    using backup_docs_load by (auto split: sum.splits)
  have ne: "bo_archive_path b \<noteq> []" "sample_digest (bo_archive b) \<noteq> []" by (simp_all add: p b sample_digest_def)
  note verify = backup_verify_detects_changes [OF run [unfolded sample_backup_def], where loads = "\<lambda>_. Inr (json_sort (JObj (bo_manifest b)))",
      OF refl _ ne fresh docs]
  have "fst (backup_verify sample_digest (\<lambda>_. Inr (json_sort (JObj (bo_manifest b)))) backup_docs None (Some (bo_manifest_path b)) ''v''
              (\<lambda>_. 9) (fs', s')) = Inr ()"
    using verify [of fs' None "\<lambda>_. 9"] files by (simp add: p b)
  moreover have "fst (backup_verify sample_digest (\<lambda>_. Inr (json_sort (JObj (bo_manifest b)))) backup_docs None (Some (bo_manifest_path b)) ''v''
              (\<lambda>_. 9) (fs'(bo_archive_path b \<mapsto> ''cut''), s')) = Inl (Exit 1)"
    using verify [of "fs'(bo_archive_path b \<mapsto> ''cut'')" None "\<lambda>_. 9"] by (simp add: p b sample_digest_def)
  ultimately show ?thesis by (simp add: run)
qed

end
