(* ===== verification/ServiceCommands.thy ===== *)
theory ServiceCommands imports DocsSync NodeDocs Discovery Deploy ConfigProvider Approvals begin

text \<open>
  The commands of \<open>cli.py\<close> on services and their documents: import and entry of records, discovery, the pages of a
  service, the synchronisation of the documents, and the plans of monitors, deployments, playbooks and Coolify.
  \<open>registries\<close> gives the JSON of a file (or the exception of reading it), \<open>loads\<close> the parser of a JSON line.  A
  plan that needs an approval is only filed as a request; the command then ends with status 1.
\<close>

section \<open>Records\<close>

definition record_defaults :: "string \<Rightarrow> string \<Rightarrow> service_record" where
  "record_defaults service_id name =
     \<lparr>sv_service_id = service_id, sv_name = name, sv_node_id = [], sv_kind = ''unknown'', sv_runtime = [], sv_domains = [],
      sv_ports = [], sv_deploy_path = [], sv_config_paths = [], sv_env_paths = [], sv_data_paths = [],
      sv_health_check_url = [], sv_monitor_enabled = False, sv_docs_path = [], sv_source = ''manual'', sv_status = ''active'',
      sv_metadata = [], sv_asset_score = 0, sv_asset_category = ''pending'', sv_why_asset = [], sv_created_at = None,
      sv_updated_at = None\<rparr>"

definition service_record_from_payload :: "json \<Rightarrow> service_record result" where
  "service_record_from_payload v =
     (case v of
        JObj d \<Rightarrow>
          if map_of d ''service_id'' = None then Inl (KeyError ''service_id'')
          else
            let words = (\<lambda>key alt. py_str (dget_or d key (JStr alt)));
                items = (\<lambda>key. str_items (dget_or d key (JList [])))
            in bind_result (items ''domains'') (\<lambda>domains.
               bind_result (int_items (dget_or d ''ports'' (JList []))) (\<lambda>ports.
               bind_result (items ''config_paths'') (\<lambda>config_paths.
               bind_result (items ''env_paths'') (\<lambda>env_paths.
               bind_result (items ''data_paths'') (\<lambda>data_paths.
               bind_result (strict_dict (dget_or d ''metadata'' (JObj []))) (\<lambda>metadata.
                 Inr ((record_defaults (py_str (dget d ''service_id'')) (py_str (py_or (dget d ''name'') (dget d ''service_id''))))
                   \<lparr>sv_node_id := words ''node_id'' [], sv_kind := words ''kind'' ''unknown'', sv_runtime := words ''runtime'' [],
                    sv_domains := domains, sv_ports := ports, sv_deploy_path := words ''deploy_path'' [],
                    sv_config_paths := config_paths, sv_env_paths := env_paths, sv_data_paths := data_paths,
                    sv_health_check_url := words ''health_check_url'' [],
                    sv_monitor_enabled := truthy (dget_or d ''monitor_enabled'' (JBool False)),
                    sv_docs_path := words ''docs_path'' [], sv_source := words ''source'' ''discover'',
                    sv_status := words ''status'' ''active'', sv_metadata := metadata\<rparr>)))))))
      | _ \<Rightarrow> Inl (TypeError ''indices must be integers''))"

text \<open>Records are saved one by one: those before a bad one stay.\<close>

fun import_records :: "(nat \<Rightarrow> time) \<Rightarrow> nat \<Rightarrow> json list \<Rightarrow> store \<Rightarrow> nat result \<times> store" where
  "import_records clk i [] s = (Inr i, s)"
| "import_records clk i (v # vs) s =
     (case service_record_from_payload v of
        Inl e \<Rightarrow> (Inl e, s)
      | Inr r \<Rightarrow> import_records clk (Suc i) vs (snd (save_service_record r (clk i) s)))"

definition discover_services_import :: "string option \<Rightarrow> json_files \<Rightarrow> (nat \<Rightarrow> time) \<Rightarrow> store \<Rightarrow> nat result \<times> store" where
  "discover_services_import from_json registries clk s =
     (case from_json of
        None \<Rightarrow> (Inl (BadParameter (utf8_text [0x9700, 0x8981, 0x4F20, 0x5165] @ '' --from-json'' @ utf8_text [0xFF1B, 0x6216, 0x4F7F, 0x7528] @ '' hmn discover services --inventory ...'')), s)
      | Some path \<Rightarrow>
          (case bind_result (registries path)
                  (\<lambda>payload. py_iter (case payload of JObj d \<Rightarrow> dget_or d ''services'' (JList []) | _ \<Rightarrow> payload)) of
             Inl e \<Rightarrow> (Inl e, s)
           | Inr vs \<Rightarrow> import_records clk 0 vs s))"

text \<open>\<open>service add\<close> replaces a record of the same id: what is not passed is reset to its default.\<close>

definition service_add ::
  "service_record \<Rightarrow> time \<Rightarrow> store \<Rightarrow> store" where
  "service_add given now s =
     snd (save_service_record
       ((record_defaults (sv_service_id given) (sv_name given))
          \<lparr>sv_node_id := sv_node_id given, sv_kind := sv_kind given, sv_runtime := sv_runtime given,
           sv_domains := sv_domains given, sv_ports := sv_ports given, sv_deploy_path := sv_deploy_path given,
           sv_config_paths := sv_config_paths given, sv_env_paths := sv_env_paths given, sv_data_paths := sv_data_paths given,
           sv_health_check_url := sv_health_check_url given, sv_monitor_enabled := sv_monitor_enabled given\<rparr>) now s)"

definition shown_or_dash :: "string \<Rightarrow> string" where
  "shown_or_dash t = (if t \<noteq> [] then t else ''-'')"

definition format_service_summary :: "service_record \<Rightarrow> string" where
  "format_service_summary r =
     join_with [CHR 0x09] [sv_service_id r, sv_name r, shown_or_dash (sv_node_id r), sv_kind r,
                           if sv_domains r \<noteq> [] then join_with '','' (sv_domains r) else ''-'']"

definition service_detail :: "service_record \<Rightarrow> string list" where
  "service_detail r =
     [''service: '' @ sv_service_id r, ''name: '' @ sv_name r, ''node: '' @ shown_or_dash (sv_node_id r), ''kind: '' @ sv_kind r,
      ''runtime: '' @ shown_or_dash (sv_runtime r),
      ''domains: '' @ (if sv_domains r \<noteq> [] then join_with '', '' (sv_domains r) else ''-''),
      ''ports: '' @ (if sv_ports r \<noteq> [] then join_with '', '' (map show_int (sv_ports r)) else ''-''),
      ''deploy_path: '' @ shown_or_dash (sv_deploy_path r), ''health_check_url: '' @ shown_or_dash (sv_health_check_url r),
      ''monitor_enabled: '' @ (if sv_monitor_enabled r then ''True'' else ''False'')]"

definition service_list :: "string \<Rightarrow> store \<Rightarrow> string list" where
  "service_list node_id s = map format_service_summary (list_service_records node_id s)"

definition service_show :: "string \<Rightarrow> store \<Rightarrow> string list result" where
  "service_show service_id s =
     (case load_service_record s service_id of None \<Rightarrow> Inl (Exit 1) | Some r \<Rightarrow> Inr (service_detail r))"

section \<open>Discovery\<close>

definition change_dict :: "service_change \<Rightarrow> json" where
  "change_dict c =
     JObj [(''service_id'', JStr (ch_service_id c)), (''change'', JStr (ch_change c)),
           (''before'', case ch_before c of None \<Rightarrow> JNull | Some d \<Rightarrow> JObj d), (''after'', JObj (ch_after c)),
           (''diff'', JObj (ch_diff c))]"

definition discovered_dict :: "service_record \<Rightarrow> json" where
  "discovered_dict r =
     JObj [(''service_id'', JStr (sv_service_id r)), (''name'', JStr (sv_name r)), (''node_id'', JStr (sv_node_id r)),
           (''kind'', JStr (sv_kind r)), (''runtime'', JStr (sv_runtime r)), (''ports'', JList (map JInt (sv_ports r))),
           (''source'', JStr (sv_source r)), (''metadata'', JObj (sv_metadata r))]"

text \<open>The texts of the three outputs are those of the given files, empty where none is given.\<close>

definition service_discover ::
  "(string \<Rightarrow> json option) \<Rightarrow> string \<Rightarrow> bool \<Rightarrow> bool \<Rightarrow> string \<Rightarrow> string \<Rightarrow> string \<Rightarrow> (nat \<Rightarrow> time) \<Rightarrow> store
    \<Rightarrow> dict result \<times> store" where
  "service_discover loads node_id dry_run0 apply systemd_output docker_output ports_output clk s =
     (let dry_run = (if apply then False else dry_run0)
      in case bind_result (discover_services_from_text loads node_id systemd_output docker_output ports_output [] [] []) (\<lambda>found.
                bind_result (plan_discovered_services s node_id found ''discovery'') (\<lambda>plan. Inr (found, plan))) of
           Inl e \<Rightarrow> (Inl e, s)
         | Inr (found, planned, changes) \<Rightarrow>
             (case (if apply then apply_discovered_services node_id found ''discovery'' clk s else (Inr planned, s)) of
                (Inl e, s1) \<Rightarrow> (Inl e, s1)
              | (Inr records, s1) \<Rightarrow>
                  (Inr [(''dry_run'', JBool (dry_run \<and> \<not> apply)), (''apply'', JBool apply), (''node_id'', JStr node_id),
                        (''service_count'', JInt (int (length records))), (''changes'', JList (map change_dict changes)),
                        (''services'', JList (map discovered_dict records))], s1)))"

section \<open>Documents\<close>

definition text_or :: "string \<Rightarrow> string \<Rightarrow> string" where
  "text_or t alt = (if t \<noteq> [] then t else alt)"

definition registered_doc :: "service_record \<Rightarrow> service_doc \<Rightarrow> service_doc" where
  "registered_doc r d =
     d\<lparr>sd_title := text_or (sd_title d) (sv_name r), sd_node := text_or (sd_node d) (sv_node_id r),
       sd_url := text_or (sd_url d) (text_or (sv_health_check_url r)
                   (case sv_domains r of [] \<Rightarrow> [] | domain # _ \<Rightarrow> ''https://'' @ domain)),
       sd_port := text_or (sd_port d) (join_with '','' (map show_int (sv_ports r))),
       sd_summary := text_or (sd_summary d) (''kind='' @ sv_kind r @ '' runtime='' @ shown_or_dash (sv_runtime r))\<rparr>"

definition docs_service ::
  "(string \<Rightarrow> bool) \<Rightarrow> bool \<Rightarrow> service_doc \<Rightarrow> string \<Rightarrow> time \<Rightarrow> store \<Rightarrow> doc_files \<Rightarrow> string result \<times> doc_files" where
  "docs_service is_alnum from_registry d service_root now s files =
     (case (if \<not> from_registry then Inr d
            else case load_service_record s (sd_service_id d) of None \<Rightarrow> Inl (Exit 1) | Some r \<Rightarrow> Inr (registered_doc r d)) of
        Inl e \<Rightarrow> (Inl e, files)
      | Inr full \<Rightarrow>
          (case write_service_doc is_alnum (full\<lparr>sd_title := text_or (sd_title full) (sd_service_id full)\<rparr>) service_root now files of
             (path, files') \<Rightarrow> (Inr path, files')))"

definition docs_server ::
  "(string \<Rightarrow> bool) \<Rightarrow> store \<Rightarrow> string \<Rightarrow> string \<Rightarrow> time \<Rightarrow> doc_files \<Rightarrow> string result \<times> doc_files" where
  "docs_server is_alnum s node_id output_root now files =
     (case write_server_doc is_alnum s node_id output_root now files of
        (Inl (ValueError m), files') \<Rightarrow> (Inl (Exit 1), files')
      | other \<Rightarrow> other)"

definition exit_on_value_error :: "'a result \<Rightarrow> 'a result" where
  "exit_on_value_error r = (case r of Inl (ValueError m) \<Rightarrow> Inl (Exit 2) | _ \<Rightarrow> r)"

text \<open>With \<open>--db\<close> (\<open>Some s\<close>) the registry is that of the stored services.\<close>

definition docs_sync_plan ::
  "json_files \<Rightarrow> string \<Rightarrow> string \<Rightarrow> string \<Rightarrow> string list \<Rightarrow> store option \<Rightarrow> string result" where
  "docs_sync_plan registries registry_file server_root service_root rename_host db =
     exit_on_value_error (bind_result (parse_rename_host_args rename_host []) (\<lambda>renames0.
       case db of
         Some s \<Rightarrow> Inr (dump_sorted (JObj (build_docs_sync_plan (registry_from_storage_records (list_service_records [] s))
                          server_root service_root renames0)))
       | None \<Rightarrow> render_docs_sync_plan_json registry_file registries server_root service_root renames0))"

datatype sync_outcome = SyncReport string | SyncRequested approval_request

definition docs_sync_apply ::
  "(string \<Rightarrow> string) \<Rightarrow> write_faults \<Rightarrow> json_files \<Rightarrow> string \<Rightarrow> string \<Rightarrow> string \<Rightarrow> string option \<Rightarrow> bool \<Rightarrow> string list \<Rightarrow> bool \<Rightarrow> bool
    \<Rightarrow> string \<Rightarrow> (nat \<Rightarrow> time) \<Rightarrow> doc_files \<times> store \<Rightarrow> sync_outcome result \<times> doc_files \<times> store" where
  "docs_sync_apply resolve faults registries registry_file server_root service_root root execute rename_host json_output has_db uid clk st =
     (let (files, s) = st; target = (case root of Some r \<Rightarrow> r | None \<Rightarrow> ''/srv/files'')
      in case parse_rename_host_args rename_host [] of
           Inl e \<Rightarrow> (exit_on_value_error (Inl e), files, s)
         | Inr renames0 \<Rightarrow>
             if root \<noteq> None \<or> execute \<or> json_output
             then (case (if has_db
                         then (case apply_docs_sync resolve faults (registry_from_storage_records (list_service_records [] s)) target execute
                                      renames0 files of
                                 (r, files') \<Rightarrow> (bind_result r (\<lambda>d. Inr (dump_sorted (JObj d))), files'))
                         else render_docs_sync_apply_json resolve faults registry_file registries target execute renames0 files) of
                     (r, files') \<Rightarrow> (exit_on_value_error (bind_result r (\<lambda>t. Inr (SyncReport t))), files', s))
             else case exit_on_value_error
                         (build_docs_sync_plan_from_path registry_file registries server_root service_root renames0) of
                 Inl e \<Rightarrow> (Inl e, files, s)
               | Inr plan \<Rightarrow>
                   (case create_approval_request ''docs_sync'' registry_file ''docs.sync.apply'' ''high'' ''hmn''
                           [(''plan'', JObj plan), (''service_registry'', JStr registry_file)] uid clk s of
                      (a, s') \<Rightarrow> (Inr (SyncRequested a), files, s')))"

section \<open>Plans of providers\<close>

definition uptime_monitor_for_service :: "service_record \<Rightarrow> dict option" where
  "uptime_monitor_for_service r =
     (let url = text_or (sv_health_check_url r) (case sv_domains r of [] \<Rightarrow> [] | domain # _ \<Rightarrow> ''https://'' @ domain)
      in if url = [] \<or> \<not> sv_monitor_enabled r then None
         else Some [(''service_id'', JStr (sv_service_id r)), (''name'', JStr (sv_name r)), (''type'', JStr ''http''),
                    (''url'', JStr url), (''tags'', str_list [''hmn'', ''service:'' @ sv_service_id r])])"

definition stored_monitors :: "store \<Rightarrow> json" where
  "stored_monitors s = JList (map JObj (List.map_filter uptime_monitor_for_service (list_service_records [] s)))"

definition uptime_plan_command :: "json_files \<Rightarrow> string option \<Rightarrow> store \<Rightarrow> dict result" where
  "uptime_plan_command registries registry_file s =
     (case registry_file of
        Some path \<Rightarrow> build_uptime_plan_from_path path registries
      | None \<Rightarrow>
          Inr (dmerge (uptime_plan_dict (build_uptime_plan (registry_from_storage_records (list_service_records [] s))))
                 [(''provider'', JStr ''uptime-kuma''), (''dry_run'', JBool True), (''monitors'', stored_monitors s)]))"

definition uptime_sync ::
  "json_files \<Rightarrow> string option \<Rightarrow> string \<Rightarrow> (nat \<Rightarrow> time) \<Rightarrow> store \<Rightarrow> approval_request result \<times> store" where
  "uptime_sync registries registry_file uid clk s =
     (case (case registry_file of Some path \<Rightarrow> build_uptime_plan_from_path path registries
            | None \<Rightarrow> Inr [(''provider'', JStr ''uptime-kuma''), (''dry_run'', JBool True), (''monitors'', stored_monitors s)]) of
        Inl e \<Rightarrow> (Inl e, s)
      | Inr plan \<Rightarrow>
          (case create_approval_request ''uptime_sync'' (case registry_file of Some p \<Rightarrow> p | None \<Rightarrow> ''hmn-db-services'')
                  ''uptime.sync.apply'' ''high'' ''hmn''
                  [(''plan'', JObj plan), (''service_registry'', JStr (case registry_file of Some p \<Rightarrow> p | None \<Rightarrow> []))] uid clk s of
             (a, s') \<Rightarrow> (Inr a, s')))"

definition config_playbook_apply ::
  "string \<Rightarrow> string list \<Rightarrow> string list \<Rightarrow> string list \<Rightarrow> string \<Rightarrow> string \<Rightarrow> (nat \<Rightarrow> time) \<Rightarrow> store \<Rightarrow> dict \<times> store" where
  "config_playbook_apply playbook_name limit_node tag extra_var request_by uid clk s =
     (let payload = plan_config_playbook_apply playbook_name (list_nodes s) (list_service_records [] s) limit_node tag extra_var
      in case create_approval_request ''config_provider'' playbook_name ''config_provider.playbook_apply'' ''high'' request_by
                [(''playbook'', dget payload ''playbook''), (''inventory'', dget payload ''inventory''),
                 (''execution'', dget payload ''execution''), (''provider_id'', dget payload ''provider_id'')] uid clk s of
           (a, s') \<Rightarrow> (dset payload ''approval_id'' (JStr (ap_approval_id a)), s'))"

definition deploy_plan_command ::
  "(string \<Rightarrow> bool) \<Rightarrow> (string \<Rightarrow> bool) \<Rightarrow> json_files \<Rightarrow> string \<Rightarrow> store option \<Rightarrow> string option \<Rightarrow> string option \<Rightarrow> string result" where
  "deploy_plan_command netloc_ok exists registries registry_file db service_id dir =
     (case db of
        Some s \<Rightarrow> bind_result (build_deploy_plan netloc_ok exists registries
                    (registry_from_storage_records (list_service_records [] s)) service_id dir) (\<lambda>v. Inr (dump_sorted v))
      | None \<Rightarrow> render_deploy_plan_json netloc_ok exists registries registry_file service_id dir)"

definition deploy_status_command ::
  "(string \<Rightarrow> bool) \<Rightarrow> (string \<Rightarrow> bool) \<Rightarrow> json_files \<Rightarrow> string \<Rightarrow> store option \<Rightarrow> string option \<Rightarrow> string option \<Rightarrow> string result" where
  "deploy_status_command netloc_ok exists registries registry_file db service_id dir =
     (case db of
        Some s \<Rightarrow> bind_result (build_deploy_status netloc_ok exists registries
                    (registry_from_storage_records (list_service_records [] s)) service_id dir) (\<lambda>v. Inr (dump_sorted v))
      | None \<Rightarrow> render_deploy_status_json netloc_ok exists registries registry_file service_id dir)"

definition service_coolify_sync ::
  "(string \<Rightarrow> bool) \<Rightarrow> string \<Rightarrow> bool \<Rightarrow> (nat \<Rightarrow> time) \<Rightarrow> json_files \<Rightarrow> store \<Rightarrow> dict result \<times> store" where
  "service_coolify_sync netloc_ok fixture apply clk registries s =
     (let (r, s') = (if apply then sync_coolify_registry netloc_ok ''coolify-sync'' fixture clk registries s
                     else (build_coolify_sync_dry_run netloc_ok fixture registries, s))
      in (bind_result r (\<lambda>payload. Inr (dset (dset payload ''dry_run'' (JBool (\<not> apply))) ''apply'' (JBool apply))), s'))"

end
