(* ===== verification/Reports.thy ===== *)
theory Reports imports Commands WebText begin

text \<open>
  The listings of \<open>cli.py\<close>: nodes, tasks, tokens, approvals, components, monitoring and the audit log, as the lines
  they print.  Listing the nodes and looking at a health without a snapshot also write: those return the store.
\<close>

section \<open>Tables\<close>

definition tabbed :: "string list \<Rightarrow> string" where
  "tabbed cols = join_with [CHR 0x09] cols"

fun list_nodes_command :: "time \<Rightarrow> (nat \<Rightarrow> time) \<Rightarrow> node list \<Rightarrow> store \<Rightarrow> string list \<times> store" where
  "list_nodes_command at clk [] s = ([], s)"
| "list_nodes_command at clk (n # ns) s =
     (let row = [nd_node_id n, nd_status n, nd_hostname n, ''trust='' @ nd_trust_level n]
      in if nd_status n = ''managed''
         then let live = node_liveness s (nd_node_id n) at;
                  (ls, s') = list_nodes_command at (\<lambda>k. clk (k + 1)) ns (record_liveness_audit (nd_node_id n) live (clk 0) s)
              in (tabbed (row @ [''liveness='' @ lv_state live]) # ls, s')
         else let (ls, s') = list_nodes_command at clk ns s in (tabbed row # ls, s'))"

definition list_task_lines :: "store \<Rightarrow> string list" where
  "list_task_lines s =
     map (\<lambda>t. tabbed [tk_task_id t, tk_node_id t, tk_status t, ''executor='' @ tk_executor t, ''risk='' @ tk_risk t, tk_command t])
       (list_tasks s)"

definition recover_stuck_command :: "int \<Rightarrow> time \<Rightarrow> store \<Rightarrow> string list \<times> store" where
  "recover_stuck_command older_than now s =
     (case expire_stuck_tasks (Some older_than) now s of
        (expired, s') \<Rightarrow> ((''expired count: '' @ show_nat (length expired)) # expired, s'))"

definition approval_line :: "approval_request \<Rightarrow> string" where
  "approval_line a =
     tabbed [ap_approval_id a, ap_status a, ''risk='' @ ap_risk a, ap_action a, ap_subject_type a @ '':'' @ ap_subject_id a]"

definition show_approval :: "string \<Rightarrow> store \<Rightarrow> string list result" where
  "show_approval approval_id s =
     (case load_approval_request s approval_id of
        None \<Rightarrow> Inl (Exit 1)
      | Some a \<Rightarrow>
          Inr ([''approval: '' @ ap_approval_id a, ''status: '' @ ap_status a, ''risk: '' @ ap_risk a, ''action: '' @ ap_action a,
                ''subject: '' @ ap_subject_type a @ '':'' @ ap_subject_id a, ''requested_by: '' @ ap_requested_by a]
               @ (if ap_decided_by a \<noteq> [] then [''decided_by: '' @ ap_decided_by a] else [])
               @ [''details:'', json_dumps (json_sort (JObj (ap_details a)))]))"

definition indented_items :: "dict \<Rightarrow> string list" where
  "indented_items d = map (\<lambda>(k, v). ''  '' @ k @ '': '' @ py_str v) d"

definition show_component :: "dict list \<Rightarrow> string \<Rightarrow> store \<Rightarrow> string list result \<times> store" where
  "show_component docs component_id s =
     (case ensure_builtin_components docs s of
        (Inl e, s1) \<Rightarrow> (Inl e, s1)
      | (Inr _, s1) \<Rightarrow>
          (bind_result (load_component s1 component_id) (\<lambda>loaded.
             case loaded of
               None \<Rightarrow> Inl (BadParameter ((utf8_text [0x672A, 0x77E5, 0x7EC4, 0x4EF6] @ '': '') @ component_id))
             | Some c \<Rightarrow>
                 Inr ([''component: '' @ mf_id c, ''name: '' @ mf_name c, ''version: '' @ mf_version c,
                       ''api_version: '' @ show_int (mf_api_version c), ''risk: '' @ mf_risk c,
                       ''driver: '' @ py_str (dget_or (mf_drivers c) ''default'' (JStr [])), ''requires:'']
                      @ indented_items (mf_requires c) @ [''provides:''] @ indented_items (mf_provides c))), s1))"

section \<open>Monitoring\<close>

text \<open>The optional lines: each is there where the facts hold the values.\<close>

definition facts_lines :: "dict \<Rightarrow> string list" where
  "facts_lines facts =
     (let sub = (\<lambda>key. case dget facts key of JObj d \<Rightarrow> Some d | _ \<Rightarrow> None);
          has = (\<lambda>d keys. list_ex (\<lambda>k. dget d k \<noteq> JNull) keys);
          val = (\<lambda>d key. py_str (dget d key))
      in (case sub ''uptime'' of Some d \<Rightarrow> if dget d ''seconds'' \<noteq> JNull then [''uptime_seconds='' @ val d ''seconds''] else [] | None \<Rightarrow> [])
         @ (case sub ''load_average'' of
              Some d \<Rightarrow> if list_ex (\<lambda>k. truthy (dget d k)) [''1m'', ''5m'', ''15m'']
                        then [''load_average='' @ join_with ''/'' (map (\<lambda>k. py_str (dget_or d k (JStr ''?''))) [''1m'', ''5m'', ''15m''])]
                        else []
            | None \<Rightarrow> [])
         @ (case sub ''memory'' of
              Some d \<Rightarrow> if has d [''total_kb'', ''available_kb'', ''free_kb'']
                        then [''memory_kb total='' @ val d ''total_kb'' @ '' available='' @ val d ''available_kb''
                              @ '' free='' @ val d ''free_kb''] else []
            | None \<Rightarrow> [])
         @ (case sub ''disk'' of
              Some d \<Rightarrow> if has d [''total_bytes'', ''used_bytes'', ''free_bytes'']
                        then [''disk '' @ py_str (dget_or d ''path'' (JStr ''/'')) @ '' total='' @ val d ''total_bytes''
                              @ '' used='' @ val d ''used_bytes'' @ '' free='' @ val d ''free_bytes''] else []
            | None \<Rightarrow> []))"

definition monitor_summary_lines :: "dict \<Rightarrow> string list" where
  "monitor_summary_lines summary =
     (let val = (\<lambda>key. py_str (dget summary key))
      in [if truthy (dget summary ''heartbeat_seen'')
          then ''heartbeat='' @ (if truthy (dget summary ''heartbeat_ok'') then ''OK'' else ''WARN'') @ '' at='' @ val ''heartbeat_at''
          else ''heartbeat=WARN missing'',
          ''worker_protocol='' @ val ''worker_protocol_version'', ''worker_version='' @ val ''worker_version'',
          ''worker_compatible='' @ (if truthy (dget summary ''worker_compatible'') then ''yes'' else ''no''),
          ''runtime: '' @ val ''runtime_profile'', ''service_manager: '' @ val ''service_manager'', ''exec='' @ val ''exec_mode'']
         @ (case dget_or summary ''facts'' (JObj []) of JObj facts \<Rightarrow> facts_lines facts | _ \<Rightarrow> []))"

definition component_status :: "dict list \<Rightarrow> string option \<Rightarrow> store \<Rightarrow> string list result \<times> store" where
  "component_status docs node_id s =
     (case ensure_builtin_components docs s of
        (Inl e, s1) \<Rightarrow> (Inl e, s1)
      | (Inr _, s1) \<Rightarrow>
          let k = (case node_id of None \<Rightarrow> [] | Some k \<Rightarrow> k);
              items = list_node_components k s1;
              summary = monitor_summary s1 k
          in (Inr ((if k = [] then []
                    else (''node: '' @ k) # (if load_node s1 k \<noteq> None \<and> truthy (dget summary ''heartbeat_seen'')
                                             then ''monitor:'' # monitor_summary_lines summary else []))
                   @ (if items = [] then [(utf8_text [0x6682, 0x65E0, 0x7EC4, 0x4EF6, 0x72B6, 0x6001])]
                      else map (\<lambda>i. tabbed [nc_node_id i, nc_component_id i, ''desired='' @ nc_desired_state i,
                                            ''current='' @ nc_current_state i, ''driver='' @ nc_driver i]) items)), s1))"

definition SHOWN_FACTS :: "string list" where
  "SHOWN_FACTS = [''disk_used_percent'', ''memory_used_percent'', ''load_1m'', ''uptime_seconds'']"

definition snapshot_lines :: "monitor_snapshot \<Rightarrow> string list" where
  "snapshot_lines m =
     [''node: '' @ ms_node_id m, ''health: '' @ ms_health m, ''reason: '' @ ms_reason m,
      ''heartbeat_at: '' @ (case ms_heartbeat_at m of None \<Rightarrow> ''-'' | Some t \<Rightarrow> isoformat t),
      ''age_seconds: '' @ (case ms_age_seconds m of None \<Rightarrow> ''-'' | Some a \<Rightarrow> show_int a),
      ''runtime: '' @ ms_runtime_profile m, ''service_manager: '' @ ms_service_manager m,
      ''worker_protocol: '' @ ms_worker_protocol_version m, ''worker_version: '' @ ms_worker_version m, ''exec: '' @ ms_exec_mode m]
     @ concat (map (\<lambda>key. case map_of (ms_facts_summary m) key of None \<Rightarrow> [] | Some v \<Rightarrow> [key @ '': '' @ py_str v]) SHOWN_FACTS)"

text \<open>The last snapshot, however old; one is taken only where there is none.\<close>

definition monitor_status ::
  "string \<Rightarrow> string \<Rightarrow> (nat \<Rightarrow> time) \<Rightarrow> store \<Rightarrow> unit result \<times> string list \<times> store" where
  "monitor_status node_id uid clk s =
     (case (case latest_monitor_snapshot node_id s of
              Some m \<Rightarrow> (Inr m, s)
            | None \<Rightarrow>
                if load_node s node_id = None then (Inl (Exit 1), s)
                else record_health_snapshot node_id (monitor_health_summary s node_id (clk 0)) uid (\<lambda>k. clk (k + 1)) s) of
        (Inl e, s1) \<Rightarrow> (Inl e, [], s1)
      | (Inr m, s1) \<Rightarrow> (if ms_health m = ''critical'' then Inl (Exit 1) else Inr (), snapshot_lines m, s1))"

text \<open>The newest snapshot of each node.\<close>

fun newest_snapshots :: "string list \<Rightarrow> monitor_snapshot list \<Rightarrow> monitor_snapshot list" where
  "newest_snapshots seen [] = []"
| "newest_snapshots seen (m # ms) =
     (if ms_node_id m \<in> set seen then newest_snapshots seen ms else m # newest_snapshots (ms_node_id m # seen) ms)"

definition report_line :: "monitor_snapshot \<Rightarrow> string" where
  "report_line m =
     (let shown = (\<lambda>label key unit. case map_of (ms_facts_summary m) key of None \<Rightarrow> [] | Some v \<Rightarrow> [label @ py_str v @ unit])
      in join_with '' '' ([ms_node_id m @ '' '' @ ms_health m, ''reason='' @ ms_reason m]
           @ shown ''disk='' ''disk_used_percent'' ''%'' @ shown ''mem='' ''memory_used_percent'' ''%'' @ shown ''load='' ''load_1m'' []))"

definition monitor_report :: "store \<Rightarrow> unit result \<times> string list" where
  "monitor_report s =
     (let latest = newest_snapshots [] (list_monitor_snapshots [] s);
          (n_ok, n_warn, n_critical) = monitor_counts latest
      in (if n_critical > 0 then Inl (Exit 1) else Inr (),
          (''monitor report: nodes='' @ show_nat (length latest) @ '' ok='' @ show_nat n_ok @ '' warn='' @ show_nat n_warn
             @ '' critical='' @ show_nat n_critical)
          # map report_line (order_by ms_node_id latest)))"

section \<open>Audit log\<close>

definition audit_ssh_summary :: "dict \<Rightarrow> string result" where
  "audit_ssh_summary d =
     (let reason = str_or (dget d ''failure_reason'') []; out = str_or (dget d ''stdout_preview'') [];
          err = str_or (dget d ''stderr_preview'') []; duration = dget d ''duration_ms''
      in case dget d ''ssh_connectivity'' of
           JObj c \<Rightarrow> bind_result (summarize_ssh_connectivity (Some c)) (\<lambda>ssh. Inr (ss_reason ssh))
         | _ \<Rightarrow>
             if reason \<noteq> [] then Inr (format_ssh_reason_cn reason err)
             else if duration \<noteq> JNull \<or> out \<noteq> [] \<or> err \<noteq> []
             then Inr (join_with (utf8_text [0xFF1B]) ((if duration \<noteq> JNull then [(utf8_text [0x8017, 0x65F6] @ '' '') @ py_str duration @ ''ms''] else [])
                        @ (if out \<noteq> [] then [''stdout='' @ out] else []) @ (if err \<noteq> [] then [''stderr='' @ err] else [])))
             else Inr ''-'')"

definition audit_event_dict :: "audit_event \<Rightarrow> dict" where
  "audit_event_dict e =
     [(''event_type'', JStr (ev_event_type e)), (''subject_type'', JStr (ev_subject_type e)), (''subject_id'', JStr (ev_subject_id e)),
      (''action'', JStr (ev_action e)), (''outcome'', JStr (ev_outcome e)), (''details'', JObj (ev_details e)),
      (''created_at'', JStr (isoformat (ev_created_at e)))]"

definition audit_lines :: "audit_event \<Rightarrow> string list result" where
  "audit_lines e =
     bind_result (audit_ssh_summary (ev_details e)) (\<lambda>ssh.
       Inr (tabbed [isoformat (ev_created_at e), ev_event_type e, ev_subject_type e @ '':'' @ ev_subject_id e, ev_action e, ev_outcome e]
            # (if ssh \<noteq> ''-'' then [''  ssh: '' @ ssh] else [])))"

text \<open>\<open>limit\<close> is at least 1.\<close>

definition list_audit_command :: "nat \<Rightarrow> bool \<Rightarrow> store \<Rightarrow> string list result" where
  "list_audit_command limit json_output s =
     (let all = list_audit_events s; events = drop (length all - limit) all
      in if json_output then Inr [dump_sorted (JList (map (JObj \<circ> audit_event_dict) events))]
         else bind_result (map_result audit_lines events) (\<lambda>ls. Inr (concat ls)))"

definition show_audit_event :: "string \<Rightarrow> store \<Rightarrow> string list result" where
  "show_audit_event subject_id s =
     (case rev (filter (\<lambda>e. ev_subject_id e = subject_id) (list_audit_events s)) of
        [] \<Rightarrow> Inl (Exit 1)
      | e # _ \<Rightarrow>
          bind_result (audit_ssh_summary (ev_details e)) (\<lambda>ssh.
            Inr ([''time: '' @ isoformat (ev_created_at e), ''event_type: '' @ ev_event_type e,
                  ''subject: '' @ ev_subject_type e @ '':'' @ ev_subject_id e, ''action: '' @ ev_action e, ''outcome: '' @ ev_outcome e]
                 @ (if ssh \<noteq> ''-'' then [''ssh: '' @ ssh] else [])
                 @ [''details:'', json_dumps (json_sort (JObj (ev_details e)))])))"

section \<open>Facts\<close>

text \<open>The report has one snapshot per node, and it is a newest one.\<close>

lemma newest_snapshots_once:
  "distinct (map ms_node_id (newest_snapshots seen ms)) \<and> set (map ms_node_id (newest_snapshots seen ms)) = set (map ms_node_id ms) - set seen"
  by (induction seen ms rule: newest_snapshots.induct) auto

lemma newest_snapshots_newest:
  assumes "sorted (map (\<lambda>m. - ms_created_at m) ms)" "m \<in> set (newest_snapshots seen ms)" "m' \<in> set ms" "ms_node_id m' = ms_node_id m"
  shows "ms_created_at m' \<le> ms_created_at m"
  using assms
proof (induction seen ms rule: newest_snapshots.induct)
  case (2 seen x ms)
  have sub: "set (newest_snapshots seen' ms') \<subseteq> set ms'" for seen' ms'
    by (induction seen' ms' rule: newest_snapshots.induct) auto
  have fresh: "ms_node_id y \<notin> set seen'" if "y \<in> set (newest_snapshots seen' ms')" for y seen' ms'
    using that newest_snapshots_once [of seen' ms'] by auto
  show ?case
  proof (cases "ms_node_id x \<in> set seen")
    case True
    then show ?thesis using 2 fresh by (auto split: if_splits)
  next
    case False
    then show ?thesis using 2 fresh [of m "ms_node_id x # seen" ms] by auto
  qed
qed simp

text \<open>Listing nodes adds one liveness event per managed node and changes nothing else.\<close>

lemma list_nodes_command_events:
  "list_nodes_command at clk ns s = (ls, s') \<Longrightarrow> length ls = length ns
    \<and> length (audit_events s') = length (audit_events s) + length (filter (\<lambda>n. nd_status n = ''managed'') ns)
    \<and> s'\<lparr>audit_events := []\<rparr> = s\<lparr>audit_events := []\<rparr>"
proof (induction at clk ns s arbitrary: ls s' rule: list_nodes_command.induct)
  case (2 at clk n ns s)
  then show ?case
    by (fastforce simp: Let_def record_liveness_audit_def record_audit_def insert_audit_event_def split: if_splits prod.splits)
qed simp

end
