(* ===== verification/GatewayCommands.thy ===== *)
theory GatewayCommands imports Gateway Rollback Sessions WebText begin

text \<open>
  The clients of \<open>approval_gateway.py\<close> and \<open>telegram_gateway.py\<close>, which talk HTTP to the API and to the bot, and the commands
  of \<open>cli.py\<close> that run them: settings, the file with the offset of the updates, one round and the loop.  An
  exchange of a request for the text of its answer is the parameter \<open>exchange\<close> (it raises what \<open>urlopen\<close> raises), the
  reader of a JSON text is \<open>loads\<close>, and \<open>is_alnum\<close> says which characters are letters or digits.  The body of a request is
  the value that \<open>json.dumps\<close> writes.
\<close>

section \<open>Requests\<close>

record http_request =
  rq_method :: string
  rq_url :: string
  rq_body :: "json option"

type_synonym 'w exchange = "http_request \<Rightarrow> 'w \<Rightarrow> string result \<times> 'w"

definition quote_plus :: "string \<Rightarrow> string" where
  "quote_plus s = concat (map (\<lambda>c. if c = CHR '' '' then ''+'' else url_quote [c]) s)"

definition urlencode :: "(string \<times> string) list \<Rightarrow> string" where
  "urlencode query = join_with ''&'' (map (\<lambda>(k, v). quote_plus k @ ''='' @ quote_plus v) query)"

definition json_request ::
  "'w exchange \<Rightarrow> (string \<Rightarrow> json result) \<Rightarrow> string \<Rightarrow> string \<Rightarrow> string \<Rightarrow> json option \<Rightarrow> 'w \<Rightarrow> json result \<times> 'w" where
  "json_request exchange loads base_url verb path payload w =
     (case exchange \<lparr>rq_method = verb, rq_url = base_url @ path, rq_body = payload\<rparr> w of
        (Inl e, w1) \<Rightarrow> (Inl e, w1)
      | (Inr body, w1) \<Rightarrow> (if body = [] then Inr (JObj []) else loads body, w1))"

definition and_then :: "'a result \<times> 'w \<Rightarrow> ('a \<Rightarrow> 'b result) \<Rightarrow> 'b result \<times> 'w" where
  "and_then p f = (bind_result (fst p) f, snd p)"

section \<open>The client of the API\<close>

record api_client =
  ac_base_url :: string
  ac_notifications_path :: string
  ac_delivered_path :: "string \<Rightarrow> string"
  ac_callback_path :: string
  ac_callback_payload :: "string \<Rightarrow> string \<Rightarrow> dict"

definition approval_api_client :: "string \<Rightarrow> string \<Rightarrow> api_client" where
  "approval_api_client base_url client =
     \<lparr>ac_base_url = rstrip_chars ''/'' base_url,
      ac_notifications_path = ''/api/v1/gateway/approval/notifications?'' @ urlencode [(''client'', client)],
      ac_delivered_path = (\<lambda>k. ''/api/v1/gateway/approval/notifications/'' @ url_quote k @ ''/delivered''),
      ac_callback_path = ''/api/v1/gateway/approval/callback'',
      ac_callback_payload = callback_payload client\<rparr>"

definition telegram_api_client :: "string \<Rightarrow> api_client" where
  "telegram_api_client base_url =
     \<lparr>ac_base_url = rstrip_chars ''/'' base_url,
      ac_notifications_path = ''/api/v1/gateway/telegram/notifications'',
      ac_delivered_path = (\<lambda>k. ''/api/v1/gateway/telegram/notifications/'' @ k @ ''/delivered''),
      ac_callback_path = ''/api/v1/gateway/telegram/callback'',
      ac_callback_payload = (\<lambda>data decided_by. [(''callback_data'', JStr data), (''decided_by'', JStr decided_by)])\<rparr>"

definition api_request ::
  "'w exchange \<Rightarrow> (string \<Rightarrow> json result) \<Rightarrow> api_client \<Rightarrow> string \<Rightarrow> string \<Rightarrow> json option \<Rightarrow> 'w \<Rightarrow> json result \<times> 'w" where
  "api_request exchange loads api = json_request exchange loads (ac_base_url api)"

definition api_notifications ::
  "'w exchange \<Rightarrow> (string \<Rightarrow> json result) \<Rightarrow> api_client \<Rightarrow> 'w \<Rightarrow> json list result \<times> 'w" where
  "api_notifications exchange loads api w =
     and_then (api_request exchange loads api ''GET'' (ac_notifications_path api) None w)
       (\<lambda>body. bind_result (get_of body ''notifications'' (JList [])) py_iter)"

definition api_mark_delivered ::
  "'w exchange \<Rightarrow> (string \<Rightarrow> json result) \<Rightarrow> api_client \<Rightarrow> 'w mark_delivered" where
  "api_mark_delivered exchange loads api k w =
     and_then (api_request exchange loads api ''POST'' (ac_delivered_path api k) None w) (\<lambda>_. Inr ())"

definition api_handle_callback ::
  "'w exchange \<Rightarrow> (string \<Rightarrow> json result) \<Rightarrow> api_client \<Rightarrow> 'w handle_callback" where
  "api_handle_callback exchange loads api data decided_by w =
     api_request exchange loads api ''POST'' (ac_callback_path api) (Some (JObj (ac_callback_payload api data decided_by))) w"

section \<open>The client of the bot\<close>

definition bot_url :: "string \<Rightarrow> string" where
  "bot_url token = ''https://api.telegram.org/bot'' @ token"

definition telegram_error :: "exn \<Rightarrow> exn" where
  "telegram_error e = (case e of HTTPError code \<Rightarrow> RuntimeError (''telegram request failed: HTTP '' @ show_int code) | _ \<Rightarrow> e)"

definition telegram_request ::
  "'w exchange \<Rightarrow> (string \<Rightarrow> json result) \<Rightarrow> string \<Rightarrow> string \<Rightarrow> string \<Rightarrow> json option \<Rightarrow> 'w \<Rightarrow> json result \<times> 'w" where
  "telegram_request exchange loads token verb path payload w =
     json_request (\<lambda>q v. apfst (map_sum telegram_error id) (exchange q v)) loads (bot_url token) verb path payload w"

text \<open>A button that is no dict raises \<open>TypeError\<close>, before anything is sent.\<close>

definition telegram_send_card :: "'w exchange \<Rightarrow> (string \<Rightarrow> json result) \<Rightarrow> string \<Rightarrow> 'w send_card" where
  "telegram_send_card exchange loads token target txt buttons w =
     (case bind_result (map_result (\<lambda>b. case b of JObj d \<Rightarrow> Inr d | _ \<Rightarrow> Inl (TypeError ''indices'')) buttons)
             (send_card_payload target txt) of
        Inl e \<Rightarrow> (Inl e, w)
      | Inr payload \<Rightarrow>
          and_then (telegram_request exchange loads token ''POST'' ''/sendMessage'' (Some (JObj payload)) w) (\<lambda>_. Inr ()))"

definition updates_query :: "int option \<Rightarrow> (string \<times> string) list" where
  "updates_query offset =
     [(''timeout'', show_int 0), (''allowed_updates'', json_dumps (JList [JStr ''callback_query'']))]
     @ (case offset of None \<Rightarrow> [] | Some i \<Rightarrow> [(''offset'', show_int i)])"

definition telegram_get_updates ::
  "'w exchange \<Rightarrow> (string \<Rightarrow> json result) \<Rightarrow> string \<Rightarrow> int option \<Rightarrow> 'w \<Rightarrow> json list result \<times> 'w" where
  "telegram_get_updates exchange loads token offset w =
     and_then (telegram_request exchange loads token ''GET'' (''/getUpdates?'' @ urlencode (updates_query offset)) None w)
       (\<lambda>body. bind_result (get_of body ''result'' JNull) (\<lambda>v. py_iter (py_or v (JList []))))"

definition telegram_answer :: "'w exchange \<Rightarrow> (string \<Rightarrow> json result) \<Rightarrow> string \<Rightarrow> 'w answer_query" where
  "telegram_answer exchange loads token callback_id txt w =
     and_then (telegram_request exchange loads token ''POST'' ''/answerCallbackQuery''
                 (Some (JObj (answer_payload callback_id txt))) w) (\<lambda>_. Inr ())"

definition telegram_clear :: "'w exchange \<Rightarrow> (string \<Rightarrow> json result) \<Rightarrow> string \<Rightarrow> 'w clear_keyboard" where
  "telegram_clear exchange loads token chat_id message_id w =
     and_then (telegram_request exchange loads token ''POST'' ''/editMessageReplyMarkup''
                 (Some (JObj [(''chat_id'', chat_id), (''message_id'', message_id),
                              (''reply_markup'', JObj [(''inline_keyboard'', JList [])])])) w) (\<lambda>_. Inr ())"

section \<open>One poll of the outbox\<close>

text \<open>\<open>notification.get\<close> stands outside the \<open>try\<close> block: an entry that is no dict ends the poll.\<close>

fun deliver_entries ::
  "'w send_card \<Rightarrow> 'w mark_delivered \<Rightarrow> string \<Rightarrow> json list \<Rightarrow> poll_result \<Rightarrow> 'w \<Rightarrow> poll_result result \<times> 'w" where
  "deliver_entries send mark target [] acc w = (Inr acc, w)"
| "deliver_entries send mark target (JObj n # ns) acc w =
     (case deliver_one send mark target n w of
        (True, w1) \<Rightarrow> deliver_entries send mark target ns (acc\<lparr>pl_sent := pl_sent acc + 1\<rparr>) w1
      | (False, w1) \<Rightarrow> deliver_entries send mark target ns (acc\<lparr>pl_failed := pl_failed acc + 1\<rparr>) w1)"
| "deliver_entries send mark target (_ # ns) acc w = (Inl (AttributeError ''get''), w)"

definition poll_outbox ::
  "'w exchange \<Rightarrow> (string \<Rightarrow> json result) \<Rightarrow> api_client \<Rightarrow> string \<Rightarrow> string \<Rightarrow> 'w \<Rightarrow> poll_result result \<times> 'w" where
  "poll_outbox exchange loads api token target w =
     (case api_notifications exchange loads api w of
        (Inl e, w1) \<Rightarrow> (Inl e, w1)
      | (Inr ns, w1) \<Rightarrow>
          deliver_entries (telegram_send_card exchange loads token) (api_mark_delivered exchange loads api) target ns
            \<lparr>pl_sent = 0, pl_failed = 0\<rparr> w1)"

section \<open>Settings and the offset of the updates\<close>

definition given_or :: "string option \<Rightarrow> string \<Rightarrow> string" where
  "given_or v x = (case v of None \<Rightarrow> x | Some t \<Rightarrow> if t = [] then x else t)"

definition env_first :: "env \<Rightarrow> string \<Rightarrow> string \<Rightarrow> string" where
  "env_first env k l = (if env_or env k [] \<noteq> [] then env_or env k [] else env_or env l [])"

record gateway_settings =
  gs_api_url :: string
  gs_client :: string
  gs_target :: string
  gs_token :: string

definition approval_gateway_settings ::
  "host_view \<Rightarrow> files \<Rightarrow> string \<Rightarrow> string option \<Rightarrow> string option \<Rightarrow> string option \<Rightarrow> gateway_settings result" where
  "approval_gateway_settings hv fs client api_url target token =
     (let env = hv_environ hv; named = given_or api_url (env_or env ''HMN_API_URL'' [])
      in bind_result (if named \<noteq> [] then Inr named else default_master_url hv fs) (\<lambda>url.
         if lower client \<noteq> ''telegram'' then Inl (Exit 1)
         else let resolved_target = given_or target (env_first env ''HMN_APPROVAL_GATEWAY_TARGET'' ''HMN_TELEGRAM_CHAT_ID'');
                  resolved_token = given_or token (env_first env ''HMN_APPROVAL_GATEWAY_TOKEN'' ''HMN_TELEGRAM_BOT_TOKEN'')
              in if resolved_target = [] \<or> resolved_token = [] then Inl (Exit 1)
                 else Inr \<lparr>gs_api_url = rstrip_chars ''/'' url, gs_client = lower client,
                           gs_target = resolved_target, gs_token = resolved_token\<rparr>))"

definition telegram_gateway_settings ::
  "host_view \<Rightarrow> files \<Rightarrow> string option \<Rightarrow> string option \<Rightarrow> string option \<Rightarrow> gateway_settings result" where
  "telegram_gateway_settings hv fs api_url chat_id token = approval_gateway_settings hv fs ''telegram'' api_url chat_id token"

definition offset_path :: "(string \<Rightarrow> bool) \<Rightarrow> string \<Rightarrow> string" where
  "offset_path is_alnum client =
     (let safe = concat (filter (\<lambda>ch. is_alnum ch \<or> ch \<in> {''-'', ''_''}) (utf8_split client))
      in ''/var/lib/hermes-managed-network/'' @ (if safe = [] then ''telegram'' else safe) @ ''-gateway.update_offset'')"

definition read_offset :: "(string \<Rightarrow> bool) \<Rightarrow> string \<Rightarrow> files \<Rightarrow> int option result" where
  "read_offset is_alnum client fs =
     (case fs (offset_path is_alnum client) of
        None \<Rightarrow> Inr None
      | Some txt \<Rightarrow>
          if strip txt = [] then Inr None
          else case parse_int (strip txt) of
                 None \<Rightarrow> Inl (ValueError ''invalid literal for int()'')
               | Some i \<Rightarrow> Inr (Some i))"

definition write_offset :: "(string \<Rightarrow> bool) \<Rightarrow> string \<Rightarrow> int option \<Rightarrow> files \<Rightarrow> files" where
  "write_offset is_alnum client offset fs =
     (case offset of None \<Rightarrow> fs | Some i \<Rightarrow> fs(offset_path is_alnum client \<mapsto> show_int i))"

section \<open>A round of the gateway\<close>

definition gateway_round ::
  "'w exchange \<Rightarrow> (string \<Rightarrow> json result) \<Rightarrow> (string \<Rightarrow> bool) \<Rightarrow> gateway_settings \<Rightarrow> files \<times> 'w
    \<Rightarrow> (poll_result \<times> update_result) result \<times> files \<times> 'w" where
  "gateway_round exchange loads is_alnum gs st =
     (let (fs, w) = st; api = approval_api_client (gs_api_url gs) (gs_client gs); token = gs_token gs
      in case poll_outbox exchange loads api token (gs_target gs) w of
           (Inl e, w1) \<Rightarrow> (Inl e, fs, w1)
         | (Inr sent, w1) \<Rightarrow>
             (case read_offset is_alnum (gs_client gs) fs of
                Inl e \<Rightarrow> (Inl e, fs, w1)
              | Inr offset \<Rightarrow>
                  (case process_telegram_callbacks (api_handle_callback exchange loads api) (telegram_answer exchange loads token)
                          (telegram_clear exchange loads token) (telegram_get_updates exchange loads token) ''telegram'' offset w1 of
                     (Inl e, w2) \<Rightarrow> (Inl e, fs, w2)
                   | (Inr r, w2) \<Rightarrow> (Inr (sent, r), write_offset is_alnum (gs_client gs) (up_next_offset r) fs, w2))))"

definition gateway_line :: "poll_result \<times> update_result \<Rightarrow> string" where
  "gateway_line p =
     (let (sent, r) = p; n = (\<lambda>k. show_int (int k))
      in (''sent='' @ n (pl_sent sent) @ '' failed='' @ n (pl_failed sent) @ '' callbacks='' @ n (up_processed r)
       @ '' approved='' @ n (up_approved r) @ '' rejected='' @ n (up_rejected r) @ '' callback_failed=''
       @ n (up_failed r)))"

definition round_outcome :: "poll_result \<times> update_result \<Rightarrow> unit result" where
  "round_outcome p = (if pl_failed (fst p) > 0 \<or> up_failed (snd p) > 0 then Inl (Exit 1) else Inr ())"

definition approval_gateway_poll_once ::
  "'w exchange \<Rightarrow> (string \<Rightarrow> json result) \<Rightarrow> (string \<Rightarrow> bool) \<Rightarrow> host_view \<Rightarrow> string \<Rightarrow> string option \<Rightarrow> string option
    \<Rightarrow> string option \<Rightarrow> files \<times> 'w \<Rightarrow> unit result \<times> string list \<times> files \<times> 'w" where
  "approval_gateway_poll_once exchange loads is_alnum hv client api_url target token st =
     (case approval_gateway_settings hv (fst st) client api_url target token of
        Inl e \<Rightarrow> (Inl e, [], st)
      | Inr gs \<Rightarrow>
          (case gateway_round exchange loads is_alnum gs st of
             (Inl e, st1) \<Rightarrow> (Inl e, [], st1)
           | (Inr p, st1) \<Rightarrow> (round_outcome p, [gateway_line p], st1)))"

text \<open>
  The loop of \<open>run\<close> ends by an exception only: \<open>gateway_loop n\<close> are its first \<open>n\<close> rounds, with \<open>sleep\<close> for what happens in
  the world between two of them.
\<close>

primrec gateway_loop ::
  "(files \<times> 'w \<Rightarrow> 'a result \<times> files \<times> 'w) \<Rightarrow> ('w \<Rightarrow> 'w) \<Rightarrow> nat \<Rightarrow> files \<times> 'w \<Rightarrow> 'a list result \<times> files \<times> 'w" where
  "gateway_loop go sleep 0 st = (Inr [], st)"
| "gateway_loop go sleep (Suc n) st =
     (case go st of
        (Inl e, st1) \<Rightarrow> (Inl e, st1)
      | (Inr x, fs, w) \<Rightarrow>
          (case gateway_loop go sleep n (fs, sleep w) of
             (Inl e, st2) \<Rightarrow> (Inl e, st2)
           | (Inr xs, st2) \<Rightarrow> (Inr (x # xs), st2)))"

definition approval_gateway_run ::
  "'w exchange \<Rightarrow> (string \<Rightarrow> json result) \<Rightarrow> (string \<Rightarrow> bool) \<Rightarrow> host_view \<Rightarrow> string \<Rightarrow> string option \<Rightarrow> string option
    \<Rightarrow> string option \<Rightarrow> ('w \<Rightarrow> 'w) \<Rightarrow> bool \<Rightarrow> nat \<Rightarrow> files \<times> 'w \<Rightarrow> unit result \<times> files \<times> 'w" where
  "approval_gateway_run exchange loads is_alnum hv client api_url target token sleep once n st =
     (case approval_gateway_settings hv (fst st) client api_url target token of
        Inl e \<Rightarrow> (Inl e, st)
      | Inr gs \<Rightarrow>
          if once
          then (case gateway_round exchange loads is_alnum gs st of
                  (Inl e, st1) \<Rightarrow> (Inl e, st1)
                | (Inr p, st1) \<Rightarrow> (round_outcome p, st1))
          else apfst (map_sum id (\<lambda>_. ())) (gateway_loop (gateway_round exchange loads is_alnum gs) sleep n st))"

text \<open>The older commands only send cards.\<close>

definition telegram_gateway_poll_once ::
  "'w exchange \<Rightarrow> (string \<Rightarrow> json result) \<Rightarrow> host_view \<Rightarrow> string option \<Rightarrow> string option \<Rightarrow> string option \<Rightarrow> files \<Rightarrow> 'w
    \<Rightarrow> unit result \<times> string list \<times> 'w" where
  "telegram_gateway_poll_once exchange loads hv api_url chat_id token fs w =
     (case telegram_gateway_settings hv fs api_url chat_id token of
        Inl e \<Rightarrow> (Inl e, [], w)
      | Inr gs \<Rightarrow>
          (case poll_outbox exchange loads (telegram_api_client (gs_api_url gs)) (gs_token gs) (gs_target gs) w of
             (Inl e, w1) \<Rightarrow> (Inl e, [], w1)
           | (Inr r, w1) \<Rightarrow>
               (if pl_failed r > 0 then Inl (Exit 1) else Inr (),
                [''sent='' @ show_int (int (pl_sent r)) @ '' failed='' @ show_int (int (pl_failed r))], w1)))"

definition telegram_gateway_run ::
  "'w exchange \<Rightarrow> (string \<Rightarrow> json result) \<Rightarrow> host_view \<Rightarrow> string option \<Rightarrow> string option \<Rightarrow> string option \<Rightarrow> ('w \<Rightarrow> 'w)
    \<Rightarrow> bool \<Rightarrow> nat \<Rightarrow> files \<times> 'w \<Rightarrow> unit result \<times> files \<times> 'w" where
  "telegram_gateway_run exchange loads hv api_url chat_id token sleep once n st =
     (case telegram_gateway_settings hv (fst st) api_url chat_id token of
        Inl e \<Rightarrow> (Inl e, st)
      | Inr gs \<Rightarrow>
          let poll = (\<lambda>(fs, w). case poll_outbox exchange loads (telegram_api_client (gs_api_url gs)) (gs_token gs)
                                       (gs_target gs) w of (r, w1) \<Rightarrow> (r, fs, w1))
          in if once
             then (case poll st of
                     (Inl e, st1) \<Rightarrow> (Inl e, st1)
                   | (Inr r, st1) \<Rightarrow> (if pl_failed r > 0 then Inl (Exit 1) else Inr (), st1))
             else apfst (map_sum id (\<lambda>_. ())) (gateway_loop poll sleep n st))"

section \<open>Facts\<close>

lemma quoted_char: "c \<in> set (url_quote s) \<Longrightarrow> is_unreserved c \<or> c = CHR ''%''"
proof -
  have u: "is_unreserved (upper_hex n)" if "n < 16" for n
  proof -
    have "n \<in> set [0..<16]" using that by simp
    then show ?thesis by (auto simp: upt_rec is_unreserved_def upper_hex_def)
  qed
  assume "c \<in> set (url_quote s)"
  then obtain d where "d \<in> set s" and c: "is_unreserved d \<and> c = d \<or> c = CHR ''%''
      \<or> c = upper_hex (of_char d div 16) \<or> c = upper_hex (of_char d mod 16)"
    unfolding url_quote_def by (auto simp: Let_def split: if_splits)
  moreover have "(of_char d :: nat) div 16 < 16" by (rule less_mult_imp_div_less) simp
  ultimately show ?thesis using u by auto
qed

text \<open>
  A notification id, whatever it holds, stays inside its segment of the path; the older client puts it there as it is.
\<close>

lemma delivered_path_segment:
  "split_on CHR ''/'' (ac_delivered_path (approval_api_client base client) k)
     = [[], ''api'', ''v1'', ''gateway'', ''approval'', ''notifications'', url_quote k, ''delivered'']"
proof -
  have n: "CHR ''/'' \<notin> set (url_quote k)"
    using quoted_char [of "CHR ''/''" k] by (auto simp: is_unreserved_def)
  have "split_on CHR ''/'' (url_quote k @ ''/delivered'') = [url_quote k, ''delivered'']"
    using split_on_append_sep [OF n, of "''delivered''"] by simp
  then show ?thesis by (simp add: approval_api_client_def)
qed

text \<open>A callback never moves the offset; an update moves it past itself and never back.\<close>

lemma try_callback_offset:
  "try_callback handle answer clear data by_whom callback_id callback acc w = (ok, acc1, w1)
    \<Longrightarrow> up_next_offset acc1 = up_next_offset acc"
  unfolding try_callback_def count_status_def Let_def
  by (auto split: prod.splits sum.splits if_splits)

definition passed_by :: "int option \<Rightarrow> json \<Rightarrow> bool" where
  "passed_by offset u = (case (read_update u, offset) of (Inr (i, _), Some k) \<Rightarrow> i < k | _ \<Rightarrow> False)"

definition offset_le :: "int option \<Rightarrow> int option \<Rightarrow> bool" where
  "offset_le a b = (case a of None \<Rightarrow> True | Some i \<Rightarrow> (case b of None \<Rightarrow> False | Some k \<Rightarrow> i \<le> k))"

lemma offset_le_refl [simp]: "offset_le a a"
  by (simp add: offset_le_def split: option.splits)

lemma offset_le_trans: "offset_le a b \<Longrightarrow> offset_le b c \<Longrightarrow> offset_le a c"
  by (auto simp: offset_le_def split: option.splits)

lemma passed_by_mono: "passed_by a u \<Longrightarrow> offset_le a b \<Longrightarrow> passed_by b u"
  by (auto simp: offset_le_def passed_by_def split: option.splits sum.splits)

lemma process_update_offset:
  assumes "process_update handle answer clear prefix u acc w = (Inr acc1, w1)"
  shows "passed_by (up_next_offset acc1) u \<and> offset_le (up_next_offset acc) (up_next_offset acc1)"
  using assms unfolding process_update_def Let_def
  by (auto simp: passed_by_def offset_le_def dest!: try_callback_offset split: prod.splits sum.splits if_splits option.splits bool.splits)

lemma process_updates_offset:
  "process_updates handle answer clear prefix us acc w = (Inr r, w1)
    \<Longrightarrow> list_all (passed_by (up_next_offset r)) us \<and> offset_le (up_next_offset acc) (up_next_offset r)"
proof (induction us arbitrary: acc w)
  case Nil
  then show ?case by simp
next
  case (Cons u us)
  from Cons.prems obtain acc1 w2 where
    1: "process_update handle answer clear prefix u acc w = (Inr acc1, w2)"
    and 2: "process_updates handle answer clear prefix us acc1 w2 = (Inr r, w1)"
    by (auto split: prod.splits sum.splits)
  from Cons.IH [OF 2] process_update_offset [OF 1] show ?case
    by (auto intro: passed_by_mono offset_le_trans)
qed

lemma show_int_no_space: "strip (show_int i) = show_int i" "show_int i \<noteq> []"
proof -
  have "list_all (\<lambda>c. \<not> is_space c) (show_int i)"
    using show_int_chars [of _ i] digit_not by (fastforce simp: list_all_iff is_space_def)
  then show "strip (show_int i) = show_int i" by (rule strip_no_space)
  show "show_int i \<noteq> []" using parse_int_show_int [of i] by (auto simp: parse_int_def strip_def lstrip_def rstrip_def)
qed

lemma read_written_offset:
  "read_offset is_alnum client (write_offset is_alnum client (Some i) fs) = Inr (Some i)"
  by (simp add: read_offset_def write_offset_def show_int_no_space parse_int_show_int)

section \<open>Properties\<close>

text \<open>C27: a round of the gateway never loses its place in the updates of the chat: a round that raises leaves every
  file as it was; a round that ends has fetched the updates from the stored offset on, and stores an offset
  beyond each of them and not before the old one, in that one file.\<close>

theorem gateway_keeps_its_place:
  "case gateway_round exchange loads is_alnum gs (fs, w) of
     (Inl e, fs', w') \<Rightarrow> fs' = fs
   | (Inr p, fs', w') \<Rightarrow>
       (\<exists>old new us w1 w2.
          read_offset is_alnum (gs_client gs) fs = Inr old
          \<and> telegram_get_updates exchange loads (gs_token gs) old w1 = (Inr us, w2)
          \<and> read_offset is_alnum (gs_client gs) fs' = Inr new
          \<and> list_all (passed_by new) us \<and> offset_le old new
          \<and> {q. fs' q \<noteq> fs q} \<subseteq> {offset_path is_alnum (gs_client gs)})"
proof -
  let ?api = "approval_api_client (gs_api_url gs) (gs_client gs)"
  let ?callbacks = "process_telegram_callbacks (api_handle_callback exchange loads ?api)
      (telegram_answer exchange loads (gs_token gs)) (telegram_clear exchange loads (gs_token gs))
      (telegram_get_updates exchange loads (gs_token gs)) ''telegram''"
  obtain out fs' w' where g: "gateway_round exchange loads is_alnum gs (fs, w) = (out, fs', w')"
    by (metis prod.exhaust)
  show ?thesis
  proof (cases out)
    case (Inl e)
    then have "fs' = fs" using g by (auto simp: gateway_round_def Let_def split: prod.splits sum.splits)
    then show ?thesis using g Inl by simp
  next
    case (Inr p)
    with g obtain sent w1 old r where
      "poll_outbox exchange loads ?api (gs_token gs) (gs_target gs) w = (Inr sent, w1)"
      and old: "read_offset is_alnum (gs_client gs) fs = Inr old"
      and c: "?callbacks old w1 = (Inr r, w')"
      and fs': "fs' = write_offset is_alnum (gs_client gs) (up_next_offset r) fs"
      by (auto simp: gateway_round_def Let_def split: prod.splits sum.splits)
    from c obtain us w2 acc where u: "telegram_get_updates exchange loads (gs_token gs) old w1 = (Inr us, w2)"
      and pu: "process_updates (api_handle_callback exchange loads ?api) (telegram_answer exchange loads (gs_token gs))
        (telegram_clear exchange loads (gs_token gs)) ''telegram'' us acc w2 = (Inr r, w')"
      and acc: "up_next_offset acc = old"
      unfolding process_telegram_callbacks_def by (auto split: prod.splits sum.splits)
    from process_updates_offset [OF pu] acc
    have le: "list_all (passed_by (up_next_offset r)) us" "offset_le old (up_next_offset r)" by simp_all
    have new: "read_offset is_alnum (gs_client gs) fs' = Inr (up_next_offset r)"
    proof (cases "up_next_offset r")
      case None
      with le(2) have "old = None" by (simp add: offset_le_def split: option.splits)
      then show ?thesis using old fs' None by (simp add: write_offset_def)
    qed (use fs' read_written_offset in simp)
    have "{q. fs' q \<noteq> fs q} \<subseteq> {offset_path is_alnum (gs_client gs)}"
      using fs' by (auto simp: write_offset_def split: option.splits if_splits)
    with g Inr old u new le show ?thesis by auto
  qed
qed

end
