(* ===== verification/OrchestratorCommands.thy ===== *)
theory OrchestratorCommands imports OrchestratorLaws Worktrees PyData begin

text \<open>
  The \<open>orchestrator\<close> commands of \<open>cli.py\<close>: the lines they print and what they do to the store.  A command that raises
  while it prints gives the exception only; the service runs without a bridge and with its default limits.
\<close>

section \<open>Items\<close>

text \<open>\<open>v not in {None, ""}\<close> needs a hash of \<open>v\<close>, which lists and dicts do not have.\<close>

definition shown_value :: "json \<Rightarrow> string option result" where
  "shown_value v =
     (case v of
        JList _ \<Rightarrow> Inl (TypeError ''unhashable type'')
      | JObj _ \<Rightarrow> Inl (TypeError ''unhashable type'')
      | JNull \<Rightarrow> Inr None
      | _ \<Rightarrow> Inr (if v = JStr [] then None else Some (py_str v)))"

fun shown_values :: "dict \<Rightarrow> string list \<Rightarrow> string list result" where
  "shown_values item [] = Inr []"
| "shown_values item (k # ks) =
     bind_result (shown_value (dget_or item k (JStr []))) (\<lambda>v.
     bind_result (shown_values item ks) (\<lambda>vs. Inr (case v of None \<Rightarrow> vs | Some t \<Rightarrow> t # vs)))"

definition fmt_orch_item :: "string list \<Rightarrow> dict \<Rightarrow> string result" where
  "fmt_orch_item keys item =
     bind_result (shown_values item keys) (\<lambda>vs. Inr (if vs = [] then ''-'' else join_with '' | '' vs))"

text \<open>A heading, the lines below it, and a word where there are none.\<close>

definition shown_section :: "string \<Rightarrow> string \<Rightarrow> string list \<Rightarrow> string list" where
  "shown_section heading none lines = heading # map (\<lambda>l. ''  '' @ l) (if lines = [] then [none] else lines)"

definition bind_lines :: "string list result \<Rightarrow> (string list \<Rightarrow> string list) \<Rightarrow> string list result \<Rightarrow> string list result" where
  "bind_lines r f rest = bind_result r (\<lambda>ls. bind_result rest (\<lambda>more. Inr (f ls @ more)))"

section \<open>Queue and workers\<close>

definition orchestrator_enqueue ::
  "string \<Rightarrow> string \<Rightarrow> string \<Rightarrow> int \<Rightarrow> string \<Rightarrow> string \<Rightarrow> (nat \<Rightarrow> time) \<Rightarrow> store \<Rightarrow> string result \<times> store" where
  "orchestrator_enqueue title scope risk priority worker_hint uid clk s =
     (if risk \<notin> {''low'', ''medium'', ''high'', ''critical''} then (Inl (Exit 1), s)
      else case enqueue title scope risk priority worker_hint ''cli'' uid clk s of
             (Inl e, s1) \<Rightarrow> (Inl e, s1)
           | (Inr task_id, s1) \<Rightarrow> (Inr (utf8_text [0x5DF2, 0x5165, 0x961F] @ '': '' @ task_id), s1))"

definition orchestrator_worker_register ::
  "string \<Rightarrow> string \<Rightarrow> string \<Rightarrow> string list \<Rightarrow> time \<Rightarrow> store \<Rightarrow> string \<times> store" where
  "orchestrator_worker_register worker_id transport status labels now s =
     ((''worker '' @ utf8_text [0x5DF2, 0x767B, 0x8BB0] @ '': '' @ worker_id @ '' | '' @ status @ '' | ''
       @ transport), register_worker worker_id transport status labels now s)"

definition orchestrator_worker_update ::
  "string \<Rightarrow> string \<Rightarrow> string option \<Rightarrow> string list option \<Rightarrow> time \<Rightarrow> store \<Rightarrow> string \<times> store" where
  "orchestrator_worker_update worker_id status transport labels now s =
     ((''worker '' @ utf8_text [0x5DF2, 0x66F4, 0x65B0] @ '': '' @ worker_id @ '' | '' @ status), update_worker worker_id status transport labels now s)"

section \<open>Status and backlog\<close>

definition worker_status_line :: "dict \<Rightarrow> string result" where
  "worker_status_line item =
     bind_result (fmt_orch_item [''worker_id'', ''status'', ''transport''] item) (\<lambda>line.
     bind_result (py_iter (py_or (dget item ''labels'') (JList []))) (\<lambda>labels.
     Inr (line @ (if labels = [] then [] else '' | labels='' @ join_with '','' (map py_str labels)))))"

definition orchestrator_status :: "store \<Rightarrow> string list result" where
  "orchestrator_status s =
     (let sn = snapshot s; none = (utf8_text [0x7A7A])
      in bind_lines (map_result (fmt_orch_item [''task_id'', ''status'', ''title'', ''priority'']) (sn_queue sn))
           (shown_section (utf8_text [0x961F, 0x5217] @ '':'') none)
        (bind_lines (map_result worker_status_line (sn_workers sn)) (shown_section ''worker:'' none)
        (bind_lines (map_result (fmt_orch_item [''task_id'', ''worker_id'', ''status'']) (sn_assignments sn))
           (shown_section ''assignment:'' none)
        (bind_lines (map_result (fmt_orch_item [''task_id'', ''status'', ''summary'']) (take 5 (sn_reports sn)))
           (shown_section (utf8_text [0x6700, 0x8FD1] @ '' report:'') (utf8_text [0x6682, 0x65E0]))
        (Inr [])))))"

text \<open>The item of a branch; its texts are never empty where git prints them, a missing reason is left out.\<close>

definition branch_dict :: "branch_item \<Rightarrow> dict" where
  "branch_dict b =
     [(''branch'', JStr (bi_branch b)), (''ref'', JStr (bi_ref b)), (''sha'', JStr (bi_sha b))]
     @ (case bi_reason b of None \<Rightarrow> [] | Some r \<Rightarrow> [(''reason'', JStr r)])"

definition backlog_bucket :: "backlog \<Rightarrow> string \<Rightarrow> branch_item list" where
  "backlog_bucket b status =
     (if status = ''merged'' then bl_merged b else if status = ''conflict'' then bl_conflict b
      else if status = ''needs-review'' then bl_needs_review b else [])"

definition BACKLOG_STATUSES :: "string list" where
  "BACKLOG_STATUSES = [''generated'', ''needs-review'', ''merge-ready'', ''merged'', ''duplicate'', ''conflict'', ''stale'',
     ''abandoned'']"

definition bucket_lines :: "backlog \<Rightarrow> string \<Rightarrow> string list result" where
  "bucket_lines b status =
     bind_result (map_result (\<lambda>i. fmt_orch_item [''branch'', ''ref'', ''sha'', ''reason''] (branch_dict i)) (backlog_bucket b status))
       (\<lambda>ls. Inr (shown_section (status @ '':'') (utf8_text [0x7A7A]) ls))"

definition backlog_lines :: "string \<Rightarrow> backlog \<Rightarrow> string list result" where
  "backlog_lines base b =
     bind_result (map_result (bucket_lines b) BACKLOG_STATUSES) (\<lambda>sections.
     Inr ([''base: '' @ base, (utf8_text [0x5206, 0x652F, 0x603B, 0x6570] @ '': '' @ show_int (int (bl_total b))),
           ''WIP: '' @ show_int (int (bl_wip_count b)) @ ''/'' @ show_int (bl_wip_limit b)]
          @ concat sections
          @ [(utf8_text [0x53EF, 0x6E05, 0x7406] @ '': '') @ (if bl_cleanup b = [] then (utf8_text [0x65E0]) else join_with '', '' (bl_cleanup b))]))"

definition WIP_LIMIT :: int where
  "WIP_LIMIT = 3"

definition orchestrator_backlog :: "git_env \<Rightarrow> string \<Rightarrow> string \<Rightarrow> string list result" where
  "orchestrator_backlog g repo base = bind_result (branch_backlog g repo base WIP_LIMIT) (backlog_lines base)"

section \<open>A round and the report\<close>

definition tick_lines :: "tick_result \<Rightarrow> string list result" where
  "tick_lines r =
     bind_result (map_result (fmt_orch_item [''task_id'', ''reason'']) (tc_blocked r)) (\<lambda>blocked.
     Inr (shown_section (utf8_text [0x5DF2, 0x5206, 0x53D1] @ '':'') (utf8_text [0x65E0]) (map (\<lambda>(task_id, worker_id). task_id @ '' -> '' @ worker_id) (tc_dispatched r))
          @ shown_section (utf8_text [0x963B, 0x585E] @ '':'') (utf8_text [0x65E0]) blocked
          @ [(utf8_text [0x4E0B, 0x4E00, 0x6B65, 0xFF1A] @ tc_next r)]))"

definition orchestrator_tick :: "(nat \<Rightarrow> string) \<Rightarrow> (nat \<Rightarrow> time) \<Rightarrow> store \<Rightarrow> string list result \<times> store" where
  "orchestrator_tick uid clk s =
     (case tick None 3 (30 * 60) uid clk s of
        (Inl e, s1) \<Rightarrow> (Inl e, s1)
      | (Inr r, s1) \<Rightarrow> (tick_lines r, s1))"

definition orchestrator_report :: "store \<Rightarrow> string" where
  "orchestrator_report s = report s"

section \<open>Facts\<close>

lemma unknown_risk_is_refused:
  "risk \<notin> {''low'', ''medium'', ''high'', ''critical''}
    \<Longrightarrow> orchestrator_enqueue title scope risk priority worker_hint uid clk s = (Inl (Exit 1), s)"
  by (simp add: orchestrator_enqueue_def)

text \<open>An item of texts and numbers always prints; the status fails only on a title in the audit log that is no text.\<close>

lemma shown_values_total:
  assumes "list_all (\<lambda>k. case dget_or item k (JStr []) of JList _ \<Rightarrow> False | JObj _ \<Rightarrow> False | _ \<Rightarrow> True) keys"
  shows "\<exists>vs. shown_values item keys = Inr vs"
  using assms
proof (induction keys)
  case (Cons k ks)
  then obtain vs where "shown_values item ks = Inr vs" by auto
  with Cons.prems show ?case by (auto simp: shown_value_def split: json.splits)
qed simp

lemma fmt_orch_item_total:
  assumes "list_all (\<lambda>k. case dget_or item k (JStr []) of JList _ \<Rightarrow> False | JObj _ \<Rightarrow> False | _ \<Rightarrow> True) keys"
  shows "\<exists>line. fmt_orch_item keys item = Inr line"
  using shown_values_total [OF assms] by (auto simp: fmt_orch_item_def)

lemma map_result_total: "list_all (\<lambda>x. \<exists>y. f x = Inr y) xs \<Longrightarrow> \<exists>ys. map_result f xs = Inr ys \<and> length ys = length xs"
  by (induction xs) auto

text \<open>The backlog prints whatever the buckets hold: one line for each branch, a word for each empty bucket.\<close>

lemma bucket_lines_total: "\<exists>ls. bucket_lines b status = Inr ls \<and> length ls = 1 + max 1 (length (backlog_bucket b status))"
proof -
  have "list_all (\<lambda>i. \<exists>y. fmt_orch_item [''branch'', ''ref'', ''sha'', ''reason''] (branch_dict i) = Inr y) (backlog_bucket b status)"
    unfolding list_all_iff
    by (intro ballI fmt_orch_item_total) (auto simp: branch_dict_def dget_or_def split: option.splits)
  from map_result_total [OF this] obtain ys where "map_result (\<lambda>i. fmt_orch_item [''branch'', ''ref'', ''sha'', ''reason''] (branch_dict i)) (backlog_bucket b status) = Inr ys"
    and "length ys = length (backlog_bucket b status)"
    by blast
  then show ?thesis by (auto simp: bucket_lines_def shown_section_def Suc_le_eq max_def)
qed

text \<open>
  The command runs without a bridge: a round reports the task as handed out and leases it, although nothing was sent
  to the worker.
\<close>

lemma tick_hands_out_nothing:
  assumes "next_orch_task (expire_leases (clk 0) (30 * 60) s) = Some t"
    and "next_orch_worker (expire_leases (clk 0) (30 * 60) s) = Some w"
    and "lease_task t w uid clk (expire_leases (clk 0) (30 * 60) s) = (Inr r, s')"
  shows "orchestrator_tick uid clk s = (tick_lines r, s')"
  using assms by (simp add: orchestrator_tick_def tick_def Let_def)

end
