(* ===== verification/ApiPages.thy ===== *)
theory ApiPages imports ConsoleApi WebPages begin

text \<open>
  The pages that \<open>api.py\<close> renders itself: the index of documents, the view of one document and the sign-in form, with
  their endpoints.  The texts of the frames are those of the source, line by line; the renderer of Markdown is the parameter
  \<open>render\<close>, \<open>read\<close> the text of a file.
\<close>

section \<open>The index of documents\<close>

text \<open>
  The tree is a dictionary per directory whose key \<open>__files__\<close> holds the entries of the directory, so that a directory of
  that name gets in the way.
\<close>

datatype item_tree =
    ItemDir "(string \<times> item_tree) list"
  | Items "doc_item list"

definition add_item :: "doc_item \<Rightarrow> (string \<times> item_tree) list \<Rightarrow> (string \<times> item_tree) list result" where
  "add_item i entries =
     (case map_of entries FILES_KEY of
        None \<Rightarrow> Inr (entries @ [(FILES_KEY, Items [i])])
      | Some (Items is) \<Rightarrow> Inr (AList.update FILES_KEY (Items (is @ [i])) entries)
      | Some (ItemDir _) \<Rightarrow> Inl (AttributeError ''append''))"

fun item_insert :: "string list \<Rightarrow> doc_item \<Rightarrow> item_tree \<Rightarrow> item_tree result" where
  "item_insert parts i (Items _) = Inl (AttributeError ''setdefault'')"
| "item_insert [] i (ItemDir entries) = bind_result (add_item i entries) (\<lambda>e. Inr (ItemDir e))"
| "item_insert (part # parts) i (ItemDir entries) =
     bind_result (item_insert parts i (case map_of entries part of None \<Rightarrow> ItemDir [] | Some child \<Rightarrow> child))
       (\<lambda>child. Inr (ItemDir (AList.update part child entries)))"

fun build_tree :: "doc_item list \<Rightarrow> item_tree \<Rightarrow> item_tree result" where
  "build_tree [] tree = Inr tree"
| "build_tree (i # is) tree =
     bind_result (item_insert (butlast (split_on CHR ''/'' (di_path i))) i tree) (build_tree is)"

definition item_html :: "doc_item \<Rightarrow> string" where
  "item_html i =
     (let viewer = html_escape (di_viewer_url i)
      in (''<div class='tree-file'><a class='tree-file-name' href='' @ [CHR 0x22] @ viewer @ [CHR 0x22] @ ''>''
       @ html_escape (di_title i) @ ''</a><code>'' @ html_escape (di_path i)
       @ ''</code><div class='tree-links'><a href='' @ [CHR 0x22] @ viewer @ [CHR 0x22] @ ''>''
       @ utf8_text [0x9605, 0x8BFB] @ ''</a><a href='' @ [CHR 0x22] @ html_escape (di_url i) @ [CHR 0x22]
       @ ''>'' @ utf8_text [0x539F, 0x6587] @ ''</a></div></div>''))"

definition directory_html :: "string \<Rightarrow> string \<Rightarrow> string" where
  "directory_html name children =
     (''<details class='tree-node' open><summary>'' @ html_escape name
       @ ''</summary><div class='tree-children'>'' @ children @ ''</div></details>'')"

text \<open>\<open>sorted\<close> over a directory under \<open>__files__\<close> takes its keys for entries and raises \<open>TypeError\<close>.\<close>

fun render_items :: "item_tree \<Rightarrow> string result" where
  "render_items (Items _) = Inl (AttributeError ''keys'')"
| "render_items (ItemDir entries) =
     (let rendered = map (\<lambda>(name, child). (name, render_items child)) entries;
          folders = sort_key fst (filter (\<lambda>p. fst p \<noteq> FILES_KEY) rendered)
      in bind_result (map_result (\<lambda>(name, r). bind_result r (\<lambda>h. Inr (directory_html name h))) folders) (\<lambda>parts.
         bind_result (case map_of entries FILES_KEY of
             None \<Rightarrow> Inr []
           | Some (Items is) \<Rightarrow> Inr (map item_html (sort_key di_path is))
           | Some (ItemDir []) \<Rightarrow> Inr []
           | Some (ItemDir _) \<Rightarrow> Inl (TypeError ''string indices must be integers'')) (\<lambda>files.
         let html = concat (parts @ files)
         in Inr (if html = [] then (''<div class='' @ utf8_text [0x27] @ ''tree-empty'' @ utf8_text [0x27] @ ''>'' @ utf8_text [0x6682, 0x65E0, 0x6587, 0x6863] @ ''</div>'') else html))))"

definition section_html :: "string \<Rightarrow> doc_item list \<Rightarrow> string result" where
  "section_html title is =
     bind_result (build_tree is (ItemDir [])) (\<lambda>tree.
     bind_result (render_items tree) (\<lambda>tree_html.
     Inr (''<section><h2>'' @ html_escape title @ ''</h2><div class='docs-tree'>'' @ tree_html
       @ ''</div></section>'')))"

definition INDEX_1 :: string where
  "INDEX_1 = join_with [CHR 0x0A]
    [''<!doctype html>'',
     ''<html lang='' @ [CHR 0x22] @ ''zh-CN'' @ [CHR 0x22] @ ''>'',
     ''<head>'',
     ''  <meta charset='' @ [CHR 0x22] @ ''utf-8'' @ [CHR 0x22] @ ''>'',
     ''  <meta name='' @ [CHR 0x22] @ ''viewport'' @ [CHR 0x22] @ '' content='' @ [CHR 0x22]
      @ ''width=device-width, initial-scale=1'' @ [CHR 0x22] @ ''>'',
     ''  <title>'' @ utf8_text [0x6587, 0x4EF6, 0x7D22, 0x5F15] @ ''</title>'',
     ''  <style>'',
     ''    :root { color-scheme: light; }'',
     ''    body { margin: 0; padding: 24px; font-family: -apple-system, BlinkMacSystemFont, 'Segoe UI', san''
      @ ''s-serif; background: #0b1020; color: #e5e7eb; }'',
     ''    main { max-width: 1100px; margin: 0 auto; }'',
     ''    .nav { display: flex; gap: 10px; flex-wrap: wrap; margin: 0 0 18px; }'',
     ''    .nav a { display: inline-flex; align-items: center; padding: 8px 12px; border-radius: 999px; bac''
      @ ''kground: #111827; border: 1px solid #1f2937; color: #cbd5e1; text-decoration: none; }'',
     ''    h1 { font-size: 30px; margin: 0 0 8px; }'',
     ''    p { color: #94a3b8; }'',
     ''    section { background: #111827; border: 1px solid #1f2937; border-radius: 20px; padding: 18px; ma''
      @ ''rgin: 16px 0; box-shadow: 0 12px 32px rgba(0,0,0,.28); }'',
     ''    h2 { font-size: 18px; margin: 0 0 12px; }'',
     ''    .docs-tree { display: grid; gap: 10px; }'',
     ''    .tree-node { margin: 0; padding-left: 12px; border-left: 1px solid #334155; }'',
     ''    .tree-node > summary { cursor: pointer; list-style: none; font-weight: 700; color: #f8fafc; marg''
      @ ''in: 6px 0; }'',
     ''    .tree-node > summary::-webkit-details-marker { display: none; }'',
     ''    .tree-node > summary::before { content: '' @ [CHR 0x27] @ utf8_text [0x25BE]
      @ '''; display: inline-block; width: 14px; margin-right: 8px; color: #93c5fd; }'',
     ''    .tree-node:not([open]) > summary::before { content: '' @ [CHR 0x27] @ utf8_text [0x25B8] @ '''; }'',
     ''    .tree-children { display: grid; gap: 8px; margin: 0 0 4px 8px; }'',
     ''    .tree-file { margin-left: 22px; padding: 10px 12px; border-radius: 14px; background: #0f172a; bo''
      @ ''rder: 1px solid #1e293b; }'',
     ''    .tree-file-name { display: inline-block; color: #f8fafc; font-size: 15px; font-weight: 700; text''
      @ ''-decoration: none; margin-bottom: 6px; }'',
     ''    .tree-links { display: flex; gap: 12px; margin-top: 8px; }'',
     ''    .tree-links a { color: #60a5fa; text-decoration: none; }'',
     ''    .tree-empty { color: #94a3b8; }'',
     ''    code { display: block; color: #93c5fd; word-break: break-all; font-size: 12px; }'',
     ''  </style>'',
     ''</head>'',
     ''<body>'',
     ''  <main>'',
     ''    <nav class='' @ [CHR 0x22] @ ''nav'' @ [CHR 0x22] @ ''>'',
     ''      <a href='' @ [CHR 0x22] @ ''/'' @ [CHR 0x22] @ ''>'' @ utf8_text [0x603B, 0x89C8] @ ''</a>'',
     ''      <a href='' @ [CHR 0x22] @ ''/services'' @ [CHR 0x22] @ ''>'' @ utf8_text [0x670D, 0x52A1] @ ''</a>'',
     ''      <a href='' @ [CHR 0x22] @ ''/approvals'' @ [CHR 0x22] @ ''>'' @ utf8_text [0x5BA1, 0x6279] @ ''</a>'',
     ''      <a href='' @ [CHR 0x22] @ ''/docs'' @ [CHR 0x22] @ ''>''
      @ utf8_text [0x65E7, 0x7248, 0x6587, 0x6863, 0x5217, 0x8868] @ ''</a>'',
     ''    </nav>'',
     ''    <h1>'' @ utf8_text [0x6587, 0x4EF6, 0x7D22, 0x5F15] @ ''</h1>'',
     ''    <p>''
      @ utf8_text [0x6309, 0x76EE, 0x5F55, 0x5C42, 0x7EA7, 0x5C55, 0x793A, 0x6587, 0x6863, 0x6587, 0x4EF6, 0x540D, 0xFF0C, 0x652F, 0x6301, 0x9605, 0x8BFB, 0x4E0E, 0x539F, 0x6587, 0x5165, 0x53E3, 0x3002]
      @ ''</p>'',
     ''    '']"

definition INDEX_2 :: string where
  "INDEX_2 = join_with [CHR 0x0A]
    ['''',
     ''    '']"

definition INDEX_3 :: string where
  "INDEX_3 = join_with [CHR 0x0A]
    ['''',
     ''  </main>'',
     ''</body>'',
     ''</html>'']"

definition render_docs_index_html :: "doc_item list \<times> doc_item list \<Rightarrow> string result" where
  "render_docs_index_html payload =
     bind_result (section_html (utf8_text [0x673A, 0x5668, 0x6587, 0x6863]) (fst payload)) (\<lambda>servers.
     bind_result (section_html (utf8_text [0x670D, 0x52A1, 0x6587, 0x6863]) (snd payload)) (\<lambda>services_html.
     Inr (INDEX_1 @ servers @ INDEX_2 @ services_html @ INDEX_3)))"

section \<open>The view of a document\<close>

definition VIEWER_1 :: string where
  "VIEWER_1 = join_with [CHR 0x0A]
    [''<!doctype html>'',
     ''<html lang='' @ [CHR 0x22] @ ''zh-CN'' @ [CHR 0x22] @ ''>'',
     ''<head>'',
     ''  <meta charset='' @ [CHR 0x22] @ ''utf-8'' @ [CHR 0x22] @ ''>'',
     ''  <meta name='' @ [CHR 0x22] @ ''viewport'' @ [CHR 0x22] @ '' content='' @ [CHR 0x22]
      @ ''width=device-width, initial-scale=1'' @ [CHR 0x22] @ ''>'',
     ''  <title>HMN '' @ utf8_text [0x6587, 0x6863] @ '' - '']"

definition VIEWER_2 :: string where
  "VIEWER_2 = join_with [CHR 0x0A]
    [''</title>'',
     ''  <style>'',
     ''    :root {'',
     ''      color-scheme: dark;'',
     ''      --hmn-bg: #090a0f;'',
     ''      --hmn-bg-soft: #10121a;'',
     ''      --hmn-surface: rgba(22,24,33,.82);'',
     ''      --hmn-panel: rgba(28,30,40,.76);'',
     ''      --hmn-panel-solid: #171923;'',
     ''      --hmn-elevated: rgba(34,37,49,.9);'',
     ''      --hmn-line: rgba(255,255,255,.105);'',
     ''      --hmn-line-strong: rgba(255,255,255,.16);'',
     ''      --hmn-primary: #8f8cf8;'',
     ''      --hmn-primary-2: #b7a7ff;'',
     ''      --hmn-accent: #6f72d9;'',
     ''      --hmn-text: #f5f5f7;'',
     ''      --hmn-muted: #a7a9b8;'',
     ''      --hmn-muted-2: #777b8d;'',
     ''      --hmn-info: #64d2ff;'',
     ''      --hmn-shadow: 0 18px 54px rgba(0,0,0,.36),0 2px 10px rgba(0,0,0,.24);'',
     ''      --hmn-shadow-soft: 0 12px 32px rgba(0,0,0,.24);'',
     ''      --hmn-blur: saturate(190%) blur(24px);'',
     ''    }'',
     ''    * { box-sizing: border-box; }'',
     ''    html, body { min-height: 100%; }'',
     ''    body {'',
     ''      margin: 0;'',
     ''      font-family: Inter, -apple-system, BlinkMacSystemFont, 'Segoe UI', sans-serif;'',
     ''      -webkit-font-smoothing: antialiased;'',
     ''      text-rendering: optimizeLegibility;'',
     ''      background:'',
     ''        radial-gradient(circle at 20% -10%, color-mix(in srgb, var(--hmn-primary) 18%, transparent),''
      @ '' transparent 30%),'',
     ''        radial-gradient(circle at 110% 8%, rgba(100,210,255,.10), transparent 28%),'',
     ''        linear-gradient(180deg, var(--hmn-bg), color-mix(in srgb, var(--hmn-bg) 90%, #000 10%));'',
     ''      color: var(--hmn-text);'',
     ''    }'',
     ''    body::before {'',
     ''      content: '' @ [CHR 0x22] @ [CHR 0x22] @ '';'',
     ''      position: fixed;'',
     ''      inset: 0;'',
     ''      pointer-events: none;'',
     ''      background-image: linear-gradient(rgba(255,255,255,.018) 1px, transparent 1px), linear-gradien''
      @ ''t(90deg, rgba(255,255,255,.014) 1px, transparent 1px);'',
     ''      background-size: 48px 48px;'',
     ''      mask-image: linear-gradient(to bottom, rgba(0,0,0,.65), transparent 70%);'',
     ''    }'',
     ''    a { color: inherit; }'',
     ''    .shell { max-width: 1160px; margin: 0 auto; padding: 28px; }'',
     ''    .topbar { display: flex; justify-content: space-between; gap: 18px; align-items: flex-start; mar''
      @ ''gin-bottom: 20px; flex-wrap: wrap; }'',
     ''    .eyebrow {'',
     ''      display: inline-flex;'',
     ''      align-items: center;'',
     ''      gap: 8px;'',
     ''      margin-bottom: 14px;'',
     ''      border: 1px solid var(--hmn-line);'',
     ''      border-radius: 999px;'',
     ''      padding: 8px 12px;'',
     ''      background: linear-gradient(180deg, rgba(255,255,255,.06), rgba(255,255,255,.03));'',
     ''      color: var(--hmn-primary-2);'',
     ''      text-decoration: none;'',
     ''      box-shadow: inset 0 1px 0 rgba(255,255,255,.08), 0 10px 26px rgba(2,6,23,.10);'',
     ''      backdrop-filter: var(--hmn-blur);'',
     ''      -webkit-backdrop-filter: var(--hmn-blur);'',
     ''    }'',
     ''    .title { margin: 0; font-size: clamp(2rem, 4vw, 2.7rem); line-height: 1.05; letter-spacing: -.03''
      @ ''em; }'',
     ''    .subtitle { color: var(--hmn-muted); margin: 10px 0 0; font-size: .98rem; }'',
     ''    .actions { display: flex; gap: 10px; flex-wrap: wrap; }'',
     ''    .button {'',
     ''      display: inline-flex;'',
     ''      align-items: center;'',
     ''      justify-content: center;'',
     ''      gap: 8px;'',
     ''      min-height: 42px;'',
     ''      border-radius: 16px;'',
     ''      border: 1px solid transparent;'',
     ''      padding: 10px 16px;'',
     ''      font-size: 13px;'',
     ''      font-weight: 700;'',
     ''      text-decoration: none;'',
     ''      color: #fff;'',
     ''      background: linear-gradient(135deg, rgba(139,92,246,.96), rgba(34,211,238,.9));'',
     ''      box-shadow: 0 18px 36px rgba(76,29,149,.34), inset 0 1px 0 rgba(255,255,255,.28);'',
     ''    }'',
     ''    .button.secondary {'',
     ''      color: var(--hmn-text);'',
     ''      background: linear-gradient(180deg, rgba(255,255,255,.09), rgba(255,255,255,.04));'',
     ''      border-color: rgba(255,255,255,.12);'',
     ''      box-shadow: inset 0 1px 0 rgba(255,255,255,.08);'',
     ''    }'',
     ''    .hero {'',
     ''      border: 1px solid var(--hmn-line);'',
     ''      border-radius: 26px;'',
     ''      padding: 22px;'',
     ''      background: linear-gradient(180deg, color-mix(in srgb, var(--hmn-surface) 92%, transparent), c''
      @ ''olor-mix(in srgb, var(--hmn-panel) 70%, transparent));'',
     ''      box-shadow: var(--hmn-shadow-soft);'',
     ''      backdrop-filter: var(--hmn-blur);'',
     ''      -webkit-backdrop-filter: var(--hmn-blur);'',
     ''    }'',
     ''    .hero-meta { display: flex; flex-wrap: wrap; gap: 10px; margin-top: 14px; }'',
     ''    .meta-chip {'',
     ''      display: inline-flex;'',
     ''      align-items: center;'',
     ''      gap: 8px;'',
     ''      border-radius: 999px;'',
     ''      border: 1px solid var(--hmn-line);'',
     ''      padding: 7px 11px;'',
     ''      font-size: 12px;'',
     ''      color: var(--hmn-muted);'',
     ''      background: linear-gradient(180deg, rgba(255,255,255,.06), rgba(255,255,255,.03));'',
     ''    }'',
     ''    .meta-chip strong { color: var(--hmn-text); font-weight: 700; }'',
     ''    .panel {'',
     ''      margin-top: 18px;'',
     ''      border: 1px solid var(--hmn-line);'',
     ''      border-radius: 26px;'',
     ''      overflow: hidden;'',
     ''      background: linear-gradient(180deg, color-mix(in srgb, var(--hmn-surface) 94%, transparent), c''
      @ ''olor-mix(in srgb, var(--hmn-surface) 76%, transparent));'',
     ''      box-shadow: var(--hmn-shadow-soft);'',
     ''      backdrop-filter: var(--hmn-blur);'',
     ''      -webkit-backdrop-filter: var(--hmn-blur);'',
     ''    }'',
     ''    .panel-body { padding: 28px; line-height: 1.78; color: var(--hmn-text); }'',
     ''    .panel-body h1, .panel-body h2, .panel-body h3, .panel-body h4 { line-height: 1.25; margin: 1.4e''
      @ ''m 0 .7em; color: var(--hmn-text); }'',
     ''    .panel-body h1:first-child, .panel-body h2:first-child, .panel-body h3:first-child, .panel-body ''
      @ ''h4:first-child { margin-top: 0; }'',
     ''    .panel-body p, .panel-body li { color: #dde2ee; }'',
     ''    .panel-body a { color: var(--hmn-info); }'',
     ''    .panel-body strong { color: var(--hmn-text); }'',
     ''    .panel-body code {'',
     ''      background: color-mix(in srgb, var(--hmn-panel-solid) 86%, transparent);'',
     ''      border: 1px solid color-mix(in srgb, var(--hmn-info) 18%, var(--hmn-line));'',
     ''      border-radius: 10px;'',
     ''      padding: .16em .45em;'',
     ''      color: #f8fbff;'',
     ''      font: .95em ui-monospace, SFMono-Regular, Menlo, monospace;'',
     ''    }'',
     ''    .panel-body pre {'',
     ''      margin: 1rem 0;'',
     ''      background: #0f172a;'',
     ''      border: 1px solid color-mix(in srgb, var(--hmn-info) 18%, var(--hmn-line));'',
     ''      border-radius: 18px;'',
     ''      padding: 18px;'',
     ''      overflow-x: auto;'',
     ''      box-shadow: inset 0 1px 0 rgba(255,255,255,.045);'',
     ''    }'',
     ''    .panel-body pre code { background: transparent; border: 0; padding: 0; color: #f8fbff; }'',
     ''    .panel-body ul, .panel-body ol { padding-left: 1.45em; }'',
     ''    .panel-body blockquote {'',
     ''      margin: 1rem 0;'',
     ''      padding: 12px 16px;'',
     ''      border-left: 3px solid color-mix(in srgb, var(--hmn-primary) 60%, transparent);'',
     ''      background: color-mix(in srgb, var(--hmn-primary) 8%, transparent);'',
     ''      border-radius: 0 16px 16px 0;'',
     ''      color: var(--hmn-muted);'',
     ''    }'',
     ''    .panel-body table { width: 100%; border-collapse: collapse; overflow: hidden; border-radius: 16p''
      @ ''x; }'',
     ''    .panel-body th, .panel-body td { border: 1px solid var(--hmn-line); padding: 10px 12px; text-ali''
      @ ''gn: left; vertical-align: top; }'',
     ''    .panel-body th { background: color-mix(in srgb, var(--hmn-muted) 9%, var(--hmn-panel-solid)); }'',
     ''    @media (max-width: 780px) {'',
     ''      .shell { padding: 16px; }'',
     ''      .topbar { gap: 14px; }'',
     ''      .hero, .panel-body { padding: 18px; }'',
     ''      .actions { width: 100%; }'',
     ''      .actions .button { width: 100%; }'',
     ''      .title { font-size: 1.75rem; }'',
     ''    }'',
     ''  </style>'',
     ''</head>'',
     ''<body>'',
     ''  <div class='' @ [CHR 0x22] @ ''shell'' @ [CHR 0x22] @ ''>'',
     ''    <div class='' @ [CHR 0x22] @ ''topbar'' @ [CHR 0x22] @ ''>'',
     ''      <div style='' @ [CHR 0x22] @ ''flex:1 1 680px; min-width:0;'' @ [CHR 0x22] @ ''>'',
     ''        <a class='' @ [CHR 0x22] @ ''eyebrow'' @ [CHR 0x22] @ '' href='' @ [CHR 0x22] @ ''/#docs''
      @ [CHR 0x22] @ ''>'' @ utf8_text [0x2190] @ '' '' @ utf8_text [0x8FD4, 0x56DE] @ '' HMN Console ''
      @ utf8_text [0x6587, 0x6863, 0x4E2D, 0x5FC3] @ ''</a>'',
     ''        <section class='' @ [CHR 0x22] @ ''hero'' @ [CHR 0x22] @ ''>'',
     ''          <h1 class='' @ [CHR 0x22] @ ''title'' @ [CHR 0x22] @ ''>HMN '' @ utf8_text [0x6587, 0x6863]
      @ ''</h1>'',
     ''          <p class='' @ [CHR 0x22] @ ''subtitle'' @ [CHR 0x22] @ ''>'']"

definition VIEWER_3 :: string where
  "VIEWER_3 = join_with [CHR 0x0A]
    [''</p>'',
     ''          <div class='' @ [CHR 0x22] @ ''hero-meta'' @ [CHR 0x22] @ ''>'',
     ''            <span class='' @ [CHR 0x22] @ ''meta-chip'' @ [CHR 0x22] @ ''>''
      @ utf8_text [0x6587, 0x6863, 0x67E5, 0x770B, 0x9875] @ ''</span>'',
     ''            <span class='' @ [CHR 0x22] @ ''meta-chip'' @ [CHR 0x22] @ ''>'' @ utf8_text [0x6765, 0x6E90]
      @ '' <strong>/srv/files</strong></span>'',
     ''            <span class='' @ [CHR 0x22] @ ''meta-chip'' @ [CHR 0x22] @ ''>''
      @ utf8_text [0x9605, 0x8BFB, 0x6A21, 0x5F0F] @ '' <strong>Markdown '' @ utf8_text [0x6E32, 0x67D3]
      @ ''</strong></span>'',
     ''          </div>'',
     ''        </section>'',
     ''      </div>'',
     ''      <div class='' @ [CHR 0x22] @ ''actions'' @ [CHR 0x22] @ ''>'',
     ''        <a class='' @ [CHR 0x22] @ ''button'' @ [CHR 0x22] @ '' href='' @ [CHR 0x22]
      @ ''/hmn-web/docs/file/'']"

definition VIEWER_4 :: string where
  "VIEWER_4 = join_with [CHR 0x0A]
    [[CHR 0x22] @ ''>'' @ utf8_text [0x539F, 0x59CB] @ '' Markdown</a>'',
     ''      </div>'',
     ''    </div>'',
     ''    <section class='' @ [CHR 0x22] @ ''panel'' @ [CHR 0x22] @ ''>'',
     ''      <div class='' @ [CHR 0x22] @ ''panel-body markdown-body'' @ [CHR 0x22] @ ''>'']"

definition VIEWER_5 :: string where
  "VIEWER_5 = join_with [CHR 0x0A]
    [''</div>'',
     ''    </section>'',
     ''  </div>'',
     ''</body>'',
     ''</html>'']"

definition render_markdown_viewer :: "(string \<Rightarrow> string) \<Rightarrow> string \<Rightarrow> string \<Rightarrow> string" where
  "render_markdown_viewer render relative_path content =
     VIEWER_1 @ html_escape relative_path @ VIEWER_2 @ html_escape relative_path @ VIEWER_3
       @ html_escape relative_path @ VIEWER_4 @ render content @ VIEWER_5"

section \<open>The sign-in form\<close>

definition LOGIN_1 :: string where
  "LOGIN_1 = join_with [CHR 0x0A]
    [''<!doctype html>'',
     ''<html lang='' @ [CHR 0x22] @ ''zh-CN'' @ [CHR 0x22] @ ''>'',
     ''<head>'',
     ''  <meta charset='' @ [CHR 0x22] @ ''utf-8'' @ [CHR 0x22] @ ''>'',
     ''  <meta name='' @ [CHR 0x22] @ ''viewport'' @ [CHR 0x22] @ '' content='' @ [CHR 0x22]
      @ ''width=device-width, initial-scale=1'' @ [CHR 0x22] @ ''>'',
     ''  <title>HMN Web '' @ utf8_text [0x767B, 0x5F55] @ ''</title>'',
     ''  <style>'',
     ''    :root {'',
     ''      color-scheme: dark;'',
     ''      --bg0:#040814;'',
     ''      --bg1:#0a1024;'',
     ''      --line:rgba(255,255,255,.14);'',
     ''      --text:#eef2ff;'',
     ''      --muted:rgba(226,232,240,.72);'',
     ''      --danger:#fb7185;'',
     ''      --shadow:0 32px 120px rgba(15,23,42,.52);'',
     ''      --blur:28px;'',
     ''      font-family:Inter,-apple-system,BlinkMacSystemFont,'Segoe UI',sans-serif;'',
     ''    }'',
     ''    * { box-sizing:border-box; }'',
     ''    body {'',
     ''      margin:0; min-height:100vh; color:var(--text);'',
     ''      background:'',
     ''        radial-gradient(circle at 18% 20%, rgba(139,92,246,.28), transparent 34%),'',
     ''        radial-gradient(circle at 82% 16%, rgba(34,211,238,.18), transparent 30%),'',
     ''        radial-gradient(circle at 50% 85%, rgba(56,189,248,.14), transparent 28%),'',
     ''        linear-gradient(160deg, var(--bg0), var(--bg1) 58%, #020617 100%);'',
     ''      overflow-x:hidden;'',
     ''      overflow-y:auto;'',
     ''    }'',
     ''    body::before, body::after { content:'' @ [CHR 0x22] @ [CHR 0x22]
      @ ''; position:fixed; inset:auto; border-radius:999px; filter:blur(26px); opacity:.78; pointer-events:no''
      @ ''ne; }'',
     ''    body::before { width:38vw; height:38vw; left:-10vw; top:-12vw; background:radial-gradient(circle''
      @ '', rgba(167,139,250,.34), transparent 62%); animation:floatA 18s ease-in-out infinite; }'',
     ''    body::after { width:34vw; height:34vw; right:-8vw; bottom:-10vw; background:radial-gradient(circ''
      @ ''le, rgba(34,211,238,.22), transparent 60%); animation:floatB 22s ease-in-out infinite; }'',
     ''    .grid { position:fixed; inset:0; background-image:linear-gradient(rgba(255,255,255,.03) 1px, tra''
      @ ''nsparent 1px), linear-gradient(90deg, rgba(255,255,255,.03) 1px, transparent 1px); background-size:2''
      @ ''8px 28px; mask-image:radial-gradient(circle at center, black, transparent 78%); opacity:.22; }'',
     ''    .shell { position:relative; z-index:1; min-height:100vh; display:grid; place-items:center; paddi''
      @ ''ng:28px 18px; }'',
     ''    .panel {'',
     ''      position:relative; overflow:hidden;'',
     ''      width:min(760px,100%); min-height:min(780px,calc(100vh - 56px));'',
     ''      display:flex; flex-direction:column; justify-content:space-between; align-items:center; gap:28''
      @ ''px;'',
     ''      padding:42px 28px 30px;'',
     ''      border-radius:36px; border:1px solid var(--line);'',
     ''      background:linear-gradient(145deg, rgba(255,255,255,.12), rgba(255,255,255,.04));'',
     ''      box-shadow:var(--shadow); backdrop-filter:blur(var(--blur)) saturate(150%); -webkit-backdrop-f''
      @ ''ilter:blur(var(--blur)) saturate(150%);'',
     ''      text-align:center;'',
     ''    }'',
     ''    .panel::before { content:'' @ [CHR 0x22] @ [CHR 0x22]
      @ ''; position:absolute; inset:12% -16% auto auto; width:260px; height:260px; border-radius:50%; backgro''
      @ ''und:radial-gradient(circle, rgba(139,92,246,.22), transparent 62%); filter:blur(10px); }'',
     ''    .panel::after { content:'' @ [CHR 0x22] @ [CHR 0x22]
      @ ''; position:absolute; inset:auto auto -12% -14%; width:220px; height:220px; border-radius:50%; backgr''
      @ ''ound:radial-gradient(circle, rgba(34,211,238,.16), transparent 64%); filter:blur(14px); }'',
     ''    .brand-wrap { position:relative; z-index:1; width:100%; display:flex; flex-direction:column; ali''
      @ ''gn-items:center; justify-content:center; gap:18px; padding-top:10px; }'',
     ''    .brand { display:flex; flex-direction:column; align-items:center; gap:14px; }'',
     ''    .brand-badge { width:58px; height:58px; border-radius:20px; display:grid; place-items:center; ba''
      @ ''ckground:linear-gradient(135deg, rgba(139,92,246,.9), rgba(34,211,238,.78)); color:white; box-shadow''
      @ '':0 14px 30px rgba(76,29,149,.35); font-weight:800; letter-spacing:.08em; }'',
     ''    .brand-text strong { display:block; font-size:clamp(26px,3.2vw,34px); line-height:1.08; letter-s''
      @ ''pacing:-.03em; }'',
     ''    .brand-text small { display:block; margin-top:8px; font-size:11px; text-transform:uppercase; let''
      @ ''ter-spacing:.24em; color:var(--muted); }'',
     ''    .brand-note { max-width:420px; margin:0; color:var(--muted); font-size:14px; line-height:1.8; }'',
     ''    .card {'',
     ''      position:relative; z-index:1; width:min(420px,100%);'',
     ''      padding:30px 26px; display:flex; flex-direction:column; justify-content:center;'',
     ''      border-radius:28px; border:1px solid rgba(255,255,255,.12);'',
     ''      background:linear-gradient(180deg, rgba(255,255,255,.09), rgba(255,255,255,.04));'',
     ''      backdrop-filter:blur(22px); -webkit-backdrop-filter:blur(22px);'',
     ''      text-align:left;'',
     ''      box-shadow:inset 0 1px 0 rgba(255,255,255,.08);'',
     ''    }'',
     ''    .eyebrow { display:inline-flex; width:max-content; align-items:center; gap:8px; padding:8px 12px''
      @ ''; border-radius:999px; background:rgba(255,255,255,.05); border:1px solid rgba(255,255,255,.09); col''
      @ ''or:#cbd5e1; font-size:12px; letter-spacing:.04em; align-self:center; }'',
     ''    .card h2 { margin:18px 0 8px; font-size:30px; line-height:1.08; letter-spacing:-.03em; text-alig''
      @ ''n:center; }'',
     ''    .card p { margin:0; color:var(--muted); line-height:1.7; font-size:14px; text-align:center; }'',
     ''    form { margin-top:24px; display:grid; gap:16px; }'',
     ''    label { display:grid; gap:8px; font-size:13px; color:#dbe4f3; }'',
     ''    .field { position:relative; }'',
     ''    input {'',
     ''      width:100%; border:1px solid rgba(255,255,255,.12); border-radius:18px; background:rgba(8,15,3''
      @ ''2,.42);'',
     ''      color:var(--text); padding:16px 18px; font-size:15px; outline:none;'',
     ''      box-shadow:inset 0 1px 0 rgba(255,255,255,.06), 0 8px 24px rgba(2,6,23,.18);'',
     ''      transition:border-color .22s ease, box-shadow .22s ease, transform .22s ease, background .22s ''
      @ ''ease;'',
     ''    }'',
     ''    input::placeholder { color:rgba(226,232,240,.36); }'',
     ''    input:focus { border-color:rgba(139,92,246,.65); box-shadow:0 0 0 4px rgba(139,92,246,.14), inse''
      @ ''t 0 1px 0 rgba(255,255,255,.08); background:rgba(8,15,32,.56); transform:translateY(-1px); }'',
     ''    .submit {'',
     ''      border:0; border-radius:18px; padding:16px 18px; font-size:15px; font-weight:700; color:white;''
      @ '' cursor:pointer;'',
     ''      background:linear-gradient(135deg, rgba(139,92,246,.96), rgba(34,211,238,.9));'',
     ''      box-shadow:0 18px 36px rgba(76,29,149,.34), inset 0 1px 0 rgba(255,255,255,.28);'',
     ''      transition:transform .22s ease, box-shadow .22s ease, filter .22s ease;'',
     ''    }'',
     ''    .submit:hover { transform:translateY(-1px); filter:brightness(1.04); box-shadow:0 22px 42px rgba''
      @ ''(76,29,149,.42), inset 0 1px 0 rgba(255,255,255,.3); }'',
     ''    .submit:active { transform:translateY(0); }'',
     ''    .helper { display:flex; justify-content:space-between; gap:12px; flex-wrap:wrap; margin-top:2px;''
      @ '' color:var(--muted); font-size:12px; }'',
     ''    .login-alert { margin-top:18px; padding:12px 14px; border-radius:16px; border:1px solid rgba(251''
      @ '',113,133,.24); background:rgba(251,113,133,.1); color:#fecdd3; font-size:13px; text-align:center; }'',
     ''    .footnote { margin-top:18px; color:rgba(226,232,240,.52); font-size:12px; line-height:1.6; text-''
      @ ''align:center; }'',
     ''    @keyframes floatA { 0%,100% { transform:translate3d(0,0,0); } 50% { transform:translate3d(6vw,4v''
      @ ''h,0); } }'',
     ''    @keyframes floatB { 0%,100% { transform:translate3d(0,0,0); } 50% { transform:translate3d(-5vw,-''
      @ ''3vh,0); } }'',
     ''    @media (max-width: 920px) {'',
     ''      .shell { padding:18px 12px; }'',
     ''      .panel { min-height:auto; gap:24px; padding:28px 18px 22px; border-radius:28px; }'',
     ''      .brand-text strong { font-size:28px; }'',
     ''      .brand-note { font-size:13px; line-height:1.7; }'',
     ''      .card { width:100%; padding:24px 18px; border-radius:22px; }'',
     ''      .card h2 { font-size:26px; }'',
     ''      .helper { justify-content:center; }'',
     ''    }'',
     ''  </style>'',
     ''</head>'',
     ''<body>'',
     ''  <div class='' @ [CHR 0x22] @ ''grid'' @ [CHR 0x22] @ '' aria-hidden='' @ [CHR 0x22] @ ''true''
      @ [CHR 0x22] @ ''></div>'',
     ''  <div class='' @ [CHR 0x22] @ ''shell'' @ [CHR 0x22] @ ''>'',
     ''    <section class='' @ [CHR 0x22] @ ''panel'' @ [CHR 0x22] @ ''>'',
     ''      <div class='' @ [CHR 0x22] @ ''brand-wrap'' @ [CHR 0x22] @ ''>'',
     ''        <div class='' @ [CHR 0x22] @ ''brand'' @ [CHR 0x22] @ ''>'',
     ''          <div class='' @ [CHR 0x22] @ ''brand-badge'' @ [CHR 0x22] @ ''>HMN</div>'',
     ''          <div class='' @ [CHR 0x22] @ ''brand-text'' @ [CHR 0x22] @ ''>'',
     ''            <strong>Hermes Managed Network</strong>'',
     ''            <small>Infrastructure Control Plane</small>'',
     ''          </div>'',
     ''        </div>'',
     ''      </div>'',
     ''      <div class='' @ [CHR 0x22] @ ''card'' @ [CHR 0x22] @ ''>'',
     ''        <span class='' @ [CHR 0x22] @ ''eyebrow'' @ [CHR 0x22] @ ''>Secure Access '' @ utf8_text [0x00B7]
      @ '' HMN Web</span>'',
     ''        <h2>'' @ utf8_text [0x767B, 0x5F55] @ ''</h2>'',
     ''        '']"

definition LOGIN_2 :: string where
  "LOGIN_2 = join_with [CHR 0x0A]
    ['''',
     ''        <form method='' @ [CHR 0x22] @ ''post'' @ [CHR 0x22] @ '' action='' @ [CHR 0x22] @ ''/login''
      @ [CHR 0x22] @ ''>'',
     ''          <label>'',
     ''            '' @ utf8_text [0x7528, 0x6237, 0x540D],
     ''            <div class='' @ [CHR 0x22] @ ''field'' @ [CHR 0x22] @ ''><input name='' @ [CHR 0x22]
      @ ''username'' @ [CHR 0x22] @ '' type='' @ [CHR 0x22] @ ''text'' @ [CHR 0x22] @ '' value='' @ [CHR 0x22]
      @ [CHR 0x22] @ '' autocomplete='' @ [CHR 0x22] @ ''username'' @ [CHR 0x22] @ '' placeholder='' @ [CHR 0x22]
      @ utf8_text [0x8BF7, 0x8F93, 0x5165, 0x7528, 0x6237, 0x540D] @ [CHR 0x22] @ '' required></div>'',
     ''          </label>'',
     ''          <label>'',
     ''            '' @ utf8_text [0x5BC6, 0x7801],
     ''            <div class='' @ [CHR 0x22] @ ''field'' @ [CHR 0x22] @ ''><input name='' @ [CHR 0x22]
      @ ''password'' @ [CHR 0x22] @ '' type='' @ [CHR 0x22] @ ''password'' @ [CHR 0x22] @ '' autocomplete=''
      @ [CHR 0x22] @ ''current-password'' @ [CHR 0x22] @ '' placeholder='' @ [CHR 0x22]
      @ utf8_text [0x8BF7, 0x8F93, 0x5165, 0x5BC6, 0x7801] @ [CHR 0x22] @ '' required></div>'',
     ''          </label>'',
     ''          <button class='' @ [CHR 0x22] @ ''submit'' @ [CHR 0x22] @ '' type='' @ [CHR 0x22] @ ''submit''
      @ [CHR 0x22] @ ''>'' @ utf8_text [0x8FDB, 0x5165] @ '' HMN Web</button>'',
     ''        </form>'',
     ''      </div>'',
     ''    </section>'',
     ''  </div>'',
     ''</body>'',
     ''</html>'']"

definition login_page_html :: "string \<Rightarrow> string" where
  "login_page_html error =
     LOGIN_1 @ (if error = [] then [] else (''<div class='login-alert'>'' @ html_escape error @ ''</div>'')) @ LOGIN_2"

section \<open>Endpoints\<close>

text \<open>What \<open>_is_authenticated\<close> decides in a page of its own: without a session it redirects instead of refusing.\<close>

definition with_session ::
  "(string \<Rightarrow> string \<Rightarrow> string) \<Rightarrow> web_env \<Rightarrow> string option \<Rightarrow> time \<Rightarrow> 'a http \<Rightarrow> 'a http \<Rightarrow> 'a http" where
  "with_session hmac env cookie now yes no =
     (case is_authenticated hmac env cookie now of Inl e \<Rightarrow> Crashed e | Inr ok \<Rightarrow> if ok then yes else no)"

definition login_page ::
  "(string \<Rightarrow> string \<Rightarrow> string) \<Rightarrow> web_env \<Rightarrow> string option \<Rightarrow> time \<Rightarrow> int \<Rightarrow> (redirect + string) http" where
  "login_page hmac env cookie now error =
     with_session hmac env cookie now (Answer (Inl \<lparr>rd_target = ''/'', rd_cookie = None\<rparr>))
       (Answer (Inr (login_page_html (if error \<noteq> 0 then (utf8_text [0x5BC6, 0x7801, 0x4E0D, 0x6B63, 0x786E, 0xFF0C, 0x8BF7, 0x91CD, 0x8BD5, 0x3002]) else []))))"

text \<open>A deleted cookie is the empty one, with an expiry in the past.\<close>

definition logout :: redirect where
  "logout = \<lparr>rd_target = ''/login'', rd_cookie = Some []\<rparr>"

definition html_answer :: "string result \<Rightarrow> string http" where
  "html_answer r = (case r of Inl e \<Rightarrow> Crashed e | Inr html \<Rightarrow> Answer html)"

definition map_answer :: "('a \<Rightarrow> 'b) \<Rightarrow> 'a http \<Rightarrow> 'b http" where
  "map_answer f r = (case r of Answer x \<Rightarrow> Answer (f x) | Refused code d \<Rightarrow> Refused code d | Crashed e \<Rightarrow> Crashed e)"

definition hmn_web_docs_index ::
  "(string \<Rightarrow> string \<Rightarrow> string) \<Rightarrow> web_env \<Rightarrow> string option \<Rightarrow> time \<Rightarrow> (string \<Rightarrow> (string \<times> string) list)
    \<Rightarrow> (redirect + string) http" where
  "hmn_web_docs_index hmac env cookie now markdown_files =
     with_session hmac env cookie now
       (map_answer Inr (html_answer (render_docs_index_html (docs_index_payload markdown_files))))
       (Answer (Inl \<lparr>rd_target = ''/login'', rd_cookie = None\<rparr>))"

definition hmn_web_docs_view ::
  "(string \<Rightarrow> string \<Rightarrow> string) \<Rightarrow> web_env \<Rightarrow> string option \<Rightarrow> time \<Rightarrow> (string \<Rightarrow> string) \<Rightarrow> (string \<Rightarrow> bool)
    \<Rightarrow> (string \<Rightarrow> string) \<Rightarrow> (string \<Rightarrow> string result) \<Rightarrow> string \<Rightarrow> string \<Rightarrow> string http" where
  "hmn_web_docs_view hmac env cookie now resolve is_file render read docs_base doc_path =
     (case require_session hmac env cookie now of
        Refused code d \<Rightarrow> Refused code d
      | Crashed e \<Rightarrow> Crashed e
      | Answer _ \<Rightarrow>
          (case api_docs_file resolve is_file docs_base doc_path of
             Refused code d \<Rightarrow> Refused code d
           | Crashed e \<Rightarrow> Crashed e
           | Answer p \<Rightarrow> html_answer (bind_result (read p) (\<lambda>content. Inr (render_markdown_viewer render doc_path content)))))"

section \<open>Facts\<close>

text \<open>The markup of the pages comes from their frames and from the renderer; a path, a title or an error adds none.\<close>

lemma viewer_markup:
  "markup (render_markdown_viewer render p content)
     = markup (VIEWER_1 @ VIEWER_2 @ VIEWER_3 @ VIEWER_4) @ markup (render content) @ markup VIEWER_5"
  by (simp add: render_markdown_viewer_def)

lemma item_markup: "markup (item_html i) = markup (item_html j)"
  by (simp add: item_html_def Let_def text_markup)


text \<open>A document outside the documentation root is never read, and nothing is shown without a session.\<close>

lemma view_stays_below_root:
  assumes "hmn_web_docs_view hmac env cookie now resolve is_file render read docs_base doc_path = Answer html"
  shows "is_relative_to (resolve (posix_join docs_base doc_path)) docs_base
    \<and> is_authenticated hmac env cookie now = Inr True
    \<and> (\<exists>content. read (resolve (posix_join docs_base doc_path)) = Inr content
         \<and> html = render_markdown_viewer render doc_path content)"
  using assms
  by (auto simp: hmn_web_docs_view_def require_session_def api_docs_file_def html_answer_def Let_def bind_result_def
      split: http.splits sum.splits if_splits)

text \<open>After logging out, the browser's cookie opens nothing.\<close>

lemma logout_closes_session: "is_authenticated hmac env (rd_cookie logout) now = Inr False"
  by (simp add: is_authenticated_def logout_def)

text \<open>One document in a directory named \<open>__files__\<close> makes the index fail.\<close>

lemma reserved_directory_breaks_index:
  "di_path i = ''service/__files__/README.md'' \<Longrightarrow> section_html title [i] = Inl (TypeError ''string indices must be integers'')"
  by (simp add: section_html_def FILES_KEY_def add_item_def Let_def sort_key_def)

end
