(* ===== verification/Spec2Isabelle.thy ===== *)
theory Spec2Isabelle
  imports Services DocsSync Lifecycle Console Platforms OrchestratorLaws OrchestratorRounds Worktrees DiscoveryLaws Uptime
    Backup ConfigProvider Providers Onboarding Deploy InventoryDiscovery Headscale NodeDocs Installers
    Rollback Wake Commands Heartbeats LocalBackup ServiceCommands Reports
    GatewayCommands OrchestratorCommands ApiPages
begin

text \<open>
  A model of hermes-managed-network, the master of a managed network of machines: nodes join with one-time tokens
  and are confirmed; operators queue tasks, which nodes fetch under a lease and report on; risky commands, component
  changes and network rules wait for an approval given in a chat, on the console or through the API; service records
  are discovered, classified, documented and planned for; and an orchestrator hands work to coding agents.  All paths
  below are under \<open>src/hermes_managed_network/\<close>.

  \<^bold>\<open>How the parts interact.\<close>  The state of the program is one SQLite database (\<open>storage.py\<close>) and some files.
  Every entry point (the HTTP API, the console, the chat gateway, the commands of the CLI, the orchestrator) loads rows,
  decides, and saves them, each save in a transaction of its own with an audit event.  The model keeps this shape: \<open>store\<close>
  in Schema is a record with one list of rows per table, an operation is a function from the store to the new
  store and its result, a file system is a map from paths to texts, and an exception is a value of the datatype
  \<open>exn\<close> in the left half of a sum.  An operation that reads the clock once takes \<open>now\<close>, one that reads it often
  takes a stream of instants; drawn identifiers are arguments too.

  \<^bold>\<open>Vocabulary.\<close>  Prelude (exceptions, instants, Python text), PyText (lines, paths), PyRegex (a backtracking
  matcher for the patterns the code uses, primitive recursive on the pattern, so no fuel is needed), Utf8
  (decoding with errors ignored), Json and PyData (JSON values, \<open>str\<close>, truth, \<open>int\<close>, iteration), Table (the laws of a keyed
  table, stated as a locale and interpreted on every table of the store), Base64, WebText (\<open>html.escape\<close>,
  \<open>urllib.parse.quote\<close>, \<open>json.dumps\<close>).

  \<^bold>\<open>The store.\<close>  Schema holds the row records and the tables of \<open>migrate\<close>; AuditLog the audit table, which only grows; Nodes
  and Tokens the inventory and the join tokens (\<open>inventory.py\<close>, \<open>tokens.py\<close>, their operations in \<open>storage.py\<close>);
  Tasks the queue with claims, leases, expiry and capped output; Manifest and Components the component manifests
  (\<open>components.py\<close>), runs, snapshots and settings; Approvals the requests, decisions and both dispatchers; Notifications the cards
  (\<open>approval_notifications.py\<close>); Services the service table with its two classifiers.  The lemmas show what each
  operation does to its table on every branch, that it leaves the other tables alone, and the invariants over runs of
  operations: a task is claimed once and a finished one stays finished, claims are first in first out, a decision is
  final, an approved request dispatches one task, a token admits one node.  In these runs operations follow one another,
  and the runs of Tasks are those of workers and API (a task of the SSH executor is run in Executor).  Interleaved
  runs are modelled for the three operations whose reads and writes are not one transaction and whose race matters
  most: the consumption of a token (Tokens), the decision on a request (Approvals) and the round of the scheduler
  (OrchestratorRounds), with theorems on what goes wrong there.  Other operations that load and save in two
  transactions are modelled undisturbed.

  \<^bold>\<open>The entry points.\<close>  Api and ApiRuns model the endpoints of \<open>api.py\<close> for nodes and gateways as one step function and
  prove the properties of any sequence of requests; Signing the signature of a task (\<open>signing.py\<close>); Gateway the button presses,
  card delivery and update loop (\<open>approval_telegram_flow.py\<close>, \<open>approval_gateway.py\<close>); Sessions the sign-in of the console
  with its cookies and password hashes; WebConsole, WebPages, ConsoleApi, ApiPages and Console the console (\<open>web_console.py\<close> and its
  endpoints in \<open>api.py\<close>), again as one step function behind the session check, and the proof that no data on a page of \<open>web_console.py\<close> becomes
  markup, but for the rendered Markdown of a document; Lifecycle, Acl, Monitor, Platforms
  the commands of \<open>cli.py\<close> on components, network rules, monitoring and platform detection; Executor the runs of \<open>executor.py\<close> and
  \<open>playbook.py\<close>, gated by node, risk and target.

  \<^bold>\<open>The orchestrator.\<close>  Orchestrator has the queue, the workers and the scheduling round of \<open>orchestrator.py\<close>;
  OrchestratorLaws states the abstract life of a task (queued, leased, settled) and proves the refinement, the
  choice of the best task and the end of retries; there \<open>tick\<close> is a round that no other round disturbs.
  The code does not ensure that: its reads are outside the transaction of its writes.  OrchestratorRounds therefore has the round
  as steps over the shared store, shows that its steps in a row are \<open>tick\<close>, that leases are exclusive as long as rounds do not
  overlap, what still holds when they do, and a schedule that leases one task twice.  Worktrees has worktrees, merge queue and
  backlog.

  \<^bold>\<open>Services and plans.\<close>  Sanitize has the three sanitisers; Registry the registry file; Discovery the parsers,
  merging and plan of \<open>service_discovery.py\<close>, and DiscoveryLaws that discovery keeps recorded values (but the mark
  of their source) and that a second discovery after the first was applied changes nothing;
  Uptime, Migration and Coolify the plans of \<open>uptime.py\<close>, \<open>kuma_assets.py\<close>, \<open>migration.py\<close>, \<open>restore.py\<close> and
  \<open>coolify_provider.py\<close>; Backup, ConfigProvider, GithubActions and Deploy those of \<open>backup_provider.py\<close>,
  \<open>config_provider.py\<close>, \<open>github_actions_provider.py\<close> and \<open>deploy.py\<close>, with the plans and results of \<open>providers.py\<close> in
  Providers.  The lemmas show that plans execute nothing, count what they list and hide credentials.

  \<^bold>\<open>Documents.\<close>  DocsGenerate has the documents of \<open>docs_generate.py\<close>, NodeDocs those of \<open>docs.py\<close>, DocsSync the
  synchronisation of \<open>docs_sync.py\<close>: plan, rename and writes, all below the resolved root.  A run of writes is a list of
  paths and texts, applied to the map of files in the order of the code; a write that fails ends the run of DocsSync
  and may leave part of its text.

  \<^bold>\<open>Machines.\<close>  NodeInspect parses the output of the commands of \<open>inspect.py\<close> into an inventory, whose JSON form reads back;
  InventoryDiscovery derives services from it (\<open>discovery.py\<close>); Onboarding ranks machines (\<open>onboarding.py\<close>); Headscale is the
  network provider (\<open>headscale.py\<close>, \<open>network.py\<close>, \<open>network_base.py\<close>) with its synchronisation; Installers has the scripts
  of \<open>platforms.py\<close> that install and remove a worker.

  \<^bold>\<open>The command line.\<close>  The commands of \<open>cli.py\<close> are functions from the store (and the files) to their result, their lines
  and the new store; an exit is the exception \<open>Exit\<close>.  Rollback holds what concerns the host of the master: environment files,
  quoting, doctor, uninstall and the rollback; Wake the command that admits a machine; Commands the choice of a node,
  tasks, the SSH queue, approvals and the menu; Heartbeats the commands about workers; LocalBackup the backups; ServiceCommands
  the commands over service records, documents and plans; Reports the listings; OrchestratorCommands those of the orchestrator;
  GatewayCommands the HTTP clients of the chat gateway, its offset file, its round and its loop, of which any number
  of rounds is modelled.  The menu calls some commands without
  their options: the default objects of the option library are values of their own there (\<open>Given\<close> or left out), which
  is how the theorem about uninstalling comes about.

  \<^bold>\<open>Parameters.\<close>  What the program calls but does not contain is an argument of the definitions that use it: git, ssh, the
  shell and the bridge of the orchestrator, HMAC, SHA-256, PBKDF2 and \<open>crypt\<close>, the parser of a JSON text, the check of a network
  location inside \<open>urlsplit\<close>, the rows of the Kuma database, the transports of the providers, the resolution of paths and the
  view of the disk, \<open>tar\<close>, \<open>systemctl\<close>, reading and rounding of floats, the class of alphanumeric characters outside
  ASCII.  No law is assumed of them except where a theorem names it.

  \<^bold>\<open>Bounds.\<close>  No definition runs on fuel: every recursion is structural or has a termination proof.  Python's integers
  are \<open>int\<close>; a text is the list of its UTF-8 bytes, so a length that matters (task output, callback data) is
  in bytes as in the code; floats appear only as JSON texts; changes of letter case concern the ASCII letters only.

  \<^bold>\<open>Not modelled.\<close>  The server entry point and the parsing of arguments; the static text of help and menu; the commands
  that only print a plan of their module; the endpoints that serve script files; the transport and \<open>urljoin\<close> of the Coolify
  client; the sockets below the HTTP and database clients.  A failure of a single write is modelled for the rollback (before
  the temporary file, before or after the rename), the documentation synchronisation and the ACL file, not for the
  other writers; directories are outside the model of files, so a failing \<open>mkdir\<close> is a write that fails before the file is
  touched.
\<close>

end
